(* ===== verification/Js_Prelude.thy ===== *)
theory Js_Prelude
  imports Main "HOL-Library.AList"
begin

text \<open>
  Shared vocabulary of the development: exceptions as values, the sequencing of
  operations that may throw, insertion-ordered JavaScript maps, and the collections of
  simplification rules that the component theories extend.

  An operation of the source that may throw returns a value of \<open>'a res\<close>:
  \<open>Inl e\<close> is the exception, \<open>Inr x\<close> the value. \<open>rbind\<close> is the sequencing of two
  statements, \<open>rmapM\<close> is \<open>Array.map\<close> with a callback that may throw, \<open>rfoldM\<close> is a
  \<open>for .. of\<close> loop that updates a state and may throw, \<open>guard_throw\<close> is
  \<open>if (c) throw ..\<close>.
\<close>

named_theorems res_simps \<open>evaluation of the exception monad\<close>
named_theorems num_eval \<open>evaluation of closed numeric terms\<close>
named_theorems str_eval \<open>evaluation of closed string terms\<close>

section \<open>Exceptions as values\<close>

text \<open>
  The classes of exceptions the modelled code throws: \<open>Error\<close>, the errors of the
  language (\<open>TypeError\<close>, \<open>RangeError\<close>, \<open>SyntaxError\<close>), \<open>AssertionError\<close> of
  node's \<open>assert\<close>, and \<open>CliCommandError\<close> of the CLI library.
\<close>

datatype err_kind =
  EError | ETypeError | ERangeError | ESyntaxError | EAssertion | ECliCommand

datatype js_error = Js_Error (err_kind_of: err_kind) (err_message: string)

type_synonym 'a res = "js_error + 'a"

definition throw :: "err_kind \<Rightarrow> string \<Rightarrow> 'a res" where
  "throw k msg = Inl (Js_Error k msg)"

definition rbind :: "'a res \<Rightarrow> ('a \<Rightarrow> 'b res) \<Rightarrow> 'b res" where
  "rbind m f = (case m of Inl e \<Rightarrow> Inl e | Inr x \<Rightarrow> f x)"

definition guard_throw :: "bool \<Rightarrow> err_kind \<Rightarrow> string \<Rightarrow> unit res" where
  "guard_throw c k msg = (if c then throw k msg else Inr ())"

definition is_ok :: "'a res \<Rightarrow> bool" where
  "is_ok m = (case m of Inl _ \<Rightarrow> False | Inr _ \<Rightarrow> True)"

lemma rbind_Inl [simp, res_simps]: "rbind (Inl e) f = Inl e"
  by (simp add: rbind_def)

lemma rbind_Inr [simp, res_simps]: "rbind (Inr x) f = f x"
  by (simp add: rbind_def)

lemma rbind_Inr_right [simp]: "rbind m Inr = m"
  by (cases m) simp_all

lemma throw_not_Inr [simp, res_simps]: "throw k m \<noteq> Inr x" "Inr x \<noteq> throw k m"
  by (simp_all add: throw_def)

lemma rbind_throw [simp, res_simps]: "rbind (throw k m) f = throw k m"
  by (simp add: throw_def)

lemma rbind_eq_Inr: "rbind m f = Inr y \<longleftrightarrow> (\<exists>x. m = Inr x \<and> f x = Inr y)"
  by (cases m) auto

lemma rbind_eq_Inl: "rbind m f = Inl e \<longleftrightarrow> m = Inl e \<or> (\<exists>x. m = Inr x \<and> f x = Inl e)"
  by (cases m) auto

lemma rbind_assoc: "rbind (rbind m f) g = rbind m (\<lambda>x. rbind (f x) g)"
  by (cases m) auto

lemma rbind_InrE:
  assumes "rbind m f = Inr y"
  obtains x where "m = Inr x" "f x = Inr y"
  using assms by (auto simp: rbind_eq_Inr)

lemma rbind_cong [fundef_cong]:
  assumes "m = m'" and "\<And>x. m' = Inr x \<Longrightarrow> f x = f' x"
  shows "rbind m f = rbind m' f'"
  using assms by (cases m') auto

lemma guard_throw_simps [simp, res_simps]:
  "guard_throw True k m = throw k m" "guard_throw False k m = Inr ()"
  by (simp_all add: guard_throw_def)

lemma guard_throw_Inr [simp]: "guard_throw c k m = Inr u \<longleftrightarrow> \<not> c"
  by (simp add: guard_throw_def)

lemma is_ok_simps [simp, res_simps]:
  "is_ok (Inl e) = False" "is_ok (Inr x) = True" "is_ok (throw k m) = False"
  by (simp_all add: is_ok_def throw_def)

lemma is_ok_iff: "is_ok m \<longleftrightarrow> (\<exists>x. m = Inr x)"
  by (cases m) auto

section \<open>Loops that may throw\<close>

fun rmapM :: "('a \<Rightarrow> 'b res) \<Rightarrow> 'a list \<Rightarrow> 'b list res" where
  "rmapM f [] = Inr []"
| "rmapM f (x # xs) = rbind (f x) (\<lambda>y. rbind (rmapM f xs) (\<lambda>ys. Inr (y # ys)))"

fun rfoldM :: "('s \<Rightarrow> 'a \<Rightarrow> 's res) \<Rightarrow> 's \<Rightarrow> 'a list \<Rightarrow> 's res" where
  "rfoldM f s [] = Inr s"
| "rfoldM f s (x # xs) = rbind (f s x) (\<lambda>s'. rfoldM f s' xs)"

text \<open>The results of every iteration, concatenated: the loop that pushes to an array.\<close>

definition rconcatM :: "('a \<Rightarrow> 'b list res) \<Rightarrow> 'a list \<Rightarrow> 'b list res" where
  "rconcatM f xs = rbind (rmapM f xs) (\<lambda>yss. Inr (concat yss))"

lemma rmapM_Inr_iff: "rmapM f xs = Inr ys \<longleftrightarrow> list_all2 (\<lambda>x y. f x = Inr y) xs ys"
proof (induction xs arbitrary: ys)
  case Nil
  then show ?case by auto
next
  case (Cons x xs)
  then show ?case by (cases ys) (auto simp: rbind_eq_Inr)
qed

lemma rmapM_cong [fundef_cong]:
  assumes "xs = ys" and "\<And>x. x \<in> set ys \<Longrightarrow> f x = g x"
  shows "rmapM f xs = rmapM g ys"
  unfolding assms(1) using assms(2) by (induction ys) simp_all

lemma rmapM_total: "(\<And>x. x \<in> set xs \<Longrightarrow> f x = Inr (g x)) \<Longrightarrow> rmapM f xs = Inr (map g xs)"
  by (induction xs) auto

lemma rmapM_append: "rmapM f (xs @ ys) =
    rbind (rmapM f xs) (\<lambda>as. rbind (rmapM f ys) (\<lambda>bs. Inr (as @ bs)))"
  by (induction xs) (auto simp: rbind_assoc intro!: rbind_cong)

lemma rmapM_map: "rmapM f (map g xs) = rmapM (\<lambda>x. f (g x)) xs"
  by (induction xs) simp_all

lemma rmapM_length: "rmapM f xs = Inr ys \<Longrightarrow> length ys = length xs"
  by (simp add: rmapM_Inr_iff list_all2_lengthD)

lemma rmapM_set: "rmapM f xs = Inr ys \<Longrightarrow> set ys = {y. \<exists>x\<in>set xs. f x = Inr y}"
proof (induction xs arbitrary: ys)
  case Nil
  then show ?case by auto
next
  case (Cons x xs)
  from Cons.prems obtain y ys' where *: "f x = Inr y" "rmapM f xs = Inr ys'" "ys = y # ys'"
    by (auto simp: rbind_eq_Inr)
  from Cons.IH [OF *(2)] *(1,3) show ?case by auto
qed

lemma rmapM_Inl_iff: "(\<exists>e. rmapM f xs = Inl e) \<longleftrightarrow> (\<exists>x\<in>set xs. \<exists>e. f x = Inl e)"
proof (induction xs)
  case Nil
  then show ?case by simp
next
  case (Cons x xs)
  then show ?case by (cases "f x"; cases "rmapM f xs") auto
qed

lemma rconcatM_Nil [simp]: "rconcatM f [] = Inr []"
  by (simp add: rconcatM_def)

lemma rconcatM_Cons [simp]:
  "rconcatM f (x # xs) = rbind (f x) (\<lambda>y. rbind (rconcatM f xs) (\<lambda>ys. Inr (y @ ys)))"
  by (simp add: rconcatM_def rbind_assoc)

lemma rconcatM_set:
  assumes "rconcatM f xs = Inr zs"
  shows "z \<in> set zs \<longleftrightarrow> (\<exists>x\<in>set xs. \<exists>ys. f x = Inr ys \<and> z \<in> set ys)"
  using assms rmapM_set [of f xs] by (fastforce simp: rconcatM_def rbind_eq_Inr)

lemma rconcatM_all_Nil:
  "(\<And>x. x \<in> set xs \<Longrightarrow> f x = Inr []) \<Longrightarrow> rconcatM f xs = Inr []"
  by (induction xs) auto

lemma rfoldM_append: "rfoldM f s (xs @ ys) = rbind (rfoldM f s xs) (\<lambda>t. rfoldM f t ys)"
  by (induction xs arbitrary: s) (auto simp: rbind_assoc)

lemma rfoldM_invariant:
  assumes "rfoldM f s xs = Inr t" and "P s"
    and "\<And>s x s'. x \<in> set xs \<Longrightarrow> P s \<Longrightarrow> f s x = Inr s' \<Longrightarrow> P s'"
  shows "P t"
  using assms
proof (induction xs arbitrary: s)
  case Nil
  then show ?case by simp
next
  case (Cons x xs)
  from Cons.prems(1) obtain s' where s': "f s x = Inr s'" "rfoldM f s' xs = Inr t"
    by (auto simp: rbind_eq_Inr)
  show ?case
  proof (rule Cons.IH [OF s'(2)])
    show "P s'" using Cons.prems(2) s'(1) by (rule Cons.prems(3) [rotated]) simp
    show "\<And>s x s'. x \<in> set xs \<Longrightarrow> P s \<Longrightarrow> f s x = Inr s' \<Longrightarrow> P s'"
      using Cons.prems(3) by (meson list.set_intros(2))
  qed
qed

section \<open>Insertion-ordered maps\<close>

text \<open>
  A JavaScript \<open>Map\<close> iterates in insertion order, and \<open>set\<close> on a key it already holds
  keeps the key's place: an association list with \<open>AList.update\<close>.
\<close>

type_synonym ('k, 'v) jsmap = "('k \<times> 'v) list"

abbreviation jsmap_get :: "('k, 'v) jsmap \<Rightarrow> 'k \<Rightarrow> 'v option" where
  "jsmap_get \<equiv> map_of"

abbreviation jsmap_set :: "'k \<Rightarrow> 'v \<Rightarrow> ('k, 'v) jsmap \<Rightarrow> ('k, 'v) jsmap" where
  "jsmap_set \<equiv> AList.update"

abbreviation jsmap_has :: "('k, 'v) jsmap \<Rightarrow> 'k \<Rightarrow> bool" where
  "jsmap_has m k \<equiv> map_of m k \<noteq> None"

lemma jsmap_get_set [simp]: "jsmap_get (jsmap_set k v m) = (jsmap_get m)(k \<mapsto> v)"
  by (rule ext) (simp add: update_conv)

lemma jsmap_set_distinct: "distinct (map fst m) \<Longrightarrow> distinct (map fst (jsmap_set k v m))"
  by (rule distinct_update)

text \<open>\<open>x ?? y\<close>: null and undefined are both \<open>None\<close>.\<close>

definition orElse :: "'a option \<Rightarrow> 'a \<Rightarrow> 'a" where
  "orElse x d = (case x of None \<Rightarrow> d | Some v \<Rightarrow> v)"

definition orOpt :: "'a option \<Rightarrow> 'a option \<Rightarrow> 'a option" where
  "orOpt x y = (case x of None \<Rightarrow> y | Some v \<Rightarrow> Some v)"

lemma orElse_simps [simp]: "orElse None d = d" "orElse (Some v) d = v"
  by (simp_all add: orElse_def)

lemma orOpt_simps [simp]: "orOpt None y = y" "orOpt (Some v) y = Some v"
  by (simp_all add: orOpt_def)

end
