(* ===== verification/Js_Strings.thy ===== *)
theory Js_Strings
  imports Js_Prelude
begin

text \<open>
  The string operations of the language that the components use. A string is its UTF-8
  bytes as a \<^typ>\<open>char list\<close>; the operations below (split, join, prefix tests,
  decimal digits) only look at ASCII bytes, so they agree with the code's UTF-16 view.
  The main facts are the round trips of the decimal notation: \<open>digits_val_nat_str\<close>
  (printing and reading a natural number) and \<open>bigint_of_str_int_str\<close>
  (\<open>BigInt(n.toString())\<close> is \<open>n\<close>).
\<close>

section \<open>Decimal digits\<close>

definition digit_char :: "nat \<Rightarrow> char" where
  "digit_char d = ''0123456789'' ! d"

definition is_digit :: "char \<Rightarrow> bool" where
  "is_digit c \<longleftrightarrow> c \<in> set ''0123456789''"

definition digit_val :: "char \<Rightarrow> nat" where
  "digit_val c = (of_char c :: nat) - 48"

lemma less_10_cases: "d < (10::nat) \<Longrightarrow> d = 0 \<or> d = 1 \<or> d = 2 \<or> d = 3 \<or> d = 4 \<or> d = 5
    \<or> d = 6 \<or> d = 7 \<or> d = 8 \<or> d = 9"
  by arith

lemma digit_val_char [simp]: "d < 10 \<Longrightarrow> digit_val (digit_char d) = d"
  by (drule less_10_cases) (auto simp: digit_val_def digit_char_def)

lemma is_digit_char [simp]: "d < 10 \<Longrightarrow> is_digit (digit_char d)"
  by (drule less_10_cases) (auto simp: is_digit_def digit_char_def)

lemma is_digit_not [simp]: "\<not> is_digit (CHR ''-'')" "\<not> is_digit (CHR ''+'')"
  "\<not> is_digit (CHR ''.'')" "\<not> is_digit (CHR ''e'')" "\<not> is_digit (CHR ''E'')"
  "\<not> is_digit (CHR '' '')" "\<not> is_digit (CHR ''x'')" "\<not> is_digit (CHR ''I'')"
  by (simp_all add: is_digit_def)

lemma is_digit_zero: "is_digit (CHR ''0'')"
  by (simp add: is_digit_def)

lemma list_all_replicate: "list_all P (replicate k x) \<longleftrightarrow> k = 0 \<or> P x"
  by (induction k) auto

lemma digit_val_less: "is_digit c \<Longrightarrow> digit_val c < 10"
  by (auto simp: is_digit_def digit_val_def)

fun nat_str :: "nat \<Rightarrow> string" where
  "nat_str n = (if n < 10 then [digit_char n] else nat_str (n div 10) @ [digit_char (n mod 10)])"

declare nat_str.simps [simp del]

definition int_str :: "int \<Rightarrow> string" where
  "int_str i = (if i < 0 then CHR ''-'' # nat_str (nat (- i)) else nat_str (nat i))"

definition digits_val :: "string \<Rightarrow> nat" where
  "digits_val s = foldl (\<lambda>a c. 10 * a + digit_val c) 0 s"

lemma nat_str_digits [simp]: "list_all is_digit (nat_str n)"
proof (induction n rule: nat_str.induct)
  case (1 n)
  then show ?case by (subst nat_str.simps) simp
qed

lemma nat_str_not_Nil [simp]: "nat_str n \<noteq> []"
  by (subst nat_str.simps) simp

lemma foldl_digits: "foldl (\<lambda>a c. 10 * a + digit_val c) k s
    = k * 10 ^ length s + foldl (\<lambda>a c. 10 * a + digit_val c) 0 s"
proof (induction s arbitrary: k)
  case Nil
  then show ?case by simp
next
  case (Cons c s)
  show ?case
    using Cons [of "10 * k + digit_val c"] Cons [of "digit_val c"] by (simp add: algebra_simps)
qed

lemma digits_val_Nil [simp]: "digits_val [] = 0"
  by (simp add: digits_val_def)

lemma digits_val_Cons: "digits_val (c # s) = digit_val c * 10 ^ length s + digits_val s"
  using foldl_digits [of "digit_val c" s] by (simp add: digits_val_def)

lemma digits_val_append: "digits_val (s @ t) = digits_val s * 10 ^ length t + digits_val t"
  by (induction s) (simp_all add: digits_val_Cons algebra_simps power_add)

lemma digits_val_nat_str [simp]: "digits_val (nat_str n) = n"
proof (induction n rule: nat_str.induct)
  case (1 n)
  then show ?case
    by (subst nat_str.simps) (auto simp: digits_val_append digits_val_Cons)
qed

lemma digits_val_bound: "list_all is_digit s \<Longrightarrow> digits_val s < 10 ^ length s"
proof (induction s)
  case Nil
  then show ?case by simp
next
  case (Cons c s)
  then have d: "digit_val c \<le> 9" and s: "digits_val s < 10 ^ length s"
    using digit_val_less [of c] by auto
  have "digit_val c * 10 ^ length s \<le> 9 * 10 ^ length s"
    using d by (rule mult_right_mono) simp
  with s have "digit_val c * 10 ^ length s + digits_val s < 10 * 10 ^ length s"
    by linarith
  then show ?case by (simp add: digits_val_Cons)
qed

lemma digits_val_zeros [simp]: "digits_val (replicate k (CHR ''0'') @ s) = digits_val s"
  by (induction k) (simp_all add: digits_val_Cons digit_val_def)

lemma length_nat_str_le: "n < 10 ^ d \<Longrightarrow> 0 < d \<Longrightarrow> length (nat_str n) \<le> d"
proof (induction n arbitrary: d rule: nat_str.induct)
  case (1 n)
  show ?case
  proof (cases "n < 10")
    case True
    with "1.prems"(2) show ?thesis by (subst nat_str.simps) simp
  next
    case False
    from False "1.prems" have d: "1 < d" by (cases d; cases "d - 1") auto
    then obtain d' where d': "d = Suc d'" and "0 < d'" by (cases d) auto
    from "1.prems"(1) d' have "n div 10 < 10 ^ d'"
      by (simp add: less_mult_imp_div_less mult.commute)
    from "1.IH" [OF False this \<open>0 < d'\<close>] False d' show ?thesis
      by (subst nat_str.simps) simp
  qed
qed

definition pad_start :: "nat \<Rightarrow> char \<Rightarrow> string \<Rightarrow> string" where
  "pad_start k c s = replicate (k - length s) c @ s"

lemma digits_val_pad [simp]: "digits_val (pad_start k (CHR ''0'') s) = digits_val s"
  by (simp add: pad_start_def)

lemma digits_pad [simp]: "list_all is_digit (pad_start k (CHR ''0'') s) = list_all is_digit s"
  by (simp add: pad_start_def list_all_append list_all_replicate is_digit_zero)

lemma length_pad_start [simp]: "length (pad_start k c s) = max k (length s)"
  by (simp add: pad_start_def max_def)

section \<open>Splitting, joining, searching\<close>

fun split_on :: "char \<Rightarrow> string \<Rightarrow> string list" where
  "split_on c [] = [[]]"
| "split_on c (x # xs) =
     (if x = c then [] # split_on c xs
      else (case split_on c xs of [] \<Rightarrow> [[x]] | w # ws \<Rightarrow> (x # w) # ws))"

fun js_join :: "string \<Rightarrow> string list \<Rightarrow> string" where
  "js_join sep [] = []"
| "js_join sep [w] = w"
| "js_join sep (w # v # ws) = w @ sep @ js_join sep (v # ws)"

definition starts_with :: "string \<Rightarrow> string \<Rightarrow> bool" where
  "starts_with p s \<longleftrightarrow> take (length p) s = p"

fun includes_str :: "string \<Rightarrow> string \<Rightarrow> bool" where
  "includes_str p [] = (p = [])"
| "includes_str p (x # xs) = (starts_with p (x # xs) \<or> includes_str p xs)"

lemma split_on_not_Nil [simp]: "split_on c s \<noteq> []"
  by (cases s) (auto split: list.splits)

lemma split_on_none: "c \<notin> set s \<Longrightarrow> split_on c s = [s]"
  by (induction s) auto

lemma split_on_first: "c \<notin> set s \<Longrightarrow> split_on c (s @ c # t) = s # split_on c t"
  by (induction s) auto

lemma split_on_parts: "w \<in> set (split_on c s) \<Longrightarrow> c \<notin> set w"
  by (induction s arbitrary: w) (auto split: if_splits list.splits)

lemma js_join_split: "js_join [c] (split_on c s) = s"
proof (induction s)
  case Nil
  then show ?case by simp
next
  case (Cons x s)
  obtain w ws where "split_on c s = w # ws"
    using split_on_not_Nil by (meson neq_Nil_conv)
  with Cons show ?case by (cases ws) auto
qed

lemma split_join: "ws \<noteq> [] \<Longrightarrow> \<forall>w\<in>set ws. c \<notin> set w \<Longrightarrow> split_on c (js_join [c] ws) = ws"
proof (induction ws rule: list_nonempty_induct)
  case (single w)
  then show ?case by (simp add: split_on_none)
next
  case (cons w ws)
  then obtain v vs where "ws = v # vs" by (cases ws) auto
  with cons show ?case by (simp add: split_on_first)
qed

lemma includes_str_char: "includes_str [c] s \<longleftrightarrow> c \<in> set s"
  by (induction s) (auto simp: starts_with_def)

lemma digits_no_char: "list_all is_digit s \<Longrightarrow> \<not> is_digit c \<Longrightarrow> c \<notin> set s"
  by (auto simp: list_all_iff)

section \<open>Reading integers: \<open>BigInt(string)\<close>\<close>

definition is_ws :: "char \<Rightarrow> bool" where
  "is_ws c \<longleftrightarrow> c \<in> {CHR '' '', CHR 0x09, CHR 0x0A, CHR 0x0B, CHR 0x0C, CHR 0x0D}"

definition trim_str :: "string \<Rightarrow> string" where
  "trim_str s = rev (dropWhile is_ws (rev (dropWhile is_ws s)))"

definition hex_val :: "char \<Rightarrow> nat option" where
  "hex_val c =
     (let n = (of_char c :: nat) in
      if 48 \<le> n \<and> n \<le> 57 then Some (n - 48)
      else if 97 \<le> n \<and> n \<le> 102 then Some (n - 87)
      else if 65 \<le> n \<and> n \<le> 70 then Some (n - 55) else None)"

fun radix_acc :: "nat \<Rightarrow> nat \<Rightarrow> string \<Rightarrow> nat option" where
  "radix_acc b a [] = Some a"
| "radix_acc b a (c # s) =
     (case hex_val c of None \<Rightarrow> None
      | Some d \<Rightarrow> if d < b then radix_acc b (b * a + d) s else None)"

text \<open>The literals with a radix prefix that \<open>BigInt\<close> and \<open>Number\<close> accept in a string.\<close>

definition prefixed_val :: "string \<Rightarrow> nat option" where
  "prefixed_val s =
     (case s of
        z # x # y # t \<Rightarrow>
          if z = CHR ''0'' \<and> (x = CHR ''x'' \<or> x = CHR ''X'') then radix_acc 16 0 (y # t)
          else if z = CHR ''0'' \<and> (x = CHR ''o'' \<or> x = CHR ''O'') then radix_acc 8 0 (y # t)
          else if z = CHR ''0'' \<and> (x = CHR ''b'' \<or> x = CHR ''B'') then radix_acc 2 0 (y # t)
          else None
      | _ \<Rightarrow> None)"

definition dec_int :: "string \<Rightarrow> int option" where
  "dec_int s =
     (case s of
        [] \<Rightarrow> None
      | c # t \<Rightarrow>
          if c = CHR ''-'' then (if t \<noteq> [] \<and> list_all is_digit t then Some (- int (digits_val t)) else None)
          else if c = CHR ''+'' then (if t \<noteq> [] \<and> list_all is_digit t then Some (int (digits_val t)) else None)
          else if list_all is_digit s then Some (int (digits_val s)) else None)"

definition bigint_of_str :: "string \<Rightarrow> int res" where
  "bigint_of_str s =
     (let t = trim_str s in
      if t = [] then Inr 0
      else case dec_int t of
             Some i \<Rightarrow> Inr i
           | None \<Rightarrow> (case prefixed_val t of
                        Some n \<Rightarrow> Inr (int n)
                      | None \<Rightarrow> throw ESyntaxError (''Cannot convert '' @ s @ '' to a BigInt'')))"

lemma digit_not_ws: "is_digit c \<Longrightarrow> \<not> is_ws c"
  by (auto simp: is_digit_def is_ws_def)

lemma trim_str_id: "s \<noteq> [] \<Longrightarrow> \<not> is_ws (hd s) \<Longrightarrow> \<not> is_ws (last s) \<Longrightarrow> trim_str s = s"
proof -
  assume s: "s \<noteq> []" "\<not> is_ws (hd s)" "\<not> is_ws (last s)"
  then have "dropWhile is_ws s = s" and "dropWhile is_ws (rev s) = rev s"
    by (simp_all add: dropWhile_eq_self_iff hd_rev)
  then show ?thesis by (simp add: trim_str_def)
qed

lemma trim_digits: "s \<noteq> [] \<Longrightarrow> list_all is_digit s \<Longrightarrow> trim_str s = s"
  by (rule trim_str_id) (auto simp: list_all_iff digit_not_ws)

lemma dec_int_digits:
  assumes "s \<noteq> []" and "list_all is_digit s"
  shows "dec_int s = Some (int (digits_val s))"
proof -
  from assms(1) obtain c t where s: "s = c # t" by (cases s) auto
  with assms(2) have "is_digit c" by simp
  then have "c \<noteq> CHR ''-''" "c \<noteq> CHR ''+''" by (auto simp: is_digit_def)
  with assms(2) s show ?thesis by (simp add: dec_int_def)
qed

lemma bigint_of_str_digits:
  "s \<noteq> [] \<Longrightarrow> list_all is_digit s \<Longrightarrow> bigint_of_str s = Inr (int (digits_val s))"
  by (simp add: bigint_of_str_def trim_digits dec_int_digits)

lemma bigint_of_str_minus:
  assumes "s \<noteq> []" and "list_all is_digit s"
  shows "bigint_of_str (CHR ''-'' # s) = Inr (- int (digits_val s))"
proof -
  have "is_digit (last s)" using assms by (simp add: list_all_iff)
  then have "\<not> is_ws (last s)" by (rule digit_not_ws)
  with assms have "trim_str (CHR ''-'' # s) = CHR ''-'' # s"
    by (intro trim_str_id) (simp_all add: is_ws_def)
  with assms show ?thesis by (simp add: bigint_of_str_def dec_int_def)
qed

lemma bigint_of_str_int_str [simp]: "bigint_of_str (int_str i) = Inr i"
  by (simp add: int_str_def bigint_of_str_digits bigint_of_str_minus)

lemma int_str_inject [simp]: "int_str i = int_str j \<longleftrightarrow> i = j"
  by (metis bigint_of_str_int_str sum.inject(2))

section \<open>Integer division of bigints: it truncates towards zero\<close>

definition bigint_div :: "int \<Rightarrow> int \<Rightarrow> int" where
  "bigint_div a b = (if b = 0 then 0 else sgn a * sgn b * (\<bar>a\<bar> div \<bar>b\<bar>))"

definition bigint_mod :: "int \<Rightarrow> int \<Rightarrow> int" where
  "bigint_mod a b = a - b * bigint_div a b"

lemma bigint_div_nonneg: "0 \<le> a \<Longrightarrow> 0 < b \<Longrightarrow> bigint_div a b = a div b"
  by (cases "a = 0") (simp_all add: bigint_div_def)

lemma bigint_mod_nonneg: "0 \<le> a \<Longrightarrow> 0 < b \<Longrightarrow> bigint_mod a b = a mod b"
  by (simp add: bigint_mod_def bigint_div_nonneg minus_mult_div_eq_mod)

end
