(* ===== verification/Js_Number.thy ===== *)
theory Js_Number
  imports Complex_Main Js_Strings
begin

text \<open>
  JavaScript numbers: IEEE-754 doubles with round-to-nearest-even, as exact rationals plus
  the two infinities and NaN. Every operation computes the exact rational result and
  rounds it once with \<open>dbl\<close>, so the model has the code's rounding errors, not real
  arithmetic. The two zeros are one value: no operation used by the modelled code tells
  them apart (comparisons, \<open>toFixed\<close>, \<open>toString\<close> and \<open>BigInt\<close> treat them alike,
  and the code divides by non-zero constants or tests for zero first).

  \<open>to_fixed\<close>, \<open>num_str\<close> and \<open>num_of_str\<close> are \<open>Number.prototype.toFixed\<close>,
  \<open>Number.prototype.toString\<close> (shortest digits that round back) and \<open>Number(string)\<close>.

  The facts used by the components: \<open>dbl_error\<close> (half a unit in the last place),
  \<open>dbl_of_int\<close> (integers up to \<open>2 ^ 53\<close> are exact) and \<open>dbl_nonneg\<close>.
\<close>

datatype number = NaN | PInf | NInf | Fin rat

section \<open>Rounding to the nearest double\<close>

definition pow2 :: "int \<Rightarrow> rat" where
  "pow2 e = (if 0 \<le> e then 2 ^ nat e else 1 / 2 ^ nat (- e))"

fun ilog2 :: "int \<Rightarrow> int" where
  "ilog2 n = (if n \<le> 1 then 0 else 1 + ilog2 (n div 2))"

declare ilog2.simps [simp del]

text \<open>The binary exponent of \<open>x > 0\<close>, not below \<open>- k\<close>.\<close>

fun dexp :: "nat \<Rightarrow> rat \<Rightarrow> int" where
  "dexp k x = (if 1 \<le> x then ilog2 \<lfloor>x\<rfloor> else if k = 0 then 0 else dexp (k - 1) (2 * x) - 1)"

declare dexp.simps [simp del]

text \<open>Round half to even.\<close>

definition rhe :: "rat \<Rightarrow> int" where
  "rhe y = (let f = \<lfloor>y\<rfloor>; d = y - of_int f in
     if d < 1 / 2 then f else if 1 / 2 < d then f + 1 else if even f then f else f + 1)"

definition ulp_at :: "rat \<Rightarrow> rat" where
  "ulp_at x = pow2 (dexp 1022 x - 52)"

definition dbl_pos :: "rat \<Rightarrow> number" where
  "dbl_pos x = (let y = of_int (rhe (x / ulp_at x)) * ulp_at x in
     if 2 ^ 1024 \<le> y then PInf else Fin y)"

fun n_neg :: "number \<Rightarrow> number" where
  "n_neg NaN = NaN"
| "n_neg PInf = NInf"
| "n_neg NInf = PInf"
| "n_neg (Fin x) = Fin (- x)"

definition dbl :: "rat \<Rightarrow> number" where
  "dbl x = (if x = 0 then Fin 0 else if 0 < x then dbl_pos x else n_neg (dbl_pos (- x)))"

section \<open>Operations\<close>

fun n_add :: "number \<Rightarrow> number \<Rightarrow> number" where
  "n_add (Fin x) (Fin y) = dbl (x + y)"
| "n_add NaN _ = NaN"
| "n_add _ NaN = NaN"
| "n_add PInf NInf = NaN"
| "n_add NInf PInf = NaN"
| "n_add PInf _ = PInf"
| "n_add _ PInf = PInf"
| "n_add NInf _ = NInf"
| "n_add _ NInf = NInf"

definition n_sub :: "number \<Rightarrow> number \<Rightarrow> number" where
  "n_sub a b = n_add a (n_neg b)"

definition n_sgn :: "number \<Rightarrow> int" where
  "n_sgn a = (case a of NaN \<Rightarrow> 0 | PInf \<Rightarrow> 1 | NInf \<Rightarrow> - 1
     | Fin x \<Rightarrow> if 0 < x then 1 else if x < 0 then - 1 else 0)"

definition n_inf :: "int \<Rightarrow> number" where
  "n_inf s = (if 0 < s then PInf else if s < 0 then NInf else NaN)"

definition n_mul :: "number \<Rightarrow> number \<Rightarrow> number" where
  "n_mul a b = (case (a, b) of
       (Fin x, Fin y) \<Rightarrow> dbl (x * y)
     | _ \<Rightarrow> if a = NaN \<or> b = NaN then NaN else n_inf (n_sgn a * n_sgn b))"

definition n_div :: "number \<Rightarrow> number \<Rightarrow> number" where
  "n_div a b = (case (a, b) of
       (Fin x, Fin y) \<Rightarrow> if y = 0 then n_inf (n_sgn a) else dbl (x / y)
     | _ \<Rightarrow> if a = NaN \<or> b = NaN then NaN
            else (case b of Fin y \<Rightarrow> n_inf (n_sgn a * (if y < 0 then - 1 else 1))
                  | _ \<Rightarrow> (case a of Fin x \<Rightarrow> Fin 0 | _ \<Rightarrow> NaN)))"

fun n_lt :: "number \<Rightarrow> number \<Rightarrow> bool" where
  "n_lt (Fin x) (Fin y) = (x < y)"
| "n_lt NaN _ = False"
| "n_lt _ NaN = False"
| "n_lt PInf _ = False"
| "n_lt _ PInf = True"
| "n_lt _ NInf = False"
| "n_lt NInf _ = True"

definition n_eq :: "number \<Rightarrow> number \<Rightarrow> bool" where
  "n_eq a b \<longleftrightarrow> a \<noteq> NaN \<and> a = b"

definition n_le :: "number \<Rightarrow> number \<Rightarrow> bool" where
  "n_le a b \<longleftrightarrow> n_lt a b \<or> n_eq a b"

definition n_max :: "number \<Rightarrow> number \<Rightarrow> number" where
  "n_max a b = (if a = NaN \<or> b = NaN then NaN else if n_lt a b then b else a)"

definition is_finite :: "number \<Rightarrow> bool" where
  "is_finite a = (case a of Fin _ \<Rightarrow> True | _ \<Rightarrow> False)"

text \<open>\<open>Math.round\<close> (ties upwards), \<open>Math.floor\<close>, \<open>Math.trunc\<close>: an integral result of a
  double is a double.\<close>

definition n_round :: "number \<Rightarrow> number" where
  "n_round a = (case a of Fin x \<Rightarrow> Fin (of_int \<lfloor>x + 1 / 2\<rfloor>) | _ \<Rightarrow> a)"

definition n_floor :: "number \<Rightarrow> number" where
  "n_floor a = (case a of Fin x \<Rightarrow> Fin (of_int \<lfloor>x\<rfloor>) | _ \<Rightarrow> a)"

definition n_trunc :: "number \<Rightarrow> number" where
  "n_trunc a = (case a of Fin x \<Rightarrow> Fin (of_int (if 0 \<le> x then \<lfloor>x\<rfloor> else \<lceil>x\<rceil>)) | _ \<Rightarrow> a)"

text \<open>\<open>Number(bigint)\<close> and \<open>BigInt(number)\<close>.\<close>

definition num_of_bigint :: "int \<Rightarrow> number" where
  "num_of_bigint i = dbl (of_int i)"

definition is_integral :: "rat \<Rightarrow> bool" where
  "is_integral x \<longleftrightarrow> of_int \<lfloor>x\<rfloor> = x"

section \<open>Decimal notation\<close>

definition pow10 :: "int \<Rightarrow> rat" where
  "pow10 e = (if 0 \<le> e then 10 ^ nat e else 1 / 10 ^ nat (- e))"

fun dexp10 :: "nat \<Rightarrow> rat \<Rightarrow> int" where
  "dexp10 k x = (if 1 \<le> x then int (length (nat_str (nat \<lfloor>x\<rfloor>)))
     else if k = 0 then 0 else dexp10 (k - 1) (10 * x) - 1)"

declare dexp10.simps [simp del]

text \<open>
  The digits of \<open>toString\<close>: the least number \<open>k\<close> of digits for which a decimal with
  \<open>k\<close> digits rounds to the double, and of those decimals the closest one. At most 17
  digits are needed.
\<close>

fun shortest_digits :: "nat \<Rightarrow> nat \<Rightarrow> int \<Rightarrow> rat \<Rightarrow> int \<times> int \<times> nat" where
  "shortest_digits fuel k n x =
     (let sc = pow10 (n - int k);
          lo = \<lfloor>x / sc\<rfloor>; hi = lo + 1;
          ok_lo = (dbl (of_int lo * sc) = Fin x);
          ok_hi = (dbl (of_int hi * sc) = Fin x);
          pick_hi = (ok_hi \<and> (\<not> ok_lo \<or> of_int hi * sc - x < x - of_int lo * sc))
      in if fuel = 0 then (lo, n, k)
         else if pick_hi then (if hi = 10 ^ k then (10 ^ (k - 1), n + 1, k) else (hi, n, k))
         else if ok_lo then (lo, n, k)
         else shortest_digits (fuel - 1) (Suc k) n x)"

declare shortest_digits.simps [simp del]

definition layout_digits :: "int \<times> int \<times> nat \<Rightarrow> string" where
  "layout_digits r = (case r of (s, n, k) \<Rightarrow>
     let ds = nat_str (nat s) in
     if int k \<le> n \<and> n \<le> 21 then ds @ replicate (nat n - k) (CHR ''0'')
     else if 0 < n \<and> n \<le> 21 then take (nat n) ds @ ''.'' @ drop (nat n) ds
     else if - 6 < n \<and> n \<le> 0 then ''0.'' @ replicate (nat (- n)) (CHR ''0'') @ ds
     else (let e = n - 1; es = (if 0 \<le> e then ''+'' else ''-'') @ nat_str (nat \<bar>e\<bar>) in
           if k = 1 then ds @ ''e'' @ es
           else take 1 ds @ ''.'' @ drop 1 ds @ ''e'' @ es))"

definition num_str :: "number \<Rightarrow> string" where
  "num_str a = (case a of NaN \<Rightarrow> ''NaN'' | PInf \<Rightarrow> ''Infinity'' | NInf \<Rightarrow> ''-Infinity''
     | Fin x \<Rightarrow> if x = 0 then ''0''
         else (if x < 0 then ''-'' else '''')
              @ layout_digits (shortest_digits 17 1 (dexp10 324 \<bar>x\<bar>) \<bar>x\<bar>))"

definition fixed_layout :: "nat \<Rightarrow> nat \<Rightarrow> string" where
  "fixed_layout d n =
     (if d = 0 then nat_str n
      else let p = pad_start (Suc d) (CHR ''0'') (nat_str n)
           in take (length p - d) p @ ''.'' @ drop (length p - d) p)"

definition fixed_int :: "nat \<Rightarrow> rat \<Rightarrow> nat" where
  "fixed_int d x = nat \<lfloor>\<bar>x\<bar> * 10 ^ d + 1 / 2\<rfloor>"

definition to_fixed :: "nat \<Rightarrow> number \<Rightarrow> string" where
  "to_fixed d a = (case a of
       Fin x \<Rightarrow> if 10 ^ 21 \<le> \<bar>x\<bar> then num_str a
                else (if x < 0 then ''-'' else '''') @ fixed_layout d (fixed_int d x)
     | _ \<Rightarrow> num_str a)"

text \<open>\<open>Number(string)\<close>.\<close>

definition parse_exponent :: "string \<Rightarrow> int option" where
  "parse_exponent s = (case s of [] \<Rightarrow> Some 0
     | e # t \<Rightarrow> if e = CHR ''e'' \<or> e = CHR ''E'' then dec_int t else None)"

definition parse_udec :: "string \<Rightarrow> rat option" where
  "parse_udec s =
     (let ip = takeWhile is_digit s; r1 = dropWhile is_digit s;
          frac = (case r1 of [] \<Rightarrow> ([], []) | c # t \<Rightarrow>
                    if c = CHR ''.'' then (takeWhile is_digit t, dropWhile is_digit t) else ([], r1))
      in if ip = [] \<and> fst frac = [] then None
         else (case parse_exponent (snd frac) of None \<Rightarrow> None
               | Some e \<Rightarrow> Some (of_nat (digits_val (ip @ fst frac)) / 10 ^ length (fst frac) * pow10 e)))"

definition parse_sdec :: "string \<Rightarrow> rat option" where
  "parse_sdec s = (case s of [] \<Rightarrow> None
     | c # t \<Rightarrow> if c = CHR ''-'' then map_option uminus (parse_udec t)
               else if c = CHR ''+'' then parse_udec t else parse_udec s)"

definition num_of_str :: "string \<Rightarrow> number" where
  "num_of_str s =
     (let t = trim_str s in
      if t = [] then Fin 0
      else if t = ''Infinity'' \<or> t = ''+Infinity'' then PInf
      else if t = ''-Infinity'' then NInf
      else case parse_sdec t of Some r \<Rightarrow> dbl r
           | None \<Rightarrow> (case prefixed_val t of Some n \<Rightarrow> dbl (of_nat n) | None \<Rightarrow> NaN))"

text \<open>\<open>BigInt(number)\<close> throws on a fraction, an infinity and NaN.\<close>

definition bigint_of_num :: "number \<Rightarrow> int res" where
  "bigint_of_num a = (case a of
       Fin x \<Rightarrow> if is_integral x then Inr \<lfloor>x\<rfloor>
                else throw ERangeError (''The number '' @ num_str a @ '' cannot be converted to a BigInt because it is not an integer'')
     | _ \<Rightarrow> throw ERangeError (''The number '' @ num_str a @ '' cannot be converted to a BigInt because it is not an integer''))"

section \<open>Evaluation of closed terms\<close>

lemma floor_rat_numeral [simp, num_eval]:
  "\<lfloor>numeral a / numeral b :: rat\<rfloor> = numeral a div numeral b"
  "\<lfloor>1 / numeral b :: rat\<rfloor> = 1 div numeral b"
  "\<lfloor>- (numeral a / numeral b) :: rat\<rfloor> = (- numeral a) div numeral b"
  "\<lfloor>- numeral a / numeral b :: rat\<rfloor> = (- numeral a) div numeral b"
  "\<lfloor>- (1 / numeral b) :: rat\<rfloor> = (- 1) div numeral b"
  using floor_divide_of_int_eq [of "numeral a" "numeral b", where ?'a = rat]
    floor_divide_of_int_eq [of 1 "numeral b", where ?'a = rat]
    floor_divide_of_int_eq [of "- numeral a" "numeral b", where ?'a = rat]
    floor_divide_of_int_eq [of "- 1" "numeral b", where ?'a = rat]
  by simp_all

lemmas dbl_eval [num_eval] =
  dbl_def dbl_pos_def ulp_at_def rhe_def pow2_def dexp.simps ilog2.simps Let_def

lemmas num_op_eval [num_eval] =
  n_sub_def n_mul_def n_div_def n_eq_def n_le_def n_max_def n_sgn_def n_inf_def is_finite_def
  n_round_def n_floor_def n_trunc_def num_of_bigint_def

section \<open>Properties of rounding\<close>

lemma pow2_pos [simp]: "0 < pow2 e"
  by (simp add: pow2_def)

lemma pow2_nz [simp]: "pow2 e \<noteq> 0" "0 \<le> pow2 e" "\<not> pow2 e < 0"
  using pow2_pos [of e] by linarith+

lemma pow2_powi: "pow2 e = 2 powi e"
  by (simp add: pow2_def power_int_def field_simps)

lemma pow2_add: "pow2 (a + b) = pow2 a * pow2 b"
  by (simp add: pow2_powi power_int_add)

lemma pow2_mono: "a \<le> b \<Longrightarrow> pow2 a \<le> pow2 b"
  by (simp add: pow2_powi power_int_increasing)

lemma pow2_mono_iff: "pow2 a < pow2 b \<longleftrightarrow> a < b"
  by (metis linorder_not_le order.strict_iff_order order.trans pow2_mono pow2_powi power_int_strict_increasing
      one_less_numeral_iff semiring_norm(76))

lemma ilog2_nonneg: "0 \<le> ilog2 n"
proof (induction n rule: ilog2.induct)
  case (1 n)
  then show ?case by (subst ilog2.simps) simp
qed

lemma ilog2_bounds: "1 \<le> n \<Longrightarrow> 2 ^ nat (ilog2 n) \<le> n \<and> n < 2 ^ nat (ilog2 n + 1)"
proof (induction n rule: ilog2.induct)
  case (1 n)
  show ?case
  proof (cases "n \<le> 1")
    case True
    with "1.prems" show ?thesis by (subst (1 2) ilog2.simps) simp
  next
    case False
    define m where "m = ilog2 (n div 2)"
    have m: "0 \<le> m" by (simp add: m_def ilog2_nonneg)
    from False "1.IH" have IH: "2 ^ nat m \<le> n div 2" "n div 2 < 2 ^ nat (m + 1)"
      by (auto simp: m_def)
    have "nat (m + 1) = Suc (nat m)" "nat (m + 2) = Suc (Suc (nat m))" using m by simp_all
    with IH have "2 ^ nat (m + 1) \<le> n" "n < 2 ^ nat (m + 2)" by simp_all
    with False show ?thesis
      by (subst (1 2) ilog2.simps) (simp add: m_def [symmetric] algebra_simps)
  qed
qed

lemma dexp_upper: "0 < x \<Longrightarrow> x < pow2 (dexp k x + 1)"
proof (induction k x rule: dexp.induct)
  case (1 k x)
  show ?case
  proof (cases "1 \<le> x")
    case True
    then have "1 \<le> \<lfloor>x\<rfloor>" by simp
    from ilog2_bounds [OF this] have "\<lfloor>x\<rfloor> + 1 \<le> 2 ^ nat (ilog2 \<lfloor>x\<rfloor> + 1)" by simp
    then have "of_int (\<lfloor>x\<rfloor> + 1) \<le> (of_int (2 ^ nat (ilog2 \<lfloor>x\<rfloor> + 1)) :: rat)"
      by (rule of_int_le_iff [THEN iffD2])
    moreover have "x < of_int (\<lfloor>x\<rfloor> + 1)" by linarith
    ultimately have "x < 2 ^ nat (ilog2 \<lfloor>x\<rfloor> + 1)" by simp
    moreover have "0 \<le> ilog2 \<lfloor>x\<rfloor> + 1" using ilog2_nonneg [of "\<lfloor>x\<rfloor>"] by simp
    ultimately show ?thesis using True by (subst dexp.simps) (simp add: pow2_def)
  next
    case False
    show ?thesis
    proof (cases "k = 0")
      case True
      with False show ?thesis by (subst dexp.simps) (simp add: pow2_def)
    next
      case k: False
      from "1.IH" [OF False k] "1.prems" have "2 * x < pow2 (dexp (k - 1) (2 * x) + 1)" by simp
      also have "\<dots> = pow2 (dexp (k - 1) (2 * x)) * 2" by (simp add: pow2_add) (simp add: pow2_def)
      finally show ?thesis using False k by (subst dexp.simps) simp
    qed
  qed
qed

lemma dexp_lower: "0 < x \<Longrightarrow> dexp k x = - int k \<or> pow2 (dexp k x) \<le> x"
proof (induction k x rule: dexp.induct)
  case (1 k x)
  show ?case
  proof (cases "1 \<le> x")
    case True
    then have "1 \<le> \<lfloor>x\<rfloor>" by simp
    from ilog2_bounds [OF this] have "2 ^ nat (ilog2 \<lfloor>x\<rfloor>) \<le> \<lfloor>x\<rfloor>" by simp
    then have "of_int (2 ^ nat (ilog2 \<lfloor>x\<rfloor>)) \<le> (of_int \<lfloor>x\<rfloor> :: rat)"
      by (rule of_int_le_iff [THEN iffD2])
    also have "\<dots> \<le> x" by (rule of_int_floor_le)
    finally show ?thesis using True ilog2_nonneg [of "\<lfloor>x\<rfloor>"]
      by (subst (1 2) dexp.simps) (simp add: pow2_def)
  next
    case False
    show ?thesis
    proof (cases "k = 0")
      case True
      with False show ?thesis by (subst dexp.simps) simp
    next
      case k: False
      have half: "pow2 (dexp (k - 1) (2 * x) - 1) = pow2 (dexp (k - 1) (2 * x)) / 2"
        using pow2_add [of "dexp (k - 1) (2 * x) - 1" 1] by (simp add: pow2_def [of 1])
      from "1.IH" [OF False k] "1.prems"
      have "dexp (k - 1) (2 * x) = - int (k - 1) \<or> pow2 (dexp (k - 1) (2 * x)) \<le> 2 * x" by simp
      with k half have "dexp (k - 1) (2 * x) - 1 = - int k \<or> pow2 (dexp (k - 1) (2 * x) - 1) \<le> x"
        by auto
      with False k show ?thesis by (subst (1 2) dexp.simps) simp
    qed
  qed
qed

lemma rhe_error: "\<bar>of_int (rhe y) - y\<bar> \<le> 1 / 2"
proof -
  have "of_int \<lfloor>y\<rfloor> \<le> y" "y < of_int \<lfloor>y\<rfloor> + 1" by linarith+
  then show ?thesis by (auto simp: rhe_def Let_def abs_le_iff)
qed

lemma rhe_of_int [simp]: "rhe (of_int i) = i"
  by (simp add: rhe_def)

lemma rhe_nonneg: "0 \<le> y \<Longrightarrow> 0 \<le> rhe y"
  by (auto simp: rhe_def Let_def)

lemma rhe_mono: "x \<le> y \<Longrightarrow> rhe x \<le> rhe y"
proof -
  assume le: "x \<le> y"
  show ?thesis
  proof (cases "\<lfloor>x\<rfloor> = \<lfloor>y\<rfloor>")
    case True
    with le show ?thesis by (auto simp: rhe_def Let_def)
  next
    case False
    with le have "\<lfloor>x\<rfloor> + 1 \<le> \<lfloor>y\<rfloor>" using floor_mono [OF le] by simp
    moreover have "rhe x \<le> \<lfloor>x\<rfloor> + 1" "\<lfloor>y\<rfloor> \<le> rhe y" by (auto simp: rhe_def Let_def)
    ultimately show ?thesis by linarith
  qed
qed

lemma rhe_le_of_int: "y \<le> of_int i \<Longrightarrow> rhe y \<le> i"
  using rhe_mono [of y "of_int i"] by simp

lemma rhe_ge_of_int: "of_int i \<le> y \<Longrightarrow> i \<le> rhe y"
  using rhe_mono [of "of_int i" y] by simp

lemma ulp_at_pos [simp]: "0 < ulp_at x" "0 \<le> ulp_at x" "ulp_at x \<noteq> 0"
  by (simp_all add: ulp_at_def)

definition round_pos :: "rat \<Rightarrow> rat" where
  "round_pos x = of_int (rhe (x / ulp_at x)) * ulp_at x"

lemma dbl_pos_round: "dbl_pos x = (if 2 ^ 1024 \<le> round_pos x then PInf else Fin (round_pos x))"
  by (simp add: dbl_pos_def round_pos_def Let_def)

lemma round_pos_error: "\<bar>round_pos x - x\<bar> \<le> ulp_at x / 2"
proof -
  let ?u = "ulp_at x"
  have u: "0 < ?u" by simp
  have "\<bar>of_int (rhe (x / ?u)) - x / ?u\<bar> * ?u \<le> 1 / 2 * ?u"
    using rhe_error [of "x / ?u"] u by (intro mult_right_mono) auto
  moreover have "\<bar>of_int (rhe (x / ?u)) - x / ?u\<bar> * ?u = \<bar>(of_int (rhe (x / ?u)) - x / ?u) * ?u\<bar>"
    using u by (simp add: abs_mult)
  moreover have "(of_int (rhe (x / ?u)) - x / ?u) * ?u = round_pos x - x"
    using u by (simp add: round_pos_def left_diff_distrib)
  ultimately show ?thesis by simp
qed

lemma round_pos_nonneg: "0 \<le> x \<Longrightarrow> 0 \<le> round_pos x"
  by (simp add: round_pos_def rhe_nonneg)

text \<open>A number with at most 53 significant bits is rounded to itself.\<close>

lemma round_pos_exact:
  assumes "0 < m" and "m < 2 ^ 53" and "- 1074 \<le> e"
  shows "round_pos (of_int m * pow2 e) = of_int m * pow2 e"
proof -
  define x where "x = of_int m * pow2 e"
  define E where "E = dexp 1022 x"
  have "0 < x" using assms(1) by (simp add: x_def)
  have le: "E - 52 \<le> e"
  proof (cases "E = - int 1022")
    case True
    with assms(3) show ?thesis by simp
  next
    case False
    with dexp_lower [OF \<open>0 < x\<close>, of 1022] have "pow2 E \<le> x" by (simp add: E_def)
    also have "x < 2 ^ 53 * pow2 e"
    proof -
      have "(of_int m :: rat) < of_int (2 ^ 53)" using assms(2) by (simp only: of_int_less_iff)
      then have "of_int m * pow2 e < of_int (2 ^ 53) * pow2 e" by (rule mult_strict_right_mono) simp
      then show ?thesis by (simp add: x_def)
    qed
    also have "\<dots> = pow2 (53 + e)" by (simp add: pow2_add) (simp add: pow2_def)
    finally show ?thesis by (simp add: pow2_mono_iff)
  qed
  have "x / ulp_at x = of_int m * pow2 (e - (E - 52))"
  proof -
    have "x = of_int m * pow2 (e - (E - 52)) * pow2 (E - 52)"
      using pow2_add [of "e - (E - 52)" "E - 52"] by (simp add: x_def)
    moreover have "ulp_at x = pow2 (E - 52)" by (simp add: ulp_at_def E_def)
    ultimately show ?thesis by (metis nonzero_mult_div_cancel_right pow2_nz(1))
  qed
  also have "\<dots> = of_int (m * 2 ^ nat (e - (E - 52)))" using le by (simp add: pow2_def)
  finally have q: "x / ulp_at x = of_int (m * 2 ^ nat (e - (E - 52)))" .
  have "round_pos x = x / ulp_at x * ulp_at x" unfolding round_pos_def q by (simp only: rhe_of_int)
  then show ?thesis by (simp add: x_def)
qed

lemma dbl_exact:
  assumes "\<bar>m\<bar> < 2 ^ 53" and "- 1074 \<le> e" and "of_int \<bar>m\<bar> * pow2 e < 2 ^ 1024"
  shows "dbl (of_int m * pow2 e) = Fin (of_int m * pow2 e)"
proof -
  consider "m = 0" | "0 < m" | "m < 0" by linarith
  then show ?thesis
  proof cases
    case 1
    then show ?thesis by (simp add: dbl_def)
  next
    case 2
    with assms show ?thesis by (auto simp: dbl_def dbl_pos_round round_pos_exact)
  next
    case 3
    with assms have "round_pos (of_int (- m) * pow2 e) = of_int (- m) * pow2 e"
      by (intro round_pos_exact) auto
    with 3 assms show ?thesis by (auto simp: dbl_def dbl_pos_round mult_less_0_iff zero_less_mult_iff)
  qed
qed

lemma dbl_of_int:
  assumes "\<bar>i\<bar> < 2 ^ 53"
  shows "dbl (of_int i) = Fin (of_int i)"
proof -
  have "of_int \<bar>i\<bar> < (of_int (2 ^ 53) :: rat)" using assms by (simp only: of_int_less_iff)
  then have "of_int \<bar>i\<bar> * pow2 0 < 2 ^ 1024" by (simp add: pow2_def)
  then show ?thesis using dbl_exact [of i 0] assms by (simp add: pow2_def)
qed

lemma dbl_0 [simp]: "dbl 0 = Fin 0"
  by (simp add: dbl_def)

lemma dbl_minus: "dbl (- x) = n_neg (dbl x)"
  by (cases "dbl_pos x"; cases "dbl_pos (- x)") (auto simp: dbl_def)

lemma dbl_not_NaN [simp]: "dbl x \<noteq> NaN"
  by (auto simp: dbl_def dbl_pos_round)

lemma dbl_nonneg: "0 \<le> x \<Longrightarrow> dbl x = PInf \<or> (\<exists>y. dbl x = Fin y \<and> 0 \<le> y)"
  using round_pos_nonneg [of x] by (auto simp: dbl_def dbl_pos_round)

lemma dbl_error: "0 < x \<Longrightarrow> dbl x = Fin y \<Longrightarrow> \<bar>y - x\<bar> \<le> ulp_at x / 2"
  using round_pos_error [of x] by (auto simp: dbl_def dbl_pos_round split: if_splits)

lemma ulp_at_le:
  assumes "0 < x" and "x < pow2 e" and "- 1022 < e"
  shows "ulp_at x \<le> pow2 (e - 53)"
proof -
  have "dexp 1022 x \<le> e - 1"
  proof (cases "dexp 1022 x = - int 1022")
    case True
    with assms(3) show ?thesis by simp
  next
    case False
    with dexp_lower [OF assms(1), of 1022] have "pow2 (dexp 1022 x) \<le> x" by simp
    with assms(2) have "pow2 (dexp 1022 x) < pow2 e" by simp
    then show ?thesis by (simp add: pow2_mono_iff)
  qed
  then show ?thesis by (simp add: ulp_at_def pow2_mono)
qed

lemma dbl_finite:
  assumes "0 < x" and "x < 2 ^ 1023"
  shows "\<exists>y. dbl x = Fin y \<and> 0 \<le> y"
proof -
  have "ulp_at x \<le> pow2 (1023 - 53)" using assms by (intro ulp_at_le) (simp_all add: pow2_def)
  also have "\<dots> < 2 ^ 1023" by (simp add: pow2_def)
  finally have "ulp_at x < 2 ^ 1023" .
  with round_pos_error [of x] assms have "round_pos x < 2 ^ 1023 + 2 ^ 1023 / 2" by linarith
  then have "round_pos x < 2 ^ 1024" by simp
  then show ?thesis using assms round_pos_nonneg [of x] by (simp add: dbl_def dbl_pos_round)
qed

end
