(* ===== verification/Js_Json.thy ===== *)
theory Js_Json
  imports Js_Number
begin

text \<open>
  JavaScript values that flow into JSON: \<open>JSON.stringify\<close>, and the contract of the two
  sanitizers of the eventing package. The store wants no number that is not finite (slonik's
  \<open>sql.jsonb\<close> throws on them), the notification API receives what \<open>JSON.stringify\<close>
  prints. The locale \<open>sanitizer\<close> states what makes a sanitizer fit between the two: it
  rewrites the numbers that are not finite to null and changes nothing else.
\<close>

datatype json =
    JUndef
  | JNull
  | JBool bool
  | JNum number
  | JBig int
  | JStr string
  | JArr "json list"
  | JObj "(string \<times> json) list"

definition jopt :: "number option \<Rightarrow> json" where
  "jopt x = (case x of None \<Rightarrow> JNull | Some y \<Rightarrow> JNum y)"

definition jstr_opt :: "string option \<Rightarrow> json" where
  "jstr_opt x = (case x of None \<Rightarrow> JNull | Some y \<Rightarrow> JStr y)"

text \<open>\<open>JSON.stringify\<close>: \<open>None\<close> is undefined (a property with it is left out, an array
  element becomes null), a number that is not finite prints as null, a bigint throws.\<close>

definition hex_digit :: "nat \<Rightarrow> char" where
  "hex_digit d = ''0123456789abcdef'' ! (d mod 16)"

definition json_escape :: "char \<Rightarrow> string" where
  "json_escape c =
     (let n = (of_char c :: nat) in
      if n = 34 then [CHR 92, CHR 34] else if n = 92 then [CHR 92, CHR 92]
      else if n = 8 then CHR 92 # ''b'' else if n = 12 then CHR 92 # ''f''
      else if n = 10 then CHR 92 # ''n'' else if n = 13 then CHR 92 # ''r''
      else if n = 9 then CHR 92 # ''t''
      else if n < 32 then CHR 92 # ''u00'' @ [hex_digit (n div 16), hex_digit n]
      else [c])"

definition json_quote :: "string \<Rightarrow> string" where
  "json_quote s = [CHR 34] @ concat (map json_escape s) @ [CHR 34]"

fun json_stringify :: "json \<Rightarrow> string option res" where
  "json_stringify JUndef = Inr None"
| "json_stringify JNull = Inr (Some ''null'')"
| "json_stringify (JBool b) = Inr (Some (if b then ''true'' else ''false''))"
| "json_stringify (JNum x) = Inr (Some (if is_finite x then num_str x else ''null''))"
| "json_stringify (JBig i) = throw ETypeError ''Do not know how to serialize a BigInt''"
| "json_stringify (JStr s) = Inr (Some (json_quote s))"
| "json_stringify (JArr xs) =
     rbind (rmapM (\<lambda>x. json_stringify x) xs) (\<lambda>ss.
       Inr (Some (''['' @ js_join '','' (map (\<lambda>s. orElse s ''null'') ss) @ '']'')))"
| "json_stringify (JObj fs) =
     rbind (rmapM (\<lambda>kv. rbind (json_stringify (snd kv)) (\<lambda>s.
         Inr (map_option (\<lambda>t. json_quote (fst kv) @ '':'' @ t) s))) fs) (\<lambda>ss.
       Inr (Some (''{'' @ js_join '','' (concat (map (\<lambda>s. case s of None \<Rightarrow> [] | Some t \<Rightarrow> [t]) ss))
         @ ''}'')))"

text \<open>No number in the value is NaN or infinite: what \<open>sql.jsonb\<close> asks for.\<close>

fun all_finite :: "json \<Rightarrow> bool" where
  "all_finite (JNum x) = is_finite x"
| "all_finite (JArr xs) = list_all (\<lambda>x. all_finite x) xs"
| "all_finite (JObj fs) = list_all (\<lambda>kv. all_finite (snd kv)) fs"
| "all_finite _ = True"

text \<open>What a sanitizer has to compute.\<close>

fun finite_json :: "json \<Rightarrow> json" where
  "finite_json (JNum x) = (if is_finite x then JNum x else JNull)"
| "finite_json (JArr xs) = JArr (map (\<lambda>x. finite_json x) xs)"
| "finite_json (JObj fs) = JObj (map (\<lambda>kv. (fst kv, finite_json (snd kv))) fs)"
| "finite_json v = v"

lemma finite_json_all_finite: "all_finite (finite_json v)"
  by (induction v rule: finite_json.induct) (auto simp: list_all_iff is_finite_def)

lemma finite_json_id: "all_finite v \<Longrightarrow> finite_json v = v"
  by (induction v rule: finite_json.induct) (auto simp: list_all_iff intro!: map_idI)

lemma finite_json_stringify: "json_stringify (finite_json v) = json_stringify v"
proof (induction v rule: finite_json.induct)
  case (2 xs)
  then have "rmapM (\<lambda>x. json_stringify (finite_json x)) xs = rmapM (\<lambda>x. json_stringify x) xs"
    by (intro rmapM_cong) auto
  then show ?case by (simp add: rmapM_map)
next
  case (3 fs)
  then have "rmapM (\<lambda>kv. rbind (json_stringify (finite_json (snd kv))) (\<lambda>s.
        Inr (map_option (\<lambda>t. json_quote (fst kv) @ '':'' @ t) s))) fs
      = rmapM (\<lambda>kv. rbind (json_stringify (snd kv)) (\<lambda>s.
        Inr (map_option (\<lambda>t. json_quote (fst kv) @ '':'' @ t) s))) fs"
    by (intro rmapM_cong) auto
  then show ?case by (simp add: rmapM_map)
qed (auto simp: is_finite_def)

locale sanitizer =
  fixes san :: "json \<Rightarrow> json"
  assumes san_spec: "san v = finite_json v"
begin

lemma sanitized_finite: "all_finite (san v)"
  by (simp add: san_spec finite_json_all_finite)

lemma sanitize_idem: "san (san v) = san v"
  by (simp add: san_spec finite_json_id finite_json_all_finite)

lemma sanitize_wire: "json_stringify (san v) = json_stringify v"
  by (simp add: san_spec finite_json_stringify)

lemma sanitize_keeps: "all_finite v \<Longrightarrow> san v = v"
  by (simp add: san_spec finite_json_id)

end

end
