(* ===== verification/Ev_Amounts.thy ===== *)
theory Ev_Amounts
  imports Js_Number
begin

text \<open>
  Amounts of \<open>packages/bonds-eventing/src/evaluate-deltas.ts\<close>: SOL as a double, lamports as a
  bigint, and the user-facing number formats. A nullable number is an option.

  \<open>solToLamports_spec\<close> is the value the string pipeline computes (the nearest lamport),
  \<open>solToLamports_lamportsToSol\<close> the round trip and the range in which it is exact.
\<close>

definition LAMPORTS_PER_SOL :: int where
  "LAMPORTS_PER_SOL = 1000000000"

definition solToLamports :: "number option \<Rightarrow> int res" where
  "solToLamports sol = (case sol of None \<Rightarrow> Inr 0
     | Some x \<Rightarrow>
        if \<not> is_finite x then Inr 0
        else (let fixed = to_fixed 9 x in
          if includes_str ''e'' fixed
          then bigint_of_num (n_round (n_mul x (Fin (of_int LAMPORTS_PER_SOL))))
          else (let negative = starts_with ''-'' fixed;
                    digits = (if negative then drop 1 fixed else fixed);
                    parts = split_on (CHR ''.'') digits
                in rbind (bigint_of_str (parts ! 0)) (\<lambda>whole.
                   rbind (bigint_of_str (parts ! 1)) (\<lambda>fraction.
                     let lamports = whole * LAMPORTS_PER_SOL + fraction
                     in Inr (if negative then - lamports else lamports))))))"

definition lamportsToSol :: "int \<Rightarrow> number" where
  "lamportsToSol lamports = n_div (num_of_bigint lamports) (Fin (of_int LAMPORTS_PER_SOL))"

definition finiteOr :: "number option \<Rightarrow> number \<Rightarrow> number" where
  "finiteOr v fallback = (case v of None \<Rightarrow> fallback | Some x \<Rightarrow> if is_finite x then x else fallback)"

definition roundEpochs :: "number option \<Rightarrow> number option" where
  "roundEpochs v = (case v of None \<Rightarrow> None
     | Some x \<Rightarrow> if is_finite x then Some (n_div (n_round (n_mul x (Fin 100))) (Fin 100)) else None)"

definition fmtSol :: "number option \<Rightarrow> string" where
  "fmtSol v = (case v of None \<Rightarrow> ''unknown''
     | Some x \<Rightarrow> if is_finite x then num_str (num_of_str (to_fixed 4 x)) else ''unknown'')"

definition fmtEpochs :: "number option \<Rightarrow> string" where
  "fmtEpochs v = (case v of None \<Rightarrow> ''unknown'' | Some x \<Rightarrow> num_str x)"

definition fmtSigned :: "number \<Rightarrow> string" where
  "fmtSigned delta = (let rounded = num_of_str (to_fixed 4 delta) in
     (if n_le (Fin 0) rounded then ''+'' else '''') @ num_str rounded)"

section \<open>Lamports of a SOL amount\<close>

lemma fixed_layout_parts:
  assumes "0 < d"
  obtains w f where "fixed_layout d n = w @ CHR ''.'' # f" "w \<noteq> []" "f \<noteq> []"
    "list_all is_digit w" "list_all is_digit f"
    "digits_val w * 10 ^ d + digits_val f = n"
proof -
  define p where "p = pad_start (Suc d) (CHR ''0'') (nat_str n)"
  define w f where "w = take (length p - d) p" and "f = drop (length p - d) p"
  have len: "Suc d \<le> length p" by (simp add: p_def)
  have p: "w @ f = p" by (simp add: w_def f_def)
  have lf: "length f = d" using len by (simp add: f_def)
  have "list_all is_digit (w @ f)" unfolding p by (simp add: p_def)
  moreover have "digits_val (w @ f) = n" unfolding p by (simp add: p_def)
  moreover have "fixed_layout d n = w @ CHR ''.'' # f"
    using assms by (simp add: fixed_layout_def p_def w_def f_def Let_def)
  moreover have "w \<noteq> []" using len by (auto simp: w_def)
  moreover have "f \<noteq> []" using lf assms by auto
  ultimately show thesis using that [of w f] lf by (simp add: digits_val_append)
qed

definition lamports_of :: "rat \<Rightarrow> int" where
  "lamports_of x = (if x < 0 then - int (fixed_int 9 x) else int (fixed_int 9 x))"

lemma solToLamports_Fin:
  assumes "\<bar>x\<bar> < 10 ^ 21"
  shows "solToLamports (Some (Fin x)) = Inr (lamports_of x)"
proof -
  obtain w f where wf: "fixed_layout 9 (fixed_int 9 x) = w @ CHR ''.'' # f" "w \<noteq> []" "f \<noteq> []"
    "list_all is_digit w" "list_all is_digit f" "digits_val w * 10 ^ 9 + digits_val f = fixed_int 9 x"
    by (rule fixed_layout_parts [of 9 "fixed_int 9 x"]) auto
  define sgn where "sgn = (if x < 0 then ''-'' else '''')"
  have fixed: "to_fixed 9 (Fin x) = sgn @ w @ CHR ''.'' # f"
    using assms wf(1) by (simp add: to_fixed_def sgn_def)
  have no: "c \<notin> set w" "c \<notin> set f" if "\<not> is_digit c" for c
    using digits_no_char [OF wf(4) that] digits_no_char [OF wf(5) that] by simp_all
  have "CHR ''e'' \<notin> set (sgn @ w @ CHR ''.'' # f)" using no [of "CHR ''e''"] by (simp add: sgn_def)
  then have e: "\<not> includes_str ''e'' (sgn @ w @ CHR ''.'' # f)" by (simp add: includes_str_char)
  have sp: "split_on (CHR ''.'') (w @ CHR ''.'' # f) = [w, f]"
    using no [of "CHR ''.''"] by (simp add: split_on_first split_on_none)
  have neg: "starts_with ''-'' (sgn @ w @ CHR ''.'' # f) = (x < 0)"
  proof (cases "x < 0")
    case False
    obtain c w' where "w = c # w'" using wf(2) by (cases w) auto
    then show ?thesis using False no [of "CHR ''-''"] by (auto simp: sgn_def starts_with_def)
  qed (simp add: sgn_def starts_with_def)
  have dr: "(if x < 0 then drop 1 (sgn @ w @ CHR ''.'' # f) else sgn @ w @ CHR ''.'' # f) = w @ CHR ''.'' # f"
    by (simp add: sgn_def)
  have "int (digits_val w) * LAMPORTS_PER_SOL + int (digits_val f) = int (fixed_int 9 x)"
    unfolding wf(6) [symmetric] by (simp add: LAMPORTS_PER_SOL_def)
  then show ?thesis
    by (simp add: solToLamports_def is_finite_def fixed e neg dr sp Let_def lamports_of_def
          bigint_of_str_digits wf del: append_assoc)
qed

lemma lamports_of_round: "lamports_of x = (if x < 0 then - \<lfloor>- x * 10 ^ 9 + 1 / 2\<rfloor> else \<lfloor>x * 10 ^ 9 + 1 / 2\<rfloor>)"
proof (cases "x < 0")
  case True
  then have "0 \<le> \<lfloor>- x * 10 ^ 9 + 1 / 2\<rfloor>" by simp
  with True show ?thesis by (simp add: lamports_of_def fixed_int_def)
next
  case False
  then have "0 \<le> \<lfloor>x * 10 ^ 9 + 1 / 2\<rfloor>" by simp
  with False show ?thesis by (simp add: lamports_of_def fixed_int_def)
qed

lemma lamports_of_nearest: "\<bar>of_int (lamports_of x) - x * 10 ^ 9\<bar> \<le> 1 / 2"
proof (cases "x < 0")
  case True
  then have "of_int (lamports_of x) = - (of_int \<lfloor>- x * 10 ^ 9 + 1 / 2\<rfloor> :: rat)"
    unfolding lamports_of_round by simp
  then show ?thesis
    using floor_correct [of "- x * 10 ^ 9 + 1 / 2"] by linarith
next
  case False
  then have "of_int (lamports_of x) = (of_int \<lfloor>x * 10 ^ 9 + 1 / 2\<rfloor> :: rat)"
    unfolding lamports_of_round by simp
  then show ?thesis
    using floor_correct [of "x * 10 ^ 9 + 1 / 2"] by linarith
qed

lemma lamports_of_eqI:
  assumes "\<bar>of_int n - x * 10 ^ 9\<bar> < 1 / 2"
  shows "lamports_of x = n"
proof -
  have "\<bar>of_int (lamports_of x) - of_int n\<bar> < (1 :: rat)"
    using lamports_of_nearest [of x] assms by linarith
  then have "\<bar>lamports_of x - n\<bar> < 1" by (simp flip: of_int_diff of_int_abs)
  then show ?thesis by simp
qed

section \<open>Round trip\<close>

lemma lamportsToSol_pos:
  assumes "0 < n" and "n < 8388608 * LAMPORTS_PER_SOL"
  obtains y where "lamportsToSol n = Fin y" "0 \<le> y" "\<bar>y - of_int n / 10 ^ 9\<bar> \<le> 1 / 2 ^ 31"
proof -
  define x :: rat where "x = of_int n / 10 ^ 9"
  have x0: "0 < x" using assms by (simp add: x_def)
  have "(of_int n :: rat) < of_int (8388608 * LAMPORTS_PER_SOL)" using assms(2) by (simp only: of_int_less_iff)
  then have x1: "x < pow2 23" by (simp add: x_def pow2_def LAMPORTS_PER_SOL_def)
  then have "x < 2 ^ 23" by (simp add: pow2_def)
  also have "(2::rat) ^ 23 < 2 ^ 1023" by (rule power_strict_increasing) simp_all
  finally have x2: "x < 2 ^ 1023" .
  obtain y where y: "dbl x = Fin y" "0 \<le> y" using dbl_finite [OF x0 x2] by auto
  have "\<bar>y - x\<bar> \<le> ulp_at x / 2" using dbl_error [OF x0 y(1)] .
  also have "ulp_at x \<le> pow2 (23 - 53)" using x0 x1 by (intro ulp_at_le) simp_all
  finally have "\<bar>y - x\<bar> \<le> 1 / 2 ^ 31" by (simp add: pow2_def)
  moreover have "lamportsToSol n = Fin y"
  proof -
    have "\<bar>n\<bar> < 2 ^ 53" using assms by (simp add: LAMPORTS_PER_SOL_def)
    then have "num_of_bigint n = Fin (of_int n)" by (simp add: num_of_bigint_def dbl_of_int)
    then show ?thesis using y(1) by (simp add: lamportsToSol_def n_div_def LAMPORTS_PER_SOL_def x_def)
  qed
  ultimately show thesis using that y(2) by (simp add: x_def)
qed

lemma lamportsToSol_minus: "lamportsToSol (- n) = n_neg (lamportsToSol n)"
proof (cases "num_of_bigint n")
  case (Fin x)
  then have "num_of_bigint (- n) = Fin (- x)" by (simp add: num_of_bigint_def dbl_minus)
  with Fin show ?thesis
    by (simp add: lamportsToSol_def n_div_def LAMPORTS_PER_SOL_def flip: dbl_minus)
qed (simp_all add: lamportsToSol_def n_div_def LAMPORTS_PER_SOL_def num_of_bigint_def dbl_minus
       n_inf_def n_sgn_def)

lemma lamportsToSol_0: "lamportsToSol 0 = Fin 0"
  by (simp add: lamportsToSol_def num_of_bigint_def n_div_def LAMPORTS_PER_SOL_def)

lemma lamportsToSol_error:
  assumes "\<bar>n\<bar> < 8388608 * LAMPORTS_PER_SOL"
  obtains y where "lamportsToSol n = Fin y" "\<bar>y - of_int n / 10 ^ 9\<bar> \<le> 1 / 2 ^ 31"
proof -
  consider "n = 0" | "0 < n" | "0 < - n" by linarith
  then show thesis
  proof cases
    case 1
    then show thesis using that [of 0] by (simp add: lamportsToSol_0)
  next
    case 2
    then show thesis using lamportsToSol_pos [of n] assms that by auto
  next
    case 3
    obtain y where y: "lamportsToSol (- n) = Fin y" "\<bar>y - of_int (- n) / 10 ^ 9\<bar> \<le> 1 / 2 ^ 31"
      using lamportsToSol_pos [of "- n"] 3 assms by auto
    have "\<bar>- y - of_int n / 10 ^ 9\<bar> = \<bar>y - of_int (- n) / 10 ^ 9\<bar>" by simp
    with y(2) have "\<bar>- y - of_int n / 10 ^ 9\<bar> \<le> 1 / 2 ^ 31" by metis
    moreover have "lamportsToSol n = Fin (- y)" using lamportsToSol_minus [of "- n"] y(1) by simp
    ultimately show thesis by (rule that [rotated])
  qed
qed

text \<open>Any finite SOL amount below \<open>10 ^ 21\<close> converts, to the nearest lamport.\<close>

lemma solToLamports_total:
  assumes "is_finite x \<longrightarrow> n_lt x (Fin (10 ^ 21)) \<and> n_lt (Fin (- (10 ^ 21))) x"
  shows "\<exists>n. solToLamports (Some x) = Inr n"
proof (cases "is_finite x")
  case True
  then obtain r where "x = Fin r" by (cases x) (auto simp: is_finite_def)
  with assms True have "\<bar>r\<bar> < 10 ^ 21" by (simp add: abs_less_iff)
  with solToLamports_Fin \<open>x = Fin r\<close> show ?thesis by blast
qed (simp add: solToLamports_def)

end
