(* ===== verification/Ev_Types.thy ===== *)
theory Ev_Types
  imports Js_Json Ev_Amounts
begin

text \<open>
  The data of \<open>packages/bonds-eventing\<close>: the validator state that is kept between runs,
  the events, the configuration (\<open>types.ts\<close>), and the fields of ds-sam's
  \<open>AuctionValidator\<close> that the package reads. A field that may be null or absent is an
  option. The details of an event are the object literal of the source.
\<close>

datatype bond_type = Bidding | Institutional

definition bond_type_str :: "bond_type \<Rightarrow> string" where
  "bond_type_str t = (case t of Bidding \<Rightarrow> ''bidding'' | Institutional \<Rightarrow> ''institutional'')"

section \<open>\<open>AuctionValidator\<close>: the input of the bidding evaluation\<close>

record cap_constraint =
  cap_constraintType :: string
  cap_constraintName :: string
  cap_totalStakeSol :: number
  cap_totalLeftToCapSol :: number
  cap_marinadeStakeSol :: number
  cap_marinadeLeftToCapSol :: number

record rev_share =
  rs_bidTooLowPenaltyPmpe :: "number option"
  rs_blacklistPenaltyPmpe :: "number option"
  rs_expectedMaxEffBidPmpe :: "number option"
  rs_onchainDistributedPmpe :: "number option"
  rs_activatingStakePmpe :: "number option"
  rs_others :: "(string \<times> json) list"

record sam_values =
  va_bondRiskFeeSol :: "number option"
  va_paidUndelegationSol :: "number option"

record auction_validator =
  av_voteAccount :: string
  av_bondBalanceSol :: "number option"
  av_claimableBondBalanceSol :: "number option"
  av_marinadeActivatedStakeSol :: number
  av_unprotectedStakeSol :: "number option"
  av_maxStakeWanted :: "number option"
  av_samEligible :: bool
  av_samBlocked :: bool
  av_minBondPmpe :: number
  av_idealBondPmpe :: number
  av_minUnprotectedReserve :: number
  av_idealUnprotectedReserve :: number
  av_bondGoodForNEpochs :: "number option"
  av_unstakePriority :: "number option"
  av_auctionStake :: "number option"
  av_bondForcedUndelegation :: "number option"
  av_revShare :: "rev_share option"
  av_values :: "sam_values option"
  av_lastCapConstraint :: "cap_constraint option"
  av_auctions :: "(number option \<times> number option) list"

text \<open>\<open>av_auctionStake\<close> is \<open>auctionStake?.marinadeSamTargetSol\<close>, \<open>av_bondForcedUndelegation\<close>
  is \<open>bondForcedUndelegation?.value\<close>, an element of \<open>av_auctions\<close> is its \<open>bidPmpe\<close> and its
  \<open>effParticipatingBidPmpe\<close>.\<close>

section \<open>\<open>types.ts\<close>\<close>

record institutional_validator =
  iv_voteAccount :: string
  iv_bondPubkey :: string
  iv_fundedAmountLamports :: int
  iv_effectiveAmountLamports :: int
  iv_settlementClaimsLamports :: int
  iv_institutionalStakeLamports :: int

record validator_state =
  vs_vote_account :: string
  vs_bond_pubkey :: "string option"
  vs_bond_type :: bond_type
  vs_epoch :: number
  vs_in_auction :: bool
  vs_bond_good_for_n_epochs :: "number option"
  vs_cap_constraint :: "string option"
  vs_cap_marinade_stake_sol :: "number option"
  vs_funded_amount_lamports :: int
  vs_effective_amount_lamports :: int
  vs_auction_stake_lamports :: int
  vs_deficit_lamports :: int
  vs_settlement_claims_lamports :: "int option"
  vs_sam_eligible :: bool
  vs_updated_at :: string
  vs_auction_validator :: "json option"

datatype emit_status = Sent | Failed

record emit_result =
  er_status :: emit_status
  er_messageId :: string
  er_error :: "string option"

record eventing_config =
  cf_bondsApiUrl :: json
  cf_validatorsApiUrl :: json
  cf_scoringApiUrl :: json
  cf_tvlApiUrl :: json
  cf_institutionalApiUrl :: json
  cf_notificationsApiUrl :: "string option"
  cf_notificationsJwt :: "string option"
  cf_postgresUrl :: "string option"
  cf_postgresSslRootCert :: "string option"
  cf_retryMaxAttempts :: number
  cf_retryBaseDelayMs :: number
  cf_emitConcurrency :: number
  cf_dryRun :: bool
  cf_cacheInputs :: "string option"

section \<open>\<open>BondsEventV1\<close>\<close>

datatype inner_type =
    FirstSeen | ValidatorDelisted | AuctionEntered | AuctionExited | CapChanged
  | BondUnderfundedChange | BondBalanceChange | SamEligibleChange | SettlementApplied
  | PenaltyExpected

definition inner_type_str :: "inner_type \<Rightarrow> string" where
  "inner_type_str t = (case t of
       FirstSeen \<Rightarrow> ''first_seen'' | ValidatorDelisted \<Rightarrow> ''validator_delisted''
     | AuctionEntered \<Rightarrow> ''auction_entered'' | AuctionExited \<Rightarrow> ''auction_exited''
     | CapChanged \<Rightarrow> ''cap_changed'' | BondUnderfundedChange \<Rightarrow> ''bond_underfunded_change''
     | BondBalanceChange \<Rightarrow> ''bond_balance_change'' | SamEligibleChange \<Rightarrow> ''sam_eligible_change''
     | SettlementApplied \<Rightarrow> ''settlement_applied'' | PenaltyExpected \<Rightarrow> ''penalty_expected'')"

record bonds_event =
  ev_inner_type :: inner_type
  ev_vote_account :: string
  ev_bond_pubkey :: string
  ev_bond_type :: bond_type
  ev_epoch :: number
  ev_message :: string
  ev_details :: json
  ev_created_at :: string

definition event_json :: "bonds_event \<Rightarrow> json" where
  "event_json e = JObj
     [(''type'', JStr ''bonds''),
      (''inner_type'', JStr (inner_type_str (ev_inner_type e))),
      (''vote_account'', JStr (ev_vote_account e)),
      (''bond_pubkey'', JStr (ev_bond_pubkey e)),
      (''bond_type'', JStr (bond_type_str (ev_bond_type e))),
      (''epoch'', JNum (ev_epoch e)),
      (''data'', JObj [(''message'', JStr (ev_message e)), (''details'', ev_details e)]),
      (''created_at'', JStr (ev_created_at e))]"

definition makeBaseEvent :: "inner_type \<Rightarrow> string \<Rightarrow> string \<Rightarrow> number \<Rightarrow> bond_type \<Rightarrow> string
    \<Rightarrow> json \<Rightarrow> string \<Rightarrow> bonds_event" where
  "makeBaseEvent innerType voteAccount bondPubkey epoch bondType message details now =
     \<lparr> ev_inner_type = innerType, ev_vote_account = voteAccount, ev_bond_pubkey = bondPubkey,
       ev_bond_type = bondType, ev_epoch = epoch, ev_message = message, ev_details = details,
       ev_created_at = now \<rparr>"

lemma makeBaseEvent_sel [simp]:
  "ev_inner_type (makeBaseEvent i v b e t m d now) = i"
  "ev_vote_account (makeBaseEvent i v b e t m d now) = v"
  "ev_bond_pubkey (makeBaseEvent i v b e t m d now) = b"
  "ev_bond_type (makeBaseEvent i v b e t m d now) = t"
  "ev_epoch (makeBaseEvent i v b e t m d now) = e"
  "ev_message (makeBaseEvent i v b e t m d now) = m"
  "ev_details (makeBaseEvent i v b e t m d now) = d"
  by (simp_all add: makeBaseEvent_def)

end
