(* ===== verification/Ev_Relay.thy ===== *)
theory Ev_Relay
  imports Ev_Types
begin

text \<open>
  The two sanitizers of \<open>packages/bonds-eventing/src\<close>: \<open>jsonSafe\<close> (\<open>calc-relay.ts\<close>) and
  \<open>sanitizeForJsonb\<close> (\<open>persist-events.ts\<close>), and the calc blob \<open>toCalcValidator\<close>. The code
  has two implementations with different orders of tests; both satisfy the interface
  \<open>sanitizer\<close>, so they agree on every value.
\<close>

fun jsonSafe :: "json \<Rightarrow> json" where
  "jsonSafe (JNum x) = (if is_finite x then JNum x else JNull)"
| "jsonSafe (JArr xs) = JArr (map (\<lambda>x. jsonSafe x) xs)"
| "jsonSafe (JObj fs) = JObj (map (\<lambda>kv. (fst kv, jsonSafe (snd kv))) fs)"
| "jsonSafe v = v"

fun sanitizeForJsonb :: "json \<Rightarrow> json" where
  "sanitizeForJsonb v = (case v of
       JNum x \<Rightarrow> if is_finite x then v else JNull
     | JNull \<Rightarrow> v | JUndef \<Rightarrow> v | JBool b \<Rightarrow> v | JBig i \<Rightarrow> v | JStr s \<Rightarrow> v
     | JArr xs \<Rightarrow> JArr (map (\<lambda>x. sanitizeForJsonb x) xs)
     | JObj fs \<Rightarrow> JObj (map (\<lambda>kv. (fst kv, sanitizeForJsonb (snd kv))) fs))"

declare sanitizeForJsonb.simps [simp del]

lemma jsonSafe_spec: "jsonSafe v = finite_json v"
  by (induction v rule: jsonSafe.induct) auto

lemma sanitizeForJsonb_spec: "sanitizeForJsonb v = finite_json v"
proof (induction v rule: sanitizeForJsonb.induct)
  case (1 v)
  then show ?case by (cases v) (simp_all add: sanitizeForJsonb.simps)
qed

interpretation relay: sanitizer jsonSafe
  by unfold_locales (rule jsonSafe_spec)

interpretation persist: sanitizer sanitizeForJsonb
  by unfold_locales (rule sanitizeForJsonb_spec)

text \<open>A property of the object that is undefined, and a property access on undefined.\<close>

definition jundef :: "number option \<Rightarrow> json" where
  "jundef x = (case x of None \<Rightarrow> JUndef | Some y \<Rightarrow> JNum y)"

definition read_prop :: "string \<Rightarrow> 'a option \<Rightarrow> 'a res" where
  "read_prop p x = (case x of
       None \<Rightarrow> throw ETypeError (''Cannot read properties of undefined (reading '' @ [CHR 39] @ p @ [CHR 39] @ '')'')
     | Some y \<Rightarrow> Inr y)"

definition rev_share_fields :: "rev_share option \<Rightarrow> (string \<times> json) list" where
  "rev_share_fields r = (case r of None \<Rightarrow> []
     | Some rs \<Rightarrow>
        [(''bidTooLowPenaltyPmpe'', jundef (rs_bidTooLowPenaltyPmpe rs)),
         (''blacklistPenaltyPmpe'', jundef (rs_blacklistPenaltyPmpe rs)),
         (''expectedMaxEffBidPmpe'', jundef (rs_expectedMaxEffBidPmpe rs)),
         (''onchainDistributedPmpe'', jundef (rs_onchainDistributedPmpe rs)),
         (''activatingStakePmpe'', jundef (rs_activatingStakePmpe rs))] @ rs_others rs)"

definition cap_json :: "cap_constraint option \<Rightarrow> json" where
  "cap_json c = (case c of None \<Rightarrow> JNull
     | Some cap \<Rightarrow> JObj
        [(''constraintType'', JStr (cap_constraintType cap)),
         (''constraintName'', JStr (cap_constraintName cap)),
         (''totalStakeSol'', JNum (cap_totalStakeSol cap)),
         (''totalLeftToCapSol'', JNum (cap_totalLeftToCapSol cap)),
         (''marinadeStakeSol'', JNum (cap_marinadeStakeSol cap)),
         (''marinadeLeftToCapSol'', JNum (cap_marinadeLeftToCapSol cap))])"

definition toCalcValidator :: "auction_validator \<Rightarrow> json res" where
  "toCalcValidator v =
     rbind (read_prop ''marinadeSamTargetSol'' (av_auctionStake v)) (\<lambda>target.
     rbind (read_prop ''bondRiskFeeSol'' (av_values v)) (\<lambda>vals.
     Inr (jsonSafe (JObj
       [(''voteAccount'', JStr (av_voteAccount v)),
        (''bondBalanceSol'', jopt (av_bondBalanceSol v)),
        (''claimableBondBalanceSol'', jopt (av_claimableBondBalanceSol v)),
        (''marinadeActivatedStakeSol'', JNum (av_marinadeActivatedStakeSol v)),
        (''unprotectedStakeSol'', jundef (av_unprotectedStakeSol v)),
        (''maxStakeWanted'', jopt (av_maxStakeWanted v)),
        (''samEligible'', JBool (av_samEligible v)),
        (''samBlocked'', JBool (av_samBlocked v)),
        (''minBondPmpe'', JNum (av_minBondPmpe v)),
        (''idealBondPmpe'', JNum (av_idealBondPmpe v)),
        (''minUnprotectedReserve'', JNum (av_minUnprotectedReserve v)),
        (''idealUnprotectedReserve'', JNum (av_idealUnprotectedReserve v)),
        (''bondGoodForNEpochs'', jundef (av_bondGoodForNEpochs v)),
        (''unstakePriority'', jundef (av_unstakePriority v)),
        (''auctionStake'', JObj [(''marinadeSamTargetSol'', JNum target)]),
        (''bondForcedUndelegation'', JObj [(''value'', jopt (av_bondForcedUndelegation v))]),
        (''revShare'', JObj (rev_share_fields (av_revShare v))),
        (''values'', JObj
           [(''bondRiskFeeSol'', jundef (va_bondRiskFeeSol vals)),
            (''paidUndelegationSol'', jundef (va_paidUndelegationSol vals))]),
        (''lastCapConstraint'', cap_json (av_lastCapConstraint v)),
        (''auctions'', JArr (map (\<lambda>a. JObj
           [(''bidPmpe'', jundef (fst a)), (''effParticipatingBidPmpe'', jundef (snd a))])
           (av_auctions v)))]))))"

lemma toCalcValidator_finite: "toCalcValidator v = Inr j \<Longrightarrow> all_finite j"
  by (auto simp only: toCalcValidator_def rbind_eq_Inr sum.inject relay.sanitized_finite)

lemma toCalcValidator_ok:
  "is_ok (toCalcValidator v) \<longleftrightarrow> av_auctionStake v \<noteq> None \<and> av_values v \<noteq> None"
  by (cases "av_auctionStake v"; cases "av_values v") (simp_all add: toCalcValidator_def read_prop_def)

end
