(* ===== verification/Sdk_Address.thy ===== *)
theory Sdk_Address
  imports Js_Number "HOL-Library.Word" "HOL-Library.Sublist"
begin

text \<open>
  Program-derived addresses: \<open>packages/validator-bonds-sdk/src/sdk.ts\<close> and the product
  type names of \<open>productBond.ts\<close>. \<open>PublicKey\<close> is web3.js, which is not under src/: its
  constructor, its base58 form and \<open>findProgramAddressSync\<close> are the fields of the record
  \<open>solana_lib\<close>, an argument of every definition that uses them. A public key is the byte
  sequence \<open>toBytes()\<close> returns (32 bytes, \<open>is_key\<close>).

  The seeds are those of \<open>idl/json/validator_bonds.json\<close>. The main facts: the little-endian
  epoch bytes determine the epoch (\<open>le_val_bytes\<close>), and the byte strings that are hashed
  into addresses never collide, neither between the kinds of accounts nor within one
  (\<open>pda_preimage_inject\<close>).
\<close>

type_synonym byte = "8 word"
type_synonym pubkey = "byte list"

record solana_lib =
  pk_of_str :: "string \<Rightarrow> pubkey res"
  pk_b58 :: "pubkey \<Rightarrow> string"
  find_pda :: "byte list list \<Rightarrow> pubkey \<Rightarrow> (pubkey \<times> nat) res"

definition is_key :: "pubkey \<Rightarrow> bool" where
  "is_key k \<longleftrightarrow> length k = 32"

definition bytes_of :: "string \<Rightarrow> byte list" where
  "bytes_of s = map of_char s"

definition default_key :: pubkey where
  "default_key = replicate 32 0"

section \<open>Little-endian integers\<close>

fun le_bytes :: "nat \<Rightarrow> int \<Rightarrow> byte list" where
  "le_bytes 0 n = []"
| "le_bytes (Suc k) n = word_of_int n # le_bytes k (n div 256)"

fun le_val :: "byte list \<Rightarrow> int" where
  "le_val [] = 0"
| "le_val (b # bs) = uint b + 256 * le_val bs"

lemma length_le_bytes [simp]: "length (le_bytes k n) = k"
  by (induction k arbitrary: n) auto

lemma zdiv_lessI:
  fixes n a b :: int
  assumes "n < a * b" and "0 < a"
  shows "n div a < b"
proof (rule ccontr)
  assume "\<not> n div a < b"
  then have "a * b \<le> a * (n div a)" using assms(2) by simp
  also have "\<dots> \<le> n" using assms(2) pos_mod_sign [of a n] mult_div_mod_eq [of a n] by linarith
  finally show False using assms(1) by simp
qed

lemma le_val_bytes: "0 \<le> n \<Longrightarrow> n < 256 ^ k \<Longrightarrow> le_val (le_bytes k n) = n"
proof (induction k arbitrary: n)
  case 0
  then show ?case by simp
next
  case (Suc k)
  then have "n div 256 < 256 ^ k"
    by (intro zdiv_lessI) simp_all
  with Suc have "le_val (le_bytes k (n div 256)) = n div 256" by simp
  then show ?case by (simp add: uint_word_of_int)
qed

text \<open>The epoch argument is an \<open>EpochInfo\<close>, a number, a BN or a bigint.\<close>

datatype epoch_arg = EpochInfoArg number | NumArg number | BnArg int | BigArg int

definition epoch_bigint :: "epoch_arg \<Rightarrow> int res" where
  "epoch_bigint a = (case a of
       NumArg x \<Rightarrow> bigint_of_str (num_str x)
     | BnArg i \<Rightarrow> bigint_of_str (int_str i)
     | BigArg i \<Rightarrow> bigint_of_str (int_str i)
     | EpochInfoArg x \<Rightarrow> bigint_of_num x)"

definition write_u64_le :: "int \<Rightarrow> byte list res" where
  "write_u64_le n =
     (if 0 \<le> n \<and> n < 2 ^ 64 then Inr (le_bytes 8 n)
      else throw ERangeError (''The value of \"value\" is out of range.''))"

definition uintToBuffer :: "epoch_arg \<Rightarrow> byte list res" where
  "uintToBuffer a = rbind (epoch_bigint a) write_u64_le"

lemma uintToBuffer_BN:
  "0 \<le> n \<Longrightarrow> n < 2 ^ 64 \<Longrightarrow> uintToBuffer (BnArg n) = Inr (le_bytes 8 n)"
  by (simp add: uintToBuffer_def epoch_bigint_def write_u64_le_def)

section \<open>Product types\<close>

datatype product_type = PCommission | PCustom string

definition getProductTypeName :: "product_type \<Rightarrow> string" where
  "getProductTypeName t = (case t of PCommission \<Rightarrow> ''commission'' | PCustom s \<Rightarrow> s)"

definition getProductTypeNameSeed :: "product_type \<Rightarrow> byte list" where
  "getProductTypeNameSeed t = bytes_of (getProductTypeName t)"

section \<open>Constants\<close>

definition MARINADE_CONFIG_B58 :: string where
  "MARINADE_CONFIG_B58 = ''vbMaRfmTCg92HWGzmd53APkMNpPnGVGZTUHwUJQkXAU''"

definition MARINADE_INSTITUTIONAL_CONFIG_B58 :: string where
  "MARINADE_INSTITUTIONAL_CONFIG_B58 = ''VbinSTyUEC8JXtzFteC4ruKSfs6dkQUUcY6wB1oJyjE''"

definition VALIDATOR_BONDS_PROGRAM_ID_B58 :: string where
  "VALIDATOR_BONDS_PROGRAM_ID_B58 = ''vBoNdEvzMrSai7is21XgVYik65mqtaKXuSdMBJ1xkW4''"

definition BOND_SEED :: "byte list" where "BOND_SEED = bytes_of ''bond_account''"
definition BOND_PRODUCT_SEED :: "byte list" where "BOND_PRODUCT_SEED = bytes_of ''bond_product''"
definition BOND_MINT_SEED :: "byte list" where "BOND_MINT_SEED = bytes_of ''bond_mint''"
definition SETTLEMENT_SEED :: "byte list" where "SETTLEMENT_SEED = bytes_of ''settlement_account''"
definition WITHDRAW_REQUEST_SEED :: "byte list" where
  "WITHDRAW_REQUEST_SEED = bytes_of ''withdraw_account''"
definition SETTLEMENT_CLAIMS_SEED :: "byte list" where
  "SETTLEMENT_CLAIMS_SEED = bytes_of ''claims_account''"
definition BONDS_WITHDRAWER_AUTHORITY_SEED :: "byte list" where
  "BONDS_WITHDRAWER_AUTHORITY_SEED = bytes_of ''bonds_authority''"
definition SETTLEMENT_STAKER_AUTHORITY_SEED :: "byte list" where
  "SETTLEMENT_STAKER_AUTHORITY_SEED = bytes_of ''settlement_authority''"
definition EVENT_AUTHORITY_SEED :: "byte list" where
  "EVENT_AUTHORITY_SEED = bytes_of ''__event_authority''"

definition SETTLEMENT_CLAIMS_ANCHOR_HEADER_SIZE :: nat where
  "SETTLEMENT_CLAIMS_ANCHOR_HEADER_SIZE = 56"

section \<open>Addresses\<close>

definition bondAddress :: "solana_lib \<Rightarrow> pubkey \<Rightarrow> pubkey \<Rightarrow> pubkey \<Rightarrow> (pubkey \<times> nat) res" where
  "bondAddress sl config voteAccount programId =
     find_pda sl [BOND_SEED, config, voteAccount] programId"

definition bondProductAddress ::
    "solana_lib \<Rightarrow> pubkey \<Rightarrow> product_type \<Rightarrow> pubkey \<Rightarrow> (pubkey \<times> nat) res" where
  "bondProductAddress sl bond productType programId =
     find_pda sl [BOND_PRODUCT_SEED, bond, getProductTypeNameSeed productType] programId"

definition bondsWithdrawerAuthority :: "solana_lib \<Rightarrow> pubkey \<Rightarrow> pubkey \<Rightarrow> (pubkey \<times> nat) res" where
  "bondsWithdrawerAuthority sl config programId =
     find_pda sl [BONDS_WITHDRAWER_AUTHORITY_SEED, config] programId"

definition settlementAddress ::
    "solana_lib \<Rightarrow> pubkey \<Rightarrow> byte list \<Rightarrow> epoch_arg \<Rightarrow> pubkey \<Rightarrow> (pubkey \<times> nat) res" where
  "settlementAddress sl bond merkleRoot epoch programId =
     rbind (uintToBuffer epoch) (\<lambda>epochBuffer.
       find_pda sl [SETTLEMENT_SEED, bond, merkleRoot, epochBuffer] programId)"

definition settlementStakerAuthority :: "solana_lib \<Rightarrow> pubkey \<Rightarrow> pubkey \<Rightarrow> (pubkey \<times> nat) res" where
  "settlementStakerAuthority sl settlement programId =
     find_pda sl [SETTLEMENT_STAKER_AUTHORITY_SEED, settlement] programId"

definition settlementClaimsAddress :: "solana_lib \<Rightarrow> pubkey \<Rightarrow> pubkey \<Rightarrow> (pubkey \<times> nat) res" where
  "settlementClaimsAddress sl settlement programId =
     find_pda sl [SETTLEMENT_CLAIMS_SEED, settlement] programId"

definition withdrawRequestAddress :: "solana_lib \<Rightarrow> pubkey \<Rightarrow> pubkey \<Rightarrow> (pubkey \<times> nat) res" where
  "withdrawRequestAddress sl bond programId = find_pda sl [WITHDRAW_REQUEST_SEED, bond] programId"

definition bondMintAddress ::
    "solana_lib \<Rightarrow> pubkey \<Rightarrow> pubkey \<Rightarrow> pubkey \<Rightarrow> (pubkey \<times> nat) res" where
  "bondMintAddress sl bond validatorIdentity programId =
     find_pda sl [BOND_MINT_SEED, bond, validatorIdentity] programId"

definition eventAuthorityAddress :: "solana_lib \<Rightarrow> pubkey \<Rightarrow> (pubkey \<times> nat) res" where
  "eventAuthorityAddress sl programId = find_pda sl [EVENT_AUTHORITY_SEED] programId"

section \<open>Resolving optional accounts: \<open>utils.ts\<close>\<close>

definition checkAndGetBondAddress ::
    "solana_lib \<Rightarrow> pubkey option \<Rightarrow> pubkey option \<Rightarrow> pubkey option \<Rightarrow> pubkey \<Rightarrow> pubkey res" where
  "checkAndGetBondAddress sl bond config voteAccount programId =
     (case bond of Some b \<Rightarrow> Inr b
      | None \<Rightarrow> (case (config, voteAccount) of
          (Some c, Some v) \<Rightarrow> rbind (bondAddress sl c v programId) (\<lambda>r. Inr (fst r))
        | _ \<Rightarrow> throw EError ''Either [bondAccount] or [config and voteAccount] is required''))"

definition checkAndGetBondProductAddress ::
    "solana_lib \<Rightarrow> pubkey option \<Rightarrow> pubkey option \<Rightarrow> pubkey option \<Rightarrow> pubkey option
      \<Rightarrow> product_type option \<Rightarrow> pubkey \<Rightarrow> pubkey res" where
  "checkAndGetBondProductAddress sl bondProduct config bond voteAccount productType programId =
     (case bondProduct of Some p \<Rightarrow> Inr p
      | None \<Rightarrow> (case (bond, productType) of
          (Some b, Some t) \<Rightarrow> rbind (bondProductAddress sl b t programId) (\<lambda>r. Inr (fst r))
        | _ \<Rightarrow> (case (config, voteAccount, productType) of
            (Some c, Some v, Some t) \<Rightarrow>
              rbind (bondAddress sl c v programId) (\<lambda>b.
                rbind (bondProductAddress sl (fst b) t programId) (\<lambda>r. Inr (fst r)))
          | _ \<Rightarrow> throw EError ''Either [bondProduct] or [bond and productType] or [config, voteAccount and productType] is required'')))"

section \<open>The hashed byte strings never collide\<close>

text \<open>
  \<open>findProgramAddress\<close> hashes the concatenation of the seeds (and the bump, the program id
  and a marker), so two accounts can only get one address through equal concatenations or a
  hash collision. \<open>pda_seeds\<close> lists the accounts of the program by kind.
\<close>

datatype pda =
    BondPda pubkey pubkey
  | ProductPda pubkey product_type
  | WithdrawerPda pubkey
  | SettlementPda pubkey "byte list" int
  | StakerPda pubkey
  | ClaimsPda pubkey
  | WithdrawRequestPda pubkey
  | MintPda pubkey pubkey

fun pda_seeds :: "pda \<Rightarrow> byte list list" where
  "pda_seeds (BondPda c v) = [BOND_SEED, c, v]"
| "pda_seeds (ProductPda b t) = [BOND_PRODUCT_SEED, b, getProductTypeNameSeed t]"
| "pda_seeds (WithdrawerPda c) = [BONDS_WITHDRAWER_AUTHORITY_SEED, c]"
| "pda_seeds (SettlementPda b r n) = [SETTLEMENT_SEED, b, r, le_bytes 8 n]"
| "pda_seeds (StakerPda s) = [SETTLEMENT_STAKER_AUTHORITY_SEED, s]"
| "pda_seeds (ClaimsPda s) = [SETTLEMENT_CLAIMS_SEED, s]"
| "pda_seeds (WithdrawRequestPda b) = [WITHDRAW_REQUEST_SEED, b]"
| "pda_seeds (MintPda b i) = [BOND_MINT_SEED, b, i]"

fun pda_address :: "solana_lib \<Rightarrow> pubkey \<Rightarrow> pda \<Rightarrow> (pubkey \<times> nat) res" where
  "pda_address sl pid (BondPda c v) = bondAddress sl c v pid"
| "pda_address sl pid (ProductPda b t) = bondProductAddress sl b t pid"
| "pda_address sl pid (WithdrawerPda c) = bondsWithdrawerAuthority sl c pid"
| "pda_address sl pid (SettlementPda b r n) = settlementAddress sl b r (BnArg n) pid"
| "pda_address sl pid (StakerPda s) = settlementStakerAuthority sl s pid"
| "pda_address sl pid (ClaimsPda s) = settlementClaimsAddress sl s pid"
| "pda_address sl pid (WithdrawRequestPda b) = withdrawRequestAddress sl b pid"
| "pda_address sl pid (MintPda b i) = bondMintAddress sl b i pid"

fun pda_ok :: "pda \<Rightarrow> bool" where
  "pda_ok (BondPda c v) = (is_key c \<and> is_key v)"
| "pda_ok (ProductPda b t) = is_key b"
| "pda_ok (WithdrawerPda c) = is_key c"
| "pda_ok (SettlementPda b r n) = (is_key b \<and> length r = 32 \<and> 0 \<le> n \<and> n < 2 ^ 64)"
| "pda_ok (StakerPda s) = is_key s"
| "pda_ok (ClaimsPda s) = is_key s"
| "pda_ok (WithdrawRequestPda b) = is_key b"
| "pda_ok (MintPda b i) = (is_key b \<and> is_key i)"

lemmas seed_defs = BOND_SEED_def BOND_PRODUCT_SEED_def BONDS_WITHDRAWER_AUTHORITY_SEED_def
  SETTLEMENT_SEED_def SETTLEMENT_STAKER_AUTHORITY_SEED_def SETTLEMENT_CLAIMS_SEED_def
  WITHDRAW_REQUEST_SEED_def BOND_MINT_SEED_def bytes_of_def

lemmas address_defs = bondAddress_def bondProductAddress_def bondsWithdrawerAuthority_def
  settlementAddress_def settlementStakerAuthority_def settlementClaimsAddress_def
  withdrawRequestAddress_def bondMintAddress_def

lemma pda_address_seeds:
  "pda_ok p \<Longrightarrow> pda_address sl pid p = find_pda sl (pda_seeds p) pid"
  by (cases p) (simp_all add: address_defs uintToBuffer_BN)

lemma of_char_byte_inject: "(of_char c :: byte) = of_char d \<longleftrightarrow> c = d"
proof -
  have unat: "unat (of_char e :: byte) = of_char e" for e :: char
  proof -
    have "unat (of_nat (of_char e) :: byte) = of_char e mod 2 ^ 8" by (simp add: unat_of_nat)
    also have "\<dots> = of_char e" using nat_of_char_less_256 [of e] by (simp del: nat_of_char_less_256)
    finally show ?thesis by (simp add: of_nat_of_char)
  qed
  have "c = d" if "(of_char c :: byte) = of_char d"
  proof -
    from that have "unat (of_char c :: byte) = unat (of_char d :: byte)" by simp
    then show ?thesis by (simp add: unat)
  qed
  then show ?thesis by auto
qed

lemma bytes_of_inject [simp]: "bytes_of s = bytes_of t \<longleftrightarrow> s = t"
  unfolding bytes_of_def by (simp add: inj_map_eq_map inj_def of_char_byte_inject)

text \<open>The kind of an account can be read off the first bytes of what is hashed.\<close>

definition pda_kind_of :: "byte list \<Rightarrow> nat" where
  "pda_kind_of xs =
     (if xs ! 0 = of_char (CHR ''c'') then 5
      else if xs ! 0 = of_char (CHR ''w'') then 6
      else if xs ! 0 = of_char (CHR ''s'') then (if xs ! 12 = of_char (CHR ''c'') then 3 else 4)
      else if xs ! 4 = of_char (CHR ''s'') then 2
      else if xs ! 5 = of_char (CHR ''a'') then 0
      else if xs ! 5 = of_char (CHR ''p'') then 1 else 7)"

fun pda_kind :: "pda \<Rightarrow> nat" where
  "pda_kind (BondPda c v) = 0"
| "pda_kind (ProductPda b t) = 1"
| "pda_kind (WithdrawerPda c) = 2"
| "pda_kind (SettlementPda b r n) = 3"
| "pda_kind (StakerPda s) = 4"
| "pda_kind (ClaimsPda s) = 5"
| "pda_kind (WithdrawRequestPda b) = 6"
| "pda_kind (MintPda b i) = 7"

lemma nth_bytes_of: "i < length s \<Longrightarrow> (bytes_of s @ t) ! i = of_char (s ! i)"
  by (simp add: bytes_of_def nth_append)

definition seed_kind :: "string \<Rightarrow> nat" where
  "seed_kind s =
     (if s ! 0 = CHR ''c'' then 5 else if s ! 0 = CHR ''w'' then 6
      else if s ! 0 = CHR ''s'' then (if s ! 12 = CHR ''c'' then 3 else 4)
      else if s ! 4 = CHR ''s'' then 2
      else if s ! 5 = CHR ''a'' then 0 else if s ! 5 = CHR ''p'' then 1 else 7)"

lemma pda_kind_of_bytes:
  assumes "5 < length s" and "s ! 0 = CHR ''s'' \<longrightarrow> 12 < length s"
  shows "pda_kind_of (bytes_of s @ t) = seed_kind s"
proof -
  from assms(1) have "0 < length s" "4 < length s" by linarith+
  then have nth: "(bytes_of s @ t) ! 0 = of_char (s ! 0)" "(bytes_of s @ t) ! 4 = of_char (s ! 4)"
    "(bytes_of s @ t) ! 5 = of_char (s ! 5)"
    using assms(1) by (auto intro: nth_bytes_of simp del: of_char_Char)
  show ?thesis
  proof (cases "s ! 0 = CHR ''s''")
    case True
    with assms(2) have "(bytes_of s @ t) ! 12 = of_char (s ! 12)" by (intro nth_bytes_of) simp
    with nth True show ?thesis
      by (simp only: pda_kind_of_def seed_kind_def of_char_byte_inject)
  next
    case False
    with nth show ?thesis
      by (simp only: pda_kind_of_def seed_kind_def of_char_byte_inject if_False)
  qed
qed

lemma seed_kinds:
  "seed_kind ''bond_account'' = 0" "seed_kind ''bond_product'' = 1" "seed_kind ''bonds_authority'' = 2"
  "seed_kind ''settlement_account'' = 3" "seed_kind ''settlement_authority'' = 4"
  "seed_kind ''claims_account'' = 5" "seed_kind ''withdraw_account'' = 6" "seed_kind ''bond_mint'' = 7"
  by (simp_all add: seed_kind_def)

lemma seed_kind_bytes:
  "pda_kind_of (BOND_SEED @ t) = 0" "pda_kind_of (BOND_PRODUCT_SEED @ t) = 1"
  "pda_kind_of (BONDS_WITHDRAWER_AUTHORITY_SEED @ t) = 2" "pda_kind_of (SETTLEMENT_SEED @ t) = 3"
  "pda_kind_of (SETTLEMENT_STAKER_AUTHORITY_SEED @ t) = 4"
  "pda_kind_of (SETTLEMENT_CLAIMS_SEED @ t) = 5" "pda_kind_of (WITHDRAW_REQUEST_SEED @ t) = 6"
  "pda_kind_of (BOND_MINT_SEED @ t) = 7"
  unfolding BOND_SEED_def BOND_PRODUCT_SEED_def BONDS_WITHDRAWER_AUTHORITY_SEED_def
    SETTLEMENT_SEED_def SETTLEMENT_STAKER_AUTHORITY_SEED_def SETTLEMENT_CLAIMS_SEED_def
    WITHDRAW_REQUEST_SEED_def BOND_MINT_SEED_def
  by (subst pda_kind_of_bytes, simp, simp, rule seed_kinds)+

lemma pda_kind_of_seeds: "pda_kind_of (concat (pda_seeds p)) = pda_kind p"
  by (cases p) (simp_all only: pda_seeds.simps concat.simps seed_kind_bytes pda_kind.simps)

lemma le_bytes_inject:
  assumes "0 \<le> m" and "m < 2 ^ 64" and "0 \<le> n" and "n < 2 ^ 64"
    and "le_bytes 8 m = le_bytes 8 n"
  shows "m = n"
proof -
  have pow: "(2::int) ^ 64 = 256 ^ 8" by simp
  have "le_val (le_bytes 8 m) = m" "le_val (le_bytes 8 n) = n"
    using assms(1-4) unfolding pow by (simp_all only: le_val_bytes)
  with assms(5) show ?thesis by metis
qed

lemma pda_kind_eq:
  "concat (pda_seeds p) = concat (pda_seeds q) \<Longrightarrow> pda_kind p = pda_kind q"
  by (metis pda_kind_of_seeds)

lemma pda_preimage_cases:
  assumes ok: "pda_ok p" "pda_ok q" and eq: "concat (pda_seeds p) = concat (pda_seeds q)"
  shows "p = q \<or> (\<exists>b t u. p = ProductPda b t \<and> q = ProductPda b u
           \<and> getProductTypeName t = getProductTypeName u)"
proof -
  note kind = pda_kind_eq [OF eq]
  show ?thesis
  proof (cases p)
    case (SettlementPda b r n)
    with kind obtain b' r' n' where q: "q = SettlementPda b' r' n'" by (cases q) simp_all
    from ok eq have "b = b' \<and> r = r' \<and> le_bytes 8 n = le_bytes 8 n'"
      by (simp add: SettlementPda q is_key_def)
    moreover from this ok have "n = n'"
      by (intro le_bytes_inject) (simp_all add: SettlementPda q)
    ultimately show ?thesis by (simp add: SettlementPda q)
  qed (use kind ok eq in \<open>cases q; simp add: is_key_def getProductTypeNameSeed_def\<close>)+
qed

text \<open>
  The only two accounts that share a byte string are the commission product and a custom
  product that is itself named \<open>commission\<close>.
\<close>

lemma pda_preimage_inject:
  assumes "pda_ok p" and "pda_ok q" and "concat (pda_seeds p) = concat (pda_seeds q)"
  shows "p = q \<or> (\<exists>b. {p, q} = {ProductPda b PCommission, ProductPda b (PCustom ''commission'')})"
  using pda_preimage_cases [OF assms]
proof (elim disjE exE conjE)
  fix b t u
  assume *: "p = ProductPda b t" "q = ProductPda b u" "getProductTypeName t = getProductTypeName u"
  then show ?thesis
    by (cases t; cases u) (auto simp: getProductTypeName_def insert_commute)
qed simp

end
