(* ===== verification/Ev_Deltas.thy ===== *)
theory Ev_Deltas
  imports Ev_Relay Sdk_Address
begin

text \<open>
  The bidding evaluation: \<open>packages/bonds-eventing/src/evaluate-deltas.ts\<close>. The current
  auction data is compared with the state saved by the previous run; each difference is one
  event. \<open>now\<close> is the text of \<open>new Date().toISOString()\<close>, \<open>sl\<close> the parameter for web3.js.

  \<open>validator_quiescent\<close> is the fact the pipeline rests on: a validator compared with the
  state that \<open>validatorToState\<close> makes of it in the same epoch has no event.
\<close>

section \<open>Text fragments\<close>

definition arrow_str :: string where
  "arrow_str = '' '' @ [CHR 0xE2, CHR 0x86, CHR 0x92] @ '' ''"

definition delta_str :: string where
  "delta_str = [CHR 0xCE, CHR 0x94] @ '' ''"

definition str_null :: "number option \<Rightarrow> string" where
  "str_null x = (case x of None \<Rightarrow> ''null'' | Some y \<Rightarrow> num_str y)"

definition bool_str :: "bool \<Rightarrow> string" where
  "bool_str b = (if b then ''true'' else ''false'')"

definition buildUnderfundedMessage :: "string \<Rightarrow> number option \<Rightarrow> number option
    \<Rightarrow> number option \<Rightarrow> number option \<Rightarrow> bool \<Rightarrow> string" where
  "buildUnderfundedMessage voteAccount prevEpochs currEpochs prevDeficitSol currDeficitSol newlyKnown =
     (if newlyKnown \<and> currEpochs \<noteq> None
      then ''Validator '' @ voteAccount @ '' bond coverage is now '' @ fmtEpochs currEpochs
           @ '' epochs (was unknown).''
      else
        (let coverage = (case (prevEpochs, currEpochs) of
               (Some p, Some c) \<Rightarrow> [''coverage '' @ fmtEpochs prevEpochs @ arrow_str @ fmtEpochs currEpochs
                  @ '' epochs ('' @ delta_str @ fmtSigned (n_sub c p) @ '')'']
             | (None, Some c) \<Rightarrow> [''coverage '' @ fmtEpochs currEpochs @ '' epochs'']
             | _ \<Rightarrow> []);
             topup = (case (prevDeficitSol, currDeficitSol) of
               (Some p, Some c) \<Rightarrow> [''top-up needed '' @ fmtSol prevDeficitSol @ arrow_str
                  @ fmtSol currDeficitSol @ '' SOL ('' @ delta_str @ fmtSigned (n_sub c p) @ '')'']
             | (None, Some c) \<Rightarrow> [''top-up needed '' @ fmtSol currDeficitSol @ '' SOL'']
             | _ \<Rightarrow> []);
             parts = coverage @ topup;
             body = (if parts \<noteq> [] then js_join '', '' parts else ''underfunding state changed'')
         in ''Validator '' @ voteAccount @ '' bond '' @ body @ ''.''))"

section \<open>Reading the validator\<close>

definition configAddressForBondType :: "solana_lib \<Rightarrow> bond_type \<Rightarrow> pubkey res" where
  "configAddressForBondType sl bondType = (case bondType of
       Bidding \<Rightarrow> pk_of_str sl MARINADE_CONFIG_B58
     | Institutional \<Rightarrow> pk_of_str sl MARINADE_INSTITUTIONAL_CONFIG_B58)"

definition isInAuction :: "auction_validator \<Rightarrow> bool" where
  "isInAuction v \<longleftrightarrow> n_lt (Fin 0) (orElse (av_auctionStake v) (Fin 0))"

record penalties =
  pn_total :: number
  pn_bidTooLow :: number
  pn_blacklist :: number
  pn_bondRiskFee :: number

definition buildPenaltyExpectedMessage :: "string \<Rightarrow> penalties \<Rightarrow> number \<Rightarrow> string" where
  "buildPenaltyExpectedMessage voteAccount p activatingStakeFee =
     (let components =
            (if n_lt (Fin 0) (pn_bidTooLow p)
             then [''bid-too-low penalty '' @ to_fixed 4 (pn_bidTooLow p) @ '' SOL''] else [])
          @ (if n_lt (Fin 0) (pn_blacklist p)
             then [''blacklist penalty '' @ to_fixed 4 (pn_blacklist p) @ '' SOL''] else [])
          @ (if n_lt (Fin 0) (pn_bondRiskFee p)
             then [''bond risk fee '' @ to_fixed 4 (pn_bondRiskFee p) @ '' SOL''] else []);
          bondSideSentence =
            (if length components = 1
             then Some (''Validator '' @ voteAccount @ '' is predicted to incur a '' @ hd components
                        @ '' this epoch.'')
             else if 2 \<le> length components
             then Some (''Validator '' @ voteAccount @ '' is predicted to incur charges totaling ''
                        @ to_fixed 4 (pn_total p) @ '' SOL this epoch: '' @ js_join '', '' components @ ''.'')
             else None)
      in if n_lt (Fin 0) activatingStakeFee
         then (case bondSideSentence of
             Some s \<Rightarrow> s @ '' '' @ ''In addition, an activating-stake fee of '' @ to_fixed 4 activatingStakeFee
                 @ '' SOL will be charged (separate from bond penalties).''
           | None \<Rightarrow> ''Validator '' @ voteAccount
                 @ '' is predicted to be charged an activating-stake fee of '' @ to_fixed 4 activatingStakeFee
                 @ '' SOL this epoch (separate from bond penalties).'')
         else orElse bondSideSentence '''')"

definition getCapConstraint :: "auction_validator \<Rightarrow> string option" where
  "getCapConstraint v = map_option cap_constraintType (av_lastCapConstraint v)"

definition getCapMarinadeStakeSol :: "auction_validator \<Rightarrow> number option" where
  "getCapMarinadeStakeSol v = map_option cap_marinadeStakeSol (av_lastCapConstraint v)"

definition VALID_CAP_TYPES :: "string list" where
  "VALID_CAP_TYPES = [''COUNTRY'', ''ASO'', ''VALIDATOR'', ''BOND'', ''WANT'', ''RISK'']"

definition asCapType :: "string option \<Rightarrow> string option" where
  "asCapType value = (case value of None \<Rightarrow> None
     | Some s \<Rightarrow> if s \<in> set VALID_CAP_TYPES then Some s else None)"

definition rs_get :: "(rev_share \<Rightarrow> number option) \<Rightarrow> auction_validator \<Rightarrow> number option" where
  "rs_get f v = (case av_revShare v of None \<Rightarrow> None | Some rs \<Rightarrow> f rs)"

definition computePenalties :: "auction_validator \<Rightarrow> penalties" where
  "computePenalties v =
     (let stake = finiteOr (Some (av_marinadeActivatedStakeSol v)) (Fin 0);
          bidTooLow = n_mul (n_div (finiteOr (rs_get rs_bidTooLowPenaltyPmpe v) (Fin 0)) (Fin 1000)) stake;
          blacklist = n_mul (n_div (finiteOr (rs_get rs_blacklistPenaltyPmpe v) (Fin 0)) (Fin 1000)) stake;
          bondRiskFee = finiteOr (Option.bind (av_values v) va_bondRiskFeeSol) (Fin 0)
      in \<lparr> pn_total = n_add (n_add bidTooLow blacklist) bondRiskFee,
           pn_bidTooLow = bidTooLow, pn_blacklist = blacklist, pn_bondRiskFee = bondRiskFee \<rparr>)"

record deficit_metrics =
  dm_epoch_cost_sol :: "number option"
  dm_expected_max_eff_bid_pmpe :: "number option"
  dm_deficit_sol :: "number option"
  dm_required_sol :: "number option"

definition no_metrics :: deficit_metrics where
  "no_metrics = \<lparr> dm_epoch_cost_sol = None, dm_expected_max_eff_bid_pmpe = None,
     dm_deficit_sol = None, dm_required_sol = None \<rparr>"

definition computeDeficitMetrics :: "auction_validator \<Rightarrow> deficit_metrics" where
  "computeDeficitMetrics v =
     (let stake = av_marinadeActivatedStakeSol v in
      case rs_get rs_expectedMaxEffBidPmpe v of
        None \<Rightarrow> no_metrics
      | Some pmpe \<Rightarrow>
          if \<not> is_finite pmpe \<or> stake = Fin 0 \<or> \<not> is_finite stake then no_metrics
          else (let epochCostSol = n_mul (n_div pmpe (Fin 1000)) stake;
                    protectedStakeSol = n_max (Fin 0)
                      (n_sub stake (finiteOr (av_unprotectedStakeSol v) (Fin 0)));
                    onchainCostSol = (case rs_get rs_onchainDistributedPmpe v of
                        None \<Rightarrow> Fin 0
                      | Some onchainPmpe \<Rightarrow> if is_finite onchainPmpe
                          then n_mul (n_div onchainPmpe (Fin 1000)) protectedStakeSol else Fin 0);
                    requiredSol = n_add onchainCostSol epochCostSol;
                    bondBalance = finiteOr (av_bondBalanceSol v) (Fin 0);
                    deficitSol = n_max (Fin 0) (n_sub requiredSol bondBalance)
                in \<lparr> dm_epoch_cost_sol = Some epochCostSol, dm_expected_max_eff_bid_pmpe = Some pmpe,
                     dm_deficit_sol = Some deficitSol, dm_required_sol = Some requiredSol \<rparr>))"

definition metrics_fields :: "deficit_metrics \<Rightarrow> (string \<times> json) list" where
  "metrics_fields m =
     [(''epoch_cost_sol'', jopt (dm_epoch_cost_sol m)),
      (''expected_max_eff_bid_pmpe'', jopt (dm_expected_max_eff_bid_pmpe m)),
      (''deficit_sol'', jopt (dm_deficit_sol m)),
      (''required_sol'', jopt (dm_required_sol m))]"

section \<open>Events shared by the two evaluations\<close>

definition bond_pubkey_of :: "solana_lib \<Rightarrow> pubkey \<Rightarrow> string \<Rightarrow> string res" where
  "bond_pubkey_of sl configAddress voteAccount =
     rbind (pk_of_str sl voteAccount) (\<lambda>vote.
     rbind (pk_of_str sl VALIDATOR_BONDS_PROGRAM_ID_B58) (\<lambda>programId.
     rbind (bondAddress sl configAddress vote programId) (\<lambda>r. Inr (pk_b58 sl (fst r)))))"

definition makeEvent :: "solana_lib \<Rightarrow> string \<Rightarrow> inner_type \<Rightarrow> auction_validator \<Rightarrow> number
    \<Rightarrow> bond_type \<Rightarrow> pubkey \<Rightarrow> string \<Rightarrow> json \<Rightarrow> bonds_event res" where
  "makeEvent sl now innerType v epoch bondType configAddress message details =
     rbind (bond_pubkey_of sl configAddress (av_voteAccount v)) (\<lambda>b.
       Inr (makeBaseEvent innerType (av_voteAccount v) b epoch bondType message details now))"

definition buildBondBalanceChangeEvent :: "string \<Rightarrow> string \<Rightarrow> string \<Rightarrow> number \<Rightarrow> bond_type
    \<Rightarrow> validator_state \<Rightarrow> int \<Rightarrow> int \<Rightarrow> bonds_event option" where
  "buildBondBalanceChangeEvent now voteAccount bondPubkey epoch bondType prev
       currentFundedLamports currentEffectiveLamports =
     (if currentFundedLamports = vs_funded_amount_lamports prev then None
      else (let deltaLamports = currentFundedLamports - vs_funded_amount_lamports prev in
        Some (makeBaseEvent BondBalanceChange voteAccount bondPubkey epoch bondType
          (''Validator '' @ voteAccount @ '' bond balance changed by ''
            @ (if 0 < deltaLamports then ''+'' else '''') @ num_str (lamportsToSol deltaLamports) @ '' SOL ''
            @ ''('' @ num_str (lamportsToSol (vs_funded_amount_lamports prev)) @ arrow_str
            @ num_str (lamportsToSol currentFundedLamports) @ '' SOL).'')
          (JObj [(''previous_funded_lamports'', JStr (int_str (vs_funded_amount_lamports prev))),
                 (''current_funded_lamports'', JStr (int_str currentFundedLamports)),
                 (''delta_lamports'', JStr (int_str deltaLamports)),
                 (''previous_effective_lamports'', JStr (int_str (vs_effective_amount_lamports prev))),
                 (''current_effective_lamports'', JStr (int_str currentEffectiveLamports))])
          now)))"

definition MIN_SETTLEMENT_LAMPORTS :: int where
  "MIN_SETTLEMENT_LAMPORTS = 10000000"

record settlement_extras =
  sx_bond_balance_sol :: "number option"
  sx_claimable_balance_sol :: "number option"
  sx_bond_good_for_n_epochs :: "number option"

definition buildSettlementAppliedEvent :: "string \<Rightarrow> string \<Rightarrow> string \<Rightarrow> number \<Rightarrow> bond_type
    \<Rightarrow> int \<Rightarrow> int \<Rightarrow> settlement_extras \<Rightarrow> bonds_event option" where
  "buildSettlementAppliedEvent now voteAccount bondPubkey epoch bondType
       currentSettlementLamports prevSettlementLamports extras =
     (if currentSettlementLamports \<le> 0 \<or> currentSettlementLamports = prevSettlementLamports
         \<or> currentSettlementLamports < MIN_SETTLEMENT_LAMPORTS
      then None
      else (let totalSol = lamportsToSol currentSettlementLamports;
                prevSol = (if 0 < prevSettlementLamports then Some (lamportsToSol prevSettlementLamports)
                           else None)
        in Some (makeBaseEvent SettlementApplied voteAccount bondPubkey epoch bondType
          (''Validator '' @ voteAccount @ '' has a pending settlement of '' @ num_str totalSol
            @ '' SOL against their bond''
            @ (case prevSol of Some p \<Rightarrow> '' (changed from '' @ num_str p @ '' SOL).'' | None \<Rightarrow> ''.'')
            @ '' Claimable balance: '' @ str_null (sx_claimable_balance_sol extras) @ '' SOL.'')
          (JObj [(''settlement_total_sol'', JNum totalSol),
                 (''previous_settlement_sol'', jopt prevSol),
                 (''bond_balance_sol'', jopt (sx_bond_balance_sol extras)),
                 (''claimable_balance_sol'', jopt (sx_claimable_balance_sol extras)),
                 (''bond_good_for_n_epochs'', jopt (sx_bond_good_for_n_epochs extras))])
          now)))"

definition buildValidatorDelistedEvent :: "string \<Rightarrow> string \<Rightarrow> string \<Rightarrow> number \<Rightarrow> bond_type
    \<Rightarrow> validator_state \<Rightarrow> string \<Rightarrow> bonds_event" where
  "buildValidatorDelistedEvent now voteAccount bondPubkey epoch bondType prev reason =
     makeBaseEvent ValidatorDelisted voteAccount bondPubkey epoch bondType
       (reason @ '' '' @ ''Last known balance: ''
         @ fmtSol (Some (lamportsToSol (vs_funded_amount_lamports prev))) @ '' SOL, ''
         @ ''last seen epoch: '' @ num_str (vs_epoch prev) @ ''.'')
       (JObj [(''last_known_funded_lamports'', JStr (int_str (vs_funded_amount_lamports prev))),
              (''last_known_epoch'', JNum (vs_epoch prev)),
              (''last_known_in_auction'', JBool (vs_in_auction prev)),
              (''last_known_sam_eligible'', JBool (vs_sam_eligible prev))])
       now"

text \<open>The entries of the previous state that are no longer reported: both evaluations
  end with this loop.\<close>

definition delisted_events :: "solana_lib \<Rightarrow> string \<Rightarrow> (string \<Rightarrow> string) \<Rightarrow> number \<Rightarrow> bond_type
    \<Rightarrow> string list \<Rightarrow> (string, validator_state) jsmap \<Rightarrow> bonds_event list res" where
  "delisted_events sl now reason epoch bondType seenVoteAccounts previousState =
     rconcatM (\<lambda>(voteAccount, prev).
       if voteAccount \<notin> set seenVoteAccounts
          \<and> (0 < vs_funded_amount_lamports prev \<or> vs_in_auction prev)
       then rbind (case vs_bond_pubkey prev of
                Some b \<Rightarrow> Inr b
              | None \<Rightarrow> rbind (configAddressForBondType sl bondType) (\<lambda>configAddress.
                   bond_pubkey_of sl configAddress voteAccount)) (\<lambda>b.
             Inr [buildValidatorDelistedEvent now voteAccount b epoch bondType prev (reason voteAccount)])
       else Inr [])
     previousState"

end
