(* ===== verification/Ev_Bidding.thy ===== *)
theory Ev_Bidding
  imports Ev_Deltas
begin

text \<open>
  The loop of \<open>evaluateDeltas\<close> and \<open>validatorToState\<close>
  (\<open>packages/bonds-eventing/src/evaluate-deltas.ts\<close>). Each check of the loop body is a
  definition that returns the events it pushes; \<open>validator_events\<close> is the loop body,
  \<open>evaluateDeltas\<close> the function.
\<close>

section \<open>The checks of the loop body\<close>

definition first_seen_events :: "solana_lib \<Rightarrow> string \<Rightarrow> pubkey \<Rightarrow> number \<Rightarrow> bond_type
    \<Rightarrow> auction_validator \<Rightarrow> bonds_event list res" where
  "first_seen_events sl now configAddress epoch bondType v =
     rbind (makeEvent sl now FirstSeen v epoch bondType configAddress
       (''New bond detected for validator '' @ av_voteAccount v @ ''. ''
         @ ''Balance: '' @ num_str (orElse (av_bondBalanceSol v) (Fin 0)) @ '' SOL, ''
         @ ''in auction: '' @ bool_str (isInAuction v) @ '', ''
         @ ''bondGoodForNEpochs: ''
         @ (case av_bondGoodForNEpochs v of None \<Rightarrow> ''N/A''
            | Some x \<Rightarrow> if is_finite x then num_str x else ''N/A'') @ ''.'')
       (JObj ([(''bond_balance_sol'', jopt (av_bondBalanceSol v)),
               (''in_auction'', JBool (isInAuction v)),
               (''bond_good_for_n_epochs'', jopt (roundEpochs (av_bondGoodForNEpochs v))),
               (''cap_constraint'', jstr_opt (getCapConstraint v)),
               (''sam_eligible'', JBool (av_samEligible v)),
               (''auction_stake_sol'', JNum (orElse (av_auctionStake v) (Fin 0))),
               (''marinade_activated_stake_sol'', JNum (av_marinadeActivatedStakeSol v))]
              @ metrics_fields (computeDeficitMetrics v))))
     (\<lambda>e. Inr [e])"

definition auction_status_events :: "solana_lib \<Rightarrow> string \<Rightarrow> pubkey \<Rightarrow> number \<Rightarrow> bond_type
    \<Rightarrow> validator_state \<Rightarrow> auction_validator \<Rightarrow> bonds_event list res" where
  "auction_status_events sl now configAddress epoch bondType prev v =
     (if \<not> vs_in_auction prev \<and> isInAuction v
      then rbind (makeEvent sl now AuctionEntered v epoch bondType configAddress
        (''Validator '' @ av_voteAccount v @ '' entered the auction. ''
          @ ''Target stake: '' @ num_str (orElse (av_auctionStake v) (Fin 0)) @ '' SOL.'')
        (JObj [(''previous_in_auction'', JBool False), (''current_in_auction'', JBool True),
               (''auction_stake_sol'', JNum (orElse (av_auctionStake v) (Fin 0))),
               (''bond_good_for_n_epochs'', jopt (roundEpochs (av_bondGoodForNEpochs v)))]))
        (\<lambda>e. Inr [e])
      else if vs_in_auction prev \<and> \<not> isInAuction v
      then rbind (makeEvent sl now AuctionExited v epoch bondType configAddress
        (''Validator '' @ av_voteAccount v @ '' exited the auction.'')
        (JObj [(''previous_in_auction'', JBool True), (''current_in_auction'', JBool False),
               (''previous_auction_stake_lamports'', JStr (int_str (vs_auction_stake_lamports prev))),
               (''sam_eligible'', JBool (av_samEligible v))]))
        (\<lambda>e. Inr [e])
      else Inr [])"

definition cap_events :: "solana_lib \<Rightarrow> string \<Rightarrow> pubkey \<Rightarrow> number \<Rightarrow> bond_type
    \<Rightarrow> validator_state \<Rightarrow> auction_validator \<Rightarrow> bonds_event list res" where
  "cap_events sl now configAddress epoch bondType prev v =
     (let currentCap = getCapConstraint v in
      if vs_cap_constraint prev \<noteq> currentCap
      then (let bondBalanceSol = av_bondBalanceSol v;
                prevBondBalanceSol = lamportsToSol (vs_funded_amount_lamports prev);
                bondBalanceDeltaSol = map_option (\<lambda>b. n_sub b prevBondBalanceSol) bondBalanceSol
        in rbind (makeEvent sl now CapChanged v epoch bondType configAddress
          (''Validator '' @ av_voteAccount v @ '' cap constraint changed ''
            @ ''from '' @ orElse (vs_cap_constraint prev) ''none'' @ '' to '' @ orElse currentCap ''none'' @ ''.'')
          (JObj [(''previous_cap'', jstr_opt (vs_cap_constraint prev)),
                 (''current_cap'', jstr_opt currentCap),
                 (''constraint_name'', jstr_opt (map_option cap_constraintName (av_lastCapConstraint v))),
                 (''previous_cap_type'', jstr_opt (asCapType (vs_cap_constraint prev))),
                 (''current_cap_type'', jstr_opt (asCapType currentCap)),
                 (''previous_cap_sol'', jopt (vs_cap_marinade_stake_sol prev)),
                 (''current_cap_sol'', jopt (getCapMarinadeStakeSol v)),
                 (''total_left_to_cap_sol'',
                    jopt (map_option cap_totalLeftToCapSol (av_lastCapConstraint v))),
                 (''bond_balance_sol'', jopt bondBalanceSol),
                 (''bond_balance_delta_sol'', jopt bondBalanceDeltaSol),
                 (''required_coverage_sol'', jopt (dm_epoch_cost_sol (computeDeficitMetrics v)))]))
          (\<lambda>e. Inr [e]))
      else Inr [])"

definition num_differs :: "number \<Rightarrow> number \<Rightarrow> bool" where
  "num_differs a b \<longleftrightarrow> \<not> n_eq a b"

definition underfunded_events :: "solana_lib \<Rightarrow> string \<Rightarrow> pubkey \<Rightarrow> number \<Rightarrow> bond_type
    \<Rightarrow> validator_state \<Rightarrow> auction_validator \<Rightarrow> bonds_event list res" where
  "underfunded_events sl now configAddress epoch bondType prev v =
     (let currentEpochsRounded = roundEpochs (av_bondGoodForNEpochs v);
          deficitMetrics = computeDeficitMetrics v;
          currentDeficitSol = dm_deficit_sol deficitMetrics
      in rbind (solToLamports currentDeficitSol) (\<lambda>currentDeficitLamports.
         let previousDeficitSol = lamportsToSol (vs_deficit_lamports prev);
             epochsChanged = (case (vs_bond_good_for_n_epochs prev, currentEpochsRounded) of
                 (Some p, Some c) \<Rightarrow> num_differs p c | _ \<Rightarrow> False);
             epochsNewlyKnown = (vs_bond_good_for_n_epochs prev = None \<and> currentEpochsRounded \<noteq> None);
             deficitChanged = (currentDeficitSol \<noteq> None
                 \<and> currentDeficitLamports \<noteq> vs_deficit_lamports prev)
         in if epochsChanged \<or> epochsNewlyKnown \<or> deficitChanged
            then rbind (makeEvent sl now BondUnderfundedChange v epoch bondType configAddress
              (buildUnderfundedMessage (av_voteAccount v) (vs_bond_good_for_n_epochs prev)
                 currentEpochsRounded (Some previousDeficitSol) currentDeficitSol epochsNewlyKnown)
              (JObj ([(''previous_epochs'', jopt (vs_bond_good_for_n_epochs prev)),
                      (''current_epochs'', jopt currentEpochsRounded),
                      (''previous_deficit_sol'', JNum previousDeficitSol),
                      (''bond_balance_sol'', jopt (av_bondBalanceSol v)),
                      (''marinade_activated_stake_sol'', JNum (av_marinadeActivatedStakeSol v))]
                     @ metrics_fields deficitMetrics)))
              (\<lambda>e. Inr [e])
            else Inr []))"

definition opt_list :: "'a option \<Rightarrow> 'a list" where
  "opt_list x = (case x of None \<Rightarrow> [] | Some y \<Rightarrow> [y])"

definition balance_events :: "solana_lib \<Rightarrow> string \<Rightarrow> pubkey \<Rightarrow> number \<Rightarrow> bond_type
    \<Rightarrow> validator_state \<Rightarrow> auction_validator \<Rightarrow> int \<Rightarrow> int \<Rightarrow> bonds_event list res" where
  "balance_events sl now configAddress epoch bondType prev v funded effective =
     rbind (bond_pubkey_of sl configAddress (av_voteAccount v)) (\<lambda>bondPubkey.
       Inr (opt_list (buildBondBalanceChangeEvent now (av_voteAccount v) bondPubkey epoch bondType prev
              funded effective)
         @ opt_list (buildSettlementAppliedEvent now (av_voteAccount v) bondPubkey epoch bondType
              (funded - effective)
              (vs_funded_amount_lamports prev - vs_effective_amount_lamports prev)
              \<lparr> sx_bond_balance_sol = av_bondBalanceSol v,
                sx_claimable_balance_sol = orOpt (av_claimableBondBalanceSol v) (av_bondBalanceSol v),
                sx_bond_good_for_n_epochs = roundEpochs (av_bondGoodForNEpochs v) \<rparr>)))"

definition DUST_SOL_THRESHOLD :: number where
  "DUST_SOL_THRESHOLD = dbl (1 / 1000)"

definition activatingStakeSol :: "auction_validator \<Rightarrow> number" where
  "activatingStakeSol v = n_max (Fin 0) (n_sub (finiteOr (av_auctionStake v) (Fin 0))
     (finiteOr (Some (av_marinadeActivatedStakeSol v)) (Fin 0)))"

definition penalty_events :: "solana_lib \<Rightarrow> string \<Rightarrow> pubkey \<Rightarrow> number \<Rightarrow> bond_type
    \<Rightarrow> validator_state \<Rightarrow> auction_validator \<Rightarrow> bonds_event list res" where
  "penalty_events sl now configAddress epoch bondType prev v =
     (let penalties = computePenalties v;
          activatingStakePmpe = finiteOr (rs_get rs_activatingStakePmpe v) (Fin 0);
          activatingStakeFee = n_div (n_mul (activatingStakeSol v) activatingStakePmpe) (Fin 1000);
          activatingStakeFeeDisplay =
            (if n_lt DUST_SOL_THRESHOLD activatingStakeFee then activatingStakeFee else Fin 0)
      in if (n_lt DUST_SOL_THRESHOLD (pn_total penalties) \<or> n_lt DUST_SOL_THRESHOLD activatingStakeFee)
            \<and> num_differs (vs_epoch prev) epoch
         then rbind (read_prop ''bidTooLowPenaltyPmpe'' (av_revShare v)) (\<lambda>rs.
              rbind (makeEvent sl now PenaltyExpected v epoch bondType configAddress
                (buildPenaltyExpectedMessage (av_voteAccount v) penalties activatingStakeFeeDisplay)
                (JObj [(''total_penalty_sol'', JNum (pn_total penalties)),
                       (''bid_too_low_penalty_sol'', JNum (pn_bidTooLow penalties)),
                       (''blacklist_penalty_sol'', JNum (pn_blacklist penalties)),
                       (''bond_risk_fee_sol'', JNum (pn_bondRiskFee penalties)),
                       (''bid_too_low_penalty_pmpe'', jundef (rs_bidTooLowPenaltyPmpe rs)),
                       (''blacklist_penalty_pmpe'', jundef (rs_blacklistPenaltyPmpe rs)),
                       (''marinade_activated_stake_sol'', JNum (av_marinadeActivatedStakeSol v)),
                       (''bond_balance_sol'', jopt (av_bondBalanceSol v)),
                       (''bond_good_for_n_epochs'', jopt (roundEpochs (av_bondGoodForNEpochs v))),
                       (''activating_stake_sol'', JNum (activatingStakeSol v)),
                       (''activating_stake_pmpe'', JNum activatingStakePmpe),
                       (''activating_stake_fee_sol'', JNum activatingStakeFeeDisplay)]))
                (\<lambda>e. Inr [e]))
         else Inr [])"

definition eligibility_events :: "solana_lib \<Rightarrow> string \<Rightarrow> pubkey \<Rightarrow> number \<Rightarrow> bond_type
    \<Rightarrow> validator_state \<Rightarrow> auction_validator \<Rightarrow> bonds_event list res" where
  "eligibility_events sl now configAddress epoch bondType prev v =
     (if vs_sam_eligible prev \<noteq> av_samEligible v
      then rbind (makeEvent sl now SamEligibleChange v epoch bondType configAddress
        (''Validator '' @ av_voteAccount v @ '' SAM eligibility changed ''
          @ ''from '' @ bool_str (vs_sam_eligible prev) @ '' to '' @ bool_str (av_samEligible v) @ ''.'')
        (JObj [(''previous_sam_eligible'', JBool (vs_sam_eligible prev)),
               (''current_sam_eligible'', JBool (av_samEligible v))]))
        (\<lambda>e. Inr [e])
      else Inr [])"

section \<open>The loop and the state that is saved\<close>

definition validator_events :: "solana_lib \<Rightarrow> string \<Rightarrow> pubkey \<Rightarrow> number \<Rightarrow> bond_type
    \<Rightarrow> (string, validator_state) jsmap \<Rightarrow> auction_validator \<Rightarrow> bonds_event list res" where
  "validator_events sl now configAddress epoch bondType previousState v =
     rbind (solToLamports (av_bondBalanceSol v)) (\<lambda>funded.
     rbind (solToLamports (orOpt (av_claimableBondBalanceSol v) (av_bondBalanceSol v))) (\<lambda>effective.
     case jsmap_get previousState (av_voteAccount v) of
       None \<Rightarrow> first_seen_events sl now configAddress epoch bondType v
     | Some prev \<Rightarrow> rconcatM (\<lambda>r. r)
         [auction_status_events sl now configAddress epoch bondType prev v,
          cap_events sl now configAddress epoch bondType prev v,
          underfunded_events sl now configAddress epoch bondType prev v,
          balance_events sl now configAddress epoch bondType prev v funded effective,
          penalty_events sl now configAddress epoch bondType prev v,
          eligibility_events sl now configAddress epoch bondType prev v]))"

definition delist_reason :: "string \<Rightarrow> string" where
  "delist_reason voteAccount =
     ''Validator '' @ voteAccount @ '' is no longer present in SAM auction data.''"

definition evaluateDeltas :: "solana_lib \<Rightarrow> string \<Rightarrow> auction_validator list
    \<Rightarrow> (string, validator_state) jsmap \<Rightarrow> number \<Rightarrow> bond_type \<Rightarrow> bonds_event list res" where
  "evaluateDeltas sl now currentValidators previousState epoch bondType =
     rbind (configAddressForBondType sl bondType) (\<lambda>configAddress.
     rbind (rconcatM (validator_events sl now configAddress epoch bondType previousState)
              currentValidators) (\<lambda>events.
     rbind (delisted_events sl now delist_reason epoch bondType
              (map av_voteAccount currentValidators) previousState) (\<lambda>delisted.
     Inr (events @ delisted))))"

definition validatorToState :: "solana_lib \<Rightarrow> string \<Rightarrow> auction_validator \<Rightarrow> number \<Rightarrow> bond_type
    \<Rightarrow> validator_state res" where
  "validatorToState sl now v epoch bondType =
     rbind (configAddressForBondType sl bondType) (\<lambda>configAddress.
     rbind (bond_pubkey_of sl configAddress (av_voteAccount v)) (\<lambda>bondPubkey.
     rbind (solToLamports (av_bondBalanceSol v)) (\<lambda>funded.
     rbind (solToLamports (orOpt (av_claimableBondBalanceSol v) (av_bondBalanceSol v))) (\<lambda>effective.
     rbind (solToLamports (av_auctionStake v)) (\<lambda>auctionStake.
     rbind (solToLamports (dm_deficit_sol (computeDeficitMetrics v))) (\<lambda>deficit.
     rbind (toCalcValidator v) (\<lambda>blob.
     Inr \<lparr> vs_vote_account = av_voteAccount v,
           vs_bond_pubkey = Some bondPubkey,
           vs_bond_type = bondType,
           vs_epoch = epoch,
           vs_in_auction = isInAuction v,
           vs_bond_good_for_n_epochs = roundEpochs (av_bondGoodForNEpochs v),
           vs_cap_constraint = getCapConstraint v,
           vs_cap_marinade_stake_sol = getCapMarinadeStakeSol v,
           vs_funded_amount_lamports = funded,
           vs_effective_amount_lamports = effective,
           vs_auction_stake_lamports = auctionStake,
           vs_deficit_lamports = deficit,
           vs_settlement_claims_lamports = None,
           vs_sam_eligible = av_samEligible v,
           vs_updated_at = now,
           vs_auction_validator = Some blob \<rparr>)))))))"

section \<open>Every event names its validator, its bond type and its epoch\<close>

definition event_for :: "string \<Rightarrow> bond_type \<Rightarrow> number \<Rightarrow> bonds_event \<Rightarrow> bool" where
  "event_for vote bt epoch e \<longleftrightarrow>
     ev_vote_account e = vote \<and> ev_bond_type e = bt \<and> ev_epoch e = epoch"

lemma makeEvent_Inr:
  "makeEvent sl now t v epoch bt cfg m d = Inr e \<Longrightarrow>
     event_for (av_voteAccount v) bt epoch e \<and> ev_inner_type e = t"
  by (auto simp: makeEvent_def rbind_eq_Inr event_for_def)

text \<open>What every check of the loop body satisfies: its events are for the validator, and
  their types are among the given ones, each at most once and in this order.\<close>

definition check_ok :: "inner_type list \<Rightarrow> string \<Rightarrow> bond_type \<Rightarrow> number \<Rightarrow> bonds_event list res \<Rightarrow> bool" where
  "check_ok ts vote bt epoch r \<longleftrightarrow> (\<forall>es. r = Inr es \<longrightarrow>
     (\<forall>e\<in>set es. event_for vote bt epoch e) \<and> subseq (map ev_inner_type es) ts)"

lemma check_ok_makeEvent:
  "check_ok [t] (av_voteAccount v) bt epoch
     (rbind (makeEvent sl now t v epoch bt cfg m d) (\<lambda>e. Inr [e]))"
  by (auto simp: check_ok_def rbind_eq_Inr dest: makeEvent_Inr)

lemma check_ok_Nil: "check_ok ts vote bt epoch (Inr [])"
  by (simp add: check_ok_def)

lemma check_ok_rbind:
  "(\<And>x. m = Inr x \<Longrightarrow> check_ok ts vote bt epoch (f x)) \<Longrightarrow> check_ok ts vote bt epoch (rbind m f)"
  by (cases m) (auto simp: check_ok_def)

lemma check_ok_weaken:
  "subseq us ts \<Longrightarrow> check_ok us vote bt epoch r \<Longrightarrow> check_ok ts vote bt epoch r"
  using subseq_order.order_trans by (fastforce simp: check_ok_def)

lemma check_ok_append:
  "check_ok ts vote bt epoch r \<Longrightarrow> check_ok us vote bt epoch q \<Longrightarrow>
   check_ok (ts @ us) vote bt epoch (rbind r (\<lambda>xs. rbind q (\<lambda>ys. Inr (xs @ ys))))"
  by (cases r; cases q) (auto simp: check_ok_def intro: list_emb_append_mono)

lemma auction_status_ok:
  "check_ok [AuctionEntered, AuctionExited] (av_voteAccount v) bt epoch
     (auction_status_events sl now cfg epoch bt prev v)"
  unfolding auction_status_events_def
  by (auto intro: check_ok_Nil check_ok_weaken [OF _ check_ok_makeEvent])

lemma cap_ok: "check_ok [CapChanged] (av_voteAccount v) bt epoch (cap_events sl now cfg epoch bt prev v)"
  unfolding cap_events_def Let_def by (auto intro: check_ok_Nil check_ok_makeEvent)

lemma underfunded_ok:
  "check_ok [BondUnderfundedChange] (av_voteAccount v) bt epoch
     (underfunded_events sl now cfg epoch bt prev v)"
  unfolding underfunded_events_def Let_def
  by (intro check_ok_rbind) (auto intro: check_ok_Nil check_ok_makeEvent)

lemma buildBondBalance_for:
  "buildBondBalanceChangeEvent now vote b epoch bt prev f g = Some e \<Longrightarrow>
     event_for vote bt epoch e \<and> ev_inner_type e = BondBalanceChange"
  by (auto simp: buildBondBalanceChangeEvent_def event_for_def Let_def split: if_splits)

lemma buildSettlement_for:
  "buildSettlementAppliedEvent now vote b epoch bt cur prev x = Some e \<Longrightarrow>
     event_for vote bt epoch e \<and> ev_inner_type e = SettlementApplied"
  by (auto simp: buildSettlementAppliedEvent_def event_for_def Let_def split: if_splits)

lemma balance_ok:
  "check_ok [BondBalanceChange, SettlementApplied] (av_voteAccount v) bt epoch
     (balance_events sl now cfg epoch bt prev v funded effective)"
  unfolding balance_events_def
  by (rule check_ok_rbind)
     (auto simp: check_ok_def opt_list_def dest: buildBondBalance_for buildSettlement_for
       split: option.splits)

lemma penalty_ok:
  "check_ok [PenaltyExpected] (av_voteAccount v) bt epoch (penalty_events sl now cfg epoch bt prev v)"
  unfolding penalty_events_def Let_def
  by (auto intro: check_ok_rbind check_ok_makeEvent check_ok_Nil)

lemma eligibility_ok:
  "check_ok [SamEligibleChange] (av_voteAccount v) bt epoch
     (eligibility_events sl now cfg epoch bt prev v)"
  unfolding eligibility_events_def by (auto intro: check_ok_Nil check_ok_makeEvent)

text \<open>The order of the pushes in the loop body.\<close>

definition tracked_types :: "inner_type list" where
  "tracked_types = [AuctionEntered, AuctionExited, CapChanged, BondUnderfundedChange,
     BondBalanceChange, SettlementApplied, PenaltyExpected, SamEligibleChange]"

lemma tracked_ok:
  assumes "jsmap_get prevs (av_voteAccount v) = Some prev"
  shows "check_ok tracked_types (av_voteAccount v) bt epoch
    (validator_events sl now cfg epoch bt prevs v)"
proof -
  have "check_ok ([AuctionEntered, AuctionExited] @ [CapChanged] @ [BondUnderfundedChange]
      @ [BondBalanceChange, SettlementApplied] @ [PenaltyExpected] @ [SamEligibleChange] @ [])
      (av_voteAccount v) bt epoch
      (rconcatM (\<lambda>r. r)
         [auction_status_events sl now cfg epoch bt prev v,
          cap_events sl now cfg epoch bt prev v,
          underfunded_events sl now cfg epoch bt prev v,
          balance_events sl now cfg epoch bt prev v funded effective,
          penalty_events sl now cfg epoch bt prev v,
          eligibility_events sl now cfg epoch bt prev v])" for funded effective
    unfolding rconcatM_Cons rconcatM_Nil
    by (intro check_ok_append auction_status_ok cap_ok underfunded_ok balance_ok penalty_ok
          eligibility_ok check_ok_Nil)
  then show ?thesis
    unfolding validator_events_def assms option.case tracked_types_def append.simps
    by (intro check_ok_rbind)
qed

lemma untracked_ok:
  assumes "jsmap_get prevs (av_voteAccount v) = None"
  shows "check_ok [FirstSeen] (av_voteAccount v) bt epoch (validator_events sl now cfg epoch bt prevs v)"
  using assms
  by (auto simp: validator_events_def first_seen_events_def intro!: check_ok_rbind check_ok_makeEvent)

lemma untracked_first_seen:
  assumes "jsmap_get prevs (av_voteAccount v) = None"
    and "validator_events sl now cfg epoch bt prevs v = Inr es"
  shows "map ev_inner_type es = [FirstSeen]"
  using assms by (auto simp: validator_events_def first_seen_events_def rbind_eq_Inr dest: makeEvent_Inr)

lemma validator_events_for:
  assumes "validator_events sl now cfg epoch bt prevs v = Inr es" and "e \<in> set es"
  shows "event_for (av_voteAccount v) bt epoch e"
  using assms untracked_ok [of prevs v bt epoch sl now cfg] tracked_ok [of prevs v _ bt epoch sl now cfg]
  by (cases "jsmap_get prevs (av_voteAccount v)") (auto simp: check_ok_def)

section \<open>Which events a tracked validator has\<close>

text \<open>The condition under which each check pushes its event, read off the previous state and
  the auction data; \<open>funded\<close>, \<open>effective\<close> and \<open>deficit\<close> are the amounts of the
  auction data in lamports.\<close>

definition event_when :: "bool \<Rightarrow> inner_type \<Rightarrow> inner_type list" where
  "event_when c t = (if c then [t] else [])"

definition underfunded_due :: "validator_state \<Rightarrow> auction_validator \<Rightarrow> int \<Rightarrow> bool" where
  "underfunded_due prev v deficit \<longleftrightarrow>
     (case roundEpochs (av_bondGoodForNEpochs v) of None \<Rightarrow> False
      | Some c \<Rightarrow> (case vs_bond_good_for_n_epochs prev of None \<Rightarrow> True | Some p \<Rightarrow> \<not> n_eq p c))
     \<or> dm_deficit_sol (computeDeficitMetrics v) \<noteq> None \<and> deficit \<noteq> vs_deficit_lamports prev"

definition penalty_due :: "validator_state \<Rightarrow> auction_validator \<Rightarrow> number \<Rightarrow> bool" where
  "penalty_due prev v epoch \<longleftrightarrow> \<not> n_eq (vs_epoch prev) epoch
     \<and> (n_lt DUST_SOL_THRESHOLD (pn_total (computePenalties v))
        \<or> n_lt DUST_SOL_THRESHOLD (n_div (n_mul (activatingStakeSol v)
             (finiteOr (rs_get rs_activatingStakePmpe v) (Fin 0))) (Fin 1000)))"

definition due_types :: "validator_state \<Rightarrow> auction_validator \<Rightarrow> number \<Rightarrow> int \<Rightarrow> int \<Rightarrow> int
    \<Rightarrow> inner_type list" where
  "due_types prev v epoch funded effective deficit =
     event_when (\<not> vs_in_auction prev \<and> isInAuction v) AuctionEntered
     @ event_when (vs_in_auction prev \<and> \<not> isInAuction v) AuctionExited
     @ event_when (vs_cap_constraint prev \<noteq> getCapConstraint v) CapChanged
     @ event_when (underfunded_due prev v deficit) BondUnderfundedChange
     @ event_when (funded \<noteq> vs_funded_amount_lamports prev) BondBalanceChange
     @ event_when (10000000 \<le> funded - effective
         \<and> funded - effective \<noteq> vs_funded_amount_lamports prev - vs_effective_amount_lamports prev)
         SettlementApplied
     @ event_when (penalty_due prev v epoch) PenaltyExpected
     @ event_when (vs_sam_eligible prev \<noteq> av_samEligible v) SamEligibleChange"

lemma pushed_type:
  "rbind (makeEvent sl now t v epoch bt cfg m d) (\<lambda>e. Inr [e]) = Inr es \<Longrightarrow> map ev_inner_type es = [t]"
  by (auto simp: rbind_eq_Inr dest: makeEvent_Inr)

lemma auction_status_types:
  "auction_status_events sl now cfg epoch bt prev v = Inr es \<Longrightarrow> map ev_inner_type es
     = event_when (\<not> vs_in_auction prev \<and> isInAuction v) AuctionEntered
       @ event_when (vs_in_auction prev \<and> \<not> isInAuction v) AuctionExited"
  unfolding auction_status_events_def
  by (auto simp: event_when_def split: if_split_asm dest: pushed_type)

lemma cap_types:
  "cap_events sl now cfg epoch bt prev v = Inr es \<Longrightarrow> map ev_inner_type es
     = event_when (vs_cap_constraint prev \<noteq> getCapConstraint v) CapChanged"
  unfolding cap_events_def Let_def
  by (simp add: event_when_def split: if_split_asm) (drule pushed_type, simp)

lemma underfunded_types:
  assumes "underfunded_events sl now cfg epoch bt prev v = Inr es"
  obtains deficit where "solToLamports (dm_deficit_sol (computeDeficitMetrics v)) = Inr deficit"
    "map ev_inner_type es = event_when (underfunded_due prev v deficit) BondUnderfundedChange"
proof -
  from assms obtain deficit where
    d: "solToLamports (dm_deficit_sol (computeDeficitMetrics v)) = Inr deficit"
    unfolding underfunded_events_def Let_def by (auto simp: rbind_eq_Inr)
  have due: "(case (vs_bond_good_for_n_epochs prev, roundEpochs (av_bondGoodForNEpochs v)) of
        (Some p, Some c) \<Rightarrow> num_differs p c | _ \<Rightarrow> False)
      \<or> vs_bond_good_for_n_epochs prev = None \<and> roundEpochs (av_bondGoodForNEpochs v) \<noteq> None
      \<or> dm_deficit_sol (computeDeficitMetrics v) \<noteq> None \<and> deficit \<noteq> vs_deficit_lamports prev
    \<longleftrightarrow> underfunded_due prev v deficit"
    by (auto simp: underfunded_due_def num_differs_def split: option.split)
  from assms have "map ev_inner_type es = event_when (underfunded_due prev v deficit) BondUnderfundedChange"
    unfolding underfunded_events_def Let_def d rbind_Inr due
    by (cases "underfunded_due prev v deficit") (simp_all add: event_when_def pushed_type)
  with d show thesis by (rule that)
qed

lemma balance_types:
  "balance_events sl now cfg epoch bt prev v funded effective = Inr es \<Longrightarrow> map ev_inner_type es
     = event_when (funded \<noteq> vs_funded_amount_lamports prev) BondBalanceChange
       @ event_when (10000000 \<le> funded - effective
           \<and> funded - effective \<noteq> vs_funded_amount_lamports prev - vs_effective_amount_lamports prev)
           SettlementApplied"
  by (auto simp: balance_events_def rbind_eq_Inr buildBondBalanceChangeEvent_def
      buildSettlementAppliedEvent_def opt_list_def event_when_def MIN_SETTLEMENT_LAMPORTS_def
      makeBaseEvent_def Let_def)

lemma penalty_types:
  "penalty_events sl now cfg epoch bt prev v = Inr es \<Longrightarrow> map ev_inner_type es
     = event_when (penalty_due prev v epoch) PenaltyExpected"
  unfolding penalty_events_def Let_def
  by (auto simp: event_when_def penalty_due_def num_differs_def rbind_eq_Inr dest!: makeEvent_Inr
      split: if_split_asm)

lemma eligibility_types:
  "eligibility_events sl now cfg epoch bt prev v = Inr es \<Longrightarrow> map ev_inner_type es
     = event_when (vs_sam_eligible prev \<noteq> av_samEligible v) SamEligibleChange"
  unfolding eligibility_events_def
  by (simp add: event_when_def split: if_split_asm) (drule pushed_type, simp)

lemma tracked_due:
  assumes prev: "jsmap_get prevs (av_voteAccount v) = Some prev"
    and ev: "validator_events sl now cfg epoch bt prevs v = Inr es"
  obtains funded effective deficit where
    "solToLamports (av_bondBalanceSol v) = Inr funded"
    "solToLamports (orOpt (av_claimableBondBalanceSol v) (av_bondBalanceSol v)) = Inr effective"
    "solToLamports (dm_deficit_sol (computeDeficitMetrics v)) = Inr deficit"
    "map ev_inner_type es = due_types prev v epoch funded effective deficit"
proof -
  from ev obtain funded effective a b c d e f where amounts:
    "solToLamports (av_bondBalanceSol v) = Inr funded"
    "solToLamports (orOpt (av_claimableBondBalanceSol v) (av_bondBalanceSol v)) = Inr effective"
    and checks: "auction_status_events sl now cfg epoch bt prev v = Inr a"
    "cap_events sl now cfg epoch bt prev v = Inr b"
    "underfunded_events sl now cfg epoch bt prev v = Inr c"
    "balance_events sl now cfg epoch bt prev v funded effective = Inr d"
    "penalty_events sl now cfg epoch bt prev v = Inr e"
    "eligibility_events sl now cfg epoch bt prev v = Inr f"
    and es: "es = a @ b @ c @ d @ e @ f"
    unfolding validator_events_def prev option.case rconcatM_Cons rconcatM_Nil
    by (auto simp: rbind_eq_Inr)
  from checks(3) obtain deficit where
    "solToLamports (dm_deficit_sol (computeDeficitMetrics v)) = Inr deficit"
    and c: "map ev_inner_type c = event_when (underfunded_due prev v deficit) BondUnderfundedChange"
    by (rule underfunded_types)
  moreover have "map ev_inner_type es = due_types prev v epoch funded effective deficit"
    by (simp add: es due_types_def c auction_status_types [OF checks(1)] cap_types [OF checks(2)]
        balance_types [OF checks(4)] penalty_types [OF checks(5)] eligibility_types [OF checks(6)])
  ultimately show thesis using amounts by (intro that)
qed

section \<open>A validator compared with its own state has no event\<close>

text \<open>What the next run sees of a saved state: the time of the write and the calc blob are
  not compared.\<close>

definition delta_view :: "validator_state \<Rightarrow> validator_state" where
  "delta_view s = s\<lparr>vs_updated_at := '''', vs_auction_validator := None\<rparr>"

lemma delta_view_eq:
  assumes "delta_view s = delta_view t"
  shows "vs_vote_account s = vs_vote_account t" "vs_bond_pubkey s = vs_bond_pubkey t"
    "vs_bond_type s = vs_bond_type t"
    "vs_epoch s = vs_epoch t" "vs_in_auction s = vs_in_auction t"
    "vs_bond_good_for_n_epochs s = vs_bond_good_for_n_epochs t"
    "vs_cap_constraint s = vs_cap_constraint t"
    "vs_funded_amount_lamports s = vs_funded_amount_lamports t"
    "vs_effective_amount_lamports s = vs_effective_amount_lamports t"
    "vs_deficit_lamports s = vs_deficit_lamports t"
    "vs_settlement_claims_lamports s = vs_settlement_claims_lamports t"
    "vs_sam_eligible s = vs_sam_eligible t"
  using assms by (cases s; cases t; simp add: delta_view_def)+

lemma roundEpochs_not_NaN: "roundEpochs x \<noteq> Some NaN"
proof (cases x)
  case (Some y)
  show ?thesis
  proof (cases y)
    case (Fin r)
    then show ?thesis using Some dbl_not_NaN [of "r * 100"]
      by (cases "dbl (r * 100)")
         (simp_all add: roundEpochs_def is_finite_def n_mul_def n_round_def n_div_def n_inf_def n_sgn_def)
  qed (simp_all add: Some roundEpochs_def is_finite_def)
qed (simp add: roundEpochs_def)

lemma num_differs_self: "num_differs x x \<longleftrightarrow> x = NaN"
  by (auto simp: num_differs_def n_eq_def)

lemma underfunded_same:
  assumes "vs_bond_good_for_n_epochs prev = roundEpochs (av_bondGoodForNEpochs v)"
    and "solToLamports (dm_deficit_sol (computeDeficitMetrics v)) = Inr (vs_deficit_lamports prev)"
  shows "underfunded_events sl now cfg epoch bt prev v = Inr []"
  using assms roundEpochs_not_NaN [of "av_bondGoodForNEpochs v"]
  by (auto simp: underfunded_events_def Let_def num_differs_self split: option.splits)

lemma balance_same:
  assumes "bond_pubkey_of sl cfg (av_voteAccount v) = Inr b"
    and "vs_funded_amount_lamports prev = funded" and "vs_effective_amount_lamports prev = effective"
  shows "balance_events sl now cfg epoch bt prev v funded effective = Inr []"
  using assms by (simp add: balance_events_def buildBondBalanceChangeEvent_def
      buildSettlementAppliedEvent_def opt_list_def)

lemma validatorToStateE:
  assumes "validatorToState sl now v epoch bt = Inr s"
  obtains cfg b where "configAddressForBondType sl bt = Inr cfg"
    "bond_pubkey_of sl cfg (av_voteAccount v) = Inr b"
    "solToLamports (av_bondBalanceSol v) = Inr (vs_funded_amount_lamports s)"
    "solToLamports (orOpt (av_claimableBondBalanceSol v) (av_bondBalanceSol v))
       = Inr (vs_effective_amount_lamports s)"
    "solToLamports (dm_deficit_sol (computeDeficitMetrics v)) = Inr (vs_deficit_lamports s)"
    "vs_vote_account s = av_voteAccount v" "vs_bond_type s = bt" "vs_epoch s = epoch"
    "vs_in_auction s = isInAuction v"
    "vs_bond_good_for_n_epochs s = roundEpochs (av_bondGoodForNEpochs v)"
    "vs_cap_constraint s = getCapConstraint v" "vs_sam_eligible s = av_samEligible v"
  using assms by (auto simp: validatorToState_def rbind_eq_Inr)

lemma validator_quiescent:
  assumes st: "validatorToState sl now' v epoch bt = Inr s"
    and cfg: "configAddressForBondType sl bt = Inr cfg"
    and prev: "jsmap_get prevs (av_voteAccount v) = Some p" "delta_view p = delta_view s"
    and epoch: "epoch \<noteq> NaN"
  shows "validator_events sl now cfg epoch bt prevs v = Inr []"
proof -
  note eq = delta_view_eq [OF prev(2)]
  from st show ?thesis
  proof (rule validatorToStateE)
    fix cfg' b
    assume s: "configAddressForBondType sl bt = Inr cfg'"
      "bond_pubkey_of sl cfg' (av_voteAccount v) = Inr b"
      "solToLamports (av_bondBalanceSol v) = Inr (vs_funded_amount_lamports s)"
      "solToLamports (orOpt (av_claimableBondBalanceSol v) (av_bondBalanceSol v))
         = Inr (vs_effective_amount_lamports s)"
      "solToLamports (dm_deficit_sol (computeDeficitMetrics v)) = Inr (vs_deficit_lamports s)"
      "vs_epoch s = epoch" "vs_in_auction s = isInAuction v"
      "vs_bond_good_for_n_epochs s = roundEpochs (av_bondGoodForNEpochs v)"
      "vs_cap_constraint s = getCapConstraint v" "vs_sam_eligible s = av_samEligible v"
    have b: "bond_pubkey_of sl cfg (av_voteAccount v) = Inr b" using s(1,2) cfg by simp
    have "auction_status_events sl now cfg epoch bt p v = Inr []"
      by (simp add: auction_status_events_def eq s)
    moreover have "cap_events sl now cfg epoch bt p v = Inr []"
      by (simp add: cap_events_def eq s)
    moreover have "underfunded_events sl now cfg epoch bt p v = Inr []"
      by (rule underfunded_same) (simp_all add: eq s)
    moreover have "balance_events sl now cfg epoch bt p v (vs_funded_amount_lamports s)
        (vs_effective_amount_lamports s) = Inr []"
      by (rule balance_same [OF b]) (simp_all add: eq)
    moreover have "penalty_events sl now cfg epoch bt p v = Inr []"
      by (simp add: penalty_events_def Let_def eq s num_differs_self epoch)
    moreover have "eligibility_events sl now cfg epoch bt p v = Inr []"
      by (simp add: eligibility_events_def eq s)
    ultimately show ?thesis
      by (simp add: validator_events_def s(3,4) prev(1))
  qed
qed

end
