(* ===== verification/Ev_Institutional.thy ===== *)
theory Ev_Institutional
  imports Ev_Bidding
begin

text \<open>
  The institutional evaluation: \<open>evaluate-institutional-deltas.ts\<close>, and the reading of its
  input \<open>run-institutional.ts\<close>. There is no auction: a bond of one SOL backs 2000 SOL of
  stake, and the deficit is what is missing.
\<close>

definition ALLOWED_STAKE_PER_BOND_RATIO :: int where
  "ALLOWED_STAKE_PER_BOND_RATIO = 2000"

definition computeFlatDeficit :: "int \<Rightarrow> int \<Rightarrow> int \<times> int" where
  "computeFlatDeficit stakeLamports effectiveLamports =
     (let requiredLamports = bigint_div stakeLamports ALLOWED_STAKE_PER_BOND_RATIO;
          deficitLamports = (if effectiveLamports < requiredLamports
            then requiredLamports - effectiveLamports else 0)
      in (requiredLamports, deficitLamports))"

definition inst_deficit :: "institutional_validator \<Rightarrow> int" where
  "inst_deficit v = snd (computeFlatDeficit (iv_institutionalStakeLamports v) (iv_effectiveAmountLamports v))"

definition inst_required :: "institutional_validator \<Rightarrow> int" where
  "inst_required v = fst (computeFlatDeficit (iv_institutionalStakeLamports v) (iv_effectiveAmountLamports v))"

definition inst_first_seen :: "string \<Rightarrow> number \<Rightarrow> institutional_validator \<Rightarrow> bonds_event" where
  "inst_first_seen now epoch v =
     (let balanceSol = lamportsToSol (iv_effectiveAmountLamports v) in
      makeBaseEvent FirstSeen (iv_voteAccount v) (iv_bondPubkey v) epoch Institutional
        (''New Select bond detected for validator '' @ iv_voteAccount v @ ''. ''
          @ ''Balance: '' @ fmtSol (Some balanceSol) @ '' SOL.'')
        (JObj [(''bond_balance_sol'', JNum balanceSol), (''in_auction'', JBool False),
               (''bond_good_for_n_epochs'', JNull), (''cap_constraint'', JNull),
               (''sam_eligible'', JBool False), (''auction_stake_sol'', JNum (Fin 0)),
               (''marinade_activated_stake_sol'', JNum (lamportsToSol (iv_institutionalStakeLamports v))),
               (''epoch_cost_sol'', JNull), (''expected_max_eff_bid_pmpe'', JNull),
               (''deficit_sol'', JNum (lamportsToSol (inst_deficit v))),
               (''required_sol'', JNum (lamportsToSol (inst_required v)))])
        now)"

definition inst_underfunded :: "string \<Rightarrow> number \<Rightarrow> validator_state \<Rightarrow> institutional_validator
    \<Rightarrow> bonds_event option" where
  "inst_underfunded now epoch prev v =
     (if inst_deficit v \<noteq> vs_deficit_lamports prev
      then (let previousDeficitSol = lamportsToSol (vs_deficit_lamports prev);
                balanceSol = lamportsToSol (iv_effectiveAmountLamports v);
                requiredSol = lamportsToSol (inst_required v);
                deficitSol = lamportsToSol (inst_deficit v);
                stakeSol = lamportsToSol (iv_institutionalStakeLamports v)
        in Some (makeBaseEvent BondUnderfundedChange (iv_voteAccount v) (iv_bondPubkey v) epoch
          Institutional
          (''Validator '' @ iv_voteAccount v @ '' Select bond top-up needed ''
            @ fmtSol (Some previousDeficitSol) @ arrow_str @ fmtSol (Some deficitSol) @ '' SOL ''
            @ ''(balance '' @ fmtSol (Some balanceSol) @ '' SOL, required '' @ fmtSol (Some requiredSol)
            @ '' SOL '' @ ''for '' @ fmtSol (Some stakeSol) @ '' SOL institutional stake).'')
          (JObj [(''previous_epochs'', JNull), (''current_epochs'', JNull),
                 (''previous_deficit_sol'', JNum previousDeficitSol),
                 (''bond_balance_sol'', JNum balanceSol),
                 (''marinade_activated_stake_sol'', JNum stakeSol),
                 (''epoch_cost_sol'', JNull), (''expected_max_eff_bid_pmpe'', JNull),
                 (''deficit_sol'', JNum deficitSol), (''required_sol'', JNum requiredSol)])
          now))
      else None)"

definition inst_validator_events :: "string \<Rightarrow> number \<Rightarrow> (string, validator_state) jsmap
    \<Rightarrow> institutional_validator \<Rightarrow> bonds_event list" where
  "inst_validator_events now epoch previousState v =
     (case jsmap_get previousState (iv_voteAccount v) of
        None \<Rightarrow> [inst_first_seen now epoch v]
      | Some prev \<Rightarrow>
          opt_list (inst_underfunded now epoch prev v)
        @ opt_list (buildBondBalanceChangeEvent now (iv_voteAccount v) (iv_bondPubkey v) epoch
            Institutional prev (iv_fundedAmountLamports v) (iv_effectiveAmountLamports v))
        @ opt_list (buildSettlementAppliedEvent now (iv_voteAccount v) (iv_bondPubkey v) epoch
            Institutional (iv_settlementClaimsLamports v) (orElse (vs_settlement_claims_lamports prev) 0)
            \<lparr> sx_bond_balance_sol = Some (lamportsToSol (iv_fundedAmountLamports v)),
              sx_claimable_balance_sol = Some (lamportsToSol (iv_effectiveAmountLamports v)),
              sx_bond_good_for_n_epochs = None \<rparr>))"

definition inst_delist_reason :: "string \<Rightarrow> string" where
  "inst_delist_reason voteAccount =
     ''Validator '' @ voteAccount @ '' Select bond is no longer reported by the bonds API.''"

definition evaluateInstitutionalDeltas :: "solana_lib \<Rightarrow> string \<Rightarrow> institutional_validator list
    \<Rightarrow> (string, validator_state) jsmap \<Rightarrow> number \<Rightarrow> bonds_event list res" where
  "evaluateInstitutionalDeltas sl now currentValidators previousState epoch =
     rbind (delisted_events sl now inst_delist_reason epoch Institutional
              (map iv_voteAccount currentValidators) previousState) (\<lambda>delisted.
     Inr (concat (map (inst_validator_events now epoch previousState) currentValidators) @ delisted))"

definition institutionalValidatorToState :: "string \<Rightarrow> institutional_validator \<Rightarrow> number
    \<Rightarrow> validator_state" where
  "institutionalValidatorToState now v epoch =
     \<lparr> vs_vote_account = iv_voteAccount v,
       vs_bond_pubkey = Some (iv_bondPubkey v),
       vs_bond_type = Institutional,
       vs_epoch = epoch,
       vs_in_auction = False,
       vs_bond_good_for_n_epochs = None,
       vs_cap_constraint = None,
       vs_cap_marinade_stake_sol = None,
       vs_funded_amount_lamports = iv_fundedAmountLamports v,
       vs_effective_amount_lamports = iv_effectiveAmountLamports v,
       vs_auction_stake_lamports = 0,
       vs_deficit_lamports = inst_deficit v,
       vs_settlement_claims_lamports = Some (iv_settlementClaimsLamports v),
       vs_sam_eligible = False,
       vs_updated_at = now,
       vs_auction_validator = None \<rparr>"

section \<open>\<open>run-institutional.ts\<close>\<close>

record bonds_row =
  br_pubkey :: string
  br_vote_account :: string
  br_epoch :: number
  br_funded_amount :: number
  br_effective_amount :: number
  br_remainining_settlement_claim_amount :: number

record institutional_row =
  ir_vote_account :: string
  ir_epoch :: number
  ir_institutional_active_lamports :: string
  ir_institutional_activating_lamports :: string

definition toLamports :: "number \<Rightarrow> int res" where
  "toLamports value = bigint_of_num (n_trunc value)"

definition stake_by_vote :: "institutional_row list \<Rightarrow> (string, int) jsmap res" where
  "stake_by_vote stakes = rfoldM (\<lambda>m row.
     rbind (bigint_of_str (ir_institutional_active_lamports row)) (\<lambda>a.
     rbind (bigint_of_str (ir_institutional_activating_lamports row)) (\<lambda>b.
     Inr (jsmap_set (ir_vote_account row) (a + b) m)))) [] stakes"

definition inst_validator_of :: "(string, int) jsmap \<Rightarrow> bonds_row \<Rightarrow> institutional_validator res" where
  "inst_validator_of stakeByVoteAccount bond =
     rbind (toLamports (br_funded_amount bond)) (\<lambda>funded.
     rbind (toLamports (br_effective_amount bond)) (\<lambda>effective.
     rbind (toLamports (br_remainining_settlement_claim_amount bond)) (\<lambda>claims.
     Inr \<lparr> iv_voteAccount = br_vote_account bond,
           iv_bondPubkey = br_pubkey bond,
           iv_fundedAmountLamports = funded,
           iv_effectiveAmountLamports = effective,
           iv_settlementClaimsLamports = claims,
           iv_institutionalStakeLamports =
             orElse (jsmap_get stakeByVoteAccount (br_vote_account bond)) 0 \<rparr>)))"

text \<open>The two API answers are the arguments; a failed request throws before this point.\<close>

definition runInstitutional :: "bonds_row list \<Rightarrow> institutional_row list
    \<Rightarrow> (institutional_validator list \<times> number) res" where
  "runInstitutional bonds stakes =
     (if bonds = []
      then throw EError (''Bonds API returned no institutional bonds '' @ [CHR 0xE2, CHR 0x80, CHR 0x94]
             @ '' refusing to evaluate (would delist all tracked validators)'')
      else case stakes of
        [] \<Rightarrow> throw EError (''Institutional validators API returned no rows '' @ [CHR 0xE2, CHR 0x80, CHR 0x94]
             @ '' refusing to evaluate (would zero all deficits)'')
      | firstStake # _ \<Rightarrow>
          rbind (stake_by_vote stakes) (\<lambda>stakeByVoteAccount.
          rbind (rmapM (inst_validator_of stakeByVoteAccount) bonds) (\<lambda>validators.
          Inr (validators, ir_epoch firstStake))))"

section \<open>The flat deficit\<close>

lemma inst_deficit_nonneg: "0 \<le> inst_deficit v"
  by (simp add: inst_deficit_def computeFlatDeficit_def Let_def)

text \<open>The deficit is what is missing: the effective amount plus the deficit backs the stake
  at the ratio, and a positive deficit is the least amount that does.\<close>

lemma flat_deficit_covers:
  assumes "computeFlatDeficit stake eff = (req, def)" and "0 \<le> stake"
  shows "req * ALLOWED_STAKE_PER_BOND_RATIO \<le> stake"
    "stake < (req + 1) * ALLOWED_STAKE_PER_BOND_RATIO"
    "req \<le> eff + def" "0 \<le> def" "0 < def \<Longrightarrow> eff + def = req"
proof -
  have req: "req = stake div 2000" and d: "def = (if eff < req then req - eff else 0)"
    using assms by (auto simp: computeFlatDeficit_def Let_def bigint_div_nonneg
        ALLOWED_STAKE_PER_BOND_RATIO_def)
  show "req * ALLOWED_STAKE_PER_BOND_RATIO \<le> stake" "stake < (req + 1) * ALLOWED_STAKE_PER_BOND_RATIO"
    unfolding req ALLOWED_STAKE_PER_BOND_RATIO_def by presburger+
  show "req \<le> eff + def" "0 \<le> def" "0 < def \<Longrightarrow> eff + def = req"
    by (auto simp: d split: if_splits)
qed

section \<open>Quiescence and event attribution\<close>

lemma inst_quiescent:
  assumes "jsmap_get prevs (iv_voteAccount v) = Some p"
    and "delta_view p = delta_view (institutionalValidatorToState now' v epoch)"
  shows "inst_validator_events now epoch' prevs v = []"
  using delta_view_eq [OF assms(2)] assms(1)
  by (simp add: inst_validator_events_def inst_underfunded_def institutionalValidatorToState_def
        buildBondBalanceChangeEvent_def buildSettlementAppliedEvent_def opt_list_def)

lemma set_opt_list [simp]: "e \<in> set (opt_list x) \<longleftrightarrow> x = Some e"
  by (auto simp: opt_list_def split: option.splits)

lemma inst_underfunded_for:
  "inst_underfunded now epoch prev v = Some e \<Longrightarrow> event_for (iv_voteAccount v) Institutional epoch e"
  by (auto simp: inst_underfunded_def event_for_def Let_def split: if_splits)

lemma inst_first_seen_for: "event_for (iv_voteAccount v) Institutional epoch (inst_first_seen now epoch v)"
  by (simp add: inst_first_seen_def event_for_def Let_def)

lemma inst_events_for:
  assumes "e \<in> set (inst_validator_events now epoch prevs v)"
  shows "event_for (iv_voteAccount v) Institutional epoch e"
proof (cases "jsmap_get prevs (iv_voteAccount v)")
  case None
  with assms show ?thesis by (simp add: inst_validator_events_def inst_first_seen_for)
next
  case (Some prev)
  from assms show ?thesis
    unfolding inst_validator_events_def Some option.case set_append Un_iff set_opt_list
    by (elim disjE) (simp_all add: inst_underfunded_for buildBondBalance_for buildSettlement_for)
qed

section \<open>Delisting, for both evaluations\<close>

lemma delisted_none:
  "fst ` set prevs \<subseteq> set seen \<Longrightarrow> delisted_events sl now reason epoch bt seen prevs = Inr []"
  unfolding delisted_events_def by (rule rconcatM_all_Nil) auto

lemma delisted_for:
  assumes "delisted_events sl now reason epoch bt seen prevs = Inr es" and "e \<in> set es"
  obtains vote p where "(vote, p) \<in> set prevs" "vote \<notin> set seen"
    "event_for vote bt epoch e" "ev_inner_type e = ValidatorDelisted"
proof -
  from assms obtain x ys where x: "x \<in> set prevs" "e \<in> set ys"
    "(case x of (voteAccount, prev) \<Rightarrow>
       if voteAccount \<notin> set seen \<and> (0 < vs_funded_amount_lamports prev \<or> vs_in_auction prev)
       then rbind (case vs_bond_pubkey prev of
                Some b \<Rightarrow> Inr b
              | None \<Rightarrow> rbind (configAddressForBondType sl bt) (\<lambda>configAddress.
                   bond_pubkey_of sl configAddress voteAccount)) (\<lambda>b.
             Inr [buildValidatorDelistedEvent now voteAccount b epoch bt prev (reason voteAccount)])
       else Inr []) = Inr ys"
    unfolding delisted_events_def by (auto simp: rconcatM_set)
  obtain vote p where vp: "x = (vote, p)" by (cases x)
  from x(2,3) show thesis
    by (intro that [of vote p])
       (use x(1) vp in \<open>auto simp: rbind_eq_Inr event_for_def buildValidatorDelistedEvent_def
         split: if_splits\<close>)
qed

end
