(* ===== verification/Ev_Store.thy ===== *)
theory Ev_Store
  imports Ev_Bidding
begin

text \<open>
  The tables of the eventing package: \<open>bond_event_state\<close> (\<open>state.ts\<close>), \<open>bond_event_meta\<close>
  and \<open>emitted_bond_events\<close> (\<open>persist-events.ts\<close>), with the column types and keys of
  \<open>migrations/0006\<close> to \<open>0010\<close>. A table is the list of its rows; a query that
  Postgres refuses (a value out of the range of its column, a JSON payload with a number that
  is not finite, an \<open>ON CONFLICT DO UPDATE\<close> that meets a key twice) throws.

  How the driver hands out a BIGINT column is not under src/: \<open>rd\<close> is what
  \<open>BigInt(..)\<close> makes of the driver's value, and \<open>int8_exact\<close> is what the code relies on.

  The locale \<open>state_store\<close> is the interface the pipeline uses; the table model implements it.
\<close>

type_synonym state_table = "validator_state list"

definition row_key :: "validator_state \<Rightarrow> string \<times> bond_type" where
  "row_key r = (vs_vote_account r, vs_bond_type r)"

definition int4_ok :: "number \<Rightarrow> bool" where
  "int4_ok x = (case x of Fin r \<Rightarrow> is_integral r \<and> - (2 ^ 31) \<le> r \<and> r < 2 ^ 31 | _ \<Rightarrow> False)"

definition int8_ok :: "int \<Rightarrow> bool" where
  "int8_ok i \<longleftrightarrow> - (2 ^ 63) \<le> i \<and> i < 2 ^ 63"

definition row_ok :: "validator_state \<Rightarrow> bool" where
  "row_ok r \<longleftrightarrow> int4_ok (vs_epoch r)
     \<and> int8_ok (vs_funded_amount_lamports r) \<and> int8_ok (vs_effective_amount_lamports r)
     \<and> int8_ok (vs_auction_stake_lamports r) \<and> int8_ok (vs_deficit_lamports r)
     \<and> (case vs_settlement_claims_lamports r of None \<Rightarrow> True | Some i \<Rightarrow> int8_ok i)
     \<and> (case vs_auction_validator r of None \<Rightarrow> True | Some j \<Rightarrow> all_finite j)"

section \<open>\<open>state.ts\<close>\<close>

definition load_row :: "(int \<Rightarrow> int res) \<Rightarrow> validator_state \<Rightarrow> validator_state res" where
  "load_row rd row =
     rbind (rd (vs_funded_amount_lamports row)) (\<lambda>funded.
     rbind (rd (vs_effective_amount_lamports row)) (\<lambda>effective.
     rbind (rd (vs_auction_stake_lamports row)) (\<lambda>stake.
     rbind (rd (vs_deficit_lamports row)) (\<lambda>deficit.
     rbind (case vs_settlement_claims_lamports row of None \<Rightarrow> Inr None
            | Some c \<Rightarrow> rbind (rd c) (\<lambda>i. Inr (Some i))) (\<lambda>claims.
     Inr (row\<lparr> vs_funded_amount_lamports := funded, vs_effective_amount_lamports := effective,
               vs_auction_stake_lamports := stake, vs_deficit_lamports := deficit,
               vs_settlement_claims_lamports := claims, vs_auction_validator := None \<rparr>))))))"

definition loadPreviousState :: "(int \<Rightarrow> int res) \<Rightarrow> bond_type \<Rightarrow> state_table
    \<Rightarrow> (string, validator_state) jsmap res" where
  "loadPreviousState rd bondType table =
     rbind (rmapM (load_row rd) (filter (\<lambda>r. vs_bond_type r = bondType) table)) (\<lambda>states.
     Inr (fold (\<lambda>s m. jsmap_set (vs_vote_account s) s m) states []))"

fun upsert_row :: "validator_state \<Rightarrow> state_table \<Rightarrow> state_table" where
  "upsert_row s [] = [s]"
| "upsert_row s (r # rs) = (if row_key r = row_key s then s # rs else r # upsert_row s rs)"

definition saveCurrentState :: "string \<Rightarrow> validator_state list \<Rightarrow> state_table \<Rightarrow> state_table res" where
  "saveCurrentState now states table =
     (if states = [] then Inr table
      else if \<not> list_all row_ok states then throw EError ''value out of range''
      else if \<not> distinct (map row_key states)
      then throw EError ''ON CONFLICT DO UPDATE command cannot affect row a second time''
      else Inr (fold upsert_row (map (\<lambda>s. s\<lparr> vs_updated_at := now \<rparr>) states) table))"

definition deleteRemovedValidators :: "bond_type \<Rightarrow> string list \<Rightarrow> state_table \<Rightarrow> state_table" where
  "deleteRemovedValidators bondType currentVoteAccounts table =
     (if currentVoteAccounts = [] then filter (\<lambda>r. vs_bond_type r \<noteq> bondType) table
      else filter (\<lambda>r. \<not> (vs_bond_type r = bondType \<and> vs_vote_account r \<notin> set currentVoteAccounts))
             table)"

type_synonym meta_table = "(bond_type, number \<times> json) jsmap"

definition saveAuctionMeta :: "bond_type \<Rightarrow> number \<Rightarrow> json \<Rightarrow> meta_table \<Rightarrow> meta_table res" where
  "saveAuctionMeta bondType epoch meta table =
     (if \<not> int4_ok epoch then throw EError ''value out of range''
      else if \<not> all_finite (jsonSafe meta) then throw EError ''JSON payload cannot be stringified.''
      else Inr (jsmap_set bondType (epoch, jsonSafe meta) table))"

section \<open>\<open>persist-events.ts\<close>\<close>

record event_row =
  er_message_id :: string
  er_inner_type :: inner_type
  er_vote_account :: string
  er_bond_pubkey :: string
  er_bond_type :: bond_type
  er_epoch :: number
  er_payload :: json
  er_row_status :: emit_status
  er_row_error :: "string option"
  er_created_at :: string

definition event_row_of :: "string \<Rightarrow> bonds_event \<times> emit_result \<Rightarrow> event_row" where
  "event_row_of now er = (case er of (event, result) \<Rightarrow>
     \<lparr> er_message_id = er_messageId result,
       er_inner_type = ev_inner_type event,
       er_vote_account = ev_vote_account event,
       er_bond_pubkey = ev_bond_pubkey event,
       er_bond_type = ev_bond_type event,
       er_epoch = ev_epoch event,
       er_payload = sanitizeForJsonb (event_json event),
       er_row_status = er_status result,
       er_row_error = er_error result,
       er_created_at = now \<rparr>)"

definition insert_event :: "event_row \<Rightarrow> event_row list \<Rightarrow> event_row list" where
  "insert_event r evlog = (if er_message_id r \<in> er_message_id ` set evlog then evlog else evlog @ [r])"

definition persistEvents :: "string \<Rightarrow> (bonds_event \<times> emit_result) list \<Rightarrow> event_row list
    \<Rightarrow> event_row list res" where
  "persistEvents now results evlog =
     (if results = [] then Inr evlog
      else (let rows = map (event_row_of now) results in
        if \<not> list_all (\<lambda>r. all_finite (er_payload r)) rows
        then throw EError ''JSON payload cannot be stringified.''
        else if \<not> list_all (\<lambda>r. int4_ok (er_epoch r)) rows then throw EError ''value out of range''
        else Inr (fold insert_event rows evlog)))"

section \<open>The interface the pipeline uses\<close>

locale state_store =
  fixes lookup :: "'db \<Rightarrow> string \<times> bond_type \<Rightarrow> validator_state option"
    and save :: "string \<Rightarrow> validator_state list \<Rightarrow> 'db \<Rightarrow> 'db res"
    and prune :: "bond_type \<Rightarrow> string list \<Rightarrow> 'db \<Rightarrow> 'db"
  assumes save_hit: "save now ss db = Inr db' \<Longrightarrow> s \<in> set ss \<Longrightarrow>
        lookup db' (row_key s) = Some (s\<lparr> vs_updated_at := now \<rparr>)"
    and save_miss: "save now ss db = Inr db' \<Longrightarrow> k \<notin> row_key ` set ss \<Longrightarrow> lookup db' k = lookup db k"
    and prune_lookup: "lookup (prune bt keep db) (vote, bt') =
        (if bt' = bt \<and> vote \<notin> set keep then None else lookup db (vote, bt'))"
begin

lemma save_prune_hit:
  assumes "save now ss db = Inr db'" and "s \<in> set ss" and "vs_vote_account s \<in> set keep"
  shows "lookup (prune bt keep db') (row_key s) = Some (s\<lparr> vs_updated_at := now \<rparr>)"
  using save_hit [OF assms(1,2)] assms(3) by (simp add: row_key_def prune_lookup)

lemma save_prune_keep:
  assumes "save now ss db = Inr db'" and "(vote, bt) \<notin> row_key ` set ss" and "vote \<in> set keep"
  shows "lookup (prune bt keep db') (vote, bt) = lookup db (vote, bt)"
  using save_miss [OF assms(1,2)] assms(3) by (simp add: prune_lookup)

lemma save_prune_gone:
  "vote \<notin> set keep \<Longrightarrow> lookup (prune bt keep db) (vote, bt) = None"
  by (simp add: prune_lookup)

lemma save_prune_other:
  assumes "save now ss db = Inr db'" and "\<forall>s\<in>set ss. vs_bond_type s = bt" and "bt' \<noteq> bt"
  shows "lookup (prune bt keep db') (vote, bt') = lookup db (vote, bt')"
proof -
  have "(vote, bt') \<notin> row_key ` set ss" using assms(2,3) by (auto simp: row_key_def)
  then show ?thesis using save_miss [OF assms(1)] assms(3) by (simp add: prune_lookup)
qed

end

section \<open>The table implements it\<close>

definition row_lookup :: "state_table \<Rightarrow> string \<times> bond_type \<Rightarrow> validator_state option" where
  "row_lookup table k = map_of (map (\<lambda>r. (row_key r, r)) table) k"

lemma row_key_updated [simp]: "row_key (s\<lparr> vs_updated_at := now \<rparr>) = row_key s"
  by (simp add: row_key_def)

lemma row_lookup_upsert: "row_lookup (upsert_row s t) = (row_lookup t)(row_key s \<mapsto> s)"
  by (rule ext, induction t) (auto simp: row_lookup_def)

lemma row_lookup_simps [simp]:
  "row_lookup [] k = None"
  "row_lookup (r # t) k = (if row_key r = k then Some r else row_lookup t k)"
  by (simp_all add: row_lookup_def)

lemma row_lookup_absent: "k \<notin> row_key ` set t \<Longrightarrow> row_lookup t k = None"
  by (induction t) auto

lemma row_lookup_fold:
  "distinct (map row_key ss) \<Longrightarrow>
   row_lookup (fold upsert_row ss t) k = (case row_lookup ss k of Some s \<Rightarrow> Some s | None \<Rightarrow> row_lookup t k)"
  by (induction ss arbitrary: t) (auto simp: row_lookup_upsert row_lookup_absent split: option.split)

lemma row_lookup_mem:
  assumes "distinct (map row_key ss)" and "s \<in> set ss"
  shows "row_lookup ss (row_key s) = Some s"
  unfolding row_lookup_def by (rule map_of_is_SomeI) (use assms in \<open>auto simp: comp_def\<close>)

lemma row_lookup_filter:
  "row_lookup (filter (\<lambda>r. P (row_key r)) t) k = (if P k then row_lookup t k else None)"
  by (induction t) (auto simp: row_lookup_def)

lemma deleteRemoved_eq:
  "deleteRemovedValidators bt keep t =
     filter (\<lambda>r. \<not> (snd (row_key r) = bt \<and> fst (row_key r) \<notin> set keep)) t"
  by (simp add: deleteRemovedValidators_def row_key_def)

lemma saveCurrentState_Inr:
  assumes "saveCurrentState now ss t = Inr t'"
  shows "distinct (map row_key ss)" "list_all row_ok ss"
    "t' = fold upsert_row (map (\<lambda>s. s\<lparr> vs_updated_at := now \<rparr>) ss) t"
  using assms by (auto simp: saveCurrentState_def split: if_splits)

interpretation table: state_store row_lookup saveCurrentState deleteRemovedValidators
proof
  fix now ss t t' s
  assume save: "saveCurrentState now ss t = Inr t'" and s: "s \<in> set ss"
  let ?ss = "map (\<lambda>s. s\<lparr> vs_updated_at := now \<rparr>) ss"
  have d: "distinct (map row_key ?ss)" using saveCurrentState_Inr(1) [OF save] by (simp add: comp_def)
  have "row_lookup ?ss (row_key (s\<lparr> vs_updated_at := now \<rparr>)) = Some (s\<lparr> vs_updated_at := now \<rparr>)"
    by (rule row_lookup_mem [OF d]) (use s in simp)
  then show "row_lookup t' (row_key s) = Some (s\<lparr> vs_updated_at := now \<rparr>)"
    unfolding saveCurrentState_Inr(3) [OF save] row_lookup_fold [OF d] by simp
next
  fix now ss t t' k
  assume save: "saveCurrentState now ss t = Inr t'" and k: "k \<notin> row_key ` set ss"
  let ?ss = "map (\<lambda>s. s\<lparr> vs_updated_at := now \<rparr>) ss"
  have d: "distinct (map row_key ?ss)" using saveCurrentState_Inr(1) [OF save] by (simp add: comp_def)
  have "row_lookup ?ss k = None"
    using k by (auto simp: row_lookup_def map_of_eq_None_iff image_iff)
  then show "row_lookup t' k = row_lookup t k"
    unfolding saveCurrentState_Inr(3) [OF save] row_lookup_fold [OF d] by simp
next
  fix bt keep t vote bt'
  show "row_lookup (deleteRemovedValidators bt keep t) (vote, bt') =
      (if bt' = bt \<and> vote \<notin> set keep then None else row_lookup t (vote, bt'))"
    unfolding deleteRemoved_eq
    by (subst row_lookup_filter [where P = "\<lambda>k. \<not> (snd k = bt \<and> fst k \<notin> set keep)"]) simp
qed

section \<open>The primary key\<close>

definition table_ok :: "state_table \<Rightarrow> bool" where
  "table_ok t \<longleftrightarrow> distinct (map row_key t)"

lemma keys_upsert: "row_key ` set (upsert_row s t) = insert (row_key s) (row_key ` set t)"
  by (induction t) auto

lemma table_ok_upsert: "table_ok t \<Longrightarrow> table_ok (upsert_row s t)"
proof (induction t)
  case (Cons r t)
  then show ?case using keys_upsert [of s t] by (auto simp: table_ok_def)
qed (simp add: table_ok_def)

lemma table_ok_save: "saveCurrentState now ss t = Inr t' \<Longrightarrow> table_ok t \<Longrightarrow> table_ok t'"
proof -
  have "table_ok (fold upsert_row rs t)" if "table_ok t" for rs t
    using that by (induction rs arbitrary: t) (simp_all add: table_ok_upsert)
  then show "saveCurrentState now ss t = Inr t' \<Longrightarrow> table_ok t \<Longrightarrow> table_ok t'"
    using saveCurrentState_Inr(3) by blast
qed

lemma table_ok_delete: "table_ok t \<Longrightarrow> table_ok (deleteRemovedValidators bt keep t)"
  unfolding deleteRemoved_eq table_ok_def by (rule distinct_map_filter)

section \<open>Loading\<close>

definition int8_exact :: "(int \<Rightarrow> int res) \<Rightarrow> bool" where
  "int8_exact rd \<longleftrightarrow> (\<forall>i. \<bar>i\<bar> < 2 ^ 53 \<longrightarrow> rd i = Inr i)"

definition row_safe :: "validator_state \<Rightarrow> bool" where
  "row_safe r \<longleftrightarrow> \<bar>vs_funded_amount_lamports r\<bar> < 2 ^ 53 \<and> \<bar>vs_effective_amount_lamports r\<bar> < 2 ^ 53
     \<and> \<bar>vs_auction_stake_lamports r\<bar> < 2 ^ 53 \<and> \<bar>vs_deficit_lamports r\<bar> < 2 ^ 53
     \<and> (case vs_settlement_claims_lamports r of None \<Rightarrow> True | Some i \<Rightarrow> \<bar>i\<bar> < 2 ^ 53)"

lemma load_row_exact:
  "int8_exact rd \<Longrightarrow> row_safe r \<Longrightarrow> load_row rd r = Inr (r\<lparr> vs_auction_validator := None \<rparr>)"
  by (auto simp: load_row_def int8_exact_def row_safe_def split: option.splits)

lemma fold_jsmap_get:
  "map_of (fold (\<lambda>s m. jsmap_set (f s) s m) ss m) v =
     (case map_of (rev (map (\<lambda>s. (f s, s)) ss)) v of Some s \<Rightarrow> Some s | None \<Rightarrow> map_of m v)"
  by (induction ss arbitrary: m) (auto simp: map_add_def split: option.splits)

lemma fold_jsmap_keys:
  "fst ` set (fold (\<lambda>s m. jsmap_set (f s) s m) ss m) = f ` set ss \<union> fst ` set m"
  by (induction ss arbitrary: m) (auto simp: dom_update)

lemma loadPreviousState_exact:
  assumes "int8_exact rd" and "table_ok t" and "\<forall>r\<in>set t. row_safe r"
  obtains prevs where "loadPreviousState rd bt t = Inr prevs"
    "\<And>vote. jsmap_get prevs vote =
        map_option (\<lambda>r. r\<lparr> vs_auction_validator := None \<rparr>) (row_lookup t (vote, bt))"
    "fst ` set prevs = {vote. row_lookup t (vote, bt) \<noteq> None}"
proof -
  define rows where "rows = map (\<lambda>r. r\<lparr> vs_auction_validator := None \<rparr>) (filter (\<lambda>r. vs_bond_type r = bt) t)"
  define prevs where "prevs = fold (\<lambda>s m. jsmap_set (vs_vote_account s) s m) rows []"
  have "rmapM (load_row rd) (filter (\<lambda>r. vs_bond_type r = bt) t) = Inr rows"
    unfolding rows_def by (rule rmapM_total) (use assms in \<open>simp add: load_row_exact\<close>)
  then have load: "loadPreviousState rd bt t = Inr prevs"
    by (simp add: loadPreviousState_def prevs_def)
  have get: "jsmap_get prevs vote =
      map_option (\<lambda>r. r\<lparr> vs_auction_validator := None \<rparr>) (row_lookup t (vote, bt))" for vote
  proof -
    have "distinct (map vs_vote_account rows)"
      using assms(2) unfolding table_ok_def rows_def
      by (induction t) (auto simp: row_key_def)
    then have "map_of (rev (map (\<lambda>s. (vs_vote_account s, s)) rows)) = map_of (map (\<lambda>s. (vs_vote_account s, s)) rows)"
      by (intro map_of_inject_set [THEN iffD2]) (simp_all add: comp_def rev_map [symmetric])
    then have "jsmap_get prevs vote = map_of (map (\<lambda>s. (vs_vote_account s, s)) rows) vote"
      by (simp add: prevs_def fold_jsmap_get split: option.split)
    also have "\<dots> = map_option (\<lambda>r. r\<lparr> vs_auction_validator := None \<rparr>) (row_lookup t (vote, bt))"
      unfolding rows_def row_lookup_def by (induction t) (auto simp: row_key_def)
    finally show ?thesis .
  qed
  moreover have "fst ` set prevs = {vote. row_lookup t (vote, bt) \<noteq> None}"
  proof -
    have "fst ` set prevs = {vote. jsmap_get prevs vote \<noteq> None}"
      by (auto simp: map_of_eq_None_iff)
    then show ?thesis unfolding get by simp
  qed
  ultimately show thesis using load that by blast
qed

section \<open>The event log\<close>

lemma payload_finite: "all_finite (er_payload (event_row_of now er))"
  by (cases er) (simp only: event_row_of_def prod.case event_row.simps persist.sanitized_finite)

lemma persistEvents_total:
  "\<forall>er\<in>set results. int4_ok (ev_epoch (fst er)) \<Longrightarrow> \<exists>evlog'. persistEvents now results evlog = Inr evlog'"
  unfolding persistEvents_def Let_def
  using payload_finite [of now] by (auto simp: list_all_iff event_row_of_def split: prod.splits)

lemma fold_insert_event_upper: "set (fold insert_event rows evlog) \<subseteq> set evlog \<union> set rows"
proof (induction rows arbitrary: evlog)
  case (Cons r rows)
  have "set (insert_event r evlog) \<subseteq> insert r (set evlog)" by (auto simp: insert_event_def)
  with Cons [of "insert_event r evlog"] show ?case by auto
qed simp

lemma fold_insert_event_lower: "set evlog \<subseteq> set (fold insert_event rows evlog)"
proof (induction rows arbitrary: evlog)
  case (Cons r rows)
  have "set evlog \<subseteq> set (insert_event r evlog)" by (auto simp: insert_event_def)
  also have "\<dots> \<subseteq> set (fold insert_event rows (insert_event r evlog))" by (rule Cons)
  finally show ?case by simp
qed simp

lemma fold_insert_event_ids:
  "distinct (map er_message_id evlog) \<Longrightarrow> distinct (map er_message_id (fold insert_event rows evlog))"
  by (induction rows arbitrary: evlog) (auto simp: insert_event_def)

lemma fold_insert_event_all:
  "er_message_id ` set (fold insert_event rows evlog) = er_message_id ` (set evlog \<union> set rows)"
  by (induction rows arbitrary: evlog) (auto simp: insert_event_def)

end
