(* ===== verification/Ev_Emit.thy ===== *)
theory Ev_Emit
  imports Ev_Types "HOL-Library.Multiset"
begin

text \<open>
  Emitting events: \<open>config.ts\<close> and \<open>emit-events.ts\<close> of \<open>packages/bonds-eventing/src\<close>.

  \<open>postEvent\<close> is the retry loop; the answers of the notification API are the argument
  \<open>outs\<close>, one outcome per attempt. The pool of \<open>emitEvents\<close> is the step relation
  \<open>pool_step\<close>: any request in flight may finish next. \<open>pool_run\<close> is one run, driven by the
  function \<open>pick\<close> that names the request that finishes; every run of the relation is such a run.
\<close>

section \<open>\<open>config.ts\<close>\<close>

text \<open>\<open>Number(value)\<close> of an option value: commander gives strings, booleans or undefined.\<close>

definition js_Number :: "json \<Rightarrow> number" where
  "js_Number v = (case v of JNum x \<Rightarrow> x | JStr s \<Rightarrow> num_of_str s | JBool b \<Rightarrow> (if b then Fin 1 else Fin 0)
     | JNull \<Rightarrow> Fin 0 | JBig i \<Rightarrow> num_of_bigint i | _ \<Rightarrow> NaN)"

definition is_unset :: "json \<Rightarrow> bool" where
  "is_unset v \<longleftrightarrow> v = JUndef \<or> v = JNull \<or> v = JStr ''''"

definition opt_repr :: "json \<Rightarrow> string" where
  "opt_repr v = (case v of JStr s \<Rightarrow> s | _ \<Rightarrow> num_str (js_Number v))"

definition parseNonNegativeInt :: "string \<Rightarrow> json \<Rightarrow> number \<Rightarrow> number res" where
  "parseNonNegativeInt name v fallback =
     (if is_unset v then Inr fallback
      else (let n = js_Number v in
        if \<not> is_finite n \<or> n_lt n (Fin 0)
        then throw EError (''Invalid value for '' @ name @ '': '' @ [CHR 39] @ opt_repr v @ [CHR 39]
               @ '' (expected non-negative integer)'')
        else Inr (n_floor n)))"

definition parsePositiveInt :: "string \<Rightarrow> json \<Rightarrow> number \<Rightarrow> number res" where
  "parsePositiveInt name v fallback =
     (if is_unset v then Inr fallback
      else (let n = js_Number v in
        if \<not> is_finite n \<or> n_lt n (Fin 1)
        then throw EError (''Invalid value for '' @ name @ '': '' @ [CHR 39] @ opt_repr v @ [CHR 39]
               @ '' (expected positive integer)'')
        else Inr (n_floor n)))"

definition opt_field :: "(string \<times> json) list \<Rightarrow> string \<Rightarrow> json" where
  "opt_field opts k = orElse (map_of opts k) JUndef"

definition opt_string :: "json \<Rightarrow> string option" where
  "opt_string v = (case v of JStr s \<Rightarrow> Some s | _ \<Rightarrow> None)"

definition parseConfig :: "(string \<times> json) list \<Rightarrow> eventing_config res" where
  "parseConfig opts =
     rbind (parseNonNegativeInt ''--retry-max-attempts'' (opt_field opts ''retryMaxAttempts'') (Fin 4)) (\<lambda>attempts.
     rbind (parseNonNegativeInt ''--retry-base-delay-ms'' (opt_field opts ''retryBaseDelayMs'') (Fin 30000)) (\<lambda>delay.
     rbind (parsePositiveInt ''--emit-concurrency'' (opt_field opts ''emitConcurrency'') (Fin 20)) (\<lambda>conc.
     Inr \<lparr> cf_bondsApiUrl = opt_field opts ''bondsApiUrl'',
           cf_validatorsApiUrl = opt_field opts ''validatorsApiUrl'',
           cf_scoringApiUrl = opt_field opts ''scoringApiUrl'',
           cf_tvlApiUrl = opt_field opts ''tvlApiUrl'',
           cf_institutionalApiUrl = opt_field opts ''institutionalApiUrl'',
           cf_notificationsApiUrl = opt_string (opt_field opts ''notificationsApiUrl''),
           cf_notificationsJwt = opt_string (opt_field opts ''notificationsJwt''),
           cf_postgresUrl = opt_string (opt_field opts ''postgresUrl''),
           cf_postgresSslRootCert = opt_string (opt_field opts ''postgresSslRootCert''),
           cf_retryMaxAttempts = attempts,
           cf_retryBaseDelayMs = delay,
           cf_emitConcurrency = conc,
           cf_dryRun = (opt_field opts ''dryRun'' = JBool True \<or> opt_field opts ''dryRun'' = JStr ''true''),
           cf_cacheInputs = opt_string (opt_field opts ''cacheInputs'') \<rparr>)))"

text \<open>\<open>if (url)\<close>: undefined and the empty string are false.\<close>

definition truthy :: "string option \<Rightarrow> bool" where
  "truthy s \<longleftrightarrow> s \<noteq> None \<and> s \<noteq> Some ''''"

text \<open>A number of the configuration that counts. \<open>parseConfig\<close> only lets natural numbers through
  (\<open>parseConfig_counts\<close>), and for these it is the number of turns of the loops of the code.\<close>

definition count_of :: "number \<Rightarrow> nat" where
  "count_of x = (case x of Fin r \<Rightarrow> nat \<lfloor>r\<rfloor> | _ \<Rightarrow> 0)"

lemma parse_int_count:
  "parseNonNegativeInt nm v (Fin (of_nat d)) = Inr n \<Longrightarrow> n = Fin (of_nat (count_of n))"
  "parsePositiveInt nm v (Fin (of_nat (Suc d))) = Inr n \<Longrightarrow> n = Fin (of_nat (count_of n)) \<and> 0 < count_of n"
proof -
  assume "parseNonNegativeInt nm v (Fin (of_nat d)) = Inr n"
  then show "n = Fin (of_nat (count_of n))"
    by (cases "js_Number v")
       (auto simp: parseNonNegativeInt_def Let_def is_finite_def n_floor_def count_of_def split: if_splits)
next
  assume "parsePositiveInt nm v (Fin (of_nat (Suc d))) = Inr n"
  then show "n = Fin (of_nat (count_of n)) \<and> 0 < count_of n"
    by (cases "js_Number v")
       (auto simp: parsePositiveInt_def Let_def is_finite_def n_floor_def count_of_def split: if_splits)
qed

lemma parseConfig_counts:
  assumes "parseConfig opts = Inr cf"
  shows "cf_retryMaxAttempts cf = Fin (of_nat (count_of (cf_retryMaxAttempts cf)))"
    "cf_emitConcurrency cf = Fin (of_nat (count_of (cf_emitConcurrency cf)))"
    "0 < count_of (cf_emitConcurrency cf)"
proof -
  from assms obtain a c where
    a: "parseNonNegativeInt ''--retry-max-attempts'' (opt_field opts ''retryMaxAttempts'') (Fin 4) = Inr a"
    and c: "parsePositiveInt ''--emit-concurrency'' (opt_field opts ''emitConcurrency'') (Fin 20) = Inr c"
    and cf: "cf_retryMaxAttempts cf = a" "cf_emitConcurrency cf = c"
    unfolding parseConfig_def by (auto simp only: rbind_eq_Inr sum.inject eventing_config.simps)
  show "cf_retryMaxAttempts cf = Fin (of_nat (count_of (cf_retryMaxAttempts cf)))"
    unfolding cf using a parse_int_count(1) [where d = 4] by simp
  show "cf_emitConcurrency cf = Fin (of_nat (count_of (cf_emitConcurrency cf)))"
    "0 < count_of (cf_emitConcurrency cf)"
    unfolding cf using c parse_int_count(2) [where d = 19] by simp_all
qed

section \<open>\<open>postEvent\<close>: the retry loop\<close>

datatype http_outcome =
    HttpResponse nat "string option"
  | FetchError string

text \<open>A response has its status and its body (\<open>None\<close> when reading the body fails).\<close>

definition http_ok :: "nat \<Rightarrow> bool" where
  "http_ok status \<longleftrightarrow> 200 \<le> status \<and> status \<le> 299"

definition http_retryable :: "nat \<Rightarrow> bool" where
  "http_retryable status \<longleftrightarrow> \<not> (400 \<le> status \<and> status < 500 \<and> status \<noteq> 429)"

definition http_error :: "nat \<Rightarrow> string option \<Rightarrow> string" where
  "http_error status body = ''HTTP '' @ nat_str status @ '': '' @ orElse body ''no body''"

text \<open>The result, the delays slept and the number of posts.\<close>

record post_run =
  pr_status :: emit_status
  pr_error :: "string option"
  pr_delays :: "number list"
  pr_posts :: nat

definition retry_delay :: "number \<Rightarrow> nat \<Rightarrow> number" where
  "retry_delay base attempt = n_mul base (dbl (2 ^ (attempt - 1)))"

fun post_loop :: "(nat \<Rightarrow> http_outcome) \<Rightarrow> number \<Rightarrow> nat \<Rightarrow> nat \<Rightarrow> string option \<Rightarrow> number list \<Rightarrow> post_run" where
  "post_loop outs base attempt 0 lastError delays =
     \<lparr> pr_status = Failed, pr_error = lastError, pr_delays = delays, pr_posts = attempt \<rparr>"
| "post_loop outs base attempt (Suc left) lastError delays =
     (let delays' = (if 0 < attempt then delays @ [retry_delay base attempt] else delays) in
      case outs attempt of
        FetchError msg \<Rightarrow> post_loop outs base (Suc attempt) left (Some msg) delays'
      | HttpResponse status body \<Rightarrow>
          if http_ok status
          then \<lparr> pr_status = Sent, pr_error = None, pr_delays = delays', pr_posts = Suc attempt \<rparr>
          else if \<not> http_retryable status
          then \<lparr> pr_status = Failed, pr_error = Some (http_error status body),
                 pr_delays = delays', pr_posts = Suc attempt \<rparr>
          else post_loop outs base (Suc attempt) left (Some (http_error status body)) delays')"

definition postEvent :: "eventing_config \<Rightarrow> (nat \<Rightarrow> http_outcome) \<Rightarrow> post_run" where
  "postEvent cf outs =
     post_loop outs (cf_retryBaseDelayMs cf) 0 (Suc (count_of (cf_retryMaxAttempts cf))) None []"

definition post_message :: "string \<Rightarrow> number \<Rightarrow> bonds_event \<Rightarrow> json" where
  "post_message messageId now event = JObj
     [(''header'', JObj [(''producer_id'', JStr ''bonds-eventing''), (''message_id'', JStr messageId),
                         (''created_at'', JNum now)]),
      (''payload'', event_json event)]"

definition emit_of_run :: "string \<Rightarrow> post_run \<Rightarrow> emit_result" where
  "emit_of_run messageId r =
     \<lparr> er_status = pr_status r, er_messageId = messageId, er_error = pr_error r \<rparr>"

subsection \<open>Properties of the loop\<close>

text \<open>The attempt at which the loop stops: the first answer that is not retried.\<close>

definition final_outcome :: "http_outcome \<Rightarrow> bool" where
  "final_outcome q = (case q of HttpResponse s _ \<Rightarrow> http_ok s \<or> \<not> http_retryable s | FetchError _ \<Rightarrow> False)"

definition ok_outcome :: "http_outcome \<Rightarrow> bool" where
  "ok_outcome q = (case q of HttpResponse s _ \<Rightarrow> http_ok s | FetchError _ \<Rightarrow> False)"

definition next_delays :: "number \<Rightarrow> nat \<Rightarrow> number list \<Rightarrow> number list" where
  "next_delays base a ds = (if 0 < a then ds @ [retry_delay base a] else ds)"

lemma post_loop_next:
  assumes "\<not> final_outcome (outs a)"
  obtains e' where "post_loop outs base a (Suc left) e ds =
      post_loop outs base (Suc a) left (Some e') (next_delays base a ds)"
  using assms by (cases "outs a") (auto simp: final_outcome_def next_delays_def Let_def)

lemma post_loop_final:
  assumes "final_outcome (outs a)"
  shows "pr_status (post_loop outs base a (Suc left) e ds) = (if ok_outcome (outs a) then Sent else Failed)
    \<and> pr_posts (post_loop outs base a (Suc left) e ds) = Suc a"
  using assms by (cases "outs a") (auto simp: final_outcome_def ok_outcome_def Let_def)

declare post_loop.simps(2) [simp del]

lemma post_loop_exhausted:
  assumes "\<And>k. a \<le> k \<Longrightarrow> k < a + left \<Longrightarrow> \<not> final_outcome (outs k)"
  shows "pr_status (post_loop outs base a left e ds) = Failed
    \<and> pr_posts (post_loop outs base a left e ds) = a + left
    \<and> length (pr_delays (post_loop outs base a left e ds))
        = length ds + (if a = 0 then left - 1 else left)"
  using assms
proof (induction left arbitrary: a e ds)
  case (Suc left)
  have "\<not> final_outcome (outs a)" using Suc.prems by simp
  then obtain e' where eq: "post_loop outs base a (Suc left) e ds =
      post_loop outs base (Suc a) left (Some e') (next_delays base a ds)"
    by (rule post_loop_next)
  have rest: "\<And>k. Suc a \<le> k \<Longrightarrow> k < Suc a + left \<Longrightarrow> \<not> final_outcome (outs k)"
    using Suc.prems by simp
  show ?case using Suc.IH [OF rest] by (simp add: eq next_delays_def)
qed simp

lemma post_loop_stops:
  assumes "a \<le> n" and "n < a + left" and "final_outcome (outs n)"
    and "\<And>k. a \<le> k \<Longrightarrow> k < n \<Longrightarrow> \<not> final_outcome (outs k)"
  shows "pr_status (post_loop outs base a left e ds) = (if ok_outcome (outs n) then Sent else Failed)
    \<and> pr_posts (post_loop outs base a left e ds) = Suc n"
  using assms
proof (induction left arbitrary: a e ds)
  case (Suc left)
  show ?case
  proof (cases "a = n")
    case True
    with Suc.prems(3) show ?thesis by (simp add: post_loop_final)
  next
    case False
    then have "\<not> final_outcome (outs a)" using Suc.prems(1,4) by simp
    then obtain e' where eq: "post_loop outs base a (Suc left) e ds =
        post_loop outs base (Suc a) left (Some e') (next_delays base a ds)"
      by (rule post_loop_next)
    show ?thesis unfolding eq using Suc.prems False by (intro Suc.IH) simp_all
  qed
qed simp

lemma post_loop_posts: "pr_posts (post_loop outs base a left e ds) \<le> a + left"
proof (induction left arbitrary: a e ds)
  case (Suc left)
  show ?case
  proof (cases "final_outcome (outs a)")
    case True
    then show ?thesis by (simp add: post_loop_final)
  next
    case False
    then obtain e' where eq: "post_loop outs base a (Suc left) e ds =
        post_loop outs base (Suc a) left (Some e') (next_delays base a ds)"
      by (rule post_loop_next)
    show ?thesis unfolding eq by (rule order.trans [OF Suc]) simp
  qed
qed simp

section \<open>The pool of \<open>emitEvents\<close>\<close>

text \<open>An event of the pool is the event with its position in the input: two events are two
  requests, equal or not.\<close>

type_synonym job = "nat \<times> bonds_event"

record pool =
  pl_queue :: "job list"
  pl_flight :: "job list"
  pl_results :: "(job \<times> emit_result) list"

fun pool_next :: "nat \<Rightarrow> job list \<Rightarrow> job list \<Rightarrow> job list \<times> job list" where
  "pool_next c [] f = ([], f)"
| "pool_next c (e # q) f = (if length f < c then pool_next c q (f @ [e]) else (e # q, f))"

definition pool_init :: "nat \<Rightarrow> job list \<Rightarrow> pool" where
  "pool_init c jobs = (case pool_next c jobs [] of (q, f) \<Rightarrow>
     \<lparr> pl_queue = q, pl_flight = f, pl_results = [] \<rparr>)"

definition pool_finish :: "nat \<Rightarrow> (job \<Rightarrow> emit_result) \<Rightarrow> nat \<Rightarrow> pool \<Rightarrow> pool" where
  "pool_finish c post i s =
     (let e = pl_flight s ! i in
      case pool_next c (pl_queue s) (take i (pl_flight s) @ drop (Suc i) (pl_flight s)) of
        (q, f) \<Rightarrow> \<lparr> pl_queue = q, pl_flight = f, pl_results = pl_results s @ [(e, post e)] \<rparr>)"

inductive pool_step :: "nat \<Rightarrow> (job \<Rightarrow> emit_result) \<Rightarrow> pool \<Rightarrow> pool \<Rightarrow> bool" for c post where
  finish: "i < length (pl_flight s) \<Longrightarrow> pool_step c post s (pool_finish c post i s)"

inductive pool_reach :: "nat \<Rightarrow> (job \<Rightarrow> emit_result) \<Rightarrow> job list \<Rightarrow> pool \<Rightarrow> bool" for c post jobs where
  init: "pool_reach c post jobs (pool_init c jobs)"
| step: "pool_reach c post jobs s \<Longrightarrow> pool_step c post s t \<Longrightarrow> pool_reach c post jobs t"

inductive_cases pool_stepE: "pool_step c post s t"
inductive_simps pool_step_iff: "pool_step c post s t"

fun pool_run :: "nat \<Rightarrow> (job \<Rightarrow> emit_result) \<Rightarrow> (nat \<Rightarrow> nat) \<Rightarrow> nat \<Rightarrow> pool \<Rightarrow> pool" where
  "pool_run c post pick 0 s = s"
| "pool_run c post pick (Suc n) s =
     (if pl_flight s = [] then s
      else pool_run c post pick n
             (pool_finish c post (pick (length (pl_results s)) mod length (pl_flight s)) s))"

definition number_jobs :: "bonds_event list \<Rightarrow> job list" where
  "number_jobs events = zip [0..<length events] events"

definition emitEvents :: "eventing_config \<Rightarrow> (job \<Rightarrow> emit_result) \<Rightarrow> (nat \<Rightarrow> string) \<Rightarrow> (nat \<Rightarrow> nat)
    \<Rightarrow> bonds_event list \<Rightarrow> (bonds_event \<times> emit_result) list" where
  "emitEvents cf post uuid pick events =
     (if events = [] then []
      else if cf_dryRun cf
      then map (\<lambda>e. (e, \<lparr> er_status = Sent, er_messageId = ''dry-run'', er_error = None \<rparr>)) events
      else if \<not> truthy (cf_notificationsApiUrl cf)
      then map (\<lambda>(i, e). (e, \<lparr> er_status = Failed, er_messageId = uuid i,
               er_error = Some ''No notifications API URL configured'' \<rparr>)) (number_jobs events)
      else (let c = count_of (cf_emitConcurrency cf) in
            map (\<lambda>(job, r). (snd job, r)) (pl_results
              (pool_run c post pick (length events) (pool_init c (number_jobs events))))))"

subsection \<open>Properties of the pool\<close>

definition pool_inv :: "nat \<Rightarrow> (job \<Rightarrow> emit_result) \<Rightarrow> job list \<Rightarrow> pool \<Rightarrow> bool" where
  "pool_inv c post jobs s \<longleftrightarrow>
     mset (pl_queue s) + mset (pl_flight s) + mset (map fst (pl_results s)) = mset jobs
     \<and> length (pl_flight s) \<le> c
     \<and> (pl_queue s \<noteq> [] \<longrightarrow> length (pl_flight s) = c)
     \<and> (\<forall>(e, r)\<in>set (pl_results s). r = post e)"

lemma pool_next_props:
  assumes "pool_next c q f = (q', f')" and "length f \<le> c"
  shows "mset q' + mset f' = mset q + mset f \<and> length f' \<le> c \<and> (q' \<noteq> [] \<longrightarrow> length f' = c)"
  using assms by (induction c q f rule: pool_next.induct) (auto split: if_splits)

lemma pool_inv_init: "pool_inv c post jobs (pool_init c jobs)"
proof -
  obtain q f where qf: "pool_next c jobs [] = (q, f)" by (cases "pool_next c jobs []")
  then show ?thesis using pool_next_props [OF qf] by (simp add: pool_inv_def pool_init_def)
qed

lemma mset_remove_nth:
  "i < length xs \<Longrightarrow> add_mset (xs ! i) (mset (take i xs @ drop (Suc i) xs)) = mset xs"
  by (metis id_take_nth_drop mset.simps(2) mset_append union_mset_add_mset_right)

lemma pool_inv_finish:
  assumes inv: "pool_inv c post jobs s" and i: "i < length (pl_flight s)"
  shows "pool_inv c post jobs (pool_finish c post i s)"
proof -
  let ?f = "take i (pl_flight s) @ drop (Suc i) (pl_flight s)"
  obtain q f where qf: "pool_next c (pl_queue s) ?f = (q, f)"
    by (cases "pool_next c (pl_queue s) ?f")
  have "length (pl_flight s) \<le> c" using inv by (simp add: pool_inv_def)
  then have "length ?f \<le> c" using i by simp
  note props = pool_next_props [OF qf this]
  have ms: "add_mset (pl_flight s ! i) (mset q + mset f) = mset (pl_queue s) + mset (pl_flight s)"
    using props mset_remove_nth [OF i] by (metis union_mset_add_mset_right)
  have "mset q + mset f + mset (map fst (pl_results s @ [(pl_flight s ! i, post (pl_flight s ! i))]))
      = add_mset (pl_flight s ! i) (mset q + mset f) + mset (map fst (pl_results s))" by simp
  also have "\<dots> = mset jobs" using inv unfolding ms by (simp add: pool_inv_def)
  finally show ?thesis
    using props inv by (auto simp: pool_inv_def pool_finish_def qf Let_def)
qed

lemma pool_inv_reach: "pool_reach c post jobs s \<Longrightarrow> pool_inv c post jobs s"
  by (induction rule: pool_reach.induct) (auto simp: pool_inv_init pool_inv_finish elim!: pool_stepE)

lemma pool_done:
  assumes "pool_inv c post jobs s" and "0 < c" and "pl_flight s = []"
  shows "pl_queue s = []" "mset (map fst (pl_results s)) = mset jobs"
  using assms by (auto simp: pool_inv_def)

lemma pool_left:
  assumes "pool_inv c post jobs s"
  shows "length (pl_queue s) + length (pl_flight s) + length (pl_results s) = length jobs"
proof -
  have "size (mset (pl_queue s) + mset (pl_flight s) + mset (map fst (pl_results s))) = size (mset jobs)"
    using assms by (simp only: pool_inv_def)
  then show ?thesis by simp
qed

lemma pool_finish_results: "length (pl_results (pool_finish c post i s)) = Suc (length (pl_results s))"
  by (simp add: pool_finish_def Let_def split: prod.split)

lemma pool_run_reach: "pool_reach c post jobs s \<Longrightarrow> pool_reach c post jobs (pool_run c post pick n s)"
proof (induction n arbitrary: s)
  case (Suc n)
  show ?case
  proof (cases "pl_flight s = []")
    case False
    then have "pool_step c post s
        (pool_finish c post (pick (length (pl_results s)) mod length (pl_flight s)) s)"
      by (intro pool_step.finish) simp
    then show ?thesis using Suc False by (simp add: pool_reach.step)
  qed (use Suc in simp)
qed simp

lemma pool_run_done:
  assumes "pool_reach c post jobs s" and "0 < c" and "length jobs \<le> length (pl_results s) + n"
  shows "pl_flight (pool_run c post pick n s) = []"
  using assms(1,3)
proof (induction n arbitrary: s)
  case 0
  then have "length (pl_flight s) = 0" using pool_left [OF pool_inv_reach [OF 0(1)]] by linarith
  then show ?case by simp
next
  case (Suc n)
  show ?case
  proof (cases "pl_flight s = []")
    case False
    let ?t = "pool_finish c post (pick (length (pl_results s)) mod length (pl_flight s)) s"
    have "pool_step c post s ?t" using False by (intro pool_step.finish) simp
    then have "pool_reach c post jobs ?t" by (rule pool_reach.step [OF Suc.prems(1)])
    then have "pl_flight (pool_run c post pick n ?t) = []"
      using Suc.prems(2) by (intro Suc.IH) (simp_all add: pool_finish_results)
    then show ?thesis using False by simp
  qed simp
qed

lemma number_jobs_snd: "map snd (number_jobs events) = events"
  by (simp add: number_jobs_def)

lemma emitEvents_pool:
  assumes "\<not> cf_dryRun cf" and "truthy (cf_notificationsApiUrl cf)" and "0 < count_of (cf_emitConcurrency cf)"
  obtains rs where "emitEvents cf post uuid pick events = map (\<lambda>(job, r). (snd job, r)) rs"
    "mset (map fst rs) = mset (number_jobs events)" "\<forall>(job, r)\<in>set rs. r = post job"
proof -
  define c where "c = count_of (cf_emitConcurrency cf)"
  define s where "s = pool_run c post pick (length events) (pool_init c (number_jobs events))"
  have reach: "pool_reach c post (number_jobs events) s"
    unfolding s_def by (intro pool_run_reach pool_reach.init)
  have fl: "pl_flight s = []"
    unfolding s_def
    by (rule pool_run_done [OF pool_reach.init])
       (use assms(3) in \<open>simp_all add: c_def number_jobs_def\<close>)
  note inv = pool_inv_reach [OF reach]
  have "mset (map fst (pl_results s)) = mset (number_jobs events)"
    using pool_done(2) [OF inv _ fl] assms(3) by (simp add: c_def)
  moreover have "\<forall>(job, r)\<in>set (pl_results s). r = post job" using inv by (simp add: pool_inv_def)
  moreover have "emitEvents cf post uuid pick events = map (\<lambda>(job, r). (snd job, r)) (pl_results s)"
  proof (cases "events = []")
    case True
    then have "number_jobs events = []" by (simp add: number_jobs_def)
    with pool_left [OF inv] True show ?thesis by (simp add: emitEvents_def)
  next
    case False
    with assms show ?thesis by (simp add: emitEvents_def s_def c_def Let_def)
  qed
  ultimately show thesis using that by blast
qed

lemma emitEvents_events:
  assumes "0 < count_of (cf_emitConcurrency cf)"
  shows "mset (map fst (emitEvents cf post uuid pick events)) = mset events"
proof -
  have nj: "map (snd :: job \<Rightarrow> _) (number_jobs events) = events" by (rule number_jobs_snd)
  consider "events = []" | "cf_dryRun cf" "events \<noteq> []"
    | "\<not> cf_dryRun cf" "\<not> truthy (cf_notificationsApiUrl cf)" "events \<noteq> []"
    | "\<not> cf_dryRun cf" "truthy (cf_notificationsApiUrl cf)" by blast
  then show ?thesis
  proof cases
    case 3
    then show ?thesis
      by (simp add: emitEvents_def comp_def case_prod_beta nj [unfolded comp_def])
  next
    case 4
    obtain rs where rs: "emitEvents cf post uuid pick events = map (\<lambda>(job, r). (snd job, r)) rs"
      "mset (map fst rs) = mset (number_jobs events)"
      by (rule emitEvents_pool [OF 4 assms])
    have "mset (map fst (emitEvents cf post uuid pick events)) = image_mset snd (mset (map fst rs))"
      by (simp add: rs(1) comp_def case_prod_beta image_mset.compositionality)
    also have "\<dots> = mset events" unfolding rs(2) by (simp flip: mset_map add: nj)
    finally show ?thesis .
  qed (simp_all add: emitEvents_def comp_def)
qed

text \<open>A complete run of the relation is a run of \<open>pool_run\<close>, so the scheduler \<open>pick\<close> loses no
  interleaving.\<close>

inductive pool_path :: "nat \<Rightarrow> (job \<Rightarrow> emit_result) \<Rightarrow> pool \<Rightarrow> nat list \<Rightarrow> pool \<Rightarrow> bool" for c post where
  path_end: "pool_path c post s [] s"
| path_step: "i < length (pl_flight s) \<Longrightarrow> pool_path c post (pool_finish c post i s) cs t
    \<Longrightarrow> pool_path c post s (i # cs) t"

lemma pool_run_path:
  assumes "pool_path c post s cs t"
    and "\<And>k. k < length cs \<Longrightarrow> pick (length (pl_results s) + k) = cs ! k"
  shows "pool_run c post pick (length cs) s = t"
  using assms
proof (induction rule: pool_path.induct)
  case (path_step i s cs t)
  have "pick (length (pl_results s)) = i" using path_step.prems [of 0] by simp
  moreover have "pick (length (pl_results (pool_finish c post i s)) + k) = cs ! k" if "k < length cs" for k
    using path_step.prems [of "Suc k"] that by (simp add: pool_finish_results)
  ultimately show ?case using path_step.hyps path_step.IH by auto
qed simp

end
