(* ===== verification/Ev_Pipeline.thy ===== *)
theory Ev_Pipeline
  imports Ev_Institutional Ev_Store Ev_Emit
begin

text \<open>
  One run of the eventing package: \<open>runEventingPipeline\<close> (\<open>pipeline.ts\<close>) and its two
  instances in \<open>commands/bidding.ts\<close> and \<open>commands/institutional.ts\<close>.

  The locale \<open>delta_evaluator\<close> is the interface of an evaluation (its \<open>evaluate\<close>,
  \<open>toState\<close> and \<open>voteAccountOf\<close>); both evaluations implement it. Inside it the pipeline's
  lemmas are proved once: what a run leaves in the table for a validator whose events were
  all sent, for one with a failed event, for a removed one, and that a second run on the same
  data has no event.
\<close>

record event_db =
  db_state :: state_table
  db_meta :: meta_table
  db_events :: "event_row list"

text \<open>The environment of a run: the clock, the driver's reading of a BIGINT, the requests.\<close>

record run_env =
  re_now :: string
  re_rd :: "int \<Rightarrow> int res"
  re_post :: "job \<Rightarrow> emit_result"
  re_uuid :: "nat \<Rightarrow> string"
  re_pick :: "nat \<Rightarrow> nat"

record 'v pipeline =
  pp_bondType :: bond_type
  pp_voteAccountOf :: "'v \<Rightarrow> string"
  pp_evaluate :: "string \<Rightarrow> 'v list \<Rightarrow> (string, validator_state) jsmap \<Rightarrow> number \<Rightarrow> bonds_event list res"
  pp_toState :: "string \<Rightarrow> 'v \<Rightarrow> number \<Rightarrow> validator_state res"
  pp_meta :: "(number \<times> json) option"

definition failedVoteAccounts :: "(bonds_event \<times> emit_result) list \<Rightarrow> string list" where
  "failedVoteAccounts results =
     remdups (map (\<lambda>(e, r). ev_vote_account e) (filter (\<lambda>(e, r). er_status r = Failed) results))"

text \<open>The transaction: it commits as a whole or throws.\<close>

definition save_tx :: "'v pipeline \<Rightarrow> run_env \<Rightarrow> 'v list \<Rightarrow> number \<Rightarrow> string list
    \<Rightarrow> event_db \<Rightarrow> event_db res" where
  "save_tx pp env validators epoch failed db =
     rbind (rmapM (\<lambda>v. pp_toState pp (re_now env) v epoch)
              (filter (\<lambda>v. pp_voteAccountOf pp v \<notin> set failed) validators)) (\<lambda>succeededStates.
     let keepVoteAccounts = map (pp_voteAccountOf pp) validators @ failed in
     rbind (if succeededStates \<noteq> [] then saveCurrentState (re_now env) succeededStates (db_state db)
            else Inr (db_state db)) (\<lambda>saved.
     let pruned = deleteRemovedValidators (pp_bondType pp) keepVoteAccounts saved in
     rbind (case pp_meta pp of None \<Rightarrow> Inr (db_meta db)
            | Some (e, m) \<Rightarrow> saveAuctionMeta (pp_bondType pp) e m (db_meta db)) (\<lambda>meta.
     Inr (db\<lparr> db_state := pruned, db_meta := meta \<rparr>))))"

definition runEventingPipeline :: "'v pipeline \<Rightarrow> eventing_config \<Rightarrow> run_env \<Rightarrow> 'v list \<Rightarrow> number
    \<Rightarrow> event_db \<Rightarrow> event_db \<times> (bonds_event \<times> emit_result) list res" where
  "runEventingPipeline pp cf env validators epoch db =
     (let pool = truthy (cf_postgresUrl cf) in
      case (if pool then loadPreviousState (re_rd env) (pp_bondType pp) (db_state db) else Inr []) of
        Inl err \<Rightarrow> (db, Inl err)
      | Inr previousState \<Rightarrow>
     (case pp_evaluate pp (re_now env) validators previousState epoch of
        Inl err \<Rightarrow> (db, Inl err)
      | Inr events \<Rightarrow>
          let results = emitEvents cf (re_post env) (re_uuid env) (re_pick env) events in
          if pool \<and> \<not> cf_dryRun cf
          then (case persistEvents (re_now env) results (db_events db) of
              Inl err \<Rightarrow> (db, Inl err)
            | Inr rows \<Rightarrow>
                let db1 = db\<lparr> db_events := rows \<rparr> in
                (case save_tx pp env validators epoch (failedVoteAccounts results) db1 of
                   Inl err \<Rightarrow> (db1, Inl err)
                 | Inr db2 \<Rightarrow> (db2, Inr results)))
          else (db, Inr results)))"

definition bidding_pipeline :: "solana_lib \<Rightarrow> (number \<times> json) option \<Rightarrow> auction_validator pipeline" where
  "bidding_pipeline sl meta = \<lparr> pp_bondType = Bidding,
     pp_voteAccountOf = av_voteAccount,
     pp_evaluate = (\<lambda>now vals previousState ep. evaluateDeltas sl now vals previousState ep Bidding),
     pp_toState = (\<lambda>now v ep. validatorToState sl now v ep Bidding),
     pp_meta = meta \<rparr>"

definition institutional_pipeline :: "solana_lib \<Rightarrow> institutional_validator pipeline" where
  "institutional_pipeline sl = \<lparr> pp_bondType = Institutional,
     pp_voteAccountOf = iv_voteAccount,
     pp_evaluate = (\<lambda>now vals previousState ep. evaluateInstitutionalDeltas sl now vals previousState ep),
     pp_toState = (\<lambda>now v ep. Inr (institutionalValidatorToState now v ep)),
     pp_meta = None \<rparr>"

section \<open>The interface of an evaluation\<close>

locale delta_evaluator =
  fixes pp :: "'v pipeline"
  assumes to_state_key: "pp_toState pp now v ep = Inr s \<Longrightarrow>
        vs_vote_account s = pp_voteAccountOf pp v \<and> vs_bond_type s = pp_bondType pp"
    and quiescent: "\<lbrakk> vs \<noteq> []; ep \<noteq> NaN;
        \<forall>v\<in>set vs. \<exists>s p now'. pp_toState pp now' v ep = Inr s
           \<and> jsmap_get prevs (pp_voteAccountOf pp v) = Some p \<and> delta_view p = delta_view s;
        fst ` set prevs \<subseteq> pp_voteAccountOf pp ` set vs \<rbrakk> \<Longrightarrow> pp_evaluate pp now vs prevs ep = Inr []"
    and attributed: "pp_evaluate pp now vs prevs ep = Inr es \<Longrightarrow> e \<in> set es \<Longrightarrow>
        ev_vote_account e \<in> pp_voteAccountOf pp ` set vs \<union> fst ` set prevs
        \<and> ev_bond_type e = pp_bondType pp"
begin

lemma tx_states:
  assumes "save_tx pp env vs ep failed db = Inr db'"
  obtains ss saved where
    "rmapM (\<lambda>v. pp_toState pp (re_now env) v ep) (filter (\<lambda>v. pp_voteAccountOf pp v \<notin> set failed) vs) = Inr ss"
    "saveCurrentState (re_now env) ss (db_state db) = Inr saved"
    "db_state db' = deleteRemovedValidators (pp_bondType pp) (map (pp_voteAccountOf pp) vs @ failed) saved"
    "\<forall>s\<in>set ss. vs_bond_type s = pp_bondType pp"
    "vs_vote_account ` set ss = {a \<in> pp_voteAccountOf pp ` set vs. a \<notin> set failed}"
proof -
  from assms obtain ss saved where
    ss: "rmapM (\<lambda>v. pp_toState pp (re_now env) v ep) (filter (\<lambda>v. pp_voteAccountOf pp v \<notin> set failed) vs) = Inr ss"
    and saved: "(if ss \<noteq> [] then saveCurrentState (re_now env) ss (db_state db) else Inr (db_state db)) = Inr saved"
    and db': "db_state db' = deleteRemovedValidators (pp_bondType pp) (map (pp_voteAccountOf pp) vs @ failed) saved"
    unfolding save_tx_def by (auto simp: rbind_eq_Inr Let_def)
  have "saveCurrentState (re_now env) ss (db_state db) = Inr saved"
    using saved by (cases "ss = []") (simp_all add: saveCurrentState_def)
  moreover have "\<forall>s\<in>set ss. vs_bond_type s = pp_bondType pp"
    using rmapM_set [OF ss] to_state_key by auto
  moreover have "vs_vote_account ` set ss = {a \<in> pp_voteAccountOf pp ` set vs. a \<notin> set failed}"
  proof -
    have all: "list_all2 (\<lambda>v s. vs_vote_account s = pp_voteAccountOf pp v)
        (filter (\<lambda>v. pp_voteAccountOf pp v \<notin> set failed) vs) ss"
      using ss to_state_key unfolding rmapM_Inr_iff by (auto elim!: list_all2_mono)
    then have "map vs_vote_account ss = map (pp_voteAccountOf pp) (filter (\<lambda>v. pp_voteAccountOf pp v \<notin> set failed) vs)"
      by (induction rule: list_all2_induct) auto
    then have "vs_vote_account ` set ss = set (map (pp_voteAccountOf pp) (filter (\<lambda>v. pp_voteAccountOf pp v \<notin> set failed) vs))"
      by (metis set_map)
    then show ?thesis by auto
  qed
  ultimately show thesis using ss db' that by blast
qed

lemma tx_saved:
  assumes "save_tx pp env vs ep failed db = Inr db'"
    and "v \<in> set vs" and "pp_voteAccountOf pp v \<notin> set failed"
  obtains s where "pp_toState pp (re_now env) v ep = Inr s"
    "row_lookup (db_state db') (pp_voteAccountOf pp v, pp_bondType pp)
       = Some (s\<lparr> vs_updated_at := re_now env \<rparr>)"
proof -
  from assms(1) show thesis
  proof (rule tx_states)
    fix ss saved
    assume ss: "rmapM (\<lambda>v. pp_toState pp (re_now env) v ep)
          (filter (\<lambda>v. pp_voteAccountOf pp v \<notin> set failed) vs) = Inr ss"
      and saved: "saveCurrentState (re_now env) ss (db_state db) = Inr saved"
      and db': "db_state db' = deleteRemovedValidators (pp_bondType pp)
          (map (pp_voteAccountOf pp) vs @ failed) saved"
    have "\<not> (\<exists>e. pp_toState pp (re_now env) v ep = Inl e)"
      using rmapM_Inl_iff [of "\<lambda>v. pp_toState pp (re_now env) v ep"
          "filter (\<lambda>v. pp_voteAccountOf pp v \<notin> set failed) vs"] ss assms(2,3) by auto
    then obtain s where s: "pp_toState pp (re_now env) v ep = Inr s" by (cases "pp_toState pp (re_now env) v ep") auto
    have mem: "s \<in> set ss" using rmapM_set [OF ss] s assms(2,3) by auto
    have key: "row_key s = (pp_voteAccountOf pp v, pp_bondType pp)"
      using to_state_key [OF s] by (simp add: row_key_def)
    have "vs_vote_account s \<in> set (map (pp_voteAccountOf pp) vs @ failed)"
      using to_state_key [OF s] assms(2) by simp
    from table.save_prune_hit [OF saved mem this, of "pp_bondType pp"]
    have "row_lookup (db_state db') (pp_voteAccountOf pp v, pp_bondType pp)
        = Some (s\<lparr> vs_updated_at := re_now env \<rparr>)"
      unfolding key db' .
    with s show thesis by (rule that)
  qed
qed

lemma tx_failed:
  assumes "save_tx pp env vs ep failed db = Inr db'" and "vote \<in> set failed"
  shows "row_lookup (db_state db') (vote, pp_bondType pp) = row_lookup (db_state db) (vote, pp_bondType pp)"
  using assms(1)
proof (rule tx_states)
  fix ss saved
  assume saved: "saveCurrentState (re_now env) ss (db_state db) = Inr saved"
    and db': "db_state db' = deleteRemovedValidators (pp_bondType pp)
        (map (pp_voteAccountOf pp) vs @ failed) saved"
    and votes: "vs_vote_account ` set ss = {a \<in> pp_voteAccountOf pp ` set vs. a \<notin> set failed}"
  have "(vote, pp_bondType pp) \<notin> row_key ` set ss" using votes assms(2) by (auto simp: row_key_def)
  then show ?thesis
    unfolding db' by (rule table.save_prune_keep [OF saved]) (simp add: assms(2))
qed

lemma tx_removed:
  assumes "save_tx pp env vs ep failed db = Inr db'"
    and "vote \<notin> set failed" and "vote \<notin> pp_voteAccountOf pp ` set vs"
  shows "row_lookup (db_state db') (vote, pp_bondType pp) = None"
  using assms(1)
proof (rule tx_states)
  fix ss saved
  assume db': "db_state db' = deleteRemovedValidators (pp_bondType pp)
        (map (pp_voteAccountOf pp) vs @ failed) saved"
  show ?thesis unfolding db' by (rule table.save_prune_gone) (use assms(2,3) in auto)
qed

lemma tx_other:
  assumes "save_tx pp env vs ep failed db = Inr db'" and "bt \<noteq> pp_bondType pp"
  shows "row_lookup (db_state db') (vote, bt) = row_lookup (db_state db) (vote, bt)"
  using assms(1)
proof (rule tx_states)
  fix ss saved
  assume saved: "saveCurrentState (re_now env) ss (db_state db) = Inr saved"
    and db': "db_state db' = deleteRemovedValidators (pp_bondType pp)
        (map (pp_voteAccountOf pp) vs @ failed) saved"
    and bts: "\<forall>s\<in>set ss. vs_bond_type s = pp_bondType pp"
  show ?thesis unfolding db' by (rule table.save_prune_other [OF saved bts assms(2)])
qed

lemma tx_table_ok:
  assumes "save_tx pp env vs ep failed db = Inr db'" and "table_ok (db_state db)"
  shows "table_ok (db_state db')"
  using assms(1)
proof (rule tx_states)
  fix ss saved
  assume saved: "saveCurrentState (re_now env) ss (db_state db) = Inr saved"
    and db': "db_state db' = deleteRemovedValidators (pp_bondType pp)
        (map (pp_voteAccountOf pp) vs @ failed) saved"
  show ?thesis unfolding db' by (intro table_ok_delete table_ok_save [OF saved assms(2)])
qed

text \<open>After a run in which every event was sent, evaluating the same data has no event.\<close>

lemma second_run:
  assumes tx: "save_tx pp env vs ep [] db = Inr db'" and ok: "table_ok (db_state db)"
    and vs: "vs \<noteq> []" and ep: "ep \<noteq> NaN"
    and rd: "int8_exact rd" "\<forall>r\<in>set (db_state db'). row_safe r"
  shows "\<exists>prevs. loadPreviousState rd (pp_bondType pp) (db_state db') = Inr prevs
    \<and> pp_evaluate pp now' vs prevs ep = Inr []"
proof -
  from rd(1) tx_table_ok [OF tx ok] rd(2) show ?thesis
  proof (rule loadPreviousState_exact [where bt = "pp_bondType pp"])
    fix prevs
    assume load: "loadPreviousState rd (pp_bondType pp) (db_state db') = Inr prevs"
      and get: "\<And>vote. jsmap_get prevs vote = map_option (\<lambda>r. r\<lparr> vs_auction_validator := None \<rparr>)
          (row_lookup (db_state db') (vote, pp_bondType pp))"
      and keys: "fst ` set prevs = {vote. row_lookup (db_state db') (vote, pp_bondType pp) \<noteq> None}"
    have "pp_evaluate pp now' vs prevs ep = Inr []"
    proof (rule quiescent [OF vs ep])
      show "\<forall>v\<in>set vs. \<exists>s p now'. pp_toState pp now' v ep = Inr s
          \<and> jsmap_get prevs (pp_voteAccountOf pp v) = Some p \<and> delta_view p = delta_view s"
      proof
        fix v assume v: "v \<in> set vs"
        have "pp_voteAccountOf pp v \<notin> set []" by simp
        from tx v this obtain s where "pp_toState pp (re_now env) v ep = Inr s"
          "row_lookup (db_state db') (pp_voteAccountOf pp v, pp_bondType pp)
             = Some (s\<lparr> vs_updated_at := re_now env \<rparr>)"
          by (rule tx_saved)
        then show "\<exists>s p now'. pp_toState pp now' v ep = Inr s
            \<and> jsmap_get prevs (pp_voteAccountOf pp v) = Some p \<and> delta_view p = delta_view s"
          by (auto simp: get delta_view_def)
      qed
      show "fst ` set prevs \<subseteq> pp_voteAccountOf pp ` set vs"
      proof
        fix vote assume "vote \<in> fst ` set prevs"
        then have "row_lookup (db_state db') (vote, pp_bondType pp) \<noteq> None" unfolding keys by simp
        then show "vote \<in> pp_voteAccountOf pp ` set vs"
          using tx_removed [OF tx, of vote] by (metis empty_iff empty_set)
      qed
    qed
    with load show ?thesis by blast
  qed
qed

end

section \<open>Both evaluations implement it\<close>

interpretation bidding: delta_evaluator "bidding_pipeline sl meta" for sl meta
proof
  fix now v ep s
  assume "pp_toState (bidding_pipeline sl meta) now v ep = Inr s"
  then show "vs_vote_account s = pp_voteAccountOf (bidding_pipeline sl meta) v
      \<and> vs_bond_type s = pp_bondType (bidding_pipeline sl meta)"
    by (auto simp: bidding_pipeline_def elim: validatorToStateE)
next
  fix vs :: "auction_validator list" and ep now and prevs :: "(string, validator_state) jsmap"
  assume vs: "vs \<noteq> []" and ep: "ep \<noteq> NaN"
    and st: "\<forall>v\<in>set vs. \<exists>s p now'. pp_toState (bidding_pipeline sl meta) now' v ep = Inr s
        \<and> jsmap_get prevs (pp_voteAccountOf (bidding_pipeline sl meta) v) = Some p
        \<and> delta_view p = delta_view s"
    and keys: "fst ` set prevs \<subseteq> pp_voteAccountOf (bidding_pipeline sl meta) ` set vs"
  from vs obtain v0 s0 now0 where "validatorToState sl now0 v0 ep Bidding = Inr s0"
    using st by (cases vs) (auto simp: bidding_pipeline_def)
  then obtain cfg where cfg: "configAddressForBondType sl Bidding = Inr cfg"
    by (rule validatorToStateE)
  have "rconcatM (validator_events sl now cfg ep Bidding prevs) vs = Inr []"
  proof (rule rconcatM_all_Nil)
    fix v assume "v \<in> set vs"
    with st obtain s p now' where "validatorToState sl now' v ep Bidding = Inr s"
      "jsmap_get prevs (av_voteAccount v) = Some p" "delta_view p = delta_view s"
      by (auto simp: bidding_pipeline_def)
    then show "validator_events sl now cfg ep Bidding prevs v = Inr []"
      using cfg ep by (intro validator_quiescent)
  qed
  moreover have "delisted_events sl now delist_reason ep Bidding (map av_voteAccount vs) prevs = Inr []"
    using keys by (intro delisted_none) (simp add: bidding_pipeline_def)
  ultimately show "pp_evaluate (bidding_pipeline sl meta) now vs prevs ep = Inr []"
    by (simp add: bidding_pipeline_def evaluateDeltas_def cfg)
next
  fix now vs prevs ep es e
  assume ev: "pp_evaluate (bidding_pipeline sl meta) now vs prevs ep = Inr es" and e: "e \<in> set es"
  then obtain cfg es1 es2 where es: "rconcatM (validator_events sl now cfg ep Bidding prevs) vs = Inr es1"
    "delisted_events sl now delist_reason ep Bidding (map av_voteAccount vs) prevs = Inr es2"
    "e \<in> set es1 \<or> e \<in> set es2"
    by (auto simp: bidding_pipeline_def evaluateDeltas_def rbind_eq_Inr)
  from es(3) show "ev_vote_account e \<in> pp_voteAccountOf (bidding_pipeline sl meta) ` set vs \<union> fst ` set prevs
      \<and> ev_bond_type e = pp_bondType (bidding_pipeline sl meta)"
  proof
    assume "e \<in> set es1"
    with es(1) obtain v ys where "v \<in> set vs" "validator_events sl now cfg ep Bidding prevs v = Inr ys" "e \<in> set ys"
      by (auto simp: rconcatM_set)
    with validator_events_for [OF this(2,3)] show ?thesis by (auto simp: bidding_pipeline_def event_for_def)
  next
    assume "e \<in> set es2"
    from es(2) this show ?thesis
    proof (rule delisted_for)
      fix vote p assume vote: "(vote, p) \<in> set prevs" and "event_for vote Bidding ep e"
      then have "ev_vote_account e = vote" "ev_bond_type e = Bidding" by (simp_all add: event_for_def)
      moreover have "vote \<in> fst ` set prevs" using vote by (rule image_eqI [rotated]) simp
      ultimately show ?thesis by (simp add: bidding_pipeline_def)
    qed
  qed
qed

interpretation institutional: delta_evaluator "institutional_pipeline sl" for sl
proof
  fix now v ep s
  assume "pp_toState (institutional_pipeline sl) now v ep = Inr s"
  then show "vs_vote_account s = pp_voteAccountOf (institutional_pipeline sl) v
      \<and> vs_bond_type s = pp_bondType (institutional_pipeline sl)"
    by (auto simp: institutional_pipeline_def institutionalValidatorToState_def)
next
  fix vs :: "institutional_validator list" and ep now and prevs :: "(string, validator_state) jsmap"
  assume st: "\<forall>v\<in>set vs. \<exists>s p now'. pp_toState (institutional_pipeline sl) now' v ep = Inr s
        \<and> jsmap_get prevs (pp_voteAccountOf (institutional_pipeline sl) v) = Some p
        \<and> delta_view p = delta_view s"
    and keys: "fst ` set prevs \<subseteq> pp_voteAccountOf (institutional_pipeline sl) ` set vs"
  have "inst_validator_events now ep prevs v = []" if "v \<in> set vs" for v
    using st that by (auto simp: institutional_pipeline_def dest!: bspec intro: inst_quiescent)
  moreover have "delisted_events sl now inst_delist_reason ep Institutional (map iv_voteAccount vs) prevs = Inr []"
    using keys by (intro delisted_none) (simp add: institutional_pipeline_def)
  ultimately show "pp_evaluate (institutional_pipeline sl) now vs prevs ep = Inr []"
    by (simp add: institutional_pipeline_def evaluateInstitutionalDeltas_def)
next
  fix now vs prevs ep es e
  assume ev: "pp_evaluate (institutional_pipeline sl) now vs prevs ep = Inr es" and e: "e \<in> set es"
  then obtain es2 where es: "delisted_events sl now inst_delist_reason ep Institutional (map iv_voteAccount vs) prevs = Inr es2"
    "e \<in> set (concat (map (inst_validator_events now ep prevs) vs)) \<or> e \<in> set es2"
    by (auto simp: institutional_pipeline_def evaluateInstitutionalDeltas_def rbind_eq_Inr)
  from es(2) show "ev_vote_account e \<in> pp_voteAccountOf (institutional_pipeline sl) ` set vs \<union> fst ` set prevs
      \<and> ev_bond_type e = pp_bondType (institutional_pipeline sl)"
  proof
    assume "e \<in> set (concat (map (inst_validator_events now ep prevs) vs))"
    then show ?thesis
      by (auto simp: institutional_pipeline_def event_for_def dest!: inst_events_for)
  next
    assume "e \<in> set es2"
    from es(1) this show ?thesis
    proof (rule delisted_for)
      fix vote p assume vote: "(vote, p) \<in> set prevs" and "event_for vote Institutional ep e"
      then have "ev_vote_account e = vote" "ev_bond_type e = Institutional" by (simp_all add: event_for_def)
      moreover have "vote \<in> fst ` set prevs" using vote by (rule image_eqI [rotated]) simp
      ultimately show ?thesis by (simp add: institutional_pipeline_def)
    qed
  qed
qed

end
