(* ===== verification/Ev_Properties.thy ===== *)
theory Ev_Properties
  imports Ev_Pipeline
begin

text \<open>
  The properties of the eventing package, with their witnesses. The first group is about the
  amounts and the sanitizers, the second about the events of one evaluation, the third about
  the retry loop and the pool, the last about a whole run and the next one.
\<close>

section \<open>Amounts and payloads\<close>

text \<open>
  C7: Converting lamports to SOL and back is exact below 8388608 SOL: the SOL amount that
  is relayed in events determines the lamports.
\<close>

theorem solToLamports_lamportsToSol:
  assumes "\<bar>n\<bar> < 8388608 * LAMPORTS_PER_SOL"
  shows "solToLamports (Some (lamportsToSol n)) = Inr n"
  using assms
proof (rule lamportsToSol_error)
  fix y assume y: "lamportsToSol n = Fin y" "\<bar>y - of_int n / 10 ^ 9\<bar> \<le> 1 / 2 ^ 31"
  have "y * 10 ^ 9 - of_int n = (y - of_int n / 10 ^ 9) * 10 ^ 9" by (simp add: algebra_simps)
  then have "\<bar>y * 10 ^ 9 - of_int n\<bar> = \<bar>y - of_int n / 10 ^ 9\<bar> * 10 ^ 9"
    by (simp only: abs_mult) simp
  also have "\<dots> \<le> 1 / 2 ^ 31 * 10 ^ 9" using y(2) by (rule mult_right_mono) simp
  finally have err: "\<bar>y * 10 ^ 9 - of_int n\<bar> < 1 / 2" by simp
  then have "\<bar>of_int n - y * 10 ^ 9\<bar> < 1 / 2" by (simp add: abs_minus_commute)
  then have "lamports_of y = n" by (rule lamports_of_eqI)
  moreover have "\<bar>y\<bar> < 10 ^ 21"
  proof -
    have "\<bar>(of_int n :: rat)\<bar> < of_int (8388608 * LAMPORTS_PER_SOL)"
      using assms by (simp only: of_int_less_iff flip: of_int_abs)
    then have "\<bar>(of_int n :: rat)\<bar> < 8388608 * 10 ^ 9" by (simp add: LAMPORTS_PER_SOL_def)
    with err show ?thesis by (simp add: abs_if split: if_splits)
  qed
  ultimately show ?thesis using solToLamports_Fin y(1) by simp
qed

theorem solToLamports_lamportsToSol_witness:
  "solToLamports (Some (lamportsToSol (- 1234567890123456))) = Inr (- 1234567890123456)"
  using solToLamports_lamportsToSol [of "- 1234567890123456"] by (simp add: LAMPORTS_PER_SOL_def)

text \<open>
  A SOL amount below \<open>10 ^ 21\<close> is converted to the nearest lamport, ties away from
  zero: the string pipeline adds no error to that of the double.
\<close>

lemma solToLamports_nearest:
  assumes "\<bar>x\<bar> < 10 ^ 21"
  shows "\<exists>n. solToLamports (Some (Fin x)) = Inr n \<and> \<bar>of_int n - x * 10 ^ 9\<bar> \<le> 1 / 2
    \<and> (0 \<le> x \<longrightarrow> n = \<lfloor>x * 10 ^ 9 + 1 / 2\<rfloor>)"
  using solToLamports_Fin [OF assms] lamports_of_nearest [of x] lamports_of_round [of x] by auto

lemma solToLamports_nearest_witness:
  "\<exists>n. solToLamports (Some (Fin (1 / 3))) = Inr n \<and> \<bar>of_int n - (1 / 3 :: rat) * 10 ^ 9\<bar> \<le> 1 / 2
    \<and> (0 \<le> (1 / 3 :: rat) \<longrightarrow> n = \<lfloor>(1 / 3 :: rat) * 10 ^ 9 + 1 / 2\<rfloor>)"
  by (rule solToLamports_nearest) simp

text \<open>
  The persisted payload and the posted one print alike: \<open>sanitizeForJsonb\<close> only
  replaces numbers that \<open>JSON.stringify\<close> prints as null, it leaves none that Postgres refuses,
  and the second sanitizer of the package, \<open>jsonSafe\<close>, agrees with it on every value.
\<close>

lemma sanitizers_agree:
  "json_stringify (sanitizeForJsonb v) = json_stringify v
   \<and> all_finite (sanitizeForJsonb v) \<and> sanitizeForJsonb (sanitizeForJsonb v) = sanitizeForJsonb v
   \<and> jsonSafe v = sanitizeForJsonb v"
  by (intro conjI persist.sanitize_wire persist.sanitized_finite persist.sanitize_idem)
     (simp add: jsonSafe_spec sanitizeForJsonb_spec)

section \<open>One evaluation\<close>

lemma filter_rconcatM:
  assumes "rconcatM f xs = Inr zs" and "distinct (map g xs)" and "x \<in> set xs"
    and "\<And>y ys e. y \<in> set xs \<Longrightarrow> f y = Inr ys \<Longrightarrow> e \<in> set ys \<Longrightarrow> h e = g y"
  shows "\<exists>ys. f x = Inr ys \<and> filter (\<lambda>e. h e = g x) zs = ys"
  using assms
proof (induction xs arbitrary: zs)
  case (Cons a xs)
  from Cons.prems(1) obtain ys ws where ya: "f a = Inr ys" "rconcatM f xs = Inr ws" "zs = ys @ ws"
    by (auto simp: rbind_eq_Inr)
  have ha: "\<forall>e\<in>set ys. h e = g a" using Cons.prems(4) [of a ys] ya(1) by simp
  have hw: "\<forall>e\<in>set ws. \<exists>y\<in>set xs. h e = g y"
    using rconcatM_set [OF ya(2)] Cons.prems(4) by (metis list.set_intros(2))
  show ?case
  proof (cases "x = a")
    case True
    have "filter (\<lambda>e. h e = g a) ws = []"
      using hw Cons.prems(2) by (force simp: filter_empty_conv image_iff)
    then show ?thesis using ya ha True by simp
  next
    case False
    then have x: "x \<in> set xs" using Cons.prems(3) by simp
    then have "g x \<noteq> g a" using Cons.prems(2) by (metis distinct.simps(2) image_eqI list.set_map list.simps(9))
    then have "filter (\<lambda>e. h e = g x) ys = []" using ha by (auto simp: filter_empty_conv)
    moreover have "\<exists>us. f x = Inr us \<and> filter (\<lambda>e. h e = g x) ws = us"
      using Cons.prems(2) Cons.prems(4) by (intro Cons.IH [OF ya(2) _ x]) auto
    ultimately show ?thesis using ya by simp
  qed
qed simp

lemma evaluateDeltas_parts:
  assumes "evaluateDeltas sl now vs prevs epoch bt = Inr es"
  obtains cfg es1 es2 where "rconcatM (validator_events sl now cfg epoch bt prevs) vs = Inr es1"
    "delisted_events sl now delist_reason epoch bt (map av_voteAccount vs) prevs = Inr es2"
    "es = es1 @ es2"
  using assms by (auto simp: evaluateDeltas_def rbind_eq_Inr)



text \<open>The concrete inputs of the witnesses.\<close>

definition demo_lib :: solana_lib where
  "demo_lib = \<lparr> pk_of_str = (\<lambda>s. Inr (replicate 32 1)), pk_b58 = (\<lambda>k. ''bond''),
     find_pda = (\<lambda>seeds p. Inr (replicate 32 2, 255)) \<rparr>"

definition demo_validator :: auction_validator where
  "demo_validator = \<lparr> av_voteAccount = ''vote'', av_bondBalanceSol = Some (Fin 10),
     av_claimableBondBalanceSol = None, av_marinadeActivatedStakeSol = Fin 50000,
     av_unprotectedStakeSol = Some (Fin 0), av_maxStakeWanted = None, av_samEligible = True,
     av_samBlocked = False, av_minBondPmpe = NaN, av_idealBondPmpe = NaN,
     av_minUnprotectedReserve = NaN, av_idealUnprotectedReserve = NaN,
     av_bondGoodForNEpochs = Some NaN, av_unstakePriority = Some NaN,
     av_auctionStake = Some (Fin 1000), av_bondForcedUndelegation = None,
     av_revShare = Some \<lparr> rs_bidTooLowPenaltyPmpe = Some (Fin 0), rs_blacklistPenaltyPmpe = Some (Fin 0),
       rs_expectedMaxEffBidPmpe = None, rs_onchainDistributedPmpe = None,
       rs_activatingStakePmpe = Some (Fin 0), rs_others = [] \<rparr>,
     av_values = Some \<lparr> va_bondRiskFeeSol = Some (Fin 0), va_paidUndelegationSol = None \<rparr>,
     av_lastCapConstraint = None, av_auctions = [] \<rparr>"

definition demo_state :: validator_state where
  "demo_state = \<lparr> vs_vote_account = ''gone'', vs_bond_pubkey = None, vs_bond_type = Bidding,
     vs_epoch = Fin 699, vs_in_auction = False, vs_bond_good_for_n_epochs = None,
     vs_cap_constraint = None, vs_cap_marinade_stake_sol = None, vs_funded_amount_lamports = 1,
     vs_effective_amount_lamports = 1, vs_auction_stake_lamports = 0, vs_deficit_lamports = 0,
     vs_settlement_claims_lamports = None, vs_sam_eligible = False, vs_updated_at = ''t'',
     vs_auction_validator = None \<rparr>"

lemma demo_lamports: "solToLamports (Some (Fin 10)) = Inr 10000000000"
  "solToLamports (Some (Fin 1000)) = Inr 1000000000000"
  using solToLamports_Fin [of 10] solToLamports_Fin [of 1000] by (simp_all add: lamports_of_round)

lemma demo_config: "configAddressForBondType demo_lib bt = Inr (replicate 32 1)"
  by (cases bt) (simp_all add: configAddressForBondType_def demo_lib_def)

lemma demo_bond: "bond_pubkey_of demo_lib cfg vote = Inr ''bond''"
  by (simp add: bond_pubkey_of_def demo_lib_def bondAddress_def)

lemma demo_evaluate: "\<exists>es. evaluateDeltas demo_lib now [demo_validator] [(''gone'', demo_state)] ep Bidding = Inr es"
proof -
  have "\<exists>es. validator_events demo_lib now cfg ep Bidding [(''gone'', demo_state)] demo_validator = Inr es" for cfg
    by (simp add: validator_events_def demo_validator_def demo_lamports first_seen_events_def
          makeEvent_def demo_bond)
  moreover have "\<exists>es. delisted_events demo_lib now delist_reason ep Bidding [''vote''] [(''gone'', demo_state)] = Inr es"
    by (simp add: delisted_events_def demo_state_def demo_config demo_bond)
  ultimately show ?thesis
    by (auto simp: evaluateDeltas_def demo_config rbind_eq_Inr demo_validator_def [THEN arg_cong, of av_voteAccount])
qed








lemma delisted_entry:
  assumes "delisted_events sl now reason epoch bt seen [(vote, p)] = Inr ys"
  shows "map ev_inner_type ys = (if vote \<notin> set seen \<and> (0 < vs_funded_amount_lamports p \<or> vs_in_auction p)
      then [ValidatorDelisted] else [])"
    and "e \<in> set ys \<Longrightarrow> ev_vote_account e = vote"
  using assms
  by (auto simp: delisted_events_def rbind_eq_Inr buildValidatorDelistedEvent_def split: if_splits)

text \<open>
  An account of the previous state that the auction data no longer has gets exactly one
  event, \<open>validator_delisted\<close>, when its bond was funded or it was in the auction, and none
  otherwise.
\<close>

theorem evaluateDeltas_delisted:
  assumes ev: "evaluateDeltas sl now vs prevs epoch bt = Inr es"
    and d: "distinct (map fst prevs)" and p: "(vote, p) \<in> set prevs"
    and gone: "vote \<notin> av_voteAccount ` set vs"
  shows "map ev_inner_type (filter (\<lambda>e. ev_vote_account e = vote) es)
    = (if 0 < vs_funded_amount_lamports p \<or> vs_in_auction p then [ValidatorDelisted] else [])"
proof -
  from ev obtain cfg es1 es2 where parts: "rconcatM (validator_events sl now cfg epoch bt prevs) vs = Inr es1"
    "delisted_events sl now delist_reason epoch bt (map av_voteAccount vs) prevs = Inr es2"
    "es = es1 @ es2"
    by (rule evaluateDeltas_parts)
  let ?f = "\<lambda>x. delisted_events sl now delist_reason epoch bt (map av_voteAccount vs) [x]"
  have "rconcatM ?f prevs = Inr es2"
    using parts(2) unfolding delisted_events_def by simp
  moreover have "ev_vote_account e = fst y" if "?f y = Inr ys" "e \<in> set ys" for y ys e
    using that by (cases y) (simp only: fst_conv, rule delisted_entry(2))
  ultimately have "\<exists>ys. ?f (vote, p) = Inr ys \<and> filter (\<lambda>e. ev_vote_account e = fst (vote, p)) es2 = ys"
    by (intro filter_rconcatM [OF _ d p])
  then obtain ys where ys: "?f (vote, p) = Inr ys" "filter (\<lambda>e. ev_vote_account e = vote) es2 = ys"
    by auto
  have "filter (\<lambda>e. ev_vote_account e = vote) es1 = []"
    using gone parts(1) by (auto simp: filter_empty_conv rconcatM_set event_for_def dest!: validator_events_for)
  then show ?thesis
    using delisted_entry(1) [OF ys(1)] ys(2) gone by (simp add: parts(3))
qed

theorem evaluateDeltas_delisted_witness:
  "\<exists>es. evaluateDeltas demo_lib ''t'' [demo_validator] [(''gone'', demo_state)] (Fin 700) Bidding = Inr es
    \<and> map ev_inner_type (filter (\<lambda>e. ev_vote_account e = ''gone'') es) = [ValidatorDelisted]"
proof -
  obtain es where es: "evaluateDeltas demo_lib ''t'' [demo_validator] [(''gone'', demo_state)] (Fin 700) Bidding = Inr es"
    using demo_evaluate by blast
  from evaluateDeltas_delisted [OF es, of "''gone''" demo_state] es show ?thesis
    by (simp add: demo_validator_def demo_state_def)
qed

section \<open>Posting\<close>

text \<open>
  C4: The retry loop posts an event at most \<open>retryMaxAttempts + 1\<close> times, and reports it
  as sent exactly when some attempt within that bound is answered with a 2xx status and no
  attempt before it ended the loop (a 4xx other than 429 does, a 429, a 5xx or a network error
  does not).
\<close>

theorem postEvent_outcome:
  "pr_posts (postEvent cf outs) \<le> Suc (count_of (cf_retryMaxAttempts cf))
   \<and> (pr_status (postEvent cf outs) = Sent \<longleftrightarrow>
        (\<exists>k \<le> count_of (cf_retryMaxAttempts cf). ok_outcome (outs k) \<and> (\<forall>j<k. \<not> final_outcome (outs j))))"
proof -
  let ?n = "count_of (cf_retryMaxAttempts cf)"
  let ?r = "postEvent cf outs"
  have ok_final: "ok_outcome q \<Longrightarrow> final_outcome q" for q
    by (cases q) (auto simp: ok_outcome_def final_outcome_def)
  have iff: "pr_status ?r = Sent \<longleftrightarrow> (\<exists>k \<le> ?n. ok_outcome (outs k) \<and> (\<forall>j<k. \<not> final_outcome (outs j)))"
  proof (cases "\<exists>k\<le>?n. final_outcome (outs k)")
    case False
    then have "pr_status ?r = Failed"
      unfolding postEvent_def using post_loop_exhausted [of 0 "Suc ?n" outs] by simp
    then show ?thesis using False ok_final by auto
  next
    case True
    define k where "k = (LEAST k. final_outcome (outs k))"
    have k: "final_outcome (outs k)" "\<And>j. j < k \<Longrightarrow> \<not> final_outcome (outs j)"
      unfolding k_def using True LeastI_ex [of "\<lambda>k. final_outcome (outs k)"] not_less_Least by blast+
    have kn: "k \<le> ?n" using True k(2) by (meson le_trans not_le)
    have "pr_status ?r = (if ok_outcome (outs k) then Sent else Failed)"
      unfolding postEvent_def using post_loop_stops [of 0 k "Suc ?n" outs] k kn by simp
    moreover have "(\<exists>j\<le>?n. ok_outcome (outs j) \<and> (\<forall>i<j. \<not> final_outcome (outs i))) \<longleftrightarrow> ok_outcome (outs k)"
    proof
      assume "\<exists>j\<le>?n. ok_outcome (outs j) \<and> (\<forall>i<j. \<not> final_outcome (outs i))"
      then obtain j where j: "ok_outcome (outs j)" "\<forall>i<j. \<not> final_outcome (outs i)" by blast
      have "\<not> k < j" using j(2) k(1) by blast
      moreover have "\<not> j < k" using ok_final [OF j(1)] k(2) by blast
      ultimately have "j = k" by simp
      with j(1) show "ok_outcome (outs k)" by simp
    next
      assume "ok_outcome (outs k)"
      with kn k(2) show "\<exists>j\<le>?n. ok_outcome (outs j) \<and> (\<forall>i<j. \<not> final_outcome (outs i))" by blast
    qed
    ultimately show ?thesis by simp
  qed
  have "pr_posts ?r \<le> Suc ?n"
    unfolding postEvent_def using post_loop_posts [of outs _ 0 "Suc ?n"] by simp
  with iff show ?thesis by blast
qed

definition demo_config_opts :: "(string \<times> json) list" where
  "demo_config_opts = [(''retryMaxAttempts'', JNum (Fin 2)), (''emitConcurrency'', JNum (Fin 3)),
     (''postgresUrl'', JStr ''postgres''), (''notificationsApiUrl'', JStr ''api'')]"

definition demo_cf :: eventing_config where
  "demo_cf = (case parseConfig demo_config_opts of Inr cf \<Rightarrow> cf)"

lemma demo_parse: "parseConfig demo_config_opts = Inr demo_cf"
  "count_of (cf_retryMaxAttempts demo_cf) = 2" "count_of (cf_emitConcurrency demo_cf) = 3"
  "truthy (cf_postgresUrl demo_cf)" "\<not> cf_dryRun demo_cf" "truthy (cf_notificationsApiUrl demo_cf)"
  by (simp_all add: demo_cf_def parseConfig_def demo_config_opts_def opt_field_def opt_string_def
        parseNonNegativeInt_def parsePositiveInt_def is_unset_def js_Number_def is_finite_def n_floor_def
        truthy_def count_of_def)

theorem postEvent_outcome_witness:
  "pr_status (postEvent demo_cf (\<lambda>k. if k < 2 then HttpResponse 429 None else HttpResponse 200 None)) = Sent
   \<and> pr_status (postEvent demo_cf (\<lambda>k. if k < 1 then HttpResponse 404 None else HttpResponse 200 None)) = Failed"
proof -
  have two: "(\<exists>k\<le>2. P k) \<longleftrightarrow> P 0 \<or> P 1 \<or> P (2::nat)" for P
    by (auto simp: le_Suc_eq numeral_2_eq_2)
  have "pr_status (postEvent demo_cf (\<lambda>k. if k < 2 then HttpResponse 429 None else HttpResponse 200 None)) = Sent"
    using postEvent_outcome [of demo_cf "\<lambda>k. if k < 2 then HttpResponse 429 None else HttpResponse 200 None"]
    by (auto simp: demo_parse two ok_outcome_def final_outcome_def http_ok_def http_retryable_def)
  moreover have "pr_status (postEvent demo_cf (\<lambda>k. if k < 1 then HttpResponse 404 None else HttpResponse 200 None)) \<noteq> Sent"
    using postEvent_outcome [of demo_cf "\<lambda>k. if k < 1 then HttpResponse 404 None else HttpResponse 200 None"]
    by (auto simp: demo_parse two ok_outcome_def final_outcome_def http_ok_def http_retryable_def)
  ultimately show ?thesis by (metis (full_types) emit_status.exhaust)
qed

text \<open>
  With a configuration that \<open>parseConfig\<close> accepts, \<open>emitEvents\<close> returns and
  gives every event exactly one result, in a dry run, without a notification API, and through
  the pool with any order of answers.
\<close>

lemma emitEvents_complete:
  assumes "parseConfig opts = Inr cf"
  shows "mset (map fst (emitEvents cf post uuid pick events)) = mset events"
  using parseConfig_counts(3) [OF assms] by (rule emitEvents_events)

lemma emitEvents_complete_witness:
  "\<forall>post uuid pick events. mset (map fst (emitEvents demo_cf post uuid pick events)) = mset events"
  by (intro allI emitEvents_complete [OF demo_parse(1)])

text \<open>
  C5: In every state the pool reaches, at most \<open>emitConcurrency\<close> requests are in flight,
  each event is queued, in flight or answered, exactly once, as many requests as allowed are in
  flight while events are queued, and the pool is never stuck: with nothing in flight every
  event has its result.
\<close>

theorem pool_reach_safe:
  assumes "pool_reach c post jobs s" and "0 < c"
  shows "length (pl_flight s) \<le> c
    \<and> mset (pl_queue s) + mset (pl_flight s) + mset (map fst (pl_results s)) = mset jobs
    \<and> (pl_queue s \<noteq> [] \<longrightarrow> length (pl_flight s) = c)
    \<and> (pl_flight s = [] \<longrightarrow> mset (map fst (pl_results s)) = mset jobs)
    \<and> (\<forall>(job, r)\<in>set (pl_results s). r = post job)"
proof -
  note inv = pool_inv_reach [OF assms(1)]
  with pool_done [OF inv assms(2)] show ?thesis by (auto simp: pool_inv_def)
qed

theorem pool_reach_safe_witness:
  "\<forall>post pick e1 e2 e3.
     length (pl_flight (pool_run 2 post pick 1 (pool_init 2 (number_jobs [e1, e2, e3])))) \<le> 2"
proof (intro allI)
  fix post pick e1 e2 e3
  have "pool_reach 2 post (number_jobs [e1, e2, e3]) (pool_run 2 post pick 1 (pool_init 2 (number_jobs [e1, e2, e3])))"
    by (intro pool_run_reach pool_reach.init)
  from pool_reach_safe [OF this] show "length (pl_flight (pool_run 2 post pick 1 (pool_init 2 (number_jobs [e1, e2, e3])))) \<le> 2"
    by simp
qed

section \<open>The flat deficit of institutional bonds\<close>

text \<open>
  C8: The institutional deficit is what is missing: the effective amount plus the deficit
  covers one lamport per 2000 lamports of stake (rounded down), and a positive deficit is the
  least amount that does.
\<close>

theorem computeFlatDeficit_least:
  assumes "0 \<le> stake" and "computeFlatDeficit stake eff = (req, def)"
  shows "req = stake div 2000 \<and> 0 \<le> def \<and> req \<le> eff + def
    \<and> (\<forall>d\<ge>0. req \<le> eff + d \<longrightarrow> def \<le> d)"
proof -
  have "req = stake div 2000"
    using assms by (simp add: computeFlatDeficit_def Let_def bigint_div_nonneg ALLOWED_STAKE_PER_BOND_RATIO_def)
  moreover have "def \<le> d" if "0 \<le> d" "req \<le> eff + d" for d
    using flat_deficit_covers [OF assms(2,1)] that by (cases "0 < def") linarith+
  ultimately show ?thesis using flat_deficit_covers [OF assms(2,1)] by blast
qed

theorem computeFlatDeficit_least_witness:
  "computeFlatDeficit 2001999 400 = (1000, 600) \<and> (1000 :: int) = 2001999 div 2000 \<and> (1000 :: int) \<le> 400 + 600"
proof -
  have *: "computeFlatDeficit 2001999 400 = (1000, 600)"
    by (simp add: computeFlatDeficit_def bigint_div_def ALLOWED_STAKE_PER_BOND_RATIO_def)
  from computeFlatDeficit_least [OF _ this] * show ?thesis by simp
qed

section \<open>A whole run\<close>

lemma run_tx:
  assumes "runEventingPipeline pp cf env vs ep db = (db', Inr results)"
    and "truthy (cf_postgresUrl cf)" and "\<not> cf_dryRun cf"
  obtains rows where "save_tx pp env vs ep (failedVoteAccounts results) (db\<lparr> db_events := rows \<rparr>) = Inr db'"
  using assms by (auto simp: runEventingPipeline_def Let_def split: sum.splits)

lemma run_tx_sent:
  assumes "runEventingPipeline pp cf env vs ep db = (db', Inr results)"
    and "truthy (cf_postgresUrl cf)" and "\<not> cf_dryRun cf" and "\<forall>(e, r)\<in>set results. er_status r = Sent"
  obtains rows where "save_tx pp env vs ep [] (db\<lparr> db_events := rows \<rparr>) = Inr db'"
proof -
  have "failedVoteAccounts results = []"
    using assms(4) by (auto simp: failedVoteAccounts_def filter_empty_conv)
  with run_tx [OF assms(1-3)] show thesis using that by metis
qed

text \<open>
  C1: Deltas are emitted once: after a bidding run in which every event was sent, the next
  run in the same epoch reads the saved rows back and, on unchanged auction data, evaluates to no
  event at all, although every amount went through doubles, strings and the database. The
  hypotheses on the driver are that it returns a BIGINT below \<open>2 ^ 53\<close> exactly and that the
  saved amounts are below it.
\<close>

theorem bidding_second_run_quiet:
  assumes "runEventingPipeline (bidding_pipeline sl meta) cf env vs ep db = (db', Inr results)"
    and "truthy (cf_postgresUrl cf)" and "\<not> cf_dryRun cf" and "\<forall>(e, r)\<in>set results. er_status r = Sent"
    and "table_ok (db_state db)" and "vs \<noteq> []" and "ep \<noteq> NaN"
    and "int8_exact rd" and "\<forall>r\<in>set (db_state db'). row_safe r"
  shows "\<exists>prevs. loadPreviousState rd Bidding (db_state db') = Inr prevs
    \<and> evaluateDeltas sl now vs prevs ep Bidding = Inr []"
proof -
  obtain rows where "save_tx (bidding_pipeline sl meta) env vs ep [] (db\<lparr> db_events := rows \<rparr>) = Inr db'"
    by (rule run_tx_sent [OF assms(1-4)])
  from bidding.second_run [OF this _ assms(6-9), of now] assms(5) show ?thesis
    by (simp add: bidding_pipeline_def)
qed

text \<open>
  The same for the institutional evaluation.
\<close>

theorem institutional_second_run_quiet:
  assumes "runEventingPipeline (institutional_pipeline sl) cf env vs ep db = (db', Inr results)"
    and "truthy (cf_postgresUrl cf)" and "\<not> cf_dryRun cf" and "\<forall>(e, r)\<in>set results. er_status r = Sent"
    and "table_ok (db_state db)" and "vs \<noteq> []" and "ep \<noteq> NaN"
    and "int8_exact rd" and "\<forall>r\<in>set (db_state db'). row_safe r"
  shows "\<exists>prevs. loadPreviousState rd Institutional (db_state db') = Inr prevs
    \<and> evaluateInstitutionalDeltas sl now vs prevs ep = Inr []"
proof -
  obtain rows where "save_tx (institutional_pipeline sl) env vs ep [] (db\<lparr> db_events := rows \<rparr>) = Inr db'"
    by (rule run_tx_sent [OF assms(1-4)])
  from institutional.second_run [OF this _ assms(6-9), of now] assms(5) show ?thesis
    by (simp add: institutional_pipeline_def)
qed

lemma failed_mem:
  "(e, r) \<in> set results \<Longrightarrow> er_status r = Failed \<Longrightarrow> ev_vote_account e \<in> set (failedVoteAccounts results)"
  by (force simp: failedVoteAccounts_def)

lemma failed_memD:
  "vote \<in> set (failedVoteAccounts results) \<Longrightarrow>
     \<exists>(e, r)\<in>set results. er_status r = Failed \<and> ev_vote_account e = vote"
  by (force simp: failedVoteAccounts_def)

text \<open>
  C2: What a bidding run leaves in the state table, by account: with a failed event the row
  is the one before the run (so its deltas are evaluated again), without one the row is the new
  state of a current validator, and there is no row for a validator that is gone; the rows of
  the other bond type are untouched.
\<close>

theorem bidding_run_rows:
  assumes "runEventingPipeline (bidding_pipeline sl meta) cf env vs ep db = (db', Inr results)"
    and "truthy (cf_postgresUrl cf)" and "\<not> cf_dryRun cf"
  shows "((\<exists>(e, r)\<in>set results. er_status r = Failed \<and> ev_vote_account e = vote) \<longrightarrow>
       row_lookup (db_state db') (vote, Bidding) = row_lookup (db_state db) (vote, Bidding))
    \<and> ((\<forall>(e, r)\<in>set results. ev_vote_account e = vote \<longrightarrow> er_status r = Sent) \<longrightarrow>
        (if vote \<in> av_voteAccount ` set vs
         then \<exists>v\<in>set vs. \<exists>s. av_voteAccount v = vote \<and> validatorToState sl (re_now env) v ep Bidding = Inr s
           \<and> row_lookup (db_state db') (vote, Bidding) = Some (s\<lparr> vs_updated_at := re_now env \<rparr>)
         else row_lookup (db_state db') (vote, Bidding) = None))
    \<and> row_lookup (db_state db') (vote, Institutional) = row_lookup (db_state db) (vote, Institutional)"
proof -
  let ?pp = "bidding_pipeline sl meta"
  let ?failed = "failedVoteAccounts results"
  obtain rows where tx: "save_tx ?pp env vs ep ?failed (db\<lparr> db_events := rows \<rparr>) = Inr db'"
    by (rule run_tx [OF assms])
  have sel: "pp_bondType ?pp = Bidding" "pp_voteAccountOf ?pp = av_voteAccount"
    "pp_toState ?pp = (\<lambda>now v ep. validatorToState sl now v ep Bidding)"
    by (simp_all add: bidding_pipeline_def)
  have failed: "row_lookup (db_state db') (vote, Bidding) = row_lookup (db_state db) (vote, Bidding)"
    if "\<exists>(e, r)\<in>set results. er_status r = Failed \<and> ev_vote_account e = vote"
    using bidding.tx_failed [OF tx, of vote] that failed_mem by (auto simp: sel)
  have sent: "if vote \<in> av_voteAccount ` set vs
         then \<exists>v\<in>set vs. \<exists>s. av_voteAccount v = vote \<and> validatorToState sl (re_now env) v ep Bidding = Inr s
           \<and> row_lookup (db_state db') (vote, Bidding) = Some (s\<lparr> vs_updated_at := re_now env \<rparr>)
         else row_lookup (db_state db') (vote, Bidding) = None"
    if "\<forall>(e, r)\<in>set results. ev_vote_account e = vote \<longrightarrow> er_status r = Sent"
  proof -
    have nf: "vote \<notin> set ?failed" using that failed_memD [of vote results] by force
    show ?thesis
    proof (cases "vote \<in> av_voteAccount ` set vs")
      case True
      then obtain v where v: "v \<in> set vs" "av_voteAccount v = vote" by auto
      from tx v(1) have "pp_voteAccountOf ?pp v \<notin> set ?failed \<Longrightarrow> \<exists>s. validatorToState sl (re_now env) v ep Bidding = Inr s
          \<and> row_lookup (db_state db') (vote, Bidding) = Some (s\<lparr> vs_updated_at := re_now env \<rparr>)"
        by (rule bidding.tx_saved) (auto simp: sel v(2))
      with True v nf show ?thesis by (auto simp: sel)
    next
      case False
      with bidding.tx_removed [OF tx nf] show ?thesis by (simp add: sel)
    qed
  qed
  have "row_lookup (db_state db') (vote, Institutional) = row_lookup (db_state db) (vote, Institutional)"
    using bidding.tx_other [OF tx, of Institutional vote] by (simp add: sel)
  with failed sent show ?thesis by blast
qed

text \<open>
  C6: The state that deltas are compared with changes only in a run that completes, with a
  database and not as a dry run: a run that throws (loading, evaluating, persisting the events,
  saving) leaves the state table and the meta table as they were.
\<close>

theorem run_atomic:
  assumes "runEventingPipeline pp cf env vs ep db = (db', r)"
    and "\<not> is_ok r \<or> cf_dryRun cf \<or> \<not> truthy (cf_postgresUrl cf)"
  shows "db_state db' = db_state db \<and> db_meta db' = db_meta db"
  using assms by (auto simp: runEventingPipeline_def Let_def split: sum.splits if_splits)

text \<open>
  The key of the state table stays unique and an institutional run never touches the
  rows of the bidding validators.
\<close>

lemma institutional_run_table:
  assumes "runEventingPipeline (institutional_pipeline sl) cf env vs ep db = (db', Inr results)"
    and "truthy (cf_postgresUrl cf)" and "\<not> cf_dryRun cf" and "table_ok (db_state db)"
  shows "table_ok (db_state db')
    \<and> row_lookup (db_state db') (vote, Bidding) = row_lookup (db_state db) (vote, Bidding)"
proof -
  obtain rows where tx: "save_tx (institutional_pipeline sl) env vs ep (failedVoteAccounts results)
      (db\<lparr> db_events := rows \<rparr>) = Inr db'"
    by (rule run_tx [OF assms(1-3)])
  have "table_ok (db_state (db\<lparr> db_events := rows \<rparr>))" using assms(4) by simp
  from institutional.tx_table_ok [OF tx this] institutional.tx_other [OF tx, of Bidding vote]
  show ?thesis by (simp add: institutional_pipeline_def)
qed

subsection \<open>The runs of the witnesses\<close>

definition demo_env :: run_env where
  "demo_env = \<lparr> re_now = ''t'', re_rd = Inr,
     re_post = (\<lambda>job. \<lparr> er_status = Sent, er_messageId = nat_str (fst job), er_error = None \<rparr>),
     re_uuid = nat_str, re_pick = (\<lambda>k. 0) \<rparr>"

definition demo_db :: event_db where
  "demo_db = \<lparr> db_state = [], db_meta = [], db_events = [] \<rparr>"

definition demo_inst :: institutional_validator where
  "demo_inst = \<lparr> iv_voteAccount = ''vote'', iv_bondPubkey = ''bond'', iv_fundedAmountLamports = 400,
     iv_effectiveAmountLamports = 400, iv_settlementClaimsLamports = 0,
     iv_institutionalStakeLamports = 2001999 \<rparr>"

lemma demo_sent:
  "\<forall>(e, r)\<in>set (emitEvents demo_cf (re_post demo_env) (re_uuid demo_env) (re_pick demo_env) es). er_status r = Sent"
proof -
  have c: "0 < count_of (cf_emitConcurrency demo_cf)" by (simp add: demo_parse)
  obtain rs where "emitEvents demo_cf (re_post demo_env) (re_uuid demo_env) (re_pick demo_env) es
      = map (\<lambda>(job, r). (snd job, r)) rs" "\<forall>(job, r)\<in>set rs. r = re_post demo_env job"
    by (rule emitEvents_pool [OF demo_parse(5,6) c])
  then show ?thesis by (auto simp: demo_env_def)
qed

lemma demo_persist:
  assumes "\<forall>e\<in>set es. ev_epoch e = Fin 700"
  obtains rows where "persistEvents now (emitEvents demo_cf post uuid pick es) [] = Inr rows"
proof -
  have c: "0 < count_of (cf_emitConcurrency demo_cf)" by (simp add: demo_parse)
  have "set (map fst (emitEvents demo_cf post uuid pick es)) = set es"
    using emitEvents_events [OF c] by (metis set_mset_mset)
  then have "\<forall>er\<in>set (emitEvents demo_cf post uuid pick es). int4_ok (ev_epoch (fst er))"
  proof (intro ballI)
    fix er assume "er \<in> set (emitEvents demo_cf post uuid pick es)"
    then have "fst er \<in> set es" using \<open>set (map fst _) = set es\<close> by auto
    then show "int4_ok (ev_epoch (fst er))" using assms by (simp add: int4_ok_def is_integral_def)
  qed
  then show thesis using persistEvents_total that by blast
qed

lemma demo_run:
  assumes ev: "pp_evaluate pp ''t'' vs [] (Fin 700) = Inr es" and "\<forall>e\<in>set es. ev_epoch e = Fin 700"
    and tx: "\<And>rows. save_tx pp demo_env vs (Fin 700) [] (demo_db\<lparr> db_events := rows \<rparr>)
        = Inr (demo_db\<lparr> db_events := rows, db_state := t \<rparr>)"
  obtains db' results where
    "runEventingPipeline pp demo_cf demo_env vs (Fin 700) demo_db = (db', Inr results)"
    "db_state db' = t" "\<forall>(e, r)\<in>set results. er_status r = Sent"
proof -
  let ?results = "emitEvents demo_cf (re_post demo_env) (re_uuid demo_env) (re_pick demo_env) es"
  obtain rows where rows: "persistEvents ''t'' ?results [] = Inr rows"
    by (rule demo_persist [OF assms(2)])
  have failed: "failedVoteAccounts ?results = []"
    using demo_sent [of es] by (auto simp: failedVoteAccounts_def filter_empty_conv)
  have "loadPreviousState rd bt (db_state demo_db) = Inr []" for rd bt
    by (simp add: loadPreviousState_def demo_db_def)
  moreover have "re_now demo_env = ''t''" "db_events demo_db = []"
    by (simp_all add: demo_env_def demo_db_def)
  ultimately have "runEventingPipeline pp demo_cf demo_env vs (Fin 700) demo_db
      = (demo_db\<lparr> db_events := rows, db_state := t \<rparr>, Inr ?results)"
    using ev by (simp add: runEventingPipeline_def demo_parse rows failed tx Let_def)
  then show thesis by (rule that) (simp_all add: demo_sent)
qed

lemma demo_bidding_state:
  obtains s where "validatorToState demo_lib ''t'' demo_validator (Fin 700) Bidding = Inr s"
    "row_ok s" "row_safe s" "vs_vote_account s = ''vote''" "vs_updated_at s = ''t''"
proof -
  have deficit: "dm_deficit_sol (computeDeficitMetrics demo_validator) = None"
    by (simp add: computeDeficitMetrics_def demo_validator_def rs_get_def no_metrics_def)
  obtain j where j: "toCalcValidator demo_validator = Inr j"
    using toCalcValidator_ok [of demo_validator] by (auto simp: is_ok_iff demo_validator_def)
  note fin = toCalcValidator_finite [OF j]
  have sel: "av_voteAccount demo_validator = ''vote''" "av_bondBalanceSol demo_validator = Some (Fin 10)"
    "av_claimableBondBalanceSol demo_validator = None" "av_auctionStake demo_validator = Some (Fin 1000)"
    by (simp_all add: demo_validator_def)
  show thesis
    by (rule that, simp add: validatorToState_def demo_config demo_bond sel demo_lamports deficit j
          solToLamports_def [of None])
       (simp_all add: row_ok_def row_safe_def int8_ok_def int4_ok_def is_integral_def fin)
qed

lemma demo_bidding_run:
  obtains db' results where
    "runEventingPipeline (bidding_pipeline demo_lib None) demo_cf demo_env [demo_validator] (Fin 700) demo_db
       = (db', Inr results)"
    "\<forall>r\<in>set (db_state db'). row_safe r" "\<forall>(e, r)\<in>set results. er_status r = Sent"
proof -
  let ?pp = "bidding_pipeline demo_lib None"
  obtain s where s: "validatorToState demo_lib ''t'' demo_validator (Fin 700) Bidding = Inr s"
    "row_ok s" "row_safe s" "vs_vote_account s = ''vote''" "vs_updated_at s = ''t''"
    by (rule demo_bidding_state)
  have "\<exists>es. validator_events demo_lib ''t'' cfg (Fin 700) Bidding [] demo_validator = Inr es" for cfg
    by (simp add: validator_events_def demo_validator_def demo_lamports first_seen_events_def
          makeEvent_def demo_bond)
  then obtain es where es: "validator_events demo_lib ''t'' (replicate 32 1) (Fin 700) Bidding [] demo_validator = Inr es"
    by blast
  have ev: "pp_evaluate ?pp ''t'' [demo_validator] [] (Fin 700) = Inr es"
    by (simp add: bidding_pipeline_def evaluateDeltas_def demo_config es delisted_events_def)
  have ep: "\<forall>e\<in>set es. ev_epoch e = Fin 700"
    using validator_events_for [OF es] by (simp add: event_for_def)
  have vote: "av_voteAccount demo_validator = ''vote''" by (simp add: demo_validator_def)
  have upd: "s\<lparr> vs_updated_at := ''t'' \<rparr> = s" using s(5) by (cases s) simp
  have "save_tx ?pp demo_env [demo_validator] (Fin 700) [] (demo_db\<lparr> db_events := rows \<rparr>)
        = Inr (demo_db\<lparr> db_events := rows, db_state := [s] \<rparr>)" for rows
    using upd by (simp add: save_tx_def bidding_pipeline_def s vote saveCurrentState_def demo_db_def demo_env_def
          deleteRemovedValidators_def)
  from ev ep this show thesis
    by (rule demo_run) (rule that, assumption, simp add: s(3), assumption)
qed

lemma demo_inst_run:
  obtains db' results where
    "runEventingPipeline (institutional_pipeline demo_lib) demo_cf demo_env [demo_inst] (Fin 700) demo_db
       = (db', Inr results)"
    "\<forall>r\<in>set (db_state db'). row_safe r" "\<forall>(e, r)\<in>set results. er_status r = Sent"
proof -
  let ?pp = "institutional_pipeline demo_lib"
  define s where "s = institutionalValidatorToState ''t'' demo_inst (Fin 700)"
  have sel: "iv_voteAccount demo_inst = ''vote''" by (simp add: demo_inst_def)
  have safe: "row_safe s" "row_ok s" "vs_vote_account s = ''vote''"
    by (simp_all add: s_def institutionalValidatorToState_def demo_inst_def row_safe_def row_ok_def
          int8_ok_def int4_ok_def is_integral_def inst_deficit_def computeFlatDeficit_def bigint_div_def
          ALLOWED_STAKE_PER_BOND_RATIO_def)
  have upd: "s\<lparr> vs_updated_at := ''t'' \<rparr> = s" by (simp add: s_def institutionalValidatorToState_def)
  have ev: "pp_evaluate ?pp ''t'' [demo_inst] [] (Fin 700) = Inr (inst_validator_events ''t'' (Fin 700) [] demo_inst)"
    by (simp add: institutional_pipeline_def evaluateInstitutionalDeltas_def delisted_events_def)
  have ep: "\<forall>e\<in>set (inst_validator_events ''t'' (Fin 700) [] demo_inst). ev_epoch e = Fin 700"
    using inst_events_for by (auto simp: event_for_def)
  have "save_tx ?pp demo_env [demo_inst] (Fin 700) [] (demo_db\<lparr> db_events := rows \<rparr>)
        = Inr (demo_db\<lparr> db_events := rows, db_state := [s] \<rparr>)" for rows
    using upd safe
    by (simp add: save_tx_def institutional_pipeline_def saveCurrentState_def demo_db_def demo_env_def
          deleteRemovedValidators_def sel flip: s_def)
  from ev ep this show thesis
    by (rule demo_run) (rule that, assumption, simp add: safe, assumption)
qed

lemma demo_exact: "int8_exact Inr"
  by (simp add: int8_exact_def)

lemma demo_table: "table_ok (db_state demo_db)"
  by (simp add: table_ok_def demo_db_def)

theorem bidding_second_run_quiet_witness:
  "\<exists>db' results prevs.
     runEventingPipeline (bidding_pipeline demo_lib None) demo_cf demo_env [demo_validator] (Fin 700) demo_db
       = (db', Inr results)
     \<and> loadPreviousState Inr Bidding (db_state db') = Inr prevs
     \<and> evaluateDeltas demo_lib ''later'' [demo_validator] prevs (Fin 700) Bidding = Inr []"
proof (rule demo_bidding_run)
  fix db' results
  assume run: "runEventingPipeline (bidding_pipeline demo_lib None) demo_cf demo_env [demo_validator] (Fin 700)
      demo_db = (db', Inr results)"
    and safe: "\<forall>r\<in>set (db_state db'). row_safe r" and sent: "\<forall>(e, r)\<in>set results. er_status r = Sent"
  have "[demo_validator] \<noteq> []" "Fin 700 \<noteq> NaN" by simp_all
  from bidding_second_run_quiet [OF run demo_parse(4,5) sent demo_table this demo_exact safe] run
  show ?thesis by blast
qed

theorem institutional_second_run_quiet_witness:
  "\<exists>db' results prevs.
     runEventingPipeline (institutional_pipeline demo_lib) demo_cf demo_env [demo_inst] (Fin 700) demo_db
       = (db', Inr results)
     \<and> loadPreviousState Inr Institutional (db_state db') = Inr prevs
     \<and> evaluateInstitutionalDeltas demo_lib ''later'' [demo_inst] prevs (Fin 700) = Inr []"
proof (rule demo_inst_run)
  fix db' results
  assume run: "runEventingPipeline (institutional_pipeline demo_lib) demo_cf demo_env [demo_inst] (Fin 700)
      demo_db = (db', Inr results)"
    and safe: "\<forall>r\<in>set (db_state db'). row_safe r" and sent: "\<forall>(e, r)\<in>set results. er_status r = Sent"
  have "[demo_inst] \<noteq> []" "Fin 700 \<noteq> NaN" by simp_all
  from institutional_second_run_quiet [OF run demo_parse(4,5) sent demo_table this demo_exact safe] run
  show ?thesis by blast
qed

theorem bidding_run_rows_witness:
  "\<exists>db' results s.
     runEventingPipeline (bidding_pipeline demo_lib None) demo_cf demo_env [demo_validator] (Fin 700) demo_db
       = (db', Inr results)
     \<and> validatorToState demo_lib (re_now demo_env) demo_validator (Fin 700) Bidding = Inr s
     \<and> row_lookup (db_state db') (''vote'', Bidding) = Some (s\<lparr> vs_updated_at := re_now demo_env \<rparr>)"
proof (rule demo_bidding_run)
  fix db' results
  assume run: "runEventingPipeline (bidding_pipeline demo_lib None) demo_cf demo_env [demo_validator] (Fin 700)
      demo_db = (db', Inr results)"
    and sent: "\<forall>(e, r)\<in>set results. er_status r = Sent"
  have "\<forall>(e, r)\<in>set results. ev_vote_account e = ''vote'' \<longrightarrow> er_status r = Sent" using sent by auto
  moreover have "''vote'' \<in> av_voteAccount ` set [demo_validator]" by (simp add: demo_validator_def)
  ultimately have "\<exists>v\<in>set [demo_validator]. \<exists>s. av_voteAccount v = ''vote''
      \<and> validatorToState demo_lib (re_now demo_env) v (Fin 700) Bidding = Inr s
      \<and> row_lookup (db_state db') (''vote'', Bidding) = Some (s\<lparr> vs_updated_at := re_now demo_env \<rparr>)"
    using bidding_run_rows [OF run demo_parse(4,5), of "''vote''"] by presburger
  with run show ?thesis by auto
qed

theorem run_atomic_witness:
  "db_state (fst (runEventingPipeline (institutional_pipeline demo_lib) (demo_cf\<lparr> cf_dryRun := True \<rparr>)
      demo_env [demo_inst] (Fin 700) demo_db)) = db_state demo_db"
proof -
  let ?cf = "demo_cf\<lparr> cf_dryRun := True \<rparr>"
  obtain db' r where run: "runEventingPipeline (institutional_pipeline demo_lib) ?cf demo_env [demo_inst]
      (Fin 700) demo_db = (db', r)" by fastforce
  have "\<not> is_ok r \<or> cf_dryRun ?cf \<or> \<not> truthy (cf_postgresUrl ?cf)" by simp
  from run_atomic [OF run this] run show ?thesis by simp
qed

lemma institutional_run_table_witness:
  "\<exists>db' results.
     runEventingPipeline (institutional_pipeline demo_lib) demo_cf demo_env [demo_inst] (Fin 700) demo_db
       = (db', Inr results) \<and> table_ok (db_state db')"
proof (rule demo_inst_run)
  fix db' results
  assume run: "runEventingPipeline (institutional_pipeline demo_lib) demo_cf demo_env [demo_inst] (Fin 700)
      demo_db = (db', Inr results)"
  from institutional_run_table [OF run demo_parse(4,5) demo_table] run show ?thesis by blast
qed


section \<open>Termination of the pool\<close>

definition pool_left_over :: "pool \<Rightarrow> nat" where
  "pool_left_over s = length (pl_queue s) + length (pl_flight s)"

lemma pool_step_left:
  assumes "pool_inv c post jobs s" and "pool_step c post s t"
  shows "Suc (pool_left_over t) = pool_left_over s"
proof -
  obtain i where i: "i < length (pl_flight s)" "t = pool_finish c post i s" using assms(2) by (auto elim: pool_stepE)
  then show ?thesis
    using pool_left [OF assms(1)] pool_left [OF pool_inv_finish [OF assms(1) i(1)]] pool_finish_results [of c post i s]
    by (simp add: pool_left_over_def)
qed

text \<open>
  C27: the pool terminates whatever the order in which the requests finish: a step from a
  reachable state leaves one event less, so no run has more steps than there are events; a
  reachable state without a step has a result for every event; and such a state can always be
  reached.
\<close>

theorem pool_terminates:
  assumes "0 < c" and "pool_reach c post jobs s"
  shows "(\<forall>t. pool_step c post s t \<longrightarrow> pool_left_over t + 1 = pool_left_over s)
    \<and> pool_left_over s + length (pl_results s) = length jobs
    \<and> ((\<nexists>t. pool_step c post s t) \<longleftrightarrow> mset (map fst (pl_results s)) = mset jobs)
    \<and> (\<exists>t. (pool_step c post)\<^sup>*\<^sup>* s t \<and> mset (map fst (pl_results t)) = mset jobs)"
proof (intro conjI)
  have inv: "pool_inv c post jobs s" if "pool_reach c post jobs s" for s by (rule pool_inv_reach [OF that])
  have stuck: "(\<nexists>t. pool_step c post s t) \<longleftrightarrow> pool_left_over s = 0" if "pool_reach c post jobs s" for s
  proof -
    have "(\<nexists>t. pool_step c post s t) \<longleftrightarrow> pl_flight s = []"
      by (auto simp: pool_step_iff)
    then show ?thesis using pool_done(1) [OF inv [OF that] assms(1)] by (auto simp: pool_left_over_def)
  qed
  have results: "pool_left_over s = 0 \<longleftrightarrow> mset (map fst (pl_results s)) = mset jobs" if "pool_reach c post jobs s" for s
  proof
    assume "pool_left_over s = 0"
    then show "mset (map fst (pl_results s)) = mset jobs"
      using pool_done(2) [OF inv [OF that] assms(1)] by (simp add: pool_left_over_def)
  next
    assume "mset (map fst (pl_results s)) = mset jobs"
    then have "length (pl_results s) = length jobs" by (metis length_map size_mset)
    then show "pool_left_over s = 0" using pool_left [OF inv [OF that]] by (simp add: pool_left_over_def)
  qed
  show "\<forall>t. pool_step c post s t \<longrightarrow> pool_left_over t + 1 = pool_left_over s"
    using pool_step_left [OF inv [OF assms(2)]] by simp
  show "pool_left_over s + length (pl_results s) = length jobs"
    using pool_left [OF inv [OF assms(2)]] by (simp add: pool_left_over_def)
  show "(\<nexists>t. pool_step c post s t) \<longleftrightarrow> mset (map fst (pl_results s)) = mset jobs"
    using stuck [OF assms(2)] results [OF assms(2)] by simp
  show "\<exists>t. (pool_step c post)\<^sup>*\<^sup>* s t \<and> mset (map fst (pl_results t)) = mset jobs"
    using assms(2)
  proof (induction "pool_left_over s" arbitrary: s)
    case 0
    then show ?case using results by auto
  next
    case (Suc n)
    then obtain t where t: "pool_step c post s t" using stuck [of s] by auto
    then have "pool_left_over t = n" using pool_step_left [OF inv [OF Suc.prems] t] Suc.hyps(2) by simp
    then obtain u where "(pool_step c post)\<^sup>*\<^sup>* t u" "mset (map fst (pl_results u)) = mset jobs"
      using Suc.hyps(1) [of t] pool_reach.step [OF Suc.prems t] by auto
    then show ?case using t by (meson converse_rtranclp_into_rtranclp)
  qed
qed

theorem pool_terminates_witness:
  "\<forall>e post. \<exists>t. (pool_step 1 post)\<^sup>*\<^sup>* (pool_init 1 (number_jobs [e, e])) t
     \<and> mset (map fst (pl_results t)) = mset (number_jobs [e, e])"
  using pool_terminates [OF zero_less_one pool_reach.init] by blast

section \<open>The state table is a map\<close>

text \<open>The specification: a map from the key to the row. Saving overrides the entries of the
  saved states, pruning removes the entries of a bond type that are not kept.\<close>

definition spec_save :: "string \<Rightarrow> validator_state list \<Rightarrow> (string \<times> bond_type \<rightharpoonup> validator_state)
    \<Rightarrow> (string \<times> bond_type \<rightharpoonup> validator_state)" where
  "spec_save now ss m = m ++ map_of (map (\<lambda>s. (row_key s, s\<lparr> vs_updated_at := now \<rparr>)) ss)"

definition spec_prune :: "bond_type \<Rightarrow> string list \<Rightarrow> (string \<times> bond_type \<rightharpoonup> validator_state)
    \<Rightarrow> (string \<times> bond_type \<rightharpoonup> validator_state)" where
  "spec_prune bt keep m = (\<lambda>k. if snd k = bt \<and> fst k \<notin> set keep then None else m k)"

lemma upsert_row_subset: "set (upsert_row s u) \<subseteq> insert s (set u)"
  by (induction u) auto

lemma upsert_rows_subset: "set (fold upsert_row rs u) \<subseteq> set rs \<union> set u"
proof (induction rs arbitrary: u)
  case (Cons r rs)
  show ?case using Cons [of "upsert_row r u"] upsert_row_subset [of r u] by auto
qed simp

text \<open>
  C28: the queries on the state table implement a map: for a table that keeps its key, saving
  and pruning commute with the abstraction \<open>row_lookup\<close>, keep the key, and what the next run
  loads for a bond type is the map restricted to it, as long as the amounts are in the range
  that the driver reads exactly.
\<close>

theorem state_table_refines_map:
  assumes "int8_exact rd" and "table_ok t" and "\<forall>r\<in>set t. row_safe r" and "\<forall>s\<in>set ss. row_safe s"
    and "saveCurrentState now ss t = Inr t'"
  shows "row_lookup t' = spec_save now ss (row_lookup t)
    \<and> row_lookup (deleteRemovedValidators bt keep t') = spec_prune bt keep (row_lookup t')
    \<and> table_ok (deleteRemovedValidators bt keep t')
    \<and> (\<exists>prevs. loadPreviousState rd bt (deleteRemovedValidators bt keep t') = Inr prevs
        \<and> (\<forall>vote. jsmap_get prevs vote = map_option (\<lambda>r. r\<lparr> vs_auction_validator := None \<rparr>)
            (spec_prune bt keep (spec_save now ss (row_lookup t)) (vote, bt))))"
proof -
  let ?ss = "map (\<lambda>s. (row_key s, s\<lparr> vs_updated_at := now \<rparr>)) ss"
  have d: "distinct (map row_key ss)" by (rule saveCurrentState_Inr(1) [OF assms(5)])
  have save: "row_lookup t' = spec_save now ss (row_lookup t)"
  proof
    fix k show "row_lookup t' k = spec_save now ss (row_lookup t) k"
    proof (cases "k \<in> row_key ` set ss")
      case True
      then obtain s where s: "s \<in> set ss" "k = row_key s" by auto
      have "map_of ?ss k = Some (s\<lparr> vs_updated_at := now \<rparr>)"
        by (rule map_of_is_SomeI) (use d s in \<open>auto simp: comp_def\<close>)
      then show ?thesis using table.save_hit [OF assms(5) s(1)] s(2) by (simp add: spec_save_def)
    next
      case False
      then have "map_of ?ss k = None" by (auto simp: map_of_eq_None_iff)
      then show ?thesis using table.save_miss [OF assms(5) False] by (simp add: spec_save_def map_add_def)
    qed
  qed
  have prune: "row_lookup (deleteRemovedValidators bt keep t') = spec_prune bt keep (row_lookup t')"
    by (rule ext) (auto simp: spec_prune_def table.prune_lookup)
  have ok: "table_ok (deleteRemovedValidators bt keep t')"
    by (rule table_ok_delete [OF table_ok_save [OF assms(5,2)]])
  have "set t' \<subseteq> (\<lambda>s. s\<lparr> vs_updated_at := now \<rparr>) ` set ss \<union> set t"
    unfolding saveCurrentState_Inr(3) [OF assms(5)] by (rule order.trans [OF upsert_rows_subset]) simp
  then have "\<forall>r\<in>set t'. row_safe r" using assms(3,4) by (auto simp: row_safe_def)
  then have "\<forall>r\<in>set (deleteRemovedValidators bt keep t'). row_safe r"
    by (auto simp: deleteRemovedValidators_def split: if_splits)
  then obtain prevs where "loadPreviousState rd bt (deleteRemovedValidators bt keep t') = Inr prevs"
    "\<And>vote. jsmap_get prevs vote = map_option (\<lambda>r. r\<lparr> vs_auction_validator := None \<rparr>)
        (row_lookup (deleteRemovedValidators bt keep t') (vote, bt))"
    by (rule loadPreviousState_exact [OF assms(1) ok, where bt = bt]) (rule that)
  then show ?thesis using save prune ok by auto
qed


definition demo_new :: validator_state where
  "demo_new = demo_state\<lparr> vs_vote_account := ''new'' \<rparr>"

theorem state_table_refines_map_witness:
  "\<exists>t' prevs. saveCurrentState ''now'' [demo_new] [demo_state] = Inr t'
     \<and> loadPreviousState Inr Bidding (deleteRemovedValidators Bidding [''new''] t') = Inr prevs
     \<and> jsmap_get prevs ''gone'' = None
     \<and> jsmap_get prevs ''new'' = Some (demo_new\<lparr> vs_updated_at := ''now'' \<rparr>)"
proof -
  have save: "saveCurrentState ''now'' [demo_new] [demo_state] = Inr [demo_state, demo_new\<lparr> vs_updated_at := ''now'' \<rparr>]"
    by (simp add: saveCurrentState_def demo_new_def demo_state_def row_ok_def int4_ok_def is_integral_def
        int8_ok_def row_key_def)
  have safe: "int8_exact Inr" "table_ok [demo_state]" "\<forall>r\<in>set [demo_state]. row_safe r" "\<forall>s\<in>set [demo_new]. row_safe s"
    by (simp_all add: int8_exact_def table_ok_def row_safe_def demo_new_def demo_state_def)
  from state_table_refines_map [OF safe save, of Bidding "[''new'']"] obtain prevs
    where "loadPreviousState Inr Bidding (deleteRemovedValidators Bidding [''new''] [demo_state, demo_new\<lparr> vs_updated_at := ''now'' \<rparr>]) = Inr prevs"
    "\<And>vote. jsmap_get prevs vote = map_option (\<lambda>r. r\<lparr> vs_auction_validator := None \<rparr>)
        (spec_prune Bidding [''new''] (spec_save ''now'' [demo_new] (row_lookup [demo_state])) (vote, Bidding))" by blast
  then show ?thesis using save
    by (intro exI conjI) (assumption+, simp_all add: spec_prune_def spec_save_def demo_new_def demo_state_def row_key_def)
qed

end
