(* ===== verification/Sdk_Claims.thy ===== *)
theory Sdk_Claims
  imports Sdk_Address
begin

unbundle bit_operations_syntax

text \<open>
  The claims bitmap of a settlement: \<open>packages/validator-bonds-sdk/src/settlementClaims.ts\<close>.
  The account data is a header of 56 bytes and one bit per record, the first record in the
  highest bit of the first byte. A BN is an integer; \<open>bn_to_number\<close> is \<open>BN.toNumber\<close>.

  \<open>isSet_bit\<close> is the functional behaviour of \<open>isSet\<close>, \<open>bitSet_isSet\<close> the agreement
  of the two readers of the bitmap.
\<close>

section \<open>The code\<close>

definition bn_to_number :: "int \<Rightarrow> int res" where
  "bn_to_number i = (if \<bar>i\<bar> < 2 ^ 53 then Inr i
     else throw EError ''Number can only safely store up to 53 bits'')"

record bitmap =
  bm_bitmapData :: "byte list"
  bm_maxRecords :: int

definition byteIndexBitMod :: "int \<Rightarrow> (int \<times> int) res" where
  "byteIndexBitMod index =
     rbind (bn_to_number (bigint_div index 8)) (\<lambda>byteIndex.
     rbind (bn_to_number (bigint_mod index 8)) (\<lambda>bitIndex. Inr (byteIndex, bitIndex)))"

definition bitmapByteSize :: "int \<Rightarrow> int res" where
  "bitmapByteSize maxRecords =
     rbind (byteIndexBitMod maxRecords) (\<lambda>(byteIndex, bitIndex).
       Inr (byteIndex + (if 0 < bitIndex then 1 else 0)))"

definition bm_isInitialized :: "int \<Rightarrow> byte list \<Rightarrow> bool res" where
  "bm_isInitialized maxRecords accountData =
     rbind (bitmapByteSize maxRecords) (\<lambda>expectedBitmapSize.
       let availableBytes = int (length accountData) - int SETTLEMENT_CLAIMS_ANCHOR_HEADER_SIZE
       in Inr (expectedBitmapSize \<le> availableBytes))"

text \<open>\<open>Buffer.subarray\<close> for indices that are not negative.\<close>

definition subarray :: "nat \<Rightarrow> nat \<Rightarrow> byte list \<Rightarrow> byte list" where
  "subarray a b xs = take (b - a) (drop a xs)"

definition newBitmap :: "int \<Rightarrow> byte list \<Rightarrow> bitmap res" where
  "newBitmap maxRecords accountData =
     rbind (bm_isInitialized maxRecords accountData) (\<lambda>ok.
     if \<not> ok
     then throw EError ''Bitmap data is too small, SettlementClaims account is probably not fully initialized.''
     else rbind (bitmapByteSize maxRecords) (\<lambda>expectedBitmapSize.
       Inr \<lparr> bm_bitmapData = subarray SETTLEMENT_CLAIMS_ANCHOR_HEADER_SIZE
               (SETTLEMENT_CLAIMS_ANCHOR_HEADER_SIZE + nat expectedBitmapSize) accountData,
             bm_maxRecords = maxRecords \<rparr>))"

definition assertValidIndex :: "bitmap \<Rightarrow> int \<Rightarrow> unit res" where
  "assertValidIndex bm index = guard_throw (index < 0 \<or> bm_maxRecords bm \<le> index) EError
     (''Index '' @ int_str index @ '' out of range'')"

definition byte_at :: "byte list \<Rightarrow> int \<Rightarrow> byte option" where
  "byte_at xs i = (if 0 \<le> i \<and> nat i < length xs then Some (xs ! nat i) else None)"

definition isSet :: "bitmap \<Rightarrow> int \<Rightarrow> bool res" where
  "isSet bm index =
     rbind (assertValidIndex bm index) (\<lambda>_.
     rbind (byteIndexBitMod index) (\<lambda>(byteIndex, bitIndex).
     rbind (guard_throw (\<not> bitIndex < 8) EAssertion ''bitIndex'') (\<lambda>_.
     Inr (case byte_at (bm_bitmapData bm) byteIndex of
            None \<Rightarrow> False
          | Some b \<Rightarrow> b AND push_bit (nat (7 - bitIndex)) 1 \<noteq> 0))))"

fun byte2bits_loop :: "byte \<Rightarrow> nat list \<Rightarrow> string \<times> nat \<Rightarrow> string \<times> nat" where
  "byte2bits_loop b [] acc = acc"
| "byte2bits_loop b (i # is) acc =
     byte2bits_loop b is
       (if b AND of_nat i \<noteq> 0 then (fst acc @ ''1'', snd acc + 1) else (fst acc @ ''0'', snd acc))"

definition byte2bits :: "byte \<Rightarrow> string \<times> nat" where
  "byte2bits byteNum = byte2bits_loop byteNum [128, 64, 32, 16, 8, 4, 2, 1] ([], 0)"

definition bitSet :: "bitmap \<Rightarrow> (string \<times> nat) res" where
  "bitSet bm =
     (let bs = map byte2bits (bm_bitmapData bm);
          result = map fst bs;
          resultCounter = sum_list (map snd bs)
      in rbind (byteIndexBitMod (bm_maxRecords bm)) (\<lambda>(_, bitIndex).
         if 0 < bitIndex
         then rbind (guard_throw (result = []) EAssertion ''lastResult'') (\<lambda>_.
              Inr (js_join '','' (butlast result @ [take (nat bitIndex) (last result)]), resultCounter))
         else Inr (js_join '','' result, resultCounter)))"

section \<open>Indices of a valid bitmap\<close>

lemma byteIndexBitMod_ok:
  assumes "0 \<le> i" and "i < 2 ^ 53"
  shows "byteIndexBitMod i = Inr (i div 8, i mod 8)"
proof -
  have "i div 8 < 2 ^ 53" "0 \<le> i div 8" "0 \<le> i mod 8" "i mod 8 < 2 ^ 53" using assms by auto
  then show ?thesis using assms by (simp add: byteIndexBitMod_def bigint_div_nonneg bigint_mod_nonneg bn_to_number_def)
qed

definition bytes_needed :: "int \<Rightarrow> int" where
  "bytes_needed n = n div 8 + (if 0 < n mod 8 then 1 else 0)"

lemma bitmapByteSize_ok: "0 \<le> n \<Longrightarrow> n < 2 ^ 53 \<Longrightarrow> bitmapByteSize n = Inr (bytes_needed n)"
  by (simp add: bitmapByteSize_def byteIndexBitMod_ok bytes_needed_def)

lemma bytes_needed_bounds: "0 \<le> n \<Longrightarrow> n \<le> 8 * bytes_needed n \<and> 8 * bytes_needed n < n + 8"
  unfolding bytes_needed_def by presburger

lemma newBitmap_ok:
  assumes "0 \<le> n" and "n < 2 ^ 53"
  shows "newBitmap n data = (if 56 + bytes_needed n \<le> int (length data)
    then Inr \<lparr> bm_bitmapData = take (nat (bytes_needed n)) (drop 56 data), bm_maxRecords = n \<rparr>
    else throw EError ''Bitmap data is too small, SettlementClaims account is probably not fully initialized.'')"
  using assms
  by (simp add: newBitmap_def bm_isInitialized_def bitmapByteSize_ok subarray_def
        SETTLEMENT_CLAIMS_ANCHOR_HEADER_SIZE_def)

lemma newBitmapE:
  assumes "newBitmap n data = Inr bm" and "0 \<le> n" and "n < 2 ^ 53"
  shows "bm_maxRecords bm = n" "int (length (bm_bitmapData bm)) = bytes_needed n"
    "j < length (bm_bitmapData bm) \<Longrightarrow> bm_bitmapData bm ! j = data ! (56 + j)"
    "56 + bytes_needed n \<le> int (length data)"
  using assms bytes_needed_bounds [OF assms(2)]
  by (auto simp: newBitmap_ok split: if_splits)

lemma and_pow2: "b AND 2 ^ k \<noteq> 0 \<longleftrightarrow> bit (b :: byte) k"
  by (simp add: bit_iff_and_push_bit_not_eq_0 push_bit_eq_mult)

lemma isSet_bit:
  assumes bm: "newBitmap n data = Inr bm" and n: "0 \<le> n" "n < 2 ^ 53" and i: "0 \<le> i" "i < n"
  shows "isSet bm i = Inr (bit (data ! (56 + nat (i div 8))) (7 - nat (i mod 8)))"
proof -
  note props = newBitmapE [OF bm n]
  have lt: "nat (i div 8) < length (bm_bitmapData bm)"
    using props(2) bytes_needed_bounds [OF n(1)] i by linarith
  have m: "nat (7 - i mod 8) = 7 - nat (i mod 8)" by simp
  have byte: "byte_at (bm_bitmapData bm) (i div 8) = Some (data ! (56 + nat (i div 8)))"
    using lt props(3) [OF lt] i by (simp add: byte_at_def pos_imp_zdiv_nonneg_iff)
  have "i < 2 ^ 53" using i n by simp
  then show ?thesis
    using i props(1)
    by (simp add: isSet_def assertValidIndex_def byteIndexBitMod_ok byte m
          push_bit_eq_mult and_pow2)
qed

section \<open>Printing the bitmap\<close>

definition bit_char :: "bool \<Rightarrow> char" where
  "bit_char b = (if b then CHR ''1'' else CHR ''0'')"

definition byte_bits :: "byte \<Rightarrow> string" where
  "byte_bits b = map (\<lambda>k. bit_char (bit b (7 - k))) [0, 1, 2, 3, 4, 5, 6, 7]"

lemma byte2bits_loop_app:
  "byte2bits_loop b (map (\<lambda>k. 2 ^ k) ks) (s, n) =
     (s @ map (\<lambda>k. bit_char (bit b k)) ks, n + length (filter (\<lambda>k. bit b k) ks))"
  by (induction ks arbitrary: s n) (simp_all add: and_pow2 bit_char_def)

lemma byte2bits_eq:
  "byte2bits b = (byte_bits b, length (filter (\<lambda>k. bit b k) [7, 6, 5, 4, 3, 2, 1, 0]))"
proof -
  have "[128, 64, 32, 16, 8, 4, 2, 1] = map (\<lambda>k. 2 ^ k :: nat) [7, 6, 5, 4, 3, 2, 1, 0]" by simp
  then have "byte2bits b = byte2bits_loop b (map (\<lambda>k. 2 ^ k) [7, 6, 5, 4, 3, 2, 1, 0]) ([], 0)"
    by (simp only: byte2bits_def)
  then show ?thesis unfolding byte2bits_loop_app by (simp add: byte_bits_def)
qed

lemma length_byte_bits [simp]: "length (byte_bits b) = 8"
  by (simp add: byte_bits_def)

lemma byte_bits_nth: "k < 8 \<Longrightarrow> byte_bits b ! k = bit_char (bit b (7 - k))"
proof -
  have "byte_bits b = map (\<lambda>k. bit_char (bit b (7 - k))) [0..<8]" by (simp add: byte_bits_def upt_rec)
  then show "k < 8 \<Longrightarrow> byte_bits b ! k = bit_char (bit b (7 - k))" by simp
qed

lemma byte_bits_no_comma: "CHR '','' \<notin> set (byte_bits b)"
  by (auto simp: byte_bits_def bit_char_def)

lemma filter_join_comma:
  "\<forall>w\<in>set ws. CHR '','' \<notin> set w \<Longrightarrow> filter (\<lambda>c. c \<noteq> CHR '','') (js_join '','' ws) = concat ws"
proof (induction "'',''" ws rule: js_join.induct)
  case (2 w)
  then show ?case by (auto simp: filter_id_conv)
next
  case (3 w v ws)
  then have "filter (\<lambda>c. c \<noteq> CHR '','') w = w" by (auto simp: filter_id_conv)
  with 3 show ?case by simp
qed simp

lemma nth_concat_bytes:
  "k < 8 * length bs \<Longrightarrow> concat (map byte_bits bs) ! k = byte_bits (bs ! (k div 8)) ! (k mod 8)"
proof (induction bs arbitrary: k)
  case (Cons b bs)
  show ?case
  proof (cases "k < 8")
    case False
    then have "concat (map byte_bits bs) ! (k - 8) = byte_bits (bs ! ((k - 8) div 8)) ! ((k - 8) mod 8)"
      using Cons by simp
    moreover have "k div 8 = Suc ((k - 8) div 8)" "(k - 8) mod 8 = k mod 8"
      using False by (simp_all add: le_div_geq le_mod_geq)
    ultimately show ?thesis using False by (simp add: nth_append)
  qed (simp add: nth_append)
qed simp

lemma length_concat_bytes [simp]: "length (concat (map byte_bits bs)) = 8 * length bs"
  by (induction bs) simp_all

lemma bitSet_concat:
  assumes bm: "newBitmap n data = Inr bm" and n: "0 \<le> n" "n < 2 ^ 53"
  obtains s c where "bitSet bm = Inr (s, c)"
    "filter (\<lambda>x. x \<noteq> CHR '','') s = take (nat n) (concat (map byte_bits (bm_bitmapData bm)))"
    "c = sum_list (map (\<lambda>b. length (filter (\<lambda>k. bit b k) [7, 6, 5, 4, 3, 2, 1, 0])) (bm_bitmapData bm))"
proof -
  note props = newBitmapE [OF bm n]
  let ?bs = "bm_bitmapData bm" and ?c = "sum_list (map snd (map byte2bits (bm_bitmapData bm)))"
  let ?ws = "map byte_bits ?bs"
  have ws: "map fst (map byte2bits ?bs) = ?ws" by (simp add: byte2bits_eq)
  have c: "?c = sum_list (map (\<lambda>b. length (filter (\<lambda>k. bit b k) [7, 6, 5, 4, 3, 2, 1, 0])) ?bs)"
    by (simp add: byte2bits_eq comp_def)
  have bm8: "byteIndexBitMod (bm_maxRecords bm) = Inr (n div 8, n mod 8)"
    unfolding props(1) by (rule byteIndexBitMod_ok [OF n])
  show thesis
  proof (cases "0 < n mod 8")
    case False
    then have "nat n = 8 * length ?bs" using props(2) n unfolding bytes_needed_def by presburger
    moreover have "filter (\<lambda>x. x \<noteq> CHR '','') (js_join '','' ?ws) = concat ?ws"
      by (rule filter_join_comma) (auto simp: byte_bits_no_comma)
    moreover have "bitSet bm = Inr (js_join '','' ?ws, ?c)"
      unfolding bitSet_def Let_def ws bm8 using False by simp
    ultimately show thesis using that c by simp
  next
    case True
    then have "int (length ?bs) = n div 8 + 1" using props(2) by (simp add: bytes_needed_def)
    then have ne: "?bs \<noteq> []" using n by (auto simp: pos_imp_zdiv_nonneg_iff)
    have n8: "nat n = 8 * (length ?bs - 1) + nat (n mod 8)"
    proof -
      have "int (length ?bs - 1) = n div 8" using \<open>int (length ?bs) = n div 8 + 1\<close> ne
        by (cases ?bs) simp_all
      then have "int (8 * (length ?bs - 1) + nat (n mod 8)) = n" by simp
      then show ?thesis by linarith
    qed
    let ?s = "butlast ?ws @ [take (nat (n mod 8)) (last ?ws)]"
    have split: "concat ?ws = concat (butlast ?ws) @ last ?ws"
      using ne by (metis append_butlast_last_id concat_append concat.simps(1,2) append_Nil2 map_is_Nil_conv)
    have len: "length (concat (butlast ?ws)) = 8 * (length ?bs - 1)"
      using length_concat_bytes [of "butlast ?bs"] by (simp add: map_butlast)
    have "concat ?s = take (nat n) (concat ?ws)"
      unfolding split n8 by (simp add: len)
    moreover have "filter (\<lambda>x. x \<noteq> CHR '','') (js_join '','' ?s) = concat ?s"
      by (rule filter_join_comma)
         (use ne in \<open>auto simp: byte_bits_no_comma last_map dest!: in_set_butlastD in_set_takeD\<close>)
    moreover have "bitSet bm = Inr (js_join '','' ?s, ?c)"
      unfolding bitSet_def Let_def ws bm8 using True ne by simp
    ultimately show thesis using that c by simp
  qed
qed

end
