(* ===== verification/Sdk_Accounts.thy ===== *)
theory Sdk_Accounts
  imports Sdk_Claims
begin

text \<open>
  Finding accounts of the program: the \<open>find*\<close> and \<open>getMultiple*\<close> functions of
  \<open>packages/validator-bonds-sdk/src/api.ts\<close>, the rest of \<open>productBond.ts\<close> and
  \<open>cpiEvent.ts\<close>.

  The cluster is the record \<open>rpc\<close>: the data of an account, the batched request of web3js-1x,
  and the addresses of the program's accounts that match a list of filters. A filter compares
  bytes at an offset (its base58 form is the encoding of these bytes); decoding account data
  is Anchor's and a parameter. \<open>bond_layout\<close> and the other layouts write out the order
  of the fields in \<open>resources/idl/validator_bonds.json\<close>, which the offsets refer to.
\<close>

section \<open>Products\<close>

record commission_config =
  cc_inflationBps :: "int option"
  cc_mevBps :: "int option"
  cc_blockBps :: "int option"

datatype product_config = CommissionConfig commission_config | CustomConfig "byte list"

definition MAX_BPS :: int where "MAX_BPS = 10000"

datatype bn_arg = BnUndefined | BnNull | BnOf int | BnNumber number | BnString string | BnBigint int

text \<open>\<open>bn_str\<close> is the constructor of BN on a string; an undefined or null argument is kept.\<close>

definition toBNPreserve :: "(string \<Rightarrow> int res) \<Rightarrow> bn_arg \<Rightarrow> bn_arg res" where
  "toBNPreserve bn_str v = (case v of
       BnUndefined \<Rightarrow> Inr BnUndefined
     | BnNull \<Rightarrow> Inr BnNull
     | BnOf i \<Rightarrow> Inr (BnOf i)
     | BnNumber x \<Rightarrow> rbind (bn_str (num_str x)) (\<lambda>i. Inr (BnOf i))
     | BnString s \<Rightarrow> rbind (bn_str s) (\<lambda>i. Inr (BnOf i))
     | BnBigint i \<Rightarrow> rbind (bn_str (int_str i)) (\<lambda>j. Inr (BnOf j)))"

definition bps_bn :: "(string \<Rightarrow> int res) \<Rightarrow> number option \<Rightarrow> int option res" where
  "bps_bn bn_str v =
     rbind (toBNPreserve bn_str (case v of None \<Rightarrow> BnNull | Some x \<Rightarrow> BnNumber x)) (\<lambda>r.
       Inr (case r of BnOf i \<Rightarrow> Some i | _ \<Rightarrow> None))"

definition getCommissionData :: "commission_config \<Rightarrow> product_config" where
  "getCommissionData data = CommissionConfig data"

definition getCommissionNumberData :: "(string \<Rightarrow> int res) \<Rightarrow> number option \<Rightarrow> number option
    \<Rightarrow> number option \<Rightarrow> product_config res" where
  "getCommissionNumberData bn_str blockBps inflationBps mevBps =
     rbind (bps_bn bn_str blockBps) (\<lambda>b.
     rbind (bps_bn bn_str inflationBps) (\<lambda>i.
     rbind (bps_bn bn_str mevBps) (\<lambda>m.
     Inr (CommissionConfig \<lparr> cc_inflationBps = i, cc_mevBps = m, cc_blockBps = b \<rparr>))))"

definition parseCommissionData :: "(product_config \<Rightarrow> string) \<Rightarrow> product_config \<Rightarrow> commission_config res" where
  "parseCommissionData js c = (case c of CommissionConfig d \<Rightarrow> Inr d
     | CustomConfig _ \<Rightarrow> throw EError (''parseCommissionData: Expected commission bond product data, got: '' @ js c))"

definition getCustomProductName :: "(product_type \<Rightarrow> string) \<Rightarrow> product_type \<Rightarrow> string res" where
  "getCustomProductName js t = (case t of PCustom s \<Rightarrow> Inr s
     | PCommission \<Rightarrow> throw EError (''getCustomProductName: Expected custom bond product type, got: '' @ js t))"

definition getCustomData :: "byte list \<Rightarrow> product_config" where
  "getCustomData data = CustomConfig data"

definition parseCustomData :: "(product_config \<Rightarrow> string) \<Rightarrow> product_config \<Rightarrow> byte list res" where
  "parseCustomData js c = (case c of CustomConfig d \<Rightarrow> Inr d
     | CommissionConfig _ \<Rightarrow> throw EError (''parseCustomData: Expected custom bond product data, got: '' @ js c))"

definition bps_guard :: "string \<Rightarrow> int option \<Rightarrow> unit res" where
  "bps_guard name v = (case v of None \<Rightarrow> Inr ()
     | Some i \<Rightarrow> guard_throw (MAX_BPS < i) EError
         (''validateCommissionData: '' @ name @ '' cannot be greater than '' @ int_str MAX_BPS
            @ '', got: '' @ int_str i))"

definition validateCommissionProductArgs :: "commission_config \<Rightarrow> unit res" where
  "validateCommissionProductArgs data =
     rbind (bps_guard ''inflationBps'' (cc_inflationBps data)) (\<lambda>_.
     rbind (bps_guard ''mevBps'' (cc_mevBps data)) (\<lambda>_.
     bps_guard ''blockBps'' (cc_blockBps data)))"

text \<open>The Borsh form of a product type: the variant and, for a custom one, the length and
  the bytes of the name.\<close>

definition product_discriminant :: "product_type \<Rightarrow> byte list" where
  "product_discriminant t = (case t of PCommission \<Rightarrow> [0]
     | PCustom s \<Rightarrow> [1] @ le_bytes 4 (int (length s)) @ bytes_of s)"

section \<open>Filters\<close>

record memcmp =
  mc_offset :: nat
  mc_bytes :: "byte list"

definition mc :: "nat \<Rightarrow> byte list \<Rightarrow> memcmp" where
  "mc off bs = \<lparr> mc_offset = off, mc_bytes = bs \<rparr>"

definition mc_match :: "byte list \<Rightarrow> memcmp \<Rightarrow> bool" where
  "mc_match data f \<longleftrightarrow> take (length (mc_bytes f)) (drop (mc_offset f) data) = mc_bytes f"

definition opt_filter :: "nat \<Rightarrow> byte list option \<Rightarrow> memcmp list" where
  "opt_filter off x = (case x of None \<Rightarrow> [] | Some bs \<Rightarrow> [mc off bs])"

definition CONFIG_ACCOUNT_DISCRIMINATOR :: "byte list" where
  "CONFIG_ACCOUNT_DISCRIMINATOR = [155, 12, 170, 224, 30, 250, 204, 130]"
definition BOND_ACCOUNT_DISCRIMINATOR :: "byte list" where
  "BOND_ACCOUNT_DISCRIMINATOR = [224, 128, 48, 251, 182, 246, 111, 196]"
definition BOND_PRODUCT_ACCOUNT_DISCRIMINATOR :: "byte list" where
  "BOND_PRODUCT_ACCOUNT_DISCRIMINATOR = [135, 68, 116, 146, 5, 75, 127, 143]"
definition SETTLEMENT_CLAIMS_ACCOUNT_DISCRIMINATOR :: "byte list" where
  "SETTLEMENT_CLAIMS_ACCOUNT_DISCRIMINATOR = [32, 130, 62, 175, 231, 54, 170, 114]"
definition SETTLEMENT_ACCOUNT_DISCRIMINATOR :: "byte list" where
  "SETTLEMENT_ACCOUNT_DISCRIMINATOR = [55, 11, 219, 33, 36, 136, 40, 182]"
definition WITHDRAW_REQUEST_ACCOUNT_DISCRIMINATOR :: "byte list" where
  "WITHDRAW_REQUEST_ACCOUNT_DISCRIMINATOR = [186, 239, 174, 191, 189, 13, 47, 196]"

definition config_filters :: "pubkey option \<Rightarrow> pubkey option \<Rightarrow> memcmp list" where
  "config_filters adminAuthority operatorAuthority =
     opt_filter 8 adminAuthority @ opt_filter 40 operatorAuthority"

definition bond_filters :: "pubkey option \<Rightarrow> pubkey option \<Rightarrow> pubkey option \<Rightarrow> memcmp list" where
  "bond_filters configAccount voteAccount bondAuthority =
     opt_filter 8 configAccount @ opt_filter 40 voteAccount @ opt_filter 72 bondAuthority
     @ [mc 0 BOND_ACCOUNT_DISCRIMINATOR]"

text \<open>\<open>if (epoch)\<close>: a number zero is false; an \<open>EpochInfo\<close> or a BN is an object and true, a
  bigint zero is false.\<close>

definition epoch_truthy :: "epoch_arg option \<Rightarrow> bool" where
  "epoch_truthy e = (case e of None \<Rightarrow> False
     | Some (NumArg x) \<Rightarrow> x \<noteq> Fin 0 \<and> x \<noteq> NaN
     | Some (BigArg i) \<Rightarrow> i \<noteq> 0
     | Some _ \<Rightarrow> True)"

definition withdraw_request_filters :: "pubkey option \<Rightarrow> epoch_arg option \<Rightarrow> memcmp list res" where
  "withdraw_request_filters voteAccount epoch =
     rbind (case epoch of
         Some e \<Rightarrow> if epoch_truthy epoch then rbind (uintToBuffer e) (\<lambda>b. Inr [mc 72 b]) else Inr []
       | None \<Rightarrow> Inr []) (\<lambda>epochFilter.
     Inr (opt_filter 8 voteAccount @ epochFilter @ [mc 0 WITHDRAW_REQUEST_ACCOUNT_DISCRIMINATOR]))"

definition settlement_filters :: "pubkey option \<Rightarrow> byte list option \<Rightarrow> memcmp list" where
  "settlement_filters bond merkleRoot =
     opt_filter 8 bond @ opt_filter 72 merkleRoot @ [mc 0 SETTLEMENT_ACCOUNT_DISCRIMINATOR]"

definition settlement_claims_filters :: "pubkey option \<Rightarrow> memcmp list" where
  "settlement_claims_filters settlement =
     opt_filter 8 settlement @ [mc 0 SETTLEMENT_CLAIMS_ACCOUNT_DISCRIMINATOR]"

definition bond_product_filters :: "pubkey option \<Rightarrow> pubkey option \<Rightarrow> pubkey option
    \<Rightarrow> product_type option \<Rightarrow> memcmp list" where
  "bond_product_filters configAccount bond voteAccount productType =
     opt_filter 8 configAccount @ opt_filter 40 bond @ opt_filter 72 voteAccount
     @ opt_filter 104 (map_option product_discriminant productType)
     @ [mc 0 BOND_PRODUCT_ACCOUNT_DISCRIMINATOR]"

section \<open>Queries\<close>

record 'a rpc =
  rpc_get :: "pubkey \<Rightarrow> byte list option"
  rpc_multiple :: "pubkey list \<Rightarrow> (pubkey \<times> byte list option) list"
  rpc_addresses :: "memcmp list \<Rightarrow> pubkey list"
  rpc_decode :: "byte list \<Rightarrow> 'a res"

definition getMultiAccounts :: "'a rpc \<Rightarrow> pubkey list \<Rightarrow> (pubkey \<times> byte list option) list" where
  "getMultiAccounts r addresses =
     (if length addresses = 1 then [(hd addresses, rpc_get r (hd addresses))]
      else if 1 < length addresses then rpc_multiple r addresses
      else [])"

definition mapAccountInfoToProgramAccount :: "'a rpc \<Rightarrow> pubkey \<times> byte list option
    \<Rightarrow> (pubkey \<times> 'a option) res" where
  "mapAccountInfoToProgramAccount r pa = (case pa of (publicKey, accountInfo) \<Rightarrow>
     (case accountInfo of None \<Rightarrow> Inr (publicKey, None)
      | Some data \<Rightarrow> rbind (rpc_decode r data) (\<lambda>a. Inr (publicKey, Some a))))"

text \<open>\<open>getMultipleBonds\<close> and its variants for the other accounts differ in the decoder only,
  which is part of the \<open>rpc\<close> of the kind of account.\<close>

definition getMultipleDecoded :: "'a rpc \<Rightarrow> pubkey list \<Rightarrow> (pubkey \<times> 'a option) list res" where
  "getMultipleDecoded r addresses = rmapM (mapAccountInfoToProgramAccount r) (getMultiAccounts r addresses)"

definition getMultipleBonds :: "'a rpc \<Rightarrow> pubkey list \<Rightarrow> (pubkey \<times> 'a option) list res" where
  "getMultipleBonds r addresses = getMultipleDecoded r addresses"

definition getMultipleWithdrawRequests :: "'a rpc \<Rightarrow> pubkey list \<Rightarrow> (pubkey \<times> 'a option) list res" where
  "getMultipleWithdrawRequests r addresses = getMultipleDecoded r addresses"

definition getMultipleSettlements :: "'a rpc \<Rightarrow> pubkey list \<Rightarrow> (pubkey \<times> 'a option) list res" where
  "getMultipleSettlements r addresses = getMultipleDecoded r addresses"

definition getMultipleBondProducts :: "'a rpc \<Rightarrow> pubkey list \<Rightarrow> (pubkey \<times> 'a option) list res" where
  "getMultipleBondProducts r addresses = getMultipleDecoded r addresses"

definition non_null :: "(pubkey \<times> 'a option) list \<Rightarrow> (pubkey \<times> 'a) list" where
  "non_null ds = concat (map (\<lambda>(k, a). case a of None \<Rightarrow> [] | Some x \<Rightarrow> [(k, x)]) ds)"

definition findFiltered :: "'a rpc \<Rightarrow> memcmp list \<Rightarrow> (pubkey \<times> 'a) list res" where
  "findFiltered r filters =
     rbind (getMultipleDecoded r (rpc_addresses r filters)) (\<lambda>ds. Inr (non_null ds))"

text \<open>\<open>account.X.fetch\<close> throws when the account does not exist, \<open>fetchNullable\<close> does not.\<close>

definition fetchNullable :: "'a rpc \<Rightarrow> pubkey \<Rightarrow> 'a option res" where
  "fetchNullable r k = (case rpc_get r k of None \<Rightarrow> Inr None
     | Some data \<Rightarrow> rbind (rpc_decode r data) (\<lambda>a. Inr (Some a)))"

definition fetch_account :: "solana_lib \<Rightarrow> 'a rpc \<Rightarrow> pubkey \<Rightarrow> 'a res" where
  "fetch_account sl r k = rbind (fetchNullable r k) (\<lambda>x. case x of
       None \<Rightarrow> throw EError (''Account does not exist or has no data '' @ pk_b58 sl k)
     | Some a \<Rightarrow> Inr a)"

definition found_list :: "pubkey \<Rightarrow> 'a option \<Rightarrow> (pubkey \<times> 'a) list" where
  "found_list k a = (case a of None \<Rightarrow> [] | Some x \<Rightarrow> [(k, x)])"

text \<open>\<open>account.config.all\<close> of Anchor answers a list of filters.\<close>

definition findConfigs :: "(memcmp list \<Rightarrow> 'a) \<Rightarrow> pubkey option \<Rightarrow> pubkey option \<Rightarrow> 'a" where
  "findConfigs all_configs adminAuthority operatorAuthority =
     all_configs (config_filters adminAuthority operatorAuthority)"

definition getSettlement :: "solana_lib \<Rightarrow> 'a rpc \<Rightarrow> pubkey \<Rightarrow> 'a res" where
  "getSettlement sl r address = fetch_account sl r address"

definition getBondProduct :: "solana_lib \<Rightarrow> 'a rpc \<Rightarrow> pubkey \<Rightarrow> 'a res" where
  "getBondProduct sl r address = fetch_account sl r address"

definition findBonds :: "solana_lib \<Rightarrow> 'a rpc \<Rightarrow> pubkey \<Rightarrow> pubkey option \<Rightarrow> pubkey option
    \<Rightarrow> pubkey option \<Rightarrow> (pubkey \<times> 'a) list res" where
  "findBonds sl r programId configAccount voteAccount bondAuthority =
     (case (configAccount, voteAccount) of
        (Some c, Some v) \<Rightarrow>
          rbind (bondAddress sl c v programId) (\<lambda>ba.
          rbind (fetch_account sl r (fst ba)) (\<lambda>bondData. Inr [(fst ba, bondData)]))
      | _ \<Rightarrow> findFiltered r (bond_filters configAccount voteAccount bondAuthority))"

definition findWithdrawRequests :: "solana_lib \<Rightarrow> 'a rpc \<Rightarrow> pubkey \<Rightarrow> pubkey option \<Rightarrow> pubkey option
    \<Rightarrow> epoch_arg option \<Rightarrow> (pubkey \<times> 'a) list res" where
  "findWithdrawRequests sl r programId voteAccount bond epoch =
     (case bond of
        Some b \<Rightarrow>
          rbind (withdrawRequestAddress sl b programId) (\<lambda>wa.
          rbind (fetchNullable r (fst wa)) (\<lambda>a. Inr (found_list (fst wa) a)))
      | None \<Rightarrow> rbind (withdraw_request_filters voteAccount epoch) (findFiltered r))"

definition findSettlements :: "solana_lib \<Rightarrow> 'a rpc \<Rightarrow> pubkey \<Rightarrow> pubkey option \<Rightarrow> byte list option
    \<Rightarrow> epoch_arg option \<Rightarrow> (pubkey \<times> 'a) list res" where
  "findSettlements sl r programId bond merkleRoot epoch =
     (case (bond, merkleRoot, epoch) of
        (Some b, Some m, Some e) \<Rightarrow>
          if epoch_truthy epoch
          then rbind (settlementAddress sl b m e programId) (\<lambda>sa.
               rbind (fetchNullable r (fst sa)) (\<lambda>a. Inr (found_list (fst sa) a)))
          else findFiltered r (settlement_filters bond merkleRoot)
      | _ \<Rightarrow> findFiltered r (settlement_filters bond merkleRoot))"

definition findBondProducts :: "solana_lib \<Rightarrow> 'a rpc \<Rightarrow> pubkey \<Rightarrow> pubkey option \<Rightarrow> pubkey option
    \<Rightarrow> pubkey option \<Rightarrow> product_type option \<Rightarrow> (pubkey \<times> 'a) list res" where
  "findBondProducts sl r programId bond voteAccount configAccount productType =
     rbind (case (voteAccount, configAccount) of
         (Some v, Some c) \<Rightarrow>
           rbind (bondAddress sl c v programId) (\<lambda>ba.
             (case bond of
                Some b \<Rightarrow> if b \<noteq> fst ba
                  then throw EError (''Bond address calculated (from config: '' @ pk_b58 sl c @ '' and vote: ''
                    @ pk_b58 sl v @ '') '' @ ''('' @ pk_b58 sl (fst ba)
                    @ '') does not match provided bond address ('' @ pk_b58 sl b @ '')'')
                  else Inr bond
              | None \<Rightarrow> Inr (Some (fst ba))))
       | _ \<Rightarrow> Inr bond) (\<lambda>bond'.
     (case (bond', productType) of
        (Some b, Some t) \<Rightarrow>
          rbind (bondProductAddress sl b t programId) (\<lambda>pa.
          rbind (fetchNullable r (fst pa)) (\<lambda>a. Inr (found_list (fst pa) a)))
      | _ \<Rightarrow> findFiltered r (bond_product_filters configAccount bond' voteAccount productType)))"

section \<open>Settlement claims\<close>

definition decodeSettlementClaimsData :: "(byte list \<Rightarrow> int res) \<Rightarrow> byte list \<Rightarrow> bitmap res" where
  "decodeSettlementClaimsData decode data = rbind (decode data) (\<lambda>maxRecords. newBitmap maxRecords data)"

definition getSettlementClaims :: "solana_lib \<Rightarrow> int rpc \<Rightarrow> string \<Rightarrow> pubkey \<Rightarrow> bitmap res" where
  "getSettlementClaims sl r endpoint address = (case rpc_get r address of
       None \<Rightarrow> throw EError (''getSettlementClaims: account '' @ pk_b58 sl address @ '' not found at '' @ endpoint)
     | Some data \<Rightarrow> decodeSettlementClaimsData (rpc_decode r) data)"

definition getSettlementClaimsBySettlement :: "solana_lib \<Rightarrow> int rpc \<Rightarrow> string \<Rightarrow> pubkey \<Rightarrow> pubkey \<Rightarrow> bitmap res" where
  "getSettlementClaimsBySettlement sl r endpoint programId settlement =
     rbind (settlementClaimsAddress sl settlement programId) (\<lambda>a. getSettlementClaims sl r endpoint (fst a))"

text \<open>For several accounts, the bitmap is what is decoded.\<close>

definition claims_rpc :: "int rpc \<Rightarrow> bitmap rpc" where
  "claims_rpc r = \<lparr> rpc_get = rpc_get r, rpc_multiple = rpc_multiple r, rpc_addresses = rpc_addresses r,
     rpc_decode = decodeSettlementClaimsData (rpc_decode r) \<rparr>"

definition getMultipleSettlementClaims :: "int rpc \<Rightarrow> pubkey list \<Rightarrow> (pubkey \<times> bitmap option) list res" where
  "getMultipleSettlementClaims r addresses = getMultipleDecoded (claims_rpc r) addresses"

definition findSettlementClaims :: "int rpc \<Rightarrow> pubkey option \<Rightarrow> (pubkey \<times> bitmap) list res" where
  "findSettlementClaims r settlement =
     rbind (getMultipleSettlementClaims r (rpc_addresses r (settlement_claims_filters settlement)))
       (\<lambda>ds. Inr (non_null ds))"

definition isClaimed :: "solana_lib \<Rightarrow> int rpc \<Rightarrow> string \<Rightarrow> pubkey \<Rightarrow> pubkey \<Rightarrow> int \<Rightarrow> bool res" where
  "isClaimed sl r endpoint programId settlement index =
     rbind (getSettlementClaimsBySettlement sl r endpoint programId settlement) (\<lambda>bm. isSet bm index)"

section \<open>\<open>cpiEvent.ts\<close>\<close>

definition EVENT_IX_TAG_LE :: "byte list" where
  "EVENT_IX_TAG_LE = [0xe4, 0x45, 0xa5, 0x2e, 0x51, 0xcb, 0x9a, 0x1d]"

definition isEventData :: "byte list \<Rightarrow> bool" where
  "isEventData buffer \<longleftrightarrow> take 8 buffer = EVENT_IX_TAG_LE"

record cpi_instruction =
  ci_programIdIndex :: nat
  ci_data :: string


record cpi_event =
  ce_name :: string
  ce_fields :: "string list"

text \<open>\<open>unb58\<close> and \<open>decode\<close> are bs58 and Anchor's event coder; an event is its name and the
  names of the fields of its data.\<close>

definition parse_instruction :: "(string \<Rightarrow> byte list res) \<Rightarrow> (byte list \<Rightarrow> cpi_event option) \<Rightarrow> pubkey
    \<Rightarrow> pubkey list \<Rightarrow> cpi_instruction \<Rightarrow> cpi_event list res" where
  "parse_instruction unb58 decode programId staticAccountKeys ix =
     (if length staticAccountKeys \<le> ci_programIdIndex ix then Inr []
      else if staticAccountKeys ! ci_programIdIndex ix \<noteq> programId then Inr []
      else rbind (unb58 (ci_data ix)) (\<lambda>ixData.
        if isEventData ixData
        then Inr (case decode (drop 8 ixData) of None \<Rightarrow> [] | Some e \<Rightarrow> [e])
        else Inr []))"

definition parseCpiEvents :: "(string \<Rightarrow> byte list res) \<Rightarrow> (byte list \<Rightarrow> cpi_event option) \<Rightarrow> pubkey
    \<Rightarrow> (pubkey list \<times> cpi_instruction list list option) option \<Rightarrow> cpi_event list res" where
  "parseCpiEvents unb58 decode programId transactionResponse =
     (case transactionResponse of None \<Rightarrow> Inr []
      | Some (keys, inner) \<Rightarrow>
          rconcatM (\<lambda>ixs. rconcatM (parse_instruction unb58 decode programId keys) ixs) (orElse inner []))"

definition hasAllProperties :: "string list \<Rightarrow> string list \<Rightarrow> bool" where
  "hasAllProperties objKeys typeKeys \<longleftrightarrow> list_all (\<lambda>key. key \<in> set objKeys) typeKeys"

text \<open>\<open>isEvent\<close> passes the empty object for the type.\<close>

definition isEvent :: "cpi_event \<Rightarrow> bool" where
  "isEvent event \<longleftrightarrow> hasAllProperties (ce_fields event) []"

definition findEvent :: "cpi_event list \<Rightarrow> string \<Rightarrow> cpi_event option" where
  "findEvent events eventName = List.find (\<lambda>e. ce_name e = eventName) events"

definition assertEvent :: "cpi_event list \<Rightarrow> string \<Rightarrow> cpi_event res" where
  "assertEvent events eventName = (case findEvent events eventName of
       None \<Rightarrow> throw EError (''Event '' @ eventName @ '' not found'')
     | Some event \<Rightarrow> if \<not> isEvent event
         then throw EError (''Event '' @ eventName @ '' is not an '' @ eventName) else Inr event)"

section \<open>The offsets are those of the account layouts\<close>

definition bond_layout :: "pubkey \<Rightarrow> pubkey \<Rightarrow> pubkey \<Rightarrow> byte list \<Rightarrow> byte list" where
  "bond_layout config voteAccount authority rest =
     BOND_ACCOUNT_DISCRIMINATOR @ config @ voteAccount @ authority @ rest"

definition withdraw_request_layout :: "pubkey \<Rightarrow> pubkey \<Rightarrow> int \<Rightarrow> byte list \<Rightarrow> byte list" where
  "withdraw_request_layout voteAccount bond epoch rest =
     WITHDRAW_REQUEST_ACCOUNT_DISCRIMINATOR @ voteAccount @ bond @ le_bytes 8 epoch @ rest"

definition settlement_layout :: "pubkey \<Rightarrow> pubkey \<Rightarrow> byte list \<Rightarrow> byte list \<Rightarrow> byte list" where
  "settlement_layout bond stakerAuthority merkleRoot rest =
     SETTLEMENT_ACCOUNT_DISCRIMINATOR @ bond @ stakerAuthority @ merkleRoot @ rest"

definition bond_product_layout :: "pubkey \<Rightarrow> pubkey \<Rightarrow> pubkey \<Rightarrow> product_type \<Rightarrow> byte list \<Rightarrow> byte list" where
  "bond_product_layout config bond voteAccount productType rest =
     BOND_PRODUCT_ACCOUNT_DISCRIMINATOR @ config @ bond @ voteAccount @ product_discriminant productType @ rest"

lemma mc_match_at:
  assumes "length pre = off" and "length x = length bs"
  shows "mc_match (pre @ x @ rest) (mc off bs) \<longleftrightarrow> x = bs"
proof -
  have "drop off (pre @ x @ rest) = x @ rest" using assms(1) by simp
  moreover have "take (length bs) (x @ rest) = x" using assms(2) [symmetric] by simp
  ultimately show ?thesis unfolding mc_match_def mc_def by simp
qed

lemma opt_filter_match:
  assumes "length pre = off" and "\<forall>k. f = Some k \<longrightarrow> length x = length k"
  shows "list_all (mc_match (pre @ x @ rest)) (opt_filter off f) \<longleftrightarrow> f = None \<or> f = Some x"
  using assms by (cases f) (auto simp: opt_filter_def mc_match_at)

lemmas discriminators = BOND_ACCOUNT_DISCRIMINATOR_def WITHDRAW_REQUEST_ACCOUNT_DISCRIMINATOR_def
  SETTLEMENT_ACCOUNT_DISCRIMINATOR_def BOND_PRODUCT_ACCOUNT_DISCRIMINATOR_def
  SETTLEMENT_CLAIMS_ACCOUNT_DISCRIMINATOR_def CONFIG_ACCOUNT_DISCRIMINATOR_def

lemma length_discriminators [simp]:
  "length BOND_ACCOUNT_DISCRIMINATOR = 8" "length WITHDRAW_REQUEST_ACCOUNT_DISCRIMINATOR = 8"
  "length SETTLEMENT_ACCOUNT_DISCRIMINATOR = 8" "length BOND_PRODUCT_ACCOUNT_DISCRIMINATOR = 8"
  by (simp_all add: discriminators)

lemma mc_match_head: "length x = length bs \<Longrightarrow> mc_match (x @ rest) (mc 0 bs) \<longleftrightarrow> x = bs"
  using mc_match_at [of "[]" 0 x bs rest] by simp

text \<open>\<open>wants f x\<close>: the optional argument \<open>f\<close> is absent or is \<open>x\<close>.\<close>

definition wants :: "'a option \<Rightarrow> 'a \<Rightarrow> bool" where
  "wants f x \<longleftrightarrow> f = None \<or> f = Some x"

definition key_arg :: "pubkey option \<Rightarrow> bool" where
  "key_arg f \<longleftrightarrow> (case f of None \<Rightarrow> True | Some k \<Rightarrow> is_key k)"

lemma key_arg_length: "key_arg f \<Longrightarrow> is_key x \<Longrightarrow> \<forall>k. f = Some k \<longrightarrow> length x = length k"
  by (auto simp: key_arg_def is_key_def)

lemma key_filter_match:
  assumes "key_arg f" and "is_key x" and "length pre = off"
  shows "list_all (mc_match (pre @ x @ rest)) (opt_filter off f) \<longleftrightarrow> wants f x"
  using opt_filter_match [OF assms(3) key_arg_length [OF assms(1,2)]] by (simp add: wants_def)

lemma bond_filters_match:
  assumes "is_key config" and "is_key vote" and "is_key auth"
    and "key_arg c" and "key_arg v" and "key_arg a"
  shows "list_all (mc_match (bond_layout config vote auth rest)) (bond_filters c v a)
    \<longleftrightarrow> wants c config \<and> wants v vote \<and> wants a auth"
proof -
  let ?d = BOND_ACCOUNT_DISCRIMINATOR
  have "list_all (mc_match (?d @ config @ vote @ auth @ rest)) (opt_filter 8 c) \<longleftrightarrow> wants c config"
    using assms by (intro key_filter_match) simp_all
  moreover have "list_all (mc_match ((?d @ config) @ vote @ auth @ rest)) (opt_filter 40 v) \<longleftrightarrow> wants v vote"
    using assms by (intro key_filter_match) (simp_all add: is_key_def)
  moreover have "list_all (mc_match ((?d @ config @ vote) @ auth @ rest)) (opt_filter 72 a) \<longleftrightarrow> wants a auth"
    using assms by (intro key_filter_match) (simp_all add: is_key_def)
  ultimately show ?thesis by (simp add: bond_layout_def bond_filters_def mc_match_head)
qed


lemma bytes_of_length [simp]: "length (bytes_of s) = length s"
  by (simp add: bytes_of_def)

lemma withdraw_request_filters_match:
  assumes "is_key vote" and "is_key bond" and "key_arg v" and "0 \<le> n" "n < 2 ^ 64" "0 \<le> e" "e < 2 ^ 64"
    and fs: "withdraw_request_filters v (Some (BnArg e)) = Inr fs"
  shows "list_all (mc_match (withdraw_request_layout vote bond n rest)) fs \<longleftrightarrow> wants v vote \<and> e = n"
proof -
  let ?d = WITHDRAW_REQUEST_ACCOUNT_DISCRIMINATOR
  have fs': "fs = opt_filter 8 v @ [mc 72 (le_bytes 8 e)] @ [mc 0 ?d]"
    using fs assms(6,7) by (simp add: withdraw_request_filters_def epoch_truthy_def uintToBuffer_BN)
  have 1: "list_all (mc_match (?d @ vote @ bond @ le_bytes 8 n @ rest)) (opt_filter 8 v) \<longleftrightarrow> wants v vote"
    using assms by (intro key_filter_match) simp_all
  have 2: "mc_match ((?d @ vote @ bond) @ le_bytes 8 n @ rest) (mc 72 (le_bytes 8 e)) \<longleftrightarrow> le_bytes 8 n = le_bytes 8 e"
    using assms by (intro mc_match_at) (simp_all add: is_key_def)
  have 3: "le_bytes 8 n = le_bytes 8 e \<longleftrightarrow> e = n"
    using le_bytes_inject [of n e] assms by auto
  have 4: "mc_match (?d @ vote @ bond @ le_bytes 8 n @ rest) (mc 0 ?d)" by (simp add: mc_match_head)
  show ?thesis using 1 2 3 4 by (simp add: fs' withdraw_request_layout_def)
qed

lemma settlement_filters_match:
  assumes "is_key bond" and "is_key staker" and "is_key mr" and "key_arg b" and "key_arg r"
  shows "list_all (mc_match (settlement_layout bond staker mr rest)) (settlement_filters b r)
    \<longleftrightarrow> wants b bond \<and> wants r mr"
proof -
  let ?d = SETTLEMENT_ACCOUNT_DISCRIMINATOR
  have 1: "list_all (mc_match (?d @ bond @ staker @ mr @ rest)) (opt_filter 8 b) \<longleftrightarrow> wants b bond"
    using assms by (intro key_filter_match) simp_all
  have 2: "list_all (mc_match ((?d @ bond @ staker) @ mr @ rest)) (opt_filter 72 r) \<longleftrightarrow> wants r mr"
    using assms by (intro key_filter_match) (simp_all add: is_key_def)
  show ?thesis using 1 2 by (simp add: settlement_layout_def settlement_filters_def mc_match_head)
qed

text \<open>A product type is read back from its bytes: no Borsh form is a prefix of another.\<close>

definition product_ok :: "product_type \<Rightarrow> bool" where
  "product_ok t \<longleftrightarrow> (case t of PCommission \<Rightarrow> True | PCustom s \<Rightarrow> int (length s) < 2 ^ 32)"

lemma le4_inject:
  assumes "le_bytes 4 m = le_bytes 4 n" and "0 \<le> m" "m < 2 ^ 32" "0 \<le> n" "n < 2 ^ 32"
  shows "m = n"
proof -
  have "le_val (le_bytes 4 m) = m" by (rule le_val_bytes) (use assms in simp_all)
  moreover have "le_val (le_bytes 4 n) = n" by (rule le_val_bytes) (use assms in simp_all)
  ultimately show ?thesis using assms(1) by metis
qed

lemma product_prefix:
  assumes "product_ok t" and "product_ok t'"
    and "take (length (product_discriminant t')) (product_discriminant t @ rest) = product_discriminant t'"
  shows "t = t'"
proof (cases t')
  case PCommission
  then show ?thesis using assms(3) by (cases t) (auto simp: product_discriminant_def)
next
  case t': (PCustom s')
  show ?thesis
  proof (cases t)
    case PCommission
    have "take n (0 # rest) \<noteq> 1 # ys" for n and ys :: "byte list" by (cases n) simp_all
    then show ?thesis using assms(3) t' PCommission by (simp add: product_discriminant_def)
  next
    case t: (PCustom s)
    let ?l = "le_bytes 4 (int (length s))" and ?l' = "le_bytes 4 (int (length s'))"
    have L: "length (product_discriminant (PCustom s')) = Suc (4 + length s')"
      by (simp add: product_discriminant_def)
    have eq: "take (4 + length s') (?l @ bytes_of s @ rest) = ?l' @ bytes_of s'"
      using assms(3) unfolding t t' L
      by (simp only: product_discriminant_def product_type.case append_Cons append_Nil append_assoc
          take_Suc_Cons list.inject)
    have "?l = take 4 (take (4 + length s') (?l @ bytes_of s @ rest))" by simp
    also have "\<dots> = ?l'" unfolding eq by simp
    finally have "?l = ?l'" .
    then have len: "length s = length s'"
      using le4_inject [of "int (length s)" "int (length s')"] assms(1,2)
      by (simp add: t t' product_ok_def)
    have "take (4 + length s') (?l @ bytes_of s @ rest) = ?l @ bytes_of s" by (simp add: len)
    then have "bytes_of s = bytes_of s'" using eq by (simp add: len)
    then show ?thesis by (simp add: t t' bytes_of_inject)
  qed
qed

lemma product_filter_match:
  assumes "product_ok t" and "length pre = off"
    and "case p of None \<Rightarrow> True | Some t' \<Rightarrow> product_ok t'"
  shows "list_all (mc_match (pre @ product_discriminant t @ rest))
      (opt_filter off (map_option product_discriminant p)) \<longleftrightarrow> wants p t"
proof (cases p)
  case None
  then show ?thesis by (simp add: opt_filter_def wants_def)
next
  case (Some t')
  have "mc_match (pre @ product_discriminant t @ rest) (mc off (product_discriminant t')) \<longleftrightarrow>
      take (length (product_discriminant t')) (product_discriminant t @ rest) = product_discriminant t'"
    using assms(2) [symmetric] by (simp add: mc_match_def mc_def)
  moreover have "\<dots> \<longleftrightarrow> t = t'" using product_prefix [of t t' rest] assms Some by auto
  ultimately show ?thesis by (auto simp: Some opt_filter_def wants_def)
qed

lemma bond_product_filters_match:
  assumes "is_key config" and "is_key bond" and "is_key vote" and "product_ok t"
    and "key_arg c" and "key_arg b" and "key_arg v"
    and "case p of None \<Rightarrow> True | Some t' \<Rightarrow> product_ok t'"
  shows "list_all (mc_match (bond_product_layout config bond vote t rest)) (bond_product_filters c b v p)
    \<longleftrightarrow> wants c config \<and> wants b bond \<and> wants v vote \<and> wants p t"
proof -
  let ?d = BOND_PRODUCT_ACCOUNT_DISCRIMINATOR and ?t = "product_discriminant t"
  have 1: "list_all (mc_match (?d @ config @ bond @ vote @ ?t @ rest)) (opt_filter 8 c) \<longleftrightarrow> wants c config"
    using assms by (intro key_filter_match) simp_all
  have 2: "list_all (mc_match ((?d @ config) @ bond @ vote @ ?t @ rest)) (opt_filter 40 b) \<longleftrightarrow> wants b bond"
    using assms by (intro key_filter_match) (simp_all add: is_key_def)
  have 3: "list_all (mc_match ((?d @ config @ bond) @ vote @ ?t @ rest)) (opt_filter 72 v) \<longleftrightarrow> wants v vote"
    using assms by (intro key_filter_match) (simp_all add: is_key_def)
  have 4: "list_all (mc_match ((?d @ config @ bond @ vote) @ ?t @ rest))
      (opt_filter 104 (map_option product_discriminant p)) \<longleftrightarrow> wants p t"
    using assms by (intro product_filter_match) (simp_all add: is_key_def)
  show ?thesis using 1 2 3 4
    by (simp add: bond_product_layout_def bond_product_filters_def mc_match_head)
qed

section \<open>The queries return the accounts with the fields asked for\<close>

text \<open>A cluster: \<open>db\<close> lists the program's accounts with their data; the request with filters
  returns the addresses of the accounts that match all of them.\<close>

definition db_rpc :: "(pubkey \<times> byte list) list \<Rightarrow> (byte list \<Rightarrow> 'a res) \<Rightarrow> 'a rpc" where
  "db_rpc db dec = \<lparr> rpc_get = map_of db,
     rpc_multiple = map (\<lambda>k. (k, map_of db k)),
     rpc_addresses = (\<lambda>fs. map fst (filter (\<lambda>(k, data). list_all (mc_match data) fs) db)),
     rpc_decode = dec \<rparr>"

lemma getMultiAccounts_db:
  "getMultiAccounts (db_rpc db dec) ks = map (\<lambda>k. (k, map_of db k)) ks"
  by (cases ks) (auto simp: getMultiAccounts_def db_rpc_def)

lemma map_of_filter_db:
  assumes "distinct (map fst db)" and "set xs \<subseteq> set db"
  shows "map (\<lambda>k. (k, map_of db k)) (map fst xs) = map (\<lambda>(k, d). (k, Some d)) xs"
  using assms by (auto simp: map_of_eq_Some_iff)

lemma rmapM_some:
  "rbind (rmapM (\<lambda>(k, d). rbind (dec d) (\<lambda>a. Inr (k, Some a))) xs) (\<lambda>ds. Inr (non_null ds))
     = rmapM (\<lambda>(k, d). rbind (dec d) (\<lambda>a. Inr (k, a))) xs"
proof (induction xs)
  case Nil
  then show ?case by (simp add: non_null_def)
next
  case (Cons x xs)
  obtain k d where "x = (k, d)" by (cases x)
  then show ?case using Cons
    by (cases "dec d"; cases "rmapM (\<lambda>(k, d). rbind (dec d) (\<lambda>a. Inr (k, Some a))) xs";
        cases "rmapM (\<lambda>(k, d). rbind (dec d) (\<lambda>a. Inr (k, a))) xs")
      (simp_all add: non_null_def)
qed

lemma findFiltered_db:
  assumes "distinct (map fst db)"
  shows "findFiltered (db_rpc db dec) fs
    = rmapM (\<lambda>(k, d). rbind (dec d) (\<lambda>a. Inr (k, a))) (filter (\<lambda>(k, d). list_all (mc_match d) fs) db)"
proof -
  let ?xs = "filter (\<lambda>(k, d). list_all (mc_match d) fs) db"
  let ?r = "db_rpc db dec"
  have "getMultiAccounts ?r (rpc_addresses ?r fs) = map (\<lambda>(k, d). (k, Some d)) ?xs"
    unfolding getMultiAccounts_db using map_of_filter_db [OF assms, of ?xs] by (simp add: db_rpc_def)
  moreover have "(\<lambda>x. mapAccountInfoToProgramAccount ?r ((\<lambda>(k, d). (k, Some d)) x))
      = (\<lambda>(k, d). rbind (dec d) (\<lambda>a. Inr (k, Some a)))"
    by (rule ext) (auto simp: mapAccountInfoToProgramAccount_def db_rpc_def)
  ultimately show ?thesis
    by (simp add: findFiltered_def getMultipleDecoded_def rmapM_map rmapM_some)
qed

end
