(* ===== verification/Sdk_Stake.thy ===== *)
theory Sdk_Stake
  imports Sdk_Accounts
begin

text \<open>
  Stake accounts: \<open>packages/validator-bonds-sdk/src/web3.js/stakeAccount.ts\<close> and
  \<open>voteAccount.ts\<close>.

  \<open>stake_chain\<close> is what these functions ask the cluster: the stake accounts that match a list
  of filters, the data of accounts, the epoch and the time. Borsh is a parameter; the record
  types are its schema. A BN made from a number throws from \<open>2 ^ 53\<close> on, and so does reading a
  BN as a number.
\<close>

section \<open>BN and numbers\<close>

definition fits53 :: "int \<Rightarrow> bool" where
  "fits53 n \<longleftrightarrow> \<bar>n\<bar> < 2 ^ 53"

definition bn_of_number :: "int \<Rightarrow> int res" where
  "bn_of_number n = (if fits53 n then Inr n else throw EError ''Assertion failed'')"

definition bn_toNumber :: "int \<Rightarrow> int res" where
  "bn_toNumber n = (if fits53 n then Inr n
     else throw EError ''Number can only safely store up to 53 bits'')"

definition U64_MAX :: int where "U64_MAX = 2 ^ 64 - 1"

section \<open>The state of a stake account\<close>

record stake_meta =
  sm_staker :: pubkey
  sm_withdrawer :: pubkey
  sm_lockup_timestamp :: int
  sm_lockup_epoch :: int
  sm_custodian :: pubkey

record stake_delegation =
  sd_voter :: pubkey
  sd_stake :: int
  sd_activationEpoch :: int
  sd_deactivationEpoch :: int

datatype stake_state =
    SsUninitialized
  | SsInitialized stake_meta
  | SsStake stake_meta stake_delegation
  | SsRewardsPool

record stake_account =
  sa_address :: pubkey
  sa_lamports :: int
  sa_withdrawer :: "pubkey option"
  sa_staker :: "pubkey option"
  sa_voter :: "pubkey option"
  sa_activationEpoch :: "int option"
  sa_deactivationEpoch :: "int option"
  sa_isCoolingDown :: bool
  sa_isLockedUp :: bool
  sa_stakedLamports :: "int option"
  sa_currentEpoch :: int
  sa_currentTimestamp :: int

record raw_account =
  ra_owner :: pubkey
  ra_lamports :: int
  ra_data :: "byte list"

record stake_chain =
  st_find :: "memcmp list \<Rightarrow> pubkey list"
  st_multiple :: "pubkey list \<Rightarrow> (pubkey \<times> raw_account option) list"
  st_get :: "pubkey \<Rightarrow> raw_account option"
  st_borsh :: "byte list \<Rightarrow> stake_state res"
  st_epoch :: int
  st_now_ms :: int
  st_program :: pubkey
  st_endpoint :: string

text \<open>Borsh reads one byte of the four-byte variant, the other three are cut out.\<close>

definition stake_adjusted :: "byte list \<Rightarrow> byte list" where
  "stake_adjusted data = take 1 data @ drop 4 data"

definition deserializeStakeState :: "stake_chain \<Rightarrow> byte list option \<Rightarrow> stake_state res" where
  "deserializeStakeState sc data = (case data of
       None \<Rightarrow> throw EError ''StakeState data buffer is missing''
     | Some d \<Rightarrow> st_borsh sc (stake_adjusted d))"

definition getMeta :: "stake_state \<Rightarrow> stake_meta option" where
  "getMeta s = (case s of SsStake m _ \<Rightarrow> Some m | SsInitialized m \<Rightarrow> Some m | _ \<Rightarrow> None)"

definition getDelegation :: "stake_state \<Rightarrow> stake_delegation option" where
  "getDelegation s = (case s of SsStake _ d \<Rightarrow> Some d | _ \<Rightarrow> None)"

text \<open>\<open>lockup.custodian !== PublicKey.default\<close> compares two objects and is always true, so the
  custodian does not matter. The time is in seconds, its fraction is dropped by BN.\<close>

definition isLockedUp :: "stake_meta option \<Rightarrow> int \<Rightarrow> int \<Rightarrow> bool" where
  "isLockedUp meta epoch now = (case meta of None \<Rightarrow> False
     | Some m \<Rightarrow> epoch < sm_lockup_epoch m \<or> now < sm_lockup_timestamp m)"

definition isCoolingDown :: "int option \<Rightarrow> bool" where
  "isCoolingDown deactivationEpoch = (case deactivationEpoch of None \<Rightarrow> False | Some e \<Rightarrow> e \<noteq> U64_MAX)"

definition parseStakeAccountData :: "stake_chain \<Rightarrow> pubkey \<Rightarrow> int \<Rightarrow> stake_state \<Rightarrow> int option
    \<Rightarrow> stake_account res" where
  "parseStakeAccountData sc address lamports st currentEpoch =
     rbind (bn_of_number lamports) (\<lambda>balance.
     (let meta = getMeta st;
          delegation = getDelegation st;
          activation = map_option sd_activationEpoch delegation;
          deactivation = map_option sd_deactivationEpoch delegation;
          epoch = orElse currentEpoch (st_epoch sc);
          now = st_now_ms sc div 1000
      in rbind (bn_toNumber epoch) (\<lambda>epochNumber.
         rbind (bn_toNumber now) (\<lambda>nowNumber.
         Inr \<lparr> sa_address = address, sa_lamports = balance,
           sa_withdrawer = map_option sm_withdrawer meta, sa_staker = map_option sm_staker meta,
           sa_voter = map_option sd_voter delegation,
           sa_activationEpoch = activation, sa_deactivationEpoch = deactivation,
           sa_isCoolingDown = isCoolingDown deactivation,
           sa_isLockedUp = isLockedUp meta epoch now,
           sa_stakedLamports = map_option sd_stake delegation,
           sa_currentEpoch = epochNumber, sa_currentTimestamp = nowNumber \<rparr>))))"

definition getStakeAccount :: "solana_lib \<Rightarrow> stake_chain \<Rightarrow> pubkey \<Rightarrow> int option \<Rightarrow> stake_account res" where
  "getStakeAccount sl sc address currentEpoch = (case st_get sc address of
       None \<Rightarrow> throw EError (''Failed to find the stake account '' @ pk_b58 sl address @ ''at '' @ st_endpoint sc)
     | Some ai \<Rightarrow>
         if ra_owner ai \<noteq> st_program sc
         then throw EError (pk_b58 sl address @ '' is not a stake account because owner is ''
           @ pk_b58 sl (ra_owner ai) @ '' at '' @ st_endpoint sc)
         else rbind (deserializeStakeState sc (Some (ra_data ai))) (\<lambda>st.
           parseStakeAccountData sc address (ra_lamports ai) st currentEpoch))"

section \<open>Finding stake accounts\<close>

definition STAKER_OFFSET :: nat where "STAKER_OFFSET = 12"
definition WITHDRAWER_OFFSET :: nat where "WITHDRAWER_OFFSET = 44"
definition VOTER_PUBKEY_OFFSET :: nat where "VOTER_PUBKEY_OFFSET = 124"
definition VALIDATOR_IDENTITY_OFFSET :: nat where "VALIDATOR_IDENTITY_OFFSET = 4"

definition stake_filters :: "pubkey option \<Rightarrow> pubkey option \<Rightarrow> pubkey option \<Rightarrow> memcmp list" where
  "stake_filters staker withdrawer voter =
     opt_filter STAKER_OFFSET staker @ opt_filter WITHDRAWER_OFFSET withdrawer
     @ opt_filter VOTER_PUBKEY_OFFSET voter"

definition findStakeAccountNoDataInfos :: "stake_chain \<Rightarrow> pubkey option \<Rightarrow> pubkey option
    \<Rightarrow> pubkey option \<Rightarrow> pubkey list" where
  "findStakeAccountNoDataInfos sc staker withdrawer voter = st_find sc (stake_filters staker withdrawer voter)"

definition load_one :: "stake_chain \<Rightarrow> int option \<Rightarrow> pubkey \<times> raw_account \<Rightarrow> stake_account res" where
  "load_one sc currentEpoch ka = (case ka of (k, ai) \<Rightarrow>
     rbind (deserializeStakeState sc (Some (ra_data ai))) (\<lambda>st.
       parseStakeAccountData sc k (ra_lamports ai) st currentEpoch))"

definition present :: "('k \<times> 'v option) list \<Rightarrow> ('k \<times> 'v) list" where
  "present xs = concat (map (\<lambda>(k, v). case v of None \<Rightarrow> [] | Some x \<Rightarrow> [(k, x)]) xs)"

definition loadStakeAccounts :: "stake_chain \<Rightarrow> pubkey list \<Rightarrow> int option \<Rightarrow> stake_account list res" where
  "loadStakeAccounts sc addresses currentEpoch =
     (if addresses = [] then Inr []
      else rmapM (load_one sc currentEpoch) (present (st_multiple sc addresses)))"

definition findStakeAccounts :: "stake_chain \<Rightarrow> pubkey option \<Rightarrow> pubkey option \<Rightarrow> pubkey option
    \<Rightarrow> int option \<Rightarrow> stake_account list res" where
  "findStakeAccounts sc staker withdrawer voter currentEpoch =
     loadStakeAccounts sc (findStakeAccountNoDataInfos sc staker withdrawer voter) currentEpoch"

definition findVoteAccountByIdentity :: "(memcmp list \<Rightarrow> (pubkey \<times> byte list) list) \<Rightarrow> pubkey
    \<Rightarrow> (pubkey \<times> byte list) option" where
  "findVoteAccountByIdentity getProgramAccounts identity =
     (case getProgramAccounts [mc VALIDATOR_IDENTITY_OFFSET identity] of [a] \<Rightarrow> Some a | _ \<Rightarrow> None)"

definition getRentExempt :: "int option \<Rightarrow> int \<Rightarrow> int" where
  "getRentExempt rentExempt minimum = orElse rentExempt minimum"

section \<open>The filters select by staker, withdrawer and voter\<close>

text \<open>The layout of a stake account: the variant, the rent exempt reserve, the two
  authorities, the lockup (48 bytes), the delegation.\<close>

definition stake_layout :: "byte list \<Rightarrow> pubkey \<Rightarrow> pubkey \<Rightarrow> byte list \<Rightarrow> pubkey \<Rightarrow> byte list \<Rightarrow> byte list" where
  "stake_layout head12 staker withdrawer lockup voter rest =
     head12 @ staker @ withdrawer @ lockup @ voter @ rest"

lemma stake_filters_match:
  assumes "length head12 = 12" and "length lockup = 48"
    and "is_key staker" and "is_key withdrawer" and "is_key voter"
    and "key_arg s" and "key_arg w" and "key_arg v"
  shows "list_all (mc_match (stake_layout head12 staker withdrawer lockup voter rest)) (stake_filters s w v)
    \<longleftrightarrow> wants s staker \<and> wants w withdrawer \<and> wants v voter"
proof -
  have 1: "list_all (mc_match (head12 @ staker @ withdrawer @ lockup @ voter @ rest))
      (opt_filter STAKER_OFFSET s) \<longleftrightarrow> wants s staker"
    using assms by (intro key_filter_match) (simp_all add: STAKER_OFFSET_def)
  have 2: "list_all (mc_match ((head12 @ staker) @ withdrawer @ lockup @ voter @ rest))
      (opt_filter WITHDRAWER_OFFSET w) \<longleftrightarrow> wants w withdrawer"
    using assms by (intro key_filter_match) (simp_all add: WITHDRAWER_OFFSET_def is_key_def)
  have 3: "list_all (mc_match ((head12 @ staker @ withdrawer @ lockup) @ voter @ rest))
      (opt_filter VOTER_PUBKEY_OFFSET v) \<longleftrightarrow> wants v voter"
    using assms by (intro key_filter_match) (simp_all add: VOTER_PUBKEY_OFFSET_def is_key_def)
  show ?thesis using 1 2 3 by (simp add: stake_layout_def stake_filters_def)
qed

lemma parse_fields:
  assumes "parseStakeAccountData sc a lam st e = Inr x"
  shows "sa_address x = a" and "sa_lamports x = lam" and "fits53 lam"
    and "sa_withdrawer x = map_option sm_withdrawer (getMeta st)"
    and "sa_staker x = map_option sm_staker (getMeta st)"
    and "sa_voter x = map_option sd_voter (getDelegation st)"
    and "sa_isLockedUp x = isLockedUp (getMeta st) (orElse e (st_epoch sc)) (st_now_ms sc div 1000)"
  using assms
  by (auto simp: parseStakeAccountData_def rbind_eq_Inr Let_def bn_of_number_def split: if_splits)

lemma load_one_fits:
  assumes "load_one sc e ka = Inr x" shows "fits53 (sa_lamports x)"
  using assms parse_fields(2,3) by (cases ka) (fastforce simp: load_one_def rbind_eq_Inr)

lemma loadStakeAccounts_fits:
  assumes "loadStakeAccounts sc ks e = Inr xs" and "x \<in> set xs"
  shows "fits53 (sa_lamports x)"
  using assms rmapM_set [of "load_one sc e" "present (st_multiple sc ks)" xs] load_one_fits
  by (auto simp: loadStakeAccounts_def split: if_splits)

end
