(* ===== verification/Sdk_Funding.thy ===== *)
theory Sdk_Funding
  imports Sdk_Stake
begin

text \<open>
  How much a bond is funded: \<open>getBondsFunding\<close> of
  \<open>packages/validator-bonds-sdk/src/api.ts\<close> and what it uses.

  The accounts of the program are read through one \<open>rpc\<close> per kind. The map the code keeps
  under base58 addresses is keyed by the address itself; its values are objects that later
  steps change in place, here the value is replaced under its key. The optional epoch is a BN.
  \<open>bc_wallet\<close> is the key of the provider's wallet, \<open>bc_nodePubkey\<close> the validator identity of
  a vote account.
\<close>

record config_data =
  cd_admin :: pubkey
  cd_operator :: pubkey
  cd_pause :: pubkey
  cd_withdrawLockupEpochs :: int
  cd_minimumStakeLamports :: int

record bond_data =
  bd_config :: pubkey
  bd_voteAccount :: pubkey
  bd_authority :: pubkey
  bd_cpmpe :: int

record withdraw_data =
  wd_voteAccount :: pubkey
  wd_bond :: pubkey
  wd_epoch :: int
  wd_requestedAmount :: int
  wd_withdrawnAmount :: int

record settlement_data =
  sd_bond :: pubkey
  sd_stakerAuthority :: pubkey
  sd_rentCollector :: pubkey
  sd_splitRentCollector :: "pubkey option"

record product_data =
  pd_config :: pubkey
  pd_bond :: pubkey
  pd_voteAccount :: pubkey
  pd_productType :: product_type
  pd_configData :: product_config

record bonds_chain =
  bc_programId :: pubkey
  bc_stake :: stake_chain
  bc_configs :: "config_data rpc"
  bc_bonds :: "bond_data rpc"
  bc_withdraws :: "withdraw_data rpc"
  bc_settlements :: "settlement_data rpc"
  bc_products :: "product_data rpc"
  bc_wallet :: "pubkey option"
  bc_nodePubkey :: "pubkey \<Rightarrow> pubkey res"

definition getConfig :: "solana_lib \<Rightarrow> bonds_chain \<Rightarrow> pubkey \<Rightarrow> config_data res" where
  "getConfig sl bc address = fetch_account sl (bc_configs bc) address"

definition getBond :: "solana_lib \<Rightarrow> bonds_chain \<Rightarrow> pubkey \<Rightarrow> bond_data res" where
  "getBond sl bc address = fetch_account sl (bc_bonds bc) address"

definition getWithdrawRequest :: "solana_lib \<Rightarrow> bonds_chain \<Rightarrow> pubkey \<Rightarrow> withdraw_data res" where
  "getWithdrawRequest sl bc address = fetch_account sl (bc_withdraws bc) address"

section \<open>Stake accounts of a configuration and of a bond\<close>

definition parseNotLocked :: "stake_account list \<Rightarrow> stake_account list" where
  "parseNotLocked xs = filter (\<lambda>a. \<not> sa_isLockedUp a) xs"

definition findConfigStakeAccounts :: "solana_lib \<Rightarrow> bonds_chain \<Rightarrow> pubkey option \<Rightarrow> pubkey option
    \<Rightarrow> int option \<Rightarrow> stake_account list res" where
  "findConfigStakeAccounts sl bc configAccount withdrawer currentEpoch =
     rbind (case (withdrawer, configAccount) of
         (Some w, _) \<Rightarrow> Inr w
       | (None, Some c) \<Rightarrow> rbind (bondsWithdrawerAuthority sl c (bc_programId bc)) (\<lambda>r. Inr (fst r))
       | (None, None) \<Rightarrow>
           throw EError ''findConfigStakeAccounts: configAccount or withdrawer must be provided'') (\<lambda>w.
     rbind (findStakeAccounts (bc_stake bc) None (Some w) None
         (Some (orElse currentEpoch (st_epoch (bc_stake bc))))) (\<lambda>xs.
     Inr (parseNotLocked xs)))"

definition findBondStakeAccountsHelper :: "solana_lib \<Rightarrow> bonds_chain \<Rightarrow> pubkey \<Rightarrow> pubkey option
    \<Rightarrow> pubkey option \<Rightarrow> pubkey option \<Rightarrow> pubkey option \<Rightarrow> int option \<Rightarrow> stake_account list res" where
  "findBondStakeAccountsHelper sl bc configAccount bondAccount voteAccount withdrawer staker currentEpoch =
     rbind (case (bondAccount, voteAccount) of
         (Some b, _) \<Rightarrow> Inr b
       | (None, Some v) \<Rightarrow> rbind (bondAddress sl configAccount v (bc_programId bc)) (\<lambda>r. Inr (fst r))
       | (None, None) \<Rightarrow>
           throw EError ''getBondData: bondAccount or (voteAccount and configAccount) must be provided'') (\<lambda>b.
     rbind (case withdrawer of Some w \<Rightarrow> Inr w
       | None \<Rightarrow> rbind (bondsWithdrawerAuthority sl configAccount (bc_programId bc)) (\<lambda>r. Inr (fst r))) (\<lambda>w.
     rbind (case voteAccount of Some v \<Rightarrow> Inr v
       | None \<Rightarrow> rbind (getBond sl bc b) (\<lambda>d. Inr (bd_voteAccount d))) (\<lambda>v.
     rbind (findStakeAccounts (bc_stake bc) staker (Some w) (Some v) currentEpoch) (\<lambda>xs.
     Inr (parseNotLocked xs)))))"

definition findBondStakeAccounts :: "solana_lib \<Rightarrow> bonds_chain \<Rightarrow> pubkey \<Rightarrow> pubkey option
    \<Rightarrow> pubkey option \<Rightarrow> int option \<Rightarrow> stake_account list res" where
  "findBondStakeAccounts sl bc configAccount bondAccount voteAccount currentEpoch =
     findBondStakeAccountsHelper sl bc configAccount bondAccount voteAccount None None currentEpoch"

definition findBondNonSettlementStakeAccounts :: "solana_lib \<Rightarrow> bonds_chain \<Rightarrow> pubkey
    \<Rightarrow> pubkey option \<Rightarrow> pubkey option \<Rightarrow> int option \<Rightarrow> stake_account list res" where
  "findBondNonSettlementStakeAccounts sl bc configAccount bondAccount voteAccount currentEpoch =
     rbind (bondsWithdrawerAuthority sl configAccount (bc_programId bc)) (\<lambda>w.
       findBondStakeAccountsHelper sl bc configAccount bondAccount voteAccount None (Some (fst w)) currentEpoch)"

section \<open>The parts of \<open>getBondsFunding\<close>\<close>

record fund_entry =
  fe_voteAccount :: pubkey
  fe_withdrawRequest :: "(pubkey \<times> withdraw_data) option"

record bond_funding =
  bf_bondAccount :: pubkey
  bf_voteAccount :: pubkey
  bf_amountOwned :: int
  bf_amountActive :: int
  bf_numberActiveStakeAccounts :: nat
  bf_amountAtSettlements :: int
  bf_numberSettlementStakeAccounts :: nat
  bf_amountToWithdraw :: int
  bf_epochsToElapseToWithdraw :: "int option"
  bf_withdrawRequest :: "(pubkey \<times> withdraw_data) option"
  bf_amountFundedAtBond :: int
  bf_bondFunded :: "stake_account list"
  bf_settlementFunded :: "stake_account list"

definition calculateFundedAmount :: "stake_account list \<Rightarrow> int res" where
  "calculateFundedAmount xs =
     rfoldM (\<lambda>sum a. rbind (bn_of_number (sa_lamports a)) (\<lambda>n. Inr (sum + n))) 0 xs"

definition group_step :: "(pubkey, stake_account list) jsmap \<Rightarrow> stake_account
    \<Rightarrow> (pubkey, stake_account list) jsmap res" where
  "group_step acc a = (case sa_voter a of
       None \<Rightarrow> throw EAssertion ''voter is known here, has to be filtered from functions above''
     | Some v \<Rightarrow> (case jsmap_get acc v of
           None \<Rightarrow> Inr (jsmap_set v [a] acc)
         | Some xs \<Rightarrow> Inr (jsmap_set v (xs @ [a]) acc)))"

definition groupByVoter :: "stake_account list \<Rightarrow> (pubkey, stake_account list) jsmap res" where
  "groupByVoter xs = rfoldM group_step [] xs"

definition has_authorities :: "stake_account \<Rightarrow> bool" where
  "has_authorities a \<longleftrightarrow> sa_voter a \<noteq> None \<and> sa_withdrawer a \<noteq> None \<and> sa_staker a \<noteq> None"

definition is_bond_funded :: "stake_account \<Rightarrow> bool" where
  "is_bond_funded a \<longleftrightarrow> has_authorities a \<and> sa_withdrawer a = sa_staker a"

definition is_settlement_funded :: "stake_account \<Rightarrow> bool" where
  "is_settlement_funded a \<longleftrightarrow> has_authorities a \<and> sa_withdrawer a \<noteq> sa_staker a"

definition fill_undefined :: "nat \<Rightarrow> 'a option list \<Rightarrow> 'a option list" where
  "fill_undefined maxLength xs = (if xs = [] then replicate maxLength None else xs)"

definition derive_entry :: "solana_lib \<Rightarrow> bonds_chain \<Rightarrow> pubkey \<Rightarrow> (pubkey, fund_entry) jsmap
    \<Rightarrow> pubkey option \<times> pubkey option \<Rightarrow> (pubkey, fund_entry) jsmap res" where
  "derive_entry sl bc configAccount m bv =
     rbind (case bv of
         (Some b, _) \<Rightarrow> Inr b
       | (None, Some v) \<Rightarrow> rbind (bondAddress sl configAccount v (bc_programId bc)) (\<lambda>r. Inr (fst r))
       | (None, None) \<Rightarrow> throw EAssertion ''bond account address is known here'') (\<lambda>b.
     Inr (jsmap_set b \<lparr> fe_voteAccount = orElse (snd bv) default_key, fe_withdrawRequest = None \<rparr> m))"

definition set_vote :: "solana_lib \<Rightarrow> (pubkey, fund_entry) jsmap \<Rightarrow> pubkey \<times> bond_data option
    \<Rightarrow> (pubkey, fund_entry) jsmap res" where
  "set_vote sl m kd = (case kd of
       (k, None) \<Rightarrow> throw EError (''getBondsFunding: cannot get bond data for bond address '' @ pk_b58 sl k
          @ ''; required for vote account derivation'')
     | (k, Some d) \<Rightarrow> (case jsmap_get m k of
           None \<Rightarrow> throw EAssertion ''bondInnerSetData is known here''
         | Some e \<Rightarrow> Inr (jsmap_set k (e \<lparr> fe_voteAccount := bd_voteAccount d \<rparr>) m)))"

definition set_withdraw :: "(pubkey, fund_entry) jsmap \<Rightarrow> pubkey \<times> withdraw_data option
    \<Rightarrow> (pubkey, fund_entry) jsmap res" where
  "set_withdraw m kd = (case kd of
       (k, None) \<Rightarrow> Inr m
     | (k, Some w) \<Rightarrow> (case jsmap_get m (wd_bond w) of
           None \<Rightarrow> throw EAssertion ''bondInnerSetData is known here''
         | Some e \<Rightarrow> Inr (jsmap_set (wd_bond w) (e \<lparr> fe_withdrawRequest := Some (k, w) \<rparr>) m)))"

definition withdrawal_requested :: "(pubkey \<times> withdraw_data) option \<Rightarrow> int" where
  "withdrawal_requested wr = orElse (map_option (wd_requestedAmount \<circ> snd) wr) 0
     - orElse (map_option (wd_withdrawnAmount \<circ> snd) wr) 0"

definition amount_to_withdraw :: "int \<Rightarrow> int \<Rightarrow> int" where
  "amount_to_withdraw funded requested =
     (if requested = 0 then 0 else if funded < requested then funded else requested)"

definition epochs_to_elapse :: "(pubkey \<times> withdraw_data) option \<Rightarrow> int \<Rightarrow> int \<Rightarrow> int option" where
  "epochs_to_elapse wr currentEpoch lockup = (case wr of None \<Rightarrow> None
     | Some (k, w) \<Rightarrow> if currentEpoch \<le> wd_epoch w + lockup
         then Some (wd_epoch w + lockup + 1 - currentEpoch) else None)"

definition funding_row :: "(pubkey, stake_account list) jsmap \<Rightarrow> (pubkey, stake_account list) jsmap
    \<Rightarrow> int \<Rightarrow> int \<Rightarrow> pubkey \<times> fund_entry \<Rightarrow> bond_funding res" where
  "funding_row bondMap settlementMap currentEpoch lockup be = (case be of (bondAccount, e) \<Rightarrow>
     (let bondFunded = orElse (jsmap_get bondMap (fe_voteAccount e)) [];
          settlementFunded = orElse (jsmap_get settlementMap (fe_voteAccount e)) []
      in rbind (calculateFundedAmount bondFunded) (\<lambda>amountFundedAtBond.
         rbind (calculateFundedAmount settlementFunded) (\<lambda>amountAtSettlements.
         (let requested = withdrawal_requested (fe_withdrawRequest e)
          in Inr \<lparr> bf_bondAccount = bondAccount, bf_voteAccount = fe_voteAccount e,
               bf_amountOwned = amountFundedAtBond + amountAtSettlements,
               bf_amountActive = amountFundedAtBond - requested,
               bf_numberActiveStakeAccounts = length bondFunded,
               bf_amountAtSettlements = amountAtSettlements,
               bf_numberSettlementStakeAccounts = length settlementFunded,
               bf_amountToWithdraw = amount_to_withdraw amountFundedAtBond requested,
               bf_epochsToElapseToWithdraw = epochs_to_elapse (fe_withdrawRequest e) currentEpoch lockup,
               bf_withdrawRequest = fe_withdrawRequest e,
               bf_amountFundedAtBond = amountFundedAtBond,
               bf_bondFunded = bondFunded, bf_settlementFunded = settlementFunded \<rparr>)))))"

definition fund_entries :: "solana_lib \<Rightarrow> bonds_chain \<Rightarrow> pubkey \<Rightarrow> (pubkey option \<times> pubkey option) list
    \<Rightarrow> (pubkey, fund_entry) jsmap res" where
  "fund_entries sl bc configAccount bvs =
     rbind (rfoldM (derive_entry sl bc configAccount) [] bvs) (\<lambda>m.
     rbind (getMultipleDecoded (bc_bonds bc)
         (map fst (filter (\<lambda>(k, e). fe_voteAccount e = default_key) m))) (\<lambda>bonds.
     rbind (rfoldM (set_vote sl) m bonds) (\<lambda>m.
     rbind (rmapM (\<lambda>k. rbind (withdrawRequestAddress sl k (bc_programId bc)) (\<lambda>r. Inr (fst r)))
         (map fst m)) (\<lambda>addresses.
     rbind (getMultipleDecoded (bc_withdraws bc) addresses) (\<lambda>requests.
     rfoldM set_withdraw m requests)))))"

definition getBondsFunding :: "solana_lib \<Rightarrow> bonds_chain \<Rightarrow> pubkey \<Rightarrow> pubkey option list
    \<Rightarrow> pubkey option list \<Rightarrow> int option \<Rightarrow> bond_funding list res" where
  "getBondsFunding sl bc configAccount bondAccounts voteAccounts currentEpoch =
     (let maxLength = max (length bondAccounts) (length voteAccounts);
          bonds = fill_undefined maxLength bondAccounts;
          votes = fill_undefined maxLength voteAccounts
      in if length bonds \<noteq> length votes
         then throw EError ''getBondsFunding: bondAccounts and voteAccounts must match''
         else if (None, None) \<in> set (zip bonds votes)
         then throw EError ''getBondsFunding: bondAccounts or voteAccounts must be provided for every record''
         else
           rbind (fund_entries sl bc configAccount (zip bonds votes)) (\<lambda>inputData.
           rbind (case currentEpoch of Some e \<Rightarrow> Inr e
             | None \<Rightarrow> bn_of_number (st_epoch (bc_stake bc))) (\<lambda>epoch.
           rbind (findConfigStakeAccounts sl bc (Some configAccount) None (Some epoch)) (\<lambda>allStakeAccounts.
           rbind (groupByVoter (filter is_bond_funded allStakeAccounts)) (\<lambda>bondMap.
           rbind (groupByVoter (filter is_settlement_funded allStakeAccounts)) (\<lambda>settlementMap.
           rbind (getConfig sl bc configAccount) (\<lambda>configData.
           rmapM (funding_row bondMap settlementMap epoch (cd_withdrawLockupEpochs configData)) inputData)))))))"


section \<open>The sums and the groups\<close>

lemma calculateFundedAmount_sum:
  assumes "\<forall>a\<in>set xs. fits53 (sa_lamports a)"
  shows "calculateFundedAmount xs = Inr (sum_list (map sa_lamports xs))"
proof -
  have "rfoldM (\<lambda>sum a. rbind (bn_of_number (sa_lamports a)) (\<lambda>n. Inr (sum + n))) s xs
      = Inr (s + sum_list (map sa_lamports xs))" for s
    using assms by (induction xs arbitrary: s) (auto simp: bn_of_number_def)
  then show ?thesis by (simp add: calculateFundedAmount_def)
qed

definition of_voter :: "pubkey \<Rightarrow> stake_account list \<Rightarrow> stake_account list" where
  "of_voter v xs = filter (\<lambda>a. sa_voter a = Some v) xs"

lemma group_steps:
  assumes "\<forall>a\<in>set xs. sa_voter a \<noteq> None"
  shows "\<exists>m'. rfoldM group_step m xs = Inr m' \<and>
    (\<forall>v. orElse (jsmap_get m' v) [] = orElse (jsmap_get m v) [] @ of_voter v xs)"
  using assms
proof (induction xs arbitrary: m)
  case Nil
  then show ?case by (simp add: of_voter_def)
next
  case (Cons a xs)
  then obtain w where w: "sa_voter a = Some w" by auto
  let ?m = "jsmap_set w (orElse (jsmap_get m w) [] @ [a]) m"
  have step: "group_step m a = Inr ?m"
    by (simp add: group_step_def w split: option.split)
  obtain m' where m': "rfoldM group_step ?m xs = Inr m'"
    "\<forall>v. orElse (jsmap_get m' v) [] = orElse (jsmap_get ?m v) [] @ of_voter v xs"
    using Cons.IH [of ?m] Cons.prems by auto
  have "orElse (jsmap_get ?m v) [] @ of_voter v xs = orElse (jsmap_get m v) [] @ of_voter v (a # xs)" for v
    by (simp add: of_voter_def w)
  then show ?case using m' step by auto
qed

lemma groupByVoter_spec:
  assumes "\<forall>a\<in>set xs. sa_voter a \<noteq> None"
  obtains m where "groupByVoter xs = Inr m"
    and "\<And>v. orElse (jsmap_get m v) [] = of_voter v xs"
  using group_steps [OF assms, of "[]"] that by (auto simp: groupByVoter_def)

lemma findConfigStakeAccounts_fits:
  assumes "findConfigStakeAccounts sl bc c w e = Inr xs" and "a \<in> set xs"
  shows "fits53 (sa_lamports a)" and "\<not> sa_isLockedUp a"
  using assms loadStakeAccounts_fits
  by (auto simp: findConfigStakeAccounts_def rbind_eq_Inr parseNotLocked_def findStakeAccounts_def)

section \<open>What a row holds\<close>

definition funded_by :: "(stake_account \<Rightarrow> bool) \<Rightarrow> stake_account list \<Rightarrow> pubkey \<Rightarrow> stake_account list" where
  "funded_by P allAccounts v = filter (\<lambda>a. P a \<and> sa_voter a = Some v) allAccounts"

lemma of_voter_filter: "of_voter v (filter P xs) = funded_by P xs v"
  by (auto simp: of_voter_def funded_by_def intro: filter_cong)

definition row_ok :: "stake_account list \<Rightarrow> int \<Rightarrow> int \<Rightarrow> bond_funding \<Rightarrow> bool" where
  "row_ok allAccounts epoch lockup r \<longleftrightarrow>
     bf_bondFunded r = funded_by is_bond_funded allAccounts (bf_voteAccount r) \<and>
     bf_settlementFunded r = funded_by is_settlement_funded allAccounts (bf_voteAccount r) \<and>
     bf_amountFundedAtBond r = sum_list (map sa_lamports (bf_bondFunded r)) \<and>
     bf_amountAtSettlements r = sum_list (map sa_lamports (bf_settlementFunded r)) \<and>
     bf_amountOwned r = bf_amountFundedAtBond r + bf_amountAtSettlements r \<and>
     bf_amountActive r = bf_amountFundedAtBond r - withdrawal_requested (bf_withdrawRequest r) \<and>
     bf_amountToWithdraw r
       = amount_to_withdraw (bf_amountFundedAtBond r) (withdrawal_requested (bf_withdrawRequest r)) \<and>
     bf_numberActiveStakeAccounts r = length (bf_bondFunded r) \<and>
     bf_numberSettlementStakeAccounts r = length (bf_settlementFunded r) \<and>
     bf_epochsToElapseToWithdraw r = epochs_to_elapse (bf_withdrawRequest r) epoch lockup"

lemma funding_row_ok:
  assumes "\<And>v. orElse (jsmap_get bm v) [] = funded_by is_bond_funded xs v"
    and "\<And>v. orElse (jsmap_get sm v) [] = funded_by is_settlement_funded xs v"
    and "\<forall>a\<in>set xs. fits53 (sa_lamports a)"
  shows "\<exists>r. funding_row bm sm e l be = Inr r \<and> row_ok xs e l r
    \<and> bf_bondAccount r = fst be \<and> bf_voteAccount r = fe_voteAccount (snd be)
    \<and> bf_withdrawRequest r = fe_withdrawRequest (snd be)"
proof -
  obtain b f where be: "be = (b, f)" by (cases be)
  have sums: "calculateFundedAmount (funded_by P xs v) = Inr (sum_list (map sa_lamports (funded_by P xs v)))" for P v
    by (rule calculateFundedAmount_sum) (use assms(3) in \<open>auto simp: funded_by_def\<close>)
  show ?thesis
    by (simp add: be funding_row_def assms(1,2) sums Let_def row_ok_def)
qed

lemma getBondsFunding_rows:
  assumes "getBondsFunding sl bc c bs vs ce = Inr rows"
  obtains m epoch xs cfg bvs where
    "fund_entries sl bc c bvs = Inr m" and
    "bvs = zip (fill_undefined (max (length bs) (length vs)) bs) (fill_undefined (max (length bs) (length vs)) vs)" and
    "epoch = orElse ce (st_epoch (bc_stake bc))" and
    "findConfigStakeAccounts sl bc (Some c) None (Some epoch) = Inr xs" and
    "getConfig sl bc c = Inr cfg" and
    "list_all2 (\<lambda>(b, f) r. bf_bondAccount r = b \<and> bf_voteAccount r = fe_voteAccount f
        \<and> bf_withdrawRequest r = fe_withdrawRequest f
        \<and> row_ok xs epoch (cd_withdrawLockupEpochs cfg) r) m rows"
proof -
  let ?bvs = "zip (fill_undefined (max (length bs) (length vs)) bs) (fill_undefined (max (length bs) (length vs)) vs)"
  obtain m epoch xs bm sm cfg where
    m: "fund_entries sl bc c ?bvs = Inr m"
    and ep: "(case ce of Some e \<Rightarrow> Inr e | None \<Rightarrow> bn_of_number (st_epoch (bc_stake bc))) = Inr epoch"
    and xs: "findConfigStakeAccounts sl bc (Some c) None (Some epoch) = Inr xs"
    and bm: "groupByVoter (filter is_bond_funded xs) = Inr bm"
    and sm: "groupByVoter (filter is_settlement_funded xs) = Inr sm"
    and cfg: "getConfig sl bc c = Inr cfg"
    and rows: "rmapM (funding_row bm sm epoch (cd_withdrawLockupEpochs cfg)) m = Inr rows"
    using assms by (auto simp: getBondsFunding_def Let_def rbind_eq_Inr split: if_splits)
  have epoch: "epoch = orElse ce (st_epoch (bc_stake bc))"
    using ep by (cases ce) (auto simp: bn_of_number_def split: if_splits)
  have "\<forall>a\<in>set (filter is_bond_funded xs). sa_voter a \<noteq> None"
    "\<forall>a\<in>set (filter is_settlement_funded xs). sa_voter a \<noteq> None"
    by (auto simp: is_bond_funded_def is_settlement_funded_def has_authorities_def)
  then have maps: "orElse (jsmap_get bm v) [] = funded_by is_bond_funded xs v"
    "orElse (jsmap_get sm v) [] = funded_by is_settlement_funded xs v" for v
    using bm sm by (metis groupByVoter_spec of_voter_filter sum.inject(2))+
  have fits: "\<forall>a\<in>set xs. fits53 (sa_lamports a)"
    using findConfigStakeAccounts_fits(1) [OF xs] by blast
  have "list_all2 (\<lambda>(b, f) r. bf_bondAccount r = b \<and> bf_voteAccount r = fe_voteAccount f
        \<and> bf_withdrawRequest r = fe_withdrawRequest f
        \<and> row_ok xs epoch (cd_withdrawLockupEpochs cfg) r) m rows"
    using rows unfolding rmapM_Inr_iff
  proof (rule list_all2_mono)
    fix be r
    assume "funding_row bm sm epoch (cd_withdrawLockupEpochs cfg) be = Inr r"
    then have "row_ok xs epoch (cd_withdrawLockupEpochs cfg) r \<and> bf_bondAccount r = fst be
        \<and> bf_voteAccount r = fe_voteAccount (snd be)
        \<and> bf_withdrawRequest r = fe_withdrawRequest (snd be)"
      using funding_row_ok [OF maps fits, of epoch "cd_withdrawLockupEpochs cfg" be] by auto
    then show "(case be of (b, f) \<Rightarrow> \<lambda>r. bf_bondAccount r = b \<and> bf_voteAccount r = fe_voteAccount f
        \<and> bf_withdrawRequest r = fe_withdrawRequest f
        \<and> row_ok xs epoch (cd_withdrawLockupEpochs cfg) r) r"
      by (simp add: case_prod_beta)
  qed
  with m epoch xs cfg show thesis by (intro that) simp_all
qed


section \<open>Nothing is counted twice\<close>

lemma owned_sum:
  assumes "row_ok xs e l r"
  shows "bf_amountOwned r
    = sum_list (map sa_lamports (filter (\<lambda>a. has_authorities a \<and> sa_voter a = Some (bf_voteAccount r)) xs))"
proof -
  have "sum_list (map sa_lamports (funded_by is_bond_funded xs v))
      + sum_list (map sa_lamports (funded_by is_settlement_funded xs v))
    = sum_list (map sa_lamports (filter (\<lambda>a. has_authorities a \<and> sa_voter a = Some v) xs))" for v
    by (induction xs) (auto simp: funded_by_def is_bond_funded_def is_settlement_funded_def)
  then show ?thesis using assms by (simp add: row_ok_def)
qed

lemma sum_by_key:
  fixes w :: "'a \<Rightarrow> int"
  assumes "distinct vs" and "\<forall>a\<in>set xs. 0 \<le> w a"
  shows "(\<Sum>v\<leftarrow>vs. sum_list (map w (filter (\<lambda>a. P a \<and> key a = Some v) xs))) \<le> sum_list (map w xs)"
  using assms(2)
proof (induction xs)
  case Nil
  then show ?case by simp
next
  case (Cons a xs)
  let ?S = "\<lambda>ys. \<Sum>v\<leftarrow>vs. sum_list (map w (filter (\<lambda>a. P a \<and> key a = Some v) ys))"
  have "?S (a # xs) = (\<Sum>v\<leftarrow>vs. (if P a \<and> key a = Some v then w a else 0)
      + sum_list (map w (filter (\<lambda>a. P a \<and> key a = Some v) xs)))"
    by (rule arg_cong [where f = sum_list]) simp
  also have "\<dots> = (\<Sum>v\<leftarrow>vs. if P a \<and> key a = Some v then w a else 0) + ?S xs"
    by (rule sum_list_addf)
  also have "(\<Sum>v\<leftarrow>vs. if P a \<and> key a = Some v then w a else 0) \<le> w a"
  proof (cases "P a \<and> (\<exists>v\<in>set vs. key a = Some v)")
    case False
    then have "(\<Sum>v\<leftarrow>vs. if P a \<and> key a = Some v then w a else 0) = (\<Sum>v\<leftarrow>vs. 0)"
      by (intro arg_cong [where f = sum_list] map_cong) auto
    then show ?thesis using Cons.prems by simp
  next
    case True
    then obtain u where u: "key a = Some u" "u \<in> set vs" "P a" by auto
    have "(\<Sum>v\<leftarrow>vs. if P a \<and> key a = Some v then w a else 0) = (\<Sum>v\<leftarrow>vs. if v = u then w a else 0)"
      using u by (intro arg_cong [where f = sum_list] map_cong) auto
    also have "\<dots> = (\<Sum>v\<in>set vs. if v = u then w a else 0)"
      using assms(1) by (simp add: sum_list_distinct_conv_sum_set)
    also have "\<dots> = w a" using u by simp
    finally show ?thesis by simp
  qed
  finally show ?case using Cons by simp
qed

section \<open>The bonds of the rows\<close>

lemma jsmap_set_keys: "jsmap_get m k = Some e \<Longrightarrow> map fst (jsmap_set k v m) = map fst m"
  by (force simp: update_keys map_of_eq_None_iff dest: map_of_SomeD)

lemma set_vote_keys: "set_vote sl m kd = Inr m' \<Longrightarrow> map fst m' = map fst m"
  by (auto simp: set_vote_def jsmap_set_keys split: prod.splits option.splits)

lemma set_withdraw_keys: "set_withdraw m kd = Inr m' \<Longrightarrow> map fst m' = map fst m"
  by (auto simp: set_withdraw_def jsmap_set_keys split: prod.splits option.splits)

definition own_request :: "(pubkey, fund_entry) jsmap \<Rightarrow> bool" where
  "own_request m \<longleftrightarrow> (\<forall>b e k w. jsmap_get m b = Some e \<longrightarrow> fe_withdrawRequest e = Some (k, w) \<longrightarrow> wd_bond w = b)"

lemma derive_entry_own:
  "own_request m \<Longrightarrow> derive_entry sl bc c m bv = Inr m' \<Longrightarrow> own_request m'"
  unfolding derive_entry_def rbind_eq_Inr
  by (fastforce simp: own_request_def split: if_splits)

lemma set_vote_own: "own_request m \<Longrightarrow> set_vote sl m kd = Inr m' \<Longrightarrow> own_request m'"
  by (fastforce simp: set_vote_def own_request_def split: prod.splits option.splits if_splits)

lemma set_withdraw_own: "own_request m \<Longrightarrow> set_withdraw m kd = Inr m' \<Longrightarrow> own_request m'"
  by (fastforce simp: set_withdraw_def own_request_def split: prod.splits option.splits if_splits)

lemma derive_distinct:
  assumes "rfoldM (derive_entry sl bc c) [] bvs = Inr m"
  shows "distinct (map fst m)" and "own_request m"
proof -
  show "distinct (map fst m)"
    by (rule rfoldM_invariant [OF assms, of "\<lambda>m. distinct (map fst m)"])
      (auto simp: derive_entry_def rbind_eq_Inr jsmap_set_distinct)
  show "own_request m"
  proof (rule rfoldM_invariant [OF assms, of own_request])
    show "own_request []" by (simp add: own_request_def)
  qed (rule derive_entry_own)
qed

lemma fund_entries_keys:
  assumes "fund_entries sl bc c bvs = Inr m"
  obtains m0 where "rfoldM (derive_entry sl bc c) [] bvs = Inr m0"
    and "map fst m = map fst m0" and "own_request m"
proof -
  obtain m0 bonds m1 as reqs where m0: "rfoldM (derive_entry sl bc c) [] bvs = Inr m0"
    and m1: "rfoldM (set_vote sl) m0 bonds = Inr m1"
    and m: "rfoldM set_withdraw m1 reqs = Inr m"
    using assms by (auto simp: fund_entries_def rbind_eq_Inr)
  have "map fst m1 = map fst m0 \<and> own_request m1"
    by (rule rfoldM_invariant [OF m1]) (use derive_distinct(2) [OF m0] in \<open>auto dest: set_vote_keys intro: set_vote_own\<close>)
  moreover then have "map fst m = map fst m1 \<and> own_request m"
    by (intro rfoldM_invariant [OF m, of "\<lambda>x. map fst x = map fst m1 \<and> own_request x"])
      (auto dest: set_withdraw_keys intro: set_withdraw_own)
  ultimately show thesis using m0 that by auto
qed


lemma getBondsFunding_row':
  assumes "getBondsFunding sl bc config bonds votes epoch = Inr rows" and "r \<in> set rows"
  shows "\<exists>accounts cfg.
    findConfigStakeAccounts sl bc (Some config) None (Some (orElse epoch (st_epoch (bc_stake bc)))) = Inr accounts \<and>
    getConfig sl bc config = Inr cfg \<and>
    row_ok accounts (orElse epoch (st_epoch (bc_stake bc))) (cd_withdrawLockupEpochs cfg) r \<and>
    (case bf_withdrawRequest r of None \<Rightarrow> True | Some (k, w) \<Rightarrow> wd_bond w = bf_bondAccount r)"
proof -
  obtain m e xs cfg bvs where
    m: "fund_entries sl bc config bvs = Inr m"
    and e: "e = orElse epoch (st_epoch (bc_stake bc))"
    and xs: "findConfigStakeAccounts sl bc (Some config) None (Some e) = Inr xs"
    and cfg: "getConfig sl bc config = Inr cfg"
    and rows: "list_all2 (\<lambda>(b, f) r. bf_bondAccount r = b \<and> bf_voteAccount r = fe_voteAccount f
        \<and> bf_withdrawRequest r = fe_withdrawRequest f
        \<and> row_ok xs e (cd_withdrawLockupEpochs cfg) r) m rows"
    by (rule getBondsFunding_rows [OF assms(1)])
  obtain b f where bf: "(b, f) \<in> set m" "bf_bondAccount r = b" "bf_withdrawRequest r = fe_withdrawRequest f"
    "row_ok xs e (cd_withdrawLockupEpochs cfg) r"
    using rows assms(2) by (fastforce simp: list_all2_conv_all_nth in_set_conv_nth)
  obtain m0 where m0: "rfoldM (derive_entry sl bc config) [] bvs = Inr m0" "map fst m = map fst m0" "own_request m"
    by (rule fund_entries_keys [OF m])
  have "distinct (map fst m)" using derive_distinct(1) [OF m0(1)] m0(2) by simp
  then have "jsmap_get m b = Some f" using bf(1) by simp
  then have "case bf_withdrawRequest r of None \<Rightarrow> True | Some (k, w) \<Rightarrow> wd_bond w = bf_bondAccount r"
    using m0(3) bf(2,3) by (auto simp: own_request_def split: option.split)
  then show ?thesis using xs cfg bf(4) e by blast
qed

end
