(* ===== verification/Sdk_Instructions.thy ===== *)
theory Sdk_Instructions
  imports Sdk_Funding
begin

text \<open>
  Instruction builders of \<open>packages/validator-bonds-sdk/src/instructions/\<close>: how each one
  completes the accounts it was not given, from addresses, from account data and from the
  wallet, and the account list it builds.

  An account of an instruction is a key, one of the fixed accounts of web3.js and the token
  libraries, or absent; an argument is a key, an integer, bytes, a product or absent.
  \<open>Keypair.generate()\<close> is an argument of the builder: the generated key.
\<close>

datatype ix_account =
    Key pubkey
  | StakeProgramId
  | SystemProgramId
  | SysvarStakeHistory
  | SysvarClock
  | SysvarRent
  | StakeConfigId
  | TokenProgramId
  | AssociatedTokenProgramId
  | MetadataProgramId
  | NoAccount

datatype ix_arg =
    ArgKey pubkey
  | ArgInt int
  | ArgBytes "byte list"
  | ArgBytesList "byte list list"
  | ArgProduct product_type
  | ArgConfig product_config
  | ArgNone

record instruction =
  ix_name :: string
  ix_args :: "(string \<times> ix_arg) list"
  ix_accounts :: "(string \<times> ix_account) list"

definition ix_account_of :: "instruction \<Rightarrow> string \<Rightarrow> ix_account option" where
  "ix_account_of ix name = map_of (ix_accounts ix) name"

definition opt_key :: "pubkey option \<Rightarrow> ix_arg" where
  "opt_key x = (case x of None \<Rightarrow> ArgNone | Some k \<Rightarrow> ArgKey k)"

definition anchorProgramWalletPubkey :: "solana_lib \<Rightarrow> bonds_chain \<Rightarrow> pubkey res" where
  "anchorProgramWalletPubkey sl bc = (case bc_wallet bc of
       None \<Rightarrow> throw EError (''Cannot get wallet pubkey from Anchor Program '' @ pk_b58 sl (bc_programId bc))
     | Some k \<Rightarrow> Inr k)"

text \<open>A default parameter is evaluated only when the argument is undefined.\<close>

definition wallet_default :: "solana_lib \<Rightarrow> bonds_chain \<Rightarrow> pubkey option \<Rightarrow> pubkey res" where
  "wallet_default sl bc x = (case x of Some k \<Rightarrow> Inr k | None \<Rightarrow> anchorProgramWalletPubkey sl bc)"

text \<open>An address that is computed when it is not given.\<close>

definition fill :: "'a option \<Rightarrow> ('a \<times> 'b) res \<Rightarrow> 'a res" where
  "fill x a = (case x of Some k \<Rightarrow> Inr k | None \<Rightarrow> rbind a (\<lambda>r. Inr (fst r)))"

lemma fill_simps [simp]: "fill (Some k) a = Inr k" "fill None (Inr (k, n)) = Inr k"
  by (simp_all add: fill_def)

lemma wallet_default_Some [simp]: "wallet_default sl bc (Some k) = Inr k"
  by (simp add: wallet_default_def)

section \<open>\<open>mergeStake.ts\<close>\<close>

text \<open>The withdrawer authority is derived without the program id of the client, so for the
  default one.\<close>

definition VALIDATOR_BONDS_PROGRAM_ID :: "solana_lib \<Rightarrow> pubkey res" where
  "VALIDATOR_BONDS_PROGRAM_ID sl = pk_of_str sl VALIDATOR_BONDS_PROGRAM_ID_B58"

definition MARINADE_CONFIG_ADDRESS :: "solana_lib \<Rightarrow> pubkey res" where
  "MARINADE_CONFIG_ADDRESS sl = pk_of_str sl MARINADE_CONFIG_B58"

definition mergeStakeInstruction :: "solana_lib \<Rightarrow> pubkey \<Rightarrow> pubkey \<Rightarrow> pubkey \<Rightarrow> pubkey option
    \<Rightarrow> pubkey option \<Rightarrow> instruction res" where
  "mergeStakeInstruction sl configAccount source destination settlementAccount stakerAuthority =
     (let settlement = orElse settlementAccount default_key in
      rbind (VALIDATOR_BONDS_PROGRAM_ID sl) (\<lambda>programId.
      rbind (bondsWithdrawerAuthority sl configAccount programId) (\<lambda>w.
      rbind (guard_throw (case stakerAuthority of None \<Rightarrow> False
              | Some s \<Rightarrow> settlement = default_key \<and> fst w \<noteq> s) EError
          (''When stakerAuthority provided, please, provide the Settlement account address as well.''
           @ '' Contract requires the Settlement address to derive the correct merge authority.'')) (\<lambda>_.
      Inr \<lparr> ix_name = ''mergeStake'', ix_args = [(''settlement'', ArgKey settlement)],
        ix_accounts = [(''config'', Key configAccount), (''sourceStake'', Key source),
          (''destinationStake'', Key destination),
          (''stakerAuthority'', Key (orElse stakerAuthority (fst w))),
          (''stakeHistory'', SysvarStakeHistory), (''stakeProgram'', StakeProgramId),
          (''clock'', SysvarClock)] \<rparr>))))"

section \<open>\<open>claimWithdrawRequest.ts\<close>\<close>

record claim_withdraw =
  cw_instruction :: instruction
  cw_splitStakeAccount :: pubkey
  cw_withdrawRequestAccount :: pubkey
  cw_voteAccount :: pubkey
  cw_bondAccount :: pubkey

record claim_args =
  ca_withdrawRequestAccount :: "pubkey option"
  ca_bondAccount :: "pubkey option"
  ca_configAccount :: "pubkey option"
  ca_voteAccount :: "pubkey option"
  ca_stakeAccount :: pubkey
  ca_authority :: "pubkey option"
  ca_splitStakeRentPayer :: "pubkey option"
  ca_withdrawer :: "pubkey option"

text \<open>\<open>bond_from\<close>: the bond of a configuration and a vote account, when both are known.\<close>

definition bond_from :: "solana_lib \<Rightarrow> bonds_chain \<Rightarrow> pubkey option \<Rightarrow> pubkey option \<Rightarrow> pubkey option
    \<Rightarrow> pubkey option res" where
  "bond_from sl bc configAccount voteAccount bondAccount =
     (case (configAccount, voteAccount, bondAccount) of
        (Some c, Some v, None) \<Rightarrow> rbind (bondAddress sl c v (bc_programId bc)) (\<lambda>r. Inr (Some (fst r)))
      | _ \<Rightarrow> Inr bondAccount)"

text \<open>The accounts of the claim: the request's data when it was read, the configuration, the
  vote account, the withdraw request and the bond.\<close>

definition claim_resolve :: "solana_lib \<Rightarrow> bonds_chain \<Rightarrow> claim_args
    \<Rightarrow> (withdraw_data option \<times> pubkey \<times> pubkey \<times> pubkey \<times> pubkey) res" where
  "claim_resolve sl bc a =
     rbind (bond_from sl bc (ca_configAccount a) (ca_voteAccount a) (ca_bondAccount a)) (\<lambda>bond.
     rbind (case ca_withdrawRequestAccount a of
         Some wr \<Rightarrow> if bond = None \<or> ca_voteAccount a = None
           then rbind (getWithdrawRequest sl bc wr) (\<lambda>d.
             Inr (Some d, Some (orElse bond (wd_bond d)), Some (orElse (ca_voteAccount a) (wd_voteAccount d))))
           else Inr (None, bond, ca_voteAccount a)
       | None \<Rightarrow> Inr (None, bond, ca_voteAccount a)) (\<lambda>(requestData, bond, vote).
     rbind (case (bond, ca_withdrawRequestAccount a) of
         (Some b, None) \<Rightarrow> rbind (withdrawRequestAddress sl b (bc_programId bc)) (\<lambda>r. Inr (Some (fst r)))
       | _ \<Rightarrow> Inr (ca_withdrawRequestAccount a)) (\<lambda>withdrawRequest.
     rbind (case bond of
         Some b \<Rightarrow> if vote = None \<or> ca_configAccount a = None
           then rbind (getBond sl bc b) (\<lambda>d.
             Inr (Some (orElse vote (bd_voteAccount d)), Some (orElse (ca_configAccount a) (bd_config d))))
           else Inr (vote, ca_configAccount a)
       | None \<Rightarrow> Inr (vote, ca_configAccount a)) (\<lambda>(vote, config).
     rbind (case vote of Some v \<Rightarrow> Inr v
       | None \<Rightarrow> throw EError ''voteAccount not provided and could not be derived from other parameters'') (\<lambda>voteAccount.
     rbind (case withdrawRequest of Some w \<Rightarrow> Inr w
       | None \<Rightarrow> throw EError (''claimWithdrawRequest: ''
           @ ''withdrawRequestAccount not provided and could not be derived from other parameters'')) (\<lambda>withdrawRequestAccount.
     rbind (case config of Some c \<Rightarrow> Inr c | None \<Rightarrow> MARINADE_CONFIG_ADDRESS sl) (\<lambda>configAccount.
     rbind (checkAndGetBondAddress sl bond (Some configAccount) (Some voteAccount) (bc_programId bc)) (\<lambda>bondAccount.
     Inr (requestData, configAccount, voteAccount, withdrawRequestAccount, bondAccount)))))))))"

definition claimWithdrawRequestInstruction :: "solana_lib \<Rightarrow> bonds_chain \<Rightarrow> pubkey \<Rightarrow> claim_args
    \<Rightarrow> claim_withdraw res" where
  "claimWithdrawRequestInstruction sl bc generated a =
     rbind (wallet_default sl bc (ca_authority a)) (\<lambda>authority.
     rbind (wallet_default sl bc (ca_splitStakeRentPayer a)) (\<lambda>rentPayer.
     rbind (claim_resolve sl bc a) (\<lambda>(requestData, configAccount, voteAccount, withdrawRequestAccount, bondAccount).
     rbind (case ca_withdrawer a of Some w \<Rightarrow> Inr w
       | None \<Rightarrow> rbind (case requestData of Some d \<Rightarrow> Inr d
             | None \<Rightarrow> getWithdrawRequest sl bc withdrawRequestAccount) (\<lambda>d.
           bc_nodePubkey bc (wd_voteAccount d))) (\<lambda>withdrawer.
     rbind (bondsWithdrawerAuthority sl configAccount (bc_programId bc)) (\<lambda>wa.
     Inr \<lparr> cw_instruction = \<lparr> ix_name = ''claimWithdrawRequest'', ix_args = [],
           ix_accounts = [(''config'', Key configAccount), (''bond'', Key bondAccount),
             (''voteAccount'', Key voteAccount), (''withdrawRequest'', Key withdrawRequestAccount),
             (''bondsWithdrawerAuthority'', Key (fst wa)), (''stakeAccount'', Key (ca_stakeAccount a)),
             (''withdrawer'', Key withdrawer), (''splitStakeAccount'', Key generated),
             (''authority'', Key authority), (''splitStakeRentPayer'', Key rentPayer),
             (''stakeHistory'', SysvarStakeHistory), (''stakeProgram'', StakeProgramId),
             (''systemProgram'', SystemProgramId), (''clock'', SysvarClock)] \<rparr>,
       cw_splitStakeAccount = generated, cw_withdrawRequestAccount = withdrawRequestAccount,
       cw_voteAccount = voteAccount, cw_bondAccount = bondAccount \<rparr>)))))"

end
