(* ===== verification/Sdk_Orchestrate.thy ===== *)
theory Sdk_Orchestrate
  imports Sdk_Instructions
begin

text \<open>
  Withdrawing a deposit: \<open>orchestrateWithdrawDeposit\<close> of
  \<open>packages/validator-bonds-sdk/src/orchestrators/orchestrateWithdrawRequest.ts\<close>.

  The code compares two BN objects with \<open><\<close>, \<open>>\<close> and \<open><=\<close>. An object is converted by its
  \<open>toString\<close>, so these compare decimal strings by their characters (\<open>bn_less\<close>); and the sum of
  \<open>acc.stakesAmount.add(...)\<close> is dropped, so the amount compared stays zero. The lemmas work
  out what this does: \<open>select_all\<close>.
\<close>

section \<open>Comparing BN objects\<close>

fun str_less :: "string \<Rightarrow> string \<Rightarrow> bool" where
  "str_less _ [] = False"
| "str_less [] (_ # _) = True"
| "str_less (c # s) (d # t) = (if c = d then str_less s t else (of_char c :: nat) < of_char d)"

definition bn_less :: "int \<Rightarrow> int \<Rightarrow> bool" where
  "bn_less a b = str_less (int_str a) (int_str b)"

definition bn_leq :: "int \<Rightarrow> int \<Rightarrow> bool" where
  "bn_leq a b = (\<not> str_less (int_str b) (int_str a))"

section \<open>The steps of \<open>orchestrateWithdrawDeposit\<close>\<close>

definition MAX_SAFE_INTEGER :: int where "MAX_SAFE_INTEGER = 2 ^ 53 - 1"

definition isFullyActive :: "stake_account \<Rightarrow> int \<Rightarrow> bool" where
  "isFullyActive a epoch \<longleftrightarrow> orElse (sa_activationEpoch a) MAX_SAFE_INTEGER < epoch \<and> \<not> sa_isCoolingDown a"

definition clamp_amount :: "int \<Rightarrow> int" where
  "clamp_amount amount = (if bn_leq amount 0 then 0 else amount)"

text \<open>One step of the reduction: \<open>add\<close> returns a new BN, which is not kept.\<close>

definition select_step :: "int \<Rightarrow> int \<times> stake_account list \<Rightarrow> stake_account
    \<Rightarrow> (int \<times> stake_account list) res" where
  "select_step amountToWithdraw acc a = (case acc of (stakesAmount, accounts) \<Rightarrow>
     if bn_less stakesAmount amountToWithdraw
     then rbind (bn_of_number (sa_lamports a)) (\<lambda>_. Inr (stakesAmount, accounts @ [a]))
     else Inr (stakesAmount, accounts))"

definition selectStakeAccounts :: "int \<Rightarrow> stake_account list \<Rightarrow> stake_account list res" where
  "selectStakeAccounts amountToWithdraw funded =
     rbind (rfoldM (select_step amountToWithdraw) (0, []) funded) (\<lambda>acc. Inr (snd acc))"

record withdraw_plan =
  wp_instructions :: "instruction list"
  wp_withdrawStakeAccounts :: "pubkey list"
  wp_splitStakeAccounts :: "pubkey list"

record withdraw_args =
  wa_withdrawRequestAccount :: "pubkey option"
  wa_bondAccount :: "pubkey option"
  wa_configAccount :: "pubkey option"
  wa_voteAccount :: "pubkey option"
  wa_withdrawer :: "pubkey option"
  wa_authority :: "pubkey option"
  wa_splitStakeRentPayer :: "pubkey option"

record withdraw_ctx =
  wx_configAccount :: pubkey
  wx_withdrawRequestAccount :: pubkey
  wx_bondAccount :: pubkey
  wx_requestVote :: pubkey
  wx_rentPayer :: pubkey
  wx_epoch :: int

text \<open>\<open>gen\<close> gives the key of each generated account; \<open>plan_claim\<close> is one claim of the
  withdraw request on a stake account.\<close>

definition plan_claim :: "solana_lib \<Rightarrow> bonds_chain \<Rightarrow> (nat \<Rightarrow> pubkey) \<Rightarrow> withdraw_args \<Rightarrow> withdraw_ctx
    \<Rightarrow> withdraw_plan \<Rightarrow> pubkey \<Rightarrow> withdraw_plan res" where
  "plan_claim sl bc gen wa x p stakeAccount =
     rbind (claimWithdrawRequestInstruction sl bc (gen (length (wp_splitStakeAccounts p)))
       \<lparr> ca_withdrawRequestAccount = Some (wx_withdrawRequestAccount x),
         ca_bondAccount = Some (wx_bondAccount x), ca_configAccount = Some (wx_configAccount x),
         ca_voteAccount = Some (wx_requestVote x), ca_stakeAccount = stakeAccount,
         ca_authority = wa_authority wa, ca_splitStakeRentPayer = Some (wx_rentPayer x),
         ca_withdrawer = wa_withdrawer wa \<rparr>) (\<lambda>r.
     Inr \<lparr> wp_instructions = wp_instructions p @ [cw_instruction r],
           wp_withdrawStakeAccounts = wp_withdrawStakeAccounts p @ [stakeAccount],
           wp_splitStakeAccounts = wp_splitStakeAccounts p @ [cw_splitStakeAccount r] \<rparr>)"

definition plan_step :: "solana_lib \<Rightarrow> bonds_chain \<Rightarrow> (nat \<Rightarrow> pubkey) \<Rightarrow> withdraw_args \<Rightarrow> withdraw_ctx
    \<Rightarrow> stake_account \<Rightarrow> withdraw_plan \<Rightarrow> stake_account \<Rightarrow> withdraw_plan res" where
  "plan_step sl bc gen wa x destination p source =
     (if isFullyActive source (wx_epoch x) = isFullyActive destination (wx_epoch x)
      then rbind (mergeStakeInstruction sl (wx_configAccount x) (sa_address source)
          (sa_address destination) None None) (\<lambda>ix.
        Inr (p \<lparr> wp_instructions := wp_instructions p @ [ix] \<rparr>))
      else plan_claim sl bc gen wa x p (sa_address source))"

definition plan_withdraw :: "solana_lib \<Rightarrow> bonds_chain \<Rightarrow> (nat \<Rightarrow> pubkey) \<Rightarrow> withdraw_args \<Rightarrow> withdraw_ctx
    \<Rightarrow> stake_account list \<Rightarrow> withdraw_plan res" where
  "plan_withdraw sl bc gen wa x accounts =
     (let p0 = \<lparr> wp_instructions = [], wp_withdrawStakeAccounts = [], wp_splitStakeAccounts = [] \<rparr>
      in case accounts of [] \<Rightarrow> Inr p0
         | destination # rest \<Rightarrow>
             rbind (rfoldM (plan_step sl bc gen wa x destination) p0 rest) (\<lambda>p.
               plan_claim sl bc gen wa x p (sa_address destination)))"

record withdraw_result =
  wr_plan :: withdraw_plan
  wr_withdrawRequestAccount :: pubkey
  wr_amountToWithdraw :: int
  wr_voteAccount :: pubkey
  wr_bondAccount :: pubkey

text \<open>The accounts of the withdrawal, from the arguments and the account data.\<close>

definition resolve_withdraw :: "solana_lib \<Rightarrow> bonds_chain \<Rightarrow> withdraw_args
    \<Rightarrow> (withdraw_ctx \<times> withdraw_data) res" where
  "resolve_withdraw sl bc wa =
     rbind (wallet_default sl bc (wa_splitStakeRentPayer wa)) (\<lambda>rentPayer.
     rbind (bond_from sl bc (wa_configAccount wa) (wa_voteAccount wa) (wa_bondAccount wa)) (\<lambda>bond.
     rbind (case (bond, wa_withdrawRequestAccount wa) of
         (None, None) \<Rightarrow> throw EError (''orchestrateWithdrawDeposit: bondAccount and withdrawRequestAccount not provided, ''
             @ ''at least one has to be provided'')
       | (None, Some w) \<Rightarrow> rbind (getWithdrawRequest sl bc w) (\<lambda>d. Inr (Some d, wd_bond d, w))
       | (Some b, None) \<Rightarrow> rbind (withdrawRequestAddress sl b (bc_programId bc)) (\<lambda>r. Inr (None, b, fst r))
       | (Some b, Some w) \<Rightarrow> Inr (None, b, w)) (\<lambda>(requestData, bondAccount, withdrawRequestAccount).
     rbind (case wa_configAccount wa of Some c \<Rightarrow> Inr c
       | None \<Rightarrow> rbind (getBond sl bc bondAccount) (\<lambda>d. Inr (bd_config d))) (\<lambda>configAccount.
     rbind (case requestData of Some d \<Rightarrow> Inr d
       | None \<Rightarrow> getWithdrawRequest sl bc withdrawRequestAccount) (\<lambda>request.
     Inr (\<lparr> wx_configAccount = configAccount,
       wx_withdrawRequestAccount = withdrawRequestAccount, wx_bondAccount = bondAccount,
       wx_requestVote = wd_voteAccount request, wx_rentPayer = rentPayer,
       wx_epoch = st_epoch (bc_stake bc) \<rparr>, request))))))"

definition orchestrateWithdrawDeposit :: "solana_lib \<Rightarrow> bonds_chain \<Rightarrow> (nat \<Rightarrow> pubkey) \<Rightarrow> withdraw_args
    \<Rightarrow> withdraw_result res" where
  "orchestrateWithdrawDeposit sl bc gen wa =
     rbind (resolve_withdraw sl bc wa) (\<lambda>(x, request).
     (let voteAccount = orElse (wa_voteAccount wa) (wd_voteAccount request);
          amountToWithdraw = clamp_amount (wd_requestedAmount request - wd_withdrawnAmount request)
      in rbind (bondsWithdrawerAuthority sl (wx_configAccount x) (bc_programId bc)) (\<lambda>w.
         rbind (findStakeAccounts (bc_stake bc) (Some (fst w)) (Some (fst w))
             (Some (wd_voteAccount request)) (Some (wx_epoch x))) (\<lambda>found.
         (let funded = sort_key sa_lamports found
          in rbind (selectStakeAccounts amountToWithdraw funded) (\<lambda>accounts.
             rbind (plan_withdraw sl bc gen wa x accounts) (\<lambda>p.
             rbind (guard_throw (funded = [] \<and> bn_less 0 amountToWithdraw) EError
                 (''Claim withdraw request failed: No stake accounts found for bond account ''
                  @ ''('' @ pk_b58 sl (wx_bondAccount x) @ '') to process the withdrawal.'')) (\<lambda>_.
             Inr \<lparr> wr_plan = p, wr_withdrawRequestAccount = wx_withdrawRequestAccount x,
               wr_amountToWithdraw = amountToWithdraw, wr_voteAccount = voteAccount,
               wr_bondAccount = wx_bondAccount x \<rparr>))))))))"

section \<open>What the string comparisons do\<close>

lemma nat_str_0 [simp]: "nat_str 0 = ''0''"
  by (subst nat_str.simps) (simp add: digit_char_def)

lemma nat_str_head:
  assumes "0 < n"
  obtains c s where "nat_str n = c # s" "is_digit c" "c \<noteq> CHR ''0''"
  using assms
proof (induction n arbitrary: thesis rule: nat_str.induct)
  case (1 n)
  show ?case
  proof (cases "n < 10")
    case True
    have "nat_str n = digit_char n # []" using True by (subst nat_str.simps) simp
    moreover have "digit_char n \<noteq> CHR ''0''"
      using True "1.prems"(2) less_10_cases [OF True] by (auto simp: digit_char_def)
    ultimately show ?thesis using "1.prems"(1) True by simp
  next
    case False
    have "0 < n div 10" using False by simp
    then obtain c s where *: "nat_str (n div 10) = c # s" "is_digit c" "c \<noteq> CHR ''0''"
      using "1.IH" [OF False] by blast
    have "nat_str n = c # (s @ [digit_char (n mod 10)])"
      using False * by (subst nat_str.simps) simp
    then show ?thesis using "1.prems"(1) * by blast
  qed
qed

lemma digit_above_zero: "is_digit c \<Longrightarrow> c \<noteq> CHR ''0'' \<Longrightarrow> (48 :: nat) < of_char c"
  by (auto simp: is_digit_def)

lemma bn_less_0: "0 < n \<Longrightarrow> bn_less 0 n"
  by (rule nat_str_head [of "nat n"]) (auto simp: bn_less_def int_str_def digit_above_zero)

lemma not_bn_less_0 [simp]: "\<not> bn_less 0 0"
  by (simp add: bn_less_def int_str_def)

lemma clamp_amount_max: "clamp_amount n = max 0 n"
proof (cases "0 < n")
  case True
  then show ?thesis using bn_less_0 [OF True] by (simp add: clamp_amount_def bn_leq_def bn_less_def)
next
  case False
  have "bn_leq n 0"
  proof (cases "n = 0")
    case True
    then show ?thesis by (simp add: bn_leq_def int_str_def)
  next
    case False
    then have "int_str n = CHR ''-'' # nat_str (nat (- n))"
      using \<open>\<not> 0 < n\<close> by (simp add: int_str_def)
    then show ?thesis by (simp add: bn_leq_def int_str_def)
  qed
  then show ?thesis using False by (simp add: clamp_amount_def)
qed

lemma select_steps:
  assumes "\<forall>a\<in>set xs. fits53 (sa_lamports a)" and "0 < n"
  shows "rfoldM (select_step n) (0, as) xs = Inr (0, as @ xs)"
  using assms(1)
  by (induction xs arbitrary: as) (auto simp: select_step_def bn_less_0 [OF assms(2)] bn_of_number_def)

lemma select_all:
  assumes "\<forall>a\<in>set xs. fits53 (sa_lamports a)"
  shows "selectStakeAccounts (clamp_amount n) xs = Inr (if 0 < n then xs else [])"
proof (cases "0 < n")
  case True
  then show ?thesis
    using select_steps [OF assms True, of "[]"] by (simp add: selectStakeAccounts_def clamp_amount_max)
next
  case False
  have "rfoldM (select_step 0) (0, []) xs = Inr (0, [])"
    by (induction xs) (auto simp: select_step_def)
  then show ?thesis using False by (simp add: selectStakeAccounts_def clamp_amount_max)
qed


section \<open>The instructions of a withdrawal\<close>

definition merges_into :: "instruction \<Rightarrow> pubkey \<Rightarrow> pubkey \<Rightarrow> bool" where
  "merges_into ix source destination \<longleftrightarrow> ix_name ix = ''mergeStake''
     \<and> ix_account_of ix ''sourceStake'' = Some (Key source)
     \<and> ix_account_of ix ''destinationStake'' = Some (Key destination)"

definition claims_from :: "withdraw_ctx \<Rightarrow> instruction \<Rightarrow> pubkey \<Rightarrow> bool" where
  "claims_from x ix stakeAccount \<longleftrightarrow> ix_name ix = ''claimWithdrawRequest''
     \<and> ix_account_of ix ''stakeAccount'' = Some (Key stakeAccount)
     \<and> ix_account_of ix ''withdrawRequest'' = Some (Key (wx_withdrawRequestAccount x))
     \<and> ix_account_of ix ''bond'' = Some (Key (wx_bondAccount x))
     \<and> ix_account_of ix ''voteAccount'' = Some (Key (wx_requestVote x))"

definition same_activity :: "withdraw_ctx \<Rightarrow> stake_account \<Rightarrow> stake_account \<Rightarrow> bool" where
  "same_activity x d a \<longleftrightarrow> isFullyActive a (wx_epoch x) = isFullyActive d (wx_epoch x)"

definition handles :: "withdraw_ctx \<Rightarrow> stake_account \<Rightarrow> stake_account \<Rightarrow> instruction \<Rightarrow> bool" where
  "handles x d a ix \<longleftrightarrow> (if same_activity x d a then merges_into ix (sa_address a) (sa_address d)
     else claims_from x ix (sa_address a))"

definition gen_ok :: "(nat \<Rightarrow> pubkey) \<Rightarrow> withdraw_plan \<Rightarrow> bool" where
  "gen_ok gen p \<longleftrightarrow>
     wp_splitStakeAccounts p = map gen [0..<length (wp_withdrawStakeAccounts p)]"

lemma mergeStake_merges:
  "mergeStakeInstruction sl c s d se st = Inr ix \<Longrightarrow> merges_into ix s d"
  by (auto simp: mergeStakeInstruction_def Let_def rbind_eq_Inr merges_into_def ix_account_of_def)

lemma plan_claim_ok:
  assumes "plan_claim sl bc gen wa x p k = Inr p'" and "gen_ok gen p"
  shows "\<exists>ix. claims_from x ix k \<and> wp_instructions p' = wp_instructions p @ [ix]
    \<and> wp_withdrawStakeAccounts p' = wp_withdrawStakeAccounts p @ [k] \<and> gen_ok gen p'"
  using assms
  by (auto simp: plan_claim_def claimWithdrawRequestInstruction_def claim_resolve_def checkAndGetBondAddress_def
      rbind_eq_Inr bond_from_def claims_from_def ix_account_of_def gen_ok_def)

lemma plan_step_ok:
  assumes "plan_step sl bc gen wa x d p a = Inr p'" and "gen_ok gen p"
  shows "\<exists>ix. handles x d a ix \<and> wp_instructions p' = wp_instructions p @ [ix]
    \<and> wp_withdrawStakeAccounts p' = wp_withdrawStakeAccounts p @ (if same_activity x d a then [] else [sa_address a])
    \<and> gen_ok gen p'"
proof (cases "same_activity x d a")
  case True
  then obtain ix where "mergeStakeInstruction sl (wx_configAccount x) (sa_address a) (sa_address d) None None = Inr ix"
    and "p' = p \<lparr> wp_instructions := wp_instructions p @ [ix] \<rparr>"
    using assms(1) by (auto simp: plan_step_def same_activity_def rbind_eq_Inr)
  then show ?thesis using True mergeStake_merges assms(2) by (auto simp: handles_def gen_ok_def)
next
  case False
  then have "plan_claim sl bc gen wa x p (sa_address a) = Inr p'"
    using assms(1) by (simp add: plan_step_def same_activity_def)
  from plan_claim_ok [OF this assms(2)] show ?thesis using False by (auto simp: handles_def)
qed

lemma plan_steps_ok:
  assumes "rfoldM (plan_step sl bc gen wa x d) p as = Inr p'" and "gen_ok gen p"
  shows "\<exists>ixs. list_all2 (handles x d) as ixs \<and> wp_instructions p' = wp_instructions p @ ixs
    \<and> wp_withdrawStakeAccounts p' = wp_withdrawStakeAccounts p
        @ map sa_address (filter (\<lambda>a. \<not> same_activity x d a) as)
    \<and> gen_ok gen p'"
  using assms
proof (induction as arbitrary: p)
  case Nil
  then show ?case by simp
next
  case (Cons a as)
  then obtain q where q: "plan_step sl bc gen wa x d p a = Inr q"
    and q': "rfoldM (plan_step sl bc gen wa x d) q as = Inr p'"
    by (auto simp: rbind_eq_Inr)
  obtain ix where ix: "handles x d a ix" "wp_instructions q = wp_instructions p @ [ix]"
    "wp_withdrawStakeAccounts q = wp_withdrawStakeAccounts p @ (if same_activity x d a then [] else [sa_address a])"
    "gen_ok gen q"
    using plan_step_ok [OF q Cons.prems(2)] by blast
  obtain ixs where ixs: "list_all2 (handles x d) as ixs" "wp_instructions p' = wp_instructions q @ ixs"
    "wp_withdrawStakeAccounts p' = wp_withdrawStakeAccounts q
        @ map sa_address (filter (\<lambda>a. \<not> same_activity x d a) as)" "gen_ok gen p'"
    using Cons.IH [OF q' ix(4)] by blast
  show ?case using ix ixs by (intro exI [of _ "ix # ixs"]) simp
qed

lemma plan_withdraw_ok:
  assumes "plan_withdraw sl bc gen wa x (d # as) = Inr p"
  shows "\<exists>ixs ix. wp_instructions p = ixs @ [ix] \<and> list_all2 (handles x d) as ixs
    \<and> claims_from x ix (sa_address d)
    \<and> wp_withdrawStakeAccounts p
        = map sa_address (filter (\<lambda>a. \<not> same_activity x d a) as) @ [sa_address d]
    \<and> wp_splitStakeAccounts p = map gen [0..<length (wp_withdrawStakeAccounts p)]"
proof -
  let ?p0 = "\<lparr> wp_instructions = [], wp_withdrawStakeAccounts = [], wp_splitStakeAccounts = [] \<rparr>"
  obtain q where q: "rfoldM (plan_step sl bc gen wa x d) ?p0 as = Inr q"
    and p: "plan_claim sl bc gen wa x q (sa_address d) = Inr p"
    using assms by (auto simp: plan_withdraw_def Let_def rbind_eq_Inr)
  have "gen_ok gen ?p0" by (simp add: gen_ok_def)
  from plan_steps_ok [OF q this] obtain ixs where ixs: "list_all2 (handles x d) as ixs"
    "wp_instructions q = ixs" "gen_ok gen q"
    "wp_withdrawStakeAccounts q = map sa_address (filter (\<lambda>a. \<not> same_activity x d a) as)"
    by auto
  from plan_claim_ok [OF p ixs(3)] ixs show ?thesis by (auto simp: gen_ok_def)
qed

text \<open>The parts of a run that returned.\<close>

lemma resolve_withdraw_ctx:
  assumes "resolve_withdraw sl bc wa = Inr (x, request)"
  shows "wx_requestVote x = wd_voteAccount request" and "wx_epoch x = st_epoch (bc_stake bc)"
  using assms by (auto simp: resolve_withdraw_def rbind_eq_Inr)

lemma orchestrateE:
  assumes "orchestrateWithdrawDeposit sl bc gen wa = Inr r"
  obtains request w n found x where
    "resolve_withdraw sl bc wa = Inr (x, request)" and
    "bondsWithdrawerAuthority sl (wx_configAccount x) (bc_programId bc) = Inr (w, n)" and
    "findStakeAccounts (bc_stake bc) (Some w) (Some w) (Some (wd_voteAccount request))
       (Some (wx_epoch x)) = Inr found" and
    "wr_amountToWithdraw r = max 0 (wd_requestedAmount request - wd_withdrawnAmount request)" and
    "wr_withdrawRequestAccount r = wx_withdrawRequestAccount x" and "wr_bondAccount r = wx_bondAccount x" and
    "plan_withdraw sl bc gen wa x (if 0 < wr_amountToWithdraw r then sort_key sa_lamports found else [])
       = Inr (wr_plan r)" and
    "0 < wr_amountToWithdraw r \<Longrightarrow> found \<noteq> []"
proof -
  obtain x request w n found accounts where
    x: "resolve_withdraw sl bc wa = Inr (x, request)"
    and w: "bondsWithdrawerAuthority sl (wx_configAccount x) (bc_programId bc) = Inr (w, n)"
    and found: "findStakeAccounts (bc_stake bc) (Some w) (Some w) (Some (wd_voteAccount request))
       (Some (wx_epoch x)) = Inr found"
    and acc: "selectStakeAccounts (clamp_amount (wd_requestedAmount request - wd_withdrawnAmount request))
       (sort_key sa_lamports found) = Inr accounts"
    and p: "plan_withdraw sl bc gen wa x accounts = Inr (wr_plan r)"
    and g: "found = [] \<Longrightarrow> \<not> bn_less 0 (clamp_amount (wd_requestedAmount request - wd_withdrawnAmount request))"
    and r: "wr_withdrawRequestAccount r = wx_withdrawRequestAccount x" "wr_bondAccount r = wx_bondAccount x"
      "wr_amountToWithdraw r = clamp_amount (wd_requestedAmount request - wd_withdrawnAmount request)"
    using assms by (fastforce simp: orchestrateWithdrawDeposit_def Let_def rbind_eq_Inr)
  have fits: "\<forall>a\<in>set (sort_key sa_lamports found). fits53 (sa_lamports a)"
    using loadStakeAccounts_fits found by (auto simp: findStakeAccounts_def)
  have amount: "wr_amountToWithdraw r = max 0 (wd_requestedAmount request - wd_withdrawnAmount request)"
    by (simp add: r(3) clamp_amount_max)
  then have "accounts = (if 0 < wr_amountToWithdraw r then sort_key sa_lamports found else [])"
    using acc select_all [OF fits, of "wd_requestedAmount request - wd_withdrawnAmount request"]
    by (auto simp: max_def split: if_splits)
  moreover have "found \<noteq> []" if "0 < wr_amountToWithdraw r"
    using g bn_less_0 [OF that] r(3) by auto
  ultimately show thesis
    using found p w r(1,2) x amount by (intro that [of x request w n found]) simp_all
qed

end
