(* ===== verification/Sdk_Merkle.thy ===== *)
theory Sdk_Merkle
  imports Sdk_Address
begin

unbundle bit_operations_syntax

text \<open>
  Merkle tree nodes and bond products: \<open>merkleTree.ts\<close> and the rest of \<open>productBond.ts\<close> of
  \<open>packages/validator-bonds-sdk/src\<close>. SHA-256 (CryptoJS) and the base58 and base64 codecs
  are not under src/: they are the fields of \<open>hash_lib\<close>. A CryptoJS word array is its
  32-bit words and the number of significant bytes.

  \<open>wa_bytes_toWordArray\<close> says that the packing into words loses nothing, and
  \<open>node_preimage_inject\<close> that different nodes hash different byte strings.
\<close>

record hash_lib =
  hl_sha256 :: "byte list \<Rightarrow> byte list"
  hl_b58 :: "byte list \<Rightarrow> string"
  hl_b64 :: "byte list \<Rightarrow> string"
  hl_unb64 :: "string \<Rightarrow> byte list"

type_synonym word_array = "32 word list \<times> nat"

section \<open>Word arrays\<close>

text \<open>\<open>words[j >>> 2] |= byteJ << (24 - 8 * (j % 4))\<close>, where a word that does not exist yet
  counts as zero.\<close>

definition or_word :: "nat \<Rightarrow> 32 word \<Rightarrow> 32 word list \<Rightarrow> 32 word list" where
  "or_word i w ws = (if i < length ws then ws[i := ws ! i OR w] else ws @ [w])"

fun word_loop :: "nat \<Rightarrow> byte list \<Rightarrow> 32 word list \<Rightarrow> 32 word list" where
  "word_loop j [] ws = ws"
| "word_loop j (b # bs) ws =
     word_loop (Suc j) bs (or_word (j div 4) (push_bit (24 - 8 * (j mod 4)) (ucast b)) ws)"

definition toWordArray :: "byte list \<Rightarrow> word_array" where
  "toWordArray bytes = (word_loop 0 bytes [], length bytes)"

definition pubkeyToWordArray :: "pubkey \<Rightarrow> word_array" where
  "pubkeyToWordArray k = toWordArray k"

text \<open>The bytes CryptoJS reads from a word array.\<close>

definition wa_byte :: "32 word list \<Rightarrow> nat \<Rightarrow> byte" where
  "wa_byte ws j = ucast (drop_bit (24 - 8 * (j mod 4)) (ws ! (j div 4)))"

definition wa_bytes :: "word_array \<Rightarrow> byte list" where
  "wa_bytes wa = map (wa_byte (fst wa)) [0..<snd wa]"

section \<open>Nodes\<close>

record merkle_node =
  mn_stakeAuthority :: pubkey
  mn_withdrawAuthority :: pubkey
  mn_claim :: int
  mn_index :: int

record node_encoded =
  ne_base58 :: string
  ne_base64 :: string
  ne_buffer :: "byte list"
  ne_words :: "byte list"

definition LEAF_NODE_PREFIX_BUF :: "byte list" where "LEAF_NODE_PREFIX_BUF = [0]"
definition INTERMEDIATE_NODE_PREFIX_BUF :: "byte list" where "INTERMEDIATE_NODE_PREFIX_BUF = [1]"

text \<open>\<open>BN.toBuffer('le', 8)\<close>: the magnitude, an error when it does not fit.\<close>

definition bn_to_le8 :: "int \<Rightarrow> byte list res" where
  "bn_to_le8 i = (if \<bar>i\<bar> < 2 ^ 64 then Inr (le_bytes 8 \<bar>i\<bar>)
     else throw EError ''byte array longer than desired length'')"

definition toEncodings :: "hash_lib \<Rightarrow> byte list \<Rightarrow> node_encoded" where
  "toEncodings hl wordArray =
     (let base64Hash = hl_b64 hl wordArray; buffer = hl_unb64 hl base64Hash
      in \<lparr> ne_base58 = hl_b58 hl buffer, ne_base64 = base64Hash, ne_buffer = buffer, ne_words = buffer \<rparr>)"

definition node_preimage :: "merkle_node \<Rightarrow> byte list res" where
  "node_preimage n =
     rbind (bn_to_le8 (mn_claim n)) (\<lambda>claim.
     rbind (bn_to_le8 (mn_index n)) (\<lambda>index.
     Inr (wa_bytes (pubkeyToWordArray (mn_stakeAuthority n))
        @ wa_bytes (pubkeyToWordArray (mn_withdrawAuthority n)) @ claim @ index)))"

definition node_hash :: "hash_lib \<Rightarrow> merkle_node \<Rightarrow> node_encoded res" where
  "node_hash hl n = rbind (node_preimage n) (\<lambda>p. Inr (toEncodings hl (hl_sha256 hl p)))"

definition hashLeafNodeFromBuffer :: "hash_lib \<Rightarrow> node_encoded \<Rightarrow> node_encoded" where
  "hashLeafNodeFromBuffer hl e = toEncodings hl (hl_sha256 hl (LEAF_NODE_PREFIX_BUF @ ne_buffer e))"

definition hashLeafNode :: "hash_lib \<Rightarrow> merkle_node \<Rightarrow> node_encoded res" where
  "hashLeafNode hl n = rbind (node_hash hl n) (\<lambda>e. Inr (hashLeafNodeFromBuffer hl e))"

definition node_fromString :: "solana_lib \<Rightarrow> string \<Rightarrow> string \<Rightarrow> int \<Rightarrow> int \<Rightarrow> merkle_node res" where
  "node_fromString sl stakeAuthority withdrawAuthority claim index =
     rbind (pk_of_str sl stakeAuthority) (\<lambda>s.
     rbind (pk_of_str sl withdrawAuthority) (\<lambda>w.
     Inr \<lparr> mn_stakeAuthority = s, mn_withdrawAuthority = w, mn_claim = claim, mn_index = index \<rparr>))"

definition hashFromString :: "solana_lib \<Rightarrow> hash_lib \<Rightarrow> string \<Rightarrow> string \<Rightarrow> int \<Rightarrow> int \<Rightarrow> node_encoded res" where
  "hashFromString sl hl stakeAuthority withdrawAuthority claim index =
     rbind (node_fromString sl stakeAuthority withdrawAuthority claim index) (node_hash hl)"

section \<open>Packing loses nothing\<close>

text \<open>The word that a group of at most four bytes makes.\<close>

lemma length_word_loop: "4 * length ws \<le> j + 3 \<Longrightarrow> j \<le> 4 * length ws \<Longrightarrow>
    j + length bs \<le> 4 * length (word_loop j bs ws) \<and> 4 * length (word_loop j bs ws) \<le> j + length bs + 3"
proof (induction j bs ws rule: word_loop.induct)
  case (2 j b bs ws)
  have "length (or_word (j div 4) w ws) = (if j div 4 < length ws then length ws else Suc (length ws))" for w
    by (simp add: or_word_def)
  moreover have "4 * (j div 4) \<le> j" "j < 4 * (j div 4) + 4" by presburger+
  ultimately have "4 * length (or_word (j div 4) w ws) \<le> Suc j + 3"
    "Suc j \<le> 4 * length (or_word (j div 4) w ws)" for w
    using 2(2,3) by (auto split: if_splits)
  from 2(1) [OF this] show ?case by simp
qed simp

lemma bit_wa_byte:
  "k < 8 \<Longrightarrow> bit (wa_byte ws j) k \<longleftrightarrow> bit (ws ! (j div 4)) (k + (24 - 8 * (j mod 4)))"
  by (simp add: wa_byte_def bit_ucast_iff bit_drop_bit_eq add.commute)

text \<open>Adding byte \<open>j\<close> keeps the bytes before it, and sets byte \<open>j\<close> when its place is empty.\<close>

definition packed :: "nat \<Rightarrow> byte list \<Rightarrow> 32 word list \<Rightarrow> bool" where
  "packed j bs ws \<longleftrightarrow> length bs = j \<and> j \<le> 4 * length ws \<and> 4 * length ws \<le> j + 3
     \<and> (\<forall>i<j. wa_byte ws i = bs ! i) \<and> (\<forall>i. j \<le> i \<longrightarrow> i < 4 * length ws \<longrightarrow> wa_byte ws i = 0)"

lemma shift_apart:
  fixes a c k :: nat
  assumes "a < 4" and "c < 4" and "k < 8" and "24 - 8 * c \<le> k + (24 - 8 * a)"
    and "k + (24 - 8 * a) - (24 - 8 * c) < 8"
  shows "a = c"
proof -
  have "a = 0 \<or> a = 1 \<or> a = 2 \<or> a = 3" "c = 0 \<or> c = 1 \<or> c = 2 \<or> c = 3"
    using assms(1,2) by linarith+
  then show ?thesis using assms(3-5) by (elim disjE) simp_all
qed

lemma wa_byte_or_word:
  assumes j: "j \<le> 4 * length ws" "4 * length ws \<le> j + 3" and i: "i div 4 < length (or_word (j div 4) w ws)"
    and w: "w = push_bit (24 - 8 * (j mod 4)) (ucast (b :: byte))"
  shows "wa_byte (or_word (j div 4) w ws) i =
    (if i = j then (if i div 4 < length ws then wa_byte ws i OR b else b)
     else if i div 4 < length ws then wa_byte ws i else 0)"
proof -
  have place: "bit w (k + (24 - 8 * (i mod 4))) \<longleftrightarrow> i mod 4 = j mod 4 \<and> bit b k" if k: "k < 8" for k
  proof -
    have iff: "bit w (k + (24 - 8 * (i mod 4))) \<longleftrightarrow> k + (24 - 8 * (i mod 4)) < 32
        \<and> 24 - 8 * (j mod 4) \<le> k + (24 - 8 * (i mod 4))
        \<and> bit b (k + (24 - 8 * (i mod 4)) - (24 - 8 * (j mod 4)))"
      by (auto simp: w bit_push_bit_iff bit_ucast_iff)
    show ?thesis
    proof (cases "i mod 4 = j mod 4")
      case True
      define A where "A = 24 - 8 * (j mod 4)"
      have "A \<le> 24" by (simp add: A_def)
      moreover have "bit w (k + A) \<longleftrightarrow> k + A < 32 \<and> A \<le> k + A \<and> bit b (k + A - A)"
        using iff unfolding True A_def [symmetric] .
      ultimately show ?thesis unfolding True A_def [symmetric] using k by auto
    next
      case False
      have "\<not> bit b (k + (24 - 8 * (i mod 4)) - (24 - 8 * (j mod 4)))"
        if "24 - 8 * (j mod 4) \<le> k + (24 - 8 * (i mod 4))"
      proof
        assume "bit b (k + (24 - 8 * (i mod 4)) - (24 - 8 * (j mod 4)))"
        then have "k + (24 - 8 * (i mod 4)) - (24 - 8 * (j mod 4)) < LENGTH(8)"
          by (rule bit_imp_le_length)
        then have lt: "k + (24 - 8 * (i mod 4)) - (24 - 8 * (j mod 4)) < 8" by simp
        have "i mod 4 = j mod 4" by (rule shift_apart [OF _ _ k that lt]) simp_all
        with False show False ..
      qed
      then show ?thesis unfolding iff using False by blast
    qed
  qed
  have ij: "i div 4 = j div 4 \<and> i mod 4 = j mod 4 \<longleftrightarrow> i = j" by (metis div_mult_mod_eq)
  show ?thesis
  proof (rule bit_eqI)
    fix k assume "possible_bit TYPE(byte) k"
    then have k: "k < 8" by (simp add: possible_bit_def)
    define sh where "sh = 24 - 8 * (i mod 4)"
    have new: "bit (wa_byte (or_word (j div 4) w ws) i) k \<longleftrightarrow> bit (or_word (j div 4) w ws ! (i div 4)) (k + sh)"
      unfolding sh_def by (rule bit_wa_byte [OF k])
    have old: "bit (wa_byte ws i) k \<longleftrightarrow> bit (ws ! (i div 4)) (k + sh)"
      unfolding sh_def by (rule bit_wa_byte [OF k])
    have pl: "bit w (k + sh) \<longleftrightarrow> i mod 4 = j mod 4 \<and> bit b k"
      unfolding sh_def by (rule place [OF k])
    have bits: "bit (if i = j
        then (if i div 4 < length ws then wa_byte ws i OR b else b)
        else if i div 4 < length ws then wa_byte ws i else 0) k
      \<longleftrightarrow> (i div 4 < length ws \<and> bit (wa_byte ws i) k) \<or> (i = j \<and> bit b k)"
      by (simp add: bit_or_iff)
    have "bit (or_word (j div 4) w ws ! (i div 4)) (k + sh)
      \<longleftrightarrow> (i div 4 < length ws \<and> bit (ws ! (i div 4)) (k + sh)) \<or> (i div 4 = j div 4 \<and> bit w (k + sh))"
    proof (cases "j div 4 < length ws")
      case True
      then have "i div 4 < length ws" using i by (simp add: or_word_def)
      with True show ?thesis by (simp add: or_word_def nth_list_update bit_or_iff)
    next
      case False
      then have "j div 4 = length ws" using j by linarith
      with False i show ?thesis by (auto simp: or_word_def nth_append less_Suc_eq)
    qed
    then show "bit (wa_byte (or_word (j div 4) w ws) i) k = bit (if i = j
        then (if i div 4 < length ws then wa_byte ws i OR b else b)
        else if i div 4 < length ws then wa_byte ws i else 0) k"
      unfolding bits new old pl using ij by blast
  qed
qed

lemma packed_step:
  assumes p: "packed j bs ws"
  shows "packed (Suc j) (bs @ [b]) (or_word (j div 4) (push_bit (24 - 8 * (j mod 4)) (ucast b)) ws)"
proof -
  let ?w = "push_bit (24 - 8 * (j mod 4)) (ucast b) :: 32 word"
  let ?ws = "or_word (j div 4) ?w ws"
  have j: "j \<le> 4 * length ws" "4 * length ws \<le> j + 3" and len: "length bs = j"
    and old: "\<And>i. i < j \<Longrightarrow> wa_byte ws i = bs ! i"
    and zero: "\<And>i. j \<le> i \<Longrightarrow> i < 4 * length ws \<Longrightarrow> wa_byte ws i = 0"
    using p by (auto simp: packed_def)
  have lw: "length ?ws = (if j div 4 < length ws then length ws else Suc (length ws))"
    by (simp add: or_word_def)
  have dj: "j div 4 < length ws \<longleftrightarrow> j < 4 * length ws" by auto
  have len2: "Suc j \<le> 4 * length ?ws" "4 * length ?ws \<le> Suc j + 3"
    using j dj unfolding lw by (auto split: if_splits)
  note byte = wa_byte_or_word [OF j _ refl, of _ b]
  have "wa_byte ?ws i = (bs @ [b]) ! i" if "i < Suc j" for i
  proof (cases "i = j")
    case True
    have "i div 4 < length ?ws" using len2 True by linarith
    from byte [OF this] show ?thesis using True zero [of j] dj by (auto simp: len nth_append)
  next
    case False
    then have "i < j" using that by simp
    then have "i div 4 < length ws" using j by linarith
    moreover from this have "i div 4 < length ?ws" by (simp add: lw)
    ultimately show ?thesis using byte [of i] False old [OF \<open>i < j\<close>] \<open>i < j\<close> by (simp add: nth_append len)
  qed
  moreover have "wa_byte ?ws i = 0" if "Suc j \<le> i" "i < 4 * length ?ws" for i
  proof -
    have "i div 4 < length ?ws" using that by linarith
    from byte [OF this] show ?thesis using that zero [of i] by auto
  qed
  ultimately show ?thesis using len2 by (simp add: packed_def len)
qed

lemma packed_loop: "packed (length as) as ws \<Longrightarrow> packed (length (as @ bs)) (as @ bs) (word_loop (length as) bs ws)"
proof (induction bs arbitrary: as ws)
  case (Cons b bs)
  from packed_step [OF Cons.prems, of b]
  have "packed (length (as @ [b])) (as @ [b])
      (or_word (length as div 4) (push_bit (24 - 8 * (length as mod 4)) (ucast b)) ws)" by simp
  from Cons.IH [OF this] show ?case by simp
qed simp

lemma wa_bytes_toWordArray: "wa_bytes (toWordArray bs) = bs"
proof -
  have "packed 0 [] []" by (simp add: packed_def)
  from packed_loop [of "[]" "[]" bs] this have "packed (length bs) bs (word_loop 0 bs [])" by simp
  then show ?thesis
    by (auto simp: packed_def wa_bytes_def toWordArray_def intro!: nth_equalityI)
qed

section \<open>Preimages\<close>

definition node_ok :: "merkle_node \<Rightarrow> bool" where
  "node_ok n \<longleftrightarrow> is_key (mn_stakeAuthority n) \<and> is_key (mn_withdrawAuthority n)
     \<and> 0 \<le> mn_claim n \<and> mn_claim n < 2 ^ 64 \<and> 0 \<le> mn_index n \<and> mn_index n < 2 ^ 64"

lemma node_preimage_ok:
  "node_ok n \<Longrightarrow> node_preimage n = Inr (mn_stakeAuthority n @ mn_withdrawAuthority n
     @ le_bytes 8 (mn_claim n) @ le_bytes 8 (mn_index n))"
  by (simp add: node_preimage_def bn_to_le8_def node_ok_def pubkeyToWordArray_def wa_bytes_toWordArray)

lemma node_preimage_inject:
  assumes "node_ok m" and "node_ok n" and "node_preimage m = node_preimage n"
  shows "m = n"
proof -
  from assms have "mn_stakeAuthority m = mn_stakeAuthority n" "mn_withdrawAuthority m = mn_withdrawAuthority n"
    "le_bytes 8 (mn_claim m) = le_bytes 8 (mn_claim n)" "le_bytes 8 (mn_index m) = le_bytes 8 (mn_index n)"
    by (simp_all add: node_preimage_ok node_ok_def is_key_def)
  moreover from this assms(1,2) have "mn_claim m = mn_claim n" "mn_index m = mn_index n"
    by (auto simp: node_ok_def intro: le_bytes_inject)
  ultimately show ?thesis by (cases m; cases n) simp
qed

lemma node_preimage_length:
  "node_ok n \<Longrightarrow> \<exists>p. node_preimage n = Inr p \<and> length p = 80"
  by (simp add: node_preimage_ok node_ok_def is_key_def)

end
