(* ===== verification/Sdk_Properties.thy ===== *)
theory Sdk_Properties
  imports Sdk_Orchestrate Sdk_Merkle
begin

text \<open>
  The properties of the SDK, each with its instance on a concrete input. The \<open>demo_*\<close>
  definitions are the inputs: \<open>demo_sl\<close> derives addresses without hashing, the identity on
  the concatenated seeds, which has no collisions.
\<close>

definition demo_sl :: solana_lib where
  "demo_sl = \<lparr> pk_of_str = (\<lambda>s. Inr (bytes_of s)), pk_b58 = (\<lambda>k. ''key''),
     find_pda = (\<lambda>seeds pid. Inr (concat seeds, 255)) \<rparr>"

definition demo_key :: "byte \<Rightarrow> pubkey" where "demo_key b = replicate 32 b"

lemma demo_key_is_key [simp]: "is_key (demo_key b)"
  by (simp add: demo_key_def is_key_def)

lemma demo_key_eq [simp]: "demo_key a = demo_key b \<longleftrightarrow> a = b"
  by (simp add: demo_key_def)

section \<open>Addresses\<close>

text \<open>
  C9: two accounts of the program of different kinds or with different fields have different
  addresses, as long as the address derivation has no collisions: the seeds of \<open>sdk.ts\<close>
  never run into each other. The one exception is the product named \<open>commission\<close> and the
  custom product of that name on the same bond.
\<close>

theorem pda_addresses_distinct:
  assumes "\<And>s t k a b. find_pda sl s pid = Inr (k, a) \<Longrightarrow> find_pda sl t pid = Inr (k, b)
      \<Longrightarrow> concat s = concat t"
    and "pda_ok p" and "pda_ok q"
    and "pda_address sl pid p = Inr (k, a)" and "pda_address sl pid q = Inr (k, b)"
  shows "p = q \<or> (\<exists>bond. {p, q} = {ProductPda bond PCommission, ProductPda bond (PCustom ''commission'')})"
proof (rule pda_preimage_inject [OF assms(2,3)])
  show "concat (pda_seeds p) = concat (pda_seeds q)"
    using assms(1) [of "pda_seeds p" k a "pda_seeds q" b] assms(4,5)
    by (simp add: pda_address_seeds [OF assms(2)] pda_address_seeds [OF assms(3)])
qed

theorem pda_addresses_distinct_witness:
  "let p = ProductPda (demo_key 1) PCommission; q = ProductPda (demo_key 1) (PCustom ''commission'')
   in pda_address demo_sl (demo_key 9) p = pda_address demo_sl (demo_key 9) q \<and>
      (p = q \<or> (\<exists>bond. {p, q} = {ProductPda bond PCommission, ProductPda bond (PCustom ''commission'')}))"
proof -
  let ?p = "ProductPda (demo_key 1) PCommission" and ?q = "ProductPda (demo_key 1) (PCustom ''commission'')"
  have eq: "pda_address demo_sl (demo_key 9) ?p = Inr (BOND_PRODUCT_SEED @ demo_key 1 @ bytes_of ''commission'', 255)"
    "pda_address demo_sl (demo_key 9) ?q = Inr (BOND_PRODUCT_SEED @ demo_key 1 @ bytes_of ''commission'', 255)"
    by (simp_all add: bondProductAddress_def demo_sl_def getProductTypeNameSeed_def getProductTypeName_def)
  have "?p = ?q \<or> (\<exists>bond. {?p, ?q} = {ProductPda bond PCommission, ProductPda bond (PCustom ''commission'')})"
    by (rule pda_addresses_distinct [OF _ _ _ eq]) (simp_all add: demo_sl_def)
  then show ?thesis using eq by simp
qed

section \<open>Claims bitmap\<close>

text \<open>
  C14: the bitmap of a settlement reads, for every index below the number of records, the bit
  of the account data at that index, most significant bit first from byte 56 on, never past
  the end of the data, and rejects every other index.
\<close>

theorem isSet_reads_bit:
  assumes "newBitmap n data = Inr bm" and "0 \<le> n" and "n < 2 ^ 53"
  shows "isSet bm i = (if 0 \<le> i \<and> i < n
      then Inr (bit (data ! (56 + nat (i div 8))) (7 - nat (i mod 8)))
      else throw EError (''Index '' @ int_str i @ '' out of range''))
    \<and> (0 \<le> i \<and> i < n \<longrightarrow> 56 + nat (i div 8) < length data)"
proof (cases "0 \<le> i \<and> i < n")
  case True
  have "i div 8 < bytes_needed n" using bytes_needed_bounds [OF assms(2)] True by linarith
  moreover have "0 \<le> i div 8" using True by (simp add: div_int_pos_iff)
  ultimately have "56 + nat (i div 8) < length data" using newBitmapE(4) [OF assms] by linarith
  then show ?thesis using True isSet_bit [OF assms] by simp
next
  case False
  then show ?thesis using newBitmapE(1) [OF assms] by (auto simp: isSet_def assertValidIndex_def)
qed

definition demo_claims :: "byte list" where
  "demo_claims = replicate 56 0 @ [0xA0, 0x80]"

theorem isSet_reads_bit_witness:
  "\<exists>bm. newBitmap 10 demo_claims = Inr bm \<and> isSet bm 8 = Inr True \<and> isSet bm 9 = Inr False \<and> \<not> is_ok (isSet bm 10)"
proof -
  define bm where "bm = \<lparr> bm_bitmapData = [0xA0, 0x80], bm_maxRecords = 10 \<rparr>"
  have bm: "newBitmap 10 demo_claims = Inr bm"
    by (simp add: newBitmap_ok bytes_needed_def demo_claims_def bm_def)
  show ?thesis using bm isSet_reads_bit [OF bm, of 8] isSet_reads_bit [OF bm, of 9] isSet_reads_bit [OF bm, of 10]
    by (simp add: demo_claims_def nth_append bit_iff_odd)
qed

text \<open>
  The printed bitmap agrees with \<open>isSet\<close>: without its commas it has one character per
  record, and the character of record \<open>i\<close> is \<open>1\<close> exactly when \<open>isSet i\<close>.
\<close>

lemma bitSet_agrees_isSet:
  assumes "newBitmap n data = Inr bm" and "0 \<le> n" and "n < 2 ^ 53"
  shows "\<exists>s c. bitSet bm = Inr (s, c) \<and>
    (let t = filter (\<lambda>x. x \<noteq> CHR '','') s
     in length t = nat n \<and> (\<forall>i<nat n. isSet bm (int i) = Inr (t ! i = CHR ''1'')))"
proof -
  note props = newBitmapE [OF assms]
  let ?bs = "bm_bitmapData bm"
  obtain s c where s: "bitSet bm = Inr (s, c)"
    "filter (\<lambda>x. x \<noteq> CHR '','') s = take (nat n) (concat (map byte_bits ?bs))"
    using bitSet_concat [OF assms] by metis
  have len: "nat n \<le> 8 * length ?bs"
    using props(2) bytes_needed_bounds [OF assms(2)] by linarith
  have "isSet bm (int i) = Inr (take (nat n) (concat (map byte_bits ?bs)) ! i = CHR ''1'')" if i: "i < nat n" for i
  proof -
    have lt: "i div 8 < length ?bs" "i < 8 * length ?bs" using i len by auto
    have "take (nat n) (concat (map byte_bits ?bs)) ! i = bit_char (bit (?bs ! (i div 8)) (7 - i mod 8))"
      using i lt by (simp add: nth_concat_bytes byte_bits_nth)
    moreover have "isSet bm (int i) = Inr (bit (data ! (56 + i div 8)) (7 - i mod 8))"
      using isSet_bit [OF assms, of "int i"] i by (simp add: nat_div_distrib nat_mod_distrib)
    ultimately show ?thesis using props(3) [OF lt(1)] by (simp add: bit_char_def)
  qed
  then show ?thesis using s len by (auto simp: Let_def)
qed

lemma bitSet_agrees_isSet_witness:
  "\<exists>bm s c. newBitmap 10 demo_claims = Inr bm \<and> bitSet bm = Inr (s, c) \<and> isSet bm 8 = Inr True"
proof -
  define bm where "bm = \<lparr> bm_bitmapData = [0xA0, 0x80], bm_maxRecords = 10 \<rparr>"
  have bm: "newBitmap 10 demo_claims = Inr bm"
    by (simp add: newBitmap_ok bytes_needed_def demo_claims_def bm_def)
  have "isSet bm 8 = Inr True"
    using isSet_bit [OF bm, of 8] by (simp add: demo_claims_def nth_append bit_iff_odd)
  then show ?thesis using bm bitSet_agrees_isSet [OF bm] by auto
qed

section \<open>Merkle tree nodes\<close>

text \<open>
  C15: what is hashed for a claim determines the claim. \<open>toWordArray\<close> packs the keys without
  losing a byte, so the hashed string of a well-formed node is its two keys and the
  little-endian amount and index, 80 bytes, and two nodes with equal strings are equal.
\<close>

theorem merkle_node_preimage:
  assumes "node_ok m" and "node_ok n"
  shows "node_preimage m = Inr (mn_stakeAuthority m @ mn_withdrawAuthority m
       @ le_bytes 8 (mn_claim m) @ le_bytes 8 (mn_index m))
    \<and> (node_preimage m = node_preimage n \<longleftrightarrow> m = n)"
  using node_preimage_ok [OF assms(1)] node_preimage_inject [OF assms] by auto

theorem merkle_node_preimage_witness:
  "let m = \<lparr> mn_stakeAuthority = demo_key 1, mn_withdrawAuthority = demo_key 2, mn_claim = 5, mn_index = 7 \<rparr>
   in node_preimage m \<noteq> node_preimage (m \<lparr> mn_index := 8 \<rparr>)"
proof -
  define m where "m = \<lparr> mn_stakeAuthority = demo_key 1, mn_withdrawAuthority = demo_key 2, mn_claim = 5, mn_index = 7 \<rparr>"
  have "node_ok m" "node_ok (m \<lparr> mn_index := 8 \<rparr>)" by (simp_all add: node_ok_def m_def)
  from merkle_node_preimage [OF this] have "node_preimage m \<noteq> node_preimage (m \<lparr> mn_index := 8 \<rparr>) \<longleftrightarrow> m \<noteq> m \<lparr> mn_index := 8 \<rparr>"
    by blast
  moreover have "m \<noteq> m \<lparr> mn_index := 8 \<rparr>" by (simp add: m_def)
  ultimately show ?thesis unfolding m_def Let_def by blast
qed

text \<open>
  The word array that CryptoJS is given stands for exactly the bytes it was made of.
\<close>

lemma toWordArray_roundtrip: "wa_bytes (toWordArray bs) = bs \<and> snd (toWordArray bs) = length bs"
  by (simp add: wa_bytes_toWordArray) (simp add: toWordArray_def)

section \<open>Finding accounts\<close>

text \<open>The accounts of the program in a cluster: bonds, with their configuration, vote account,
  authority and the rest of their data, among accounts of other kinds, whose data is anything
  that does not start with the discriminator of a bond.\<close>

datatype program_account = BondAccount pubkey pubkey pubkey "byte list" | OtherAccount "byte list"

fun account_bytes :: "program_account \<Rightarrow> byte list" where
  "account_bytes (BondAccount c v a rest) = bond_layout c v a rest"
| "account_bytes (OtherAccount d) = d"

fun account_ok :: "program_account \<Rightarrow> bool" where
  "account_ok (BondAccount c v a rest) = (is_key c \<and> is_key v \<and> is_key a)"
| "account_ok (OtherAccount d) = (take 8 d \<noteq> BOND_ACCOUNT_DISCRIMINATOR)"

fun bond_wanted :: "pubkey option \<Rightarrow> pubkey option \<Rightarrow> pubkey option \<Rightarrow> program_account \<Rightarrow> bool" where
  "bond_wanted c v a (BondAccount cc vv aa rest) = (wants c cc \<and> wants v vv \<and> wants a aa)"
| "bond_wanted c v a (OtherAccount d) = False"

definition account_db :: "(pubkey \<times> program_account) list \<Rightarrow> (pubkey \<times> byte list) list" where
  "account_db xs = map (\<lambda>(k, x). (k, account_bytes x)) xs"

lemma account_filters_match:
  assumes "account_ok x" and "key_arg c" and "key_arg v" and "key_arg a"
  shows "list_all (mc_match (account_bytes x)) (bond_filters c v a) \<longleftrightarrow> bond_wanted c v a x"
proof (cases x)
  case (BondAccount cc vv aa rest)
  then show ?thesis using assms by (simp add: bond_filters_match)
next
  case (OtherAccount d)
  have "length BOND_ACCOUNT_DISCRIMINATOR = 8" by (simp add: BOND_ACCOUNT_DISCRIMINATOR_def)
  then show ?thesis using assms OtherAccount by (simp add: bond_filters_def mc_match_def mc_def)
qed

lemma account_db_search:
  assumes "list_all (\<lambda>(k, x). account_ok x) xs" and "key_arg c" and "key_arg v" and "key_arg a"
  shows "filter (\<lambda>(k, d). list_all (mc_match d) (bond_filters c v a)) (account_db xs)
    = account_db (filter (\<lambda>(k, x). bond_wanted c v a x) xs)"
  using assms(1) by (induction xs) (auto simp: account_db_def account_filters_match assms(2-4))

lemma account_db_keys: "map fst (account_db xs) = map fst xs"
  by (simp add: account_db_def comp_def case_prod_beta)

lemma account_db_get: "map_of (account_db xs) k = map_option account_bytes (map_of xs k)"
  by (simp add: account_db_def map_of_map)

text \<open>
  C16: a search for bonds among all accounts of the program. Unless both configuration and
  vote account are given, it returns exactly the bonds that have the configuration, the vote
  account and the authority asked for, in the order of the cluster and decoded, and no account
  of another kind: the offsets of the filters are those of the fields and the discriminator is
  asked for. With both given it reads the one account at the address derived from them and
  throws when there is none; the authority asked for is not looked at, so a bond with another
  authority is returned.
\<close>

theorem findBonds_selects:
  assumes "distinct (map fst xs)" and "list_all (\<lambda>(k, x). account_ok x) xs"
    and "key_arg c" and "key_arg v" and "key_arg a"
  shows "findBonds sl (db_rpc (account_db xs) dec) pid c v a =
    (case (c, v) of
      (Some config, Some vote) \<Rightarrow> rbind (bondAddress sl config vote pid) (\<lambda>(address, bump).
          case map_of xs address of
            None \<Rightarrow> throw EError (''Account does not exist or has no data '' @ pk_b58 sl address)
          | Some x \<Rightarrow> rbind (dec (account_bytes x)) (\<lambda>b. Inr [(address, b)]))
    | _ \<Rightarrow> rmapM (\<lambda>(k, x). rbind (dec (account_bytes x)) (\<lambda>b. Inr (k, b)))
          (filter (\<lambda>(k, x). bond_wanted c v a x) xs))"
proof -
  have search: "findFiltered (db_rpc (account_db xs) dec) (bond_filters c v a)
      = rmapM (\<lambda>(k, x). rbind (dec (account_bytes x)) (\<lambda>b. Inr (k, b)))
          (filter (\<lambda>(k, x). bond_wanted c v a x) xs)"
    using assms(1) by (simp add: findFiltered_db account_db_keys account_db_search [OF assms(2-5)])
      (simp add: account_db_def rmapM_map case_prod_unfold)
  have some: "rbind (rbind r (\<lambda>a. Inr (Some a))) (case_option t Inr) = r" for r and t :: "'a res"
    by (cases r) simp_all
  have "fetch_account sl (db_rpc (account_db xs) dec) k = (case map_of xs k of
        None \<Rightarrow> throw EError (''Account does not exist or has no data '' @ pk_b58 sl k)
      | Some x \<Rightarrow> dec (account_bytes x))" for k
    by (simp add: fetch_account_def fetchNullable_def db_rpc_def account_db_get some split: option.split)
  with search show ?thesis
    by (auto simp: findBonds_def case_prod_beta split: option.split intro!: arg_cong2 [where f = rbind])
qed

definition demo_accounts :: "(pubkey \<times> program_account) list" where
  "demo_accounts = [(demo_key 1, BondAccount (demo_key 11) (demo_key 21) (demo_key 31) [1]),
     (demo_key 4, OtherAccount (WITHDRAW_REQUEST_ACCOUNT_DISCRIMINATOR @ demo_key 11 @ demo_key 21
        @ demo_key 31 @ [4])),
     (demo_key 2, BondAccount (demo_key 11) (demo_key 22) (demo_key 31) [2]),
     (BOND_SEED @ demo_key 12 @ demo_key 21, BondAccount (demo_key 12) (demo_key 21) (demo_key 31) [3])]"

lemma demo_derived [simp]: "demo_key b \<noteq> BOND_SEED @ demo_key c @ demo_key d"
  "BOND_SEED @ demo_key c @ demo_key d \<noteq> demo_key b"
  by (rule notI, drule arg_cong [of _ _ length], simp add: demo_key_def BOND_SEED_def bytes_of_def)+

lemma demo_accounts_ok: "distinct (map fst demo_accounts)"
  "list_all (\<lambda>(k, x). account_ok x) demo_accounts"
  by (simp_all add: demo_accounts_def
      WITHDRAW_REQUEST_ACCOUNT_DISCRIMINATOR_def BOND_ACCOUNT_DISCRIMINATOR_def)

text \<open>The withdraw request with the same bytes in place is not found; by address the bond of
  the configuration and the vote account is returned although its authority is not the one
  asked for.\<close>

theorem findBonds_selects_witness:
  "findBonds demo_sl (db_rpc (account_db demo_accounts) (\<lambda>d. Inr (last d))) (demo_key 9)
     (Some (demo_key 11)) None (Some (demo_key 31)) = Inr [(demo_key 1, 1), (demo_key 2, 2)]
   \<and> findBonds demo_sl (db_rpc (account_db demo_accounts) (\<lambda>d. Inr (last d))) (demo_key 9)
     (Some (demo_key 12)) (Some (demo_key 21)) (Some (demo_key 32))
     = Inr [(BOND_SEED @ demo_key 12 @ demo_key 21, 3)]"
proof
  note sel = findBonds_selects [OF demo_accounts_ok]
  show "findBonds demo_sl (db_rpc (account_db demo_accounts) (\<lambda>d. Inr (last d))) (demo_key 9)
     (Some (demo_key 11)) None (Some (demo_key 31)) = Inr [(demo_key 1, 1), (demo_key 2, 2)]"
    by (subst sel) (simp_all add: demo_accounts_def key_arg_def wants_def bond_layout_def)
  show "findBonds demo_sl (db_rpc (account_db demo_accounts) (\<lambda>d. Inr (last d))) (demo_key 9)
     (Some (demo_key 12)) (Some (demo_key 21)) (Some (demo_key 32))
     = Inr [(BOND_SEED @ demo_key 12 @ demo_key 21, 3)]"
    by (subst sel) (simp_all add: demo_accounts_def key_arg_def bondAddress_def demo_sl_def
        bond_layout_def)
qed

text \<open>
  The filter on a product type selects exactly the products of that type, beside the
  configuration, the bond and the vote account: no custom name is taken for another one or
  for the commission product, although names have different lengths.
\<close>

lemma bond_product_filters_select:
  assumes "is_key config" and "is_key bond" and "is_key vote" and "product_ok t"
    and "key_arg c" and "key_arg b" and "key_arg v"
    and "case p of None \<Rightarrow> True | Some u \<Rightarrow> product_ok u"
  shows "list_all (mc_match (bond_product_layout config bond vote t rest)) (bond_product_filters c b v p)
    \<longleftrightarrow> wants c config \<and> wants b bond \<and> wants v vote \<and> wants p t"
  by (rule bond_product_filters_match [OF assms])

lemma bond_product_filters_select_witness:
  "\<not> list_all (mc_match (bond_product_layout (demo_key 1) (demo_key 2) (demo_key 3) (PCustom ''ab'') []))
      (bond_product_filters None (Some (demo_key 2)) None (Some (PCustom ''a'')))"
  by (subst bond_product_filters_select) (simp_all add: product_ok_def key_arg_def wants_def)

text \<open>
  A search for stake accounts selects by staker, withdrawer and voter.
\<close>

lemma stake_filters_select:
  assumes "length head12 = 12" and "length lockup = 48"
    and "is_key staker" and "is_key withdrawer" and "is_key voter"
    and "key_arg s" and "key_arg w" and "key_arg v"
  shows "list_all (mc_match (stake_layout head12 staker withdrawer lockup voter rest)) (stake_filters s w v)
    \<longleftrightarrow> wants s staker \<and> wants w withdrawer \<and> wants v voter"
  by (rule stake_filters_match [OF assms])

lemma stake_filters_select_witness:
  "list_all (mc_match (stake_layout (replicate 12 0) (demo_key 1) (demo_key 2) (replicate 48 0) (demo_key 3) []))
      (stake_filters (Some (demo_key 1)) None (Some (demo_key 3)))"
  by (subst stake_filters_select) (simp_all add: key_arg_def wants_def)

text \<open>
  The arguments of a commission product are accepted exactly when no rate that is given
  exceeds ten thousand basis points. There is no lower bound.
\<close>

lemma validateCommissionProductArgs_iff:
  "validateCommissionProductArgs d = Inr () \<longleftrightarrow>
     (\<forall>v \<in> {cc_inflationBps d, cc_mevBps d, cc_blockBps d}. case v of None \<Rightarrow> True | Some i \<Rightarrow> i \<le> 10000)"
  by (auto simp: validateCommissionProductArgs_def rbind_eq_Inr bps_guard_def MAX_BPS_def split: option.splits)

lemma validateCommissionProductArgs_iff_witness:
  "validateCommissionProductArgs \<lparr> cc_inflationBps = Some 10000, cc_mevBps = None, cc_blockBps = Some (- 1) \<rparr> = Inr ()"
  by (subst validateCommissionProductArgs_iff) simp

text \<open>\<open>assertEvent\<close> returns the first event of the name asked for and fails only when there is
  none: the check of the event's fields behind it accepts every event.\<close>

lemma assertEvent_first:
  "assertEvent events name = (case List.find (\<lambda>e. ce_name e = name) events of
      None \<Rightarrow> throw EError (''Event '' @ name @ '' not found'') | Some e \<Rightarrow> Inr e)"
  by (simp add: assertEvent_def findEvent_def isEvent_def hasAllProperties_def split: option.split)

section \<open>Funding\<close>

text \<open>A demonstration cluster: bond 7 of vote account 21, three stake accounts, the first two
  held by the withdrawer authority and the third by a settlement, and a withdraw request
  for 10 lamports made in epoch 100.\<close>

definition demo_authority :: pubkey where
  "demo_authority = BONDS_WITHDRAWER_AUTHORITY_SEED @ demo_key 9"

definition demo_stake_state :: "byte list \<Rightarrow> stake_state res" where
  "demo_stake_state d = Inr (SsStake
     \<lparr> sm_staker = (if hd d = 3 then demo_key 30 else demo_authority), sm_withdrawer = demo_authority,
       sm_lockup_timestamp = 0, sm_lockup_epoch = 0, sm_custodian = default_key \<rparr>
     \<lparr> sd_voter = demo_key 21, sd_stake = 1, sd_activationEpoch = (if hd d = 2 then 200 else 5),
       sd_deactivationEpoch = U64_MAX \<rparr>)"

definition demo_stakes :: "(pubkey \<times> raw_account option) list" where
  "demo_stakes = [
     (demo_key 41, Some \<lparr> ra_owner = demo_key 0, ra_lamports = 5, ra_data = [1] \<rparr>),
     (demo_key 42, Some \<lparr> ra_owner = demo_key 0, ra_lamports = 4, ra_data = [2] \<rparr>),
     (demo_key 43, Some \<lparr> ra_owner = demo_key 0, ra_lamports = 11, ra_data = [3] \<rparr>)]"

definition demo_stake_chain :: stake_chain where
  "demo_stake_chain = \<lparr> st_find = (\<lambda>fs. if \<exists>f\<in>set fs. mc_offset f = 12 then [demo_key 41, demo_key 42]
        else map fst demo_stakes),
     st_multiple = map (\<lambda>k. (k, orElse (map_of demo_stakes k) None)),
     st_get = (\<lambda>k. orElse (map_of demo_stakes k) None), st_borsh = demo_stake_state,
     st_epoch = 102, st_now_ms = 0, st_program = demo_key 0, st_endpoint = [] \<rparr>"

definition demo_request :: withdraw_data where
  "demo_request = \<lparr> wd_voteAccount = demo_key 21, wd_bond = demo_key 7, wd_epoch = 100,
     wd_requestedAmount = 10, wd_withdrawnAmount = 0 \<rparr>"

definition demo_withdraw_address :: pubkey where
  "demo_withdraw_address = WITHDRAW_REQUEST_SEED @ demo_key 7"

definition demo_chain :: bonds_chain where
  "demo_chain = \<lparr> bc_programId = demo_key 8, bc_stake = demo_stake_chain,
     bc_configs = db_rpc [(demo_key 9, [])] (\<lambda>d. Inr \<lparr> cd_admin = [], cd_operator = [], cd_pause = [],
        cd_withdrawLockupEpochs = 3, cd_minimumStakeLamports = 1000 \<rparr>),
     bc_bonds = db_rpc [(demo_key 7, [])] (\<lambda>d. Inr \<lparr> bd_config = demo_key 9,
        bd_voteAccount = demo_key 21, bd_authority = [], bd_cpmpe = 0 \<rparr>),
     bc_withdraws = db_rpc [(demo_withdraw_address, [])] (\<lambda>d. Inr demo_request),
     bc_settlements = db_rpc [(demo_key 70, [])] (\<lambda>d. Inr \<lparr> sd_bond = demo_key 7, sd_stakerAuthority = demo_key 72,
        sd_rentCollector = demo_key 71, sd_splitRentCollector = None \<rparr>),
     bc_products = db_rpc [] (\<lambda>d. throw EError ''no product''),
     bc_wallet = Some (demo_key 50), bc_nodePubkey = (\<lambda>v. Inr (demo_key 51)) \<rparr>"

definition demo_account :: "byte \<Rightarrow> int \<Rightarrow> pubkey \<Rightarrow> int \<Rightarrow> stake_account" where
  "demo_account k lamports staker activation = \<lparr> sa_address = demo_key k, sa_lamports = lamports,
     sa_withdrawer = Some demo_authority, sa_staker = Some staker, sa_voter = Some (demo_key 21),
     sa_activationEpoch = Some activation, sa_deactivationEpoch = Some U64_MAX,
     sa_isCoolingDown = False, sa_isLockedUp = False, sa_stakedLamports = Some 1,
     sa_currentEpoch = 102, sa_currentTimestamp = 0 \<rparr>"

definition demo_bond_accounts :: "stake_account list" where
  "demo_bond_accounts = [demo_account 41 5 demo_authority 5, demo_account 42 4 demo_authority 200]"

definition demo_settlement_accounts :: "stake_account list" where
  "demo_settlement_accounts = [demo_account 43 11 (demo_key 30) 5]"

definition demo_funding :: bond_funding where
  "demo_funding = \<lparr> bf_bondAccount = demo_key 7, bf_voteAccount = demo_key 21, bf_amountOwned = 20,
     bf_amountActive = - 1, bf_numberActiveStakeAccounts = 2, bf_amountAtSettlements = 11,
     bf_numberSettlementStakeAccounts = 1, bf_amountToWithdraw = 9,
     bf_epochsToElapseToWithdraw = Some 2,
     bf_withdrawRequest = Some (demo_withdraw_address, demo_request), bf_amountFundedAtBond = 9,
     bf_bondFunded = demo_bond_accounts, bf_settlementFunded = demo_settlement_accounts \<rparr>"

lemma demo_authority_eq [simp]: "demo_authority \<noteq> demo_key b" "demo_key b \<noteq> demo_authority"
  by (auto simp: demo_authority_def BONDS_WITHDRAWER_AUTHORITY_SEED_def demo_key_def bytes_of_def dest!: arg_cong [of _ _ length])

lemma demo_loaded:
  "findStakeAccounts demo_stake_chain None (Some w) None (Some e) = loadStakeAccounts demo_stake_chain (map fst demo_stakes) (Some e)"
  by (simp add: findStakeAccounts_def findStakeAccountNoDataInfos_def demo_stake_chain_def stake_filters_def
      opt_filter_def mc_def WITHDRAWER_OFFSET_def)

lemmas demo_load_defs = loadStakeAccounts_def demo_stake_chain_def demo_stakes_def present_def load_one_def
  deserializeStakeState_def stake_adjusted_def demo_stake_state_def parseStakeAccountData_def Let_def
  bn_of_number_def bn_toNumber_def fits53_def getMeta_def getDelegation_def isCoolingDown_def isLockedUp_def
  demo_account_def

lemma demo_config_accounts:
  "findConfigStakeAccounts demo_sl demo_chain (Some (demo_key 9)) None (Some 102)
     = Inr (demo_bond_accounts @ demo_settlement_accounts)"
proof -
  have "loadStakeAccounts demo_stake_chain (map fst demo_stakes) (Some 102)
      = Inr (demo_bond_accounts @ demo_settlement_accounts)"
    by (simp add: demo_load_defs demo_bond_accounts_def demo_settlement_accounts_def)
  moreover have "parseNotLocked (demo_bond_accounts @ demo_settlement_accounts)
      = demo_bond_accounts @ demo_settlement_accounts"
    by (simp add: parseNotLocked_def demo_bond_accounts_def demo_settlement_accounts_def demo_account_def)
  moreover have "bondsWithdrawerAuthority demo_sl (demo_key 9) (demo_key 8) = Inr (demo_authority, 255)"
    by (simp add: bondsWithdrawerAuthority_def demo_sl_def demo_authority_def)
  ultimately show ?thesis
    by (simp add: findConfigStakeAccounts_def demo_chain_def demo_loaded)
qed


lemma demo_entries:
  "fund_entries demo_sl demo_chain (demo_key 9) [(Some (demo_key 7), None)]
     = Inr [(demo_key 7, \<lparr> fe_voteAccount = demo_key 21,
         fe_withdrawRequest = Some (demo_withdraw_address, demo_request) \<rparr>)]"
  by (simp add: fund_entries_def derive_entry_def set_vote_def set_withdraw_def getMultipleDecoded_def
      getMultiAccounts_def mapAccountInfoToProgramAccount_def demo_chain_def db_rpc_def withdrawRequestAddress_def
      demo_sl_def demo_withdraw_address_def demo_request_def)

lemma demo_getBondsFunding:
  assumes "e = None \<or> e = Some 102"
  shows "getBondsFunding demo_sl demo_chain (demo_key 9) [Some (demo_key 7)] [] e = Inr [demo_funding]"
proof -
  have ep: "st_epoch (bc_stake demo_chain) = 102" by (simp add: demo_chain_def demo_stake_chain_def)
  have groups: "groupByVoter (filter is_bond_funded (demo_bond_accounts @ demo_settlement_accounts))
      = Inr [(demo_key 21, demo_bond_accounts)]"
    "groupByVoter (filter is_settlement_funded (demo_bond_accounts @ demo_settlement_accounts))
      = Inr [(demo_key 21, demo_settlement_accounts)]"
    by (simp_all add: groupByVoter_def group_step_def demo_bond_accounts_def demo_settlement_accounts_def
        demo_account_def is_bond_funded_def is_settlement_funded_def has_authorities_def)
  have cfg: "getConfig demo_sl demo_chain (demo_key 9)
      = Inr \<lparr> cd_admin = [], cd_operator = [], cd_pause = [], cd_withdrawLockupEpochs = 3, cd_minimumStakeLamports = 1000 \<rparr>"
    by (simp add: getConfig_def fetch_account_def fetchNullable_def demo_chain_def db_rpc_def)
  have row: "funding_row [(demo_key 21, demo_bond_accounts)] [(demo_key 21, demo_settlement_accounts)] 102 3
      (demo_key 7, \<lparr> fe_voteAccount = demo_key 21,
         fe_withdrawRequest = Some (demo_withdraw_address, demo_request) \<rparr>) = Inr demo_funding"
    by (simp add: funding_row_def Let_def calculateFundedAmount_def demo_bond_accounts_def bn_of_number_def fits53_def
        demo_settlement_accounts_def demo_account_def demo_funding_def withdrawal_requested_def
        amount_to_withdraw_def epochs_to_elapse_def demo_request_def)
  have "(case e of Some e \<Rightarrow> Inr e | None \<Rightarrow> bn_of_number (st_epoch (bc_stake demo_chain))) = Inr 102"
    using assms by (auto simp: ep bn_of_number_def fits53_def)
  then show ?thesis
    by (simp add: getBondsFunding_def Let_def fill_undefined_def demo_entries
        demo_config_accounts groups cfg row del: filter_append)
qed

text \<open>
  C11: every row that \<open>getBondsFunding\<close> returns is exact. The bond's stake accounts are the
  unlocked accounts under the withdrawer authority that vote for its vote account, divided by
  their staker into those of the bond and those of settlements; the amounts are their sums;
  the withdraw request, when there is one, is a request on that bond.
\<close>

theorem getBondsFunding_row:
  assumes "getBondsFunding sl bc config bonds votes epoch = Inr rows" and "r \<in> set rows"
  shows "\<exists>accounts cfg.
    findConfigStakeAccounts sl bc (Some config) None (Some (orElse epoch (st_epoch (bc_stake bc)))) = Inr accounts \<and>
    getConfig sl bc config = Inr cfg \<and>
    row_ok accounts (orElse epoch (st_epoch (bc_stake bc))) (cd_withdrawLockupEpochs cfg) r \<and>
    (case bf_withdrawRequest r of None \<Rightarrow> True | Some (k, w) \<Rightarrow> wd_bond w = bf_bondAccount r)"
  by (rule getBondsFunding_row' [OF assms])

theorem getBondsFunding_row_witness:
  "row_ok (demo_bond_accounts @ demo_settlement_accounts) 102 3 demo_funding"
proof -
  have ep: "st_epoch (bc_stake demo_chain) = 102" by (simp add: demo_chain_def demo_stake_chain_def)
  from getBondsFunding_row [OF demo_getBondsFunding, of None demo_funding]
  obtain xs cfg where "findConfigStakeAccounts demo_sl demo_chain (Some (demo_key 9)) None (Some 102) = Inr xs"
    and cfg: "getConfig demo_sl demo_chain (demo_key 9) = Inr cfg"
    and row: "row_ok xs 102 (cd_withdrawLockupEpochs cfg) demo_funding"
    by (auto simp: ep)
  then have "xs = demo_bond_accounts @ demo_settlement_accounts" using demo_config_accounts by simp
  moreover have "cd_withdrawLockupEpochs cfg = 3"
    using cfg by (auto simp: getConfig_def fetch_account_def fetchNullable_def demo_chain_def db_rpc_def)
  ultimately show ?thesis using row by simp
qed

text \<open>
  C12: what a row offers for withdrawal is covered. With a request of which no more has been
  withdrawn than was requested, the amount to withdraw is the smaller of what is left of the
  request and what the bond holds, so never negative and never more than the bond holds; and
  the epochs left to wait are given exactly while the lockup has not elapsed, at least one.
\<close>

theorem getBondsFunding_withdrawable:
  assumes "getBondsFunding sl bc config bonds votes (Some epoch) = Inr rows" and "r \<in> set rows"
    and "getConfig sl bc config = Inr cfg"
    and "bf_withdrawRequest r = Some (k, w)" and "wd_withdrawnAmount w \<le> wd_requestedAmount w"
    and "0 \<le> bf_amountFundedAtBond r"
  shows "bf_amountToWithdraw r = min (bf_amountFundedAtBond r) (wd_requestedAmount w - wd_withdrawnAmount w)
    \<and> 0 \<le> bf_amountToWithdraw r \<and> bf_amountToWithdraw r \<le> bf_amountFundedAtBond r
    \<and> bf_epochsToElapseToWithdraw r = (if epoch < wd_epoch w + cd_withdrawLockupEpochs cfg + 1
        then Some (wd_epoch w + cd_withdrawLockupEpochs cfg + 1 - epoch) else None)"
proof -
  obtain xs cfg' where "getConfig sl bc config = Inr cfg'" "row_ok xs epoch (cd_withdrawLockupEpochs cfg') r"
    using getBondsFunding_row' [OF assms(1,2)] by auto
  then have "row_ok xs epoch (cd_withdrawLockupEpochs cfg) r" using assms(3) by simp
  then show ?thesis using assms(4-6)
    by (auto simp: row_ok_def withdrawal_requested_def amount_to_withdraw_def epochs_to_elapse_def min_def)
qed

theorem getBondsFunding_withdrawable_witness:
  "bf_amountToWithdraw demo_funding = min 9 (10 - 0) \<and> bf_epochsToElapseToWithdraw demo_funding = Some 2"
proof -
  have run: "getBondsFunding demo_sl demo_chain (demo_key 9) [Some (demo_key 7)] [] (Some 102) = Inr [demo_funding]"
    by (rule demo_getBondsFunding) simp
  have cfg: "getConfig demo_sl demo_chain (demo_key 9)
      = Inr \<lparr> cd_admin = [], cd_operator = [], cd_pause = [], cd_withdrawLockupEpochs = 3, cd_minimumStakeLamports = 1000 \<rparr>"
    by (simp add: getConfig_def fetch_account_def fetchNullable_def demo_chain_def db_rpc_def)
  have "bf_withdrawRequest demo_funding = Some (demo_withdraw_address, demo_request)"
    "wd_withdrawnAmount demo_request \<le> wd_requestedAmount demo_request" "0 \<le> bf_amountFundedAtBond demo_funding"
    by (simp_all add: demo_funding_def demo_request_def)
  from getBondsFunding_withdrawable [OF run _ cfg this] show ?thesis
    by (simp add: demo_funding_def demo_request_def)
qed


text \<open>
  C13: nothing is counted twice. The bonds of the rows differ, and when their vote accounts
  differ too, the amounts owned add up to no more than what the configuration's unlocked
  stake accounts hold together.
\<close>

theorem getBondsFunding_no_double:
  assumes "getBondsFunding sl bc config bonds votes (Some epoch) = Inr rows"
    and "findConfigStakeAccounts sl bc (Some config) None (Some epoch) = Inr accounts"
    and "list_all (\<lambda>a. 0 \<le> sa_lamports a) accounts" and "distinct (map bf_voteAccount rows)"
  shows "distinct (map bf_bondAccount rows)
    \<and> (\<Sum>r\<leftarrow>rows. bf_amountOwned r) \<le> (\<Sum>a\<leftarrow>accounts. sa_lamports a)"
proof -
  obtain m e xs cfg bvs where m: "fund_entries sl bc config bvs = Inr m"
    and e: "e = orElse (Some epoch) (st_epoch (bc_stake bc))"
    and xs: "findConfigStakeAccounts sl bc (Some config) None (Some e) = Inr xs"
    and cfg: "getConfig sl bc config = Inr cfg"
    and rows': "list_all2 (\<lambda>(b, f) r. bf_bondAccount r = b \<and> bf_voteAccount r = fe_voteAccount f
        \<and> bf_withdrawRequest r = fe_withdrawRequest f
        \<and> row_ok xs e (cd_withdrawLockupEpochs cfg) r) m rows"
    by (rule getBondsFunding_rows [OF assms(1)])
  have rows: "list_all2 (\<lambda>(b, f) r. bf_bondAccount r = b \<and> bf_voteAccount r = fe_voteAccount f
        \<and> bf_withdrawRequest r = fe_withdrawRequest f
        \<and> row_ok accounts epoch (cd_withdrawLockupEpochs cfg) r) m rows"
    using rows' xs e assms(2) by simp
  obtain m0 where m0: "rfoldM (derive_entry sl bc config) [] bvs = Inr m0" "map fst m = map fst m0"
    by (rule fund_entries_keys [OF m]) simp
  have "map bf_bondAccount rows = map fst m"
    using rows by (induction rule: list_all2_induct) auto
  then have "distinct (map bf_bondAccount rows)" using derive_distinct(1) [OF m0(1)] m0(2) by simp
  moreover
  let ?owned = "\<lambda>v. \<Sum>a\<leftarrow>filter (\<lambda>a. has_authorities a \<and> sa_voter a = Some v) accounts. sa_lamports a"
  have "\<forall>r\<in>set rows. \<exists>l. row_ok accounts epoch l r"
    using rows by (fastforce simp: list_all2_conv_all_nth in_set_conv_nth)
  then have eq: "map bf_amountOwned rows = map ?owned (map bf_voteAccount rows)"
    using owned_sum by fastforce
  have "(\<Sum>r\<leftarrow>rows. bf_amountOwned r) \<le> (\<Sum>a\<leftarrow>accounts. sa_lamports a)"
    unfolding eq by (rule sum_by_key [OF assms(4)]) (use assms(3) in \<open>simp add: list_all_iff\<close>)
  ultimately show ?thesis by simp
qed

theorem getBondsFunding_no_double_witness:
  "bf_amountOwned demo_funding \<le> (\<Sum>a\<leftarrow>demo_bond_accounts @ demo_settlement_accounts. sa_lamports a)"
proof -
  have run: "getBondsFunding demo_sl demo_chain (demo_key 9) [Some (demo_key 7)] [] (Some 102) = Inr [demo_funding]"
    by (rule demo_getBondsFunding) simp
  have "list_all (\<lambda>a. 0 \<le> sa_lamports a) (demo_bond_accounts @ demo_settlement_accounts)"
    by (simp add: demo_bond_accounts_def demo_settlement_accounts_def demo_account_def)
  from getBondsFunding_no_double [OF run demo_config_accounts this] show ?thesis by simp
qed

section \<open>Withdrawing\<close>

text \<open>
  C10: a withdrawal that the orchestration builds involves every stake account found for the
  bond, whatever the amount, as soon as something is left to withdraw, and none otherwise.
  In order of their lamports, each account but the smallest is merged into the smallest when
  both are active or both are not, and is claimed from by itself otherwise; the last
  instruction claims from the smallest; the claimed accounts are returned with one generated
  account each. (The code means to stop once the accounts cover the amount.)
\<close>

theorem orchestrate_takes_all:
  assumes "orchestrateWithdrawDeposit sl bc gen wa = Inr r"
    and "resolve_withdraw sl bc wa = Inr (x, request)"
    and "bondsWithdrawerAuthority sl (wx_configAccount x) (bc_programId bc) = Inr (w, n)"
    and "findStakeAccounts (bc_stake bc) (Some w) (Some w) (Some (wd_voteAccount request))
       (Some (wx_epoch x)) = Inr found"
  shows "wr_amountToWithdraw r = max 0 (wd_requestedAmount request - wd_withdrawnAmount request)
    \<and> (if wd_requestedAmount request \<le> wd_withdrawnAmount request
       then wp_instructions (wr_plan r) = []
       else \<exists>d others ixs ix. sort_key sa_lamports found = d # others
         \<and> wp_instructions (wr_plan r) = ixs @ [ix]
         \<and> list_all2 (handles x d) others ixs \<and> claims_from x ix (sa_address d)
         \<and> wp_withdrawStakeAccounts (wr_plan r)
             = map sa_address (filter (\<lambda>a. \<not> same_activity x d a) others) @ [sa_address d]
         \<and> wp_splitStakeAccounts (wr_plan r)
             = map gen [0..<length (wp_withdrawStakeAccounts (wr_plan r))])"
proof -
  have amount: "wr_amountToWithdraw r = max 0 (wd_requestedAmount request - wd_withdrawnAmount request)"
    and plan: "plan_withdraw sl bc gen wa x (if 0 < wr_amountToWithdraw r then sort_key sa_lamports found else [])
       = Inr (wr_plan r)"
    and some: "0 < wr_amountToWithdraw r \<Longrightarrow> found \<noteq> []"
    using orchestrateE [OF assms(1)] assms(2-4) by (metis old.prod.inject sum.inject(2))+
  show ?thesis
  proof (cases "wd_requestedAmount request \<le> wd_withdrawnAmount request")
    case True
    then have "wr_plan r = \<lparr> wp_instructions = [], wp_withdrawStakeAccounts = [], wp_splitStakeAccounts = [] \<rparr>"
      using amount plan by (simp add: plan_withdraw_def)
    then show ?thesis using True amount by simp
  next
    case False
    then have pos: "0 < wr_amountToWithdraw r" using amount by simp
    then obtain d others where d: "sort_key sa_lamports found = d # others"
      using some by (cases "sort_key sa_lamports found") (auto dest: arg_cong [of _ _ length])
    then show ?thesis using plan_withdraw_ok [of sl bc gen wa x d others "wr_plan r"] plan pos False amount by auto
  qed
qed

definition demo_withdraw_args :: withdraw_args where
  "demo_withdraw_args = \<lparr> wa_withdrawRequestAccount = None, wa_bondAccount = Some (demo_key 7),
     wa_configAccount = Some (demo_key 9), wa_voteAccount = None, wa_withdrawer = Some (demo_key 51),
     wa_authority = None, wa_splitStakeRentPayer = None \<rparr>"

definition demo_withdraw_ctx :: withdraw_ctx where
  "demo_withdraw_ctx = \<lparr> wx_configAccount = demo_key 9, wx_withdrawRequestAccount = demo_withdraw_address,
     wx_bondAccount = demo_key 7, wx_requestVote = demo_key 21, wx_rentPayer = demo_key 50, wx_epoch = 102 \<rparr>"

lemma demo_chain_simps [simp]:
  "bc_programId demo_chain = demo_key 8" "bc_stake demo_chain = demo_stake_chain"
  "bc_wallet demo_chain = Some (demo_key 50)" "st_epoch demo_stake_chain = 102"
  by (simp_all add: demo_chain_def demo_stake_chain_def)

lemma demo_getWithdrawRequest: "getWithdrawRequest demo_sl demo_chain demo_withdraw_address = Inr demo_request"
  by (simp add: getWithdrawRequest_def fetch_account_def fetchNullable_def db_rpc_def demo_chain_def)

lemma demo_resolve: "resolve_withdraw demo_sl demo_chain demo_withdraw_args = Inr (demo_withdraw_ctx, demo_request)"
proof -
  have "withdrawRequestAddress demo_sl (demo_key 7) (demo_key 8) = Inr (demo_withdraw_address, 255)"
    by (simp add: withdrawRequestAddress_def demo_sl_def demo_withdraw_address_def)
  then show ?thesis
    by (simp add: resolve_withdraw_def wallet_default_def anchorProgramWalletPubkey_def bond_from_def
        demo_withdraw_args_def demo_getWithdrawRequest demo_withdraw_ctx_def) (simp add: demo_request_def)
qed

lemma demo_found:
  "findStakeAccounts demo_stake_chain (Some demo_authority) (Some demo_authority) (Some (demo_key 21)) (Some 102)
     = Inr demo_bond_accounts"
proof -
  have "findStakeAccountNoDataInfos demo_stake_chain (Some demo_authority) (Some demo_authority) (Some (demo_key 21))
      = [demo_key 41, demo_key 42]"
    by (simp add: findStakeAccountNoDataInfos_def demo_stake_chain_def stake_filters_def
        opt_filter_def mc_def STAKER_OFFSET_def)
  moreover have "loadStakeAccounts demo_stake_chain [demo_key 41, demo_key 42] (Some 102) = Inr demo_bond_accounts"
    by (simp add: demo_load_defs demo_bond_accounts_def)
  ultimately show ?thesis by (simp add: findStakeAccounts_def)
qed


text \<open>The plan of the demonstration: account 42 is the smaller and not active, account 41 is
  active, so both are claimed from.\<close>

definition demo_claim :: "byte \<Rightarrow> pubkey \<Rightarrow> instruction" where
  "demo_claim stake generated = \<lparr> ix_name = ''claimWithdrawRequest'', ix_args = [],
     ix_accounts = [(''config'', Key (demo_key 9)), (''bond'', Key (demo_key 7)),
       (''voteAccount'', Key (demo_key 21)), (''withdrawRequest'', Key demo_withdraw_address),
       (''bondsWithdrawerAuthority'', Key demo_authority), (''stakeAccount'', Key (demo_key stake)),
       (''withdrawer'', Key (demo_key 51)), (''splitStakeAccount'', Key generated),
       (''authority'', Key (demo_key 50)), (''splitStakeRentPayer'', Key (demo_key 50)),
       (''stakeHistory'', SysvarStakeHistory), (''stakeProgram'', StakeProgramId),
       (''systemProgram'', SystemProgramId), (''clock'', SysvarClock)] \<rparr>"

definition demo_result :: withdraw_result where
  "demo_result = \<lparr> wr_plan = \<lparr> wp_instructions = [demo_claim 41 (demo_key 60), demo_claim 42 (demo_key 61)],
       wp_withdrawStakeAccounts = [demo_key 41, demo_key 42],
       wp_splitStakeAccounts = [demo_key 60, demo_key 61] \<rparr>,
     wr_withdrawRequestAccount = demo_withdraw_address, wr_amountToWithdraw = 10,
     wr_voteAccount = demo_key 21, wr_bondAccount = demo_key 7 \<rparr>"

definition demo_gen :: "nat \<Rightarrow> pubkey" where "demo_gen n = demo_key (60 + of_nat n)"

lemma demo_authority_address: "bondsWithdrawerAuthority demo_sl (demo_key 9) pid = Inr (demo_authority, 255)"
  by (simp add: bondsWithdrawerAuthority_def demo_sl_def demo_authority_def)

lemma demo_plan_claim:
  assumes "gen_ok demo_gen p" and "g = demo_gen (length (wp_withdrawStakeAccounts p))"
  shows "plan_claim demo_sl demo_chain demo_gen demo_withdraw_args demo_withdraw_ctx p (demo_key s)
     = Inr \<lparr> wp_instructions = wp_instructions p @ [demo_claim s g],
         wp_withdrawStakeAccounts = wp_withdrawStakeAccounts p @ [demo_key s],
         wp_splitStakeAccounts = wp_splitStakeAccounts p @ [g] \<rparr>"
  using assms
  by (simp add: plan_claim_def claimWithdrawRequestInstruction_def claim_resolve_def demo_withdraw_args_def demo_withdraw_ctx_def
      wallet_default_def anchorProgramWalletPubkey_def bond_from_def checkAndGetBondAddress_def
      demo_authority_address demo_claim_def gen_ok_def)

lemma demo_orchestrate:
  "orchestrateWithdrawDeposit demo_sl demo_chain demo_gen demo_withdraw_args = Inr demo_result"
proof -
  let ?p0 = "\<lparr> wp_instructions = [], wp_withdrawStakeAccounts = [], wp_splitStakeAccounts = [] \<rparr>"
  have amount: "clamp_amount 10 = 10" by (simp add: clamp_amount_max)
  have sorted: "sort_key sa_lamports demo_bond_accounts
      = [demo_account 42 4 demo_authority 200, demo_account 41 5 demo_authority 5]"
    by (simp add: demo_bond_accounts_def demo_account_def)
  have sel: "selectStakeAccounts (clamp_amount 10) (sort_key sa_lamports demo_bond_accounts)
      = Inr (sort_key sa_lamports demo_bond_accounts)"
    by (subst select_all) (simp_all add: demo_bond_accounts_def demo_account_def fits53_def)
  have "plan_withdraw demo_sl demo_chain demo_gen demo_withdraw_args demo_withdraw_ctx
      [demo_account 42 4 demo_authority 200, demo_account 41 5 demo_authority 5] = Inr (wr_plan demo_result)"
  proof -
    have "isFullyActive (demo_account 41 5 demo_authority 5) 102" "\<not> isFullyActive (demo_account 42 4 demo_authority 200) 102"
      by (simp_all add: isFullyActive_def demo_account_def)
    moreover have "wx_epoch demo_withdraw_ctx = 102" by (simp add: demo_withdraw_ctx_def)
    moreover have "sa_address (demo_account k l a e) = demo_key k" for k l a e by (simp add: demo_account_def)
    moreover have "gen_ok demo_gen ?p0" by (simp add: gen_ok_def)
    ultimately show ?thesis
      by (simp add: plan_withdraw_def plan_step_def demo_plan_claim [OF _ refl] gen_ok_def)
        (simp add: demo_result_def demo_gen_def)
  qed
  then show ?thesis
    using demo_found sel sorted amount
    by (simp add: orchestrateWithdrawDeposit_def demo_resolve demo_withdraw_ctx_def demo_request_def
        demo_authority_address Let_def demo_bond_accounts_def)
      (simp add: demo_result_def demo_withdraw_args_def)
qed

theorem orchestrate_takes_all_witness:
  "\<exists>d others ixs ix. sort_key sa_lamports demo_bond_accounts = d # others
     \<and> wp_instructions (wr_plan demo_result) = ixs @ [ix]
     \<and> list_all2 (handles demo_withdraw_ctx d) others ixs
     \<and> claims_from demo_withdraw_ctx ix (sa_address d)"
proof -
  have w: "bondsWithdrawerAuthority demo_sl (wx_configAccount demo_withdraw_ctx) (bc_programId demo_chain)
      = Inr (demo_authority, 255)"
    by (simp add: demo_withdraw_ctx_def demo_authority_address)
  have f: "findStakeAccounts (bc_stake demo_chain) (Some demo_authority) (Some demo_authority)
       (Some (wd_voteAccount demo_request)) (Some (wx_epoch demo_withdraw_ctx)) = Inr demo_bond_accounts"
    using demo_found by (simp add: demo_request_def demo_withdraw_ctx_def)
  from orchestrate_takes_all [OF demo_orchestrate demo_resolve w f]
  show ?thesis by (auto simp: demo_request_def)
qed

end
