(* ===== verification/Sdk_Bond_Ix.thy ===== *)
theory Sdk_Bond_Ix
  imports Sdk_Instructions
begin

text \<open>
  The builders of \<open>packages/validator-bonds-sdk/src/instructions/\<close> for configurations,
  bonds, bond products and withdraw requests.

  An argument of type \<open>BN | number\<close> is a \<open>bn_num\<close>; a rate that may also be null or undefined
  is a \<open>bn_arg\<close>. \<open>token_lib\<close> holds the address functions of the token libraries.
\<close>

datatype bn_num = BnVal int | NumVal int

definition new_BN :: "bn_num \<Rightarrow> int res" where
  "new_BN x = (case x of BnVal i \<Rightarrow> Inr i | NumVal i \<Rightarrow> bn_of_number i)"

text \<open>The value as a condition: a BN is an object, and true.\<close>

definition bn_num_truthy :: "bn_num option \<Rightarrow> bool" where
  "bn_num_truthy x = (case x of None \<Rightarrow> False | Some (BnVal _) \<Rightarrow> True | Some (NumVal i) \<Rightarrow> i \<noteq> 0)"

definition opt_BN :: "bn_num option \<Rightarrow> ix_arg res" where
  "opt_BN x = (case x of None \<Rightarrow> Inr ArgNone | Some v \<Rightarrow> rbind (new_BN v) (\<lambda>i. Inr (ArgInt i)))"

record token_lib =
  tl_associated :: "pubkey \<Rightarrow> pubkey \<Rightarrow> pubkey res"
  tl_metadata :: "pubkey \<Rightarrow> pubkey res"

text \<open>The configuration and the vote account of a bond, both read from the bond when one is missing.\<close>

definition both_from_bond :: "solana_lib \<Rightarrow> bonds_chain \<Rightarrow> pubkey \<Rightarrow> pubkey option \<Rightarrow> pubkey option
    \<Rightarrow> (pubkey \<times> pubkey) res" where
  "both_from_bond sl bc bond config vote = (case (config, vote) of
       (Some c, Some v) \<Rightarrow> Inr (c, v)
     | _ \<Rightarrow> rbind (getBond sl bc bond) (\<lambda>d. Inr (bd_config d, bd_voteAccount d)))"

text \<open>Each read from the bond only when it is missing itself.\<close>

definition each_from_bond :: "solana_lib \<Rightarrow> bonds_chain \<Rightarrow> pubkey \<Rightarrow> pubkey option \<Rightarrow> pubkey option
    \<Rightarrow> (pubkey \<times> pubkey) res" where
  "each_from_bond sl bc bond config vote = (case (config, vote) of
       (Some c, Some v) \<Rightarrow> Inr (c, v)
     | _ \<Rightarrow> rbind (getBond sl bc bond) (\<lambda>d.
         Inr (orElse config (bd_config d), orElse vote (bd_voteAccount d))))"

text \<open>The default configuration, when only a vote account is given.\<close>

definition default_config :: "solana_lib \<Rightarrow> pubkey option \<Rightarrow> pubkey option \<Rightarrow> pubkey option \<Rightarrow> pubkey option res" where
  "default_config sl bond config vote =
     (if bond = None \<and> config = None \<and> vote \<noteq> None
      then rbind (MARINADE_CONFIG_ADDRESS sl) (\<lambda>c. Inr (Some c)) else Inr config)"

section \<open>Configurations\<close>

definition initConfigInstruction :: "solana_lib \<Rightarrow> bonds_chain \<Rightarrow> pubkey \<Rightarrow> pubkey option \<Rightarrow> pubkey option
    \<Rightarrow> pubkey option \<Rightarrow> pubkey option \<Rightarrow> int option \<Rightarrow> int option \<Rightarrow> int option
    \<Rightarrow> (pubkey \<times> instruction) res" where
  "initConfigInstruction sl bc generated configAccount admin operator rentPayer
       epochsToClaimSettlement slotsToStartSettlementClaiming withdrawLockupEpochs =
     (let config = orElse configAccount generated in
      rbind (wallet_default sl bc admin) (\<lambda>adminKey.
      rbind (wallet_default sl bc rentPayer) (\<lambda>payer.
      Inr (config, \<lparr> ix_name = ''initConfig'',
        ix_args = [(''adminAuthority'', ArgKey adminKey),
          (''operatorAuthority'', ArgKey (orElse operator adminKey)),
          (''epochsToClaimSettlement'', ArgInt (orElse epochsToClaimSettlement 0)),
          (''withdrawLockupEpochs'', ArgInt (orElse withdrawLockupEpochs 0)),
          (''slotsToStartSettlementClaiming'', ArgInt (orElse slotsToStartSettlementClaiming 0))],
        ix_accounts = [(''config'', Key config), (''rentPayer'', Key payer),
          (''systemProgram'', SystemProgramId)] \<rparr>))))"

record configure_config_args =
  cf_admin :: "pubkey option"
  cf_operator :: "pubkey option"
  cf_pauseAuthority :: "pubkey option"
  cf_epochsToClaimSettlement :: "bn_num option"
  cf_slotsToStartSettlementClaiming :: "bn_num option"
  cf_withdrawLockupEpochs :: "bn_num option"
  cf_minimumStakeLamports :: "bn_num option"
  cf_minBondMaxStakeWanted :: "bn_num option"

text \<open>The epochs to claim are tested for truth, so the number zero is dropped; the other
  numbers are tested for undefined.\<close>

definition configure_config_values :: "configure_config_args \<Rightarrow> (string \<times> ix_arg) list res" where
  "configure_config_values a =
     rbind (if bn_num_truthy (cf_epochsToClaimSettlement a) then opt_BN (cf_epochsToClaimSettlement a)
       else Inr ArgNone) (\<lambda>epochs.
     rbind (opt_BN (cf_slotsToStartSettlementClaiming a)) (\<lambda>slots.
     rbind (opt_BN (cf_withdrawLockupEpochs a)) (\<lambda>lockup.
     rbind (opt_BN (cf_minimumStakeLamports a)) (\<lambda>minStake.
     rbind (opt_BN (cf_minBondMaxStakeWanted a)) (\<lambda>minWanted.
     Inr [(''admin'', opt_key (cf_admin a)), (''operator'', opt_key (cf_operator a)),
       (''pauseAuthority'', opt_key (cf_pauseAuthority a)), (''epochsToClaimSettlement'', epochs),
       (''slotsToStartSettlementClaiming'', slots), (''withdrawLockupEpochs'', lockup),
       (''minimumStakeLamports'', minStake), (''minBondMaxStakeWanted'', minWanted)])))))"

text \<open>The default configuration is used only when the authority is not given either;
  otherwise an undefined configuration stays undefined.\<close>

definition configureConfigInstruction :: "solana_lib \<Rightarrow> bonds_chain \<Rightarrow> pubkey option \<Rightarrow> pubkey option
    \<Rightarrow> configure_config_args \<Rightarrow> instruction res" where
  "configureConfigInstruction sl bc configAccount adminAuthority a =
     rbind (case adminAuthority of Some k \<Rightarrow> Inr (configAccount, k)
       | None \<Rightarrow> rbind (case configAccount of Some c \<Rightarrow> Inr c | None \<Rightarrow> MARINADE_CONFIG_ADDRESS sl) (\<lambda>c.
           rbind (getConfig sl bc c) (\<lambda>d. Inr (Some c, cd_admin d)))) (\<lambda>(config, admin).
     rbind (configure_config_values a) (\<lambda>args.
     rbind (guard_throw (list_all (\<lambda>(n, v). v = ArgNone) args) EError
       ''configureConfigInstruction: method parameters provided no new property to configure'') (\<lambda>_.
     Inr \<lparr> ix_name = ''configureConfig'', ix_args = args,
       ix_accounts = [(''adminAuthority'', Key admin),
         (''config'', case config of Some c \<Rightarrow> Key c | None \<Rightarrow> NoAccount)] \<rparr>)))"

definition pause_accounts :: "solana_lib \<Rightarrow> bonds_chain \<Rightarrow> pubkey option \<Rightarrow> pubkey option
    \<Rightarrow> (pubkey \<times> pubkey) res" where
  "pause_accounts sl bc configAccount pauseAuthority =
     rbind (case configAccount of Some c \<Rightarrow> Inr c | None \<Rightarrow> MARINADE_CONFIG_ADDRESS sl) (\<lambda>c.
     rbind (case pauseAuthority of Some k \<Rightarrow> Inr k
       | None \<Rightarrow> rbind (getConfig sl bc c) (\<lambda>d. Inr (cd_pause d))) (\<lambda>k. Inr (c, k)))"

definition emergencyPauseInstruction :: "solana_lib \<Rightarrow> bonds_chain \<Rightarrow> pubkey option \<Rightarrow> pubkey option
    \<Rightarrow> instruction res" where
  "emergencyPauseInstruction sl bc configAccount pauseAuthority =
     rbind (pause_accounts sl bc configAccount pauseAuthority) (\<lambda>(c, k).
     Inr \<lparr> ix_name = ''emergencyPause'', ix_args = [],
       ix_accounts = [(''config'', Key c), (''pauseAuthority'', Key k)] \<rparr>)"

definition emergencyResumeInstruction :: "solana_lib \<Rightarrow> bonds_chain \<Rightarrow> pubkey option \<Rightarrow> pubkey option
    \<Rightarrow> instruction res" where
  "emergencyResumeInstruction sl bc configAccount pauseAuthority =
     rbind (pause_accounts sl bc configAccount pauseAuthority) (\<lambda>(c, k).
     Inr \<lparr> ix_name = ''emergencyResume'', ix_args = [],
       ix_accounts = [(''config'', Key c), (''pauseAuthority'', Key k)] \<rparr>)"

section \<open>Bonds\<close>

definition initBondInstruction :: "solana_lib \<Rightarrow> bonds_chain \<Rightarrow> pubkey \<Rightarrow> pubkey \<Rightarrow> pubkey option
    \<Rightarrow> pubkey option \<Rightarrow> bn_num option \<Rightarrow> bn_num option \<Rightarrow> pubkey option \<Rightarrow> (pubkey \<times> instruction) res" where
  "initBondInstruction sl bc configAccount voteAccount validatorIdentity bondAuthority cpmpe
       maxStakeWanted rentPayer =
     rbind (wallet_default sl bc bondAuthority) (\<lambda>authority.
     rbind (wallet_default sl bc rentPayer) (\<lambda>payer.
     rbind (bondAddress sl configAccount voteAccount (bc_programId bc)) (\<lambda>bond.
     rbind (new_BN (orElse cpmpe (BnVal 0))) (\<lambda>cp.
     rbind (new_BN (orElse maxStakeWanted (BnVal 0))) (\<lambda>wanted.
     Inr (fst bond, \<lparr> ix_name = ''initBond'',
       ix_args = [(''bondAuthority'', ArgKey authority), (''cpmpe'', ArgInt cp),
         (''maxStakeWanted'', ArgInt wanted)],
       ix_accounts = [(''config'', Key configAccount), (''bond'', Key (fst bond)),
         (''voteAccount'', Key voteAccount),
         (''validatorIdentity'', case validatorIdentity of Some k \<Rightarrow> Key k | None \<Rightarrow> NoAccount),
         (''rentPayer'', Key payer), (''systemProgram'', SystemProgramId)] \<rparr>))))))"

definition configureBondInstruction :: "solana_lib \<Rightarrow> bonds_chain \<Rightarrow> pubkey option \<Rightarrow> pubkey option
    \<Rightarrow> pubkey option \<Rightarrow> pubkey option \<Rightarrow> pubkey option \<Rightarrow> bn_num option \<Rightarrow> bn_num option
    \<Rightarrow> (pubkey \<times> instruction) res" where
  "configureBondInstruction sl bc bondAccount configAccount voteAccount authority newBondAuthority
       newCpmpe newMaxStakeWanted =
     rbind (wallet_default sl bc authority) (\<lambda>auth.
     rbind (checkAndGetBondAddress sl bondAccount configAccount voteAccount (bc_programId bc)) (\<lambda>bond.
     rbind (both_from_bond sl bc bond configAccount voteAccount) (\<lambda>(c, v).
     rbind (opt_BN newCpmpe) (\<lambda>cp.
     rbind (opt_BN newMaxStakeWanted) (\<lambda>wanted.
     Inr (bond, \<lparr> ix_name = ''configureBond'',
       ix_args = [(''bondAuthority'', opt_key newBondAuthority), (''cpmpe'', cp), (''maxStakeWanted'', wanted)],
       ix_accounts = [(''config'', Key c), (''bond'', Key bond), (''authority'', Key auth),
         (''voteAccount'', Key v)] \<rparr>))))))"

definition configureBondWithMintInstruction :: "solana_lib \<Rightarrow> token_lib \<Rightarrow> bonds_chain \<Rightarrow> pubkey option
    \<Rightarrow> pubkey option \<Rightarrow> pubkey option \<Rightarrow> pubkey option \<Rightarrow> pubkey option \<Rightarrow> pubkey option \<Rightarrow> pubkey option
    \<Rightarrow> bn_num option \<Rightarrow> bn_num option \<Rightarrow> (pubkey \<times> instruction) res" where
  "configureBondWithMintInstruction sl tokens bc bondAccount configAccount voteAccount validatorIdentity
       tokenAccount tokenAuthority newBondAuthority newCpmpe newMaxStakeWanted =
     rbind (wallet_default sl bc tokenAuthority) (\<lambda>tokenAuth.
     rbind (checkAndGetBondAddress sl bondAccount configAccount voteAccount (bc_programId bc)) (\<lambda>bond.
     rbind (each_from_bond sl bc bond configAccount voteAccount) (\<lambda>(c, v).
     rbind (case validatorIdentity of Some k \<Rightarrow> Inr k | None \<Rightarrow> bc_nodePubkey bc v) (\<lambda>identity.
     rbind (bondMintAddress sl bond identity (bc_programId bc)) (\<lambda>mint.
     rbind (case tokenAccount of Some k \<Rightarrow> Inr k | None \<Rightarrow> tl_associated tokens (fst mint) tokenAuth) (\<lambda>token.
     rbind (opt_BN newCpmpe) (\<lambda>cp.
     rbind (opt_BN newMaxStakeWanted) (\<lambda>wanted.
     Inr (bond, \<lparr> ix_name = ''configureBondWithMint'',
       ix_args = [(''validatorIdentity'', ArgKey identity), (''bondAuthority'', opt_key newBondAuthority),
         (''cpmpe'', cp), (''maxStakeWanted'', wanted)],
       ix_accounts = [(''bond'', Key bond), (''config'', Key c), (''voteAccount'', Key v),
         (''mint'', Key (fst mint)), (''tokenAccount'', Key token), (''tokenAuthority'', Key tokenAuth),
         (''tokenProgram'', TokenProgramId)] \<rparr>)))))))))"

record mint_bond =
  mb_bondAccount :: pubkey
  mb_bondMint :: pubkey
  mb_validatorIdentity :: pubkey
  mb_validatorIdentityTokenAccount :: pubkey
  mb_tokenMetadataAccount :: pubkey
  mb_instruction :: instruction

definition mintBondInstruction :: "solana_lib \<Rightarrow> token_lib \<Rightarrow> bonds_chain \<Rightarrow> pubkey option \<Rightarrow> pubkey option
    \<Rightarrow> pubkey option \<Rightarrow> pubkey option \<Rightarrow> pubkey option \<Rightarrow> pubkey option \<Rightarrow> mint_bond res" where
  "mintBondInstruction sl tokens bc validatorIdentity bondAccount configAccount voteAccount metadataAccount rentPayer =
     rbind (wallet_default sl bc rentPayer) (\<lambda>payer.
     rbind (checkAndGetBondAddress sl bondAccount configAccount voteAccount (bc_programId bc)) (\<lambda>bond.
     rbind (both_from_bond sl bc bond configAccount voteAccount) (\<lambda>(c, v).
     rbind (case validatorIdentity of Some k \<Rightarrow> Inr k | None \<Rightarrow> bc_nodePubkey bc v) (\<lambda>identity.
     rbind (bondMintAddress sl bond identity (bc_programId bc)) (\<lambda>mint.
     rbind (tl_associated tokens (fst mint) identity) (\<lambda>token.
     rbind (case metadataAccount of Some k \<Rightarrow> Inr k | None \<Rightarrow> tl_metadata tokens (fst mint)) (\<lambda>metadata.
     Inr \<lparr> mb_bondAccount = bond, mb_bondMint = fst mint, mb_validatorIdentity = identity,
       mb_validatorIdentityTokenAccount = token, mb_tokenMetadataAccount = metadata,
       mb_instruction = \<lparr> ix_name = ''mintBond'', ix_args = [],
         ix_accounts = [(''bond'', Key bond), (''config'', Key c), (''voteAccount'', Key v),
           (''mint'', Key (fst mint)), (''metadata'', Key metadata), (''validatorIdentity'', Key identity),
           (''validatorIdentityTokenAccount'', Key token), (''rentPayer'', Key payer),
           (''rent'', SysvarRent), (''metadataProgram'', MetadataProgramId),
           (''systemProgram'', SystemProgramId), (''associatedTokenProgram'', AssociatedTokenProgramId),
           (''tokenProgram'', TokenProgramId)] \<rparr> \<rparr>)))))))"

definition fundBondInstruction :: "solana_lib \<Rightarrow> bonds_chain \<Rightarrow> pubkey option \<Rightarrow> pubkey \<Rightarrow> pubkey option
    \<Rightarrow> pubkey option \<Rightarrow> pubkey option \<Rightarrow> (pubkey \<times> instruction) res" where
  "fundBondInstruction sl bc bondAccount stakeAccount stakeAccountAuthority configAccount voteAccount =
     rbind (wallet_default sl bc stakeAccountAuthority) (\<lambda>stakeAuth.
     rbind (default_config sl bondAccount configAccount voteAccount) (\<lambda>config.
     rbind (checkAndGetBondAddress sl bondAccount config voteAccount (bc_programId bc)) (\<lambda>bond.
     rbind (case config of Some c \<Rightarrow> Inr c
       | None \<Rightarrow> rbind (getBond sl bc bond) (\<lambda>d. Inr (bd_config d))) (\<lambda>c.
     rbind (bondsWithdrawerAuthority sl c (bc_programId bc)) (\<lambda>wa.
     Inr (bond, \<lparr> ix_name = ''fundBond'', ix_args = [],
       ix_accounts = [(''config'', Key c), (''bond'', Key bond), (''stakeAuthority'', Key stakeAuth),
         (''bondsWithdrawerAuthority'', Key (fst wa)), (''stakeAccount'', Key stakeAccount),
         (''stakeHistory'', SysvarStakeHistory), (''stakeProgram'', StakeProgramId),
         (''clock'', SysvarClock)] \<rparr>))))))"

section \<open>Withdraw requests\<close>

definition initWithdrawRequestInstruction :: "solana_lib \<Rightarrow> bonds_chain \<Rightarrow> pubkey option \<Rightarrow> pubkey option
    \<Rightarrow> pubkey option \<Rightarrow> pubkey option \<Rightarrow> pubkey option \<Rightarrow> bn_num \<Rightarrow> (pubkey \<times> pubkey \<times> instruction) res" where
  "initWithdrawRequestInstruction sl bc bondAccount configAccount voteAccount authority rentPayer amount =
     rbind (wallet_default sl bc authority) (\<lambda>auth.
     rbind (wallet_default sl bc rentPayer) (\<lambda>payer.
     rbind (default_config sl bondAccount configAccount voteAccount) (\<lambda>config.
     rbind (checkAndGetBondAddress sl bondAccount config voteAccount (bc_programId bc)) (\<lambda>bond.
     rbind (each_from_bond sl bc bond config voteAccount) (\<lambda>(c, v).
     rbind (withdrawRequestAddress sl bond (bc_programId bc)) (\<lambda>wr.
     rbind (new_BN amount) (\<lambda>n.
     Inr (bond, fst wr, \<lparr> ix_name = ''initWithdrawRequest'', ix_args = [(''amount'', ArgInt n)],
       ix_accounts = [(''config'', Key c), (''bond'', Key bond), (''voteAccount'', Key v),
         (''withdrawRequest'', Key (fst wr)), (''authority'', Key auth), (''rentPayer'', Key payer),
         (''systemProgram'', SystemProgramId)] \<rparr>))))))))"

definition cancel_resolve :: "solana_lib \<Rightarrow> bonds_chain \<Rightarrow> pubkey option \<Rightarrow> pubkey option
    \<Rightarrow> pubkey option \<Rightarrow> pubkey option \<Rightarrow> pubkey option
    \<Rightarrow> (pubkey \<times> pubkey \<times> pubkey \<times> pubkey option \<times> pubkey) res" where
  "cancel_resolve sl bc withdrawRequestAccount bondAccount configAccount voteAccount authority =
     rbind (case withdrawRequestAccount of
         Some wr \<Rightarrow> if bondAccount = None \<or> voteAccount = None
           then rbind (getWithdrawRequest sl bc wr) (\<lambda>d.
             Inr (Some (orElse bondAccount (wd_bond d)), Some (orElse voteAccount (wd_voteAccount d))))
           else Inr (bondAccount, voteAccount)
       | None \<Rightarrow> Inr (bondAccount, voteAccount)) (\<lambda>(bond, vote).
     rbind (bond_from sl bc configAccount vote bond) (\<lambda>bond.
     rbind (case (bond, withdrawRequestAccount) of
         (Some b, None) \<Rightarrow> rbind (withdrawRequestAddress sl b (bc_programId bc)) (\<lambda>r. Inr (Some (fst r)))
       | _ \<Rightarrow> Inr withdrawRequestAccount) (\<lambda>withdrawRequest.
     rbind (case bond of
         Some b \<Rightarrow> if vote = None \<or> authority = None \<or> configAccount = None
           then rbind (getBond sl bc b) (\<lambda>d.
             Inr (Some (orElse vote (bd_voteAccount d)), Some (orElse authority (bd_authority d)),
               Some (orElse configAccount (bd_config d))))
           else Inr (vote, authority, configAccount)
       | None \<Rightarrow> Inr (vote, authority, configAccount)) (\<lambda>(vote, auth, config).
     rbind (wallet_default sl bc auth) (\<lambda>authKey.
     rbind (case withdrawRequest of Some w \<Rightarrow> Inr w
       | None \<Rightarrow> throw EError (''cancelWithdrawRequestInstruction: ''
           @ ''withdrawRequestAccount not provided and could not be derived from other parameters'')) (\<lambda>wr.
     rbind (case config of Some c \<Rightarrow> Inr c | None \<Rightarrow> MARINADE_CONFIG_ADDRESS sl) (\<lambda>c.
     rbind (checkAndGetBondAddress sl bond (Some c) vote (bc_programId bc)) (\<lambda>b.
     Inr (wr, b, c, vote, authKey)))))))))"

definition cancelWithdrawRequestInstruction :: "solana_lib \<Rightarrow> bonds_chain \<Rightarrow> pubkey option \<Rightarrow> pubkey option
    \<Rightarrow> pubkey option \<Rightarrow> pubkey option \<Rightarrow> pubkey option \<Rightarrow> pubkey option
    \<Rightarrow> (pubkey \<times> pubkey \<times> instruction) res" where
  "cancelWithdrawRequestInstruction sl bc withdrawRequestAccount bondAccount configAccount voteAccount
       authority rentCollector =
     rbind (wallet_default sl bc rentCollector) (\<lambda>collector.
     rbind (cancel_resolve sl bc withdrawRequestAccount bondAccount configAccount voteAccount authority)
       (\<lambda>(wr, b, c, vote, authKey).
     Inr (b, wr, \<lparr> ix_name = ''cancelWithdrawRequest'', ix_args = [],
       ix_accounts = [(''program'', Key (bc_programId bc)), (''config'', Key c), (''bond'', Key b),
         (''voteAccount'', case vote of Some v \<Rightarrow> Key v | None \<Rightarrow> NoAccount),
         (''authority'', Key authKey), (''withdrawRequest'', Key wr), (''rentCollector'', Key collector)] \<rparr>)))"

section \<open>Bond products\<close>

text \<open>The value of a rate as a condition, and as \<open>String(..)\<close> prints it.\<close>

definition bn_arg_truthy :: "bn_arg \<Rightarrow> bool" where
  "bn_arg_truthy v = (case v of BnUndefined \<Rightarrow> False | BnNull \<Rightarrow> False | BnOf _ \<Rightarrow> True
     | BnNumber x \<Rightarrow> x \<noteq> Fin 0 \<and> x \<noteq> NaN | BnString s \<Rightarrow> s \<noteq> [] | BnBigint i \<Rightarrow> i \<noteq> 0)"

definition bn_arg_str :: "bn_arg \<Rightarrow> string" where
  "bn_arg_str v = (case v of BnUndefined \<Rightarrow> ''undefined'' | BnNull \<Rightarrow> ''null'' | BnOf i \<Rightarrow> int_str i
     | BnNumber x \<Rightarrow> num_str x | BnString s \<Rightarrow> s | BnBigint i \<Rightarrow> int_str i)"

definition bn_value :: "bn_arg \<Rightarrow> int option" where
  "bn_value v = (case v of BnOf i \<Rightarrow> Some i | _ \<Rightarrow> None)"

record rates =
  rt_inflation :: bn_arg
  rt_mev :: bn_arg
  rt_block :: bn_arg
  rt_uniform :: bn_arg

definition uniform_error :: "string \<Rightarrow> rates \<Rightarrow> string \<Rightarrow> string" where
  "uniform_error caller r bond = caller @ '': cannot set both uniformBps (='' @ bn_arg_str (rt_uniform r)
     @ '') and individual commission bps '' @ ''(block='' @ bn_arg_str (rt_block r)
     @ '', inflation='' @ bn_arg_str (rt_inflation r) @ '', mev='' @ bn_arg_str (rt_mev r)
     @ ''), bond: '' @ bond"

text \<open>A uniform rate replaces all three; \<open>given\<close> says which individual rates count as given.\<close>

definition apply_uniform :: "string \<Rightarrow> (bn_arg \<Rightarrow> bool) \<Rightarrow> string \<Rightarrow> rates \<Rightarrow> rates res" where
  "apply_uniform caller given bond r =
     (if rt_uniform r \<noteq> BnUndefined \<and> (given (rt_block r) \<or> given (rt_inflation r) \<or> given (rt_mev r))
      then throw EError (uniform_error caller r bond)
      else if rt_uniform r \<noteq> BnUndefined
      then Inr (r \<lparr> rt_inflation := rt_uniform r, rt_mev := rt_uniform r, rt_block := rt_uniform r \<rparr>)
      else Inr r)"

record bond_product_ix =
  bp_bondProduct :: pubkey
  bp_instruction :: instruction
  bp_productType :: product_type
  bp_configData :: product_config

definition initProduct :: "bonds_chain \<Rightarrow> pubkey \<Rightarrow> pubkey \<Rightarrow> pubkey \<Rightarrow> pubkey option \<Rightarrow> pubkey
    \<Rightarrow> pubkey \<Rightarrow> product_type \<Rightarrow> product_config \<Rightarrow> bond_product_ix" where
  "initProduct bc bond config vote authority payer product productType configData =
     \<lparr> bp_bondProduct = product,
       bp_instruction = \<lparr> ix_name = ''initBondProduct'',
         ix_args = [(''productType'', ArgProduct productType), (''configData'', ArgConfig configData)],
         ix_accounts = [(''config'', Key config), (''bond'', Key bond), (''voteAccount'', Key vote),
           (''bondProduct'', Key product),
           (''authority'', case authority of Some k \<Rightarrow> Key k | None \<Rightarrow> NoAccount),
           (''rentPayer'', Key payer)] \<rparr>,
       bp_productType = productType, bp_configData = configData \<rparr>"

text \<open>The individual rates default to null.\<close>

definition null_rates :: "rates \<Rightarrow> rates" where
  "null_rates r = (let d = (\<lambda>v. if v = BnUndefined then BnNull else v) in
     r \<lparr> rt_inflation := d (rt_inflation r), rt_mev := d (rt_mev r), rt_block := d (rt_block r) \<rparr>)"

definition initCommissionProductInstruction :: "solana_lib \<Rightarrow> (string \<Rightarrow> int res) \<Rightarrow> bonds_chain
    \<Rightarrow> pubkey option \<Rightarrow> pubkey option \<Rightarrow> pubkey option \<Rightarrow> pubkey option \<Rightarrow> pubkey option \<Rightarrow> rates
    \<Rightarrow> bond_product_ix res" where
  "initCommissionProductInstruction sl bn_str bc bondAccount configAccount voteAccount authority rentPayer r =
     rbind (wallet_default sl bc rentPayer) (\<lambda>payer.
     rbind (checkAndGetBondAddress sl bondAccount configAccount voteAccount (bc_programId bc)) (\<lambda>bond.
     rbind (both_from_bond sl bc bond configAccount voteAccount) (\<lambda>(c, v).
     rbind (apply_uniform ''initCommissionProductInstruction'' bn_arg_truthy (pk_b58 sl bond) (null_rates r)) (\<lambda>r.
     rbind (toBNPreserve bn_str (rt_inflation r)) (\<lambda>i.
     rbind (toBNPreserve bn_str (rt_mev r)) (\<lambda>m.
     rbind (toBNPreserve bn_str (rt_block r)) (\<lambda>b.
     (let cfg = \<lparr> cc_inflationBps = bn_value i, cc_mevBps = bn_value m, cc_blockBps = bn_value b \<rparr>
      in rbind (validateCommissionProductArgs cfg) (\<lambda>_.
         rbind (bondProductAddress sl bond PCommission (bc_programId bc)) (\<lambda>product.
         Inr (initProduct bc bond c v authority payer (fst product) PCommission (getCommissionData cfg))))))))))))"

text \<open>The length of a JavaScript string, in UTF-16 units: a character of four bytes has two.\<close>

definition utf16_length :: "string \<Rightarrow> nat" where
  "utf16_length s = length (filter (\<lambda>c. of_char c < (128::nat) \<or> 192 \<le> (of_char c :: nat)) s)
     + length (filter (\<lambda>c. 240 \<le> (of_char c :: nat)) s)"

definition initCustomProductInstruction :: "solana_lib \<Rightarrow> bonds_chain \<Rightarrow> pubkey \<Rightarrow> pubkey option
    \<Rightarrow> pubkey option \<Rightarrow> pubkey option \<Rightarrow> pubkey option \<Rightarrow> string \<Rightarrow> byte list \<Rightarrow> bond_product_ix res" where
  "initCustomProductInstruction sl bc bond configAccount voteAccount authority rentPayer customName customProductData =
     rbind (wallet_default sl bc rentPayer) (\<lambda>payer.
     rbind (both_from_bond sl bc bond configAccount voteAccount) (\<lambda>(c, v).
     rbind (guard_throw (customName = []) EError ''initCustomProductInstruction: customName cannot be empty'') (\<lambda>_.
     rbind (guard_throw (32 < utf16_length customName) EError
       ''initCustomProductInstruction: customName cannot be longer than 32 characters'') (\<lambda>_.
     rbind (bondProductAddress sl bond (PCustom customName) (bc_programId bc)) (\<lambda>product.
     Inr (initProduct bc bond c v authority payer (fst product) (PCustom customName)
       (getCustomData customProductData)))))))"

definition configureProduct :: "pubkey \<Rightarrow> product_data \<Rightarrow> pubkey \<Rightarrow> product_type \<Rightarrow> product_config \<Rightarrow> bond_product_ix" where
  "configureProduct product d authority productType configData =
     \<lparr> bp_bondProduct = product,
       bp_instruction = \<lparr> ix_name = ''configureBondProduct'', ix_args = [(''configData'', ArgConfig configData)],
         ix_accounts = [(''bondProduct'', Key product), (''config'', Key (pd_config d)),
           (''bond'', Key (pd_bond d)), (''voteAccount'', Key (pd_voteAccount d)), (''authority'', Key authority)] \<rparr>,
       bp_productType = productType, bp_configData = configData \<rparr>"

text \<open>An undefined rate keeps what the account holds, null clears it.\<close>

definition new_rate :: "bn_arg \<Rightarrow> int option \<Rightarrow> int option" where
  "new_rate v onChain = (if v = BnUndefined then onChain else bn_value v)"

definition configureCommissionProductInstruction :: "solana_lib \<Rightarrow> (string \<Rightarrow> int res)
    \<Rightarrow> (product_config \<Rightarrow> string) \<Rightarrow> bonds_chain \<Rightarrow> pubkey option \<Rightarrow> pubkey option \<Rightarrow> pubkey option
    \<Rightarrow> pubkey option \<Rightarrow> pubkey option \<Rightarrow> rates \<Rightarrow> bond_product_ix res" where
  "configureCommissionProductInstruction sl bn_str js bc bondProductAccount bondAccount configAccount
       voteAccount authority r =
     rbind (wallet_default sl bc authority) (\<lambda>auth.
     rbind (checkAndGetBondProductAddress sl bondProductAccount configAccount bondAccount voteAccount
       (Some PCommission) (bc_programId bc)) (\<lambda>product.
     rbind (getBondProduct sl (bc_products bc) product) (\<lambda>d.
     rbind (apply_uniform ''configureCommissionProductInstruction'' (\<lambda>v. v \<noteq> BnUndefined)
       (pk_b58 sl (pd_bond d)) r) (\<lambda>r.
     rbind (toBNPreserve bn_str (rt_inflation r)) (\<lambda>i.
     rbind (toBNPreserve bn_str (rt_mev r)) (\<lambda>m.
     rbind (toBNPreserve bn_str (rt_block r)) (\<lambda>b.
     rbind (parseCommissionData js (pd_configData d)) (\<lambda>onChain.
     (let cfg = \<lparr> cc_inflationBps = new_rate i (cc_inflationBps onChain),
            cc_mevBps = new_rate m (cc_mevBps onChain), cc_blockBps = new_rate b (cc_blockBps onChain) \<rparr>
      in rbind (validateCommissionProductArgs cfg) (\<lambda>_.
         Inr (configureProduct product d auth PCommission (getCommissionData cfg))))))))))))"

definition configureCustomProductInstruction :: "solana_lib \<Rightarrow> bonds_chain \<Rightarrow> pubkey option
    \<Rightarrow> pubkey option \<Rightarrow> pubkey option \<Rightarrow> pubkey option \<Rightarrow> pubkey option \<Rightarrow> string option \<Rightarrow> byte list
    \<Rightarrow> bond_product_ix res" where
  "configureCustomProductInstruction sl bc bondProductAccount bondAccount configAccount voteAccount
       authority customName customProductData =
     rbind (wallet_default sl bc authority) (\<lambda>auth.
     rbind (checkAndGetBondProductAddress sl bondProductAccount configAccount bondAccount voteAccount
       (case customName of Some s \<Rightarrow> if s = [] then None else Some (PCustom s) | None \<Rightarrow> None)
       (bc_programId bc)) (\<lambda>product.
     rbind (getBondProduct sl (bc_products bc) product) (\<lambda>d.
     Inr (configureProduct product d auth (pd_productType d) (getCustomData customProductData)))))"

end
