(* ===== verification/Sdk_Settlement_Ix.thy ===== *)
theory Sdk_Settlement_Ix
  imports Sdk_Bond_Ix Sdk_Merkle
begin

text \<open>
  The builders of \<open>packages/validator-bonds-sdk/src/instructions/\<close> for settlements and the
  stake accounts they hold, and the claim accounts of the first version of the contract
  (\<open>v1/settlementClaimV1.ts\<close>).
\<close>

section \<open>Settlements\<close>

text \<open>\<open>new BN(number)\<close> for any number: a false value is taken for 0, a fraction is cut off, an
  amount of 2^53 or more does not pass the assertion.\<close>

definition bn_of_double :: "number \<Rightarrow> int res" where
  "bn_of_double x = (case x of
       NaN \<Rightarrow> Inr 0
     | Fin q \<Rightarrow> rbind (bn_of_number \<lfloor>\<bar>q\<bar>\<rfloor>) (\<lambda>n. Inr (if q < 0 then - n else n))
     | _ \<Rightarrow> throw EError ''Assertion failed'')"

definition epochAsBn :: "(string \<Rightarrow> int res) \<Rightarrow> epoch_arg \<Rightarrow> int res" where
  "epochAsBn bn_str e = (case e of
       EpochInfoArg x \<Rightarrow> bn_of_double x
     | NumArg x \<Rightarrow> bn_str (num_str x)
     | BnArg i \<Rightarrow> Inr i
     | BigArg i \<Rightarrow> Inr i)"

record init_settlement =
  is_instruction :: instruction
  is_settlementAccount :: pubkey
  is_settlementClaimsAccount :: pubkey
  is_epoch :: int

definition initSettlementInstruction :: "solana_lib \<Rightarrow> (string \<Rightarrow> int res) \<Rightarrow> bonds_chain \<Rightarrow> byte list
    \<Rightarrow> pubkey option \<Rightarrow> pubkey option \<Rightarrow> pubkey option \<Rightarrow> epoch_arg option \<Rightarrow> bn_num \<Rightarrow> bn_num
    \<Rightarrow> pubkey option \<Rightarrow> pubkey option \<Rightarrow> pubkey option \<Rightarrow> init_settlement res" where
  "initSettlementInstruction sl bn_str bc merkleRoot configAccount bondAccount voteAccount epoch
       maxTotalClaim maxMerkleNodes operatorAuthority rentCollector rentPayer =
     rbind (wallet_default sl bc rentPayer) (\<lambda>payer.
     (let e = orElse epoch (NumArg (Fin (of_int (st_epoch (bc_stake bc))))) in
     rbind (bond_from sl bc configAccount voteAccount bondAccount) (\<lambda>bond.
     rbind (case bond of Some b \<Rightarrow> Inr b
       | None \<Rightarrow> throw EError ''Either voteAccount or bondAccount must be provided'') (\<lambda>b.
     rbind (case configAccount of Some c \<Rightarrow> Inr c
       | None \<Rightarrow> rbind (getBond sl bc b) (\<lambda>d. Inr (bd_config d))) (\<lambda>c.
     rbind (case operatorAuthority of Some k \<Rightarrow> Inr k
       | None \<Rightarrow> rbind (getConfig sl bc c) (\<lambda>d. Inr (cd_operator d))) (\<lambda>operator.
     rbind (settlementAddress sl b merkleRoot e (bc_programId bc)) (\<lambda>s.
     rbind (settlementClaimsAddress sl (fst s) (bc_programId bc)) (\<lambda>sc.
     rbind (new_BN maxTotalClaim) (\<lambda>total.
     rbind (new_BN maxMerkleNodes) (\<lambda>nodes.
     rbind (epochAsBn bn_str e) (\<lambda>en.
     Inr \<lparr> is_instruction = \<lparr> ix_name = ''initSettlement'',
         ix_args = [(''merkleRoot'', ArgBytes merkleRoot), (''maxTotalClaim'', ArgInt total),
           (''maxMerkleNodes'', ArgInt nodes), (''rentCollector'', ArgKey (orElse rentCollector payer)),
           (''epoch'', ArgInt en)],
         ix_accounts = [(''config'', Key c), (''bond'', Key b), (''settlement'', Key (fst s)),
           (''settlementClaims'', Key (fst sc)), (''operatorAuthority'', Key operator),
           (''rentPayer'', Key payer), (''systemProgram'', SystemProgramId)] \<rparr>,
       is_settlementAccount = fst s, is_settlementClaimsAccount = fst sc, is_epoch = en \<rparr>)))))))))))"

definition fundSettlementInstruction :: "solana_lib \<Rightarrow> bonds_chain \<Rightarrow> pubkey \<Rightarrow> pubkey \<Rightarrow> pubkey
    \<Rightarrow> pubkey option \<Rightarrow> pubkey option \<Rightarrow> pubkey option \<Rightarrow> pubkey option \<Rightarrow> pubkey option \<Rightarrow> pubkey option
    \<Rightarrow> (instruction \<times> pubkey) res" where
  "fundSettlementInstruction sl bc generated settlementAccount stakeAccount configAccount bondAccount
       voteAccount operatorAuthority splitStakeAccount splitStakeRentPayer =
     rbind (wallet_default sl bc splitStakeRentPayer) (\<lambda>payer.
     rbind (bond_from sl bc configAccount voteAccount bondAccount) (\<lambda>bond.
     rbind (case bond of Some b \<Rightarrow> Inr b
       | None \<Rightarrow> rbind (getSettlement sl (bc_settlements bc) settlementAccount) (\<lambda>d. Inr (sd_bond d))) (\<lambda>b.
     rbind (both_from_bond sl bc b configAccount voteAccount) (\<lambda>(c, v).
     rbind (case operatorAuthority of Some k \<Rightarrow> Inr k
       | None \<Rightarrow> rbind (getConfig sl bc c) (\<lambda>d. Inr (cd_operator d))) (\<lambda>operator.
     (let split = orElse splitStakeAccount generated in
     rbind (bondsWithdrawerAuthority sl c (bc_programId bc)) (\<lambda>wa.
     rbind (settlementStakerAuthority sl settlementAccount (bc_programId bc)) (\<lambda>sa.
     Inr (\<lparr> ix_name = ''fundSettlement'', ix_args = [],
       ix_accounts = [(''config'', Key c), (''bond'', Key b), (''settlement'', Key settlementAccount),
         (''operatorAuthority'', Key operator), (''voteAccount'', Key v), (''stakeAccount'', Key stakeAccount),
         (''bondsWithdrawerAuthority'', Key (fst wa)), (''settlementStakerAuthority'', Key (fst sa)),
         (''splitStakeAccount'', Key split), (''splitStakeRentPayer'', Key payer),
         (''stakeHistory'', SysvarStakeHistory), (''rent'', SysvarRent), (''clock'', SysvarClock),
         (''stakeProgram'', StakeProgramId), (''stakeConfig'', StakeConfigId),
         (''systemProgram'', SystemProgramId)] \<rparr>, split)))))))))"

record claim_settlement_args =
  cs_claimAmount :: bn_num
  cs_index :: bn_num
  cs_merkleProof :: "byte list list"
  cs_stakeAccountFrom :: pubkey
  cs_stakeAccountTo :: pubkey
  cs_stakeAccountStaker :: "pubkey option"
  cs_stakeAccountWithdrawer :: "pubkey option"
  cs_settlementAccount :: "pubkey option"
  cs_settlementMerkleRoot :: "byte list option"
  cs_settlementEpoch :: "epoch_arg option"
  cs_configAccount :: "pubkey option"
  cs_bondAccount :: "pubkey option"
  cs_voteAccount :: "pubkey option"

text \<open>The authorities of the receiving account, read from the account when one is missing.\<close>

definition claim_authorities :: "solana_lib \<Rightarrow> bonds_chain \<Rightarrow> claim_settlement_args \<Rightarrow> (pubkey \<times> pubkey) res" where
  "claim_authorities sl bc a = (case (cs_stakeAccountStaker a, cs_stakeAccountWithdrawer a) of
       (Some s, Some w) \<Rightarrow> Inr (s, w)
     | (os, ow) \<Rightarrow> rbind (getStakeAccount sl (bc_stake bc) (cs_stakeAccountTo a) (Some 0)) (\<lambda>d.
         (case (sa_staker d, sa_withdrawer d) of
            (Some s, Some w) \<Rightarrow> Inr (orElse os s, orElse ow w)
          | _ \<Rightarrow> throw EError ''stakeAccountTo must be activated with staker and withdrawer defined'')))"

definition claim_node_hash :: "hash_lib \<Rightarrow> pubkey \<Rightarrow> pubkey \<Rightarrow> bn_num \<Rightarrow> bn_num \<Rightarrow> (int \<times> int \<times> byte list) res" where
  "claim_node_hash hl staker withdrawer claim index =
     rbind (new_BN claim) (\<lambda>c.
     rbind (bn_to_le8 c) (\<lambda>_.
     rbind (new_BN index) (\<lambda>i.
     rbind (node_hash hl \<lparr> mn_stakeAuthority = staker, mn_withdrawAuthority = withdrawer,
       mn_claim = c, mn_index = i \<rparr>) (\<lambda>e. Inr (c, i, ne_words e)))))"

text \<open>The configuration, the bond and the settlement of a claim.\<close>

definition claim_accounts :: "solana_lib \<Rightarrow> bonds_chain \<Rightarrow> claim_settlement_args \<Rightarrow> (pubkey \<times> pubkey \<times> pubkey) res" where
  "claim_accounts sl bc a =
     rbind (case cs_settlementAccount a of None \<Rightarrow> Inr (cs_bondAccount a)
       | Some s \<Rightarrow> rbind (getSettlement sl (bc_settlements bc) s) (\<lambda>d.
           Inr (Some (orElse (cs_bondAccount a) (sd_bond d))))) (\<lambda>bond.
     rbind (bond_from sl bc (cs_configAccount a) (cs_voteAccount a) bond) (\<lambda>bond.
     rbind (case bond of Some b \<Rightarrow> Inr b
       | None \<Rightarrow> throw EError ''Either [configAccount+voteAccount] or [bondAccount] must be provided'') (\<lambda>b.
     rbind (case (cs_configAccount a, cs_voteAccount a) of (Some c, Some _) \<Rightarrow> Inr c
       | (oc, _) \<Rightarrow> rbind (getBond sl bc b) (\<lambda>d. Inr (orElse oc (bd_config d)))) (\<lambda>c.
     rbind (case (cs_settlementAccount a, cs_settlementMerkleRoot a, cs_settlementEpoch a) of
         (Some s, _, _) \<Rightarrow> Inr s
       | (None, Some m, Some e) \<Rightarrow> rbind (settlementAddress sl b m e (bc_programId bc)) (\<lambda>r. Inr (fst r))
       | _ \<Rightarrow> throw EError ''[settlementAccount] must be provided or needed to have [bondAccount, merkleProof] to derive the address'') (\<lambda>s.
     Inr (c, b, s))))))"

definition claimSettlementV2Instruction :: "solana_lib \<Rightarrow> hash_lib \<Rightarrow> bonds_chain \<Rightarrow> claim_settlement_args
    \<Rightarrow> (instruction \<times> pubkey \<times> pubkey) res" where
  "claimSettlementV2Instruction sl hl bc a =
     rbind (claim_accounts sl bc a) (\<lambda>(c, b, s).
     rbind (settlementClaimsAddress sl s (bc_programId bc)) (\<lambda>sc.
     rbind (claim_authorities sl bc a) (\<lambda>(staker, withdrawer).
     rbind (claim_node_hash hl staker withdrawer (cs_claimAmount a) (cs_index a)) (\<lambda>(claim, index, words).
     rbind (bondsWithdrawerAuthority sl c (bc_programId bc)) (\<lambda>wa.
     Inr (\<lparr> ix_name = ''claimSettlementV2'',
       ix_args = [(''proof'', ArgBytesList (cs_merkleProof a)), (''treeNodeHash'', ArgBytes words),
         (''claim'', ArgInt claim), (''stakeAccountStaker'', ArgKey staker),
         (''stakeAccountWithdrawer'', ArgKey withdrawer), (''index'', ArgInt index)],
       ix_accounts = [(''config'', Key c), (''bond'', Key b), (''settlement'', Key s),
         (''settlementClaims'', Key (fst sc)), (''bondsWithdrawerAuthority'', Key (fst wa)),
         (''stakeAccountFrom'', Key (cs_stakeAccountFrom a)), (''stakeAccountTo'', Key (cs_stakeAccountTo a)),
         (''stakeHistory'', SysvarStakeHistory), (''clock'', SysvarClock),
         (''stakeProgram'', StakeProgramId)] \<rparr>, s, fst sc))))))"

section \<open>Closing a settlement\<close>

datatype 'a nullable = Undefined | Null | Given 'a

record close_args =
  cl_settlementAccount :: pubkey
  cl_configAccount :: "pubkey option"
  cl_bondAccount :: "pubkey option"
  cl_voteAccount :: "pubkey option"
  cl_rentCollector :: "pubkey option"
  cl_splitRentCollector :: "pubkey nullable"
  cl_splitRentRefundAccount :: "pubkey option"

record close_accounts =
  ac_config :: pubkey
  ac_bond :: pubkey
  ac_settlement :: pubkey
  ac_rentCollector :: pubkey
  ac_bondsAuth :: pubkey
  ac_splitRentCollector :: pubkey
  ac_splitRentRefundAccount :: pubkey

definition of_split :: "pubkey option \<Rightarrow> pubkey nullable" where
  "of_split x = (case x of None \<Rightarrow> Null | Some k \<Rightarrow> Given k)"

text \<open>The bond and the two collectors; what the settlement says fills in for null as well
  as for undefined, and its bond replaces the one that was given.\<close>

definition close_from_settlement :: "solana_lib \<Rightarrow> bonds_chain \<Rightarrow> pubkey \<Rightarrow> pubkey option \<Rightarrow> pubkey option
    \<Rightarrow> pubkey nullable \<Rightarrow> (pubkey \<times> pubkey \<times> pubkey nullable) res" where
  "close_from_settlement sl bc settlementAccount bond rentCollector split =
     (case (bond, rentCollector, split) of
        (Some b, Some rc, Null) \<Rightarrow> Inr (b, rc, Null)
      | (Some b, Some rc, Given k) \<Rightarrow> Inr (b, rc, Given k)
      | _ \<Rightarrow> rbind (getSettlement sl (bc_settlements bc) settlementAccount) (\<lambda>d.
          Inr (sd_bond d, orElse rentCollector (sd_rentCollector d),
            case split of Given k \<Rightarrow> Given k | _ \<Rightarrow> of_split (sd_splitRentCollector d))))"

text \<open>The configuration, and the vote account that is needed to search for a stake account.\<close>

definition close_config :: "solana_lib \<Rightarrow> bonds_chain \<Rightarrow> pubkey \<Rightarrow> close_args \<Rightarrow> (pubkey \<times> pubkey option) res" where
  "close_config sl bc b a = (case (cl_configAccount a, cl_voteAccount a, cl_splitRentRefundAccount a) of
       (Some c, Some v, _) \<Rightarrow> Inr (c, Some v)
     | (Some c, None, Some _) \<Rightarrow> Inr (c, None)
     | (oc, _, _) \<Rightarrow> rbind (getBond sl bc b) (\<lambda>d.
         Inr (orElse oc (bd_config d), Some (bd_voteAccount d))))"

text \<open>Who gets the rent of the split, and the account it is paid from.\<close>

definition close_refund :: "solana_lib \<Rightarrow> bonds_chain \<Rightarrow> pubkey \<Rightarrow> close_args \<Rightarrow> pubkey nullable
    \<Rightarrow> pubkey \<Rightarrow> pubkey option \<Rightarrow> (pubkey \<times> pubkey) res" where
  "close_refund sl bc generated a split withdrawer vote = (case split of
       Given k \<Rightarrow> (case cl_splitRentRefundAccount a of Some r \<Rightarrow> Inr (k, r)
         | None \<Rightarrow>
             rbind (settlementStakerAuthority sl (cl_settlementAccount a) (bc_programId bc)) (\<lambda>sa.
             rbind (findStakeAccounts (bc_stake bc) (Some (fst sa)) (Some withdrawer) vote (Some 0)) (\<lambda>xs.
             (case xs of x # _ \<Rightarrow> Inr (k, sa_address x)
              | [] \<Rightarrow> throw EError (''Cannot find any stake account usable to close settlement: ''
                  @ pk_b58 sl (cl_settlementAccount a) @ '' of vote account ''
                  @ (case vote of Some v \<Rightarrow> pk_b58 sl v | None \<Rightarrow> ''undefined''))))))
     | _ \<Rightarrow> Inr (generated, orElse (cl_splitRentRefundAccount a) generated))"

definition getCloseSettlementAccounts :: "solana_lib \<Rightarrow> bonds_chain \<Rightarrow> pubkey \<Rightarrow> close_args \<Rightarrow> close_accounts res" where
  "getCloseSettlementAccounts sl bc generated a =
     rbind (bond_from sl bc (cl_configAccount a) (cl_voteAccount a) (cl_bondAccount a)) (\<lambda>bond.
     rbind (close_from_settlement sl bc (cl_settlementAccount a) bond (cl_rentCollector a)
       (cl_splitRentCollector a)) (\<lambda>(b, collector, split).
     rbind (close_config sl bc b a) (\<lambda>(c, vote).
     rbind (bondsWithdrawerAuthority sl c (bc_programId bc)) (\<lambda>wa.
     rbind (close_refund sl bc generated a split (fst wa) vote) (\<lambda>(k, refund).
     Inr \<lparr> ac_config = c, ac_bond = b, ac_settlement = cl_settlementAccount a, ac_rentCollector = collector,
       ac_bondsAuth = fst wa, ac_splitRentCollector = k, ac_splitRentRefundAccount = refund \<rparr>)))))"

definition closeSettlementV2Instruction :: "solana_lib \<Rightarrow> bonds_chain \<Rightarrow> pubkey \<Rightarrow> close_args \<Rightarrow> instruction res" where
  "closeSettlementV2Instruction sl bc generated a =
     rbind (getCloseSettlementAccounts sl bc generated a) (\<lambda>x.
     rbind (settlementClaimsAddress sl (ac_settlement x) (bc_programId bc)) (\<lambda>sc.
     Inr \<lparr> ix_name = ''closeSettlementV2'', ix_args = [],
       ix_accounts = [(''config'', Key (ac_config x)), (''bond'', Key (ac_bond x)),
         (''settlement'', Key (ac_settlement x)), (''rentCollector'', Key (ac_rentCollector x)),
         (''splitRentCollector'', Key (ac_splitRentCollector x)),
         (''bondsWithdrawerAuthority'', Key (ac_bondsAuth x)), (''settlementClaims'', Key (fst sc)),
         (''splitRentRefundAccount'', Key (ac_splitRentRefundAccount x)), (''stakeProgram'', StakeProgramId),
         (''stakeHistory'', SysvarStakeHistory), (''clock'', SysvarClock)] \<rparr>))"

definition cancelSettlementInstruction :: "solana_lib \<Rightarrow> bonds_chain \<Rightarrow> pubkey \<Rightarrow> close_args \<Rightarrow> pubkey option
    \<Rightarrow> instruction res" where
  "cancelSettlementInstruction sl bc generated a authority =
     rbind (wallet_default sl bc authority) (\<lambda>auth.
     rbind (getCloseSettlementAccounts sl bc generated a) (\<lambda>x.
     rbind (settlementClaimsAddress sl (ac_settlement x) (bc_programId bc)) (\<lambda>sc.
     Inr \<lparr> ix_name = ''cancelSettlement'', ix_args = [],
       ix_accounts = [(''authority'', Key auth), (''config'', Key (ac_config x)), (''bond'', Key (ac_bond x)),
         (''settlement'', Key (ac_settlement x)), (''settlementClaims'', Key (fst sc)),
         (''rentCollector'', Key (ac_rentCollector x)), (''splitRentCollector'', Key (ac_splitRentCollector x)),
         (''bondsWithdrawerAuthority'', Key (ac_bondsAuth x)),
         (''splitRentRefundAccount'', Key (ac_splitRentRefundAccount x)), (''stakeProgram'', StakeProgramId),
         (''stakeHistory'', SysvarStakeHistory), (''clock'', SysvarClock)] \<rparr>)))"

section \<open>Claims accounts and stake accounts\<close>

definition upsizeSettlementClaims :: "solana_lib \<Rightarrow> bonds_chain \<Rightarrow> pubkey option \<Rightarrow> pubkey option
    \<Rightarrow> pubkey option \<Rightarrow> instruction res" where
  "upsizeSettlementClaims sl bc settlementClaimsAccount settlementAccount rentPayer =
     rbind (wallet_default sl bc rentPayer) (\<lambda>payer.
     rbind (case settlementAccount of
         Some s \<Rightarrow> rbind (settlementClaimsAddress sl s (bc_programId bc)) (\<lambda>d.
           if settlementClaimsAccount \<noteq> None \<and> settlementClaimsAccount \<noteq> Some (fst d)
           then throw EError ''Provided settlementClaimsAccount does not match derived address from Settlement address.''
           else Inr (fst d))
       | None \<Rightarrow> (case settlementClaimsAccount of Some k \<Rightarrow> Inr k
           | None \<Rightarrow> throw EError (''Cannot get settlement claims account address to be upsized. ''
               @ ''Provide either settlementClaimsAccount or settlementAccount.''))) (\<lambda>claims.
     Inr \<lparr> ix_name = ''upsizeSettlementClaims'', ix_args = [],
       ix_accounts = [(''settlementClaims'', Key claims), (''rentPayer'', Key payer),
         (''systemProgram'', SystemProgramId)] \<rparr>))"

definition resetStakeInstruction :: "solana_lib \<Rightarrow> bonds_chain \<Rightarrow> pubkey \<Rightarrow> pubkey \<Rightarrow> pubkey option
    \<Rightarrow> pubkey option \<Rightarrow> pubkey option \<Rightarrow> instruction res" where
  "resetStakeInstruction sl bc stakeAccount settlementAccount bondAccount configAccount voteAccount =
     rbind (case voteAccount of Some v \<Rightarrow> Inr v
       | None \<Rightarrow> rbind (getStakeAccount sl (bc_stake bc) stakeAccount (Some 0)) (\<lambda>d.
           (case sa_voter d of Some v \<Rightarrow> Inr v
            | None \<Rightarrow> throw EError (''Cannot load vote account address from stake account '' @ pk_b58 sl stakeAccount)))) (\<lambda>v.
     rbind (checkAndGetBondAddress sl bondAccount configAccount (Some v) (bc_programId bc)) (\<lambda>b.
     rbind (case configAccount of Some c \<Rightarrow> Inr c
       | None \<Rightarrow> rbind (getBond sl bc b) (\<lambda>d. Inr (bd_config d))) (\<lambda>c.
     rbind (bondsWithdrawerAuthority sl c (bc_programId bc)) (\<lambda>wa.
     Inr \<lparr> ix_name = ''resetStake'', ix_args = [],
       ix_accounts = [(''config'', Key c), (''bond'', Key b), (''settlement'', Key settlementAccount),
         (''bondsWithdrawerAuthority'', Key (fst wa)), (''stakeAccount'', Key stakeAccount),
         (''voteAccount'', Key v), (''stakeHistory'', SysvarStakeHistory), (''stakeConfig'', StakeConfigId),
         (''clock'', SysvarClock), (''stakeProgram'', StakeProgramId)] \<rparr>))))"

definition withdrawStakeInstruction :: "solana_lib \<Rightarrow> bonds_chain \<Rightarrow> pubkey \<Rightarrow> pubkey \<Rightarrow> pubkey \<Rightarrow> pubkey
    \<Rightarrow> pubkey option \<Rightarrow> instruction res" where
  "withdrawStakeInstruction sl bc stakeAccount settlementAccount configAccount withdrawTo operatorAuthority =
     rbind (case operatorAuthority of Some k \<Rightarrow> Inr k
       | None \<Rightarrow> rbind (getConfig sl bc configAccount) (\<lambda>d. Inr (cd_operator d))) (\<lambda>operator.
     rbind (bondsWithdrawerAuthority sl configAccount (bc_programId bc)) (\<lambda>wa.
     Inr \<lparr> ix_name = ''withdrawStake'', ix_args = [],
       ix_accounts = [(''config'', Key configAccount), (''settlement'', Key settlementAccount),
         (''bondsWithdrawerAuthority'', Key (fst wa)), (''stakeAccount'', Key stakeAccount),
         (''operatorAuthority'', Key operator), (''withdrawTo'', Key withdrawTo),
         (''stakeHistory'', SysvarStakeHistory), (''clock'', SysvarClock),
         (''stakeProgram'', StakeProgramId)] \<rparr>))"

section \<open>Claims of the first version\<close>

definition SETTLEMENT_CLAIM_SEED :: "byte list" where "SETTLEMENT_CLAIM_SEED = bytes_of ''claim_account''"

definition hashTreeV1 :: "hash_lib \<Rightarrow> pubkey \<Rightarrow> pubkey \<Rightarrow> bn_num \<Rightarrow> node_encoded res" where
  "hashTreeV1 hl stakeAuthority withdrawAuthority claim =
     rbind (new_BN claim) (\<lambda>c.
     rbind (bn_to_le8 c) (\<lambda>b.
     Inr (toEncodings hl (hl_sha256 hl (wa_bytes (pubkeyToWordArray stakeAuthority)
       @ wa_bytes (pubkeyToWordArray withdrawAuthority) @ b)))))"

definition settlementClaimAddress :: "solana_lib \<Rightarrow> hash_lib \<Rightarrow> pubkey \<Rightarrow> pubkey \<Rightarrow> pubkey \<Rightarrow> bn_num
    \<Rightarrow> pubkey \<Rightarrow> (pubkey \<times> nat) res" where
  "settlementClaimAddress sl hl settlement staker withdrawer claim programId =
     rbind (hashTreeV1 hl staker withdrawer claim) (\<lambda>e.
       find_pda sl [SETTLEMENT_CLAIM_SEED, settlement, ne_buffer e] programId)"

end
