(* ===== verification/Sdk_Complete.thy ===== *)
theory Sdk_Complete
  imports Sdk_Settlement_Ix
begin

text \<open>
  Completing the accounts of an instruction does not depend on which of them the caller
  gives. \<open>coherent\<close> says that a configuration, a vote account and a bond belong together on
  the cluster; from any of them that suffice, a builder returns what it returns when all are
  given.
\<close>

definition coherent :: "solana_lib \<Rightarrow> bonds_chain \<Rightarrow> pubkey \<Rightarrow> pubkey \<Rightarrow> pubkey \<Rightarrow> bool" where
  "coherent sl bc c v b \<longleftrightarrow>
     (\<exists>n. bondAddress sl c v (bc_programId bc) = Inr (b, n)) \<and>
     (\<exists>d. getBond sl bc b = Inr d \<and> bd_config d = c \<and> bd_voteAccount d = v)"

definition coherent_request :: "solana_lib \<Rightarrow> bonds_chain \<Rightarrow> pubkey \<Rightarrow> pubkey \<Rightarrow> pubkey \<Rightarrow> bool" where
  "coherent_request sl bc v b wr \<longleftrightarrow>
     (\<exists>n. withdrawRequestAddress sl b (bc_programId bc) = Inr (wr, n)) \<and>
     (\<exists>d. getWithdrawRequest sl bc wr = Inr d \<and> wd_bond d = b \<and> wd_voteAccount d = v)"

definition settled_on :: "solana_lib \<Rightarrow> bonds_chain \<Rightarrow> pubkey \<Rightarrow> pubkey \<Rightarrow> bool" where
  "settled_on sl bc b s \<longleftrightarrow> (\<exists>d. getSettlement sl (bc_settlements bc) s = Inr d \<and> sd_bond d = b)"

lemma coherentE:
  assumes "coherent sl bc c v b"
  obtains n d where "bondAddress sl c v (bc_programId bc) = Inr (b, n)" "getBond sl bc b = Inr d"
    "bd_config d = c" "bd_voteAccount d = v"
  using assms by (auto simp: coherent_def)

lemma both_from_bond_coherent:
  "coherent sl bc c v b \<Longrightarrow> wants oc c \<Longrightarrow> wants ov v \<Longrightarrow> both_from_bond sl bc b oc ov = Inr (c, v)"
  by (auto simp: coherent_def wants_def both_from_bond_def)

lemma each_from_bond_coherent:
  "coherent sl bc c v b \<Longrightarrow> wants oc c \<Longrightarrow> wants ov v \<Longrightarrow> each_from_bond sl bc b oc ov = Inr (c, v)"
  by (auto simp: coherent_def wants_def each_from_bond_def)

text \<open>The address of the bond, when it can be found at all.\<close>

lemma checkBond_coherent:
  assumes "coherent sl bc c v b" and "wants ob b" and "wants oc c" and "wants ov v"
    and "checkAndGetBondAddress sl ob oc ov (bc_programId bc) = Inr b'"
  shows "b' = b"
  using assms by (auto simp: coherent_def wants_def checkAndGetBondAddress_def)

lemma bond_from_coherent:
  assumes "coherent sl bc c v b" and "wants ob b" and "wants oc c" and "wants ov v"
  shows "\<exists>ob'. bond_from sl bc oc ov ob = Inr ob' \<and> wants ob' b"
  using assms by (auto simp: coherent_def wants_def bond_from_def split: option.splits)

lemma default_config_wants:
  assumes "wants oc c" and "ob = None \<Longrightarrow> oc = None \<Longrightarrow> MARINADE_CONFIG_ADDRESS sl = Inr c"
    and "default_config sl ob oc ov = Inr oc'"
  shows "wants oc' c"
  using assms by (auto simp: default_config_def wants_def split: if_splits)

lemma wants_Some [simp]: "wants (Some x) x"
  by (simp add: wants_def)

lemma full_simps [simp]:
  "checkAndGetBondAddress sl (Some b) oc ov pid = Inr b"
  "both_from_bond sl bc b (Some c) (Some v) = Inr (c, v)"
  "each_from_bond sl bc b (Some c) (Some v) = Inr (c, v)"
  "default_config sl (Some b) oc ov = Inr oc"
  "bond_from sl bc oc ov (Some b) = Inr (Some b)"
  by (simp_all add: checkAndGetBondAddress_def both_from_bond_def each_from_bond_def default_config_def
      bond_from_def split: option.splits)

text \<open>Two sequences that agree on what the first step returns.\<close>

lemma rbind_step:
  "rbind m f = Inr r \<Longrightarrow> (\<And>x. m = Inr x \<Longrightarrow> x = y) \<Longrightarrow> f y = Inr r"
  by (auto simp: rbind_eq_Inr)

section \<open>Bonds\<close>

lemma configureBond_complete:
  assumes "coherent sl bc c v b" and "wants ob b" and "wants oc c" and "wants ov v"
    and "configureBondInstruction sl bc ob oc ov auth x y z = Inr r"
  shows "configureBondInstruction sl bc (Some b) (Some c) (Some v) auth x y z = Inr r"
  using assms(5) checkBond_coherent [OF assms(1-4)] both_from_bond_coherent [OF assms(1,3,4)]
  by (auto simp: configureBondInstruction_def rbind_eq_Inr)

lemma configureBondWithMint_complete:
  assumes "coherent sl bc c v b" and "wants ob b" and "wants oc c" and "wants ov v"
    and "configureBondWithMintInstruction sl tokens bc ob oc ov vi ta tau x y z = Inr r"
  shows "configureBondWithMintInstruction sl tokens bc (Some b) (Some c) (Some v) vi ta tau x y z = Inr r"
  using assms(5) checkBond_coherent [OF assms(1-4)] each_from_bond_coherent [OF assms(1,3,4)]
  by (auto simp: configureBondWithMintInstruction_def rbind_eq_Inr)

lemma mintBond_complete:
  assumes "coherent sl bc c v b" and "wants ob b" and "wants oc c" and "wants ov v"
    and "mintBondInstruction sl tokens bc vi ob oc ov ma rp = Inr r"
  shows "mintBondInstruction sl tokens bc vi (Some b) (Some c) (Some v) ma rp = Inr r"
  using assms(5) checkBond_coherent [OF assms(1-4)] both_from_bond_coherent [OF assms(1,3,4)]
  by (auto simp: mintBondInstruction_def rbind_eq_Inr)

lemma fundBond_complete:
  assumes "coherent sl bc c v b" and "wants ob b" and "wants oc c" and "wants ov v"
    and default: "ob = None \<Longrightarrow> oc = None \<Longrightarrow> MARINADE_CONFIG_ADDRESS sl = Inr c"
    and "fundBondInstruction sl bc ob stake sauth oc ov = Inr r"
  shows "fundBondInstruction sl bc (Some b) stake sauth (Some c) (Some v) = Inr r"
proof -
  obtain auth oc' b' c' wa where *: "wallet_default sl bc sauth = Inr auth"
    "default_config sl ob oc ov = Inr oc'" "checkAndGetBondAddress sl ob oc' ov (bc_programId bc) = Inr b'"
    "(case oc' of Some c \<Rightarrow> Inr c | None \<Rightarrow> rbind (getBond sl bc b') (\<lambda>d. Inr (bd_config d))) = Inr c'"
    "bondsWithdrawerAuthority sl c' (bc_programId bc) = Inr wa"
    using assms(6) by (auto simp: fundBondInstruction_def rbind_eq_Inr)
  have oc': "wants oc' c" by (rule default_config_wants [OF assms(3) default *(2)])
  have b': "b' = b" by (rule checkBond_coherent [OF assms(1,2) oc' assms(4) *(3)])
  have "c' = c" using *(4) oc' assms(1) b' by (auto simp: wants_def coherent_def)
  then show ?thesis using assms(6) * b' by (auto simp: fundBondInstruction_def rbind_eq_Inr)
qed

lemma initWithdraw_complete:
  assumes "coherent sl bc c v b" and "wants ob b" and "wants oc c" and "wants ov v"
    and default: "ob = None \<Longrightarrow> oc = None \<Longrightarrow> MARINADE_CONFIG_ADDRESS sl = Inr c"
    and "initWithdrawRequestInstruction sl bc ob oc ov auth rp n = Inr r"
  shows "initWithdrawRequestInstruction sl bc (Some b) (Some c) (Some v) auth rp n = Inr r"
proof -
  obtain k p oc' b' where *: "wallet_default sl bc auth = Inr k" "wallet_default sl bc rp = Inr p"
    "default_config sl ob oc ov = Inr oc'" "checkAndGetBondAddress sl ob oc' ov (bc_programId bc) = Inr b'"
    using assms(6) by (auto simp: initWithdrawRequestInstruction_def rbind_eq_Inr)
  have oc': "wants oc' c" by (rule default_config_wants [OF assms(3) default *(3)])
  have b': "b' = b" by (rule checkBond_coherent [OF assms(1,2) oc' assms(4) *(4)])
  show ?thesis
    using assms(6) * b' each_from_bond_coherent [OF assms(1) oc' assms(4)]
    by (simp add: initWithdrawRequestInstruction_def)
qed

section \<open>Withdraw requests\<close>

definition claim_wants :: "claim_args \<Rightarrow> pubkey \<Rightarrow> pubkey \<Rightarrow> pubkey \<Rightarrow> pubkey \<Rightarrow> bool" where
  "claim_wants a c v b wr \<longleftrightarrow> wants (ca_configAccount a) c \<and> wants (ca_voteAccount a) v
     \<and> wants (ca_bondAccount a) b \<and> wants (ca_withdrawRequestAccount a) wr"

definition claim_full :: "claim_args \<Rightarrow> pubkey \<Rightarrow> pubkey \<Rightarrow> pubkey \<Rightarrow> pubkey \<Rightarrow> claim_args" where
  "claim_full a c v b wr = a\<lparr> ca_configAccount := Some c, ca_voteAccount := Some v,
     ca_bondAccount := Some b, ca_withdrawRequestAccount := Some wr \<rparr>"

lemma coherent_requestE:
  assumes "coherent_request sl bc v b wr"
  obtains m q where "withdrawRequestAddress sl b (bc_programId bc) = Inr (wr, m)"
    "getWithdrawRequest sl bc wr = Inr q" "wd_bond q = b" "wd_voteAccount q = v"
  using assms by (auto simp: coherent_request_def)

lemma claim_resolve_complete:
  assumes "coherent sl bc c v b" and "coherent_request sl bc v b wr" and "claim_wants a c v b wr"
    and "claim_resolve sl bc a = Inr x"
  shows "\<exists>rd. x = (rd, c, v, wr, b) \<and> (rd = None \<or> getWithdrawRequest sl bc wr = Inr (the rd))"
proof -
  obtain n d where b: "bondAddress sl c v (bc_programId bc) = Inr (b, n)" "getBond sl bc b = Inr d"
    "bd_config d = c" "bd_voteAccount d = v"
    by (rule coherentE [OF assms(1)])
  obtain m q where q: "withdrawRequestAddress sl b (bc_programId bc) = Inr (wr, m)"
    "getWithdrawRequest sl bc wr = Inr q" "wd_bond q = b" "wd_voteAccount q = v"
    by (rule coherent_requestE [OF assms(2)])
  have "x = (None, c, v, wr, b) \<or> x = (Some q, c, v, wr, b)"
    using assms(4) assms(3) unfolding claim_wants_def wants_def
    by (elim conjE disjE) (simp_all add: claim_resolve_def bond_from_def b q)
  then show ?thesis using q(2) by auto
qed

lemma claimWithdraw_complete:
  assumes "coherent sl bc c v b" and "coherent_request sl bc v b wr" and "claim_wants a c v b wr"
    and "claimWithdrawRequestInstruction sl bc g a = Inr r"
  shows "claimWithdrawRequestInstruction sl bc g (claim_full a c v b wr) = Inr r"
proof -
  obtain x where x: "claim_resolve sl bc a = Inr x"
    using assms(4) by (auto simp: claimWithdrawRequestInstruction_def rbind_eq_Inr)
  obtain rd where rd: "x = (rd, c, v, wr, b)" "rd = None \<or> getWithdrawRequest sl bc wr = Inr (the rd)"
    using claim_resolve_complete [OF assms(1-3) x] by blast
  have full: "claim_resolve sl bc (claim_full a c v b wr) = Inr (None, c, v, wr, b)"
    by (simp add: claim_resolve_def claim_full_def)
  have data: "(case rd of Some d \<Rightarrow> Inr d | None \<Rightarrow> getWithdrawRequest sl bc wr) = getWithdrawRequest sl bc wr"
    using rd(2) by (cases rd) simp_all
  have fields: "ca_authority (claim_full a c v b wr) = ca_authority a"
    "ca_splitStakeRentPayer (claim_full a c v b wr) = ca_splitStakeRentPayer a"
    "ca_withdrawer (claim_full a c v b wr) = ca_withdrawer a"
    "ca_stakeAccount (claim_full a c v b wr) = ca_stakeAccount a"
    by (simp_all add: claim_full_def)
  have "claimWithdrawRequestInstruction sl bc g (claim_full a c v b wr) = claimWithdrawRequestInstruction sl bc g a"
    unfolding claimWithdrawRequestInstruction_def fields full x rd(1) rbind_Inr prod.case option.case data ..
  then show ?thesis using assms(4) by simp
qed

lemma cancel_resolve_complete:
  assumes "coherent sl bc c v b" and "coherent_request sl bc v b wr"
    and "wants owr wr" and "wants ob b" and "wants oc c" and "wants ov v"
    and "cancel_resolve sl bc owr ob oc ov (Some auth) = Inr x"
  shows "x = (wr, b, c, Some v, auth)"
proof -
  obtain n d where b: "bondAddress sl c v (bc_programId bc) = Inr (b, n)" "getBond sl bc b = Inr d"
    "bd_config d = c" "bd_voteAccount d = v"
    by (rule coherentE [OF assms(1)])
  obtain m q where q: "withdrawRequestAddress sl b (bc_programId bc) = Inr (wr, m)"
    "getWithdrawRequest sl bc wr = Inr q" "wd_bond q = b" "wd_voteAccount q = v"
    by (rule coherent_requestE [OF assms(2)])
  show ?thesis
    using assms(7) assms(3-6) unfolding wants_def
    by (elim conjE disjE) (simp_all add: cancel_resolve_def bond_from_def b q)
qed

lemma cancelWithdraw_complete:
  assumes "coherent sl bc c v b" and "coherent_request sl bc v b wr"
    and "wants owr wr" and "wants ob b" and "wants oc c" and "wants ov v"
    and "cancelWithdrawRequestInstruction sl bc owr ob oc ov (Some auth) rc = Inr r"
  shows "cancelWithdrawRequestInstruction sl bc (Some wr) (Some b) (Some c) (Some v) (Some auth) rc = Inr r"
proof -
  obtain x where x: "cancel_resolve sl bc owr ob oc ov (Some auth) = Inr x"
    using assms(7) by (auto simp: cancelWithdrawRequestInstruction_def rbind_eq_Inr)
  have "cancel_resolve sl bc (Some wr) (Some b) (Some c) (Some v) (Some auth) = Inr (wr, b, c, Some v, auth)"
    by (simp add: cancel_resolve_def)
  then show ?thesis
    using assms(7) x cancel_resolve_complete [OF assms(1-6) x]
    by (simp add: cancelWithdrawRequestInstruction_def)
qed

section \<open>Settlements\<close>

lemma fundSettlement_complete:
  assumes "coherent sl bc c v b" and "settled_on sl bc b s"
    and "wants ob b" and "wants oc c" and "wants ov v"
    and "fundSettlementInstruction sl bc g s stake oc ob ov oa sa rp = Inr r"
  shows "fundSettlementInstruction sl bc g s stake (Some c) (Some b) (Some v) oa sa rp = Inr r"
proof -
  obtain n d where b: "bondAddress sl c v (bc_programId bc) = Inr (b, n)" "getBond sl bc b = Inr d"
    "bd_config d = c" "bd_voteAccount d = v"
    by (rule coherentE [OF assms(1)])
  obtain e where e: "getSettlement sl (bc_settlements bc) s = Inr e" "sd_bond e = b"
    using assms(2) by (auto simp: settled_on_def)
  show ?thesis
    using assms(6) assms(3-5) unfolding wants_def
    by (elim conjE disjE)
      (simp_all add: fundSettlementInstruction_def bond_from_def both_from_bond_def b e)
qed

lemma resetStake_complete:
  assumes "coherent sl bc c v b" and "wants ob b" and "wants oc c" and "wants ov v"
    and "\<exists>x. getStakeAccount sl (bc_stake bc) stake (Some 0) = Inr x \<and> sa_voter x = Some v"
    and "resetStakeInstruction sl bc stake s ob oc ov = Inr r"
  shows "resetStakeInstruction sl bc stake s (Some b) (Some c) (Some v) = Inr r"
proof -
  obtain n d where b: "bondAddress sl c v (bc_programId bc) = Inr (b, n)" "getBond sl bc b = Inr d"
    "bd_config d = c" "bd_voteAccount d = v"
    by (rule coherentE [OF assms(1)])
  obtain x where x: "getStakeAccount sl (bc_stake bc) stake (Some 0) = Inr x" "sa_voter x = Some v"
    using assms(5) by blast
  show ?thesis
    using assms(6) assms(2-4) unfolding wants_def
    by (elim conjE disjE)
      (simp_all add: resetStakeInstruction_def checkAndGetBondAddress_def b x)
qed

definition settlement_wants :: "claim_settlement_args \<Rightarrow> pubkey \<Rightarrow> pubkey \<Rightarrow> pubkey \<Rightarrow> pubkey \<Rightarrow> bool" where
  "settlement_wants a c v b s \<longleftrightarrow> wants (cs_configAccount a) c \<and> wants (cs_voteAccount a) v
     \<and> wants (cs_bondAccount a) b \<and> wants (cs_settlementAccount a) s"

definition settlement_full :: "claim_settlement_args \<Rightarrow> pubkey \<Rightarrow> pubkey \<Rightarrow> pubkey \<Rightarrow> pubkey \<Rightarrow> claim_settlement_args" where
  "settlement_full a c v b s = a\<lparr> cs_configAccount := Some c, cs_voteAccount := Some v,
     cs_bondAccount := Some b, cs_settlementAccount := Some s \<rparr>"

lemma claim_accounts_complete:
  assumes "coherent sl bc c v b" and "settled_on sl bc b s" and "settlement_wants a c v b s"
    and "\<And>m e. cs_settlementAccount a = None \<Longrightarrow> cs_settlementMerkleRoot a = Some m \<Longrightarrow> cs_settlementEpoch a = Some e
       \<Longrightarrow> \<exists>n. settlementAddress sl b m e (bc_programId bc) = Inr (s, n)"
    and "claim_accounts sl bc a = Inr x"
  shows "x = (c, b, s)"
proof -
  obtain n d where b: "bondAddress sl c v (bc_programId bc) = Inr (b, n)" "getBond sl bc b = Inr d"
    "bd_config d = c" "bd_voteAccount d = v"
    by (rule coherentE [OF assms(1)])
  obtain e where e: "getSettlement sl (bc_settlements bc) s = Inr e" "sd_bond e = b"
    using assms(2) by (auto simp: settled_on_def)
  obtain s' where s': "x = (c, b, s')"
    "(case (cs_settlementAccount a, cs_settlementMerkleRoot a, cs_settlementEpoch a) of
         (Some s, _, _) \<Rightarrow> Inr s
       | (None, Some m, Some e) \<Rightarrow> rbind (settlementAddress sl b m e (bc_programId bc)) (\<lambda>r. Inr (fst r))
       | _ \<Rightarrow> throw EError ''[settlementAccount] must be provided or needed to have [bondAccount, merkleProof] to derive the address'')
     = Inr s'"
    using assms(5) assms(3) unfolding settlement_wants_def wants_def
    by (elim conjE disjE) (auto simp: claim_accounts_def bond_from_def b e rbind_eq_Inr)
  moreover have "s' = s"
  proof (cases "cs_settlementAccount a")
    case None
    then obtain m e where me: "cs_settlementMerkleRoot a = Some m" "cs_settlementEpoch a = Some e"
      using s'(2) by (auto split: option.splits)
    obtain n where "settlementAddress sl b m e (bc_programId bc) = Inr (s, n)" using assms(4) [OF None me] by blast
    then show ?thesis using s'(2) None me by simp
  next
    case (Some y)
    then show ?thesis using s'(2) assms(3) by (simp add: settlement_wants_def wants_def)
  qed
  ultimately show ?thesis by simp
qed

lemma claimSettlement_complete:
  assumes "coherent sl bc c v b" and "settled_on sl bc b s" and "settlement_wants a c v b s"
    and "\<And>m e. cs_settlementAccount a = None \<Longrightarrow> cs_settlementMerkleRoot a = Some m \<Longrightarrow> cs_settlementEpoch a = Some e
       \<Longrightarrow> \<exists>n. settlementAddress sl b m e (bc_programId bc) = Inr (s, n)"
    and "claimSettlementV2Instruction sl hl bc a = Inr r"
  shows "claimSettlementV2Instruction sl hl bc (settlement_full a c v b s) = Inr r"
proof -
  obtain x where x: "claim_accounts sl bc a = Inr x"
    using assms(5) by (auto simp: claimSettlementV2Instruction_def rbind_eq_Inr)
  have "x = (c, b, s)" using claim_accounts_complete [OF assms(1-3) assms(4) x] by blast
  moreover have "claim_accounts sl bc (settlement_full a c v b s) = Inr (c, b, s)"
    using assms(2) by (auto simp: claim_accounts_def settlement_full_def settled_on_def)
  moreover have "claim_authorities sl bc (settlement_full a c v b s) = claim_authorities sl bc a"
    by (simp add: claim_authorities_def settlement_full_def split: option.split)
  ultimately show ?thesis using assms(5) x
    by (simp add: claimSettlementV2Instruction_def) (simp add: settlement_full_def)
qed

lemma close_refund_search:
  assumes "close_refund sl bc g a (Given k') wa vote = Inr (k, refund)" and "cl_splitRentRefundAccount a = None"
  shows "k = k' \<and> (\<exists>sa vote y ys. settlementStakerAuthority sl (cl_settlementAccount a) (bc_programId bc) = Inr sa
    \<and> findStakeAccounts (bc_stake bc) (Some (fst sa)) (Some wa) vote (Some 0) = Inr (y # ys)
    \<and> refund = sa_address y)"
proof -
  obtain sa xs where *: "settlementStakerAuthority sl (cl_settlementAccount a) (bc_programId bc) = Inr sa"
    "findStakeAccounts (bc_stake bc) (Some (fst sa)) (Some wa) vote (Some 0) = Inr xs"
    using assms by (auto simp: close_refund_def rbind_eq_Inr)
  then show ?thesis using assms by (cases xs) (auto simp: close_refund_def)
qed

end
