(* ===== verification/Sdk_Ix_Properties.thy ===== *)
theory Sdk_Ix_Properties
  imports Sdk_Complete Sdk_Properties
begin

text \<open>
  The properties of the instruction builders. \<open>ix_chain\<close> is the cluster of the instances:
  a bond at its derived address, with a withdraw request and a settlement.
\<close>

text \<open>What a builder returns for the accounts it is given, it returns for all three.\<close>

definition completes :: "(pubkey option \<Rightarrow> pubkey option \<Rightarrow> pubkey option \<Rightarrow> 'a res) \<Rightarrow> pubkey option
    \<Rightarrow> pubkey option \<Rightarrow> pubkey option \<Rightarrow> pubkey \<Rightarrow> pubkey \<Rightarrow> pubkey \<Rightarrow> bool" where
  "completes f ob oc ov b c v \<longleftrightarrow> (case f ob oc ov of Inl e \<Rightarrow> True | Inr r \<Rightarrow> f (Some b) (Some c) (Some v) = Inr r)"

lemma completesI: "(\<And>r. f ob oc ov = Inr r \<Longrightarrow> f (Some b) (Some c) (Some v) = Inr r) \<Longrightarrow> completes f ob oc ov b c v"
  by (simp add: completes_def split: sum.split)

lemma completesD: "completes f ob oc ov b c v \<Longrightarrow> f ob oc ov = Inr r \<Longrightarrow> f (Some b) (Some c) (Some v) = Inr r"
  by (simp add: completes_def)

definition names_bond :: "instruction \<Rightarrow> pubkey \<Rightarrow> pubkey \<Rightarrow> bool" where
  "names_bond ix b c \<longleftrightarrow> ix_account_of ix ''bond'' = Some (Key b) \<and> ix_account_of ix ''config'' = Some (Key c)"

definition ix_bond :: pubkey where "ix_bond = BOND_SEED @ demo_key 9 @ demo_key 21"

definition ix_request :: pubkey where "ix_request = WITHDRAW_REQUEST_SEED @ ix_bond"

definition ix_chain :: bonds_chain where
  "ix_chain = demo_chain\<lparr>
     bc_bonds := db_rpc [(ix_bond, [])] (\<lambda>d. Inr \<lparr> bd_config = demo_key 9,
        bd_voteAccount = demo_key 21, bd_authority = demo_key 22, bd_cpmpe = 5 \<rparr>),
     bc_withdraws := db_rpc [(ix_request, [])] (\<lambda>d. Inr (demo_request\<lparr> wd_bond := ix_bond \<rparr>)),
     bc_settlements := db_rpc [(demo_key 70, [])] (\<lambda>d. Inr \<lparr> sd_bond = ix_bond, sd_stakerAuthority = demo_key 72,
        sd_rentCollector = demo_key 71, sd_splitRentCollector = None \<rparr>) \<rparr>"

lemma ix_chain_simps [simp]:
  "bc_programId ix_chain = demo_key 8" "bc_stake ix_chain = demo_stake_chain"
  "bc_wallet ix_chain = Some (demo_key 50)" "bc_nodePubkey ix_chain v = Inr (demo_key 51)"
  by (simp_all add: ix_chain_def) (simp add: demo_chain_def)

lemma ix_getBond: "getBond demo_sl ix_chain ix_bond
    = Inr \<lparr> bd_config = demo_key 9, bd_voteAccount = demo_key 21, bd_authority = demo_key 22, bd_cpmpe = 5 \<rparr>"
  by (simp add: getBond_def fetch_account_def fetchNullable_def db_rpc_def ix_chain_def)

lemma ix_getRequest: "getWithdrawRequest demo_sl ix_chain ix_request = Inr (demo_request\<lparr> wd_bond := ix_bond \<rparr>)"
  by (simp add: getWithdrawRequest_def fetch_account_def fetchNullable_def db_rpc_def ix_chain_def)

lemma ix_bondAddress: "bondAddress demo_sl (demo_key 9) (demo_key 21) p = Inr (ix_bond, 255)"
  by (simp add: bondAddress_def demo_sl_def ix_bond_def)

lemma ix_requestAddress: "withdrawRequestAddress demo_sl ix_bond p = Inr (ix_request, 255)"
  by (simp add: withdrawRequestAddress_def demo_sl_def ix_request_def)

lemma ix_coherent: "coherent demo_sl ix_chain (demo_key 9) (demo_key 21) ix_bond"
  by (simp add: coherent_def ix_bondAddress ix_getBond)

lemma ix_coherent_request: "coherent_request demo_sl ix_chain (demo_key 21) ix_bond ix_request"
  by (simp add: coherent_request_def ix_requestAddress ix_getRequest demo_request_def)

lemma ix_settled: "settled_on demo_sl ix_chain ix_bond (demo_key 70)"
  by (simp add: settled_on_def getSettlement_def fetch_account_def fetchNullable_def db_rpc_def ix_chain_def)

lemma ix_authority: "bondsWithdrawerAuthority demo_sl (demo_key 9) p = Inr (demo_authority, 255)"
  by (rule demo_authority_address)

section \<open>Bonds\<close>

text \<open>
  C20: the builders of bond instructions do not depend on which of the bond, its configuration
  and its vote account they are given, as long as what is given belongs together: a builder
  that succeeds returns the instruction it returns when all three are given, and that
  instruction names this bond and this configuration. Only \<open>fundBond\<close> and
  \<open>initWithdrawRequest\<close> take the Marinade configuration for a missing one.
\<close>

theorem bond_builders_complete:
  assumes "coherent sl bc c v b" and "wants ob b" and "wants oc c" and "wants ov v"
    and "ob = None \<Longrightarrow> oc = None \<Longrightarrow> MARINADE_CONFIG_ADDRESS sl = Inr c"
  shows "completes (\<lambda>ob oc ov. configureBondInstruction sl bc ob oc ov auth x y z) ob oc ov b c v
    \<and> completes (\<lambda>ob oc ov. configureBondWithMintInstruction sl tokens bc ob oc ov vi ta auth x y z) ob oc ov b c v
    \<and> completes (\<lambda>ob oc ov. mintBondInstruction sl tokens bc vi ob oc ov ma rp) ob oc ov b c v
    \<and> completes (\<lambda>ob oc ov. fundBondInstruction sl bc ob stake auth oc ov) ob oc ov b c v
    \<and> completes (\<lambda>ob oc ov. initWithdrawRequestInstruction sl bc ob oc ov auth rp n) ob oc ov b c v
    \<and> (case configureBondInstruction sl bc ob oc ov auth x y z of
         Inl e \<Rightarrow> True | Inr r \<Rightarrow> fst r = b \<and> names_bond (snd r) b c)
    \<and> (case fundBondInstruction sl bc ob stake auth oc ov of
         Inl e \<Rightarrow> True | Inr r \<Rightarrow> fst r = b \<and> names_bond (snd r) b c)"
proof -
  have 1: "completes (\<lambda>ob oc ov. configureBondInstruction sl bc ob oc ov auth x y z) ob oc ov b c v"
    by (rule completesI) (rule configureBond_complete [OF assms(1-4)])
  have 2: "completes (\<lambda>ob oc ov. configureBondWithMintInstruction sl tokens bc ob oc ov vi ta auth x y z) ob oc ov b c v"
    by (rule completesI) (rule configureBondWithMint_complete [OF assms(1-4)])
  have 3: "completes (\<lambda>ob oc ov. mintBondInstruction sl tokens bc vi ob oc ov ma rp) ob oc ov b c v"
    by (rule completesI) (rule mintBond_complete [OF assms(1-4)])
  have 4: "completes (\<lambda>ob oc ov. fundBondInstruction sl bc ob stake auth oc ov) ob oc ov b c v"
    by (rule completesI) (rule fundBond_complete [OF assms(1-5)])
  have 5: "completes (\<lambda>ob oc ov. initWithdrawRequestInstruction sl bc ob oc ov auth rp n) ob oc ov b c v"
    by (rule completesI) (rule initWithdraw_complete [OF assms(1-5)])
  have 6: "fst r = b \<and> names_bond (snd r) b c" if "configureBondInstruction sl bc ob oc ov auth x y z = Inr r" for r
    using completesD [OF 1 that]
    by (auto simp: configureBondInstruction_def rbind_eq_Inr names_bond_def ix_account_of_def)
  have 7: "fst r = b \<and> names_bond (snd r) b c" if "fundBondInstruction sl bc ob stake auth oc ov = Inr r" for r
    using completesD [OF 4 that]
    by (auto simp: fundBondInstruction_def rbind_eq_Inr names_bond_def ix_account_of_def)
  show ?thesis using 1 2 3 4 5 6 7 by (simp split: sum.split)
qed

text \<open>The vote account alone: the bond is found from the Marinade configuration. \<open>ix_sl\<close> has
  the demonstration configuration at that address.\<close>

definition ix_sl :: solana_lib where
  "ix_sl = demo_sl\<lparr> pk_of_str := \<lambda>s. Inr (demo_key 9) \<rparr>"

definition ix_funded :: "pubkey \<times> instruction" where
  "ix_funded = (ix_bond, \<lparr> ix_name = ''fundBond'', ix_args = [],
     ix_accounts = [(''config'', Key (demo_key 9)), (''bond'', Key ix_bond), (''stakeAuthority'', Key (demo_key 50)),
       (''bondsWithdrawerAuthority'', Key demo_authority), (''stakeAccount'', Key (demo_key 41)),
       (''stakeHistory'', SysvarStakeHistory), (''stakeProgram'', StakeProgramId), (''clock'', SysvarClock)] \<rparr>)"

lemma ix_sl_coherent: "coherent ix_sl ix_chain (demo_key 9) (demo_key 21) ix_bond"
proof -
  have "getBond ix_sl ix_chain ix_bond
      = Inr \<lparr> bd_config = demo_key 9, bd_voteAccount = demo_key 21, bd_authority = demo_key 22, bd_cpmpe = 5 \<rparr>"
    by (simp add: getBond_def fetch_account_def fetchNullable_def db_rpc_def ix_chain_def)
  moreover have "bondAddress ix_sl (demo_key 9) (demo_key 21) p = Inr (ix_bond, 255)" for p
    by (simp add: bondAddress_def ix_sl_def demo_sl_def ix_bond_def)
  ultimately show ?thesis by (simp add: coherent_def)
qed

lemma ix_funded_eq: "fundBondInstruction ix_sl ix_chain None (demo_key 41) None None (Some (demo_key 21)) = Inr ix_funded"
  by (simp add: fundBondInstruction_def wallet_default_def anchorProgramWalletPubkey_def default_config_def
      MARINADE_CONFIG_ADDRESS_def checkAndGetBondAddress_def bondAddress_def bondsWithdrawerAuthority_def
      ix_sl_def demo_sl_def ix_funded_def ix_bond_def demo_authority_def)

theorem bond_builders_complete_witness:
  "fundBondInstruction ix_sl ix_chain None (demo_key 41) None None (Some (demo_key 21)) = Inr ix_funded
   \<and> fundBondInstruction ix_sl ix_chain (Some ix_bond) (demo_key 41) None (Some (demo_key 9)) (Some (demo_key 21))
     = Inr ix_funded"
proof -
  have "completes (\<lambda>ob oc ov. fundBondInstruction ix_sl ix_chain ob (demo_key 41) None oc ov)
      None None (Some (demo_key 21)) ix_bond (demo_key 9) (demo_key 21)"
    using bond_builders_complete [OF ix_sl_coherent, of None None "Some (demo_key 21)" None]
    by (simp add: wants_def MARINADE_CONFIG_ADDRESS_def ix_sl_def)
  from completesD [OF this ix_funded_eq] show ?thesis using ix_funded_eq by simp
qed

section \<open>Withdraw requests\<close>

text \<open>
  The same for the builders that end a withdraw request: from any of the withdraw
  request, the bond, the configuration and the vote account that suffice, they return what
  they return when all are given.
\<close>

theorem withdraw_builders_complete:
  assumes "coherent sl bc c v b" and "coherent_request sl bc v b wr" and "claim_wants a c v b wr"
  shows "(case claimWithdrawRequestInstruction sl bc g a of Inl e \<Rightarrow> True
      | Inr r \<Rightarrow> claimWithdrawRequestInstruction sl bc g (claim_full a c v b wr) = Inr r
          \<and> cw_bondAccount r = b \<and> cw_withdrawRequestAccount r = wr \<and> cw_voteAccount r = v
          \<and> names_bond (cw_instruction r) b c)
    \<and> (case cancelWithdrawRequestInstruction sl bc (ca_withdrawRequestAccount a) (ca_bondAccount a)
          (ca_configAccount a) (ca_voteAccount a) (Some auth) rc of Inl e \<Rightarrow> True
      | Inr r \<Rightarrow> cancelWithdrawRequestInstruction sl bc (Some wr) (Some b) (Some c) (Some v) (Some auth) rc = Inr r
          \<and> fst r = b \<and> fst (snd r) = wr \<and> names_bond (snd (snd r)) b c)"
proof -
  have full: "claim_resolve sl bc (claim_full a c v b wr) = Inr (None, c, v, wr, b)"
    by (simp add: claim_resolve_def claim_full_def)
  have cancel: "cancel_resolve sl bc (Some wr) (Some b) (Some c) (Some v) (Some auth) = Inr (wr, b, c, Some v, auth)"
    by (simp add: cancel_resolve_def)
  have 1: "claimWithdrawRequestInstruction sl bc g (claim_full a c v b wr) = Inr r
      \<and> cw_bondAccount r = b \<and> cw_withdrawRequestAccount r = wr \<and> cw_voteAccount r = v
      \<and> names_bond (cw_instruction r) b c" if "claimWithdrawRequestInstruction sl bc g a = Inr r" for r
    using claimWithdraw_complete [OF assms that]
    by (auto simp: claimWithdrawRequestInstruction_def full rbind_eq_Inr names_bond_def ix_account_of_def)
  have 2: "cancelWithdrawRequestInstruction sl bc (Some wr) (Some b) (Some c) (Some v) (Some auth) rc = Inr r
      \<and> fst r = b \<and> fst (snd r) = wr \<and> names_bond (snd (snd r)) b c"
    if "cancelWithdrawRequestInstruction sl bc (ca_withdrawRequestAccount a) (ca_bondAccount a)
          (ca_configAccount a) (ca_voteAccount a) (Some auth) rc = Inr r" for r
    using cancelWithdraw_complete [OF assms(1,2) _ _ _ _ that] assms(3)
    by (auto simp: cancelWithdrawRequestInstruction_def cancel rbind_eq_Inr names_bond_def
        ix_account_of_def claim_wants_def)
  show ?thesis using 1 2 by (simp split: sum.split)
qed

definition ix_claim_args :: claim_args where
  "ix_claim_args = \<lparr> ca_withdrawRequestAccount = Some ix_request, ca_bondAccount = None, ca_configAccount = None,
     ca_voteAccount = None, ca_stakeAccount = demo_key 41, ca_authority = None, ca_splitStakeRentPayer = None,
     ca_withdrawer = None \<rparr>"

definition ix_claimed :: claim_withdraw where
  "ix_claimed = \<lparr> cw_instruction = \<lparr> ix_name = ''claimWithdrawRequest'', ix_args = [],
       ix_accounts = [(''config'', Key (demo_key 9)), (''bond'', Key ix_bond), (''voteAccount'', Key (demo_key 21)),
         (''withdrawRequest'', Key ix_request), (''bondsWithdrawerAuthority'', Key demo_authority),
         (''stakeAccount'', Key (demo_key 41)), (''withdrawer'', Key (demo_key 51)),
         (''splitStakeAccount'', Key (demo_key 60)), (''authority'', Key (demo_key 50)),
         (''splitStakeRentPayer'', Key (demo_key 50)), (''stakeHistory'', SysvarStakeHistory),
         (''stakeProgram'', StakeProgramId), (''systemProgram'', SystemProgramId), (''clock'', SysvarClock)] \<rparr>,
     cw_splitStakeAccount = demo_key 60, cw_withdrawRequestAccount = ix_request,
     cw_voteAccount = demo_key 21, cw_bondAccount = ix_bond \<rparr>"

lemma ix_claimed_eq: "claimWithdrawRequestInstruction demo_sl ix_chain (demo_key 60) ix_claim_args = Inr ix_claimed"
proof -
  have "claim_resolve demo_sl ix_chain ix_claim_args
      = Inr (Some (demo_request\<lparr> wd_bond := ix_bond \<rparr>), demo_key 9, demo_key 21, ix_request, ix_bond)"
    by (simp add: claim_resolve_def ix_claim_args_def bond_from_def ix_getRequest ix_getBond demo_request_def)
  then show ?thesis
    by (simp add: claimWithdrawRequestInstruction_def wallet_default_def anchorProgramWalletPubkey_def
        ix_claim_args_def ix_authority ix_claimed_def)
qed

theorem withdraw_builders_complete_witness:
  "claimWithdrawRequestInstruction demo_sl ix_chain (demo_key 60) ix_claim_args = Inr ix_claimed
   \<and> claimWithdrawRequestInstruction demo_sl ix_chain (demo_key 60)
       (claim_full ix_claim_args (demo_key 9) (demo_key 21) ix_bond ix_request) = Inr ix_claimed
   \<and> names_bond (cw_instruction ix_claimed) ix_bond (demo_key 9)"
proof -
  have "claim_wants ix_claim_args (demo_key 9) (demo_key 21) ix_bond ix_request"
    by (simp add: claim_wants_def wants_def ix_claim_args_def)
  from withdraw_builders_complete [OF ix_coherent ix_coherent_request this, of "demo_key 60"]
  show ?thesis using ix_claimed_eq by simp
qed

section \<open>Settlements\<close>

text \<open>
  The same for the builders that move stake in and out of a settlement. The vote account
  of \<open>resetStake\<close> comes from the stake account, so that has to be delegated to the bond's
  vote account; a settlement address that \<open>claimSettlementV2\<close> derives is the given one.
\<close>

lemma settlement_builders_complete:
  assumes "coherent sl bc c v b" and "settled_on sl bc b s" and "settlement_wants a c v b s"
    and "cs_settlementAccount a \<noteq> None \<or> (\<exists>m e n. cs_settlementMerkleRoot a = Some m \<and> cs_settlementEpoch a = Some e
       \<and> settlementAddress sl b m e (bc_programId bc) = Inr (s, n))"
    and "\<exists>x. getStakeAccount sl (bc_stake bc) stake (Some 0) = Inr x \<and> sa_voter x = Some v"
  shows "completes (\<lambda>ob oc ov. fundSettlementInstruction sl bc g s stake oc ob ov oa sa rp)
      (cs_bondAccount a) (cs_configAccount a) (cs_voteAccount a) b c v
    \<and> completes (\<lambda>ob oc ov. resetStakeInstruction sl bc stake s ob oc ov)
      (cs_bondAccount a) (cs_configAccount a) (cs_voteAccount a) b c v
    \<and> (case claimSettlementV2Instruction sl hl bc a of Inl e \<Rightarrow> True
      | Inr r \<Rightarrow> claimSettlementV2Instruction sl hl bc (settlement_full a c v b s) = Inr r
          \<and> fst (snd r) = s \<and> names_bond (fst r) b c)"
proof -
  have w: "wants (cs_bondAccount a) b" "wants (cs_configAccount a) c" "wants (cs_voteAccount a) v"
    "wants (cs_settlementAccount a) s"
    using assms(3) by (simp_all add: settlement_wants_def)
  have 1: "completes (\<lambda>ob oc ov. fundSettlementInstruction sl bc g s stake oc ob ov oa sa rp)
      (cs_bondAccount a) (cs_configAccount a) (cs_voteAccount a) b c v"
    by (rule completesI) (rule fundSettlement_complete [OF assms(1,2) w(1-3)])
  have 2: "completes (\<lambda>ob oc ov. resetStakeInstruction sl bc stake s ob oc ov)
      (cs_bondAccount a) (cs_configAccount a) (cs_voteAccount a) b c v"
    by (rule completesI) (rule resetStake_complete [OF assms(1) w(1-3) assms(5)])
  have 3: "claimSettlementV2Instruction sl hl bc (settlement_full a c v b s) = Inr r
      \<and> fst (snd r) = s \<and> names_bond (fst r) b c" if r: "claimSettlementV2Instruction sl hl bc a = Inr r" for r
  proof -
    have "claimSettlementV2Instruction sl hl bc (settlement_full a c v b s) = Inr r"
      by (rule claimSettlement_complete [OF assms(1-3) _ r]) (use assms(4) in auto)
    moreover have "claim_accounts sl bc (settlement_full a c v b s) = Inr (c, b, s)"
      using assms(2) by (auto simp: claim_accounts_def settlement_full_def settled_on_def)
    ultimately show ?thesis
      by (auto simp: claimSettlementV2Instruction_def rbind_eq_Inr names_bond_def ix_account_of_def)
  qed
  show ?thesis using 1 2 3 by (simp split: sum.split)
qed


definition ix_settlement_args :: claim_settlement_args where
  "ix_settlement_args = \<lparr> cs_claimAmount = NumVal 5, cs_index = NumVal 0, cs_merkleProof = [],
     cs_stakeAccountFrom = demo_key 43, cs_stakeAccountTo = demo_key 41, cs_stakeAccountStaker = None,
     cs_stakeAccountWithdrawer = None, cs_settlementAccount = Some (demo_key 70),
     cs_settlementMerkleRoot = None, cs_settlementEpoch = None, cs_configAccount = None,
     cs_bondAccount = None, cs_voteAccount = None \<rparr>"

definition ix_reset :: instruction where
  "ix_reset = \<lparr> ix_name = ''resetStake'', ix_args = [],
     ix_accounts = [(''config'', Key (demo_key 9)), (''bond'', Key ix_bond), (''settlement'', Key (demo_key 70)),
       (''bondsWithdrawerAuthority'', Key demo_authority), (''stakeAccount'', Key (demo_key 41)),
       (''voteAccount'', Key (demo_key 21)), (''stakeHistory'', SysvarStakeHistory), (''stakeConfig'', StakeConfigId),
       (''clock'', SysvarClock), (''stakeProgram'', StakeProgramId)] \<rparr>"

lemma ix_stake_voter:
  "\<exists>x. getStakeAccount demo_sl demo_stake_chain (demo_key 41) (Some 0) = Inr x \<and> sa_voter x = Some (demo_key 21)"
  by (simp add: getStakeAccount_def demo_load_defs)

lemma ix_reset_eq:
  "resetStakeInstruction demo_sl ix_chain (demo_key 41) (demo_key 70) (Some ix_bond) None (Some (demo_key 21)) = Inr ix_reset"
  by (simp add: resetStakeInstruction_def checkAndGetBondAddress_def ix_getBond ix_authority ix_reset_def)

lemma settlement_builders_complete_witness:
  "settlement_wants (ix_settlement_args\<lparr> cs_bondAccount := Some ix_bond, cs_voteAccount := Some (demo_key 21) \<rparr>)
      (demo_key 9) (demo_key 21) ix_bond (demo_key 70)
   \<and> resetStakeInstruction demo_sl ix_chain (demo_key 41) (demo_key 70) (Some ix_bond) None (Some (demo_key 21)) = Inr ix_reset
   \<and> resetStakeInstruction demo_sl ix_chain (demo_key 41) (demo_key 70) (Some ix_bond) (Some (demo_key 9)) (Some (demo_key 21))
     = Inr ix_reset"
proof -
  let ?a = "ix_settlement_args\<lparr> cs_bondAccount := Some ix_bond, cs_voteAccount := Some (demo_key 21) \<rparr>"
  have w: "settlement_wants ?a (demo_key 9) (demo_key 21) ix_bond (demo_key 70)"
    by (simp add: settlement_wants_def wants_def ix_settlement_args_def)
  have "completes (\<lambda>ob oc ov. resetStakeInstruction demo_sl ix_chain (demo_key 41) (demo_key 70) ob oc ov)
      (cs_bondAccount ?a) (cs_configAccount ?a) (cs_voteAccount ?a) ix_bond (demo_key 9) (demo_key 21)"
    using settlement_builders_complete [OF ix_coherent ix_settled w, of "demo_key 41"] ix_stake_voter
    by (simp add: ix_settlement_args_def)
  from completesD [OF this] show ?thesis using w ix_reset_eq by (simp add: ix_settlement_args_def)
qed

section \<open>Closing a settlement\<close>

text \<open>
  The accounts that close a settlement. The bond is the one given only when nothing has to
  be read from the settlement, and the settlement's otherwise; the rent goes to the given
  collector, else to the settlement's. When a collector of the split's rent is known, the
  refund comes from the given account, else from a stake account found for the settlement's
  staker authority; when it is not, both are the generated key.
\<close>

theorem close_accounts_from_settlement:
  assumes "getCloseSettlementAccounts sl bc g a = Inr x"
    and "cl_bondAccount a = None" and "cl_configAccount a = None \<or> cl_voteAccount a = None"
  shows "\<exists>d. getSettlement sl (bc_settlements bc) (cl_settlementAccount a) = Inr d
    \<and> ac_bond x = sd_bond d
    \<and> ac_rentCollector x = orElse (cl_rentCollector a) (sd_rentCollector d)
    \<and> ac_settlement x = cl_settlementAccount a
    \<and> (\<exists>n. bondsWithdrawerAuthority sl (ac_config x) (bc_programId bc) = Inr (ac_bondsAuth x, n))
    \<and> (cl_configAccount a = None \<longrightarrow> (\<exists>b. getBond sl bc (sd_bond d) = Inr b \<and> ac_config x = bd_config b))
    \<and> (case (case cl_splitRentCollector a of Given k \<Rightarrow> Some k | _ \<Rightarrow> sd_splitRentCollector d) of
         None \<Rightarrow> ac_splitRentCollector x = g \<and> ac_splitRentRefundAccount x = orElse (cl_splitRentRefundAccount a) g
       | Some k \<Rightarrow> ac_splitRentCollector x = k
           \<and> (case cl_splitRentRefundAccount a of
                Some r \<Rightarrow> ac_splitRentRefundAccount x = r
              | None \<Rightarrow> \<exists>sa vote y ys. settlementStakerAuthority sl (cl_settlementAccount a) (bc_programId bc) = Inr sa
                  \<and> findStakeAccounts (bc_stake bc) (Some (fst sa)) (Some (ac_bondsAuth x)) vote (Some 0) = Inr (y # ys)
                  \<and> ac_splitRentRefundAccount x = sa_address y))"
proof -
  have bond: "bond_from sl bc (cl_configAccount a) (cl_voteAccount a) (cl_bondAccount a) = Inr None"
    using assms(2,3) by (auto simp: bond_from_def split: option.split)
  obtain d where d: "getSettlement sl (bc_settlements bc) (cl_settlementAccount a) = Inr d"
    using assms(1) by (auto simp: getCloseSettlementAccounts_def bond close_from_settlement_def rbind_eq_Inr)
  have eq: "close_from_settlement sl bc (cl_settlementAccount a) None (cl_rentCollector a) (cl_splitRentCollector a)
      = Inr (sd_bond d, orElse (cl_rentCollector a) (sd_rentCollector d),
          case cl_splitRentCollector a of Given k \<Rightarrow> Given k | _ \<Rightarrow> of_split (sd_splitRentCollector d))"
    by (simp add: close_from_settlement_def d)
  define split where "split = (case cl_splitRentCollector a of Given k \<Rightarrow> Given k
      | _ \<Rightarrow> of_split (sd_splitRentCollector d))"
  obtain c vote wa n k refund where cv: "close_config sl bc (sd_bond d) a = Inr (c, vote)"
    and wa: "bondsWithdrawerAuthority sl c (bc_programId bc) = Inr (wa, n)"
    and refund: "close_refund sl bc g a split wa vote = Inr (k, refund)"
    and x: "x = \<lparr> ac_config = c, ac_bond = sd_bond d, ac_settlement = cl_settlementAccount a,
       ac_rentCollector = orElse (cl_rentCollector a) (sd_rentCollector d),
       ac_bondsAuth = wa, ac_splitRentCollector = k, ac_splitRentRefundAccount = refund \<rparr>"
    using assms(1) by (auto simp: getCloseSettlementAccounts_def bond eq split_def rbind_eq_Inr)
  have config: "\<exists>b. getBond sl bc (sd_bond d) = Inr b \<and> c = bd_config b" if "cl_configAccount a = None"
    using cv that by (auto simp: close_config_def rbind_eq_Inr)
  have key: "(case (case cl_splitRentCollector a of Given k \<Rightarrow> Some k | _ \<Rightarrow> sd_splitRentCollector d) of
      None \<Rightarrow> k = g \<and> refund = orElse (cl_splitRentRefundAccount a) g
    | Some k' \<Rightarrow> k = k' \<and> (case cl_splitRentRefundAccount a of Some r \<Rightarrow> refund = r
        | None \<Rightarrow> \<exists>sa vote y ys. settlementStakerAuthority sl (cl_settlementAccount a) (bc_programId bc) = Inr sa
            \<and> findStakeAccounts (bc_stake bc) (Some (fst sa)) (Some wa) vote (Some 0) = Inr (y # ys)
            \<and> refund = sa_address y))"
    using refund close_refund_search [of sl bc g a _ wa vote k refund] unfolding split_def of_split_def
    by (cases "cl_splitRentCollector a"; cases "sd_splitRentCollector d"; cases "cl_splitRentRefundAccount a")
      (auto simp: close_refund_def)
  have fields: "ac_config x = c" "ac_bond x = sd_bond d" "ac_settlement x = cl_settlementAccount a"
    "ac_rentCollector x = orElse (cl_rentCollector a) (sd_rentCollector d)" "ac_bondsAuth x = wa"
    "ac_splitRentCollector x = k" "ac_splitRentRefundAccount x = refund"
    by (simp_all add: x)
  show ?thesis unfolding fields using d wa config key by auto
qed

definition ix_close_args :: close_args where
  "ix_close_args = \<lparr> cl_settlementAccount = demo_key 70, cl_configAccount = None, cl_bondAccount = None,
     cl_voteAccount = None, cl_rentCollector = None, cl_splitRentCollector = Given (demo_key 72),
     cl_splitRentRefundAccount = None \<rparr>"

definition ix_close :: close_accounts where
  "ix_close = \<lparr> ac_config = demo_key 9, ac_bond = ix_bond, ac_settlement = demo_key 70,
     ac_rentCollector = demo_key 71, ac_bondsAuth = demo_authority, ac_splitRentCollector = demo_key 72,
     ac_splitRentRefundAccount = demo_key 41 \<rparr>"

lemma ix_getSettlement: "getSettlement demo_sl (bc_settlements ix_chain) (demo_key 70)
    = Inr \<lparr> sd_bond = ix_bond, sd_stakerAuthority = demo_key 72, sd_rentCollector = demo_key 71, sd_splitRentCollector = None \<rparr>"
  by (simp add: getSettlement_def fetch_account_def fetchNullable_def db_rpc_def ix_chain_def)

lemma ix_found: "\<exists>y ys. findStakeAccounts demo_stake_chain (Some s) (Some w) (Some v) (Some 0) = Inr (y # ys)
    \<and> sa_address y = demo_key 41"
proof -
  have "findStakeAccountNoDataInfos demo_stake_chain (Some s) (Some w) (Some v) = [demo_key 41, demo_key 42]"
    by (simp add: findStakeAccountNoDataInfos_def demo_stake_chain_def stake_filters_def
        opt_filter_def mc_def STAKER_OFFSET_def)
  moreover have "\<exists>y ys. loadStakeAccounts demo_stake_chain [demo_key 41, demo_key 42] (Some 0) = Inr (y # ys)
      \<and> sa_address y = demo_key 41"
    by (simp add: demo_load_defs)
  ultimately show ?thesis by (simp add: findStakeAccounts_def)
qed

lemma ix_close_eq: "getCloseSettlementAccounts demo_sl ix_chain (demo_key 60) ix_close_args = Inr ix_close"
proof -
  have "settlementStakerAuthority demo_sl (demo_key 70) (demo_key 8)
      = Inr (SETTLEMENT_STAKER_AUTHORITY_SEED @ demo_key 70, 255)"
    by (simp add: settlementStakerAuthority_def demo_sl_def)
  moreover obtain y ys where "findStakeAccounts demo_stake_chain (Some (SETTLEMENT_STAKER_AUTHORITY_SEED @ demo_key 70))
      (Some demo_authority) (Some (demo_key 21)) (Some 0) = Inr (y # ys)" "sa_address y = demo_key 41"
    using ix_found by blast
  ultimately show ?thesis
    by (simp add: getCloseSettlementAccounts_def bond_from_def close_from_settlement_def ix_getSettlement
        close_config_def ix_getBond ix_authority close_refund_def ix_close_args_def ix_close_def)
qed

theorem close_accounts_from_settlement_witness:
  "getCloseSettlementAccounts demo_sl ix_chain (demo_key 60) ix_close_args = Inr ix_close
   \<and> (\<exists>sa vote y ys. settlementStakerAuthority demo_sl (demo_key 70) (demo_key 8) = Inr sa
      \<and> findStakeAccounts demo_stake_chain (Some (fst sa)) (Some demo_authority) vote (Some 0) = Inr (y # ys)
      \<and> demo_key 41 = sa_address y)"
  using close_accounts_from_settlement [OF ix_close_eq] ix_close_eq
  by (simp add: ix_close_args_def ix_close_def) blast

section \<open>Commission products\<close>

text \<open>The rate that a builder sends for the rate \<open>v\<close> it is given, when the account holds \<open>old\<close>.\<close>

definition rate_sent :: "(string \<Rightarrow> int res) \<Rightarrow> bn_arg \<Rightarrow> int option \<Rightarrow> int option \<Rightarrow> bool" where
  "rate_sent bn_str v old new \<longleftrightarrow> (case v of BnUndefined \<Rightarrow> new = old | BnNull \<Rightarrow> new = None | BnOf i \<Rightarrow> new = Some i
       | _ \<Rightarrow> new \<noteq> None \<and> bn_str (bn_arg_str v) = Inr (the new))
     \<and> (case new of None \<Rightarrow> True | Some i \<Rightarrow> i \<le> 10000)"

lemma new_rate_sent:
  assumes "toBNPreserve bn_str v = Inr w" and "case new_rate w old of None \<Rightarrow> True | Some i \<Rightarrow> i \<le> 10000"
  shows "rate_sent bn_str v old (new_rate w old)"
  using assms by (cases v) (auto simp: toBNPreserve_def rate_sent_def new_rate_def bn_value_def bn_arg_str_def rbind_eq_Inr)

lemma validate_rates:
  "validateCommissionProductArgs d = Inr u \<Longrightarrow> (case cc_inflationBps d of None \<Rightarrow> True | Some i \<Rightarrow> i \<le> 10000)
    \<and> (case cc_mevBps d of None \<Rightarrow> True | Some i \<Rightarrow> i \<le> 10000) \<and> (case cc_blockBps d of None \<Rightarrow> True | Some i \<Rightarrow> i \<le> 10000)"
  by (auto simp: validateCommissionProductArgs_def rbind_eq_Inr bps_guard_def MAX_BPS_def split: option.splits if_splits)

text \<open>
  C21: configuring a commission product replaces exactly the rates that are given: an undefined
  rate keeps what the account holds, null clears it, a number or a string becomes the integer
  that BN reads, and no rate that is sent exceeds ten thousand basis points. A uniform rate
  counts for all three and excludes the others, also null.
\<close>

theorem configureCommission_rates:
  assumes "configureCommissionProductInstruction sl bn_str js bc op ob oc ov auth r = Inr x"
  shows "\<exists>d old new. getBondProduct sl (bc_products bc) (bp_bondProduct x) = Inr d
    \<and> pd_configData d = CommissionConfig old \<and> bp_configData x = CommissionConfig new
    \<and> (\<forall>p \<in> {(rt_inflation, cc_inflationBps), (rt_mev, cc_mevBps), (rt_block, cc_blockBps)}.
         rate_sent bn_str (if rt_uniform r = BnUndefined then fst p r else rt_uniform r) (snd p old) (snd p new)
         \<and> (rt_uniform r = BnUndefined \<or> fst p r = BnUndefined))"
proof -
  obtain product d r' i m b old where *: "getBondProduct sl (bc_products bc) product = Inr d"
    and r': "apply_uniform ''configureCommissionProductInstruction'' (\<lambda>v. v \<noteq> BnUndefined) (pk_b58 sl (pd_bond d)) r = Inr r'"
    and i: "toBNPreserve bn_str (rt_inflation r') = Inr i" and m: "toBNPreserve bn_str (rt_mev r') = Inr m"
    and b: "toBNPreserve bn_str (rt_block r') = Inr b"
    and old: "parseCommissionData js (pd_configData d) = Inr old"
    and v: "\<exists>u. validateCommissionProductArgs \<lparr> cc_inflationBps = new_rate i (cc_inflationBps old),
            cc_mevBps = new_rate m (cc_mevBps old), cc_blockBps = new_rate b (cc_blockBps old) \<rparr> = Inr u"
    and x: "bp_bondProduct x = product" "bp_configData x = CommissionConfig
      \<lparr> cc_inflationBps = new_rate i (cc_inflationBps old),
        cc_mevBps = new_rate m (cc_mevBps old), cc_blockBps = new_rate b (cc_blockBps old) \<rparr>"
    using assms by (auto simp: configureCommissionProductInstruction_def rbind_eq_Inr configureProduct_def
        getCommissionData_def Let_def)
  have uniform: "rt_inflation r' = (if rt_uniform r = BnUndefined then rt_inflation r else rt_uniform r)"
    "rt_mev r' = (if rt_uniform r = BnUndefined then rt_mev r else rt_uniform r)"
    "rt_block r' = (if rt_uniform r = BnUndefined then rt_block r else rt_uniform r)"
    "rt_uniform r = BnUndefined \<or> rt_inflation r = BnUndefined \<and> rt_mev r = BnUndefined \<and> rt_block r = BnUndefined"
    using r' by (auto simp: apply_uniform_def split: if_splits)
  have "pd_configData d = CommissionConfig old"
    using old by (auto simp: parseCommissionData_def split: product_config.splits)
  moreover have "case new_rate i (cc_inflationBps old) of None \<Rightarrow> True | Some i \<Rightarrow> i \<le> 10000"
    "case new_rate m (cc_mevBps old) of None \<Rightarrow> True | Some i \<Rightarrow> i \<le> 10000"
    "case new_rate b (cc_blockBps old) of None \<Rightarrow> True | Some i \<Rightarrow> i \<le> 10000"
    using v validate_rates by fastforce+
  ultimately show ?thesis
    using * x uniform(4) new_rate_sent [OF i] new_rate_sent [OF m] new_rate_sent [OF b]
    unfolding uniform(1-3) by auto
qed

definition ix_product_chain :: bonds_chain where
  "ix_product_chain = ix_chain\<lparr> bc_products := db_rpc [(demo_key 80, [])] (\<lambda>d. Inr
     \<lparr> pd_config = demo_key 9, pd_bond = ix_bond, pd_voteAccount = demo_key 21, pd_productType = PCommission,
       pd_configData = CommissionConfig \<lparr> cc_inflationBps = Some 700, cc_mevBps = Some 800,
         cc_blockBps = Some 900 \<rparr> \<rparr>) \<rparr>"

definition ix_product :: bond_product_ix where
  "ix_product = \<lparr> bp_bondProduct = demo_key 80,
     bp_instruction = \<lparr> ix_name = ''configureBondProduct'',
       ix_args = [(''configData'', ArgConfig (CommissionConfig \<lparr> cc_inflationBps = Some 700, cc_mevBps = None,
         cc_blockBps = Some 10000 \<rparr>))],
       ix_accounts = [(''bondProduct'', Key (demo_key 80)), (''config'', Key (demo_key 9)), (''bond'', Key ix_bond),
         (''voteAccount'', Key (demo_key 21)), (''authority'', Key (demo_key 50))] \<rparr>,
     bp_productType = PCommission,
     bp_configData = CommissionConfig \<lparr> cc_inflationBps = Some 700, cc_mevBps = None, cc_blockBps = Some 10000 \<rparr> \<rparr>"

lemma ix_product_eq:
  "configureCommissionProductInstruction demo_sl (\<lambda>s. Inr 0) (\<lambda>c. '''') ix_product_chain (Some (demo_key 80)) None None None None
     \<lparr> rt_inflation = BnUndefined, rt_mev = BnNull, rt_block = BnOf 10000, rt_uniform = BnUndefined \<rparr> = Inr ix_product"
  by (simp add: configureCommissionProductInstruction_def wallet_default_def anchorProgramWalletPubkey_def
      checkAndGetBondProductAddress_def getBondProduct_def fetch_account_def fetchNullable_def db_rpc_def
      ix_product_chain_def apply_uniform_def toBNPreserve_def parseCommissionData_def new_rate_def bn_value_def
      validateCommissionProductArgs_def bps_guard_def MAX_BPS_def guard_throw_def configureProduct_def
      getCommissionData_def ix_product_def Let_def)

theorem configureCommission_rates_witness:
  "configureCommissionProductInstruction demo_sl (\<lambda>s. Inr 0) (\<lambda>c. '''') ix_product_chain (Some (demo_key 80)) None None None None
     \<lparr> rt_inflation = BnUndefined, rt_mev = BnNull, rt_block = BnOf 10000, rt_uniform = BnUndefined \<rparr> = Inr ix_product
   \<and> (\<exists>old :: commission_config. rate_sent (\<lambda>s. Inr 0) BnUndefined (cc_inflationBps old) (Some 700)
       \<and> rate_sent (\<lambda>s. Inr 0) BnNull (cc_mevBps old) None
       \<and> rate_sent (\<lambda>s. Inr 0) (BnOf 10000) (cc_blockBps old) (Some 10000))"
proof -
  obtain d old new where "bp_configData ix_product = CommissionConfig new"
    "\<forall>p \<in> {(rt_inflation, cc_inflationBps), (rt_mev, cc_mevBps), (rt_block, cc_blockBps)}.
       rate_sent (\<lambda>s. Inr 0) (fst p \<lparr> rt_inflation = BnUndefined, rt_mev = BnNull, rt_block = BnOf 10000,
         rt_uniform = BnUndefined \<rparr>) (snd p old) (snd p new)"
    using configureCommission_rates [OF ix_product_eq] by auto
  then show ?thesis using ix_product_eq by (auto simp: ix_product_def)
qed

section \<open>Claims accounts\<close>

text \<open>
  A claims account to be enlarged is the one of the settlement, whenever a settlement is
  given: any other one is refused, and so is the call that names neither.
\<close>

lemma upsize_claims_account:
  assumes "bc_wallet bc = Some w" and "\<And>s. \<exists>d. settlementClaimsAddress sl s (bc_programId bc) = Inr d"
  shows "(\<exists>ix. upsizeSettlementClaims sl bc claims settlement payer = Inr ix
      \<and> ix_account_of ix ''settlementClaims'' = Some (Key k)) \<longleftrightarrow>
    (case settlement of None \<Rightarrow> claims = Some k
     | Some s \<Rightarrow> (claims = None \<or> claims = Some k) \<and> (\<exists>n. settlementClaimsAddress sl s (bc_programId bc) = Inr (k, n)))"
proof (cases settlement)
  case None
  then show ?thesis using assms(1)
    by (cases claims; cases payer)
      (auto simp: upsizeSettlementClaims_def wallet_default_def anchorProgramWalletPubkey_def ix_account_of_def throw_def)
next
  case (Some s)
  obtain d where "settlementClaimsAddress sl s (bc_programId bc) = Inr d" using assms(2) by blast
  then show ?thesis using assms(1) Some
    by (cases d; cases payer)
      (auto simp: upsizeSettlementClaims_def wallet_default_def anchorProgramWalletPubkey_def ix_account_of_def throw_def)
qed

lemma upsize_claims_account_witness:
  "\<not> (\<exists>ix. upsizeSettlementClaims demo_sl ix_chain (Some (demo_key 1)) (Some (demo_key 70)) None = Inr ix
      \<and> ix_account_of ix ''settlementClaims'' = Some (Key (demo_key 1)))"
proof -
  have "SETTLEMENT_CLAIMS_SEED @ demo_key 70 \<noteq> demo_key 1"
    by (auto simp: SETTLEMENT_CLAIMS_SEED_def demo_key_def bytes_of_def dest!: arg_cong [of _ _ length])
  then show ?thesis
    by (subst upsize_claims_account [where w = "demo_key 50"])
      (simp_all add: settlementClaimsAddress_def demo_sl_def)
qed

end
