(* ===== verification/Chk_Data.thy ===== *)
theory Chk_Data
  imports Js_Json Sdk_Address
begin

text \<open>
  The input of the sanity check, \<open>packages/validator-bonds-sanity-check/src\<close>: the numbers of
  \<open>losslessJson.ts\<close>, the classes and transforms of \<open>dtoMerkleTree.ts\<close> and
  \<open>dtoSettlements.ts\<close>.

  The tokenizer, the parser of tokens and \<open>validateAndReturn\<close> are libraries; \<open>validate\<close> is a
  parameter, and \<open>applies_transforms\<close> is what the code relies on: every exposed property of
  the object that is returned is what the property's transform makes of the JSON value.
\<close>

section \<open>Numeric tokens\<close>

definition integer_token :: "string \<Rightarrow> bool" where
  "integer_token s = (case s of [] \<Rightarrow> False
     | c # t \<Rightarrow> if c = CHR ''-'' then t \<noteq> [] \<and> list_all is_digit t else list_all is_digit s)"

definition MAX_SAFE :: int where "MAX_SAFE = 2 ^ 53 - 1"

definition MIN_SAFE :: int where "MIN_SAFE = - MAX_SAFE"

definition parseNumber :: "string \<Rightarrow> json res" where
  "parseNumber s =
     (if integer_token s
      then rbind (bigint_of_str s) (\<lambda>big.
        Inr (if MAX_SAFE < big \<or> big < MIN_SAFE then JBig big else JNum (num_of_str s)))
      else Inr (JNum (num_of_str s)))"

section \<open>Conversions of the language\<close>

definition js_truthy :: "json \<Rightarrow> bool" where
  "js_truthy v = (case v of JUndef \<Rightarrow> False | JNull \<Rightarrow> False | JBool b \<Rightarrow> b | JNum x \<Rightarrow> x \<noteq> NaN \<and> x \<noteq> Fin 0
     | JBig i \<Rightarrow> i \<noteq> 0 | JStr s \<Rightarrow> s \<noteq> [] | JArr _ \<Rightarrow> True | JObj _ \<Rightarrow> True)"

text \<open>\<open>String(v)\<close>; the elements of an array that are undefined or null print as nothing.\<close>

fun json_str :: "json \<Rightarrow> string" where
  "json_str JUndef = ''undefined''"
| "json_str JNull = ''null''"
| "json_str (JBool b) = (if b then ''true'' else ''false'')"
| "json_str (JNum x) = num_str x"
| "json_str (JBig i) = int_str i"
| "json_str (JStr s) = s"
| "json_str (JArr xs) = js_join '','' (map (\<lambda>x. if x = JUndef \<or> x = JNull then [] else json_str x) xs)"
| "json_str (JObj fs) = ''[object Object]''"

definition bigint_of_json :: "json \<Rightarrow> int res" where
  "bigint_of_json v = (case v of
       JUndef \<Rightarrow> throw ETypeError ''Cannot convert undefined to a BigInt''
     | JNull \<Rightarrow> throw ETypeError ''Cannot convert null to a BigInt''
     | JBool b \<Rightarrow> Inr (if b then 1 else 0)
     | JNum x \<Rightarrow> bigint_of_num x
     | JBig i \<Rightarrow> Inr i
     | _ \<Rightarrow> bigint_of_str (json_str v))"

definition number_of_json :: "json \<Rightarrow> number res" where
  "number_of_json v = (case v of
       JUndef \<Rightarrow> Inr NaN
     | JNull \<Rightarrow> Inr (Fin 0)
     | JBool b \<Rightarrow> Inr (Fin (if b then 1 else 0))
     | JNum x \<Rightarrow> Inr x
     | JBig i \<Rightarrow> throw ETypeError ''Cannot convert a BigInt value to a number''
     | _ \<Rightarrow> Inr (num_of_str (json_str v)))"

text \<open>An element of a \<open>Uint8Array\<close>: truncated, then modulo 256.\<close>

definition to_uint8 :: "json \<Rightarrow> byte res" where
  "to_uint8 v = rbind (number_of_json v) (\<lambda>x. Inr (case x of
       Fin r \<Rightarrow> word_of_int (if 0 \<le> r then \<lfloor>r\<rfloor> else \<lceil>r\<rceil>) | _ \<Rightarrow> 0))"

definition json_get :: "json \<Rightarrow> string \<Rightarrow> json" where
  "json_get v k = (case v of JObj fs \<Rightarrow> orElse (map_of fs k) JUndef | _ \<Rightarrow> JUndef)"

text \<open>\<open>Uint8Array.from\<close>: of an array or a string its elements, of another object those below
  its length, of another value none.\<close>

definition js_length :: "number \<Rightarrow> nat res" where
  "js_length x = (case x of Fin r \<Rightarrow> Inr (nat \<lfloor>r\<rfloor>) | PInf \<Rightarrow> throw ERangeError ''Invalid typed array length''
     | _ \<Rightarrow> Inr 0)"

definition Uint8Array_from :: "json \<Rightarrow> byte list res" where
  "Uint8Array_from v = (case v of
       JUndef \<Rightarrow> throw ETypeError ''undefined is not an object''
     | JNull \<Rightarrow> throw ETypeError ''null is not an object''
     | JArr xs \<Rightarrow> rmapM to_uint8 xs
     | JStr s \<Rightarrow> rmapM (\<lambda>c. to_uint8 (JStr [c])) s
     | JObj fs \<Rightarrow> rbind (number_of_json (json_get v ''length'')) (\<lambda>x.
         rbind (js_length x) (\<lambda>n. rmapM (\<lambda>i. to_uint8 (json_get v (nat_str i))) [0..<n]))
     | _ \<Rightarrow> Inr [])"

section \<open>Transforms\<close>

text \<open>\<open>value ? BigInt(value) : 0n\<close>, and the transforms of arrays and of maps to lamports.\<close>

definition bigint_field :: "json \<Rightarrow> int res" where
  "bigint_field v = (if js_truthy v then bigint_of_json v else Inr 0)"

definition merkle_root_field :: "json \<Rightarrow> byte list res" where
  "merkle_root_field v = (case v of JArr xs \<Rightarrow> Uint8Array_from v
     | _ \<Rightarrow> throw EError ''Invalid merkle_root format'')"

definition proof_field :: "json \<Rightarrow> byte list list res" where
  "proof_field v = (case v of JArr xs \<Rightarrow> rmapM Uint8Array_from xs
     | _ \<Rightarrow> throw EError ''Invalid proof format'')"

definition json_entries :: "json \<Rightarrow> (string \<times> json) list" where
  "json_entries v = (case v of JObj fs \<Rightarrow> fs
     | JArr xs \<Rightarrow> map (\<lambda>(i, x). (nat_str i, x)) (zip [0..<length xs] xs) | _ \<Rightarrow> [])"

definition lamports_field :: "json \<Rightarrow> (string \<times> int) list option res" where
  "lamports_field v = (if (\<exists>fs. v = JObj fs) \<or> (\<exists>xs. v = JArr xs)
     then rbind (rmapM (\<lambda>(k, x). rbind (bigint_of_json x) (\<lambda>i. Inr (k, i))) (json_entries v)) (\<lambda>m. Inr (Some m))
     else Inr None)"

definition pubkey_field :: "solana_lib \<Rightarrow> json \<Rightarrow> pubkey res" where
  "pubkey_field sl v = (case v of JStr s \<Rightarrow> pk_of_str sl s | _ \<Rightarrow> throw EError ''Invalid public key input'')"

section \<open>Merkle trees\<close>

record tree_node =
  tn_stake_authority :: pubkey
  tn_withdraw_authority :: pubkey
  tn_claim :: int
  tn_index :: number
  tn_proof :: "byte list list"

record merkle_tree =
  mt_merkle_root :: "byte list"
  mt_max_total_claim_sum :: int
  mt_max_total_claims :: number
  mt_vote_account :: pubkey
  mt_bond_account :: pubkey
  mt_settlement_account :: pubkey
  mt_funding_sources :: "(string \<times> int) list option"
  mt_tree_nodes :: "tree_node list"

record unified_trees =
  ut_epoch :: number
  ut_slot :: int
  ut_validator_bonds_config :: pubkey
  ut_merkle_trees :: "merkle_tree list"
  ut_sources :: "string list option"

definition node_transformed :: "solana_lib \<Rightarrow> json \<Rightarrow> tree_node \<Rightarrow> bool" where
  "node_transformed sl v n \<longleftrightarrow>
     pubkey_field sl (json_get v ''stake_authority'') = Inr (tn_stake_authority n)
     \<and> pubkey_field sl (json_get v ''withdraw_authority'') = Inr (tn_withdraw_authority n)
     \<and> bigint_field (json_get v ''claim'') = Inr (tn_claim n)
     \<and> json_get v ''index'' = JNum (tn_index n)
     \<and> proof_field (json_get v ''proof'') = Inr (tn_proof n)"

definition array_transformed :: "(json \<Rightarrow> 'a \<Rightarrow> bool) \<Rightarrow> json \<Rightarrow> 'a list \<Rightarrow> bool" where
  "array_transformed p v xs = (case v of JArr vs \<Rightarrow> list_all2 p vs xs | _ \<Rightarrow> False)"

definition tree_transformed :: "solana_lib \<Rightarrow> json \<Rightarrow> merkle_tree \<Rightarrow> bool" where
  "tree_transformed sl v t \<longleftrightarrow>
     merkle_root_field (json_get v ''merkle_root'') = Inr (mt_merkle_root t)
     \<and> bigint_field (json_get v ''max_total_claim_sum'') = Inr (mt_max_total_claim_sum t)
     \<and> json_get v ''max_total_claims'' = JNum (mt_max_total_claims t)
     \<and> pubkey_field sl (json_get v ''vote_account'') = Inr (mt_vote_account t)
     \<and> pubkey_field sl (json_get v ''bond_account'') = Inr (mt_bond_account t)
     \<and> pubkey_field sl (json_get v ''settlement_account'') = Inr (mt_settlement_account t)
     \<and> lamports_field (json_get v ''funding_sources'') = Inr (mt_funding_sources t)
     \<and> array_transformed (node_transformed sl) (json_get v ''tree_nodes'') (mt_tree_nodes t)"

definition unified_transformed :: "solana_lib \<Rightarrow> json \<Rightarrow> unified_trees \<Rightarrow> bool" where
  "unified_transformed sl v d \<longleftrightarrow>
     json_get v ''epoch'' = JNum (ut_epoch d) \<and> n_lt (Fin 0) (ut_epoch d)
     \<and> bigint_field (json_get v ''slot'') = Inr (ut_slot d)
     \<and> pubkey_field sl (json_get v ''validator_bonds_config'') = Inr (ut_validator_bonds_config d)
     \<and> array_transformed (tree_transformed sl) (json_get v ''merkle_trees'') (ut_merkle_trees d)
     \<and> (case ut_sources d of
          None \<Rightarrow> json_get v ''sources'' \<in> {JUndef, JNull}
        | Some ss \<Rightarrow> json_get v ''sources'' = JArr (map JStr ss))"

section \<open>Settlements\<close>

datatype claim_kind = StakerPayout | FeeDeposit | Marker

definition claim_kind_str :: "claim_kind \<Rightarrow> string" where
  "claim_kind_str k = (case k of StakerPayout \<Rightarrow> ''StakerPayout'' | FeeDeposit \<Rightarrow> ''FeeDeposit''
     | Marker \<Rightarrow> ''Marker'')"

datatype funder_type = ValidatorBond | Marinade

definition funder_str :: "funder_type \<Rightarrow> string" where
  "funder_str f = (case f of ValidatorBond \<Rightarrow> ''ValidatorBond'' | Marinade \<Rightarrow> ''Marinade'')"

record staker_payout =
  sp_stake_accounts :: "(string \<times> int) list option"
  sp_active_stake :: int
  sp_activating_stake :: int

record settlement_claim =
  sc_withdraw_authority :: pubkey
  sc_stake_authority :: pubkey
  sc_claim_amount :: int
  sc_kind :: claim_kind
  sc_payout :: "staker_payout option"

text \<open>The reason of a settlement: a string becomes an object, an object is kept.\<close>

record settlement_reason =
  sr_ProtectedEvent :: "json option"
  sr_simpleReason :: "string option"

definition reason_transform :: "json \<Rightarrow> settlement_reason" where
  "reason_transform v = (case v of
       JStr s \<Rightarrow> \<lparr> sr_ProtectedEvent = None, sr_simpleReason = Some s \<rparr>
     | _ \<Rightarrow> \<lparr> sr_ProtectedEvent = (if js_truthy (json_get v ''ProtectedEvent'')
             then Some (json_get v ''ProtectedEvent'') else None),
           sr_simpleReason = (case json_get v ''reason'' of JStr s \<Rightarrow> Some s | _ \<Rightarrow> None) \<rparr>)"

definition getReasonType :: "settlement_reason \<Rightarrow> string" where
  "getReasonType r = (if sr_ProtectedEvent r \<noteq> None then ''ProtectedEvent''
     else case sr_simpleReason r of None \<Rightarrow> ''Unknown'' | Some s \<Rightarrow> if s = [] then ''Unknown'' else s)"

record settlement =
  se_reason :: settlement_reason
  se_funder :: funder_type
  se_vote_account :: pubkey
  se_claims_count :: number
  se_claims_amount :: int
  se_claims :: "settlement_claim list"

record settlements =
  ss_slot :: int
  ss_epoch :: number
  ss_settlements :: "settlement list"

definition payout_transformed :: "json \<Rightarrow> staker_payout \<Rightarrow> bool" where
  "payout_transformed v p \<longleftrightarrow>
     lamports_field (json_get v ''stake_accounts'') = Inr (sp_stake_accounts p)
     \<and> bigint_field (json_get v ''active_stake'') = Inr (sp_active_stake p)
     \<and> bigint_field (json_get v ''activating_stake'') = Inr (sp_activating_stake p)"

definition claim_transformed :: "solana_lib \<Rightarrow> json \<Rightarrow> settlement_claim \<Rightarrow> bool" where
  "claim_transformed sl v c \<longleftrightarrow>
     pubkey_field sl (json_get v ''withdraw_authority'') = Inr (sc_withdraw_authority c)
     \<and> pubkey_field sl (json_get v ''stake_authority'') = Inr (sc_stake_authority c)
     \<and> bigint_field (json_get v ''claim_amount'') = Inr (sc_claim_amount c)
     \<and> json_get v ''kind'' = JStr (claim_kind_str (sc_kind c))
     \<and> (case sc_payout c of None \<Rightarrow> sc_kind c \<noteq> StakerPayout
        | Some p \<Rightarrow> sc_kind c = StakerPayout \<and> payout_transformed v p)"

definition settlement_transformed :: "solana_lib \<Rightarrow> json \<Rightarrow> settlement \<Rightarrow> bool" where
  "settlement_transformed sl v s \<longleftrightarrow>
     se_reason s = reason_transform (json_get v ''reason'')
     \<and> json_get v ''funder'' = JStr (funder_str (se_funder s))
     \<and> pubkey_field sl (json_get v ''vote_account'') = Inr (se_vote_account s)
     \<and> json_get v ''claims_count'' = JNum (se_claims_count s)
     \<and> bigint_field (json_get v ''claims_amount'') = Inr (se_claims_amount s)
     \<and> array_transformed (claim_transformed sl) (json_get v ''claims'') (se_claims s)"

definition settlements_transformed :: "solana_lib \<Rightarrow> json \<Rightarrow> settlements \<Rightarrow> bool" where
  "settlements_transformed sl v d \<longleftrightarrow>
     bigint_field (json_get v ''slot'') = Inr (ss_slot d)
     \<and> json_get v ''epoch'' = JNum (ss_epoch d) \<and> n_lt (Fin 0) (ss_epoch d)
     \<and> array_transformed (settlement_transformed sl) (json_get v ''settlements'') (ss_settlements d)"

definition applies_transforms :: "(json \<Rightarrow> 'a \<Rightarrow> bool) \<Rightarrow> (json \<Rightarrow> 'a res) \<Rightarrow> bool" where
  "applies_transforms p validate \<longleftrightarrow> (\<forall>v d. validate v = Inr d \<longrightarrow> p v d)"

text \<open>Files from before the refactoring: \<open>parsed\<close> is the value of \<open>JSON.parse\<close>, if any.\<close>

definition is_legacy :: "json \<Rightarrow> bool" where
  "is_legacy v = (case v of
       JObj _ \<Rightarrow>
         (json_get v ''funder'' = JUndef \<and> json_get (json_get v ''meta'') ''funder'' \<noteq> JUndef)
         \<or> (case json_get v ''claims'' of
              JArr cs \<Rightarrow> cs \<noteq> [] \<and> list_ex (\<lambda>c. json_get c ''kind'' = JUndef) cs
            | _ \<Rightarrow> False)
     | JArr _ \<Rightarrow> False
     | _ \<Rightarrow> False)"

definition legacy_message :: "string option \<Rightarrow> string" where
  "legacy_message path = [CHR 39] @ ''settlements'' @ [CHR 39] @ '' data''
     @ (case path of None \<Rightarrow> '''' | Some p \<Rightarrow> '' at path '' @ [CHR 39] @ p @ [CHR 39])
     @ '' is in the legacy pre-refactor format (missing top-level '' @ [CHR 39] @ ''funder'' @ [CHR 39]
     @ '' and/or per-claim '' @ [CHR 39] @ ''kind'' @ [CHR 39] @ ''). Legacy files are not supported ''
     @ [CHR 0xE2, CHR 0x80, CHR 0x94]
     @ '' regenerate this epoch with the current pipeline to produce the new format.''"

definition assertNotLegacyFormat :: "json option \<Rightarrow> string option \<Rightarrow> unit res" where
  "assertNotLegacyFormat parsed path = (case parsed of None \<Rightarrow> Inr ()
     | Some v \<Rightarrow> (case json_get v ''settlements'' of
         JArr ss \<Rightarrow> guard_throw (list_ex is_legacy ss) ECliCommand (legacy_message path)
       | _ \<Rightarrow> Inr ()))"

text \<open>The loading functions. \<open>wrap\<close>: every error becomes a \<open>CliCommandError\<close> with a message.\<close>

definition wrap_error :: "string \<Rightarrow> 'a res \<Rightarrow> 'a res" where
  "wrap_error msg m = (case m of Inl _ \<Rightarrow> throw ECliCommand msg | Inr x \<Rightarrow> Inr x)"

definition quoted_path :: "string option \<Rightarrow> string" where
  "quoted_path path = [CHR 39] @ orElse path ''undefined'' @ [CHR 39]"

definition parseSettlements :: "(string \<Rightarrow> json option) \<Rightarrow> (string \<Rightarrow> json res) \<Rightarrow> (json \<Rightarrow> settlements res)
    \<Rightarrow> string \<Rightarrow> string option \<Rightarrow> settlements res" where
  "parseSettlements json_parse lossless validate inputJson path =
     rbind (assertNotLegacyFormat (json_parse inputJson) path) (\<lambda>_.
     wrap_error (''Failed to load and validate '' @ [CHR 39] @ ''settlements'' @ [CHR 39] @ '' data from path: '' @ quoted_path path)
       (rbind (lossless inputJson) validate))"

definition parseSettlementMerkleTree :: "(string \<Rightarrow> json res) \<Rightarrow> (json \<Rightarrow> 'a res) \<Rightarrow> string \<Rightarrow> string option \<Rightarrow> 'a res" where
  "parseSettlementMerkleTree lossless validate inputJson path =
     wrap_error (''Failed to load and validate settlement merkle tree data from path: '' @ quoted_path path)
       (rbind (lossless inputJson) validate)"

definition parseUnifiedMerkleTree :: "(string \<Rightarrow> json res) \<Rightarrow> (json \<Rightarrow> unified_trees res) \<Rightarrow> string
    \<Rightarrow> string option \<Rightarrow> unified_trees res" where
  "parseUnifiedMerkleTree lossless validate inputJson path =
     wrap_error (''Failed to load and validate unified merkle tree data from path: '' @ quoted_path path)
       (rbind (lossless inputJson) validate)"

section \<open>Numbers arrive exactly\<close>

definition token_value :: "string \<Rightarrow> int" where
  "token_value s = (case s of [] \<Rightarrow> 0
     | c # t \<Rightarrow> if c = CHR ''-'' then - int (digits_val t) else int (digits_val s))"

lemma integer_token_cases:
  assumes "integer_token s"
  obtains t where "s = CHR ''-'' # t" "t \<noteq> []" "list_all is_digit t"
    | "s \<noteq> []" "list_all is_digit s"
  using assms by (cases s) (auto simp: integer_token_def split: if_splits)

lemma integer_token_bigint: "integer_token s \<Longrightarrow> bigint_of_str s = Inr (token_value s)"
proof (erule integer_token_cases)
  show "bigint_of_str s = Inr (token_value s)" if "s \<noteq> []" "list_all is_digit s"
    using that by (cases s) (auto simp: bigint_of_str_digits token_value_def)
qed (auto simp: bigint_of_str_minus token_value_def)

lemma takeWhile_digits: "list_all is_digit s \<Longrightarrow> takeWhile is_digit s = s \<and> dropWhile is_digit s = []"
  by (simp add: list_all_iff)

lemma parse_udec_digits: "s \<noteq> [] \<Longrightarrow> list_all is_digit s \<Longrightarrow> parse_udec s = Some (of_nat (digits_val s))"
  by (simp add: parse_udec_def Let_def takeWhile_digits parse_exponent_def pow10_def)

lemma num_of_digits: "s \<noteq> [] \<Longrightarrow> list_all is_digit s \<Longrightarrow> num_of_str s = dbl (of_nat (digits_val s))"
proof -
  assume s: "s \<noteq> []" "list_all is_digit s"
  then obtain c t where ct: "s = c # t" "is_digit c" by (cases s) auto
  then have "c \<noteq> CHR ''-''" "c \<noteq> CHR ''+''" "c \<noteq> CHR ''I''" by auto
  then show ?thesis using s ct
    by (simp add: num_of_str_def Let_def trim_digits parse_sdec_def parse_udec_digits)
qed

lemma num_of_minus: "t \<noteq> [] \<Longrightarrow> list_all is_digit t \<Longrightarrow> num_of_str (CHR ''-'' # t) = dbl (- of_nat (digits_val t))"
proof -
  assume t: "t \<noteq> []" "list_all is_digit t"
  then have "is_digit (last t)" "is_digit (hd t)" by (simp_all add: list_all_iff)
  then have "\<not> is_ws (last t)" "hd t \<noteq> CHR ''I''" by (auto simp: digit_not_ws)
  then have "trim_str (CHR ''-'' # t) = CHR ''-'' # t" "CHR ''-'' # t \<noteq> ''-Infinity''"
    using t(1) by (auto intro!: trim_str_id simp: is_ws_def)
  then show ?thesis using t
    by (simp add: num_of_str_def Let_def parse_sdec_def parse_udec_digits)
qed

lemma integer_token_number: "integer_token s \<Longrightarrow> num_of_str s = dbl (of_int (token_value s))"
proof (erule integer_token_cases)
  show "num_of_str s = dbl (of_int (token_value s))" if "s \<noteq> []" "list_all is_digit s"
    using that num_of_digits [OF that] by (cases s) (auto simp: token_value_def)
qed (auto simp: num_of_minus token_value_def)

lemma parseNumber_exact:
  assumes "integer_token s"
  obtains v where "parseNumber s = Inr v" "bigint_field v = Inr (token_value s)"
proof (cases "MAX_SAFE < token_value s \<or> token_value s < MIN_SAFE")
  case True
  then have "token_value s \<noteq> 0" by (auto simp: MAX_SAFE_def MIN_SAFE_def)
  with True assms show thesis
    by (intro that [of "JBig (token_value s)"])
      (auto simp: parseNumber_def integer_token_bigint bigint_field_def js_truthy_def bigint_of_json_def)
next
  case False
  then have "\<bar>token_value s\<bar> < 2 ^ 53" by (auto simp: MAX_SAFE_def MIN_SAFE_def)
  then have "num_of_str s = Fin (of_int (token_value s))"
    using assms by (simp add: integer_token_number dbl_of_int)
  with False assms show thesis
    by (intro that [of "JNum (num_of_str s)"])
      (auto simp: parseNumber_def integer_token_bigint bigint_field_def js_truthy_def bigint_of_json_def
        bigint_of_num_def is_integral_def)
qed

text \<open>A token beyond the doubles.\<close>

lemma demo_token: "integer_token ''18446744073709551615'' \<and> token_value ''18446744073709551615'' = 18446744073709551615
  \<and> parseNumber ''18446744073709551615'' = Inr (JBig 18446744073709551615)"
proof -
  have *: "integer_token ''18446744073709551615''" "token_value ''18446744073709551615'' = 18446744073709551615"
    by (simp_all add: integer_token_def is_digit_def token_value_def digits_val_def digit_val_def)
  then show ?thesis
    by (simp add: parseNumber_def integer_token_bigint MAX_SAFE_def)
qed

end
