(* ===== verification/Chk_Check.thy ===== *)
theory Chk_Check
  imports Chk_Data
begin

text \<open>
  The check itself: \<open>commands/checkMerkleTree.ts\<close> of \<open>packages/validator-bonds-sanity-check\<close>.

  A \<open>Decimal\<close> is a rational, an infinity or NaN; the arithmetic and the printing of
  decimal.js are the operations of \<open>dec_lib\<close>, comparisons are those of the values.
  \<open>decimal_ok\<close> is what the check relies on: integers of at most twenty digits are read,
  printed and added exactly, and a quotient is not rounded past a bound that has at most
  twenty digits, neither upwards nor downwards. The statistics of the common library, the files and YAML are parameters in
  \<open>check_env\<close>. Log lines are not modelled, the reports are.
\<close>

section \<open>Decimals\<close>

datatype decimal = DNum rat | DInf | DNegInf | DNaN

fun d_lt :: "decimal \<Rightarrow> decimal \<Rightarrow> bool" where
  "d_lt DNaN y = False"
| "d_lt x DNaN = False"
| "d_lt (DNum x) (DNum y) = (x < y)"
| "d_lt DNegInf y = (y \<noteq> DNegInf)"
| "d_lt x DInf = (x \<noteq> DInf)"
| "d_lt x y = False"

definition d_eq :: "decimal \<Rightarrow> decimal \<Rightarrow> bool" where
  "d_eq x y \<longleftrightarrow> x \<noteq> DNaN \<and> x = y"

definition d_le :: "decimal \<Rightarrow> decimal \<Rightarrow> bool" where
  "d_le x y \<longleftrightarrow> d_lt x y \<or> d_eq x y"

definition d_isZero :: "decimal \<Rightarrow> bool" where
  "d_isZero x \<longleftrightarrow> x = DNum 0"

definition d_isFinite :: "decimal \<Rightarrow> bool" where
  "d_isFinite x = (case x of DNum _ \<Rightarrow> True | _ \<Rightarrow> False)"

definition d_isInteger :: "decimal \<Rightarrow> bool" where
  "d_isInteger x = (case x of DNum r \<Rightarrow> is_integral r | _ \<Rightarrow> False)"

definition d_abs :: "decimal \<Rightarrow> decimal" where
  "d_abs x = (case x of DNum r \<Rightarrow> DNum \<bar>r\<bar> | DNegInf \<Rightarrow> DInf | _ \<Rightarrow> x)"

abbreviation "DECIMAL_ZERO \<equiv> DNum 0"
abbreviation "DECIMAL_ONE \<equiv> DNum 1"

record dec_lib =
  dl_of_str :: "string \<Rightarrow> decimal"
  dl_of_num :: "number \<Rightarrow> decimal"
  dl_str :: "decimal \<Rightarrow> string"
  dl_fixed :: "nat \<Rightarrow> decimal \<Rightarrow> string"
  dl_plus :: "decimal \<Rightarrow> decimal \<Rightarrow> decimal"
  dl_sub :: "decimal \<Rightarrow> decimal \<Rightarrow> decimal"
  dl_mul :: "decimal \<Rightarrow> decimal \<Rightarrow> decimal"
  dl_div :: "decimal \<Rightarrow> decimal \<Rightarrow> decimal"
  dl_round_down :: "decimal \<Rightarrow> decimal"
  dl_places :: "nat \<Rightarrow> decimal \<Rightarrow> decimal"

definition digits20 :: "rat \<Rightarrow> bool" where
  "digits20 r \<longleftrightarrow> (\<exists>m k. \<bar>m\<bar> < 10 ^ 20 \<and> r * 10 ^ k = of_int m)"

definition decimal_ok :: "dec_lib \<Rightarrow> bool" where
  "decimal_ok dl \<longleftrightarrow>
     (\<forall>i. dl_of_str dl (int_str i) = DNum (of_int i))
     \<and> (\<forall>n < 2 ^ 53. dl_of_num dl (Fin (of_nat n)) = DNum (of_nat n))
     \<and> (\<forall>x. dl_of_str dl (dl_str dl x) = x)
     \<and> (\<forall>i j. \<bar>i + j\<bar> < 10 ^ 20 \<longrightarrow>
          dl_plus dl (DNum (of_int i)) (DNum (of_int j)) = DNum (of_int (i + j)))
     \<and> (\<forall>x y t. y \<noteq> 0 \<longrightarrow> digits20 t \<longrightarrow> x / y \<le> t \<longrightarrow>
          (\<exists>q. dl_div dl (DNum x) (DNum y) = DNum q \<and> q \<le> t))
     \<and> (\<forall>x y t. y \<noteq> 0 \<longrightarrow> digits20 t \<longrightarrow> t \<le> x / y \<longrightarrow>
          dl_div dl (DNum x) (DNum y) = DInf
          \<or> (\<exists>q. dl_div dl (DNum x) (DNum y) = DNum q \<and> t \<le> q))"

section \<open>Metrics\<close>

record metrics =
  me_epoch :: number
  me_totalValidators :: nat
  me_totalClaims :: nat
  me_totalClaimAmount :: int
  me_avgClaimAmountPerValidator :: decimal
  me_avgClaimsPerValidator :: decimal

definition tree_sum :: "merkle_tree \<Rightarrow> int" where
  "tree_sum t = fold (\<lambda>n s. s + tn_claim n) (mt_tree_nodes t) 0"

definition extractMetrics :: "dec_lib \<Rightarrow> unified_trees \<Rightarrow> metrics" where
  "extractMetrics dl d =
     (let totalValidators = length (ut_merkle_trees d);
          totalClaims = fold (\<lambda>t s. s + length (mt_tree_nodes t)) (ut_merkle_trees d) 0;
          totalClaimAmount = fold (\<lambda>t s. s + tree_sum t) (ut_merkle_trees d) 0
      in \<lparr> me_epoch = ut_epoch d, me_totalValidators = totalValidators, me_totalClaims = totalClaims,
           me_totalClaimAmount = totalClaimAmount,
           me_avgClaimAmountPerValidator = (if totalValidators \<noteq> 0
             then dl_round_down dl (dl_div dl (dl_of_str dl (int_str totalClaimAmount))
               (dl_of_num dl (Fin (of_nat totalValidators))))
             else DECIMAL_ZERO),
           me_avgClaimsPerValidator = (if totalValidators \<noteq> 0
             then dl_places dl 2 (dl_div dl (dl_of_num dl (Fin (of_nat totalClaims)))
               (dl_of_num dl (Fin (of_nat totalValidators))))
             else DECIMAL_ZERO) \<rparr>)"

datatype metric_field = TotalValidators | TotalClaims | TotalClaimAmount | AvgClaimAmountPerValidator
  | AvgClaimsPerValidator

definition field_name :: "metric_field \<Rightarrow> string" where
  "field_name f = (case f of TotalValidators \<Rightarrow> ''totalValidators'' | TotalClaims \<Rightarrow> ''totalClaims''
     | TotalClaimAmount \<Rightarrow> ''totalClaimAmount''
     | AvgClaimAmountPerValidator \<Rightarrow> ''avgClaimAmountPerValidator''
     | AvgClaimsPerValidator \<Rightarrow> ''avgClaimsPerValidator'')"

definition SCORED_FIELDS :: "metric_field list" where
  "SCORED_FIELDS = [TotalValidators, TotalClaimAmount, AvgClaimAmountPerValidator]"

definition ADVISORY_FIELDS :: "metric_field list" where
  "ADVISORY_FIELDS = [TotalClaims]"

definition FIELD_DESCRIPTIONS :: "metric_field \<Rightarrow> string" where
  "FIELD_DESCRIPTIONS f = (case f of
       TotalValidators \<Rightarrow> ''Number of validators with merkle trees. Represents how many validators are receiving claims.''
     | TotalClaims \<Rightarrow> ''Total number of individual claims across all merkle trees.''
     | TotalClaimAmount \<Rightarrow> ''Sum of all claim amounts across all merkle trees (in lamports). Total SOL being distributed.''
     | AvgClaimAmountPerValidator \<Rightarrow> ''Average claim amount per validator (total claims / number of validators).''
     | AvgClaimsPerValidator \<Rightarrow> ''Average number of claims per validator.'')"

definition field_str :: "dec_lib \<Rightarrow> metrics \<Rightarrow> metric_field \<Rightarrow> string" where
  "field_str dl m f = (case f of TotalValidators \<Rightarrow> nat_str (me_totalValidators m)
     | TotalClaims \<Rightarrow> nat_str (me_totalClaims m)
     | TotalClaimAmount \<Rightarrow> int_str (me_totalClaimAmount m)
     | AvgClaimAmountPerValidator \<Rightarrow> dl_str dl (me_avgClaimAmountPerValidator m)
     | AvgClaimsPerValidator \<Rightarrow> dl_str dl (me_avgClaimsPerValidator m))"

section \<open>Anomalies\<close>

record desc_stats =
  ds_mean :: decimal
  ds_min :: decimal
  ds_max :: decimal

record anomaly_result =
  ar_isAnomaly :: bool
  ar_field :: string
  ar_currentValue :: string
  ar_score :: string

record anomaly_details =
  ad_absoluteDeviationRatio :: string
  ad_minAbsoluteDeviationRequired :: string
  ad_meetsAbsoluteThreshold :: bool
  ad_recentValues :: "string list"
  ad_similarToAllRecent :: bool
  ad_historicalMin :: string
  ad_historicalMax :: string
  ad_toleranceApplied :: string
  ad_isWithinHistoricalRange :: bool

record stats_calculation =
  sk_result :: anomaly_result
  sk_advisory :: bool
  sk_description :: string
  sk_stats :: desc_stats
  sk_details :: anomaly_details

record thresholds =
  th_correlation :: decimal
  th_score :: decimal
  th_minDeviation :: decimal

record stats_lib =
  st_describe :: "number list \<Rightarrow> desc_stats"
  st_detect :: "number \<Rightarrow> number list \<Rightarrow> string \<Rightarrow> decimal \<Rightarrow> decimal \<Rightarrow> anomaly_result"
  st_yaml_stats :: "desc_stats \<Rightarrow> string"
  st_yaml_details :: "anomaly_details \<Rightarrow> string"

definition isSimilarToRecent :: "dec_lib \<Rightarrow> decimal \<Rightarrow> decimal \<Rightarrow> number \<Rightarrow> bool" where
  "isSimilarToRecent dl current correlation v =
     (let x = dl_of_str dl (num_str v) in
      if d_isZero x then False
      else d_le (dl_div dl (d_abs (dl_sub dl current x)) (d_abs x)) correlation)"

definition last_n :: "nat \<Rightarrow> 'a list \<Rightarrow> 'a list" where
  "last_n n xs = drop (length xs - n) xs"

definition detectIndividualAnomaly :: "dec_lib \<Rightarrow> stats_lib \<Rightarrow> thresholds \<Rightarrow> number \<Rightarrow> number list
    \<Rightarrow> string \<Rightarrow> string \<Rightarrow> stats_calculation" where
  "detectIndividualAnomaly dl sx th currentValue historicalValues field description =
     (let stats = st_describe sx historicalValues;
          current = dl_of_num dl currentValue;
          anomaly = st_detect sx currentValue historicalValues field (th_correlation th) (th_score th);
          ratio = (if d_isZero (d_abs (ds_mean stats)) then DECIMAL_ZERO
             else dl_div dl (d_abs (dl_sub dl current (ds_mean stats))) (d_abs (ds_mean stats)));
          recent = last_n 2 historicalValues;
          similar = (2 \<le> length recent \<and> list_all (isSimilarToRecent dl current (th_correlation th)) recent);
          tolerance = dl_mul dl (th_correlation th) (ds_max stats);
          inRange = (d_le (dl_sub dl (ds_min stats) tolerance) current
             \<and> d_le current (dl_plus dl (ds_max stats) tolerance));
          meets = d_le (th_minDeviation th) ratio
      in \<lparr> sk_result = anomaly \<lparr> ar_isAnomaly := ar_isAnomaly anomaly \<and> meets \<and> \<not> similar \<rparr>,
           sk_advisory = False, sk_description = description, sk_stats = stats,
           sk_details = \<lparr> ad_absoluteDeviationRatio = dl_fixed dl 2 (dl_mul dl ratio (DNum 100)) @ ''%'',
             ad_minAbsoluteDeviationRequired = dl_fixed dl 2 (dl_mul dl (th_minDeviation th) (DNum 100)) @ ''%'',
             ad_meetsAbsoluteThreshold = meets, ad_recentValues = map num_str recent,
             ad_similarToAllRecent = similar, ad_historicalMin = dl_str dl (ds_min stats),
             ad_historicalMax = dl_str dl (ds_max stats), ad_toleranceApplied = dl_str dl tolerance,
             ad_isWithinHistoricalRange = inRange \<rparr> \<rparr>)"

definition ok_mark :: string where "ok_mark = [CHR 0xE2, CHR 0x9C, CHR 0x85]"
definition stop_mark :: string where "stop_mark = [CHR 0xE2, CHR 0x9B, CHR 0x94]"
definition warn_mark :: string where
  "warn_mark = [CHR 0xE2, CHR 0x9A, CHR 0xA0, CHR 0xEF, CHR 0xB8, CHR 0x8F]"
definition nl :: string where "nl = [CHR 0x0A]"

definition stat_report :: "stats_lib \<Rightarrow> stats_calculation \<Rightarrow> string" where
  "stat_report sx k =
     ''['' @ (if ar_isAnomaly (sk_result k) then if sk_advisory k then warn_mark else stop_mark else ok_mark)
     @ ''] Field: '' @ ar_field (sk_result k) @ (if sk_advisory k then '' (advisory, not blocking)'' else '''') @ nl
     @ (if sk_description k \<noteq> [] then ''  Description: '' @ sk_description k @ nl else '''')
     @ ''  Value: '' @ ar_currentValue (sk_result k) @ nl
     @ ''  Score: '' @ ar_score (sk_result k) @ nl
     @ ''  '' @ st_yaml_stats sx (sk_stats k) @ nl
     @ ''  '' @ st_yaml_details sx (sk_details k) @ nl"

definition field_anomaly :: "dec_lib \<Rightarrow> stats_lib \<Rightarrow> thresholds \<Rightarrow> metrics \<Rightarrow> metrics list
    \<Rightarrow> metric_field \<Rightarrow> stats_calculation" where
  "field_anomaly dl sx th current historical f =
     (detectIndividualAnomaly dl sx th (num_of_str (field_str dl current f))
       (map (\<lambda>m. num_of_str (field_str dl m f)) historical) (field_name f @ '':'') (FIELD_DESCRIPTIONS f))
     \<lparr> sk_advisory := f \<in> set ADVISORY_FIELDS \<rparr>"

definition reportMerkleTreeAnomalies :: "dec_lib \<Rightarrow> stats_lib \<Rightarrow> thresholds \<Rightarrow> metrics \<Rightarrow> metrics list
    \<Rightarrow> (bool \<times> stats_calculation list \<times> string) res" where
  "reportMerkleTreeAnomalies dl sx th current historical =
     rbind (guard_throw (length historical < 3) ECliCommand (''Not enough historical data for reliable ''
       @ ''anomaly detection, please provide at least 3 epochs.'')) (\<lambda>_.
     let stats = map (field_anomaly dl sx th current historical) (SCORED_FIELDS @ ADVISORY_FIELDS);
         thresholdInfo = ''(correlationThreshold: '' @ dl_str dl (th_correlation th) @ '', scoreThreshold: ''
           @ dl_str dl (th_score th) @ '', minAbsoluteDeviation: ''
           @ dl_str dl (dl_mul dl (th_minDeviation th) (DNum 100)) @ ''%)'';
         anomalyDetected = list_ex (\<lambda>k. ar_isAnomaly (sk_result k) \<and> \<not> sk_advisory k) stats;
         report = nl @ ''=== Epoch '' @ num_str (me_epoch current)
           @ '' Merkle Tree Anomaly Report (historical records: '' @ nat_str (length historical) @ '') ==='' @ nl
           @ ''Status: '' @ (if anomalyDetected then stop_mark @ '' ANOMALY DETECTED'' else ok_mark @ '' NORMAL'')
           @ '' '' @ thresholdInfo @ nl @ nl @ concat (map (stat_report sx) stats)
     in Inr (anomalyDetected, stats, report))"

section \<open>The ceiling and the hop guardrail\<close>

definition validateMaxTotalClaims :: "dec_lib \<Rightarrow> decimal \<Rightarrow> unit res" where
  "validateMaxTotalClaims dl maxTotalClaims =
     guard_throw (\<not> d_isFinite maxTotalClaims \<or> \<not> d_isInteger maxTotalClaims
         \<or> d_lt maxTotalClaims DECIMAL_ONE) ECliCommand
       (''maxTotalClaims must be a finite integer >= 1, got '' @ dl_str dl maxTotalClaims)"

definition checkTotalClaimsCeiling :: "dec_lib \<Rightarrow> number \<Rightarrow> nat \<Rightarrow> decimal \<Rightarrow> bool \<times> string" where
  "checkTotalClaimsCeiling dl epoch totalClaims maxTotalClaims =
     (let current = dl_of_num dl (Fin (of_nat totalClaims)); exceeded = d_lt maxTotalClaims current in
      (exceeded, js_join nl
        [nl @ ''=== Epoch '' @ num_str epoch @ '' Total Claims Ceiling (max: '' @ dl_str dl maxTotalClaims @ '') ==='',
         ''['' @ (if exceeded then stop_mark else ok_mark) @ ''] totalClaims: '' @ dl_str dl current,
         ''Status: '' @ (if exceeded then stop_mark @ '' CEILING EXCEEDED'' else ok_mark @ '' WITHIN CEILING'')]))"

record hop_violation =
  hv_field :: metric_field
  hv_currentValue :: decimal
  hv_previousValue :: decimal
  hv_ratio :: decimal
  hv_hopThreshold :: decimal

definition HOP_GUARDED_FIELDS :: "metric_field list" where
  "HOP_GUARDED_FIELDS = [TotalClaimAmount, AvgClaimAmountPerValidator]"

definition hop_field :: "dec_lib \<Rightarrow> metrics \<Rightarrow> metrics \<Rightarrow> decimal \<Rightarrow> metric_field
    \<Rightarrow> hop_violation list \<times> string" where
  "hop_field dl currentMetrics previousMetrics hopThreshold f =
     (let current = dl_of_str dl (field_str dl currentMetrics f);
          previous = dl_of_str dl (field_str dl previousMetrics f) in
      if d_isZero current \<and> d_isZero previous
      then ([], ''['' @ ok_mark @ ''] '' @ field_name f @ '': both epochs are zero'')
      else if d_isZero previous \<or> d_isZero current
      then ([\<lparr> hv_field = f, hv_currentValue = current, hv_previousValue = previous,
              hv_ratio = (if d_isZero current then DECIMAL_ZERO else DInf), hv_hopThreshold = hopThreshold \<rparr>],
            ''['' @ stop_mark @ ''] '' @ field_name f @ '': previous='' @ dl_str dl previous @ '', current=''
              @ dl_str dl current @ '' (zero-baseline hop)'')
      else (let ratio = dl_div dl current previous; inverseRatio = dl_div dl previous current;
                exceeds = d_lt hopThreshold ratio \<or> d_lt hopThreshold inverseRatio in
            (if exceeds then [\<lparr> hv_field = f, hv_currentValue = current, hv_previousValue = previous,
               hv_ratio = ratio, hv_hopThreshold = hopThreshold \<rparr>] else [],
             ''['' @ (if exceeds then stop_mark else ok_mark) @ ''] '' @ field_name f @ '': previous=''
               @ dl_str dl previous @ '', current='' @ dl_str dl current @ '', ratio='' @ dl_fixed dl 4 ratio)))"

definition checkEpochHopGuardrail :: "dec_lib \<Rightarrow> metrics \<Rightarrow> metrics \<Rightarrow> decimal
    \<Rightarrow> hop_violation list \<times> string" where
  "checkEpochHopGuardrail dl currentMetrics previousMetrics hopThreshold =
     (let rs = map (hop_field dl currentMetrics previousMetrics hopThreshold) HOP_GUARDED_FIELDS;
          violations = concat (map fst rs) in
      (violations, js_join nl
        ([nl @ ''=== Epoch '' @ num_str (me_epoch currentMetrics) @ '' vs '' @ num_str (me_epoch previousMetrics)
            @ '' Hop Guardrail (threshold: '' @ dl_str dl hopThreshold @ ''x) ===''] @ map snd rs @
         [''Status: '' @ (if violations \<noteq> []
            then stop_mark @ '' HOP GUARDRAIL VIOLATED ('' @ nat_str (length violations) @ '')''
            else ok_mark @ '' WITHIN ALLOWED HOP'')])))"

section \<open>The command\<close>

record check_args =
  ck_merkleTrees :: string
  ck_settlementSources :: "string list option"
  ck_pastMerkleTrees :: "string list option"
  ck_thresholds :: thresholds
  ck_epochHopThreshold :: decimal
  ck_maxTotalClaims :: decimal

record check_env =
  ce_read :: "string \<Rightarrow> json res"
  ce_validate :: "json \<Rightarrow> unified_trees res"
  ce_loadFileOrDirectory :: "string \<Rightarrow> string list res"
  ce_json_parse :: "string \<Rightarrow> json option"
  ce_lossless :: "string \<Rightarrow> json res"
  ce_validate_settlements :: "json \<Rightarrow> settlements res"
  ce_resolveFilePaths :: "string \<Rightarrow> string list res"
  ce_b58 :: "pubkey \<Rightarrow> string"
  ce_stats :: stats_lib

definition loadAndValidateUnifiedMerkleTree :: "check_env \<Rightarrow> string \<Rightarrow> unified_trees res" where
  "loadAndValidateUnifiedMerkleTree ce filePath =
     wrap_error (''Failed to load and validate unified merkle tree data from path: '' @ quoted_path (Some filePath))
       (rbind (ce_read ce filePath) (ce_validate ce))"

definition check_thresholds :: "dec_lib \<Rightarrow> check_args \<Rightarrow> unit res" where
  "check_thresholds dl a =
     (let th = ck_thresholds a in
     rbind (guard_throw (d_lt (th_correlation th) (DNum 0) \<or> d_lt (DNum 1) (th_correlation th)) ECliCommand
       (''correlationThreshold must be between 0 and 1, got '' @ dl_str dl (th_correlation th))) (\<lambda>_.
     rbind (guard_throw (d_lt (th_score th) (DNum 0)) ECliCommand
       (''scoreThreshold must be >= 0, got '' @ dl_str dl (th_score th))) (\<lambda>_.
     rbind (guard_throw (d_lt (th_minDeviation th) (DNum 0) \<or> d_lt (DNum 1) (th_minDeviation th)) ECliCommand
       (''minAbsoluteDeviation must be between 0 and 1, got '' @ dl_str dl (th_minDeviation th))) (\<lambda>_.
     rbind (guard_throw (d_lt (ck_epochHopThreshold a) DECIMAL_ONE) ECliCommand
       (''epochHopThreshold must be >= 1, got '' @ dl_str dl (ck_epochHopThreshold a))) (\<lambda>_.
     validateMaxTotalClaims dl (ck_maxTotalClaims a))))))"

text \<open>The consistency of the trees: the sums as decimals, the number of claims and the number of
  inconsistencies.\<close>

definition node_sum :: "dec_lib \<Rightarrow> merkle_tree \<Rightarrow> decimal" where
  "node_sum dl t = fold (\<lambda>n s. dl_plus dl s (dl_of_str dl (int_str (tn_claim n)))) (mt_tree_nodes t) DECIMAL_ZERO"

definition consistency_step :: "dec_lib \<Rightarrow> merkle_tree \<Rightarrow> decimal \<times> nat \<times> nat \<Rightarrow> decimal \<times> nat \<times> nat" where
  "consistency_step dl t s = (case s of (sumTotal, claims, bad) \<Rightarrow>
     (let nodeClaimSum = node_sum dl t in
      (dl_plus dl sumTotal nodeClaimSum, claims + length (mt_tree_nodes t),
       bad + (if d_eq nodeClaimSum (dl_of_str dl (int_str (mt_max_total_claim_sum t))) then 0 else 1)
         + (if n_eq (Fin (of_nat (length (mt_tree_nodes t)))) (mt_max_total_claims t) then 0 else 1))))"

definition check_consistency :: "dec_lib \<Rightarrow> unified_trees \<Rightarrow> (decimal \<times> nat) res" where
  "check_consistency dl d =
     (case fold (consistency_step dl) (ut_merkle_trees d) (DECIMAL_ZERO, 0, 0) of (sumTotal, claims, bad) \<Rightarrow>
       rbind (guard_throw (0 < bad) ECliCommand (nat_str bad @ '' merkle trees have internal inconsistencies'')) (\<lambda>_.
       Inr (sumTotal, claims)))"

definition source_sum :: "dec_lib \<Rightarrow> settlements \<Rightarrow> decimal" where
  "source_sum dl ss = fold (\<lambda>s sumTotal. dl_plus dl sumTotal
       (fold (\<lambda>c sum. dl_plus dl sum (dl_of_str dl (int_str (sc_claim_amount c)))) (se_claims s) DECIMAL_ZERO))
     (ss_settlements ss) DECIMAL_ZERO"

definition source_step :: "dec_lib \<Rightarrow> check_env \<Rightarrow> number \<Rightarrow> decimal \<Rightarrow> string \<times> string \<Rightarrow> decimal res" where
  "source_step dl ce epoch sumTotal x = (case x of (data, sourcePath) \<Rightarrow>
     if data = [] then Inr sumTotal
     else rbind (parseSettlements (ce_json_parse ce) (ce_lossless ce) (ce_validate_settlements ce) data (Some sourcePath)) (\<lambda>ss.
       rbind (guard_throw (\<not> n_eq (ss_epoch ss) epoch) ECliCommand
         (''Epoch mismatch: settlement source '' @ sourcePath @ '' has epoch '' @ num_str (ss_epoch ss)
          @ '', but merkle trees have epoch '' @ num_str epoch)) (\<lambda>_.
       Inr (dl_plus dl sumTotal (source_sum dl ss)))))"

definition check_sources :: "dec_lib \<Rightarrow> check_env \<Rightarrow> check_args \<Rightarrow> unified_trees \<Rightarrow> decimal \<Rightarrow> unit res" where
  "check_sources dl ce a d totalClaimSum = (case ck_settlementSources a of
       None \<Rightarrow> Inr ()
     | Some paths \<Rightarrow> if paths = [] then Inr ()
       else rbind (rconcatM (\<lambda>path. rbind (ce_loadFileOrDirectory ce path) (\<lambda>xs. Inr (map (\<lambda>x. (x, path)) xs))) paths) (\<lambda>files.
         rbind (rfoldM (source_step dl ce (ut_epoch d)) DECIMAL_ZERO files) (\<lambda>sumTotal.
         guard_throw (\<not> d_eq sumTotal totalClaimSum) ECliCommand
           (''Mismatch in total claim amounts: Settlement sources ('' @ dl_str dl sumTotal
            @ '') vs Merkle trees ('' @ dl_str dl totalClaimSum @ '')''))))"

text \<open>The past files: their metrics, and those of the previous epoch, the last one that has it.\<close>

definition past_step :: "dec_lib \<Rightarrow> check_env \<Rightarrow> number \<Rightarrow> metrics list \<times> metrics option \<Rightarrow> string
    \<Rightarrow> (metrics list \<times> metrics option) res" where
  "past_step dl ce epoch s path = (case s of (historical, previous) \<Rightarrow>
     rbind (loadAndValidateUnifiedMerkleTree ce path) (\<lambda>d.
     (let m = extractMetrics dl d in
      Inr (historical @ [m], if n_eq (ut_epoch d) (n_sub epoch (Fin 1)) then Some m else previous))))"

text \<open>\<open>sort((a, b) => a.epoch - b.epoch)\<close>, which is stable.\<close>

fun insert_metrics :: "metrics \<Rightarrow> metrics list \<Rightarrow> metrics list" where
  "insert_metrics m [] = [m]"
| "insert_metrics m (x # xs) =
     (if n_lt (n_sub (me_epoch m) (me_epoch x)) (Fin 0) then m # x # xs else x # insert_metrics m xs)"

definition sort_metrics :: "metrics list \<Rightarrow> metrics list" where
  "sort_metrics ms = fold insert_metrics ms []"

definition check_hop :: "dec_lib \<Rightarrow> check_args \<Rightarrow> metrics \<Rightarrow> metrics option \<Rightarrow> unit res" where
  "check_hop dl a current previous = (case previous of
       None \<Rightarrow> Inr ()
     | Some p \<Rightarrow> (let violations = fst (checkEpochHopGuardrail dl current p (ck_epochHopThreshold a)) in
         guard_throw (violations \<noteq> []) ECliCommand
           (''Epoch-over-epoch hop guardrail violated for '' @ nat_str (length violations) @ '' metric(s)'')))"

definition check_history :: "dec_lib \<Rightarrow> check_env \<Rightarrow> check_args \<Rightarrow> unified_trees \<Rightarrow> unit res" where
  "check_history dl ce a d = (case ck_pastMerkleTrees a of
       None \<Rightarrow> Inr ()
     | Some paths \<Rightarrow> if paths = [] then Inr ()
       else rbind (rconcatM (ce_resolveFilePaths ce) paths) (\<lambda>resolved.
         let current = extractMetrics dl d in
         rbind (rfoldM (past_step dl ce (ut_epoch d)) ([], None) resolved) (\<lambda>(historical, previous).
         rbind (check_hop dl a current previous) (\<lambda>_.
         rbind (reportMerkleTreeAnomalies dl (ce_stats ce) (ck_thresholds a) current (sort_metrics historical))
           (\<lambda>(anomalyDetected, _, _).
         guard_throw anomalyDetected ECliCommand ''Historical anomalies detected in merkle trees!'')))))"

definition manageCheckMerkleTree :: "dec_lib \<Rightarrow> check_env \<Rightarrow> check_args \<Rightarrow> unit res" where
  "manageCheckMerkleTree dl ce a =
     rbind (check_thresholds dl a) (\<lambda>_.
     rbind (loadAndValidateUnifiedMerkleTree ce (ck_merkleTrees a)) (\<lambda>d.
     rbind (check_consistency dl d) (\<lambda>(totalClaimSum, totalClaimsCount).
     rbind (guard_throw (ut_merkle_trees d = []) ECliCommand
       (''Merkle tree file contains zero merkle trees for epoch '' @ num_str (ut_epoch d)
        @ ''. This is likely a data generation error.'')) (\<lambda>_.
     rbind (guard_throw (fst (checkTotalClaimsCeiling dl (ut_epoch d) totalClaimsCount (ck_maxTotalClaims a)))
       ECliCommand (''Total claims '' @ nat_str totalClaimsCount @ '' exceeds the ceiling of ''
         @ dl_str dl (ck_maxTotalClaims a)
         @ ''. The claim pipeline may not drain this within the claiming window.'')) (\<lambda>_.
     rbind (check_sources dl ce a d totalClaimSum) (\<lambda>_.
     check_history dl ce a d))))))"

end
