(* ===== verification/Chk_Properties.thy ===== *)
theory Chk_Properties
  imports Chk_Check "HOL-Library.Multiset"
begin

text \<open>
  The properties of the sanity check: what an accepted file satisfies in exact integers, the
  independence of the order of the past files, the hop guardrail, the advisory metric, and
  the exactness of the amounts from the token on.
\<close>

section \<open>Exact sums\<close>

lemma decimal_okD:
  assumes "decimal_ok dl"
  shows "dl_of_str dl (int_str i) = DNum (of_int i)"
    "n < 2 ^ 53 \<Longrightarrow> dl_of_num dl (Fin (of_nat n)) = DNum (of_nat n)"
    "dl_of_str dl (dl_str dl x) = x"
    "\<bar>i + j\<bar> < 10 ^ 20 \<Longrightarrow> dl_plus dl (DNum (of_int i)) (DNum (of_int j)) = DNum (of_int (i + j))"
    "b \<noteq> 0 \<Longrightarrow> digits20 t \<Longrightarrow> a / b \<le> t \<Longrightarrow> \<exists>q. dl_div dl (DNum a) (DNum b) = DNum q \<and> q \<le> t"
    "b \<noteq> 0 \<Longrightarrow> digits20 t \<Longrightarrow> t \<le> a / b \<Longrightarrow>
       dl_div dl (DNum a) (DNum b) = DInf \<or> (\<exists>q. dl_div dl (DNum a) (DNum b) = DNum q \<and> t \<le> q)"
  using assms unfolding decimal_ok_def by blast+

lemma fold_plus_exact:
  assumes dl: "decimal_ok dl" and "\<forall>x\<in>set xs. g x = DNum (of_int (f x)) \<and> 0 \<le> f x"
    and "0 \<le> k" and "k + sum_list (map f xs) < 10 ^ 20"
  shows "fold (\<lambda>x s. dl_plus dl s (g x)) xs (DNum (of_int k)) = DNum (of_int (k + sum_list (map f xs)))"
  using assms(2-4)
proof (induction xs arbitrary: k)
  case (Cons x xs)
  have "0 \<le> sum_list (map f xs)" using Cons.prems(1) by (intro sum_list_nonneg) auto
  moreover have "0 \<le> f x" using Cons.prems(1) by simp
  ultimately have "\<bar>k + f x\<bar> < 10 ^ 20" using Cons.prems(2,3) by simp
  then have "dl_plus dl (DNum (of_int k)) (g x) = DNum (of_int (k + f x))"
    using Cons.prems(1) by (simp add: decimal_okD(4) [OF dl])
  then show ?case using Cons.prems Cons.IH [of "k + f x"] by (simp add: add.assoc)
qed simp

definition claims_total :: "unified_trees \<Rightarrow> int" where
  "claims_total d = (\<Sum>t\<leftarrow>ut_merkle_trees d. \<Sum>n\<leftarrow>mt_tree_nodes t. tn_claim n)"

definition claims_count :: "unified_trees \<Rightarrow> nat" where
  "claims_count d = (\<Sum>t\<leftarrow>ut_merkle_trees d. length (mt_tree_nodes t))"

definition tree_consistent :: "merkle_tree \<Rightarrow> bool" where
  "tree_consistent t \<longleftrightarrow> (\<Sum>n\<leftarrow>mt_tree_nodes t. tn_claim n) = mt_max_total_claim_sum t
     \<and> mt_max_total_claims t = Fin (of_nat (length (mt_tree_nodes t)))"

text \<open>Amounts that a total of twenty digits can hold.\<close>

definition trees_bounded :: "unified_trees \<Rightarrow> bool" where
  "trees_bounded d \<longleftrightarrow> (\<forall>t\<in>set (ut_merkle_trees d). \<forall>n\<in>set (mt_tree_nodes t). 0 \<le> tn_claim n)
     \<and> claims_total d < 10 ^ 20 \<and> claims_count d < 2 ^ 53"

lemma n_eq_Fin [simp]: "n_eq (Fin a) b \<longleftrightarrow> b = Fin a"
  by (cases b) (auto simp: n_eq_def)

lemma tree_claims_nonneg: "\<forall>n\<in>set (mt_tree_nodes t). 0 \<le> tn_claim n \<Longrightarrow> 0 \<le> (\<Sum>n\<leftarrow>mt_tree_nodes t. tn_claim n)"
  by (intro sum_list_nonneg) auto

lemma node_sum_exact:
  assumes "decimal_ok dl" and "\<forall>n\<in>set (mt_tree_nodes t). 0 \<le> tn_claim n"
    and "(\<Sum>n\<leftarrow>mt_tree_nodes t. tn_claim n) < 10 ^ 20"
  shows "node_sum dl t = DNum (of_int (\<Sum>n\<leftarrow>mt_tree_nodes t. tn_claim n))"
  using fold_plus_exact [OF assms(1), where k = 0 and f = tn_claim and xs = "mt_tree_nodes t"
      and g = "\<lambda>n. dl_of_str dl (int_str (tn_claim n))"] assms
  by (simp add: node_sum_def decimal_okD(1) [OF assms(1)])

lemma sum_list_member_le:
  fixes f :: "'a \<Rightarrow> int"
  shows "\<forall>x\<in>set xs. 0 \<le> f x \<Longrightarrow> x \<in> set xs \<Longrightarrow> f x \<le> sum_list (map f xs)"
  by (rule member_le_sum_list) auto

lemma consistency_fold:
  assumes dl: "decimal_ok dl" and "\<forall>t\<in>set ts. \<forall>n\<in>set (mt_tree_nodes t). 0 \<le> tn_claim n"
    and "0 \<le> k" and "k + (\<Sum>t\<leftarrow>ts. \<Sum>n\<leftarrow>mt_tree_nodes t. tn_claim n) < 10 ^ 20"
  shows "\<exists>bad. fold (consistency_step dl) ts (DNum (of_int k), m, b)
    = (DNum (of_int (k + (\<Sum>t\<leftarrow>ts. \<Sum>n\<leftarrow>mt_tree_nodes t. tn_claim n))),
       m + (\<Sum>t\<leftarrow>ts. length (mt_tree_nodes t)), bad)
    \<and> b \<le> bad \<and> (bad = b \<longleftrightarrow> (\<forall>t\<in>set ts. tree_consistent t))"
  using assms(2-4)
proof (induction ts arbitrary: k m b)
  case (Cons t ts)
  let ?s = "\<lambda>t. \<Sum>n\<leftarrow>mt_tree_nodes t. tn_claim n"
  have "0 \<le> (\<Sum>t\<leftarrow>ts. ?s t)" and t: "0 \<le> ?s t"
    using Cons.prems(1) by (auto intro!: sum_list_nonneg tree_claims_nonneg)
  then have lt: "?s t < 10 ^ 20" "\<bar>k + ?s t\<bar> < 10 ^ 20" using Cons.prems(2,3) by simp_all
  have sum: "node_sum dl t = DNum (of_int (?s t))"
    using node_sum_exact [OF dl _ lt(1)] Cons.prems(1) by simp
  define b' where "b' = b + (if ?s t = mt_max_total_claim_sum t then 0 else 1)
    + (if mt_max_total_claims t = Fin (of_nat (length (mt_tree_nodes t))) then 0 else 1)"
  have step: "consistency_step dl t (DNum (of_int k), m, b)
      = (DNum (of_int (k + ?s t)), m + length (mt_tree_nodes t), b')"
    using decimal_okD(4) [OF dl lt(2)]
    by (simp add: consistency_step_def sum decimal_okD(1) [OF dl] d_eq_def b'_def)
  have le: "b \<le> b'" "b' = b \<longleftrightarrow> tree_consistent t" by (auto simp: b'_def tree_consistent_def)
  obtain bad where "fold (consistency_step dl) ts (DNum (of_int (k + ?s t)), m + length (mt_tree_nodes t), b')
      = (DNum (of_int (k + ?s t + (\<Sum>t\<leftarrow>ts. ?s t))),
         m + length (mt_tree_nodes t) + (\<Sum>t\<leftarrow>ts. length (mt_tree_nodes t)), bad)"
    "b' \<le> bad" "bad = b' \<longleftrightarrow> (\<forall>t\<in>set ts. tree_consistent t)"
    using Cons.IH [of "k + ?s t" "m + length (mt_tree_nodes t)" b'] Cons.prems t by (auto simp: add.assoc)
  then show ?case using le by (auto simp: step add.assoc)
qed simp

lemma check_consistency_exact:
  assumes "decimal_ok dl" and "trees_bounded d"
  shows "check_consistency dl d = Inr x \<longleftrightarrow>
    (\<forall>t\<in>set (ut_merkle_trees d). tree_consistent t) \<and> x = (DNum (of_int (claims_total d)), claims_count d)"
proof -
  obtain bad where "fold (consistency_step dl) (ut_merkle_trees d) (DNum 0, 0, 0)
      = (DNum (of_int (claims_total d)), claims_count d, bad)"
    "bad = 0 \<longleftrightarrow> (\<forall>t\<in>set (ut_merkle_trees d). tree_consistent t)"
    using consistency_fold [OF assms(1), of "ut_merkle_trees d" 0 0 0] assms(2)
    by (auto simp: trees_bounded_def claims_total_def claims_count_def)
  then show ?thesis by (auto simp: check_consistency_def guard_throw_def)
qed

section \<open>Settlement sources\<close>

definition parsed_sources :: "check_env \<Rightarrow> (string \<times> string) list \<Rightarrow> settlements list \<Rightarrow> bool" where
  "parsed_sources ce files sss \<longleftrightarrow> list_all2 (\<lambda>(data, path) ss.
     parseSettlements (ce_json_parse ce) (ce_lossless ce) (ce_validate_settlements ce) data (Some path) = Inr ss)
     (filter (\<lambda>(data, path). data \<noteq> []) files) sss"

definition source_total :: "settlements \<Rightarrow> int" where
  "source_total ss = (\<Sum>s\<leftarrow>ss_settlements ss. \<Sum>c\<leftarrow>se_claims s. sc_claim_amount c)"

definition source_bounded :: "settlements \<Rightarrow> bool" where
  "source_bounded ss \<longleftrightarrow> (\<forall>s\<in>set (ss_settlements ss). \<forall>c\<in>set (se_claims s). 0 \<le> sc_claim_amount c)"

lemma source_step_Inr:
  "source_step dl ce e k (data, path) = Inr y \<longleftrightarrow> (if data = [] then y = k
    else \<exists>ss. parseSettlements (ce_json_parse ce) (ce_lossless ce) (ce_validate_settlements ce) data (Some path) = Inr ss
      \<and> n_eq (ss_epoch ss) e \<and> y = dl_plus dl k (source_sum dl ss))"
  by (auto simp: source_step_def rbind_eq_Inr guard_throw_def)

lemma source_steps:
  "rfoldM (source_step dl ce e) k files = Inr x \<longleftrightarrow>
    (\<exists>sss. parsed_sources ce files sss \<and> (\<forall>ss\<in>set sss. n_eq (ss_epoch ss) e)
      \<and> x = fold (\<lambda>ss s. dl_plus dl s (source_sum dl ss)) sss k)"
proof (induction files arbitrary: k)
  case (Cons f files)
  obtain data path where f: "f = (data, path)" by (cases f)
  show ?case
  proof (cases "data = []")
    case True
    then show ?thesis using Cons by (simp add: f rbind_eq_Inr source_step_Inr parsed_sources_def)
  next
    case False
    then have "parsed_sources ce (f # files) sss \<longleftrightarrow> (\<exists>ss zs. sss = ss # zs \<and> parsed_sources ce files zs
        \<and> parseSettlements (ce_json_parse ce) (ce_lossless ce) (ce_validate_settlements ce) data (Some path) = Inr ss)"
      for sss
      by (auto simp: f parsed_sources_def list_all2_Cons1)
    note cons = this
    show ?thesis (is "?l = ?r")
    proof
      assume ?l
      then obtain ss zs where *: "n_eq (ss_epoch ss) e" "parsed_sources ce files zs" "\<forall>ss\<in>set zs. n_eq (ss_epoch ss) e"
        "parseSettlements (ce_json_parse ce) (ce_lossless ce) (ce_validate_settlements ce) data (Some path) = Inr ss"
        "x = fold (\<lambda>ss s. dl_plus dl s (source_sum dl ss)) zs (dl_plus dl k (source_sum dl ss))"
        using False by (auto simp: f rbind_eq_Inr source_step_Inr Cons)
      then show ?r unfolding cons by (intro exI [of _ "ss # zs"]) auto
    next
      assume ?r
      then show ?l using False unfolding cons by (auto simp: f rbind_eq_Inr source_step_Inr Cons)
    qed
  qed
qed (auto simp: parsed_sources_def)

lemma source_total_nonneg: "source_bounded ss \<Longrightarrow> 0 \<le> source_total ss"
  unfolding source_total_def source_bounded_def by (auto intro!: sum_list_nonneg)

lemma source_sum_exact:
  assumes dl: "decimal_ok dl" and "source_bounded ss" and "source_total ss < 10 ^ 20"
  shows "source_sum dl ss = DNum (of_int (source_total ss))"
proof -
  let ?c = "\<lambda>s. \<Sum>c\<leftarrow>se_claims s. sc_claim_amount c"
  have nonneg: "\<forall>s\<in>set (ss_settlements ss). 0 \<le> ?c s"
    using assms(2) by (auto simp: source_bounded_def intro!: sum_list_nonneg)
  have "\<forall>s\<in>set (ss_settlements ss). fold (\<lambda>c sum. dl_plus dl sum (dl_of_str dl (int_str (sc_claim_amount c))))
      (se_claims s) DECIMAL_ZERO = DNum (of_int (?c s)) \<and> 0 \<le> ?c s"
  proof
    fix s assume s: "s \<in> set (ss_settlements ss)"
    have "?c s \<le> source_total ss" unfolding source_total_def by (rule sum_list_member_le [OF nonneg s])
    then have lt: "?c s < 10 ^ 20" using assms(3) by simp
    have "\<forall>c\<in>set (se_claims s). 0 \<le> sc_claim_amount c" using assms(2) s by (simp add: source_bounded_def)
    then show "fold (\<lambda>c sum. dl_plus dl sum (dl_of_str dl (int_str (sc_claim_amount c))))
      (se_claims s) DECIMAL_ZERO = DNum (of_int (?c s)) \<and> 0 \<le> ?c s"
      using fold_plus_exact [OF dl, where k = 0 and f = sc_claim_amount and xs = "se_claims s"
          and g = "\<lambda>c. dl_of_str dl (int_str (sc_claim_amount c))"] nonneg s lt
      by (simp add: decimal_okD(1) [OF dl])
  qed
  from fold_plus_exact [OF dl this, of 0] show ?thesis
    using assms(3) by (simp add: source_sum_def source_total_def)
qed

lemma sources_sum_exact:
  assumes dl: "decimal_ok dl" and "\<forall>ss\<in>set sss. source_bounded ss" and "sum_list (map source_total sss) < 10 ^ 20"
  shows "fold (\<lambda>ss s. dl_plus dl s (source_sum dl ss)) sss DECIMAL_ZERO = DNum (of_int (sum_list (map source_total sss)))"
proof -
  have nonneg: "\<forall>ss\<in>set sss. 0 \<le> source_total ss" using assms(2) source_total_nonneg by blast
  have "\<forall>ss\<in>set sss. source_sum dl ss = DNum (of_int (source_total ss)) \<and> 0 \<le> source_total ss"
  proof
    fix ss assume ss: "ss \<in> set sss"
    have "source_total ss < 10 ^ 20" using sum_list_member_le [OF nonneg ss] assms(3) by simp
    then show "source_sum dl ss = DNum (of_int (source_total ss)) \<and> 0 \<le> source_total ss"
      using source_sum_exact [OF dl] assms(2) ss nonneg by blast
  qed
  from fold_plus_exact [OF dl this, of 0] show ?thesis using assms(3) by simp
qed

definition source_files :: "check_env \<Rightarrow> check_args \<Rightarrow> (string \<times> string) list res" where
  "source_files ce a = rconcatM (\<lambda>path. rbind (ce_loadFileOrDirectory ce path) (\<lambda>xs. Inr (map (\<lambda>x. (x, path)) xs)))
     (orElse (ck_settlementSources a) [])"

text \<open>The sources agree with the trees: the files that are not empty can be read, belong to the
  epoch of the trees, and pay the same total.\<close>

definition sources_agree :: "check_env \<Rightarrow> check_args \<Rightarrow> unified_trees \<Rightarrow> bool" where
  "sources_agree ce a d \<longleftrightarrow> orElse (ck_settlementSources a) [] = [] \<or>
     (\<exists>files sss. source_files ce a = Inr files \<and> parsed_sources ce files sss
       \<and> (\<forall>ss\<in>set sss. n_eq (ss_epoch ss) (ut_epoch d))
       \<and> claims_total d = sum_list (map source_total sss))"

definition sources_bounded :: "check_env \<Rightarrow> check_args \<Rightarrow> bool" where
  "sources_bounded ce a \<longleftrightarrow> (\<forall>files sss. source_files ce a = Inr files \<longrightarrow> parsed_sources ce files sss \<longrightarrow>
     (\<forall>ss\<in>set sss. source_bounded ss) \<and> sum_list (map source_total sss) < 10 ^ 20)"

lemma check_sources_exact:
  assumes dl: "decimal_ok dl" and bounded: "sources_bounded ce a"
  shows "check_sources dl ce a d (DNum (of_int (claims_total d))) = Inr () \<longleftrightarrow> sources_agree ce a d"
proof (cases "orElse (ck_settlementSources a) [] = []")
  case True
  then show ?thesis
    by (cases "ck_settlementSources a") (simp_all add: check_sources_def sources_agree_def)
next
  case False
  then obtain paths where paths: "ck_settlementSources a = Some paths" "paths \<noteq> []"
    by (cases "ck_settlementSources a") auto
  have steps: "rfoldM (source_step dl ce e) DECIMAL_ZERO files = Inr x \<longleftrightarrow>
      (\<exists>sss. parsed_sources ce files sss \<and> (\<forall>ss\<in>set sss. n_eq (ss_epoch ss) e)
        \<and> x = DNum (of_int (sum_list (map source_total sss))))" if "source_files ce a = Inr files" for e x files
    unfolding source_steps using sources_sum_exact [OF dl] bounded that unfolding sources_bounded_def by metis
  have "check_sources dl ce a d (DNum (of_int (claims_total d))) = Inr () \<longleftrightarrow>
      (\<exists>files x. source_files ce a = Inr files \<and> rfoldM (source_step dl ce (ut_epoch d)) DECIMAL_ZERO files = Inr x
        \<and> x = DNum (of_int (claims_total d)))"
    using paths by (auto simp: check_sources_def source_files_def rbind_eq_Inr d_eq_def guard_throw_def)
  also have "\<dots> \<longleftrightarrow> sources_agree ce a d"
    using False steps by (auto simp: sources_agree_def)
  finally show ?thesis .
qed

text \<open>
  C22: what the check accepts, in exact integers. When no amount is negative and the totals
  have at most twenty digits, the check passes exactly when its thresholds are valid, every
  tree states the sum and the number of its claims, there is a tree, the claims do not exceed
  the ceiling, the sources that are given pay the same total for the same epoch, and the
  comparison with the past passes. The sums of the code go through \<open>Decimal\<close> with rounding;
  none takes place.
\<close>

theorem check_accepts_iff:
  assumes "decimal_ok dl" and "loadAndValidateUnifiedMerkleTree ce (ck_merkleTrees a) = Inr d"
    and "trees_bounded d"
    and "sources_bounded ce a"
  shows "manageCheckMerkleTree dl ce a = Inr () \<longleftrightarrow>
    check_thresholds dl a = Inr () \<and> (\<forall>t\<in>set (ut_merkle_trees d). tree_consistent t) \<and> ut_merkle_trees d \<noteq> []
    \<and> \<not> d_lt (ck_maxTotalClaims a) (DNum (of_nat (claims_count d)))
    \<and> sources_agree ce a d \<and> check_history dl ce a d = Inr ()"
proof -
  have "dl_of_num dl (Fin (of_nat (claims_count d))) = DNum (of_nat (claims_count d))"
    using assms(3) by (intro decimal_okD(2) [OF assms(1)]) (simp add: trees_bounded_def)
  then show ?thesis
    using check_sources_exact [OF assms(1,4), where d = d]
    by (auto simp: manageCheckMerkleTree_def rbind_eq_Inr assms(2) check_consistency_exact [OF assms(1,3)]
        guard_throw_def checkTotalClaimsCeiling_def Let_def)
qed


text \<open>The instance: exact decimals that print as a fraction, and one tree of two claims.\<close>

definition demo_dec_str :: "decimal \<Rightarrow> string" where
  "demo_dec_str x = (case x of DNum r \<Rightarrow> (case quotient_of r of (p, q) \<Rightarrow>
       if q = 1 then int_str p else int_str p @ CHR ''/'' # int_str q)
     | DInf \<Rightarrow> ''Infinity'' | DNegInf \<Rightarrow> ''-Infinity'' | DNaN \<Rightarrow> ''NaN'')"

definition demo_dec_read :: "string \<Rightarrow> decimal" where
  "demo_dec_read s = (if s = ''Infinity'' then DInf else if s = ''-Infinity'' then DNegInf else if s = ''NaN'' then DNaN
     else case map bigint_of_str (split_on (CHR ''/'') s) of
         [Inr p] \<Rightarrow> DNum (of_int p) | [Inr p, Inr q] \<Rightarrow> DNum (of_int p / of_int q) | _ \<Rightarrow> DNaN)"

definition demo_dec_op :: "(rat \<Rightarrow> rat \<Rightarrow> rat) \<Rightarrow> decimal \<Rightarrow> decimal \<Rightarrow> decimal" where
  "demo_dec_op f x y = (case (x, y) of (DNum a, DNum b) \<Rightarrow> DNum (f a b) | _ \<Rightarrow> DNaN)"

definition demo_dl :: dec_lib where
  "demo_dl = \<lparr> dl_of_str = demo_dec_read, dl_of_num = (\<lambda>x. case x of Fin r \<Rightarrow> DNum r | PInf \<Rightarrow> DInf | NInf \<Rightarrow> DNegInf | NaN \<Rightarrow> DNaN),
     dl_str = demo_dec_str, dl_fixed = (\<lambda>n x. demo_dec_str x), dl_plus = demo_dec_op (+), dl_sub = demo_dec_op (-),
     dl_mul = demo_dec_op (*), dl_div = demo_dec_op (/),
     dl_round_down = (\<lambda>x. case x of DNum r \<Rightarrow> DNum (of_int (if 0 \<le> r then \<lfloor>r\<rfloor> else \<lceil>r\<rceil>)) | _ \<Rightarrow> x),
     dl_places = (\<lambda>n x. x) \<rparr>"

lemma int_str_no_slash: "CHR ''/'' \<notin> set (int_str i)"
  using digits_no_char [of _ "CHR ''/''"] by (auto simp: int_str_def is_digit_def)

lemma int_str_not_special:
  "int_str i @ t \<noteq> ''Infinity''" "int_str i @ t \<noteq> ''-Infinity''" "int_str i @ t \<noteq> ''NaN''"
proof -
  obtain c u where n: "nat_str (nat \<bar>i\<bar>) = c # u" "is_digit c"
    using nat_str_digits [of "nat \<bar>i\<bar>"] nat_str_not_Nil [of "nat \<bar>i\<bar>"] by (cases "nat_str (nat \<bar>i\<bar>)") auto
  then show "int_str i @ t \<noteq> ''Infinity''" "int_str i @ t \<noteq> ''-Infinity''" "int_str i @ t \<noteq> ''NaN''"
    by (auto simp: int_str_def is_digit_def split: if_splits)
qed

lemma demo_read_int: "demo_dec_read (int_str i) = DNum (of_int i)"
  using int_str_not_special [of i "[]"] by (simp add: demo_dec_read_def split_on_none [OF int_str_no_slash])

lemma demo_read_str: "demo_dec_read (demo_dec_str x) = x"
proof (cases x)
  case (DNum r)
  obtain p q where pq: "quotient_of r = (p, q)" by (cases "quotient_of r")
  then have r: "r = of_int p / of_int q" by (rule quotient_of_div)
  show ?thesis
  proof (cases "q = 1")
    case True
    then show ?thesis using pq r by (simp add: DNum demo_dec_str_def demo_read_int)
  next
    case False
    then show ?thesis using pq r
      by (simp add: DNum demo_dec_str_def demo_dec_read_def int_str_not_special
          split_on_first [OF int_str_no_slash] split_on_none [OF int_str_no_slash])
  qed
qed (simp_all add: demo_dec_str_def demo_dec_read_def)

lemma demo_decimal_ok: "decimal_ok demo_dl"
  unfolding decimal_ok_def by (auto simp: demo_dl_def demo_read_int demo_read_str demo_dec_op_def)

definition demo_node :: "int \<Rightarrow> tree_node" where
  "demo_node c = \<lparr> tn_stake_authority = [], tn_withdraw_authority = [], tn_claim = c, tn_index = Fin 0, tn_proof = [] \<rparr>"

definition demo_tree :: "int list \<Rightarrow> merkle_tree" where
  "demo_tree cs = \<lparr> mt_merkle_root = [], mt_max_total_claim_sum = sum_list cs,
     mt_max_total_claims = Fin (of_nat (length cs)), mt_vote_account = [], mt_bond_account = [],
     mt_settlement_account = [], mt_funding_sources = None, mt_tree_nodes = map demo_node cs \<rparr>"

definition demo_trees :: "nat \<Rightarrow> int list \<Rightarrow> unified_trees" where
  "demo_trees e cs = \<lparr> ut_epoch = Fin (of_nat e), ut_slot = 0, ut_validator_bonds_config = [],
     ut_merkle_trees = [demo_tree cs], ut_sources = None \<rparr>"

definition demo_settlements :: settlements where
  "demo_settlements = \<lparr> ss_slot = 0, ss_epoch = Fin 5, ss_settlements =
     [\<lparr> se_reason = reason_transform (JStr ''Bidding''), se_funder = ValidatorBond, se_vote_account = [],
        se_claims_count = Fin 1, se_claims_amount = 7, se_claims =
          [\<lparr> sc_withdraw_authority = [], sc_stake_authority = [], sc_claim_amount = 7, sc_kind = Marker,
             sc_payout = None \<rparr>] \<rparr>] \<rparr>"

definition demo_stats :: stats_lib where
  "demo_stats = \<lparr> st_describe = (\<lambda>xs. \<lparr> ds_mean = DNum 10, ds_min = DNum 10, ds_max = DNum 10 \<rparr>),
     st_detect = (\<lambda>x xs f c s. \<lparr> ar_isAnomaly = n_lt (Fin 10) x, ar_field = f, ar_currentValue = num_str x, ar_score = [] \<rparr>),
     st_yaml_stats = (\<lambda>s. []), st_yaml_details = (\<lambda>s. []) \<rparr>"

definition demo_env :: check_env where
  "demo_env = \<lparr> ce_read = (\<lambda>p. Inr (JStr p)), ce_validate = (\<lambda>v. case v of
       JStr p \<Rightarrow> Inr (demo_trees (length p) [3, 4]) | _ \<Rightarrow> throw EError []),
     ce_loadFileOrDirectory = (\<lambda>p. Inr [''json'', '''']), ce_json_parse = (\<lambda>s. None),
     ce_lossless = (\<lambda>s. Inr JNull), ce_validate_settlements = (\<lambda>v. Inr demo_settlements),
     ce_resolveFilePaths = (\<lambda>p. Inr [p]), ce_b58 = (\<lambda>k. []), ce_stats = demo_stats \<rparr>"

definition demo_thresholds :: thresholds where
  "demo_thresholds = \<lparr> th_correlation = DNum (15 / 100), th_score = DNum 2, th_minDeviation = DNum (5 / 100) \<rparr>"

definition demo_check :: check_args where
  "demo_check = \<lparr> ck_merkleTrees = ''trees'', ck_settlementSources = Some [''bids''], ck_pastMerkleTrees = None,
     ck_thresholds = demo_thresholds, ck_epochHopThreshold = DNum (3 / 2), ck_maxTotalClaims = DNum 150000 \<rparr>"

lemma demo_load: "loadAndValidateUnifiedMerkleTree demo_env p = Inr (demo_trees (length p) [3, 4])"
  by (simp add: loadAndValidateUnifiedMerkleTree_def wrap_error_def demo_env_def)

lemma demo_files: "source_files demo_env demo_check = Inr [(''json'', ''bids''), ('''', ''bids'')]"
  by (simp add: source_files_def demo_env_def demo_check_def rconcatM_def)

lemma demo_parsed: "parsed_sources demo_env [(''json'', ''bids''), ('''', ''bids'')] sss \<longleftrightarrow> sss = [demo_settlements]"
  by (auto simp: parsed_sources_def parseSettlements_def assertNotLegacyFormat_def wrap_error_def demo_env_def list_all2_Cons1)

lemma demo_source_total: "source_total demo_settlements = 7 \<and> source_bounded demo_settlements"
  by (simp add: source_total_def source_bounded_def demo_settlements_def)

theorem check_accepts_iff_witness: "manageCheckMerkleTree demo_dl demo_env demo_check = Inr ()"
proof -
  have load: "loadAndValidateUnifiedMerkleTree demo_env (ck_merkleTrees demo_check) = Inr (demo_trees 5 [3, 4])"
    by (simp add: demo_load demo_check_def eval_nat_numeral)
  have bounded: "sources_bounded demo_env demo_check"
    by (auto simp: sources_bounded_def demo_files demo_parsed demo_source_total)
  have trees: "trees_bounded (demo_trees 5 [3, 4])"
    by (simp add: trees_bounded_def claims_total_def claims_count_def demo_trees_def demo_tree_def demo_node_def)
  have "sources_agree demo_env demo_check (demo_trees 5 [3, 4])"
    by (simp add: sources_agree_def demo_files demo_parsed demo_source_total)
      (simp add: claims_total_def demo_trees_def demo_tree_def demo_node_def demo_settlements_def)
  moreover have "check_thresholds demo_dl demo_check = Inr ()"
    by (simp add: check_thresholds_def demo_check_def demo_thresholds_def guard_throw_def
        validateMaxTotalClaims_def d_isFinite_def d_isInteger_def is_integral_def)
  moreover have "check_history demo_dl demo_env demo_check (demo_trees 5 [3, 4]) = Inr ()"
    by (simp add: check_history_def demo_check_def)
  ultimately show ?thesis
    by (simp add: check_accepts_iff [OF demo_decimal_ok load trees bounded])
      (simp add: demo_trees_def demo_tree_def tree_consistent_def demo_node_def claims_count_def demo_check_def)
qed


section \<open>The past files\<close>

lemma insert_metrics_sorted:
  assumes "\<forall>q\<in>set (p # xs). me_epoch (M q) = Fin (of_nat (E q)) \<and> E q < 2 ^ 53" and "sorted (map E xs)"
  shows "\<exists>ys. insert_metrics (M p) (map M xs) = map M ys \<and> mset ys = add_mset p (mset xs) \<and> sorted (map E ys)"
  using assms
proof (induction xs)
  case Nil
  then show ?case by (intro exI [of _ "[p]"]) simp
next
  case (Cons x xs)
  have "\<bar>int (E p) - int (E x)\<bar> < 2 ^ 53" using Cons.prems(1) by auto
  from dbl_of_int [OF this] have "n_lt (n_sub (me_epoch (M p)) (me_epoch (M x))) (Fin 0) \<longleftrightarrow> E p < E x"
    using Cons.prems(1) by (simp add: n_sub_def)
  then show ?case
  proof (cases "E p < E x")
    case True
    then show ?thesis using Cons.prems \<open>_ \<longleftrightarrow> E p < E x\<close>
      by (intro exI [of _ "p # x # xs"]) fastforce
  next
    case False
    obtain ys where ys: "insert_metrics (M p) (map M xs) = map M ys" "mset ys = add_mset p (mset xs)" "sorted (map E ys)"
      using Cons by fastforce
    have "set ys = insert p (set xs)" using ys(2) by (metis set_mset_add_mset_insert set_mset_mset)
    then show ?thesis using False Cons.prems ys \<open>_ \<longleftrightarrow> E p < E x\<close>
      by (intro exI [of _ "x # ys"]) auto
  qed
qed

lemma sort_metrics_sorted:
  assumes "\<forall>q\<in>set ps. me_epoch (M q) = Fin (of_nat (E q)) \<and> E q < 2 ^ 53"
  shows "\<exists>ys. sort_metrics (map M ps) = map M ys \<and> mset ys = mset ps \<and> sorted (map E ys)"
proof -
  have "\<exists>ys. fold insert_metrics (map M ps) (map M xs) = map M ys \<and> mset ys = mset ps + mset xs \<and> sorted (map E ys)"
    if "\<forall>q\<in>set (ps @ xs). me_epoch (M q) = Fin (of_nat (E q)) \<and> E q < 2 ^ 53" "sorted (map E xs)" for xs
    using that
  proof (induction ps arbitrary: xs)
    case (Cons p ps)
    obtain zs where zs: "insert_metrics (M p) (map M xs) = map M zs" "mset zs = add_mset p (mset xs)" "sorted (map E zs)"
      using insert_metrics_sorted [of p xs M E] Cons.prems by auto
    then have "set zs = insert p (set xs)" by (metis set_mset_add_mset_insert set_mset_mset)
    then show ?case using Cons.IH [of zs] Cons.prems zs by auto
  qed auto
  from this [of "[]"] show ?thesis using assms by (simp add: sort_metrics_def)
qed

lemma sort_metrics_perm:
  assumes "\<forall>q\<in>set ps. me_epoch (M q) = Fin (of_nat (E q)) \<and> E q < 2 ^ 53"
    and "distinct (map E ps)" and "mset qs = mset ps"
  shows "sort_metrics (map M qs) = sort_metrics (map M ps)"
proof -
  have "set qs = set ps" using assms(3) by (rule mset_eq_setD)
  then obtain ys zs where ys: "sort_metrics (map M ps) = map M ys" "mset ys = mset ps" "sorted (map E ys)"
    and zs: "sort_metrics (map M qs) = map M zs" "mset zs = mset ps" "sorted (map E zs)"
    using sort_metrics_sorted [of ps M E] sort_metrics_sorted [of qs M E] assms by metis
  have "mset (map E ys) = mset (map E zs)" using ys(2) zs(2) by simp
  then have "map E ys = map E zs" using ys(3) zs(3) by (metis properties_for_sort)
  moreover have "set ys = set ps" "set zs = set ps" using ys(2) zs(2) by (metis mset_eq_setD)+
  moreover have "inj_on E (set ps)" using assms(2) by (simp add: distinct_map)
  ultimately have "ys = zs" using inj_on_map_eq_map [of E ys zs] by simp
  then show ?thesis using ys zs by simp
qed

lemma past_steps:
  assumes "\<forall>p\<in>set ps. loadAndValidateUnifiedMerkleTree ce p = Inr (D p)"
  shows "rfoldM (past_step dl ce e) (hs, prev) ps = Inr (hs @ map (\<lambda>p. extractMetrics dl (D p)) ps,
    fold (\<lambda>p prev. if n_eq (ut_epoch (D p)) (n_sub e (Fin 1)) then Some (extractMetrics dl (D p)) else prev) ps prev)"
  using assms by (induction ps arbitrary: hs prev) (simp_all add: past_step_def Let_def)

lemma fold_last_match:
  assumes "distinct (filter P ps)" and "length (filter P ps) \<le> 1"
  shows "fold (\<lambda>p prev. if P p then Some (f p) else prev) ps prev =
    (case filter P ps of [] \<Rightarrow> prev | p # _ \<Rightarrow> Some (f p))"
  using assms by (induction ps arbitrary: prev) (auto split: list.split)

lemma single_match:
  assumes "distinct (map E ps)" and "\<And>p q. p \<in> set ps \<Longrightarrow> q \<in> set ps \<Longrightarrow> P p \<Longrightarrow> P q \<Longrightarrow> E p = E q"
  shows "length (filter P ps) \<le> 1"
proof (rule ccontr)
  assume "\<not> length (filter P ps) \<le> 1"
  then obtain x y zs where xy: "filter P ps = x # y # zs"
    by (cases "filter P ps"; cases "tl (filter P ps)") auto
  then have "{x, y} \<subseteq> set (filter P ps)" by simp
  then have "x \<in> set ps" "y \<in> set ps" "P x" "P y" by simp_all
  moreover have "distinct (map E (x # y # zs))" using assms(1) xy by (metis distinct_map_filter)
  ultimately show False using assms(2) [of x y] by simp
qed

text \<open>
  C23: the comparison with the past does not depend on the order of the past files: when the
  files that the paths resolve to are the same, can be read and have different epochs, the
  check has the same outcome, error messages included.
\<close>

theorem history_order_irrelevant:
  assumes "rconcatM (ce_resolveFilePaths ce) paths = Inr ps" and "rconcatM (ce_resolveFilePaths ce) paths' = Inr qs"
    and "mset qs = mset ps" and "paths \<noteq> []" and "paths' \<noteq> []"
    and "\<forall>p\<in>set ps. loadAndValidateUnifiedMerkleTree ce p = Inr (D p)
      \<and> ut_epoch (D p) = Fin (of_nat (E p)) \<and> E p < 2 ^ 53"
    and "distinct (map E ps)"
  shows "check_history dl ce (a \<lparr> ck_pastMerkleTrees := Some paths' \<rparr>) d
    = check_history dl ce (a \<lparr> ck_pastMerkleTrees := Some paths \<rparr>) d"
proof -
  let ?M = "\<lambda>p. extractMetrics dl (D p)"
  let ?P = "\<lambda>p. n_eq (ut_epoch (D p)) (n_sub (ut_epoch d) (Fin 1))"
  have set: "set qs = set ps" using assms(3) by (rule mset_eq_setD)
  have "\<forall>q\<in>set ps. me_epoch (?M q) = Fin (of_nat (E q)) \<and> E q < 2 ^ 53"
    using assms(6) by (simp add: extractMetrics_def Let_def)
  from sort_metrics_perm [OF this assms(7,3)] have sort: "sort_metrics (map ?M qs) = sort_metrics (map ?M ps)" .
  have single: "length (filter ?P ps) \<le> 1"
    by (rule single_match [OF assms(7)]) (use assms(6) in auto)
  have "mset (filter ?P qs) = mset (filter ?P ps)" using assms(3) by (simp add: mset_filter)
  then have same: "filter ?P qs = filter ?P ps"
    using single by (cases "filter ?P ps"; cases "filter ?P qs") (auto dest: mset_eq_length)
  have "distinct ps" using assms(7) by (simp add: distinct_map)
  then have "distinct (filter ?P ps)" by simp
  note prev = fold_last_match [of ?P _ ?M None, OF this [folded same]] fold_last_match [of ?P _ ?M None, OF this]
  have "fold (\<lambda>p prev. if ?P p then Some (?M p) else prev) qs None = fold (\<lambda>p prev. if ?P p then Some (?M p) else prev) ps None"
    using prev single same by simp
  moreover have "length qs = length ps" using assms(3) by (rule mset_eq_length)
  moreover have "check_hop dl (a \<lparr> ck_pastMerkleTrees := x \<rparr>) m p = check_hop dl a m p" for x m p
    by (cases p) (simp_all add: check_hop_def)
  ultimately show ?thesis
    using assms(1,2,4,5) past_steps [of ps ce D dl "ut_epoch d" "[]" None] past_steps [of qs ce D dl "ut_epoch d" "[]" None]
      assms(6) set sort
    by (simp add: check_history_def Let_def)
qed

theorem history_order_irrelevant_witness:
  "check_history demo_dl demo_env (demo_check \<lparr> ck_pastMerkleTrees := Some [''aaa'', ''b'', ''cc''] \<rparr>) (demo_trees 4 [3, 4])
    = check_history demo_dl demo_env (demo_check \<lparr> ck_pastMerkleTrees := Some [''b'', ''cc'', ''aaa''] \<rparr>) (demo_trees 4 [3, 4])"
proof -
  have "rconcatM (ce_resolveFilePaths demo_env) [''b'', ''cc'', ''aaa''] = Inr [''b'', ''cc'', ''aaa'']"
    "rconcatM (ce_resolveFilePaths demo_env) [''aaa'', ''b'', ''cc''] = Inr [''aaa'', ''b'', ''cc'']"
    by (simp_all add: rconcatM_def demo_env_def)
  then show ?thesis
    by (rule history_order_irrelevant [where D = "\<lambda>p. demo_trees (length p) [3, 4]" and E = length])
      (simp_all add: demo_load, simp_all add: demo_trees_def)
qed


section \<open>The hop guardrail\<close>

definition hop_value :: "metrics \<Rightarrow> metric_field \<Rightarrow> decimal" where
  "hop_value m f = (if f = TotalClaimAmount then DNum (of_int (me_totalClaimAmount m))
     else me_avgClaimAmountPerValidator m)"

lemma field_value:
  assumes "decimal_ok dl" and "f \<in> set HOP_GUARDED_FIELDS"
  shows "dl_of_str dl (field_str dl m f) = hop_value m f"
  using assms(2) by (auto simp: HOP_GUARDED_FIELDS_def field_str_def hop_value_def decimal_okD(1,3) [OF assms(1)])

definition hops :: "dec_lib \<Rightarrow> decimal \<Rightarrow> decimal \<Rightarrow> decimal \<Rightarrow> bool" where
  "hops dl h x y \<longleftrightarrow> d_isZero x \<noteq> d_isZero y
     \<or> \<not> d_isZero x \<and> \<not> d_isZero y \<and> (d_lt h (dl_div dl x y) \<or> d_lt h (dl_div dl y x))"

lemma hop_violations:
  assumes "decimal_ok dl"
  shows "map (\<lambda>v. (hv_field v, hv_currentValue v, hv_previousValue v)) (fst (checkEpochHopGuardrail dl m p h))
    = map (\<lambda>f. (f, hop_value m f, hop_value p f)) (filter (\<lambda>f. hops dl h (hop_value m f) (hop_value p f)) HOP_GUARDED_FIELDS)"
proof -
  have "map (\<lambda>v. (hv_field v, hv_currentValue v, hv_previousValue v)) (fst (hop_field dl m p h f))
      = (if hops dl h (hop_value m f) (hop_value p f) then [(f, hop_value m f, hop_value p f)] else [])"
    if "f \<in> set HOP_GUARDED_FIELDS" for f
    using field_value [OF assms that] by (auto simp: hop_field_def Let_def hops_def)
  then show ?thesis
    by (simp add: checkEpochHopGuardrail_def Let_def HOP_GUARDED_FIELDS_def)
qed

lemma hop_fields:
  assumes "decimal_ok dl"
  shows "map hv_field (fst (checkEpochHopGuardrail dl m p h))
    = filter (\<lambda>f. hops dl h (hop_value m f) (hop_value p f)) HOP_GUARDED_FIELDS"
  using arg_cong [OF hop_violations [OF assms, of m p h], of "map fst"] by (simp add: comp_def)

text \<open>A quotient above the threshold by a number of twenty digits is seen, whatever is rounded.\<close>

lemma hops_complete:
  assumes dl: "decimal_ok dl" and u: "digits20 u" "t < u" and pos: "0 < a" "0 < b"
    and hop: "u * b \<le> a \<or> u * a \<le> b"
  shows "hops dl (DNum t) (DNum a) (DNum b)"
proof -
  have seen: "d_lt (DNum t) (dl_div dl (DNum c) (DNum e))" if "u * e \<le> c" "0 < e" for c e
  proof -
    have "u \<le> c / e" "e \<noteq> 0" using that by (simp_all add: pos_le_divide_eq)
    from decimal_okD(6) [OF dl this(2) u(1) this(1)] show ?thesis using u(2) by auto
  qed
  show ?thesis using hop seen [of b a] seen [of a b] pos by (auto simp: hops_def d_isZero_def)
qed

text \<open>
  C24: the hop guardrail, exactly. Of the guarded fields, in their order, it reports those
  for which one of the two epochs is zero and the other is not, and those that are zero in
  neither and whose ratio or inverse ratio, as decimal.js computes it, is greater than the
  threshold. So a rise and a fall are treated alike: the same metrics are reported when the two
  epochs change places. In exact arithmetic, with a threshold of at most twenty digits, every
  report is a real hop, by more than the threshold up or down, and every hop by at least a
  number of twenty digits above the threshold is reported, whatever the division rounds. With
  NaN for a threshold, which the command accepts, only hops from or to zero are reported.
\<close>

theorem hop_guardrail:
  assumes "decimal_ok dl" and "digits20 t" and "1 \<le> t"
    and "me_avgClaimAmountPerValidator m = DNum x" and "me_avgClaimAmountPerValidator p = DNum y"
    and "0 \<le> x" and "0 \<le> y" and "0 \<le> me_totalClaimAmount m" and "0 \<le> me_totalClaimAmount p"
  shows "map hv_field (fst (checkEpochHopGuardrail dl m p h))
       = filter (\<lambda>f. let a = hop_value m f; b = hop_value p f in d_isZero a \<noteq> d_isZero b
           \<or> \<not> d_isZero a \<and> \<not> d_isZero b \<and> (d_lt h (dl_div dl a b) \<or> d_lt h (dl_div dl b a)))
         [TotalClaimAmount, AvgClaimAmountPerValidator]
    \<and> map hv_field (fst (checkEpochHopGuardrail dl m p h)) = map hv_field (fst (checkEpochHopGuardrail dl p m h))
    \<and> (\<forall>v\<in>set (fst (checkEpochHopGuardrail dl m p (DNum t))). \<exists>a b.
         hv_currentValue v = DNum a \<and> hv_previousValue v = DNum b \<and> (t * b < a \<or> t * a < b))
    \<and> (\<forall>u f a b. digits20 u \<and> t < u \<and> f \<in> {TotalClaimAmount, AvgClaimAmountPerValidator}
         \<and> hop_value m f = DNum a \<and> hop_value p f = DNum b \<and> 0 < a \<and> 0 < b \<and> (u * b \<le> a \<or> u * a \<le> b) \<longrightarrow>
         f \<in> hv_field ` set (fst (checkEpochHopGuardrail dl m p (DNum t))))
    \<and> map hv_field (fst (checkEpochHopGuardrail dl m p DNaN))
       = filter (\<lambda>f. d_isZero (hop_value m f) \<noteq> d_isZero (hop_value p f)) HOP_GUARDED_FIELDS"
proof (intro conjI)
  have sym: "hops dl h a b = hops dl h b a" for a b by (auto simp: hops_def)
  show "map hv_field (fst (checkEpochHopGuardrail dl m p h))
       = filter (\<lambda>f. let a = hop_value m f; b = hop_value p f in d_isZero a \<noteq> d_isZero b
           \<or> \<not> d_isZero a \<and> \<not> d_isZero b \<and> (d_lt h (dl_div dl a b) \<or> d_lt h (dl_div dl b a)))
         [TotalClaimAmount, AvgClaimAmountPerValidator]"
    unfolding hop_fields [OF assms(1)] HOP_GUARDED_FIELDS_def hops_def Let_def by (rule refl)
  show "map hv_field (fst (checkEpochHopGuardrail dl m p h)) = map hv_field (fst (checkEpochHopGuardrail dl p m h))"
    unfolding hop_fields [OF assms(1)] by (rule filter_cong [OF refl]) (rule sym)
  show "\<forall>u f a b. digits20 u \<and> t < u \<and> f \<in> {TotalClaimAmount, AvgClaimAmountPerValidator}
      \<and> hop_value m f = DNum a \<and> hop_value p f = DNum b \<and> 0 < a \<and> 0 < b \<and> (u * b \<le> a \<or> u * a \<le> b) \<longrightarrow>
      f \<in> hv_field ` set (fst (checkEpochHopGuardrail dl m p (DNum t)))"
    unfolding set_map [symmetric] hop_fields [OF assms(1)]
    by (auto simp: HOP_GUARDED_FIELDS_def hops_complete [OF assms(1)])
  show "map hv_field (fst (checkEpochHopGuardrail dl m p DNaN))
      = filter (\<lambda>f. d_isZero (hop_value m f) \<noteq> d_isZero (hop_value p f)) HOP_GUARDED_FIELDS"
    unfolding hop_fields [OF assms(1)] by (auto simp: hops_def)
  have real: "t * b < a \<or> t * a < b" if "hops dl (DNum t) (DNum a) (DNum b)" "0 \<le> a" "0 \<le> b" for a b
  proof (cases "a = 0 \<or> b = 0")
    case True
    then show ?thesis using that by (auto simp: hops_def d_isZero_def)
  next
    case False
    then have pos: "0 < a" "0 < b" using that by auto
    have small: "\<not> d_lt (DNum t) (dl_div dl (DNum c) (DNum e))" if le: "c \<le> t * e" and pos: "0 < e" for c e
    proof -
      have le': "c / e \<le> t" using le pos by (simp add: pos_divide_le_eq)
      have "e \<noteq> 0" using pos by simp
      from decimal_okD(5) [OF assms(1) this assms(2) le'] obtain q
        where "dl_div dl (DNum c) (DNum e) = DNum q" "q \<le> t" by blast
      then show ?thesis by simp
    qed
    show ?thesis using small [of a b] small [of b a] pos that(1) by (fastforce simp: hops_def d_isZero_def)
  qed
  have num: "\<exists>a b. hop_value m f = DNum a \<and> hop_value p f = DNum b \<and> 0 \<le> a \<and> 0 \<le> b" for f
    using assms(4-9) by (simp add: hop_value_def)
  show "\<forall>v\<in>set (fst (checkEpochHopGuardrail dl m p (DNum t))). \<exists>a b.
      hv_currentValue v = DNum a \<and> hv_previousValue v = DNum b \<and> (t * b < a \<or> t * a < b)"
  proof
    fix v assume v: "v \<in> set (fst (checkEpochHopGuardrail dl m p (DNum t)))"
    then have "(hv_field v, hv_currentValue v, hv_previousValue v) \<in> set (map (\<lambda>f. (f, hop_value m f, hop_value p f))
        (filter (\<lambda>f. hops dl (DNum t) (hop_value m f) (hop_value p f)) HOP_GUARDED_FIELDS))"
      unfolding hop_violations [OF assms(1), symmetric] by force
    then obtain f where f: "hops dl (DNum t) (hop_value m f) (hop_value p f)"
      "hv_currentValue v = hop_value m f" "hv_previousValue v = hop_value p f" by auto
    then show "\<exists>a b. hv_currentValue v = DNum a \<and> hv_previousValue v = DNum b \<and> (t * b < a \<or> t * a < b)"
      using num [of f] real by auto
  qed
qed

definition demo_metrics :: "int \<Rightarrow> metrics" where
  "demo_metrics s = \<lparr> me_epoch = Fin 5, me_totalValidators = 1, me_totalClaims = 1, me_totalClaimAmount = s,
     me_avgClaimAmountPerValidator = DNum (of_int s), me_avgClaimsPerValidator = DNum 1 \<rparr>"

theorem hop_guardrail_witness:
  "TotalClaimAmount \<in> hv_field ` set (fst (checkEpochHopGuardrail demo_dl (demo_metrics 16) (demo_metrics 10) (DNum (3 / 2))))
   \<and> map hv_field (fst (checkEpochHopGuardrail demo_dl (demo_metrics 10) (demo_metrics 16) (DNum (3 / 2))))
     = [TotalClaimAmount, AvgClaimAmountPerValidator]
   \<and> fst (checkEpochHopGuardrail demo_dl (demo_metrics 1000) (demo_metrics 1) DNaN) = []"
proof -
  have t: "digits20 (3 / 2)" unfolding digits20_def by (intro exI [of _ 15] exI [of _ 1]) simp
  have u: "digits20 (8 / 5)" unfolding digits20_def by (intro exI [of _ 16] exI [of _ 1]) simp
  note hop = hop_guardrail [OF demo_decimal_ok t]
  have "TotalClaimAmount \<in> hv_field ` set (fst (checkEpochHopGuardrail demo_dl (demo_metrics 16) (demo_metrics 10) (DNum (3 / 2))))"
    using hop [of "demo_metrics 16" 16 "demo_metrics 10" 10 "DNum (3 / 2)", THEN conjunct2, THEN conjunct2,
        THEN conjunct2, THEN conjunct1, rule_format, of "8 / 5" TotalClaimAmount 16 10] u
    by (simp add: demo_metrics_def hop_value_def)
  moreover have "map hv_field (fst (checkEpochHopGuardrail demo_dl (demo_metrics 10) (demo_metrics 16) (DNum (3 / 2))))
     = [TotalClaimAmount, AvgClaimAmountPerValidator]"
    using hop [of "demo_metrics 10" 10 "demo_metrics 16" 16 "DNum (3 / 2)", THEN conjunct1]
    by (simp add: demo_metrics_def hop_value_def d_isZero_def demo_dl_def demo_dec_op_def)
  moreover have "map hv_field (fst (checkEpochHopGuardrail demo_dl (demo_metrics 1000) (demo_metrics 1) DNaN)) = []"
    using hop [of "demo_metrics 1000" 1000 "demo_metrics 1" 1 DNaN]
    by (simp add: demo_metrics_def HOP_GUARDED_FIELDS_def hop_value_def d_isZero_def)
  ultimately show ?thesis by simp
qed


section \<open>Scored and advisory metrics\<close>

text \<open>The three conditions of an anomaly: the score, the deviation from the mean, and no
  similarity to the two latest epochs.\<close>

definition deviates :: "dec_lib \<Rightarrow> stats_lib \<Rightarrow> thresholds \<Rightarrow> number \<Rightarrow> number list \<Rightarrow> string \<Rightarrow> bool" where
  "deviates dl sx th x hs f \<longleftrightarrow>
     (let current = dl_of_num dl x; mean = ds_mean (st_describe sx hs) in
      ar_isAnomaly (st_detect sx x hs f (th_correlation th) (th_score th))
      \<and> d_le (th_minDeviation th) (if d_isZero (d_abs mean) then DNum 0
          else dl_div dl (d_abs (dl_sub dl current mean)) (d_abs mean))
      \<and> (\<exists>h\<in>set (last_n 2 hs). \<not> isSimilarToRecent dl current (th_correlation th) h))"

lemma individual_deviates:
  "2 \<le> length hs \<Longrightarrow> ar_isAnomaly (sk_result (detectIndividualAnomaly dl sx th x hs f desc)) \<longleftrightarrow> deviates dl sx th x hs f"
  by (auto simp: detectIndividualAnomaly_def deviates_def Let_def last_n_def list_all_iff)

definition metric_number :: "dec_lib \<Rightarrow> metric_field \<Rightarrow> metrics \<Rightarrow> number" where
  "metric_number dl f m = num_of_str (field_str dl m f)"

lemma field_anomaly_deviates:
  assumes "3 \<le> length historical"
  shows "ar_isAnomaly (sk_result (field_anomaly dl sx th current historical f)) \<longleftrightarrow>
    deviates dl sx th (metric_number dl f current) (map (metric_number dl f) historical) (field_name f @ '':'')"
  using assms individual_deviates [of "map (metric_number dl f) historical"]
  by (simp add: field_anomaly_def metric_number_def [abs_def])

text \<open>
  The comparison with at least three past epochs finds an anomaly exactly when the number
  of validators, the total amount or the average amount deviates: by its score, by its distance
  from the mean, and from one of the two latest epochs. The number of claims is reported and
  never decides: another number of claims in any of the epochs leaves the verdict as it is.
  With less than three epochs the comparison fails.
\<close>

theorem anomaly_iff_scored_deviates:
  fixes current :: metrics
  shows "(case reportMerkleTreeAnomalies dl sx th current historical of
      Inl e \<Rightarrow> length historical < 3
    | Inr (b, stats, report) \<Rightarrow> 3 \<le> length historical
        \<and> b = (\<exists>f\<in>{TotalValidators, TotalClaimAmount, AvgClaimAmountPerValidator}.
            deviates dl sx th (metric_number dl f current) (map (metric_number dl f) historical) (field_name f @ '':''))
        \<and> (\<exists>stats' report'. reportMerkleTreeAnomalies dl sx th (current \<lparr> me_totalClaims := n \<rparr>)
             (map (\<lambda>m. m \<lparr> me_totalClaims := k m \<rparr>) historical) = Inr (b, stats', report')))"
proof (cases "length historical < 3")
  case True
  then show ?thesis by (simp add: reportMerkleTreeAnomalies_def guard_throw_def throw_def)
next
  case False
  let ?dev = "\<lambda>c hs f. deviates dl sx th (metric_number dl f c) (map (metric_number dl f) hs) (field_name f @ '':'')"
  have verdict: "\<exists>stats report. reportMerkleTreeAnomalies dl sx th c hs
      = Inr (?dev c hs TotalValidators \<or> ?dev c hs TotalClaimAmount \<or> ?dev c hs AvgClaimAmountPerValidator, stats, report)"
    if "length hs = length historical" for c hs
    using False that field_anomaly_deviates [of hs dl sx th c]
    by (simp add: reportMerkleTreeAnomalies_def guard_throw_def Let_def SCORED_FIELDS_def ADVISORY_FIELDS_def
        field_anomaly_def)
  have same: "?dev (current \<lparr> me_totalClaims := n \<rparr>) (map (\<lambda>m. m \<lparr> me_totalClaims := k m \<rparr>) historical) f
      = ?dev current historical f" if "f \<noteq> TotalClaims" for f
    using that by (cases f) (simp_all add: metric_number_def [abs_def] field_str_def comp_def)
  show ?thesis using verdict [of historical current] False same
      verdict [of "map (\<lambda>m. m \<lparr> me_totalClaims := k m \<rparr>) historical" "current \<lparr> me_totalClaims := n \<rparr>"]
    by auto
qed

section \<open>Amounts from the token to the total\<close>

text \<open>\<open>token_exact v a\<close>: if the value \<open>v\<close> was read from an integer token, \<open>a\<close> is its integer.\<close>

definition token_exact :: "json \<Rightarrow> int \<Rightarrow> bool" where
  "token_exact v a \<longleftrightarrow> (\<forall>s. integer_token s \<and> parseNumber s = Inr v \<longrightarrow> a = token_value s)"

definition json_elements :: "json \<Rightarrow> json list" where
  "json_elements v = (case v of JArr xs \<Rightarrow> xs | _ \<Rightarrow> [])"

text \<open>The maps to lamports, entry by entry.\<close>

definition map_exact :: "json \<Rightarrow> (string \<times> int) list option \<Rightarrow> bool" where
  "map_exact v m \<longleftrightarrow> (case m of None \<Rightarrow> True
     | Some kas \<Rightarrow> list_all2 (\<lambda>(k, x) (k', a). k' = k \<and> token_exact x a) (json_entries v) kas)"

lemma bigint_field_exact: "bigint_field v = Inr a \<Longrightarrow> token_exact v a"
  unfolding token_exact_def by (metis parseNumber_exact sum.inject(2))

lemma bigint_of_json_exact:
  assumes "bigint_of_json v = Inr a"
  shows "token_exact v a"
proof -
  have "bigint_field v = Inr a" if "parseNumber s = Inr v" for s
  proof -
    have "(\<exists>i. v = JBig i) \<or> (\<exists>x. v = JNum x)"
      using that by (auto simp: parseNumber_def rbind_eq_Inr split: if_split_asm)
    then show ?thesis using assms
      by (auto simp: bigint_field_def js_truthy_def bigint_of_json_def bigint_of_num_def is_integral_def)
  qed
  then show ?thesis unfolding token_exact_def by (metis parseNumber_exact sum.inject(2))
qed

lemma rmapM_list_all2: "rmapM f xs = Inr ys \<Longrightarrow> list_all2 (\<lambda>x y. f x = Inr y) xs ys"
  by (induction xs arbitrary: ys) (auto simp: rbind_eq_Inr)

lemma lamports_field_exact: "lamports_field v = Inr m \<Longrightarrow> map_exact v m"
  unfolding lamports_field_def map_exact_def
  by (auto simp: rbind_eq_Inr bigint_of_json_exact split: if_split_asm
      dest!: rmapM_list_all2 elim!: list_all2_mono)

lemma array_elements: "array_transformed p v xs \<Longrightarrow> list_all2 p (json_elements v) xs"
  by (cases v) (simp_all add: array_transformed_def json_elements_def)

lemmas exact_fields = bigint_field_exact lamports_field_exact

text \<open>
  C25: no amount is rounded on its way into the check. The two files are read element by
  element, and wherever a field is an integer token, of any length, the amount in the object
  is exactly its integer, although a number above 2 ^ 53 would lose digits as a double: the
  claim of a node, the sum and the funding sources of a tree, the amount of a settlement, the
  amount of each of its claims and the stakes of a payout.
\<close>

theorem amounts_exact:
  assumes "applies_transforms (unified_transformed sl) validate" and "validate file = Inr d"
    and "applies_transforms (settlements_transformed sl) validate'" and "validate' file' = Inr d'"
  shows "list_all2 (\<lambda>v t. token_exact (json_get v ''max_total_claim_sum'') (mt_max_total_claim_sum t)
      \<and> map_exact (json_get v ''funding_sources'') (mt_funding_sources t)
      \<and> list_all2 (\<lambda>w n. token_exact (json_get w ''claim'') (tn_claim n))
          (json_elements (json_get v ''tree_nodes'')) (mt_tree_nodes t))
      (json_elements (json_get file ''merkle_trees'')) (ut_merkle_trees d)
    \<and> list_all2 (\<lambda>v s. token_exact (json_get v ''claims_amount'') (se_claims_amount s)
      \<and> list_all2 (\<lambda>w c. token_exact (json_get w ''claim_amount'') (sc_claim_amount c)
          \<and> (case sc_payout c of None \<Rightarrow> True
             | Some p \<Rightarrow> token_exact (json_get w ''active_stake'') (sp_active_stake p)
               \<and> token_exact (json_get w ''activating_stake'') (sp_activating_stake p)
               \<and> map_exact (json_get w ''stake_accounts'') (sp_stake_accounts p)))
          (json_elements (json_get v ''claims'')) (se_claims s))
      (json_elements (json_get file' ''settlements'')) (ss_settlements d')"
proof
  have "list_all2 (tree_transformed sl) (json_elements (json_get file ''merkle_trees'')) (ut_merkle_trees d)"
    using assms(1,2) by (simp add: applies_transforms_def unified_transformed_def array_elements)
  then show "list_all2 (\<lambda>v t. token_exact (json_get v ''max_total_claim_sum'') (mt_max_total_claim_sum t)
      \<and> map_exact (json_get v ''funding_sources'') (mt_funding_sources t)
      \<and> list_all2 (\<lambda>w n. token_exact (json_get w ''claim'') (tn_claim n))
          (json_elements (json_get v ''tree_nodes'')) (mt_tree_nodes t))
      (json_elements (json_get file ''merkle_trees'')) (ut_merkle_trees d)"
    by (rule list_all2_mono)
      (auto simp: tree_transformed_def node_transformed_def exact_fields
        dest!: array_elements elim!: list_all2_mono)
  have "list_all2 (settlement_transformed sl) (json_elements (json_get file' ''settlements'')) (ss_settlements d')"
    using assms(3,4) by (simp add: applies_transforms_def settlements_transformed_def array_elements)
  then show "list_all2 (\<lambda>v s. token_exact (json_get v ''claims_amount'') (se_claims_amount s)
      \<and> list_all2 (\<lambda>w c. token_exact (json_get w ''claim_amount'') (sc_claim_amount c)
          \<and> (case sc_payout c of None \<Rightarrow> True
             | Some p \<Rightarrow> token_exact (json_get w ''active_stake'') (sp_active_stake p)
               \<and> token_exact (json_get w ''activating_stake'') (sp_activating_stake p)
               \<and> map_exact (json_get w ''stake_accounts'') (sp_stake_accounts p)))
          (json_elements (json_get v ''claims'')) (se_claims s))
      (json_elements (json_get file' ''settlements'')) (ss_settlements d')"
    by (rule list_all2_mono)
      (auto simp: settlement_transformed_def claim_transformed_def payout_transformed_def exact_fields
        dest!: array_elements elim!: list_all2_mono split: option.split)
qed

definition demo_file :: json where
  "demo_file = JObj [(''epoch'', JNum (Fin 5)), (''slot'', JNum (Fin 0)), (''validator_bonds_config'', JStr ''c''),
     (''merkle_trees'', JArr [JObj [(''merkle_root'', JArr [JNum (Fin 255)]),
        (''max_total_claim_sum'', JBig 18446744073709551615), (''max_total_claims'', JNum (Fin 1)),
        (''vote_account'', JStr ''v''), (''bond_account'', JStr ''b''), (''settlement_account'', JStr ''s''),
        (''tree_nodes'', JArr [JObj [(''stake_authority'', JStr ''x''), (''withdraw_authority'', JStr ''y''),
           (''claim'', JBig 18446744073709551615), (''index'', JNum (Fin 0)), (''proof'', JArr [])]])]])]"

definition demo_file_trees :: unified_trees where
  "demo_file_trees = \<lparr> ut_epoch = Fin 5, ut_slot = 0, ut_validator_bonds_config = bytes_of ''c'',
     ut_merkle_trees = [\<lparr> mt_merkle_root = [255], mt_max_total_claim_sum = 18446744073709551615,
       mt_max_total_claims = Fin 1, mt_vote_account = bytes_of ''v'', mt_bond_account = bytes_of ''b'',
       mt_settlement_account = bytes_of ''s'', mt_funding_sources = None,
       mt_tree_nodes = [\<lparr> tn_stake_authority = bytes_of ''x'', tn_withdraw_authority = bytes_of ''y'',
         tn_claim = 18446744073709551615, tn_index = Fin 0, tn_proof = [] \<rparr>] \<rparr>],
     ut_sources = None \<rparr>"

definition demo_keys :: solana_lib where
  "demo_keys = \<lparr> pk_of_str = (\<lambda>s. Inr (bytes_of s)), pk_b58 = (\<lambda>k. ''''),
     find_pda = (\<lambda>seeds p. Inr (concat seeds, 0)) \<rparr>"

lemma demo_file_transformed: "unified_transformed demo_keys demo_file demo_file_trees"
  by (simp add: unified_transformed_def demo_file_def demo_file_trees_def json_get_def array_transformed_def
      tree_transformed_def node_transformed_def bigint_field_def js_truthy_def bigint_of_json_def bigint_of_num_def
      is_integral_def pubkey_field_def demo_keys_def merkle_root_field_def Uint8Array_from_def to_uint8_def
      number_of_json_def lamports_field_def proof_field_def)

definition demo_settlements_file :: json where
  "demo_settlements_file = JObj [(''slot'', JNum (Fin 1)), (''epoch'', JNum (Fin 5)),
     (''settlements'', JArr [JObj [(''reason'', JStr ''Bidding''), (''funder'', JStr ''ValidatorBond''),
        (''vote_account'', JStr ''v''), (''claims_count'', JNum (Fin 1)),
        (''claims_amount'', JBig 18446744073709551615),
        (''claims'', JArr [JObj [(''withdraw_authority'', JStr ''x''), (''stake_authority'', JStr ''y''),
           (''claim_amount'', JBig 18446744073709551615), (''kind'', JStr ''Marker'')]])]])]"

definition demo_file_settlements :: settlements where
  "demo_file_settlements = \<lparr> ss_slot = 1, ss_epoch = Fin 5, ss_settlements =
     [\<lparr> se_reason = reason_transform (JStr ''Bidding''), se_funder = ValidatorBond, se_vote_account = bytes_of ''v'',
        se_claims_count = Fin 1, se_claims_amount = 18446744073709551615, se_claims =
          [\<lparr> sc_withdraw_authority = bytes_of ''x'', sc_stake_authority = bytes_of ''y'',
             sc_claim_amount = 18446744073709551615, sc_kind = Marker, sc_payout = None \<rparr>] \<rparr>] \<rparr>"

lemma demo_settlements_transformed:
  "settlements_transformed demo_keys demo_settlements_file demo_file_settlements"
  by (simp add: settlements_transformed_def demo_settlements_file_def demo_file_settlements_def json_get_def
      array_transformed_def settlement_transformed_def claim_transformed_def bigint_field_def js_truthy_def
      bigint_of_json_def bigint_of_num_def is_integral_def pubkey_field_def demo_keys_def funder_str_def
      claim_kind_str_def)

theorem amounts_exact_witness:
  "tn_claim (mt_tree_nodes (ut_merkle_trees demo_file_trees ! 0) ! 0) = 18446744073709551615
   \<and> se_claims_amount (ss_settlements demo_file_settlements ! 0) = 18446744073709551615
   \<and> sc_claim_amount (se_claims (ss_settlements demo_file_settlements ! 0) ! 0) = 18446744073709551615
   \<and> num_of_bigint 18446744073709551615 = Fin 18446744073709551616"
proof -
  let ?validate = "\<lambda>v. if v = demo_file then Inr demo_file_trees else throw EError []"
  let ?validate' = "\<lambda>v. if v = demo_settlements_file then Inr demo_file_settlements else throw EError []"
  have "applies_transforms (unified_transformed demo_keys) ?validate"
    "applies_transforms (settlements_transformed demo_keys) ?validate'"
    by (simp_all add: applies_transforms_def demo_file_transformed demo_settlements_transformed)
  note exact = amounts_exact [OF this(1) _ this(2), of demo_file demo_file_trees demo_settlements_file
      demo_file_settlements]
  have token: "token_exact (JBig 18446744073709551615) a \<Longrightarrow> a = 18446744073709551615" for a
    using demo_token unfolding token_exact_def by fastforce
  have "token_exact (JBig 18446744073709551615) (tn_claim (mt_tree_nodes (ut_merkle_trees demo_file_trees ! 0) ! 0))
    \<and> token_exact (JBig 18446744073709551615) (se_claims_amount (ss_settlements demo_file_settlements ! 0))
    \<and> token_exact (JBig 18446744073709551615) (sc_claim_amount (se_claims (ss_settlements demo_file_settlements ! 0) ! 0))"
    using exact by (simp add: demo_file_def demo_file_trees_def demo_settlements_file_def
        demo_file_settlements_def json_get_def json_elements_def)
  moreover have "num_of_bigint 18446744073709551615 = Fin 18446744073709551616"
    by (simp add: num_of_bigint_def dbl_eval)
  ultimately show ?thesis using token by blast
qed

end
