(* ===== verification/Cli_Format.thy ===== *)
theory Cli_Format
  imports Sdk_Stake
begin

text \<open>
  The texts of \<open>packages/validator-bonds-cli-core/src/utils.ts\<close>: amounts in SOL, amounts
  with underscores, the message of a dry run and the message of a failed request.

  An amount is the integer that \<open>new BN(value.toString())\<close> reads. \<open>BN\<close>'s reading of a
  decimal string is a parameter.
\<close>

section \<open>Amounts\<close>

definition LAMPORTS_PER_SOL_BN :: int where "LAMPORTS_PER_SOL_BN = 1000000000"

text \<open>\<open>divmod\<close> of BN truncates towards zero, like the division of bigints.\<close>

definition formatLamportsToSol :: "int \<Rightarrow> string" where
  "formatLamportsToSol value =
     (let div' = bigint_div value LAMPORTS_PER_SOL_BN; mod' = bigint_mod value LAMPORTS_PER_SOL_BN in
      if mod' = 0 \<and> div' = 0 then ''0''
      else if mod' = 0 then int_str div'
      else int_str div' @ ''.'' @ pad_start 9 (CHR ''0'') (int_str \<bar>mod'\<bar>))"

definition formatUnit :: "int \<Rightarrow> string \<Rightarrow> string" where
  "formatUnit value unit = (if value = 0 \<or> value = 1 then unit else unit @ ''s'')"

definition formatToSol :: "int \<Rightarrow> string" where
  "formatToSol value = formatLamportsToSol value @ '' '' @ formatUnit value ''SOL''"

definition formatToSolWithAll :: "int \<Rightarrow> string" where
  "formatToSolWithAll value = (if value = U64_MAX then ''<ALL>''
     else formatLamportsToSol value @ '' '' @ formatUnit value ''SOL'')"

definition toBN :: "(string \<Rightarrow> int res) \<Rightarrow> string \<Rightarrow> int res" where
  "toBN bn_str value = bn_str (filter (\<lambda>c. c \<noteq> CHR ''_'') value)"

definition txOutcomeMessage :: "bool \<Rightarrow> string \<Rightarrow> string" where
  "txOutcomeMessage dryRun message =
     (if dryRun then ''DRY RUN (nothing sent on-chain): '' @ message else message)"

section \<open>Messages of failed requests\<close>

text \<open>A value that a request rejects with: an error with its message and the optional
  properties \<open>status\<close> and \<open>response\<close>, or something else. The body of a response is absent,
  an object or a text (other values have no message); of an object only the property
  \<open>message\<close> matters. \<open>json_parse\<close> is \<open>JSON.parse\<close>: it throws, or answers a value.\<close>

datatype message_field = MsgText string | MsgArray "string option list" | MsgOther

datatype body = BodyNull | BodyObject message_field | BodyText string | BodyOther

record fetch_error =
  he_message :: string
  he_status :: "int option"
  he_response :: body

text \<open>The strings of an array, joined; an element that is not a string is skipped.\<close>

definition field_message :: "message_field \<Rightarrow> string option" where
  "field_message m = (case m of MsgText s \<Rightarrow> Some s
     | MsgArray xs \<Rightarrow> Some (js_join ''; '' (List.map_filter id xs))
     | MsgOther \<Rightarrow> None)"

text \<open>Reading a property of \<open>null\<close> throws, which the \<open>catch\<close> treats like a text that is not
  JSON. The cut at 500 counts UTF-16 units in the code and bytes here, which is the same for
  an ASCII text. Of a parsed array, number or text the property \<open>message\<close> is undefined.\<close>

definition parseResponseMessage :: "(string \<Rightarrow> body option) \<Rightarrow> body \<Rightarrow> string option" where
  "parseResponseMessage json_parse response = (case response of
       BodyNull \<Rightarrow> None
     | BodyObject m \<Rightarrow> field_message m
     | BodyOther \<Rightarrow> None
     | BodyText s \<Rightarrow> (case json_parse s of
           Some (BodyObject m) \<Rightarrow> field_message m
         | Some (BodyText _) \<Rightarrow> None
         | Some BodyOther \<Rightarrow> None
         | _ \<Rightarrow> if 0 < length s then Some (take 500 s) else None))"

text \<open>\<open>None\<close> stands for a value that is not an \<open>Error\<close>. A status of zero is false, and so is
  an empty message of the server.\<close>

definition formatHttpError :: "(string \<Rightarrow> body option) \<Rightarrow> fetch_error option \<Rightarrow> string \<Rightarrow> string option" where
  "formatHttpError json_parse e apiUrl = (case e of None \<Rightarrow> None
     | Some err \<Rightarrow>
         if he_status err = None \<or> he_status err = Some 0
         then Some (''Cannot reach service at '' @ apiUrl @ '': '' @ he_message err)
         else (let status = int_str (the (he_status err)) in
           case parseResponseMessage json_parse (he_response err) of
             Some (c # cs) \<Rightarrow> Some ((c # cs) @ '' (HTTP '' @ status @ '' from '' @ apiUrl @ '')'')
           | _ \<Rightarrow> Some (''HTTP '' @ status @ '' from '' @ apiUrl @ '': '' @ he_message err)))"

lemma formatHttpError_error: "formatHttpError jp (Some e) url \<noteq> None"
  by (simp add: formatHttpError_def Let_def split: option.splits list.splits)

section \<open>A printed amount is the amount\<close>

text \<open>\<open>sol_value\<close> reads a printed amount back, in lamports.\<close>

definition sol_value :: "string \<Rightarrow> int" where
  "sol_value s = (case split_on (CHR ''.'') s of
       [a] \<Rightarrow> int (digits_val a) * LAMPORTS_PER_SOL_BN
     | a # f # _ \<Rightarrow> int (digits_val a) * LAMPORTS_PER_SOL_BN + int (digits_val f)
     | [] \<Rightarrow> 0)"

lemma int_str_digits: "0 \<le> v \<Longrightarrow> list_all is_digit (int_str v)"
  by (simp add: int_str_def)

lemma digits_val_int_str: "0 \<le> v \<Longrightarrow> int (digits_val (int_str v)) = v"
  by (simp add: int_str_def)

lemma sol_value_format:
  assumes "0 \<le> v"
  shows "sol_value (formatLamportsToSol v) = v"
proof -
  let ?L = LAMPORTS_PER_SOL_BN
  have dm: "bigint_div v ?L = v div ?L" "bigint_mod v ?L = v mod ?L"
    using assms by (simp_all add: bigint_div_nonneg bigint_mod_nonneg LAMPORTS_PER_SOL_BN_def)
  have nn: "0 \<le> v div ?L" "0 \<le> v mod ?L"
    using assms by (simp_all add: LAMPORTS_PER_SOL_BN_def pos_imp_zdiv_nonneg_iff)
  have dot: "CHR ''.'' \<notin> set (int_str (v div ?L))"
    using int_str_digits [OF nn(1)] by (rule digits_no_char) simp
  have dig: "list_all is_digit (pad_start 9 (CHR ''0'') (int_str \<bar>v mod ?L\<bar>))"
    using int_str_digits [OF nn(2)] nn(2) by simp
  have dot2: "CHR ''.'' \<notin> set (pad_start 9 (CHR ''0'') (int_str \<bar>v mod ?L\<bar>))"
    using dig by (rule digits_no_char) simp
  show ?thesis
  proof (cases "v mod ?L = 0")
    case True
    show ?thesis
    proof (cases "v div ?L = 0")
      case d: True
      with True have "v = 0" using div_mult_mod_eq [of v ?L] by simp
      then show ?thesis
        by (simp add: formatLamportsToSol_def sol_value_def bigint_div_def bigint_mod_def
            digits_val_def digit_val_def Let_def)
    next
      case False
      then have "formatLamportsToSol v = int_str (v div ?L)"
        using True by (simp add: formatLamportsToSol_def dm)
      then have "sol_value (formatLamportsToSol v) = v div ?L * ?L"
        using dot nn by (simp add: sol_value_def split_on_none digits_val_int_str)
      then show ?thesis using div_mult_mod_eq [of v ?L] True by linarith
    qed
  next
    case False
    then have "formatLamportsToSol v = int_str (v div ?L) @ CHR ''.'' # pad_start 9 (CHR ''0'') (int_str \<bar>v mod ?L\<bar>)"
      by (simp add: formatLamportsToSol_def dm)
    then have "sol_value (formatLamportsToSol v) = v div ?L * ?L + v mod ?L"
      using dot dot2 nn by (simp add: sol_value_def split_on_first split_on_none digits_val_int_str)
    then show ?thesis by (simp only: div_mult_mod_eq)
  qed
qed

lemma formatToSol_inject:
  assumes "0 \<le> v" and "0 \<le> w" and "formatLamportsToSol v = formatLamportsToSol w"
  shows "v = w"
  using sol_value_format [OF assms(1)] sol_value_format [OF assms(2)] assms(3) by metis

text \<open>The sign of an amount below one SOL is not printed.\<close>

lemma format_negative_fraction:
  assumes "0 < v" and "v < LAMPORTS_PER_SOL_BN"
  shows "formatLamportsToSol (- v) = formatLamportsToSol v"
proof -
  have b: "\<bar>- v\<bar> = v" "\<bar>v\<bar> = v" "\<bar>LAMPORTS_PER_SOL_BN\<bar> = LAMPORTS_PER_SOL_BN"
    using assms by (simp_all add: LAMPORTS_PER_SOL_BN_def)
  have z: "v div LAMPORTS_PER_SOL_BN = 0"
    by (rule div_pos_pos_trivial) (use assms in simp_all)
  have d: "bigint_div (- v) LAMPORTS_PER_SOL_BN = 0" "bigint_div v LAMPORTS_PER_SOL_BN = 0"
    unfolding bigint_div_def b z by simp_all
  have m: "bigint_mod (- v) LAMPORTS_PER_SOL_BN = - v" "bigint_mod v LAMPORTS_PER_SOL_BN = v"
    unfolding bigint_mod_def d by simp_all
  show ?thesis unfolding formatLamportsToSol_def Let_def d m abs_minus_cancel by simp
qed

end
