(* ===== verification/Cli_Version.thy ===== *)
theory Cli_Version
  imports Js_Strings
begin

text \<open>
  The version check of the command line: \<open>packages/validator-bonds-cli-core/src/npmRegistry.ts\<close>.

  A comparator of the language answers a number of which only the sign matters. The locale
  \<open>js_order\<close> is what a consistent comparator promises and what sorting needs;
  \<open>compareVersions\<close> is shown to be one, whatever consistent \<open>localeCompare\<close> (\<open>lc\<close>, the
  collation of the host) it uses. \<open>Array.prototype.sort\<close> is stable, so for a consistent
  comparator its result is the one of insertion sort. The numbers in a version are integers
  (they stay in the exact range of a double).
\<close>

section \<open>Comparators and sorting\<close>

fun js_insert :: "('a \<Rightarrow> 'a \<Rightarrow> int) \<Rightarrow> 'a \<Rightarrow> 'a list \<Rightarrow> 'a list" where
  "js_insert cmp x [] = [x]"
| "js_insert cmp x (y # ys) = (if cmp x y \<le> 0 then x # y # ys else y # js_insert cmp x ys)"

fun js_sort :: "('a \<Rightarrow> 'a \<Rightarrow> int) \<Rightarrow> 'a list \<Rightarrow> 'a list" where
  "js_sort cmp [] = []"
| "js_sort cmp (x # xs) = js_insert cmp x (js_sort cmp xs)"

lemma set_js_insert [simp]: "set (js_insert cmp x xs) = insert x (set xs)"
  by (induction xs) auto

lemma set_js_sort [simp]: "set (js_sort cmp xs) = set xs"
  by (induction xs) auto

lemma js_insert_not_Nil [simp]: "js_insert cmp x xs \<noteq> []"
  by (cases xs) auto

lemma js_sort_Nil_iff [simp]: "js_sort cmp xs = [] \<longleftrightarrow> xs = []"
  by (cases xs) auto

locale js_order =
  fixes cmp :: "'a \<Rightarrow> 'a \<Rightarrow> int"
  assumes anti: "sgn (cmp b a) = - sgn (cmp a b)"
    and trans_le: "cmp a b \<le> 0 \<Longrightarrow> cmp b c \<le> 0 \<Longrightarrow> cmp a c \<le> 0"
begin

lemma le_flip: "cmp a b \<le> 0 \<longleftrightarrow> 0 \<le> cmp b a"
  using anti [of a b] by (cases "cmp a b" "0::int" rule: linorder_cases;
    cases "cmp b a" "0::int" rule: linorder_cases) simp_all

lemma eq_flip: "cmp a b = 0 \<longleftrightarrow> cmp b a = 0"
  using le_flip [of a b] le_flip [of b a] by linarith

lemma refl [simp]: "cmp a a = 0"
  using anti [of a a] by (cases "cmp a a" "0::int" rule: linorder_cases) simp_all

lemma trans_eq:
  assumes "cmp a b = 0" and "cmp b c = 0"
  shows "cmp a c = 0"
proof -
  have "cmp b a = 0" "cmp c b = 0" using assms eq_flip by blast+
  then have "cmp a c \<le> 0" "cmp c a \<le> 0" using assms trans_le [of a b c] trans_le [of c b a] by simp_all
  then show ?thesis using le_flip [of c a] by linarith
qed

lemma trans_lt_le:
  assumes "cmp a b < 0" and "cmp b c \<le> 0"
  shows "cmp a c < 0"
proof (rule ccontr)
  assume "\<not> cmp a c < 0"
  then have "cmp c a \<le> 0" using le_flip [of c a] by linarith
  with assms(2) have "cmp b a \<le> 0" by (rule trans_le)
  then show False using le_flip [of b a] assms(1) by linarith
qed

lemma trans_le_lt:
  assumes "cmp a b \<le> 0" and "cmp b c < 0"
  shows "cmp a c < 0"
proof (rule ccontr)
  assume "\<not> cmp a c < 0"
  then have "cmp c a \<le> 0" using le_flip [of c a] by linarith
  from this assms(1) have "cmp c b \<le> 0" by (rule trans_le)
  then show False using le_flip [of c b] assms(2) by linarith
qed

lemma sorted_insert:
  "sorted_wrt (\<lambda>x y. cmp x y \<le> 0) xs \<Longrightarrow> sorted_wrt (\<lambda>x y. cmp x y \<le> 0) (js_insert cmp x xs)"
proof (induction xs)
  case Nil
  then show ?case by simp
next
  case (Cons y ys)
  show ?case
  proof (cases "cmp x y \<le> 0")
    case True
    with Cons.prems show ?thesis by (auto intro: trans_le)
  next
    case False
    then have "cmp y x \<le> 0" using le_flip [of y x] by linarith
    with False Cons show ?thesis by auto
  qed
qed

lemma sorted_sort: "sorted_wrt (\<lambda>x y. cmp x y \<le> 0) (js_sort cmp xs)"
  by (induction xs) (auto intro: sorted_insert)

text \<open>The last element of the sorted array is a greatest one.\<close>

lemma last_sort_greatest:
  assumes "x \<in> set xs"
  shows "cmp x (last (js_sort cmp xs)) \<le> 0"
proof -
  let ?ys = "js_sort cmp xs"
  have "xs \<noteq> []" using assms by auto
  then have ys: "?ys = butlast ?ys @ [last ?ys]" by simp
  have "x \<in> set ?ys" using assms by simp
  then have "x \<in> set (butlast ?ys) \<or> x = last ?ys" using ys
    by (metis Un_iff set_append set_ConsD list.set(1) list.set(2) empty_iff insert_iff)
  moreover have "\<forall>y\<in>set (butlast ?ys). cmp y (last ?ys) \<le> 0"
    using sorted_sort [of xs] ys sorted_wrt_append [of "\<lambda>x y. cmp x y \<le> 0" "butlast ?ys" "[last ?ys]"]
    by simp
  ultimately show ?thesis by auto
qed

end

lemma js_order_key: "js_order c \<Longrightarrow> js_order (\<lambda>a b. c (f a) (f b))"
  by (rule js_order.intro) (erule js_order.anti, erule js_order.trans_le)

text \<open>A comparator that decides, and another one for what it leaves equal.\<close>

lemma js_order_then:
  assumes c1: "js_order c1" and c2: "js_order c2"
  shows "js_order (\<lambda>a b. if c1 a b \<noteq> 0 then c1 a b else c2 a b)"
proof (rule js_order.intro)
  fix a b c
  show "sgn (if c1 b a \<noteq> 0 then c1 b a else c2 b a) = - sgn (if c1 a b \<noteq> 0 then c1 a b else c2 a b)"
    using js_order.anti [OF c1, of b a] js_order.anti [OF c2, of b a] js_order.eq_flip [OF c1, of b a]
    by (simp split: if_split)
  assume ab: "(if c1 a b \<noteq> 0 then c1 a b else c2 a b) \<le> 0"
    and bc: "(if c1 b c \<noteq> 0 then c1 b c else c2 b c) \<le> 0"
  have le: "c1 a b \<le> 0" "c1 b c \<le> 0" using ab bc by (simp_all split: if_splits)
  consider "c1 a b < 0" | "c1 b c < 0" | "c1 a b = 0" "c1 b c = 0" using le by linarith
  then show "(if c1 a c \<noteq> 0 then c1 a c else c2 a c) \<le> 0"
  proof cases
    case 1
    have "c1 a c < 0" by (rule js_order.trans_lt_le [OF c1 1 le(2)])
    then show ?thesis by simp
  next
    case 2
    have "c1 a c < 0" by (rule js_order.trans_le_lt [OF c1 le(1) 2])
    then show ?thesis by simp
  next
    case 3
    then have "c2 a b \<le> 0" "c2 b c \<le> 0" using ab bc by simp_all
    then have "c2 a c \<le> 0" by (rule js_order.trans_le [OF c2])
    with js_order.trans_eq [OF c1 3] show ?thesis by simp
  qed
qed

section \<open>Comparing versions\<close>

text \<open>\<open>parseInt(s, 10)\<close>: white space, a sign, and the longest run of digits; \<open>None\<close> is NaN.\<close>

definition parseInt10 :: "string \<Rightarrow> int option" where
  "parseInt10 s =
     (let t = dropWhile is_ws s;
          negative = (case t of c # _ \<Rightarrow> c = CHR ''-'' | [] \<Rightarrow> False);
          signed = (case t of c # _ \<Rightarrow> c = CHR ''-'' \<or> c = CHR ''+'' | [] \<Rightarrow> False);
          digits = takeWhile is_digit (if signed then drop 1 t else t)
      in if digits = [] then None
         else Some (if negative then - int (digits_val digits) else int (digits_val digits)))"

text \<open>The numeric parts and the prerelease tag; an empty tag is false.\<close>

definition parse_version :: "string \<Rightarrow> int list \<times> string option" where
  "parse_version version =
     (case split_on (CHR ''-'') version of
        core # rest \<Rightarrow>
          (map (\<lambda>p. case parseInt10 p of None \<Rightarrow> 0 | Some i \<Rightarrow> i) (split_on (CHR ''.'') core),
           if rest = [] \<or> js_join ''-'' rest = '''' then None else Some (js_join ''-'' rest))
      | [] \<Rightarrow> ([], None))"

fun cmp_parts :: "int list \<Rightarrow> int list \<Rightarrow> int" where
  "cmp_parts [] [] = 0"
| "cmp_parts (x # xs) [] = (if x \<noteq> 0 then x - 0 else cmp_parts xs [])"
| "cmp_parts [] (y # ys) = (if 0 \<noteq> y then 0 - y else cmp_parts [] ys)"
| "cmp_parts (x # xs) (y # ys) = (if x \<noteq> y then x - y else cmp_parts xs ys)"

text \<open>An identifier is numeric when it is the decimal form of a number.\<close>

definition numeric_id :: "string \<Rightarrow> int option" where
  "numeric_id s = (case parseInt10 s of None \<Rightarrow> None | Some i \<Rightarrow> if int_str i = s then Some i else None)"

definition cmp_id :: "(string \<Rightarrow> string \<Rightarrow> int) \<Rightarrow> string \<Rightarrow> string \<Rightarrow> int" where
  "cmp_id lc a b = (case (numeric_id a, numeric_id b) of
       (Some m, Some n) \<Rightarrow> if m \<noteq> n then m - n else 0
     | (Some _, None) \<Rightarrow> -1
     | (None, Some _) \<Rightarrow> 1
     | (None, None) \<Rightarrow> lc a b)"

fun cmp_ids :: "(string \<Rightarrow> string \<Rightarrow> int) \<Rightarrow> string list \<Rightarrow> string list \<Rightarrow> int" where
  "cmp_ids lc [] [] = 0"
| "cmp_ids lc [] (b # bs) = -1"
| "cmp_ids lc (a # as) [] = 1"
| "cmp_ids lc (a # as) (b # bs) = (if cmp_id lc a b \<noteq> 0 then cmp_id lc a b else cmp_ids lc as bs)"

definition compareVersions :: "(string \<Rightarrow> string \<Rightarrow> int) \<Rightarrow> string \<Rightarrow> string \<Rightarrow> int" where
  "compareVersions lc a b =
     (case (parse_version a, parse_version b) of ((aParts, aPre), (bParts, bPre)) \<Rightarrow>
        if cmp_parts aParts bParts \<noteq> 0 then cmp_parts aParts bParts
        else (case (aPre, bPre) of
            (Some _, None) \<Rightarrow> -1
          | (None, Some _) \<Rightarrow> 1
          | (Some x, Some y) \<Rightarrow> cmp_ids lc (split_on (CHR ''.'') x) (split_on (CHR ''.'') y)
          | (None, None) \<Rightarrow> 0))"

section \<open>The check\<close>

record npm_package =
  np_name :: string
  np_version :: string

definition FALLBACK_PACKAGE :: npm_package where
  "FALLBACK_PACKAGE = \<lparr> np_name = ''@marinade.finance/validator-bonds-cli'', np_version = ''0.0.0'' \<rparr>"

text \<open>The answer of the registry: the keys of its object \<open>versions\<close>, when it has one, and its
  name, when that is a text.\<close>

record packument =
  pk_versions :: "string list option"
  pk_name :: "string option"

definition latestVersionInPackument :: "(string \<Rightarrow> string \<Rightarrow> int) \<Rightarrow> packument \<Rightarrow> npm_package res" where
  "latestVersionInPackument lc fetchedJson = (case pk_versions fetchedJson of
       None \<Rightarrow> throw EError ''registry response contains no versions''
     | Some versions \<Rightarrow>
         (let stableVersions = filter (\<lambda>v. \<not> includes_str ''-'' v) versions;
              sortedVersions = js_sort (compareVersions lc)
                (if 0 < length stableVersions then stableVersions else versions);
              latestVersion = (if sortedVersions = [] \<or> last sortedVersions = '''' then ''0.0.0''
                else last sortedVersions)
          in Inr \<lparr> np_name = orElse (pk_name fetchedJson) (np_name FALLBACK_PACKAGE),
                   np_version = latestVersion \<rparr>))"

text \<open>The request rejects (or the deadline aborts it), answers with an error status, or
  answers a body; reading the body may throw.\<close>

datatype npm_response = NpmRejected | NpmStatus int | NpmBody "packument res"

definition fetchLatestVersionInNpmRegistry :: "(string \<Rightarrow> string \<Rightarrow> int) \<Rightarrow> npm_response \<Rightarrow> npm_package" where
  "fetchLatestVersionInNpmRegistry lc response = (case response of
       NpmRejected \<Rightarrow> FALLBACK_PACKAGE
     | NpmStatus _ \<Rightarrow> FALLBACK_PACKAGE
     | NpmBody body \<Rightarrow> (case rbind body (latestVersionInPackument lc) of
           Inr p \<Rightarrow> p | Inl _ \<Rightarrow> FALLBACK_PACKAGE))"

definition majorMinor :: "string \<Rightarrow> string" where
  "majorMinor version = js_join ''.'' (take 2 (split_on (CHR ''.'') (hd (split_on (CHR ''-'') version))))"

definition isMandatoryUpgrade :: "(string \<Rightarrow> string \<Rightarrow> int) \<Rightarrow> string \<Rightarrow> string \<Rightarrow> bool" where
  "isMandatoryUpgrade lc current latest \<longleftrightarrow> compareVersions lc (majorMinor current) (majorMinor latest) < 0"

text \<open>The check throws, or answers the text that it prints to the error output.\<close>

definition checkCliVersion :: "(string \<Rightarrow> string \<Rightarrow> int) \<Rightarrow> npm_response \<Rightarrow> string \<Rightarrow> string option res" where
  "checkCliVersion lc response currentVersion =
     (let npmData = fetchLatestVersionInNpmRegistry lc response;
          installCommand = ''npm install -g '' @ np_name npmData @ ''@'' @ np_version npmData;
          outdated = ''CLI version '' @ currentVersion @ '' is outdated. The latest available version is ''
            @ np_version npmData @ ''.'' @ [CHR 0x0A]
      in if 0 \<le> compareVersions lc currentVersion (np_version npmData) then Inr None
         else if isMandatoryUpgrade lc currentVersion (np_version npmData)
         then throw EError (outdated @ ''  Please update before proceeding:'' @ [CHR 0x0A]
           @ ''  '' @ installCommand)
         else Inr (Some (outdated @ ''  This is a patch release, the command continues. To update:''
           @ [CHR 0x0A] @ ''  '' @ installCommand)))"

section \<open>The comparison of versions is consistent\<close>

definition head0 :: "int list \<Rightarrow> int" where
  "head0 xs = (case xs of [] \<Rightarrow> 0 | x # _ \<Rightarrow> x)"

lemma cmp_parts_unfold:
  "cmp_parts xs ys = (if head0 xs \<noteq> head0 ys then head0 xs - head0 ys
     else cmp_parts (drop 1 xs) (drop 1 ys))"
  by (cases xs; cases ys) (auto simp: head0_def)

lemma cmp_parts_anti: "cmp_parts ys xs = - cmp_parts xs ys"
  by (induction xs ys rule: cmp_parts.induct) auto

lemma cmp_parts_trans: "cmp_parts xs ys \<le> 0 \<Longrightarrow> cmp_parts ys zs \<le> 0 \<Longrightarrow> cmp_parts xs zs \<le> 0"
proof (induction "length xs + length ys + length zs" arbitrary: xs ys zs rule: less_induct)
  case less
  show ?case
  proof (cases "xs = [] \<and> ys = [] \<and> zs = []")
    case True
    then show ?thesis by simp
  next
    case False
    then have "length (drop 1 xs) + length (drop 1 ys) + length (drop 1 zs)
        < length xs + length ys + length zs" by (cases xs; cases ys; cases zs) auto
    from less.hyps [OF this] less.prems show ?thesis
      unfolding cmp_parts_unfold [of xs] cmp_parts_unfold [of ys] by (auto split: if_splits)
  qed
qed

interpretation parts: js_order cmp_parts
proof
  show "sgn (cmp_parts ys xs) = - sgn (cmp_parts xs ys)" for xs ys
    using cmp_parts_anti [of ys xs] by simp
  show "cmp_parts xs zs \<le> 0" if "cmp_parts xs ys \<le> 0" "cmp_parts ys zs \<le> 0" for xs ys zs
    using that by (rule cmp_parts_trans)
qed

lemma cmp_id_order:
  assumes "js_order lc"
  shows "js_order (cmp_id lc)"
proof (rule js_order.intro)
  show "sgn (cmp_id lc b a) = - sgn (cmp_id lc a b)" for a b
    using js_order.anti [OF assms, of b a]
    by (cases "numeric_id a"; cases "numeric_id b") (auto simp: cmp_id_def sgn_if)
  show "cmp_id lc a c \<le> 0" if "cmp_id lc a b \<le> 0" "cmp_id lc b c \<le> 0" for a b c
    using that js_order.trans_le [OF assms, of a b c]
    by (cases "numeric_id a"; cases "numeric_id b"; cases "numeric_id c")
      (auto simp: cmp_id_def split: if_splits)
qed

lemma cmp_ids_anti:
  assumes "js_order lc"
  shows "sgn (cmp_ids lc ys xs) = - sgn (cmp_ids lc xs ys)"
proof (induction xs arbitrary: ys)
  case Nil
  then show ?case by (cases ys) simp_all
next
  case (Cons x xs)
  show ?case
  proof (cases ys)
    case Nil
    then show ?thesis by simp
  next
    case ys: (Cons y ys')
    note id = cmp_id_order [OF assms]
    show ?thesis
      using Cons.IH [of ys'] js_order.anti [OF id, of y x] js_order.eq_flip [OF id, of y x]
      by (simp add: ys)
  qed
qed

lemma cmp_ids_trans:
  assumes "js_order lc"
  shows "cmp_ids lc xs ys \<le> 0 \<Longrightarrow> cmp_ids lc ys zs \<le> 0 \<Longrightarrow> cmp_ids lc xs zs \<le> 0"
proof (induction xs arbitrary: ys zs)
  case Nil
  then show ?case by (cases zs) simp_all
next
  case (Cons x xs)
  from Cons.prems(1) obtain y ys' where ys: "ys = y # ys'" by (cases ys) simp_all
  with Cons.prems(2) obtain z zs' where zs: "zs = z # zs'" by (cases zs) simp_all
  note id = cmp_id_order [OF assms]
  have le: "cmp_id lc x y \<le> 0" "cmp_id lc y z \<le> 0"
    using Cons.prems by (simp_all add: ys zs split: if_splits)
  consider "cmp_id lc x z < 0" | "cmp_id lc x y = 0" "cmp_id lc y z = 0"
    using le js_order.trans_lt_le [OF id _ le(2)] js_order.trans_le_lt [OF id le(1)] by fastforce
  then show ?case
  proof cases
    case 1
    then show ?thesis by (simp add: zs)
  next
    case 2
    then have "cmp_ids lc xs ys' \<le> 0" "cmp_ids lc ys' zs' \<le> 0" using Cons.prems by (simp_all add: ys zs)
    from Cons.IH [OF this] js_order.trans_eq [OF id 2] show ?thesis by (simp add: zs)
  qed
qed

lemma cmp_ids_order: "js_order lc \<Longrightarrow> js_order (cmp_ids lc)"
  by (rule js_order.intro) (rule cmp_ids_anti, assumption, rule cmp_ids_trans)


text \<open>Where the prerelease tags decide: a version with a tag is below the one without.\<close>

definition cmp_pre :: "(string \<Rightarrow> string \<Rightarrow> int) \<Rightarrow> string option \<Rightarrow> string option \<Rightarrow> int" where
  "cmp_pre lc a b = (case (a, b) of
       (Some _, None) \<Rightarrow> -1 | (None, Some _) \<Rightarrow> 1 | (None, None) \<Rightarrow> 0
     | (Some x, Some y) \<Rightarrow> cmp_ids lc (split_on (CHR ''.'') x) (split_on (CHR ''.'') y))"

lemma cmp_pre_order:
  assumes "js_order lc"
  shows "js_order (cmp_pre lc)"
proof (rule js_order.intro)
  note ids = cmp_ids_order [OF assms]
  fix a b c
  show "sgn (cmp_pre lc b a) = - sgn (cmp_pre lc a b)"
    by (cases a; cases b) (simp_all add: cmp_pre_def js_order.anti [OF ids, symmetric])
  show "cmp_pre lc a b \<le> 0 \<Longrightarrow> cmp_pre lc b c \<le> 0 \<Longrightarrow> cmp_pre lc a c \<le> 0"
    by (cases a; cases b; cases c) (simp_all add: cmp_pre_def js_order.trans_le [OF ids])
qed

lemma compareVersions_then:
  "compareVersions lc = (\<lambda>a b.
     if cmp_parts (fst (parse_version a)) (fst (parse_version b)) \<noteq> 0
     then cmp_parts (fst (parse_version a)) (fst (parse_version b))
     else cmp_pre lc (snd (parse_version a)) (snd (parse_version b)))"
proof (rule ext, rule ext)
  fix a b
  obtain ap ar bp br where p: "parse_version a = (ap, ar)" "parse_version b = (bp, br)"
    by (cases "parse_version a"; cases "parse_version b")
  show "compareVersions lc a b = (if cmp_parts (fst (parse_version a)) (fst (parse_version b)) \<noteq> 0
     then cmp_parts (fst (parse_version a)) (fst (parse_version b))
     else cmp_pre lc (snd (parse_version a)) (snd (parse_version b)))"
    by (cases ar; cases br) (simp_all add: compareVersions_def cmp_pre_def p)
qed

lemma compareVersions_order:
  assumes "js_order lc"
  shows "js_order (compareVersions lc)"
  unfolding compareVersions_then
  by (rule js_order_then [OF js_order_key [OF parts.js_order_axioms] js_order_key [OF cmp_pre_order [OF assms]]])

section \<open>Releases\<close>

text \<open>The first numbers of a version, zero where there is none, and the order of the releases by
  major and minor number.\<close>

definition version_part :: "string \<Rightarrow> nat \<Rightarrow> int" where
  "version_part v i = (let ps = fst (parse_version v) in if i < length ps then ps ! i else 0)"

definition older_release :: "string \<Rightarrow> string \<Rightarrow> bool" where
  "older_release v w \<longleftrightarrow> version_part v 0 < version_part w 0
     \<or> version_part v 0 = version_part w 0 \<and> version_part v 1 < version_part w 1"

lemma version_part_head: "version_part v 0 = head0 (fst (parse_version v))"
  "version_part v 1 = head0 (drop 1 (fst (parse_version v)))"
  by (cases "fst (parse_version v)"; cases "drop 1 (fst (parse_version v))";
      simp add: version_part_def head0_def)+

lemma core_no_dash: "CHR ''-'' \<notin> set (hd (split_on (CHR ''-'') v))"
  using split_on_parts [of "hd (split_on (CHR ''-'') v)" "CHR ''-''" v] by simp

lemma parse_version_core: "fst (parse_version v)
    = map (\<lambda>p. case parseInt10 p of None \<Rightarrow> 0 | Some i \<Rightarrow> i) (split_on (CHR ''.'') (hd (split_on (CHR ''-'') v)))"
  by (cases "split_on (CHR ''-'') v") (simp_all add: parse_version_def)

lemma set_js_join: "set (js_join sep ws) \<subseteq> set sep \<union> (\<Union>w\<in>set ws. set w)"
  by (induction sep ws rule: js_join.induct) auto

lemma js_join_part: "w \<in> set ws \<Longrightarrow> set w \<subseteq> set (js_join sep ws)"
  by (induction sep ws rule: js_join.induct) auto

lemma parse_majorMinor: "parse_version (majorMinor v) = (take 2 (fst (parse_version v)), None)"
proof -
  let ?ps = "split_on (CHR ''.'') (hd (split_on (CHR ''-'') v))"
  have ps: "\<forall>w\<in>set ?ps. CHR ''.'' \<notin> set w" by (auto dest: split_on_parts)
  have parts: "set w \<subseteq> set (hd (split_on (CHR ''-'') v))" if "w \<in> set ?ps" for w
    using js_join_part [OF that, of "[CHR ''.'']"] by (simp add: js_join_split)
  have "w \<in> set (take 2 ?ps) \<Longrightarrow> w \<in> set ?ps" for w by (rule in_set_takeD)
  then have "CHR ''-'' \<notin> set (js_join [CHR ''.''] (take 2 ?ps))"
    using set_js_join [of "[CHR ''.'']" "take 2 ?ps"] parts core_no_dash [of v] by auto
  then have dash: "split_on (CHR ''-'') (majorMinor v) = [majorMinor v]"
    by (simp add: majorMinor_def split_on_none)
  have "split_on (CHR ''.'') (majorMinor v) = take 2 ?ps"
    unfolding majorMinor_def by (rule split_join) (use ps in \<open>auto dest: in_set_takeD\<close>)
  then have "parse_version (majorMinor v)
      = (map (\<lambda>p. case parseInt10 p of None \<Rightarrow> 0 | Some i \<Rightarrow> i) (take 2 ?ps), None)"
    by (simp add: parse_version_def dash)
  then show ?thesis by (simp add: parse_version_core take_map)
qed

lemma cmp_parts_lex: "cmp_parts xs ys \<le> 0 \<Longrightarrow> head0 xs < head0 ys
    \<or> head0 xs = head0 ys \<and> head0 (drop 1 xs) \<le> head0 (drop 1 ys)"
  using cmp_parts_unfold [of xs ys] cmp_parts_unfold [of "drop 1 xs" "drop 1 ys"] by (auto split: if_splits)

lemma cmp_parts_take2: "cmp_parts (take 2 xs) (take 2 ys) < 0 \<longleftrightarrow> head0 xs < head0 ys
    \<or> head0 xs = head0 ys \<and> head0 (drop 1 xs) < head0 (drop 1 ys)"
proof -
  have split: "zs = [] \<or> (\<exists>a. zs = [a]) \<or> (\<exists>a b r. zs = a # b # r)" for zs :: "int list"
    by (cases zs; cases "tl zs") auto
  show ?thesis using split [of xs] split [of ys] by (elim disjE exE) (simp_all add: head0_def)
qed

text \<open>An upgrade is mandatory exactly when its release is newer; a greater version never has an
  older release.\<close>

lemma isMandatoryUpgrade_iff: "isMandatoryUpgrade lc v w \<longleftrightarrow> older_release v w"
  using cmp_parts_take2 [of "fst (parse_version v)" "fst (parse_version w)"]
  unfolding isMandatoryUpgrade_def older_release_def version_part_head compareVersions_def parse_majorMinor
  by auto

lemma version_le_release: "compareVersions lc v w \<le> 0 \<Longrightarrow> \<not> older_release w v"
  using cmp_parts_lex [of "fst (parse_version v)" "fst (parse_version w)"]
  unfolding older_release_def version_part_head compareVersions_then by (auto split: if_splits)

lemma older_release_trans: "older_release u v \<Longrightarrow> \<not> older_release w v \<Longrightarrow> older_release u w"
  by (auto simp: older_release_def)

text \<open>The numbers of a version are not negative, so the version of the fallback stops nothing.\<close>

lemma parseInt10_nonneg: "CHR ''-'' \<notin> set s \<Longrightarrow> parseInt10 s = Some i \<Longrightarrow> 0 \<le> i"
  using set_dropWhileD [of "CHR ''-''" is_ws s]
  by (auto simp: parseInt10_def Let_def split: if_splits list.splits)

lemma version_part_nonneg: "0 \<le> version_part v i"
proof -
  have "0 \<le> (case parseInt10 p of None \<Rightarrow> 0 | Some i \<Rightarrow> i)"
    if p: "p \<in> set (split_on (CHR ''.'') (hd (split_on (CHR ''-'') v)))" for p
  proof -
    from js_join_part [OF p, of "[CHR ''.'']"] have "CHR ''-'' \<notin> set p" using core_no_dash [of v] by (auto simp: js_join_split)
    then show ?thesis using parseInt10_nonneg by (auto split: option.split)
  qed
  then show ?thesis unfolding version_part_def Let_def parse_version_core by auto
qed

lemma fallback_not_newer: "\<not> older_release v (np_version FALLBACK_PACKAGE)"
proof -
  have "version_part (np_version FALLBACK_PACKAGE) 0 = 0" "version_part (np_version FALLBACK_PACKAGE) 1 = 0"
    by (simp_all add: FALLBACK_PACKAGE_def version_part_def parse_version_def parseInt10_def is_ws_def
        is_digit_def digits_val_def digit_val_def Let_def)
  then show ?thesis using version_part_nonneg [of v 0] version_part_nonneg [of v 1]
    by (simp add: older_release_def)
qed

end
