(* ===== verification/Cli_Banner.thy ===== *)
theory Cli_Banner
  imports Js_Prelude "HOL-Library.Word"
begin

text \<open>
  The boxes the command line prints around notifications and advice:
  \<open>packages/validator-bonds-cli-core/src/banner.ts\<close>, \<open>async.ts\<close> and \<open>notifications.ts\<close>.

  Widths are lengths of strings in UTF-16 units, so a text is a list of 16-bit words here;
  \<open>ju\<close> writes an ASCII text. The terminal (its width, whether it shows colours) is an
  argument. A regular expression of the source is a function that gives the length of its
  match at the start of a text; its classes of characters make the match unique.
\<close>

type_synonym jstr = "16 word list"

definition ju :: "string \<Rightarrow> jstr" where
  "ju s = map (\<lambda>c. of_nat (of_char c)) s"

abbreviation NL :: "16 word" where "NL \<equiv> 10"
abbreviation SPACE :: "16 word" where "SPACE \<equiv> 32"

definition repeat_text :: "jstr \<Rightarrow> int \<Rightarrow> jstr res" where
  "repeat_text s n = (if n < 0 then throw ERangeError ''Invalid count value'' else Inr (concat (replicate (nat n) s)))"

fun join_text :: "jstr \<Rightarrow> jstr list \<Rightarrow> jstr" where
  "join_text sep [] = []"
| "join_text sep [w] = w"
| "join_text sep (w # v # ws) = w @ sep @ join_text sep (v # ws)"

fun split_at_char :: "16 word \<Rightarrow> jstr \<Rightarrow> jstr list" where
  "split_at_char c [] = [[]]"
| "split_at_char c (x # xs) =
     (if x = c then [] # split_at_char c xs
      else (case split_at_char c xs of [] \<Rightarrow> [[x]] | w # ws \<Rightarrow> (x # w) # ws))"

section \<open>Wrapping of lines\<close>

text \<open>The class \<open>\s\<close> of regular expressions.\<close>

definition js_space :: "16 word \<Rightarrow> bool" where
  "js_space c \<longleftrightarrow> c \<in> {9, 10, 11, 12, 13, 32, 0xA0, 0x1680, 0x2028, 0x2029, 0x202F, 0x205F, 0x3000, 0xFEFF}
     \<or> 0x2000 \<le> c \<and> c \<le> 0x200A"

fun split_space :: "jstr \<Rightarrow> jstr list" where
  "split_space [] = [[]]"
| "split_space (x # xs) =
     (if js_space x then [] # split_space xs
      else (case split_space xs of [] \<Rightarrow> [[x]] | w # ws \<Rightarrow> (x # w) # ws))"

text \<open>\<open>line.split(/\s+/).filter(Boolean)\<close>: a run of white space splits like each of its
  characters, up to empty words.\<close>

definition js_words :: "jstr \<Rightarrow> jstr list" where
  "js_words line = filter (\<lambda>w. w \<noteq> []) (split_space line)"

fun wrap_words :: "int \<Rightarrow> jstr \<Rightarrow> jstr list \<Rightarrow> jstr list" where
  "wrap_words width current [] = (if current \<noteq> [] then [current] else [])"
| "wrap_words width current (w # ws) =
     (if current = [] then wrap_words width w ws
      else if int (length current) + 1 + int (length w) \<le> width
      then wrap_words width (current @ SPACE # w) ws
      else current # wrap_words width w ws)"

definition wrapLines :: "jstr list \<Rightarrow> int \<Rightarrow> jstr list" where
  "wrapLines lines width =
     (if width \<le> 0 then lines
      else concat (map (\<lambda>line. if int (length line) \<le> width then [line]
        else wrap_words width [] (js_words line)) lines))"

section \<open>Links on their own line\<close>

function replace_text :: "jstr \<Rightarrow> jstr \<Rightarrow> jstr \<Rightarrow> jstr" where
  "replace_text p r [] = []"
| "replace_text p r (c # cs) =
     (if p \<noteq> [] \<and> take (length p) (c # cs) = p then r @ replace_text p r (drop (length p) (c # cs))
      else c # replace_text p r cs)"
  by pat_completeness auto
termination
  by (relation "measure (\<lambda>(p, r, s). length s)") (auto simp: length_greater_0_conv [symmetric] simp del: length_greater_0_conv)

text \<open>The length of the match of \<open>\[[^\]\n]+\]\([^)\n]+\)[.,;:!?]?\<close> at the start of a text.\<close>

definition match_link :: "jstr \<Rightarrow> nat option" where
  "match_link s =
     (if take 1 s \<noteq> [91] then None
      else (let label = takeWhile (\<lambda>c. c \<noteq> 93 \<and> c \<noteq> NL) (drop 1 s);
                s1 = drop (1 + length label) s
            in if label = [] \<or> take 2 s1 \<noteq> [93, 40] then None
               else (let target = takeWhile (\<lambda>c. c \<noteq> 41 \<and> c \<noteq> NL) (drop 2 s1);
                         s2 = drop (2 + length target) s1
                     in if target = [] \<or> take 1 s2 \<noteq> [41] then None
                        else Some (4 + length label + length target
                          + (case drop 1 s2 of c # _ \<Rightarrow> if c \<in> {46, 44, 59, 58, 33, 63} then 1 else 0
                             | [] \<Rightarrow> 0)))))"

text \<open>\<open>full[offset - 1]\<close> is the character before the match in the text that is searched.\<close>

function link_lines :: "16 word option \<Rightarrow> jstr \<Rightarrow> jstr" where
  "link_lines prev [] = []"
| "link_lines prev (c # cs) = (case match_link (c # cs) of
       None \<Rightarrow> c # link_lines (Some c) cs
     | Some 0 \<Rightarrow> c # link_lines (Some c) cs
     | Some (Suc n) \<Rightarrow>
         (let found = take (Suc n) (c # cs); rest = drop (Suc n) (c # cs)
          in (if prev = None \<or> prev = Some NL then [] else [NL]) @ found
             @ (if rest = [] \<or> hd rest = NL then [] else [NL])
             @ link_lines (Some (last found)) rest))"
  by pat_completeness auto
termination
  by (relation "measure (\<lambda>(p, s). length s)") auto

definition normalizeBannerText :: "jstr \<Rightarrow> jstr" where
  "normalizeBannerText text = link_lines None (replace_text (ju ''&nbsp;'') [SPACE] text)"

section \<open>Colours\<close>

datatype color = Bold | Dim | Italic | Underline | Reverse | Strikethrough
  | Black | Red | Green | Yellow | Blue | Magenta | Cyan | White

definition color_number :: "color \<Rightarrow> string" where
  "color_number c = (case c of Bold \<Rightarrow> ''1'' | Dim \<Rightarrow> ''2'' | Italic \<Rightarrow> ''3'' | Underline \<Rightarrow> ''4''
     | Reverse \<Rightarrow> ''7'' | Strikethrough \<Rightarrow> ''9'' | Black \<Rightarrow> ''30'' | Red \<Rightarrow> ''31'' | Green \<Rightarrow> ''32''
     | Yellow \<Rightarrow> ''33'' | Blue \<Rightarrow> ''34'' | Magenta \<Rightarrow> ''35'' | Cyan \<Rightarrow> ''36'' | White \<Rightarrow> ''37'')"

definition color_code :: "color \<Rightarrow> jstr" where
  "color_code c = 27 # ju ''['' @ ju (color_number c) @ ju ''m''"

definition RESET :: jstr where "RESET = 27 # ju ''[0m''"

text \<open>The terminal: its width in columns and the variables of the environment.\<close>

record terminal =
  tm_columns :: "int option"
  tm_isTTY :: bool
  tm_TERM :: "string option"
  tm_COLORTERM :: "string option"
  tm_NO_COLOR :: "string option"
  tm_CI :: "string option"

definition isSupportsColor :: "terminal \<Rightarrow> bool" where
  "isSupportsColor t =
     (if \<not> tm_isTTY t then False
      else if tm_NO_COLOR t \<noteq> None \<or> tm_CI t = Some ''true'' then False
      else if tm_COLORTERM t = Some ''truecolor'' \<or> tm_COLORTERM t = Some ''24bit'' then True
      else (case tm_TERM t of None \<Rightarrow> False | Some s \<Rightarrow> s \<noteq> '''' \<and> s \<noteq> ''dumb''))"

definition coloredText :: "terminal \<Rightarrow> jstr \<Rightarrow> color option \<Rightarrow> jstr" where
  "coloredText t text c = (case c of
       Some k \<Rightarrow> if isSupportsColor t then color_code k @ text @ RESET else text
     | None \<Rightarrow> text)"

section \<open>The two shapes of a banner\<close>

definition LEFT_CORNER :: jstr where "LEFT_CORNER = [0x2554]"
definition RIGHT_CORNER :: jstr where "RIGHT_CORNER = [0x2557]"
definition HORIZONTAL_LINE :: jstr where "HORIZONTAL_LINE = [0x2550]"
definition VERTICAL_LINE :: jstr where "VERTICAL_LINE = [0x2551]"
definition BOTTOM_LEFT_CORNER :: jstr where "BOTTOM_LEFT_CORNER = [0x255A]"
definition BOTTOM_RIGHT_CORNER :: jstr where "BOTTOM_RIGHT_CORNER = [0x255D]"

text \<open>\<open>Math.max\<close> of no arguments is minus infinity, which \<open>repeat\<close> refuses.\<close>

definition buildSimpleBanner :: "terminal \<Rightarrow> jstr list \<Rightarrow> jstr option \<Rightarrow> int \<Rightarrow> color option \<Rightarrow> color option
    \<Rightarrow> jstr list res" where
  "buildSimpleBanner t lines title maxLength textColor titleColor =
     rbind (case title of
         Some (c # cs) \<Rightarrow>
           (let titleLines = wrapLines [c # cs] maxLength
            in rbind (if titleLines = [] then throw ERangeError ''Invalid count value: -Infinity''
                 else repeat_text HORIZONTAL_LINE
                   (min (Max (set (map (\<lambda>l. int (length l)) titleLines))) maxLength)) (\<lambda>rule.
               Inr (map (\<lambda>l. coloredText t l titleColor) titleLines @ [rule])))
       | _ \<Rightarrow> rbind (repeat_text HORIZONTAL_LINE maxLength) (\<lambda>rule. Inr [rule])) (\<lambda>top.
     rbind (repeat_text HORIZONTAL_LINE maxLength) (\<lambda>bottom.
     Inr (top @ map (\<lambda>l. coloredText t l textColor) lines @ [bottom])))"

definition box_title :: "terminal \<Rightarrow> jstr option \<Rightarrow> int \<Rightarrow> color option \<Rightarrow> jstr res" where
  "box_title t title maxLength titleColor = (case title of
       Some (c # cs) \<Rightarrow>
         (let totalPadding = max 0 (maxLength - int (length (c # cs)));
              leftPad = totalPadding div 2; rightPad = totalPadding - leftPad
          in rbind (repeat_text HORIZONTAL_LINE leftPad) (\<lambda>left.
             rbind (repeat_text HORIZONTAL_LINE rightPad) (\<lambda>right.
             Inr (LEFT_CORNER @ left @ [SPACE] @ coloredText t (c # cs) titleColor @ [SPACE] @ right @ RIGHT_CORNER))))
     | _ \<Rightarrow> rbind (repeat_text HORIZONTAL_LINE (maxLength + 2)) (\<lambda>line.
         Inr (LEFT_CORNER @ line @ RIGHT_CORNER)))"

definition box_line :: "terminal \<Rightarrow> int \<Rightarrow> bool \<Rightarrow> color option \<Rightarrow> jstr \<Rightarrow> jstr" where
  "box_line t maxLength centerText textColor line =
     (let coloredLine = coloredText t line textColor;
          overflow = max 0 (maxLength - int (length line));
          leftPad = overflow div 2; rightPad = overflow - leftPad;
          pad = (\<lambda>n. replicate (nat n) SPACE)
      in if centerText
         then VERTICAL_LINE @ [SPACE] @ pad leftPad @ coloredLine @ pad rightPad @ [SPACE] @ VERTICAL_LINE
         else VERTICAL_LINE @ [SPACE] @ coloredLine @ pad overflow @ [SPACE] @ VERTICAL_LINE)"

definition buildBoxBanner :: "terminal \<Rightarrow> jstr list \<Rightarrow> jstr option \<Rightarrow> int \<Rightarrow> bool \<Rightarrow> color option \<Rightarrow> color option
    \<Rightarrow> jstr list res" where
  "buildBoxBanner t lines title maxLength centerText textColor titleColor =
     rbind (box_title t title maxLength titleColor) (\<lambda>top.
     rbind (repeat_text HORIZONTAL_LINE (maxLength + 2)) (\<lambda>line.
     Inr ([top] @ map (box_line t maxLength centerText textColor) lines
       @ [BOTTOM_LEFT_CORNER @ line @ BOTTOM_RIGHT_CORNER])))"

definition BOX_OVERHEAD :: int where "BOX_OVERHEAD = 4"
definition SIMPLE_OVERHEAD :: int where "SIMPLE_OVERHEAD = 2"

record banner_args =
  ba_text :: jstr
  ba_title :: "jstr option"
  ba_preferredWidth :: int
  ba_minWidth :: int
  ba_centerText :: bool
  ba_linesAround :: "int option"
  ba_textColor :: "color option"
  ba_titleColor :: "color option"

definition default_banner :: "jstr \<Rightarrow> jstr option \<Rightarrow> color option \<Rightarrow> banner_args" where
  "default_banner text title textColor = \<lparr> ba_text = text, ba_title = title, ba_preferredWidth = 150,
     ba_minWidth = 80, ba_centerText = False, ba_linesAround = None, ba_textColor = textColor,
     ba_titleColor = textColor \<rparr>"

text \<open>Zero columns count as unknown.\<close>

definition terminalWidth :: "terminal \<Rightarrow> int \<Rightarrow> int" where
  "terminalWidth t preferredWidth = (case tm_columns t of
       Some n \<Rightarrow> if n \<noteq> 0 then n else preferredWidth + BOX_OVERHEAD
     | None \<Rightarrow> preferredWidth + BOX_OVERHEAD)"

definition useSimpleMode :: "terminal \<Rightarrow> banner_args \<Rightarrow> bool" where
  "useSimpleMode t a \<longleftrightarrow> terminalWidth t (ba_preferredWidth a) < ba_minWidth a + BOX_OVERHEAD"

definition wrapTarget :: "terminal \<Rightarrow> banner_args \<Rightarrow> int" where
  "wrapTarget t a = (if useSimpleMode t a
     then max 20 (terminalWidth t (ba_preferredWidth a) - SIMPLE_OVERHEAD)
     else min (ba_preferredWidth a) (terminalWidth t (ba_preferredWidth a) - BOX_OVERHEAD))"

definition wrapped_lines :: "terminal \<Rightarrow> banner_args \<Rightarrow> jstr list" where
  "wrapped_lines t a = wrapLines (split_at_char NL (normalizeBannerText (ba_text a))) (wrapTarget t a)"

definition banner_rows :: "terminal \<Rightarrow> banner_args \<Rightarrow> jstr list res" where
  "banner_rows t a =
     (if useSimpleMode t a
      then buildSimpleBanner t (wrapped_lines t a) (ba_title a) (wrapTarget t a) (ba_textColor a) (ba_titleColor a)
      else buildBoxBanner t (wrapped_lines t a) (ba_title a) (wrapTarget t a) (ba_centerText a) (ba_textColor a)
        (ba_titleColor a))"

definition getBanner :: "terminal \<Rightarrow> banner_args \<Rightarrow> jstr res" where
  "getBanner t a =
     rbind (banner_rows t a) (\<lambda>rows.
     let banner = join_text [NL] rows in
     (case ba_linesAround a of
        Some n \<Rightarrow> if 0 < n then rbind (repeat_text [NL] n) (\<lambda>around. Inr (around @ banner @ around))
          else Inr banner
      | None \<Rightarrow> Inr banner))"

section \<open>Waiting at most for a timeout\<close>

text \<open>An operation that settles after some milliseconds, with a value or by rejecting
  (\<open>None\<close>), or never. At the very moment of the timeout the race may go either way in the
  code; the fallback is chosen here.\<close>

datatype 'a settles = Settles nat "'a option" | Never

definition raceWithTimeout :: "'a settles \<Rightarrow> nat \<Rightarrow> 'a \<Rightarrow> 'a" where
  "raceWithTimeout operation timeoutMs fallback = (case operation of
       Settles t (Some v) \<Rightarrow> if t < timeoutMs then v else fallback
     | _ \<Rightarrow> fallback)"

record notification =
  nt_title :: "jstr option"
  nt_message :: jstr

definition NOTIFICATION_BANNER_TIMEOUT_MS :: nat where "NOTIFICATION_BANNER_TIMEOUT_MS = 1500"

text \<open>The request for notifications; an error and an empty answer both give null.\<close>

definition fetchBroadcastNotifications :: "notification list res settles \<Rightarrow> notification list option settles" where
  "fetchBroadcastNotifications request = (case request of
       Settles t (Some (Inr ns)) \<Rightarrow> Settles t (Some (if 0 < length ns then Some ns else None))
     | Settles t _ \<Rightarrow> Settles t (Some None)
     | Never \<Rightarrow> Never)"

text \<open>\<open>bannerPromise\<close> is null until the fetching is started.\<close>

definition getNotificationBanners :: "notification list option settles option \<Rightarrow> nat option
    \<Rightarrow> notification list option" where
  "getNotificationBanners bannerPromise timeoutMs = (case bannerPromise of
       None \<Rightarrow> None
     | Some p \<Rightarrow> raceWithTimeout p (orElse timeoutMs NOTIFICATION_BANNER_TIMEOUT_MS) None)"

text \<open>What is printed to the error output, if anything; an exception is only logged.\<close>

definition printNotificationBanners :: "terminal \<Rightarrow> notification list option settles option \<Rightarrow> nat option
    \<Rightarrow> int \<Rightarrow> jstr option" where
  "printNotificationBanners t bannerPromise timeoutMs linesAround =
     (case getNotificationBanners bannerPromise timeoutMs of
        None \<Rightarrow> None
      | Some ns \<Rightarrow>
          if length ns = 0 then None
          else (case rbind (rmapM (\<lambda>n. getBanner t (default_banner (nt_message n) (nt_title n) (Some Bold))) ns) (\<lambda>banners.
                  rbind (repeat_text [NL] linesAround) (\<lambda>surrounding.
                  Inr (surrounding @ join_text [NL] banners @ surrounding))) of
                Inr out \<Rightarrow> Some out | Inl _ \<Rightarrow> None))"

section \<open>Wrapping keeps the words and the width\<close>

lemma split_space_not_Nil [simp]: "split_space s \<noteq> []"
  by (cases s) (auto split: list.splits)

lemma split_space_none: "\<forall>c\<in>set s. \<not> js_space c \<Longrightarrow> split_space s = [s]"
  by (induction s) auto

lemma split_space_append: "js_space c \<Longrightarrow> split_space (s @ c # t) = split_space s @ split_space t"
  by (induction s) (auto split: list.splits)

lemma split_space_parts: "w \<in> set (split_space s) \<Longrightarrow> c \<in> set w \<Longrightarrow> \<not> js_space c"
proof (induction s arbitrary: w)
  case Nil
  then show ?case by simp
next
  case (Cons x s)
  obtain v vs where vs: "split_space s = v # vs" by (meson split_space_not_Nil neq_Nil_conv)
  show ?case using Cons.prems Cons.IH [of w] Cons.IH [of v] by (auto simp: vs split: if_splits)
qed

lemma js_words_Nil [simp]: "js_words [] = []"
  by (simp add: js_words_def)

lemma js_words_parts: "w \<in> set (js_words s) \<Longrightarrow> w \<noteq> [] \<and> (\<forall>c\<in>set w. \<not> js_space c)"
  using split_space_parts by (auto simp: js_words_def)

lemma js_words_word: "w \<noteq> [] \<Longrightarrow> \<forall>c\<in>set w. \<not> js_space c \<Longrightarrow> js_words w = [w]"
  by (simp add: js_words_def split_space_none)

lemma js_space_SPACE [simp]: "js_space SPACE"
  by (simp add: js_space_def)

lemma js_words_space: "js_words (s @ SPACE # t) = js_words s @ js_words t"
  by (simp add: js_words_def split_space_append)

text \<open>A word, or a text of several words that is not longer than the width.\<close>

definition fits_width :: "int \<Rightarrow> jstr \<Rightarrow> bool" where
  "fits_width width line \<longleftrightarrow> int (length line) \<le> width \<or> js_words line = [line]"

lemma wrap_words_keep:
  assumes "\<forall>w\<in>set ws. w \<noteq> [] \<and> (\<forall>c\<in>set w. \<not> js_space c)"
  shows "concat (map js_words (wrap_words width current ws)) = js_words current @ ws"
  using assms
proof (induction width current ws rule: wrap_words.induct)
  case (1 width current)
  then show ?case by simp
next
  case (2 width current w ws)
  then show ?case by (simp add: js_words_space js_words_word)
qed

lemma wrap_words_fit:
  assumes "\<forall>w\<in>set ws. w \<noteq> [] \<and> (\<forall>c\<in>set w. \<not> js_space c)"
    and "current = [] \<or> fits_width width current"
  shows "\<forall>l\<in>set (wrap_words width current ws). fits_width width l"
  using assms
proof (induction width current ws rule: wrap_words.induct)
  case (1 width current)
  then show ?case by auto
next
  case (2 width current w ws)
  have w: "fits_width width w" and ws: "\<forall>w\<in>set ws. w \<noteq> [] \<and> (\<forall>c\<in>set w. \<not> js_space c)"
    using "2.prems"(1) by (simp_all add: fits_width_def js_words_word)
  show ?case
  proof (cases "current = []")
    case True
    with "2.IH"(1) [OF True ws] w show ?thesis by simp
  next
    case c: False
    show ?thesis
    proof (cases "int (length current) + 1 + int (length w) \<le> width")
      case True
      then have "fits_width width (current @ SPACE # w)" by (simp add: fits_width_def)
      with "2.IH"(2) [OF c True ws] c True show ?thesis by simp
    next
      case False
      have "fits_width width current" using "2.prems"(2) c by simp
      moreover have "\<forall>l\<in>set (wrap_words width w ws). fits_width width l"
        using "2.IH"(3) [OF c False ws] w by simp
      ultimately show ?thesis using c False by (simp only: wrap_words.simps if_False list.set ball_simps)
    qed
  qed
qed

lemma wrapLines_keep: "concat (map js_words (wrapLines lines width)) = concat (map js_words lines)"
proof -
  have "concat (map js_words (wrap_words width [] (js_words line))) = js_words line" for line
    using wrap_words_keep [of "js_words line" width "[]"] js_words_parts [of _ line] by simp
  then show ?thesis unfolding wrapLines_def by (induction lines) (simp_all split: if_splits)
qed

lemma wrapLines_fit:
  assumes "0 < width"
  shows "\<forall>l\<in>set (wrapLines lines width). fits_width width l"
proof -
  have "\<forall>l\<in>set (wrap_words width [] (js_words line)). fits_width width l" for line
    using js_words_parts [of _ line] by (intro wrap_words_fit) auto
  then show ?thesis using assms by (auto simp: wrapLines_def fits_width_def)
qed

section \<open>A box is a rectangle\<close>

lemma concat_replicate_one: "concat (replicate n [c]) = replicate n c"
  by (induction n) simp_all

lemma length_repeat: "repeat_text [c] n = Inr s \<Longrightarrow> int (length s) = n"
  by (auto simp: repeat_text_def concat_replicate_one split: if_splits)

lemma repeat_text_ok: "0 \<le> n \<Longrightarrow> repeat_text [c] n = Inr (replicate (nat n) c)"
  by (simp add: repeat_text_def concat_replicate_one)

lemma box_line_length:
  assumes "int (length line) \<le> maxLength" and "coloredText t line textColor = line"
  shows "int (length (box_line t maxLength centerText textColor line)) = maxLength + 4"
proof -
  let ?o = "maxLength - int (length line)"
  have "nat (?o div 2) + nat (?o - ?o div 2) = nat ?o" using assms(1) by linarith
  then have "int (nat (?o div 2)) + int (nat (?o - ?o div 2)) = ?o" using assms(1) by linarith
  then show ?thesis using assms
    by (simp add: box_line_def Let_def VERTICAL_LINE_def max_def)
qed

lemma box_title_length:
  assumes "0 \<le> maxLength"
    and "\<And>s. title = Some s \<Longrightarrow> int (length s) \<le> maxLength \<and> coloredText t s titleColor = s"
  obtains top where "box_title t title maxLength titleColor = Inr top" and "int (length top) = maxLength + 4"
proof (cases "title = None \<or> title = Some []")
  case True
  then show ?thesis
    using assms(1) by (intro that [of "LEFT_CORNER @ replicate (nat (maxLength + 2)) 0x2550 @ RIGHT_CORNER"])
      (auto simp: box_title_def HORIZONTAL_LINE_def repeat_text_ok LEFT_CORNER_def RIGHT_CORNER_def)
next
  case False
  then obtain c cs where t: "title = Some (c # cs)" by (cases title) (auto simp: neq_Nil_conv)
  let ?p = "maxLength - int (length (c # cs))"
  have p: "0 \<le> ?p" "coloredText t (c # cs) titleColor = c # cs" using assms(2) [OF t] by simp_all
  have "0 \<le> ?p div 2" "0 \<le> ?p - ?p div 2" using p(1) by linarith+
  then show ?thesis using p
    by (intro that [of "LEFT_CORNER @ replicate (nat (?p div 2)) 0x2550 @ [SPACE] @ (c # cs) @ [SPACE]
        @ replicate (nat (?p - ?p div 2)) 0x2550 @ RIGHT_CORNER"])
      (simp_all add: t box_title_def Let_def max_def HORIZONTAL_LINE_def repeat_text_ok LEFT_CORNER_def RIGHT_CORNER_def)
qed

end
