(* ===== verification/Cli_Errors.thy ===== *)
theory Cli_Errors
  imports Sdk_Address
begin

text \<open>
  What the command line makes of an error:
  \<open>packages/validator-bonds-cli-core/src/errorTranslators.ts\<close>, \<open>errorClass\<close> of
  \<open>cliUsage.ts\<close> and \<open>isExpectedAnchorTransactionError\<close> of \<open>utils.ts\<close>.

  An error is an object with an identity and may have another one as its cause, so errors
  live in a store: \<open>heap\<close> lists the objects under their references. A thrown value that is
  no error is an object of class \<open>CNotError\<close>. \<open>eo_full\<close> is what \<open>messageWithCause()\<close> of an
  \<open>ExecutionError\<close> answers and \<open>eo_transactionMessage\<close> the message of the transaction error
  of a \<open>SendTransactionError\<close>; both belong to libraries.
\<close>

datatype err_class = CError | CCliCommandError | CExecutionError | CSolanaJSONRPCError
  | CSendTransactionError | CNotError

datatype err_code = CodeNumber int | CodeText string | CodeNone

record err_obj =
  eo_class :: err_class
  eo_name :: string
  eo_message :: string
  eo_code :: err_code
  eo_cause :: "nat option"
  eo_logs :: "string list"
  eo_full :: string
  eo_transactionMessage :: "string option"

type_synonym heap = "(nat \<times> err_obj) list"

definition is_error :: "err_obj \<Rightarrow> bool" where
  "is_error e \<longleftrightarrow> eo_class e \<noteq> CNotError"

section \<open>The chain of causes\<close>

text \<open>The loop follows \<open>cause\<close> until it is falsy or was seen before.\<close>

function cause_loop :: "heap \<Rightarrow> nat list \<Rightarrow> nat option \<Rightarrow> nat list" where
  "cause_loop h seen None = []"
| "cause_loop h seen (Some r) =
     (if r \<in> set seen then []
      else (case map_of h r of None \<Rightarrow> []
        | Some e \<Rightarrow> r # cause_loop h (r # seen) (eo_cause e)))"
  by pat_completeness auto
termination
proof (relation "measure (\<lambda>(h, seen, _). card (set (map fst h) - set seen))")
  show "wf (measure (\<lambda>(h, seen, _). card (set (map fst h) - set seen)))" by simp
next
  fix h :: heap and seen r e
  assume "r \<notin> set seen" and "map_of h r = Some e"
  then have "r \<in> set (map fst h) - set seen" by (auto dest: map_of_SomeD simp: rev_image_eqI)
  then have "card (set (map fst h) - set (r # seen)) < card (set (map fst h) - set seen)"
    by (intro psubset_card_mono) auto
  then show "((h, r # seen, eo_cause e), h, seen, Some r) \<in> measure (\<lambda>(h, seen, _). card (set (map fst h) - set seen))"
    by simp
qed

definition getCauseChain :: "heap \<Rightarrow> nat \<Rightarrow> err_obj list" where
  "getCauseChain h err = List.map_filter (map_of h) (cause_loop h [] (Some err))"

definition getRpcErrorCode :: "heap \<Rightarrow> nat \<Rightarrow> int option" where
  "getRpcErrorCode h err =
     (case List.find (\<lambda>e. eo_class e = CSolanaJSONRPCError \<and> (case eo_code e of CodeNumber _ \<Rightarrow> True | _ \<Rightarrow> False))
         (getCauseChain h err) of
        None \<Rightarrow> None
      | Some e \<Rightarrow> (case eo_code e of CodeNumber n \<Rightarrow> Some n | _ \<Rightarrow> None))"

definition evidenceMessage :: "heap \<Rightarrow> nat \<Rightarrow> string" where
  "evidenceMessage h err = (case map_of h err of None \<Rightarrow> ''''
     | Some e \<Rightarrow>
         (case (if eo_class e = CCliCommandError \<or> eo_class e = CExecutionError
            then (case eo_cause e of None \<Rightarrow> None | Some c \<Rightarrow> map_of h c) else Some e) of
            None \<Rightarrow> ''''
          | Some evidence \<Rightarrow> if is_error evidence then eo_message evidence else ''''))"

section \<open>Searching in texts\<close>

definition lower_char :: "char \<Rightarrow> char" where
  "lower_char c = (let n = (of_char c :: nat) in if 65 \<le> n \<and> n \<le> 90 then char_of (n + 32) else c)"

text \<open>A pattern of ASCII letters with the flag \<open>i\<close>.\<close>

definition includes_ci :: "string \<Rightarrow> string \<Rightarrow> bool" where
  "includes_ci pat s \<longleftrightarrow> includes_str (map lower_char pat) (map lower_char s)"

definition is_word_char :: "char \<Rightarrow> bool" where
  "is_word_char c \<longleftrightarrow> (let n = (of_char c :: nat) in
     48 \<le> n \<and> n \<le> 57 \<or> 65 \<le> n \<and> n \<le> 90 \<or> 97 \<le> n \<and> n \<le> 122 \<or> n = 95)"

text \<open>\<open>/\bPAT\b/\<close> for a pattern of word characters; the first argument says whether the
  character before is one.\<close>

fun has_word :: "bool \<Rightarrow> string \<Rightarrow> string \<Rightarrow> bool" where
  "has_word prev pat [] = False"
| "has_word prev pat (c # cs) =
     (\<not> prev \<and> starts_with pat (c # cs)
        \<and> (case drop (length pat) (c # cs) of [] \<Rightarrow> True | d # _ \<Rightarrow> \<not> is_word_char d)
      \<or> has_word (is_word_char c) pat cs)"

text \<open>\<open>/insufficient lamports (\d+), need (\d+)/\<close>: the groups of the first match.\<close>

definition insufficient_at :: "string \<Rightarrow> (string \<times> string) option" where
  "insufficient_at s =
     (let pre = ''insufficient lamports ''; mid = '', need '' in
      if \<not> starts_with pre s then None
      else (let rest = drop (length pre) s; a = takeWhile is_digit rest; rest2 = drop (length a) rest
            in if a = [] \<or> \<not> starts_with mid rest2 then None
               else (let b = takeWhile is_digit (drop (length mid) rest2)
                     in if b = [] then None else Some (a, b))))"

fun insufficientMatch :: "string \<Rightarrow> (string \<times> string) option" where
  "insufficientMatch [] = None"
| "insufficientMatch (c # cs) = (case insufficient_at (c # cs) of
       Some m \<Rightarrow> Some m | None \<Rightarrow> insufficientMatch cs)"

section \<open>The translators\<close>

text \<open>The arguments of the failed transaction that matter; a signer without a key makes
  \<open>pubkey\<close> throw.\<close>

record tx_args =
  ta_feePayer :: "pubkey option"
  ta_signers :: "pubkey option list"

record translate_ctx =
  tc_rpcEndpoint :: "string option"
  tc_txArgs :: "tx_args option"
  tc_RPC_URL_set :: bool

record cli_command_error =
  ce_valueName :: string
  ce_value :: string
  ce_msg :: string
  ce_cause :: nat

definition newline :: string where "newline = [CHR 0x0A]"

definition buildRpcRemediationMsg :: "translate_ctx \<Rightarrow> string \<Rightarrow> string" where
  "buildRpcRemediationMsg ctx msg = msg @ newline
     @ ''  Pass a valid RPC URL with `-u <url>` (e.g. `-u mainnet`, `-u devnet`, or `-u <https-url>`).'' @ newline
     @ ''  RPC_URL env var is '' @ (if tc_RPC_URL_set ctx then ''set'' else ''not set'') @ ''.''"

definition resolveFeePayer :: "tx_args \<Rightarrow> pubkey option" where
  "resolveFeePayer args = (case ta_feePayer args of Some k \<Rightarrow> Some k
     | None \<Rightarrow> (case ta_signers args of [] \<Rightarrow> None | s # _ \<Rightarrow> s))"

definition endpoint_of :: "translate_ctx \<Rightarrow> string" where
  "endpoint_of ctx = orElse (tc_rpcEndpoint ctx) ''the configured RPC endpoint''"

definition url_error :: "translate_ctx \<Rightarrow> nat \<Rightarrow> string \<Rightarrow> cli_command_error" where
  "url_error ctx err msg = \<lparr> ce_valueName = ''--url'', ce_value = endpoint_of ctx,
     ce_msg = buildRpcRemediationMsg ctx msg, ce_cause = err \<rparr>"

definition network_code :: "err_obj \<Rightarrow> string option" where
  "network_code e = (case eo_code e of
       CodeText c \<Rightarrow> if c \<in> {''ECONNREFUSED'', ''ENOTFOUND'', ''ETIMEDOUT'', ''EAI_AGAIN''} then Some c else None
     | _ \<Rightarrow> None)"

definition network_reason :: "string \<Rightarrow> string \<Rightarrow> string" where
  "network_reason code endpoint =
     (if code = ''ECONNREFUSED'' then ''Nothing listening at '' @ endpoint
      else if code = ''ENOTFOUND'' \<or> code = ''EAI_AGAIN'' then ''Cannot resolve host of '' @ endpoint
      else if code = ''ETIMEDOUT'' then ''RPC at '' @ endpoint @ '' did not respond (timeout)''
      else ''Cannot reach RPC at '' @ endpoint)"

definition translateRpcConnectivityError :: "heap \<Rightarrow> nat \<Rightarrow> translate_ctx \<Rightarrow> cli_command_error option" where
  "translateRpcConnectivityError h err ctx =
     (let endpoint = endpoint_of ctx; code = getRpcErrorCode h err; message = evidenceMessage h err in
      if code = Some (-32601) \<or> includes_ci ''method not found'' message
      then Some (url_error ctx err (''Endpoint at '' @ endpoint
        @ '' is not a Solana RPC (JSON-RPC method is not implemented; original error: '' @ message @ '').''))
      else (case List.find (\<lambda>e. network_code e \<noteq> None) (getCauseChain h err) of
          Some e \<Rightarrow> (let c = orElse (network_code e) '''' in
            Some (url_error ctx err (network_reason c endpoint @ '' (network error: '' @ c @ '').'')))
        | None \<Rightarrow>
            if includes_ci ''fetch failed'' message \<or> includes_ci ''failed to fetch'' message
            then Some (url_error ctx err (''Cannot reach RPC at '' @ endpoint @ '' (original error: '' @ message @ '').''))
            else None))"

definition translateRpcRateLimitError :: "heap \<Rightarrow> nat \<Rightarrow> translate_ctx \<Rightarrow> cli_command_error option" where
  "translateRpcRateLimitError h err ctx =
     (let endpoint = endpoint_of ctx; code = getRpcErrorCode h err; message = evidenceMessage h err in
      if code = Some (-32005) \<or> code = Some (-32429) \<or> has_word False ''429'' message
      then Some (url_error ctx err (''Solana RPC at '' @ endpoint @ '' is rate-limited or unhealthy (original error: ''
        @ message @ ''). Consider switching to a private endpoint.''))
      else None)"

text \<open>Both translators of the fee payer look at an \<open>ExecutionError\<close> of a transaction, in its
  full message and its logs.\<close>

definition execution_text :: "heap \<Rightarrow> nat \<Rightarrow> translate_ctx \<Rightarrow> (tx_args \<times> string) option" where
  "execution_text h err ctx = (case (tc_txArgs ctx, map_of h err) of
       (Some args, Some e) \<Rightarrow> if eo_class e = CExecutionError
         then Some (args, js_join newline (eo_full e # eo_logs e)) else None
     | _ \<Rightarrow> None)"

definition fee_payer_text :: "solana_lib \<Rightarrow> tx_args \<Rightarrow> string" where
  "fee_payer_text sl args = (case resolveFeePayer args of None \<Rightarrow> ''unknown'' | Some k \<Rightarrow> pk_b58 sl k)"

definition translateFeePayerMissingError :: "solana_lib \<Rightarrow> heap \<Rightarrow> nat \<Rightarrow> translate_ctx \<Rightarrow> cli_command_error option" where
  "translateFeePayerMissingError sl h err ctx = (case execution_text h err ctx of
       None \<Rightarrow> None
     | Some (args, allText) \<Rightarrow>
         if \<not> includes_str ''Attempt to debit an account but found no record of a prior credit'' allText then None
         else Some \<lparr> ce_valueName = ''fee-payer'', ce_value = fee_payer_text sl args,
           ce_msg = ''The fee payer account does not exist on-chain.''
             @ '' Make sure the fee payer account is funded with SOL before executing the transaction.'',
           ce_cause = err \<rparr>)"

definition translateInsufficientLamportsError :: "solana_lib \<Rightarrow> heap \<Rightarrow> nat \<Rightarrow> translate_ctx
    \<Rightarrow> cli_command_error option" where
  "translateInsufficientLamportsError sl h err ctx = (case execution_text h err ctx of
       None \<Rightarrow> None
     | Some (args, allText) \<Rightarrow> (case insufficientMatch allText of
           None \<Rightarrow> None
         | Some (balance, needed) \<Rightarrow> Some \<lparr> ce_valueName = ''fee-payer/rent-payer'',
             ce_value = fee_payer_text sl args @ '', balance: '' @ balance @ '' lamports, needed: '' @ needed @ '' lamports'',
             ce_msg = ''The fee payer or rent payer account does not have enough SOL to cover the transaction fees and rent.''
               @ '' Make sure the account is funded before executing the transaction.'',
             ce_cause = err \<rparr>))"

definition KNOWN_ERROR_TRANSLATORS :: "solana_lib
    \<Rightarrow> (heap \<Rightarrow> nat \<Rightarrow> translate_ctx \<Rightarrow> cli_command_error option) list" where
  "KNOWN_ERROR_TRANSLATORS sl = [translateRpcConnectivityError, translateRpcRateLimitError,
     translateFeePayerMissingError sl, translateInsufficientLamportsError sl]"

fun first_translation :: "(heap \<Rightarrow> nat \<Rightarrow> translate_ctx \<Rightarrow> cli_command_error option) list \<Rightarrow> heap \<Rightarrow> nat
    \<Rightarrow> translate_ctx \<Rightarrow> nat + cli_command_error" where
  "first_translation [] h err ctx = Inl err"
| "first_translation (translator # ts) h err ctx = (case translator h err ctx of
       Some translated \<Rightarrow> Inr translated | None \<Rightarrow> first_translation ts h err ctx)"

text \<open>The error itself, or the one that replaces it.\<close>

definition translateKnownError :: "solana_lib \<Rightarrow> heap \<Rightarrow> nat \<Rightarrow> translate_ctx \<Rightarrow> nat + cli_command_error" where
  "translateKnownError sl h err ctx = first_translation (KNOWN_ERROR_TRANSLATORS sl) h err ctx"

section \<open>Classes of errors\<close>

datatype completion_result = ResSuccess | ResTransactionError | ResNetworkError | ResValidationError | ResOther

definition errorClass :: "err_obj \<Rightarrow> completion_result" where
  "errorClass err =
     (if eo_class err = CExecutionError then ResTransactionError
      else if is_error err \<and> eo_name err = ''CommanderError'' then ResValidationError
      else if is_error err \<and> (includes_ci ''ECONNREFUSED'' (eo_message err) \<or> includes_ci ''ETIMEDOUT'' (eo_message err)
          \<or> includes_ci ''ENOTFOUND'' (eo_message err) \<or> includes_ci ''fetch failed'' (eo_message err))
      then ResNetworkError else ResOther)"

text \<open>\<open>/custom program error: 0x([0-9a-fA-F]+)/\<close>: the number of the first match.\<close>

definition custom_at :: "string \<Rightarrow> nat option" where
  "custom_at s =
     (let pre = ''custom program error: 0x''; digits = takeWhile (\<lambda>c. hex_val c \<noteq> None) (drop (length pre) s)
      in if starts_with pre s \<and> digits \<noteq> [] then radix_acc 16 0 digits else None)"

fun customMatch :: "string \<Rightarrow> nat option" where
  "customMatch [] = None"
| "customMatch (c # cs) = (case custom_at (c # cs) of Some n \<Rightarrow> Some n | None \<Rightarrow> customMatch cs)"

text \<open>\<open>errors\<close> is the map of error codes that the SDK builds from the interface description.\<close>

definition isExpectedAnchorTransactionError :: "(nat \<Rightarrow> string option) \<Rightarrow> heap \<Rightarrow> nat \<Rightarrow> string \<Rightarrow> bool" where
  "isExpectedAnchorTransactionError errors h err anchorErrMsg = (case map_of h err of
       None \<Rightarrow> False
     | Some e \<Rightarrow> eo_class e = CExecutionError \<and> (case eo_cause e of
           None \<Rightarrow> False
         | Some c \<Rightarrow> (case map_of h c of
             None \<Rightarrow> False
           | Some s \<Rightarrow> eo_class s = CSendTransactionError \<and> (case eo_transactionMessage s of
                 None \<Rightarrow> False
               | Some m \<Rightarrow> (case customMatch m of
                   None \<Rightarrow> False
                 | Some n \<Rightarrow> (case errors n of
                     None \<Rightarrow> False
                   | Some text \<Rightarrow> includes_ci anchorErrMsg text))))))"

section \<open>The chain lists what is reachable, once\<close>

definition next_cause :: "heap \<Rightarrow> nat \<Rightarrow> nat \<Rightarrow> bool" where
  "next_cause h r s \<longleftrightarrow> (\<exists>e. map_of h r = Some e \<and> eo_cause e = Some s)"

lemma cause_loop_seen: "set (cause_loop h seen r) \<inter> set seen = {}"
proof (induction h seen r rule: cause_loop.induct)
  case (2 h seen r)
  show ?case
  proof (cases "r \<in> set seen \<or> map_of h r = None")
    case True
    then show ?thesis by auto
  next
    case False
    then obtain e where "r \<notin> set seen" "map_of h r = Some e" by auto
    with "2.IH" [OF this] show ?thesis by auto
  qed
qed simp

lemma cause_loop_distinct: "distinct (cause_loop h seen r)"
proof (induction h seen r rule: cause_loop.induct)
  case (2 h seen r)
  then show ?case using cause_loop_seen [of h "r # seen"] by (auto split: option.split)
qed simp

lemma cause_loop_known: "x \<in> set (cause_loop h seen r) \<Longrightarrow> map_of h x \<noteq> None"
  by (induction h seen r rule: cause_loop.induct) (auto split: option.splits if_splits)

lemma cause_loop_reachable:
  "x \<in> set (cause_loop h seen (Some r)) \<Longrightarrow> (next_cause h)\<^sup>*\<^sup>* r x"
proof (induction h seen "Some r" arbitrary: r rule: cause_loop.induct)
  case (2 h seen r)
  show ?case
  proof (cases "x = r")
    case True
    then show ?thesis by simp
  next
    case False
    with "2.prems" obtain e s where e: "r \<notin> set seen" "map_of h r = Some e" "eo_cause e = Some s"
        "x \<in> set (cause_loop h (r # seen) (Some s))"
      by (cases "map_of h r"; cases "eo_cause (the (map_of h r))") (auto split: if_splits)
    have "(next_cause h)\<^sup>*\<^sup>* s x" using "2.hyps" [OF e(1,2,3) e(4)] .
    moreover have "next_cause h r s" using e by (auto simp: next_cause_def)
    ultimately show ?thesis by (rule converse_rtranclp_into_rtranclp [rotated])
  qed
qed

text \<open>What the loop has seen or returns is closed under causes.\<close>

lemma cause_loop_closed:
  assumes "x \<in> set (cause_loop h seen r)" and "next_cause h x y" and "map_of h y \<noteq> None"
  shows "y \<in> set (cause_loop h seen r) \<union> set seen"
  using assms
proof (induction h seen r rule: cause_loop.induct)
  case (1 h seen)
  then show ?case by simp
next
  case (2 h seen r)
  from "2.prems"(1) obtain e where e: "r \<notin> set seen" "map_of h r = Some e"
    by (cases "map_of h r") (auto split: if_splits)
  show ?case
  proof (cases "x = r")
    case True
    then have "eo_cause e = Some y" using "2.prems"(2) e(2) by (simp add: next_cause_def)
    then show ?thesis using e "2.prems"(3) by auto
  next
    case False
    then have "x \<in> set (cause_loop h (r # seen) (eo_cause e))" using "2.prems"(1) e by simp
    from "2.IH" [OF e this "2.prems"(2,3)] e show ?thesis by auto
  qed
qed

text \<open>A store without dangling references.\<close>

definition heap_closed :: "heap \<Rightarrow> bool" where
  "heap_closed h \<longleftrightarrow> (\<forall>(r, e)\<in>set h. case eo_cause e of None \<Rightarrow> True | Some s \<Rightarrow> map_of h s \<noteq> None)"

lemma heap_closed_next: "heap_closed h \<Longrightarrow> next_cause h x y \<Longrightarrow> map_of h y \<noteq> None"
  by (auto simp: heap_closed_def next_cause_def dest!: map_of_SomeD)

lemma cause_loop_exact:
  assumes "heap_closed h" and "map_of h r \<noteq> None"
  shows "set (cause_loop h [] (Some r)) = {x. (next_cause h)\<^sup>*\<^sup>* r x}"
proof
  show "set (cause_loop h [] (Some r)) \<subseteq> {x. (next_cause h)\<^sup>*\<^sup>* r x}"
    using cause_loop_reachable by blast
  have "x \<in> set (cause_loop h [] (Some r))" if "(next_cause h)\<^sup>*\<^sup>* r x" for x
    using that
  proof (induction rule: rtranclp_induct)
    case base
    show ?case using assms(2) by auto
  next
    case (step y z)
    then show ?case using cause_loop_closed [of y h "[]" "Some r" z] heap_closed_next [OF assms(1)] by simp
  qed
  then show "{x. (next_cause h)\<^sup>*\<^sup>* r x} \<subseteq> set (cause_loop h [] (Some r))" by auto
qed

section \<open>The own message of a composed error does not matter\<close>

text \<open>\<open>reworded h r m\<close>: the store after the message of one error was changed.\<close>

definition reworded :: "heap \<Rightarrow> nat \<Rightarrow> string \<Rightarrow> heap" where
  "reworded h r m = map (\<lambda>(k, e). (k, if k = r then e\<lparr>eo_message := m\<rparr> else e)) h"

lemma map_of_reworded: "map_of (reworded h r m) k
    = map_option (\<lambda>e. if k = r then e\<lparr>eo_message := m\<rparr> else e) (map_of h k)"
  by (induction h) (auto simp: reworded_def)

lemma cause_loop_reworded: "cause_loop (reworded h r m) seen x = cause_loop h seen x"
proof (induction h seen x rule: cause_loop.induct)
  case (2 h seen x)
  then show ?case by (cases "map_of h x") (auto simp: map_of_reworded)
qed simp

text \<open>What the searches in the chain read of an error: everything but its message.\<close>

lemma chain_reworded: "getCauseChain (reworded h r m) x
    = map (\<lambda>(k, e). if k = r then e\<lparr>eo_message := m\<rparr> else e)
        (List.map_filter (\<lambda>k. map_option (Pair k) (map_of h k)) (cause_loop h [] (Some x)))"
proof -
  have "List.map_filter (map_of (reworded h r m)) ks
      = map (\<lambda>(k, e). if k = r then e\<lparr>eo_message := m\<rparr> else e)
          (List.map_filter (\<lambda>k. map_option (Pair k) (map_of h k)) ks)" for ks
    by (induction ks) (auto simp: List.map_filter_simps map_of_reworded split: option.split)
  then show ?thesis by (simp only: getCauseChain_def cause_loop_reworded)
qed

lemma chain_pairs: "getCauseChain h x
    = map snd (List.map_filter (\<lambda>k. map_option (Pair k) (map_of h k)) (cause_loop h [] (Some x)))"
proof -
  have "List.map_filter (map_of h) ks = map snd (List.map_filter (\<lambda>k. map_option (Pair k) (map_of h k)) ks)" for ks
    by (induction ks) (auto simp: List.map_filter_simps split: option.split)
  then show ?thesis by (simp add: getCauseChain_def)
qed

lemma find_map_keeps:
  assumes "\<And>x. P (f x) = P (g x)" and "\<And>x. Q (f x) = Q (g x)"
  shows "map_option Q (List.find P (map f xs)) = map_option Q (List.find P (map g xs))"
  using assms by (induction xs) auto

lemma find_chain_reworded:
  assumes "\<And>e. P (e\<lparr>eo_message := m\<rparr>) = P e" and "\<And>e. Q (e\<lparr>eo_message := m\<rparr>) = Q e"
  shows "map_option Q (List.find P (getCauseChain (reworded h r m) x))
    = map_option Q (List.find P (getCauseChain h x))"
  unfolding chain_reworded chain_pairs [of h] by (rule find_map_keeps) (simp_all add: assms split_beta)

lemma evidence_reworded:
  assumes "map_of h r = Some e" and "eo_class e = CCliCommandError \<or> eo_class e = CExecutionError"
    and "eo_cause e \<noteq> Some r"
  shows "evidenceMessage (reworded h r m) r = evidenceMessage h r"
  using assms by (cases "eo_cause e") (auto simp: evidenceMessage_def map_of_reworded is_error_def split: option.split)

lemma rpc_code_reworded: "getRpcErrorCode (reworded h r m) x = getRpcErrorCode h x"
proof -
  let ?P = "\<lambda>e. eo_class e = CSolanaJSONRPCError \<and> (case eo_code e of CodeNumber _ \<Rightarrow> True | _ \<Rightarrow> False)"
  have "map_option eo_code (List.find ?P (getCauseChain (reworded h r m) x))
      = map_option eo_code (List.find ?P (getCauseChain h x))"
    by (rule find_chain_reworded) simp_all
  then show ?thesis unfolding getRpcErrorCode_def
    by (cases "List.find ?P (getCauseChain (reworded h r m) x)"; cases "List.find ?P (getCauseChain h x)") simp_all
qed

lemma network_find_reworded:
  "map_option network_code (List.find (\<lambda>e. network_code e \<noteq> None) (getCauseChain (reworded h r m) x))
    = map_option network_code (List.find (\<lambda>e. network_code e \<noteq> None) (getCauseChain h x))"
  by (rule find_chain_reworded) (simp_all add: network_code_def)

end
