(* ===== verification/Cli_Usage.thy ===== *)
theory Cli_Usage
  imports Js_Json
begin

text \<open>
  The usage records of the command line: \<open>packages/validator-bonds-cli-core/src/cliUsage.ts\<close>.

  The variables of the module are the state here: what was recorded about the transactions of
  the command (\<open>tx_data\<close>) and the identifier of the installation. Keys are base58 texts.
  Recording is switched off by the environment. The random identifiers, the clock and the
  platform are arguments; the request that sends a record is not modelled.
\<close>

section \<open>The environment\<close>

definition clusterLabel :: "string option \<Rightarrow> string" where
  "clusterLabel input = (case input of
       None \<Rightarrow> ''custom''
     | Some s \<Rightarrow>
         if s \<in> {''m'', ''mainnet'', ''mainnet-beta''} then ''mainnet''
         else if s \<in> {''d'', ''devnet''} then ''devnet''
         else if s \<in> {''t'', ''testnet''} then ''testnet''
         else if s \<in> {''l'', ''localnet'', ''localhost''} then ''localnet''
         else ''custom'')"

definition MIXPANEL_TOKEN_PLACEHOLDER :: string where
  "MIXPANEL_TOKEN_PLACEHOLDER = js_join '''' [''__'', ''MIXPANEL_TOKEN_PLACEHOLDER'', ''__'']"

text \<open>\<open>ue_buildToken\<close> is \<open>BUILD_TIME_MIXPANEL_TOKEN\<close>, the literal that the release build rewrites;
  it is the placeholder in the repository.\<close>

record usage_env =
  ue_DO_NOT_TRACK :: "string option"
  ue_MIXPANEL_TOKEN_TEST :: "string option"
  ue_buildToken :: string

definition getMixpanelToken :: "usage_env \<Rightarrow> string option" where
  "getMixpanelToken env =
     (let resolved = (case ue_MIXPANEL_TOKEN_TEST env of
          Some t \<Rightarrow> if 0 < length t then t else ue_buildToken env
        | None \<Rightarrow> ue_buildToken env)
      in if resolved = MIXPANEL_TOKEN_PLACEHOLDER then None else Some resolved)"

definition isTelemetryDisabled :: "usage_env \<Rightarrow> bool" where
  "isTelemetryDisabled env =
     (if ue_DO_NOT_TRACK env = Some ''1'' then True
      else if getMixpanelToken env = None then True else False)"

section \<open>What a command records\<close>

record resolved_accounts =
  ra_bondAccount :: "string option"
  ra_voteAccount :: "string option"
  ra_configAccount :: "string option"
  ra_stakeAccount :: "string option"
  ra_withdrawRequestAccount :: "string option"

record tx_data = resolved_accounts +
  td_signatures :: "string list"
  td_signaturesTruncated :: bool
  td_amountLamports :: "string option"

definition empty_tx_data :: tx_data where
  "empty_tx_data = \<lparr> ra_bondAccount = None, ra_voteAccount = None, ra_configAccount = None,
     ra_stakeAccount = None, ra_withdrawRequestAccount = None,
     td_signatures = [], td_signaturesTruncated = False, td_amountLamports = None \<rparr>"

definition SIGNATURE_CAP :: nat where "SIGNATURE_CAP = 20"

definition recordTxSignature :: "usage_env \<Rightarrow> string \<Rightarrow> tx_data \<Rightarrow> tx_data" where
  "recordTxSignature env signature d =
     (if isTelemetryDisabled env then d
      else if SIGNATURE_CAP \<le> length (td_signatures d) then d\<lparr>td_signaturesTruncated := True\<rparr>
      else d\<lparr>td_signatures := td_signatures d @ [signature]\<rparr>)"

definition recordAmountLamports :: "usage_env \<Rightarrow> string \<Rightarrow> tx_data \<Rightarrow> tx_data" where
  "recordAmountLamports env amountLamports d =
     (if isTelemetryDisabled env then d else d\<lparr>td_amountLamports := Some amountLamports\<rparr>)"

text \<open>An account that is given replaces the recorded one.\<close>

definition recordResolvedAccounts :: "usage_env \<Rightarrow> resolved_accounts \<Rightarrow> tx_data \<Rightarrow> tx_data" where
  "recordResolvedAccounts env accounts d =
     (if isTelemetryDisabled env then d
      else d\<lparr> ra_bondAccount := orOpt (ra_bondAccount accounts) (ra_bondAccount d),
             ra_voteAccount := orOpt (ra_voteAccount accounts) (ra_voteAccount d),
             ra_configAccount := orOpt (ra_configAccount accounts) (ra_configAccount d),
             ra_stakeAccount := orOpt (ra_stakeAccount accounts) (ra_stakeAccount d),
             ra_withdrawRequestAccount := orOpt (ra_withdrawRequestAccount accounts) (ra_withdrawRequestAccount d) \<rparr>)"

text \<open>What was recorded, and the state after it was taken.\<close>

definition drainTxData :: "tx_data \<Rightarrow> tx_data \<times> tx_data" where
  "drainTxData d = (d, empty_tx_data)"

section \<open>The identifier of the installation\<close>

text \<open>\<open>ii_cached\<close> is the variable of the module, \<open>ii_file\<close> the content of the file. An empty
  cached text is false. The directory of the file is absolute or below the home directory.\<close>

definition configDir :: "string option \<Rightarrow> string \<Rightarrow> string" where
  "configDir xdg home = (case xdg of
       Some d \<Rightarrow> if d \<noteq> '''' \<and> starts_with ''/'' d then d else home @ ''/.config''
     | None \<Rightarrow> home @ ''/.config'')"

record install_state =
  ii_cached :: "string option"
  ii_file :: "string option"

definition getOrCreateInstallId :: "string \<Rightarrow> bool \<Rightarrow> install_state \<Rightarrow> string \<times> install_state" where
  "getOrCreateInstallId randomUUID writable s =
     (case ii_cached s of
        Some (c # cs) \<Rightarrow> (c # cs, s)
      | _ \<Rightarrow>
         (case ii_file s of
            Some content \<Rightarrow>
              if 0 < length (trim_str content)
              then (trim_str content, s\<lparr>ii_cached := Some (trim_str content)\<rparr>)
              else (randomUUID, s\<lparr>ii_cached := Some randomUUID,
                ii_file := if writable then Some (randomUUID @ [CHR 0x0A]) else ii_file s\<rparr>)
          | None \<Rightarrow> (randomUUID, s\<lparr>ii_cached := Some randomUUID,
                ii_file := if writable then Some (randomUUID @ [CHR 0x0A]) else None\<rparr>)))"

section \<open>The events\<close>

record base_params =
  bp_cliType :: string
  bp_cliVersion :: string
  bp_operation :: string
  bp_sessionId :: string
  bp_walletPubkey :: "string option"
  bp_installId :: string
  bp_cluster :: string
  bp_simulate :: bool
  bp_printOnly :: bool

record usage_host =
  uh_timeMs :: int
  uh_insertId :: string
  uh_platform :: string
  uh_arch :: string
  uh_version :: string

type_synonym properties = "(string, json) jsmap"

definition buildBaseProperties :: "usage_env \<Rightarrow> usage_host \<Rightarrow> base_params \<Rightarrow> properties" where
  "buildBaseProperties env host p =
     (let distinctId = orElse (bp_walletPubkey p) (bp_installId p);
          props = [(''token'', jstr_opt (getMixpanelToken env)),
            (''time'', JNum (Fin (of_int (uh_timeMs host div 1000)))),
            (''$insert_id'', JStr (uh_insertId host)), (''distinct_id'', JStr distinctId),
            (''$device_id'', JStr (bp_installId p)), (''session_id'', JStr (bp_sessionId p)),
            (''cli_name'', JStr (bp_cliType p)), (''cli_version'', JStr (bp_cliVersion p)),
            (''operation'', JStr (bp_operation p)), (''cluster'', JStr (bp_cluster p)),
            (''simulate'', JBool (bp_simulate p)), (''print_only'', JBool (bp_printOnly p)),
            (''os'', JStr (uh_platform host)), (''arch'', JStr (uh_arch host)),
            (''node_version'', JStr (uh_version host))]
      in (case bp_walletPubkey p of
            Some (c # cs) \<Rightarrow> jsmap_set ''$user_id'' (JStr (c # cs)) props
          | _ \<Rightarrow> props))"

text \<open>The properties of the event that is sent, unless recording is off.\<close>

definition recordCliCommand :: "usage_env \<Rightarrow> usage_host \<Rightarrow> base_params \<Rightarrow> string option \<Rightarrow> string option
    \<Rightarrow> properties option" where
  "recordCliCommand env host p account accountField =
     (if isTelemetryDisabled env then None
      else (let properties = buildBaseProperties env host p in
        Some (case account of
            Some (c # cs) \<Rightarrow> jsmap_set (orElse accountField ''account'') (JStr (c # cs)) properties
          | _ \<Rightarrow> properties)))"

definition set_if :: "string \<Rightarrow> json option \<Rightarrow> properties \<Rightarrow> properties" where
  "set_if name v ps = (case v of None \<Rightarrow> ps | Some x \<Rightarrow> jsmap_set name x ps)"

definition result_text :: "tx_data \<Rightarrow> (string \<times> json option) list" where
  "result_text d =
     [(''signatures'', if 0 < length (td_signatures d) then Some (JArr (map JStr (td_signatures d))) else None),
      (''signatures_truncated'', if td_signaturesTruncated d then Some (JBool True) else None),
      (''amount_lamports'', map_option JStr (td_amountLamports d)),
      (''bond_account'', map_option JStr (ra_bondAccount d)),
      (''vote_account'', map_option JStr (ra_voteAccount d)),
      (''config_account'', map_option JStr (ra_configAccount d)),
      (''stake_account'', map_option JStr (ra_stakeAccount d)),
      (''withdraw_request_account'', map_option JStr (ra_withdrawRequestAccount d))]"

definition recordCliCommandComplete :: "usage_env \<Rightarrow> usage_host \<Rightarrow> base_params \<Rightarrow> string \<Rightarrow> int \<Rightarrow> tx_data
    \<Rightarrow> properties option" where
  "recordCliCommandComplete env host p result durationMs d =
     (if isTelemetryDisabled env then None
      else (let properties = jsmap_set ''duration_ms'' (JNum (Fin (of_int durationMs)))
              (jsmap_set ''result'' (JStr result) (buildBaseProperties env host p))
        in Some (foldl (\<lambda>ps (name, v). set_if name v ps) properties (result_text d))))"

section \<open>What is recorded\<close>

text \<open>Recording a list of signatures keeps the first ones and notes when some were dropped.\<close>

lemma recordTxSignature_all:
  assumes "\<not> isTelemetryDisabled env"
  shows "fold (recordTxSignature env) ss empty_tx_data
    = empty_tx_data\<lparr>td_signatures := take SIGNATURE_CAP ss, td_signaturesTruncated := SIGNATURE_CAP < length ss\<rparr>"
proof (induction ss rule: rev_induct)
  case Nil
  then show ?case by (simp add: empty_tx_data_def)
next
  case (snoc s ss)
  then show ?case using assms by (auto simp: recordTxSignature_def empty_tx_data_def)
qed

lemma record_disabled:
  assumes "isTelemetryDisabled env"
  shows "recordTxSignature env s d = d" "recordAmountLamports env a d = d" "recordResolvedAccounts env r d = d"
  using assms by (simp_all add: recordTxSignature_def recordAmountLamports_def recordResolvedAccounts_def)

text \<open>An identifier without white space survives a restart, which clears the variable.\<close>

lemma trim_newline:
  assumes "u \<noteq> []" and "\<forall>c\<in>set u. \<not> is_ws c"
  shows "trim_str (u @ [CHR 0x0A]) = u"
proof -
  have d: "dropWhile is_ws (u @ [CHR 0x0A]) = u @ [CHR 0x0A]"
    using assms by (cases u) simp_all
  have "dropWhile is_ws (rev u) = rev u"
    using assms by (cases "rev u") (auto dest: arg_cong [where f = set])
  then show ?thesis using d by (simp add: trim_str_def is_ws_def)
qed

lemma install_id_survives:
  assumes "getOrCreateInstallId uuid True s = (i, s')" and "uuid \<noteq> []" and "\<forall>c\<in>set uuid. \<not> is_ws c"
    and "ii_cached s = None"
  shows "fst (getOrCreateInstallId uuid' w (s'\<lparr>ii_cached := None\<rparr>)) = i"
    and "fst (getOrCreateInstallId uuid' w s') = i"
proof -
  have t: "trim_str (uuid @ [CHR 0x0A]) = uuid" using assms by (simp add: trim_newline)
  show "fst (getOrCreateInstallId uuid' w (s'\<lparr>ii_cached := None\<rparr>)) = i"
    using assms t by (auto simp: getOrCreateInstallId_def split: option.splits if_splits)
  show "fst (getOrCreateInstallId uuid' w s') = i"
    using assms by (auto simp: getOrCreateInstallId_def neq_Nil_conv split: option.splits if_splits list.splits)
qed

end
