(* ===== verification/Cli_Resolve.thy ===== *)
theory Cli_Resolve
  imports Sdk_Complete
begin

text \<open>
  Finding the bond or the withdraw request an address of the user stands for:
  \<open>getBondFromAddress\<close> and \<open>getWithdrawRequestFromAddress\<close> of
  \<open>packages/validator-bonds-cli-core/src/utils.ts\<close>, and \<open>commands/address.ts\<close>.

  Any account of the cluster is read through \<open>st_get\<close>; the accounts of the program are decoded
  by the decoder of their \<open>rpc\<close>. \<open>cl_parseVote\<close> is \<open>getVoteAccountFromData\<close> of web3js-1x (it throws
  when the account is no vote account), \<open>cl_voteAccounts\<close> the request for accounts of the vote
  program. A \<open>CliCommandError\<close> is modelled with its message only. The log lines are left out.
\<close>

record vote_show =
  vs_nodePubkey :: pubkey
  vs_authorizedWithdrawer :: pubkey
  vs_commission :: int

record cli_lib =
  cl_chain :: bonds_chain
  cl_system :: pubkey
  cl_voteProgram :: pubkey
  cl_voteAccounts :: "memcmp list \<Rightarrow> (pubkey \<times> byte list) list"
  cl_parseVote :: "pubkey \<Rightarrow> raw_account \<Rightarrow> vote_show res"

definition getAccountInfo :: "cli_lib \<Rightarrow> pubkey \<Rightarrow> raw_account option" where
  "getAccountInfo cl k = st_get (bc_stake (cl_chain cl)) k"

definition isVoteAccount :: "cli_lib \<Rightarrow> pubkey \<Rightarrow> raw_account \<Rightarrow> pubkey option" where
  "isVoteAccount cl address accountInfo = (case cl_parseVote cl address accountInfo of
       Inr _ \<Rightarrow> Some address | Inl _ \<Rightarrow> None)"

definition decodeWithdrawRequest :: "cli_lib \<Rightarrow> raw_account \<Rightarrow> withdraw_data res" where
  "decodeWithdrawRequest cl accountInfo = rpc_decode (bc_withdraws (cl_chain cl)) (ra_data accountInfo)"

text \<open>Deserializing a stake account may throw; \<open>None\<close> is a stake account without delegation.\<close>

definition delegated_vote :: "cli_lib \<Rightarrow> raw_account \<Rightarrow> pubkey option res" where
  "delegated_vote cl accountInfo =
     rbind (deserializeStakeState (bc_stake (cl_chain cl)) (Some (ra_data accountInfo))) (\<lambda>st.
       Inr (map_option sd_voter (getDelegation st)))"

definition config_or_default :: "solana_lib \<Rightarrow> pubkey option \<Rightarrow> pubkey res" where
  "config_or_default sl config = (case config of Some c \<Rightarrow> Inr c | None \<Rightarrow> MARINADE_CONFIG_ADDRESS sl)"

section \<open>The bond of an address\<close>

text \<open>The steps of \<open>getBondFromAddress\<close>. The first one finds the account, or the one vote
  account of a validator identity, and says whether it is a vote account. Of the vote account
  of an identity only the owner matters later.\<close>

definition bond_start :: "cli_lib \<Rightarrow> pubkey \<Rightarrow> raw_account option \<Rightarrow> (pubkey option \<times> raw_account) res" where
  "bond_start cl address accountInfo =
     (let by_identity = (case findVoteAccountByIdentity (cl_voteAccounts cl) address of
          None \<Rightarrow> throw ECliCommand (''Provided address is neither a bond, vote account, withdraw request, ''
            @ ''stake account nor validator identity'')
        | Some (v, data) \<Rightarrow> Inr (Some v, \<lparr> ra_owner = cl_voteProgram cl, ra_lamports = 0, ra_data = data \<rparr>))
      in case accountInfo of
           None \<Rightarrow> by_identity
         | Some info \<Rightarrow> if ra_owner info = cl_system cl then by_identity
             else Inr (isVoteAccount cl address info, info))"

definition bond_of_request :: "cli_lib \<Rightarrow> pubkey \<Rightarrow> pubkey option \<Rightarrow> raw_account \<Rightarrow> (pubkey \<times> raw_account) res" where
  "bond_of_request cl address voteAccount info =
     (case (voteAccount, decodeWithdrawRequest cl info) of
        (None, Inr d) \<Rightarrow> (case getAccountInfo cl (wd_bond d) of
            None \<Rightarrow> throw ECliCommand ''Bond account address taken from provided withdraw request was not found''
          | Some bondInfo \<Rightarrow> Inr (wd_bond d, bondInfo))
      | _ \<Rightarrow> Inr (address, info))"

definition vote_of_stake :: "cli_lib \<Rightarrow> pubkey option \<Rightarrow> raw_account \<Rightarrow> pubkey option res" where
  "vote_of_stake cl voteAccount info =
     (if ra_owner info = st_program (bc_stake (cl_chain cl))
      then (case delegated_vote cl info of
          Inr (Some v) \<Rightarrow> Inr (Some v)
        | _ \<Rightarrow> throw ECliCommand (''Provided address is a stake account but it is not delegated or cannot be deserialized. ''
            @ ''Please provide a bond account or vote account to fetch bond data.''))
      else Inr voteAccount)"

definition bond_of_vote :: "solana_lib \<Rightarrow> cli_lib \<Rightarrow> pubkey option \<Rightarrow> pubkey \<Rightarrow> pubkey option \<Rightarrow> raw_account
    \<Rightarrow> (pubkey \<times> raw_account) res" where
  "bond_of_vote sl cl config address voteAccount info = (case voteAccount of
       None \<Rightarrow> Inr (address, info)
     | Some v \<Rightarrow>
         rbind (config_or_default sl config) (\<lambda>c.
         rbind (bondAddress sl c v (bc_programId (cl_chain cl))) (\<lambda>b.
         (case getAccountInfo cl (fst b) of
            None \<Rightarrow> throw ECliCommand ''Bond account address derived from provided vote account was not found''
          | Some bondInfo \<Rightarrow> Inr (fst b, bondInfo)))))"

definition decode_bond :: "cli_lib \<Rightarrow> pubkey \<Rightarrow> raw_account \<Rightarrow> (pubkey \<times> bond_data) res" where
  "decode_bond cl address info = (case rpc_decode (bc_bonds (cl_chain cl)) (ra_data info) of
       Inr d \<Rightarrow> Inr (address, d)
     | Inl _ \<Rightarrow> throw ECliCommand (''Failed to decode the address as bond account data. ''
         @ ''It is not a bond, vote, identity or withdraw account.''))"

text \<open>The address may come with its account; then it is not fetched.\<close>

definition getBondFromAddress :: "solana_lib \<Rightarrow> cli_lib \<Rightarrow> pubkey option \<Rightarrow> raw_account option \<Rightarrow> pubkey
    \<Rightarrow> (pubkey \<times> bond_data) res" where
  "getBondFromAddress sl cl config given address =
     rbind (bond_start cl address (orOpt given (getAccountInfo cl address))) (\<lambda>(vote, info).
     rbind (bond_of_request cl address vote info) (\<lambda>(address, info).
     rbind (vote_of_stake cl vote info) (\<lambda>vote.
     rbind (bond_of_vote sl cl config address vote info) (\<lambda>(address, info).
     decode_bond cl address info))))"

section \<open>The withdraw request of an address\<close>

definition checkAccountExistence :: "cli_lib \<Rightarrow> pubkey \<Rightarrow> string \<Rightarrow> raw_account res" where
  "checkAccountExistence cl address errorMsg = (case getAccountInfo cl address of
       None \<Rightarrow> throw ECliCommand (''Address does not exist on-chain (RPC endpoint: ''
         @ st_endpoint (bc_stake (cl_chain cl)) @ ''): '' @ errorMsg)
     | Some info \<Rightarrow> Inr info)"

text \<open>The vote account of an address that is no withdraw request: the address itself or, for a
  stake account, the one it is delegated to. Here a failure is only logged.\<close>

definition request_vote :: "cli_lib \<Rightarrow> pubkey \<Rightarrow> raw_account \<Rightarrow> pubkey option" where
  "request_vote cl address info = (case isVoteAccount cl address info of
       Some v \<Rightarrow> Some v
     | None \<Rightarrow> if ra_owner info = st_program (bc_stake (cl_chain cl))
         then (case delegated_vote cl info of Inr v \<Rightarrow> v | Inl _ \<Rightarrow> None) else None)"

definition getWithdrawRequestFromAddress :: "solana_lib \<Rightarrow> cli_lib \<Rightarrow> pubkey option \<Rightarrow> pubkey
    \<Rightarrow> (pubkey \<times> withdraw_data) res" where
  "getWithdrawRequestFromAddress sl cl config address =
     rbind (checkAccountExistence cl address ''type of voteAccount or bond or withdrawRequest'') (\<lambda>info.
     (case decodeWithdrawRequest cl info of
        Inr d \<Rightarrow> Inr (address, d)
      | Inl _ \<Rightarrow>
         rbind (case request_vote cl address info of
             None \<Rightarrow> Inr address
           | Some v \<Rightarrow> rbind (config_or_default sl config) (\<lambda>c.
               rbind (bondAddress sl c v (bc_programId (cl_chain cl))) (\<lambda>b. Inr (fst b)))) (\<lambda>bond.
         rbind (withdrawRequestAddress sl bond (bc_programId (cl_chain cl))) (\<lambda>w.
         rbind (checkAccountExistence cl (fst w) (''WithdrawRequest generated from bond address ''
           @ pk_b58 sl bond @ '' does not exist'')) (\<lambda>requestInfo.
         (case decodeWithdrawRequest cl requestInfo of
            Inr d \<Rightarrow> Inr (fst w, d)
          | Inl _ \<Rightarrow> throw ECliCommand ''Failed to fetch withdraw request account data''))))))"

definition loadTestingVoteAccount :: "cli_lib \<Rightarrow> pubkey \<Rightarrow> vote_show res" where
  "loadTestingVoteAccount cl voteAccount = (case getAccountInfo cl voteAccount of
       None \<Rightarrow> throw EAssertion ''Vote account not found''
     | Some info \<Rightarrow> cl_parseVote cl voteAccount info)"

text \<open>The line that \<open>bond-address\<close> prints.\<close>

definition showBondAddress :: "solana_lib \<Rightarrow> pubkey \<Rightarrow> pubkey \<Rightarrow> pubkey \<Rightarrow> string res" where
  "showBondAddress sl programId address config =
     (case rbind (bondAddress sl config address programId) (\<lambda>(bond, bondBump).
        rbind (withdrawRequestAddress sl bond programId) (\<lambda>(wr, wrBump).
        Inr (''Bond account address: '' @ pk_b58 sl bond @ '' [bump: '' @ nat_str bondBump
          @ ''], withdraw request address: '' @ pk_b58 sl wr @ '' [bump: '' @ nat_str wrBump @ '']''))) of
        Inr s \<Rightarrow> Inr s
      | Inl _ \<Rightarrow> throw ECliCommand ''Error while deriving bond account address from vote account address'')"

section \<open>Every address of a bond leads to it\<close>

text \<open>\<open>bond_on cl b d\<close>: the account at \<open>b\<close> is a bond with data \<open>d\<close>, and nothing else.\<close>

definition bond_on :: "cli_lib \<Rightarrow> pubkey \<Rightarrow> bond_data \<Rightarrow> bool" where
  "bond_on cl b d \<longleftrightarrow> (case getAccountInfo cl b of None \<Rightarrow> False
     | Some i \<Rightarrow> ra_owner i \<noteq> cl_system cl \<and> ra_owner i \<noteq> st_program (bc_stake (cl_chain cl))
         \<and> isVoteAccount cl b i = None \<and> \<not> is_ok (decodeWithdrawRequest cl i)
         \<and> rpc_decode (bc_bonds (cl_chain cl)) (ra_data i) = Inr d)"

text \<open>The addresses that stand for the bond \<open>b\<close>: its own, the one of its vote account, of a
  withdraw request, of a stake account delegated to the vote account, and the identity of the
  validator. The last rules need the configuration the user gave to be the bond's.\<close>

inductive leads_to :: "cli_lib \<Rightarrow> pubkey \<Rightarrow> bond_data \<Rightarrow> bool \<Rightarrow> pubkey \<Rightarrow> bool"
  for cl b d where
  bond: "leads_to cl b d same b"
| request: "getAccountInfo cl w = Some i \<Longrightarrow> ra_owner i \<noteq> cl_system cl \<Longrightarrow> isVoteAccount cl w i = None
    \<Longrightarrow> decodeWithdrawRequest cl i = Inr r \<Longrightarrow> wd_bond r = b \<Longrightarrow> leads_to cl b d same w"
| vote: "getAccountInfo cl v = Some i \<Longrightarrow> ra_owner i \<noteq> cl_system cl
    \<Longrightarrow> ra_owner i \<noteq> st_program (bc_stake (cl_chain cl)) \<Longrightarrow> isVoteAccount cl v i = Some v
    \<Longrightarrow> v = bd_voteAccount d \<Longrightarrow> leads_to cl b d True v"
| stake: "getAccountInfo cl s = Some i \<Longrightarrow> ra_owner i = st_program (bc_stake (cl_chain cl))
    \<Longrightarrow> ra_owner i \<noteq> cl_system cl \<Longrightarrow> isVoteAccount cl s i = None \<Longrightarrow> \<not> is_ok (decodeWithdrawRequest cl i)
    \<Longrightarrow> delegated_vote cl i = Inr (Some (bd_voteAccount d)) \<Longrightarrow> leads_to cl b d True s"
| identity: "(case getAccountInfo cl k of None \<Rightarrow> True | Some i \<Rightarrow> ra_owner i = cl_system cl)
    \<Longrightarrow> findVoteAccountByIdentity (cl_voteAccounts cl) k = Some (bd_voteAccount d, data)
    \<Longrightarrow> cl_voteProgram cl \<noteq> st_program (bc_stake (cl_chain cl)) \<Longrightarrow> leads_to cl b d True k"

lemma vote_reaches_bond:
  assumes "bond_on cl b d" and "config_or_default sl config = Inr (bd_config d)"
    and "bondAddress sl (bd_config d) (bd_voteAccount d) (bc_programId (cl_chain cl)) = Inr (b, n)"
  shows "rbind (bond_of_vote sl cl config a (Some (bd_voteAccount d)) i) (\<lambda>(address, info). decode_bond cl address info)
    = Inr (b, d)"
  using assms by (auto simp: bond_of_vote_def bond_on_def decode_bond_def split: option.splits)

lemma leads_to_bond:
  assumes "leads_to cl b d same k" and "bond_on cl b d"
    and "same \<Longrightarrow> config_or_default sl config = Inr (bd_config d)"
    and "bondAddress sl (bd_config d) (bd_voteAccount d) (bc_programId (cl_chain cl)) = Inr (b, n)"
  shows "getBondFromAddress sl cl config None k = Inr (b, d)"
  using assms(1)
proof cases
  case bond
  then show ?thesis using assms(2)
    by (auto simp: getBondFromAddress_def bond_on_def bond_start_def bond_of_request_def vote_of_stake_def
        bond_of_vote_def decode_bond_def is_ok_def split: option.splits sum.splits)
next
  case (request i r)
  then show ?thesis using assms(2)
    by (auto simp: getBondFromAddress_def bond_on_def bond_start_def bond_of_request_def vote_of_stake_def
        bond_of_vote_def decode_bond_def split: option.splits)
next
  case (vote i)
  then show ?thesis using vote_reaches_bond [OF assms(2) assms(3) assms(4)]
    by (simp add: getBondFromAddress_def bond_start_def bond_of_request_def vote_of_stake_def)
next
  case (stake i)
  then show ?thesis using vote_reaches_bond [OF assms(2) assms(3) assms(4)]
    by (auto simp: getBondFromAddress_def bond_start_def bond_of_request_def vote_of_stake_def is_ok_def
        split: sum.splits)
next
  case (identity data)
  then show ?thesis using vote_reaches_bond [OF assms(2) assms(3) assms(4)]
    by (auto simp: getBondFromAddress_def bond_start_def bond_of_request_def vote_of_stake_def
        split: option.splits)
qed

text \<open>A result is always a bond that is on the cluster at the address that is returned.\<close>

lemma getBondFromAddress_sound:
  assumes "getBondFromAddress sl cl config None k = Inr (b, d)"
  shows "\<exists>i. getAccountInfo cl b = Some i \<and> rpc_decode (bc_bonds (cl_chain cl)) (ra_data i) = Inr d"
proof -
  from assms obtain vote info a1 i1 v2 a2 i2 where
    1: "bond_start cl k (getAccountInfo cl k) = Inr (vote, info)" and
    2: "bond_of_request cl k vote info = Inr (a1, i1)" and
    3: "vote_of_stake cl vote i1 = Inr v2" and
    4: "bond_of_vote sl cl config a1 v2 i1 = Inr (a2, i2)" and
    5: "decode_bond cl a2 i2 = Inr (b, d)"
    by (auto simp: getBondFromAddress_def rbind_eq_Inr)
  have d: "rpc_decode (bc_bonds (cl_chain cl)) (ra_data i2) = Inr d" "a2 = b"
    using 5 by (auto simp: decode_bond_def split: sum.splits)
  have "getAccountInfo cl a2 = Some i2"
  proof (cases v2)
    case (Some v)
    then show ?thesis using 4 by (auto simp: bond_of_vote_def rbind_eq_Inr split: option.splits)
  next
    case None
    then have a: "a2 = a1" "i2 = i1" using 4 by (simp_all add: bond_of_vote_def)
    have "vote = None" using 3 None by (auto simp: vote_of_stake_def split: if_splits sum.splits option.splits)
    then show ?thesis using 1 2 a
      by (auto simp: bond_start_def bond_of_request_def Let_def split: option.splits if_splits sum.splits prod.splits)
  qed
  with d show ?thesis by auto
qed

end
