(* ===== verification/Cli_Manage.thy ===== *)
theory Cli_Manage
  imports Cli_Resolve Cli_Format Cli_Errors Cli_Usage Sdk_Orchestrate Js_Number
begin

text \<open>
  The commands of \<open>packages/validator-bonds-cli-core/src/commands/manage/\<close> that send a
  transaction, and \<open>executeTxHandleErrors\<close> of \<open>utils.ts\<close>.

  A command is a \<open>'a cmd\<close>: it may throw and it changes what is recorded for the usage event
  (\<open>tx_data\<close>), also when it throws later. Each command first builds a plan of its transaction,
  then the plan is executed. \<open>cli_ctx\<close> holds what \<open>getCliContext\<close> gives; \<open>world\<close> is what
  happens outside: the execution of a plan by web3js-1x, the heap of the error objects and the
  error codes of the program. A command returns the message it logs at the end. The other log
  lines and the guidance banner after a command are not modelled.
\<close>

section \<open>Compute units\<close>

definition CANCEL_WITHDRAW_REQUEST_LIMIT_UNITS :: int where "CANCEL_WITHDRAW_REQUEST_LIMIT_UNITS = 27000"
definition CLAIM_WITHDRAW_REQUEST_LIMIT_UNITS :: int where "CLAIM_WITHDRAW_REQUEST_LIMIT_UNITS = 600000"
definition CONFIGURE_BOND_LIMIT_UNITS :: int where "CONFIGURE_BOND_LIMIT_UNITS = 24000"
definition CONFIGURE_BOND_MINT_LIMIT_UNITS :: int where "CONFIGURE_BOND_MINT_LIMIT_UNITS = 60000"
definition CONFIGURE_CONFIG_LIMIT_UNITS :: int where "CONFIGURE_CONFIG_LIMIT_UNITS = 21000"
definition EMERGENCY_LIMIT_UNITS :: int where "EMERGENCY_LIMIT_UNITS = 19000"
definition FUND_BOND_LIMIT_UNITS :: int where "FUND_BOND_LIMIT_UNITS = 100000"
definition FUND_BOND_WITH_SOL_LIMIT_UNITS :: int where "FUND_BOND_WITH_SOL_LIMIT_UNITS = 200000"
definition INIT_BOND_LIMIT_UNITS :: int where "INIT_BOND_LIMIT_UNITS = 50000"
definition INIT_CONFIG_LIMIT_UNITS :: int where "INIT_CONFIG_LIMIT_UNITS = 45000"
definition INIT_WITHDRAW_REQUEST_LIMIT_UNITS :: int where "INIT_WITHDRAW_REQUEST_LIMIT_UNITS = 57000"
definition MERGE_STAKE_LIMIT_UNITS :: int where "MERGE_STAKE_LIMIT_UNITS = 100000"
definition MINT_BOND_LIMIT_UNITS :: int where "MINT_BOND_LIMIT_UNITS = 200000"
definition CLOSE_SETTLEMENT_LIMIT_UNITS :: int where "CLOSE_SETTLEMENT_LIMIT_UNITS = 50000"
definition RESET_STAKE_LIMIT_UNITS :: int where "RESET_STAKE_LIMIT_UNITS = 50000"
definition INIT_BOND_CONFIG_COMMISSION_LIMIT_UNITS :: int where
  "INIT_BOND_CONFIG_COMMISSION_LIMIT_UNITS = 50000"
definition CONFIGURE_BOND_CONFIG_COMMISSION_LIMIT_UNITS :: int where
  "CONFIGURE_BOND_CONFIG_COMMISSION_LIMIT_UNITS = 24000"

section \<open>Commands\<close>

datatype thrown = ThrownJs js_error | ThrownObject nat | ThrownCommand cli_command_error

type_synonym 'a cmd = "tx_data \<Rightarrow> (thrown + 'a) \<times> tx_data"

definition cret :: "'a \<Rightarrow> 'a cmd" where
  "cret x = (\<lambda>d. (Inr x, d))"

definition cfail :: "thrown \<Rightarrow> 'a cmd" where
  "cfail e = (\<lambda>d. (Inl e, d))"

definition cbind :: "'a cmd \<Rightarrow> ('a \<Rightarrow> 'b cmd) \<Rightarrow> 'b cmd" where
  "cbind m f = (\<lambda>d. case m d of (Inl e, d') \<Rightarrow> (Inl e, d') | (Inr x, d') \<Rightarrow> f x d')"

definition ccatch :: "'a cmd \<Rightarrow> (thrown \<Rightarrow> 'a cmd) \<Rightarrow> 'a cmd" where
  "ccatch m f = (\<lambda>d. case m d of (Inl e, d') \<Rightarrow> f e d' | (Inr x, d') \<Rightarrow> (Inr x, d'))"

definition lift_res :: "'a res \<Rightarrow> 'a cmd" where
  "lift_res r = (case r of Inl e \<Rightarrow> cfail (ThrownJs e) | Inr x \<Rightarrow> cret x)"

definition recorded :: "(tx_data \<Rightarrow> tx_data) \<Rightarrow> unit cmd" where
  "recorded f = (\<lambda>d. (Inr (), f d))"

lemma cbind_Inr: "cbind m f d = (Inr y, d') \<longleftrightarrow> (\<exists>x e. m d = (Inr x, e) \<and> f x e = (Inr y, d'))"
  by (auto simp: cbind_def split: prod.splits sum.splits)

lemma lift_res_Inr: "lift_res r d = (Inr x, d') \<longleftrightarrow> r = Inr x \<and> d' = d"
  by (auto simp: lift_res_def cret_def cfail_def split: sum.splits)

lemma case_cmd_Inr: "(case r of Inl e \<Rightarrow> cfail e | Inr s \<Rightarrow> cret s) d = (Inr x, d') \<longleftrightarrow> r = Inr x \<and> d' = d"
  by (auto simp: cret_def cfail_def split: sum.splits)

section \<open>Context, authorities and plans\<close>

text \<open>An option of type \<open>Wallet | PublicKey\<close>: a wallet signs, a key only names the account.\<close>

datatype authority = WalletOf pubkey | PubkeyOf pubkey

definition authority_key :: "authority \<Rightarrow> pubkey" where
  "authority_key a = (case a of WalletOf k \<Rightarrow> k | PubkeyOf k \<Rightarrow> k)"

record cli_ctx =
  cx_lib :: cli_lib
  cx_wallet :: pubkey
  cx_simulate :: bool
  cx_printOnly :: bool
  cx_env :: usage_env
  cx_RPC_URL_set :: bool
  cx_rentExemptStake :: int
  cx_generate :: "nat \<Rightarrow> pubkey"
  cx_tokens :: token_lib
  cx_newBN :: "string \<Rightarrow> int res"
  cx_stringify :: "product_config \<Rightarrow> string"
  cx_stakeWithdrawer :: "pubkey \<Rightarrow> pubkey option res"

abbreviation chain_of :: "cli_ctx \<Rightarrow> bonds_chain" where
  "chain_of ctx \<equiv> cl_chain (cx_lib ctx)"

definition dry_run :: "cli_ctx \<Rightarrow> bool" where
  "dry_run ctx \<longleftrightarrow> cx_simulate ctx \<or> cx_printOnly ctx"

datatype cli_ix =
    ProgramIx instruction
  | CreateStakeIx pubkey pubkey pubkey pubkey int
  | DelegateStakeIx pubkey pubkey pubkey

record tx_plan =
  tp_instructions :: "cli_ix list"
  tp_signers :: "pubkey list"
  tp_computeUnitLimit :: int
  tp_errMessage :: string

text \<open>The default of an authority is the wallet; a wallet that is given is added to the signers.\<close>

definition or_wallet :: "cli_ctx \<Rightarrow> authority option \<Rightarrow> authority" where
  "or_wallet ctx a = orElse a (PubkeyOf (cx_wallet ctx))"

definition signed_by :: "pubkey list \<Rightarrow> authority \<Rightarrow> pubkey list" where
  "signed_by signers a = (case a of WalletOf k \<Rightarrow> signers @ [k] | PubkeyOf _ \<Rightarrow> signers)"

section \<open>Execution\<close>

text \<open>Executing a plan gives the signature of each transaction, if it has one (a dry run sends
  nothing), or throws an error object.\<close>

datatype exec_outcome = Executed "string option list" | ExecFailed nat

record world =
  wo_execute :: "tx_plan \<Rightarrow> exec_outcome"
  wo_heap :: heap
  wo_errors :: "nat \<Rightarrow> string option"

definition record_signature :: "usage_env \<Rightarrow> tx_data \<Rightarrow> string option \<Rightarrow> tx_data" where
  "record_signature env d signature = (case signature of
       Some (c # cs) \<Rightarrow> recordTxSignature env (c # cs) d | _ \<Rightarrow> d)"

definition translated :: "nat + cli_command_error \<Rightarrow> thrown" where
  "translated r = (case r of Inl e \<Rightarrow> ThrownObject e | Inr c \<Rightarrow> ThrownCommand c)"

definition plan_ctx :: "cli_ctx \<Rightarrow> tx_plan \<Rightarrow> translate_ctx" where
  "plan_ctx ctx plan = \<lparr> tc_rpcEndpoint = Some (st_endpoint (bc_stake (chain_of ctx))),
     tc_txArgs = Some \<lparr> ta_feePayer = None, ta_signers = map Some (tp_signers plan) \<rparr>,
     tc_RPC_URL_set = cx_RPC_URL_set ctx \<rparr>"

definition executeTxHandleErrors :: "solana_lib \<Rightarrow> cli_ctx \<Rightarrow> world \<Rightarrow> tx_plan \<Rightarrow> unit cmd" where
  "executeTxHandleErrors sl ctx w plan = (case wo_execute w plan of
       Executed signatures \<Rightarrow> recorded (\<lambda>d. foldl (record_signature (cx_env ctx)) d signatures)
     | ExecFailed err \<Rightarrow> cfail (translated (translateKnownError sl (wo_heap w) err (plan_ctx ctx plan))))"

text \<open>The same over the entries of several transactions.\<close>

definition splitAndExecuteTxHandleErrors :: "solana_lib \<Rightarrow> cli_ctx \<Rightarrow> world \<Rightarrow> tx_plan \<Rightarrow> unit cmd" where
  "splitAndExecuteTxHandleErrors sl ctx w plan = (case wo_execute w plan of
       Executed signatures \<Rightarrow> recorded (\<lambda>d. foldl (record_signature (cx_env ctx)) d signatures)
     | ExecFailed err \<Rightarrow> cfail (translated (translateKnownError sl (wo_heap w) err (plan_ctx ctx plan))))"

definition resolved :: "solana_lib \<Rightarrow> cli_ctx \<Rightarrow> pubkey option \<Rightarrow> pubkey option \<Rightarrow> pubkey option \<Rightarrow> pubkey option
    \<Rightarrow> pubkey option \<Rightarrow> unit cmd" where
  "resolved sl ctx bond vote config stake request = recorded (recordResolvedAccounts (cx_env ctx)
     \<lparr> ra_bondAccount = map_option (pk_b58 sl) bond, ra_voteAccount = map_option (pk_b58 sl) vote,
       ra_configAccount = map_option (pk_b58 sl) config, ra_stakeAccount = map_option (pk_b58 sl) stake,
       ra_withdrawRequestAccount = map_option (pk_b58 sl) request \<rparr>)"

definition bond_for :: "solana_lib \<Rightarrow> cli_ctx \<Rightarrow> pubkey option \<Rightarrow> pubkey \<Rightarrow> (pubkey \<times> bond_data) cmd" where
  "bond_for sl ctx config address = lift_res (getBondFromAddress sl (cx_lib ctx) config None address)"


section \<open>Funding a bond\<close>

record fund_target =
  ft_config :: pubkey
  ft_stakeAccount :: pubkey
  ft_bondAccount :: pubkey

text \<open>A stake account that already belongs to the bonds is not an error.\<close>

definition failIfUnexpectedFundingError :: "solana_lib \<Rightarrow> cli_ctx \<Rightarrow> world \<Rightarrow> fund_target \<Rightarrow> thrown \<Rightarrow> string cmd" where
  "failIfUnexpectedFundingError sl ctx w t err =
     (if (case err of ThrownObject e \<Rightarrow> isExpectedAnchorTransactionError (wo_errors w) (wo_heap w) e
            ''wrong withdrawer authority of the stake account'' | _ \<Rightarrow> False)
      then cbind (lift_res (rbind (VALIDATOR_BONDS_PROGRAM_ID sl) (bondsWithdrawerAuthority sl (ft_config t)))) (\<lambda>wa.
           cbind (lift_res (cx_stakeWithdrawer ctx (ft_stakeAccount t))) (\<lambda>withdrawer.
           if withdrawer = Some (fst wa)
           then cret (''The stake account '' @ pk_b58 sl (ft_stakeAccount t) @ '' is ALREADY funded to bond account ''
             @ pk_b58 sl (ft_bondAccount t) @ ''.'')
           else cfail err))
      else cfail err)"

definition fund_bond_plan :: "solana_lib \<Rightarrow> cli_ctx \<Rightarrow> pubkey option \<Rightarrow> pubkey \<Rightarrow> pubkey \<Rightarrow> authority option \<Rightarrow> int
    \<Rightarrow> (tx_plan \<times> fund_target) cmd" where
  "fund_bond_plan sl ctx config address stakeAccount stakeAuthority computeUnitLimit =
     (let auth = or_wallet ctx stakeAuthority; signers = signed_by [cx_wallet ctx] auth in
      cbind (bond_for sl ctx config address) (\<lambda>(b, d).
      cbind (resolved sl ctx (Some b) (Some (bd_voteAccount d)) (Some (bd_config d)) (Some stakeAccount) None) (\<lambda>_.
      cbind (lift_res (fundBondInstruction sl (chain_of ctx) (Some b) stakeAccount (Some (authority_key auth))
        (Some (bd_config d)) (Some (bd_voteAccount d)))) (\<lambda>(bond, ix).
      cret (\<lparr> tp_instructions = [ProgramIx ix], tp_signers = signers, tp_computeUnitLimit = computeUnitLimit,
          tp_errMessage = ''Failed to fund bond account '' @ pk_b58 sl bond \<rparr>,
        \<lparr> ft_config = bd_config d, ft_stakeAccount = stakeAccount, ft_bondAccount = bond \<rparr>)))))"

definition manageFundBond :: "solana_lib \<Rightarrow> cli_ctx \<Rightarrow> world \<Rightarrow> pubkey option \<Rightarrow> pubkey \<Rightarrow> pubkey \<Rightarrow> authority option
    \<Rightarrow> int \<Rightarrow> string cmd" where
  "manageFundBond sl ctx w config address stakeAccount stakeAuthority computeUnitLimit =
     cbind (fund_bond_plan sl ctx config address stakeAccount stakeAuthority computeUnitLimit) (\<lambda>(plan, t).
     ccatch (cbind (executeTxHandleErrors sl ctx w plan) (\<lambda>_.
         cret (txOutcomeMessage (dry_run ctx) (''Bond account '' @ pk_b58 sl (ft_bondAccount t)
           @ '' successfully funded with stake account '' @ pk_b58 sl stakeAccount))))
       (failIfUnexpectedFundingError sl ctx w t))"

section \<open>Funding with SOL\<close>

definition sol_to_bn :: "number \<Rightarrow> int res" where
  "sol_to_bn amount =
     (let lamports = n_mul amount (Fin 1000000000) in
      if is_finite lamports then bn_of_double lamports
      else rbind (bn_of_double amount) (\<lambda>n. Inr (n * LAMPORTS_PER_SOL_BN)))"

text \<open>The least amount: what the configuration asks for and the rent of a stake account.\<close>

definition minimal_stake :: "solana_lib \<Rightarrow> cli_ctx \<Rightarrow> pubkey \<Rightarrow> int res" where
  "minimal_stake sl ctx config =
     rbind (getConfig sl (chain_of ctx) config) (\<lambda>c.
     rbind (bn_of_number (cx_rentExemptStake ctx)) (\<lambda>rent.
     Inr (cd_minimumStakeLamports c + rent)))"

definition checked_amount :: "number \<Rightarrow> int \<Rightarrow> int \<Rightarrow> unit res" where
  "checked_amount amount amountLamports minimal =
     rbind (guard_throw (amountLamports < minimal) EError (''Provided amount '' @ num_str amount
       @ '' SOL is lower than minimal amount '' @ ''that is permitted to be funded. Minimal is ''
       @ formatToSol minimal @ '' SOL. '' @ ''Please, use a bigger number of SOLs for funding.'')) (\<lambda>_.
     guard_throw (MAX_SAFE_INTEGER < amountLamports) EError (''Provided amount '' @ num_str amount
       @ '' SOL cannot be safely converted '' @ ''to number of lamports. Please, use a lower number.''))"

definition fund_sol_plan :: "solana_lib \<Rightarrow> cli_ctx \<Rightarrow> pubkey option \<Rightarrow> pubkey \<Rightarrow> number \<Rightarrow> authority option \<Rightarrow> int
    \<Rightarrow> (tx_plan \<times> fund_target) cmd" where
  "fund_sol_plan sl ctx config address amount from computeUnitLimit =
     (let auth = or_wallet ctx from; signers = signed_by [cx_wallet ctx] auth; fromKey = authority_key auth;
          stakeAccount = cx_generate ctx 0 in
      cbind (bond_for sl ctx config address) (\<lambda>(b, d).
      cbind (lift_res (minimal_stake sl ctx (bd_config d))) (\<lambda>minimal.
      cbind (lift_res (sol_to_bn amount)) (\<lambda>amountLamports.
      cbind (recorded (recordAmountLamports (cx_env ctx) (int_str amountLamports))) (\<lambda>_.
      cbind (lift_res (checked_amount amount amountLamports minimal)) (\<lambda>_.
      cbind (resolved sl ctx (Some b) (Some (bd_voteAccount d)) (Some (bd_config d)) (Some stakeAccount) None) (\<lambda>_.
      cbind (lift_res (bn_toNumber amountLamports)) (\<lambda>lamports.
      cbind (lift_res (fundBondInstruction sl (chain_of ctx) (Some b) stakeAccount (Some fromKey)
        (Some (bd_config d)) (Some (bd_voteAccount d)))) (\<lambda>(bond, ix).
      cret (\<lparr> tp_instructions = [CreateStakeIx fromKey stakeAccount fromKey fromKey lamports,
            DelegateStakeIx stakeAccount fromKey (bd_voteAccount d), ProgramIx ix],
          tp_signers = signers @ [stakeAccount], tp_computeUnitLimit = computeUnitLimit,
          tp_errMessage = ''Failed to fund bond account '' @ pk_b58 sl bond @ '' with '' @ num_str amount
            @ '' from '' @ pk_b58 sl fromKey \<rparr>,
        \<lparr> ft_config = bd_config d, ft_stakeAccount = stakeAccount, ft_bondAccount = bond \<rparr>))))))))))"

definition manageFundBondWithSol :: "solana_lib \<Rightarrow> cli_ctx \<Rightarrow> world \<Rightarrow> pubkey option \<Rightarrow> pubkey \<Rightarrow> number
    \<Rightarrow> authority option \<Rightarrow> int \<Rightarrow> string cmd" where
  "manageFundBondWithSol sl ctx w config address amount from computeUnitLimit =
     cbind (fund_sol_plan sl ctx config address amount from computeUnitLimit) (\<lambda>(plan, t).
     ccatch (cbind (executeTxHandleErrors sl ctx w plan) (\<lambda>_.
         cret (txOutcomeMessage (dry_run ctx) (''Bond account '' @ pk_b58 sl (ft_bondAccount t)
           @ '' successfully funded with amount '' @ num_str amount @ '' from ''
           @ pk_b58 sl (authority_key (or_wallet ctx from))))))
       (failIfUnexpectedFundingError sl ctx w t))"

section \<open>Minting the token of a bond\<close>

definition manageMintBond :: "solana_lib \<Rightarrow> cli_ctx \<Rightarrow> world \<Rightarrow> pubkey \<Rightarrow> pubkey \<Rightarrow> authority option \<Rightarrow> int \<Rightarrow> string cmd" where
  "manageMintBond sl ctx w config address rentPayer computeUnitLimit =
     (let payer = or_wallet ctx rentPayer; signers = signed_by [cx_wallet ctx] payer in
      cbind (bond_for sl ctx (Some config) address) (\<lambda>(b, d).
      cbind (resolved sl ctx (Some b) (Some (bd_voteAccount d)) (Some (bd_config d)) None None) (\<lambda>_.
      cbind (lift_res (mintBondInstruction sl (cx_tokens ctx) (chain_of ctx) None (Some b) (Some (bd_config d))
        (Some (bd_voteAccount d)) None (Some (authority_key payer)))) (\<lambda>m.
      cbind (executeTxHandleErrors sl ctx w \<lparr> tp_instructions = [ProgramIx (mb_instruction m)], tp_signers = signers,
          tp_computeUnitLimit = computeUnitLimit,
          tp_errMessage = ''Failed to mint token for bond '' @ pk_b58 sl (mb_bondAccount m) \<rparr>) (\<lambda>_.
      cret (txOutcomeMessage (dry_run ctx) (''Bond '' @ pk_b58 sl (mb_bondAccount m) @ '' token ''
        @ pk_b58 sl (mb_bondMint m) @ '' was minted successfully'')))))))"


section \<open>Withdraw requests\<close>

text \<open>An error that says the account exists is checked against the account itself. The code of
  the error is searched for as a text, so \<open>0x0\<close> is also found in \<open>0x0a\<close>.\<close>

definition says_exists :: "heap \<Rightarrow> thrown \<Rightarrow> bool" where
  "says_exists h err = (case err of
       ThrownObject e \<Rightarrow> (case map_of h e of None \<Rightarrow> False
         | Some x \<Rightarrow> eo_class x = CExecutionError \<and> includes_str ''custom program error: 0x0'' (eo_full x))
     | _ \<Rightarrow> False)"

definition request_failed :: "solana_lib \<Rightarrow> cli_ctx \<Rightarrow> world \<Rightarrow> pubkey \<Rightarrow> thrown \<Rightarrow> string cmd" where
  "request_failed sl ctx w request err =
     (if says_exists (wo_heap w) err
      then cbind (lift_res (fetchNullable (bc_withdraws (chain_of ctx)) request)) (\<lambda>x.
        (case x of None \<Rightarrow> cfail err
         | Some r \<Rightarrow> cret (''The withdraw request '' @ pk_b58 sl request @ '' ALREADY exists on-chain. The requested amount ''
             @ formatToSolWithAll (wd_requestedAmount r) @ '', with withdrawn amount ''
             @ formatToSolWithAll (wd_withdrawnAmount r) @ ''.'' @ newline
             @ ''  If you want to withdraw more, consider canceling the existing request and creating a new withdraw request.'')))
      else cfail err)"

text \<open>The bond, its configuration and vote account, and who signs: from the address when one is
  given, else from the options.\<close>

record bond_choice =
  bh_bond :: pubkey
  bh_config :: pubkey
  bh_vote :: pubkey
  bh_authority :: authority

definition choose_bond :: "solana_lib \<Rightarrow> cli_ctx \<Rightarrow> pubkey option \<Rightarrow> pubkey option \<Rightarrow> pubkey option
    \<Rightarrow> authority option \<Rightarrow> bond_choice res" where
  "choose_bond sl ctx address config voteAccount authority =
     rbind (case address of None \<Rightarrow> Inr (None, config, voteAccount, authority)
       | Some a \<Rightarrow> rbind (getBondFromAddress sl (cx_lib ctx) config None a) (\<lambda>(b, d).
           Inr (Some b, Some (bd_config d), Some (bd_voteAccount d),
             Some (orElse authority (PubkeyOf (bd_authority d)))))) (\<lambda>(bond, config, vote, authority).
     rbind (checkAndGetBondAddress sl bond config vote (bc_programId (chain_of ctx))) (\<lambda>b.
     rbind (each_from_bond sl (chain_of ctx) b config vote) (\<lambda>(c, v).
     Inr \<lparr> bh_bond = b, bh_config = c, bh_vote = v, bh_authority = or_wallet ctx authority \<rparr>)))"

text \<open>The amount that is requested; \<open>ALL\<close> is the greatest 64-bit number.\<close>

definition requested_amount :: "solana_lib \<Rightarrow> cli_ctx \<Rightarrow> pubkey \<Rightarrow> string \<Rightarrow> int cmd" where
  "requested_amount sl ctx config amount =
     (if amount = ''ALL''
      then cbind (recorded (recordAmountLamports (cx_env ctx) ''ALL'')) (\<lambda>_. cret U64_MAX)
      else cbind (lift_res (cx_newBN ctx amount)) (\<lambda>n.
        cbind (recorded (recordAmountLamports (cx_env ctx) (int_str n))) (\<lambda>_.
        cbind (lift_res (minimal_stake sl ctx config)) (\<lambda>minimal.
        if n < minimal
        then lift_res (throw ECliCommand (''The requested amount '' @ int_str n
          @ '' lamports is less than the minimal amount '' @ int_str minimal
          @ '' lamports, required to manage a stake account after withdrawal.''))
        else cret n))))"

definition manageInitWithdrawRequest :: "solana_lib \<Rightarrow> cli_ctx \<Rightarrow> world \<Rightarrow> pubkey option \<Rightarrow> pubkey option
    \<Rightarrow> pubkey option \<Rightarrow> authority option \<Rightarrow> string \<Rightarrow> authority option \<Rightarrow> int \<Rightarrow> string cmd" where
  "manageInitWithdrawRequest sl ctx w address config voteAccount authority amount rentPayer computeUnitLimit =
     (let payer = or_wallet ctx rentPayer; signers = signed_by [cx_wallet ctx] payer in
      cbind (lift_res (choose_bond sl ctx address config voteAccount authority)) (\<lambda>t.
      cbind (requested_amount sl ctx (bh_config t) amount) (\<lambda>n.
      cbind (lift_res (initWithdrawRequestInstruction sl (chain_of ctx) (Some (bh_bond t)) (Some (bh_config t))
        (Some (bh_vote t)) (Some (authority_key (bh_authority t))) (Some (authority_key payer)) (BnVal n)))
        (\<lambda>(bond, request, ix).
      cbind (resolved sl ctx (Some bond) (Some (bh_vote t)) (Some (bh_config t)) None (Some request)) (\<lambda>_.
      ccatch (cbind (executeTxHandleErrors sl ctx w \<lparr> tp_instructions = [ProgramIx ix],
            tp_signers = signed_by signers (bh_authority t), tp_computeUnitLimit = computeUnitLimit,
            tp_errMessage = ''Failed to initialize withdraw request '' @ pk_b58 sl request \<rparr>) (\<lambda>_.
          cret (txOutcomeMessage (dry_run ctx) (''Withdraw request account '' @ pk_b58 sl request
            @ '' for bond account '' @ pk_b58 sl bond @ '' successfully initialized''))))
        (request_failed sl ctx w request))))))"

text \<open>The withdraw request of an address, with its vote account and bond.\<close>

definition choose_request :: "solana_lib \<Rightarrow> cli_ctx \<Rightarrow> pubkey option \<Rightarrow> pubkey option \<Rightarrow> pubkey option
    \<Rightarrow> (pubkey option \<times> pubkey option \<times> pubkey option) res" where
  "choose_request sl ctx config address voteAccount = (case address of
       None \<Rightarrow> Inr (None, voteAccount, None)
     | Some a \<Rightarrow> rbind (getWithdrawRequestFromAddress sl (cx_lib ctx) config a) (\<lambda>(request, d).
         Inr (Some request, Some (wd_voteAccount d), Some (wd_bond d))))"

text \<open>An authority that is not given is the one of the bond, and the wallet only when neither
  the bond nor the vote account is known.\<close>

definition request_authority :: "solana_lib \<Rightarrow> cli_ctx \<Rightarrow> pubkey option \<Rightarrow> authority option \<Rightarrow> pubkey option
    \<Rightarrow> pubkey option \<Rightarrow> authority res" where
  "request_authority sl ctx config authority bond vote = (case (authority, orOpt bond vote) of
       (None, Some a) \<Rightarrow> rbind (getBondFromAddress sl (cx_lib ctx) config None a) (\<lambda>(b, d).
         Inr (PubkeyOf (bd_authority d)))
     | _ \<Rightarrow> Inr (or_wallet ctx authority))"


record claim_opts =
  co_address :: "pubkey option"
  co_config :: "pubkey option"
  co_voteAccount :: "pubkey option"
  co_authority :: "authority option"
  co_withdrawer :: "pubkey option"
  co_splitStakeRentPayer :: "authority option"
  co_stakeAccount :: "pubkey option"
  co_computeUnitLimit :: int

text \<open>What a claim sends: with a stake account that is given one instruction, else what the
  orchestration says; \<open>ck_nothing\<close> is a request that is fully withdrawn.\<close>

record claim_work =
  ck_instructions :: "instruction list"
  ck_split :: "pubkey list"
  ck_request :: pubkey
  ck_bond :: pubkey
  ck_vote :: pubkey
  ck_nothing :: bool

definition claim_given :: "solana_lib \<Rightarrow> cli_ctx \<Rightarrow> claim_opts \<Rightarrow> pubkey option \<times> pubkey option \<times> pubkey option
    \<Rightarrow> authority \<Rightarrow> pubkey \<Rightarrow> claim_work res" where
  "claim_given sl ctx opts t auth stakeAccount = (case t of (request, vote, bond) \<Rightarrow>
     rbind (claimWithdrawRequestInstruction sl (chain_of ctx) (cx_generate ctx 0)
       \<lparr> ca_withdrawRequestAccount = request, ca_bondAccount = bond, ca_configAccount = co_config opts,
         ca_voteAccount = vote, ca_stakeAccount = stakeAccount, ca_authority = Some (authority_key auth),
         ca_splitStakeRentPayer = Some (authority_key (or_wallet ctx (co_splitStakeRentPayer opts))),
         ca_withdrawer = Some (orElse (co_withdrawer opts) (cx_wallet ctx)) \<rparr>) (\<lambda>r.
     Inr \<lparr> ck_instructions = [cw_instruction r], ck_split = [cw_splitStakeAccount r],
       ck_request = cw_withdrawRequestAccount r, ck_bond = cw_bondAccount r,
       ck_vote = orElse vote (cw_voteAccount r), ck_nothing = False \<rparr>))"

definition claim_found :: "solana_lib \<Rightarrow> cli_ctx \<Rightarrow> claim_opts \<Rightarrow> pubkey option \<times> pubkey option \<times> pubkey option
    \<Rightarrow> authority \<Rightarrow> claim_work res" where
  "claim_found sl ctx opts t auth = (case t of (request, vote, bond) \<Rightarrow>
     rbind (orchestrateWithdrawDeposit sl (chain_of ctx) (cx_generate ctx)
       \<lparr> wa_withdrawRequestAccount = request, wa_bondAccount = bond, wa_configAccount = co_config opts,
         wa_voteAccount = vote, wa_withdrawer = Some (orElse (co_withdrawer opts) (cx_wallet ctx)),
         wa_authority = Some (authority_key auth),
         wa_splitStakeRentPayer = Some (authority_key (or_wallet ctx (co_splitStakeRentPayer opts))) \<rparr>) (\<lambda>r.
     Inr \<lparr> ck_instructions = wp_instructions (wr_plan r), ck_split = wp_splitStakeAccounts (wr_plan r),
       ck_request = wr_withdrawRequestAccount r, ck_bond = wr_bondAccount r,
       ck_vote = orElse vote (wr_voteAccount r), ck_nothing = bn_leq (wr_amountToWithdraw r) 0 \<rparr>))"

text \<open>The target of the claim, who signs, and the work; all of it may throw before anything is
  recorded.\<close>

definition claim_prepare :: "solana_lib \<Rightarrow> cli_ctx \<Rightarrow> claim_opts \<Rightarrow> (authority \<times> claim_work) res" where
  "claim_prepare sl ctx opts =
     rbind (choose_request sl ctx (co_config opts) (co_address opts) (co_voteAccount opts)) (\<lambda>(request, vote, bond).
     rbind (request_authority sl ctx (co_config opts) (co_authority opts) bond vote) (\<lambda>auth.
     rbind (case co_stakeAccount opts of
         Some s \<Rightarrow> claim_given sl ctx opts (request, vote, bond) auth s
       | None \<Rightarrow> claim_found sl ctx opts (request, vote, bond) auth) (\<lambda>k.
     Inr (auth, k))))"

definition claim_plan :: "solana_lib \<Rightarrow> cli_ctx \<Rightarrow> claim_opts \<Rightarrow> authority \<Rightarrow> claim_work \<Rightarrow> tx_plan" where
  "claim_plan sl ctx opts auth k =
     \<lparr> tp_instructions = map ProgramIx (ck_instructions k),
       tp_signers = signed_by (signed_by [cx_wallet ctx] (or_wallet ctx (co_splitStakeRentPayer opts))) auth @ ck_split k,
       tp_computeUnitLimit = co_computeUnitLimit opts,
       tp_errMessage = ''Failed to claim withdraw requests '' @ pk_b58 sl (ck_request k) \<rparr>"

definition manageClaimWithdrawRequest :: "solana_lib \<Rightarrow> cli_ctx \<Rightarrow> world \<Rightarrow> claim_opts \<Rightarrow> string cmd" where
  "manageClaimWithdrawRequest sl ctx w opts =
     cbind (lift_res (claim_prepare sl ctx opts)) (\<lambda>(auth, k).
     if ck_nothing k
     then cret (''Withdraw request '' @ pk_b58 sl (ck_request k) @ '' for bond account '' @ pk_b58 sl (ck_bond k)
       @ ''has been fully withdrawn, with nothing left to claim.'' @ newline
       @ ''If you want to withdraw more funds, please cancel the current request and create a new one.'')
     else if length (ck_instructions k) = 0
     then lift_res (throw ECliCommand (''CLI internal error. No instruction for claiming generated. ''
       @ ''Try to run with --debug to get more info.''))
     else cbind (resolved sl ctx (Some (ck_bond k)) (Some (ck_vote k)) (co_config opts) None (Some (ck_request k))) (\<lambda>_.
       cbind (splitAndExecuteTxHandleErrors sl ctx w (claim_plan sl ctx opts auth k)) (\<lambda>_.
       cret (txOutcomeMessage (dry_run ctx) (''Withdraw request accounts: '' @ pk_b58 sl (ck_request k)
         @ '' for bond account '' @ pk_b58 sl (ck_bond k) @ '' successfully claimed'')))))"

definition manageCancelWithdrawRequest :: "solana_lib \<Rightarrow> cli_ctx \<Rightarrow> world \<Rightarrow> pubkey option \<Rightarrow> pubkey option
    \<Rightarrow> pubkey option \<Rightarrow> authority option \<Rightarrow> pubkey option \<Rightarrow> int \<Rightarrow> string cmd" where
  "manageCancelWithdrawRequest sl ctx w address config voteAccount authority rentCollector computeUnitLimit =
     cbind (lift_res (choose_request sl ctx config address voteAccount)) (\<lambda>(request, vote, bond).
     cbind (lift_res (request_authority sl ctx config authority bond vote)) (\<lambda>auth.
     cbind (lift_res (cancelWithdrawRequestInstruction sl (chain_of ctx) request bond config vote
       (Some (authority_key auth)) rentCollector)) (\<lambda>(b, wr, ix).
     cbind (resolved sl ctx (Some b) vote config None (Some wr)) (\<lambda>_.
     cbind (executeTxHandleErrors sl ctx w \<lparr> tp_instructions = [ProgramIx ix],
         tp_signers = signed_by [cx_wallet ctx] auth, tp_computeUnitLimit = computeUnitLimit,
         tp_errMessage = ''Failed to cancel withdraw request '' @ pk_b58 sl wr \<rparr>) (\<lambda>_.
     cret (txOutcomeMessage (dry_run ctx) (''Withdraw request account '' @ pk_b58 sl wr
       @ '' for bond account '' @ pk_b58 sl b @ '' successfully cancelled'')))))))"

section \<open>Creating and configuring a bond\<close>

definition bond_failed :: "solana_lib \<Rightarrow> cli_ctx \<Rightarrow> world \<Rightarrow> pubkey \<Rightarrow> thrown \<Rightarrow> string cmd" where
  "bond_failed sl ctx w bond err =
     (if says_exists (wo_heap w) err
      then cbind (lift_res (fetchNullable (bc_bonds (chain_of ctx)) bond)) (\<lambda>x.
        (case x of None \<Rightarrow> cfail err
         | Some _ \<Rightarrow> cret (''The bond account '' @ pk_b58 sl bond @ '' is ALREADY initialized.'')))
      else cfail err)"

record init_bond_opts =
  io_voteAccount :: pubkey
  io_validatorIdentity :: "authority option"
  io_bondAuthority :: "pubkey option"
  io_rentPayer :: "authority option"
  io_cpmpe :: int
  io_maxStakeWanted :: int
  io_rates :: rates
  io_computeUnitLimit :: int

definition manageInitBond :: "solana_lib \<Rightarrow> cli_ctx \<Rightarrow> world \<Rightarrow> pubkey \<Rightarrow> init_bond_opts \<Rightarrow> string cmd" where
  "manageInitBond sl ctx w config opts =
     (let payer = or_wallet ctx (io_rentPayer opts); vote = io_voteAccount opts;
          identity = map_option authority_key (io_validatorIdentity opts);
          signers = (case io_validatorIdentity opts of None \<Rightarrow> signed_by [cx_wallet ctx] payer
            | Some i \<Rightarrow> signed_by (signed_by [cx_wallet ctx] payer) i) in
      cbind (lift_res (case io_bondAuthority opts of Some k \<Rightarrow> Inr k
        | None \<Rightarrow> bc_nodePubkey (chain_of ctx) vote)) (\<lambda>bondAuthority.
      cbind (lift_res (initBondInstruction sl (chain_of ctx) config vote identity (Some bondAuthority)
        (Some (BnVal (io_cpmpe opts))) (Some (BnVal (io_maxStakeWanted opts))) (Some (authority_key payer)))) (\<lambda>(bond, ix).
      cbind (resolved sl ctx (Some bond) (Some vote) (Some config) None None) (\<lambda>_.
      cbind (lift_res (initCommissionProductInstruction sl (cx_newBN ctx) (chain_of ctx) (Some bond) (Some config)
        (Some vote) identity (Some (authority_key payer)) (null_rates (io_rates opts)))) (\<lambda>product.
      ccatch (cbind (executeTxHandleErrors sl ctx w
            \<lparr> tp_instructions = [ProgramIx ix, ProgramIx (bp_instruction product)], tp_signers = signers,
              tp_computeUnitLimit = io_computeUnitLimit opts,
              tp_errMessage = ''Failed to init bond account '' @ pk_b58 sl bond @ '' of config '' @ pk_b58 sl config \<rparr>) (\<lambda>_.
          cret (txOutcomeMessage (dry_run ctx) (''Bond account '' @ pk_b58 sl bond @ '' of config ''
            @ pk_b58 sl config @ '' successfully created''))))
        (bond_failed sl ctx w bond))))))"


record configure_bond_opts =
  oo_address :: pubkey
  oo_config :: "pubkey option"
  oo_authority :: "authority option"
  oo_withToken :: bool
  oo_newBondAuthority :: "pubkey option"
  oo_cpmpe :: "int option"
  oo_maxStakeWanted :: "int option"
  oo_rates :: rates
  oo_rentPayer :: "authority option"
  oo_computeUnitLimit :: "int option"
  oo_force :: bool

definition verifyCommissionBondProductExistence :: "solana_lib \<Rightarrow> bonds_chain \<Rightarrow> pubkey \<Rightarrow> product_data option res" where
  "verifyCommissionBondProductExistence sl bc bondAccount =
     rbind (findBondProducts sl (bc_products bc) (bc_programId bc) (Some bondAccount) None None (Some PCommission)) (\<lambda>product.
     rbind (guard_throw (1 < length product) ECliCommand (''Multiple commission bond products (''
       @ js_join '', '' (map (pk_b58 sl \<circ> fst) product) @ '') found '' @ ''for bond account '' @ pk_b58 sl bondAccount
       @ ''. This is unexpected as only one commission product should exist per bond account.'')) (\<lambda>_.
     Inr (case product of [] \<Rightarrow> None | p # _ \<Rightarrow> Some (snd p))))"

text \<open>A lower bid needs \<open>--force\<close>.\<close>

definition bid_guard :: "configure_bond_opts \<Rightarrow> bond_data \<Rightarrow> unit res" where
  "bid_guard opts d = (case oo_cpmpe opts of
       Some cp \<Rightarrow> guard_throw (\<not> oo_force opts \<and> cp < bd_cpmpe d) ECliCommand
         (''Decreasing the bid (cpmpe) may result in a BidTooLow penalty (consult the doc: https://docs.marinade.finance/marinade-protocol/protocol-overview/stake-auction-market#bid-reduction-penalty). ''
          @ ''If you intend to exit the auction, create a bond withdrawal request instead, finalize the auction commitment, and withdraw the bond. ''
          @ ''If you are sure you want to decrease the bid, use --force to override this check.'')
     | None \<Rightarrow> Inr ())"

text \<open>The authority with the instruction and the limit of its kind of authorization.\<close>

definition configure_bond_main :: "solana_lib \<Rightarrow> cli_ctx \<Rightarrow> configure_bond_opts \<Rightarrow> pubkey \<Rightarrow> bond_data
    \<Rightarrow> (authority \<times> pubkey \<times> instruction \<times> int) res" where
  "configure_bond_main sl ctx opts b d =
     (if oo_withToken opts
      then let auth = or_wallet ctx (oo_authority opts) in
        rbind (configureBondWithMintInstruction sl (cx_tokens ctx) (chain_of ctx) (Some b) (Some (bd_config d))
          (Some (bd_voteAccount d)) None None (Some (authority_key auth)) (oo_newBondAuthority opts)
          (map_option BnVal (oo_cpmpe opts)) (map_option BnVal (oo_maxStakeWanted opts))) (\<lambda>(bond, ix).
        Inr (auth, bond, ix, orElse (oo_computeUnitLimit opts) CONFIGURE_BOND_MINT_LIMIT_UNITS))
      else let auth = orElse (oo_authority opts) (PubkeyOf (bd_authority d)) in
        rbind (configureBondInstruction sl (chain_of ctx) (Some b) (Some (bd_config d)) (Some (bd_voteAccount d))
          (Some (authority_key auth)) (oo_newBondAuthority opts) (map_option BnVal (oo_cpmpe opts))
          (map_option BnVal (oo_maxStakeWanted opts))) (\<lambda>(bond, ix).
        Inr (auth, bond, ix, orElse (oo_computeUnitLimit opts) CONFIGURE_BOND_LIMIT_UNITS)))"

definition rates_given :: "rates \<Rightarrow> bool" where
  "rates_given r \<longleftrightarrow> rt_mev r \<noteq> BnUndefined \<or> rt_block r \<noteq> BnUndefined
     \<or> rt_inflation r \<noteq> BnUndefined \<or> rt_uniform r \<noteq> BnUndefined"

text \<open>The commission rates: the product is created when there is none yet, with the rent payer as
  a further signer, and changed otherwise.\<close>

definition configure_bond_rates :: "solana_lib \<Rightarrow> cli_ctx \<Rightarrow> configure_bond_opts \<Rightarrow> bond_data \<Rightarrow> authority \<Rightarrow> pubkey
    \<Rightarrow> (instruction list \<times> pubkey list \<times> int) res" where
  "configure_bond_rates sl ctx opts d auth bond =
     (let payer = orElse (oo_rentPayer opts) (WalletOf (cx_wallet ctx)); bc = chain_of ctx in
      if \<not> rates_given (oo_rates opts) then Inr ([], [], 0)
      else if oo_withToken opts then throw ECliCommand
        (''Configuring bond commission parameters is not supported when using bond token authorization. ''
         @ ''Please use authority authorization (without --with-token option) to configure bond commission parameters.'')
      else rbind (verifyCommissionBondProductExistence sl bc bond) (\<lambda>product.
        (case product of
           None \<Rightarrow> rbind (initCommissionProductInstruction sl (cx_newBN ctx) bc (Some bond) (Some (bd_config d))
               (Some (bd_voteAccount d)) (Some (authority_key auth)) (Some (authority_key payer))
               (null_rates (oo_rates opts))) (\<lambda>p.
             Inr ([bp_instruction p], signed_by [] payer, INIT_BOND_CONFIG_COMMISSION_LIMIT_UNITS))
         | Some _ \<Rightarrow> rbind (configureCommissionProductInstruction sl (cx_newBN ctx) (cx_stringify ctx) bc None
               (Some bond) (Some (bd_config d)) (Some (bd_voteAccount d)) (Some (authority_key auth))
               (oo_rates opts)) (\<lambda>p.
             Inr ([bp_instruction p], [], CONFIGURE_BOND_CONFIG_COMMISSION_LIMIT_UNITS)))))"

definition configure_bond_plan :: "solana_lib \<Rightarrow> cli_ctx \<Rightarrow> configure_bond_opts \<Rightarrow> pubkey \<Rightarrow> bond_data
    \<Rightarrow> (pubkey \<times> tx_plan) res" where
  "configure_bond_plan sl ctx opts b d =
     rbind (bid_guard opts d) (\<lambda>_.
     rbind (configure_bond_main sl ctx opts b d) (\<lambda>(auth, bond, ix, limit).
     rbind (configure_bond_rates sl ctx opts d auth bond) (\<lambda>(ixs, more, units).
     Inr (bond, \<lparr> tp_instructions = map ProgramIx (ix # ixs), tp_signers = signed_by [cx_wallet ctx] auth @ more,
       tp_computeUnitLimit = limit + units,
       tp_errMessage = ''Failed to configure bond account '' @ pk_b58 sl bond \<rparr>))))"

definition manageConfigureBond :: "solana_lib \<Rightarrow> cli_ctx \<Rightarrow> world \<Rightarrow> configure_bond_opts \<Rightarrow> string cmd" where
  "manageConfigureBond sl ctx w opts =
     cbind (bond_for sl ctx (oo_config opts) (oo_address opts)) (\<lambda>(b, d).
     cbind (resolved sl ctx (Some b) (Some (bd_voteAccount d)) (Some (bd_config d)) None None) (\<lambda>_.
     cbind (lift_res (configure_bond_plan sl ctx opts b d)) (\<lambda>(bond, plan).
     cbind (executeTxHandleErrors sl ctx w plan) (\<lambda>_.
     cret (txOutcomeMessage (dry_run ctx) (''Bond account '' @ pk_b58 sl bond @ '' successfully configured''))))))"

end
