(* ===== verification/Cli_Admin.thy ===== *)
theory Cli_Admin
  imports Cli_Manage
begin

text \<open>
  The commands of \<open>packages/validator-bonds-cli/src/commands/manage/\<close> for configurations,
  settlements and stake accounts, in the style of \<open>Cli_Manage\<close>.
\<close>

section \<open>Settlements and their stake accounts\<close>

definition manageCloseSettlement :: "solana_lib \<Rightarrow> cli_ctx \<Rightarrow> world \<Rightarrow> pubkey \<Rightarrow> pubkey option \<Rightarrow> int \<Rightarrow> string cmd" where
  "manageCloseSettlement sl ctx w address refundStakeAccount computeUnitLimit =
     (let bc = chain_of ctx in
      cbind (lift_res (getSettlement sl (bc_settlements bc) address)) (\<lambda>s.
      cbind (lift_res (getBond sl bc (sd_bond s))) (\<lambda>d.
      cbind (lift_res (closeSettlementV2Instruction sl bc (cx_generate ctx 0)
        \<lparr> cl_settlementAccount = address, cl_configAccount = Some (bd_config d), cl_bondAccount = Some (sd_bond s),
          cl_voteAccount = Some (bd_voteAccount d), cl_rentCollector = Some (sd_rentCollector s),
          cl_splitRentCollector = of_split (sd_splitRentCollector s),
          cl_splitRentRefundAccount = refundStakeAccount \<rparr>)) (\<lambda>ix.
      cbind (executeTxHandleErrors sl ctx w \<lparr> tp_instructions = [ProgramIx ix], tp_signers = [cx_wallet ctx],
          tp_computeUnitLimit = computeUnitLimit,
          tp_errMessage = [CHR 0x27] @ ''Failed to close settlement '' @ pk_b58 sl address \<rparr>) (\<lambda>_.
      cret (txOutcomeMessage (dry_run ctx) (''Settlement account '' @ pk_b58 sl address @ '' successfully closed'')))))))"

definition manageResetStake :: "solana_lib \<Rightarrow> cli_ctx \<Rightarrow> world \<Rightarrow> pubkey \<Rightarrow> pubkey \<Rightarrow> pubkey \<Rightarrow> int \<Rightarrow> string cmd" where
  "manageResetStake sl ctx w address settlement bond computeUnitLimit =
     cbind (lift_res (guard_throw (getAccountInfo (cx_lib ctx) settlement \<noteq> None) ECliCommand
       (''Settlement account '' @ pk_b58 sl settlement @ '' is not closed, cannot reset stake '' @ pk_b58 sl address))) (\<lambda>_.
     cbind (lift_res (resetStakeInstruction sl (chain_of ctx) address settlement (Some bond) None None)) (\<lambda>ix.
     cbind (executeTxHandleErrors sl ctx w \<lparr> tp_instructions = [ProgramIx ix], tp_signers = [cx_wallet ctx],
         tp_computeUnitLimit = computeUnitLimit,
         tp_errMessage = [CHR 0x27] @ ''Failed to reset stake '' @ pk_b58 sl address \<rparr>) (\<lambda>_.
     cret (txOutcomeMessage (dry_run ctx) (''Stake account '' @ pk_b58 sl address @ '' successfully reset'')))))"

definition manageMerge :: "solana_lib \<Rightarrow> cli_ctx \<Rightarrow> world \<Rightarrow> pubkey \<Rightarrow> pubkey \<Rightarrow> pubkey \<Rightarrow> pubkey option \<Rightarrow> int \<Rightarrow> string cmd" where
  "manageMerge sl ctx w source destination config settlement computeUnitLimit =
     cbind (lift_res (mergeStakeInstruction sl config source destination (Some (orElse settlement default_key)) None)) (\<lambda>ix.
     cbind (executeTxHandleErrors sl ctx w \<lparr> tp_instructions = [ProgramIx ix], tp_signers = [cx_wallet ctx],
         tp_computeUnitLimit = computeUnitLimit,
         tp_errMessage = ''Failed to create merge stake accounts [source: '' @ pk_b58 sl source @ '', destination: ''
           @ pk_b58 sl destination @ '']'' \<rparr>) (\<lambda>_.
     cret (txOutcomeMessage (dry_run ctx) (''Stake account '' @ pk_b58 sl source @ '' successfully merged to ''
       @ pk_b58 sl destination))))"

section \<open>Configurations\<close>

datatype emergency = Pause | Resume

definition emergency_str :: "emergency \<Rightarrow> string" where
  "emergency_str a = (case a of Pause \<Rightarrow> ''pause'' | Resume \<Rightarrow> ''resume'')"

definition manageEmergencyPauseAndResume :: "solana_lib \<Rightarrow> cli_ctx \<Rightarrow> world \<Rightarrow> emergency \<Rightarrow> pubkey \<Rightarrow> authority option
    \<Rightarrow> int \<Rightarrow> string cmd" where
  "manageEmergencyPauseAndResume sl ctx w action address authority computeUnitLimit =
     (let auth = or_wallet ctx authority; bc = chain_of ctx; k = Some (authority_key auth) in
      cbind (lift_res (case action of Pause \<Rightarrow> emergencyPauseInstruction sl bc (Some address) k
        | Resume \<Rightarrow> emergencyResumeInstruction sl bc (Some address) k)) (\<lambda>ix.
      cbind (executeTxHandleErrors sl ctx w \<lparr> tp_instructions = [ProgramIx ix],
          tp_signers = signed_by [cx_wallet ctx] auth, tp_computeUnitLimit = computeUnitLimit,
          tp_errMessage = ''Failed to '' @ emergency_str action @ '' validator bonds contract config account ''
            @ pk_b58 sl address \<rparr>) (\<lambda>_.
      cret (txOutcomeMessage (dry_run ctx) (''Succeeded to '' @ emergency_str action
        @ '' validator bonds config account '' @ pk_b58 sl address)))))"

text \<open>The keypair of the configuration is generated when it is not given, and signs first.\<close>

definition manageInitConfig :: "solana_lib \<Rightarrow> cli_ctx \<Rightarrow> world \<Rightarrow> pubkey option \<Rightarrow> pubkey option \<Rightarrow> pubkey option
    \<Rightarrow> authority option \<Rightarrow> int \<Rightarrow> int \<Rightarrow> int \<Rightarrow> int \<Rightarrow> string cmd" where
  "manageInitConfig sl ctx w address admin operator rentPayer epochsToClaimSettlement
       slotsToStartSettlementClaiming withdrawLockupEpochs computeUnitLimit =
     (let config = orElse address (cx_generate ctx 0); payer = or_wallet ctx rentPayer;
          adminKey = orElse admin (cx_wallet ctx) in
      cbind (lift_res (initConfigInstruction sl (chain_of ctx) (cx_generate ctx 0) (Some config) (Some adminKey)
        (Some (orElse operator adminKey)) (Some (authority_key payer)) (Some epochsToClaimSettlement)
        (Some slotsToStartSettlementClaiming) (Some withdrawLockupEpochs))) (\<lambda>(c, ix).
      cbind (executeTxHandleErrors sl ctx w \<lparr> tp_instructions = [ProgramIx ix],
          tp_signers = signed_by [config, cx_wallet ctx] payer, tp_computeUnitLimit = computeUnitLimit,
          tp_errMessage = [CHR 0x27] @ ''Failed to create config account '' @ pk_b58 sl config \<rparr>) (\<lambda>_.
      cret (txOutcomeMessage (dry_run ctx) (''Config account '' @ pk_b58 sl config @ '' successfully created'')))))"

text \<open>Without an authority the one of the configuration is taken; it has to be the wallet, unless
  the transaction is only printed.\<close>

definition config_admin :: "solana_lib \<Rightarrow> cli_ctx \<Rightarrow> pubkey \<Rightarrow> authority option \<Rightarrow> authority res" where
  "config_admin sl ctx address adminAuthority = (case adminAuthority of
       Some a \<Rightarrow> Inr a
     | None \<Rightarrow> rbind (getConfig sl (chain_of ctx) address) (\<lambda>c.
         rbind (guard_throw (\<not> cx_printOnly ctx \<and> cd_admin c \<noteq> cx_wallet ctx) EError
           (''Current wallet does not have permission to configure the config account. ''
            @ ''Current admin authority: '' @ pk_b58 sl (cd_admin c))) (\<lambda>_.
         Inr (PubkeyOf (cd_admin c)))))"

definition manageConfigureConfig :: "solana_lib \<Rightarrow> cli_ctx \<Rightarrow> world \<Rightarrow> pubkey \<Rightarrow> authority option
    \<Rightarrow> configure_config_args \<Rightarrow> int \<Rightarrow> string cmd" where
  "manageConfigureConfig sl ctx w address adminAuthority a computeUnitLimit =
     cbind (lift_res (config_admin sl ctx address adminAuthority)) (\<lambda>admin.
     cbind (lift_res (configureConfigInstruction sl (chain_of ctx) (Some address) (Some (authority_key admin)) a)) (\<lambda>ix.
     cbind (executeTxHandleErrors sl ctx w \<lparr> tp_instructions = [ProgramIx ix],
         tp_signers = signed_by [cx_wallet ctx] admin, tp_computeUnitLimit = computeUnitLimit,
         tp_errMessage = [CHR 0x27] @ ''Failed to configure config account '' @ pk_b58 sl address \<rparr>) (\<lambda>_.
     cret (txOutcomeMessage (dry_run ctx) (''Config account '' @ pk_b58 sl address @ '' successfully configured'')))))"

end
