(* ===== verification/Cli_Commands.thy ===== *)
theory Cli_Commands
  imports Cli_Admin
begin

text \<open>
  The commands that send a transaction, as the two command line programs install them:
  \<open>packages/validator-bonds-cli/src/commands/manage/\<close> (\<open>sam\<close>) and
  \<open>packages/validator-bonds-cli-institutional/src/commands/manage/\<close> (\<open>institutional\<close>). An
  action gets its arguments parsed; it fills in the configuration and calls the command. The
  institutional program works on one configuration and has no option for another.
\<close>

definition MARINADE_INSTITUTIONAL_CONFIG_ADDRESS :: "solana_lib \<Rightarrow> pubkey res" where
  "MARINADE_INSTITUTIONAL_CONFIG_ADDRESS sl = pk_of_str sl MARINADE_INSTITUTIONAL_CONFIG_B58"

datatype command =
    InitConfig "pubkey option" "pubkey option" "pubkey option" "authority option" int int int int
  | ConfigureConfig "pubkey option" "authority option" configure_config_args int
  | MintBond pubkey "pubkey option" "authority option" int
  | InitBond "pubkey option" "int option" "int option" init_bond_opts
  | ConfigureBond configure_bond_opts
  | MergeStake pubkey pubkey "pubkey option" "pubkey option" int
  | FundBond pubkey "pubkey option" pubkey "authority option" int
  | FundBondSol pubkey "pubkey option" number "authority option" int
  | InitWithdrawRequest "pubkey option" "pubkey option" "pubkey option" "authority option" string "authority option" int
  | CancelWithdrawRequest "pubkey option" "pubkey option" "pubkey option" "authority option" "pubkey option" int
  | ClaimWithdrawRequest claim_opts
  | EmergencyPause "pubkey option" "authority option" int
  | EmergencyResume "pubkey option" "authority option" int
  | CloseSettlement pubkey "pubkey option" int
  | ResetStake pubkey pubkey pubkey int

text \<open>\<open>config ?? MARINADE_CONFIG_ADDRESS\<close>; the commands that fund a bond pass the option on.\<close>

definition or_marinade :: "solana_lib \<Rightarrow> pubkey option \<Rightarrow> pubkey cmd" where
  "or_marinade sl config = lift_res (config_or_default sl config)"

definition sam_init_config :: "solana_lib \<Rightarrow> cli_ctx \<Rightarrow> world
    \<Rightarrow> pubkey option \<Rightarrow> pubkey option \<Rightarrow> pubkey option \<Rightarrow> authority option \<Rightarrow> int \<Rightarrow> int \<Rightarrow> int \<Rightarrow> int \<Rightarrow> string cmd" where
  "sam_init_config sl ctx w address admin operator payer epochs slots lockup limit =
     manageInitConfig sl ctx w address admin operator payer epochs slots lockup limit"

definition sam_configure_config :: "solana_lib \<Rightarrow> cli_ctx \<Rightarrow> world
    \<Rightarrow> pubkey option \<Rightarrow> authority option \<Rightarrow> configure_config_args \<Rightarrow> int \<Rightarrow> string cmd" where
  "sam_configure_config sl ctx w address admin a limit =
     cbind (or_marinade sl address) (\<lambda>c. manageConfigureConfig sl ctx w c admin a limit)"

definition sam_mint_bond :: "solana_lib \<Rightarrow> cli_ctx \<Rightarrow> world
    \<Rightarrow> pubkey \<Rightarrow> pubkey option \<Rightarrow> authority option \<Rightarrow> int \<Rightarrow> string cmd" where
  "sam_mint_bond sl ctx w address config payer limit =
     cbind (or_marinade sl config) (\<lambda>c. manageMintBond sl ctx w c address payer limit)"

definition sam_init_bond :: "solana_lib \<Rightarrow> cli_ctx \<Rightarrow> world
    \<Rightarrow> pubkey option \<Rightarrow> int option \<Rightarrow> int option \<Rightarrow> init_bond_opts \<Rightarrow> string cmd" where
  "sam_init_bond sl ctx w config cpmpe maxStakeWanted opts =
     cbind (or_marinade sl config) (\<lambda>c. manageInitBond sl ctx w c
       (opts\<lparr>io_cpmpe := orElse cpmpe 0, io_maxStakeWanted := orElse maxStakeWanted 0,
         io_rates := (io_rates opts)\<lparr>rt_uniform := BnUndefined\<rparr>\<rparr>))"

definition sam_configure_bond :: "solana_lib \<Rightarrow> cli_ctx \<Rightarrow> world
    \<Rightarrow> configure_bond_opts \<Rightarrow> string cmd" where
  "sam_configure_bond sl ctx w opts =
     cbind (or_marinade sl (oo_config opts)) (\<lambda>c. manageConfigureBond sl ctx w
       (opts\<lparr>oo_config := Some c, oo_rates := (oo_rates opts)\<lparr>rt_uniform := BnUndefined\<rparr>\<rparr>))"

definition sam_merge_stake :: "solana_lib \<Rightarrow> cli_ctx \<Rightarrow> world
    \<Rightarrow> pubkey \<Rightarrow> pubkey \<Rightarrow> pubkey option \<Rightarrow> pubkey option \<Rightarrow> int \<Rightarrow> string cmd" where
  "sam_merge_stake sl ctx w source destination config settlement limit =
     cbind (or_marinade sl config) (\<lambda>c. manageMerge sl ctx w source destination c settlement limit)"

definition sam_fund_bond :: "solana_lib \<Rightarrow> cli_ctx \<Rightarrow> world
    \<Rightarrow> pubkey \<Rightarrow> pubkey option \<Rightarrow> pubkey \<Rightarrow> authority option \<Rightarrow> int \<Rightarrow> string cmd" where
  "sam_fund_bond sl ctx w address config stake auth limit =
     manageFundBond sl ctx w config address stake auth limit"

definition sam_fund_bond_sol :: "solana_lib \<Rightarrow> cli_ctx \<Rightarrow> world
    \<Rightarrow> pubkey \<Rightarrow> pubkey option \<Rightarrow> number \<Rightarrow> authority option \<Rightarrow> int \<Rightarrow> string cmd" where
  "sam_fund_bond_sol sl ctx w address config amount from limit =
     manageFundBondWithSol sl ctx w config address amount from limit"

definition sam_init_withdraw :: "solana_lib \<Rightarrow> cli_ctx \<Rightarrow> world
    \<Rightarrow> pubkey option \<Rightarrow> pubkey option \<Rightarrow> pubkey option \<Rightarrow> authority option \<Rightarrow> string \<Rightarrow> authority option \<Rightarrow> int \<Rightarrow> string cmd" where
  "sam_init_withdraw sl ctx w address config vote auth amount payer limit =
     cbind (or_marinade sl config) (\<lambda>c.
       manageInitWithdrawRequest sl ctx w address (Some c) vote auth amount payer limit)"

definition sam_cancel_withdraw :: "solana_lib \<Rightarrow> cli_ctx \<Rightarrow> world
    \<Rightarrow> pubkey option \<Rightarrow> pubkey option \<Rightarrow> pubkey option \<Rightarrow> authority option \<Rightarrow> pubkey option \<Rightarrow> int \<Rightarrow> string cmd" where
  "sam_cancel_withdraw sl ctx w address config vote auth collector limit =
     cbind (or_marinade sl config) (\<lambda>c.
       manageCancelWithdrawRequest sl ctx w address (Some c) vote auth collector limit)"

definition sam_claim_withdraw :: "solana_lib \<Rightarrow> cli_ctx \<Rightarrow> world
    \<Rightarrow> claim_opts \<Rightarrow> string cmd" where
  "sam_claim_withdraw sl ctx w opts =
     cbind (or_marinade sl (co_config opts)) (\<lambda>c. manageClaimWithdrawRequest sl ctx w (opts\<lparr>co_config := Some c\<rparr>))"

definition sam_pause :: "solana_lib \<Rightarrow> cli_ctx \<Rightarrow> world
    \<Rightarrow> pubkey option \<Rightarrow> authority option \<Rightarrow> int \<Rightarrow> string cmd" where
  "sam_pause sl ctx w address auth limit =
     cbind (or_marinade sl address) (\<lambda>c. manageEmergencyPauseAndResume sl ctx w Pause c auth limit)"

definition sam_resume :: "solana_lib \<Rightarrow> cli_ctx \<Rightarrow> world
    \<Rightarrow> pubkey option \<Rightarrow> authority option \<Rightarrow> int \<Rightarrow> string cmd" where
  "sam_resume sl ctx w address auth limit =
     cbind (or_marinade sl address) (\<lambda>c. manageEmergencyPauseAndResume sl ctx w Resume c auth limit)"

definition sam_close_settlement :: "solana_lib \<Rightarrow> cli_ctx \<Rightarrow> world
    \<Rightarrow> pubkey \<Rightarrow> pubkey option \<Rightarrow> int \<Rightarrow> string cmd" where
  "sam_close_settlement sl ctx w address refund limit =
     manageCloseSettlement sl ctx w address refund limit"

definition sam_reset_stake :: "solana_lib \<Rightarrow> cli_ctx \<Rightarrow> world
    \<Rightarrow> pubkey \<Rightarrow> pubkey \<Rightarrow> pubkey \<Rightarrow> int \<Rightarrow> string cmd" where
  "sam_reset_stake sl ctx w address settlement bond limit =
     manageResetStake sl ctx w address settlement bond limit"

fun sam_action :: "solana_lib \<Rightarrow> cli_ctx \<Rightarrow> world \<Rightarrow> command \<Rightarrow> string cmd" where
  "sam_action sl ctx w (InitConfig address admin operator payer epochs slots lockup limit) =
     sam_init_config sl ctx w address admin operator payer epochs slots lockup limit"
| "sam_action sl ctx w (ConfigureConfig address admin a limit) =
     sam_configure_config sl ctx w address admin a limit"
| "sam_action sl ctx w (MintBond address config payer limit) =
     sam_mint_bond sl ctx w address config payer limit"
| "sam_action sl ctx w (InitBond config cpmpe maxStakeWanted opts) =
     sam_init_bond sl ctx w config cpmpe maxStakeWanted opts"
| "sam_action sl ctx w (ConfigureBond opts) =
     sam_configure_bond sl ctx w opts"
| "sam_action sl ctx w (MergeStake source destination config settlement limit) =
     sam_merge_stake sl ctx w source destination config settlement limit"
| "sam_action sl ctx w (FundBond address config stake auth limit) =
     sam_fund_bond sl ctx w address config stake auth limit"
| "sam_action sl ctx w (FundBondSol address config amount from limit) =
     sam_fund_bond_sol sl ctx w address config amount from limit"
| "sam_action sl ctx w (InitWithdrawRequest address config vote auth amount payer limit) =
     sam_init_withdraw sl ctx w address config vote auth amount payer limit"
| "sam_action sl ctx w (CancelWithdrawRequest address config vote auth collector limit) =
     sam_cancel_withdraw sl ctx w address config vote auth collector limit"
| "sam_action sl ctx w (ClaimWithdrawRequest opts) =
     sam_claim_withdraw sl ctx w opts"
| "sam_action sl ctx w (EmergencyPause address auth limit) =
     sam_pause sl ctx w address auth limit"
| "sam_action sl ctx w (EmergencyResume address auth limit) =
     sam_resume sl ctx w address auth limit"
| "sam_action sl ctx w (CloseSettlement address refund limit) =
     sam_close_settlement sl ctx w address refund limit"
| "sam_action sl ctx w (ResetStake address settlement bond limit) =
     sam_reset_stake sl ctx w address settlement bond limit"

lemmas sam_defs = sam_init_config_def sam_configure_config_def sam_mint_bond_def sam_init_bond_def
  sam_configure_bond_def sam_merge_stake_def sam_fund_bond_def sam_fund_bond_sol_def
  sam_init_withdraw_def sam_cancel_withdraw_def sam_claim_withdraw_def sam_pause_def sam_resume_def
  sam_close_settlement_def sam_reset_stake_def

definition no_rates :: rates where
  "no_rates = \<lparr> rt_inflation = BnUndefined, rt_mev = BnUndefined, rt_block = BnUndefined, rt_uniform = BnUndefined \<rparr>"

definition inst_mint_bond :: "solana_lib \<Rightarrow> cli_ctx \<Rightarrow> world
    \<Rightarrow> pubkey \<Rightarrow> authority option \<Rightarrow> int \<Rightarrow> string cmd" where
  "inst_mint_bond sl ctx w address payer limit =
     cbind (lift_res (MARINADE_INSTITUTIONAL_CONFIG_ADDRESS sl)) (\<lambda>c. manageMintBond sl ctx w c address payer limit)"

definition inst_init_bond :: "solana_lib \<Rightarrow> cli_ctx \<Rightarrow> world
    \<Rightarrow> int option \<Rightarrow> int option \<Rightarrow> init_bond_opts \<Rightarrow> string cmd" where
  "inst_init_bond sl ctx w cpmpe maxStakeWanted opts =
     cbind (lift_res (MARINADE_INSTITUTIONAL_CONFIG_ADDRESS sl)) (\<lambda>c. manageInitBond sl ctx w c
       (opts\<lparr>io_cpmpe := orElse cpmpe 0, io_maxStakeWanted := orElse maxStakeWanted 0, io_rates := no_rates\<rparr>))"

definition inst_configure_bond :: "solana_lib \<Rightarrow> cli_ctx \<Rightarrow> world
    \<Rightarrow> configure_bond_opts \<Rightarrow> string cmd" where
  "inst_configure_bond sl ctx w opts =
     cbind (lift_res (MARINADE_INSTITUTIONAL_CONFIG_ADDRESS sl)) (\<lambda>c. manageConfigureBond sl ctx w
       (opts\<lparr>oo_config := Some c, oo_rates := no_rates, oo_rentPayer := None, oo_force := True\<rparr>))"

definition inst_fund_bond :: "solana_lib \<Rightarrow> cli_ctx \<Rightarrow> world
    \<Rightarrow> pubkey \<Rightarrow> pubkey \<Rightarrow> authority option \<Rightarrow> int \<Rightarrow> string cmd" where
  "inst_fund_bond sl ctx w address stake auth limit =
     cbind (lift_res (MARINADE_INSTITUTIONAL_CONFIG_ADDRESS sl)) (\<lambda>c.
       manageFundBond sl ctx w (Some c) address stake auth limit)"

definition inst_fund_bond_sol :: "solana_lib \<Rightarrow> cli_ctx \<Rightarrow> world
    \<Rightarrow> pubkey \<Rightarrow> number \<Rightarrow> authority option \<Rightarrow> int \<Rightarrow> string cmd" where
  "inst_fund_bond_sol sl ctx w address amount from limit =
     cbind (lift_res (MARINADE_INSTITUTIONAL_CONFIG_ADDRESS sl)) (\<lambda>c.
       manageFundBondWithSol sl ctx w (Some c) address amount from limit)"

definition inst_init_withdraw :: "solana_lib \<Rightarrow> cli_ctx \<Rightarrow> world
    \<Rightarrow> pubkey option \<Rightarrow> pubkey option \<Rightarrow> authority option \<Rightarrow> string \<Rightarrow> authority option \<Rightarrow> int \<Rightarrow> string cmd" where
  "inst_init_withdraw sl ctx w address vote auth amount payer limit =
     cbind (lift_res (MARINADE_INSTITUTIONAL_CONFIG_ADDRESS sl)) (\<lambda>c.
       manageInitWithdrawRequest sl ctx w address (Some c) vote auth amount payer limit)"

definition inst_cancel_withdraw :: "solana_lib \<Rightarrow> cli_ctx \<Rightarrow> world
    \<Rightarrow> pubkey option \<Rightarrow> pubkey option \<Rightarrow> authority option \<Rightarrow> pubkey option \<Rightarrow> int \<Rightarrow> string cmd" where
  "inst_cancel_withdraw sl ctx w address vote auth collector limit =
     cbind (lift_res (MARINADE_INSTITUTIONAL_CONFIG_ADDRESS sl)) (\<lambda>c.
       manageCancelWithdrawRequest sl ctx w address (Some c) vote auth collector limit)"

definition inst_claim_withdraw :: "solana_lib \<Rightarrow> cli_ctx \<Rightarrow> world
    \<Rightarrow> claim_opts \<Rightarrow> string cmd" where
  "inst_claim_withdraw sl ctx w opts =
     cbind (lift_res (MARINADE_INSTITUTIONAL_CONFIG_ADDRESS sl)) (\<lambda>c.
       manageClaimWithdrawRequest sl ctx w (opts\<lparr>co_config := Some c\<rparr>))"

text \<open>\<open>None\<close>: the institutional program does not have the command.\<close>

fun institutional_action :: "solana_lib \<Rightarrow> cli_ctx \<Rightarrow> world \<Rightarrow> command \<Rightarrow> string cmd option" where
  "institutional_action sl ctx w (MintBond address config payer limit) =
     Some (inst_mint_bond sl ctx w address payer limit)"
| "institutional_action sl ctx w (InitBond config cpmpe maxStakeWanted opts) =
     Some (inst_init_bond sl ctx w cpmpe maxStakeWanted opts)"
| "institutional_action sl ctx w (ConfigureBond opts) =
     Some (inst_configure_bond sl ctx w opts)"
| "institutional_action sl ctx w (FundBond address config stake auth limit) =
     Some (inst_fund_bond sl ctx w address stake auth limit)"
| "institutional_action sl ctx w (FundBondSol address config amount from limit) =
     Some (inst_fund_bond_sol sl ctx w address amount from limit)"
| "institutional_action sl ctx w (InitWithdrawRequest address config vote auth amount payer limit) =
     Some (inst_init_withdraw sl ctx w address vote auth amount payer limit)"
| "institutional_action sl ctx w (CancelWithdrawRequest address config vote auth collector limit) =
     Some (inst_cancel_withdraw sl ctx w address vote auth collector limit)"
| "institutional_action sl ctx w (ClaimWithdrawRequest opts) =
     Some (inst_claim_withdraw sl ctx w opts)"
| "institutional_action sl ctx w _ = None"

lemmas institutional_defs = inst_mint_bond_def inst_init_bond_def inst_configure_bond_def
  inst_fund_bond_def inst_fund_bond_sol_def inst_init_withdraw_def inst_cancel_withdraw_def
  inst_claim_withdraw_def

end
