(* ===== verification/Cli_Recording.thy ===== *)
theory Cli_Recording
  imports Cli_Commands
begin

text \<open>
  What the commands may do to the data recorded for the usage event. A predicate that the three
  recording functions keep is kept by every command, whether it succeeds or throws: the locale
  \<open>recording\<close>. It is interpreted for the cap on the signatures, for recording that is switched
  off, and for the flag that signatures were dropped.
\<close>

named_theorems keeps_rules \<open>how a predicate is kept by the steps of a command\<close>

definition keeps :: "(tx_data \<Rightarrow> bool) \<Rightarrow> 'a cmd \<Rightarrow> bool" where
  "keeps P m \<longleftrightarrow> (\<forall>d. P d \<longrightarrow> P (snd (m d)))"

lemma keepsI: "(\<And>d. P d \<Longrightarrow> P (snd (m d))) \<Longrightarrow> keeps P m"
  by (simp add: keeps_def)

lemma keepsD: "keeps P m \<Longrightarrow> P d \<Longrightarrow> P (snd (m d))"
  by (simp add: keeps_def)

lemma keeps_cret [keeps_rules]: "keeps P (cret x)"
  by (simp add: keeps_def cret_def)

lemma keeps_cfail [keeps_rules]: "keeps P (cfail e)"
  by (simp add: keeps_def cfail_def)

lemma keeps_lift [keeps_rules]: "keeps P (lift_res r)"
  by (simp add: keeps_def lift_res_def cret_def cfail_def split: sum.split)

lemma keeps_cbind [keeps_rules]: "keeps P m \<Longrightarrow> (\<And>x. keeps P (f x)) \<Longrightarrow> keeps P (cbind m f)"
  by (fastforce simp: keeps_def cbind_def split: prod.splits sum.splits)

lemma keeps_ccatch [keeps_rules]: "keeps P m \<Longrightarrow> (\<And>e. keeps P (f e)) \<Longrightarrow> keeps P (ccatch m f)"
  by (fastforce simp: keeps_def ccatch_def split: prod.splits sum.splits)

lemma keeps_if [keeps_rules]: "(c \<Longrightarrow> keeps P m) \<Longrightarrow> (\<not> c \<Longrightarrow> keeps P m') \<Longrightarrow> keeps P (if c then m else m')"
  by simp

lemma keeps_pair [keeps_rules]: "(\<And>x y. keeps P (f x y)) \<Longrightarrow> keeps P (case p of (x, y) \<Rightarrow> f x y)"
  by (simp split: prod.split)

lemma keeps_option [keeps_rules]:
  "keeps P m \<Longrightarrow> (\<And>x. keeps P (f x)) \<Longrightarrow> keeps P (case v of None \<Rightarrow> m | Some x \<Rightarrow> f x)"
  by (simp split: option.split)

lemma keeps_bond_for [keeps_rules]: "keeps P (bond_for sl ctx config address)"
  by (simp add: bond_for_def keeps_lift)

locale recording =
  fixes env :: usage_env and P :: "tx_data \<Rightarrow> bool"
  assumes amount: "P d \<Longrightarrow> P (recordAmountLamports env a d)"
    and accounts: "P d \<Longrightarrow> P (recordResolvedAccounts env ra d)"
    and signature: "P d \<Longrightarrow> P (recordTxSignature env s d)"
begin

lemma signatures: "P d \<Longrightarrow> P (foldl (record_signature env) d ss)"
  by (induction ss arbitrary: d) (auto simp: record_signature_def signature split: option.split list.split)

lemma keeps_amount: "keeps P (recorded (recordAmountLamports env a))"
  by (rule keepsI) (simp add: recorded_def amount)

lemma keeps_resolved: "cx_env ctx = env \<Longrightarrow> keeps P (resolved sl ctx b v c s w)"
  by (rule keepsI) (simp add: resolved_def recorded_def accounts)

lemma keeps_execute: "cx_env ctx = env \<Longrightarrow> keeps P (executeTxHandleErrors sl ctx w plan)"
  by (rule keepsI) (simp add: executeTxHandleErrors_def recorded_def cfail_def signatures split: exec_outcome.split)

lemma keeps_split: "cx_env ctx = env \<Longrightarrow> keeps P (splitAndExecuteTxHandleErrors sl ctx w plan)"
  by (rule keepsI)
    (simp add: splitAndExecuteTxHandleErrors_def recorded_def cfail_def signatures split: exec_outcome.split)

lemmas keeps_all = keeps_rules keeps_amount keeps_resolved keeps_execute keeps_split

text \<open>Every command of the two CLI packages that sends a transaction.\<close>

lemma funding:
  assumes "cx_env ctx = env"
  shows "keeps P (manageFundBond sl ctx w config address stake auth limit)"
    and "keeps P (manageFundBondWithSol sl ctx w config address amt from limit)"
    and "keeps P (manageMintBond sl ctx w c address payer limit)"
  unfolding manageFundBond_def fund_bond_plan_def manageFundBondWithSol_def fund_sol_plan_def
    manageMintBond_def failIfUnexpectedFundingError_def Let_def
  by (intro keeps_all | simp add: assms)+

lemma withdrawing:
  assumes "cx_env ctx = env"
  shows "keeps P (manageInitWithdrawRequest sl ctx w oa oc ov auth amt payer limit)"
    and "keeps P (manageClaimWithdrawRequest sl ctx w opts)"
    and "keeps P (manageCancelWithdrawRequest sl ctx w oa oc ov auth collector limit)"
  unfolding manageInitWithdrawRequest_def requested_amount_def request_failed_def manageClaimWithdrawRequest_def
    manageCancelWithdrawRequest_def Let_def assms [symmetric]
  by (intro keeps_all [unfolded assms [symmetric]] | simp add: assms)+

lemma bonds:
  assumes "cx_env ctx = env"
  shows "keeps P (manageInitBond sl ctx w c io)" and "keeps P (manageConfigureBond sl ctx w oo)"
  unfolding manageInitBond_def bond_failed_def manageConfigureBond_def Let_def
  by (intro keeps_all | simp add: assms)+

lemma admin:
  assumes "cx_env ctx = env"
  shows "keeps P (manageCloseSettlement sl ctx w address refund limit)"
    and "keeps P (manageResetStake sl ctx w address settlement bond limit)"
    and "keeps P (manageMerge sl ctx w address dest config settle limit)"
    and "keeps P (manageEmergencyPauseAndResume sl ctx w action address auth limit)"
    and "keeps P (manageInitConfig sl ctx w oa admin operator payer e s l limit)"
    and "keeps P (manageConfigureConfig sl ctx w address auth cfg limit)"
  unfolding manageCloseSettlement_def manageResetStake_def manageMerge_def manageEmergencyPauseAndResume_def
    manageInitConfig_def manageConfigureConfig_def Let_def
  by (intro keeps_all | simp add: assms)+

lemma keeps_or_marinade: "keeps P (or_marinade sl c)"
  by (simp add: or_marinade_def keeps_lift)

lemma sam: "cx_env ctx = env \<Longrightarrow> keeps P (sam_action sl ctx w c)"
  by (cases c) (simp_all add: sam_defs keeps_cbind keeps_or_marinade funding withdrawing bonds admin)

lemma institutional: "cx_env ctx = env \<Longrightarrow> institutional_action sl ctx w c = Some m \<Longrightarrow> keeps P m"
  by (cases c) (auto simp: institutional_defs keeps_lift funding withdrawing bonds admin intro!: keeps_cbind)

end

section \<open>Interpretations\<close>

interpretation capped: recording env "\<lambda>d. length (td_signatures d) \<le> SIGNATURE_CAP"
  for env
  by unfold_locales (auto simp: recordAmountLamports_def recordResolvedAccounts_def recordTxSignature_def)

interpretation silent: recording env "\<lambda>d. isTelemetryDisabled env \<longrightarrow> d = d0"
  for env d0
  by unfold_locales (auto simp: recordAmountLamports_def recordResolvedAccounts_def recordTxSignature_def)

interpretation truncation: recording env
  "\<lambda>d. td_signaturesTruncated d \<longrightarrow> SIGNATURE_CAP \<le> length (td_signatures d)"
  for env
  by unfold_locales (auto simp: recordAmountLamports_def recordResolvedAccounts_def recordTxSignature_def)

end
