(* ===== verification/Cli_Main.thy ===== *)
theory Cli_Main
  imports Cli_Recording Cli_Version Cli_Banner
begin

text \<open>
  One run of a command line program: \<open>launchCliProgram\<close> of
  \<open>packages/validator-bonds-cli-core/src/commands/mainCommand.ts\<close>.

  A run is the hook before the action, the action, the hook after it and the report of how it
  ended. \<open>main_host\<close> is what the run reads from outside: the answer of the registry, the wallet,
  the clock, identifiers, whether the context could be set up, and how a thrown value looks as
  an object. The option parser is a library: an option holds what it was given on the command
  line, else the variable of the environment, else its default.
\<close>

section \<open>Options\<close>

record main_opts =
  mo_url :: "string option"
  mo_RPC_URL :: "string option"
  mo_cluster :: "string option"
  mo_simulate :: bool
  mo_printOnly :: bool
  mo_debug :: bool
  mo_verbose :: bool
  mo_bondsApiUrl :: "string option"
  mo_advice :: "bool option"
  mo_commandName :: string
  mo_account :: "string option"
  mo_accountField :: "string option"

text \<open>\<open>-u, --url\<close> has a default, so it is never undefined.\<close>

definition url_option :: "main_opts \<Rightarrow> string option" where
  "url_option o' = Some (orElse (mo_url o') (orElse (mo_RPC_URL o') ''mainnet''))"

definition chosen_cluster :: "main_opts \<Rightarrow> string option" where
  "chosen_cluster o' = orOpt (url_option o') (mo_cluster o')"

definition DEFAULT_BONDS_API_URL :: string where
  "DEFAULT_BONDS_API_URL = ''https://validator-bonds-api.marinade.finance''"

record main_config =
  mc_version :: string
  mc_cliType :: "string option"
  mc_notifications :: bool
  mc_bondsApi :: "bool option"

definition bonds_api_url :: "main_opts \<Rightarrow> string" where
  "bonds_api_url o' = orElse (mo_bondsApiUrl o') DEFAULT_BONDS_API_URL"

definition bonds_api_enabled :: "main_config \<Rightarrow> main_opts \<Rightarrow> bool" where
  "bonds_api_enabled prog o' \<longleftrightarrow> orElse (mc_bondsApi prog) False \<and> mo_advice o' \<noteq> Some False"

definition is_verbose :: "main_opts \<Rightarrow> bool" where
  "is_verbose o' \<longleftrightarrow> mo_debug o' \<or> mo_verbose o'"

text \<open>The public endpoint needs a wait before a confirmation.\<close>

definition confirm_wait_time :: "string \<Rightarrow> nat" where
  "confirm_wait_time clusterUrl = (if includes_str ''api.mainnet'' clusterUrl then 4000 else 0)"

section \<open>State of a run\<close>

record main_host =
  mh_env :: usage_env
  mh_usage :: usage_host
  mh_wallet :: "thrown + string option"
  mh_sessionId :: string
  mh_newInstallId :: string
  mh_writable :: bool
  mh_startedAt :: int
  mh_endedAt :: int
  mh_context :: "thrown + unit"
  mh_compare :: "string \<Rightarrow> string \<Rightarrow> int"
  mh_registry :: npm_response
  mh_object :: "thrown \<Rightarrow> heap \<times> nat"
  mh_rpcEndpoint :: "string option"
  mh_RPC_URL_set :: bool

record main_state =
  ms_tx :: tx_data
  ms_install :: install_state
  ms_pending :: "(base_params \<times> int) option"
  ms_events :: "(string \<times> properties) list"

definition send :: "string \<Rightarrow> properties option \<Rightarrow> main_state \<Rightarrow> main_state" where
  "send event ps s = (case ps of None \<Rightarrow> s | Some p \<Rightarrow> s\<lparr>ms_events := ms_events s @ [(event, p)]\<rparr>)"

text \<open>The event of the command is sent before it runs, unless recording is off.\<close>

definition start_usage :: "main_config \<Rightarrow> main_host \<Rightarrow> main_opts \<Rightarrow> string option \<Rightarrow> main_state \<Rightarrow> main_state" where
  "start_usage prog h o' wallet s = (case mc_cliType prog of
       None \<Rightarrow> s
     | Some cliType \<Rightarrow> if isTelemetryDisabled (mh_env h) then s
         else (let (installId, ins) = getOrCreateInstallId (mh_newInstallId h) (mh_writable h) (ms_install s);
                   p = \<lparr> bp_cliType = cliType, bp_cliVersion = mc_version prog, bp_operation = mo_commandName o',
                     bp_sessionId = mh_sessionId h, bp_walletPubkey = wallet, bp_installId = installId,
                     bp_cluster = clusterLabel (chosen_cluster o'), bp_simulate = mo_simulate o',
                     bp_printOnly = mo_printOnly o' \<rparr>
               in send ''cli_command'' (recordCliCommand (mh_env h) (mh_usage h) p (mo_account o') (mo_accountField o'))
                    (s\<lparr>ms_install := ins, ms_pending := Some (p, mh_startedAt h)\<rparr>)))"

text \<open>The hook before the action: the wallet, the event, the context, the version.\<close>

definition pre_action :: "main_config \<Rightarrow> main_host \<Rightarrow> main_opts \<Rightarrow> main_state \<Rightarrow> (thrown + unit) \<times> main_state" where
  "pre_action prog h o' s = (case mh_wallet h of
       Inl e \<Rightarrow> (Inl e, s)
     | Inr wallet \<Rightarrow> (let s' = start_usage prog h o' wallet s in
         (case mh_context h of
            Inl e \<Rightarrow> (Inl e, s')
          | Inr _ \<Rightarrow> (case checkCliVersion (mh_compare h) (mh_registry h) (mc_version prog) of
              Inl e \<Rightarrow> (Inl (ThrownJs e), s')
            | Inr _ \<Rightarrow> (Inr (), s')))))"

definition completion_str :: "completion_result \<Rightarrow> string" where
  "completion_str r = (case r of ResSuccess \<Rightarrow> ''success'' | ResTransactionError \<Rightarrow> ''transaction_error''
     | ResNetworkError \<Rightarrow> ''network_error'' | ResValidationError \<Rightarrow> ''validation_error'' | ResOther \<Rightarrow> ''other'')"

definition fireCompletion :: "main_host \<Rightarrow> completion_result \<Rightarrow> main_state \<Rightarrow> main_state" where
  "fireCompletion h result s = (case ms_pending s of
       None \<Rightarrow> s
     | Some (p, startedAt) \<Rightarrow> (let (drained, tx) = drainTxData (ms_tx s) in
         send ''cli_command_complete'' (recordCliCommandComplete (mh_env h) (mh_usage h) p (completion_str result)
           (mh_endedAt h - startedAt) drained) (s\<lparr>ms_tx := tx\<rparr>)))"

section \<open>A run\<close>

record main_end =
  me_exitCode :: int
  me_banners :: bool
  me_reported :: "(nat + cli_command_error) option"

definition error_result :: "main_host \<Rightarrow> thrown \<Rightarrow> completion_result" where
  "error_result h e = (case mh_object h e of (heap, k) \<Rightarrow>
     (case map_of heap k of None \<Rightarrow> ResOther | Some x \<Rightarrow> errorClass x))"

definition report :: "solana_lib \<Rightarrow> main_host \<Rightarrow> thrown \<Rightarrow> nat + cli_command_error" where
  "report sl h e = (case mh_object h e of (heap, k) \<Rightarrow>
     translateKnownError sl heap k \<lparr> tc_rpcEndpoint = mh_rpcEndpoint h, tc_txArgs = None,
       tc_RPC_URL_set = mh_RPC_URL_set h \<rparr>)"

definition run_action :: "string cmd \<Rightarrow> main_state \<Rightarrow> (thrown + string) \<times> main_state" where
  "run_action action s = (case action (ms_tx s) of (r, tx) \<Rightarrow> (r, s\<lparr>ms_tx := tx\<rparr>))"

definition launchCliProgram :: "solana_lib \<Rightarrow> main_config \<Rightarrow> main_host \<Rightarrow> main_opts \<Rightarrow> string cmd \<Rightarrow> main_state
    \<Rightarrow> main_end \<times> main_state" where
  "launchCliProgram sl prog h o' action s =
     (case (case pre_action prog h o' s of
         (Inl e, s') \<Rightarrow> (Inl e, s')
       | (Inr _, s') \<Rightarrow> run_action action s') of
        (Inr _, s') \<Rightarrow> (\<lparr> me_exitCode = 0, me_banners = mc_notifications prog, me_reported = None \<rparr>,
          fireCompletion h ResSuccess s')
      | (Inl e, s') \<Rightarrow> (\<lparr> me_exitCode = 200, me_banners = False, me_reported = Some (report sl h e) \<rparr>,
          fireCompletion h (error_result h e) s'))"


section \<open>What a run reports\<close>

text \<open>The properties every event of a run has.\<close>

definition run_of :: "base_params \<Rightarrow> properties \<Rightarrow> bool" where
  "run_of p ps \<longleftrightarrow> jsmap_get ps ''session_id'' = Some (JStr (bp_sessionId p))
     \<and> jsmap_get ps ''operation'' = Some (JStr (bp_operation p))
     \<and> jsmap_get ps ''cluster'' = Some (JStr (bp_cluster p))
     \<and> jsmap_get ps ''$device_id'' = Some (JStr (bp_installId p))"

lemma send_simps [simp]:
  "ms_tx (send e ps s) = ms_tx s" "ms_install (send e ps s) = ms_install s"
  "ms_pending (send e ps s) = ms_pending s" "send e (Some p) s = s\<lparr>ms_events := ms_events s @ [(e, p)]\<rparr>"
  "send e None s = s"
  by (simp_all add: send_def split: option.split)

lemma pre_action_state: "mh_wallet h = Inr wallet \<Longrightarrow> snd (pre_action prog h o' s) = start_usage prog h o' wallet s"
  by (simp add: pre_action_def Let_def split: sum.split)

lemma start_usage_tx: "ms_tx (start_usage prog h o' wallet s) = ms_tx s"
  by (simp add: start_usage_def Let_def split: option.split prod.split)

lemma pre_action_tx: "ms_tx (snd (pre_action prog h o' s)) = ms_tx s"
  by (cases "mh_wallet h") (simp_all add: pre_action_state start_usage_tx, simp add: pre_action_def)

lemma start_usage_off:
  "mc_cliType prog = None \<or> isTelemetryDisabled (mh_env h) \<Longrightarrow> start_usage prog h o' wallet s = s"
  by (auto simp: start_usage_def split: option.split)

lemma get_set_if:
  "k \<notin> fst ` set xs \<Longrightarrow> jsmap_get (foldl (\<lambda>ps (name, v). set_if name v ps) ps xs) k = jsmap_get ps k"
  by (induction xs arbitrary: ps) (auto simp: set_if_def split: option.split)

lemma base_run_of: "run_of p (buildBaseProperties env host p)"
  by (simp add: run_of_def buildBaseProperties_def Let_def split: option.split list.split)

lemma run_of_set:
  "run_of p ps \<Longrightarrow> k \<notin> {''session_id'', ''operation'', ''cluster'', ''$device_id''} \<Longrightarrow> run_of p (jsmap_set k v ps)"
  by (auto simp: run_of_def)

text \<open>The field of the account is one of those of \<open>AccountField\<close>.\<close>

definition account_field_ok :: "string option \<Rightarrow> bool" where
  "account_field_ok f \<longleftrightarrow> (case f of None \<Rightarrow> True | Some x \<Rightarrow>
     x \<notin> {''session_id'', ''operation'', ''cluster'', ''$device_id''})"

lemma command_event:
  assumes "\<not> isTelemetryDisabled env" and "account_field_ok f"
  obtains ps where "recordCliCommand env host p a f = Some ps" "run_of p ps"
proof -
  have "run_of p (case a of Some (c # cs) \<Rightarrow> jsmap_set (orElse f ''account'') (JStr (c # cs)) (buildBaseProperties env host p)
     | _ \<Rightarrow> buildBaseProperties env host p)"
    using base_run_of assms(2)
    by (cases f) (auto simp: account_field_ok_def split: option.split list.split intro!: run_of_set)
  then show thesis using that assms(1) by (simp add: recordCliCommand_def Let_def)
qed

lemma result_keys: "fst ` set (result_text d) = {''signatures'', ''signatures_truncated'', ''amount_lamports'',
   ''bond_account'', ''vote_account'', ''config_account'', ''stake_account'', ''withdraw_request_account''}"
  by (auto simp: result_text_def)

lemma complete_event:
  assumes "\<not> isTelemetryDisabled env"
  obtains ps where "recordCliCommandComplete env host p r t d = Some ps" "run_of p ps"
    "jsmap_get ps ''result'' = Some (JStr r)" "jsmap_get ps ''duration_ms'' = Some (JNum (Fin (of_int t)))"
proof -
  let ?base = "jsmap_set ''duration_ms'' (JNum (Fin (of_int t)))
    (jsmap_set ''result'' (JStr r) (buildBaseProperties env host p))"
  let ?ps = "foldl (\<lambda>ps (name, v). set_if name v ps) ?base (result_text d)"
  have get: "jsmap_get ?ps k = jsmap_get ?base k"
    if "k \<in> {''session_id'', ''operation'', ''cluster'', ''$device_id'', ''result'', ''duration_ms''}" for k
    using that by (subst get_set_if) (auto simp: result_keys)
  have "run_of p ?base" by (intro run_of_set base_run_of) simp_all
  then have "run_of p ?ps" by (simp add: run_of_def get del: jsmap_get_set)
  then show thesis using that [of ?ps] assms get [of "''result''"] get [of "''duration_ms''"]
    by (simp add: recordCliCommandComplete_def Let_def)
qed


lemma errorClass_not_success: "errorClass x \<noteq> ResSuccess"
  by (simp add: errorClass_def)

lemma error_result_not_success: "error_result h e \<noteq> ResSuccess"
  by (simp add: error_result_def errorClass_not_success split: prod.split option.split)

lemma completion_str_success: "completion_str r = ''success'' \<longleftrightarrow> r = ResSuccess"
  by (cases r) (simp_all add: completion_str_def)

lemma start_usage_on:
  assumes "mc_cliType prog = Some t" and "\<not> isTelemetryDisabled (mh_env h)" and "account_field_ok (mo_accountField o')"
  obtains p ps where "ms_pending (start_usage prog h o' wallet s) = Some (p, mh_startedAt h)" "run_of p ps"
    "ms_events (start_usage prog h o' wallet s) = ms_events s @ [(''cli_command'', ps)]"
proof -
  obtain i ins where i: "getOrCreateInstallId (mh_newInstallId h) (mh_writable h) (ms_install s) = (i, ins)"
    by (cases "getOrCreateInstallId (mh_newInstallId h) (mh_writable h) (ms_install s)")
  let ?p = "\<lparr> bp_cliType = t, bp_cliVersion = mc_version prog, bp_operation = mo_commandName o',
    bp_sessionId = mh_sessionId h, bp_walletPubkey = wallet, bp_installId = i,
    bp_cluster = clusterLabel (chosen_cluster o'), bp_simulate = mo_simulate o', bp_printOnly = mo_printOnly o' \<rparr>"
  obtain ps where "recordCliCommand (mh_env h) (mh_usage h) ?p (mo_account o') (mo_accountField o') = Some ps" "run_of ?p ps"
    by (rule command_event [OF assms(2,3)])
  then show thesis using that [of ?p ps] assms i by (simp add: start_usage_def Let_def)
qed

lemma fireCompletion_on:
  assumes "\<not> isTelemetryDisabled (mh_env h)" and "ms_pending s = Some (p, t)"
  obtains ps where "ms_events (fireCompletion h r s) = ms_events s @ [(''cli_command_complete'', ps)]" "run_of p ps"
    "jsmap_get ps ''result'' = Some (JStr (completion_str r))" "ms_tx (fireCompletion h r s) = empty_tx_data"
  by (rule complete_event [OF assms(1), of "mh_usage h" p "completion_str r" "mh_endedAt h - t" "ms_tx s"])
    (use that assms in \<open>auto simp: fireCompletion_def drainTxData_def\<close>)

lemma fireCompletion_none: "ms_pending s = None \<Longrightarrow> fireCompletion h r s = s"
  by (simp add: fireCompletion_def)

text \<open>How the state looks when the completion is sent.\<close>

lemma launch_state:
  assumes "mh_wallet h = Inr wallet"
  obtains tx r where "snd (launchCliProgram sl prog h o' action s)
      = fireCompletion h r ((start_usage prog h o' wallet s)\<lparr>ms_tx := tx\<rparr>)"
    "me_exitCode (fst (launchCliProgram sl prog h o' action s)) = (if r = ResSuccess then 0 else 200)"
    "tx = ms_tx s \<or> tx = snd (action (ms_tx s))"
proof -
  let ?s = "start_usage prog h o' wallet s"
  have p: "pre_action prog h o' s = (fst (pre_action prog h o' s), ?s)"
    using pre_action_state [OF assms, of prog o' s] by (simp add: prod_eq_iff)
  show thesis
  proof (cases "fst (pre_action prog h o' s)")
    case (Inl e)
    then show thesis using that [of "error_result h e" "ms_tx s"] p error_result_not_success [of h e]
      by (simp add: launchCliProgram_def start_usage_tx [of prog h o' wallet s, symmetric])
  next
    case (Inr u)
    obtain r tx where a: "action (ms_tx s) = (r, tx)" by (cases "action (ms_tx s)")
    then show thesis
      using that [of ResSuccess tx] that [of "error_result h (projl r)" tx] p Inr
        error_result_not_success [of h "projl r"]
      by (cases r) (simp_all add: launchCliProgram_def run_action_def start_usage_tx)
  qed
qed

end
