(* ===== verification/Cli_Show.thy ===== *)
theory Cli_Show
  imports Cli_Recording Cli_Version Sdk_Claims
begin

text \<open>
  The commands that show accounts: \<open>packages/validator-bonds-cli-core/src/commands/show.ts\<close> and
  the \<open>show.ts\<close> of the two programs.

  A command returns the data it prints. How an object is printed is not modelled: \<open>reformat\<close> and
  \<open>printData\<close> are libraries. The functions that say for each field how it is printed
  (\<open>reformatBond\<close> and its variants) are modelled over \<open>shown\<close>, the values of JavaScript that
  occur, and \<open>new BN\<close> on any of them is a parameter.
\<close>

record show_ctx =
  sx_cli :: cli_ctx
  sx_verbose :: bool
  sx_multiple :: "pubkey list \<Rightarrow> (pubkey \<times> raw_account option) list res"

abbreviation show_chain :: "show_ctx \<Rightarrow> bonds_chain" where
  "show_chain sx \<equiv> chain_of (sx_cli sx)"

datatype 'a shown_data = ShownOne 'a | ShownMany "'a list"

text \<open>An error of any kind is thrown again as a \<open>CliCommandError\<close>.\<close>

definition or_command_error :: "string \<Rightarrow> 'a res \<Rightarrow> 'a res" where
  "or_command_error msg r = (case r of Inl _ \<Rightarrow> throw ECliCommand msg | Inr x \<Rightarrow> Inr x)"

section \<open>Configurations\<close>

record config_show =
  cs_programId :: pubkey
  cs_publicKey :: pubkey
  cs_account :: config_data
  cs_bondsWithdrawerAuthority :: pubkey

definition config_shown :: "solana_lib \<Rightarrow> bonds_chain \<Rightarrow> pubkey \<times> config_data \<Rightarrow> config_show res" where
  "config_shown sl bc c = rbind (bondsWithdrawerAuthority sl (fst c) (bc_programId bc)) (\<lambda>wa.
     Inr \<lparr> cs_programId = bc_programId bc, cs_publicKey = fst c, cs_account = snd c,
       cs_bondsWithdrawerAuthority = fst wa \<rparr>)"

definition showConfig :: "solana_lib \<Rightarrow> bonds_chain \<Rightarrow> pubkey option \<Rightarrow> pubkey option \<Rightarrow> pubkey option
    \<Rightarrow> config_show shown_data res" where
  "showConfig sl bc address adminAuthority operatorAuthority = (case address of
       Some a \<Rightarrow> or_command_error ''Failed to fetch config account data''
         (rbind (getConfig sl bc a) (\<lambda>d. rbind (config_shown sl bc (a, d)) (\<lambda>c. Inr (ShownOne c))))
     | None \<Rightarrow> or_command_error ''Error while fetching config account based on filter parameters''
         (rbind (findConfigs (findFiltered (bc_configs bc)) adminAuthority operatorAuthority) (\<lambda>found.
          rbind (rmapM (config_shown sl bc) found) (\<lambda>cs. Inr (ShownMany cs)))))"

section \<open>Bonds\<close>

record product_show =
  ps_publicKey :: "pubkey option"
  ps_productType :: product_type
  ps_configData :: product_config

record funding_show =
  fs_amountOwned :: int
  fs_amountActive :: int
  fs_numberActiveStakeAccounts :: nat
  fs_amountAtSettlements :: int
  fs_numberSettlementStakeAccounts :: nat
  fs_amountToWithdraw :: int
  fs_epochsToElapseToWithdraw :: "int option"
  fs_withdrawRequest :: "(pubkey \<times> withdraw_data) option"
  fs_stakeAccounts :: "(stake_account list \<times> stake_account list) option"

record bond_show =
  bw_programId :: pubkey
  bw_publicKey :: pubkey
  bw_account :: bond_data
  bw_configs :: "product_show list"
  bw_voteAccount :: "vote_show option"
  bw_funding :: "funding_show option"
  bw_bondMint :: "pubkey option"

text \<open>The products that are not the commission come first.\<close>

definition product_order :: "product_show \<Rightarrow> product_show \<Rightarrow> int" where
  "product_order a b = (case (ps_productType a, ps_productType b) of
       (PCommission, PCustom _) \<Rightarrow> 1
     | (PCustom _, PCommission) \<Rightarrow> - 1
     | _ \<Rightarrow> 0)"

definition bondProductShowData :: "bool \<Rightarrow> (pubkey \<times> product_data) list \<Rightarrow> product_show list" where
  "bondProductShowData verbose bondProducts = js_sort product_order (map (\<lambda>p.
     \<lparr> ps_publicKey = (if verbose then Some (fst p) else None), ps_productType = pd_productType (snd p),
       ps_configData = pd_configData (snd p) \<rparr>) bondProducts)"

text \<open>The funded stake accounts are shown in verbose mode only.\<close>

definition funding_shown :: "bool \<Rightarrow> bond_funding \<Rightarrow> funding_show" where
  "funding_shown verbose f = \<lparr> fs_amountOwned = bf_amountOwned f, fs_amountActive = bf_amountActive f,
     fs_numberActiveStakeAccounts = bf_numberActiveStakeAccounts f,
     fs_amountAtSettlements = bf_amountAtSettlements f,
     fs_numberSettlementStakeAccounts = bf_numberSettlementStakeAccounts f,
     fs_amountToWithdraw = bf_amountToWithdraw f,
     fs_epochsToElapseToWithdraw = bf_epochsToElapseToWithdraw f,
     fs_withdrawRequest = bf_withdrawRequest f,
     fs_stakeAccounts = (if verbose then Some (bf_bondFunded f, bf_settlementFunded f) else None) \<rparr>"

text \<open>Vote accounts are shown when they can be read; a failure hides all of them.\<close>

definition toVoteAccount :: "cli_lib \<Rightarrow> pubkey \<times> raw_account option \<Rightarrow> (pubkey \<times> vote_show option) res" where
  "toVoteAccount cl a = (case snd a of
       None \<Rightarrow> Inr (fst a, None)
     | Some info \<Rightarrow> rbind (cl_parseVote cl (fst a) info) (\<lambda>v. Inr (fst a, Some v)))"

definition loadVoteAccounts :: "show_ctx \<Rightarrow> pubkey list \<Rightarrow> (pubkey \<times> vote_show option) list option" where
  "loadVoteAccounts sx addresses =
     (let cl = cx_lib (sx_cli sx);
          loaded = (case addresses of
              [] \<Rightarrow> Inr []
            | [a] \<Rightarrow> rmapM (toVoteAccount cl) [(a, getAccountInfo cl a)]
            | _ \<Rightarrow> rbind (sx_multiple sx addresses) (rmapM (toVoteAccount cl)))
      in case loaded of Inl _ \<Rightarrow> None | Inr vs \<Rightarrow> Some vs)"

definition shown_vote_account :: "show_ctx \<Rightarrow> pubkey \<Rightarrow> vote_show option" where
  "shown_vote_account sx vote = (case loadVoteAccounts sx [vote] of Some ((_, v) # _) \<Rightarrow> v | _ \<Rightarrow> None)"

definition constructBondMintAddress :: "solana_lib \<Rightarrow> bonds_chain \<Rightarrow> pubkey \<Rightarrow> vote_show option \<Rightarrow> pubkey option res" where
  "constructBondMintAddress sl bc bond vote = (case vote of
       None \<Rightarrow> Inr None
     | Some v \<Rightarrow> rbind (bondMintAddress sl bond (vs_nodePubkey v) (bc_programId bc)) (\<lambda>m. Inr (Some (fst m))))"

text \<open>One bond: its funding is computed for the configuration that is given, else its own.\<close>

definition single_funding :: "solana_lib \<Rightarrow> bonds_chain \<Rightarrow> pubkey option \<Rightarrow> pubkey \<Rightarrow> bond_data \<Rightarrow> bond_funding res" where
  "single_funding sl bc config b d =
     rbind (getBondsFunding sl bc (orElse config (bd_config d)) [Some b] [Some (bd_voteAccount d)] None) (\<lambda>fs.
     (case fs of [f] \<Rightarrow> Inr f
      | _ \<Rightarrow> throw ECliCommand ''Failed to fetch stake accounts while computing bond funding.''))"

definition show_single :: "solana_lib \<Rightarrow> show_ctx \<Rightarrow> pubkey option \<Rightarrow> pubkey \<Rightarrow> bond_show cmd" where
  "show_single sl sx config address =
     (let ctx = sx_cli sx; bc = show_chain sx in
      cbind (bond_for sl ctx config address) (\<lambda>(b, d).
      cbind (resolved sl ctx (Some b) (Some (bd_voteAccount d)) (Some (bd_config d)) None None) (\<lambda>_.
      cbind (lift_res (findBondProducts sl (bc_products bc) (bc_programId bc) (Some b) None None (Some PCommission))) (\<lambda>products.
      cbind (lift_res (single_funding sl bc config b d)) (\<lambda>f.
      cbind (case bf_withdrawRequest f of None \<Rightarrow> cret ()
        | Some (w, _) \<Rightarrow> resolved sl ctx None None None None (Some w)) (\<lambda>_.
      cbind (lift_res (constructBondMintAddress sl bc b (shown_vote_account sx (bd_voteAccount d)))) (\<lambda>mint.
      cret \<lparr> bw_programId = bc_programId bc, bw_publicKey = b, bw_account = d,
        bw_configs = bondProductShowData (sx_verbose sx) products,
        bw_voteAccount = shown_vote_account sx (bd_voteAccount d),
        bw_funding = Some (funding_shown (sx_verbose sx) f), bw_bondMint = mint \<rparr>)))))))"

text \<open>A list of bonds: with funding, one request for each configuration, in the order in which
  the configurations occur.\<close>

definition add_to_group :: "solana_lib \<Rightarrow> (string, (pubkey \<times> bond_data) list) jsmap \<Rightarrow> pubkey \<times> bond_data
    \<Rightarrow> (string, (pubkey \<times> bond_data) list) jsmap" where
  "add_to_group sl groups b = (let key = pk_b58 sl (bd_config (snd b)) in
     jsmap_set key (orElse (jsmap_get groups key) [] @ [b]) groups)"

definition bonds_by_config :: "solana_lib \<Rightarrow> (pubkey \<times> bond_data) list \<Rightarrow> (string, (pubkey \<times> bond_data) list) jsmap" where
  "bonds_by_config sl bonds = foldl (add_to_group sl) [] bonds"

definition group_funding :: "solana_lib \<Rightarrow> bonds_chain \<Rightarrow> (pubkey \<times> bond_data) list \<Rightarrow> bond_funding list res" where
  "group_funding sl bc members = (case members of
       [] \<Rightarrow> throw EAssertion ''group[0] !== undefined''
     | g # _ \<Rightarrow> getBondsFunding sl bc (bd_config (snd g)) (map (Some \<circ> fst) members)
         (map (Some \<circ> bd_voteAccount \<circ> snd) members) None)"

definition list_funding :: "solana_lib \<Rightarrow> bonds_chain \<Rightarrow> (pubkey \<times> bond_data) list \<Rightarrow> (string, bond_funding) jsmap res" where
  "list_funding sl bc bonds =
     rbind (rmapM (group_funding sl bc) (map snd (bonds_by_config sl bonds))) (\<lambda>fss.
     Inr (foldl (\<lambda>m f. jsmap_set (pk_b58 sl (bf_bondAccount f)) f m) [] (concat fss)))"

definition listed_bond :: "solana_lib \<Rightarrow> show_ctx \<Rightarrow> (pubkey \<times> product_data) list \<Rightarrow> (string, bond_funding) jsmap
    \<Rightarrow> pubkey \<times> bond_data \<Rightarrow> bond_show" where
  "listed_bond sl sx products fundings b =
     \<lparr> bw_programId = bc_programId (show_chain sx), bw_publicKey = fst b, bw_account = snd b,
       bw_configs = bondProductShowData (sx_verbose sx) (filter (\<lambda>p. pd_bond (snd p) = fst b) products),
       bw_voteAccount = None,
       bw_funding = map_option (funding_shown (sx_verbose sx)) (jsmap_get fundings (pk_b58 sl (fst b))),
       bw_bondMint = None \<rparr>"

definition show_list :: "solana_lib \<Rightarrow> show_ctx \<Rightarrow> pubkey option \<Rightarrow> pubkey option \<Rightarrow> pubkey option \<Rightarrow> bool
    \<Rightarrow> bond_show list res" where
  "show_list sl sx config voteAccount bondAuthority withFunding = (let bc = show_chain sx in
     or_command_error ''Error while fetching bond account based on filter parameters''
       (rbind (findBonds sl (bc_bonds bc) (bc_programId bc) config voteAccount bondAuthority) (\<lambda>bonds.
        rbind (findBondProducts sl (bc_products bc) (bc_programId bc) None voteAccount config None) (\<lambda>products.
        rbind (if withFunding \<and> 0 < length bonds then list_funding sl bc bonds else Inr []) (\<lambda>fundings.
        Inr (map (listed_bond sl sx products fundings) bonds))))))"

definition showBond :: "solana_lib \<Rightarrow> show_ctx \<Rightarrow> pubkey option \<Rightarrow> pubkey option \<Rightarrow> pubkey option \<Rightarrow> pubkey option
    \<Rightarrow> bool \<Rightarrow> bond_show shown_data cmd" where
  "showBond sl sx address config voteAccount bondAuthority withFunding = (case address of
       Some a \<Rightarrow> cbind (show_single sl sx config a) (\<lambda>b. cret (ShownOne b))
     | None \<Rightarrow> cbind (lift_res (show_list sl sx config voteAccount bondAuthority withFunding)) (\<lambda>bs.
         cret (ShownMany bs)))"

definition sam_show_bond :: "solana_lib \<Rightarrow> show_ctx \<Rightarrow> pubkey option \<Rightarrow> pubkey option \<Rightarrow> pubkey option \<Rightarrow> bool
    \<Rightarrow> bond_show shown_data cmd" where
  "sam_show_bond sl sx address config bondAuthority withFunding =
     showBond sl sx address config None bondAuthority withFunding"

definition inst_show_bond :: "solana_lib \<Rightarrow> show_ctx \<Rightarrow> pubkey option \<Rightarrow> pubkey option \<Rightarrow> bool
    \<Rightarrow> bond_show shown_data cmd" where
  "inst_show_bond sl sx address bondAuthority withFunding =
     cbind (lift_res (MARINADE_INSTITUTIONAL_CONFIG_ADDRESS sl)) (\<lambda>c.
     showBond sl sx address (Some c) None bondAuthority withFunding)"


section \<open>Settlements\<close>

record settlement_show =
  tw_programId :: pubkey
  tw_publicKey :: pubkey
  tw_account :: settlement_data
  tw_stakeAccounts :: "(pubkey \<times> int) list option"
  tw_settlementClaims :: "pubkey option"

text \<open>In verbose mode the stake accounts that are funded to the settlement are shown.\<close>

definition settlement_stakes :: "solana_lib \<Rightarrow> show_ctx \<Rightarrow> settlement_data \<Rightarrow> (pubkey \<times> int) list res" where
  "settlement_stakes sl sx s =
     rbind (getBondFromAddress sl (cx_lib (sx_cli sx)) None None (sd_bond s)) (\<lambda>(b, d).
     rbind (bondsWithdrawerAuthority sl (bd_config d) (bc_programId (show_chain sx))) (\<lambda>wa.
     rbind (findStakeAccounts (bc_stake (show_chain sx)) (Some (sd_stakerAuthority s)) (Some (fst wa)) None (Some 0)) (\<lambda>stakes.
     Inr (map (\<lambda>a. (sa_address a, sa_lamports a)) stakes))))"

definition settlement_listed :: "solana_lib \<Rightarrow> show_ctx \<Rightarrow> pubkey \<times> settlement_data \<Rightarrow> settlement_show res" where
  "settlement_listed sl sx s =
     rbind (settlementClaimsAddress sl (fst s) (bc_programId (show_chain sx))) (\<lambda>sc.
     Inr \<lparr> tw_programId = bc_programId (show_chain sx), tw_publicKey = fst s, tw_account = snd s,
       tw_stakeAccounts = None, tw_settlementClaims = Some (fst sc) \<rparr>)"

definition showSettlement :: "solana_lib \<Rightarrow> show_ctx \<Rightarrow> pubkey option \<Rightarrow> pubkey option \<Rightarrow> number option
    \<Rightarrow> settlement_show shown_data res" where
  "showSettlement sl sx address bond epoch = (let bc = show_chain sx in
     (case address of
        Some a \<Rightarrow>
          rbind (getSettlement sl (bc_settlements bc) a) (\<lambda>s.
          rbind (if sx_verbose sx then rbind (settlement_stakes sl sx s) (\<lambda>xs. Inr (Some xs)) else Inr None) (\<lambda>stakes.
          Inr (ShownOne \<lparr> tw_programId = bc_programId bc, tw_publicKey = a, tw_account = s,
            tw_stakeAccounts = stakes, tw_settlementClaims = None \<rparr>)))
      | None \<Rightarrow> or_command_error ''Error while fetching settlement accounts based on filter parameters''
          (rbind (case bond of None \<Rightarrow> Inr None
            | Some b \<Rightarrow> rbind (getBondFromAddress sl (cx_lib (sx_cli sx)) None None b) (\<lambda>(k, _). Inr (Some k))) (\<lambda>bond'.
           rbind (findSettlements sl (bc_settlements bc) (bc_programId bc) bond' None (map_option NumArg epoch)) (\<lambda>found.
           rbind (rmapM (settlement_listed sl sx) found) (\<lambda>ss. Inr (ShownMany ss)))))))"

section \<open>Events\<close>

definition is_quote :: "char \<Rightarrow> bool" where
  "is_quote c \<longleftrightarrow> c \<in> {CHR 0x22, CHR 0x27, CHR 0x60}"

definition cleaned_event_data :: "string \<Rightarrow> string" where
  "cleaned_event_data s = rev (dropWhile is_quote (rev (dropWhile is_quote (trim_str s))))"

text \<open>The data of an event in a transaction: base58 of the tag and the event. \<open>bs58\<close> and \<open>base64\<close>
  are the codecs of Anchor, \<open>None\<close> is a text that is no base58.\<close>

definition parseAsTransactionCpiData :: "(string \<Rightarrow> byte list option) \<Rightarrow> (byte list \<Rightarrow> string) \<Rightarrow> string \<Rightarrow> string option" where
  "parseAsTransactionCpiData bs58 base64 text = (case bs58 text of
       None \<Rightarrow> None
     | Some encodedLog \<Rightarrow> if take 8 encodedLog = EVENT_IX_TAG_LE then Some (base64 (drop 8 encodedLog)) else None)"

definition showEvent :: "(string \<Rightarrow> 'e option res) \<Rightarrow> (string \<Rightarrow> byte list option) \<Rightarrow> (byte list \<Rightarrow> string) \<Rightarrow> string \<Rightarrow> 'e res" where
  "showEvent decode bs58 base64 eventData = (let cleaned = cleaned_event_data eventData in
     rbind (decode cleaned) (\<lambda>first.
     rbind (case (first, parseAsTransactionCpiData bs58 base64 cleaned) of
         (None, Some cpi) \<Rightarrow> decode cpi
       | _ \<Rightarrow> Inr first) (\<lambda>decoded.
     (case decoded of None \<Rightarrow> throw ECliCommand ''Failed to decode event data'' | Some e \<Rightarrow> Inr e))))"


section \<open>How the fields are printed\<close>

datatype shown = SUndef | SNull | SNum number | SBn int | SStr string | SKey pubkey | SBytes "byte list"
  | SArr "shown list" | SObj "(string \<times> shown) list"

text \<open>What a field is printed as: a value, or what \<open>reformat\<close> makes of it, with \<open>reformatBond\<close>
  or without.\<close>

datatype shown_out = OutValue shown | OutReformatted shown bool

datatype reformat_action = Remove | UseExclusively "(string \<times> shown_out) list" | UseReplace shown_out | UsePassThrough

text \<open>The text of a value in an array, and \<open>value.toString()\<close>, which throws for \<open>undefined\<close>
  and \<open>null\<close>.\<close>

fun text_of :: "solana_lib \<Rightarrow> shown \<Rightarrow> string" where
  "text_of sl SUndef = ''''"
| "text_of sl SNull = ''''"
| "text_of sl (SNum x) = num_str x"
| "text_of sl (SBn n) = int_str n"
| "text_of sl (SStr s) = s"
| "text_of sl (SKey k) = pk_b58 sl k"
| "text_of sl (SBytes bs) = js_join '','' (map (int_str \<circ> uint) bs)"
| "text_of sl (SArr vs) = js_join '','' (map (text_of sl) vs)"
| "text_of sl (SObj _) = ''[object Object]''"

definition js_toString :: "solana_lib \<Rightarrow> shown \<Rightarrow> string res" where
  "js_toString sl v = (if v \<in> {SUndef, SNull}
     then throw ETypeError ''Cannot read properties of undefined (reading toString)'' else Inr (text_of sl v))"

definition js_String :: "solana_lib \<Rightarrow> shown \<Rightarrow> string" where
  "js_String sl v = (case v of SUndef \<Rightarrow> ''undefined'' | SNull \<Rightarrow> ''null'' | _ \<Rightarrow> text_of sl v)"

definition is_array_or_bytes :: "shown \<Rightarrow> bool" where
  "is_array_or_bytes v = (case v of SArr _ \<Rightarrow> True | SBytes _ \<Rightarrow> True | _ \<Rightarrow> False)"

text \<open>\<open>typeof value === 'object'\<close>, \<open>Object.values\<close> and \<open>Object.keys(value)[0]\<close>. No field of a BN
  or a public key is an empty object.\<close>

definition is_object :: "shown \<Rightarrow> bool" where
  "is_object v = (case v of SUndef \<Rightarrow> False | SNum _ \<Rightarrow> False | SStr _ \<Rightarrow> False | _ \<Rightarrow> True)"

definition object_values :: "shown \<Rightarrow> shown list res" where
  "object_values v = (case v of
       SNull \<Rightarrow> throw ETypeError ''Cannot convert undefined or null to object''
     | SObj kvs \<Rightarrow> Inr (map snd kvs)
     | SArr vs \<Rightarrow> Inr vs
     | SBytes bs \<Rightarrow> Inr (map (\<lambda>b. SNum (Fin (of_int (uint b)))) bs)
     | _ \<Rightarrow> Inr [])"

definition first_key :: "shown \<Rightarrow> shown" where
  "first_key v = (case v of SObj ((k, _) # _) \<Rightarrow> SStr k | SArr (_ # _) \<Rightarrow> SStr ''0'' | SBytes (_ # _) \<Rightarrow> SStr ''0''
     | _ \<Rightarrow> SUndef)"

definition hasEmptyNestedObject :: "shown \<Rightarrow> bool res" where
  "hasEmptyNestedObject v = rbind (object_values v) (\<lambda>vs. Inr (list_ex (\<lambda>x. x = SObj [] \<or> x = SBytes []) vs))"

text \<open>\<open>bn\<close> is \<open>new BN(value)\<close>.\<close>

definition formatSolExclusive :: "solana_lib \<Rightarrow> (shown \<Rightarrow> int res) \<Rightarrow> string \<Rightarrow> shown \<Rightarrow> reformat_action res" where
  "formatSolExclusive sl bn key v = rbind (js_toString sl v) (\<lambda>t. rbind (bn (SStr t)) (\<lambda>n.
     Inr (UseExclusively [(key, OutValue (SStr (formatToSolWithAll n)))])))"

definition lower :: "string \<Rightarrow> string" where
  "lower s = map lower_char s"

definition reformatBond :: "solana_lib \<Rightarrow> (shown \<Rightarrow> int res) \<Rightarrow> string \<Rightarrow> shown \<Rightarrow> reformat_action res" where
  "reformatBond sl bn key v =
     (if starts_with ''reserved'' key \<and> is_array_or_bytes v then Inr Remove
      else if includes_str ''cpmpe'' (lower key)
      then rbind (bn v) (\<lambda>n. rbind (js_toString sl v) (\<lambda>t. rbind (bn (SStr t)) (\<lambda>m.
        Inr (UseExclusively [(''costPerMillePerEpoch'', OutValue (SStr (int_str n @ '' '' @ formatUnit m ''lamport'')))]))))
      else if key = ''requestedAmount'' then formatSolExclusive sl bn key v
      else if starts_with ''amount'' key \<or> includes_str ''Amount'' key \<or> starts_with ''max'' key
      then formatSolExclusive sl bn key v
      else if lower key = ''withdrawrequest'' \<and> v = SUndef
      then Inr (UseExclusively [(key, OutValue (SStr ''<NOT EXISTING>''))])
      else if lower key = ''producttype'' \<and> is_object v
      then rbind (hasEmptyNestedObject v) (\<lambda>e.
        Inr (UseExclusively [(key, if e then OutValue (first_key v) else OutReformatted v True)]))
      else if key = ''custom'' then Inr (UseReplace (OutReformatted v True))
      else if key = ''0'' then Inr (UseReplace (OutReformatted v False))
      else if includes_str ''bump'' (lower key) then Inr Remove
      else if v = SUndef then Inr Remove
      else Inr UsePassThrough)"

definition reformatSettlement :: "solana_lib \<Rightarrow> (shown \<Rightarrow> int res) \<Rightarrow> string \<Rightarrow> shown \<Rightarrow> reformat_action res" where
  "reformatSettlement sl bn key v =
     (if lower key = ''merkleroot'' \<and> is_array_or_bytes v
      then rbind (object_values v) (\<lambda>vs. Inr (UseExclusively [(key, OutValue (SStr
        (''['' @ js_join '','' (map (js_String sl) vs) @ '']'')))]))
      else if includes_str ''maxmerklenodes'' (lower key)
      then rbind (js_toString sl v) (\<lambda>t. Inr (UseExclusively [(''maxMerkleNodes'', OutValue (SStr t))]))
      else reformatBond sl bn key v)"

definition reformatConfig :: "(string \<Rightarrow> shown \<Rightarrow> reformat_action) \<Rightarrow> string \<Rightarrow> shown \<Rightarrow> reformat_action" where
  "reformatConfig reformatReserved key v = (case reformatReserved key v of
       UsePassThrough \<Rightarrow> if includes_str ''bump'' (lower key) then Remove else UsePassThrough
     | a \<Rightarrow> a)"

definition reformatBondInstitutional :: "solana_lib \<Rightarrow> (shown \<Rightarrow> int res) \<Rightarrow> string \<Rightarrow> shown \<Rightarrow> reformat_action res" where
  "reformatBondInstitutional sl bn key v =
     (if starts_with ''cpmpe'' key \<or> starts_with ''maxStakeWanted'' key then Inr Remove
      else reformatBond sl bn key v)"

section \<open>What is shown\<close>

text \<open>The number of the epoch does not select anything: it is used only together with a merkle root.\<close>

lemma findSettlements_epoch: "findSettlements sl r pid bond None e = findSettlements sl r pid bond None None"
  by (simp add: findSettlements_def split: option.split)

lemma showSettlement_epoch: "showSettlement sl sx address bond epoch = showSettlement sl sx address bond None"
  by (simp add: showSettlement_def findSettlements_epoch [of _ _ _ _ "map_option NumArg epoch"] Let_def split: option.split)

text \<open>The groups of bonds: each bond is in the group of its configuration and in no other.\<close>

lemma group_members:
  "jsmap_get (foldl (add_to_group sl) m bs) k = (case filter (\<lambda>b. pk_b58 sl (bd_config (snd b)) = k) bs of
     [] \<Rightarrow> jsmap_get m k | xs \<Rightarrow> Some (orElse (jsmap_get m k) [] @ xs))"
  by (induction bs arbitrary: m) (auto simp: add_to_group_def Let_def split: list.split)

lemma group_distinct: "distinct (map fst m) \<Longrightarrow> distinct (map fst (foldl (add_to_group sl) m bs))"
  by (induction bs arbitrary: m) (auto simp: add_to_group_def Let_def jsmap_set_distinct)

lemma bonds_by_config_spec:
  assumes "(k, members) \<in> set (bonds_by_config sl bs)"
  shows "members = filter (\<lambda>b. pk_b58 sl (bd_config (snd b)) = k) bs" and "members \<noteq> []"
proof -
  have "jsmap_get (bonds_by_config sl bs) k = Some members"
    using assms group_distinct [of "[]" sl bs] by (simp add: bonds_by_config_def)
  then show "members = filter (\<lambda>b. pk_b58 sl (bd_config (snd b)) = k) bs" "members \<noteq> []"
    by (auto simp: bonds_by_config_def group_members split: list.splits)
qed

lemma bonds_by_config_in:
  "b \<in> set bs \<Longrightarrow> \<exists>members. (pk_b58 sl (bd_config (snd b)), members) \<in> set (bonds_by_config sl bs) \<and> b \<in> set members"
proof -
  assume b: "b \<in> set bs"
  let ?k = "pk_b58 sl (bd_config (snd b))" and ?xs = "filter (\<lambda>c. pk_b58 sl (bd_config (snd c)) = pk_b58 sl (bd_config (snd b))) bs"
  have "?xs \<noteq> []" using b by (auto simp: filter_empty_conv)
  then have "jsmap_get (bonds_by_config sl bs) ?k = Some ?xs"
    by (cases ?xs) (simp_all add: bonds_by_config_def group_members)
  then show ?thesis using b by (auto dest: map_of_SomeD)
qed

text \<open>The rows of \<open>getBondsFunding\<close> belong to the bonds asked for.\<close>

lemma derive_keys:
  "rfoldM (derive_entry sl bc c) m (zip (map Some ks) vs) = Inr m' \<Longrightarrow> length vs = length ks \<Longrightarrow>
    fst ` set m' = fst ` set m \<union> set ks"
proof (induction ks arbitrary: m vs)
  case Nil
  then show ?case by simp
next
  case (Cons k ks)
  then obtain v vs' where "vs = v # vs'" by (cases vs) auto
  with Cons show ?case by (auto simp: derive_entry_def rbind_eq_Inr dom_update)
qed

lemma getBondsFunding_bonds:
  assumes "getBondsFunding sl bc c (map Some ks) vs e = Inr rows" and "length vs = length ks" and "ks \<noteq> []"
  shows "bf_bondAccount ` set rows = set ks" and "distinct (map bf_bondAccount rows)"
proof -
  obtain m e' xs cfg bvs where m: "fund_entries sl bc c bvs = Inr m"
    and "e' = orElse e (st_epoch (bc_stake bc))"
    and "findConfigStakeAccounts sl bc (Some c) None (Some e') = Inr xs"
    and "getConfig sl bc c = Inr cfg"
    and bvs: "bvs = zip (fill_undefined (max (length (map Some ks)) (length vs)) (map Some ks))
      (fill_undefined (max (length (map Some ks)) (length vs)) vs)"
    and rows: "list_all2 (\<lambda>(b, f) r. bf_bondAccount r = b \<and> bf_voteAccount r = fe_voteAccount f
        \<and> bf_withdrawRequest r = fe_withdrawRequest f
        \<and> row_ok xs e' (cd_withdrawLockupEpochs cfg) r) m rows"
    by (rule getBondsFunding_rows [OF assms(1)])
  obtain m0 where m0: "rfoldM (derive_entry sl bc c) [] bvs = Inr m0" "map fst m = map fst m0"
    by (rule fund_entries_keys [OF m])
  have "bvs = zip (map Some ks) vs" using bvs assms(2,3) by (auto simp: fill_undefined_def)
  then have "fst ` set m = set ks"
    using derive_keys [of sl bc c "[]" ks vs m0] m0 assms(2) by (metis image_set image_empty list.set(1) sup_bot_left)
  moreover have "map bf_bondAccount rows = map fst m"
    using rows by (induction rule: list_all2_induct) auto
  moreover have "distinct (map fst m)" using derive_distinct(1) [OF m0(1)] m0(2) by simp
  ultimately show "bf_bondAccount ` set rows = set ks" "distinct (map bf_bondAccount rows)"
    by (metis image_set, simp)
qed

lemma single_funding_row:
  assumes "getBondsFunding sl bc c [Some b] [Some v] e = Inr rows"
  obtains f where "rows = [f]" "bf_bondAccount f = b"
proof -
  have "bf_bondAccount ` set rows = {b}" "distinct (map bf_bondAccount rows)"
    using getBondsFunding_bonds [of sl bc c "[b]" "[Some v]" e rows] assms by simp_all
  then show thesis using that by (cases rows; cases "tl rows") (auto simp: insert_eq_iff)
qed


lemma foldl_by_account:
  assumes "jsmap_get (foldl (\<lambda>m f. jsmap_set (key f) f m) m0 xs) k = Some f"
  shows "(f \<in> set xs \<and> key f = k) \<or> jsmap_get m0 k = Some f"
  using assms
proof (induction xs arbitrary: m0)
  case (Cons x xs)
  from Cons.IH [of "jsmap_set (key x) x m0"] Cons.prems
  have "(f \<in> set xs \<and> key f = k) \<or> jsmap_get (jsmap_set (key x) x m0) k = Some f" by simp
  then show ?case by (auto split: if_splits)
qed simp

lemma foldl_has_account:
  "f \<in> set xs \<Longrightarrow> jsmap_get (foldl (\<lambda>m f. jsmap_set (key f) f m) m0 xs) (key f) \<noteq> None"
proof (induction xs arbitrary: m0)
  case (Cons x xs)
  have keep: "jsmap_get m k \<noteq> None \<Longrightarrow> jsmap_get (foldl (\<lambda>m f. jsmap_set (key f) f m) m xs) k \<noteq> None" for m k
    by (induction xs arbitrary: m) auto
  show ?case using Cons keep [of "jsmap_set (key x) x m0" "key x"] by auto
qed simp

lemma rmapM_image: "rmapM f xs = Inr ys \<Longrightarrow> x \<in> set xs \<Longrightarrow> \<exists>y\<in>set ys. f x = Inr y"
  by (induction xs arbitrary: ys) (auto simp: rbind_eq_Inr)

text \<open>Each row has the vote account that was given for its bond. A vote account that is the
  default key counts as not given.\<close>

lemma derive_votes:
  assumes "rfoldM (derive_entry sl bc c) m (map (\<lambda>b. (Some (fst b), Some (bd_voteAccount (snd b)))) bs) = Inr m'"
    and "distinct (map fst bs)" and "\<forall>e\<in>ran (jsmap_get m). fe_voteAccount e \<noteq> default_key"
    and "\<forall>b\<in>set bs. bd_voteAccount (snd b) \<noteq> default_key"
  shows "(\<forall>b\<in>set bs. map_option fe_voteAccount (jsmap_get m' (fst b)) = Some (bd_voteAccount (snd b)))
    \<and> (\<forall>k. k \<notin> fst ` set bs \<longrightarrow> jsmap_get m' k = jsmap_get m k)
    \<and> (\<forall>e\<in>ran (jsmap_get m'). fe_voteAccount e \<noteq> default_key)"
  using assms
proof (induction bs arbitrary: m)
  case (Cons b bs)
  let ?m = "jsmap_set (fst b) \<lparr> fe_voteAccount = bd_voteAccount (snd b), fe_withdrawRequest = None \<rparr> m"
  have run: "rfoldM (derive_entry sl bc c) ?m (map (\<lambda>b. (Some (fst b), Some (bd_voteAccount (snd b)))) bs) = Inr m'"
  proof -
    have "derive_entry sl bc c m (Some (fst b), Some (bd_voteAccount (snd b))) = Inr ?m"
      by (simp add: derive_entry_def)
    then show ?thesis using Cons.prems(1) by simp
  qed
  have ran: "\<forall>e\<in>ran (jsmap_get ?m). fe_voteAccount e \<noteq> default_key"
    using Cons.prems(3,4) by (auto simp: ran_def)
  have "distinct (map fst bs)" "\<forall>b\<in>set bs. bd_voteAccount (snd b) \<noteq> default_key"
    using Cons.prems(2,4) by simp_all
  from Cons.IH [OF run this(1) ran this(2)] Cons.prems(2) show ?case by auto
qed simp

lemma set_withdraw_votes: "set_withdraw m kd = Inr m' \<Longrightarrow>
    map_option fe_voteAccount (jsmap_get m' k) = map_option fe_voteAccount (jsmap_get m k)"
  by (auto simp: set_withdraw_def split: prod.splits option.splits)

lemma fund_entries_votes:
  assumes m: "fund_entries sl bc c (map (\<lambda>b. (Some (fst b), Some (bd_voteAccount (snd b)))) bs) = Inr m"
    and bs: "distinct (map fst bs)" "\<forall>b\<in>set bs. bd_voteAccount (snd b) \<noteq> default_key" and b: "b \<in> set bs"
  shows "map_option fe_voteAccount (jsmap_get m (fst b)) = Some (bd_voteAccount (snd b))"
proof -
  obtain m0 bonds m1 reqs where
    m0: "rfoldM (derive_entry sl bc c) [] (map (\<lambda>b. (Some (fst b), Some (bd_voteAccount (snd b)))) bs) = Inr m0"
    and bonds: "getMultipleDecoded (bc_bonds bc) (map fst (filter (\<lambda>(k, e). fe_voteAccount e = default_key) m0)) = Inr bonds"
    and m1: "rfoldM (set_vote sl) m0 bonds = Inr m1" and m2: "rfoldM set_withdraw m1 reqs = Inr m"
    using m by (auto simp: fund_entries_def rbind_eq_Inr)
  have votes: "map_option fe_voteAccount (jsmap_get m0 (fst b)) = Some (bd_voteAccount (snd b))"
    "\<forall>e\<in>ran (jsmap_get m0). fe_voteAccount e \<noteq> default_key"
    using derive_votes [OF m0 bs(1) _ bs(2)] b by auto
  have "filter (\<lambda>(k, e). fe_voteAccount e = default_key) m0 = []"
  proof -
    have "distinct (map fst m0)" by (rule derive_distinct(1) [OF m0])
    then have "e \<in> ran (jsmap_get m0)" if "(k, e) \<in> set m0" for k e
      using that by (auto simp: ran_def intro: map_of_is_SomeI)
    then show ?thesis using votes(2) by (auto simp: filter_empty_conv)
  qed
  then have "bonds = []" using bonds by (simp add: getMultipleDecoded_def getMultiAccounts_def)
  then have "m1 = m0" using m1 by simp
  have "map_option fe_voteAccount (jsmap_get m (fst b)) = map_option fe_voteAccount (jsmap_get m1 (fst b))"
    by (rule rfoldM_invariant [OF m2, of "\<lambda>x. map_option fe_voteAccount (jsmap_get x (fst b))
        = map_option fe_voteAccount (jsmap_get m1 (fst b))"]) (simp_all add: set_withdraw_votes)
  then show ?thesis using votes(1) \<open>m1 = m0\<close> by simp
qed

lemma getBondsFunding_votes:
  assumes "getBondsFunding sl bc c (map (Some \<circ> fst) bs) (map (Some \<circ> bd_voteAccount \<circ> snd) bs) e = Inr rows"
    and bs: "distinct (map fst bs)" "\<forall>b\<in>set bs. bd_voteAccount (snd b) \<noteq> default_key"
    and b: "b \<in> set bs" and f: "f \<in> set rows" "bf_bondAccount f = fst b"
  shows "bf_voteAccount f = bd_voteAccount (snd b)"
proof -
  obtain m e' xs cfg bvs where m: "fund_entries sl bc c bvs = Inr m"
    and "e' = orElse e (st_epoch (bc_stake bc))"
    and "findConfigStakeAccounts sl bc (Some c) None (Some e') = Inr xs"
    and "getConfig sl bc c = Inr cfg"
    and bvs: "bvs = zip (fill_undefined (max (length (map (Some \<circ> fst) bs)) (length (map (Some \<circ> bd_voteAccount \<circ> snd) bs))) (map (Some \<circ> fst) bs))
      (fill_undefined (max (length (map (Some \<circ> fst) bs)) (length (map (Some \<circ> bd_voteAccount \<circ> snd) bs))) (map (Some \<circ> bd_voteAccount \<circ> snd) bs))"
    and rows: "list_all2 (\<lambda>(b, f) r. bf_bondAccount r = b \<and> bf_voteAccount r = fe_voteAccount f
        \<and> bf_withdrawRequest r = fe_withdrawRequest f
        \<and> row_ok xs e' (cd_withdrawLockupEpochs cfg) r) m rows"
    by (rule getBondsFunding_rows [OF assms(1)])
  have "bs \<noteq> []" using b by auto
  then have eq: "bvs = map (\<lambda>b. (Some (fst b), Some (bd_voteAccount (snd b)))) bs"
    unfolding bvs by (simp add: fill_undefined_def zip_map1 zip_map2 zip_same_conv_map comp_def)
  obtain k g where kg: "(k, g) \<in> set m" "bf_bondAccount f = k" "bf_voteAccount f = fe_voteAccount g"
    using rows f(1) by (fastforce simp: list_all2_conv_all_nth in_set_conv_nth)
  obtain m0 where m0: "rfoldM (derive_entry sl bc c) [] bvs = Inr m0" "map fst m = map fst m0"
    by (rule fund_entries_keys [OF m])
  have "distinct (map fst m)" using derive_distinct(1) [OF m0(1)] m0(2) by simp
  then have "jsmap_get m (fst b) = Some g" using kg(1,2) f(2) by simp
  then show ?thesis using fund_entries_votes [OF m [unfolded eq] bs b] kg(3) by simp
qed

text \<open>In the list the funding of a bond is computed with the configuration of the bond.\<close>

lemma list_funding_own:
  assumes "list_funding sl bc bonds = Inr m" and "inj (pk_b58 sl)" and "distinct (map fst bonds)" and "b \<in> set bonds"
    and votes: "\<forall>b\<in>set bonds. bd_voteAccount (snd b) \<noteq> default_key"
  obtains ks vs rows f where "getBondsFunding sl bc (bd_config (snd b)) (map Some ks) vs None = Inr rows"
    "f \<in> set rows" "bf_bondAccount f = fst b" "bf_voteAccount f = bd_voteAccount (snd b)" "jsmap_get m (pk_b58 sl (fst b)) = Some f"
proof -
  obtain fss where fss: "rmapM (group_funding sl bc) (map snd (bonds_by_config sl bonds)) = Inr fss"
    and m: "m = foldl (\<lambda>m f. jsmap_set (pk_b58 sl (bf_bondAccount f)) f m) [] (concat fss)"
    using assms(1) by (auto simp: list_funding_def rbind_eq_Inr)
  have group: "\<exists>ks vs. getBondsFunding sl bc (bd_config (snd (hd g))) (map Some ks) vs None = Inr fs
      \<and> ks = map fst g \<and> vs = map (Some \<circ> bd_voteAccount \<circ> snd) g \<and> bf_bondAccount ` set fs = fst ` set g"
    if kg: "(k, g) \<in> set (bonds_by_config sl bonds)" and fs: "group_funding sl bc g = Inr fs" for k g fs
  proof -
    obtain x xs where g: "g = x # xs" using bonds_by_config_spec(2) [OF kg] by (cases g) auto
    then have "getBondsFunding sl bc (bd_config (snd (hd g))) (map Some (map fst g)) (map (Some \<circ> bd_voteAccount \<circ> snd) g) None = Inr fs"
      using fs by (simp add: group_funding_def comp_def)
    moreover from this have "bf_bondAccount ` set fs = set (map fst g)"
      by (rule getBondsFunding_bonds) (simp_all add: g)
    ultimately show ?thesis by auto
  qed
  obtain g where g: "(pk_b58 sl (bd_config (snd b)), g) \<in> set (bonds_by_config sl bonds)" "b \<in> set g"
    using bonds_by_config_in [OF assms(4)] by blast
  have "g \<in> set (map snd (bonds_by_config sl bonds))" using g(1) by force
  then obtain fs where fs: "fs \<in> set fss" "group_funding sl bc g = Inr fs"
    using rmapM_image [OF fss] by blast
  obtain f0 where "f0 \<in> set (concat fss)" "bf_bondAccount f0 = fst b"
  proof -
    have "fst b \<in> bf_bondAccount ` set fs" using group [OF g(1) fs(2)] g(2) by auto
    then obtain f0 where "f0 \<in> set fs" "bf_bondAccount f0 = fst b" by auto
    then show thesis using that [of f0] fs(1) by auto
  qed
  then obtain f where f: "jsmap_get m (pk_b58 sl (fst b)) = Some f"
    using foldl_has_account [of f0 "concat fss" "\<lambda>f. pk_b58 sl (bf_bondAccount f)" "[]"] by (auto simp: m)
  then have f': "f \<in> set (concat fss)" "bf_bondAccount f = fst b"
    using foldl_by_account [OF f [unfolded m]] by (simp_all add: inj_eq [OF assms(2)])
  then obtain k g' fs' where g': "(k, g') \<in> set (bonds_by_config sl bonds)" "group_funding sl bc g' = Inr fs'" "f \<in> set fs'"
    using rmapM_set [OF fss] by auto
  obtain ks vs where r: "getBondsFunding sl bc (bd_config (snd (hd g'))) (map Some ks) vs None = Inr fs'"
    "bf_bondAccount ` set fs' = fst ` set g'" "ks = map fst g'" "vs = map (Some \<circ> bd_voteAccount \<circ> snd) g'"
    using group [OF g'(1,2)] by blast
  have "fst b \<in> fst ` set g'" unfolding r(2) [symmetric] f'(2) [symmetric] using g'(3) by (rule imageI)
  then obtain b' where b': "b' \<in> set g'" "fst b' = fst b" by (metis imageE)
  have "b' \<in> set bonds" "pk_b58 sl (bd_config (snd b')) = k"
    using b'(1) bonds_by_config_spec(1) [OF g'(1)] by auto
  have "inj_on fst (set bonds)" using assms(3) by (simp add: distinct_map)
  then have "b' = b" by (rule inj_onD) (use b'(2) \<open>b' \<in> set bonds\<close> assms(4) in simp_all)
  have "distinct (map fst g')"
    unfolding bonds_by_config_spec(1) [OF g'(1)] using assms(3) by (rule distinct_map_filter)
  moreover have "\<forall>b\<in>set g'. bd_voteAccount (snd b) \<noteq> default_key"
    using votes bonds_by_config_spec(1) [OF g'(1)] by auto
  moreover have "getBondsFunding sl bc (bd_config (snd (hd g'))) (map (Some \<circ> fst) g')
      (map (Some \<circ> bd_voteAccount \<circ> snd) g') None = Inr fs'"
    using r(1,3,4) by (simp add: comp_def)
  ultimately have vote: "bf_voteAccount f = bd_voteAccount (snd b)"
    using getBondsFunding_votes [of sl bc _ g' None fs' b f] b'(1) \<open>b' = b\<close> g'(3) f'(2) by blast
  have "hd g' \<in> set g'" using bonds_by_config_spec(2) [OF g'(1)] by simp
  then have "pk_b58 sl (bd_config (snd (hd g'))) = k" using bonds_by_config_spec(1) [OF g'(1)] by auto
  then have "bd_config (snd (hd g')) = bd_config (snd b)"
    using \<open>b' = b\<close> \<open>pk_b58 sl (bd_config (snd b')) = k\<close> by (simp add: inj_eq [OF assms(2), symmetric])
  with r(1) g'(3) f'(2) f vote show thesis by (intro that) auto
qed


lemma show_list_bonds:
  assumes "show_list sl sx config vote auth True = Inr shown" and "inj (pk_b58 sl)"
    and "distinct (map bw_publicKey shown)" and "b \<in> set shown"
    and votes: "\<forall>b\<in>set shown. bd_voteAccount (bw_account b) \<noteq> default_key"
  obtains ks vs rows f where "getBondsFunding sl (show_chain sx) (bd_config (bw_account b)) (map Some ks) vs None = Inr rows"
    "f \<in> set rows" "bf_bondAccount f = bw_publicKey b" "bf_voteAccount f = bd_voteAccount (bw_account b)"
    "bw_funding b = Some (funding_shown (sx_verbose sx) f)"
proof -
  let ?bc = "show_chain sx"
  obtain bonds products m where m: "(if True \<and> 0 < length bonds then list_funding sl ?bc bonds else Inr []) = Inr m"
    and shown: "shown = map (listed_bond sl sx products m) bonds"
    using assms(1) by (auto simp: show_list_def Let_def or_command_error_def rbind_eq_Inr split: sum.splits)
  obtain c where c: "c \<in> set bonds" "b = listed_bond sl sx products m c" using assms(4) shown by auto
  have "map bw_publicKey shown = map fst bonds" by (simp add: shown listed_bond_def)
  then have d: "distinct (map fst bonds)" using assms(3) by simp
  have l: "list_funding sl ?bc bonds = Inr m" using m c(1) by (cases bonds) simp_all
  have v: "\<forall>b\<in>set bonds. bd_voteAccount (snd b) \<noteq> default_key"
    using votes by (auto simp: shown listed_bond_def)
  show thesis by (rule list_funding_own [OF l assms(2) d c(1) v], rule that) (simp_all add: c(2) listed_bond_def)
qed

lemma single_funding_Inr:
  assumes "single_funding sl bc config b d = Inr f"
  shows "getBondsFunding sl bc (orElse config (bd_config d)) [Some b] [Some (bd_voteAccount d)] None = Inr [f]"
    and "bf_bondAccount f = b"
proof -
  obtain rows where r: "getBondsFunding sl bc (orElse config (bd_config d)) [Some b] [Some (bd_voteAccount d)] None = Inr rows"
    "(case rows of [g] \<Rightarrow> Inr g
      | _ \<Rightarrow> throw ECliCommand ''Failed to fetch stake accounts while computing bond funding.'') = Inr f"
    using assms unfolding single_funding_def rbind_eq_Inr by blast
  obtain g where "rows = [g]" "bf_bondAccount g = b" using r(1) by (rule single_funding_row)
  then show "getBondsFunding sl bc (orElse config (bd_config d)) [Some b] [Some (bd_voteAccount d)] None = Inr [f]"
    "bf_bondAccount f = b" using r by simp_all
qed

text \<open>A single bond: the funding is the one of the given configuration, also when the bond has
  another one, and the check for exactly one row never fails.\<close>

lemma show_single_bond:
  assumes "show_single sl sx config address d = (Inr s, d')"
  obtains f where "getBondsFunding sl (show_chain sx) (orElse config (bd_config (bw_account s))) [Some (bw_publicKey s)]
      [Some (bd_voteAccount (bw_account s))] None = Inr [f]"
    "bf_bondAccount f = bw_publicKey s" "bw_funding s = Some (funding_shown (sx_verbose sx) f)"
proof -
  obtain k bd f where f: "single_funding sl (show_chain sx) config k bd = Inr f"
    and s: "bw_publicKey s = k" "bw_account s = bd" "bw_funding s = Some (funding_shown (sx_verbose sx) f)"
    using assms by (auto simp: show_single_def Let_def cbind_def lift_res_def cret_def cfail_def
        split: prod.splits sum.splits)
  show thesis using that [of f] single_funding_Inr [OF f] s by simp
qed

lemma single_funding_error:
  "single_funding sl bc config b d = Inl e \<Longrightarrow>
    getBondsFunding sl bc (orElse config (bd_config d)) [Some b] [Some (bd_voteAccount d)] None = Inl e"
  by (auto simp: single_funding_def rbind_def elim!: single_funding_row split: sum.splits list.splits)

section \<open>The order of the products and the fields that are hidden\<close>

interpretation product: js_order product_order
  by unfold_locales (auto simp: product_order_def split: product_type.splits)

lemma products_sorted:
  "sorted_wrt (\<lambda>x y. product_order x y \<le> 0) (bondProductShowData verbose ps)"
  by (simp add: bondProductShowData_def product.sorted_sort)

text \<open>For a value that is a BN no field fails, and the institutional program only hides more.\<close>

definition bn_ok :: "(shown \<Rightarrow> int res) \<Rightarrow> bool" where
  "bn_ok bn \<longleftrightarrow> (\<forall>n. bn (SBn n) = Inr n \<and> bn (SStr (int_str n)) = Inr n)"

lemma formatSolExclusive_bn:
  "bn_ok bn \<Longrightarrow> formatSolExclusive sl bn key (SBn n) = Inr (UseExclusively [(key, OutValue (SStr (formatToSolWithAll n)))])"
  by (simp add: formatSolExclusive_def js_toString_def bn_ok_def)

lemma reformatBond_bn: "bn_ok bn \<Longrightarrow> \<exists>a. reformatBond sl bn key (SBn n) = Inr a"
  by (simp add: reformatBond_def formatSolExclusive_bn js_toString_def bn_ok_def hasEmptyNestedObject_def
      object_values_def)

context recording
begin

lemma showing:
  assumes "cx_env (sx_cli sx) = env"
  shows "keeps P (showBond sl sx address config vote auth funding)"
    and "keeps P (sam_show_bond sl sx address config auth funding)"
    and "keeps P (inst_show_bond sl sx address auth funding)"
  unfolding showBond_def show_single_def sam_show_bond_def inst_show_bond_def Let_def
  by (intro keeps_all | simp add: assms | (split option.split prod.split, safe))+

end

end
