(* ===== verification/Cli_Notify.thy ===== *)
theory Cli_Notify
  imports Cli_Recording
begin

text \<open>
  Subscriptions to notifications: \<open>subscribe.ts\<close>, \<open>unsubscribe.ts\<close>, \<open>subscriptions.ts\<close> and
  \<open>show-notifications.ts\<close> of \<open>packages/validator-bonds-cli-core/src/commands/manage/\<close>.

  The client of the service, the texts that are signed and the signing are libraries. A failed
  request is the error object it throws and what \<open>formatHttpError\<close> reads of it.
\<close>

datatype wallet_kind = LedgerKind | KeypairKind | OtherKind

type_synonym request_error = "nat \<times> fetch_error option"

record notify_ctx =
  nx_cli :: cli_ctx
  nx_apiUrl :: string
  nx_notificationType :: string
  nx_now :: int
  nx_kind :: "pubkey \<Rightarrow> wallet_kind"
  nx_sign :: "pubkey \<Rightarrow> string \<Rightarrow> string \<Rightarrow> thrown + string"
  nx_subscribeMessage :: "string \<Rightarrow> string \<Rightarrow> int \<Rightarrow> string"
  nx_unsubscribeMessage :: "string \<Rightarrow> string \<Rightarrow> int \<Rightarrow> string"
  nx_listMessage :: "string \<Rightarrow> int \<Rightarrow> string"
  nx_json :: "string \<Rightarrow> body option"

section \<open>Signing\<close>

text \<open>A public key cannot sign. The wallet of the context always can be asked to.\<close>

definition signing_wallet :: "string \<Rightarrow> cli_ctx \<Rightarrow> authority option \<Rightarrow> pubkey res" where
  "signing_wallet what ctx authority = (case authority of
       Some (PubkeyOf _) \<Rightarrow> throw ECliCommand (''Cannot sign '' @ what
         @ '': provide a keypair file or Ledger wallet as --authority, not a public key'')
     | Some (WalletOf k) \<Rightarrow> Inr k
     | None \<Rightarrow> Inr (cx_wallet ctx))"

definition signForSubscription :: "solana_lib \<Rightarrow> notify_ctx \<Rightarrow> pubkey \<Rightarrow> string \<Rightarrow> string cmd" where
  "signForSubscription sl nx wallet message =
     cbind (lift_res (VALIDATOR_BONDS_PROGRAM_ID sl)) (\<lambda>pid.
     if nx_kind nx wallet = OtherKind
     then lift_res (throw ECliCommand ''Cannot sign off-chain message: provide a keypair file or Ledger wallet as authority'')
     else (case nx_sign nx wallet message (pk_b58 sl pid) of Inl e \<Rightarrow> cfail e | Inr s \<Rightarrow> cret s))"

definition timestamp :: "notify_ctx \<Rightarrow> int" where
  "timestamp nx = nx_now nx div 1000"

text \<open>A failed request is reported with the text of the error, if it has one.\<close>

definition or_network_error :: "notify_ctx \<Rightarrow> string \<Rightarrow> request_error + 'a \<Rightarrow> 'a cmd" where
  "or_network_error nx msg r = (case r of
       Inr x \<Rightarrow> cret x
     | Inl (k, e) \<Rightarrow> (case formatHttpError (nx_json nx) e (nx_apiUrl nx) of
         Some (c # cs) \<Rightarrow> cfail (ThrownJs (Js_Error ECliCommand (msg @ '' '' @ c # cs)))
       | _ \<Rightarrow> cfail (ThrownObject k)))"

section \<open>Subscribing\<close>

record signed_request =
  sr_pubkey :: string
  sr_notification_type :: string
  sr_channel :: string
  sr_channel_address :: "string option"
  sr_signature :: string
  sr_message :: string
  sr_config_address :: string
  sr_vote_account :: string
  sr_bond_pubkey :: string

definition bond_label :: "signed_request \<Rightarrow> string" where
  "bond_label r = ''bond '' @ sr_bond_pubkey r @ '' '' @ ''(vote account: '' @ sr_vote_account r @ '')''"

definition subscribe_request :: "solana_lib \<Rightarrow> notify_ctx \<Rightarrow> pubkey \<Rightarrow> pubkey \<Rightarrow> authority option \<Rightarrow> string \<Rightarrow> string
    \<Rightarrow> signed_request cmd" where
  "subscribe_request sl nx address config authority channel channelAddress =
     cbind (bond_for sl (nx_cli nx) (Some config) address) (\<lambda>(b, d).
     cbind (lift_res (signing_wallet ''subscription message'' (nx_cli nx) authority)) (\<lambda>k.
     let message = nx_subscribeMessage nx (nx_notificationType nx) channel (timestamp nx) in
     cbind (signForSubscription sl nx k message) (\<lambda>signature.
     cret \<lparr> sr_pubkey = pk_b58 sl k, sr_notification_type = nx_notificationType nx, sr_channel = channel,
       sr_channel_address = Some channelAddress, sr_signature = signature, sr_message = message,
       sr_config_address = pk_b58 sl (bd_config d), sr_vote_account = pk_b58 sl (bd_voteAccount d),
       sr_bond_pubkey = pk_b58 sl b \<rparr>)))"

record subscribe_response =
  sp_telegram_status :: "string option"
  sp_deep_link :: "string option"

datatype notice = Info string | Warn string | OpenUrl string

text \<open>An em dash in UTF-8.\<close>

definition em_dash :: string where "em_dash = [CHR 0xE2, CHR 0x80, CHR 0x94]"

definition logTelegramResult :: "subscribe_response \<Rightarrow> string \<Rightarrow> bool \<Rightarrow> notice list" where
  "logTelegramResult result label browser =
     (if sp_telegram_status result = Some ''already_activated''
      then [Info (''Telegram notifications are already active for '' @ label @ '' '' @ em_dash @ '' no action needed.'')]
      else if sp_telegram_status result = Some ''bot_not_configured''
      then [Warn (''Subscription created for '' @ label @ '' but Telegram bot'' @ '' is not configured on the server.''
        @ '' Notifications will not be delivered until the bot'' @ '' is set up. Please contact support.'')]
      else (case sp_deep_link result of
          Some link \<Rightarrow> [Info (''Subscription created for '' @ label @ '','' @ '' confirming at '' @ link)]
            @ (if browser then [OpenUrl link, Info (''Opening Telegram in your browser to complete activation.''
                @ '' Press Start in the bot to confirm.'')] else [])
            @ [Info (''The subscription is reported as 'pending' until the first notification''
                @ '' is delivered, then it turns to 'active'.'' @ '' Pressing Start is enough, no further action is needed.'')]
        | None \<Rightarrow> [Warn (''Subscription created for '' @ label @ '' but the server returned no''
            @ '' Telegram activation link. Notifications cannot be delivered until''
            @ '' the subscription is activated. Please contact support.'')]))"

definition manageSubscribe :: "solana_lib \<Rightarrow> notify_ctx \<Rightarrow> (signed_request \<Rightarrow> request_error + subscribe_response)
    \<Rightarrow> pubkey \<Rightarrow> pubkey \<Rightarrow> authority option \<Rightarrow> string \<Rightarrow> string \<Rightarrow> bool \<Rightarrow> notice list cmd" where
  "manageSubscribe sl nx client address config authority channel channelAddress browser =
     cbind (subscribe_request sl nx address config authority channel channelAddress) (\<lambda>r.
     cbind (or_network_error nx ''Subscription failed.'' (client r)) (\<lambda>result.
     cret (if channel = ''telegram'' then logTelegramResult result (bond_label r) browser
       else [Info (''Successfully subscribed to '' @ channel @ '' notifications '' @ ''with '' @ channelAddress
         @ '' for '' @ bond_label r)])))"

section \<open>Unsubscribing\<close>

text \<open>An empty address of the channel is not sent.\<close>

definition given_text :: "string option \<Rightarrow> string option" where
  "given_text s = (case s of Some (c # cs) \<Rightarrow> Some (c # cs) | _ \<Rightarrow> None)"

definition unsubscribe_request :: "solana_lib \<Rightarrow> notify_ctx \<Rightarrow> pubkey \<Rightarrow> pubkey \<Rightarrow> authority option \<Rightarrow> string
    \<Rightarrow> string option \<Rightarrow> signed_request cmd" where
  "unsubscribe_request sl nx address config authority channel channelAddress =
     cbind (bond_for sl (nx_cli nx) (Some config) address) (\<lambda>(b, d).
     cbind (lift_res (signing_wallet ''unsubscribe message'' (nx_cli nx) authority)) (\<lambda>k.
     let message = nx_unsubscribeMessage nx (nx_notificationType nx) channel (timestamp nx) in
     cbind (signForSubscription sl nx k message) (\<lambda>signature.
     cret \<lparr> sr_pubkey = pk_b58 sl k, sr_notification_type = nx_notificationType nx, sr_channel = channel,
       sr_channel_address = given_text channelAddress, sr_signature = signature, sr_message = message,
       sr_config_address = pk_b58 sl (bd_config d), sr_vote_account = pk_b58 sl (bd_voteAccount d),
       sr_bond_pubkey = pk_b58 sl b \<rparr>)))"

definition manageUnsubscribe :: "solana_lib \<Rightarrow> notify_ctx \<Rightarrow> (signed_request \<Rightarrow> request_error + unit)
    \<Rightarrow> pubkey \<Rightarrow> pubkey \<Rightarrow> authority option \<Rightarrow> string \<Rightarrow> string option \<Rightarrow> notice list cmd" where
  "manageUnsubscribe sl nx client address config authority channel channelAddress =
     cbind (unsubscribe_request sl nx address config authority channel channelAddress) (\<lambda>r.
     cbind (or_network_error nx ''Unsubscribe failed.'' (client r)) (\<lambda>_.
     cret [Info (''Successfully unsubscribed from ''
       @ (case given_text channelAddress of Some a \<Rightarrow> channel @ '':'' @ a | None \<Rightarrow> ''all '' @ channel)
       @ '' notifications for bond '' @ sr_bond_pubkey r @ '' '' @ ''(vote account: '' @ sr_vote_account r @ '')'')]))"

section \<open>Listing\<close>

record list_request =
  lr_pubkey :: string
  lr_notification_type :: string
  lr_config_address :: string
  lr_vote_account :: string
  lr_bond_pubkey :: string
  lr_signature :: string
  lr_message :: string

record subscription =
  sb_channel :: string
  sb_telegram_status :: "string option"

definition subscriptions_request :: "solana_lib \<Rightarrow> notify_ctx \<Rightarrow> pubkey \<Rightarrow> pubkey \<Rightarrow> authority option
    \<Rightarrow> list_request cmd" where
  "subscriptions_request sl nx address config authority =
     cbind (bond_for sl (nx_cli nx) (Some config) address) (\<lambda>(b, d).
     cbind (lift_res (signing_wallet ''list request'' (nx_cli nx) authority)) (\<lambda>k.
     let message = nx_listMessage nx (pk_b58 sl k) (timestamp nx) in
     cbind (signForSubscription sl nx k message) (\<lambda>signature.
     cret \<lparr> lr_pubkey = pk_b58 sl k, lr_notification_type = nx_notificationType nx,
       lr_config_address = pk_b58 sl (bd_config d), lr_vote_account = pk_b58 sl (bd_voteAccount d),
       lr_bond_pubkey = pk_b58 sl b, lr_signature = signature, lr_message = message \<rparr>)))"

text \<open>What is printed to the output, if anything, and the notes on the error output.\<close>

definition is_pending :: "subscription \<Rightarrow> bool" where
  "is_pending s \<longleftrightarrow> sb_channel s = ''telegram'' \<and> sb_telegram_status s = Some ''pending''"

definition showSubscriptions :: "solana_lib \<Rightarrow> notify_ctx \<Rightarrow> (list_request \<Rightarrow> request_error + subscription list)
    \<Rightarrow> pubkey \<Rightarrow> pubkey \<Rightarrow> authority option \<Rightarrow> ((string \<times> subscription list) option \<times> string list) cmd" where
  "showSubscriptions sl nx client address config authority =
     cbind (subscriptions_request sl nx address config authority) (\<lambda>r.
     cbind (or_network_error nx ''Failed to fetch subscriptions.'' (client r)) (\<lambda>found.
     cret (if length found = 0
       then (None, [''No notification subscriptions found for vote account '' @ lr_vote_account r])
       else (Some (lr_vote_account r, found),
         if list_ex is_pending found
         then [''Telegram status 'pending' means no notification has been delivered yet.''
           @ '' It turns to 'active' after the first delivery.''
           @ '' If you already pressed Start in the Telegram bot''
           @ '' the subscription is activated and delivery works.'']
         else []))))"

record list_notifications =
  ln_user_id :: "string option"
  ln_notification_type :: string
  ln_priority :: "string option"
  ln_inner_type :: "string option"
  ln_limit :: number

text \<open>The bond is looked up inside the \<open>try\<close>: its error is an \<open>Error\<close> without a status.\<close>

definition of_js_error :: "js_error \<Rightarrow> fetch_error option" where
  "of_js_error e = Some \<lparr> he_message = err_message e, he_status = None, he_response = BodyOther \<rparr>"

definition notifications_found :: "solana_lib \<Rightarrow> notify_ctx \<Rightarrow> (list_notifications \<Rightarrow> request_error + 'n list) \<Rightarrow> nat
    \<Rightarrow> pubkey option \<Rightarrow> pubkey \<Rightarrow> string option \<Rightarrow> string option \<Rightarrow> number
    \<Rightarrow> request_error + (string option \<times> 'n list)" where
  "notifications_found sl nx client thrown_object address config priority innerType limit =
     (case (case address of None \<Rightarrow> Inr None
        | Some a \<Rightarrow> (case getBondFromAddress sl (cx_lib (nx_cli nx)) (Some config) None a of
            Inl e \<Rightarrow> Inl (thrown_object, of_js_error e)
          | Inr (b, d) \<Rightarrow> Inr (Some (pk_b58 sl (bd_voteAccount d))))) of
        Inl e \<Rightarrow> Inl e
      | Inr voteAccount \<Rightarrow> (case client \<lparr> ln_user_id = voteAccount, ln_notification_type = nx_notificationType nx,
            ln_priority = priority, ln_inner_type = innerType, ln_limit = limit \<rparr> of
          Inl e \<Rightarrow> Inl e | Inr found \<Rightarrow> Inr (voteAccount, found)))"

definition showNotifications :: "solana_lib \<Rightarrow> notify_ctx \<Rightarrow> (list_notifications \<Rightarrow> request_error + 'n list) \<Rightarrow> nat
    \<Rightarrow> pubkey option \<Rightarrow> pubkey \<Rightarrow> string option \<Rightarrow> string option \<Rightarrow> number
    \<Rightarrow> ((string option \<times> 'n list) option \<times> string list) cmd" where
  "showNotifications sl nx client thrown_object address config priority innerType limit =
     cbind (or_network_error nx ''Failed to fetch notifications.''
       (notifications_found sl nx client thrown_object address config priority innerType limit)) (\<lambda>(vote, found).
     cret (if length found = 0
       then (None, [case vote of Some v \<Rightarrow> ''No notifications found for vote account '' @ v
         | None \<Rightarrow> ''No broadcast notifications found''])
       else (Some (vote, found), [])))"


section \<open>Who signs\<close>

lemma signForSubscription_Inr:
  "signForSubscription sl nx k m d = (Inr s, d') \<longleftrightarrow> (\<exists>pid. VALIDATOR_BONDS_PROGRAM_ID sl = Inr pid
     \<and> nx_kind nx k \<noteq> OtherKind \<and> nx_sign nx k m (pk_b58 sl pid) = Inr s \<and> d' = d)"
  by (auto simp: signForSubscription_def cbind_Inr lift_res_Inr case_cmd_Inr)

text \<open>A key that signs is a wallet that was given, else the wallet of the program.\<close>

definition signed_with :: "solana_lib \<Rightarrow> notify_ctx \<Rightarrow> authority option \<Rightarrow> string \<Rightarrow> string \<Rightarrow> string \<Rightarrow> bool" where
  "signed_with sl nx authority pubkey message signature \<longleftrightarrow>
     (\<exists>k pid. authority \<in> {None, Some (WalletOf k)} \<and> (authority = None \<longrightarrow> k = cx_wallet (nx_cli nx))
       \<and> pubkey = pk_b58 sl k \<and> nx_kind nx k \<noteq> OtherKind \<and> VALIDATOR_BONDS_PROGRAM_ID sl = Inr pid
       \<and> nx_sign nx k message (pk_b58 sl pid) = Inr signature)"

lemma signing_wallet_Inr:
  "signing_wallet what ctx a = Inr k \<longleftrightarrow> a = Some (WalletOf k) \<or> a = None \<and> k = cx_wallet ctx"
  by (auto simp: signing_wallet_def split: option.splits authority.splits)

lemma subscribe_signed:
  assumes "subscribe_request sl nx address config authority channel target d = (Inr r, d')"
  shows "signed_with sl nx authority (sr_pubkey r) (sr_message r) (sr_signature r)"
  using assms
  by (auto simp: subscribe_request_def cbind_Inr lift_res_Inr signing_wallet_Inr Let_def signForSubscription_Inr
      cret_def signed_with_def split: prod.splits)

lemma unsubscribe_signed:
  assumes "unsubscribe_request sl nx address config authority channel target d = (Inr r, d')"
  shows "signed_with sl nx authority (sr_pubkey r) (sr_message r) (sr_signature r)"
  using assms
  by (auto simp: unsubscribe_request_def cbind_Inr lift_res_Inr signing_wallet_Inr Let_def signForSubscription_Inr
      cret_def signed_with_def split: prod.splits)

lemma subscriptions_signed:
  assumes "subscriptions_request sl nx address config authority d = (Inr r, d')"
  shows "signed_with sl nx authority (lr_pubkey r) (lr_message r) (lr_signature r)"
  using assms
  by (auto simp: subscriptions_request_def cbind_Inr lift_res_Inr signing_wallet_Inr Let_def signForSubscription_Inr
      cret_def signed_with_def split: prod.splits)

text \<open>With a public key nothing is sent: the result is the same for every answer of the service.\<close>

lemma no_request_of_pubkey:
  "manageSubscribe sl nx client address config (Some (PubkeyOf k)) channel target browser d
     = manageSubscribe sl nx client' address config (Some (PubkeyOf k)) channel target browser d"
  "fst (manageSubscribe sl nx client address config (Some (PubkeyOf k)) channel target browser d) \<noteq> Inr ns"
  by (auto simp: manageSubscribe_def subscribe_request_def signing_wallet_def cbind_def lift_res_def
      cfail_def bond_for_def split: prod.splits sum.splits)

text \<open>An address that stands for no bond is reported as a service that cannot be reached.\<close>

lemma notifications_of_wrong_address:
  assumes "getBondFromAddress sl (cx_lib (nx_cli nx)) (Some config) None a = Inl e"
  shows "showNotifications sl nx client k (Some a) config priority innerType limit d
    = (Inl (ThrownJs (Js_Error ECliCommand (''Failed to fetch notifications. Cannot reach service at ''
        @ nx_apiUrl nx @ '': '' @ err_message e))), d)"
  using assms by (simp add: showNotifications_def notifications_found_def or_network_error_def of_js_error_def
      formatHttpError_def cbind_def cfail_def)

end
