(* ===== verification/Cli_Tip.thy ===== *)
theory Cli_Tip
  imports Cli_Commands Cli_Banner
begin

text \<open>
  The guidance banner after a command: \<open>packages/validator-bonds-cli-core/src/bondTipBanner.ts\<close>.

  The tip itself comes from the library ds-sam-calc: \<open>tip_lib\<close> holds its functions and its
  default configuration. The blobs of the validators are what \<open>Ev_Relay\<close> relays; here they are
  objects of numbers and other values \<open>'v\<close>, of which only the two balances are written. Amounts
  and epochs of the wire are JavaScript numbers. What may throw is caught by the source, so the
  banner is an option: the text that is printed to the error output.
\<close>

definition BOND_TIP_FETCH_TIMEOUT_MS :: nat where "BOND_TIP_FETCH_TIMEOUT_MS = 3000"
definition FRESH_BALANCE_TIMEOUT_MS :: nat where "FRESH_BALANCE_TIMEOUT_MS = 3000"

record auction_meta =
  am_epoch :: number
  am_winningTotalPmpe :: number
  am_marinadeSamTvlSol :: number
  am_minBondEpochs :: number
  am_idealBondEpochs :: number
  am_minBondBalanceSol :: number
  am_bondRiskFeeMult :: number
  am_bidTooLowPenaltyHistoryEpochs :: number
  am_bidTooLowPenaltyPermittedDeviationPmpe :: number
  am_minMaxStakeWanted :: "number option"
  am_blacklist :: "string list"

datatype 'v blob_value = BlobNumber number | BlobOther 'v

type_synonym 'v blob = "(string, 'v blob_value) jsmap"

record 'v auction_context =
  ac_meta :: "auction_meta option"
  ac_validators :: "(string, 'v blob) jsmap"

definition urgencyColor :: "string \<Rightarrow> color option" where
  "urgencyColor urgency = (if urgency = ''critical'' then Some Red
     else if urgency = ''warning'' then Some Yellow
     else if urgency = ''positive'' then Some Green else None)"

section \<open>Fetching\<close>

text \<open>The answer of the API: its status and, when it is read, the parsed body. The request is
  aborted at the timeout.\<close>

definition auction_url :: "string \<Rightarrow> string" where
  "auction_url apiUrl = (if apiUrl \<noteq> [] \<and> last apiUrl = CHR ''/'' then butlast apiUrl else apiUrl)
     @ ''/bonds/bidding/auction''"

definition fetchAuctionContext :: "(string \<Rightarrow> (bool \<times> 'v auction_context) settles) \<Rightarrow> string \<Rightarrow> 'v auction_context option" where
  "fetchAuctionContext fetch apiUrl = (case fetch (auction_url apiUrl) of
       Settles t (Some (ok, context)) \<Rightarrow> if t < BOND_TIP_FETCH_TIMEOUT_MS \<and> ok then Some context else None
     | _ \<Rightarrow> None)"

text \<open>The balance on the chain: what is owned, and what is left after a pending withdraw request.\<close>

definition pending_lamports :: "(pubkey \<times> withdraw_data) list \<Rightarrow> int res" where
  "pending_lamports requests = (case requests of
       [] \<Rightarrow> Inr 0
     | (_, w) # _ \<Rightarrow> bn_toNumber (wd_requestedAmount w - wd_withdrawnAmount w))"

definition owned_lamports :: "stake_account list \<Rightarrow> number" where
  "owned_lamports stakeAccounts = foldl (\<lambda>total s. n_add total (Fin (of_int (sa_lamports s)))) (Fin 0) stakeAccounts"

definition number_max0 :: "number \<Rightarrow> number" where
  "number_max0 x = (if x = NaN then NaN else if n_lt (Fin 0) x then x else Fin 0)"

definition fresh_balance :: "solana_lib \<Rightarrow> bonds_chain \<Rightarrow> pubkey \<Rightarrow> int option \<Rightarrow> (number \<times> number) res" where
  "fresh_balance sl bc voteAccount currentEpoch =
     rbind (MARINADE_CONFIG_ADDRESS sl) (\<lambda>config.
     rbind (findBondNonSettlementStakeAccounts sl bc config None (Some voteAccount) currentEpoch) (\<lambda>stakeAccounts.
     let owned = owned_lamports stakeAccounts in
     rbind (bondAddress sl config voteAccount (bc_programId bc)) (\<lambda>b.
     rbind (findWithdrawRequests sl (bc_withdraws bc) (bc_programId bc) None (Some (fst b)) None) (\<lambda>requests.
     rbind (pending_lamports requests) (\<lambda>pending.
     Inr (n_div owned (Fin 1000000000),
       n_div (number_max0 (n_sub owned (Fin (of_int pending)))) (Fin 1000000000)))))))"

text \<open>\<open>time\<close> is how long the requests take.\<close>

definition fetchFreshBondBalanceSol :: "solana_lib \<Rightarrow> bonds_chain \<Rightarrow> nat \<Rightarrow> pubkey \<Rightarrow> int option
    \<Rightarrow> (number \<times> number) option" where
  "fetchFreshBondBalanceSol sl bc time voteAccount currentEpoch =
     raceWithTimeout (Settles time (Some (case fresh_balance sl bc voteAccount currentEpoch of
         Inl _ \<Rightarrow> None | Inr r \<Rightarrow> Some r))) FRESH_BALANCE_TIMEOUT_MS None"

section \<open>The tip\<close>

record 'v auction_result =
  ar_epoch :: number
  ar_validators :: "'v blob list"
  ar_inflationPmpe :: number
  ar_mevPmpe :: number
  ar_networkTotalSol :: number
  ar_marinadeSamTvlSol :: number
  ar_marinadeRemainingSamSol :: number
  ar_blacklist :: "string set"
  ar_winningTotalPmpe :: number

definition reconstructAuctionResult :: "'v auction_context \<Rightarrow> auction_meta \<Rightarrow> 'v auction_result" where
  "reconstructAuctionResult context meta = \<lparr> ar_epoch = am_epoch meta,
     ar_validators = map snd (ac_validators context), ar_inflationPmpe = Fin 0, ar_mevPmpe = Fin 0,
     ar_networkTotalSol = Fin 0, ar_marinadeSamTvlSol = am_marinadeSamTvlSol meta,
     ar_marinadeRemainingSamSol = Fin 0, ar_blacklist = set (am_blacklist meta),
     ar_winningTotalPmpe = am_winningTotalPmpe meta \<rparr>"

text \<open>\<open>sc_rest\<close> are the settings that keep their default.\<close>

record 'c sam_config =
  sc_minBondEpochs :: number
  sc_idealBondEpochs :: number
  sc_minBondBalanceSol :: number
  sc_bondRiskFeeMult :: number
  sc_bidTooLowPenaltyHistoryEpochs :: number
  sc_bidTooLowPenaltyPermittedDeviationPmpe :: number
  sc_minMaxStakeWanted :: "number option"
  sc_rest :: 'c

definition metaToConfig :: "'c sam_config \<Rightarrow> auction_meta \<Rightarrow> 'c sam_config" where
  "metaToConfig DEFAULT_CONFIG meta = DEFAULT_CONFIG\<lparr> sc_minBondEpochs := am_minBondEpochs meta,
     sc_idealBondEpochs := am_idealBondEpochs meta, sc_minBondBalanceSol := am_minBondBalanceSol meta,
     sc_bondRiskFeeMult := am_bondRiskFeeMult meta,
     sc_bidTooLowPenaltyHistoryEpochs := am_bidTooLowPenaltyHistoryEpochs meta,
     sc_bidTooLowPenaltyPermittedDeviationPmpe := am_bidTooLowPenaltyPermittedDeviationPmpe meta,
     sc_minMaxStakeWanted := am_minMaxStakeWanted meta \<rparr>"

record tip =
  tp_text :: jstr
  tp_urgency :: string

record ('v, 'c, 'w) tip_lib =
  tl_DEFAULT_CONFIG :: "'c sam_config"
  tl_augment :: "'v auction_result \<Rightarrow> number \<Rightarrow> 'w list res"
  tl_voteAccount :: "'w \<Rightarrow> string"
  tl_frontier :: "'v auction_result \<Rightarrow> number \<Rightarrow> number res"
  tl_getValidatorTip :: "'w \<Rightarrow> 'c sam_config \<Rightarrow> number \<Rightarrow> string set \<Rightarrow> number \<Rightarrow> tip res"

text \<open>The balances of the validator are replaced by fresh ones, where there are any.\<close>

definition with_balance :: "string \<Rightarrow> number option \<Rightarrow> 'v blob \<Rightarrow> 'v blob" where
  "with_balance key balance blob = (case balance of None \<Rightarrow> blob | Some x \<Rightarrow> jsmap_set key (BlobNumber x) blob)"

definition fresh_context :: "string \<Rightarrow> number option \<Rightarrow> number option \<Rightarrow> 'v blob \<Rightarrow> 'v auction_context \<Rightarrow> 'v auction_context" where
  "fresh_context vote balance claimable blob context =
     context\<lparr> ac_validators := jsmap_set vote (with_balance ''claimableBondBalanceSol'' claimable
       (with_balance ''bondBalanceSol'' balance blob)) (ac_validators context) \<rparr>"

text \<open>Data that is two epochs old or older is said to be.\<close>

definition stale_text :: "auction_meta \<Rightarrow> int option \<Rightarrow> jstr" where
  "stale_text meta currentEpoch = (case currentEpoch of
       None \<Rightarrow> []
     | Some e \<Rightarrow> if n_le (Fin 2) (n_sub (Fin (of_int e)) (am_epoch meta))
         then ju (''Auction data is from epoch '' @ num_str (am_epoch meta) @ '' (current epoch '' @ int_str e @ '') '')
           @ [0x2014] @ ju '' figures may be outdated.'' @ [NL, NL]
         else [])"

definition tip_title :: jstr where
  "tip_title = ju ''Marinade Stake Auction '' @ [0xB7] @ ju '' Bond Guidance''"

definition tip_banner :: "('v, 'c, 'w) tip_lib \<Rightarrow> terminal \<Rightarrow> string \<Rightarrow> int option \<Rightarrow> auction_meta
    \<Rightarrow> 'v auction_context \<Rightarrow> jstr option res" where
  "tip_banner tlib t vote currentEpoch meta context =
     (let result = reconstructAuctionResult context meta;
          config = metaToConfig (tl_DEFAULT_CONFIG tlib) meta in
      rbind (tl_augment tlib result (sc_minBondBalanceSol config)) (\<lambda>augmented.
      (case find (\<lambda>v. tl_voteAccount tlib v = vote) augmented of
         None \<Rightarrow> Inr None
       | Some me \<Rightarrow>
           rbind (tl_frontier tlib result (sc_minBondBalanceSol config)) (\<lambda>frontier.
           rbind (tl_getValidatorTip tlib me config (am_winningTotalPmpe meta) (ar_blacklist result) frontier) (\<lambda>tip.
           rbind (getBanner t (default_banner (stale_text meta currentEpoch @ tp_text tip) (Some tip_title)
             (urgencyColor (tp_urgency tip)))) (\<lambda>banner.
           Inr (Some ([NL] @ banner @ [NL]))))))))"

definition maybePrintBondTipBanner :: "solana_lib \<Rightarrow> ('v, 'c, 'w) tip_lib \<Rightarrow> terminal
    \<Rightarrow> (string \<Rightarrow> (bool \<times> 'v auction_context) settles) \<Rightarrow> string \<Rightarrow> bool \<Rightarrow> pubkey option \<Rightarrow> int option
    \<Rightarrow> number option \<Rightarrow> number option \<Rightarrow> jstr option" where
  "maybePrintBondTipBanner sl tlib t fetch apiUrl enabled voteAccount currentEpoch balance claimable =
     (case (enabled, voteAccount) of
        (True, Some v) \<Rightarrow> (case fetchAuctionContext fetch apiUrl of
            None \<Rightarrow> None
          | Some context \<Rightarrow> (case (ac_meta context, jsmap_get (ac_validators context) (pk_b58 sl v)) of
              (Some meta, Some blob) \<Rightarrow>
                (case tip_banner tlib t (pk_b58 sl v) currentEpoch meta
                    (fresh_context (pk_b58 sl v) balance claimable blob context) of
                   Inl _ \<Rightarrow> None | Inr out \<Rightarrow> out)
            | _ \<Rightarrow> None))
      | _ \<Rightarrow> None)"

text \<open>\<open>tip_world\<close>: the error output is a terminal, the context is set, the answers of the cluster
  with their times.\<close>

record 'v tip_world =
  tw_isTTY :: bool
  tw_context :: bool
  tw_bondsApiEnabled :: bool
  tw_bondsApiUrl :: string
  tw_epoch :: "int settles"
  tw_time :: nat
  tw_fetch :: "string \<Rightarrow> (bool \<times> 'v auction_context) settles"

definition current_epoch :: "'v tip_world \<Rightarrow> int option" where
  "current_epoch w = (case tw_epoch w of
       Settles time (Some e) \<Rightarrow> raceWithTimeout (Settles time (Some (Some e))) FRESH_BALANCE_TIMEOUT_MS None
     | _ \<Rightarrow> None)"

definition printBondTipBannerFromContext :: "solana_lib \<Rightarrow> ('v, 'c, 'w) tip_lib \<Rightarrow> terminal \<Rightarrow> cli_ctx
    \<Rightarrow> 'v tip_world \<Rightarrow> pubkey option \<Rightarrow> jstr option" where
  "printBondTipBannerFromContext sl tlib t ctx w voteAccount =
     (if \<not> tw_isTTY w then None
      else if \<not> tw_context w then None
      else if dry_run ctx then None
      else if \<not> tw_bondsApiEnabled w then None
      else (let epoch = current_epoch w;
                fresh = (case voteAccount of None \<Rightarrow> None
                  | Some v \<Rightarrow> fetchFreshBondBalanceSol sl (chain_of ctx) (tw_time w) v epoch)
            in maybePrintBondTipBanner sl tlib t (tw_fetch w) (tw_bondsApiUrl w) (tw_bondsApiEnabled w) voteAccount
                 epoch (map_option fst fresh) (map_option snd fresh)))"


section \<open>When there is a banner\<close>

lemma no_banner:
  "\<not> tw_isTTY w \<or> \<not> tw_context w \<or> dry_run ctx \<or> \<not> tw_bondsApiEnabled w \<or> voteAccount = None \<Longrightarrow>
    printBondTipBannerFromContext sl tlib t ctx w voteAccount = None"
  by (auto simp: printBondTipBannerFromContext_def maybePrintBondTipBanner_def Let_def)

text \<open>A request for all of the bond is a pending amount that does not fit a number: the balance on
  the chain is then never used, however fast the cluster answers.\<close>

lemma pending_of_all:
  assumes "wd_requestedAmount w = U64_MAX" and "wd_withdrawnAmount w \<le> U64_MAX - 2 ^ 53"
  shows "pending_lamports ((k, w) # requests) = throw EError ''Number can only safely store up to 53 bits''"
  using assms by (simp add: pending_lamports_def bn_toNumber_def fits53_def U64_MAX_def)

lemma fresh_balance_of_all:
  assumes "MARINADE_CONFIG_ADDRESS sl = Inr config" and "bondAddress sl config v (bc_programId bc) = Inr b"
    and "findWithdrawRequests sl (bc_withdraws bc) (bc_programId bc) None (Some (fst b)) None = Inr ((k, w) # requests)"
    and "wd_requestedAmount w = U64_MAX" and "wd_withdrawnAmount w \<le> U64_MAX - 2 ^ 53"
  shows "fetchFreshBondBalanceSol sl bc time v epoch = None"
proof -
  have "\<exists>e. fresh_balance sl bc v epoch = Inl e"
    using assms(1-3) pending_of_all [OF assms(4,5), of k requests]
    by (cases "findBondNonSettlementStakeAccounts sl bc config None (Some v) epoch")
      (simp_all add: fresh_balance_def Let_def throw_def)
  then show ?thesis by (auto simp: fetchFreshBondBalanceSol_def raceWithTimeout_def)
qed

text \<open>The tip is computed from the fresh balances and from nothing else that is fresh.\<close>

lemma jsmap_get_with_balance:
  "jsmap_get (with_balance key x blob) k = (if k = key \<and> x \<noteq> None then Some (BlobNumber (the x)) else jsmap_get blob k)"
  by (simp add: with_balance_def split: option.split)

lemma fresh_context_blob:
  assumes "jsmap_get (ac_validators c) v = Some blob"
  shows "\<exists>blob'. jsmap_get (ac_validators (fresh_context v x y blob c)) v = Some blob'
      \<and> (\<forall>k. jsmap_get blob' k = (if k = ''bondBalanceSol'' \<and> x \<noteq> None then Some (BlobNumber (the x))
            else if k = ''claimableBondBalanceSol'' \<and> y \<noteq> None then Some (BlobNumber (the y)) else jsmap_get blob k))"
    and "u \<noteq> v \<Longrightarrow> jsmap_get (ac_validators (fresh_context v x y blob c)) u = jsmap_get (ac_validators c) u"
    and "ac_meta (fresh_context v x y blob c) = ac_meta c"
  by (auto simp: fresh_context_def jsmap_get_with_balance)

end
