(* ===== verification/Cli_Executes.thy ===== *)
theory Cli_Executes
  imports Cli_Recording
begin

text \<open>
  What a command may execute: every transaction has an instruction and is signed by the wallet
  of the program. As a command gets the outcomes of executions as a function, this says that its
  result does not depend on the outcomes of other transactions.
\<close>

definition plan_ok :: "cli_ctx \<Rightarrow> tx_plan \<Rightarrow> bool" where
  "plan_ok ctx plan \<longleftrightarrow> tp_instructions plan \<noteq> [] \<and> cx_wallet ctx \<in> set (tp_signers plan)"

definition same_on_plans :: "cli_ctx \<Rightarrow> world \<Rightarrow> world \<Rightarrow> bool" where
  "same_on_plans ctx w w' \<longleftrightarrow> wo_heap w' = wo_heap w \<and> wo_errors w' = wo_errors w
     \<and> (\<forall>plan. plan_ok ctx plan \<longrightarrow> wo_execute w' plan = wo_execute w plan)"

lemma set_signed_by [simp]: "set (signed_by ks a) = set ks \<union> (case a of WalletOf k \<Rightarrow> {k} | PubkeyOf _ \<Rightarrow> {})"
  by (simp add: signed_by_def split: authority.split)

lemma execute_same:
  assumes "same_on_plans ctx w w'" and "plan_ok ctx plan"
  shows "executeTxHandleErrors sl ctx w' plan = executeTxHandleErrors sl ctx w plan"
    and "splitAndExecuteTxHandleErrors sl ctx w' plan = splitAndExecuteTxHandleErrors sl ctx w plan"
  using assms by (simp_all add: same_on_plans_def executeTxHandleErrors_def splitAndExecuteTxHandleErrors_def
      cong: exec_outcome.case_cong)

lemma cbind_same:
  assumes "\<And>x d d'. m d = (Inr x, d') \<Longrightarrow> f' x = f x"
  shows "cbind m f' = cbind m f"
  using assms by (fastforce simp: cbind_def fun_eq_iff split: prod.split sum.split)

named_theorems same_rules \<open>commands that agree for two worlds\<close>

lemma cbind_same_first [same_rules]: "m' = m \<Longrightarrow> cbind m' f = cbind m f"
  by simp

lemma cbind_same_rest [same_rules]: "(\<And>x. f' x = f x) \<Longrightarrow> cbind m f' = cbind m f"
  by (rule cbind_same) simp

lemma ccatch_same [same_rules]: "m' = m \<Longrightarrow> (\<And>e. f' e = f e) \<Longrightarrow> ccatch m' f' = ccatch m f"
  by presburger

lemma pair_same [same_rules]: "(\<And>x y. f' x y = f x y) \<Longrightarrow> (case p of (x, y) \<Rightarrow> f' x y) = (case p of (x, y) \<Rightarrow> f x y)"
  by (simp split: prod.split)

lemma if_same [same_rules]: "(c \<Longrightarrow> a' = a) \<Longrightarrow> (\<not> c \<Longrightarrow> b' = b) \<Longrightarrow> (if c then a' else b') = (if c then a else b)"
  by simp

section \<open>The plans of the commands\<close>

lemma plan_ok_signed [simp]:
  "plan_ok ctx \<lparr> tp_instructions = ix # ixs, tp_signers = ks, tp_computeUnitLimit = l, tp_errMessage = msg \<rparr>
     \<longleftrightarrow> cx_wallet ctx \<in> set ks"
  by (simp add: plan_ok_def)

lemma fund_bond_plan_ok:
  "fund_bond_plan sl ctx config address stake auth l d = (Inr (plan, t), d') \<Longrightarrow> plan_ok ctx plan"
  by (auto simp: fund_bond_plan_def Let_def cbind_Inr lift_res_Inr cret_def split: prod.splits)

lemma fund_sol_plan_ok:
  "fund_sol_plan sl ctx config address amt from l d = (Inr (plan, t), d') \<Longrightarrow> plan_ok ctx plan"
  by (auto simp: fund_sol_plan_def Let_def cbind_Inr lift_res_Inr cret_def split: prod.splits)

lemma configure_bond_plan_ok: "configure_bond_plan sl ctx opts b d = Inr (k, plan) \<Longrightarrow> plan_ok ctx plan"
  by (auto simp: configure_bond_plan_def rbind_eq_Inr split: prod.splits)

lemma claim_plan_ok: "ck_instructions k \<noteq> [] \<Longrightarrow> plan_ok ctx (claim_plan sl ctx opts auth k)"
  by (simp add: claim_plan_def plan_ok_def)

section \<open>The commands\<close>

lemma unexpected_same:
  assumes "same_on_plans ctx w w'"
  shows "failIfUnexpectedFundingError sl ctx w' t = failIfUnexpectedFundingError sl ctx w t"
    and "request_failed sl ctx w' k = request_failed sl ctx w k"
    and "bond_failed sl ctx w' k = bond_failed sl ctx w k"
proof -
  have "wo_heap w' = wo_heap w" "wo_errors w' = wo_errors w" using assms by (simp_all add: same_on_plans_def)
  then show "failIfUnexpectedFundingError sl ctx w' t = failIfUnexpectedFundingError sl ctx w t"
    "request_failed sl ctx w' k = request_failed sl ctx w k" "bond_failed sl ctx w' k = bond_failed sl ctx w k"
    by (intro ext, simp add: failIfUnexpectedFundingError_def request_failed_def bond_failed_def
      cong: thrown.case_cong)+
qed

lemma funding_same:
  assumes "same_on_plans ctx w w'"
  shows "manageFundBond sl ctx w' config address stake auth l = manageFundBond sl ctx w config address stake auth l"
    and "manageFundBondWithSol sl ctx w' config address amt from l = manageFundBondWithSol sl ctx w config address amt from l"
    and "manageMintBond sl ctx w' c address payer l = manageMintBond sl ctx w c address payer l"
proof -
  show "manageFundBond sl ctx w' config address stake auth l = manageFundBond sl ctx w config address stake auth l"
    unfolding manageFundBond_def
    by (rule cbind_same) (auto simp: unexpected_same [OF assms] execute_same [OF assms] dest!: fund_bond_plan_ok)
  show "manageFundBondWithSol sl ctx w' config address amt from l = manageFundBondWithSol sl ctx w config address amt from l"
    unfolding manageFundBondWithSol_def
    by (rule cbind_same) (auto simp: unexpected_same [OF assms] execute_same [OF assms] dest!: fund_sol_plan_ok)
  show "manageMintBond sl ctx w' c address payer l = manageMintBond sl ctx w c address payer l"
    unfolding manageMintBond_def Let_def by (intro same_rules | simp add: execute_same [OF assms])+
qed

lemma withdraw_same:
  assumes "same_on_plans ctx w w'"
  shows "manageInitWithdrawRequest sl ctx w' oa oc ov auth amt payer l = manageInitWithdrawRequest sl ctx w oa oc ov auth amt payer l"
    and "manageClaimWithdrawRequest sl ctx w' opts = manageClaimWithdrawRequest sl ctx w opts"
    and "manageCancelWithdrawRequest sl ctx w' oa oc ov auth collector l = manageCancelWithdrawRequest sl ctx w oa oc ov auth collector l"
  unfolding manageInitWithdrawRequest_def manageClaimWithdrawRequest_def manageCancelWithdrawRequest_def Let_def
  by (intro same_rules | simp add: execute_same [OF assms] unexpected_same [OF assms] claim_plan_ok)+

lemma bond_same:
  assumes "same_on_plans ctx w w'"
  shows "manageInitBond sl ctx w' c io = manageInitBond sl ctx w c io"
  unfolding manageInitBond_def Let_def
  by (intro same_rules | simp add: execute_same [OF assms] unexpected_same [OF assms] split: option.split)+

lemma configure_same:
  assumes "same_on_plans ctx w w'"
  shows "manageConfigureBond sl ctx w' oo = manageConfigureBond sl ctx w oo"
  unfolding manageConfigureBond_def
  by (rule cbind_same_rest, rule pair_same, rule cbind_same_rest, rule cbind_same)
    (auto simp: lift_res_Inr execute_same(1) [OF assms] dest!: configure_bond_plan_ok)

lemma admin_same:
  assumes "same_on_plans ctx w w'"
  shows "manageCloseSettlement sl ctx w' address refund l = manageCloseSettlement sl ctx w address refund l"
    and "manageResetStake sl ctx w' address settlement bond l = manageResetStake sl ctx w address settlement bond l"
    and "manageMerge sl ctx w' address dest config settle l = manageMerge sl ctx w address dest config settle l"
    and "manageEmergencyPauseAndResume sl ctx w' action address auth l = manageEmergencyPauseAndResume sl ctx w action address auth l"
    and "manageInitConfig sl ctx w' oa admin operator payer e s lo l = manageInitConfig sl ctx w oa admin operator payer e s lo l"
    and "manageConfigureConfig sl ctx w' address auth cfg l = manageConfigureConfig sl ctx w address auth cfg l"
  unfolding manageCloseSettlement_def manageResetStake_def manageMerge_def manageEmergencyPauseAndResume_def
    manageInitConfig_def manageConfigureConfig_def Let_def
  by (intro same_rules | simp add: execute_same [OF assms])+

lemma action_same:
  assumes "same_on_plans ctx w w'"
  shows "sam_action sl ctx w' c = sam_action sl ctx w c"
    and "institutional_action sl ctx w' c = institutional_action sl ctx w c"
  by (cases c; simp add: sam_defs funding_same [OF assms] withdraw_same [OF assms] bond_same [OF assms]
      configure_same [OF assms] admin_same [OF assms])
    (cases c; simp add: institutional_defs funding_same [OF assms] withdraw_same [OF assms] bond_same [OF assms]
      configure_same [OF assms])

end
