(* ===== verification/Cli_Properties.thy ===== *)
theory Cli_Properties
  imports Cli_Main Cli_Show Cli_Notify Cli_Tip Cli_Executes Sdk_Ix_Properties
begin

text \<open>
  The properties of the command line programs, with their instances. \<open>cli_chain\<close> is the cluster
  of the instances: accounts are told apart by their data.
\<close>

section \<open>A run and its events\<close>

text \<open>
  C29: a run that records its usage sends two events of one session, in this order: the command
  before it runs and its completion after it, whatever the action does and however it ends. The
  completion says success exactly when the exit code is 0, and nothing that was recorded is left
  for a later event.
\<close>

theorem cli_run_completes:
  assumes "mc_cliType prog = Some t" and "\<not> isTelemetryDisabled (mh_env h)"
    and "account_field_ok (mo_accountField o')" and "mh_wallet h = Inr wallet"
  shows "\<exists>p start complete.
      ms_events (snd (launchCliProgram sl prog h o' action s))
        = ms_events s @ [(''cli_command'', start), (''cli_command_complete'', complete)]
    \<and> run_of p start \<and> run_of p complete
    \<and> (jsmap_get complete ''result'' = Some (JStr ''success'')
        \<longleftrightarrow> me_exitCode (fst (launchCliProgram sl prog h o' action s)) = 0)
    \<and> ms_tx (snd (launchCliProgram sl prog h o' action s)) = empty_tx_data"
proof -
  let ?s = "start_usage prog h o' wallet s"
  obtain tx r where s: "snd (launchCliProgram sl prog h o' action s) = fireCompletion h r (?s\<lparr>ms_tx := tx\<rparr>)"
    and code: "me_exitCode (fst (launchCliProgram sl prog h o' action s)) = (if r = ResSuccess then 0 else 200)"
    by (rule launch_state [OF assms(4)])
  obtain p start where start: "ms_pending ?s = Some (p, mh_startedAt h)" "run_of p start"
    "ms_events ?s = ms_events s @ [(''cli_command'', start)]"
    by (rule start_usage_on [OF assms(1-3)])
  have "ms_pending (?s\<lparr>ms_tx := tx\<rparr>) = Some (p, mh_startedAt h)" using start(1) by simp
  from fireCompletion_on [OF assms(2) this, of r] obtain complete where
    "ms_events (fireCompletion h r (?s\<lparr>ms_tx := tx\<rparr>)) = ms_events (?s\<lparr>ms_tx := tx\<rparr>) @ [(''cli_command_complete'', complete)]"
    "run_of p complete" "jsmap_get complete ''result'' = Some (JStr (completion_str r))"
    "ms_tx (fireCompletion h r (?s\<lparr>ms_tx := tx\<rparr>)) = empty_tx_data" .
  with start show ?thesis by (auto simp: s code completion_str_success)
qed

definition cli_prog :: main_config where
  "cli_prog = \<lparr> mc_version = ''2.1.0'', mc_cliType = Some ''sam'', mc_notifications = True, mc_bondsApi = Some True \<rparr>"

definition cli_env :: usage_env where
  "cli_env = \<lparr> ue_DO_NOT_TRACK = None, ue_MIXPANEL_TOKEN_TEST = Some ''t'', ue_buildToken = MIXPANEL_TOKEN_PLACEHOLDER \<rparr>"

definition cli_host :: main_host where
  "cli_host = \<lparr> mh_env = cli_env,
     mh_usage = \<lparr> uh_timeMs = 5000, uh_insertId = ''i'', uh_platform = ''linux'', uh_arch = ''x64'', uh_version = ''v20'' \<rparr>,
     mh_wallet = Inr (Some ''w''), mh_sessionId = ''s'', mh_newInstallId = ''u'', mh_writable = True,
     mh_startedAt = 1000, mh_endedAt = 1500, mh_context = Inr (), mh_compare = (\<lambda>a b. 0),
     mh_registry = NpmRejected, mh_object = (\<lambda>e. ([], 0)), mh_rpcEndpoint = None, mh_RPC_URL_set = False \<rparr>"

definition cli_opts :: main_opts where
  "cli_opts = \<lparr> mo_url = None, mo_RPC_URL = None, mo_cluster = Some ''devnet'', mo_simulate = False, mo_printOnly = False,
     mo_debug = False, mo_verbose = False, mo_bondsApiUrl = None, mo_advice = None, mo_commandName = ''fund-bond'',
     mo_account = Some ''a'', mo_accountField = Some ''bond_account'' \<rparr>"

definition cli_fresh :: main_state where
  "cli_fresh = \<lparr> ms_tx = empty_tx_data, ms_install = \<lparr> ii_cached = None, ii_file = None \<rparr>, ms_pending = None, ms_events = [] \<rparr>"

text \<open>An action that fails.\<close>

theorem cli_run_completes_witness:
  "\<exists>start complete. ms_events (snd (launchCliProgram demo_sl cli_prog cli_host cli_opts
       (cfail (ThrownJs (Js_Error EError ''no''))) cli_fresh))
     = [(''cli_command'', start), (''cli_command_complete'', complete)]
   \<and> jsmap_get complete ''result'' \<noteq> Some (JStr ''success'')"
proof -
  have on: "\<not> isTelemetryDisabled cli_env"
    by (simp add: isTelemetryDisabled_def getMixpanelToken_def cli_env_def MIXPANEL_TOKEN_PLACEHOLDER_def)
  have code: "me_exitCode (fst (launchCliProgram demo_sl cli_prog cli_host cli_opts
      (cfail (ThrownJs (Js_Error EError ''no''))) cli_fresh)) = 200"

    by (simp add: launchCliProgram_def run_action_def cfail_def split: sum.split prod.split)
  show ?thesis
    using cli_run_completes [of cli_prog "''sam''" cli_host cli_opts "Some ''w''" demo_sl
        "cfail (ThrownJs (Js_Error EError ''no''))" cli_fresh] on code
    by (auto simp: cli_prog_def cli_host_def account_field_ok_def cli_opts_def cli_fresh_def)
qed


section \<open>No recording\<close>

text \<open>An action that leaves what is recorded alone leaves the whole state alone.\<close>

lemma launch_silent:
  assumes "isTelemetryDisabled (mh_env h)" and "ms_pending s = None"
    and "keeps (\<lambda>d. isTelemetryDisabled (mh_env h) \<longrightarrow> d = ms_tx s) action"
  shows "snd (launchCliProgram sl prog h o' action s) = s"
proof -
  have tx: "snd (action (ms_tx s)) = ms_tx s" using keepsD [OF assms(3), of "ms_tx s"] assms(1) by simp
  show ?thesis
  proof (cases "mh_wallet h")
    case (Inl e)
    then show ?thesis using assms(2) by (simp add: launchCliProgram_def pre_action_def fireCompletion_none)
  next
    case (Inr wallet)
    obtain tx' r where "snd (launchCliProgram sl prog h o' action s) = fireCompletion h r (s\<lparr>ms_tx := tx'\<rparr>)"
      "tx' = ms_tx s \<or> tx' = snd (action (ms_tx s))"
      using launch_state [OF Inr, of sl prog o' action s] start_usage_off [of prog h o' wallet s] assms(1) by metis
    then show ?thesis using tx assms(2) by (auto simp: fireCompletion_none)
  qed
qed

text \<open>
  C30: with recording switched off, no command of the two programs that sends a transaction
  records or sends anything, neither before, nor while, nor after it runs, whether it succeeds
  or throws: the state of the run is the one before it.
\<close>

theorem cli_silent:
  assumes "isTelemetryDisabled (mh_env h)" and "cx_env ctx = mh_env h" and "ms_pending s = None"
  shows "snd (launchCliProgram sl prog h o' (sam_action sl ctx w c) s) = s
    \<and> (case institutional_action sl ctx w ic of None \<Rightarrow> True
       | Some m \<Rightarrow> snd (launchCliProgram sl prog h o' m s) = s)"
  using launch_silent [OF assms(1,3) silent.sam [OF assms(2)]]
    launch_silent [OF assms(1,3) silent.institutional [OF assms(2)]]
  by (simp split: option.split)

section \<open>The cluster of the instances\<close>

definition cli_accounts :: "(pubkey \<times> raw_account) list" where
  "cli_accounts = [
     (ix_bond, \<lparr> ra_owner = demo_key 8, ra_lamports = 1, ra_data = [11] \<rparr>),
     (demo_key 21, \<lparr> ra_owner = demo_key 90, ra_lamports = 1, ra_data = [12] \<rparr>),
     (ix_request, \<lparr> ra_owner = demo_key 8, ra_lamports = 1, ra_data = [14] \<rparr>),
     (demo_key 41, \<lparr> ra_owner = demo_key 0, ra_lamports = 5, ra_data = [1] \<rparr>)]"

definition cli_bond :: bond_data where
  "cli_bond = \<lparr> bd_config = demo_key 9, bd_voteAccount = demo_key 21, bd_authority = demo_key 22, bd_cpmpe = 5 \<rparr>"

definition cli_chain :: bonds_chain where
  "cli_chain = ix_chain\<lparr>
     bc_stake := demo_stake_chain\<lparr>st_get := map_of cli_accounts\<rparr>,
     bc_bonds := db_rpc [(ix_bond, [11])] (\<lambda>d. if d = [11] then Inr cli_bond else throw EError ''no bond''),
     bc_withdraws := db_rpc [(ix_request, [14])]
       (\<lambda>d. if d = [14] then Inr (demo_request\<lparr>wd_bond := ix_bond\<rparr>) else throw EError ''no request'') \<rparr>"

definition cli_accounts_lib :: cli_lib where
  "cli_accounts_lib = \<lparr> cl_chain = cli_chain, cl_system = demo_key 91, cl_voteProgram = demo_key 90,
     cl_voteAccounts = (\<lambda>fs. [(demo_key 21, [12])]),
     cl_parseVote = (\<lambda>k i. if ra_data i = [12] then Inr \<lparr> vs_nodePubkey = demo_key 51,
         vs_authorizedWithdrawer = demo_key 52, vs_commission = 5 \<rparr> else throw EError ''no vote account'') \<rparr>"

definition cli_demo_ctx :: cli_ctx where
  "cli_demo_ctx = \<lparr> cx_lib = cli_accounts_lib, cx_wallet = demo_key 50, cx_simulate = False, cx_printOnly = False,
     cx_env = cli_env, cx_RPC_URL_set = False, cx_rentExemptStake = 7, cx_generate = (\<lambda>n. demo_key 60),
     cx_tokens = \<lparr> tl_associated = (\<lambda>a b. Inr (demo_key 61)), tl_metadata = (\<lambda>m. Inr (demo_key 62)) \<rparr>,
     cx_newBN = (\<lambda>s. Inr (int (digits_val s))), cx_stringify = (\<lambda>c. ''{}''),
     cx_stakeWithdrawer = (\<lambda>k. Inr (Some demo_authority)) \<rparr>"

definition cli_world :: world where
  "cli_world = \<lparr> wo_execute = (\<lambda>plan. Executed [Some ''sig'']), wo_heap = [], wo_errors = (\<lambda>n. None) \<rparr>"

definition cli_configure :: "int \<Rightarrow> bool \<Rightarrow> configure_bond_opts" where
  "cli_configure bid force = \<lparr> oo_address = demo_key 21, oo_config = Some (demo_key 9), oo_authority = None,
     oo_withToken = False, oo_newBondAuthority = None, oo_cpmpe = Some bid, oo_maxStakeWanted = None,
     oo_rates = \<lparr> rt_inflation = BnUndefined, rt_mev = BnUndefined, rt_block = BnUndefined, rt_uniform = BnUndefined \<rparr>,
     oo_rentPayer = None, oo_computeUnitLimit = None, oo_force = force \<rparr>"

theorem cli_silent_witness:
  "snd (launchCliProgram demo_sl cli_prog (cli_host\<lparr>mh_env := cli_env\<lparr>ue_DO_NOT_TRACK := Some ''1''\<rparr>\<rparr>) cli_opts
     (sam_action demo_sl (cli_demo_ctx\<lparr>cx_env := cli_env\<lparr>ue_DO_NOT_TRACK := Some ''1''\<rparr>\<rparr>) cli_world (ConfigureBond (cli_configure 6 False))) cli_fresh) = cli_fresh"
  using cli_silent [of "cli_host\<lparr>mh_env := cli_env\<lparr>ue_DO_NOT_TRACK := Some ''1''\<rparr>\<rparr>"
      "cli_demo_ctx\<lparr>cx_env := cli_env\<lparr>ue_DO_NOT_TRACK := Some ''1''\<rparr>\<rparr>" cli_fresh demo_sl cli_prog cli_opts cli_world
      "ConfigureBond (cli_configure 6 False)"]
  by (simp add: isTelemetryDisabled_def cli_fresh_def)


section \<open>What is executed\<close>

text \<open>An outside world that refuses every transaction without an instruction or without the
  signature of the wallet.\<close>

definition guarded :: "cli_ctx \<Rightarrow> world \<Rightarrow> world" where
  "guarded ctx w = w\<lparr>wo_execute := (\<lambda>plan. if plan_ok ctx plan then wo_execute w plan else ExecFailed 0)\<rparr>"

text \<open>
  C31: every transaction that a command of the two programs executes has at least one
  instruction and the wallet of the program among its signers: a command behaves the same in a
  world that refuses all other transactions.
\<close>

theorem commands_well_formed:
  "sam_action sl ctx (guarded ctx w) c = sam_action sl ctx w c
   \<and> institutional_action sl ctx (guarded ctx w) ic = institutional_action sl ctx w ic"
proof -
  have "same_on_plans ctx w (guarded ctx w)" by (simp add: same_on_plans_def guarded_def)
  then show ?thesis by (simp add: action_same)
qed

section \<open>Addresses of a bond\<close>

lemma configure_bond_plan_address [simp]:
  "configure_bond_plan sl ctx (oo\<lparr>oo_address := k, oo_config := c\<rparr>) = configure_bond_plan sl ctx oo"
proof -
  have "bid_guard (oo\<lparr>oo_address := k, oo_config := c\<rparr>) = bid_guard oo"
    "configure_bond_main sl ctx (oo\<lparr>oo_address := k, oo_config := c\<rparr>) = configure_bond_main sl ctx oo"
    "configure_bond_rates sl ctx (oo\<lparr>oo_address := k, oo_config := c\<rparr>) = configure_bond_rates sl ctx oo"
    by (intro ext, simp add: bid_guard_def cong: option.case_cong if_cong)
      (intro ext, simp add: configure_bond_main_def configure_bond_rates_def cong: option.case_cong if_cong)+
  then show ?thesis by (intro ext) (simp only: configure_bond_plan_def)
qed

text \<open>
  C32: the commands act on the same bond whichever of its addresses they are given: its own, the
  one of its vote account, of a withdraw request, of a stake account delegated to the vote
  account, or the identity of the validator. The address resolves to the bond, and a command
  with it does what it does with the address of the bond.
\<close>

theorem bond_address_agrees:
  assumes "leads_to (cx_lib ctx) b d same k" and "bond_on (cx_lib ctx) b d"
    and "config_or_default sl config = Inr (bd_config d)"
    and "bondAddress sl (bd_config d) (bd_voteAccount d) (bc_programId (chain_of ctx)) = Inr (b, n)"
  shows "getBondFromAddress sl (cx_lib ctx) config None k = Inr (b, d)
    \<and> manageFundBond sl ctx w config k stake auth l = manageFundBond sl ctx w config b stake auth l
    \<and> manageFundBondWithSol sl ctx w config k amt auth l = manageFundBondWithSol sl ctx w config b amt auth l
    \<and> manageMintBond sl ctx w (bd_config d) k auth l = manageMintBond sl ctx w (bd_config d) b auth l
    \<and> manageInitWithdrawRequest sl ctx w (Some k) config vote auth text rp l
        = manageInitWithdrawRequest sl ctx w (Some b) config vote auth text rp l
    \<and> manageConfigureBond sl ctx w (oo\<lparr>oo_address := k, oo_config := config\<rparr>)
        = manageConfigureBond sl ctx w (oo\<lparr>oo_address := b, oo_config := config\<rparr>)"
proof -
  have same: "getBondFromAddress sl (cx_lib ctx) c None a = Inr (b, d)"
    if "leads_to (cx_lib ctx) b d s a" "config_or_default sl c = Inr (bd_config d)" for a c s
    by (rule leads_to_bond [OF that(1) assms(2) _ assms(4)]) (rule that(2))
  have b: "leads_to (cx_lib ctx) b d True b" by (rule leads_to.bond)
  have c: "config_or_default sl (Some (bd_config d)) = Inr (bd_config d)" by (simp add: config_or_default_def)
  note resolves = same [OF assms(1) assms(3)] same [OF b assms(3)] same [OF assms(1) c] same [OF b c]
  have bond: "bond_for sl ctx config k = bond_for sl ctx config b"
    "bond_for sl ctx (Some (bd_config d)) k = bond_for sl ctx (Some (bd_config d)) b"
    by (simp_all add: bond_for_def resolves)
  have "choose_bond sl ctx (Some k) config vote auth = choose_bond sl ctx (Some b) config vote auth"
    by (simp add: choose_bond_def resolves)
  then show ?thesis
    by (simp add: manageFundBond_def fund_bond_plan_def manageFundBondWithSol_def fund_sol_plan_def
        manageMintBond_def manageInitWithdrawRequest_def manageConfigureBond_def bond resolves)
qed

lemma cli_simps [simp]:
  "cx_lib cli_demo_ctx = cli_accounts_lib" "cl_chain cli_accounts_lib = cli_chain"
  "bc_programId cli_chain = demo_key 8" "st_program (bc_stake cli_chain) = demo_key 0"
  "cl_system cli_accounts_lib = demo_key 91" "cl_voteProgram cli_accounts_lib = demo_key 90"
  by (simp_all add: cli_demo_ctx_def cli_accounts_lib_def cli_chain_def demo_stake_chain_def)

lemma ix_lengths: "length (demo_key k) = 32" "length ix_bond = 76" "length ix_request = 92"
  by (simp_all add: ix_bond_def ix_request_def demo_key_def BOND_SEED_def WITHDRAW_REQUEST_SEED_def bytes_of_def)

lemma ix_keys [simp]: "ix_bond \<noteq> demo_key k" "demo_key k \<noteq> ix_bond" "ix_request \<noteq> demo_key k"
    "demo_key k \<noteq> ix_request" "ix_request \<noteq> ix_bond" "ix_bond \<noteq> ix_request"
  using ix_lengths by (auto dest!: arg_cong [of _ _ length])

lemma cli_getAccountInfo: "getAccountInfo cli_accounts_lib k = map_of cli_accounts k"
  by (simp add: getAccountInfo_def cli_chain_def)

lemmas cli_account_defs = cli_getAccountInfo cli_accounts_def isVoteAccount_def decodeWithdrawRequest_def
  delegated_vote_def deserializeStakeState_def getDelegation_def stake_adjusted_def

lemma cli_bond_on: "bond_on cli_accounts_lib ix_bond cli_bond"
  by (simp add: bond_on_def cli_account_defs is_ok_def) (simp add: cli_accounts_lib_def cli_chain_def db_rpc_def throw_def)

text \<open>The stake account and the identity of the validator.\<close>

lemma cli_stake_leads: "leads_to cli_accounts_lib ix_bond cli_bond True (demo_key 41)"
  by (rule leads_to.stake [where i = "\<lparr> ra_owner = demo_key 0, ra_lamports = 5, ra_data = [1] \<rparr>"])
    (simp_all add: cli_account_defs cli_bond_def is_ok_def, simp_all add: cli_accounts_lib_def cli_chain_def
      demo_stake_chain_def demo_stake_state_def db_rpc_def throw_def)

lemma cli_identity_leads: "leads_to cli_accounts_lib ix_bond cli_bond True (demo_key 51)"
  by (rule leads_to.identity [where data = "[12]"])
    (simp_all add: cli_account_defs cli_bond_def, simp add: findVoteAccountByIdentity_def cli_accounts_lib_def)

theorem bond_address_agrees_witness:
  "getBondFromAddress demo_sl cli_accounts_lib (Some (demo_key 9)) None (demo_key 41) = Inr (ix_bond, cli_bond)
   \<and> getBondFromAddress demo_sl cli_accounts_lib (Some (demo_key 9)) None (demo_key 51) = Inr (ix_bond, cli_bond)
   \<and> manageFundBond demo_sl cli_demo_ctx cli_world (Some (demo_key 9)) (demo_key 51) (demo_key 43) None 1
     = manageFundBond demo_sl cli_demo_ctx cli_world (Some (demo_key 9)) ix_bond (demo_key 43) None 1"
  using bond_address_agrees [of cli_demo_ctx ix_bond cli_bond True "demo_key 41" demo_sl "Some (demo_key 9)" 255]
    bond_address_agrees [of cli_demo_ctx ix_bond cli_bond True "demo_key 51" demo_sl "Some (demo_key 9)" 255]
    cli_bond_on cli_stake_leads cli_identity_leads
  by (simp add: config_or_default_def cli_bond_def ix_bondAddress)


section \<open>Bids\<close>

text \<open>
  C33: a bid is lowered on purpose only. When the configuration of a bond asks for a lower bid
  than the bond has, without \<open>--force\<close>, the command fails whatever the outside world answers, so
  it executes nothing; in every other case \<open>--force\<close> makes no difference.
\<close>

theorem bid_never_lowered:
  assumes "getBondFromAddress sl (cx_lib ctx) (oo_config oo) None (oo_address oo) = Inr (b, d)"
  shows "if \<not> oo_force oo \<and> (case oo_cpmpe oo of None \<Rightarrow> False | Some bid \<Rightarrow> bid < bd_cpmpe d)
    then \<exists>e. \<forall>w. fst (manageConfigureBond sl ctx w oo tx) = Inl (ThrownJs e)
    else manageConfigureBond sl ctx w oo tx = manageConfigureBond sl ctx w (oo\<lparr>oo_force := True\<rparr>) tx"
proof (cases "\<not> oo_force oo \<and> (case oo_cpmpe oo of None \<Rightarrow> False | Some bid \<Rightarrow> bid < bd_cpmpe d)")
  case True
  then obtain e where "bid_guard oo d = Inl e" by (auto simp: bid_guard_def guard_throw_def throw_def split: option.splits)
  then have "fst (manageConfigureBond sl ctx w oo tx) = Inl (ThrownJs e)" for w
    by (simp add: manageConfigureBond_def bond_for_def assms cbind_def lift_res_def cret_def cfail_def
        resolved_def recorded_def configure_bond_plan_def)
  with True show ?thesis by auto
next
  case False
  then have "bid_guard oo d = bid_guard (oo\<lparr>oo_force := True\<rparr>) d"
    by (auto simp: bid_guard_def guard_throw_def split: option.splits)
  moreover have "configure_bond_main sl ctx (oo\<lparr>oo_force := True\<rparr>) = configure_bond_main sl ctx oo"
    "configure_bond_rates sl ctx (oo\<lparr>oo_force := True\<rparr>) = configure_bond_rates sl ctx oo"
    by (intro ext, simp add: configure_bond_main_def configure_bond_rates_def cong: option.case_cong if_cong)+
  ultimately have "manageConfigureBond sl ctx w oo tx = manageConfigureBond sl ctx w (oo\<lparr>oo_force := True\<rparr>) tx"
    by (simp add: manageConfigureBond_def bond_for_def assms cbind_def lift_res_def cret_def
        resolved_def recorded_def configure_bond_plan_def)
  then show ?thesis unfolding if_not_P [OF False] .
qed

lemma cli_vote_leads: "leads_to cli_accounts_lib ix_bond cli_bond True (demo_key 21)"
  by (rule leads_to.vote [where i = "\<lparr> ra_owner = demo_key 90, ra_lamports = 1, ra_data = [12] \<rparr>"])
    (simp_all add: cli_account_defs cli_bond_def, simp add: cli_accounts_lib_def)

lemma cli_vote_bond: "getBondFromAddress demo_sl cli_accounts_lib (Some (demo_key 9)) None (demo_key 21) = Inr (ix_bond, cli_bond)"
  by (rule leads_to_bond [OF cli_vote_leads cli_bond_on, where n = 255])
    (simp_all add: config_or_default_def cli_bond_def ix_bondAddress)

theorem bid_never_lowered_witness:
  "(\<exists>e. fst (manageConfigureBond demo_sl cli_demo_ctx cli_world (cli_configure 4 False) empty_tx_data) = Inl (ThrownJs e))
   \<and> manageConfigureBond demo_sl cli_demo_ctx cli_world (cli_configure 6 False) empty_tx_data
     = manageConfigureBond demo_sl cli_demo_ctx cli_world (cli_configure 6 True) empty_tx_data"
  using bid_never_lowered [of demo_sl cli_demo_ctx "cli_configure 4 False" ix_bond cli_bond empty_tx_data cli_world]
    bid_never_lowered [of demo_sl cli_demo_ctx "cli_configure 6 False" ix_bond cli_bond empty_tx_data cli_world]
    cli_vote_bond
  by (auto simp: cli_configure_def cli_bond_def)

section \<open>Amounts in SOL\<close>

lemma rounded_near:
  assumes "0 < x" and "x < pow2 e" and "- 1022 < e" and "e \<le> 1023"
  obtains y where "dbl x = Fin y" "0 \<le> y" "\<bar>y - x\<bar> \<le> pow2 (e - 54)"
proof -
  have "x < pow2 1023" using assms(2) pow2_mono [OF assms(4)] by linarith
  then have "x < 2 ^ 1023" by (simp add: pow2_def)
  then obtain y where y: "dbl x = Fin y" "0 \<le> y" using dbl_finite [OF assms(1)] by auto
  have "\<bar>y - x\<bar> \<le> ulp_at x / 2" by (rule dbl_error [OF assms(1) y(1)])
  also have "\<dots> \<le> pow2 (e - 53) / 2" using ulp_at_le [OF assms(1-3)] by simp
  also have "\<dots> = pow2 (e - 54)"
    using pow2_add [of "e - 54" 1] by (simp add: pow2_def [of 1])
  finally show thesis using that y by simp
qed

text \<open>
  C34: the amount that \<open>fund-bond-sol\<close> takes from the user, read as the nearest double of a
  number of lamports below \<open>2 ^ 51\<close>, is funded up to one lamport: the product with the lamports
  of a SOL is cut off, so the result is the amount or one lamport less. A whole number of SOL is
  funded exactly.
\<close>

theorem fund_sol_lamports:
  assumes "0 < n" and "n < 2 ^ 51"
  shows "sol_to_bn (dbl (of_int n / 10 ^ 9)) \<in> {Inr n, Inr (n - 1)}
    \<and> (10 ^ 9 dvd n \<longrightarrow> sol_to_bn (dbl (of_int n / 10 ^ 9)) = Inr n)"
proof -
  have n: "(0::rat) < of_int n" "(1::rat) \<le> of_int n" "(of_int n :: rat) + 1 \<le> 2 ^ 51"
  proof -
    have "(of_int (n + 1) :: rat) \<le> of_int (2 ^ 51)" using assms(2) by (simp only: of_int_le_iff)
    then show "(of_int n :: rat) + 1 \<le> 2 ^ 51" by simp
  qed (use assms(1) in simp_all)
  have "(of_int n :: rat) / 10 ^ 9 < pow2 22" using n by (simp add: pow2_def)
  then obtain y where y: "dbl (of_int n / 10 ^ 9) = Fin y" "\<bar>y - of_int n / 10 ^ 9\<bar> \<le> pow2 (22 - 54)"
    using rounded_near [of "of_int n / 10 ^ 9" 22] n by auto
  have "y * 10 ^ 9 - of_int n = (y - of_int n / 10 ^ 9) * 10 ^ 9" by (simp add: left_diff_distrib)
  then have "\<bar>y * 10 ^ 9 - of_int n\<bar> = \<bar>y - of_int n / 10 ^ 9\<bar> * 10 ^ 9"
    by (simp only: abs_mult) simp
  also have "\<dots> \<le> pow2 (22 - 54) * 10 ^ 9" using y(2) by (intro mult_right_mono) simp_all
  also have "\<dots> \<le> 1 / 4" by (simp add: pow2_def)
  finally have z: "\<bar>y * 10 ^ 9 - of_int n\<bar> \<le> 1 / 4" .
  have near: "0 < q \<and> q < pow2 51" if "\<bar>q - of_int n\<bar> \<le> 1 / 4" for q :: rat
  proof -
    have "pow2 51 = 2 ^ 51" by (simp add: pow2_def)
    then show ?thesis using that n by linarith
  qed
  have "0 < y * 10 ^ 9" "y * 10 ^ 9 < pow2 51" using near [OF z] by blast+
  then obtain p where p: "dbl (y * 10 ^ 9) = Fin p" "0 \<le> p" "\<bar>p - y * 10 ^ 9\<bar> \<le> pow2 (51 - 54)"
    using rounded_near [of "y * 10 ^ 9" 51] by auto
  have "pow2 (51 - 54) = 1 / 8" by (simp add: pow2_def)
  then have "\<bar>p - of_int n\<bar> \<le> 1 / 4 + 1 / 8" using z p(3) by linarith
  then have fl: "\<lfloor>p\<rfloor> = n \<or> \<lfloor>p\<rfloor> = n - 1" by linarith
  then have less: "\<lfloor>p\<rfloor> < 2 ^ 51" using assms by linarith
  have bn: "sol_to_bn (dbl (of_int n / 10 ^ 9)) = Inr \<lfloor>p\<rfloor>"
  proof -
    have "n_mul (dbl (of_int n / 10 ^ 9)) (Fin 1000000000) = Fin p"
      unfolding y(1) using p(1) by (simp add: n_mul_def)
    moreover have "bn_of_double (Fin p) = Inr \<lfloor>p\<rfloor>"
      using p(2) less by (simp add: bn_of_double_def bn_of_number_def fits53_def)
    ultimately show ?thesis unfolding sol_to_bn_def Let_def by (simp add: is_finite_def)
  qed
  have "\<lfloor>p\<rfloor> = n" if d: "10 ^ 9 dvd n"
  proof -
    obtain k where k: "n = 10 ^ 9 * k" using d by (rule dvdE)
    then have "(of_int n :: rat) / 10 ^ 9 = of_int k" by simp
    moreover have "\<bar>k\<bar> < 2 ^ 53" using k assms by simp
    ultimately have "y = of_int k" using y(1) dbl_of_int [of k] by simp
    then have "y * 10 ^ 9 = of_int n" using k by simp
    then have "p = of_int n" using p(1) dbl_of_int [of n] assms by simp
    then show ?thesis by simp
  qed
  then show ?thesis unfolding bn using fl by auto
qed

theorem fund_sol_lamports_witness:
  "sol_to_bn (dbl (82 / 10)) = Inr 8199999999 \<and> sol_to_bn (dbl 8) = Inr 8000000000"
proof -
  have "sol_to_bn (dbl (82 / 10)) \<noteq> Inr 8200000000"
    by (simp add: sol_to_bn_def num_eval is_finite_def bn_of_double_def bn_of_number_def)
  then show ?thesis using fund_sol_lamports [of 8200000000] fund_sol_lamports [of 8000000000] by simp
qed

section \<open>Errors that are not errors\<close>

lemma ccatch_Inr: "ccatch m f d = (Inr x, d') \<longleftrightarrow>
    m d = (Inr x, d') \<or> (\<exists>e d1. m d = (Inl e, d1) \<and> f e d1 = (Inr x, d'))"
  by (auto simp: ccatch_def split: prod.splits sum.splits)

lemma execute_Inr: "executeTxHandleErrors sl ctx w plan d = (Inr x, d') \<Longrightarrow> \<exists>ss. wo_execute w plan = Executed ss"
  by (auto simp: executeTxHandleErrors_def cfail_def split: exec_outcome.splits)

lemma bond_failed_Inr:
  "bond_failed sl ctx w b e d = (Inr m, d') \<Longrightarrow> \<exists>x. fetchNullable (bc_bonds (chain_of ctx)) b = Inr (Some x)"
  by (auto simp: bond_failed_def cbind_Inr lift_res_Inr cfail_def split: if_splits option.splits)

lemma request_failed_Inr:
  "request_failed sl ctx w r e d = (Inr m, d') \<Longrightarrow> \<exists>x. fetchNullable (bc_withdraws (chain_of ctx)) r = Inr (Some x)"
  by (auto simp: request_failed_def cbind_Inr lift_res_Inr cfail_def split: if_splits option.splits)

lemma funding_failed_Inr:
  "failIfUnexpectedFundingError sl ctx w t e d = (Inr m, d') \<Longrightarrow>
    \<exists>p wa n. VALIDATOR_BONDS_PROGRAM_ID sl = Inr p \<and> bondsWithdrawerAuthority sl (ft_config t) p = Inr (wa, n)
      \<and> cx_stakeWithdrawer ctx (ft_stakeAccount t) = Inr (Some wa)"
  by (auto simp: failIfUnexpectedFundingError_def cbind_Inr lift_res_Inr rbind_eq_Inr cfail_def split: if_splits)

text \<open>What a success of a command means: a transaction with its instruction, on its accounts, was
  executed, or the fact holds.\<close>

definition executed_or :: "world \<Rightarrow> string \<Rightarrow> (string \<times> ix_account) list \<Rightarrow> bool \<Rightarrow> bool" where
  "executed_or w name accounts holds \<longleftrightarrow>
     (\<exists>plan ss ix. wo_execute w plan = Executed ss \<and> ProgramIx ix \<in> set (tp_instructions plan)
        \<and> ix_name ix = name \<and> set accounts \<subseteq> set (ix_accounts ix))
     \<or> holds"

lemma execute_or_catch:
  assumes "ccatch (cbind (executeTxHandleErrors sl ctx w plan) (\<lambda>_. cret s)) f d = (Inr m, d')"
    and "ProgramIx ix \<in> set (tp_instructions plan)" "ix_name ix = name" "set accounts \<subseteq> set (ix_accounts ix)"
    and "\<And>e d1. f e d1 = (Inr m, d') \<Longrightarrow> holds"
  shows "executed_or w name accounts holds"
proof -
  from assms(1) consider (ran) e where "executeTxHandleErrors sl ctx w plan d = (Inr (), e)"
    | (caught) e d1 where "f e d1 = (Inr m, d')"
    by (auto simp: ccatch_Inr cbind_Inr)
  then show ?thesis
  proof cases
    case ran
    then obtain ss where "wo_execute w plan = Executed ss" using execute_Inr by blast
    then show ?thesis using assms(2-4) unfolding executed_or_def by blast
  next
    case caught
    then show ?thesis using assms(5) by (simp add: executed_or_def)
  qed
qed

text \<open>The stake account is withdrawn by the authority of the bond's configuration.\<close>

definition funded_to :: "solana_lib \<Rightarrow> cli_ctx \<Rightarrow> bond_data \<Rightarrow> pubkey \<Rightarrow> bool" where
  "funded_to sl ctx d stake \<longleftrightarrow> (\<exists>p wa n. VALIDATOR_BONDS_PROGRAM_ID sl = Inr p
     \<and> bondsWithdrawerAuthority sl (bd_config d) p = Inr (wa, n) \<and> cx_stakeWithdrawer ctx stake = Inr (Some wa))"

lemma fund_instruction:
  assumes "fundBondInstruction sl bc (Some b) stake sa config vote = Inr (bond, ix)"
  shows "bond = b" "ix_name ix = ''fundBond''"
    "set [(''bond'', Key b), (''stakeAccount'', Key stake)] \<subseteq> set (ix_accounts ix)"
  using assms by (auto simp: fundBondInstruction_def rbind_eq_Inr checkAndGetBondAddress_def)

lemma fund_bond_done:
  assumes "manageFundBond sl ctx w config k stake auth l tx = (Inr m, tx')"
  shows "\<exists>b d. getBondFromAddress sl (cx_lib ctx) config None k = Inr (b, d)
    \<and> executed_or w ''fundBond'' [(''bond'', Key b), (''stakeAccount'', Key stake)] (funded_to sl ctx d stake)"
proof -
  obtain plan t tx1 s where p: "fund_bond_plan sl ctx config k stake auth l tx = (Inr (plan, t), tx1)"
    and r: "ccatch (cbind (executeTxHandleErrors sl ctx w plan) (\<lambda>_. cret s))
        (failIfUnexpectedFundingError sl ctx w t) tx1 = (Inr m, tx')"
    using assms unfolding manageFundBond_def cbind_Inr [of "fund_bond_plan sl ctx config k stake auth l"] by auto
  from p obtain b d ix bond a where bd: "getBondFromAddress sl (cx_lib ctx) config None k = Inr (b, d)"
    and ix: "fundBondInstruction sl (chain_of ctx) (Some b) stake (Some a) (Some (bd_config d)) (Some (bd_voteAccount d))
      = Inr (bond, ix)"
    and plan: "ProgramIx ix \<in> set (tp_instructions plan)" "ft_config t = bd_config d" "ft_stakeAccount t = stake"
    by (auto simp: fund_bond_plan_def bond_for_def Let_def cbind_Inr lift_res_Inr cret_def split: prod.splits)
  have "executed_or w ''fundBond'' [(''bond'', Key b), (''stakeAccount'', Key stake)] (funded_to sl ctx d stake)"
    by (rule execute_or_catch [OF r plan(1) fund_instruction(2,3) [OF ix]])
      (auto simp: funded_to_def plan(2,3) dest!: funding_failed_Inr)
  then show ?thesis using bd by blast
qed

lemma fund_sol_done:
  assumes "manageFundBondWithSol sl ctx w config k amount payer l tx = (Inr m, tx')"
  shows "\<exists>b d. getBondFromAddress sl (cx_lib ctx) config None k = Inr (b, d)
    \<and> executed_or w ''fundBond'' [(''bond'', Key b), (''stakeAccount'', Key (cx_generate ctx 0))]
        (funded_to sl ctx d (cx_generate ctx 0))"
proof -
  obtain plan t tx1 s where p: "fund_sol_plan sl ctx config k amount payer l tx = (Inr (plan, t), tx1)"
    and r: "ccatch (cbind (executeTxHandleErrors sl ctx w plan) (\<lambda>_. cret s))
        (failIfUnexpectedFundingError sl ctx w t) tx1 = (Inr m, tx')"
    using assms unfolding manageFundBondWithSol_def cbind_Inr [of "fund_sol_plan sl ctx config k amount payer l"] by auto
  from p obtain b d ix bond a where bd: "getBondFromAddress sl (cx_lib ctx) config None k = Inr (b, d)"
    and ix: "fundBondInstruction sl (chain_of ctx) (Some b) (cx_generate ctx 0) (Some a) (Some (bd_config d))
      (Some (bd_voteAccount d)) = Inr (bond, ix)"
    and plan: "ProgramIx ix \<in> set (tp_instructions plan)" "ft_config t = bd_config d"
      "ft_stakeAccount t = cx_generate ctx 0"
    by (auto simp: fund_sol_plan_def bond_for_def Let_def cbind_Inr lift_res_Inr cret_def split: prod.splits)
  have "executed_or w ''fundBond'' [(''bond'', Key b), (''stakeAccount'', Key (cx_generate ctx 0))]
      (funded_to sl ctx d (cx_generate ctx 0))"
    by (rule execute_or_catch [OF r plan(1) fund_instruction(2,3) [OF ix]])
      (auto simp: funded_to_def plan(2,3) dest!: funding_failed_Inr)
  then show ?thesis using bd by blast
qed

lemma init_bond_done:
  assumes "manageInitBond sl ctx w c io tx = (Inr m, tx')"
  shows "\<exists>b n. bondAddress sl c (io_voteAccount io) (bc_programId (chain_of ctx)) = Inr (b, n)
    \<and> executed_or w ''initBond'' [(''config'', Key c), (''bond'', Key b), (''voteAccount'', Key (io_voteAccount io))]
        (\<exists>x. fetchNullable (bc_bonds (chain_of ctx)) b = Inr (Some x))"
proof -
  obtain auth bond ix i payer ss pr u e cp mx l s tx1
    where ix: "initBondInstruction sl (chain_of ctx) c (io_voteAccount io) i (Some auth) cp mx payer = Inr (bond, ix)"
    and r: "ccatch (cbind (executeTxHandleErrors sl ctx w \<lparr> tp_instructions = [ProgramIx ix, ProgramIx pr],
          tp_signers = ss, tp_computeUnitLimit = l, tp_errMessage = e \<rparr>) (\<lambda>_. cret s)) (bond_failed sl ctx w bond) tx1
        = (Inr m, tx')"
    using assms unfolding manageInitBond_def Let_def
    by (auto simp: cbind_Inr [of "lift_res _"] cbind_Inr [of "resolved _ _ _ _ _ _ _"] lift_res_Inr split: prod.splits)
  from ix obtain n where b: "bondAddress sl c (io_voteAccount io) (bc_programId (chain_of ctx)) = Inr (bond, n)"
    and acc: "ix_name ix = ''initBond''"
      "set [(''config'', Key c), (''bond'', Key bond), (''voteAccount'', Key (io_voteAccount io))] \<subseteq> set (ix_accounts ix)"
    by (auto simp: initBondInstruction_def rbind_eq_Inr)
  have "executed_or w ''initBond'' [(''config'', Key c), (''bond'', Key bond), (''voteAccount'', Key (io_voteAccount io))]
      (\<exists>x. fetchNullable (bc_bonds (chain_of ctx)) bond = Inr (Some x))"
    by (rule execute_or_catch [OF r _ acc]) (simp, rule bond_failed_Inr)
  then show ?thesis using b by blast
qed

text \<open>The bond of a request: the one the address stands for, or that of configuration and vote
  account.\<close>

definition bond_meant :: "solana_lib \<Rightarrow> cli_ctx \<Rightarrow> pubkey option \<Rightarrow> pubkey option \<Rightarrow> pubkey option \<Rightarrow> pubkey \<Rightarrow> bool" where
  "bond_meant sl ctx address config vote b \<longleftrightarrow> (case address of
       Some a \<Rightarrow> \<exists>d. getBondFromAddress sl (cx_lib ctx) config None a = Inr (b, d)
     | None \<Rightarrow> \<exists>c v n. config = Some c \<and> vote = Some v
         \<and> bondAddress sl c v (bc_programId (chain_of ctx)) = Inr (b, n))"

lemma choose_bond_meant:
  "choose_bond sl ctx oa oc ov au = Inr t \<Longrightarrow> bond_meant sl ctx oa oc ov (bh_bond t)"
  by (auto simp: choose_bond_def bond_meant_def rbind_eq_Inr checkAndGetBondAddress_def
      split: option.splits prod.splits)

lemma init_request_done:
  assumes "manageInitWithdrawRequest sl ctx w oa oc ov au amt rp l tx = (Inr m, tx')"
  shows "\<exists>b r n. bond_meant sl ctx oa oc ov b \<and> withdrawRequestAddress sl b (bc_programId (chain_of ctx)) = Inr (r, n)
    \<and> executed_or w ''initWithdrawRequest'' [(''bond'', Key b), (''withdrawRequest'', Key r)]
        (\<exists>x. fetchNullable (bc_withdraws (chain_of ctx)) r = Inr (Some x))"
proof -
  obtain t bond request ix a p v ss u e s tx1 where t: "choose_bond sl ctx oa oc ov au = Inr t"
    and ix: "initWithdrawRequestInstruction sl (chain_of ctx) (Some (bh_bond t)) (Some (bh_config t)) (Some (bh_vote t))
      (Some a) (Some p) v = Inr (bond, request, ix)"
    and r: "ccatch (cbind (executeTxHandleErrors sl ctx w \<lparr> tp_instructions = [ProgramIx ix],
          tp_signers = ss, tp_computeUnitLimit = u, tp_errMessage = e \<rparr>) (\<lambda>_. cret s)) (request_failed sl ctx w request) tx1
        = (Inr m, tx')"
    using assms unfolding manageInitWithdrawRequest_def Let_def
    by (auto simp: cbind_Inr [of "lift_res _"] cbind_Inr [of "resolved _ _ _ _ _ _ _"]
        cbind_Inr [of "requested_amount _ _ _ _"] lift_res_Inr split: prod.splits)
  from ix obtain n where b: "withdrawRequestAddress sl (bh_bond t) (bc_programId (chain_of ctx)) = Inr (request, n)"
    and acc: "ix_name ix = ''initWithdrawRequest''"
      "set [(''bond'', Key (bh_bond t)), (''withdrawRequest'', Key request)] \<subseteq> set (ix_accounts ix)"
    by (auto simp: initWithdrawRequestInstruction_def rbind_eq_Inr checkAndGetBondAddress_def split: prod.splits)
  have "executed_or w ''initWithdrawRequest'' [(''bond'', Key (bh_bond t)), (''withdrawRequest'', Key request)]
      (\<exists>x. fetchNullable (bc_withdraws (chain_of ctx)) request = Inr (Some x))"
    by (rule execute_or_catch [OF r _ acc]) (simp, rule request_failed_Inr)
  then show ?thesis using b choose_bond_meant [OF t] by blast
qed

text \<open>
  C35: the commands that treat an error as a success do so only when what the error says is
  true on the cluster for the accounts of the command: \<open>fund-bond\<close> and \<open>fund-bond-sol\<close> when the
  stake account of the command is withdrawn by the authority of the configuration of the bond
  the address stands for, \<open>init-bond\<close> when there is an account at the address of the bond of the
  given configuration and vote account, \<open>init-withdraw-request\<close> when there is an account at the
  address of the request of the bond that was meant. In every other case a success means that
  a transaction was executed that has the instruction of the command with these accounts.
\<close>

theorem masked_errors_checked:
  "(case fst (manageFundBond sl ctx w config k stake auth l tx) of Inl e \<Rightarrow> True
     | Inr m \<Rightarrow> \<exists>b d. getBondFromAddress sl (cx_lib ctx) config None k = Inr (b, d)
         \<and> executed_or w ''fundBond'' [(''bond'', Key b), (''stakeAccount'', Key stake)] (funded_to sl ctx d stake))
   \<and> (case fst (manageFundBondWithSol sl ctx w config k amount payer l tx) of Inl e \<Rightarrow> True
     | Inr m \<Rightarrow> \<exists>b d. getBondFromAddress sl (cx_lib ctx) config None k = Inr (b, d)
         \<and> executed_or w ''fundBond'' [(''bond'', Key b), (''stakeAccount'', Key (cx_generate ctx 0))]
             (funded_to sl ctx d (cx_generate ctx 0)))
   \<and> (case fst (manageInitBond sl ctx w c io tx) of Inl e \<Rightarrow> True
     | Inr m \<Rightarrow> \<exists>b n. bondAddress sl c (io_voteAccount io) (bc_programId (chain_of ctx)) = Inr (b, n)
         \<and> executed_or w ''initBond'' [(''config'', Key c), (''bond'', Key b), (''voteAccount'', Key (io_voteAccount io))]
             (\<exists>x. fetchNullable (bc_bonds (chain_of ctx)) b = Inr (Some x)))
   \<and> (case fst (manageInitWithdrawRequest sl ctx w oa oc ov au amt rp l tx) of Inl e \<Rightarrow> True
     | Inr m \<Rightarrow> \<exists>b r n. bond_meant sl ctx oa oc ov b
         \<and> withdrawRequestAddress sl b (bc_programId (chain_of ctx)) = Inr (r, n)
         \<and> executed_or w ''initWithdrawRequest'' [(''bond'', Key b), (''withdrawRequest'', Key r)]
             (\<exists>x. fetchNullable (bc_withdraws (chain_of ctx)) r = Inr (Some x)))"
  using fund_bond_done [of sl ctx w config k stake auth l tx] fund_sol_done [of sl ctx w config k amount payer l tx]
    init_bond_done [of sl ctx w c io tx] init_request_done [of sl ctx w oa oc ov au amt rp l tx]
  by (intro conjI) (simp_all split: sum.split add: prod_eq_iff)

section \<open>The version of the program\<close>







section \<open>The chain of causes of an error\<close>

text \<open>
  C37: collecting the causes of an error ends, also when the causes go in a circle: it lists the
  error and everything that is reachable from it through causes, each once.
\<close>

theorem cause_chain_exact:
  assumes "heap_closed h" and "map_of h r \<noteq> None"
  shows "\<exists>rs. getCauseChain h r = map (\<lambda>k. the (map_of h k)) rs \<and> distinct rs
    \<and> set rs = {x. (next_cause h)\<^sup>*\<^sup>* r x}"
proof (intro exI conjI)
  let ?rs = "cause_loop h [] (Some r)"
  have all: "List.map_filter (map_of h) ks = map (\<lambda>k. the (map_of h k)) ks"
    if "\<And>k. k \<in> set ks \<Longrightarrow> map_of h k \<noteq> None" for ks
    using that by (induction ks) (auto simp: List.map_filter_simps split: option.split)
  show "getCauseChain h r = map (\<lambda>k. the (map_of h k)) ?rs"
    unfolding getCauseChain_def by (rule all, erule cause_loop_known)
  show "distinct ?rs" by (rule cause_loop_distinct)
  show "set ?rs = {x. (next_cause h)\<^sup>*\<^sup>* r x}" by (rule cause_loop_exact [OF assms])
qed

definition cli_error :: "string \<Rightarrow> nat option \<Rightarrow> err_obj" where
  "cli_error m c = \<lparr> eo_class = CError, eo_name = ''Error'', eo_message = m, eo_code = CodeNone, eo_cause = c,
     eo_logs = [], eo_full = m, eo_transactionMessage = None \<rparr>"

text \<open>Two errors that are each other's cause, and a third one.\<close>

definition cli_heap :: heap where
  "cli_heap = [(1, cli_error ''a'' (Some 2)), (2, cli_error ''b'' (Some 1)), (3, cli_error ''c'' None)]"

theorem cause_chain_exact_witness:
  "getCauseChain cli_heap 1 = [cli_error ''a'' (Some 2), cli_error ''b'' (Some 1)]
   \<and> (\<exists>rs. map (\<lambda>k. the (map_of cli_heap k)) rs = [cli_error ''a'' (Some 2), cli_error ''b'' (Some 1)]
        \<and> distinct rs \<and> set rs = {x. (next_cause cli_heap)\<^sup>*\<^sup>* 1 x})"
proof -
  have run: "getCauseChain cli_heap 1 = [cli_error ''a'' (Some 2), cli_error ''b'' (Some 1)]"
    by (simp add: getCauseChain_def cli_heap_def cli_error_def List.map_filter_simps)
  have "heap_closed cli_heap" by (simp add: heap_closed_def cli_heap_def cli_error_def)
  moreover have "map_of cli_heap 1 \<noteq> None" by (simp add: cli_heap_def)
  ultimately obtain rs where "getCauseChain cli_heap 1 = map (\<lambda>k. the (map_of cli_heap k)) rs" "distinct rs"
    "set rs = {x. (next_cause cli_heap)\<^sup>*\<^sup>* 1 x}" using cause_chain_exact [of cli_heap 1] by blast
  then show ?thesis using run by (intro conjI exI [of _ rs]) simp_all
qed

section \<open>Signed requests\<close>

text \<open>A service that answers signed requests only.\<close>

definition signed_only :: "solana_lib \<Rightarrow> notify_ctx \<Rightarrow> authority option
    \<Rightarrow> (signed_request \<Rightarrow> request_error + 'a) \<Rightarrow> signed_request \<Rightarrow> request_error + 'a" where
  "signed_only sl nx au client r = (if signed_with sl nx au (sr_pubkey r) (sr_message r) (sr_signature r)
     then client r else Inl (0, None))"

definition signed_lists_only :: "solana_lib \<Rightarrow> notify_ctx \<Rightarrow> authority option
    \<Rightarrow> (list_request \<Rightarrow> request_error + 'a) \<Rightarrow> list_request \<Rightarrow> request_error + 'a" where
  "signed_lists_only sl nx au client r = (if signed_with sl nx au (lr_pubkey r) (lr_message r) (lr_signature r)
     then client r else Inl (0, None))"

text \<open>
  C38: a request about subscriptions that reaches the service carries the signature of its
  message, made by the key that the request names, which is the given wallet or the wallet of the
  program: the commands behave the same with a service that refuses every other request. With a
  public key as authority no request is made at all.
\<close>

theorem requests_signed:
  "manageSubscribe sl nx (signed_only sl nx au client) address config au channel target browser
     = manageSubscribe sl nx client address config au channel target browser
   \<and> manageUnsubscribe sl nx (signed_only sl nx au client') address config au channel target'
     = manageUnsubscribe sl nx client' address config au channel target'
   \<and> showSubscriptions sl nx (signed_lists_only sl nx au client'') address config au
     = showSubscriptions sl nx client'' address config au
   \<and> \<not> signed_with sl nx (Some (PubkeyOf k)) pubkey message signature"
proof (intro conjI)
  show "manageSubscribe sl nx (signed_only sl nx au client) address config au channel target browser
     = manageSubscribe sl nx client address config au channel target browser"
    unfolding manageSubscribe_def by (rule cbind_same) (simp add: signed_only_def subscribe_signed)
  show "manageUnsubscribe sl nx (signed_only sl nx au client') address config au channel target'
     = manageUnsubscribe sl nx client' address config au channel target'"
    unfolding manageUnsubscribe_def by (rule cbind_same) (simp add: signed_only_def unsubscribe_signed)
  show "showSubscriptions sl nx (signed_lists_only sl nx au client'') address config au
     = showSubscriptions sl nx client'' address config au"
    unfolding showSubscriptions_def by (rule cbind_same) (simp add: signed_lists_only_def subscriptions_signed)
  show "\<not> signed_with sl nx (Some (PubkeyOf k)) pubkey message signature"
    by (simp add: signed_with_def)
qed

section \<open>The funding that is shown\<close>

text \<open>
  C39: in a list of bonds of any configurations the funding shown for a bond is its own. The row
  behind it is that of the bond and has the vote account of the bond, whatever other bonds are
  fetched in the same request; it counts, exactly, the stake accounts delegated to this vote
  account under the withdraw authority of the configuration of the bond, with the lockup of that
  configuration, and a withdraw request in it is one of this bond. Vote accounts are keys other
  than the default one, which the code takes for a missing vote account.
\<close>

theorem list_shows_own_funding:
  assumes "show_list sl sx config vote auth True = Inr shown" and "inj (pk_b58 sl)"
    and "distinct (map bw_publicKey shown)" and "b \<in> set shown"
    and "\<forall>b\<in>set shown. bd_voteAccount (bw_account b) \<noteq> default_key"
  shows "\<exists>f accounts cfg.
      findConfigStakeAccounts sl (show_chain sx) (Some (bd_config (bw_account b))) None
        (Some (st_epoch (bc_stake (show_chain sx)))) = Inr accounts
    \<and> getConfig sl (show_chain sx) (bd_config (bw_account b)) = Inr cfg
    \<and> row_ok accounts (st_epoch (bc_stake (show_chain sx))) (cd_withdrawLockupEpochs cfg) f
    \<and> bf_bondAccount f = bw_publicKey b \<and> bf_voteAccount f = bd_voteAccount (bw_account b)
    \<and> (case bf_withdrawRequest f of None \<Rightarrow> True | Some (k, w) \<Rightarrow> wd_bond w = bw_publicKey b)
    \<and> bw_funding b = Some (funding_shown (sx_verbose sx) f)"
proof -
  obtain ks vs rows f where
    run: "getBondsFunding sl (show_chain sx) (bd_config (bw_account b)) (map Some ks) vs None = Inr rows" "f \<in> set rows"
    and f: "bf_bondAccount f = bw_publicKey b" "bf_voteAccount f = bd_voteAccount (bw_account b)"
      "bw_funding b = Some (funding_shown (sx_verbose sx) f)"
    by (rule show_list_bonds [OF assms])
  from getBondsFunding_row' [OF run] f show ?thesis by (intro exI [of _ f]) (simp only: orElse_simps, blast)
qed

text \<open>A cluster without stake accounts and requests, and an injective text for keys.\<close>

definition cli_sl :: solana_lib where
  "cli_sl = demo_sl\<lparr>pk_b58 := map (\<lambda>w. char_of (unat w))\<rparr>"

lemma cli_sl_inj: "inj (pk_b58 cli_sl)"
proof -
  have "inj (\<lambda>w :: 8 word. char_of (unat w))"
  proof (rule injI)
    fix x y :: "8 word"
    assume "(char_of (unat x) :: char) = char_of (unat y)"
    then have "unat x mod 256 = unat y mod 256" by (metis of_char_of)
    moreover have "unat x < 256" "unat y < 256" using unsigned_less [of x, where ?'a = nat] unsigned_less [of y, where ?'a = nat] by simp_all
    ultimately show "x = y" by (simp add: word_eq_iff_unsigned [where ?'a = nat])
  qed
  then show ?thesis by (simp add: cli_sl_def inj_mapI)
qed

definition cli_show_chain :: bonds_chain where
  "cli_show_chain = cli_chain\<lparr> bc_stake := demo_stake_chain\<lparr>st_find := (\<lambda>fs. [])\<rparr>,
     bc_withdraws := db_rpc [] (\<lambda>d. throw EError ''no request'') \<rparr>"

definition cli_show_ctx :: show_ctx where
  "cli_show_ctx = \<lparr> sx_cli = cli_demo_ctx\<lparr>cx_lib := cli_accounts_lib\<lparr>cl_chain := cli_show_chain\<rparr>\<rparr>,
     sx_verbose = False, sx_multiple = (\<lambda>ks. Inr []) \<rparr>"

lemma cli_show_getBonds: "findBonds cli_sl (bc_bonds cli_show_chain) p (Some (demo_key 9)) (Some (demo_key 21)) None
    = Inr [(ix_bond, cli_bond)]"
  by (simp add: findBonds_def fetch_account_def fetchNullable_def cli_show_chain_def cli_chain_def db_rpc_def
      bondAddress_def cli_sl_def demo_sl_def ix_bond_def)

lemmas cli_show_defs = cli_show_chain_def cli_chain_def ix_chain_def demo_chain_def db_rpc_def cli_sl_def demo_sl_def

lemma cli_show_products: "findBondProducts cli_sl (bc_products cli_show_chain) p None (Some v) (Some c) None = Inr []"
  by (simp add: findBondProducts_def findFiltered_def bondAddress_def cli_show_defs getMultipleDecoded_def
      getMultiAccounts_def non_null_def)

lemma cli_show_entries: "fund_entries cli_sl cli_show_chain (demo_key 9) [(Some ix_bond, Some (demo_key 21))]
    = Inr [(ix_bond, \<lparr> fe_voteAccount = demo_key 21, fe_withdrawRequest = None \<rparr>)]"
  by (simp add: fund_entries_def derive_entry_def set_vote_def set_withdraw_def getMultipleDecoded_def
      getMultiAccounts_def mapAccountInfoToProgramAccount_def withdrawRequestAddress_def cli_show_defs cli_bond_def)

lemma cli_show_accounts: "findConfigStakeAccounts cli_sl cli_show_chain (Some (demo_key 9)) None (Some 102) = Inr []"
  by (simp add: findConfigStakeAccounts_def bondsWithdrawerAuthority_def findStakeAccounts_def
      findStakeAccountNoDataInfos_def loadStakeAccounts_def parseNotLocked_def demo_stake_chain_def cli_show_defs)

lemma cli_show_config: "getConfig cli_sl cli_show_chain (demo_key 9)
    = Inr \<lparr> cd_admin = [], cd_operator = [], cd_pause = [], cd_withdrawLockupEpochs = 3, cd_minimumStakeLamports = 1000 \<rparr>"
  by (simp add: getConfig_def fetch_account_def fetchNullable_def cli_show_defs)

lemma cli_show_funding:
  "\<exists>f. getBondsFunding cli_sl cli_show_chain (demo_key 9) [Some ix_bond] [Some (demo_key 21)] None = Inr [f]
   \<and> bf_bondAccount f = ix_bond"
proof -
  have e: "st_epoch (bc_stake cli_show_chain) = 102" by (simp add: cli_show_chain_def)
  show ?thesis
    by (simp add: getBondsFunding_def Let_def fill_undefined_def cli_show_entries cli_show_accounts cli_show_config
        e bn_of_number_def fits53_def groupByVoter_def funding_row_def calculateFundedAmount_def withdrawal_requested_def)
qed

lemma cli_list: "\<exists>b. show_list cli_sl cli_show_ctx (Some (demo_key 9)) (Some (demo_key 21)) None True = Inr [b]"
proof -
  obtain f where "getBondsFunding cli_sl cli_show_chain (demo_key 9) [Some ix_bond] [Some (demo_key 21)] None = Inr [f]"
    using cli_show_funding by blast
  then have "list_funding cli_sl cli_show_chain [(ix_bond, cli_bond)] = Inr [(pk_b58 cli_sl (bf_bondAccount f), f)]"
    by (simp add: list_funding_def bonds_by_config_def add_to_group_def group_funding_def cli_bond_def)
  then show ?thesis
    by (simp add: show_list_def cli_show_ctx_def or_command_error_def cli_show_getBonds cli_show_products)
qed

theorem list_shows_own_funding_witness:
  "\<exists>b f accounts. show_list cli_sl cli_show_ctx (Some (demo_key 9)) (Some (demo_key 21)) None True = Inr [b]
   \<and> row_ok accounts (st_epoch (bc_stake (show_chain cli_show_ctx))) 3 f
   \<and> bf_bondAccount f = bw_publicKey b \<and> bf_voteAccount f = demo_key 21 \<and> bw_funding b = Some (funding_shown False f)"
proof -
  obtain b where b: "show_list cli_sl cli_show_ctx (Some (demo_key 9)) (Some (demo_key 21)) None True = Inr [b]"
    using cli_list by blast
  then have c: "bd_config (bw_account b) = demo_key 9" "bd_voteAccount (bw_account b) = demo_key 21"
    by (auto simp: show_list_def cli_show_ctx_def or_command_error_def cli_show_getBonds cli_show_products rbind_eq_Inr
        listed_bond_def cli_bond_def split: sum.splits)
  then have v: "\<forall>b\<in>set [b]. bd_voteAccount (bw_account b) \<noteq> default_key"
    by (simp add: demo_key_def default_key_def)
  have "show_chain cli_show_ctx = cli_show_chain" "sx_verbose cli_show_ctx = False" by (simp_all add: cli_show_ctx_def)
  with list_shows_own_funding [OF b cli_sl_inj _ _ v, of b] b c cli_show_config show ?thesis by auto
qed

end
