(* ===== verification/Scr_Settlements.thy ===== *)
theory Scr_Settlements
  imports Js_Number
begin

text \<open>
  The settlements as the reporting scripts read them: \<open>scripts/settlement-utils.ts\<close>.

  A number of the file is a double. The details of a settlement are absent for some reasons;
  reading a field of absent details throws. \<open>parse_float\<close> is \<open>parseFloat\<close>.
\<close>

section \<open>Numbers at the start of a text\<close>

text \<open>A text that is a decimal literal, and the longest prefix that is one.\<close>

definition str_decimal :: "string \<Rightarrow> number option" where
  "str_decimal p = (if p = ''Infinity'' \<or> p = ''+Infinity'' then Some PInf
     else if p = ''-Infinity'' then Some NInf else map_option dbl (parse_sdec p))"

definition parse_float :: "string \<Rightarrow> number" where
  "parse_float s = (let t = dropWhile is_ws s in
     case List.map_filter (\<lambda>n. str_decimal (take n t)) (rev [0..<Suc (length t)]) of [] \<Rightarrow> NaN | x # _ \<Rightarrow> x)"

section \<open>Settlements\<close>

datatype distribution_reason = Bidding | PriorityFee | BidTooLowPenalty | BlacklistPenalty | BondRiskFee
  | InstitutionalPayout | ProtectedEvent

record fee_details =
  fx_marinade_fee_claim :: number
  fx_dao_fee_claim :: number
  fx_active_stake :: number
  fx_redelegation_stake :: "number option"
  fx_stakers_rewards :: string

record dist_settlement =
  dx_reason :: distribution_reason
  dx_vote_account :: string
  dx_claims_amount :: number
  dx_details :: "fee_details option"

definition isProtectedEvent :: "distribution_reason \<Rightarrow> bool" where
  "isProtectedEvent r \<longleftrightarrow> r = ProtectedEvent"

definition isFeeSettlement :: "dist_settlement \<Rightarrow> bool" where
  "isFeeSettlement s \<longleftrightarrow> dx_reason s = Bidding \<or> dx_reason s = PriorityFee"

definition sumStakerExtras :: "dist_settlement list \<Rightarrow> number" where
  "sumStakerExtras settlements = foldl (\<lambda>x s.
     if isProtectedEvent (dx_reason s) \<or> dx_reason s = BidTooLowPenalty \<or> dx_reason s = BlacklistPenalty
       \<or> dx_reason s = BondRiskFee
     then n_add x (dx_claims_amount s) else x) (Fin 0) settlements"

definition details_of :: "dist_settlement \<Rightarrow> fee_details res" where
  "details_of s = (case dx_details s of Some d \<Rightarrow> Inr d
     | None \<Rightarrow> throw ETypeError ''Cannot read properties of null (reading 'marinade_fee_claim')'')"

definition add_fees :: "(string, number) jsmap \<Rightarrow> dist_settlement \<Rightarrow> (string, number) jsmap res" where
  "add_fees m s = (if \<not> isFeeSettlement s then Inr m
     else rbind (details_of s) (\<lambda>d.
       Inr (jsmap_set (dx_vote_account s)
         (n_add (n_add (orElse (jsmap_get m (dx_vote_account s)) (Fin 0)) (fx_marinade_fee_claim d))
           (fx_dao_fee_claim d)) m)))"

definition feesByVoteAccount :: "dist_settlement list \<Rightarrow> (string, number) jsmap res" where
  "feesByVoteAccount settlements = rfoldM add_fees [] settlements"

text \<open>The sum of the fees, as both scripts compute it.\<close>

definition total_fees :: "dist_settlement list \<Rightarrow> number res" where
  "total_fees settlements = rfoldM (\<lambda>x s. rbind (details_of s) (\<lambda>d.
     Inr (n_add (n_add x (fx_marinade_fee_claim d)) (fx_dao_fee_claim d)))) (Fin 0)
     (filter isFeeSettlement settlements)"

text \<open>The bids, with their details.\<close>

definition bid_settlements :: "dist_settlement list \<Rightarrow> (dist_settlement \<times> fee_details) list" where
  "bid_settlements settlements = List.map_filter (\<lambda>s. if dx_reason s = Bidding
     then map_option (Pair s) (dx_details s) else None) settlements"

definition protected_claims :: "dist_settlement list \<Rightarrow> number" where
  "protected_claims settlements = foldl (\<lambda>x s.
     if isProtectedEvent (dx_reason s) then n_add x (dx_claims_amount s) else x) (Fin 0) settlements"

definition staker_rewards :: "(dist_settlement \<times> fee_details) list \<Rightarrow> number" where
  "staker_rewards bids = foldl (\<lambda>x (s, d). n_add x (parse_float (fx_stakers_rewards d))) (Fin 0) bids"

text \<open>The number of validators whose fees are below or at a share of their rewards; \<open>slack\<close> is the
  tolerance of the comparison.\<close>

definition fee_of :: "(string, number) jsmap \<Rightarrow> dist_settlement \<Rightarrow> number" where
  "fee_of fees s = orElse (jsmap_get fees (dx_vote_account s)) (Fin 0)"

definition fee_share :: "number \<Rightarrow> number \<Rightarrow> number \<Rightarrow> number" where
  "fee_share rewards bps slack = n_div (n_mul (n_mul rewards bps) slack) (Fin 10000)"

definition count_capped :: "(string, number) jsmap \<Rightarrow> number \<Rightarrow> (dist_settlement \<times> fee_details) list \<Rightarrow> nat" where
  "count_capped fees bps bids = length (filter (\<lambda>(s, d). let rewards = parse_float (fx_stakers_rewards d) in
     n_lt (Fin 0) rewards \<and> n_lt (fee_of fees s) (fee_share rewards bps (dbl (9999 / 10000)))) bids)"

definition count_at_min :: "(string, number) jsmap \<Rightarrow> number \<Rightarrow> (dist_settlement \<times> fee_details) list \<Rightarrow> nat" where
  "count_at_min fees bps bids = length (filter (\<lambda>(s, d). let rewards = parse_float (fx_stakers_rewards d) in
     n_lt (Fin 0) rewards \<and> n_le (fee_of fees s) (fee_share rewards bps (dbl (10001 / 10000)))) bids)"


section \<open>Every fee is counted once\<close>

text \<open>For whole numbers of lamports that stay in the exact range of doubles.\<close>

definition lamports :: "number \<Rightarrow> int" where
  "lamports x = (case x of Fin q \<Rightarrow> \<lfloor>q\<rfloor> | _ \<Rightarrow> 0)"

definition whole :: "number \<Rightarrow> bool" where
  "whole x \<longleftrightarrow> x = Fin (of_int (lamports x)) \<and> 0 \<le> lamports x"

definition fee_lamports :: "dist_settlement \<Rightarrow> int" where
  "fee_lamports s = (if isFeeSettlement s then (case dx_details s of None \<Rightarrow> 0
     | Some d \<Rightarrow> lamports (fx_marinade_fee_claim d) + lamports (fx_dao_fee_claim d)) else 0)"

definition whole_fees :: "dist_settlement \<Rightarrow> bool" where
  "whole_fees s \<longleftrightarrow> (if isFeeSettlement s then (case dx_details s of None \<Rightarrow> False
     | Some d \<Rightarrow> whole (fx_marinade_fee_claim d) \<and> whole (fx_dao_fee_claim d)) else True)"

definition fees_of_vote :: "dist_settlement list \<Rightarrow> string \<Rightarrow> int" where
  "fees_of_vote ss v = sum_list (map fee_lamports (filter (\<lambda>s. dx_vote_account s = v) ss))"

definition has_fees :: "dist_settlement list \<Rightarrow> string \<Rightarrow> bool" where
  "has_fees ss v \<longleftrightarrow> list_ex (\<lambda>s. isFeeSettlement s \<and> dx_vote_account s = v) ss"

lemma n_add_whole:
  assumes "0 \<le> a" and "whole x" and "a + lamports x < 2 ^ 53"
  shows "n_add (Fin (of_int a)) x = Fin (of_int (a + lamports x))"
proof -
  have x: "x = Fin (of_int (lamports x))" "0 \<le> lamports x" using assms(2) by (simp_all add: whole_def)
  have "n_add (Fin (of_int a)) x = dbl (of_int (a + lamports x))" by (subst x(1)) simp
  also have "\<dots> = Fin (of_int (a + lamports x))" using x(2) assms by (intro dbl_of_int) simp
  finally show ?thesis .
qed

lemma fee_lamports_nonneg: "whole_fees s \<Longrightarrow> 0 \<le> fee_lamports s"
  by (auto simp: whole_fees_def fee_lamports_def whole_def split: if_splits option.splits)

lemma fees_of_vote_le:
  assumes "\<forall>s\<in>set ss. whole_fees s"
  shows "0 \<le> fees_of_vote ss v" and "fees_of_vote ss v \<le> sum_list (map fee_lamports ss)"
  using assms by (induction ss) (auto simp: fees_of_vote_def dest: fee_lamports_nonneg)

lemma n_add_fees:
  assumes "0 \<le> a" and "whole_fees s" and "isFeeSettlement s" and "a + fee_lamports s < 2 ^ 53"
  obtains d where "dx_details s = Some d"
    "n_add (n_add (Fin (of_int a)) (fx_marinade_fee_claim d)) (fx_dao_fee_claim d) = Fin (of_int (a + fee_lamports s))"
proof -
  obtain d where d: "dx_details s = Some d" "whole (fx_marinade_fee_claim d)" "whole (fx_dao_fee_claim d)"
    using assms(2,3) by (auto simp: whole_fees_def split: option.splits)
  let ?m = "lamports (fx_marinade_fee_claim d)" and ?o = "lamports (fx_dao_fee_claim d)"
  have f: "fee_lamports s = ?m + ?o" using assms(3) d(1) by (simp add: fee_lamports_def)
  have nn: "0 \<le> ?m" "0 \<le> ?o" using d(2,3) by (simp_all add: whole_def)
  have "n_add (Fin (of_int a)) (fx_marinade_fee_claim d) = Fin (of_int (a + ?m))"
    using assms(1,4) f nn by (intro n_add_whole d(2)) simp_all
  moreover have "n_add (Fin (of_int (a + ?m))) (fx_dao_fee_claim d) = Fin (of_int (a + ?m + ?o))"
    using assms(1,4) f nn by (intro n_add_whole d(3)) simp_all
  ultimately show thesis using that [OF d(1)] f by (simp add: add.assoc)
qed

lemma fees_sum_nonneg: "\<forall>s\<in>set ss. whole_fees s \<Longrightarrow> 0 \<le> sum_list (map fee_lamports ss)"
  by (induction ss) (auto dest: fee_lamports_nonneg)

lemma fees_of_vote_none: "\<not> has_fees ss v \<Longrightarrow> fees_of_vote ss v = 0"
  by (induction ss) (auto simp: fees_of_vote_def has_fees_def fee_lamports_def)

lemma rfoldM_snoc: "rfoldM f s (xs @ [x]) = rbind (rfoldM f s xs) (\<lambda>s'. f s' x)"
  by (induction xs arbitrary: s) (auto simp: rbind_def split: sum.split)

lemma total_fees_whole:
  assumes "\<forall>s\<in>set ss. whole_fees s" and "sum_list (map fee_lamports ss) < 2 ^ 53"
  shows "total_fees ss = Inr (Fin (of_int (sum_list (map fee_lamports ss))))"
  using assms
proof (induction ss rule: rev_induct)
  case Nil
  then show ?case by (simp add: total_fees_def)
next
  case (snoc s ss)
  let ?T = "sum_list (map fee_lamports ss)"
  have w: "\<forall>s\<in>set ss. whole_fees s" "whole_fees s" using snoc.prems(1) by simp_all
  have nn: "0 \<le> fee_lamports s" "0 \<le> ?T" using fee_lamports_nonneg [OF w(2)] fees_sum_nonneg [OF w(1)] by simp_all
  have IH: "total_fees ss = Inr (Fin (of_int ?T))" using snoc.IH w nn snoc.prems(2) by simp
  show ?case
  proof (cases "isFeeSettlement s")
    case False
    then have "fee_lamports s = 0" by (simp add: fee_lamports_def)
    with False IH show ?thesis by (simp add: total_fees_def)
  next
    case True
    obtain d where "dx_details s = Some d"
      "n_add (n_add (Fin (of_int ?T)) (fx_marinade_fee_claim d)) (fx_dao_fee_claim d) = Fin (of_int (?T + fee_lamports s))"
      by (rule n_add_fees [of ?T s]) (use nn w True snoc.prems(2) in simp_all)
    with True IH show ?thesis by (simp add: total_fees_def rfoldM_snoc details_of_def)
  qed
qed

lemma feesByVoteAccount_whole:
  assumes "\<forall>s\<in>set ss. whole_fees s" and "sum_list (map fee_lamports ss) < 2 ^ 53"
  shows "\<exists>m. feesByVoteAccount ss = Inr m \<and> distinct (map fst m)
    \<and> (\<forall>v. jsmap_get m v = (if has_fees ss v then Some (Fin (of_int (fees_of_vote ss v))) else None))"
  using assms
proof (induction ss rule: rev_induct)
  case Nil
  then show ?case by (simp add: feesByVoteAccount_def has_fees_def)
next
  case (snoc s ss)
  have w: "\<forall>s\<in>set ss. whole_fees s" "whole_fees s" using snoc.prems(1) by simp_all
  have nn: "0 \<le> fee_lamports s" using fee_lamports_nonneg w by auto
  obtain m where m: "feesByVoteAccount ss = Inr m" "distinct (map fst m)"
    "\<And>v. jsmap_get m v = (if has_fees ss v then Some (Fin (of_int (fees_of_vote ss v))) else None)"
    using snoc.IH w nn snoc.prems(2) by auto
  have step: "feesByVoteAccount (ss @ [s]) = add_fees m s" using m(1) by (simp add: feesByVoteAccount_def rfoldM_snoc)
  have fov: "fees_of_vote (ss @ [s]) v = fees_of_vote ss v + (if dx_vote_account s = v then fee_lamports s else 0)" for v
    by (simp add: fees_of_vote_def)
  show ?case
  proof (cases "isFeeSettlement s")
    case False
    then have "fee_lamports s = 0" by (simp add: fee_lamports_def)
    with False show ?thesis using m(2,3) by (simp add: step add_fees_def fov) (simp add: has_fees_def)
  next
    case True
    let ?v = "dx_vote_account s" and ?a = "fees_of_vote ss (dx_vote_account s)"
    have old: "orElse (jsmap_get m ?v) (Fin 0) = Fin (of_int ?a)" using fees_of_vote_none [of ss ?v] by (simp add: m(3))
    have b: "0 \<le> ?a" "?a + fee_lamports s < 2 ^ 53"
      using fees_of_vote_le [OF w(1), of ?v] snoc.prems(2) by simp_all
    obtain d where d: "dx_details s = Some d"
      "n_add (n_add (Fin (of_int ?a)) (fx_marinade_fee_claim d)) (fx_dao_fee_claim d) = Fin (of_int (?a + fee_lamports s))"
      by (rule n_add_fees [OF b(1) w(2) True b(2)])
    have new: "add_fees m s = Inr (jsmap_set ?v (Fin (of_int (?a + fee_lamports s))) m)"
      using True d old by (simp add: add_fees_def details_of_def)
    show ?thesis
      using m(2,3) True by (auto simp: step new fov distinct_update) (auto simp: has_fees_def)
  qed
qed

text \<open>The fees of the map add up to all fees.\<close>

lemma sum_update:
  assumes "distinct (map fst m)"
  shows "sum_list (map (\<lambda>e. lamports (snd e)) (jsmap_set k x m))
    = sum_list (map (\<lambda>e. lamports (snd e)) m) + lamports x - (case jsmap_get m k of None \<Rightarrow> 0 | Some y \<Rightarrow> lamports y)"
  using assms by (induction m) (auto simp: rev_image_eqI split: option.split dest: map_of_SomeD)

lemma lamports_of_int [simp]: "lamports (Fin (of_int i)) = i"
  by (simp add: lamports_def)

lemma fees_add_up:
  assumes "\<forall>s\<in>set ss. whole_fees s" and "sum_list (map fee_lamports ss) < 2 ^ 53" and "feesByVoteAccount ss = Inr m"
  shows "sum_list (map (\<lambda>e. lamports (snd e)) m) = sum_list (map fee_lamports ss)"
  using assms
proof (induction ss arbitrary: m rule: rev_induct)
  case Nil
  then show ?case by (simp add: feesByVoteAccount_def)
next
  case (snoc s ss)
  have w: "\<forall>s\<in>set ss. whole_fees s" "whole_fees s" using snoc.prems(1) by simp_all
  have nn: "0 \<le> fee_lamports s" using fee_lamports_nonneg w by auto
  have less: "sum_list (map fee_lamports ss) < 2 ^ 53" using snoc.prems(2) nn by simp
  obtain m0 where m0: "feesByVoteAccount ss = Inr m0" "distinct (map fst m0)"
    "\<And>v. jsmap_get m0 v = (if has_fees ss v then Some (Fin (of_int (fees_of_vote ss v))) else None)"
    using feesByVoteAccount_whole [OF w(1) less] by blast
  have IH: "sum_list (map (\<lambda>e. lamports (snd e)) m0) = sum_list (map fee_lamports ss)"
    by (rule snoc.IH [OF w(1) less m0(1)])
  have step: "add_fees m0 s = Inr m" using snoc.prems(3) m0(1) by (simp add: feesByVoteAccount_def rfoldM_snoc)
  obtain m' where m': "feesByVoteAccount (ss @ [s]) = Inr m'"
    "\<And>v. jsmap_get m' v = (if has_fees (ss @ [s]) v then Some (Fin (of_int (fees_of_vote (ss @ [s]) v))) else None)"
    using feesByVoteAccount_whole [OF snoc.prems(1,2)] by blast
  then have m: "m' = m" using snoc.prems(3) by simp
  show ?case
  proof (cases "isFeeSettlement s")
    case False
    then have "fee_lamports s = 0" "m = m0" using step by (simp_all add: fee_lamports_def add_fees_def)
    then show ?thesis using IH by simp
  next
    case True
    then obtain x where x: "m = jsmap_set (dx_vote_account s) x m0"
      using step by (auto simp: add_fees_def rbind_eq_Inr)
    have "jsmap_get m (dx_vote_account s) = Some x" by (simp add: x)
    then have "lamports x = fees_of_vote ss (dx_vote_account s) + fee_lamports s"
      using m'(2) [of "dx_vote_account s"] True lamports_of_int [of "fees_of_vote (ss @ [s]) (dx_vote_account s)"]
      by (simp add: m has_fees_def fees_of_vote_def)
    then show ?thesis using IH m0(3) fees_of_vote_none [of ss] by (simp add: x sum_update [OF m0(2)])
  qed
qed

end
