(* ===== verification/Scr_Fees.thy ===== *)
theory Scr_Fees
  imports Scr_Settlements
begin

text \<open>
  The fee report of an epoch: \<open>scripts/fee-annotation.ts\<close>.

  \<open>fee_host\<close> is what the script reads: its arguments, the two files (reading and parsing may
  throw), the answers of the service, and \<open>Math.pow\<close>, whose rounding the language leaves open.
  A run ends with the text it prints or with an exit code and the text on the error output.
\<close>

record ssr_epoch =
  se_epoch :: number
  se_pmpe :: number
  se_time :: number

datatype 'a attempt = Answered 'a | Refused | Failed

record fee_host =
  fh_args :: "string list"
  fh_APY_API_URL :: "string option"
  fh_config :: "string \<Rightarrow> (number \<times> number) option res"
  fh_settlements :: "string \<Rightarrow> (number \<times> dist_settlement list) res"
  fh_fetch :: "string \<Rightarrow> nat \<Rightarrow> ssr_epoch list attempt"
  fh_pow :: "number \<Rightarrow> number \<Rightarrow> number"

datatype script_end = Printed string | Exited nat string

definition script_newline :: string where "script_newline = [CHR 0x0A]"

text \<open>An em dash in UTF-8.\<close>

definition long_dash :: string where "long_dash = [CHR 0xE2, CHR 0x80, CHR 0x94]"

definition pad_end :: "nat \<Rightarrow> string \<Rightarrow> string" where
  "pad_end k s = s @ replicate (k - length s) (CHR '' '')"

definition SECONDS_PER_YEAR :: number where
  "SECONDS_PER_YEAR = n_mul (n_mul (n_mul (dbl (36525 / 100)) (Fin 24)) (Fin 60)) (Fin 60)"

text \<open>Three attempts; the first answer is taken.\<close>

fun first_answer :: "'a attempt list \<Rightarrow> 'a option" where
  "first_answer [] = None"
| "first_answer (Answered x # rs) = Some x"
| "first_answer (_ # rs) = first_answer rs"

definition find_epoch :: "ssr_epoch list \<Rightarrow> number \<Rightarrow> ssr_epoch option" where
  "find_epoch feed epoch = find (\<lambda>e. n_eq (se_epoch e) epoch) feed"

definition bids_stake :: "(dist_settlement \<times> fee_details) list \<Rightarrow> number" where
  "bids_stake bids = foldl (\<lambda>x (s, d). n_add (n_add x (fx_active_stake d))
     (orElse (fx_redelegation_stake d) (Fin 0))) (Fin 0) bids"

definition apy_for :: "(number \<Rightarrow> number \<Rightarrow> number) \<Rightarrow> number \<Rightarrow> number \<Rightarrow> number" where
  "apy_for pow n p = n_mul (n_sub (pow (n_add (Fin 1) (n_div p (Fin 1000))) n) (Fin 1)) (Fin 100)"

definition pmpe :: "number \<Rightarrow> number \<Rightarrow> number" where
  "pmpe amount stake = n_mul (n_div amount stake) (Fin 1000)"

definition signed_fixed :: "number \<Rightarrow> string" where
  "signed_fixed x = (if n_le (Fin 0) x then ''+'' else '''') @ to_fixed 2 x"

definition in_sol :: "number \<Rightarrow> number" where
  "in_sol x = n_div x (Fin 1000000000)"

record fee_figures =
  ff_gross :: number
  ff_stake :: number
  ff_fees :: number
  ff_extras :: number
  ff_psr :: number
  ff_ncap :: nat
  ff_bids :: nat
  ff_epochsPerYear :: number

definition extras_text :: "fee_figures \<Rightarrow> string" where
  "extras_text f = (if n_lt (Fin 0) (ff_extras f)
     then script_newline @ ''PSR/penalty extras to stakers: '' @ to_fixed 3 (in_sol (ff_extras f))
       @ '' SOL (psr: '' @ to_fixed 3 (in_sol (ff_psr f)) @ '', penalty: ''
       @ to_fixed 3 (in_sol (n_sub (ff_extras f) (ff_psr f))) @ '')'' else '''')"

definition report_row :: "string \<Rightarrow> string \<Rightarrow> number \<Rightarrow> number \<Rightarrow> string \<Rightarrow> string" where
  "report_row name fee p a gross = ''| '' @ name @ '' | '' @ fee @ '' | '' @ to_fixed 6 p @ '' | ''
     @ to_fixed 2 a @ ''%  | '' @ gross @ '' |''"

definition fee_report :: "(number \<Rightarrow> number \<Rightarrow> number) \<Rightarrow> number \<Rightarrow> number \<Rightarrow> number \<Rightarrow> fee_figures \<Rightarrow> string" where
  "fee_report pow epoch maxFeeBps minFeeBps f =
     (let gross = ff_gross f; stake = ff_stake f; fees = ff_fees f; extras = ff_extras f;
          pmpeGross = pmpe gross stake;
          pmpeAdj = pmpe (n_add (n_sub gross fees) extras) stake;
          pmpeMax = pmpe (n_add (n_mul gross (n_sub (Fin 1) (n_div maxFeeBps (Fin 10000)))) extras) stake;
          feesFull = in_sol (n_div (n_mul gross maxFeeBps) (Fin 10000));
          apyGross = apy_for pow (ff_epochsPerYear f) pmpeGross;
          apyAdj = apy_for pow (ff_epochsPerYear f) pmpeAdj;
          apyMax = apy_for pow (ff_epochsPerYear f) pmpeMax
      in ''### Fee Report '' @ long_dash @ '' Epoch '' @ num_str epoch @ ''   (max_fee_bps: '' @ num_str maxFeeBps
        @ '', min_fee_bps: '' @ num_str minFeeBps @ '')'' @ script_newline @ script_newline
        @ ''| scenario  | fee (SOL)   | pmpe       | APY      | vs gross  |'' @ script_newline
        @ ''|-----------|-------------|------------|----------|-----------|'' @ script_newline
        @ report_row ''gross    '' ''0.000      '' pmpeGross apyGross (long_dash @ ''        '') @ script_newline
        @ report_row ''actual   '' (pad_end 11 (to_fixed 3 (in_sol fees))) pmpeAdj apyAdj
            (signed_fixed (n_sub apyAdj apyGross) @ ''pp'') @ script_newline
        @ report_row ''full fee '' (pad_end 11 (to_fixed 3 feesFull)) pmpeMax apyMax
            (signed_fixed (n_sub apyMax apyGross) @ ''pp'') @ script_newline @ script_newline
        @ nat_str (ff_ncap f) @ '' of '' @ nat_str (ff_bids f)
        @ '' Bidding validators were SSR-capped (paid less than full fee)'' @ extras_text f @ script_newline)"

text \<open>What the settlements give: \<open>None\<close> when there are no bids.\<close>

definition fee_figures_of :: "number \<Rightarrow> dist_settlement list \<Rightarrow> fee_figures option res" where
  "fee_figures_of maxFeeBps settlements =
     (let bids = bid_settlements settlements; stake = bids_stake bids in
      if length bids = 0 \<or> n_eq stake (Fin 0) then Inr None
      else rbind (total_fees settlements) (\<lambda>fees.
        rbind (feesByVoteAccount settlements) (\<lambda>feesByVote.
        Inr (Some \<lparr> ff_gross = staker_rewards bids, ff_stake = stake, ff_fees = fees,
          ff_extras = sumStakerExtras settlements, ff_psr = protected_claims settlements,
          ff_ncap = count_capped feesByVote maxFeeBps bids, ff_bids = length bids,
          ff_epochsPerYear = NaN \<rparr>))))"

text \<open>The epochs of a year, from the times of an epoch and the one before.\<close>

definition epochs_per_year :: "ssr_epoch list \<Rightarrow> number \<Rightarrow> script_end + number" where
  "epochs_per_year feed epoch =
     (let last' = n_sub epoch (Fin 1) in
      case (find_epoch feed epoch, find_epoch feed last') of
        (Some cur, Some prev) \<Rightarrow> if n_eq (se_time cur) (se_time prev)
          then Inl (Exited 1 (''Failed: epoch '' @ num_str epoch @ '' and '' @ num_str last'
            @ '' have identical timestamps'' @ script_newline))
          else Inr (n_div SECONDS_PER_YEAR (n_sub (se_time cur) (se_time prev)))
      | _ \<Rightarrow> Inl (Exited 1 (''Failed: epoch '' @ num_str epoch @ '' or '' @ num_str last'
            @ '' not in APY feed'' @ script_newline)))"

definition error_kind_str :: "err_kind \<Rightarrow> string" where
  "error_kind_str k = (case k of ETypeError \<Rightarrow> ''TypeError'' | ERangeError \<Rightarrow> ''RangeError''
     | ESyntaxError \<Rightarrow> ''SyntaxError'' | _ \<Rightarrow> ''Error'')"

definition fail_of :: "js_error \<Rightarrow> script_end" where
  "fail_of e = Exited 1 (''Failed: '' @ error_kind_str (err_kind_of e) @ '': '' @ err_message e @ script_newline)"

definition or_fail :: "'a res \<Rightarrow> ('a \<Rightarrow> script_end) \<Rightarrow> script_end" where
  "or_fail r f = (case r of Inl e \<Rightarrow> fail_of e | Inr x \<Rightarrow> f x)"

definition fee_annotation_main :: "fee_host \<Rightarrow> script_end" where
  "fee_annotation_main h = (case fh_args h of
       [] \<Rightarrow> Exited 2 (''Usage: tsx scripts/fee-annotation.ts <settlements.json> [settlement-config.yaml]'' @ script_newline)
     | settlementsFile # rest \<Rightarrow>
         if settlementsFile = ''''
         then Exited 2 (''Usage: tsx scripts/fee-annotation.ts <settlements.json> [settlement-config.yaml]'' @ script_newline)
         else (let configFile = (case rest of c # _ \<Rightarrow> c | [] \<Rightarrow> ''./settlement-config.yaml'');
                   apyUrl = orElse (fh_APY_API_URL h) ''https://apy.marinade.finance'' in
           or_fail (fh_config h configFile) (\<lambda>cfg. (case cfg of
               None \<Rightarrow> Exited 1 (''Failed: fee_config missing in '' @ configFile @ script_newline)
             | Some (maxFeeBps, minFeeBps) \<Rightarrow>
                 or_fail (fh_settlements h settlementsFile) (\<lambda>(epoch, settlements).
                 or_fail (fee_figures_of maxFeeBps settlements) (\<lambda>figures. (case figures of
                     None \<Rightarrow> Printed (''### Fee Report '' @ long_dash @ '' Epoch '' @ num_str epoch @ script_newline
                       @ ''No Bidding settlements found.'' @ script_newline)
                   | Some f \<Rightarrow> (case first_answer (map (fh_fetch h (apyUrl @ ''/v1/epoch-pmpe/ssr'')) [0, 1, 2]) of
                         None \<Rightarrow> Exited 1 (''Failed: APY SSR feed unavailable'' @ script_newline)
                       | Some feed \<Rightarrow> (case epochs_per_year feed epoch of
                             Inl e \<Rightarrow> e
                           | Inr n \<Rightarrow> Printed (fee_report (fh_pow h) epoch maxFeeBps minFeeBps
                               (f\<lparr>ff_epochsPerYear := n\<rparr>)))))))))))"

end
