(* ===== verification/Scr_Simulate.thy ===== *)
theory Scr_Simulate
  imports Scr_Fees
begin

text \<open>
  The simulation of fees over a range of epochs: \<open>scripts/simulate-fee.ts\<close>.

  The files, the program \<open>bid-distribution-cli\<close>, the downloads, the parser of the configuration
  and the service are the record \<open>sim_world\<close>: what they answer for an epoch. A step of the script
  is the lines it prints and, when it stops the script, the exit code; the lines on the error
  output are left out. An epoch is an integer that a double holds exactly.
\<close>

record bid_config =
  vc_whitelist :: "string list option"
  vc_exiting :: "string list option"
  vc_min_fee_bps :: number
  vc_max_fee_bps :: number

record sim_output =
  su_settlements :: "dist_settlement list"
  su_adjMax :: "number option"
  su_adjMin :: "number option"

record sim_world =
  sw_pow :: "number \<Rightarrow> number \<Rightarrow> number"
  sw_ssr :: "ssr_epoch list option"
  sw_template :: string
  sw_yaml :: "string \<Rightarrow> bid_config res"
  sw_production :: "int \<Rightarrow> sim_output res option"
  sw_inputs :: "int \<Rightarrow> bool"
  sw_cli :: "int \<Rightarrow> string \<Rightarrow> sim_output res option"
  sw_stakes :: "int \<Rightarrow> (string \<times> string) list option"

record sim_opts =
  so_c :: bool
  so_m :: "string option"
  so_positionals :: "string list"

type_synonym sim_step = "string list \<times> nat option"

text \<open>Steps one after the other, until one stops the script.\<close>

fun sim_seq :: "sim_step list \<Rightarrow> sim_step" where
  "sim_seq [] = ([], None)"
| "sim_seq ((ls, Some c) # ss) = (ls, Some c)"
| "sim_seq ((ls, None) # ss) = (case sim_seq ss of (ls', c) \<Rightarrow> (ls @ ls', c))"

section \<open>Arguments\<close>

definition sim_fees :: "string list \<Rightarrow> number option list" where
  "sim_fees feeStrs = (if length feeStrs \<noteq> 0 then map (\<lambda>s. Some (num_of_str s)) feeStrs else [None])"

definition is_integer :: "number \<Rightarrow> bool" where
  "is_integer x \<longleftrightarrow> (case x of Fin q \<Rightarrow> is_integral q | _ \<Rightarrow> False)"

definition epoch_range :: "string \<Rightarrow> number \<times> number" where
  "epoch_range epochArg =
     (if includes_str ''-'' epochArg
      then (case map num_of_str (split_on (CHR ''-'') epochArg) of a # b # _ \<Rightarrow> (a, b) | _ \<Rightarrow> (NaN, NaN))
      else (num_of_str epochArg, num_of_str epochArg))"

text \<open>An exit code, or the epochs and the fees to run.\<close>

definition sim_arguments :: "sim_opts \<Rightarrow> nat + (int list \<times> number option list)" where
  "sim_arguments opts =
     (let feeStrs = drop 1 (so_positionals opts) in
      if so_c opts \<and> length feeStrs \<noteq> 0 then Inl 2
      else if so_c opts \<and> so_m opts \<noteq> None then Inl 2
      else (case so_positionals opts of [] \<Rightarrow> Inl 2
        | epochArg # _ \<Rightarrow>
            if epochArg = '''' then Inl 2
            else (case epoch_range epochArg of (a, b) \<Rightarrow>
              if \<not> is_integer a \<or> \<not> is_integer b \<or> n_lt b a then Inl 2
              else (case (a, b) of (Fin x, Fin y) \<Rightarrow> Inr ([\<lfloor>x\<rfloor>..\<lfloor>y\<rfloor>], sim_fees feeStrs) | _ \<Rightarrow> Inl 2))))"

section \<open>The configuration\<close>

text \<open>\<open>text.replace(/(KEY)\s*\d+/, '$1 VALUE')\<close>: the first place where the key is followed by a
  number. The value has no \<open>$\<close>.\<close>

fun replace_bps :: "string \<Rightarrow> string \<Rightarrow> string \<Rightarrow> string" where
  "replace_bps key value [] = []"
| "replace_bps key value (c # cs) =
     (let after = dropWhile is_ws (drop (length key) (c # cs)) in
      if starts_with key (c # cs) \<and> takeWhile is_digit after \<noteq> []
      then key @ '' '' @ value @ dropWhile is_digit after
      else c # replace_bps key value cs)"

definition sim_config_text :: "string \<Rightarrow> number option \<Rightarrow> string option \<Rightarrow> string" where
  "sim_config_text tmpl fee m =
     (let t = (case fee of None \<Rightarrow> tmpl | Some f \<Rightarrow> replace_bps ''max_fee_bps:'' (num_str f) tmpl) in
      case m of None \<Rightarrow> t | Some x \<Rightarrow> replace_bps ''min_fee_bps:'' x t)"

text \<open>Stake that is redelegated, from the stake accounts of whitelisted authorities that do not exit.\<close>

definition redelegationStakeFromFile :: "(string \<times> string) list \<Rightarrow> bid_config \<Rightarrow> number" where
  "redelegationStakeFromFile metas cfg = foldl (\<lambda>x (authority, amount).
     if authority \<in> set (orElse (vc_whitelist cfg) []) \<and> authority \<notin> set (orElse (vc_exiting cfg) [])
     then n_add x (parse_float amount) else x) (Fin 0) metas"

section \<open>One fee of one epoch\<close>

definition sol_text :: "number \<Rightarrow> string" where
  "sol_text v = to_fixed 3 (n_div (n_round (n_mul (in_sol v) (Fin 1000))) (Fin 1000))"

definition apy_text :: "(number \<Rightarrow> number \<Rightarrow> number) \<Rightarrow> number \<Rightarrow> number \<Rightarrow> string" where
  "apy_text pow p n = to_fixed 2 (apy_for pow n p) @ ''%''"

definition sim_redelegation :: "(string \<times> string) list option \<Rightarrow> bid_config \<Rightarrow> fee_details list \<Rightarrow> number" where
  "sim_redelegation stakes cfg details =
     (if list_ex (\<lambda>d. fx_redelegation_stake d = None) details
      then (case stakes of Some metas \<Rightarrow> redelegationStakeFromFile metas cfg | None \<Rightarrow> Fin 0)
      else foldl (\<lambda>x d. n_add x (orElse (fx_redelegation_stake d) (Fin 0))) (Fin 0) details)"

definition sim_lines :: "(number \<Rightarrow> number \<Rightarrow> number) \<Rightarrow> number \<Rightarrow> (string \<times> string) list option \<Rightarrow> bid_config
    \<Rightarrow> sim_output \<Rightarrow> (dist_settlement \<times> fee_details) list \<Rightarrow> number \<Rightarrow> (string, number) jsmap \<Rightarrow> string list" where
  "sim_lines pow epy stakes cfg out bids feeAdj feesByVote =
     (let settlements = su_settlements out; details = map snd bids;
          activeStake = foldl (\<lambda>x d. n_add x (fx_active_stake d)) (Fin 0) details;
          stake = n_add activeStake (sim_redelegation stakes cfg details);
          totalRewards = staker_rewards bids; maxFee = vc_max_fee_bps cfg;
          stakerExtras = sumStakerExtras settlements; protectedEventClaims = protected_claims settlements;
          penaltyStakerClaims = n_sub stakerExtras protectedEventClaims;
          pmpeAdj = pmpe (n_add (n_sub totalRewards feeAdj) stakerExtras) stake;
          pmpeMax = pmpe (n_add (n_mul totalRewards (n_sub (Fin 1) (n_div maxFee (Fin 10000)))) stakerExtras) stake;
          pmpePreFee = pmpe (n_add totalRewards stakerExtras) stake
      in [''  - max_fee_bps: '' @ num_str maxFee,
          ''    min_fee_bps: '' @ num_str (vc_min_fee_bps cfg),
          ''    marinade_stake_sol: '' @ sol_text stake,
          ''    pre_fee_pmpe: '' @ to_fixed 6 pmpePreFee,
          ''    post_fee_pmpe_adj: '' @ to_fixed 6 pmpeAdj,
          ''    post_fee_pmpe_max: '' @ to_fixed 6 pmpeMax,
          ''    apy_pre_fee: '' @ apy_text pow pmpePreFee epy,
          ''    apy_adj: '' @ apy_text pow pmpeAdj epy,
          ''    apy_max: '' @ apy_text pow pmpeMax epy,
          ''    fee_sol_adj: '' @ sol_text feeAdj,
          ''    fee_sol_max: '' @ sol_text (n_div (n_mul totalRewards maxFee) (Fin 10000))]
        @ (if n_lt (Fin 0) protectedEventClaims then [''    psr_sol_to_stakers: '' @ sol_text protectedEventClaims] else [])
        @ (if n_lt (Fin 0) penaltyStakerClaims then [''    penalty_sol_to_stakers: '' @ sol_text penaltyStakerClaims] else [])
        @ (case su_adjMax out of None \<Rightarrow> []
           | Some bps \<Rightarrow> [''    validators_capped: '' @ nat_str (count_capped feesByVote bps bids) @ ''/'' @ nat_str (length bids)])
        @ (case su_adjMin out of None \<Rightarrow> []
           | Some bps \<Rightarrow> [''    validators_at_min_fee: '' @ nat_str (count_at_min feesByVote bps bids) @ ''/'' @ nat_str (length bids)]))"

text \<open>An error that nothing catches stops the script with code 1.\<close>

definition or_stop :: "'a res \<Rightarrow> ('a \<Rightarrow> sim_step) \<Rightarrow> sim_step" where
  "or_stop r f = (case r of Inl _ \<Rightarrow> ([], Some 1) | Inr x \<Rightarrow> f x)"

definition sim_fee :: "sim_world \<Rightarrow> sim_opts \<Rightarrow> int \<Rightarrow> number \<Rightarrow> sim_output res option \<Rightarrow> number option \<Rightarrow> sim_step" where
  "sim_fee w opts epoch epy prodFile fee =
     (let cfgText = sim_config_text (sw_template w) fee (so_m opts) in
      or_stop (sw_yaml w cfgText) (\<lambda>cfg.
      (case (case prodFile of Some p \<Rightarrow> Some p | None \<Rightarrow> sw_cli w epoch cfgText) of
         None \<Rightarrow> ([], Some 1)
       | Some r \<Rightarrow> or_stop r (\<lambda>out. let bids = bid_settlements (su_settlements out) in
           if length bids = 0 then ([], None)
           else or_stop (total_fees (su_settlements out)) (\<lambda>feeAdj.
             or_stop (feesByVoteAccount (su_settlements out)) (\<lambda>feesByVote.
             (sim_lines (sw_pow w) epy (sw_stakes w epoch) cfg out bids feeAdj feesByVote, None)))))))"

section \<open>The epochs\<close>

definition sim_epoch :: "sim_world \<Rightarrow> ssr_epoch list \<Rightarrow> sim_opts \<Rightarrow> number option list \<Rightarrow> int \<Rightarrow> sim_step" where
  "sim_epoch w ssr opts fees epoch =
     (if so_c opts \<and> sw_production w epoch = None then ([], Some 1)
      else if \<not> so_c opts \<and> \<not> sw_inputs w epoch then ([], Some 1)
      else (case find_epoch ssr (Fin (of_int epoch)) of
          None \<Rightarrow> ([], None)
        | Some e \<Rightarrow>
            (let epy = (case find_epoch ssr (Fin (of_int (epoch - 1))) of
                   Some prev \<Rightarrow> n_div (Fin 31557600) (n_sub (se_time e) (se_time prev)) | None \<Rightarrow> Fin 182);
                 prodFile = (if so_c opts then sw_production w epoch else None)
             in sim_seq (([''- epoch: '' @ int_str epoch, ''  time: '' @ num_str (se_time e),
                 ''  ssr_pmpe: '' @ num_str (se_pmpe e), ''  ssr_apy: '' @ apy_text (sw_pow w) (se_pmpe e) epy,
                 ''  epochs_per_year: '' @ num_str (n_floor epy), ''  simulations:''], None)
               # map (sim_fee w opts epoch epy prodFile) (if prodFile \<noteq> None then [None] else fees)))))"

definition simulate_fee :: "sim_world \<Rightarrow> sim_opts \<Rightarrow> sim_step" where
  "simulate_fee w opts = (case sim_arguments opts of
       Inl c \<Rightarrow> ([], Some c)
     | Inr (epochs, fees) \<Rightarrow> (case sw_ssr w of
           None \<Rightarrow> ([], Some 1)
         | Some ssr \<Rightarrow> sim_seq (([''epochs:''], None) # map (sim_epoch w ssr opts fees) epochs)))"

section \<open>What a simulation changes\<close>

text \<open>Replacing a number leaves every other setting alone: the text changes only behind the key.\<close>

lemma replace_bps_splits:
  "replace_bps key value s = s \<or> (\<exists>a b c. s = a @ key @ b @ c \<and> replace_bps key value s = a @ key @ '' '' @ value @ c
     \<and> (\<exists>ws ds. b = ws @ ds \<and> list_all is_ws ws \<and> ds \<noteq> [] \<and> list_all is_digit ds))"
proof (induction s)
  case (Cons c cs)
  let ?after = "dropWhile is_ws (drop (length key) (c # cs))"
  show ?case
  proof (cases "starts_with key (c # cs) \<and> takeWhile is_digit ?after \<noteq> []")
    case True
    let ?ws = "takeWhile is_ws (drop (length key) (c # cs))" and ?ds = "takeWhile is_digit ?after"
    have "c # cs = key @ drop (length key) (c # cs)"
      using True by (metis append_take_drop_id starts_with_def)
    then have "c # cs = [] @ key @ (?ws @ ?ds) @ dropWhile is_digit ?after"
      by (metis append.assoc append_Nil takeWhile_dropWhile_id)
    moreover have "list_all is_ws ?ws" "list_all is_digit ?ds"
      by (auto simp: list_all_iff dest: set_takeWhileD)
    ultimately show ?thesis using True by (intro disjI2 exI [of _ "[]"] exI [of _ "?ws @ ?ds"]
        exI [of _ "dropWhile is_digit ?after"]) (auto simp: Let_def)
  next
    case False
    then have eq: "replace_bps key value (c # cs) = c # replace_bps key value cs" by (auto simp: Let_def)
    from Cons.IH show ?thesis
    proof
      assume "replace_bps key value cs = cs"
      then show ?thesis by (simp add: eq del: replace_bps.simps)
    next
      assume "\<exists>x y z. cs = x @ key @ y @ z \<and> replace_bps key value cs = x @ key @ '' '' @ value @ z
        \<and> (\<exists>ws ds. y = ws @ ds \<and> list_all is_ws ws \<and> ds \<noteq> [] \<and> list_all is_digit ds)"
      then obtain x y z where "cs = x @ key @ y @ z" "replace_bps key value cs = x @ key @ '' '' @ value @ z"
        "\<exists>ws ds. y = ws @ ds \<and> list_all is_ws ws \<and> ds \<noteq> [] \<and> list_all is_digit ds" by blast
      then show ?thesis unfolding eq
        by (intro disjI2 exI [of _ "c # x"] exI [of _ y] exI [of _ z]) simp
    qed
  qed
qed simp

text \<open>The script prints a prefix of what it would print with a world that never stops it; an exit
  is the first one.\<close>

lemma sim_seq_append: "sim_seq (xs @ ys) = (case sim_seq xs of (ls, Some c) \<Rightarrow> (ls, Some c)
    | (ls, None) \<Rightarrow> (case sim_seq ys of (ls', c) \<Rightarrow> (ls @ ls', c)))"
  by (induction xs rule: sim_seq.induct) (auto split: prod.split option.split)

lemma sim_seq_all: "\<forall>s\<in>set ss. snd s = None \<Longrightarrow> sim_seq ss = (concat (map fst ss), None)"
  by (induction ss rule: sim_seq.induct) auto

text \<open>With production settlements the fees of the command line play no role.\<close>

lemma production_ignores_fees:
  assumes "so_c opts"
  shows "sim_epoch w ssr opts fees epoch = sim_epoch w ssr opts fees' epoch"
  using assms by (auto simp: sim_epoch_def Let_def split: option.split)

lemma production_arguments:
  assumes "so_c opts" and "sim_arguments opts = Inr x"
  shows "so_m opts = None \<and> length (so_positionals opts) = 1"
proof (cases "so_positionals opts")
  case Nil
  with assms show ?thesis by (simp add: sim_arguments_def split: if_splits)
next
  case (Cons e fs)
  with assms show ?thesis by (auto simp: sim_arguments_def split: if_splits)
qed

end
