(* ===== verification/Scr_Properties.thy ===== *)
theory Scr_Properties
  imports Scr_Simulate
begin

text \<open>The property of the reporting scripts, with its instance.\<close>

section \<open>Fees\<close>

text \<open>
  C40: the fees of the settlements are counted exactly once, both in the total and per validator.
  When the fees are whole lamports that add up to less than \<open>2^53\<close>, neither script throws; the
  total is exact; the map holds a validator exactly when it has a settlement with fees, with the
  exact sum of its fees over all settlements, bids and priority fees alike; and the amounts of
  the map add up to the total.
\<close>

theorem fees_per_validator:
  assumes "\<forall>s\<in>set ss. whole_fees s" and "sum_list (map fee_lamports ss) < 2 ^ 53"
  shows "total_fees ss = Inr (Fin (of_int (sum_list (map fee_lamports ss))))
    \<and> (\<exists>m. feesByVoteAccount ss = Inr m \<and> distinct (map fst m)
      \<and> (\<forall>v. jsmap_get m v = (if has_fees ss v then Some (Fin (of_int (fees_of_vote ss v))) else None))
      \<and> sum_list (map (\<lambda>e. lamports (snd e)) m) = sum_list (map fee_lamports ss))"
  using total_fees_whole [OF assms] feesByVoteAccount_whole [OF assms] fees_add_up [OF assms] by blast

definition scr_fees :: "int \<Rightarrow> int \<Rightarrow> fee_details" where
  "scr_fees a b = \<lparr> fx_marinade_fee_claim = Fin (of_int a), fx_dao_fee_claim = Fin (of_int b),
     fx_active_stake = Fin 100, fx_redelegation_stake = None, fx_stakers_rewards = ''50'' \<rparr>"

definition scr_settlements :: "dist_settlement list" where
  "scr_settlements =
    [\<lparr> dx_reason = Bidding, dx_vote_account = ''A'', dx_claims_amount = Fin 9, dx_details = Some (scr_fees 2 3) \<rparr>,
     \<lparr> dx_reason = ProtectedEvent, dx_vote_account = ''A'', dx_claims_amount = Fin 4, dx_details = None \<rparr>,
     \<lparr> dx_reason = Bidding, dx_vote_account = ''B'', dx_claims_amount = Fin 8, dx_details = Some (scr_fees 1 0) \<rparr>,
     \<lparr> dx_reason = PriorityFee, dx_vote_account = ''A'', dx_claims_amount = Fin 7, dx_details = Some (scr_fees 0 6) \<rparr>]"

lemma scr_settlements_whole: "\<forall>s\<in>set scr_settlements. whole_fees s"
  by (simp add: scr_settlements_def scr_fees_def whole_fees_def whole_def isFeeSettlement_def lamports_def)

lemma scr_settlements_lamports: "sum_list (map fee_lamports scr_settlements) = 12"
  by (simp add: scr_settlements_def scr_fees_def fee_lamports_def isFeeSettlement_def lamports_def)

lemma scr_settlements_of: "has_fees scr_settlements ''A'' \<and> fees_of_vote scr_settlements ''A'' = 11
    \<and> \<not> has_fees scr_settlements ''C''"
  by (simp add: scr_settlements_def scr_fees_def fee_lamports_def isFeeSettlement_def lamports_def
      has_fees_def fees_of_vote_def)

theorem fees_per_validator_witness:
  "total_fees scr_settlements = Inr (Fin 12)
    \<and> (\<exists>m. feesByVoteAccount scr_settlements = Inr m \<and> jsmap_get m ''A'' = Some (Fin 11) \<and> jsmap_get m ''C'' = None)"
proof -
  have "sum_list (map fee_lamports scr_settlements) < 2 ^ 53" by (simp add: scr_settlements_lamports)
  from fees_per_validator [OF scr_settlements_whole this] scr_settlements_of show ?thesis
    by (auto simp: scr_settlements_lamports)
qed

end
