(* ===== verification/Cod_Kit.thy ===== *)
theory Cod_Kit
  imports Sdk_Address
begin

text \<open>
  What the generated client \<open>packages/validator-bonds-codama\<close> uses of \<open>@solana/kit\<close> and
  \<open>@solana/program-client-core\<close>. Neither is under src/: a codec is the expression that builds
  it (\<open>codec\<close>), and what the libraries compute is the record \<open>kit\<close>, an argument of every
  definition that uses it. \<open>doc_write\<close> and \<open>doc_read\<close> write out what the documentation of the
  codecs says about values of the right type; \<open>documented\<close> states that a \<open>kit\<close> does that.
  An address is its base58 text.
\<close>

section \<open>Codecs and values\<close>

datatype codec = U8Codec | U32Codec | U64Codec | I64Codec | BooleanCodec | AddressCodec | BytesCodec
  | Utf8Codec | UnitCodec | FixSize codec nat | SizePrefix codec codec | OptionCodec codec | ArrayCodec codec
  | StructCodec "(string \<times> codec) list" | TupleCodec "codec list" | UnionCodec "(string \<times> codec) list"

datatype cval = VNum int | VBool bool | VText string | VAddr string | VBytes "byte list" | VNone | VSome cval
  | VArray "cval list" | VObject "(string \<times> cval) list"

text \<open>\<open>transformEncoder(codec, value => ({ ...value, discriminator: D }))\<close>.\<close>

datatype encoder = WithDiscriminator codec "byte list"

section \<open>Declared types\<close>

datatype ts_type = TAddress | TNumber | TBigint | TNumberOrBigint | TBoolean | TBytes | TString | TOption ts_type
  | TOptionOrNullable ts_type | TArray ts_type | TObject "(string \<times> ts_type) list"
  | TUnion "(string \<times> ts_type list) list"

section \<open>Accounts and instructions\<close>

datatype resolved_value = AddressValue string | PdaValue string nat | SignerValue string

datatype role = READONLY | WRITABLE | READONLY_SIGNER | WRITABLE_SIGNER

record account_meta =
  am_address :: string
  am_role :: role

record kit_instruction =
  ki_accounts :: "account_meta list option"
  ki_data :: "byte list"
  ki_programAddress :: string

datatype 'd maybe_account = Missing string | Present string 'd

section \<open>The libraries\<close>

record kit =
  k_encode :: "codec \<Rightarrow> cval \<Rightarrow> byte list res"
  k_decode :: "codec \<Rightarrow> byte list \<Rightarrow> cval res"
  k_containsBytes :: "byte list \<Rightarrow> byte list \<Rightarrow> nat \<Rightarrow> bool"
  k_programDerivedAddress :: "string \<Rightarrow> byte list list \<Rightarrow> (string \<times> nat) res"
  k_addressOf :: "string \<Rightarrow> resolved_value option \<Rightarrow> string res"
  k_accountMeta :: "string \<Rightarrow> string \<Rightarrow> resolved_value option \<times> bool \<Rightarrow> account_meta"
  k_decodeAccount :: "byte list maybe_account \<Rightarrow> codec \<Rightarrow> cval maybe_account res"
  k_fetch :: "string \<Rightarrow> byte list maybe_account res"
  k_fetchAll :: "string list \<Rightarrow> byte list maybe_account list res"
  k_assertExists :: "cval maybe_account \<Rightarrow> unit res"
  k_assertAllExist :: "cval maybe_account list \<Rightarrow> unit res"

section \<open>The documented encodings\<close>

text \<open>
  Values of a codec. Bytes and texts have a fixed size or a size in front; an address is 32 bytes in
  base58.
\<close>

definition number_in :: "cval \<Rightarrow> int \<Rightarrow> int \<Rightarrow> bool" where
  "number_in v a b \<longleftrightarrow> (case v of VNum n \<Rightarrow> a \<le> n \<and> n < b | _ \<Rightarrow> False)"

definition address_bytes :: "solana_lib \<Rightarrow> string \<Rightarrow> byte list option" where
  "address_bytes sl a = (case pk_of_str sl a of Inl e \<Rightarrow> None
     | Inr k \<Rightarrow> if length k = 32 \<and> pk_b58 sl k = a then Some k else None)"

definition variant_of :: "cval \<Rightarrow> (string \<times> cval) option" where
  "variant_of v = (case v of VObject (kx # ob) \<Rightarrow> (case snd kx of VText w \<Rightarrow> Some (w, VObject ob) | _ \<Rightarrow> None) | _ \<Rightarrow> None)"

definition with_kind :: "string \<Rightarrow> cval \<Rightarrow> cval" where
  "with_kind w v = (case v of VObject ob \<Rightarrow> VObject ((''__kind'', VText w) # ob) | _ \<Rightarrow> v)"

lemma size_zip_fst [termination_simp]: "(c, v) \<in> set (zip cs vs) \<Longrightarrow> size c < Suc (size_list size cs)"
  by (meson less_Suc_eq_le set_zip_leftD size_list_estimation' order_refl)

lemma size_zip_field [termination_simp]:
  "((n, c), mw) \<in> set (zip fs ob) \<Longrightarrow> size c < Suc (size_list (\<lambda>w. Suc (size (snd w))) fs)"
proof -
  assume "((n, c), mw) \<in> set (zip fs ob)"
  then have "(n, c) \<in> set fs" by (rule set_zip_leftD)
  then have "size c \<le> size_list (\<lambda>w. Suc (size (snd w))) fs"
    by (rule size_list_estimation') simp
  then show ?thesis by simp
qed

lemma size_enumerate_snd [termination_simp]:
  "(i, x, c) \<in> set (enumerate n ws) \<Longrightarrow> size c < Suc (size_list (\<lambda>w. Suc (size (snd w))) ws)"
proof -
  assume "(i, x, c) \<in> set (enumerate n ws)"
  then have "(x, c) \<in> set ws" by (metis enumerate_eq_zip set_zip_rightD)
  then have "size c \<le> size_list (\<lambda>w. Suc (size (snd w))) ws"
    by (rule size_list_estimation') simp
  then show ?thesis by simp
qed

fun typed :: "solana_lib \<Rightarrow> codec \<Rightarrow> cval \<Rightarrow> bool" where
  "typed sl U8Codec v = number_in v 0 (2 ^ 8)"
| "typed sl U32Codec v = number_in v 0 (2 ^ 32)"
| "typed sl U64Codec v = number_in v 0 (2 ^ 64)"
| "typed sl I64Codec v = number_in v (- (2 ^ 63)) (2 ^ 63)"
| "typed sl BooleanCodec v = (case v of VBool b \<Rightarrow> True | _ \<Rightarrow> False)"
| "typed sl AddressCodec v = (case v of VAddr a \<Rightarrow> address_bytes sl a \<noteq> None | _ \<Rightarrow> False)"
| "typed sl UnitCodec v = (v = VObject [])"
| "typed sl BytesCodec v = False"
| "typed sl Utf8Codec v = False"
| "typed sl (FixSize c n) v = (c = BytesCodec \<and> (case v of VBytes bs \<Rightarrow> length bs = n | _ \<Rightarrow> False))"
| "typed sl (SizePrefix c p) v = (p = U32Codec \<and> (case v of VBytes bs \<Rightarrow> c = BytesCodec \<and> length bs < 2 ^ 32
     | VText s \<Rightarrow> c = Utf8Codec \<and> length s < 2 ^ 32 | _ \<Rightarrow> False))"
| "typed sl (OptionCodec c) v = (case v of VNone \<Rightarrow> True | VSome w \<Rightarrow> typed sl c w | _ \<Rightarrow> False)"
| "typed sl (ArrayCodec c) v = (case v of VArray vs \<Rightarrow> length vs < 2 ^ 32 \<and> list_all (typed sl c) vs | _ \<Rightarrow> False)"
| "typed sl (StructCodec fs) v = (case v of VObject ob \<Rightarrow> map fst ob = map fst fs \<and> distinct (map fst fs)
     \<and> list_all (\<lambda>((n, c), (m, w)). typed sl c w) (zip fs ob) | _ \<Rightarrow> False)"
| "typed sl (TupleCodec cs) v = (case v of VArray vs \<Rightarrow> length vs = length cs \<and> list_all (\<lambda>(c, w). typed sl c w) (zip cs vs) | _ \<Rightarrow> False)"
| "typed sl (UnionCodec ws) v = (case variant_of v of None \<Rightarrow> False
     | Some (w, content) \<Rightarrow> v = with_kind w content \<and> length ws < 2 ^ 8 \<and> distinct (map fst ws) \<and> w \<in> set (map fst ws)
       \<and> list_all (\<lambda>(i, x, c). x = w \<longrightarrow> typed sl c content) (enumerate 0 ws))"

text \<open>What is written.\<close>

definition fix_size :: "nat \<Rightarrow> byte list \<Rightarrow> byte list" where
  "fix_size n bs = take n (bs @ replicate (n - length bs) 0)"

definition size_prefix :: "codec \<Rightarrow> byte list \<Rightarrow> byte list" where
  "size_prefix p bs = (if p = U32Codec then le_bytes 4 (int (length bs)) else []) @ bs"

definition number_bytes :: "nat \<Rightarrow> cval \<Rightarrow> byte list" where
  "number_bytes k v = (case v of VNum n \<Rightarrow> le_bytes k (n mod 256 ^ k) | _ \<Rightarrow> [])"

fun doc_write :: "solana_lib \<Rightarrow> codec \<Rightarrow> cval \<Rightarrow> byte list" where
  "doc_write sl U8Codec v = number_bytes 1 v"
| "doc_write sl U32Codec v = number_bytes 4 v"
| "doc_write sl U64Codec v = number_bytes 8 v"
| "doc_write sl I64Codec v = number_bytes 8 v"
| "doc_write sl BooleanCodec v = (case v of VBool b \<Rightarrow> [if b then 1 else 0] | _ \<Rightarrow> [])"
| "doc_write sl AddressCodec v = (case v of VAddr a \<Rightarrow> orElse (address_bytes sl a) [] | _ \<Rightarrow> [])"
| "doc_write sl UnitCodec v = []"
| "doc_write sl BytesCodec v = (case v of VBytes bs \<Rightarrow> bs | _ \<Rightarrow> [])"
| "doc_write sl Utf8Codec v = (case v of VText s \<Rightarrow> bytes_of s | _ \<Rightarrow> [])"
| "doc_write sl (FixSize c n) v = fix_size n (doc_write sl c v)"
| "doc_write sl (SizePrefix c p) v = size_prefix p (doc_write sl c v)"
| "doc_write sl (OptionCodec c) v = (case v of VSome w \<Rightarrow> 1 # doc_write sl c w | _ \<Rightarrow> [0])"
| "doc_write sl (ArrayCodec c) v = (case v of VArray vs \<Rightarrow> le_bytes 4 (int (length vs)) @ concat (map (doc_write sl c) vs) | _ \<Rightarrow> [])"
| "doc_write sl (StructCodec fs) v = (case v of
     VObject ob \<Rightarrow> concat (map (\<lambda>(n, c). case map_of ob n of None \<Rightarrow> [] | Some w \<Rightarrow> doc_write sl c w) fs) | _ \<Rightarrow> [])"
| "doc_write sl (TupleCodec cs) v = (case v of VArray vs \<Rightarrow> concat (map (\<lambda>(c, w). doc_write sl c w) (zip cs vs)) | _ \<Rightarrow> [])"
| "doc_write sl (UnionCodec ws) v = (case variant_of v of None \<Rightarrow> []
     | Some (w, content) \<Rightarrow> concat (map (\<lambda>(i, x, c). if x = w then of_nat i # doc_write sl c content else []) (enumerate 0 ws)))"


text \<open>What is read, with the bytes behind it.\<close>

fun read_all :: "(byte list \<Rightarrow> ('a \<times> byte list) option) list \<Rightarrow> byte list \<Rightarrow> ('a list \<times> byte list) option" where
  "read_all [] bs = Some ([], bs)"
| "read_all (f # fs) bs = (case f bs of None \<Rightarrow> None
     | Some (x, bs') \<Rightarrow> map_option (\<lambda>(xs, bs''). (x # xs, bs'')) (read_all fs bs'))"

definition read_size :: "nat \<Rightarrow> byte list \<Rightarrow> (byte list \<times> byte list) option" where
  "read_size n bs = (if n \<le> length bs then Some (take n bs, drop n bs) else None)"

definition read_number :: "nat \<Rightarrow> byte list \<Rightarrow> (int \<times> byte list) option" where
  "read_number k bs = map_option (\<lambda>(a, b). (le_val a, b)) (read_size k bs)"

definition signed64 :: "int \<Rightarrow> int" where
  "signed64 n = (if n < 2 ^ 63 then n else n - 2 ^ 64)"

definition read_value :: "('a \<Rightarrow> cval) \<Rightarrow> ('a \<times> byte list) option \<Rightarrow> (cval \<times> byte list) option" where
  "read_value f r = map_option (\<lambda>(x, bs). (f x, bs)) r"

definition read_prefixed :: "codec \<Rightarrow> byte list \<Rightarrow> (byte list \<times> byte list) option" where
  "read_prefixed p bs = (if p = U32Codec
     then Option.bind (read_number 4 bs) (\<lambda>(n, bs'). read_size (nat n) bs') else None)"

fun doc_read :: "solana_lib \<Rightarrow> codec \<Rightarrow> byte list \<Rightarrow> (cval \<times> byte list) option" where
  "doc_read sl U8Codec bs = read_value VNum (read_number 1 bs)"
| "doc_read sl U32Codec bs = read_value VNum (read_number 4 bs)"
| "doc_read sl U64Codec bs = read_value VNum (read_number 8 bs)"
| "doc_read sl I64Codec bs = read_value (\<lambda>n. VNum (signed64 n)) (read_number 8 bs)"
| "doc_read sl BooleanCodec bs = read_value (\<lambda>n. VBool (n = 1)) (read_number 1 bs)"
| "doc_read sl AddressCodec bs = read_value (\<lambda>a. VAddr (pk_b58 sl a)) (read_size 32 bs)"
| "doc_read sl UnitCodec bs = Some (VObject [], bs)"
| "doc_read sl BytesCodec bs = Some (VBytes bs, [])"
| "doc_read sl Utf8Codec bs = Some (VText (map (\<lambda>b. char_of (unat b)) bs), [])"
| "doc_read sl (FixSize c n) bs = (case read_size n bs of None \<Rightarrow> None
     | Some (a, b) \<Rightarrow> map_option (\<lambda>(v, _). (v, b)) (doc_read sl c a))"
| "doc_read sl (SizePrefix c p) bs = (case read_prefixed p bs of None \<Rightarrow> None
     | Some (a, b) \<Rightarrow> map_option (\<lambda>(v, _). (v, b)) (doc_read sl c a))"
| "doc_read sl (OptionCodec c) bs = (case read_number 1 bs of None \<Rightarrow> None
     | Some (n, b) \<Rightarrow> if n = 0 then Some (VNone, b) else read_value VSome (doc_read sl c b))"
| "doc_read sl (ArrayCodec c) bs = (case read_number 4 bs of None \<Rightarrow> None
     | Some (n, b) \<Rightarrow> read_value VArray (read_all (replicate (nat n) (doc_read sl c)) b))"
| "doc_read sl (StructCodec fs) bs = read_value (\<lambda>vs. VObject (zip (map fst fs) vs)) (read_all (map (\<lambda>(n, c). doc_read sl c) fs) bs)"
| "doc_read sl (TupleCodec cs) bs = read_value VArray (read_all (map (doc_read sl) cs) bs)"
| "doc_read sl (UnionCodec ws) bs = (case read_number 1 bs of None \<Rightarrow> None
     | Some (n, b) \<Rightarrow> (case drop (nat n) (map (\<lambda>(x, c). read_value (with_kind x) (doc_read sl c b)) ws) of
         [] \<Rightarrow> None | r # _ \<Rightarrow> r))"


section \<open>Reading what was written\<close>

lemma read_number_bytes: "0 \<le> n \<Longrightarrow> n < 256 ^ k \<Longrightarrow> read_number k (number_bytes k (VNum n) @ rest) = Some (n, rest)"
  by (simp add: read_number_def read_size_def number_bytes_def le_val_bytes)

lemma read_le_bytes: "0 \<le> n \<Longrightarrow> n < 256 ^ k \<Longrightarrow> read_number k (le_bytes k n @ rest) = Some (n, rest)"
  by (simp add: read_number_def read_size_def le_val_bytes)

lemma read_byte: "read_number (Suc 0) (b # rest) = Some (uint b, rest)"
  by (simp add: read_number_def read_size_def)

lemma signed64_mod:
  assumes "- (2 ^ 63) \<le> n" and "n < 2 ^ 63"
  shows "signed64 (n mod 2 ^ 64) = n"
proof (cases "0 \<le> n")
  case True
  with assms show ?thesis by (simp add: signed64_def)
next
  case False
  have "n mod 2 ^ 64 = (n + 2 ^ 64) mod 2 ^ 64" by simp
  also have "\<dots> = n + 2 ^ 64" using False assms by (intro mod_pos_pos_trivial) simp_all
  finally show ?thesis using assms by (simp add: signed64_def)
qed

lemma read_all_map:
  assumes "\<And>t r. t \<in> set ts \<Longrightarrow> F t (W t @ r) = Some (X t, r)"
  shows "read_all (map F ts) (concat (map W ts) @ rest) = Some (map X ts, rest)"
  using assms by (induction ts) auto

lemma chars_of_bytes: "map (\<lambda>b. char_of (unat b)) (bytes_of s) = s"
proof -
  have "unat (of_nat (of_char c) :: byte) = of_char c" for c :: char
    using nat_of_char_less_256 [of c] by (simp add: unat_of_nat del: nat_of_char_less_256)
  then have "char_of (unat (of_char c :: byte)) = c" for c
    by (simp add: of_nat_of_char)
  then show ?thesis by (simp add: bytes_of_def comp_def)
qed

lemma concat_single:
  assumes "distinct (map k xs)" and "t \<in> set xs"
  shows "concat (map (\<lambda>u. if k u = k t then g u else []) xs) = g t"
  using assms by (induction xs) (auto simp: concat_eq_Nil_conv, (metis image_eqI)+)

lemma variant_read:
  assumes "(i, x, c) \<in> set (enumerate 0 ws)" and "length ws < 2 ^ 8"
    and "\<And>r. doc_read sl c (bs @ r) = Some (content, r)"
  shows "doc_read sl (UnionCodec ws) (of_nat i # bs @ rest) = Some (with_kind x content, rest)"
proof -
  have i: "i < length ws" "ws ! i = (x, c)" using assms(1) by (auto simp: in_set_enumerate_eq)
  have "uint (of_nat i :: byte) = int i" using i(1) assms(2) by (simp add: uint_nat unat_of_nat)
  then have n: "read_number (Suc 0) (of_nat i # bs @ rest) = Some (int i, bs @ rest)" by (simp add: read_byte)
  let ?f = "\<lambda>(x, c). read_value (with_kind x) (doc_read sl c (bs @ rest))"
  have "drop i (map ?f ws) = ?f (x, c) # drop (Suc i) (map ?f ws)"
    using i by (simp add: Cons_nth_drop_Suc [symmetric])
  then show ?thesis by (simp add: n read_value_def assms(3))
qed

text \<open>Reading gives back every value of the codec, and the bytes behind it are left.\<close>

lemma doc_read_write: "typed sl c v \<Longrightarrow> doc_read sl c (doc_write sl c v @ rest) = Some (v, rest)"
proof (induction sl c v arbitrary: rest rule: typed.induct)
  case (1 sl v) then show ?case
    by (auto simp: number_in_def read_value_def read_number_bytes split: cval.splits)
next
  case (2 sl v) then show ?case
    by (auto simp: number_in_def read_value_def read_number_bytes split: cval.splits)
next
  case (3 sl v) then show ?case
    by (auto simp: number_in_def read_value_def read_number_bytes split: cval.splits)
next
  case (4 sl v)
  then obtain n where v: "v = VNum n" "- (2 ^ 63) \<le> n" "n < 2 ^ 63" by (auto simp: number_in_def split: cval.splits)
  have "read_number 8 (number_bytes 8 v @ rest) = Some (n mod 2 ^ 64, rest)"
    by (simp add: v(1) number_bytes_def read_le_bytes)
  then show ?case using v signed64_mod [OF v(2,3)] by (simp add: read_value_def)
next
  case (5 sl v) then show ?case by (auto simp: read_value_def read_byte split: cval.splits)
next
  case (6 sl v) then show ?case
    by (auto simp: read_value_def read_size_def address_bytes_def split: cval.splits sum.splits if_splits)
next
  case (10 sl c n v) then show ?case by (auto simp: read_size_def fix_size_def split: cval.splits)
next
  case (11 sl c p v)
  then show ?case by (auto simp: read_prefixed_def size_prefix_def read_le_bytes read_size_def chars_of_bytes
        bytes_of_def [THEN arg_cong [where f = length]] split: cval.splits)
next
  case (12 sl c v) then show ?case by (auto simp: read_value_def read_byte split: cval.splits)
next
  case (13 sl c v)
  then obtain vs where v: "v = VArray vs" "length vs < 2 ^ 32" "\<And>w. w \<in> set vs \<Longrightarrow> typed sl c w"
    by (auto simp: list_all_iff split: cval.splits)
  have IH: "doc_read sl c (doc_write sl c w @ r) = Some (w, r)" if "w \<in> set vs" for w r
    using 13(1) [OF v(1) that] v(3) [OF that] by simp
  have "read_all (map (\<lambda>w. doc_read sl c) vs) (concat (map (doc_write sl c) vs) @ rest) = Some (map (\<lambda>w. w) vs, rest)"
    by (rule read_all_map) (rule IH)
  then show ?case using v(2) by (simp add: v(1) read_le_bytes read_value_def map_replicate_const)
next
  case (14 sl fs v)
  then obtain ob where v: "v = VObject ob" "map fst ob = map fst fs" "distinct (map fst fs)"
    "\<And>n c m w. ((n, c), (m, w)) \<in> set (zip fs ob) \<Longrightarrow> typed sl c w"
    by (fastforce simp: list_all_iff split: cval.splits)
  have len: "length fs = length ob" using v(2) by (metis length_map)
  let ?z = "zip fs ob"
  have IH: "doc_read sl (snd (fst t)) (doc_write sl (snd (fst t)) (snd (snd t)) @ r) = Some (snd (snd t), r)"
    if "t \<in> set ?z" for t r
  proof -
    obtain n c m w where t: "t = ((n, c), (m, w))" by (metis prod.collapse)
    have "typed sl c w" using v(4) that t by blast
    then show ?thesis using 14(1) [OF v(1) that [unfolded t] refl refl, of w r] by (simp add: t)
  qed
  have fs: "fs = map fst ?z" and ob: "ob = map snd ?z" using len by simp_all
  have "map_of ob (fst (fst t)) = Some (snd (snd t))" if "t \<in> set ?z" for t
  proof -
    have "\<exists>i<length ob. t = (fs ! i, ob ! i)" using that len by (auto simp: set_zip)
    then obtain i where i: "i < length ob" "t = (fs ! i, ob ! i)" by blast
    have "fst (fs ! i) = fst (ob ! i)" using i(1) len v(2) by (metis nth_map)
    moreover have "distinct (map fst ob)" using v(2,3) by simp
    ultimately show ?thesis using i by (simp add: map_of_eq_Some_iff)
  qed
  then have wr: "doc_write sl (StructCodec fs) v = concat (map (\<lambda>t. doc_write sl (snd (fst t)) (snd (snd t))) ?z)"
    by (subst fs) (auto simp: v(1) comp_def split_beta intro!: arg_cong [where f = concat] map_cong)
  have "read_all (map (\<lambda>t. doc_read sl (snd (fst t))) ?z)
      (concat (map (\<lambda>t. doc_write sl (snd (fst t)) (snd (snd t))) ?z) @ rest) = Some (map (\<lambda>t. snd (snd t)) ?z, rest)"
    by (rule read_all_map) (rule IH)
  moreover have "map (\<lambda>(n, c). doc_read sl c) fs = map (\<lambda>t. doc_read sl (snd (fst t))) ?z"
    by (subst fs) (simp add: comp_def split_beta)
  moreover have "map (\<lambda>t. snd (snd t)) ?z = map snd ob" by (subst (2) ob) (simp add: comp_def)
  moreover have "zip (map fst fs) (map snd ob) = ob" by (simp add: v(2) [symmetric] zip_map_fst_snd)
  ultimately show ?case by (simp only: wr) (simp add: read_value_def v(1))
next
  case (15 sl cs v)
  then obtain vs where v: "v = VArray vs" "length vs = length cs"
    "\<And>c w. (c, w) \<in> set (zip cs vs) \<Longrightarrow> typed sl c w"
    by (fastforce simp: list_all_iff split: cval.splits)
  let ?z = "zip cs vs"
  have IH: "doc_read sl (fst t) (doc_write sl (fst t) (snd t) @ r) = Some (snd t, r)" if "t \<in> set ?z" for t r
  proof -
    obtain c w where t: "t = (c, w)" by (metis prod.collapse)
    have "typed sl c w" using v(3) that t by blast
    then show ?thesis using 15(1) [OF v(1) that [unfolded t] refl] by (simp add: t)
  qed
  have "read_all (map (\<lambda>t. doc_read sl (fst t)) ?z) (concat (map (\<lambda>t. doc_write sl (fst t) (snd t)) ?z) @ rest)
      = Some (map snd ?z, rest)"
    by (rule read_all_map) (rule IH)
  moreover have "cs = map fst ?z" and vs: "map snd ?z = vs" using v(2) by simp_all
  moreover from this(1) have "map (doc_read sl) cs = map (\<lambda>t. doc_read sl (fst t)) ?z"
    by (metis (no_types, lifting) comp_apply map_eq_conv map_map)
  ultimately show ?case by (simp add: v(1) case_prod_unfold read_value_def)
next
  case (16 sl ws v)
  obtain w content where v1: "variant_of v = Some (w, content)" using 16(2) by (cases "variant_of v") auto
  have t: "v = with_kind w content \<and> length ws < 2 ^ 8 \<and> distinct (map fst ws) \<and> w \<in> set (map fst ws)
      \<and> list_all (\<lambda>(i, x, c). x = w \<longrightarrow> typed sl c content) (enumerate 0 ws)"
    using 16(2) by (simp only: typed.simps v1 option.case prod.case)
  have v: "variant_of v = Some (w, content)" "v = with_kind w content" "length ws < 2 ^ 8" "distinct (map fst ws)"
    "w \<in> set (map fst ws)" using v1 t by blast+
  have ty: "typed sl c content" if "(i, w, c) \<in> set (enumerate 0 ws)" for i c
    using t that unfolding list_all_iff by blast
  have "map (\<lambda>t. fst (snd t)) (enumerate 0 ws) = map fst (map snd (enumerate 0 ws))"
    by (simp only: map_map comp_def)
  also have "\<dots> = map fst ws" by (simp only: map_snd_enumerate)
  finally have k: "map (\<lambda>t. fst (snd t)) (enumerate 0 ws) = map fst ws" .
  have "w \<in> set (map (\<lambda>t. fst (snd t)) (enumerate 0 ws))" using v(5) by (simp only: k)
  then have "\<exists>t. t \<in> set (enumerate 0 ws) \<and> fst (snd t) = w" unfolding set_map by blast
  then obtain i c where ic: "(i, w, c) \<in> set (enumerate 0 ws)" by (metis prod.collapse)
  have "concat (map (\<lambda>t. if fst (snd t) = fst (snd (i, w, c)) then of_nat (fst t) # doc_write sl (snd (snd t)) content else [])
      (enumerate 0 ws)) = of_nat (fst (i, w, c)) # doc_write sl (snd (snd (i, w, c))) content"
    by (rule concat_single [OF _ ic]) (simp add: k v(4))
  then have wr: "doc_write sl (UnionCodec ws) v = of_nat i # doc_write sl c content"
    by (simp add: v(1)) (simp add: case_prod_unfold)
  have "doc_read sl c (doc_write sl c content @ r) = Some (content, r)" for r
    using 16(1) [OF v(1) refl ic] ty [OF ic] by simp
  then show ?case unfolding wr using variant_read [OF ic v(3)] v(2) by simp
qed (auto split: cval.splits)

end
