(* ===== verification/Cod_Client.thy ===== *)
theory Cod_Client
  imports Cod_Kit
begin

text \<open>
  The statements the functions of the generated client are made of: encoding with a
  discriminator, the accounts of an instruction and their default values, the instruction, and
  its parser. The functions themselves, one by one, are the theories \<open>Cod_Types\<close>,
  \<open>Cod_Accounts\<close>, \<open>Cod_Ix_*\<close> and \<open>Cod_Program\<close>.
\<close>

definition VALIDATOR_BONDS_PROGRAM_ADDRESS :: string where
  "VALIDATOR_BONDS_PROGRAM_ADDRESS = ''vBoNdEvzMrSai7is21XgVYik65mqtaKXuSdMBJ1xkW4''"

section \<open>Data\<close>

definition fixed_bytes :: "kit \<Rightarrow> byte list \<Rightarrow> byte list res" where
  "fixed_bytes kit bs = k_encode kit (FixSize BytesCodec 8) (VBytes bs)"

definition encode_data :: "kit \<Rightarrow> encoder \<Rightarrow> (string, cval) jsmap \<Rightarrow> byte list res" where
  "encode_data kit enc value = (case enc of WithDiscriminator c d \<Rightarrow>
     k_encode kit c (VObject (jsmap_set ''discriminator'' (VBytes d) value)))"

section \<open>Accounts of an instruction\<close>

record ix_input =
  in_accounts :: "(string, resolved_value) jsmap"
  in_args :: "(string, cval) jsmap"

type_synonym ix_accounts = "(string, resolved_value option \<times> bool) jsmap"

datatype input_kind = InAddress | InSigner | InArg

text \<open>An account is given unless its value is \<open>null\<close> or an empty text.\<close>

definition is_given :: "resolved_value option \<Rightarrow> bool" where
  "is_given r \<longleftrightarrow> r \<noteq> None \<and> r \<noteq> Some (AddressValue '''')"

definition original_accounts :: "ix_input \<Rightarrow> (string \<times> bool) list \<Rightarrow> ix_accounts" where
  "original_accounts input = map (\<lambda>(n, isWritable). (n, jsmap_get (in_accounts input) n, isWritable))"

definition account_of :: "ix_accounts \<Rightarrow> string \<Rightarrow> resolved_value option \<times> bool" where
  "account_of accounts n = orElse (jsmap_get accounts n) (None, False)"

definition set_value :: "ix_accounts \<Rightarrow> string \<Rightarrow> resolved_value \<Rightarrow> ix_accounts" where
  "set_value accounts n v = map (\<lambda>(m, r, w). (m, if m = n then Some v else r, w)) accounts"

datatype seed = SeedBytes "byte list" | SeedAccount string

datatype default_value = DerivedFrom "seed list" | DerivedBy string "seed list" | FixedAddress string

definition seed_bytes :: "kit \<Rightarrow> ix_accounts \<Rightarrow> seed \<Rightarrow> byte list res" where
  "seed_bytes kit accounts s = (case s of
       SeedBytes bs \<Rightarrow> k_encode kit BytesCodec (VBytes bs)
     | SeedAccount n \<Rightarrow> rbind (k_addressOf kit n (fst (account_of accounts n))) (\<lambda>a.
         k_encode kit AddressCodec (VAddr a)))"

definition derive_value :: "kit \<Rightarrow> string \<Rightarrow> ix_accounts \<Rightarrow> seed list \<Rightarrow> resolved_value res" where
  "derive_value kit programAddress accounts seeds = rbind (rmapM (seed_bytes kit accounts) seeds) (\<lambda>bs.
     rbind (k_programDerivedAddress kit programAddress bs) (\<lambda>(a, bump). Inr (PdaValue a bump)))"

definition default_of :: "kit \<Rightarrow> string \<Rightarrow> ix_accounts \<Rightarrow> default_value \<Rightarrow> resolved_value res" where
  "default_of kit programAddress accounts d = (case d of
       DerivedFrom seeds \<Rightarrow> derive_value kit programAddress accounts seeds
     | DerivedBy program seeds \<Rightarrow> derive_value kit program accounts seeds
     | FixedAddress a \<Rightarrow> Inr (AddressValue a))"

text \<open>\<open>if (!accounts.n.value) accounts.n.value = ...\<close>\<close>

definition resolve_default :: "kit \<Rightarrow> string \<Rightarrow> ix_accounts \<Rightarrow> string \<times> default_value \<Rightarrow> ix_accounts res" where
  "resolve_default kit programAddress accounts nd = (case nd of (n, d) \<Rightarrow>
     if is_given (fst (account_of accounts n)) then Inr accounts
     else rbind (default_of kit programAddress accounts d) (\<lambda>v. Inr (set_value accounts n v)))"

definition resolve_defaults :: "kit \<Rightarrow> string \<Rightarrow> (string \<times> default_value) list \<Rightarrow> ix_accounts \<Rightarrow> ix_accounts res" where
  "resolve_defaults kit programAddress ds accounts = rfoldM (resolve_default kit programAddress) accounts ds"

definition account_metas :: "kit \<Rightarrow> string \<Rightarrow> ix_accounts \<Rightarrow> string list \<Rightarrow> account_meta list" where
  "account_metas kit programAddress accounts = map (\<lambda>n. k_accountMeta kit programAddress n (account_of accounts n))"

definition instruction_of :: "kit \<Rightarrow> string \<Rightarrow> ix_accounts \<Rightarrow> string list \<Rightarrow> encoder \<Rightarrow> (string, cval) jsmap \<Rightarrow> kit_instruction res" where
  "instruction_of kit programAddress accounts names enc args = rbind (encode_data kit enc args) (\<lambda>data.
     Inr \<lparr> ki_accounts = Some (account_metas kit programAddress accounts names), ki_data = data,
       ki_programAddress = programAddress \<rparr>)"

section \<open>Parsed instructions\<close>

record parsed_instruction =
  pi_programAddress :: string
  pi_accounts :: "(string, account_meta option) jsmap"
  pi_data :: cval

text \<open>\<open>getNextAccount\<close> and \<open>getNextOptionalAccount\<close>, in the order of the names.\<close>

fun next_accounts :: "(string \<times> bool) list \<Rightarrow> account_meta list \<Rightarrow> (string, account_meta option) jsmap" where
  "next_accounts ((n, optional) # ns) (m # ms) =
     (n, if optional \<and> am_address m = VALIDATOR_BONDS_PROGRAM_ADDRESS then None else Some m) # next_accounts ns ms"
| "next_accounts _ _ = []"

definition parse_from :: "kit \<Rightarrow> nat \<Rightarrow> (string \<times> bool) list \<Rightarrow> codec \<Rightarrow> kit_instruction \<Rightarrow> parsed_instruction res" where
  "parse_from kit expected names dec ix = (let accounts = orElse (ki_accounts ix) [] in
     if length accounts < expected then throw EError
       (''INSUFFICIENT_ACCOUNT_METAS: '' @ nat_str (length accounts) @ '' of '' @ nat_str expected)
     else rbind (k_decode kit dec (ki_data ix)) (\<lambda>data.
       Inr \<lparr> pi_programAddress = ki_programAddress ix, pi_accounts = next_accounts names accounts, pi_data = data \<rparr>))"

section \<open>Identification\<close>

text \<open>The first discriminator the data starts with.\<close>

fun identify :: "kit \<Rightarrow> (byte list \<times> 'a) list \<Rightarrow> byte list \<Rightarrow> js_error \<Rightarrow> 'a res" where
  "identify kit [] data e = Inl e"
| "identify kit ((d, x) # ds) data e = rbind (fixed_bytes kit d) (\<lambda>bs.
     if k_containsBytes kit data bs 0 then Inr x else identify kit ds data e)"

end
