(* ===== verification/Cod_Types.thy ===== *)
theory Cod_Types
  imports Cod_Client
begin

text \<open>
  The types of the generated client and their codecs, one section per file of
  \<open>packages/validator-bonds-codama/src/types\<close>.
\<close>

section \<open>U64ValueChange\<close>

definition U64ValueChange_type :: "ts_type" where
  "U64ValueChange_type = TObject [(''old'', TBigint),
     (''new'', TBigint)]"

definition U64ValueChangeArgs_type :: "ts_type" where
  "U64ValueChangeArgs_type = TObject [(''old'', TNumberOrBigint),
     (''new'', TNumberOrBigint)]"

definition getU64ValueChangeEncoder :: "codec" where
  "getU64ValueChangeEncoder = StructCodec [(''old'', U64Codec),
     (''new'', U64Codec)]"

definition getU64ValueChangeDecoder :: "codec" where
  "getU64ValueChangeDecoder = StructCodec [(''old'', U64Codec),
     (''new'', U64Codec)]"

definition getU64ValueChangeCodec :: "codec \<times> codec" where
  "getU64ValueChangeCodec = (getU64ValueChangeEncoder, getU64ValueChangeDecoder)"

section \<open>PubkeyValueChange\<close>

definition PubkeyValueChange_type :: "ts_type" where
  "PubkeyValueChange_type = TObject [(''old'', TAddress),
     (''new'', TAddress)]"

definition PubkeyValueChangeArgs_type :: "ts_type" where
  "PubkeyValueChangeArgs_type = PubkeyValueChange_type"

definition getPubkeyValueChangeEncoder :: "codec" where
  "getPubkeyValueChangeEncoder = StructCodec [(''old'', AddressCodec),
     (''new'', AddressCodec)]"

definition getPubkeyValueChangeDecoder :: "codec" where
  "getPubkeyValueChangeDecoder = StructCodec [(''old'', AddressCodec),
     (''new'', AddressCodec)]"

definition getPubkeyValueChangeCodec :: "codec \<times> codec" where
  "getPubkeyValueChangeCodec = (getPubkeyValueChangeEncoder, getPubkeyValueChangeDecoder)"

section \<open>DelegationInfo\<close>

definition DelegationInfo_type :: "ts_type" where
  "DelegationInfo_type = TObject [(''voterPubkey'', TAddress),
     (''stake'', TBigint),
     (''activationEpoch'', TBigint),
     (''deactivationEpoch'', TBigint)]"

definition DelegationInfoArgs_type :: "ts_type" where
  "DelegationInfoArgs_type = TObject [(''voterPubkey'', TAddress),
     (''stake'', TNumberOrBigint),
     (''activationEpoch'', TNumberOrBigint),
     (''deactivationEpoch'', TNumberOrBigint)]"

definition getDelegationInfoEncoder :: "codec" where
  "getDelegationInfoEncoder = StructCodec [(''voterPubkey'', AddressCodec),
     (''stake'', U64Codec),
     (''activationEpoch'', U64Codec),
     (''deactivationEpoch'', U64Codec)]"

definition getDelegationInfoDecoder :: "codec" where
  "getDelegationInfoDecoder = StructCodec [(''voterPubkey'', AddressCodec),
     (''stake'', U64Codec),
     (''activationEpoch'', U64Codec),
     (''deactivationEpoch'', U64Codec)]"

definition getDelegationInfoCodec :: "codec \<times> codec" where
  "getDelegationInfoCodec = (getDelegationInfoEncoder, getDelegationInfoDecoder)"

section \<open>SplitStakeData\<close>

definition SplitStakeData_type :: "ts_type" where
  "SplitStakeData_type = TObject [(''address'', TAddress),
     (''amount'', TBigint)]"

definition SplitStakeDataArgs_type :: "ts_type" where
  "SplitStakeDataArgs_type = TObject [(''address'', TAddress),
     (''amount'', TNumberOrBigint)]"

definition getSplitStakeDataEncoder :: "codec" where
  "getSplitStakeDataEncoder = StructCodec [(''address'', AddressCodec),
     (''amount'', U64Codec)]"

definition getSplitStakeDataDecoder :: "codec" where
  "getSplitStakeDataDecoder = StructCodec [(''address'', AddressCodec),
     (''amount'', U64Codec)]"

definition getSplitStakeDataCodec :: "codec \<times> codec" where
  "getSplitStakeDataCodec = (getSplitStakeDataEncoder, getSplitStakeDataDecoder)"

section \<open>Bumps\<close>

definition Bumps_type :: "ts_type" where
  "Bumps_type = TObject [(''pda'', TNumber),
     (''stakerAuthority'', TNumber),
     (''settlementClaims'', TNumber)]"

definition BumpsArgs_type :: "ts_type" where
  "BumpsArgs_type = Bumps_type"

definition getBumpsEncoder :: "codec" where
  "getBumpsEncoder = StructCodec [(''pda'', U8Codec),
     (''stakerAuthority'', U8Codec),
     (''settlementClaims'', U8Codec)]"

definition getBumpsDecoder :: "codec" where
  "getBumpsDecoder = StructCodec [(''pda'', U8Codec),
     (''stakerAuthority'', U8Codec),
     (''settlementClaims'', U8Codec)]"

definition getBumpsCodec :: "codec \<times> codec" where
  "getBumpsCodec = (getBumpsEncoder, getBumpsDecoder)"

section \<open>CommissionProductConfig\<close>

definition CommissionProductConfig_type :: "ts_type" where
  "CommissionProductConfig_type = TObject [(''inflationBps'', TOption TBigint),
     (''mevBps'', TOption TBigint),
     (''blockBps'', TOption TBigint)]"

definition CommissionProductConfigArgs_type :: "ts_type" where
  "CommissionProductConfigArgs_type = TObject [(''inflationBps'', TOptionOrNullable TNumberOrBigint),
     (''mevBps'', TOptionOrNullable TNumberOrBigint),
     (''blockBps'', TOptionOrNullable TNumberOrBigint)]"

definition getCommissionProductConfigEncoder :: "codec" where
  "getCommissionProductConfigEncoder = StructCodec [(''inflationBps'', OptionCodec I64Codec),
     (''mevBps'', OptionCodec I64Codec),
     (''blockBps'', OptionCodec I64Codec)]"

definition getCommissionProductConfigDecoder :: "codec" where
  "getCommissionProductConfigDecoder = StructCodec [(''inflationBps'', OptionCodec I64Codec),
     (''mevBps'', OptionCodec I64Codec),
     (''blockBps'', OptionCodec I64Codec)]"

definition getCommissionProductConfigCodec :: "codec \<times> codec" where
  "getCommissionProductConfigCodec = (getCommissionProductConfigEncoder, getCommissionProductConfigDecoder)"

section \<open>ProductType\<close>

definition ProductType_type :: "ts_type" where
  "ProductType_type = TUnion [(''Commission'', []), (''Custom'', [TString])]"

definition ProductTypeArgs_type :: "ts_type" where
  "ProductTypeArgs_type = ProductType_type"

definition getProductTypeEncoder :: "codec" where
  "getProductTypeEncoder = UnionCodec [(''Commission'', UnitCodec),
     (''Custom'', StructCodec [(''fields'', TupleCodec [SizePrefix Utf8Codec U32Codec])])]"

definition getProductTypeDecoder :: "codec" where
  "getProductTypeDecoder = UnionCodec [(''Commission'', UnitCodec),
     (''Custom'', StructCodec [(''fields'', TupleCodec [SizePrefix Utf8Codec U32Codec])])]"

definition getProductTypeCodec :: "codec \<times> codec" where
  "getProductTypeCodec = (getProductTypeEncoder, getProductTypeDecoder)"

definition productType :: "string \<Rightarrow> cval list option \<Rightarrow> cval" where
  "productType kind data = VObject ((''__kind'', VText kind) # (case data of Some fs \<Rightarrow> [(''fields'', VArray fs)] | None \<Rightarrow> []))"

definition isProductType :: "string \<Rightarrow> cval \<Rightarrow> bool" where
  "isProductType kind value = (case value of VObject ob \<Rightarrow> map_of ob ''__kind'' = Some (VText kind) | _ \<Rightarrow> False)"

section \<open>ProductTypeConfig\<close>

definition ProductTypeConfig_type :: "ts_type" where
  "ProductTypeConfig_type = TUnion [(''Commission'', [CommissionProductConfig_type]), (''Custom'', [TBytes])]"

definition ProductTypeConfigArgs_type :: "ts_type" where
  "ProductTypeConfigArgs_type = TUnion [(''Commission'', [CommissionProductConfigArgs_type]), (''Custom'', [TBytes])]"

definition getProductTypeConfigEncoder :: "codec" where
  "getProductTypeConfigEncoder = UnionCodec [(''Commission'', StructCodec [(''fields'', TupleCodec [getCommissionProductConfigEncoder])]),
     (''Custom'', StructCodec [(''fields'', TupleCodec [SizePrefix BytesCodec U32Codec])])]"

definition getProductTypeConfigDecoder :: "codec" where
  "getProductTypeConfigDecoder = UnionCodec [(''Commission'', StructCodec [(''fields'', TupleCodec [getCommissionProductConfigDecoder])]),
     (''Custom'', StructCodec [(''fields'', TupleCodec [SizePrefix BytesCodec U32Codec])])]"

definition getProductTypeConfigCodec :: "codec \<times> codec" where
  "getProductTypeConfigCodec = (getProductTypeConfigEncoder, getProductTypeConfigDecoder)"

definition productTypeConfig :: "string \<Rightarrow> cval list option \<Rightarrow> cval" where
  "productTypeConfig kind data = VObject ((''__kind'', VText kind) # (case data of Some fs \<Rightarrow> [(''fields'', VArray fs)] | None \<Rightarrow> []))"

definition isProductTypeConfig :: "string \<Rightarrow> cval \<Rightarrow> bool" where
  "isProductTypeConfig kind value = (case value of VObject ob \<Rightarrow> map_of ob ''__kind'' = Some (VText kind) | _ \<Rightarrow> False)"

section \<open>CancelSettlementEvent\<close>

definition CancelSettlementEvent_type :: "ts_type" where
  "CancelSettlementEvent_type = TObject [(''bond'', TAddress),
     (''settlement'', TAddress),
     (''merkleRoot'', TBytes),
     (''maxTotalClaim'', TBigint),
     (''maxMerkleNodes'', TBigint),
     (''lamportsFunded'', TBigint),
     (''lamportsClaimed'', TBigint),
     (''merkleNodesClaimed'', TBigint),
     (''splitRentCollector'', TOption TAddress),
     (''splitRentRefund'', TOption TAddress),
     (''rentCollector'', TAddress),
     (''authority'', TAddress)]"

definition CancelSettlementEventArgs_type :: "ts_type" where
  "CancelSettlementEventArgs_type = TObject [(''bond'', TAddress),
     (''settlement'', TAddress),
     (''merkleRoot'', TBytes),
     (''maxTotalClaim'', TNumberOrBigint),
     (''maxMerkleNodes'', TNumberOrBigint),
     (''lamportsFunded'', TNumberOrBigint),
     (''lamportsClaimed'', TNumberOrBigint),
     (''merkleNodesClaimed'', TNumberOrBigint),
     (''splitRentCollector'', TOptionOrNullable TAddress),
     (''splitRentRefund'', TOptionOrNullable TAddress),
     (''rentCollector'', TAddress),
     (''authority'', TAddress)]"

definition getCancelSettlementEventEncoder :: "codec" where
  "getCancelSettlementEventEncoder = StructCodec [(''bond'', AddressCodec),
     (''settlement'', AddressCodec),
     (''merkleRoot'', FixSize BytesCodec 32),
     (''maxTotalClaim'', U64Codec),
     (''maxMerkleNodes'', U64Codec),
     (''lamportsFunded'', U64Codec),
     (''lamportsClaimed'', U64Codec),
     (''merkleNodesClaimed'', U64Codec),
     (''splitRentCollector'', OptionCodec AddressCodec),
     (''splitRentRefund'', OptionCodec AddressCodec),
     (''rentCollector'', AddressCodec),
     (''authority'', AddressCodec)]"

definition getCancelSettlementEventDecoder :: "codec" where
  "getCancelSettlementEventDecoder = StructCodec [(''bond'', AddressCodec),
     (''settlement'', AddressCodec),
     (''merkleRoot'', FixSize BytesCodec 32),
     (''maxTotalClaim'', U64Codec),
     (''maxMerkleNodes'', U64Codec),
     (''lamportsFunded'', U64Codec),
     (''lamportsClaimed'', U64Codec),
     (''merkleNodesClaimed'', U64Codec),
     (''splitRentCollector'', OptionCodec AddressCodec),
     (''splitRentRefund'', OptionCodec AddressCodec),
     (''rentCollector'', AddressCodec),
     (''authority'', AddressCodec)]"

definition getCancelSettlementEventCodec :: "codec \<times> codec" where
  "getCancelSettlementEventCodec = (getCancelSettlementEventEncoder, getCancelSettlementEventDecoder)"

section \<open>CancelWithdrawRequestEvent\<close>

definition CancelWithdrawRequestEvent_type :: "ts_type" where
  "CancelWithdrawRequestEvent_type = TObject [(''withdrawRequest'', TAddress),
     (''bond'', TAddress),
     (''authority'', TAddress),
     (''requestedAmount'', TBigint),
     (''withdrawnAmount'', TBigint)]"

definition CancelWithdrawRequestEventArgs_type :: "ts_type" where
  "CancelWithdrawRequestEventArgs_type = TObject [(''withdrawRequest'', TAddress),
     (''bond'', TAddress),
     (''authority'', TAddress),
     (''requestedAmount'', TNumberOrBigint),
     (''withdrawnAmount'', TNumberOrBigint)]"

definition getCancelWithdrawRequestEventEncoder :: "codec" where
  "getCancelWithdrawRequestEventEncoder = StructCodec [(''withdrawRequest'', AddressCodec),
     (''bond'', AddressCodec),
     (''authority'', AddressCodec),
     (''requestedAmount'', U64Codec),
     (''withdrawnAmount'', U64Codec)]"

definition getCancelWithdrawRequestEventDecoder :: "codec" where
  "getCancelWithdrawRequestEventDecoder = StructCodec [(''withdrawRequest'', AddressCodec),
     (''bond'', AddressCodec),
     (''authority'', AddressCodec),
     (''requestedAmount'', U64Codec),
     (''withdrawnAmount'', U64Codec)]"

definition getCancelWithdrawRequestEventCodec :: "codec \<times> codec" where
  "getCancelWithdrawRequestEventCodec = (getCancelWithdrawRequestEventEncoder, getCancelWithdrawRequestEventDecoder)"

section \<open>ClaimSettlementEvent\<close>

definition ClaimSettlementEvent_type :: "ts_type" where
  "ClaimSettlementEvent_type = TObject [(''settlementClaim'', TAddress),
     (''settlement'', TAddress),
     (''settlementLamportsClaimed'', U64ValueChange_type),
     (''settlementMerkleNodesClaimed'', TBigint),
     (''stakeAccountTo'', TAddress),
     (''stakeAccountWithdrawer'', TAddress),
     (''stakeAccountStaker'', TAddress),
     (''amount'', TBigint),
     (''rentCollector'', TAddress)]"

definition ClaimSettlementEventArgs_type :: "ts_type" where
  "ClaimSettlementEventArgs_type = TObject [(''settlementClaim'', TAddress),
     (''settlement'', TAddress),
     (''settlementLamportsClaimed'', U64ValueChangeArgs_type),
     (''settlementMerkleNodesClaimed'', TNumberOrBigint),
     (''stakeAccountTo'', TAddress),
     (''stakeAccountWithdrawer'', TAddress),
     (''stakeAccountStaker'', TAddress),
     (''amount'', TNumberOrBigint),
     (''rentCollector'', TAddress)]"

definition getClaimSettlementEventEncoder :: "codec" where
  "getClaimSettlementEventEncoder = StructCodec [(''settlementClaim'', AddressCodec),
     (''settlement'', AddressCodec),
     (''settlementLamportsClaimed'', getU64ValueChangeEncoder),
     (''settlementMerkleNodesClaimed'', U64Codec),
     (''stakeAccountTo'', AddressCodec),
     (''stakeAccountWithdrawer'', AddressCodec),
     (''stakeAccountStaker'', AddressCodec),
     (''amount'', U64Codec),
     (''rentCollector'', AddressCodec)]"

definition getClaimSettlementEventDecoder :: "codec" where
  "getClaimSettlementEventDecoder = StructCodec [(''settlementClaim'', AddressCodec),
     (''settlement'', AddressCodec),
     (''settlementLamportsClaimed'', getU64ValueChangeDecoder),
     (''settlementMerkleNodesClaimed'', U64Codec),
     (''stakeAccountTo'', AddressCodec),
     (''stakeAccountWithdrawer'', AddressCodec),
     (''stakeAccountStaker'', AddressCodec),
     (''amount'', U64Codec),
     (''rentCollector'', AddressCodec)]"

definition getClaimSettlementEventCodec :: "codec \<times> codec" where
  "getClaimSettlementEventCodec = (getClaimSettlementEventEncoder, getClaimSettlementEventDecoder)"

section \<open>ClaimSettlementV2Event\<close>

definition ClaimSettlementV2Event_type :: "ts_type" where
  "ClaimSettlementV2Event_type = TObject [(''settlement'', TAddress),
     (''settlementLamportsClaimed'', U64ValueChange_type),
     (''settlementMerkleNodesClaimed'', TBigint),
     (''stakeAccountTo'', TAddress),
     (''stakeAccountWithdrawer'', TAddress),
     (''stakeAccountStaker'', TAddress),
     (''amount'', TBigint),
     (''index'', TBigint)]"

definition ClaimSettlementV2EventArgs_type :: "ts_type" where
  "ClaimSettlementV2EventArgs_type = TObject [(''settlement'', TAddress),
     (''settlementLamportsClaimed'', U64ValueChangeArgs_type),
     (''settlementMerkleNodesClaimed'', TNumberOrBigint),
     (''stakeAccountTo'', TAddress),
     (''stakeAccountWithdrawer'', TAddress),
     (''stakeAccountStaker'', TAddress),
     (''amount'', TNumberOrBigint),
     (''index'', TNumberOrBigint)]"

definition getClaimSettlementV2EventEncoder :: "codec" where
  "getClaimSettlementV2EventEncoder = StructCodec [(''settlement'', AddressCodec),
     (''settlementLamportsClaimed'', getU64ValueChangeEncoder),
     (''settlementMerkleNodesClaimed'', U64Codec),
     (''stakeAccountTo'', AddressCodec),
     (''stakeAccountWithdrawer'', AddressCodec),
     (''stakeAccountStaker'', AddressCodec),
     (''amount'', U64Codec),
     (''index'', U64Codec)]"

definition getClaimSettlementV2EventDecoder :: "codec" where
  "getClaimSettlementV2EventDecoder = StructCodec [(''settlement'', AddressCodec),
     (''settlementLamportsClaimed'', getU64ValueChangeDecoder),
     (''settlementMerkleNodesClaimed'', U64Codec),
     (''stakeAccountTo'', AddressCodec),
     (''stakeAccountWithdrawer'', AddressCodec),
     (''stakeAccountStaker'', AddressCodec),
     (''amount'', U64Codec),
     (''index'', U64Codec)]"

definition getClaimSettlementV2EventCodec :: "codec \<times> codec" where
  "getClaimSettlementV2EventCodec = (getClaimSettlementV2EventEncoder, getClaimSettlementV2EventDecoder)"

section \<open>ClaimWithdrawRequestEvent\<close>

definition ClaimWithdrawRequestEvent_type :: "ts_type" where
  "ClaimWithdrawRequestEvent_type = TObject [(''withdrawRequest'', TAddress),
     (''bond'', TAddress),
     (''voteAccount'', TAddress),
     (''stakeAccount'', TAddress),
     (''splitStake'', TOption SplitStakeData_type),
     (''newStakeAccountOwner'', TAddress),
     (''withdrawingAmount'', TBigint),
     (''withdrawnAmount'', U64ValueChange_type)]"

definition ClaimWithdrawRequestEventArgs_type :: "ts_type" where
  "ClaimWithdrawRequestEventArgs_type = TObject [(''withdrawRequest'', TAddress),
     (''bond'', TAddress),
     (''voteAccount'', TAddress),
     (''stakeAccount'', TAddress),
     (''splitStake'', TOptionOrNullable SplitStakeDataArgs_type),
     (''newStakeAccountOwner'', TAddress),
     (''withdrawingAmount'', TNumberOrBigint),
     (''withdrawnAmount'', U64ValueChangeArgs_type)]"

definition getClaimWithdrawRequestEventEncoder :: "codec" where
  "getClaimWithdrawRequestEventEncoder = StructCodec [(''withdrawRequest'', AddressCodec),
     (''bond'', AddressCodec),
     (''voteAccount'', AddressCodec),
     (''stakeAccount'', AddressCodec),
     (''splitStake'', OptionCodec getSplitStakeDataEncoder),
     (''newStakeAccountOwner'', AddressCodec),
     (''withdrawingAmount'', U64Codec),
     (''withdrawnAmount'', getU64ValueChangeEncoder)]"

definition getClaimWithdrawRequestEventDecoder :: "codec" where
  "getClaimWithdrawRequestEventDecoder = StructCodec [(''withdrawRequest'', AddressCodec),
     (''bond'', AddressCodec),
     (''voteAccount'', AddressCodec),
     (''stakeAccount'', AddressCodec),
     (''splitStake'', OptionCodec getSplitStakeDataDecoder),
     (''newStakeAccountOwner'', AddressCodec),
     (''withdrawingAmount'', U64Codec),
     (''withdrawnAmount'', getU64ValueChangeDecoder)]"

definition getClaimWithdrawRequestEventCodec :: "codec \<times> codec" where
  "getClaimWithdrawRequestEventCodec = (getClaimWithdrawRequestEventEncoder, getClaimWithdrawRequestEventDecoder)"

section \<open>CloseSettlementEvent\<close>

definition CloseSettlementEvent_type :: "ts_type" where
  "CloseSettlementEvent_type = TObject [(''bond'', TAddress),
     (''settlement'', TAddress),
     (''merkleRoot'', TBytes),
     (''maxTotalClaim'', TBigint),
     (''maxMerkleNodes'', TBigint),
     (''lamportsFunded'', TBigint),
     (''lamportsClaimed'', TBigint),
     (''merkleNodesClaimed'', TBigint),
     (''splitRentCollector'', TOption TAddress),
     (''splitRentRefund'', TOption TAddress),
     (''rentCollector'', TAddress),
     (''expirationEpoch'', TBigint),
     (''currentEpoch'', TBigint)]"

definition CloseSettlementEventArgs_type :: "ts_type" where
  "CloseSettlementEventArgs_type = TObject [(''bond'', TAddress),
     (''settlement'', TAddress),
     (''merkleRoot'', TBytes),
     (''maxTotalClaim'', TNumberOrBigint),
     (''maxMerkleNodes'', TNumberOrBigint),
     (''lamportsFunded'', TNumberOrBigint),
     (''lamportsClaimed'', TNumberOrBigint),
     (''merkleNodesClaimed'', TNumberOrBigint),
     (''splitRentCollector'', TOptionOrNullable TAddress),
     (''splitRentRefund'', TOptionOrNullable TAddress),
     (''rentCollector'', TAddress),
     (''expirationEpoch'', TNumberOrBigint),
     (''currentEpoch'', TNumberOrBigint)]"

definition getCloseSettlementEventEncoder :: "codec" where
  "getCloseSettlementEventEncoder = StructCodec [(''bond'', AddressCodec),
     (''settlement'', AddressCodec),
     (''merkleRoot'', FixSize BytesCodec 32),
     (''maxTotalClaim'', U64Codec),
     (''maxMerkleNodes'', U64Codec),
     (''lamportsFunded'', U64Codec),
     (''lamportsClaimed'', U64Codec),
     (''merkleNodesClaimed'', U64Codec),
     (''splitRentCollector'', OptionCodec AddressCodec),
     (''splitRentRefund'', OptionCodec AddressCodec),
     (''rentCollector'', AddressCodec),
     (''expirationEpoch'', U64Codec),
     (''currentEpoch'', U64Codec)]"

definition getCloseSettlementEventDecoder :: "codec" where
  "getCloseSettlementEventDecoder = StructCodec [(''bond'', AddressCodec),
     (''settlement'', AddressCodec),
     (''merkleRoot'', FixSize BytesCodec 32),
     (''maxTotalClaim'', U64Codec),
     (''maxMerkleNodes'', U64Codec),
     (''lamportsFunded'', U64Codec),
     (''lamportsClaimed'', U64Codec),
     (''merkleNodesClaimed'', U64Codec),
     (''splitRentCollector'', OptionCodec AddressCodec),
     (''splitRentRefund'', OptionCodec AddressCodec),
     (''rentCollector'', AddressCodec),
     (''expirationEpoch'', U64Codec),
     (''currentEpoch'', U64Codec)]"

definition getCloseSettlementEventCodec :: "codec \<times> codec" where
  "getCloseSettlementEventCodec = (getCloseSettlementEventEncoder, getCloseSettlementEventDecoder)"

section \<open>ConfigureBondEvent\<close>

definition ConfigureBondEvent_type :: "ts_type" where
  "ConfigureBondEvent_type = TObject [(''bondAuthority'', TOption PubkeyValueChange_type),
     (''cpmpe'', TOption U64ValueChange_type),
     (''maxStakeWanted'', TOption U64ValueChange_type)]"

definition ConfigureBondEventArgs_type :: "ts_type" where
  "ConfigureBondEventArgs_type = TObject [(''bondAuthority'', TOptionOrNullable PubkeyValueChangeArgs_type),
     (''cpmpe'', TOptionOrNullable U64ValueChangeArgs_type),
     (''maxStakeWanted'', TOptionOrNullable U64ValueChangeArgs_type)]"

definition getConfigureBondEventEncoder :: "codec" where
  "getConfigureBondEventEncoder = StructCodec [(''bondAuthority'', OptionCodec getPubkeyValueChangeEncoder),
     (''cpmpe'', OptionCodec getU64ValueChangeEncoder),
     (''maxStakeWanted'', OptionCodec getU64ValueChangeEncoder)]"

definition getConfigureBondEventDecoder :: "codec" where
  "getConfigureBondEventDecoder = StructCodec [(''bondAuthority'', OptionCodec getPubkeyValueChangeDecoder),
     (''cpmpe'', OptionCodec getU64ValueChangeDecoder),
     (''maxStakeWanted'', OptionCodec getU64ValueChangeDecoder)]"

definition getConfigureBondEventCodec :: "codec \<times> codec" where
  "getConfigureBondEventCodec = (getConfigureBondEventEncoder, getConfigureBondEventDecoder)"

section \<open>ConfigureBondProductEvent\<close>

definition ConfigureBondProductEvent_type :: "ts_type" where
  "ConfigureBondProductEvent_type = TObject [(''config'', TAddress),
     (''bondProduct'', TAddress),
     (''bond'', TAddress),
     (''voteAccount'', TAddress),
     (''productType'', ProductType_type),
     (''oldConfigData'', ProductTypeConfig_type),
     (''newConfigData'', ProductTypeConfig_type)]"

definition ConfigureBondProductEventArgs_type :: "ts_type" where
  "ConfigureBondProductEventArgs_type = TObject [(''config'', TAddress),
     (''bondProduct'', TAddress),
     (''bond'', TAddress),
     (''voteAccount'', TAddress),
     (''productType'', ProductTypeArgs_type),
     (''oldConfigData'', ProductTypeConfigArgs_type),
     (''newConfigData'', ProductTypeConfigArgs_type)]"

definition getConfigureBondProductEventEncoder :: "codec" where
  "getConfigureBondProductEventEncoder = StructCodec [(''config'', AddressCodec),
     (''bondProduct'', AddressCodec),
     (''bond'', AddressCodec),
     (''voteAccount'', AddressCodec),
     (''productType'', getProductTypeEncoder),
     (''oldConfigData'', getProductTypeConfigEncoder),
     (''newConfigData'', getProductTypeConfigEncoder)]"

definition getConfigureBondProductEventDecoder :: "codec" where
  "getConfigureBondProductEventDecoder = StructCodec [(''config'', AddressCodec),
     (''bondProduct'', AddressCodec),
     (''bond'', AddressCodec),
     (''voteAccount'', AddressCodec),
     (''productType'', getProductTypeDecoder),
     (''oldConfigData'', getProductTypeConfigDecoder),
     (''newConfigData'', getProductTypeConfigDecoder)]"

definition getConfigureBondProductEventCodec :: "codec \<times> codec" where
  "getConfigureBondProductEventCodec = (getConfigureBondProductEventEncoder, getConfigureBondProductEventDecoder)"

section \<open>ConfigureBondWithMintEvent\<close>

definition ConfigureBondWithMintEvent_type :: "ts_type" where
  "ConfigureBondWithMintEvent_type = TObject [(''validatorIdentity'', TAddress),
     (''bondAuthority'', TOption PubkeyValueChange_type),
     (''cpmpe'', TOption U64ValueChange_type),
     (''maxStakeWanted'', TOption U64ValueChange_type)]"

definition ConfigureBondWithMintEventArgs_type :: "ts_type" where
  "ConfigureBondWithMintEventArgs_type = TObject [(''validatorIdentity'', TAddress),
     (''bondAuthority'', TOptionOrNullable PubkeyValueChangeArgs_type),
     (''cpmpe'', TOptionOrNullable U64ValueChangeArgs_type),
     (''maxStakeWanted'', TOptionOrNullable U64ValueChangeArgs_type)]"

definition getConfigureBondWithMintEventEncoder :: "codec" where
  "getConfigureBondWithMintEventEncoder = StructCodec [(''validatorIdentity'', AddressCodec),
     (''bondAuthority'', OptionCodec getPubkeyValueChangeEncoder),
     (''cpmpe'', OptionCodec getU64ValueChangeEncoder),
     (''maxStakeWanted'', OptionCodec getU64ValueChangeEncoder)]"

definition getConfigureBondWithMintEventDecoder :: "codec" where
  "getConfigureBondWithMintEventDecoder = StructCodec [(''validatorIdentity'', AddressCodec),
     (''bondAuthority'', OptionCodec getPubkeyValueChangeDecoder),
     (''cpmpe'', OptionCodec getU64ValueChangeDecoder),
     (''maxStakeWanted'', OptionCodec getU64ValueChangeDecoder)]"

definition getConfigureBondWithMintEventCodec :: "codec \<times> codec" where
  "getConfigureBondWithMintEventCodec = (getConfigureBondWithMintEventEncoder, getConfigureBondWithMintEventDecoder)"

section \<open>ConfigureConfigEvent\<close>

definition ConfigureConfigEvent_type :: "ts_type" where
  "ConfigureConfigEvent_type = TObject [(''adminAuthority'', TOption PubkeyValueChange_type),
     (''operatorAuthority'', TOption PubkeyValueChange_type),
     (''pauseAuthority'', TOption PubkeyValueChange_type),
     (''epochsToClaimSettlement'', TOption U64ValueChange_type),
     (''minimumStakeLamports'', TOption U64ValueChange_type),
     (''withdrawLockupEpochs'', TOption U64ValueChange_type),
     (''slotsToStartSettlementClaiming'', TOption U64ValueChange_type),
     (''minBondMaxStakeWanted'', TOption U64ValueChange_type)]"

definition ConfigureConfigEventArgs_type :: "ts_type" where
  "ConfigureConfigEventArgs_type = TObject [(''adminAuthority'', TOptionOrNullable PubkeyValueChangeArgs_type),
     (''operatorAuthority'', TOptionOrNullable PubkeyValueChangeArgs_type),
     (''pauseAuthority'', TOptionOrNullable PubkeyValueChangeArgs_type),
     (''epochsToClaimSettlement'', TOptionOrNullable U64ValueChangeArgs_type),
     (''minimumStakeLamports'', TOptionOrNullable U64ValueChangeArgs_type),
     (''withdrawLockupEpochs'', TOptionOrNullable U64ValueChangeArgs_type),
     (''slotsToStartSettlementClaiming'', TOptionOrNullable U64ValueChangeArgs_type),
     (''minBondMaxStakeWanted'', TOptionOrNullable U64ValueChangeArgs_type)]"

definition getConfigureConfigEventEncoder :: "codec" where
  "getConfigureConfigEventEncoder = StructCodec [(''adminAuthority'', OptionCodec getPubkeyValueChangeEncoder),
     (''operatorAuthority'', OptionCodec getPubkeyValueChangeEncoder),
     (''pauseAuthority'', OptionCodec getPubkeyValueChangeEncoder),
     (''epochsToClaimSettlement'', OptionCodec getU64ValueChangeEncoder),
     (''minimumStakeLamports'', OptionCodec getU64ValueChangeEncoder),
     (''withdrawLockupEpochs'', OptionCodec getU64ValueChangeEncoder),
     (''slotsToStartSettlementClaiming'', OptionCodec getU64ValueChangeEncoder),
     (''minBondMaxStakeWanted'', OptionCodec getU64ValueChangeEncoder)]"

definition getConfigureConfigEventDecoder :: "codec" where
  "getConfigureConfigEventDecoder = StructCodec [(''adminAuthority'', OptionCodec getPubkeyValueChangeDecoder),
     (''operatorAuthority'', OptionCodec getPubkeyValueChangeDecoder),
     (''pauseAuthority'', OptionCodec getPubkeyValueChangeDecoder),
     (''epochsToClaimSettlement'', OptionCodec getU64ValueChangeDecoder),
     (''minimumStakeLamports'', OptionCodec getU64ValueChangeDecoder),
     (''withdrawLockupEpochs'', OptionCodec getU64ValueChangeDecoder),
     (''slotsToStartSettlementClaiming'', OptionCodec getU64ValueChangeDecoder),
     (''minBondMaxStakeWanted'', OptionCodec getU64ValueChangeDecoder)]"

definition getConfigureConfigEventCodec :: "codec \<times> codec" where
  "getConfigureConfigEventCodec = (getConfigureConfigEventEncoder, getConfigureConfigEventDecoder)"

section \<open>EmergencyPauseEvent\<close>

definition EmergencyPauseEvent_type :: "ts_type" where
  "EmergencyPauseEvent_type = TObject [(''config'', TAddress),
     (''adminAuthority'', TAddress),
     (''operatorAuthority'', TAddress),
     (''epochsToClaimSettlement'', TBigint),
     (''withdrawLockupEpochs'', TBigint),
     (''minimumStakeLamports'', TBigint),
     (''pauseAuthority'', TAddress)]"

definition EmergencyPauseEventArgs_type :: "ts_type" where
  "EmergencyPauseEventArgs_type = TObject [(''config'', TAddress),
     (''adminAuthority'', TAddress),
     (''operatorAuthority'', TAddress),
     (''epochsToClaimSettlement'', TNumberOrBigint),
     (''withdrawLockupEpochs'', TNumberOrBigint),
     (''minimumStakeLamports'', TNumberOrBigint),
     (''pauseAuthority'', TAddress)]"

definition getEmergencyPauseEventEncoder :: "codec" where
  "getEmergencyPauseEventEncoder = StructCodec [(''config'', AddressCodec),
     (''adminAuthority'', AddressCodec),
     (''operatorAuthority'', AddressCodec),
     (''epochsToClaimSettlement'', U64Codec),
     (''withdrawLockupEpochs'', U64Codec),
     (''minimumStakeLamports'', U64Codec),
     (''pauseAuthority'', AddressCodec)]"

definition getEmergencyPauseEventDecoder :: "codec" where
  "getEmergencyPauseEventDecoder = StructCodec [(''config'', AddressCodec),
     (''adminAuthority'', AddressCodec),
     (''operatorAuthority'', AddressCodec),
     (''epochsToClaimSettlement'', U64Codec),
     (''withdrawLockupEpochs'', U64Codec),
     (''minimumStakeLamports'', U64Codec),
     (''pauseAuthority'', AddressCodec)]"

definition getEmergencyPauseEventCodec :: "codec \<times> codec" where
  "getEmergencyPauseEventCodec = (getEmergencyPauseEventEncoder, getEmergencyPauseEventDecoder)"

section \<open>EmergencyResumeEvent\<close>

definition EmergencyResumeEvent_type :: "ts_type" where
  "EmergencyResumeEvent_type = TObject [(''config'', TAddress),
     (''adminAuthority'', TAddress),
     (''operatorAuthority'', TAddress),
     (''epochsToClaimSettlement'', TBigint),
     (''withdrawLockupEpochs'', TBigint),
     (''minimumStakeLamports'', TBigint),
     (''pauseAuthority'', TAddress)]"

definition EmergencyResumeEventArgs_type :: "ts_type" where
  "EmergencyResumeEventArgs_type = TObject [(''config'', TAddress),
     (''adminAuthority'', TAddress),
     (''operatorAuthority'', TAddress),
     (''epochsToClaimSettlement'', TNumberOrBigint),
     (''withdrawLockupEpochs'', TNumberOrBigint),
     (''minimumStakeLamports'', TNumberOrBigint),
     (''pauseAuthority'', TAddress)]"

definition getEmergencyResumeEventEncoder :: "codec" where
  "getEmergencyResumeEventEncoder = StructCodec [(''config'', AddressCodec),
     (''adminAuthority'', AddressCodec),
     (''operatorAuthority'', AddressCodec),
     (''epochsToClaimSettlement'', U64Codec),
     (''withdrawLockupEpochs'', U64Codec),
     (''minimumStakeLamports'', U64Codec),
     (''pauseAuthority'', AddressCodec)]"

definition getEmergencyResumeEventDecoder :: "codec" where
  "getEmergencyResumeEventDecoder = StructCodec [(''config'', AddressCodec),
     (''adminAuthority'', AddressCodec),
     (''operatorAuthority'', AddressCodec),
     (''epochsToClaimSettlement'', U64Codec),
     (''withdrawLockupEpochs'', U64Codec),
     (''minimumStakeLamports'', U64Codec),
     (''pauseAuthority'', AddressCodec)]"

definition getEmergencyResumeEventCodec :: "codec \<times> codec" where
  "getEmergencyResumeEventCodec = (getEmergencyResumeEventEncoder, getEmergencyResumeEventDecoder)"

section \<open>FundBondEvent\<close>

definition FundBondEvent_type :: "ts_type" where
  "FundBondEvent_type = TObject [(''bond'', TAddress),
     (''voteAccount'', TAddress),
     (''stakeAccount'', TAddress),
     (''stakeAuthoritySigner'', TAddress),
     (''depositedAmount'', TBigint)]"

definition FundBondEventArgs_type :: "ts_type" where
  "FundBondEventArgs_type = TObject [(''bond'', TAddress),
     (''voteAccount'', TAddress),
     (''stakeAccount'', TAddress),
     (''stakeAuthoritySigner'', TAddress),
     (''depositedAmount'', TNumberOrBigint)]"

definition getFundBondEventEncoder :: "codec" where
  "getFundBondEventEncoder = StructCodec [(''bond'', AddressCodec),
     (''voteAccount'', AddressCodec),
     (''stakeAccount'', AddressCodec),
     (''stakeAuthoritySigner'', AddressCodec),
     (''depositedAmount'', U64Codec)]"

definition getFundBondEventDecoder :: "codec" where
  "getFundBondEventDecoder = StructCodec [(''bond'', AddressCodec),
     (''voteAccount'', AddressCodec),
     (''stakeAccount'', AddressCodec),
     (''stakeAuthoritySigner'', AddressCodec),
     (''depositedAmount'', U64Codec)]"

definition getFundBondEventCodec :: "codec \<times> codec" where
  "getFundBondEventCodec = (getFundBondEventEncoder, getFundBondEventDecoder)"

section \<open>FundSettlementEvent\<close>

definition FundSettlementEvent_type :: "ts_type" where
  "FundSettlementEvent_type = TObject [(''bond'', TAddress),
     (''settlement'', TAddress),
     (''fundingAmount'', TBigint),
     (''stakeAccount'', TAddress),
     (''lamportsFunded'', TBigint),
     (''lamportsClaimed'', TBigint),
     (''merkleNodesClaimed'', TBigint),
     (''splitStakeAccount'', TOption SplitStakeData_type),
     (''splitRentCollector'', TOption TAddress),
     (''splitRentAmount'', TBigint)]"

definition FundSettlementEventArgs_type :: "ts_type" where
  "FundSettlementEventArgs_type = TObject [(''bond'', TAddress),
     (''settlement'', TAddress),
     (''fundingAmount'', TNumberOrBigint),
     (''stakeAccount'', TAddress),
     (''lamportsFunded'', TNumberOrBigint),
     (''lamportsClaimed'', TNumberOrBigint),
     (''merkleNodesClaimed'', TNumberOrBigint),
     (''splitStakeAccount'', TOptionOrNullable SplitStakeDataArgs_type),
     (''splitRentCollector'', TOptionOrNullable TAddress),
     (''splitRentAmount'', TNumberOrBigint)]"

definition getFundSettlementEventEncoder :: "codec" where
  "getFundSettlementEventEncoder = StructCodec [(''bond'', AddressCodec),
     (''settlement'', AddressCodec),
     (''fundingAmount'', U64Codec),
     (''stakeAccount'', AddressCodec),
     (''lamportsFunded'', U64Codec),
     (''lamportsClaimed'', U64Codec),
     (''merkleNodesClaimed'', U64Codec),
     (''splitStakeAccount'', OptionCodec getSplitStakeDataEncoder),
     (''splitRentCollector'', OptionCodec AddressCodec),
     (''splitRentAmount'', U64Codec)]"

definition getFundSettlementEventDecoder :: "codec" where
  "getFundSettlementEventDecoder = StructCodec [(''bond'', AddressCodec),
     (''settlement'', AddressCodec),
     (''fundingAmount'', U64Codec),
     (''stakeAccount'', AddressCodec),
     (''lamportsFunded'', U64Codec),
     (''lamportsClaimed'', U64Codec),
     (''merkleNodesClaimed'', U64Codec),
     (''splitStakeAccount'', OptionCodec getSplitStakeDataDecoder),
     (''splitRentCollector'', OptionCodec AddressCodec),
     (''splitRentAmount'', U64Codec)]"

definition getFundSettlementEventCodec :: "codec \<times> codec" where
  "getFundSettlementEventCodec = (getFundSettlementEventEncoder, getFundSettlementEventDecoder)"

section \<open>InitBondEvent\<close>

definition InitBondEvent_type :: "ts_type" where
  "InitBondEvent_type = TObject [(''bond'', TAddress),
     (''config'', TAddress),
     (''voteAccount'', TAddress),
     (''validatorIdentity'', TAddress),
     (''authority'', TAddress),
     (''cpmpe'', TBigint),
     (''maxStakeWanted'', TBigint)]"

definition InitBondEventArgs_type :: "ts_type" where
  "InitBondEventArgs_type = TObject [(''bond'', TAddress),
     (''config'', TAddress),
     (''voteAccount'', TAddress),
     (''validatorIdentity'', TAddress),
     (''authority'', TAddress),
     (''cpmpe'', TNumberOrBigint),
     (''maxStakeWanted'', TNumberOrBigint)]"

definition getInitBondEventEncoder :: "codec" where
  "getInitBondEventEncoder = StructCodec [(''bond'', AddressCodec),
     (''config'', AddressCodec),
     (''voteAccount'', AddressCodec),
     (''validatorIdentity'', AddressCodec),
     (''authority'', AddressCodec),
     (''cpmpe'', U64Codec),
     (''maxStakeWanted'', U64Codec)]"

definition getInitBondEventDecoder :: "codec" where
  "getInitBondEventDecoder = StructCodec [(''bond'', AddressCodec),
     (''config'', AddressCodec),
     (''voteAccount'', AddressCodec),
     (''validatorIdentity'', AddressCodec),
     (''authority'', AddressCodec),
     (''cpmpe'', U64Codec),
     (''maxStakeWanted'', U64Codec)]"

definition getInitBondEventCodec :: "codec \<times> codec" where
  "getInitBondEventCodec = (getInitBondEventEncoder, getInitBondEventDecoder)"

section \<open>InitBondProductEvent\<close>

definition InitBondProductEvent_type :: "ts_type" where
  "InitBondProductEvent_type = TObject [(''bondProduct'', TAddress),
     (''config'', TAddress),
     (''bond'', TAddress),
     (''voteAccount'', TAddress),
     (''productType'', ProductType_type),
     (''authority'', TOption TAddress)]"

definition InitBondProductEventArgs_type :: "ts_type" where
  "InitBondProductEventArgs_type = TObject [(''bondProduct'', TAddress),
     (''config'', TAddress),
     (''bond'', TAddress),
     (''voteAccount'', TAddress),
     (''productType'', ProductTypeArgs_type),
     (''authority'', TOptionOrNullable TAddress)]"

definition getInitBondProductEventEncoder :: "codec" where
  "getInitBondProductEventEncoder = StructCodec [(''bondProduct'', AddressCodec),
     (''config'', AddressCodec),
     (''bond'', AddressCodec),
     (''voteAccount'', AddressCodec),
     (''productType'', getProductTypeEncoder),
     (''authority'', OptionCodec AddressCodec)]"

definition getInitBondProductEventDecoder :: "codec" where
  "getInitBondProductEventDecoder = StructCodec [(''bondProduct'', AddressCodec),
     (''config'', AddressCodec),
     (''bond'', AddressCodec),
     (''voteAccount'', AddressCodec),
     (''productType'', getProductTypeDecoder),
     (''authority'', OptionCodec AddressCodec)]"

definition getInitBondProductEventCodec :: "codec \<times> codec" where
  "getInitBondProductEventCodec = (getInitBondProductEventEncoder, getInitBondProductEventDecoder)"

section \<open>InitConfigEvent\<close>

definition InitConfigEvent_type :: "ts_type" where
  "InitConfigEvent_type = TObject [(''config'', TAddress),
     (''adminAuthority'', TAddress),
     (''operatorAuthority'', TAddress),
     (''withdrawLockupEpochs'', TBigint),
     (''epochsToClaimSettlement'', TBigint),
     (''minimumStakeLamports'', TBigint),
     (''bondsWithdrawerAuthority'', TAddress),
     (''slotsToStartSettlementClaiming'', TBigint)]"

definition InitConfigEventArgs_type :: "ts_type" where
  "InitConfigEventArgs_type = TObject [(''config'', TAddress),
     (''adminAuthority'', TAddress),
     (''operatorAuthority'', TAddress),
     (''withdrawLockupEpochs'', TNumberOrBigint),
     (''epochsToClaimSettlement'', TNumberOrBigint),
     (''minimumStakeLamports'', TNumberOrBigint),
     (''bondsWithdrawerAuthority'', TAddress),
     (''slotsToStartSettlementClaiming'', TNumberOrBigint)]"

definition getInitConfigEventEncoder :: "codec" where
  "getInitConfigEventEncoder = StructCodec [(''config'', AddressCodec),
     (''adminAuthority'', AddressCodec),
     (''operatorAuthority'', AddressCodec),
     (''withdrawLockupEpochs'', U64Codec),
     (''epochsToClaimSettlement'', U64Codec),
     (''minimumStakeLamports'', U64Codec),
     (''bondsWithdrawerAuthority'', AddressCodec),
     (''slotsToStartSettlementClaiming'', U64Codec)]"

definition getInitConfigEventDecoder :: "codec" where
  "getInitConfigEventDecoder = StructCodec [(''config'', AddressCodec),
     (''adminAuthority'', AddressCodec),
     (''operatorAuthority'', AddressCodec),
     (''withdrawLockupEpochs'', U64Codec),
     (''epochsToClaimSettlement'', U64Codec),
     (''minimumStakeLamports'', U64Codec),
     (''bondsWithdrawerAuthority'', AddressCodec),
     (''slotsToStartSettlementClaiming'', U64Codec)]"

definition getInitConfigEventCodec :: "codec \<times> codec" where
  "getInitConfigEventCodec = (getInitConfigEventEncoder, getInitConfigEventDecoder)"

section \<open>InitSettlementEvent\<close>

definition InitSettlementEvent_type :: "ts_type" where
  "InitSettlementEvent_type = TObject [(''bond'', TAddress),
     (''settlement'', TAddress),
     (''voteAccount'', TAddress),
     (''stakerAuthority'', TAddress),
     (''merkleRoot'', TBytes),
     (''maxTotalClaim'', TBigint),
     (''maxMerkleNodes'', TBigint),
     (''epochCreatedFor'', TBigint),
     (''slotCreatedAt'', TBigint),
     (''rentCollector'', TAddress)]"

definition InitSettlementEventArgs_type :: "ts_type" where
  "InitSettlementEventArgs_type = TObject [(''bond'', TAddress),
     (''settlement'', TAddress),
     (''voteAccount'', TAddress),
     (''stakerAuthority'', TAddress),
     (''merkleRoot'', TBytes),
     (''maxTotalClaim'', TNumberOrBigint),
     (''maxMerkleNodes'', TNumberOrBigint),
     (''epochCreatedFor'', TNumberOrBigint),
     (''slotCreatedAt'', TNumberOrBigint),
     (''rentCollector'', TAddress)]"

definition getInitSettlementEventEncoder :: "codec" where
  "getInitSettlementEventEncoder = StructCodec [(''bond'', AddressCodec),
     (''settlement'', AddressCodec),
     (''voteAccount'', AddressCodec),
     (''stakerAuthority'', AddressCodec),
     (''merkleRoot'', FixSize BytesCodec 32),
     (''maxTotalClaim'', U64Codec),
     (''maxMerkleNodes'', U64Codec),
     (''epochCreatedFor'', U64Codec),
     (''slotCreatedAt'', U64Codec),
     (''rentCollector'', AddressCodec)]"

definition getInitSettlementEventDecoder :: "codec" where
  "getInitSettlementEventDecoder = StructCodec [(''bond'', AddressCodec),
     (''settlement'', AddressCodec),
     (''voteAccount'', AddressCodec),
     (''stakerAuthority'', AddressCodec),
     (''merkleRoot'', FixSize BytesCodec 32),
     (''maxTotalClaim'', U64Codec),
     (''maxMerkleNodes'', U64Codec),
     (''epochCreatedFor'', U64Codec),
     (''slotCreatedAt'', U64Codec),
     (''rentCollector'', AddressCodec)]"

definition getInitSettlementEventCodec :: "codec \<times> codec" where
  "getInitSettlementEventCodec = (getInitSettlementEventEncoder, getInitSettlementEventDecoder)"

section \<open>InitWithdrawRequestEvent\<close>

definition InitWithdrawRequestEvent_type :: "ts_type" where
  "InitWithdrawRequestEvent_type = TObject [(''withdrawRequest'', TAddress),
     (''bond'', TAddress),
     (''voteAccount'', TAddress),
     (''epoch'', TBigint),
     (''requestedAmount'', TBigint)]"

definition InitWithdrawRequestEventArgs_type :: "ts_type" where
  "InitWithdrawRequestEventArgs_type = TObject [(''withdrawRequest'', TAddress),
     (''bond'', TAddress),
     (''voteAccount'', TAddress),
     (''epoch'', TNumberOrBigint),
     (''requestedAmount'', TNumberOrBigint)]"

definition getInitWithdrawRequestEventEncoder :: "codec" where
  "getInitWithdrawRequestEventEncoder = StructCodec [(''withdrawRequest'', AddressCodec),
     (''bond'', AddressCodec),
     (''voteAccount'', AddressCodec),
     (''epoch'', U64Codec),
     (''requestedAmount'', U64Codec)]"

definition getInitWithdrawRequestEventDecoder :: "codec" where
  "getInitWithdrawRequestEventDecoder = StructCodec [(''withdrawRequest'', AddressCodec),
     (''bond'', AddressCodec),
     (''voteAccount'', AddressCodec),
     (''epoch'', U64Codec),
     (''requestedAmount'', U64Codec)]"

definition getInitWithdrawRequestEventCodec :: "codec \<times> codec" where
  "getInitWithdrawRequestEventCodec = (getInitWithdrawRequestEventEncoder, getInitWithdrawRequestEventDecoder)"

section \<open>MergeStakeEvent\<close>

definition MergeStakeEvent_type :: "ts_type" where
  "MergeStakeEvent_type = TObject [(''config'', TAddress),
     (''stakerAuthority'', TAddress),
     (''destinationStake'', TAddress),
     (''destinationDelegation'', TOption DelegationInfo_type),
     (''sourceStake'', TAddress),
     (''sourceDelegation'', TOption DelegationInfo_type)]"

definition MergeStakeEventArgs_type :: "ts_type" where
  "MergeStakeEventArgs_type = TObject [(''config'', TAddress),
     (''stakerAuthority'', TAddress),
     (''destinationStake'', TAddress),
     (''destinationDelegation'', TOptionOrNullable DelegationInfoArgs_type),
     (''sourceStake'', TAddress),
     (''sourceDelegation'', TOptionOrNullable DelegationInfoArgs_type)]"

definition getMergeStakeEventEncoder :: "codec" where
  "getMergeStakeEventEncoder = StructCodec [(''config'', AddressCodec),
     (''stakerAuthority'', AddressCodec),
     (''destinationStake'', AddressCodec),
     (''destinationDelegation'', OptionCodec getDelegationInfoEncoder),
     (''sourceStake'', AddressCodec),
     (''sourceDelegation'', OptionCodec getDelegationInfoEncoder)]"

definition getMergeStakeEventDecoder :: "codec" where
  "getMergeStakeEventDecoder = StructCodec [(''config'', AddressCodec),
     (''stakerAuthority'', AddressCodec),
     (''destinationStake'', AddressCodec),
     (''destinationDelegation'', OptionCodec getDelegationInfoDecoder),
     (''sourceStake'', AddressCodec),
     (''sourceDelegation'', OptionCodec getDelegationInfoDecoder)]"

definition getMergeStakeEventCodec :: "codec \<times> codec" where
  "getMergeStakeEventCodec = (getMergeStakeEventEncoder, getMergeStakeEventDecoder)"

section \<open>MintBondEvent\<close>

definition MintBondEvent_type :: "ts_type" where
  "MintBondEvent_type = TObject [(''bond'', TAddress),
     (''validatorIdentity'', TAddress),
     (''validatorIdentityTokenAccount'', TAddress),
     (''tokenMetadata'', TAddress)]"

definition MintBondEventArgs_type :: "ts_type" where
  "MintBondEventArgs_type = MintBondEvent_type"

definition getMintBondEventEncoder :: "codec" where
  "getMintBondEventEncoder = StructCodec [(''bond'', AddressCodec),
     (''validatorIdentity'', AddressCodec),
     (''validatorIdentityTokenAccount'', AddressCodec),
     (''tokenMetadata'', AddressCodec)]"

definition getMintBondEventDecoder :: "codec" where
  "getMintBondEventDecoder = StructCodec [(''bond'', AddressCodec),
     (''validatorIdentity'', AddressCodec),
     (''validatorIdentityTokenAccount'', AddressCodec),
     (''tokenMetadata'', AddressCodec)]"

definition getMintBondEventCodec :: "codec \<times> codec" where
  "getMintBondEventCodec = (getMintBondEventEncoder, getMintBondEventDecoder)"

section \<open>ResetStakeEvent\<close>

definition ResetStakeEvent_type :: "ts_type" where
  "ResetStakeEvent_type = TObject [(''config'', TAddress),
     (''bond'', TAddress),
     (''settlement'', TAddress),
     (''stakeAccount'', TAddress),
     (''voteAccount'', TAddress),
     (''settlementStakerAuthority'', TAddress)]"

definition ResetStakeEventArgs_type :: "ts_type" where
  "ResetStakeEventArgs_type = ResetStakeEvent_type"

definition getResetStakeEventEncoder :: "codec" where
  "getResetStakeEventEncoder = StructCodec [(''config'', AddressCodec),
     (''bond'', AddressCodec),
     (''settlement'', AddressCodec),
     (''stakeAccount'', AddressCodec),
     (''voteAccount'', AddressCodec),
     (''settlementStakerAuthority'', AddressCodec)]"

definition getResetStakeEventDecoder :: "codec" where
  "getResetStakeEventDecoder = StructCodec [(''config'', AddressCodec),
     (''bond'', AddressCodec),
     (''settlement'', AddressCodec),
     (''stakeAccount'', AddressCodec),
     (''voteAccount'', AddressCodec),
     (''settlementStakerAuthority'', AddressCodec)]"

definition getResetStakeEventCodec :: "codec \<times> codec" where
  "getResetStakeEventCodec = (getResetStakeEventEncoder, getResetStakeEventDecoder)"

section \<open>WithdrawStakeEvent\<close>

definition WithdrawStakeEvent_type :: "ts_type" where
  "WithdrawStakeEvent_type = TObject [(''config'', TAddress),
     (''operatorAuthority'', TAddress),
     (''settlement'', TAddress),
     (''stakeAccount'', TAddress),
     (''withdrawTo'', TAddress),
     (''settlementStakerAuthority'', TAddress),
     (''withdrawnAmount'', TBigint)]"

definition WithdrawStakeEventArgs_type :: "ts_type" where
  "WithdrawStakeEventArgs_type = TObject [(''config'', TAddress),
     (''operatorAuthority'', TAddress),
     (''settlement'', TAddress),
     (''stakeAccount'', TAddress),
     (''withdrawTo'', TAddress),
     (''settlementStakerAuthority'', TAddress),
     (''withdrawnAmount'', TNumberOrBigint)]"

definition getWithdrawStakeEventEncoder :: "codec" where
  "getWithdrawStakeEventEncoder = StructCodec [(''config'', AddressCodec),
     (''operatorAuthority'', AddressCodec),
     (''settlement'', AddressCodec),
     (''stakeAccount'', AddressCodec),
     (''withdrawTo'', AddressCodec),
     (''settlementStakerAuthority'', AddressCodec),
     (''withdrawnAmount'', U64Codec)]"

definition getWithdrawStakeEventDecoder :: "codec" where
  "getWithdrawStakeEventDecoder = StructCodec [(''config'', AddressCodec),
     (''operatorAuthority'', AddressCodec),
     (''settlement'', AddressCodec),
     (''stakeAccount'', AddressCodec),
     (''withdrawTo'', AddressCodec),
     (''settlementStakerAuthority'', AddressCodec),
     (''withdrawnAmount'', U64Codec)]"

definition getWithdrawStakeEventCodec :: "codec \<times> codec" where
  "getWithdrawStakeEventCodec = (getWithdrawStakeEventEncoder, getWithdrawStakeEventDecoder)"

end
