(* ===== verification/Cod_Accounts.thy ===== *)
theory Cod_Accounts
  imports Cod_Types
begin

text \<open>
  The accounts of the program in the generated client, one section per file of
  \<open>packages/validator-bonds-codama/src/accounts\<close>.
\<close>

section \<open>Bond\<close>

definition BOND_DISCRIMINATOR :: "byte list" where
  "BOND_DISCRIMINATOR = [224, 128, 48, 251, 182, 246, 111, 196]"

definition getBondDiscriminatorBytes :: "kit \<Rightarrow> byte list res" where
  "getBondDiscriminatorBytes kit = fixed_bytes kit BOND_DISCRIMINATOR"

definition Bond_type :: "ts_type" where
  "Bond_type = TObject [(''discriminator'', TBytes),
     (''config'', TAddress),
     (''voteAccount'', TAddress),
     (''authority'', TAddress),
     (''cpmpe'', TBigint),
     (''bump'', TNumber),
     (''maxStakeWanted'', TBigint),
     (''reserved'', TBytes)]"

definition BondArgs_type :: "ts_type" where
  "BondArgs_type = TObject [(''config'', TAddress),
     (''voteAccount'', TAddress),
     (''authority'', TAddress),
     (''cpmpe'', TNumberOrBigint),
     (''bump'', TNumber),
     (''maxStakeWanted'', TNumberOrBigint),
     (''reserved'', TBytes)]"

definition getBondEncoder :: "encoder" where
  "getBondEncoder = WithDiscriminator (StructCodec [(''discriminator'', FixSize BytesCodec 8),
     (''config'', AddressCodec),
     (''voteAccount'', AddressCodec),
     (''authority'', AddressCodec),
     (''cpmpe'', U64Codec),
     (''bump'', U8Codec),
     (''maxStakeWanted'', U64Codec),
     (''reserved'', FixSize BytesCodec 134)]) BOND_DISCRIMINATOR"

definition getBondDecoder :: "codec" where
  "getBondDecoder = StructCodec [(''discriminator'', FixSize BytesCodec 8),
     (''config'', AddressCodec),
     (''voteAccount'', AddressCodec),
     (''authority'', AddressCodec),
     (''cpmpe'', U64Codec),
     (''bump'', U8Codec),
     (''maxStakeWanted'', U64Codec),
     (''reserved'', FixSize BytesCodec 134)]"

definition getBondCodec :: "encoder \<times> codec" where
  "getBondCodec = (getBondEncoder, getBondDecoder)"

definition decodeBond :: "kit \<Rightarrow> byte list maybe_account \<Rightarrow> cval maybe_account res" where
  "decodeBond kit encodedAccount = k_decodeAccount kit encodedAccount getBondDecoder"

definition fetchMaybeBond :: "kit \<Rightarrow> string \<Rightarrow> cval maybe_account res" where
  "fetchMaybeBond kit address = rbind (k_fetch kit address) (decodeBond kit)"

definition fetchBond :: "kit \<Rightarrow> string \<Rightarrow> cval maybe_account res" where
  "fetchBond kit address = rbind (fetchMaybeBond kit address) (\<lambda>maybeAccount.
     rbind (k_assertExists kit maybeAccount) (\<lambda>_. Inr maybeAccount))"

definition fetchAllMaybeBond :: "kit \<Rightarrow> string list \<Rightarrow> cval maybe_account list res" where
  "fetchAllMaybeBond kit addresses = rbind (k_fetchAll kit addresses) (rmapM (decodeBond kit))"

definition fetchAllBond :: "kit \<Rightarrow> string list \<Rightarrow> cval maybe_account list res" where
  "fetchAllBond kit addresses = rbind (fetchAllMaybeBond kit addresses) (\<lambda>maybeAccounts.
     rbind (k_assertAllExist kit maybeAccounts) (\<lambda>_. Inr maybeAccounts))"

definition getBondSize :: "nat" where
  "getBondSize = 255"

section \<open>BondProduct\<close>

definition BOND_PRODUCT_DISCRIMINATOR :: "byte list" where
  "BOND_PRODUCT_DISCRIMINATOR = [135, 68, 116, 146, 5, 75, 127, 143]"

definition getBondProductDiscriminatorBytes :: "kit \<Rightarrow> byte list res" where
  "getBondProductDiscriminatorBytes kit = fixed_bytes kit BOND_PRODUCT_DISCRIMINATOR"

definition BondProduct_type :: "ts_type" where
  "BondProduct_type = TObject [(''discriminator'', TBytes),
     (''config'', TAddress),
     (''bond'', TAddress),
     (''voteAccount'', TAddress),
     (''productType'', ProductType_type),
     (''configData'', ProductTypeConfig_type),
     (''bump'', TNumber)]"

definition BondProductArgs_type :: "ts_type" where
  "BondProductArgs_type = TObject [(''config'', TAddress),
     (''bond'', TAddress),
     (''voteAccount'', TAddress),
     (''productType'', ProductTypeArgs_type),
     (''configData'', ProductTypeConfigArgs_type),
     (''bump'', TNumber)]"

definition getBondProductEncoder :: "encoder" where
  "getBondProductEncoder = WithDiscriminator (StructCodec [(''discriminator'', FixSize BytesCodec 8),
     (''config'', AddressCodec),
     (''bond'', AddressCodec),
     (''voteAccount'', AddressCodec),
     (''productType'', getProductTypeEncoder),
     (''configData'', getProductTypeConfigEncoder),
     (''bump'', U8Codec)]) BOND_PRODUCT_DISCRIMINATOR"

definition getBondProductDecoder :: "codec" where
  "getBondProductDecoder = StructCodec [(''discriminator'', FixSize BytesCodec 8),
     (''config'', AddressCodec),
     (''bond'', AddressCodec),
     (''voteAccount'', AddressCodec),
     (''productType'', getProductTypeDecoder),
     (''configData'', getProductTypeConfigDecoder),
     (''bump'', U8Codec)]"

definition getBondProductCodec :: "encoder \<times> codec" where
  "getBondProductCodec = (getBondProductEncoder, getBondProductDecoder)"

definition decodeBondProduct :: "kit \<Rightarrow> byte list maybe_account \<Rightarrow> cval maybe_account res" where
  "decodeBondProduct kit encodedAccount = k_decodeAccount kit encodedAccount getBondProductDecoder"

definition fetchMaybeBondProduct :: "kit \<Rightarrow> string \<Rightarrow> cval maybe_account res" where
  "fetchMaybeBondProduct kit address = rbind (k_fetch kit address) (decodeBondProduct kit)"

definition fetchBondProduct :: "kit \<Rightarrow> string \<Rightarrow> cval maybe_account res" where
  "fetchBondProduct kit address = rbind (fetchMaybeBondProduct kit address) (\<lambda>maybeAccount.
     rbind (k_assertExists kit maybeAccount) (\<lambda>_. Inr maybeAccount))"

definition fetchAllMaybeBondProduct :: "kit \<Rightarrow> string list \<Rightarrow> cval maybe_account list res" where
  "fetchAllMaybeBondProduct kit addresses = rbind (k_fetchAll kit addresses) (rmapM (decodeBondProduct kit))"

definition fetchAllBondProduct :: "kit \<Rightarrow> string list \<Rightarrow> cval maybe_account list res" where
  "fetchAllBondProduct kit addresses = rbind (fetchAllMaybeBondProduct kit addresses) (\<lambda>maybeAccounts.
     rbind (k_assertAllExist kit maybeAccounts) (\<lambda>_. Inr maybeAccounts))"

section \<open>Config\<close>

definition CONFIG_DISCRIMINATOR :: "byte list" where
  "CONFIG_DISCRIMINATOR = [155, 12, 170, 224, 30, 250, 204, 130]"

definition getConfigDiscriminatorBytes :: "kit \<Rightarrow> byte list res" where
  "getConfigDiscriminatorBytes kit = fixed_bytes kit CONFIG_DISCRIMINATOR"

definition Config_type :: "ts_type" where
  "Config_type = TObject [(''discriminator'', TBytes),
     (''adminAuthority'', TAddress),
     (''operatorAuthority'', TAddress),
     (''epochsToClaimSettlement'', TBigint),
     (''withdrawLockupEpochs'', TBigint),
     (''minimumStakeLamports'', TBigint),
     (''bondsWithdrawerAuthorityBump'', TNumber),
     (''pauseAuthority'', TAddress),
     (''paused'', TBoolean),
     (''slotsToStartSettlementClaiming'', TBigint),
     (''minBondMaxStakeWanted'', TBigint),
     (''reserved'', TBytes)]"

definition ConfigArgs_type :: "ts_type" where
  "ConfigArgs_type = TObject [(''adminAuthority'', TAddress),
     (''operatorAuthority'', TAddress),
     (''epochsToClaimSettlement'', TNumberOrBigint),
     (''withdrawLockupEpochs'', TNumberOrBigint),
     (''minimumStakeLamports'', TNumberOrBigint),
     (''bondsWithdrawerAuthorityBump'', TNumber),
     (''pauseAuthority'', TAddress),
     (''paused'', TBoolean),
     (''slotsToStartSettlementClaiming'', TNumberOrBigint),
     (''minBondMaxStakeWanted'', TNumberOrBigint),
     (''reserved'', TBytes)]"

definition getConfigEncoder :: "encoder" where
  "getConfigEncoder = WithDiscriminator (StructCodec [(''discriminator'', FixSize BytesCodec 8),
     (''adminAuthority'', AddressCodec),
     (''operatorAuthority'', AddressCodec),
     (''epochsToClaimSettlement'', U64Codec),
     (''withdrawLockupEpochs'', U64Codec),
     (''minimumStakeLamports'', U64Codec),
     (''bondsWithdrawerAuthorityBump'', U8Codec),
     (''pauseAuthority'', AddressCodec),
     (''paused'', BooleanCodec),
     (''slotsToStartSettlementClaiming'', U64Codec),
     (''minBondMaxStakeWanted'', U64Codec),
     (''reserved'', FixSize BytesCodec 463)]) CONFIG_DISCRIMINATOR"

definition getConfigDecoder :: "codec" where
  "getConfigDecoder = StructCodec [(''discriminator'', FixSize BytesCodec 8),
     (''adminAuthority'', AddressCodec),
     (''operatorAuthority'', AddressCodec),
     (''epochsToClaimSettlement'', U64Codec),
     (''withdrawLockupEpochs'', U64Codec),
     (''minimumStakeLamports'', U64Codec),
     (''bondsWithdrawerAuthorityBump'', U8Codec),
     (''pauseAuthority'', AddressCodec),
     (''paused'', BooleanCodec),
     (''slotsToStartSettlementClaiming'', U64Codec),
     (''minBondMaxStakeWanted'', U64Codec),
     (''reserved'', FixSize BytesCodec 463)]"

definition getConfigCodec :: "encoder \<times> codec" where
  "getConfigCodec = (getConfigEncoder, getConfigDecoder)"

definition decodeConfig :: "kit \<Rightarrow> byte list maybe_account \<Rightarrow> cval maybe_account res" where
  "decodeConfig kit encodedAccount = k_decodeAccount kit encodedAccount getConfigDecoder"

definition fetchMaybeConfig :: "kit \<Rightarrow> string \<Rightarrow> cval maybe_account res" where
  "fetchMaybeConfig kit address = rbind (k_fetch kit address) (decodeConfig kit)"

definition fetchConfig :: "kit \<Rightarrow> string \<Rightarrow> cval maybe_account res" where
  "fetchConfig kit address = rbind (fetchMaybeConfig kit address) (\<lambda>maybeAccount.
     rbind (k_assertExists kit maybeAccount) (\<lambda>_. Inr maybeAccount))"

definition fetchAllMaybeConfig :: "kit \<Rightarrow> string list \<Rightarrow> cval maybe_account list res" where
  "fetchAllMaybeConfig kit addresses = rbind (k_fetchAll kit addresses) (rmapM (decodeConfig kit))"

definition fetchAllConfig :: "kit \<Rightarrow> string list \<Rightarrow> cval maybe_account list res" where
  "fetchAllConfig kit addresses = rbind (fetchAllMaybeConfig kit addresses) (\<lambda>maybeAccounts.
     rbind (k_assertAllExist kit maybeAccounts) (\<lambda>_. Inr maybeAccounts))"

definition getConfigSize :: "nat" where
  "getConfigSize = 609"

section \<open>Settlement\<close>

definition SETTLEMENT_DISCRIMINATOR :: "byte list" where
  "SETTLEMENT_DISCRIMINATOR = [55, 11, 219, 33, 36, 136, 40, 182]"

definition getSettlementDiscriminatorBytes :: "kit \<Rightarrow> byte list res" where
  "getSettlementDiscriminatorBytes kit = fixed_bytes kit SETTLEMENT_DISCRIMINATOR"

definition Settlement_type :: "ts_type" where
  "Settlement_type = TObject [(''discriminator'', TBytes),
     (''bond'', TAddress),
     (''stakerAuthority'', TAddress),
     (''merkleRoot'', TBytes),
     (''maxTotalClaim'', TBigint),
     (''maxMerkleNodes'', TBigint),
     (''lamportsFunded'', TBigint),
     (''lamportsClaimed'', TBigint),
     (''merkleNodesClaimed'', TBigint),
     (''epochCreatedFor'', TBigint),
     (''slotCreatedAt'', TBigint),
     (''rentCollector'', TAddress),
     (''splitRentCollector'', TOption TAddress),
     (''splitRentAmount'', TBigint),
     (''bumps'', Bumps_type),
     (''reserved'', TBytes)]"

definition SettlementArgs_type :: "ts_type" where
  "SettlementArgs_type = TObject [(''bond'', TAddress),
     (''stakerAuthority'', TAddress),
     (''merkleRoot'', TBytes),
     (''maxTotalClaim'', TNumberOrBigint),
     (''maxMerkleNodes'', TNumberOrBigint),
     (''lamportsFunded'', TNumberOrBigint),
     (''lamportsClaimed'', TNumberOrBigint),
     (''merkleNodesClaimed'', TNumberOrBigint),
     (''epochCreatedFor'', TNumberOrBigint),
     (''slotCreatedAt'', TNumberOrBigint),
     (''rentCollector'', TAddress),
     (''splitRentCollector'', TOptionOrNullable TAddress),
     (''splitRentAmount'', TNumberOrBigint),
     (''bumps'', BumpsArgs_type),
     (''reserved'', TBytes)]"

definition getSettlementEncoder :: "encoder" where
  "getSettlementEncoder = WithDiscriminator (StructCodec [(''discriminator'', FixSize BytesCodec 8),
     (''bond'', AddressCodec),
     (''stakerAuthority'', AddressCodec),
     (''merkleRoot'', FixSize BytesCodec 32),
     (''maxTotalClaim'', U64Codec),
     (''maxMerkleNodes'', U64Codec),
     (''lamportsFunded'', U64Codec),
     (''lamportsClaimed'', U64Codec),
     (''merkleNodesClaimed'', U64Codec),
     (''epochCreatedFor'', U64Codec),
     (''slotCreatedAt'', U64Codec),
     (''rentCollector'', AddressCodec),
     (''splitRentCollector'', OptionCodec AddressCodec),
     (''splitRentAmount'', U64Codec),
     (''bumps'', getBumpsEncoder),
     (''reserved'', FixSize BytesCodec 90)]) SETTLEMENT_DISCRIMINATOR"

definition getSettlementDecoder :: "codec" where
  "getSettlementDecoder = StructCodec [(''discriminator'', FixSize BytesCodec 8),
     (''bond'', AddressCodec),
     (''stakerAuthority'', AddressCodec),
     (''merkleRoot'', FixSize BytesCodec 32),
     (''maxTotalClaim'', U64Codec),
     (''maxMerkleNodes'', U64Codec),
     (''lamportsFunded'', U64Codec),
     (''lamportsClaimed'', U64Codec),
     (''merkleNodesClaimed'', U64Codec),
     (''epochCreatedFor'', U64Codec),
     (''slotCreatedAt'', U64Codec),
     (''rentCollector'', AddressCodec),
     (''splitRentCollector'', OptionCodec AddressCodec),
     (''splitRentAmount'', U64Codec),
     (''bumps'', getBumpsDecoder),
     (''reserved'', FixSize BytesCodec 90)]"

definition getSettlementCodec :: "encoder \<times> codec" where
  "getSettlementCodec = (getSettlementEncoder, getSettlementDecoder)"

definition decodeSettlement :: "kit \<Rightarrow> byte list maybe_account \<Rightarrow> cval maybe_account res" where
  "decodeSettlement kit encodedAccount = k_decodeAccount kit encodedAccount getSettlementDecoder"

definition fetchMaybeSettlement :: "kit \<Rightarrow> string \<Rightarrow> cval maybe_account res" where
  "fetchMaybeSettlement kit address = rbind (k_fetch kit address) (decodeSettlement kit)"

definition fetchSettlement :: "kit \<Rightarrow> string \<Rightarrow> cval maybe_account res" where
  "fetchSettlement kit address = rbind (fetchMaybeSettlement kit address) (\<lambda>maybeAccount.
     rbind (k_assertExists kit maybeAccount) (\<lambda>_. Inr maybeAccount))"

definition fetchAllMaybeSettlement :: "kit \<Rightarrow> string list \<Rightarrow> cval maybe_account list res" where
  "fetchAllMaybeSettlement kit addresses = rbind (k_fetchAll kit addresses) (rmapM (decodeSettlement kit))"

definition fetchAllSettlement :: "kit \<Rightarrow> string list \<Rightarrow> cval maybe_account list res" where
  "fetchAllSettlement kit addresses = rbind (fetchAllMaybeSettlement kit addresses) (\<lambda>maybeAccounts.
     rbind (k_assertAllExist kit maybeAccounts) (\<lambda>_. Inr maybeAccounts))"

section \<open>SettlementClaim\<close>

definition SETTLEMENT_CLAIM_DISCRIMINATOR :: "byte list" where
  "SETTLEMENT_CLAIM_DISCRIMINATOR = [216, 103, 231, 246, 171, 99, 124, 133]"

definition getSettlementClaimDiscriminatorBytes :: "kit \<Rightarrow> byte list res" where
  "getSettlementClaimDiscriminatorBytes kit = fixed_bytes kit SETTLEMENT_CLAIM_DISCRIMINATOR"

definition SettlementClaim_type :: "ts_type" where
  "SettlementClaim_type = TObject [(''discriminator'', TBytes),
     (''settlement'', TAddress),
     (''stakeAccountTo'', TAddress),
     (''stakeAccountStaker'', TAddress),
     (''stakeAccountWithdrawer'', TAddress),
     (''amount'', TBigint),
     (''bump'', TNumber),
     (''rentCollector'', TAddress),
     (''reserved'', TBytes)]"

definition SettlementClaimArgs_type :: "ts_type" where
  "SettlementClaimArgs_type = TObject [(''settlement'', TAddress),
     (''stakeAccountTo'', TAddress),
     (''stakeAccountStaker'', TAddress),
     (''stakeAccountWithdrawer'', TAddress),
     (''amount'', TNumberOrBigint),
     (''bump'', TNumber),
     (''rentCollector'', TAddress),
     (''reserved'', TBytes)]"

definition getSettlementClaimEncoder :: "encoder" where
  "getSettlementClaimEncoder = WithDiscriminator (StructCodec [(''discriminator'', FixSize BytesCodec 8),
     (''settlement'', AddressCodec),
     (''stakeAccountTo'', AddressCodec),
     (''stakeAccountStaker'', AddressCodec),
     (''stakeAccountWithdrawer'', AddressCodec),
     (''amount'', U64Codec),
     (''bump'', U8Codec),
     (''rentCollector'', AddressCodec),
     (''reserved'', FixSize BytesCodec 93)]) SETTLEMENT_CLAIM_DISCRIMINATOR"

definition getSettlementClaimDecoder :: "codec" where
  "getSettlementClaimDecoder = StructCodec [(''discriminator'', FixSize BytesCodec 8),
     (''settlement'', AddressCodec),
     (''stakeAccountTo'', AddressCodec),
     (''stakeAccountStaker'', AddressCodec),
     (''stakeAccountWithdrawer'', AddressCodec),
     (''amount'', U64Codec),
     (''bump'', U8Codec),
     (''rentCollector'', AddressCodec),
     (''reserved'', FixSize BytesCodec 93)]"

definition getSettlementClaimCodec :: "encoder \<times> codec" where
  "getSettlementClaimCodec = (getSettlementClaimEncoder, getSettlementClaimDecoder)"

definition decodeSettlementClaim :: "kit \<Rightarrow> byte list maybe_account \<Rightarrow> cval maybe_account res" where
  "decodeSettlementClaim kit encodedAccount = k_decodeAccount kit encodedAccount getSettlementClaimDecoder"

definition fetchMaybeSettlementClaim :: "kit \<Rightarrow> string \<Rightarrow> cval maybe_account res" where
  "fetchMaybeSettlementClaim kit address = rbind (k_fetch kit address) (decodeSettlementClaim kit)"

definition fetchSettlementClaim :: "kit \<Rightarrow> string \<Rightarrow> cval maybe_account res" where
  "fetchSettlementClaim kit address = rbind (fetchMaybeSettlementClaim kit address) (\<lambda>maybeAccount.
     rbind (k_assertExists kit maybeAccount) (\<lambda>_. Inr maybeAccount))"

definition fetchAllMaybeSettlementClaim :: "kit \<Rightarrow> string list \<Rightarrow> cval maybe_account list res" where
  "fetchAllMaybeSettlementClaim kit addresses = rbind (k_fetchAll kit addresses) (rmapM (decodeSettlementClaim kit))"

definition fetchAllSettlementClaim :: "kit \<Rightarrow> string list \<Rightarrow> cval maybe_account list res" where
  "fetchAllSettlementClaim kit addresses = rbind (fetchAllMaybeSettlementClaim kit addresses) (\<lambda>maybeAccounts.
     rbind (k_assertAllExist kit maybeAccounts) (\<lambda>_. Inr maybeAccounts))"

definition getSettlementClaimSize :: "nat" where
  "getSettlementClaimSize = 270"

section \<open>SettlementClaims\<close>

definition SETTLEMENT_CLAIMS_DISCRIMINATOR :: "byte list" where
  "SETTLEMENT_CLAIMS_DISCRIMINATOR = [32, 130, 62, 175, 231, 54, 170, 114]"

definition getSettlementClaimsDiscriminatorBytes :: "kit \<Rightarrow> byte list res" where
  "getSettlementClaimsDiscriminatorBytes kit = fixed_bytes kit SETTLEMENT_CLAIMS_DISCRIMINATOR"

definition SettlementClaims_type :: "ts_type" where
  "SettlementClaims_type = TObject [(''discriminator'', TBytes),
     (''settlement'', TAddress),
     (''version'', TNumber),
     (''maxRecords'', TBigint)]"

definition SettlementClaimsArgs_type :: "ts_type" where
  "SettlementClaimsArgs_type = TObject [(''settlement'', TAddress),
     (''version'', TNumber),
     (''maxRecords'', TNumberOrBigint)]"

definition getSettlementClaimsEncoder :: "encoder" where
  "getSettlementClaimsEncoder = WithDiscriminator (StructCodec [(''discriminator'', FixSize BytesCodec 8),
     (''settlement'', AddressCodec),
     (''version'', U8Codec),
     (''maxRecords'', U64Codec)]) SETTLEMENT_CLAIMS_DISCRIMINATOR"

definition getSettlementClaimsDecoder :: "codec" where
  "getSettlementClaimsDecoder = StructCodec [(''discriminator'', FixSize BytesCodec 8),
     (''settlement'', AddressCodec),
     (''version'', U8Codec),
     (''maxRecords'', U64Codec)]"

definition getSettlementClaimsCodec :: "encoder \<times> codec" where
  "getSettlementClaimsCodec = (getSettlementClaimsEncoder, getSettlementClaimsDecoder)"

definition decodeSettlementClaims :: "kit \<Rightarrow> byte list maybe_account \<Rightarrow> cval maybe_account res" where
  "decodeSettlementClaims kit encodedAccount = k_decodeAccount kit encodedAccount getSettlementClaimsDecoder"

definition fetchMaybeSettlementClaims :: "kit \<Rightarrow> string \<Rightarrow> cval maybe_account res" where
  "fetchMaybeSettlementClaims kit address = rbind (k_fetch kit address) (decodeSettlementClaims kit)"

definition fetchSettlementClaims :: "kit \<Rightarrow> string \<Rightarrow> cval maybe_account res" where
  "fetchSettlementClaims kit address = rbind (fetchMaybeSettlementClaims kit address) (\<lambda>maybeAccount.
     rbind (k_assertExists kit maybeAccount) (\<lambda>_. Inr maybeAccount))"

definition fetchAllMaybeSettlementClaims :: "kit \<Rightarrow> string list \<Rightarrow> cval maybe_account list res" where
  "fetchAllMaybeSettlementClaims kit addresses = rbind (k_fetchAll kit addresses) (rmapM (decodeSettlementClaims kit))"

definition fetchAllSettlementClaims :: "kit \<Rightarrow> string list \<Rightarrow> cval maybe_account list res" where
  "fetchAllSettlementClaims kit addresses = rbind (fetchAllMaybeSettlementClaims kit addresses) (\<lambda>maybeAccounts.
     rbind (k_assertAllExist kit maybeAccounts) (\<lambda>_. Inr maybeAccounts))"

definition getSettlementClaimsSize :: "nat" where
  "getSettlementClaimsSize = 49"

section \<open>WithdrawRequest\<close>

definition WITHDRAW_REQUEST_DISCRIMINATOR :: "byte list" where
  "WITHDRAW_REQUEST_DISCRIMINATOR = [186, 239, 174, 191, 189, 13, 47, 196]"

definition getWithdrawRequestDiscriminatorBytes :: "kit \<Rightarrow> byte list res" where
  "getWithdrawRequestDiscriminatorBytes kit = fixed_bytes kit WITHDRAW_REQUEST_DISCRIMINATOR"

definition WithdrawRequest_type :: "ts_type" where
  "WithdrawRequest_type = TObject [(''discriminator'', TBytes),
     (''voteAccount'', TAddress),
     (''bond'', TAddress),
     (''epoch'', TBigint),
     (''requestedAmount'', TBigint),
     (''withdrawnAmount'', TBigint),
     (''bump'', TNumber),
     (''reserved'', TBytes)]"

definition WithdrawRequestArgs_type :: "ts_type" where
  "WithdrawRequestArgs_type = TObject [(''voteAccount'', TAddress),
     (''bond'', TAddress),
     (''epoch'', TNumberOrBigint),
     (''requestedAmount'', TNumberOrBigint),
     (''withdrawnAmount'', TNumberOrBigint),
     (''bump'', TNumber),
     (''reserved'', TBytes)]"

definition getWithdrawRequestEncoder :: "encoder" where
  "getWithdrawRequestEncoder = WithDiscriminator (StructCodec [(''discriminator'', FixSize BytesCodec 8),
     (''voteAccount'', AddressCodec),
     (''bond'', AddressCodec),
     (''epoch'', U64Codec),
     (''requestedAmount'', U64Codec),
     (''withdrawnAmount'', U64Codec),
     (''bump'', U8Codec),
     (''reserved'', FixSize BytesCodec 93)]) WITHDRAW_REQUEST_DISCRIMINATOR"

definition getWithdrawRequestDecoder :: "codec" where
  "getWithdrawRequestDecoder = StructCodec [(''discriminator'', FixSize BytesCodec 8),
     (''voteAccount'', AddressCodec),
     (''bond'', AddressCodec),
     (''epoch'', U64Codec),
     (''requestedAmount'', U64Codec),
     (''withdrawnAmount'', U64Codec),
     (''bump'', U8Codec),
     (''reserved'', FixSize BytesCodec 93)]"

definition getWithdrawRequestCodec :: "encoder \<times> codec" where
  "getWithdrawRequestCodec = (getWithdrawRequestEncoder, getWithdrawRequestDecoder)"

definition decodeWithdrawRequest :: "kit \<Rightarrow> byte list maybe_account \<Rightarrow> cval maybe_account res" where
  "decodeWithdrawRequest kit encodedAccount = k_decodeAccount kit encodedAccount getWithdrawRequestDecoder"

definition fetchMaybeWithdrawRequest :: "kit \<Rightarrow> string \<Rightarrow> cval maybe_account res" where
  "fetchMaybeWithdrawRequest kit address = rbind (k_fetch kit address) (decodeWithdrawRequest kit)"

definition fetchWithdrawRequest :: "kit \<Rightarrow> string \<Rightarrow> cval maybe_account res" where
  "fetchWithdrawRequest kit address = rbind (fetchMaybeWithdrawRequest kit address) (\<lambda>maybeAccount.
     rbind (k_assertExists kit maybeAccount) (\<lambda>_. Inr maybeAccount))"

definition fetchAllMaybeWithdrawRequest :: "kit \<Rightarrow> string list \<Rightarrow> cval maybe_account list res" where
  "fetchAllMaybeWithdrawRequest kit addresses = rbind (k_fetchAll kit addresses) (rmapM (decodeWithdrawRequest kit))"

definition fetchAllWithdrawRequest :: "kit \<Rightarrow> string list \<Rightarrow> cval maybe_account list res" where
  "fetchAllWithdrawRequest kit addresses = rbind (fetchAllMaybeWithdrawRequest kit addresses) (\<lambda>maybeAccounts.
     rbind (k_assertAllExist kit maybeAccounts) (\<lambda>_. Inr maybeAccounts))"

definition getWithdrawRequestSize :: "nat" where
  "getWithdrawRequestSize = 190"

end
