(* ===== verification/Cod_Ix_A.thy ===== *)
theory Cod_Ix_A
  imports Cod_Types
begin

text \<open>
  The instructions of the generated client, one section per file of
  \<open>packages/validator-bonds-codama/src/instructions\<close>, from cancelSettlement to configureBondProduct.
\<close>

section \<open>CancelSettlement\<close>

definition CANCEL_SETTLEMENT_DISCRIMINATOR :: "byte list" where
  "CANCEL_SETTLEMENT_DISCRIMINATOR = [33, 241, 96, 62, 228, 178, 1, 120]"

definition getCancelSettlementDiscriminatorBytes :: "kit \<Rightarrow> byte list res" where
  "getCancelSettlementDiscriminatorBytes kit = fixed_bytes kit CANCEL_SETTLEMENT_DISCRIMINATOR"

definition CancelSettlementInstruction_accounts :: "(string \<times> role \<times> string option) list" where
  "CancelSettlementInstruction_accounts = [(''config'', WRITABLE, None),
     (''bond'', READONLY, None),
     (''settlement'', WRITABLE, None),
     (''settlementClaims'', WRITABLE, None),
     (''authority'', READONLY_SIGNER, None),
     (''bondsWithdrawerAuthority'', READONLY, None),
     (''rentCollector'', WRITABLE, None),
     (''splitRentCollector'', WRITABLE, None),
     (''splitRentRefundAccount'', WRITABLE, None),
     (''clock'', READONLY, Some ''SysvarC1ock11111111111111111111111111111111''),
     (''stakeProgram'', READONLY, Some ''Stake11111111111111111111111111111111111111''),
     (''stakeHistory'', READONLY, Some ''SysvarStakeHistory1111111111111111111111111''),
     (''eventAuthority'', READONLY, None),
     (''program'', READONLY, None)]"

definition CancelSettlementInstructionData_type :: "ts_type" where
  "CancelSettlementInstructionData_type = TObject [(''discriminator'', TBytes)]"

definition CancelSettlementInstructionDataArgs_type :: "ts_type" where
  "CancelSettlementInstructionDataArgs_type = TObject []"

definition getCancelSettlementInstructionDataEncoder :: "encoder" where
  "getCancelSettlementInstructionDataEncoder = WithDiscriminator (StructCodec [(''discriminator'', FixSize BytesCodec 8)]) CANCEL_SETTLEMENT_DISCRIMINATOR"

definition getCancelSettlementInstructionDataDecoder :: "codec" where
  "getCancelSettlementInstructionDataDecoder = StructCodec [(''discriminator'', FixSize BytesCodec 8)]"

definition getCancelSettlementInstructionDataCodec :: "encoder \<times> codec" where
  "getCancelSettlementInstructionDataCodec = (getCancelSettlementInstructionDataEncoder, getCancelSettlementInstructionDataDecoder)"

definition CancelSettlementAsyncInput_fields :: "(string \<times> input_kind \<times> bool) list" where
  "CancelSettlementAsyncInput_fields = [(''config'', InAddress, False),
     (''bond'', InAddress, False),
     (''settlement'', InAddress, False),
     (''settlementClaims'', InAddress, True),
     (''authority'', InSigner, False),
     (''bondsWithdrawerAuthority'', InAddress, True),
     (''rentCollector'', InAddress, False),
     (''splitRentCollector'', InAddress, False),
     (''splitRentRefundAccount'', InAddress, False),
     (''clock'', InAddress, True),
     (''stakeProgram'', InAddress, True),
     (''stakeHistory'', InAddress, True),
     (''eventAuthority'', InAddress, True),
     (''program'', InAddress, False)]"

definition CancelSettlementAsync_originalAccounts :: "(string \<times> bool) list" where
  "CancelSettlementAsync_originalAccounts = [(''config'', True),
     (''bond'', False),
     (''settlement'', True),
     (''settlementClaims'', True),
     (''authority'', False),
     (''bondsWithdrawerAuthority'', False),
     (''rentCollector'', True),
     (''splitRentCollector'', True),
     (''splitRentRefundAccount'', True),
     (''clock'', False),
     (''stakeProgram'', False),
     (''stakeHistory'', False),
     (''eventAuthority'', False),
     (''program'', False)]"

definition CancelSettlementAsync_defaults :: "(string \<times> default_value) list" where
  "CancelSettlementAsync_defaults = [(''settlementClaims'', DerivedFrom [SeedBytes [99, 108, 97, 105, 109, 115, 95, 97, 99, 99, 111, 117, 110, 116], SeedAccount ''settlement'']),
     (''bondsWithdrawerAuthority'', DerivedFrom [SeedBytes [98, 111, 110, 100, 115, 95, 97, 117, 116, 104, 111, 114, 105, 116, 121], SeedAccount ''config'']),
     (''clock'', FixedAddress ''SysvarC1ock11111111111111111111111111111111''),
     (''stakeProgram'', FixedAddress ''Stake11111111111111111111111111111111111111''),
     (''stakeHistory'', FixedAddress ''SysvarStakeHistory1111111111111111111111111''),
     (''eventAuthority'', DerivedFrom [SeedBytes [95, 95, 101, 118, 101, 110, 116, 95, 97, 117, 116, 104, 111, 114, 105, 116, 121]])]"

definition CancelSettlementAsync_metas :: "string list" where
  "CancelSettlementAsync_metas = [''config'', ''bond'', ''settlement'', ''settlementClaims'', ''authority'', ''bondsWithdrawerAuthority'', ''rentCollector'', ''splitRentCollector'', ''splitRentRefundAccount'', ''clock'', ''stakeProgram'', ''stakeHistory'', ''eventAuthority'', ''program'']"

definition getCancelSettlementInstructionAsync :: "kit \<Rightarrow> ix_input \<Rightarrow> string option \<Rightarrow> kit_instruction res" where
  "getCancelSettlementInstructionAsync kit input programAddress = (let programAddress = orElse programAddress VALIDATOR_BONDS_PROGRAM_ADDRESS;
       accounts = original_accounts input CancelSettlementAsync_originalAccounts
     in rbind (resolve_defaults kit programAddress CancelSettlementAsync_defaults accounts) (\<lambda>accounts.
       instruction_of kit programAddress accounts CancelSettlementAsync_metas getCancelSettlementInstructionDataEncoder []))"

definition CancelSettlementInput_fields :: "(string \<times> input_kind \<times> bool) list" where
  "CancelSettlementInput_fields = [(''config'', InAddress, False),
     (''bond'', InAddress, False),
     (''settlement'', InAddress, False),
     (''settlementClaims'', InAddress, False),
     (''authority'', InSigner, False),
     (''bondsWithdrawerAuthority'', InAddress, False),
     (''rentCollector'', InAddress, False),
     (''splitRentCollector'', InAddress, False),
     (''splitRentRefundAccount'', InAddress, False),
     (''clock'', InAddress, True),
     (''stakeProgram'', InAddress, True),
     (''stakeHistory'', InAddress, True),
     (''eventAuthority'', InAddress, False),
     (''program'', InAddress, False)]"

definition CancelSettlement_originalAccounts :: "(string \<times> bool) list" where
  "CancelSettlement_originalAccounts = [(''config'', True),
     (''bond'', False),
     (''settlement'', True),
     (''settlementClaims'', True),
     (''authority'', False),
     (''bondsWithdrawerAuthority'', False),
     (''rentCollector'', True),
     (''splitRentCollector'', True),
     (''splitRentRefundAccount'', True),
     (''clock'', False),
     (''stakeProgram'', False),
     (''stakeHistory'', False),
     (''eventAuthority'', False),
     (''program'', False)]"

definition CancelSettlement_defaults :: "(string \<times> default_value) list" where
  "CancelSettlement_defaults = [(''clock'', FixedAddress ''SysvarC1ock11111111111111111111111111111111''),
     (''stakeProgram'', FixedAddress ''Stake11111111111111111111111111111111111111''),
     (''stakeHistory'', FixedAddress ''SysvarStakeHistory1111111111111111111111111'')]"

definition CancelSettlement_metas :: "string list" where
  "CancelSettlement_metas = [''config'', ''bond'', ''settlement'', ''settlementClaims'', ''authority'', ''bondsWithdrawerAuthority'', ''rentCollector'', ''splitRentCollector'', ''splitRentRefundAccount'', ''clock'', ''stakeProgram'', ''stakeHistory'', ''eventAuthority'', ''program'']"

definition getCancelSettlementInstruction :: "kit \<Rightarrow> ix_input \<Rightarrow> string option \<Rightarrow> kit_instruction res" where
  "getCancelSettlementInstruction kit input programAddress = (let programAddress = orElse programAddress VALIDATOR_BONDS_PROGRAM_ADDRESS;
       accounts = original_accounts input CancelSettlement_originalAccounts
     in rbind (resolve_defaults kit programAddress CancelSettlement_defaults accounts) (\<lambda>accounts.
       instruction_of kit programAddress accounts CancelSettlement_metas getCancelSettlementInstructionDataEncoder []))"

definition ParsedCancelSettlementInstruction_accounts :: "(string \<times> bool) list" where
  "ParsedCancelSettlementInstruction_accounts = [(''config'', False),
     (''bond'', False),
     (''settlement'', False),
     (''settlementClaims'', False),
     (''authority'', False),
     (''bondsWithdrawerAuthority'', False),
     (''rentCollector'', False),
     (''splitRentCollector'', False),
     (''splitRentRefundAccount'', False),
     (''clock'', False),
     (''stakeProgram'', False),
     (''stakeHistory'', False),
     (''eventAuthority'', False),
     (''program'', False)]"

definition parseCancelSettlementInstruction :: "kit \<Rightarrow> kit_instruction \<Rightarrow> parsed_instruction res" where
  "parseCancelSettlementInstruction kit ix = parse_from kit 14
     [(''config'', False),
      (''bond'', False),
      (''settlement'', False),
      (''settlementClaims'', False),
      (''authority'', False),
      (''bondsWithdrawerAuthority'', False),
      (''rentCollector'', False),
      (''splitRentCollector'', False),
      (''splitRentRefundAccount'', False),
      (''clock'', False),
      (''stakeProgram'', False),
      (''stakeHistory'', False),
      (''eventAuthority'', False),
      (''program'', False)]
     getCancelSettlementInstructionDataDecoder ix"

section \<open>CancelWithdrawRequest\<close>

definition CANCEL_WITHDRAW_REQUEST_DISCRIMINATOR :: "byte list" where
  "CANCEL_WITHDRAW_REQUEST_DISCRIMINATOR = [167, 100, 110, 128, 113, 154, 224, 77]"

definition getCancelWithdrawRequestDiscriminatorBytes :: "kit \<Rightarrow> byte list res" where
  "getCancelWithdrawRequestDiscriminatorBytes kit = fixed_bytes kit CANCEL_WITHDRAW_REQUEST_DISCRIMINATOR"

definition CancelWithdrawRequestInstruction_accounts :: "(string \<times> role \<times> string option) list" where
  "CancelWithdrawRequestInstruction_accounts = [(''config'', READONLY, None),
     (''bond'', READONLY, None),
     (''voteAccount'', READONLY, None),
     (''authority'', READONLY_SIGNER, None),
     (''withdrawRequest'', WRITABLE, None),
     (''rentCollector'', WRITABLE, None),
     (''eventAuthority'', READONLY, None),
     (''program'', READONLY, None)]"

definition CancelWithdrawRequestInstructionData_type :: "ts_type" where
  "CancelWithdrawRequestInstructionData_type = TObject [(''discriminator'', TBytes)]"

definition CancelWithdrawRequestInstructionDataArgs_type :: "ts_type" where
  "CancelWithdrawRequestInstructionDataArgs_type = TObject []"

definition getCancelWithdrawRequestInstructionDataEncoder :: "encoder" where
  "getCancelWithdrawRequestInstructionDataEncoder = WithDiscriminator (StructCodec [(''discriminator'', FixSize BytesCodec 8)]) CANCEL_WITHDRAW_REQUEST_DISCRIMINATOR"

definition getCancelWithdrawRequestInstructionDataDecoder :: "codec" where
  "getCancelWithdrawRequestInstructionDataDecoder = StructCodec [(''discriminator'', FixSize BytesCodec 8)]"

definition getCancelWithdrawRequestInstructionDataCodec :: "encoder \<times> codec" where
  "getCancelWithdrawRequestInstructionDataCodec = (getCancelWithdrawRequestInstructionDataEncoder, getCancelWithdrawRequestInstructionDataDecoder)"

definition CancelWithdrawRequestAsyncInput_fields :: "(string \<times> input_kind \<times> bool) list" where
  "CancelWithdrawRequestAsyncInput_fields = [(''config'', InAddress, False),
     (''bond'', InAddress, True),
     (''voteAccount'', InAddress, False),
     (''authority'', InSigner, False),
     (''withdrawRequest'', InAddress, True),
     (''rentCollector'', InAddress, False),
     (''eventAuthority'', InAddress, True),
     (''program'', InAddress, False)]"

definition CancelWithdrawRequestAsync_originalAccounts :: "(string \<times> bool) list" where
  "CancelWithdrawRequestAsync_originalAccounts = [(''config'', False),
     (''bond'', False),
     (''voteAccount'', False),
     (''authority'', False),
     (''withdrawRequest'', True),
     (''rentCollector'', True),
     (''eventAuthority'', False),
     (''program'', False)]"

definition CancelWithdrawRequestAsync_defaults :: "(string \<times> default_value) list" where
  "CancelWithdrawRequestAsync_defaults = [(''bond'', DerivedFrom [SeedBytes [98, 111, 110, 100, 95, 97, 99, 99, 111, 117, 110, 116], SeedAccount ''config'', SeedAccount ''voteAccount'']),
     (''withdrawRequest'', DerivedFrom [SeedBytes [119, 105, 116, 104, 100, 114, 97, 119, 95, 97, 99, 99, 111, 117, 110, 116], SeedAccount ''bond'']),
     (''eventAuthority'', DerivedFrom [SeedBytes [95, 95, 101, 118, 101, 110, 116, 95, 97, 117, 116, 104, 111, 114, 105, 116, 121]])]"

definition CancelWithdrawRequestAsync_metas :: "string list" where
  "CancelWithdrawRequestAsync_metas = [''config'', ''bond'', ''voteAccount'', ''authority'', ''withdrawRequest'', ''rentCollector'', ''eventAuthority'', ''program'']"

definition getCancelWithdrawRequestInstructionAsync :: "kit \<Rightarrow> ix_input \<Rightarrow> string option \<Rightarrow> kit_instruction res" where
  "getCancelWithdrawRequestInstructionAsync kit input programAddress = (let programAddress = orElse programAddress VALIDATOR_BONDS_PROGRAM_ADDRESS;
       accounts = original_accounts input CancelWithdrawRequestAsync_originalAccounts
     in rbind (resolve_defaults kit programAddress CancelWithdrawRequestAsync_defaults accounts) (\<lambda>accounts.
       instruction_of kit programAddress accounts CancelWithdrawRequestAsync_metas getCancelWithdrawRequestInstructionDataEncoder []))"

definition CancelWithdrawRequestInput_fields :: "(string \<times> input_kind \<times> bool) list" where
  "CancelWithdrawRequestInput_fields = [(''config'', InAddress, False),
     (''bond'', InAddress, False),
     (''voteAccount'', InAddress, False),
     (''authority'', InSigner, False),
     (''withdrawRequest'', InAddress, False),
     (''rentCollector'', InAddress, False),
     (''eventAuthority'', InAddress, False),
     (''program'', InAddress, False)]"

definition CancelWithdrawRequest_originalAccounts :: "(string \<times> bool) list" where
  "CancelWithdrawRequest_originalAccounts = [(''config'', False),
     (''bond'', False),
     (''voteAccount'', False),
     (''authority'', False),
     (''withdrawRequest'', True),
     (''rentCollector'', True),
     (''eventAuthority'', False),
     (''program'', False)]"

definition CancelWithdrawRequest_metas :: "string list" where
  "CancelWithdrawRequest_metas = [''config'', ''bond'', ''voteAccount'', ''authority'', ''withdrawRequest'', ''rentCollector'', ''eventAuthority'', ''program'']"

definition getCancelWithdrawRequestInstruction :: "kit \<Rightarrow> ix_input \<Rightarrow> string option \<Rightarrow> kit_instruction res" where
  "getCancelWithdrawRequestInstruction kit input programAddress = (let programAddress = orElse programAddress VALIDATOR_BONDS_PROGRAM_ADDRESS;
       accounts = original_accounts input CancelWithdrawRequest_originalAccounts
     in instruction_of kit programAddress accounts CancelWithdrawRequest_metas getCancelWithdrawRequestInstructionDataEncoder [])"

definition ParsedCancelWithdrawRequestInstruction_accounts :: "(string \<times> bool) list" where
  "ParsedCancelWithdrawRequestInstruction_accounts = [(''config'', False),
     (''bond'', False),
     (''voteAccount'', False),
     (''authority'', False),
     (''withdrawRequest'', False),
     (''rentCollector'', False),
     (''eventAuthority'', False),
     (''program'', False)]"

definition parseCancelWithdrawRequestInstruction :: "kit \<Rightarrow> kit_instruction \<Rightarrow> parsed_instruction res" where
  "parseCancelWithdrawRequestInstruction kit ix = parse_from kit 8
     [(''config'', False),
      (''bond'', False),
      (''voteAccount'', False),
      (''authority'', False),
      (''withdrawRequest'', False),
      (''rentCollector'', False),
      (''eventAuthority'', False),
      (''program'', False)]
     getCancelWithdrawRequestInstructionDataDecoder ix"

section \<open>ClaimSettlementV1\<close>

definition CLAIM_SETTLEMENT_V1_DISCRIMINATOR :: "byte list" where
  "CLAIM_SETTLEMENT_V1_DISCRIMINATOR = [0, 13, 213, 236, 10, 199, 94, 48]"

definition getClaimSettlementV1DiscriminatorBytes :: "kit \<Rightarrow> byte list res" where
  "getClaimSettlementV1DiscriminatorBytes kit = fixed_bytes kit CLAIM_SETTLEMENT_V1_DISCRIMINATOR"

definition ClaimSettlementV1Instruction_accounts :: "(string \<times> role \<times> string option) list" where
  "ClaimSettlementV1Instruction_accounts = [(''settlementClaimV1'', READONLY, None)]"

definition ClaimSettlementV1InstructionData_type :: "ts_type" where
  "ClaimSettlementV1InstructionData_type = TObject [(''discriminator'', TBytes)]"

definition ClaimSettlementV1InstructionDataArgs_type :: "ts_type" where
  "ClaimSettlementV1InstructionDataArgs_type = TObject []"

definition getClaimSettlementV1InstructionDataEncoder :: "encoder" where
  "getClaimSettlementV1InstructionDataEncoder = WithDiscriminator (StructCodec [(''discriminator'', FixSize BytesCodec 8)]) CLAIM_SETTLEMENT_V1_DISCRIMINATOR"

definition getClaimSettlementV1InstructionDataDecoder :: "codec" where
  "getClaimSettlementV1InstructionDataDecoder = StructCodec [(''discriminator'', FixSize BytesCodec 8)]"

definition getClaimSettlementV1InstructionDataCodec :: "encoder \<times> codec" where
  "getClaimSettlementV1InstructionDataCodec = (getClaimSettlementV1InstructionDataEncoder, getClaimSettlementV1InstructionDataDecoder)"

definition ClaimSettlementV1Input_fields :: "(string \<times> input_kind \<times> bool) list" where
  "ClaimSettlementV1Input_fields = [(''settlementClaimV1'', InAddress, False)]"

definition ClaimSettlementV1_originalAccounts :: "(string \<times> bool) list" where
  "ClaimSettlementV1_originalAccounts = [(''settlementClaimV1'', False)]"

definition ClaimSettlementV1_metas :: "string list" where
  "ClaimSettlementV1_metas = [''settlementClaimV1'']"

definition getClaimSettlementV1Instruction :: "kit \<Rightarrow> ix_input \<Rightarrow> string option \<Rightarrow> kit_instruction res" where
  "getClaimSettlementV1Instruction kit input programAddress = (let programAddress = orElse programAddress VALIDATOR_BONDS_PROGRAM_ADDRESS;
       accounts = original_accounts input ClaimSettlementV1_originalAccounts
     in instruction_of kit programAddress accounts ClaimSettlementV1_metas getClaimSettlementV1InstructionDataEncoder [])"

definition ParsedClaimSettlementV1Instruction_accounts :: "(string \<times> bool) list" where
  "ParsedClaimSettlementV1Instruction_accounts = [(''settlementClaimV1'', False)]"

definition parseClaimSettlementV1Instruction :: "kit \<Rightarrow> kit_instruction \<Rightarrow> parsed_instruction res" where
  "parseClaimSettlementV1Instruction kit ix = parse_from kit 1
     [(''settlementClaimV1'', False)]
     getClaimSettlementV1InstructionDataDecoder ix"

section \<open>ClaimSettlementV2\<close>

definition CLAIM_SETTLEMENT_V2_DISCRIMINATOR :: "byte list" where
  "CLAIM_SETTLEMENT_V2_DISCRIMINATOR = [188, 53, 132, 151, 88, 50, 52, 238]"

definition getClaimSettlementV2DiscriminatorBytes :: "kit \<Rightarrow> byte list res" where
  "getClaimSettlementV2DiscriminatorBytes kit = fixed_bytes kit CLAIM_SETTLEMENT_V2_DISCRIMINATOR"

definition ClaimSettlementV2Instruction_accounts :: "(string \<times> role \<times> string option) list" where
  "ClaimSettlementV2Instruction_accounts = [(''config'', READONLY, None),
     (''bond'', READONLY, None),
     (''settlement'', WRITABLE, None),
     (''settlementClaims'', WRITABLE, None),
     (''stakeAccountFrom'', WRITABLE, None),
     (''stakeAccountTo'', WRITABLE, None),
     (''bondsWithdrawerAuthority'', READONLY, None),
     (''stakeHistory'', READONLY, Some ''SysvarStakeHistory1111111111111111111111111''),
     (''clock'', READONLY, Some ''SysvarC1ock11111111111111111111111111111111''),
     (''stakeProgram'', READONLY, Some ''Stake11111111111111111111111111111111111111''),
     (''eventAuthority'', READONLY, None),
     (''program'', READONLY, None)]"

definition ClaimSettlementV2InstructionData_type :: "ts_type" where
  "ClaimSettlementV2InstructionData_type = TObject [(''discriminator'', TBytes),
     (''proof'', TArray TBytes),
     (''treeNodeHash'', TBytes),
     (''stakeAccountStaker'', TAddress),
     (''stakeAccountWithdrawer'', TAddress),
     (''claim'', TBigint),
     (''index'', TBigint)]"

definition ClaimSettlementV2InstructionDataArgs_type :: "ts_type" where
  "ClaimSettlementV2InstructionDataArgs_type = TObject [(''proof'', TArray TBytes),
     (''treeNodeHash'', TBytes),
     (''stakeAccountStaker'', TAddress),
     (''stakeAccountWithdrawer'', TAddress),
     (''claim'', TNumberOrBigint),
     (''index'', TNumberOrBigint)]"

definition getClaimSettlementV2InstructionDataEncoder :: "encoder" where
  "getClaimSettlementV2InstructionDataEncoder = WithDiscriminator (StructCodec [(''discriminator'', FixSize BytesCodec 8),
     (''proof'', ArrayCodec (FixSize BytesCodec 32)),
     (''treeNodeHash'', FixSize BytesCodec 32),
     (''stakeAccountStaker'', AddressCodec),
     (''stakeAccountWithdrawer'', AddressCodec),
     (''claim'', U64Codec),
     (''index'', U64Codec)]) CLAIM_SETTLEMENT_V2_DISCRIMINATOR"

definition getClaimSettlementV2InstructionDataDecoder :: "codec" where
  "getClaimSettlementV2InstructionDataDecoder = StructCodec [(''discriminator'', FixSize BytesCodec 8),
     (''proof'', ArrayCodec (FixSize BytesCodec 32)),
     (''treeNodeHash'', FixSize BytesCodec 32),
     (''stakeAccountStaker'', AddressCodec),
     (''stakeAccountWithdrawer'', AddressCodec),
     (''claim'', U64Codec),
     (''index'', U64Codec)]"

definition getClaimSettlementV2InstructionDataCodec :: "encoder \<times> codec" where
  "getClaimSettlementV2InstructionDataCodec = (getClaimSettlementV2InstructionDataEncoder, getClaimSettlementV2InstructionDataDecoder)"

definition ClaimSettlementV2AsyncInput_fields :: "(string \<times> input_kind \<times> bool) list" where
  "ClaimSettlementV2AsyncInput_fields = [(''config'', InAddress, False),
     (''bond'', InAddress, False),
     (''settlement'', InAddress, False),
     (''settlementClaims'', InAddress, True),
     (''stakeAccountFrom'', InAddress, False),
     (''stakeAccountTo'', InAddress, False),
     (''bondsWithdrawerAuthority'', InAddress, True),
     (''stakeHistory'', InAddress, True),
     (''clock'', InAddress, True),
     (''stakeProgram'', InAddress, True),
     (''eventAuthority'', InAddress, True),
     (''program'', InAddress, False),
     (''proof'', InArg, False),
     (''treeNodeHash'', InArg, False),
     (''stakeAccountStaker'', InArg, False),
     (''stakeAccountWithdrawer'', InArg, False),
     (''claim'', InArg, False),
     (''index'', InArg, False)]"

definition ClaimSettlementV2Async_originalAccounts :: "(string \<times> bool) list" where
  "ClaimSettlementV2Async_originalAccounts = [(''config'', False),
     (''bond'', False),
     (''settlement'', True),
     (''settlementClaims'', True),
     (''stakeAccountFrom'', True),
     (''stakeAccountTo'', True),
     (''bondsWithdrawerAuthority'', False),
     (''stakeHistory'', False),
     (''clock'', False),
     (''stakeProgram'', False),
     (''eventAuthority'', False),
     (''program'', False)]"

definition ClaimSettlementV2Async_defaults :: "(string \<times> default_value) list" where
  "ClaimSettlementV2Async_defaults = [(''settlementClaims'', DerivedFrom [SeedBytes [99, 108, 97, 105, 109, 115, 95, 97, 99, 99, 111, 117, 110, 116], SeedAccount ''settlement'']),
     (''bondsWithdrawerAuthority'', DerivedFrom [SeedBytes [98, 111, 110, 100, 115, 95, 97, 117, 116, 104, 111, 114, 105, 116, 121], SeedAccount ''config'']),
     (''stakeHistory'', FixedAddress ''SysvarStakeHistory1111111111111111111111111''),
     (''clock'', FixedAddress ''SysvarC1ock11111111111111111111111111111111''),
     (''stakeProgram'', FixedAddress ''Stake11111111111111111111111111111111111111''),
     (''eventAuthority'', DerivedFrom [SeedBytes [95, 95, 101, 118, 101, 110, 116, 95, 97, 117, 116, 104, 111, 114, 105, 116, 121]])]"

definition ClaimSettlementV2Async_metas :: "string list" where
  "ClaimSettlementV2Async_metas = [''config'', ''bond'', ''settlement'', ''settlementClaims'', ''stakeAccountFrom'', ''stakeAccountTo'', ''bondsWithdrawerAuthority'', ''stakeHistory'', ''clock'', ''stakeProgram'', ''eventAuthority'', ''program'']"

definition getClaimSettlementV2InstructionAsync :: "kit \<Rightarrow> ix_input \<Rightarrow> string option \<Rightarrow> kit_instruction res" where
  "getClaimSettlementV2InstructionAsync kit input programAddress = (let programAddress = orElse programAddress VALIDATOR_BONDS_PROGRAM_ADDRESS;
       accounts = original_accounts input ClaimSettlementV2Async_originalAccounts
     in rbind (resolve_defaults kit programAddress ClaimSettlementV2Async_defaults accounts) (\<lambda>accounts.
       instruction_of kit programAddress accounts ClaimSettlementV2Async_metas getClaimSettlementV2InstructionDataEncoder (in_args input)))"

definition ClaimSettlementV2Input_fields :: "(string \<times> input_kind \<times> bool) list" where
  "ClaimSettlementV2Input_fields = [(''config'', InAddress, False),
     (''bond'', InAddress, False),
     (''settlement'', InAddress, False),
     (''settlementClaims'', InAddress, False),
     (''stakeAccountFrom'', InAddress, False),
     (''stakeAccountTo'', InAddress, False),
     (''bondsWithdrawerAuthority'', InAddress, False),
     (''stakeHistory'', InAddress, True),
     (''clock'', InAddress, True),
     (''stakeProgram'', InAddress, True),
     (''eventAuthority'', InAddress, False),
     (''program'', InAddress, False),
     (''proof'', InArg, False),
     (''treeNodeHash'', InArg, False),
     (''stakeAccountStaker'', InArg, False),
     (''stakeAccountWithdrawer'', InArg, False),
     (''claim'', InArg, False),
     (''index'', InArg, False)]"

definition ClaimSettlementV2_originalAccounts :: "(string \<times> bool) list" where
  "ClaimSettlementV2_originalAccounts = [(''config'', False),
     (''bond'', False),
     (''settlement'', True),
     (''settlementClaims'', True),
     (''stakeAccountFrom'', True),
     (''stakeAccountTo'', True),
     (''bondsWithdrawerAuthority'', False),
     (''stakeHistory'', False),
     (''clock'', False),
     (''stakeProgram'', False),
     (''eventAuthority'', False),
     (''program'', False)]"

definition ClaimSettlementV2_defaults :: "(string \<times> default_value) list" where
  "ClaimSettlementV2_defaults = [(''stakeHistory'', FixedAddress ''SysvarStakeHistory1111111111111111111111111''),
     (''clock'', FixedAddress ''SysvarC1ock11111111111111111111111111111111''),
     (''stakeProgram'', FixedAddress ''Stake11111111111111111111111111111111111111'')]"

definition ClaimSettlementV2_metas :: "string list" where
  "ClaimSettlementV2_metas = [''config'', ''bond'', ''settlement'', ''settlementClaims'', ''stakeAccountFrom'', ''stakeAccountTo'', ''bondsWithdrawerAuthority'', ''stakeHistory'', ''clock'', ''stakeProgram'', ''eventAuthority'', ''program'']"

definition getClaimSettlementV2Instruction :: "kit \<Rightarrow> ix_input \<Rightarrow> string option \<Rightarrow> kit_instruction res" where
  "getClaimSettlementV2Instruction kit input programAddress = (let programAddress = orElse programAddress VALIDATOR_BONDS_PROGRAM_ADDRESS;
       accounts = original_accounts input ClaimSettlementV2_originalAccounts
     in rbind (resolve_defaults kit programAddress ClaimSettlementV2_defaults accounts) (\<lambda>accounts.
       instruction_of kit programAddress accounts ClaimSettlementV2_metas getClaimSettlementV2InstructionDataEncoder (in_args input)))"

definition ParsedClaimSettlementV2Instruction_accounts :: "(string \<times> bool) list" where
  "ParsedClaimSettlementV2Instruction_accounts = [(''config'', False),
     (''bond'', False),
     (''settlement'', False),
     (''settlementClaims'', False),
     (''stakeAccountFrom'', False),
     (''stakeAccountTo'', False),
     (''bondsWithdrawerAuthority'', False),
     (''stakeHistory'', False),
     (''clock'', False),
     (''stakeProgram'', False),
     (''eventAuthority'', False),
     (''program'', False)]"

definition parseClaimSettlementV2Instruction :: "kit \<Rightarrow> kit_instruction \<Rightarrow> parsed_instruction res" where
  "parseClaimSettlementV2Instruction kit ix = parse_from kit 12
     [(''config'', False),
      (''bond'', False),
      (''settlement'', False),
      (''settlementClaims'', False),
      (''stakeAccountFrom'', False),
      (''stakeAccountTo'', False),
      (''bondsWithdrawerAuthority'', False),
      (''stakeHistory'', False),
      (''clock'', False),
      (''stakeProgram'', False),
      (''eventAuthority'', False),
      (''program'', False)]
     getClaimSettlementV2InstructionDataDecoder ix"

section \<open>ClaimWithdrawRequest\<close>

definition CLAIM_WITHDRAW_REQUEST_DISCRIMINATOR :: "byte list" where
  "CLAIM_WITHDRAW_REQUEST_DISCRIMINATOR = [48, 232, 23, 52, 20, 134, 122, 118]"

definition getClaimWithdrawRequestDiscriminatorBytes :: "kit \<Rightarrow> byte list res" where
  "getClaimWithdrawRequestDiscriminatorBytes kit = fixed_bytes kit CLAIM_WITHDRAW_REQUEST_DISCRIMINATOR"

definition ClaimWithdrawRequestInstruction_accounts :: "(string \<times> role \<times> string option) list" where
  "ClaimWithdrawRequestInstruction_accounts = [(''config'', READONLY, None),
     (''bond'', READONLY, None),
     (''voteAccount'', READONLY, None),
     (''authority'', READONLY_SIGNER, None),
     (''withdrawRequest'', WRITABLE, None),
     (''bondsWithdrawerAuthority'', READONLY, None),
     (''stakeAccount'', WRITABLE, None),
     (''withdrawer'', READONLY, None),
     (''splitStakeAccount'', WRITABLE_SIGNER, None),
     (''splitStakeRentPayer'', WRITABLE_SIGNER, None),
     (''stakeProgram'', READONLY, Some ''Stake11111111111111111111111111111111111111''),
     (''systemProgram'', READONLY, Some ''11111111111111111111111111111111''),
     (''stakeHistory'', READONLY, Some ''SysvarStakeHistory1111111111111111111111111''),
     (''clock'', READONLY, Some ''SysvarC1ock11111111111111111111111111111111''),
     (''eventAuthority'', READONLY, None),
     (''program'', READONLY, None)]"

definition ClaimWithdrawRequestInstructionData_type :: "ts_type" where
  "ClaimWithdrawRequestInstructionData_type = TObject [(''discriminator'', TBytes)]"

definition ClaimWithdrawRequestInstructionDataArgs_type :: "ts_type" where
  "ClaimWithdrawRequestInstructionDataArgs_type = TObject []"

definition getClaimWithdrawRequestInstructionDataEncoder :: "encoder" where
  "getClaimWithdrawRequestInstructionDataEncoder = WithDiscriminator (StructCodec [(''discriminator'', FixSize BytesCodec 8)]) CLAIM_WITHDRAW_REQUEST_DISCRIMINATOR"

definition getClaimWithdrawRequestInstructionDataDecoder :: "codec" where
  "getClaimWithdrawRequestInstructionDataDecoder = StructCodec [(''discriminator'', FixSize BytesCodec 8)]"

definition getClaimWithdrawRequestInstructionDataCodec :: "encoder \<times> codec" where
  "getClaimWithdrawRequestInstructionDataCodec = (getClaimWithdrawRequestInstructionDataEncoder, getClaimWithdrawRequestInstructionDataDecoder)"

definition ClaimWithdrawRequestAsyncInput_fields :: "(string \<times> input_kind \<times> bool) list" where
  "ClaimWithdrawRequestAsyncInput_fields = [(''config'', InAddress, False),
     (''bond'', InAddress, True),
     (''voteAccount'', InAddress, False),
     (''authority'', InSigner, False),
     (''withdrawRequest'', InAddress, True),
     (''bondsWithdrawerAuthority'', InAddress, True),
     (''stakeAccount'', InAddress, False),
     (''withdrawer'', InAddress, False),
     (''splitStakeAccount'', InSigner, False),
     (''splitStakeRentPayer'', InSigner, False),
     (''stakeProgram'', InAddress, True),
     (''systemProgram'', InAddress, True),
     (''stakeHistory'', InAddress, True),
     (''clock'', InAddress, True),
     (''eventAuthority'', InAddress, True),
     (''program'', InAddress, False)]"

definition ClaimWithdrawRequestAsync_originalAccounts :: "(string \<times> bool) list" where
  "ClaimWithdrawRequestAsync_originalAccounts = [(''config'', False),
     (''bond'', False),
     (''voteAccount'', False),
     (''authority'', False),
     (''withdrawRequest'', True),
     (''bondsWithdrawerAuthority'', False),
     (''stakeAccount'', True),
     (''withdrawer'', False),
     (''splitStakeAccount'', True),
     (''splitStakeRentPayer'', True),
     (''stakeProgram'', False),
     (''systemProgram'', False),
     (''stakeHistory'', False),
     (''clock'', False),
     (''eventAuthority'', False),
     (''program'', False)]"

definition ClaimWithdrawRequestAsync_defaults :: "(string \<times> default_value) list" where
  "ClaimWithdrawRequestAsync_defaults = [(''bond'', DerivedFrom [SeedBytes [98, 111, 110, 100, 95, 97, 99, 99, 111, 117, 110, 116], SeedAccount ''config'', SeedAccount ''voteAccount'']),
     (''withdrawRequest'', DerivedFrom [SeedBytes [119, 105, 116, 104, 100, 114, 97, 119, 95, 97, 99, 99, 111, 117, 110, 116], SeedAccount ''bond'']),
     (''bondsWithdrawerAuthority'', DerivedFrom [SeedBytes [98, 111, 110, 100, 115, 95, 97, 117, 116, 104, 111, 114, 105, 116, 121], SeedAccount ''config'']),
     (''stakeProgram'', FixedAddress ''Stake11111111111111111111111111111111111111''),
     (''systemProgram'', FixedAddress ''11111111111111111111111111111111''),
     (''stakeHistory'', FixedAddress ''SysvarStakeHistory1111111111111111111111111''),
     (''clock'', FixedAddress ''SysvarC1ock11111111111111111111111111111111''),
     (''eventAuthority'', DerivedFrom [SeedBytes [95, 95, 101, 118, 101, 110, 116, 95, 97, 117, 116, 104, 111, 114, 105, 116, 121]])]"

definition ClaimWithdrawRequestAsync_metas :: "string list" where
  "ClaimWithdrawRequestAsync_metas = [''config'', ''bond'', ''voteAccount'', ''authority'', ''withdrawRequest'', ''bondsWithdrawerAuthority'', ''stakeAccount'', ''withdrawer'', ''splitStakeAccount'', ''splitStakeRentPayer'', ''stakeProgram'', ''systemProgram'', ''stakeHistory'', ''clock'', ''eventAuthority'', ''program'']"

definition getClaimWithdrawRequestInstructionAsync :: "kit \<Rightarrow> ix_input \<Rightarrow> string option \<Rightarrow> kit_instruction res" where
  "getClaimWithdrawRequestInstructionAsync kit input programAddress = (let programAddress = orElse programAddress VALIDATOR_BONDS_PROGRAM_ADDRESS;
       accounts = original_accounts input ClaimWithdrawRequestAsync_originalAccounts
     in rbind (resolve_defaults kit programAddress ClaimWithdrawRequestAsync_defaults accounts) (\<lambda>accounts.
       instruction_of kit programAddress accounts ClaimWithdrawRequestAsync_metas getClaimWithdrawRequestInstructionDataEncoder []))"

definition ClaimWithdrawRequestInput_fields :: "(string \<times> input_kind \<times> bool) list" where
  "ClaimWithdrawRequestInput_fields = [(''config'', InAddress, False),
     (''bond'', InAddress, False),
     (''voteAccount'', InAddress, False),
     (''authority'', InSigner, False),
     (''withdrawRequest'', InAddress, False),
     (''bondsWithdrawerAuthority'', InAddress, False),
     (''stakeAccount'', InAddress, False),
     (''withdrawer'', InAddress, False),
     (''splitStakeAccount'', InSigner, False),
     (''splitStakeRentPayer'', InSigner, False),
     (''stakeProgram'', InAddress, True),
     (''systemProgram'', InAddress, True),
     (''stakeHistory'', InAddress, True),
     (''clock'', InAddress, True),
     (''eventAuthority'', InAddress, False),
     (''program'', InAddress, False)]"

definition ClaimWithdrawRequest_originalAccounts :: "(string \<times> bool) list" where
  "ClaimWithdrawRequest_originalAccounts = [(''config'', False),
     (''bond'', False),
     (''voteAccount'', False),
     (''authority'', False),
     (''withdrawRequest'', True),
     (''bondsWithdrawerAuthority'', False),
     (''stakeAccount'', True),
     (''withdrawer'', False),
     (''splitStakeAccount'', True),
     (''splitStakeRentPayer'', True),
     (''stakeProgram'', False),
     (''systemProgram'', False),
     (''stakeHistory'', False),
     (''clock'', False),
     (''eventAuthority'', False),
     (''program'', False)]"

definition ClaimWithdrawRequest_defaults :: "(string \<times> default_value) list" where
  "ClaimWithdrawRequest_defaults = [(''stakeProgram'', FixedAddress ''Stake11111111111111111111111111111111111111''),
     (''systemProgram'', FixedAddress ''11111111111111111111111111111111''),
     (''stakeHistory'', FixedAddress ''SysvarStakeHistory1111111111111111111111111''),
     (''clock'', FixedAddress ''SysvarC1ock11111111111111111111111111111111'')]"

definition ClaimWithdrawRequest_metas :: "string list" where
  "ClaimWithdrawRequest_metas = [''config'', ''bond'', ''voteAccount'', ''authority'', ''withdrawRequest'', ''bondsWithdrawerAuthority'', ''stakeAccount'', ''withdrawer'', ''splitStakeAccount'', ''splitStakeRentPayer'', ''stakeProgram'', ''systemProgram'', ''stakeHistory'', ''clock'', ''eventAuthority'', ''program'']"

definition getClaimWithdrawRequestInstruction :: "kit \<Rightarrow> ix_input \<Rightarrow> string option \<Rightarrow> kit_instruction res" where
  "getClaimWithdrawRequestInstruction kit input programAddress = (let programAddress = orElse programAddress VALIDATOR_BONDS_PROGRAM_ADDRESS;
       accounts = original_accounts input ClaimWithdrawRequest_originalAccounts
     in rbind (resolve_defaults kit programAddress ClaimWithdrawRequest_defaults accounts) (\<lambda>accounts.
       instruction_of kit programAddress accounts ClaimWithdrawRequest_metas getClaimWithdrawRequestInstructionDataEncoder []))"

definition ParsedClaimWithdrawRequestInstruction_accounts :: "(string \<times> bool) list" where
  "ParsedClaimWithdrawRequestInstruction_accounts = [(''config'', False),
     (''bond'', False),
     (''voteAccount'', False),
     (''authority'', False),
     (''withdrawRequest'', False),
     (''bondsWithdrawerAuthority'', False),
     (''stakeAccount'', False),
     (''withdrawer'', False),
     (''splitStakeAccount'', False),
     (''splitStakeRentPayer'', False),
     (''stakeProgram'', False),
     (''systemProgram'', False),
     (''stakeHistory'', False),
     (''clock'', False),
     (''eventAuthority'', False),
     (''program'', False)]"

definition parseClaimWithdrawRequestInstruction :: "kit \<Rightarrow> kit_instruction \<Rightarrow> parsed_instruction res" where
  "parseClaimWithdrawRequestInstruction kit ix = parse_from kit 16
     [(''config'', False),
      (''bond'', False),
      (''voteAccount'', False),
      (''authority'', False),
      (''withdrawRequest'', False),
      (''bondsWithdrawerAuthority'', False),
      (''stakeAccount'', False),
      (''withdrawer'', False),
      (''splitStakeAccount'', False),
      (''splitStakeRentPayer'', False),
      (''stakeProgram'', False),
      (''systemProgram'', False),
      (''stakeHistory'', False),
      (''clock'', False),
      (''eventAuthority'', False),
      (''program'', False)]
     getClaimWithdrawRequestInstructionDataDecoder ix"

section \<open>CloseSettlementV2\<close>

definition CLOSE_SETTLEMENT_V2_DISCRIMINATOR :: "byte list" where
  "CLOSE_SETTLEMENT_V2_DISCRIMINATOR = [125, 212, 89, 37, 31, 244, 191, 179]"

definition getCloseSettlementV2DiscriminatorBytes :: "kit \<Rightarrow> byte list res" where
  "getCloseSettlementV2DiscriminatorBytes kit = fixed_bytes kit CLOSE_SETTLEMENT_V2_DISCRIMINATOR"

definition CloseSettlementV2Instruction_accounts :: "(string \<times> role \<times> string option) list" where
  "CloseSettlementV2Instruction_accounts = [(''config'', READONLY, None),
     (''bond'', READONLY, None),
     (''settlement'', WRITABLE, None),
     (''settlementClaims'', WRITABLE, None),
     (''bondsWithdrawerAuthority'', READONLY, None),
     (''rentCollector'', WRITABLE, None),
     (''splitRentCollector'', WRITABLE, None),
     (''splitRentRefundAccount'', WRITABLE, None),
     (''clock'', READONLY, Some ''SysvarC1ock11111111111111111111111111111111''),
     (''stakeProgram'', READONLY, Some ''Stake11111111111111111111111111111111111111''),
     (''stakeHistory'', READONLY, Some ''SysvarStakeHistory1111111111111111111111111''),
     (''eventAuthority'', READONLY, None),
     (''program'', READONLY, None)]"

definition CloseSettlementV2InstructionData_type :: "ts_type" where
  "CloseSettlementV2InstructionData_type = TObject [(''discriminator'', TBytes)]"

definition CloseSettlementV2InstructionDataArgs_type :: "ts_type" where
  "CloseSettlementV2InstructionDataArgs_type = TObject []"

definition getCloseSettlementV2InstructionDataEncoder :: "encoder" where
  "getCloseSettlementV2InstructionDataEncoder = WithDiscriminator (StructCodec [(''discriminator'', FixSize BytesCodec 8)]) CLOSE_SETTLEMENT_V2_DISCRIMINATOR"

definition getCloseSettlementV2InstructionDataDecoder :: "codec" where
  "getCloseSettlementV2InstructionDataDecoder = StructCodec [(''discriminator'', FixSize BytesCodec 8)]"

definition getCloseSettlementV2InstructionDataCodec :: "encoder \<times> codec" where
  "getCloseSettlementV2InstructionDataCodec = (getCloseSettlementV2InstructionDataEncoder, getCloseSettlementV2InstructionDataDecoder)"

definition CloseSettlementV2AsyncInput_fields :: "(string \<times> input_kind \<times> bool) list" where
  "CloseSettlementV2AsyncInput_fields = [(''config'', InAddress, False),
     (''bond'', InAddress, False),
     (''settlement'', InAddress, False),
     (''settlementClaims'', InAddress, True),
     (''bondsWithdrawerAuthority'', InAddress, True),
     (''rentCollector'', InAddress, False),
     (''splitRentCollector'', InAddress, False),
     (''splitRentRefundAccount'', InAddress, False),
     (''clock'', InAddress, True),
     (''stakeProgram'', InAddress, True),
     (''stakeHistory'', InAddress, True),
     (''eventAuthority'', InAddress, True),
     (''program'', InAddress, False)]"

definition CloseSettlementV2Async_originalAccounts :: "(string \<times> bool) list" where
  "CloseSettlementV2Async_originalAccounts = [(''config'', False),
     (''bond'', False),
     (''settlement'', True),
     (''settlementClaims'', True),
     (''bondsWithdrawerAuthority'', False),
     (''rentCollector'', True),
     (''splitRentCollector'', True),
     (''splitRentRefundAccount'', True),
     (''clock'', False),
     (''stakeProgram'', False),
     (''stakeHistory'', False),
     (''eventAuthority'', False),
     (''program'', False)]"

definition CloseSettlementV2Async_defaults :: "(string \<times> default_value) list" where
  "CloseSettlementV2Async_defaults = [(''settlementClaims'', DerivedFrom [SeedBytes [99, 108, 97, 105, 109, 115, 95, 97, 99, 99, 111, 117, 110, 116], SeedAccount ''settlement'']),
     (''bondsWithdrawerAuthority'', DerivedFrom [SeedBytes [98, 111, 110, 100, 115, 95, 97, 117, 116, 104, 111, 114, 105, 116, 121], SeedAccount ''config'']),
     (''clock'', FixedAddress ''SysvarC1ock11111111111111111111111111111111''),
     (''stakeProgram'', FixedAddress ''Stake11111111111111111111111111111111111111''),
     (''stakeHistory'', FixedAddress ''SysvarStakeHistory1111111111111111111111111''),
     (''eventAuthority'', DerivedFrom [SeedBytes [95, 95, 101, 118, 101, 110, 116, 95, 97, 117, 116, 104, 111, 114, 105, 116, 121]])]"

definition CloseSettlementV2Async_metas :: "string list" where
  "CloseSettlementV2Async_metas = [''config'', ''bond'', ''settlement'', ''settlementClaims'', ''bondsWithdrawerAuthority'', ''rentCollector'', ''splitRentCollector'', ''splitRentRefundAccount'', ''clock'', ''stakeProgram'', ''stakeHistory'', ''eventAuthority'', ''program'']"

definition getCloseSettlementV2InstructionAsync :: "kit \<Rightarrow> ix_input \<Rightarrow> string option \<Rightarrow> kit_instruction res" where
  "getCloseSettlementV2InstructionAsync kit input programAddress = (let programAddress = orElse programAddress VALIDATOR_BONDS_PROGRAM_ADDRESS;
       accounts = original_accounts input CloseSettlementV2Async_originalAccounts
     in rbind (resolve_defaults kit programAddress CloseSettlementV2Async_defaults accounts) (\<lambda>accounts.
       instruction_of kit programAddress accounts CloseSettlementV2Async_metas getCloseSettlementV2InstructionDataEncoder []))"

definition CloseSettlementV2Input_fields :: "(string \<times> input_kind \<times> bool) list" where
  "CloseSettlementV2Input_fields = [(''config'', InAddress, False),
     (''bond'', InAddress, False),
     (''settlement'', InAddress, False),
     (''settlementClaims'', InAddress, False),
     (''bondsWithdrawerAuthority'', InAddress, False),
     (''rentCollector'', InAddress, False),
     (''splitRentCollector'', InAddress, False),
     (''splitRentRefundAccount'', InAddress, False),
     (''clock'', InAddress, True),
     (''stakeProgram'', InAddress, True),
     (''stakeHistory'', InAddress, True),
     (''eventAuthority'', InAddress, False),
     (''program'', InAddress, False)]"

definition CloseSettlementV2_originalAccounts :: "(string \<times> bool) list" where
  "CloseSettlementV2_originalAccounts = [(''config'', False),
     (''bond'', False),
     (''settlement'', True),
     (''settlementClaims'', True),
     (''bondsWithdrawerAuthority'', False),
     (''rentCollector'', True),
     (''splitRentCollector'', True),
     (''splitRentRefundAccount'', True),
     (''clock'', False),
     (''stakeProgram'', False),
     (''stakeHistory'', False),
     (''eventAuthority'', False),
     (''program'', False)]"

definition CloseSettlementV2_defaults :: "(string \<times> default_value) list" where
  "CloseSettlementV2_defaults = [(''clock'', FixedAddress ''SysvarC1ock11111111111111111111111111111111''),
     (''stakeProgram'', FixedAddress ''Stake11111111111111111111111111111111111111''),
     (''stakeHistory'', FixedAddress ''SysvarStakeHistory1111111111111111111111111'')]"

definition CloseSettlementV2_metas :: "string list" where
  "CloseSettlementV2_metas = [''config'', ''bond'', ''settlement'', ''settlementClaims'', ''bondsWithdrawerAuthority'', ''rentCollector'', ''splitRentCollector'', ''splitRentRefundAccount'', ''clock'', ''stakeProgram'', ''stakeHistory'', ''eventAuthority'', ''program'']"

definition getCloseSettlementV2Instruction :: "kit \<Rightarrow> ix_input \<Rightarrow> string option \<Rightarrow> kit_instruction res" where
  "getCloseSettlementV2Instruction kit input programAddress = (let programAddress = orElse programAddress VALIDATOR_BONDS_PROGRAM_ADDRESS;
       accounts = original_accounts input CloseSettlementV2_originalAccounts
     in rbind (resolve_defaults kit programAddress CloseSettlementV2_defaults accounts) (\<lambda>accounts.
       instruction_of kit programAddress accounts CloseSettlementV2_metas getCloseSettlementV2InstructionDataEncoder []))"

definition ParsedCloseSettlementV2Instruction_accounts :: "(string \<times> bool) list" where
  "ParsedCloseSettlementV2Instruction_accounts = [(''config'', False),
     (''bond'', False),
     (''settlement'', False),
     (''settlementClaims'', False),
     (''bondsWithdrawerAuthority'', False),
     (''rentCollector'', False),
     (''splitRentCollector'', False),
     (''splitRentRefundAccount'', False),
     (''clock'', False),
     (''stakeProgram'', False),
     (''stakeHistory'', False),
     (''eventAuthority'', False),
     (''program'', False)]"

definition parseCloseSettlementV2Instruction :: "kit \<Rightarrow> kit_instruction \<Rightarrow> parsed_instruction res" where
  "parseCloseSettlementV2Instruction kit ix = parse_from kit 13
     [(''config'', False),
      (''bond'', False),
      (''settlement'', False),
      (''settlementClaims'', False),
      (''bondsWithdrawerAuthority'', False),
      (''rentCollector'', False),
      (''splitRentCollector'', False),
      (''splitRentRefundAccount'', False),
      (''clock'', False),
      (''stakeProgram'', False),
      (''stakeHistory'', False),
      (''eventAuthority'', False),
      (''program'', False)]
     getCloseSettlementV2InstructionDataDecoder ix"

section \<open>ConfigureBond\<close>

definition CONFIGURE_BOND_DISCRIMINATOR :: "byte list" where
  "CONFIGURE_BOND_DISCRIMINATOR = [228, 108, 79, 242, 82, 54, 105, 65]"

definition getConfigureBondDiscriminatorBytes :: "kit \<Rightarrow> byte list res" where
  "getConfigureBondDiscriminatorBytes kit = fixed_bytes kit CONFIGURE_BOND_DISCRIMINATOR"

definition ConfigureBondInstruction_accounts :: "(string \<times> role \<times> string option) list" where
  "ConfigureBondInstruction_accounts = [(''config'', READONLY, None),
     (''bond'', WRITABLE, None),
     (''authority'', READONLY_SIGNER, None),
     (''voteAccount'', READONLY, None),
     (''eventAuthority'', READONLY, None),
     (''program'', READONLY, None)]"

definition ConfigureBondInstructionData_type :: "ts_type" where
  "ConfigureBondInstructionData_type = TObject [(''discriminator'', TBytes),
     (''bondAuthority'', TOption TAddress),
     (''cpmpe'', TOption TBigint),
     (''maxStakeWanted'', TOption TBigint)]"

definition ConfigureBondInstructionDataArgs_type :: "ts_type" where
  "ConfigureBondInstructionDataArgs_type = TObject [(''bondAuthority'', TOptionOrNullable TAddress),
     (''cpmpe'', TOptionOrNullable TNumberOrBigint),
     (''maxStakeWanted'', TOptionOrNullable TNumberOrBigint)]"

definition getConfigureBondInstructionDataEncoder :: "encoder" where
  "getConfigureBondInstructionDataEncoder = WithDiscriminator (StructCodec [(''discriminator'', FixSize BytesCodec 8),
     (''bondAuthority'', OptionCodec AddressCodec),
     (''cpmpe'', OptionCodec U64Codec),
     (''maxStakeWanted'', OptionCodec U64Codec)]) CONFIGURE_BOND_DISCRIMINATOR"

definition getConfigureBondInstructionDataDecoder :: "codec" where
  "getConfigureBondInstructionDataDecoder = StructCodec [(''discriminator'', FixSize BytesCodec 8),
     (''bondAuthority'', OptionCodec AddressCodec),
     (''cpmpe'', OptionCodec U64Codec),
     (''maxStakeWanted'', OptionCodec U64Codec)]"

definition getConfigureBondInstructionDataCodec :: "encoder \<times> codec" where
  "getConfigureBondInstructionDataCodec = (getConfigureBondInstructionDataEncoder, getConfigureBondInstructionDataDecoder)"

definition ConfigureBondAsyncInput_fields :: "(string \<times> input_kind \<times> bool) list" where
  "ConfigureBondAsyncInput_fields = [(''config'', InAddress, False),
     (''bond'', InAddress, True),
     (''authority'', InSigner, False),
     (''voteAccount'', InAddress, False),
     (''eventAuthority'', InAddress, True),
     (''program'', InAddress, False),
     (''bondAuthority'', InArg, False),
     (''cpmpe'', InArg, False),
     (''maxStakeWanted'', InArg, False)]"

definition ConfigureBondAsync_originalAccounts :: "(string \<times> bool) list" where
  "ConfigureBondAsync_originalAccounts = [(''config'', False),
     (''bond'', True),
     (''authority'', False),
     (''voteAccount'', False),
     (''eventAuthority'', False),
     (''program'', False)]"

definition ConfigureBondAsync_defaults :: "(string \<times> default_value) list" where
  "ConfigureBondAsync_defaults = [(''bond'', DerivedFrom [SeedBytes [98, 111, 110, 100, 95, 97, 99, 99, 111, 117, 110, 116], SeedAccount ''config'', SeedAccount ''voteAccount'']),
     (''eventAuthority'', DerivedFrom [SeedBytes [95, 95, 101, 118, 101, 110, 116, 95, 97, 117, 116, 104, 111, 114, 105, 116, 121]])]"

definition ConfigureBondAsync_metas :: "string list" where
  "ConfigureBondAsync_metas = [''config'', ''bond'', ''authority'', ''voteAccount'', ''eventAuthority'', ''program'']"

definition getConfigureBondInstructionAsync :: "kit \<Rightarrow> ix_input \<Rightarrow> string option \<Rightarrow> kit_instruction res" where
  "getConfigureBondInstructionAsync kit input programAddress = (let programAddress = orElse programAddress VALIDATOR_BONDS_PROGRAM_ADDRESS;
       accounts = original_accounts input ConfigureBondAsync_originalAccounts
     in rbind (resolve_defaults kit programAddress ConfigureBondAsync_defaults accounts) (\<lambda>accounts.
       instruction_of kit programAddress accounts ConfigureBondAsync_metas getConfigureBondInstructionDataEncoder (in_args input)))"

definition ConfigureBondInput_fields :: "(string \<times> input_kind \<times> bool) list" where
  "ConfigureBondInput_fields = [(''config'', InAddress, False),
     (''bond'', InAddress, False),
     (''authority'', InSigner, False),
     (''voteAccount'', InAddress, False),
     (''eventAuthority'', InAddress, False),
     (''program'', InAddress, False),
     (''bondAuthority'', InArg, False),
     (''cpmpe'', InArg, False),
     (''maxStakeWanted'', InArg, False)]"

definition ConfigureBond_originalAccounts :: "(string \<times> bool) list" where
  "ConfigureBond_originalAccounts = [(''config'', False),
     (''bond'', True),
     (''authority'', False),
     (''voteAccount'', False),
     (''eventAuthority'', False),
     (''program'', False)]"

definition ConfigureBond_metas :: "string list" where
  "ConfigureBond_metas = [''config'', ''bond'', ''authority'', ''voteAccount'', ''eventAuthority'', ''program'']"

definition getConfigureBondInstruction :: "kit \<Rightarrow> ix_input \<Rightarrow> string option \<Rightarrow> kit_instruction res" where
  "getConfigureBondInstruction kit input programAddress = (let programAddress = orElse programAddress VALIDATOR_BONDS_PROGRAM_ADDRESS;
       accounts = original_accounts input ConfigureBond_originalAccounts
     in instruction_of kit programAddress accounts ConfigureBond_metas getConfigureBondInstructionDataEncoder (in_args input))"

definition ParsedConfigureBondInstruction_accounts :: "(string \<times> bool) list" where
  "ParsedConfigureBondInstruction_accounts = [(''config'', False),
     (''bond'', False),
     (''authority'', False),
     (''voteAccount'', False),
     (''eventAuthority'', False),
     (''program'', False)]"

definition parseConfigureBondInstruction :: "kit \<Rightarrow> kit_instruction \<Rightarrow> parsed_instruction res" where
  "parseConfigureBondInstruction kit ix = parse_from kit 6
     [(''config'', False),
      (''bond'', False),
      (''authority'', False),
      (''voteAccount'', False),
      (''eventAuthority'', False),
      (''program'', False)]
     getConfigureBondInstructionDataDecoder ix"

section \<open>ConfigureBondProduct\<close>

definition CONFIGURE_BOND_PRODUCT_DISCRIMINATOR :: "byte list" where
  "CONFIGURE_BOND_PRODUCT_DISCRIMINATOR = [167, 119, 141, 123, 76, 109, 241, 133]"

definition getConfigureBondProductDiscriminatorBytes :: "kit \<Rightarrow> byte list res" where
  "getConfigureBondProductDiscriminatorBytes kit = fixed_bytes kit CONFIGURE_BOND_PRODUCT_DISCRIMINATOR"

definition ConfigureBondProductInstruction_accounts :: "(string \<times> role \<times> string option) list" where
  "ConfigureBondProductInstruction_accounts = [(''config'', READONLY, None),
     (''bond'', READONLY, None),
     (''voteAccount'', READONLY, None),
     (''bondProduct'', WRITABLE, None),
     (''authority'', READONLY_SIGNER, None),
     (''eventAuthority'', READONLY, None),
     (''program'', READONLY, None)]"

definition ConfigureBondProductInstructionData_type :: "ts_type" where
  "ConfigureBondProductInstructionData_type = TObject [(''discriminator'', TBytes),
     (''configData'', ProductTypeConfig_type)]"

definition ConfigureBondProductInstructionDataArgs_type :: "ts_type" where
  "ConfigureBondProductInstructionDataArgs_type = TObject [(''configData'', ProductTypeConfigArgs_type)]"

definition getConfigureBondProductInstructionDataEncoder :: "encoder" where
  "getConfigureBondProductInstructionDataEncoder = WithDiscriminator (StructCodec [(''discriminator'', FixSize BytesCodec 8),
     (''configData'', getProductTypeConfigEncoder)]) CONFIGURE_BOND_PRODUCT_DISCRIMINATOR"

definition getConfigureBondProductInstructionDataDecoder :: "codec" where
  "getConfigureBondProductInstructionDataDecoder = StructCodec [(''discriminator'', FixSize BytesCodec 8),
     (''configData'', getProductTypeConfigDecoder)]"

definition getConfigureBondProductInstructionDataCodec :: "encoder \<times> codec" where
  "getConfigureBondProductInstructionDataCodec = (getConfigureBondProductInstructionDataEncoder, getConfigureBondProductInstructionDataDecoder)"

definition ConfigureBondProductAsyncInput_fields :: "(string \<times> input_kind \<times> bool) list" where
  "ConfigureBondProductAsyncInput_fields = [(''config'', InAddress, False),
     (''bond'', InAddress, True),
     (''voteAccount'', InAddress, False),
     (''bondProduct'', InAddress, False),
     (''authority'', InSigner, False),
     (''eventAuthority'', InAddress, True),
     (''program'', InAddress, False),
     (''configData'', InArg, False)]"

definition ConfigureBondProductAsync_originalAccounts :: "(string \<times> bool) list" where
  "ConfigureBondProductAsync_originalAccounts = [(''config'', False),
     (''bond'', False),
     (''voteAccount'', False),
     (''bondProduct'', True),
     (''authority'', False),
     (''eventAuthority'', False),
     (''program'', False)]"

definition ConfigureBondProductAsync_defaults :: "(string \<times> default_value) list" where
  "ConfigureBondProductAsync_defaults = [(''bond'', DerivedFrom [SeedBytes [98, 111, 110, 100, 95, 97, 99, 99, 111, 117, 110, 116], SeedAccount ''config'', SeedAccount ''voteAccount'']),
     (''eventAuthority'', DerivedFrom [SeedBytes [95, 95, 101, 118, 101, 110, 116, 95, 97, 117, 116, 104, 111, 114, 105, 116, 121]])]"

definition ConfigureBondProductAsync_metas :: "string list" where
  "ConfigureBondProductAsync_metas = [''config'', ''bond'', ''voteAccount'', ''bondProduct'', ''authority'', ''eventAuthority'', ''program'']"

definition getConfigureBondProductInstructionAsync :: "kit \<Rightarrow> ix_input \<Rightarrow> string option \<Rightarrow> kit_instruction res" where
  "getConfigureBondProductInstructionAsync kit input programAddress = (let programAddress = orElse programAddress VALIDATOR_BONDS_PROGRAM_ADDRESS;
       accounts = original_accounts input ConfigureBondProductAsync_originalAccounts
     in rbind (resolve_defaults kit programAddress ConfigureBondProductAsync_defaults accounts) (\<lambda>accounts.
       instruction_of kit programAddress accounts ConfigureBondProductAsync_metas getConfigureBondProductInstructionDataEncoder (in_args input)))"

definition ConfigureBondProductInput_fields :: "(string \<times> input_kind \<times> bool) list" where
  "ConfigureBondProductInput_fields = [(''config'', InAddress, False),
     (''bond'', InAddress, False),
     (''voteAccount'', InAddress, False),
     (''bondProduct'', InAddress, False),
     (''authority'', InSigner, False),
     (''eventAuthority'', InAddress, False),
     (''program'', InAddress, False),
     (''configData'', InArg, False)]"

definition ConfigureBondProduct_originalAccounts :: "(string \<times> bool) list" where
  "ConfigureBondProduct_originalAccounts = [(''config'', False),
     (''bond'', False),
     (''voteAccount'', False),
     (''bondProduct'', True),
     (''authority'', False),
     (''eventAuthority'', False),
     (''program'', False)]"

definition ConfigureBondProduct_metas :: "string list" where
  "ConfigureBondProduct_metas = [''config'', ''bond'', ''voteAccount'', ''bondProduct'', ''authority'', ''eventAuthority'', ''program'']"

definition getConfigureBondProductInstruction :: "kit \<Rightarrow> ix_input \<Rightarrow> string option \<Rightarrow> kit_instruction res" where
  "getConfigureBondProductInstruction kit input programAddress = (let programAddress = orElse programAddress VALIDATOR_BONDS_PROGRAM_ADDRESS;
       accounts = original_accounts input ConfigureBondProduct_originalAccounts
     in instruction_of kit programAddress accounts ConfigureBondProduct_metas getConfigureBondProductInstructionDataEncoder (in_args input))"

definition ParsedConfigureBondProductInstruction_accounts :: "(string \<times> bool) list" where
  "ParsedConfigureBondProductInstruction_accounts = [(''config'', False),
     (''bond'', False),
     (''voteAccount'', False),
     (''bondProduct'', False),
     (''authority'', False),
     (''eventAuthority'', False),
     (''program'', False)]"

definition parseConfigureBondProductInstruction :: "kit \<Rightarrow> kit_instruction \<Rightarrow> parsed_instruction res" where
  "parseConfigureBondProductInstruction kit ix = parse_from kit 7
     [(''config'', False),
      (''bond'', False),
      (''voteAccount'', False),
      (''bondProduct'', False),
      (''authority'', False),
      (''eventAuthority'', False),
      (''program'', False)]
     getConfigureBondProductInstructionDataDecoder ix"

end
