(* ===== verification/Cod_Ix_B.thy ===== *)
theory Cod_Ix_B
  imports Cod_Types
begin

text \<open>
  The instructions of the generated client, one section per file of
  \<open>packages/validator-bonds-codama/src/instructions\<close>, from configureBondWithMint to initBondProduct.
\<close>

section \<open>ConfigureBondWithMint\<close>

definition CONFIGURE_BOND_WITH_MINT_DISCRIMINATOR :: "byte list" where
  "CONFIGURE_BOND_WITH_MINT_DISCRIMINATOR = [48, 189, 230, 39, 112, 33, 227, 8]"

definition getConfigureBondWithMintDiscriminatorBytes :: "kit \<Rightarrow> byte list res" where
  "getConfigureBondWithMintDiscriminatorBytes kit = fixed_bytes kit CONFIGURE_BOND_WITH_MINT_DISCRIMINATOR"

definition ConfigureBondWithMintInstruction_accounts :: "(string \<times> role \<times> string option) list" where
  "ConfigureBondWithMintInstruction_accounts = [(''config'', READONLY, None),
     (''bond'', WRITABLE, None),
     (''mint'', WRITABLE, None),
     (''voteAccount'', READONLY, None),
     (''tokenAccount'', WRITABLE, None),
     (''tokenAuthority'', READONLY_SIGNER, None),
     (''tokenProgram'', READONLY, Some ''TokenkegQfeZyiNwAJbNbGKPFXCWuBvf9Ss623VQ5DA''),
     (''eventAuthority'', READONLY, None),
     (''program'', READONLY, None)]"

definition ConfigureBondWithMintInstructionData_type :: "ts_type" where
  "ConfigureBondWithMintInstructionData_type = TObject [(''discriminator'', TBytes),
     (''validatorIdentity'', TAddress),
     (''bondAuthority'', TOption TAddress),
     (''cpmpe'', TOption TBigint),
     (''maxStakeWanted'', TOption TBigint)]"

definition ConfigureBondWithMintInstructionDataArgs_type :: "ts_type" where
  "ConfigureBondWithMintInstructionDataArgs_type = TObject [(''validatorIdentity'', TAddress),
     (''bondAuthority'', TOptionOrNullable TAddress),
     (''cpmpe'', TOptionOrNullable TNumberOrBigint),
     (''maxStakeWanted'', TOptionOrNullable TNumberOrBigint)]"

definition getConfigureBondWithMintInstructionDataEncoder :: "encoder" where
  "getConfigureBondWithMintInstructionDataEncoder = WithDiscriminator (StructCodec [(''discriminator'', FixSize BytesCodec 8),
     (''validatorIdentity'', AddressCodec),
     (''bondAuthority'', OptionCodec AddressCodec),
     (''cpmpe'', OptionCodec U64Codec),
     (''maxStakeWanted'', OptionCodec U64Codec)]) CONFIGURE_BOND_WITH_MINT_DISCRIMINATOR"

definition getConfigureBondWithMintInstructionDataDecoder :: "codec" where
  "getConfigureBondWithMintInstructionDataDecoder = StructCodec [(''discriminator'', FixSize BytesCodec 8),
     (''validatorIdentity'', AddressCodec),
     (''bondAuthority'', OptionCodec AddressCodec),
     (''cpmpe'', OptionCodec U64Codec),
     (''maxStakeWanted'', OptionCodec U64Codec)]"

definition getConfigureBondWithMintInstructionDataCodec :: "encoder \<times> codec" where
  "getConfigureBondWithMintInstructionDataCodec = (getConfigureBondWithMintInstructionDataEncoder, getConfigureBondWithMintInstructionDataDecoder)"

definition ConfigureBondWithMintAsyncInput_fields :: "(string \<times> input_kind \<times> bool) list" where
  "ConfigureBondWithMintAsyncInput_fields = [(''config'', InAddress, False),
     (''bond'', InAddress, True),
     (''mint'', InAddress, False),
     (''voteAccount'', InAddress, False),
     (''tokenAccount'', InAddress, False),
     (''tokenAuthority'', InSigner, False),
     (''tokenProgram'', InAddress, True),
     (''eventAuthority'', InAddress, True),
     (''program'', InAddress, False),
     (''validatorIdentity'', InArg, False),
     (''bondAuthority'', InArg, False),
     (''cpmpe'', InArg, False),
     (''maxStakeWanted'', InArg, False)]"

definition ConfigureBondWithMintAsync_originalAccounts :: "(string \<times> bool) list" where
  "ConfigureBondWithMintAsync_originalAccounts = [(''config'', False),
     (''bond'', True),
     (''mint'', True),
     (''voteAccount'', False),
     (''tokenAccount'', True),
     (''tokenAuthority'', False),
     (''tokenProgram'', False),
     (''eventAuthority'', False),
     (''program'', False)]"

definition ConfigureBondWithMintAsync_defaults :: "(string \<times> default_value) list" where
  "ConfigureBondWithMintAsync_defaults = [(''bond'', DerivedFrom [SeedBytes [98, 111, 110, 100, 95, 97, 99, 99, 111, 117, 110, 116], SeedAccount ''config'', SeedAccount ''voteAccount'']),
     (''tokenProgram'', FixedAddress ''TokenkegQfeZyiNwAJbNbGKPFXCWuBvf9Ss623VQ5DA''),
     (''eventAuthority'', DerivedFrom [SeedBytes [95, 95, 101, 118, 101, 110, 116, 95, 97, 117, 116, 104, 111, 114, 105, 116, 121]])]"

definition ConfigureBondWithMintAsync_metas :: "string list" where
  "ConfigureBondWithMintAsync_metas = [''config'', ''bond'', ''mint'', ''voteAccount'', ''tokenAccount'', ''tokenAuthority'', ''tokenProgram'', ''eventAuthority'', ''program'']"

definition getConfigureBondWithMintInstructionAsync :: "kit \<Rightarrow> ix_input \<Rightarrow> string option \<Rightarrow> kit_instruction res" where
  "getConfigureBondWithMintInstructionAsync kit input programAddress = (let programAddress = orElse programAddress VALIDATOR_BONDS_PROGRAM_ADDRESS;
       accounts = original_accounts input ConfigureBondWithMintAsync_originalAccounts
     in rbind (resolve_defaults kit programAddress ConfigureBondWithMintAsync_defaults accounts) (\<lambda>accounts.
       instruction_of kit programAddress accounts ConfigureBondWithMintAsync_metas getConfigureBondWithMintInstructionDataEncoder (in_args input)))"

definition ConfigureBondWithMintInput_fields :: "(string \<times> input_kind \<times> bool) list" where
  "ConfigureBondWithMintInput_fields = [(''config'', InAddress, False),
     (''bond'', InAddress, False),
     (''mint'', InAddress, False),
     (''voteAccount'', InAddress, False),
     (''tokenAccount'', InAddress, False),
     (''tokenAuthority'', InSigner, False),
     (''tokenProgram'', InAddress, True),
     (''eventAuthority'', InAddress, False),
     (''program'', InAddress, False),
     (''validatorIdentity'', InArg, False),
     (''bondAuthority'', InArg, False),
     (''cpmpe'', InArg, False),
     (''maxStakeWanted'', InArg, False)]"

definition ConfigureBondWithMint_originalAccounts :: "(string \<times> bool) list" where
  "ConfigureBondWithMint_originalAccounts = [(''config'', False),
     (''bond'', True),
     (''mint'', True),
     (''voteAccount'', False),
     (''tokenAccount'', True),
     (''tokenAuthority'', False),
     (''tokenProgram'', False),
     (''eventAuthority'', False),
     (''program'', False)]"

definition ConfigureBondWithMint_defaults :: "(string \<times> default_value) list" where
  "ConfigureBondWithMint_defaults = [(''tokenProgram'', FixedAddress ''TokenkegQfeZyiNwAJbNbGKPFXCWuBvf9Ss623VQ5DA'')]"

definition ConfigureBondWithMint_metas :: "string list" where
  "ConfigureBondWithMint_metas = [''config'', ''bond'', ''mint'', ''voteAccount'', ''tokenAccount'', ''tokenAuthority'', ''tokenProgram'', ''eventAuthority'', ''program'']"

definition getConfigureBondWithMintInstruction :: "kit \<Rightarrow> ix_input \<Rightarrow> string option \<Rightarrow> kit_instruction res" where
  "getConfigureBondWithMintInstruction kit input programAddress = (let programAddress = orElse programAddress VALIDATOR_BONDS_PROGRAM_ADDRESS;
       accounts = original_accounts input ConfigureBondWithMint_originalAccounts
     in rbind (resolve_defaults kit programAddress ConfigureBondWithMint_defaults accounts) (\<lambda>accounts.
       instruction_of kit programAddress accounts ConfigureBondWithMint_metas getConfigureBondWithMintInstructionDataEncoder (in_args input)))"

definition ParsedConfigureBondWithMintInstruction_accounts :: "(string \<times> bool) list" where
  "ParsedConfigureBondWithMintInstruction_accounts = [(''config'', False),
     (''bond'', False),
     (''mint'', False),
     (''voteAccount'', False),
     (''tokenAccount'', False),
     (''tokenAuthority'', False),
     (''tokenProgram'', False),
     (''eventAuthority'', False),
     (''program'', False)]"

definition parseConfigureBondWithMintInstruction :: "kit \<Rightarrow> kit_instruction \<Rightarrow> parsed_instruction res" where
  "parseConfigureBondWithMintInstruction kit ix = parse_from kit 9
     [(''config'', False),
      (''bond'', False),
      (''mint'', False),
      (''voteAccount'', False),
      (''tokenAccount'', False),
      (''tokenAuthority'', False),
      (''tokenProgram'', False),
      (''eventAuthority'', False),
      (''program'', False)]
     getConfigureBondWithMintInstructionDataDecoder ix"

section \<open>ConfigureConfig\<close>

definition CONFIGURE_CONFIG_DISCRIMINATOR :: "byte list" where
  "CONFIGURE_CONFIG_DISCRIMINATOR = [198, 98, 161, 165, 137, 200, 230, 203]"

definition getConfigureConfigDiscriminatorBytes :: "kit \<Rightarrow> byte list res" where
  "getConfigureConfigDiscriminatorBytes kit = fixed_bytes kit CONFIGURE_CONFIG_DISCRIMINATOR"

definition ConfigureConfigInstruction_accounts :: "(string \<times> role \<times> string option) list" where
  "ConfigureConfigInstruction_accounts = [(''config'', WRITABLE, None),
     (''adminAuthority'', READONLY_SIGNER, None),
     (''eventAuthority'', READONLY, None),
     (''program'', READONLY, None)]"

definition ConfigureConfigInstructionData_type :: "ts_type" where
  "ConfigureConfigInstructionData_type = TObject [(''discriminator'', TBytes),
     (''admin'', TOption TAddress),
     (''operator'', TOption TAddress),
     (''pauseAuthority'', TOption TAddress),
     (''epochsToClaimSettlement'', TOption TBigint),
     (''withdrawLockupEpochs'', TOption TBigint),
     (''minimumStakeLamports'', TOption TBigint),
     (''slotsToStartSettlementClaiming'', TOption TBigint),
     (''minBondMaxStakeWanted'', TOption TBigint)]"

definition ConfigureConfigInstructionDataArgs_type :: "ts_type" where
  "ConfigureConfigInstructionDataArgs_type = TObject [(''admin'', TOptionOrNullable TAddress),
     (''operator'', TOptionOrNullable TAddress),
     (''pauseAuthority'', TOptionOrNullable TAddress),
     (''epochsToClaimSettlement'', TOptionOrNullable TNumberOrBigint),
     (''withdrawLockupEpochs'', TOptionOrNullable TNumberOrBigint),
     (''minimumStakeLamports'', TOptionOrNullable TNumberOrBigint),
     (''slotsToStartSettlementClaiming'', TOptionOrNullable TNumberOrBigint),
     (''minBondMaxStakeWanted'', TOptionOrNullable TNumberOrBigint)]"

definition getConfigureConfigInstructionDataEncoder :: "encoder" where
  "getConfigureConfigInstructionDataEncoder = WithDiscriminator (StructCodec [(''discriminator'', FixSize BytesCodec 8),
     (''admin'', OptionCodec AddressCodec),
     (''operator'', OptionCodec AddressCodec),
     (''pauseAuthority'', OptionCodec AddressCodec),
     (''epochsToClaimSettlement'', OptionCodec U64Codec),
     (''withdrawLockupEpochs'', OptionCodec U64Codec),
     (''minimumStakeLamports'', OptionCodec U64Codec),
     (''slotsToStartSettlementClaiming'', OptionCodec U64Codec),
     (''minBondMaxStakeWanted'', OptionCodec U64Codec)]) CONFIGURE_CONFIG_DISCRIMINATOR"

definition getConfigureConfigInstructionDataDecoder :: "codec" where
  "getConfigureConfigInstructionDataDecoder = StructCodec [(''discriminator'', FixSize BytesCodec 8),
     (''admin'', OptionCodec AddressCodec),
     (''operator'', OptionCodec AddressCodec),
     (''pauseAuthority'', OptionCodec AddressCodec),
     (''epochsToClaimSettlement'', OptionCodec U64Codec),
     (''withdrawLockupEpochs'', OptionCodec U64Codec),
     (''minimumStakeLamports'', OptionCodec U64Codec),
     (''slotsToStartSettlementClaiming'', OptionCodec U64Codec),
     (''minBondMaxStakeWanted'', OptionCodec U64Codec)]"

definition getConfigureConfigInstructionDataCodec :: "encoder \<times> codec" where
  "getConfigureConfigInstructionDataCodec = (getConfigureConfigInstructionDataEncoder, getConfigureConfigInstructionDataDecoder)"

definition ConfigureConfigAsyncInput_fields :: "(string \<times> input_kind \<times> bool) list" where
  "ConfigureConfigAsyncInput_fields = [(''config'', InAddress, False),
     (''adminAuthority'', InSigner, False),
     (''eventAuthority'', InAddress, True),
     (''program'', InAddress, False),
     (''admin'', InArg, False),
     (''operator'', InArg, False),
     (''pauseAuthority'', InArg, False),
     (''epochsToClaimSettlement'', InArg, False),
     (''withdrawLockupEpochs'', InArg, False),
     (''minimumStakeLamports'', InArg, False),
     (''slotsToStartSettlementClaiming'', InArg, False),
     (''minBondMaxStakeWanted'', InArg, False)]"

definition ConfigureConfigAsync_originalAccounts :: "(string \<times> bool) list" where
  "ConfigureConfigAsync_originalAccounts = [(''config'', True),
     (''adminAuthority'', False),
     (''eventAuthority'', False),
     (''program'', False)]"

definition ConfigureConfigAsync_defaults :: "(string \<times> default_value) list" where
  "ConfigureConfigAsync_defaults = [(''eventAuthority'', DerivedFrom [SeedBytes [95, 95, 101, 118, 101, 110, 116, 95, 97, 117, 116, 104, 111, 114, 105, 116, 121]])]"

definition ConfigureConfigAsync_metas :: "string list" where
  "ConfigureConfigAsync_metas = [''config'', ''adminAuthority'', ''eventAuthority'', ''program'']"

definition getConfigureConfigInstructionAsync :: "kit \<Rightarrow> ix_input \<Rightarrow> string option \<Rightarrow> kit_instruction res" where
  "getConfigureConfigInstructionAsync kit input programAddress = (let programAddress = orElse programAddress VALIDATOR_BONDS_PROGRAM_ADDRESS;
       accounts = original_accounts input ConfigureConfigAsync_originalAccounts
     in rbind (resolve_defaults kit programAddress ConfigureConfigAsync_defaults accounts) (\<lambda>accounts.
       instruction_of kit programAddress accounts ConfigureConfigAsync_metas getConfigureConfigInstructionDataEncoder (in_args input)))"

definition ConfigureConfigInput_fields :: "(string \<times> input_kind \<times> bool) list" where
  "ConfigureConfigInput_fields = [(''config'', InAddress, False),
     (''adminAuthority'', InSigner, False),
     (''eventAuthority'', InAddress, False),
     (''program'', InAddress, False),
     (''admin'', InArg, False),
     (''operator'', InArg, False),
     (''pauseAuthority'', InArg, False),
     (''epochsToClaimSettlement'', InArg, False),
     (''withdrawLockupEpochs'', InArg, False),
     (''minimumStakeLamports'', InArg, False),
     (''slotsToStartSettlementClaiming'', InArg, False),
     (''minBondMaxStakeWanted'', InArg, False)]"

definition ConfigureConfig_originalAccounts :: "(string \<times> bool) list" where
  "ConfigureConfig_originalAccounts = [(''config'', True),
     (''adminAuthority'', False),
     (''eventAuthority'', False),
     (''program'', False)]"

definition ConfigureConfig_metas :: "string list" where
  "ConfigureConfig_metas = [''config'', ''adminAuthority'', ''eventAuthority'', ''program'']"

definition getConfigureConfigInstruction :: "kit \<Rightarrow> ix_input \<Rightarrow> string option \<Rightarrow> kit_instruction res" where
  "getConfigureConfigInstruction kit input programAddress = (let programAddress = orElse programAddress VALIDATOR_BONDS_PROGRAM_ADDRESS;
       accounts = original_accounts input ConfigureConfig_originalAccounts
     in instruction_of kit programAddress accounts ConfigureConfig_metas getConfigureConfigInstructionDataEncoder (in_args input))"

definition ParsedConfigureConfigInstruction_accounts :: "(string \<times> bool) list" where
  "ParsedConfigureConfigInstruction_accounts = [(''config'', False),
     (''adminAuthority'', False),
     (''eventAuthority'', False),
     (''program'', False)]"

definition parseConfigureConfigInstruction :: "kit \<Rightarrow> kit_instruction \<Rightarrow> parsed_instruction res" where
  "parseConfigureConfigInstruction kit ix = parse_from kit 4
     [(''config'', False),
      (''adminAuthority'', False),
      (''eventAuthority'', False),
      (''program'', False)]
     getConfigureConfigInstructionDataDecoder ix"

section \<open>EmergencyPause\<close>

definition EMERGENCY_PAUSE_DISCRIMINATOR :: "byte list" where
  "EMERGENCY_PAUSE_DISCRIMINATOR = [21, 143, 27, 142, 200, 181, 210, 255]"

definition getEmergencyPauseDiscriminatorBytes :: "kit \<Rightarrow> byte list res" where
  "getEmergencyPauseDiscriminatorBytes kit = fixed_bytes kit EMERGENCY_PAUSE_DISCRIMINATOR"

definition EmergencyPauseInstruction_accounts :: "(string \<times> role \<times> string option) list" where
  "EmergencyPauseInstruction_accounts = [(''config'', WRITABLE, None),
     (''pauseAuthority'', READONLY_SIGNER, None),
     (''eventAuthority'', READONLY, None),
     (''program'', READONLY, None)]"

definition EmergencyPauseInstructionData_type :: "ts_type" where
  "EmergencyPauseInstructionData_type = TObject [(''discriminator'', TBytes)]"

definition EmergencyPauseInstructionDataArgs_type :: "ts_type" where
  "EmergencyPauseInstructionDataArgs_type = TObject []"

definition getEmergencyPauseInstructionDataEncoder :: "encoder" where
  "getEmergencyPauseInstructionDataEncoder = WithDiscriminator (StructCodec [(''discriminator'', FixSize BytesCodec 8)]) EMERGENCY_PAUSE_DISCRIMINATOR"

definition getEmergencyPauseInstructionDataDecoder :: "codec" where
  "getEmergencyPauseInstructionDataDecoder = StructCodec [(''discriminator'', FixSize BytesCodec 8)]"

definition getEmergencyPauseInstructionDataCodec :: "encoder \<times> codec" where
  "getEmergencyPauseInstructionDataCodec = (getEmergencyPauseInstructionDataEncoder, getEmergencyPauseInstructionDataDecoder)"

definition EmergencyPauseAsyncInput_fields :: "(string \<times> input_kind \<times> bool) list" where
  "EmergencyPauseAsyncInput_fields = [(''config'', InAddress, False),
     (''pauseAuthority'', InSigner, False),
     (''eventAuthority'', InAddress, True),
     (''program'', InAddress, False)]"

definition EmergencyPauseAsync_originalAccounts :: "(string \<times> bool) list" where
  "EmergencyPauseAsync_originalAccounts = [(''config'', True),
     (''pauseAuthority'', False),
     (''eventAuthority'', False),
     (''program'', False)]"

definition EmergencyPauseAsync_defaults :: "(string \<times> default_value) list" where
  "EmergencyPauseAsync_defaults = [(''eventAuthority'', DerivedFrom [SeedBytes [95, 95, 101, 118, 101, 110, 116, 95, 97, 117, 116, 104, 111, 114, 105, 116, 121]])]"

definition EmergencyPauseAsync_metas :: "string list" where
  "EmergencyPauseAsync_metas = [''config'', ''pauseAuthority'', ''eventAuthority'', ''program'']"

definition getEmergencyPauseInstructionAsync :: "kit \<Rightarrow> ix_input \<Rightarrow> string option \<Rightarrow> kit_instruction res" where
  "getEmergencyPauseInstructionAsync kit input programAddress = (let programAddress = orElse programAddress VALIDATOR_BONDS_PROGRAM_ADDRESS;
       accounts = original_accounts input EmergencyPauseAsync_originalAccounts
     in rbind (resolve_defaults kit programAddress EmergencyPauseAsync_defaults accounts) (\<lambda>accounts.
       instruction_of kit programAddress accounts EmergencyPauseAsync_metas getEmergencyPauseInstructionDataEncoder []))"

definition EmergencyPauseInput_fields :: "(string \<times> input_kind \<times> bool) list" where
  "EmergencyPauseInput_fields = [(''config'', InAddress, False),
     (''pauseAuthority'', InSigner, False),
     (''eventAuthority'', InAddress, False),
     (''program'', InAddress, False)]"

definition EmergencyPause_originalAccounts :: "(string \<times> bool) list" where
  "EmergencyPause_originalAccounts = [(''config'', True),
     (''pauseAuthority'', False),
     (''eventAuthority'', False),
     (''program'', False)]"

definition EmergencyPause_metas :: "string list" where
  "EmergencyPause_metas = [''config'', ''pauseAuthority'', ''eventAuthority'', ''program'']"

definition getEmergencyPauseInstruction :: "kit \<Rightarrow> ix_input \<Rightarrow> string option \<Rightarrow> kit_instruction res" where
  "getEmergencyPauseInstruction kit input programAddress = (let programAddress = orElse programAddress VALIDATOR_BONDS_PROGRAM_ADDRESS;
       accounts = original_accounts input EmergencyPause_originalAccounts
     in instruction_of kit programAddress accounts EmergencyPause_metas getEmergencyPauseInstructionDataEncoder [])"

definition ParsedEmergencyPauseInstruction_accounts :: "(string \<times> bool) list" where
  "ParsedEmergencyPauseInstruction_accounts = [(''config'', False),
     (''pauseAuthority'', False),
     (''eventAuthority'', False),
     (''program'', False)]"

definition parseEmergencyPauseInstruction :: "kit \<Rightarrow> kit_instruction \<Rightarrow> parsed_instruction res" where
  "parseEmergencyPauseInstruction kit ix = parse_from kit 4
     [(''config'', False),
      (''pauseAuthority'', False),
      (''eventAuthority'', False),
      (''program'', False)]
     getEmergencyPauseInstructionDataDecoder ix"

section \<open>EmergencyResume\<close>

definition EMERGENCY_RESUME_DISCRIMINATOR :: "byte list" where
  "EMERGENCY_RESUME_DISCRIMINATOR = [0, 243, 48, 185, 6, 73, 190, 83]"

definition getEmergencyResumeDiscriminatorBytes :: "kit \<Rightarrow> byte list res" where
  "getEmergencyResumeDiscriminatorBytes kit = fixed_bytes kit EMERGENCY_RESUME_DISCRIMINATOR"

definition EmergencyResumeInstruction_accounts :: "(string \<times> role \<times> string option) list" where
  "EmergencyResumeInstruction_accounts = [(''config'', WRITABLE, None),
     (''pauseAuthority'', READONLY_SIGNER, None),
     (''eventAuthority'', READONLY, None),
     (''program'', READONLY, None)]"

definition EmergencyResumeInstructionData_type :: "ts_type" where
  "EmergencyResumeInstructionData_type = TObject [(''discriminator'', TBytes)]"

definition EmergencyResumeInstructionDataArgs_type :: "ts_type" where
  "EmergencyResumeInstructionDataArgs_type = TObject []"

definition getEmergencyResumeInstructionDataEncoder :: "encoder" where
  "getEmergencyResumeInstructionDataEncoder = WithDiscriminator (StructCodec [(''discriminator'', FixSize BytesCodec 8)]) EMERGENCY_RESUME_DISCRIMINATOR"

definition getEmergencyResumeInstructionDataDecoder :: "codec" where
  "getEmergencyResumeInstructionDataDecoder = StructCodec [(''discriminator'', FixSize BytesCodec 8)]"

definition getEmergencyResumeInstructionDataCodec :: "encoder \<times> codec" where
  "getEmergencyResumeInstructionDataCodec = (getEmergencyResumeInstructionDataEncoder, getEmergencyResumeInstructionDataDecoder)"

definition EmergencyResumeAsyncInput_fields :: "(string \<times> input_kind \<times> bool) list" where
  "EmergencyResumeAsyncInput_fields = [(''config'', InAddress, False),
     (''pauseAuthority'', InSigner, False),
     (''eventAuthority'', InAddress, True),
     (''program'', InAddress, False)]"

definition EmergencyResumeAsync_originalAccounts :: "(string \<times> bool) list" where
  "EmergencyResumeAsync_originalAccounts = [(''config'', True),
     (''pauseAuthority'', False),
     (''eventAuthority'', False),
     (''program'', False)]"

definition EmergencyResumeAsync_defaults :: "(string \<times> default_value) list" where
  "EmergencyResumeAsync_defaults = [(''eventAuthority'', DerivedFrom [SeedBytes [95, 95, 101, 118, 101, 110, 116, 95, 97, 117, 116, 104, 111, 114, 105, 116, 121]])]"

definition EmergencyResumeAsync_metas :: "string list" where
  "EmergencyResumeAsync_metas = [''config'', ''pauseAuthority'', ''eventAuthority'', ''program'']"

definition getEmergencyResumeInstructionAsync :: "kit \<Rightarrow> ix_input \<Rightarrow> string option \<Rightarrow> kit_instruction res" where
  "getEmergencyResumeInstructionAsync kit input programAddress = (let programAddress = orElse programAddress VALIDATOR_BONDS_PROGRAM_ADDRESS;
       accounts = original_accounts input EmergencyResumeAsync_originalAccounts
     in rbind (resolve_defaults kit programAddress EmergencyResumeAsync_defaults accounts) (\<lambda>accounts.
       instruction_of kit programAddress accounts EmergencyResumeAsync_metas getEmergencyResumeInstructionDataEncoder []))"

definition EmergencyResumeInput_fields :: "(string \<times> input_kind \<times> bool) list" where
  "EmergencyResumeInput_fields = [(''config'', InAddress, False),
     (''pauseAuthority'', InSigner, False),
     (''eventAuthority'', InAddress, False),
     (''program'', InAddress, False)]"

definition EmergencyResume_originalAccounts :: "(string \<times> bool) list" where
  "EmergencyResume_originalAccounts = [(''config'', True),
     (''pauseAuthority'', False),
     (''eventAuthority'', False),
     (''program'', False)]"

definition EmergencyResume_metas :: "string list" where
  "EmergencyResume_metas = [''config'', ''pauseAuthority'', ''eventAuthority'', ''program'']"

definition getEmergencyResumeInstruction :: "kit \<Rightarrow> ix_input \<Rightarrow> string option \<Rightarrow> kit_instruction res" where
  "getEmergencyResumeInstruction kit input programAddress = (let programAddress = orElse programAddress VALIDATOR_BONDS_PROGRAM_ADDRESS;
       accounts = original_accounts input EmergencyResume_originalAccounts
     in instruction_of kit programAddress accounts EmergencyResume_metas getEmergencyResumeInstructionDataEncoder [])"

definition ParsedEmergencyResumeInstruction_accounts :: "(string \<times> bool) list" where
  "ParsedEmergencyResumeInstruction_accounts = [(''config'', False),
     (''pauseAuthority'', False),
     (''eventAuthority'', False),
     (''program'', False)]"

definition parseEmergencyResumeInstruction :: "kit \<Rightarrow> kit_instruction \<Rightarrow> parsed_instruction res" where
  "parseEmergencyResumeInstruction kit ix = parse_from kit 4
     [(''config'', False),
      (''pauseAuthority'', False),
      (''eventAuthority'', False),
      (''program'', False)]
     getEmergencyResumeInstructionDataDecoder ix"

section \<open>FundBond\<close>

definition FUND_BOND_DISCRIMINATOR :: "byte list" where
  "FUND_BOND_DISCRIMINATOR = [58, 44, 212, 175, 30, 17, 68, 62]"

definition getFundBondDiscriminatorBytes :: "kit \<Rightarrow> byte list res" where
  "getFundBondDiscriminatorBytes kit = fixed_bytes kit FUND_BOND_DISCRIMINATOR"

definition FundBondInstruction_accounts :: "(string \<times> role \<times> string option) list" where
  "FundBondInstruction_accounts = [(''config'', READONLY, None),
     (''bond'', READONLY, None),
     (''bondsWithdrawerAuthority'', READONLY, None),
     (''stakeAccount'', WRITABLE, None),
     (''stakeAuthority'', READONLY_SIGNER, None),
     (''clock'', READONLY, Some ''SysvarC1ock11111111111111111111111111111111''),
     (''stakeHistory'', READONLY, Some ''SysvarStakeHistory1111111111111111111111111''),
     (''stakeProgram'', READONLY, Some ''Stake11111111111111111111111111111111111111''),
     (''eventAuthority'', READONLY, None),
     (''program'', READONLY, None)]"

definition FundBondInstructionData_type :: "ts_type" where
  "FundBondInstructionData_type = TObject [(''discriminator'', TBytes)]"

definition FundBondInstructionDataArgs_type :: "ts_type" where
  "FundBondInstructionDataArgs_type = TObject []"

definition getFundBondInstructionDataEncoder :: "encoder" where
  "getFundBondInstructionDataEncoder = WithDiscriminator (StructCodec [(''discriminator'', FixSize BytesCodec 8)]) FUND_BOND_DISCRIMINATOR"

definition getFundBondInstructionDataDecoder :: "codec" where
  "getFundBondInstructionDataDecoder = StructCodec [(''discriminator'', FixSize BytesCodec 8)]"

definition getFundBondInstructionDataCodec :: "encoder \<times> codec" where
  "getFundBondInstructionDataCodec = (getFundBondInstructionDataEncoder, getFundBondInstructionDataDecoder)"

definition FundBondAsyncInput_fields :: "(string \<times> input_kind \<times> bool) list" where
  "FundBondAsyncInput_fields = [(''config'', InAddress, False),
     (''bond'', InAddress, False),
     (''bondsWithdrawerAuthority'', InAddress, True),
     (''stakeAccount'', InAddress, False),
     (''stakeAuthority'', InSigner, False),
     (''clock'', InAddress, True),
     (''stakeHistory'', InAddress, True),
     (''stakeProgram'', InAddress, True),
     (''eventAuthority'', InAddress, True),
     (''program'', InAddress, False)]"

definition FundBondAsync_originalAccounts :: "(string \<times> bool) list" where
  "FundBondAsync_originalAccounts = [(''config'', False),
     (''bond'', False),
     (''bondsWithdrawerAuthority'', False),
     (''stakeAccount'', True),
     (''stakeAuthority'', False),
     (''clock'', False),
     (''stakeHistory'', False),
     (''stakeProgram'', False),
     (''eventAuthority'', False),
     (''program'', False)]"

definition FundBondAsync_defaults :: "(string \<times> default_value) list" where
  "FundBondAsync_defaults = [(''bondsWithdrawerAuthority'', DerivedFrom [SeedBytes [98, 111, 110, 100, 115, 95, 97, 117, 116, 104, 111, 114, 105, 116, 121], SeedAccount ''config'']),
     (''clock'', FixedAddress ''SysvarC1ock11111111111111111111111111111111''),
     (''stakeHistory'', FixedAddress ''SysvarStakeHistory1111111111111111111111111''),
     (''stakeProgram'', FixedAddress ''Stake11111111111111111111111111111111111111''),
     (''eventAuthority'', DerivedFrom [SeedBytes [95, 95, 101, 118, 101, 110, 116, 95, 97, 117, 116, 104, 111, 114, 105, 116, 121]])]"

definition FundBondAsync_metas :: "string list" where
  "FundBondAsync_metas = [''config'', ''bond'', ''bondsWithdrawerAuthority'', ''stakeAccount'', ''stakeAuthority'', ''clock'', ''stakeHistory'', ''stakeProgram'', ''eventAuthority'', ''program'']"

definition getFundBondInstructionAsync :: "kit \<Rightarrow> ix_input \<Rightarrow> string option \<Rightarrow> kit_instruction res" where
  "getFundBondInstructionAsync kit input programAddress = (let programAddress = orElse programAddress VALIDATOR_BONDS_PROGRAM_ADDRESS;
       accounts = original_accounts input FundBondAsync_originalAccounts
     in rbind (resolve_defaults kit programAddress FundBondAsync_defaults accounts) (\<lambda>accounts.
       instruction_of kit programAddress accounts FundBondAsync_metas getFundBondInstructionDataEncoder []))"

definition FundBondInput_fields :: "(string \<times> input_kind \<times> bool) list" where
  "FundBondInput_fields = [(''config'', InAddress, False),
     (''bond'', InAddress, False),
     (''bondsWithdrawerAuthority'', InAddress, False),
     (''stakeAccount'', InAddress, False),
     (''stakeAuthority'', InSigner, False),
     (''clock'', InAddress, True),
     (''stakeHistory'', InAddress, True),
     (''stakeProgram'', InAddress, True),
     (''eventAuthority'', InAddress, False),
     (''program'', InAddress, False)]"

definition FundBond_originalAccounts :: "(string \<times> bool) list" where
  "FundBond_originalAccounts = [(''config'', False),
     (''bond'', False),
     (''bondsWithdrawerAuthority'', False),
     (''stakeAccount'', True),
     (''stakeAuthority'', False),
     (''clock'', False),
     (''stakeHistory'', False),
     (''stakeProgram'', False),
     (''eventAuthority'', False),
     (''program'', False)]"

definition FundBond_defaults :: "(string \<times> default_value) list" where
  "FundBond_defaults = [(''clock'', FixedAddress ''SysvarC1ock11111111111111111111111111111111''),
     (''stakeHistory'', FixedAddress ''SysvarStakeHistory1111111111111111111111111''),
     (''stakeProgram'', FixedAddress ''Stake11111111111111111111111111111111111111'')]"

definition FundBond_metas :: "string list" where
  "FundBond_metas = [''config'', ''bond'', ''bondsWithdrawerAuthority'', ''stakeAccount'', ''stakeAuthority'', ''clock'', ''stakeHistory'', ''stakeProgram'', ''eventAuthority'', ''program'']"

definition getFundBondInstruction :: "kit \<Rightarrow> ix_input \<Rightarrow> string option \<Rightarrow> kit_instruction res" where
  "getFundBondInstruction kit input programAddress = (let programAddress = orElse programAddress VALIDATOR_BONDS_PROGRAM_ADDRESS;
       accounts = original_accounts input FundBond_originalAccounts
     in rbind (resolve_defaults kit programAddress FundBond_defaults accounts) (\<lambda>accounts.
       instruction_of kit programAddress accounts FundBond_metas getFundBondInstructionDataEncoder []))"

definition ParsedFundBondInstruction_accounts :: "(string \<times> bool) list" where
  "ParsedFundBondInstruction_accounts = [(''config'', False),
     (''bond'', False),
     (''bondsWithdrawerAuthority'', False),
     (''stakeAccount'', False),
     (''stakeAuthority'', False),
     (''clock'', False),
     (''stakeHistory'', False),
     (''stakeProgram'', False),
     (''eventAuthority'', False),
     (''program'', False)]"

definition parseFundBondInstruction :: "kit \<Rightarrow> kit_instruction \<Rightarrow> parsed_instruction res" where
  "parseFundBondInstruction kit ix = parse_from kit 10
     [(''config'', False),
      (''bond'', False),
      (''bondsWithdrawerAuthority'', False),
      (''stakeAccount'', False),
      (''stakeAuthority'', False),
      (''clock'', False),
      (''stakeHistory'', False),
      (''stakeProgram'', False),
      (''eventAuthority'', False),
      (''program'', False)]
     getFundBondInstructionDataDecoder ix"

section \<open>FundSettlement\<close>

definition FUND_SETTLEMENT_DISCRIMINATOR :: "byte list" where
  "FUND_SETTLEMENT_DISCRIMINATOR = [179, 146, 113, 34, 30, 92, 26, 19]"

definition getFundSettlementDiscriminatorBytes :: "kit \<Rightarrow> byte list res" where
  "getFundSettlementDiscriminatorBytes kit = fixed_bytes kit FUND_SETTLEMENT_DISCRIMINATOR"

definition FundSettlementInstruction_accounts :: "(string \<times> role \<times> string option) list" where
  "FundSettlementInstruction_accounts = [(''config'', READONLY, None),
     (''bond'', READONLY, None),
     (''voteAccount'', READONLY, None),
     (''settlement'', WRITABLE, None),
     (''operatorAuthority'', READONLY_SIGNER, None),
     (''stakeAccount'', WRITABLE, None),
     (''settlementStakerAuthority'', READONLY, None),
     (''bondsWithdrawerAuthority'', READONLY, None),
     (''splitStakeAccount'', WRITABLE_SIGNER, None),
     (''splitStakeRentPayer'', WRITABLE_SIGNER, None),
     (''systemProgram'', READONLY, Some ''11111111111111111111111111111111''),
     (''stakeHistory'', READONLY, Some ''SysvarStakeHistory1111111111111111111111111''),
     (''clock'', READONLY, Some ''SysvarC1ock11111111111111111111111111111111''),
     (''rent'', READONLY, Some ''SysvarRent111111111111111111111111111111111''),
     (''stakeProgram'', READONLY, Some ''Stake11111111111111111111111111111111111111''),
     (''stakeConfig'', READONLY, Some ''StakeConfig11111111111111111111111111111111''),
     (''eventAuthority'', READONLY, None),
     (''program'', READONLY, None)]"

definition FundSettlementInstructionData_type :: "ts_type" where
  "FundSettlementInstructionData_type = TObject [(''discriminator'', TBytes)]"

definition FundSettlementInstructionDataArgs_type :: "ts_type" where
  "FundSettlementInstructionDataArgs_type = TObject []"

definition getFundSettlementInstructionDataEncoder :: "encoder" where
  "getFundSettlementInstructionDataEncoder = WithDiscriminator (StructCodec [(''discriminator'', FixSize BytesCodec 8)]) FUND_SETTLEMENT_DISCRIMINATOR"

definition getFundSettlementInstructionDataDecoder :: "codec" where
  "getFundSettlementInstructionDataDecoder = StructCodec [(''discriminator'', FixSize BytesCodec 8)]"

definition getFundSettlementInstructionDataCodec :: "encoder \<times> codec" where
  "getFundSettlementInstructionDataCodec = (getFundSettlementInstructionDataEncoder, getFundSettlementInstructionDataDecoder)"

definition FundSettlementAsyncInput_fields :: "(string \<times> input_kind \<times> bool) list" where
  "FundSettlementAsyncInput_fields = [(''config'', InAddress, False),
     (''bond'', InAddress, True),
     (''voteAccount'', InAddress, False),
     (''settlement'', InAddress, False),
     (''operatorAuthority'', InSigner, False),
     (''stakeAccount'', InAddress, False),
     (''settlementStakerAuthority'', InAddress, True),
     (''bondsWithdrawerAuthority'', InAddress, True),
     (''splitStakeAccount'', InSigner, False),
     (''splitStakeRentPayer'', InSigner, False),
     (''systemProgram'', InAddress, True),
     (''stakeHistory'', InAddress, True),
     (''clock'', InAddress, True),
     (''rent'', InAddress, True),
     (''stakeProgram'', InAddress, True),
     (''stakeConfig'', InAddress, True),
     (''eventAuthority'', InAddress, True),
     (''program'', InAddress, False)]"

definition FundSettlementAsync_originalAccounts :: "(string \<times> bool) list" where
  "FundSettlementAsync_originalAccounts = [(''config'', False),
     (''bond'', False),
     (''voteAccount'', False),
     (''settlement'', True),
     (''operatorAuthority'', False),
     (''stakeAccount'', True),
     (''settlementStakerAuthority'', False),
     (''bondsWithdrawerAuthority'', False),
     (''splitStakeAccount'', True),
     (''splitStakeRentPayer'', True),
     (''systemProgram'', False),
     (''stakeHistory'', False),
     (''clock'', False),
     (''rent'', False),
     (''stakeProgram'', False),
     (''stakeConfig'', False),
     (''eventAuthority'', False),
     (''program'', False)]"

definition FundSettlementAsync_defaults :: "(string \<times> default_value) list" where
  "FundSettlementAsync_defaults = [(''bond'', DerivedFrom [SeedBytes [98, 111, 110, 100, 95, 97, 99, 99, 111, 117, 110, 116], SeedAccount ''config'', SeedAccount ''voteAccount'']),
     (''settlementStakerAuthority'', DerivedFrom [SeedBytes [115, 101, 116, 116, 108, 101, 109, 101, 110, 116, 95, 97, 117, 116, 104, 111, 114, 105, 116, 121], SeedAccount ''settlement'']),
     (''bondsWithdrawerAuthority'', DerivedFrom [SeedBytes [98, 111, 110, 100, 115, 95, 97, 117, 116, 104, 111, 114, 105, 116, 121], SeedAccount ''config'']),
     (''systemProgram'', FixedAddress ''11111111111111111111111111111111''),
     (''stakeHistory'', FixedAddress ''SysvarStakeHistory1111111111111111111111111''),
     (''clock'', FixedAddress ''SysvarC1ock11111111111111111111111111111111''),
     (''rent'', FixedAddress ''SysvarRent111111111111111111111111111111111''),
     (''stakeProgram'', FixedAddress ''Stake11111111111111111111111111111111111111''),
     (''stakeConfig'', FixedAddress ''StakeConfig11111111111111111111111111111111''),
     (''eventAuthority'', DerivedFrom [SeedBytes [95, 95, 101, 118, 101, 110, 116, 95, 97, 117, 116, 104, 111, 114, 105, 116, 121]])]"

definition FundSettlementAsync_metas :: "string list" where
  "FundSettlementAsync_metas = [''config'', ''bond'', ''voteAccount'', ''settlement'', ''operatorAuthority'', ''stakeAccount'', ''settlementStakerAuthority'', ''bondsWithdrawerAuthority'', ''splitStakeAccount'', ''splitStakeRentPayer'', ''systemProgram'', ''stakeHistory'', ''clock'', ''rent'', ''stakeProgram'', ''stakeConfig'', ''eventAuthority'', ''program'']"

definition getFundSettlementInstructionAsync :: "kit \<Rightarrow> ix_input \<Rightarrow> string option \<Rightarrow> kit_instruction res" where
  "getFundSettlementInstructionAsync kit input programAddress = (let programAddress = orElse programAddress VALIDATOR_BONDS_PROGRAM_ADDRESS;
       accounts = original_accounts input FundSettlementAsync_originalAccounts
     in rbind (resolve_defaults kit programAddress FundSettlementAsync_defaults accounts) (\<lambda>accounts.
       instruction_of kit programAddress accounts FundSettlementAsync_metas getFundSettlementInstructionDataEncoder []))"

definition FundSettlementInput_fields :: "(string \<times> input_kind \<times> bool) list" where
  "FundSettlementInput_fields = [(''config'', InAddress, False),
     (''bond'', InAddress, False),
     (''voteAccount'', InAddress, False),
     (''settlement'', InAddress, False),
     (''operatorAuthority'', InSigner, False),
     (''stakeAccount'', InAddress, False),
     (''settlementStakerAuthority'', InAddress, False),
     (''bondsWithdrawerAuthority'', InAddress, False),
     (''splitStakeAccount'', InSigner, False),
     (''splitStakeRentPayer'', InSigner, False),
     (''systemProgram'', InAddress, True),
     (''stakeHistory'', InAddress, True),
     (''clock'', InAddress, True),
     (''rent'', InAddress, True),
     (''stakeProgram'', InAddress, True),
     (''stakeConfig'', InAddress, True),
     (''eventAuthority'', InAddress, False),
     (''program'', InAddress, False)]"

definition FundSettlement_originalAccounts :: "(string \<times> bool) list" where
  "FundSettlement_originalAccounts = [(''config'', False),
     (''bond'', False),
     (''voteAccount'', False),
     (''settlement'', True),
     (''operatorAuthority'', False),
     (''stakeAccount'', True),
     (''settlementStakerAuthority'', False),
     (''bondsWithdrawerAuthority'', False),
     (''splitStakeAccount'', True),
     (''splitStakeRentPayer'', True),
     (''systemProgram'', False),
     (''stakeHistory'', False),
     (''clock'', False),
     (''rent'', False),
     (''stakeProgram'', False),
     (''stakeConfig'', False),
     (''eventAuthority'', False),
     (''program'', False)]"

definition FundSettlement_defaults :: "(string \<times> default_value) list" where
  "FundSettlement_defaults = [(''systemProgram'', FixedAddress ''11111111111111111111111111111111''),
     (''stakeHistory'', FixedAddress ''SysvarStakeHistory1111111111111111111111111''),
     (''clock'', FixedAddress ''SysvarC1ock11111111111111111111111111111111''),
     (''rent'', FixedAddress ''SysvarRent111111111111111111111111111111111''),
     (''stakeProgram'', FixedAddress ''Stake11111111111111111111111111111111111111''),
     (''stakeConfig'', FixedAddress ''StakeConfig11111111111111111111111111111111'')]"

definition FundSettlement_metas :: "string list" where
  "FundSettlement_metas = [''config'', ''bond'', ''voteAccount'', ''settlement'', ''operatorAuthority'', ''stakeAccount'', ''settlementStakerAuthority'', ''bondsWithdrawerAuthority'', ''splitStakeAccount'', ''splitStakeRentPayer'', ''systemProgram'', ''stakeHistory'', ''clock'', ''rent'', ''stakeProgram'', ''stakeConfig'', ''eventAuthority'', ''program'']"

definition getFundSettlementInstruction :: "kit \<Rightarrow> ix_input \<Rightarrow> string option \<Rightarrow> kit_instruction res" where
  "getFundSettlementInstruction kit input programAddress = (let programAddress = orElse programAddress VALIDATOR_BONDS_PROGRAM_ADDRESS;
       accounts = original_accounts input FundSettlement_originalAccounts
     in rbind (resolve_defaults kit programAddress FundSettlement_defaults accounts) (\<lambda>accounts.
       instruction_of kit programAddress accounts FundSettlement_metas getFundSettlementInstructionDataEncoder []))"

definition ParsedFundSettlementInstruction_accounts :: "(string \<times> bool) list" where
  "ParsedFundSettlementInstruction_accounts = [(''config'', False),
     (''bond'', False),
     (''voteAccount'', False),
     (''settlement'', False),
     (''operatorAuthority'', False),
     (''stakeAccount'', False),
     (''settlementStakerAuthority'', False),
     (''bondsWithdrawerAuthority'', False),
     (''splitStakeAccount'', False),
     (''splitStakeRentPayer'', False),
     (''systemProgram'', False),
     (''stakeHistory'', False),
     (''clock'', False),
     (''rent'', False),
     (''stakeProgram'', False),
     (''stakeConfig'', False),
     (''eventAuthority'', False),
     (''program'', False)]"

definition parseFundSettlementInstruction :: "kit \<Rightarrow> kit_instruction \<Rightarrow> parsed_instruction res" where
  "parseFundSettlementInstruction kit ix = parse_from kit 18
     [(''config'', False),
      (''bond'', False),
      (''voteAccount'', False),
      (''settlement'', False),
      (''operatorAuthority'', False),
      (''stakeAccount'', False),
      (''settlementStakerAuthority'', False),
      (''bondsWithdrawerAuthority'', False),
      (''splitStakeAccount'', False),
      (''splitStakeRentPayer'', False),
      (''systemProgram'', False),
      (''stakeHistory'', False),
      (''clock'', False),
      (''rent'', False),
      (''stakeProgram'', False),
      (''stakeConfig'', False),
      (''eventAuthority'', False),
      (''program'', False)]
     getFundSettlementInstructionDataDecoder ix"

section \<open>InitBond\<close>

definition INIT_BOND_DISCRIMINATOR :: "byte list" where
  "INIT_BOND_DISCRIMINATOR = [95, 93, 93, 181, 221, 36, 126, 64]"

definition getInitBondDiscriminatorBytes :: "kit \<Rightarrow> byte list res" where
  "getInitBondDiscriminatorBytes kit = fixed_bytes kit INIT_BOND_DISCRIMINATOR"

definition InitBondInstruction_accounts :: "(string \<times> role \<times> string option) list" where
  "InitBondInstruction_accounts = [(''config'', READONLY, None),
     (''voteAccount'', READONLY, None),
     (''validatorIdentity'', READONLY_SIGNER, None),
     (''bond'', WRITABLE, None),
     (''rentPayer'', WRITABLE_SIGNER, None),
     (''systemProgram'', READONLY, Some ''11111111111111111111111111111111''),
     (''eventAuthority'', READONLY, None),
     (''program'', READONLY, None)]"

definition InitBondInstructionData_type :: "ts_type" where
  "InitBondInstructionData_type = TObject [(''discriminator'', TBytes),
     (''bondAuthority'', TAddress),
     (''cpmpe'', TBigint),
     (''maxStakeWanted'', TBigint)]"

definition InitBondInstructionDataArgs_type :: "ts_type" where
  "InitBondInstructionDataArgs_type = TObject [(''bondAuthority'', TAddress),
     (''cpmpe'', TNumberOrBigint),
     (''maxStakeWanted'', TNumberOrBigint)]"

definition getInitBondInstructionDataEncoder :: "encoder" where
  "getInitBondInstructionDataEncoder = WithDiscriminator (StructCodec [(''discriminator'', FixSize BytesCodec 8),
     (''bondAuthority'', AddressCodec),
     (''cpmpe'', U64Codec),
     (''maxStakeWanted'', U64Codec)]) INIT_BOND_DISCRIMINATOR"

definition getInitBondInstructionDataDecoder :: "codec" where
  "getInitBondInstructionDataDecoder = StructCodec [(''discriminator'', FixSize BytesCodec 8),
     (''bondAuthority'', AddressCodec),
     (''cpmpe'', U64Codec),
     (''maxStakeWanted'', U64Codec)]"

definition getInitBondInstructionDataCodec :: "encoder \<times> codec" where
  "getInitBondInstructionDataCodec = (getInitBondInstructionDataEncoder, getInitBondInstructionDataDecoder)"

definition InitBondAsyncInput_fields :: "(string \<times> input_kind \<times> bool) list" where
  "InitBondAsyncInput_fields = [(''config'', InAddress, False),
     (''voteAccount'', InAddress, False),
     (''validatorIdentity'', InSigner, True),
     (''bond'', InAddress, True),
     (''rentPayer'', InSigner, False),
     (''systemProgram'', InAddress, True),
     (''eventAuthority'', InAddress, True),
     (''program'', InAddress, False),
     (''bondAuthority'', InArg, False),
     (''cpmpe'', InArg, False),
     (''maxStakeWanted'', InArg, False)]"

definition InitBondAsync_originalAccounts :: "(string \<times> bool) list" where
  "InitBondAsync_originalAccounts = [(''config'', False),
     (''voteAccount'', False),
     (''validatorIdentity'', False),
     (''bond'', True),
     (''rentPayer'', True),
     (''systemProgram'', False),
     (''eventAuthority'', False),
     (''program'', False)]"

definition InitBondAsync_defaults :: "(string \<times> default_value) list" where
  "InitBondAsync_defaults = [(''bond'', DerivedFrom [SeedBytes [98, 111, 110, 100, 95, 97, 99, 99, 111, 117, 110, 116], SeedAccount ''config'', SeedAccount ''voteAccount'']),
     (''systemProgram'', FixedAddress ''11111111111111111111111111111111''),
     (''eventAuthority'', DerivedFrom [SeedBytes [95, 95, 101, 118, 101, 110, 116, 95, 97, 117, 116, 104, 111, 114, 105, 116, 121]])]"

definition InitBondAsync_metas :: "string list" where
  "InitBondAsync_metas = [''config'', ''voteAccount'', ''validatorIdentity'', ''bond'', ''rentPayer'', ''systemProgram'', ''eventAuthority'', ''program'']"

definition getInitBondInstructionAsync :: "kit \<Rightarrow> ix_input \<Rightarrow> string option \<Rightarrow> kit_instruction res" where
  "getInitBondInstructionAsync kit input programAddress = (let programAddress = orElse programAddress VALIDATOR_BONDS_PROGRAM_ADDRESS;
       accounts = original_accounts input InitBondAsync_originalAccounts
     in rbind (resolve_defaults kit programAddress InitBondAsync_defaults accounts) (\<lambda>accounts.
       instruction_of kit programAddress accounts InitBondAsync_metas getInitBondInstructionDataEncoder (in_args input)))"

definition InitBondInput_fields :: "(string \<times> input_kind \<times> bool) list" where
  "InitBondInput_fields = [(''config'', InAddress, False),
     (''voteAccount'', InAddress, False),
     (''validatorIdentity'', InSigner, True),
     (''bond'', InAddress, False),
     (''rentPayer'', InSigner, False),
     (''systemProgram'', InAddress, True),
     (''eventAuthority'', InAddress, False),
     (''program'', InAddress, False),
     (''bondAuthority'', InArg, False),
     (''cpmpe'', InArg, False),
     (''maxStakeWanted'', InArg, False)]"

definition InitBond_originalAccounts :: "(string \<times> bool) list" where
  "InitBond_originalAccounts = [(''config'', False),
     (''voteAccount'', False),
     (''validatorIdentity'', False),
     (''bond'', True),
     (''rentPayer'', True),
     (''systemProgram'', False),
     (''eventAuthority'', False),
     (''program'', False)]"

definition InitBond_defaults :: "(string \<times> default_value) list" where
  "InitBond_defaults = [(''systemProgram'', FixedAddress ''11111111111111111111111111111111'')]"

definition InitBond_metas :: "string list" where
  "InitBond_metas = [''config'', ''voteAccount'', ''validatorIdentity'', ''bond'', ''rentPayer'', ''systemProgram'', ''eventAuthority'', ''program'']"

definition getInitBondInstruction :: "kit \<Rightarrow> ix_input \<Rightarrow> string option \<Rightarrow> kit_instruction res" where
  "getInitBondInstruction kit input programAddress = (let programAddress = orElse programAddress VALIDATOR_BONDS_PROGRAM_ADDRESS;
       accounts = original_accounts input InitBond_originalAccounts
     in rbind (resolve_defaults kit programAddress InitBond_defaults accounts) (\<lambda>accounts.
       instruction_of kit programAddress accounts InitBond_metas getInitBondInstructionDataEncoder (in_args input)))"

definition ParsedInitBondInstruction_accounts :: "(string \<times> bool) list" where
  "ParsedInitBondInstruction_accounts = [(''config'', False),
     (''voteAccount'', False),
     (''validatorIdentity'', True),
     (''bond'', False),
     (''rentPayer'', False),
     (''systemProgram'', False),
     (''eventAuthority'', False),
     (''program'', False)]"

definition parseInitBondInstruction :: "kit \<Rightarrow> kit_instruction \<Rightarrow> parsed_instruction res" where
  "parseInitBondInstruction kit ix = parse_from kit 8
     [(''config'', False),
      (''voteAccount'', False),
      (''validatorIdentity'', True),
      (''bond'', False),
      (''rentPayer'', False),
      (''systemProgram'', False),
      (''eventAuthority'', False),
      (''program'', False)]
     getInitBondInstructionDataDecoder ix"

section \<open>InitBondProduct\<close>

definition INIT_BOND_PRODUCT_DISCRIMINATOR :: "byte list" where
  "INIT_BOND_PRODUCT_DISCRIMINATOR = [228, 35, 205, 119, 63, 209, 72, 56]"

definition getInitBondProductDiscriminatorBytes :: "kit \<Rightarrow> byte list res" where
  "getInitBondProductDiscriminatorBytes kit = fixed_bytes kit INIT_BOND_PRODUCT_DISCRIMINATOR"

definition InitBondProductInstruction_accounts :: "(string \<times> role \<times> string option) list" where
  "InitBondProductInstruction_accounts = [(''config'', READONLY, None),
     (''bond'', WRITABLE, None),
     (''voteAccount'', READONLY, None),
     (''bondProduct'', WRITABLE, None),
     (''authority'', READONLY_SIGNER, None),
     (''rentPayer'', WRITABLE_SIGNER, None),
     (''systemProgram'', READONLY, Some ''11111111111111111111111111111111''),
     (''eventAuthority'', READONLY, None),
     (''program'', READONLY, None)]"

definition InitBondProductInstructionData_type :: "ts_type" where
  "InitBondProductInstructionData_type = TObject [(''discriminator'', TBytes),
     (''productType'', ProductType_type),
     (''configData'', ProductTypeConfig_type)]"

definition InitBondProductInstructionDataArgs_type :: "ts_type" where
  "InitBondProductInstructionDataArgs_type = TObject [(''productType'', ProductTypeArgs_type),
     (''configData'', ProductTypeConfigArgs_type)]"

definition getInitBondProductInstructionDataEncoder :: "encoder" where
  "getInitBondProductInstructionDataEncoder = WithDiscriminator (StructCodec [(''discriminator'', FixSize BytesCodec 8),
     (''productType'', getProductTypeEncoder),
     (''configData'', getProductTypeConfigEncoder)]) INIT_BOND_PRODUCT_DISCRIMINATOR"

definition getInitBondProductInstructionDataDecoder :: "codec" where
  "getInitBondProductInstructionDataDecoder = StructCodec [(''discriminator'', FixSize BytesCodec 8),
     (''productType'', getProductTypeDecoder),
     (''configData'', getProductTypeConfigDecoder)]"

definition getInitBondProductInstructionDataCodec :: "encoder \<times> codec" where
  "getInitBondProductInstructionDataCodec = (getInitBondProductInstructionDataEncoder, getInitBondProductInstructionDataDecoder)"

definition InitBondProductAsyncInput_fields :: "(string \<times> input_kind \<times> bool) list" where
  "InitBondProductAsyncInput_fields = [(''config'', InAddress, False),
     (''bond'', InAddress, True),
     (''voteAccount'', InAddress, False),
     (''bondProduct'', InAddress, False),
     (''authority'', InSigner, True),
     (''rentPayer'', InSigner, False),
     (''systemProgram'', InAddress, True),
     (''eventAuthority'', InAddress, True),
     (''program'', InAddress, False),
     (''productType'', InArg, False),
     (''configData'', InArg, False)]"

definition InitBondProductAsync_originalAccounts :: "(string \<times> bool) list" where
  "InitBondProductAsync_originalAccounts = [(''config'', False),
     (''bond'', True),
     (''voteAccount'', False),
     (''bondProduct'', True),
     (''authority'', False),
     (''rentPayer'', True),
     (''systemProgram'', False),
     (''eventAuthority'', False),
     (''program'', False)]"

definition InitBondProductAsync_defaults :: "(string \<times> default_value) list" where
  "InitBondProductAsync_defaults = [(''bond'', DerivedFrom [SeedBytes [98, 111, 110, 100, 95, 97, 99, 99, 111, 117, 110, 116], SeedAccount ''config'', SeedAccount ''voteAccount'']),
     (''systemProgram'', FixedAddress ''11111111111111111111111111111111''),
     (''eventAuthority'', DerivedFrom [SeedBytes [95, 95, 101, 118, 101, 110, 116, 95, 97, 117, 116, 104, 111, 114, 105, 116, 121]])]"

definition InitBondProductAsync_metas :: "string list" where
  "InitBondProductAsync_metas = [''config'', ''bond'', ''voteAccount'', ''bondProduct'', ''authority'', ''rentPayer'', ''systemProgram'', ''eventAuthority'', ''program'']"

definition getInitBondProductInstructionAsync :: "kit \<Rightarrow> ix_input \<Rightarrow> string option \<Rightarrow> kit_instruction res" where
  "getInitBondProductInstructionAsync kit input programAddress = (let programAddress = orElse programAddress VALIDATOR_BONDS_PROGRAM_ADDRESS;
       accounts = original_accounts input InitBondProductAsync_originalAccounts
     in rbind (resolve_defaults kit programAddress InitBondProductAsync_defaults accounts) (\<lambda>accounts.
       instruction_of kit programAddress accounts InitBondProductAsync_metas getInitBondProductInstructionDataEncoder (in_args input)))"

definition InitBondProductInput_fields :: "(string \<times> input_kind \<times> bool) list" where
  "InitBondProductInput_fields = [(''config'', InAddress, False),
     (''bond'', InAddress, False),
     (''voteAccount'', InAddress, False),
     (''bondProduct'', InAddress, False),
     (''authority'', InSigner, True),
     (''rentPayer'', InSigner, False),
     (''systemProgram'', InAddress, True),
     (''eventAuthority'', InAddress, False),
     (''program'', InAddress, False),
     (''productType'', InArg, False),
     (''configData'', InArg, False)]"

definition InitBondProduct_originalAccounts :: "(string \<times> bool) list" where
  "InitBondProduct_originalAccounts = [(''config'', False),
     (''bond'', True),
     (''voteAccount'', False),
     (''bondProduct'', True),
     (''authority'', False),
     (''rentPayer'', True),
     (''systemProgram'', False),
     (''eventAuthority'', False),
     (''program'', False)]"

definition InitBondProduct_defaults :: "(string \<times> default_value) list" where
  "InitBondProduct_defaults = [(''systemProgram'', FixedAddress ''11111111111111111111111111111111'')]"

definition InitBondProduct_metas :: "string list" where
  "InitBondProduct_metas = [''config'', ''bond'', ''voteAccount'', ''bondProduct'', ''authority'', ''rentPayer'', ''systemProgram'', ''eventAuthority'', ''program'']"

definition getInitBondProductInstruction :: "kit \<Rightarrow> ix_input \<Rightarrow> string option \<Rightarrow> kit_instruction res" where
  "getInitBondProductInstruction kit input programAddress = (let programAddress = orElse programAddress VALIDATOR_BONDS_PROGRAM_ADDRESS;
       accounts = original_accounts input InitBondProduct_originalAccounts
     in rbind (resolve_defaults kit programAddress InitBondProduct_defaults accounts) (\<lambda>accounts.
       instruction_of kit programAddress accounts InitBondProduct_metas getInitBondProductInstructionDataEncoder (in_args input)))"

definition ParsedInitBondProductInstruction_accounts :: "(string \<times> bool) list" where
  "ParsedInitBondProductInstruction_accounts = [(''config'', False),
     (''bond'', False),
     (''voteAccount'', False),
     (''bondProduct'', False),
     (''authority'', True),
     (''rentPayer'', False),
     (''systemProgram'', False),
     (''eventAuthority'', False),
     (''program'', False)]"

definition parseInitBondProductInstruction :: "kit \<Rightarrow> kit_instruction \<Rightarrow> parsed_instruction res" where
  "parseInitBondProductInstruction kit ix = parse_from kit 9
     [(''config'', False),
      (''bond'', False),
      (''voteAccount'', False),
      (''bondProduct'', False),
      (''authority'', True),
      (''rentPayer'', False),
      (''systemProgram'', False),
      (''eventAuthority'', False),
      (''program'', False)]
     getInitBondProductInstructionDataDecoder ix"

end
