(* ===== verification/Cod_Ix_C.thy ===== *)
theory Cod_Ix_C
  imports Cod_Types
begin

text \<open>
  The instructions of the generated client, one section per file of
  \<open>packages/validator-bonds-codama/src/instructions\<close>, from initConfig to withdrawStake.
\<close>

section \<open>InitConfig\<close>

definition INIT_CONFIG_DISCRIMINATOR :: "byte list" where
  "INIT_CONFIG_DISCRIMINATOR = [23, 235, 115, 232, 168, 96, 1, 231]"

definition getInitConfigDiscriminatorBytes :: "kit \<Rightarrow> byte list res" where
  "getInitConfigDiscriminatorBytes kit = fixed_bytes kit INIT_CONFIG_DISCRIMINATOR"

definition InitConfigInstruction_accounts :: "(string \<times> role \<times> string option) list" where
  "InitConfigInstruction_accounts = [(''config'', WRITABLE_SIGNER, None),
     (''rentPayer'', WRITABLE_SIGNER, None),
     (''systemProgram'', READONLY, Some ''11111111111111111111111111111111''),
     (''eventAuthority'', READONLY, None),
     (''program'', READONLY, None)]"

definition InitConfigInstructionData_type :: "ts_type" where
  "InitConfigInstructionData_type = TObject [(''discriminator'', TBytes),
     (''adminAuthority'', TAddress),
     (''operatorAuthority'', TAddress),
     (''epochsToClaimSettlement'', TBigint),
     (''withdrawLockupEpochs'', TBigint),
     (''slotsToStartSettlementClaiming'', TBigint)]"

definition InitConfigInstructionDataArgs_type :: "ts_type" where
  "InitConfigInstructionDataArgs_type = TObject [(''adminAuthority'', TAddress),
     (''operatorAuthority'', TAddress),
     (''epochsToClaimSettlement'', TNumberOrBigint),
     (''withdrawLockupEpochs'', TNumberOrBigint),
     (''slotsToStartSettlementClaiming'', TNumberOrBigint)]"

definition getInitConfigInstructionDataEncoder :: "encoder" where
  "getInitConfigInstructionDataEncoder = WithDiscriminator (StructCodec [(''discriminator'', FixSize BytesCodec 8),
     (''adminAuthority'', AddressCodec),
     (''operatorAuthority'', AddressCodec),
     (''epochsToClaimSettlement'', U64Codec),
     (''withdrawLockupEpochs'', U64Codec),
     (''slotsToStartSettlementClaiming'', U64Codec)]) INIT_CONFIG_DISCRIMINATOR"

definition getInitConfigInstructionDataDecoder :: "codec" where
  "getInitConfigInstructionDataDecoder = StructCodec [(''discriminator'', FixSize BytesCodec 8),
     (''adminAuthority'', AddressCodec),
     (''operatorAuthority'', AddressCodec),
     (''epochsToClaimSettlement'', U64Codec),
     (''withdrawLockupEpochs'', U64Codec),
     (''slotsToStartSettlementClaiming'', U64Codec)]"

definition getInitConfigInstructionDataCodec :: "encoder \<times> codec" where
  "getInitConfigInstructionDataCodec = (getInitConfigInstructionDataEncoder, getInitConfigInstructionDataDecoder)"

definition InitConfigAsyncInput_fields :: "(string \<times> input_kind \<times> bool) list" where
  "InitConfigAsyncInput_fields = [(''config'', InSigner, False),
     (''rentPayer'', InSigner, False),
     (''systemProgram'', InAddress, True),
     (''eventAuthority'', InAddress, True),
     (''program'', InAddress, False),
     (''adminAuthority'', InArg, False),
     (''operatorAuthority'', InArg, False),
     (''epochsToClaimSettlement'', InArg, False),
     (''withdrawLockupEpochs'', InArg, False),
     (''slotsToStartSettlementClaiming'', InArg, False)]"

definition InitConfigAsync_originalAccounts :: "(string \<times> bool) list" where
  "InitConfigAsync_originalAccounts = [(''config'', True),
     (''rentPayer'', True),
     (''systemProgram'', False),
     (''eventAuthority'', False),
     (''program'', False)]"

definition InitConfigAsync_defaults :: "(string \<times> default_value) list" where
  "InitConfigAsync_defaults = [(''systemProgram'', FixedAddress ''11111111111111111111111111111111''),
     (''eventAuthority'', DerivedFrom [SeedBytes [95, 95, 101, 118, 101, 110, 116, 95, 97, 117, 116, 104, 111, 114, 105, 116, 121]])]"

definition InitConfigAsync_metas :: "string list" where
  "InitConfigAsync_metas = [''config'', ''rentPayer'', ''systemProgram'', ''eventAuthority'', ''program'']"

definition getInitConfigInstructionAsync :: "kit \<Rightarrow> ix_input \<Rightarrow> string option \<Rightarrow> kit_instruction res" where
  "getInitConfigInstructionAsync kit input programAddress = (let programAddress = orElse programAddress VALIDATOR_BONDS_PROGRAM_ADDRESS;
       accounts = original_accounts input InitConfigAsync_originalAccounts
     in rbind (resolve_defaults kit programAddress InitConfigAsync_defaults accounts) (\<lambda>accounts.
       instruction_of kit programAddress accounts InitConfigAsync_metas getInitConfigInstructionDataEncoder (in_args input)))"

definition InitConfigInput_fields :: "(string \<times> input_kind \<times> bool) list" where
  "InitConfigInput_fields = [(''config'', InSigner, False),
     (''rentPayer'', InSigner, False),
     (''systemProgram'', InAddress, True),
     (''eventAuthority'', InAddress, False),
     (''program'', InAddress, False),
     (''adminAuthority'', InArg, False),
     (''operatorAuthority'', InArg, False),
     (''epochsToClaimSettlement'', InArg, False),
     (''withdrawLockupEpochs'', InArg, False),
     (''slotsToStartSettlementClaiming'', InArg, False)]"

definition InitConfig_originalAccounts :: "(string \<times> bool) list" where
  "InitConfig_originalAccounts = [(''config'', True),
     (''rentPayer'', True),
     (''systemProgram'', False),
     (''eventAuthority'', False),
     (''program'', False)]"

definition InitConfig_defaults :: "(string \<times> default_value) list" where
  "InitConfig_defaults = [(''systemProgram'', FixedAddress ''11111111111111111111111111111111'')]"

definition InitConfig_metas :: "string list" where
  "InitConfig_metas = [''config'', ''rentPayer'', ''systemProgram'', ''eventAuthority'', ''program'']"

definition getInitConfigInstruction :: "kit \<Rightarrow> ix_input \<Rightarrow> string option \<Rightarrow> kit_instruction res" where
  "getInitConfigInstruction kit input programAddress = (let programAddress = orElse programAddress VALIDATOR_BONDS_PROGRAM_ADDRESS;
       accounts = original_accounts input InitConfig_originalAccounts
     in rbind (resolve_defaults kit programAddress InitConfig_defaults accounts) (\<lambda>accounts.
       instruction_of kit programAddress accounts InitConfig_metas getInitConfigInstructionDataEncoder (in_args input)))"

definition ParsedInitConfigInstruction_accounts :: "(string \<times> bool) list" where
  "ParsedInitConfigInstruction_accounts = [(''config'', False),
     (''rentPayer'', False),
     (''systemProgram'', False),
     (''eventAuthority'', False),
     (''program'', False)]"

definition parseInitConfigInstruction :: "kit \<Rightarrow> kit_instruction \<Rightarrow> parsed_instruction res" where
  "parseInitConfigInstruction kit ix = parse_from kit 5
     [(''config'', False),
      (''rentPayer'', False),
      (''systemProgram'', False),
      (''eventAuthority'', False),
      (''program'', False)]
     getInitConfigInstructionDataDecoder ix"

section \<open>InitSettlement\<close>

definition INIT_SETTLEMENT_DISCRIMINATOR :: "byte list" where
  "INIT_SETTLEMENT_DISCRIMINATOR = [152, 178, 0, 65, 52, 210, 247, 58]"

definition getInitSettlementDiscriminatorBytes :: "kit \<Rightarrow> byte list res" where
  "getInitSettlementDiscriminatorBytes kit = fixed_bytes kit INIT_SETTLEMENT_DISCRIMINATOR"

definition InitSettlementInstruction_accounts :: "(string \<times> role \<times> string option) list" where
  "InitSettlementInstruction_accounts = [(''config'', READONLY, None),
     (''bond'', READONLY, None),
     (''settlement'', WRITABLE, None),
     (''settlementClaims'', WRITABLE, None),
     (''operatorAuthority'', READONLY_SIGNER, None),
     (''rentPayer'', WRITABLE_SIGNER, None),
     (''systemProgram'', READONLY, Some ''11111111111111111111111111111111''),
     (''eventAuthority'', READONLY, None),
     (''program'', READONLY, None)]"

definition InitSettlementInstructionData_type :: "ts_type" where
  "InitSettlementInstructionData_type = TObject [(''discriminator'', TBytes),
     (''merkleRoot'', TBytes),
     (''maxTotalClaim'', TBigint),
     (''maxMerkleNodes'', TBigint),
     (''rentCollector'', TAddress),
     (''epoch'', TBigint)]"

definition InitSettlementInstructionDataArgs_type :: "ts_type" where
  "InitSettlementInstructionDataArgs_type = TObject [(''merkleRoot'', TBytes),
     (''maxTotalClaim'', TNumberOrBigint),
     (''maxMerkleNodes'', TNumberOrBigint),
     (''rentCollector'', TAddress),
     (''epoch'', TNumberOrBigint)]"

definition getInitSettlementInstructionDataEncoder :: "encoder" where
  "getInitSettlementInstructionDataEncoder = WithDiscriminator (StructCodec [(''discriminator'', FixSize BytesCodec 8),
     (''merkleRoot'', FixSize BytesCodec 32),
     (''maxTotalClaim'', U64Codec),
     (''maxMerkleNodes'', U64Codec),
     (''rentCollector'', AddressCodec),
     (''epoch'', U64Codec)]) INIT_SETTLEMENT_DISCRIMINATOR"

definition getInitSettlementInstructionDataDecoder :: "codec" where
  "getInitSettlementInstructionDataDecoder = StructCodec [(''discriminator'', FixSize BytesCodec 8),
     (''merkleRoot'', FixSize BytesCodec 32),
     (''maxTotalClaim'', U64Codec),
     (''maxMerkleNodes'', U64Codec),
     (''rentCollector'', AddressCodec),
     (''epoch'', U64Codec)]"

definition getInitSettlementInstructionDataCodec :: "encoder \<times> codec" where
  "getInitSettlementInstructionDataCodec = (getInitSettlementInstructionDataEncoder, getInitSettlementInstructionDataDecoder)"

definition InitSettlementAsyncInput_fields :: "(string \<times> input_kind \<times> bool) list" where
  "InitSettlementAsyncInput_fields = [(''config'', InAddress, False),
     (''bond'', InAddress, False),
     (''settlement'', InAddress, False),
     (''settlementClaims'', InAddress, True),
     (''operatorAuthority'', InSigner, False),
     (''rentPayer'', InSigner, False),
     (''systemProgram'', InAddress, True),
     (''eventAuthority'', InAddress, True),
     (''program'', InAddress, False),
     (''merkleRoot'', InArg, False),
     (''maxTotalClaim'', InArg, False),
     (''maxMerkleNodes'', InArg, False),
     (''rentCollector'', InArg, False),
     (''epoch'', InArg, False)]"

definition InitSettlementAsync_originalAccounts :: "(string \<times> bool) list" where
  "InitSettlementAsync_originalAccounts = [(''config'', False),
     (''bond'', False),
     (''settlement'', True),
     (''settlementClaims'', True),
     (''operatorAuthority'', False),
     (''rentPayer'', True),
     (''systemProgram'', False),
     (''eventAuthority'', False),
     (''program'', False)]"

definition InitSettlementAsync_defaults :: "(string \<times> default_value) list" where
  "InitSettlementAsync_defaults = [(''settlementClaims'', DerivedFrom [SeedBytes [99, 108, 97, 105, 109, 115, 95, 97, 99, 99, 111, 117, 110, 116], SeedAccount ''settlement'']),
     (''systemProgram'', FixedAddress ''11111111111111111111111111111111''),
     (''eventAuthority'', DerivedFrom [SeedBytes [95, 95, 101, 118, 101, 110, 116, 95, 97, 117, 116, 104, 111, 114, 105, 116, 121]])]"

definition InitSettlementAsync_metas :: "string list" where
  "InitSettlementAsync_metas = [''config'', ''bond'', ''settlement'', ''settlementClaims'', ''operatorAuthority'', ''rentPayer'', ''systemProgram'', ''eventAuthority'', ''program'']"

definition getInitSettlementInstructionAsync :: "kit \<Rightarrow> ix_input \<Rightarrow> string option \<Rightarrow> kit_instruction res" where
  "getInitSettlementInstructionAsync kit input programAddress = (let programAddress = orElse programAddress VALIDATOR_BONDS_PROGRAM_ADDRESS;
       accounts = original_accounts input InitSettlementAsync_originalAccounts
     in rbind (resolve_defaults kit programAddress InitSettlementAsync_defaults accounts) (\<lambda>accounts.
       instruction_of kit programAddress accounts InitSettlementAsync_metas getInitSettlementInstructionDataEncoder (in_args input)))"

definition InitSettlementInput_fields :: "(string \<times> input_kind \<times> bool) list" where
  "InitSettlementInput_fields = [(''config'', InAddress, False),
     (''bond'', InAddress, False),
     (''settlement'', InAddress, False),
     (''settlementClaims'', InAddress, False),
     (''operatorAuthority'', InSigner, False),
     (''rentPayer'', InSigner, False),
     (''systemProgram'', InAddress, True),
     (''eventAuthority'', InAddress, False),
     (''program'', InAddress, False),
     (''merkleRoot'', InArg, False),
     (''maxTotalClaim'', InArg, False),
     (''maxMerkleNodes'', InArg, False),
     (''rentCollector'', InArg, False),
     (''epoch'', InArg, False)]"

definition InitSettlement_originalAccounts :: "(string \<times> bool) list" where
  "InitSettlement_originalAccounts = [(''config'', False),
     (''bond'', False),
     (''settlement'', True),
     (''settlementClaims'', True),
     (''operatorAuthority'', False),
     (''rentPayer'', True),
     (''systemProgram'', False),
     (''eventAuthority'', False),
     (''program'', False)]"

definition InitSettlement_defaults :: "(string \<times> default_value) list" where
  "InitSettlement_defaults = [(''systemProgram'', FixedAddress ''11111111111111111111111111111111'')]"

definition InitSettlement_metas :: "string list" where
  "InitSettlement_metas = [''config'', ''bond'', ''settlement'', ''settlementClaims'', ''operatorAuthority'', ''rentPayer'', ''systemProgram'', ''eventAuthority'', ''program'']"

definition getInitSettlementInstruction :: "kit \<Rightarrow> ix_input \<Rightarrow> string option \<Rightarrow> kit_instruction res" where
  "getInitSettlementInstruction kit input programAddress = (let programAddress = orElse programAddress VALIDATOR_BONDS_PROGRAM_ADDRESS;
       accounts = original_accounts input InitSettlement_originalAccounts
     in rbind (resolve_defaults kit programAddress InitSettlement_defaults accounts) (\<lambda>accounts.
       instruction_of kit programAddress accounts InitSettlement_metas getInitSettlementInstructionDataEncoder (in_args input)))"

definition ParsedInitSettlementInstruction_accounts :: "(string \<times> bool) list" where
  "ParsedInitSettlementInstruction_accounts = [(''config'', False),
     (''bond'', False),
     (''settlement'', False),
     (''settlementClaims'', False),
     (''operatorAuthority'', False),
     (''rentPayer'', False),
     (''systemProgram'', False),
     (''eventAuthority'', False),
     (''program'', False)]"

definition parseInitSettlementInstruction :: "kit \<Rightarrow> kit_instruction \<Rightarrow> parsed_instruction res" where
  "parseInitSettlementInstruction kit ix = parse_from kit 9
     [(''config'', False),
      (''bond'', False),
      (''settlement'', False),
      (''settlementClaims'', False),
      (''operatorAuthority'', False),
      (''rentPayer'', False),
      (''systemProgram'', False),
      (''eventAuthority'', False),
      (''program'', False)]
     getInitSettlementInstructionDataDecoder ix"

section \<open>InitWithdrawRequest\<close>

definition INIT_WITHDRAW_REQUEST_DISCRIMINATOR :: "byte list" where
  "INIT_WITHDRAW_REQUEST_DISCRIMINATOR = [142, 31, 222, 215, 83, 79, 34, 49]"

definition getInitWithdrawRequestDiscriminatorBytes :: "kit \<Rightarrow> byte list res" where
  "getInitWithdrawRequestDiscriminatorBytes kit = fixed_bytes kit INIT_WITHDRAW_REQUEST_DISCRIMINATOR"

definition InitWithdrawRequestInstruction_accounts :: "(string \<times> role \<times> string option) list" where
  "InitWithdrawRequestInstruction_accounts = [(''config'', READONLY, None),
     (''bond'', READONLY, None),
     (''voteAccount'', READONLY, None),
     (''authority'', READONLY_SIGNER, None),
     (''withdrawRequest'', WRITABLE, None),
     (''rentPayer'', WRITABLE_SIGNER, None),
     (''systemProgram'', READONLY, Some ''11111111111111111111111111111111''),
     (''eventAuthority'', READONLY, None),
     (''program'', READONLY, None)]"

definition InitWithdrawRequestInstructionData_type :: "ts_type" where
  "InitWithdrawRequestInstructionData_type = TObject [(''discriminator'', TBytes),
     (''amount'', TBigint)]"

definition InitWithdrawRequestInstructionDataArgs_type :: "ts_type" where
  "InitWithdrawRequestInstructionDataArgs_type = TObject [(''amount'', TNumberOrBigint)]"

definition getInitWithdrawRequestInstructionDataEncoder :: "encoder" where
  "getInitWithdrawRequestInstructionDataEncoder = WithDiscriminator (StructCodec [(''discriminator'', FixSize BytesCodec 8),
     (''amount'', U64Codec)]) INIT_WITHDRAW_REQUEST_DISCRIMINATOR"

definition getInitWithdrawRequestInstructionDataDecoder :: "codec" where
  "getInitWithdrawRequestInstructionDataDecoder = StructCodec [(''discriminator'', FixSize BytesCodec 8),
     (''amount'', U64Codec)]"

definition getInitWithdrawRequestInstructionDataCodec :: "encoder \<times> codec" where
  "getInitWithdrawRequestInstructionDataCodec = (getInitWithdrawRequestInstructionDataEncoder, getInitWithdrawRequestInstructionDataDecoder)"

definition InitWithdrawRequestAsyncInput_fields :: "(string \<times> input_kind \<times> bool) list" where
  "InitWithdrawRequestAsyncInput_fields = [(''config'', InAddress, False),
     (''bond'', InAddress, True),
     (''voteAccount'', InAddress, False),
     (''authority'', InSigner, False),
     (''withdrawRequest'', InAddress, True),
     (''rentPayer'', InSigner, False),
     (''systemProgram'', InAddress, True),
     (''eventAuthority'', InAddress, True),
     (''program'', InAddress, False),
     (''amount'', InArg, False)]"

definition InitWithdrawRequestAsync_originalAccounts :: "(string \<times> bool) list" where
  "InitWithdrawRequestAsync_originalAccounts = [(''config'', False),
     (''bond'', False),
     (''voteAccount'', False),
     (''authority'', False),
     (''withdrawRequest'', True),
     (''rentPayer'', True),
     (''systemProgram'', False),
     (''eventAuthority'', False),
     (''program'', False)]"

definition InitWithdrawRequestAsync_defaults :: "(string \<times> default_value) list" where
  "InitWithdrawRequestAsync_defaults = [(''bond'', DerivedFrom [SeedBytes [98, 111, 110, 100, 95, 97, 99, 99, 111, 117, 110, 116], SeedAccount ''config'', SeedAccount ''voteAccount'']),
     (''withdrawRequest'', DerivedFrom [SeedBytes [119, 105, 116, 104, 100, 114, 97, 119, 95, 97, 99, 99, 111, 117, 110, 116], SeedAccount ''bond'']),
     (''systemProgram'', FixedAddress ''11111111111111111111111111111111''),
     (''eventAuthority'', DerivedFrom [SeedBytes [95, 95, 101, 118, 101, 110, 116, 95, 97, 117, 116, 104, 111, 114, 105, 116, 121]])]"

definition InitWithdrawRequestAsync_metas :: "string list" where
  "InitWithdrawRequestAsync_metas = [''config'', ''bond'', ''voteAccount'', ''authority'', ''withdrawRequest'', ''rentPayer'', ''systemProgram'', ''eventAuthority'', ''program'']"

definition getInitWithdrawRequestInstructionAsync :: "kit \<Rightarrow> ix_input \<Rightarrow> string option \<Rightarrow> kit_instruction res" where
  "getInitWithdrawRequestInstructionAsync kit input programAddress = (let programAddress = orElse programAddress VALIDATOR_BONDS_PROGRAM_ADDRESS;
       accounts = original_accounts input InitWithdrawRequestAsync_originalAccounts
     in rbind (resolve_defaults kit programAddress InitWithdrawRequestAsync_defaults accounts) (\<lambda>accounts.
       instruction_of kit programAddress accounts InitWithdrawRequestAsync_metas getInitWithdrawRequestInstructionDataEncoder (in_args input)))"

definition InitWithdrawRequestInput_fields :: "(string \<times> input_kind \<times> bool) list" where
  "InitWithdrawRequestInput_fields = [(''config'', InAddress, False),
     (''bond'', InAddress, False),
     (''voteAccount'', InAddress, False),
     (''authority'', InSigner, False),
     (''withdrawRequest'', InAddress, False),
     (''rentPayer'', InSigner, False),
     (''systemProgram'', InAddress, True),
     (''eventAuthority'', InAddress, False),
     (''program'', InAddress, False),
     (''amount'', InArg, False)]"

definition InitWithdrawRequest_originalAccounts :: "(string \<times> bool) list" where
  "InitWithdrawRequest_originalAccounts = [(''config'', False),
     (''bond'', False),
     (''voteAccount'', False),
     (''authority'', False),
     (''withdrawRequest'', True),
     (''rentPayer'', True),
     (''systemProgram'', False),
     (''eventAuthority'', False),
     (''program'', False)]"

definition InitWithdrawRequest_defaults :: "(string \<times> default_value) list" where
  "InitWithdrawRequest_defaults = [(''systemProgram'', FixedAddress ''11111111111111111111111111111111'')]"

definition InitWithdrawRequest_metas :: "string list" where
  "InitWithdrawRequest_metas = [''config'', ''bond'', ''voteAccount'', ''authority'', ''withdrawRequest'', ''rentPayer'', ''systemProgram'', ''eventAuthority'', ''program'']"

definition getInitWithdrawRequestInstruction :: "kit \<Rightarrow> ix_input \<Rightarrow> string option \<Rightarrow> kit_instruction res" where
  "getInitWithdrawRequestInstruction kit input programAddress = (let programAddress = orElse programAddress VALIDATOR_BONDS_PROGRAM_ADDRESS;
       accounts = original_accounts input InitWithdrawRequest_originalAccounts
     in rbind (resolve_defaults kit programAddress InitWithdrawRequest_defaults accounts) (\<lambda>accounts.
       instruction_of kit programAddress accounts InitWithdrawRequest_metas getInitWithdrawRequestInstructionDataEncoder (in_args input)))"

definition ParsedInitWithdrawRequestInstruction_accounts :: "(string \<times> bool) list" where
  "ParsedInitWithdrawRequestInstruction_accounts = [(''config'', False),
     (''bond'', False),
     (''voteAccount'', False),
     (''authority'', False),
     (''withdrawRequest'', False),
     (''rentPayer'', False),
     (''systemProgram'', False),
     (''eventAuthority'', False),
     (''program'', False)]"

definition parseInitWithdrawRequestInstruction :: "kit \<Rightarrow> kit_instruction \<Rightarrow> parsed_instruction res" where
  "parseInitWithdrawRequestInstruction kit ix = parse_from kit 9
     [(''config'', False),
      (''bond'', False),
      (''voteAccount'', False),
      (''authority'', False),
      (''withdrawRequest'', False),
      (''rentPayer'', False),
      (''systemProgram'', False),
      (''eventAuthority'', False),
      (''program'', False)]
     getInitWithdrawRequestInstructionDataDecoder ix"

section \<open>MergeStake\<close>

definition MERGE_STAKE_DISCRIMINATOR :: "byte list" where
  "MERGE_STAKE_DISCRIMINATOR = [14, 3, 146, 23, 163, 105, 246, 99]"

definition getMergeStakeDiscriminatorBytes :: "kit \<Rightarrow> byte list res" where
  "getMergeStakeDiscriminatorBytes kit = fixed_bytes kit MERGE_STAKE_DISCRIMINATOR"

definition MergeStakeInstruction_accounts :: "(string \<times> role \<times> string option) list" where
  "MergeStakeInstruction_accounts = [(''config'', READONLY, None),
     (''sourceStake'', WRITABLE, None),
     (''destinationStake'', WRITABLE, None),
     (''stakerAuthority'', READONLY, None),
     (''stakeHistory'', READONLY, Some ''SysvarStakeHistory1111111111111111111111111''),
     (''clock'', READONLY, Some ''SysvarC1ock11111111111111111111111111111111''),
     (''stakeProgram'', READONLY, Some ''Stake11111111111111111111111111111111111111''),
     (''eventAuthority'', READONLY, None),
     (''program'', READONLY, None)]"

definition MergeStakeInstructionData_type :: "ts_type" where
  "MergeStakeInstructionData_type = TObject [(''discriminator'', TBytes),
     (''settlement'', TAddress)]"

definition MergeStakeInstructionDataArgs_type :: "ts_type" where
  "MergeStakeInstructionDataArgs_type = TObject [(''settlement'', TAddress)]"

definition getMergeStakeInstructionDataEncoder :: "encoder" where
  "getMergeStakeInstructionDataEncoder = WithDiscriminator (StructCodec [(''discriminator'', FixSize BytesCodec 8),
     (''settlement'', AddressCodec)]) MERGE_STAKE_DISCRIMINATOR"

definition getMergeStakeInstructionDataDecoder :: "codec" where
  "getMergeStakeInstructionDataDecoder = StructCodec [(''discriminator'', FixSize BytesCodec 8),
     (''settlement'', AddressCodec)]"

definition getMergeStakeInstructionDataCodec :: "encoder \<times> codec" where
  "getMergeStakeInstructionDataCodec = (getMergeStakeInstructionDataEncoder, getMergeStakeInstructionDataDecoder)"

definition MergeStakeAsyncInput_fields :: "(string \<times> input_kind \<times> bool) list" where
  "MergeStakeAsyncInput_fields = [(''config'', InAddress, False),
     (''sourceStake'', InAddress, False),
     (''destinationStake'', InAddress, False),
     (''stakerAuthority'', InAddress, False),
     (''stakeHistory'', InAddress, True),
     (''clock'', InAddress, True),
     (''stakeProgram'', InAddress, True),
     (''eventAuthority'', InAddress, True),
     (''program'', InAddress, False),
     (''settlement'', InArg, False)]"

definition MergeStakeAsync_originalAccounts :: "(string \<times> bool) list" where
  "MergeStakeAsync_originalAccounts = [(''config'', False),
     (''sourceStake'', True),
     (''destinationStake'', True),
     (''stakerAuthority'', False),
     (''stakeHistory'', False),
     (''clock'', False),
     (''stakeProgram'', False),
     (''eventAuthority'', False),
     (''program'', False)]"

definition MergeStakeAsync_defaults :: "(string \<times> default_value) list" where
  "MergeStakeAsync_defaults = [(''stakeHistory'', FixedAddress ''SysvarStakeHistory1111111111111111111111111''),
     (''clock'', FixedAddress ''SysvarC1ock11111111111111111111111111111111''),
     (''stakeProgram'', FixedAddress ''Stake11111111111111111111111111111111111111''),
     (''eventAuthority'', DerivedFrom [SeedBytes [95, 95, 101, 118, 101, 110, 116, 95, 97, 117, 116, 104, 111, 114, 105, 116, 121]])]"

definition MergeStakeAsync_metas :: "string list" where
  "MergeStakeAsync_metas = [''config'', ''sourceStake'', ''destinationStake'', ''stakerAuthority'', ''stakeHistory'', ''clock'', ''stakeProgram'', ''eventAuthority'', ''program'']"

definition getMergeStakeInstructionAsync :: "kit \<Rightarrow> ix_input \<Rightarrow> string option \<Rightarrow> kit_instruction res" where
  "getMergeStakeInstructionAsync kit input programAddress = (let programAddress = orElse programAddress VALIDATOR_BONDS_PROGRAM_ADDRESS;
       accounts = original_accounts input MergeStakeAsync_originalAccounts
     in rbind (resolve_defaults kit programAddress MergeStakeAsync_defaults accounts) (\<lambda>accounts.
       instruction_of kit programAddress accounts MergeStakeAsync_metas getMergeStakeInstructionDataEncoder (in_args input)))"

definition MergeStakeInput_fields :: "(string \<times> input_kind \<times> bool) list" where
  "MergeStakeInput_fields = [(''config'', InAddress, False),
     (''sourceStake'', InAddress, False),
     (''destinationStake'', InAddress, False),
     (''stakerAuthority'', InAddress, False),
     (''stakeHistory'', InAddress, True),
     (''clock'', InAddress, True),
     (''stakeProgram'', InAddress, True),
     (''eventAuthority'', InAddress, False),
     (''program'', InAddress, False),
     (''settlement'', InArg, False)]"

definition MergeStake_originalAccounts :: "(string \<times> bool) list" where
  "MergeStake_originalAccounts = [(''config'', False),
     (''sourceStake'', True),
     (''destinationStake'', True),
     (''stakerAuthority'', False),
     (''stakeHistory'', False),
     (''clock'', False),
     (''stakeProgram'', False),
     (''eventAuthority'', False),
     (''program'', False)]"

definition MergeStake_defaults :: "(string \<times> default_value) list" where
  "MergeStake_defaults = [(''stakeHistory'', FixedAddress ''SysvarStakeHistory1111111111111111111111111''),
     (''clock'', FixedAddress ''SysvarC1ock11111111111111111111111111111111''),
     (''stakeProgram'', FixedAddress ''Stake11111111111111111111111111111111111111'')]"

definition MergeStake_metas :: "string list" where
  "MergeStake_metas = [''config'', ''sourceStake'', ''destinationStake'', ''stakerAuthority'', ''stakeHistory'', ''clock'', ''stakeProgram'', ''eventAuthority'', ''program'']"

definition getMergeStakeInstruction :: "kit \<Rightarrow> ix_input \<Rightarrow> string option \<Rightarrow> kit_instruction res" where
  "getMergeStakeInstruction kit input programAddress = (let programAddress = orElse programAddress VALIDATOR_BONDS_PROGRAM_ADDRESS;
       accounts = original_accounts input MergeStake_originalAccounts
     in rbind (resolve_defaults kit programAddress MergeStake_defaults accounts) (\<lambda>accounts.
       instruction_of kit programAddress accounts MergeStake_metas getMergeStakeInstructionDataEncoder (in_args input)))"

definition ParsedMergeStakeInstruction_accounts :: "(string \<times> bool) list" where
  "ParsedMergeStakeInstruction_accounts = [(''config'', False),
     (''sourceStake'', False),
     (''destinationStake'', False),
     (''stakerAuthority'', False),
     (''stakeHistory'', False),
     (''clock'', False),
     (''stakeProgram'', False),
     (''eventAuthority'', False),
     (''program'', False)]"

definition parseMergeStakeInstruction :: "kit \<Rightarrow> kit_instruction \<Rightarrow> parsed_instruction res" where
  "parseMergeStakeInstruction kit ix = parse_from kit 9
     [(''config'', False),
      (''sourceStake'', False),
      (''destinationStake'', False),
      (''stakerAuthority'', False),
      (''stakeHistory'', False),
      (''clock'', False),
      (''stakeProgram'', False),
      (''eventAuthority'', False),
      (''program'', False)]
     getMergeStakeInstructionDataDecoder ix"

section \<open>MintBond\<close>

definition MINT_BOND_DISCRIMINATOR :: "byte list" where
  "MINT_BOND_DISCRIMINATOR = [234, 94, 85, 225, 167, 102, 169, 32]"

definition getMintBondDiscriminatorBytes :: "kit \<Rightarrow> byte list res" where
  "getMintBondDiscriminatorBytes kit = fixed_bytes kit MINT_BOND_DISCRIMINATOR"

definition MintBondInstruction_accounts :: "(string \<times> role \<times> string option) list" where
  "MintBondInstruction_accounts = [(''config'', READONLY, None),
     (''bond'', READONLY, None),
     (''mint'', WRITABLE, None),
     (''validatorIdentity'', READONLY, None),
     (''validatorIdentityTokenAccount'', WRITABLE, None),
     (''voteAccount'', READONLY, None),
     (''metadata'', WRITABLE, None),
     (''rentPayer'', WRITABLE_SIGNER, None),
     (''systemProgram'', READONLY, Some ''11111111111111111111111111111111''),
     (''tokenProgram'', READONLY, Some ''TokenkegQfeZyiNwAJbNbGKPFXCWuBvf9Ss623VQ5DA''),
     (''associatedTokenProgram'', READONLY, Some ''ATokenGPvbdGVxr1b2hvZbsiqW5xWH25efTNsLJA8knL''),
     (''metadataProgram'', READONLY, Some ''metaqbxxUerdq28cj1RbAWkYQm3ybzjb6a8bt518x1s''),
     (''rent'', READONLY, Some ''SysvarRent111111111111111111111111111111111''),
     (''eventAuthority'', READONLY, None),
     (''program'', READONLY, None)]"

definition MintBondInstructionData_type :: "ts_type" where
  "MintBondInstructionData_type = TObject [(''discriminator'', TBytes)]"

definition MintBondInstructionDataArgs_type :: "ts_type" where
  "MintBondInstructionDataArgs_type = TObject []"

definition getMintBondInstructionDataEncoder :: "encoder" where
  "getMintBondInstructionDataEncoder = WithDiscriminator (StructCodec [(''discriminator'', FixSize BytesCodec 8)]) MINT_BOND_DISCRIMINATOR"

definition getMintBondInstructionDataDecoder :: "codec" where
  "getMintBondInstructionDataDecoder = StructCodec [(''discriminator'', FixSize BytesCodec 8)]"

definition getMintBondInstructionDataCodec :: "encoder \<times> codec" where
  "getMintBondInstructionDataCodec = (getMintBondInstructionDataEncoder, getMintBondInstructionDataDecoder)"

definition MintBondAsyncInput_fields :: "(string \<times> input_kind \<times> bool) list" where
  "MintBondAsyncInput_fields = [(''config'', InAddress, False),
     (''bond'', InAddress, True),
     (''mint'', InAddress, True),
     (''validatorIdentity'', InAddress, False),
     (''validatorIdentityTokenAccount'', InAddress, True),
     (''voteAccount'', InAddress, False),
     (''metadata'', InAddress, False),
     (''rentPayer'', InSigner, False),
     (''systemProgram'', InAddress, True),
     (''tokenProgram'', InAddress, True),
     (''associatedTokenProgram'', InAddress, True),
     (''metadataProgram'', InAddress, True),
     (''rent'', InAddress, True),
     (''eventAuthority'', InAddress, True),
     (''program'', InAddress, False)]"

definition MintBondAsync_originalAccounts :: "(string \<times> bool) list" where
  "MintBondAsync_originalAccounts = [(''config'', False),
     (''bond'', False),
     (''mint'', True),
     (''validatorIdentity'', False),
     (''validatorIdentityTokenAccount'', True),
     (''voteAccount'', False),
     (''metadata'', True),
     (''rentPayer'', True),
     (''systemProgram'', False),
     (''tokenProgram'', False),
     (''associatedTokenProgram'', False),
     (''metadataProgram'', False),
     (''rent'', False),
     (''eventAuthority'', False),
     (''program'', False)]"

definition MintBondAsync_defaults :: "(string \<times> default_value) list" where
  "MintBondAsync_defaults = [(''bond'', DerivedFrom [SeedBytes [98, 111, 110, 100, 95, 97, 99, 99, 111, 117, 110, 116], SeedAccount ''config'', SeedAccount ''voteAccount'']),
     (''mint'', DerivedFrom [SeedBytes [98, 111, 110, 100, 95, 109, 105, 110, 116], SeedAccount ''bond'', SeedAccount ''validatorIdentity'']),
     (''validatorIdentityTokenAccount'', DerivedBy ''ATokenGPvbdGVxr1b2hvZbsiqW5xWH25efTNsLJA8knL'' [SeedAccount ''validatorIdentity'', SeedBytes [6, 221, 246, 225, 215, 101, 161, 147, 217, 203, 225, 70, 206, 235, 121, 172, 28, 180, 133, 237, 95, 91, 55, 145, 58, 140, 245, 133, 126, 255, 0, 169], SeedAccount ''mint'']),
     (''systemProgram'', FixedAddress ''11111111111111111111111111111111''),
     (''tokenProgram'', FixedAddress ''TokenkegQfeZyiNwAJbNbGKPFXCWuBvf9Ss623VQ5DA''),
     (''associatedTokenProgram'', FixedAddress ''ATokenGPvbdGVxr1b2hvZbsiqW5xWH25efTNsLJA8knL''),
     (''metadataProgram'', FixedAddress ''metaqbxxUerdq28cj1RbAWkYQm3ybzjb6a8bt518x1s''),
     (''rent'', FixedAddress ''SysvarRent111111111111111111111111111111111''),
     (''eventAuthority'', DerivedFrom [SeedBytes [95, 95, 101, 118, 101, 110, 116, 95, 97, 117, 116, 104, 111, 114, 105, 116, 121]])]"

definition MintBondAsync_metas :: "string list" where
  "MintBondAsync_metas = [''config'', ''bond'', ''mint'', ''validatorIdentity'', ''validatorIdentityTokenAccount'', ''voteAccount'', ''metadata'', ''rentPayer'', ''systemProgram'', ''tokenProgram'', ''associatedTokenProgram'', ''metadataProgram'', ''rent'', ''eventAuthority'', ''program'']"

definition getMintBondInstructionAsync :: "kit \<Rightarrow> ix_input \<Rightarrow> string option \<Rightarrow> kit_instruction res" where
  "getMintBondInstructionAsync kit input programAddress = (let programAddress = orElse programAddress VALIDATOR_BONDS_PROGRAM_ADDRESS;
       accounts = original_accounts input MintBondAsync_originalAccounts
     in rbind (resolve_defaults kit programAddress MintBondAsync_defaults accounts) (\<lambda>accounts.
       instruction_of kit programAddress accounts MintBondAsync_metas getMintBondInstructionDataEncoder []))"

definition MintBondInput_fields :: "(string \<times> input_kind \<times> bool) list" where
  "MintBondInput_fields = [(''config'', InAddress, False),
     (''bond'', InAddress, False),
     (''mint'', InAddress, False),
     (''validatorIdentity'', InAddress, False),
     (''validatorIdentityTokenAccount'', InAddress, False),
     (''voteAccount'', InAddress, False),
     (''metadata'', InAddress, False),
     (''rentPayer'', InSigner, False),
     (''systemProgram'', InAddress, True),
     (''tokenProgram'', InAddress, True),
     (''associatedTokenProgram'', InAddress, True),
     (''metadataProgram'', InAddress, True),
     (''rent'', InAddress, True),
     (''eventAuthority'', InAddress, False),
     (''program'', InAddress, False)]"

definition MintBond_originalAccounts :: "(string \<times> bool) list" where
  "MintBond_originalAccounts = [(''config'', False),
     (''bond'', False),
     (''mint'', True),
     (''validatorIdentity'', False),
     (''validatorIdentityTokenAccount'', True),
     (''voteAccount'', False),
     (''metadata'', True),
     (''rentPayer'', True),
     (''systemProgram'', False),
     (''tokenProgram'', False),
     (''associatedTokenProgram'', False),
     (''metadataProgram'', False),
     (''rent'', False),
     (''eventAuthority'', False),
     (''program'', False)]"

definition MintBond_defaults :: "(string \<times> default_value) list" where
  "MintBond_defaults = [(''systemProgram'', FixedAddress ''11111111111111111111111111111111''),
     (''tokenProgram'', FixedAddress ''TokenkegQfeZyiNwAJbNbGKPFXCWuBvf9Ss623VQ5DA''),
     (''associatedTokenProgram'', FixedAddress ''ATokenGPvbdGVxr1b2hvZbsiqW5xWH25efTNsLJA8knL''),
     (''metadataProgram'', FixedAddress ''metaqbxxUerdq28cj1RbAWkYQm3ybzjb6a8bt518x1s''),
     (''rent'', FixedAddress ''SysvarRent111111111111111111111111111111111'')]"

definition MintBond_metas :: "string list" where
  "MintBond_metas = [''config'', ''bond'', ''mint'', ''validatorIdentity'', ''validatorIdentityTokenAccount'', ''voteAccount'', ''metadata'', ''rentPayer'', ''systemProgram'', ''tokenProgram'', ''associatedTokenProgram'', ''metadataProgram'', ''rent'', ''eventAuthority'', ''program'']"

definition getMintBondInstruction :: "kit \<Rightarrow> ix_input \<Rightarrow> string option \<Rightarrow> kit_instruction res" where
  "getMintBondInstruction kit input programAddress = (let programAddress = orElse programAddress VALIDATOR_BONDS_PROGRAM_ADDRESS;
       accounts = original_accounts input MintBond_originalAccounts
     in rbind (resolve_defaults kit programAddress MintBond_defaults accounts) (\<lambda>accounts.
       instruction_of kit programAddress accounts MintBond_metas getMintBondInstructionDataEncoder []))"

definition ParsedMintBondInstruction_accounts :: "(string \<times> bool) list" where
  "ParsedMintBondInstruction_accounts = [(''config'', False),
     (''bond'', False),
     (''mint'', False),
     (''validatorIdentity'', False),
     (''validatorIdentityTokenAccount'', False),
     (''voteAccount'', False),
     (''metadata'', False),
     (''rentPayer'', False),
     (''systemProgram'', False),
     (''tokenProgram'', False),
     (''associatedTokenProgram'', False),
     (''metadataProgram'', False),
     (''rent'', False),
     (''eventAuthority'', False),
     (''program'', False)]"

definition parseMintBondInstruction :: "kit \<Rightarrow> kit_instruction \<Rightarrow> parsed_instruction res" where
  "parseMintBondInstruction kit ix = parse_from kit 15
     [(''config'', False),
      (''bond'', False),
      (''mint'', False),
      (''validatorIdentity'', False),
      (''validatorIdentityTokenAccount'', False),
      (''voteAccount'', False),
      (''metadata'', False),
      (''rentPayer'', False),
      (''systemProgram'', False),
      (''tokenProgram'', False),
      (''associatedTokenProgram'', False),
      (''metadataProgram'', False),
      (''rent'', False),
      (''eventAuthority'', False),
      (''program'', False)]
     getMintBondInstructionDataDecoder ix"

section \<open>ResetStake\<close>

definition RESET_STAKE_DISCRIMINATOR :: "byte list" where
  "RESET_STAKE_DISCRIMINATOR = [183, 37, 69, 159, 163, 139, 212, 235]"

definition getResetStakeDiscriminatorBytes :: "kit \<Rightarrow> byte list res" where
  "getResetStakeDiscriminatorBytes kit = fixed_bytes kit RESET_STAKE_DISCRIMINATOR"

definition ResetStakeInstruction_accounts :: "(string \<times> role \<times> string option) list" where
  "ResetStakeInstruction_accounts = [(''config'', READONLY, None),
     (''bond'', READONLY, None),
     (''settlement'', READONLY, None),
     (''stakeAccount'', WRITABLE, None),
     (''bondsWithdrawerAuthority'', READONLY, None),
     (''voteAccount'', READONLY, None),
     (''stakeHistory'', READONLY, Some ''SysvarStakeHistory1111111111111111111111111''),
     (''stakeConfig'', READONLY, Some ''StakeConfig11111111111111111111111111111111''),
     (''clock'', READONLY, Some ''SysvarC1ock11111111111111111111111111111111''),
     (''stakeProgram'', READONLY, Some ''Stake11111111111111111111111111111111111111''),
     (''eventAuthority'', READONLY, None),
     (''program'', READONLY, None)]"

definition ResetStakeInstructionData_type :: "ts_type" where
  "ResetStakeInstructionData_type = TObject [(''discriminator'', TBytes)]"

definition ResetStakeInstructionDataArgs_type :: "ts_type" where
  "ResetStakeInstructionDataArgs_type = TObject []"

definition getResetStakeInstructionDataEncoder :: "encoder" where
  "getResetStakeInstructionDataEncoder = WithDiscriminator (StructCodec [(''discriminator'', FixSize BytesCodec 8)]) RESET_STAKE_DISCRIMINATOR"

definition getResetStakeInstructionDataDecoder :: "codec" where
  "getResetStakeInstructionDataDecoder = StructCodec [(''discriminator'', FixSize BytesCodec 8)]"

definition getResetStakeInstructionDataCodec :: "encoder \<times> codec" where
  "getResetStakeInstructionDataCodec = (getResetStakeInstructionDataEncoder, getResetStakeInstructionDataDecoder)"

definition ResetStakeAsyncInput_fields :: "(string \<times> input_kind \<times> bool) list" where
  "ResetStakeAsyncInput_fields = [(''config'', InAddress, False),
     (''bond'', InAddress, True),
     (''settlement'', InAddress, False),
     (''stakeAccount'', InAddress, False),
     (''bondsWithdrawerAuthority'', InAddress, True),
     (''voteAccount'', InAddress, False),
     (''stakeHistory'', InAddress, True),
     (''stakeConfig'', InAddress, True),
     (''clock'', InAddress, True),
     (''stakeProgram'', InAddress, True),
     (''eventAuthority'', InAddress, True),
     (''program'', InAddress, False)]"

definition ResetStakeAsync_originalAccounts :: "(string \<times> bool) list" where
  "ResetStakeAsync_originalAccounts = [(''config'', False),
     (''bond'', False),
     (''settlement'', False),
     (''stakeAccount'', True),
     (''bondsWithdrawerAuthority'', False),
     (''voteAccount'', False),
     (''stakeHistory'', False),
     (''stakeConfig'', False),
     (''clock'', False),
     (''stakeProgram'', False),
     (''eventAuthority'', False),
     (''program'', False)]"

definition ResetStakeAsync_defaults :: "(string \<times> default_value) list" where
  "ResetStakeAsync_defaults = [(''bond'', DerivedFrom [SeedBytes [98, 111, 110, 100, 95, 97, 99, 99, 111, 117, 110, 116], SeedAccount ''config'', SeedAccount ''voteAccount'']),
     (''bondsWithdrawerAuthority'', DerivedFrom [SeedBytes [98, 111, 110, 100, 115, 95, 97, 117, 116, 104, 111, 114, 105, 116, 121], SeedAccount ''config'']),
     (''stakeHistory'', FixedAddress ''SysvarStakeHistory1111111111111111111111111''),
     (''stakeConfig'', FixedAddress ''StakeConfig11111111111111111111111111111111''),
     (''clock'', FixedAddress ''SysvarC1ock11111111111111111111111111111111''),
     (''stakeProgram'', FixedAddress ''Stake11111111111111111111111111111111111111''),
     (''eventAuthority'', DerivedFrom [SeedBytes [95, 95, 101, 118, 101, 110, 116, 95, 97, 117, 116, 104, 111, 114, 105, 116, 121]])]"

definition ResetStakeAsync_metas :: "string list" where
  "ResetStakeAsync_metas = [''config'', ''bond'', ''settlement'', ''stakeAccount'', ''bondsWithdrawerAuthority'', ''voteAccount'', ''stakeHistory'', ''stakeConfig'', ''clock'', ''stakeProgram'', ''eventAuthority'', ''program'']"

definition getResetStakeInstructionAsync :: "kit \<Rightarrow> ix_input \<Rightarrow> string option \<Rightarrow> kit_instruction res" where
  "getResetStakeInstructionAsync kit input programAddress = (let programAddress = orElse programAddress VALIDATOR_BONDS_PROGRAM_ADDRESS;
       accounts = original_accounts input ResetStakeAsync_originalAccounts
     in rbind (resolve_defaults kit programAddress ResetStakeAsync_defaults accounts) (\<lambda>accounts.
       instruction_of kit programAddress accounts ResetStakeAsync_metas getResetStakeInstructionDataEncoder []))"

definition ResetStakeInput_fields :: "(string \<times> input_kind \<times> bool) list" where
  "ResetStakeInput_fields = [(''config'', InAddress, False),
     (''bond'', InAddress, False),
     (''settlement'', InAddress, False),
     (''stakeAccount'', InAddress, False),
     (''bondsWithdrawerAuthority'', InAddress, False),
     (''voteAccount'', InAddress, False),
     (''stakeHistory'', InAddress, True),
     (''stakeConfig'', InAddress, True),
     (''clock'', InAddress, True),
     (''stakeProgram'', InAddress, True),
     (''eventAuthority'', InAddress, False),
     (''program'', InAddress, False)]"

definition ResetStake_originalAccounts :: "(string \<times> bool) list" where
  "ResetStake_originalAccounts = [(''config'', False),
     (''bond'', False),
     (''settlement'', False),
     (''stakeAccount'', True),
     (''bondsWithdrawerAuthority'', False),
     (''voteAccount'', False),
     (''stakeHistory'', False),
     (''stakeConfig'', False),
     (''clock'', False),
     (''stakeProgram'', False),
     (''eventAuthority'', False),
     (''program'', False)]"

definition ResetStake_defaults :: "(string \<times> default_value) list" where
  "ResetStake_defaults = [(''stakeHistory'', FixedAddress ''SysvarStakeHistory1111111111111111111111111''),
     (''stakeConfig'', FixedAddress ''StakeConfig11111111111111111111111111111111''),
     (''clock'', FixedAddress ''SysvarC1ock11111111111111111111111111111111''),
     (''stakeProgram'', FixedAddress ''Stake11111111111111111111111111111111111111'')]"

definition ResetStake_metas :: "string list" where
  "ResetStake_metas = [''config'', ''bond'', ''settlement'', ''stakeAccount'', ''bondsWithdrawerAuthority'', ''voteAccount'', ''stakeHistory'', ''stakeConfig'', ''clock'', ''stakeProgram'', ''eventAuthority'', ''program'']"

definition getResetStakeInstruction :: "kit \<Rightarrow> ix_input \<Rightarrow> string option \<Rightarrow> kit_instruction res" where
  "getResetStakeInstruction kit input programAddress = (let programAddress = orElse programAddress VALIDATOR_BONDS_PROGRAM_ADDRESS;
       accounts = original_accounts input ResetStake_originalAccounts
     in rbind (resolve_defaults kit programAddress ResetStake_defaults accounts) (\<lambda>accounts.
       instruction_of kit programAddress accounts ResetStake_metas getResetStakeInstructionDataEncoder []))"

definition ParsedResetStakeInstruction_accounts :: "(string \<times> bool) list" where
  "ParsedResetStakeInstruction_accounts = [(''config'', False),
     (''bond'', False),
     (''settlement'', False),
     (''stakeAccount'', False),
     (''bondsWithdrawerAuthority'', False),
     (''voteAccount'', False),
     (''stakeHistory'', False),
     (''stakeConfig'', False),
     (''clock'', False),
     (''stakeProgram'', False),
     (''eventAuthority'', False),
     (''program'', False)]"

definition parseResetStakeInstruction :: "kit \<Rightarrow> kit_instruction \<Rightarrow> parsed_instruction res" where
  "parseResetStakeInstruction kit ix = parse_from kit 12
     [(''config'', False),
      (''bond'', False),
      (''settlement'', False),
      (''stakeAccount'', False),
      (''bondsWithdrawerAuthority'', False),
      (''voteAccount'', False),
      (''stakeHistory'', False),
      (''stakeConfig'', False),
      (''clock'', False),
      (''stakeProgram'', False),
      (''eventAuthority'', False),
      (''program'', False)]
     getResetStakeInstructionDataDecoder ix"

section \<open>UpsizeSettlementClaims\<close>

definition UPSIZE_SETTLEMENT_CLAIMS_DISCRIMINATOR :: "byte list" where
  "UPSIZE_SETTLEMENT_CLAIMS_DISCRIMINATOR = [207, 46, 34, 88, 141, 36, 63, 132]"

definition getUpsizeSettlementClaimsDiscriminatorBytes :: "kit \<Rightarrow> byte list res" where
  "getUpsizeSettlementClaimsDiscriminatorBytes kit = fixed_bytes kit UPSIZE_SETTLEMENT_CLAIMS_DISCRIMINATOR"

definition UpsizeSettlementClaimsInstruction_accounts :: "(string \<times> role \<times> string option) list" where
  "UpsizeSettlementClaimsInstruction_accounts = [(''settlementClaims'', WRITABLE, None),
     (''rentPayer'', WRITABLE_SIGNER, None),
     (''systemProgram'', READONLY, Some ''11111111111111111111111111111111'')]"

definition UpsizeSettlementClaimsInstructionData_type :: "ts_type" where
  "UpsizeSettlementClaimsInstructionData_type = TObject [(''discriminator'', TBytes)]"

definition UpsizeSettlementClaimsInstructionDataArgs_type :: "ts_type" where
  "UpsizeSettlementClaimsInstructionDataArgs_type = TObject []"

definition getUpsizeSettlementClaimsInstructionDataEncoder :: "encoder" where
  "getUpsizeSettlementClaimsInstructionDataEncoder = WithDiscriminator (StructCodec [(''discriminator'', FixSize BytesCodec 8)]) UPSIZE_SETTLEMENT_CLAIMS_DISCRIMINATOR"

definition getUpsizeSettlementClaimsInstructionDataDecoder :: "codec" where
  "getUpsizeSettlementClaimsInstructionDataDecoder = StructCodec [(''discriminator'', FixSize BytesCodec 8)]"

definition getUpsizeSettlementClaimsInstructionDataCodec :: "encoder \<times> codec" where
  "getUpsizeSettlementClaimsInstructionDataCodec = (getUpsizeSettlementClaimsInstructionDataEncoder, getUpsizeSettlementClaimsInstructionDataDecoder)"

definition UpsizeSettlementClaimsInput_fields :: "(string \<times> input_kind \<times> bool) list" where
  "UpsizeSettlementClaimsInput_fields = [(''settlementClaims'', InAddress, False),
     (''rentPayer'', InSigner, False),
     (''systemProgram'', InAddress, True)]"

definition UpsizeSettlementClaims_originalAccounts :: "(string \<times> bool) list" where
  "UpsizeSettlementClaims_originalAccounts = [(''settlementClaims'', True),
     (''rentPayer'', True),
     (''systemProgram'', False)]"

definition UpsizeSettlementClaims_defaults :: "(string \<times> default_value) list" where
  "UpsizeSettlementClaims_defaults = [(''systemProgram'', FixedAddress ''11111111111111111111111111111111'')]"

definition UpsizeSettlementClaims_metas :: "string list" where
  "UpsizeSettlementClaims_metas = [''settlementClaims'', ''rentPayer'', ''systemProgram'']"

definition getUpsizeSettlementClaimsInstruction :: "kit \<Rightarrow> ix_input \<Rightarrow> string option \<Rightarrow> kit_instruction res" where
  "getUpsizeSettlementClaimsInstruction kit input programAddress = (let programAddress = orElse programAddress VALIDATOR_BONDS_PROGRAM_ADDRESS;
       accounts = original_accounts input UpsizeSettlementClaims_originalAccounts
     in rbind (resolve_defaults kit programAddress UpsizeSettlementClaims_defaults accounts) (\<lambda>accounts.
       instruction_of kit programAddress accounts UpsizeSettlementClaims_metas getUpsizeSettlementClaimsInstructionDataEncoder []))"

definition ParsedUpsizeSettlementClaimsInstruction_accounts :: "(string \<times> bool) list" where
  "ParsedUpsizeSettlementClaimsInstruction_accounts = [(''settlementClaims'', False),
     (''rentPayer'', False),
     (''systemProgram'', False)]"

definition parseUpsizeSettlementClaimsInstruction :: "kit \<Rightarrow> kit_instruction \<Rightarrow> parsed_instruction res" where
  "parseUpsizeSettlementClaimsInstruction kit ix = parse_from kit 3
     [(''settlementClaims'', False),
      (''rentPayer'', False),
      (''systemProgram'', False)]
     getUpsizeSettlementClaimsInstructionDataDecoder ix"

section \<open>WithdrawStake\<close>

definition WITHDRAW_STAKE_DISCRIMINATOR :: "byte list" where
  "WITHDRAW_STAKE_DISCRIMINATOR = [153, 8, 22, 138, 105, 176, 87, 66]"

definition getWithdrawStakeDiscriminatorBytes :: "kit \<Rightarrow> byte list res" where
  "getWithdrawStakeDiscriminatorBytes kit = fixed_bytes kit WITHDRAW_STAKE_DISCRIMINATOR"

definition WithdrawStakeInstruction_accounts :: "(string \<times> role \<times> string option) list" where
  "WithdrawStakeInstruction_accounts = [(''config'', READONLY, None),
     (''operatorAuthority'', READONLY_SIGNER, None),
     (''settlement'', READONLY, None),
     (''stakeAccount'', WRITABLE, None),
     (''bondsWithdrawerAuthority'', READONLY, None),
     (''withdrawTo'', WRITABLE, None),
     (''stakeHistory'', READONLY, Some ''SysvarStakeHistory1111111111111111111111111''),
     (''clock'', READONLY, Some ''SysvarC1ock11111111111111111111111111111111''),
     (''stakeProgram'', READONLY, Some ''Stake11111111111111111111111111111111111111''),
     (''eventAuthority'', READONLY, None),
     (''program'', READONLY, None)]"

definition WithdrawStakeInstructionData_type :: "ts_type" where
  "WithdrawStakeInstructionData_type = TObject [(''discriminator'', TBytes)]"

definition WithdrawStakeInstructionDataArgs_type :: "ts_type" where
  "WithdrawStakeInstructionDataArgs_type = TObject []"

definition getWithdrawStakeInstructionDataEncoder :: "encoder" where
  "getWithdrawStakeInstructionDataEncoder = WithDiscriminator (StructCodec [(''discriminator'', FixSize BytesCodec 8)]) WITHDRAW_STAKE_DISCRIMINATOR"

definition getWithdrawStakeInstructionDataDecoder :: "codec" where
  "getWithdrawStakeInstructionDataDecoder = StructCodec [(''discriminator'', FixSize BytesCodec 8)]"

definition getWithdrawStakeInstructionDataCodec :: "encoder \<times> codec" where
  "getWithdrawStakeInstructionDataCodec = (getWithdrawStakeInstructionDataEncoder, getWithdrawStakeInstructionDataDecoder)"

definition WithdrawStakeAsyncInput_fields :: "(string \<times> input_kind \<times> bool) list" where
  "WithdrawStakeAsyncInput_fields = [(''config'', InAddress, False),
     (''operatorAuthority'', InSigner, False),
     (''settlement'', InAddress, False),
     (''stakeAccount'', InAddress, False),
     (''bondsWithdrawerAuthority'', InAddress, True),
     (''withdrawTo'', InAddress, False),
     (''stakeHistory'', InAddress, True),
     (''clock'', InAddress, True),
     (''stakeProgram'', InAddress, True),
     (''eventAuthority'', InAddress, True),
     (''program'', InAddress, False)]"

definition WithdrawStakeAsync_originalAccounts :: "(string \<times> bool) list" where
  "WithdrawStakeAsync_originalAccounts = [(''config'', False),
     (''operatorAuthority'', False),
     (''settlement'', False),
     (''stakeAccount'', True),
     (''bondsWithdrawerAuthority'', False),
     (''withdrawTo'', True),
     (''stakeHistory'', False),
     (''clock'', False),
     (''stakeProgram'', False),
     (''eventAuthority'', False),
     (''program'', False)]"

definition WithdrawStakeAsync_defaults :: "(string \<times> default_value) list" where
  "WithdrawStakeAsync_defaults = [(''bondsWithdrawerAuthority'', DerivedFrom [SeedBytes [98, 111, 110, 100, 115, 95, 97, 117, 116, 104, 111, 114, 105, 116, 121], SeedAccount ''config'']),
     (''stakeHistory'', FixedAddress ''SysvarStakeHistory1111111111111111111111111''),
     (''clock'', FixedAddress ''SysvarC1ock11111111111111111111111111111111''),
     (''stakeProgram'', FixedAddress ''Stake11111111111111111111111111111111111111''),
     (''eventAuthority'', DerivedFrom [SeedBytes [95, 95, 101, 118, 101, 110, 116, 95, 97, 117, 116, 104, 111, 114, 105, 116, 121]])]"

definition WithdrawStakeAsync_metas :: "string list" where
  "WithdrawStakeAsync_metas = [''config'', ''operatorAuthority'', ''settlement'', ''stakeAccount'', ''bondsWithdrawerAuthority'', ''withdrawTo'', ''stakeHistory'', ''clock'', ''stakeProgram'', ''eventAuthority'', ''program'']"

definition getWithdrawStakeInstructionAsync :: "kit \<Rightarrow> ix_input \<Rightarrow> string option \<Rightarrow> kit_instruction res" where
  "getWithdrawStakeInstructionAsync kit input programAddress = (let programAddress = orElse programAddress VALIDATOR_BONDS_PROGRAM_ADDRESS;
       accounts = original_accounts input WithdrawStakeAsync_originalAccounts
     in rbind (resolve_defaults kit programAddress WithdrawStakeAsync_defaults accounts) (\<lambda>accounts.
       instruction_of kit programAddress accounts WithdrawStakeAsync_metas getWithdrawStakeInstructionDataEncoder []))"

definition WithdrawStakeInput_fields :: "(string \<times> input_kind \<times> bool) list" where
  "WithdrawStakeInput_fields = [(''config'', InAddress, False),
     (''operatorAuthority'', InSigner, False),
     (''settlement'', InAddress, False),
     (''stakeAccount'', InAddress, False),
     (''bondsWithdrawerAuthority'', InAddress, False),
     (''withdrawTo'', InAddress, False),
     (''stakeHistory'', InAddress, True),
     (''clock'', InAddress, True),
     (''stakeProgram'', InAddress, True),
     (''eventAuthority'', InAddress, False),
     (''program'', InAddress, False)]"

definition WithdrawStake_originalAccounts :: "(string \<times> bool) list" where
  "WithdrawStake_originalAccounts = [(''config'', False),
     (''operatorAuthority'', False),
     (''settlement'', False),
     (''stakeAccount'', True),
     (''bondsWithdrawerAuthority'', False),
     (''withdrawTo'', True),
     (''stakeHistory'', False),
     (''clock'', False),
     (''stakeProgram'', False),
     (''eventAuthority'', False),
     (''program'', False)]"

definition WithdrawStake_defaults :: "(string \<times> default_value) list" where
  "WithdrawStake_defaults = [(''stakeHistory'', FixedAddress ''SysvarStakeHistory1111111111111111111111111''),
     (''clock'', FixedAddress ''SysvarC1ock11111111111111111111111111111111''),
     (''stakeProgram'', FixedAddress ''Stake11111111111111111111111111111111111111'')]"

definition WithdrawStake_metas :: "string list" where
  "WithdrawStake_metas = [''config'', ''operatorAuthority'', ''settlement'', ''stakeAccount'', ''bondsWithdrawerAuthority'', ''withdrawTo'', ''stakeHistory'', ''clock'', ''stakeProgram'', ''eventAuthority'', ''program'']"

definition getWithdrawStakeInstruction :: "kit \<Rightarrow> ix_input \<Rightarrow> string option \<Rightarrow> kit_instruction res" where
  "getWithdrawStakeInstruction kit input programAddress = (let programAddress = orElse programAddress VALIDATOR_BONDS_PROGRAM_ADDRESS;
       accounts = original_accounts input WithdrawStake_originalAccounts
     in rbind (resolve_defaults kit programAddress WithdrawStake_defaults accounts) (\<lambda>accounts.
       instruction_of kit programAddress accounts WithdrawStake_metas getWithdrawStakeInstructionDataEncoder []))"

definition ParsedWithdrawStakeInstruction_accounts :: "(string \<times> bool) list" where
  "ParsedWithdrawStakeInstruction_accounts = [(''config'', False),
     (''operatorAuthority'', False),
     (''settlement'', False),
     (''stakeAccount'', False),
     (''bondsWithdrawerAuthority'', False),
     (''withdrawTo'', False),
     (''stakeHistory'', False),
     (''clock'', False),
     (''stakeProgram'', False),
     (''eventAuthority'', False),
     (''program'', False)]"

definition parseWithdrawStakeInstruction :: "kit \<Rightarrow> kit_instruction \<Rightarrow> parsed_instruction res" where
  "parseWithdrawStakeInstruction kit ix = parse_from kit 11
     [(''config'', False),
      (''operatorAuthority'', False),
      (''settlement'', False),
      (''stakeAccount'', False),
      (''bondsWithdrawerAuthority'', False),
      (''withdrawTo'', False),
      (''stakeHistory'', False),
      (''clock'', False),
      (''stakeProgram'', False),
      (''eventAuthority'', False),
      (''program'', False)]
     getWithdrawStakeInstructionDataDecoder ix"

end
