(* ===== verification/Cod_Program.thy ===== *)
theory Cod_Program
  imports Cod_Accounts Cod_Ix_A Cod_Ix_B Cod_Ix_C
begin

text \<open>
  The program of the generated client: which account or instruction some data is, the parser of
  all instructions, and the functions a client object gets. File
  \<open>packages/validator-bonds-codama/src/programs/validatorBonds.ts\<close>.
\<close>

datatype ValidatorBondsAccount = Acc_Bond
  | Acc_BondProduct
  | Acc_Config
  | Acc_Settlement
  | Acc_SettlementClaim
  | Acc_SettlementClaims
  | Acc_WithdrawRequest

definition identifyValidatorBondsAccount :: "kit \<Rightarrow> byte list \<Rightarrow> ValidatorBondsAccount res" where
  "identifyValidatorBondsAccount kit data = identify kit
    [([224, 128, 48, 251, 182, 246, 111, 196], Acc_Bond),
     ([135, 68, 116, 146, 5, 75, 127, 143], Acc_BondProduct),
     ([155, 12, 170, 224, 30, 250, 204, 130], Acc_Config),
     ([55, 11, 219, 33, 36, 136, 40, 182], Acc_Settlement),
     ([216, 103, 231, 246, 171, 99, 124, 133], Acc_SettlementClaim),
     ([32, 130, 62, 175, 231, 54, 170, 114], Acc_SettlementClaims),
     ([186, 239, 174, 191, 189, 13, 47, 196], Acc_WithdrawRequest)]
    data (Js_Error EError ''FAILED_TO_IDENTIFY_ACCOUNT'')"

datatype ValidatorBondsInstruction = Ix_CancelSettlement
  | Ix_CancelWithdrawRequest
  | Ix_ClaimSettlementV1
  | Ix_ClaimSettlementV2
  | Ix_ClaimWithdrawRequest
  | Ix_CloseSettlementV2
  | Ix_ConfigureBond
  | Ix_ConfigureBondProduct
  | Ix_ConfigureBondWithMint
  | Ix_ConfigureConfig
  | Ix_EmergencyPause
  | Ix_EmergencyResume
  | Ix_FundBond
  | Ix_FundSettlement
  | Ix_InitBond
  | Ix_InitBondProduct
  | Ix_InitConfig
  | Ix_InitSettlement
  | Ix_InitWithdrawRequest
  | Ix_MergeStake
  | Ix_MintBond
  | Ix_ResetStake
  | Ix_UpsizeSettlementClaims
  | Ix_WithdrawStake

definition identifyValidatorBondsInstruction :: "kit \<Rightarrow> byte list \<Rightarrow> ValidatorBondsInstruction res" where
  "identifyValidatorBondsInstruction kit data = identify kit
    [([33, 241, 96, 62, 228, 178, 1, 120], Ix_CancelSettlement),
     ([167, 100, 110, 128, 113, 154, 224, 77], Ix_CancelWithdrawRequest),
     ([0, 13, 213, 236, 10, 199, 94, 48], Ix_ClaimSettlementV1),
     ([188, 53, 132, 151, 88, 50, 52, 238], Ix_ClaimSettlementV2),
     ([48, 232, 23, 52, 20, 134, 122, 118], Ix_ClaimWithdrawRequest),
     ([125, 212, 89, 37, 31, 244, 191, 179], Ix_CloseSettlementV2),
     ([228, 108, 79, 242, 82, 54, 105, 65], Ix_ConfigureBond),
     ([167, 119, 141, 123, 76, 109, 241, 133], Ix_ConfigureBondProduct),
     ([48, 189, 230, 39, 112, 33, 227, 8], Ix_ConfigureBondWithMint),
     ([198, 98, 161, 165, 137, 200, 230, 203], Ix_ConfigureConfig),
     ([21, 143, 27, 142, 200, 181, 210, 255], Ix_EmergencyPause),
     ([0, 243, 48, 185, 6, 73, 190, 83], Ix_EmergencyResume),
     ([58, 44, 212, 175, 30, 17, 68, 62], Ix_FundBond),
     ([179, 146, 113, 34, 30, 92, 26, 19], Ix_FundSettlement),
     ([95, 93, 93, 181, 221, 36, 126, 64], Ix_InitBond),
     ([228, 35, 205, 119, 63, 209, 72, 56], Ix_InitBondProduct),
     ([23, 235, 115, 232, 168, 96, 1, 231], Ix_InitConfig),
     ([152, 178, 0, 65, 52, 210, 247, 58], Ix_InitSettlement),
     ([142, 31, 222, 215, 83, 79, 34, 49], Ix_InitWithdrawRequest),
     ([14, 3, 146, 23, 163, 105, 246, 99], Ix_MergeStake),
     ([234, 94, 85, 225, 167, 102, 169, 32], Ix_MintBond),
     ([183, 37, 69, 159, 163, 139, 212, 235], Ix_ResetStake),
     ([207, 46, 34, 88, 141, 36, 63, 132], Ix_UpsizeSettlementClaims),
     ([153, 8, 22, 138, 105, 176, 87, 66], Ix_WithdrawStake)]
    data (Js_Error EError ''FAILED_TO_IDENTIFY_INSTRUCTION'')"

definition parser_of :: "ValidatorBondsInstruction \<Rightarrow> kit \<Rightarrow> kit_instruction \<Rightarrow> parsed_instruction res" where
  "parser_of t = (case t of
       Ix_CancelSettlement \<Rightarrow> parseCancelSettlementInstruction
     | Ix_CancelWithdrawRequest \<Rightarrow> parseCancelWithdrawRequestInstruction
     | Ix_ClaimSettlementV1 \<Rightarrow> parseClaimSettlementV1Instruction
     | Ix_ClaimSettlementV2 \<Rightarrow> parseClaimSettlementV2Instruction
     | Ix_ClaimWithdrawRequest \<Rightarrow> parseClaimWithdrawRequestInstruction
     | Ix_CloseSettlementV2 \<Rightarrow> parseCloseSettlementV2Instruction
     | Ix_ConfigureBond \<Rightarrow> parseConfigureBondInstruction
     | Ix_ConfigureBondProduct \<Rightarrow> parseConfigureBondProductInstruction
     | Ix_ConfigureBondWithMint \<Rightarrow> parseConfigureBondWithMintInstruction
     | Ix_ConfigureConfig \<Rightarrow> parseConfigureConfigInstruction
     | Ix_EmergencyPause \<Rightarrow> parseEmergencyPauseInstruction
     | Ix_EmergencyResume \<Rightarrow> parseEmergencyResumeInstruction
     | Ix_FundBond \<Rightarrow> parseFundBondInstruction
     | Ix_FundSettlement \<Rightarrow> parseFundSettlementInstruction
     | Ix_InitBond \<Rightarrow> parseInitBondInstruction
     | Ix_InitBondProduct \<Rightarrow> parseInitBondProductInstruction
     | Ix_InitConfig \<Rightarrow> parseInitConfigInstruction
     | Ix_InitSettlement \<Rightarrow> parseInitSettlementInstruction
     | Ix_InitWithdrawRequest \<Rightarrow> parseInitWithdrawRequestInstruction
     | Ix_MergeStake \<Rightarrow> parseMergeStakeInstruction
     | Ix_MintBond \<Rightarrow> parseMintBondInstruction
     | Ix_ResetStake \<Rightarrow> parseResetStakeInstruction
     | Ix_UpsizeSettlementClaims \<Rightarrow> parseUpsizeSettlementClaimsInstruction
     | Ix_WithdrawStake \<Rightarrow> parseWithdrawStakeInstruction)"

definition parseValidatorBondsInstruction :: "kit \<Rightarrow> kit_instruction \<Rightarrow> (ValidatorBondsInstruction \<times> parsed_instruction) res" where
  "parseValidatorBondsInstruction kit ix = rbind (identifyValidatorBondsInstruction kit (ki_data ix)) (\<lambda>t.
     if ki_accounts ix = None then throw EError ''EXPECTED_ACCOUNTS''
     else rbind (parser_of t kit ix) (\<lambda>p. Inr (t, p)))"

definition ParsedValidatorBondsInstruction_accounts :: "ValidatorBondsInstruction \<Rightarrow> (string \<times> bool) list" where
  "ParsedValidatorBondsInstruction_accounts t = (case t of
       Ix_CancelSettlement \<Rightarrow> ParsedCancelSettlementInstruction_accounts
     | Ix_CancelWithdrawRequest \<Rightarrow> ParsedCancelWithdrawRequestInstruction_accounts
     | Ix_ClaimSettlementV1 \<Rightarrow> ParsedClaimSettlementV1Instruction_accounts
     | Ix_ClaimSettlementV2 \<Rightarrow> ParsedClaimSettlementV2Instruction_accounts
     | Ix_ClaimWithdrawRequest \<Rightarrow> ParsedClaimWithdrawRequestInstruction_accounts
     | Ix_CloseSettlementV2 \<Rightarrow> ParsedCloseSettlementV2Instruction_accounts
     | Ix_ConfigureBond \<Rightarrow> ParsedConfigureBondInstruction_accounts
     | Ix_ConfigureBondProduct \<Rightarrow> ParsedConfigureBondProductInstruction_accounts
     | Ix_ConfigureBondWithMint \<Rightarrow> ParsedConfigureBondWithMintInstruction_accounts
     | Ix_ConfigureConfig \<Rightarrow> ParsedConfigureConfigInstruction_accounts
     | Ix_EmergencyPause \<Rightarrow> ParsedEmergencyPauseInstruction_accounts
     | Ix_EmergencyResume \<Rightarrow> ParsedEmergencyResumeInstruction_accounts
     | Ix_FundBond \<Rightarrow> ParsedFundBondInstruction_accounts
     | Ix_FundSettlement \<Rightarrow> ParsedFundSettlementInstruction_accounts
     | Ix_InitBond \<Rightarrow> ParsedInitBondInstruction_accounts
     | Ix_InitBondProduct \<Rightarrow> ParsedInitBondProductInstruction_accounts
     | Ix_InitConfig \<Rightarrow> ParsedInitConfigInstruction_accounts
     | Ix_InitSettlement \<Rightarrow> ParsedInitSettlementInstruction_accounts
     | Ix_InitWithdrawRequest \<Rightarrow> ParsedInitWithdrawRequestInstruction_accounts
     | Ix_MergeStake \<Rightarrow> ParsedMergeStakeInstruction_accounts
     | Ix_MintBond \<Rightarrow> ParsedMintBondInstruction_accounts
     | Ix_ResetStake \<Rightarrow> ParsedResetStakeInstruction_accounts
     | Ix_UpsizeSettlementClaims \<Rightarrow> ParsedUpsizeSettlementClaimsInstruction_accounts
     | Ix_WithdrawStake \<Rightarrow> ParsedWithdrawStakeInstruction_accounts)"

definition plugin_accounts :: "(string \<times> encoder \<times> codec) list" where
  "plugin_accounts = [(''bond'', getBondCodec),
     (''bondProduct'', getBondProductCodec),
     (''config'', getConfigCodec),
     (''settlement'', getSettlementCodec),
     (''settlementClaim'', getSettlementClaimCodec),
     (''settlementClaims'', getSettlementClaimsCodec),
     (''withdrawRequest'', getWithdrawRequestCodec)]"

definition plugin_instructions :: "kit \<Rightarrow> (string \<times> (ix_input \<Rightarrow> kit_instruction res)) list" where
  "plugin_instructions kit = [(''cancelSettlement'', \<lambda>input. getCancelSettlementInstructionAsync kit input None),
     (''cancelWithdrawRequest'', \<lambda>input. getCancelWithdrawRequestInstructionAsync kit input None),
     (''claimSettlementV1'', \<lambda>input. getClaimSettlementV1Instruction kit input None),
     (''claimSettlementV2'', \<lambda>input. getClaimSettlementV2InstructionAsync kit input None),
     (''claimWithdrawRequest'', \<lambda>input. getClaimWithdrawRequestInstructionAsync kit input None),
     (''closeSettlementV2'', \<lambda>input. getCloseSettlementV2InstructionAsync kit input None),
     (''configureBond'', \<lambda>input. getConfigureBondInstructionAsync kit input None),
     (''configureBondProduct'', \<lambda>input. getConfigureBondProductInstructionAsync kit input None),
     (''configureBondWithMint'', \<lambda>input. getConfigureBondWithMintInstructionAsync kit input None),
     (''configureConfig'', \<lambda>input. getConfigureConfigInstructionAsync kit input None),
     (''emergencyPause'', \<lambda>input. getEmergencyPauseInstructionAsync kit input None),
     (''emergencyResume'', \<lambda>input. getEmergencyResumeInstructionAsync kit input None),
     (''fundBond'', \<lambda>input. getFundBondInstructionAsync kit input None),
     (''fundSettlement'', \<lambda>input. getFundSettlementInstructionAsync kit input None),
     (''initBond'', \<lambda>input. getInitBondInstructionAsync kit input None),
     (''initBondProduct'', \<lambda>input. getInitBondProductInstructionAsync kit input None),
     (''initConfig'', \<lambda>input. getInitConfigInstructionAsync kit input None),
     (''initSettlement'', \<lambda>input. getInitSettlementInstructionAsync kit input None),
     (''initWithdrawRequest'', \<lambda>input. getInitWithdrawRequestInstructionAsync kit input None),
     (''mergeStake'', \<lambda>input. getMergeStakeInstructionAsync kit input None),
     (''mintBond'', \<lambda>input. getMintBondInstructionAsync kit input None),
     (''resetStake'', \<lambda>input. getResetStakeInstructionAsync kit input None),
     (''upsizeSettlementClaims'', \<lambda>input. getUpsizeSettlementClaimsInstruction kit input None),
     (''withdrawStake'', \<lambda>input. getWithdrawStakeInstructionAsync kit input None)]"

end
