(* ===== verification/Cod_Tables.thy ===== *)
theory Cod_Tables
  imports Cod_Program
begin

text \<open>
  The functions and tables of the generated client, one row for each instruction, account and
  type. The rows only name definitions of the other theories.
\<close>

record client_ix =
  ci_name :: string
  ci_tag :: ValidatorBondsInstruction
  ci_discriminator :: "byte list"
  ci_roles :: "(string \<times> role \<times> string option) list"
  ci_original :: "(string \<times> bool) list"
  ci_defaults :: "(string \<times> default_value) list"
  ci_metas :: "string list"
  ci_sync_original :: "(string \<times> bool) list"
  ci_sync_defaults :: "(string \<times> default_value) list"
  ci_sync_metas :: "string list"
  ci_parsed :: "(string \<times> bool) list"
  ci_fields :: "(string \<times> input_kind \<times> bool) list"
  ci_sync_fields :: "(string \<times> input_kind \<times> bool) list"
  ci_encoder :: encoder
  ci_decoder :: codec

definition client_cancelSettlement :: client_ix where
  "client_cancelSettlement = \<lparr> ci_name = ''cancelSettlement'', ci_tag = Ix_CancelSettlement,
     ci_discriminator = CANCEL_SETTLEMENT_DISCRIMINATOR, ci_roles = CancelSettlementInstruction_accounts,
     ci_original = CancelSettlementAsync_originalAccounts, ci_defaults = CancelSettlementAsync_defaults, ci_metas = CancelSettlementAsync_metas,
     ci_sync_original = CancelSettlement_originalAccounts, ci_sync_defaults = CancelSettlement_defaults, ci_sync_metas = CancelSettlement_metas,
     ci_parsed = ParsedCancelSettlementInstruction_accounts, ci_fields = CancelSettlementAsyncInput_fields, ci_sync_fields = CancelSettlementInput_fields,
     ci_encoder = getCancelSettlementInstructionDataEncoder, ci_decoder = getCancelSettlementInstructionDataDecoder \<rparr>"

definition client_cancelWithdrawRequest :: client_ix where
  "client_cancelWithdrawRequest = \<lparr> ci_name = ''cancelWithdrawRequest'', ci_tag = Ix_CancelWithdrawRequest,
     ci_discriminator = CANCEL_WITHDRAW_REQUEST_DISCRIMINATOR, ci_roles = CancelWithdrawRequestInstruction_accounts,
     ci_original = CancelWithdrawRequestAsync_originalAccounts, ci_defaults = CancelWithdrawRequestAsync_defaults, ci_metas = CancelWithdrawRequestAsync_metas,
     ci_sync_original = CancelWithdrawRequest_originalAccounts, ci_sync_defaults = [], ci_sync_metas = CancelWithdrawRequest_metas,
     ci_parsed = ParsedCancelWithdrawRequestInstruction_accounts, ci_fields = CancelWithdrawRequestAsyncInput_fields, ci_sync_fields = CancelWithdrawRequestInput_fields,
     ci_encoder = getCancelWithdrawRequestInstructionDataEncoder, ci_decoder = getCancelWithdrawRequestInstructionDataDecoder \<rparr>"

definition client_claimSettlementV1 :: client_ix where
  "client_claimSettlementV1 = \<lparr> ci_name = ''claimSettlementV1'', ci_tag = Ix_ClaimSettlementV1,
     ci_discriminator = CLAIM_SETTLEMENT_V1_DISCRIMINATOR, ci_roles = ClaimSettlementV1Instruction_accounts,
     ci_original = ClaimSettlementV1_originalAccounts, ci_defaults = [], ci_metas = ClaimSettlementV1_metas,
     ci_sync_original = ClaimSettlementV1_originalAccounts, ci_sync_defaults = [], ci_sync_metas = ClaimSettlementV1_metas,
     ci_parsed = ParsedClaimSettlementV1Instruction_accounts, ci_fields = ClaimSettlementV1Input_fields, ci_sync_fields = ClaimSettlementV1Input_fields,
     ci_encoder = getClaimSettlementV1InstructionDataEncoder, ci_decoder = getClaimSettlementV1InstructionDataDecoder \<rparr>"

definition client_claimSettlementV2 :: client_ix where
  "client_claimSettlementV2 = \<lparr> ci_name = ''claimSettlementV2'', ci_tag = Ix_ClaimSettlementV2,
     ci_discriminator = CLAIM_SETTLEMENT_V2_DISCRIMINATOR, ci_roles = ClaimSettlementV2Instruction_accounts,
     ci_original = ClaimSettlementV2Async_originalAccounts, ci_defaults = ClaimSettlementV2Async_defaults, ci_metas = ClaimSettlementV2Async_metas,
     ci_sync_original = ClaimSettlementV2_originalAccounts, ci_sync_defaults = ClaimSettlementV2_defaults, ci_sync_metas = ClaimSettlementV2_metas,
     ci_parsed = ParsedClaimSettlementV2Instruction_accounts, ci_fields = ClaimSettlementV2AsyncInput_fields, ci_sync_fields = ClaimSettlementV2Input_fields,
     ci_encoder = getClaimSettlementV2InstructionDataEncoder, ci_decoder = getClaimSettlementV2InstructionDataDecoder \<rparr>"

definition client_claimWithdrawRequest :: client_ix where
  "client_claimWithdrawRequest = \<lparr> ci_name = ''claimWithdrawRequest'', ci_tag = Ix_ClaimWithdrawRequest,
     ci_discriminator = CLAIM_WITHDRAW_REQUEST_DISCRIMINATOR, ci_roles = ClaimWithdrawRequestInstruction_accounts,
     ci_original = ClaimWithdrawRequestAsync_originalAccounts, ci_defaults = ClaimWithdrawRequestAsync_defaults, ci_metas = ClaimWithdrawRequestAsync_metas,
     ci_sync_original = ClaimWithdrawRequest_originalAccounts, ci_sync_defaults = ClaimWithdrawRequest_defaults, ci_sync_metas = ClaimWithdrawRequest_metas,
     ci_parsed = ParsedClaimWithdrawRequestInstruction_accounts, ci_fields = ClaimWithdrawRequestAsyncInput_fields, ci_sync_fields = ClaimWithdrawRequestInput_fields,
     ci_encoder = getClaimWithdrawRequestInstructionDataEncoder, ci_decoder = getClaimWithdrawRequestInstructionDataDecoder \<rparr>"

definition client_closeSettlementV2 :: client_ix where
  "client_closeSettlementV2 = \<lparr> ci_name = ''closeSettlementV2'', ci_tag = Ix_CloseSettlementV2,
     ci_discriminator = CLOSE_SETTLEMENT_V2_DISCRIMINATOR, ci_roles = CloseSettlementV2Instruction_accounts,
     ci_original = CloseSettlementV2Async_originalAccounts, ci_defaults = CloseSettlementV2Async_defaults, ci_metas = CloseSettlementV2Async_metas,
     ci_sync_original = CloseSettlementV2_originalAccounts, ci_sync_defaults = CloseSettlementV2_defaults, ci_sync_metas = CloseSettlementV2_metas,
     ci_parsed = ParsedCloseSettlementV2Instruction_accounts, ci_fields = CloseSettlementV2AsyncInput_fields, ci_sync_fields = CloseSettlementV2Input_fields,
     ci_encoder = getCloseSettlementV2InstructionDataEncoder, ci_decoder = getCloseSettlementV2InstructionDataDecoder \<rparr>"

definition client_configureBond :: client_ix where
  "client_configureBond = \<lparr> ci_name = ''configureBond'', ci_tag = Ix_ConfigureBond,
     ci_discriminator = CONFIGURE_BOND_DISCRIMINATOR, ci_roles = ConfigureBondInstruction_accounts,
     ci_original = ConfigureBondAsync_originalAccounts, ci_defaults = ConfigureBondAsync_defaults, ci_metas = ConfigureBondAsync_metas,
     ci_sync_original = ConfigureBond_originalAccounts, ci_sync_defaults = [], ci_sync_metas = ConfigureBond_metas,
     ci_parsed = ParsedConfigureBondInstruction_accounts, ci_fields = ConfigureBondAsyncInput_fields, ci_sync_fields = ConfigureBondInput_fields,
     ci_encoder = getConfigureBondInstructionDataEncoder, ci_decoder = getConfigureBondInstructionDataDecoder \<rparr>"

definition client_configureBondProduct :: client_ix where
  "client_configureBondProduct = \<lparr> ci_name = ''configureBondProduct'', ci_tag = Ix_ConfigureBondProduct,
     ci_discriminator = CONFIGURE_BOND_PRODUCT_DISCRIMINATOR, ci_roles = ConfigureBondProductInstruction_accounts,
     ci_original = ConfigureBondProductAsync_originalAccounts, ci_defaults = ConfigureBondProductAsync_defaults, ci_metas = ConfigureBondProductAsync_metas,
     ci_sync_original = ConfigureBondProduct_originalAccounts, ci_sync_defaults = [], ci_sync_metas = ConfigureBondProduct_metas,
     ci_parsed = ParsedConfigureBondProductInstruction_accounts, ci_fields = ConfigureBondProductAsyncInput_fields, ci_sync_fields = ConfigureBondProductInput_fields,
     ci_encoder = getConfigureBondProductInstructionDataEncoder, ci_decoder = getConfigureBondProductInstructionDataDecoder \<rparr>"

definition client_configureBondWithMint :: client_ix where
  "client_configureBondWithMint = \<lparr> ci_name = ''configureBondWithMint'', ci_tag = Ix_ConfigureBondWithMint,
     ci_discriminator = CONFIGURE_BOND_WITH_MINT_DISCRIMINATOR, ci_roles = ConfigureBondWithMintInstruction_accounts,
     ci_original = ConfigureBondWithMintAsync_originalAccounts, ci_defaults = ConfigureBondWithMintAsync_defaults, ci_metas = ConfigureBondWithMintAsync_metas,
     ci_sync_original = ConfigureBondWithMint_originalAccounts, ci_sync_defaults = ConfigureBondWithMint_defaults, ci_sync_metas = ConfigureBondWithMint_metas,
     ci_parsed = ParsedConfigureBondWithMintInstruction_accounts, ci_fields = ConfigureBondWithMintAsyncInput_fields, ci_sync_fields = ConfigureBondWithMintInput_fields,
     ci_encoder = getConfigureBondWithMintInstructionDataEncoder, ci_decoder = getConfigureBondWithMintInstructionDataDecoder \<rparr>"

definition client_configureConfig :: client_ix where
  "client_configureConfig = \<lparr> ci_name = ''configureConfig'', ci_tag = Ix_ConfigureConfig,
     ci_discriminator = CONFIGURE_CONFIG_DISCRIMINATOR, ci_roles = ConfigureConfigInstruction_accounts,
     ci_original = ConfigureConfigAsync_originalAccounts, ci_defaults = ConfigureConfigAsync_defaults, ci_metas = ConfigureConfigAsync_metas,
     ci_sync_original = ConfigureConfig_originalAccounts, ci_sync_defaults = [], ci_sync_metas = ConfigureConfig_metas,
     ci_parsed = ParsedConfigureConfigInstruction_accounts, ci_fields = ConfigureConfigAsyncInput_fields, ci_sync_fields = ConfigureConfigInput_fields,
     ci_encoder = getConfigureConfigInstructionDataEncoder, ci_decoder = getConfigureConfigInstructionDataDecoder \<rparr>"

definition client_emergencyPause :: client_ix where
  "client_emergencyPause = \<lparr> ci_name = ''emergencyPause'', ci_tag = Ix_EmergencyPause,
     ci_discriminator = EMERGENCY_PAUSE_DISCRIMINATOR, ci_roles = EmergencyPauseInstruction_accounts,
     ci_original = EmergencyPauseAsync_originalAccounts, ci_defaults = EmergencyPauseAsync_defaults, ci_metas = EmergencyPauseAsync_metas,
     ci_sync_original = EmergencyPause_originalAccounts, ci_sync_defaults = [], ci_sync_metas = EmergencyPause_metas,
     ci_parsed = ParsedEmergencyPauseInstruction_accounts, ci_fields = EmergencyPauseAsyncInput_fields, ci_sync_fields = EmergencyPauseInput_fields,
     ci_encoder = getEmergencyPauseInstructionDataEncoder, ci_decoder = getEmergencyPauseInstructionDataDecoder \<rparr>"

definition client_emergencyResume :: client_ix where
  "client_emergencyResume = \<lparr> ci_name = ''emergencyResume'', ci_tag = Ix_EmergencyResume,
     ci_discriminator = EMERGENCY_RESUME_DISCRIMINATOR, ci_roles = EmergencyResumeInstruction_accounts,
     ci_original = EmergencyResumeAsync_originalAccounts, ci_defaults = EmergencyResumeAsync_defaults, ci_metas = EmergencyResumeAsync_metas,
     ci_sync_original = EmergencyResume_originalAccounts, ci_sync_defaults = [], ci_sync_metas = EmergencyResume_metas,
     ci_parsed = ParsedEmergencyResumeInstruction_accounts, ci_fields = EmergencyResumeAsyncInput_fields, ci_sync_fields = EmergencyResumeInput_fields,
     ci_encoder = getEmergencyResumeInstructionDataEncoder, ci_decoder = getEmergencyResumeInstructionDataDecoder \<rparr>"

definition client_fundBond :: client_ix where
  "client_fundBond = \<lparr> ci_name = ''fundBond'', ci_tag = Ix_FundBond,
     ci_discriminator = FUND_BOND_DISCRIMINATOR, ci_roles = FundBondInstruction_accounts,
     ci_original = FundBondAsync_originalAccounts, ci_defaults = FundBondAsync_defaults, ci_metas = FundBondAsync_metas,
     ci_sync_original = FundBond_originalAccounts, ci_sync_defaults = FundBond_defaults, ci_sync_metas = FundBond_metas,
     ci_parsed = ParsedFundBondInstruction_accounts, ci_fields = FundBondAsyncInput_fields, ci_sync_fields = FundBondInput_fields,
     ci_encoder = getFundBondInstructionDataEncoder, ci_decoder = getFundBondInstructionDataDecoder \<rparr>"

definition client_fundSettlement :: client_ix where
  "client_fundSettlement = \<lparr> ci_name = ''fundSettlement'', ci_tag = Ix_FundSettlement,
     ci_discriminator = FUND_SETTLEMENT_DISCRIMINATOR, ci_roles = FundSettlementInstruction_accounts,
     ci_original = FundSettlementAsync_originalAccounts, ci_defaults = FundSettlementAsync_defaults, ci_metas = FundSettlementAsync_metas,
     ci_sync_original = FundSettlement_originalAccounts, ci_sync_defaults = FundSettlement_defaults, ci_sync_metas = FundSettlement_metas,
     ci_parsed = ParsedFundSettlementInstruction_accounts, ci_fields = FundSettlementAsyncInput_fields, ci_sync_fields = FundSettlementInput_fields,
     ci_encoder = getFundSettlementInstructionDataEncoder, ci_decoder = getFundSettlementInstructionDataDecoder \<rparr>"

definition client_initBond :: client_ix where
  "client_initBond = \<lparr> ci_name = ''initBond'', ci_tag = Ix_InitBond,
     ci_discriminator = INIT_BOND_DISCRIMINATOR, ci_roles = InitBondInstruction_accounts,
     ci_original = InitBondAsync_originalAccounts, ci_defaults = InitBondAsync_defaults, ci_metas = InitBondAsync_metas,
     ci_sync_original = InitBond_originalAccounts, ci_sync_defaults = InitBond_defaults, ci_sync_metas = InitBond_metas,
     ci_parsed = ParsedInitBondInstruction_accounts, ci_fields = InitBondAsyncInput_fields, ci_sync_fields = InitBondInput_fields,
     ci_encoder = getInitBondInstructionDataEncoder, ci_decoder = getInitBondInstructionDataDecoder \<rparr>"

definition client_initBondProduct :: client_ix where
  "client_initBondProduct = \<lparr> ci_name = ''initBondProduct'', ci_tag = Ix_InitBondProduct,
     ci_discriminator = INIT_BOND_PRODUCT_DISCRIMINATOR, ci_roles = InitBondProductInstruction_accounts,
     ci_original = InitBondProductAsync_originalAccounts, ci_defaults = InitBondProductAsync_defaults, ci_metas = InitBondProductAsync_metas,
     ci_sync_original = InitBondProduct_originalAccounts, ci_sync_defaults = InitBondProduct_defaults, ci_sync_metas = InitBondProduct_metas,
     ci_parsed = ParsedInitBondProductInstruction_accounts, ci_fields = InitBondProductAsyncInput_fields, ci_sync_fields = InitBondProductInput_fields,
     ci_encoder = getInitBondProductInstructionDataEncoder, ci_decoder = getInitBondProductInstructionDataDecoder \<rparr>"

definition client_initConfig :: client_ix where
  "client_initConfig = \<lparr> ci_name = ''initConfig'', ci_tag = Ix_InitConfig,
     ci_discriminator = INIT_CONFIG_DISCRIMINATOR, ci_roles = InitConfigInstruction_accounts,
     ci_original = InitConfigAsync_originalAccounts, ci_defaults = InitConfigAsync_defaults, ci_metas = InitConfigAsync_metas,
     ci_sync_original = InitConfig_originalAccounts, ci_sync_defaults = InitConfig_defaults, ci_sync_metas = InitConfig_metas,
     ci_parsed = ParsedInitConfigInstruction_accounts, ci_fields = InitConfigAsyncInput_fields, ci_sync_fields = InitConfigInput_fields,
     ci_encoder = getInitConfigInstructionDataEncoder, ci_decoder = getInitConfigInstructionDataDecoder \<rparr>"

definition client_initSettlement :: client_ix where
  "client_initSettlement = \<lparr> ci_name = ''initSettlement'', ci_tag = Ix_InitSettlement,
     ci_discriminator = INIT_SETTLEMENT_DISCRIMINATOR, ci_roles = InitSettlementInstruction_accounts,
     ci_original = InitSettlementAsync_originalAccounts, ci_defaults = InitSettlementAsync_defaults, ci_metas = InitSettlementAsync_metas,
     ci_sync_original = InitSettlement_originalAccounts, ci_sync_defaults = InitSettlement_defaults, ci_sync_metas = InitSettlement_metas,
     ci_parsed = ParsedInitSettlementInstruction_accounts, ci_fields = InitSettlementAsyncInput_fields, ci_sync_fields = InitSettlementInput_fields,
     ci_encoder = getInitSettlementInstructionDataEncoder, ci_decoder = getInitSettlementInstructionDataDecoder \<rparr>"

definition client_initWithdrawRequest :: client_ix where
  "client_initWithdrawRequest = \<lparr> ci_name = ''initWithdrawRequest'', ci_tag = Ix_InitWithdrawRequest,
     ci_discriminator = INIT_WITHDRAW_REQUEST_DISCRIMINATOR, ci_roles = InitWithdrawRequestInstruction_accounts,
     ci_original = InitWithdrawRequestAsync_originalAccounts, ci_defaults = InitWithdrawRequestAsync_defaults, ci_metas = InitWithdrawRequestAsync_metas,
     ci_sync_original = InitWithdrawRequest_originalAccounts, ci_sync_defaults = InitWithdrawRequest_defaults, ci_sync_metas = InitWithdrawRequest_metas,
     ci_parsed = ParsedInitWithdrawRequestInstruction_accounts, ci_fields = InitWithdrawRequestAsyncInput_fields, ci_sync_fields = InitWithdrawRequestInput_fields,
     ci_encoder = getInitWithdrawRequestInstructionDataEncoder, ci_decoder = getInitWithdrawRequestInstructionDataDecoder \<rparr>"

definition client_mergeStake :: client_ix where
  "client_mergeStake = \<lparr> ci_name = ''mergeStake'', ci_tag = Ix_MergeStake,
     ci_discriminator = MERGE_STAKE_DISCRIMINATOR, ci_roles = MergeStakeInstruction_accounts,
     ci_original = MergeStakeAsync_originalAccounts, ci_defaults = MergeStakeAsync_defaults, ci_metas = MergeStakeAsync_metas,
     ci_sync_original = MergeStake_originalAccounts, ci_sync_defaults = MergeStake_defaults, ci_sync_metas = MergeStake_metas,
     ci_parsed = ParsedMergeStakeInstruction_accounts, ci_fields = MergeStakeAsyncInput_fields, ci_sync_fields = MergeStakeInput_fields,
     ci_encoder = getMergeStakeInstructionDataEncoder, ci_decoder = getMergeStakeInstructionDataDecoder \<rparr>"

definition client_mintBond :: client_ix where
  "client_mintBond = \<lparr> ci_name = ''mintBond'', ci_tag = Ix_MintBond,
     ci_discriminator = MINT_BOND_DISCRIMINATOR, ci_roles = MintBondInstruction_accounts,
     ci_original = MintBondAsync_originalAccounts, ci_defaults = MintBondAsync_defaults, ci_metas = MintBondAsync_metas,
     ci_sync_original = MintBond_originalAccounts, ci_sync_defaults = MintBond_defaults, ci_sync_metas = MintBond_metas,
     ci_parsed = ParsedMintBondInstruction_accounts, ci_fields = MintBondAsyncInput_fields, ci_sync_fields = MintBondInput_fields,
     ci_encoder = getMintBondInstructionDataEncoder, ci_decoder = getMintBondInstructionDataDecoder \<rparr>"

definition client_resetStake :: client_ix where
  "client_resetStake = \<lparr> ci_name = ''resetStake'', ci_tag = Ix_ResetStake,
     ci_discriminator = RESET_STAKE_DISCRIMINATOR, ci_roles = ResetStakeInstruction_accounts,
     ci_original = ResetStakeAsync_originalAccounts, ci_defaults = ResetStakeAsync_defaults, ci_metas = ResetStakeAsync_metas,
     ci_sync_original = ResetStake_originalAccounts, ci_sync_defaults = ResetStake_defaults, ci_sync_metas = ResetStake_metas,
     ci_parsed = ParsedResetStakeInstruction_accounts, ci_fields = ResetStakeAsyncInput_fields, ci_sync_fields = ResetStakeInput_fields,
     ci_encoder = getResetStakeInstructionDataEncoder, ci_decoder = getResetStakeInstructionDataDecoder \<rparr>"

definition client_upsizeSettlementClaims :: client_ix where
  "client_upsizeSettlementClaims = \<lparr> ci_name = ''upsizeSettlementClaims'', ci_tag = Ix_UpsizeSettlementClaims,
     ci_discriminator = UPSIZE_SETTLEMENT_CLAIMS_DISCRIMINATOR, ci_roles = UpsizeSettlementClaimsInstruction_accounts,
     ci_original = UpsizeSettlementClaims_originalAccounts, ci_defaults = UpsizeSettlementClaims_defaults, ci_metas = UpsizeSettlementClaims_metas,
     ci_sync_original = UpsizeSettlementClaims_originalAccounts, ci_sync_defaults = UpsizeSettlementClaims_defaults, ci_sync_metas = UpsizeSettlementClaims_metas,
     ci_parsed = ParsedUpsizeSettlementClaimsInstruction_accounts, ci_fields = UpsizeSettlementClaimsInput_fields, ci_sync_fields = UpsizeSettlementClaimsInput_fields,
     ci_encoder = getUpsizeSettlementClaimsInstructionDataEncoder, ci_decoder = getUpsizeSettlementClaimsInstructionDataDecoder \<rparr>"

definition client_withdrawStake :: client_ix where
  "client_withdrawStake = \<lparr> ci_name = ''withdrawStake'', ci_tag = Ix_WithdrawStake,
     ci_discriminator = WITHDRAW_STAKE_DISCRIMINATOR, ci_roles = WithdrawStakeInstruction_accounts,
     ci_original = WithdrawStakeAsync_originalAccounts, ci_defaults = WithdrawStakeAsync_defaults, ci_metas = WithdrawStakeAsync_metas,
     ci_sync_original = WithdrawStake_originalAccounts, ci_sync_defaults = WithdrawStake_defaults, ci_sync_metas = WithdrawStake_metas,
     ci_parsed = ParsedWithdrawStakeInstruction_accounts, ci_fields = WithdrawStakeAsyncInput_fields, ci_sync_fields = WithdrawStakeInput_fields,
     ci_encoder = getWithdrawStakeInstructionDataEncoder, ci_decoder = getWithdrawStakeInstructionDataDecoder \<rparr>"

definition client_instructions :: "client_ix list" where
  "client_instructions = [client_cancelSettlement,
     client_cancelWithdrawRequest,
     client_claimSettlementV1,
     client_claimSettlementV2,
     client_claimWithdrawRequest,
     client_closeSettlementV2,
     client_configureBond,
     client_configureBondProduct,
     client_configureBondWithMint,
     client_configureConfig,
     client_emergencyPause,
     client_emergencyResume,
     client_fundBond,
     client_fundSettlement,
     client_initBond,
     client_initBondProduct,
     client_initConfig,
     client_initSettlement,
     client_initWithdrawRequest,
     client_mergeStake,
     client_mintBond,
     client_resetStake,
     client_upsizeSettlementClaims,
     client_withdrawStake]"

type_synonym builder = "kit \<Rightarrow> ix_input \<Rightarrow> string option \<Rightarrow> kit_instruction res"

definition client_functions :: "(client_ix \<times> builder \<times> builder \<times> (kit \<Rightarrow> kit_instruction \<Rightarrow> parsed_instruction res)) list" where
  "client_functions = [(client_cancelSettlement, getCancelSettlementInstructionAsync, getCancelSettlementInstruction, parseCancelSettlementInstruction),
     (client_cancelWithdrawRequest, getCancelWithdrawRequestInstructionAsync, getCancelWithdrawRequestInstruction, parseCancelWithdrawRequestInstruction),
     (client_claimSettlementV1, getClaimSettlementV1Instruction, getClaimSettlementV1Instruction, parseClaimSettlementV1Instruction),
     (client_claimSettlementV2, getClaimSettlementV2InstructionAsync, getClaimSettlementV2Instruction, parseClaimSettlementV2Instruction),
     (client_claimWithdrawRequest, getClaimWithdrawRequestInstructionAsync, getClaimWithdrawRequestInstruction, parseClaimWithdrawRequestInstruction),
     (client_closeSettlementV2, getCloseSettlementV2InstructionAsync, getCloseSettlementV2Instruction, parseCloseSettlementV2Instruction),
     (client_configureBond, getConfigureBondInstructionAsync, getConfigureBondInstruction, parseConfigureBondInstruction),
     (client_configureBondProduct, getConfigureBondProductInstructionAsync, getConfigureBondProductInstruction, parseConfigureBondProductInstruction),
     (client_configureBondWithMint, getConfigureBondWithMintInstructionAsync, getConfigureBondWithMintInstruction, parseConfigureBondWithMintInstruction),
     (client_configureConfig, getConfigureConfigInstructionAsync, getConfigureConfigInstruction, parseConfigureConfigInstruction),
     (client_emergencyPause, getEmergencyPauseInstructionAsync, getEmergencyPauseInstruction, parseEmergencyPauseInstruction),
     (client_emergencyResume, getEmergencyResumeInstructionAsync, getEmergencyResumeInstruction, parseEmergencyResumeInstruction),
     (client_fundBond, getFundBondInstructionAsync, getFundBondInstruction, parseFundBondInstruction),
     (client_fundSettlement, getFundSettlementInstructionAsync, getFundSettlementInstruction, parseFundSettlementInstruction),
     (client_initBond, getInitBondInstructionAsync, getInitBondInstruction, parseInitBondInstruction),
     (client_initBondProduct, getInitBondProductInstructionAsync, getInitBondProductInstruction, parseInitBondProductInstruction),
     (client_initConfig, getInitConfigInstructionAsync, getInitConfigInstruction, parseInitConfigInstruction),
     (client_initSettlement, getInitSettlementInstructionAsync, getInitSettlementInstruction, parseInitSettlementInstruction),
     (client_initWithdrawRequest, getInitWithdrawRequestInstructionAsync, getInitWithdrawRequestInstruction, parseInitWithdrawRequestInstruction),
     (client_mergeStake, getMergeStakeInstructionAsync, getMergeStakeInstruction, parseMergeStakeInstruction),
     (client_mintBond, getMintBondInstructionAsync, getMintBondInstruction, parseMintBondInstruction),
     (client_resetStake, getResetStakeInstructionAsync, getResetStakeInstruction, parseResetStakeInstruction),
     (client_upsizeSettlementClaims, getUpsizeSettlementClaimsInstruction, getUpsizeSettlementClaimsInstruction, parseUpsizeSettlementClaimsInstruction),
     (client_withdrawStake, getWithdrawStakeInstructionAsync, getWithdrawStakeInstruction, parseWithdrawStakeInstruction)]"

definition client_accounts :: "(string \<times> byte list \<times> encoder \<times> codec) list" where
  "client_accounts = [(''bond'', BOND_DISCRIMINATOR, getBondEncoder, getBondDecoder),
     (''bondProduct'', BOND_PRODUCT_DISCRIMINATOR, getBondProductEncoder, getBondProductDecoder),
     (''config'', CONFIG_DISCRIMINATOR, getConfigEncoder, getConfigDecoder),
     (''settlement'', SETTLEMENT_DISCRIMINATOR, getSettlementEncoder, getSettlementDecoder),
     (''settlementClaim'', SETTLEMENT_CLAIM_DISCRIMINATOR, getSettlementClaimEncoder, getSettlementClaimDecoder),
     (''settlementClaims'', SETTLEMENT_CLAIMS_DISCRIMINATOR, getSettlementClaimsEncoder, getSettlementClaimsDecoder),
     (''withdrawRequest'', WITHDRAW_REQUEST_DISCRIMINATOR, getWithdrawRequestEncoder, getWithdrawRequestDecoder)]"

definition client_types :: "(string \<times> codec \<times> codec) list" where
  "client_types = [(''u64ValueChange'', getU64ValueChangeEncoder, getU64ValueChangeDecoder),
     (''pubkeyValueChange'', getPubkeyValueChangeEncoder, getPubkeyValueChangeDecoder),
     (''delegationInfo'', getDelegationInfoEncoder, getDelegationInfoDecoder),
     (''splitStakeData'', getSplitStakeDataEncoder, getSplitStakeDataDecoder),
     (''bumps'', getBumpsEncoder, getBumpsDecoder),
     (''commissionProductConfig'', getCommissionProductConfigEncoder, getCommissionProductConfigDecoder),
     (''productType'', getProductTypeEncoder, getProductTypeDecoder),
     (''productTypeConfig'', getProductTypeConfigEncoder, getProductTypeConfigDecoder),
     (''cancelSettlementEvent'', getCancelSettlementEventEncoder, getCancelSettlementEventDecoder),
     (''cancelWithdrawRequestEvent'', getCancelWithdrawRequestEventEncoder, getCancelWithdrawRequestEventDecoder),
     (''claimSettlementEvent'', getClaimSettlementEventEncoder, getClaimSettlementEventDecoder),
     (''claimSettlementV2Event'', getClaimSettlementV2EventEncoder, getClaimSettlementV2EventDecoder),
     (''claimWithdrawRequestEvent'', getClaimWithdrawRequestEventEncoder, getClaimWithdrawRequestEventDecoder),
     (''closeSettlementEvent'', getCloseSettlementEventEncoder, getCloseSettlementEventDecoder),
     (''configureBondEvent'', getConfigureBondEventEncoder, getConfigureBondEventDecoder),
     (''configureBondProductEvent'', getConfigureBondProductEventEncoder, getConfigureBondProductEventDecoder),
     (''configureBondWithMintEvent'', getConfigureBondWithMintEventEncoder, getConfigureBondWithMintEventDecoder),
     (''configureConfigEvent'', getConfigureConfigEventEncoder, getConfigureConfigEventDecoder),
     (''emergencyPauseEvent'', getEmergencyPauseEventEncoder, getEmergencyPauseEventDecoder),
     (''emergencyResumeEvent'', getEmergencyResumeEventEncoder, getEmergencyResumeEventDecoder),
     (''fundBondEvent'', getFundBondEventEncoder, getFundBondEventDecoder),
     (''fundSettlementEvent'', getFundSettlementEventEncoder, getFundSettlementEventDecoder),
     (''initBondEvent'', getInitBondEventEncoder, getInitBondEventDecoder),
     (''initBondProductEvent'', getInitBondProductEventEncoder, getInitBondProductEventDecoder),
     (''initConfigEvent'', getInitConfigEventEncoder, getInitConfigEventDecoder),
     (''initSettlementEvent'', getInitSettlementEventEncoder, getInitSettlementEventDecoder),
     (''initWithdrawRequestEvent'', getInitWithdrawRequestEventEncoder, getInitWithdrawRequestEventDecoder),
     (''mergeStakeEvent'', getMergeStakeEventEncoder, getMergeStakeEventDecoder),
     (''mintBondEvent'', getMintBondEventEncoder, getMintBondEventDecoder),
     (''resetStakeEvent'', getResetStakeEventEncoder, getResetStakeEventDecoder),
     (''withdrawStakeEvent'', getWithdrawStakeEventEncoder, getWithdrawStakeEventDecoder)]"

definition client_declared :: "(ts_type \<times> ts_type \<times> codec) list" where
  "client_declared = [(U64ValueChange_type, U64ValueChangeArgs_type, getU64ValueChangeDecoder),
     (PubkeyValueChange_type, PubkeyValueChangeArgs_type, getPubkeyValueChangeDecoder),
     (DelegationInfo_type, DelegationInfoArgs_type, getDelegationInfoDecoder),
     (SplitStakeData_type, SplitStakeDataArgs_type, getSplitStakeDataDecoder),
     (Bumps_type, BumpsArgs_type, getBumpsDecoder),
     (CommissionProductConfig_type, CommissionProductConfigArgs_type, getCommissionProductConfigDecoder),
     (ProductType_type, ProductTypeArgs_type, getProductTypeDecoder),
     (ProductTypeConfig_type, ProductTypeConfigArgs_type, getProductTypeConfigDecoder),
     (CancelSettlementEvent_type, CancelSettlementEventArgs_type, getCancelSettlementEventDecoder),
     (CancelWithdrawRequestEvent_type, CancelWithdrawRequestEventArgs_type, getCancelWithdrawRequestEventDecoder),
     (ClaimSettlementEvent_type, ClaimSettlementEventArgs_type, getClaimSettlementEventDecoder),
     (ClaimSettlementV2Event_type, ClaimSettlementV2EventArgs_type, getClaimSettlementV2EventDecoder),
     (ClaimWithdrawRequestEvent_type, ClaimWithdrawRequestEventArgs_type, getClaimWithdrawRequestEventDecoder),
     (CloseSettlementEvent_type, CloseSettlementEventArgs_type, getCloseSettlementEventDecoder),
     (ConfigureBondEvent_type, ConfigureBondEventArgs_type, getConfigureBondEventDecoder),
     (ConfigureBondProductEvent_type, ConfigureBondProductEventArgs_type, getConfigureBondProductEventDecoder),
     (ConfigureBondWithMintEvent_type, ConfigureBondWithMintEventArgs_type, getConfigureBondWithMintEventDecoder),
     (ConfigureConfigEvent_type, ConfigureConfigEventArgs_type, getConfigureConfigEventDecoder),
     (EmergencyPauseEvent_type, EmergencyPauseEventArgs_type, getEmergencyPauseEventDecoder),
     (EmergencyResumeEvent_type, EmergencyResumeEventArgs_type, getEmergencyResumeEventDecoder),
     (FundBondEvent_type, FundBondEventArgs_type, getFundBondEventDecoder),
     (FundSettlementEvent_type, FundSettlementEventArgs_type, getFundSettlementEventDecoder),
     (InitBondEvent_type, InitBondEventArgs_type, getInitBondEventDecoder),
     (InitBondProductEvent_type, InitBondProductEventArgs_type, getInitBondProductEventDecoder),
     (InitConfigEvent_type, InitConfigEventArgs_type, getInitConfigEventDecoder),
     (InitSettlementEvent_type, InitSettlementEventArgs_type, getInitSettlementEventDecoder),
     (InitWithdrawRequestEvent_type, InitWithdrawRequestEventArgs_type, getInitWithdrawRequestEventDecoder),
     (MergeStakeEvent_type, MergeStakeEventArgs_type, getMergeStakeEventDecoder),
     (MintBondEvent_type, MintBondEventArgs_type, getMintBondEventDecoder),
     (ResetStakeEvent_type, ResetStakeEventArgs_type, getResetStakeEventDecoder),
     (WithdrawStakeEvent_type, WithdrawStakeEventArgs_type, getWithdrawStakeEventDecoder),
     (Bond_type, BondArgs_type, getBondDecoder),
     (BondProduct_type, BondProductArgs_type, getBondProductDecoder),
     (Config_type, ConfigArgs_type, getConfigDecoder),
     (Settlement_type, SettlementArgs_type, getSettlementDecoder),
     (SettlementClaim_type, SettlementClaimArgs_type, getSettlementClaimDecoder),
     (SettlementClaims_type, SettlementClaimsArgs_type, getSettlementClaimsDecoder),
     (WithdrawRequest_type, WithdrawRequestArgs_type, getWithdrawRequestDecoder),
     (CancelSettlementInstructionData_type, CancelSettlementInstructionDataArgs_type, getCancelSettlementInstructionDataDecoder),
     (CancelWithdrawRequestInstructionData_type, CancelWithdrawRequestInstructionDataArgs_type, getCancelWithdrawRequestInstructionDataDecoder),
     (ClaimSettlementV1InstructionData_type, ClaimSettlementV1InstructionDataArgs_type, getClaimSettlementV1InstructionDataDecoder),
     (ClaimSettlementV2InstructionData_type, ClaimSettlementV2InstructionDataArgs_type, getClaimSettlementV2InstructionDataDecoder),
     (ClaimWithdrawRequestInstructionData_type, ClaimWithdrawRequestInstructionDataArgs_type, getClaimWithdrawRequestInstructionDataDecoder),
     (CloseSettlementV2InstructionData_type, CloseSettlementV2InstructionDataArgs_type, getCloseSettlementV2InstructionDataDecoder),
     (ConfigureBondInstructionData_type, ConfigureBondInstructionDataArgs_type, getConfigureBondInstructionDataDecoder),
     (ConfigureBondProductInstructionData_type, ConfigureBondProductInstructionDataArgs_type, getConfigureBondProductInstructionDataDecoder),
     (ConfigureBondWithMintInstructionData_type, ConfigureBondWithMintInstructionDataArgs_type, getConfigureBondWithMintInstructionDataDecoder),
     (ConfigureConfigInstructionData_type, ConfigureConfigInstructionDataArgs_type, getConfigureConfigInstructionDataDecoder),
     (EmergencyPauseInstructionData_type, EmergencyPauseInstructionDataArgs_type, getEmergencyPauseInstructionDataDecoder),
     (EmergencyResumeInstructionData_type, EmergencyResumeInstructionDataArgs_type, getEmergencyResumeInstructionDataDecoder),
     (FundBondInstructionData_type, FundBondInstructionDataArgs_type, getFundBondInstructionDataDecoder),
     (FundSettlementInstructionData_type, FundSettlementInstructionDataArgs_type, getFundSettlementInstructionDataDecoder),
     (InitBondInstructionData_type, InitBondInstructionDataArgs_type, getInitBondInstructionDataDecoder),
     (InitBondProductInstructionData_type, InitBondProductInstructionDataArgs_type, getInitBondProductInstructionDataDecoder),
     (InitConfigInstructionData_type, InitConfigInstructionDataArgs_type, getInitConfigInstructionDataDecoder),
     (InitSettlementInstructionData_type, InitSettlementInstructionDataArgs_type, getInitSettlementInstructionDataDecoder),
     (InitWithdrawRequestInstructionData_type, InitWithdrawRequestInstructionDataArgs_type, getInitWithdrawRequestInstructionDataDecoder),
     (MergeStakeInstructionData_type, MergeStakeInstructionDataArgs_type, getMergeStakeInstructionDataDecoder),
     (MintBondInstructionData_type, MintBondInstructionDataArgs_type, getMintBondInstructionDataDecoder),
     (ResetStakeInstructionData_type, ResetStakeInstructionDataArgs_type, getResetStakeInstructionDataDecoder),
     (UpsizeSettlementClaimsInstructionData_type, UpsizeSettlementClaimsInstructionDataArgs_type, getUpsizeSettlementClaimsInstructionDataDecoder),
     (WithdrawStakeInstructionData_type, WithdrawStakeInstructionDataArgs_type, getWithdrawStakeInstructionDataDecoder)]"

end
