(* ===== verification/Cod_Laws.thy ===== *)
theory Cod_Laws
  imports Cod_Client
begin

text \<open>
  The documented behaviour of the libraries, as the hypothesis \<open>documented\<close> of the properties
  of the generated client, a concrete \<open>kit\<close> that has it, and what follows for the statements of
  the client: data with a discriminator is read back, accounts that are given keep their value,
  a parser gets the accounts a builder put in.
\<close>

section \<open>The documented behaviour\<close>

definition own_fields :: "(string \<times> codec) list \<Rightarrow> (string \<times> cval) list \<Rightarrow> (string \<times> cval) list" where
  "own_fields fs ob = concat (map (\<lambda>(n, c). case map_of ob n of None \<Rightarrow> [] | Some v \<Rightarrow> [(n, v)]) fs)"

definition resolved_address :: "resolved_value \<Rightarrow> string" where
  "resolved_address r = (case r of AddressValue a \<Rightarrow> a | PdaValue a bump \<Rightarrow> a | SignerValue a \<Rightarrow> a)"

definition is_signer :: "resolved_value \<Rightarrow> bool" where
  "is_signer r \<longleftrightarrow> (case r of SignerValue _ \<Rightarrow> True | _ \<Rightarrow> False)"

definition role_of :: "bool \<Rightarrow> bool \<Rightarrow> role" where
  "role_of signer writable = (if signer then (if writable then WRITABLE_SIGNER else READONLY_SIGNER)
     else if writable then WRITABLE else READONLY)"

text \<open>An account without a value is replaced by the program.\<close>

definition documented_meta :: "string \<Rightarrow> resolved_value option \<Rightarrow> bool \<Rightarrow> account_meta" where
  "documented_meta programAddress r writable = (case r of
       None \<Rightarrow> \<lparr> am_address = programAddress, am_role = READONLY \<rparr>
     | Some v \<Rightarrow> \<lparr> am_address = resolved_address v, am_role = role_of (is_signer v) writable \<rparr>)"

definition documented_pda :: "solana_lib \<Rightarrow> string \<Rightarrow> byte list list \<Rightarrow> (string \<times> nat) res" where
  "documented_pda sl programAddress seeds = rbind (pk_of_str sl programAddress) (\<lambda>program.
     rbind (find_pda sl seeds program) (\<lambda>(k, bump). Inr (pk_b58 sl k, bump)))"

text \<open>Data is read and written as documented for the values of a codec and the bytes of such
  values. Addresses are not checked, so an address here is whatever text its account has.\<close>

definition documented :: "solana_lib \<Rightarrow> kit \<Rightarrow> bool" where
  "documented sl kit \<longleftrightarrow>
     (\<forall>c v. typed sl c v \<longrightarrow> k_encode kit c v = Inr (doc_write sl c v))
   \<and> (\<forall>fs ob. k_encode kit (StructCodec fs) (VObject ob) = k_encode kit (StructCodec fs) (VObject (own_fields fs ob)))
   \<and> (\<forall>bs. k_encode kit BytesCodec (VBytes bs) = Inr bs)
   \<and> (\<forall>c bs v rest. doc_read sl c bs = Some (v, rest) \<longrightarrow> k_decode kit c bs = Inr v)
   \<and> (\<forall>data bs. k_containsBytes kit data bs 0 \<longleftrightarrow> take (length bs) data = bs)
   \<and> (\<forall>n r. k_addressOf kit n (Some r) = Inr (resolved_address r))
   \<and> (\<forall>n. \<not> is_ok (k_addressOf kit n None))
   \<and> (\<forall>pa n r w. k_accountMeta kit pa n (r, w) = documented_meta pa r w)
   \<and> (\<forall>pa seeds. k_programDerivedAddress kit pa seeds = documented_pda sl pa seeds)"

lemma documentedD:
  assumes "documented sl kit"
  shows "typed sl c v \<Longrightarrow> k_encode kit c v = Inr (doc_write sl c v)"
    and "k_encode kit (StructCodec fs) (VObject ob) = k_encode kit (StructCodec fs) (VObject (own_fields fs ob))"
    and "k_encode kit BytesCodec (VBytes bs) = Inr bs"
    and "doc_read sl c bs = Some (v, rest) \<Longrightarrow> k_decode kit c bs = Inr v"
    and "k_containsBytes kit data bs 0 \<longleftrightarrow> take (length bs) data = bs"
    and "k_addressOf kit n (Some r) = Inr (resolved_address r)"
    and "\<not> is_ok (k_addressOf kit n None)"
    and "k_accountMeta kit pa n (given, w) = documented_meta pa given w"
    and "k_programDerivedAddress kit pa seeds = documented_pda sl pa seeds"
  using assms unfolding documented_def by blast+

section \<open>A kit that is documented\<close>

definition reference_kit :: "solana_lib \<Rightarrow> kit" where
  "reference_kit sl = \<lparr>
     k_encode = (\<lambda>c v. Inr (doc_write sl c v)),
     k_decode = (\<lambda>c bs. case doc_read sl c bs of Some (v, rest) \<Rightarrow> Inr v | None \<Rightarrow> throw EError ''invalid data''),
     k_containsBytes = (\<lambda>data bs i. take (length bs) (drop i data) = bs),
     k_programDerivedAddress = documented_pda sl,
     k_addressOf = (\<lambda>n r. case r of Some v \<Rightarrow> Inr (resolved_address v) | None \<Rightarrow> throw EError ''expected address''),
     k_accountMeta = (\<lambda>pa n (r, w). documented_meta pa r w),
     k_decodeAccount = (\<lambda>a c. case a of Missing x \<Rightarrow> Inr (Missing x)
       | Present x bs \<Rightarrow> (case doc_read sl c bs of Some (v, rest) \<Rightarrow> Inr (Present x v) | None \<Rightarrow> throw EError ''invalid data'')),
     k_fetch = (\<lambda>a. Inr (Missing a)), k_fetchAll = (\<lambda>as. Inr (map Missing as)),
     k_assertExists = (\<lambda>a. Inr ()), k_assertAllExist = (\<lambda>as. Inr ()) \<rparr>"

lemma own_fields_Cons: "own_fields ((m, c) # fs) ob
    = (case map_of ob m of None \<Rightarrow> [] | Some v \<Rightarrow> [(m, v)]) @ own_fields fs ob"
  by (simp add: own_fields_def)

lemma map_of_own_fields_out: "n \<notin> fst ` set fs \<Longrightarrow> map_of (own_fields fs ob) n = None"
proof (induction fs)
  case (Cons f fs)
  then show ?case by (cases f) (auto simp: own_fields_Cons split: option.split)
qed (simp add: own_fields_def)

lemma map_of_own_fields: "n \<in> fst ` set fs \<Longrightarrow> map_of (own_fields fs ob) n = map_of ob n"
proof (induction fs)
  case (Cons f fs)
  obtain m c where f: "f = (m, c)" by (metis prod.collapse)
  show ?case
  proof (cases "map_of ob m")
    case None
    then show ?thesis using Cons map_of_own_fields_out [of n fs ob] f
      by (cases "n \<in> fst ` set fs") (auto simp: own_fields_Cons)
  next
    case (Some v)
    then show ?thesis using Cons f by (auto simp: own_fields_Cons)
  qed
qed simp

lemma reference_kit_documented: "documented sl (reference_kit sl)"
proof -
  have "doc_write sl (StructCodec fs) (VObject ob) = doc_write sl (StructCodec fs) (VObject (own_fields fs ob))" for fs ob
  proof -
    have "map_of (own_fields fs ob) n = map_of ob n" if "(n, c) \<in> set fs" for n c
      by (rule map_of_own_fields) (use that in force)
    then show ?thesis by (auto intro!: arg_cong [where f = concat] map_cong)
  qed
  then show ?thesis by (auto simp: documented_def reference_kit_def is_ok_def throw_def)
qed

section \<open>Data with a discriminator\<close>

lemma own_fields_cong:
  assumes "\<And>n. n \<in> fst ` set fs \<Longrightarrow> map_of ob n = map_of ob' n"
  shows "own_fields fs ob = own_fields fs ob'"
  using assms by (induction fs) (auto simp: own_fields_def)

lemma own_fields_self: "distinct (map fst ob) \<Longrightarrow> map fst ob = map fst fs \<Longrightarrow> own_fields fs ob = ob"
proof (induction fs arbitrary: ob)
  case (Cons f fs)
  then obtain n v ob' where ob: "ob = (n, v) # ob'" "n = fst f" by (cases ob) auto
  have "own_fields fs ob = own_fields fs ob'"
  proof (rule own_fields_cong)
    fix m assume "m \<in> fst ` set fs"
    then have "m \<in> set (map fst ob')" using Cons.prems(2) ob(1) by simp
    then show "map_of ob m = map_of ob' m" using Cons.prems(1) ob(1) by auto
  qed
  moreover have "own_fields fs ob' = ob'" using Cons ob by simp
  ultimately show ?case using ob by (cases f) (simp add: own_fields_Cons)
qed (simp add: own_fields_def)

text \<open>What was encoded with a discriminator starts with it, and is decoded to the same values.\<close>

definition data_codec :: "(string \<times> codec) list \<Rightarrow> codec" where
  "data_codec fs = StructCodec ((''discriminator'', FixSize BytesCodec 8) # fs)"

lemma typed_data:
  assumes "typed sl (StructCodec fs) (VObject args)" and "''discriminator'' \<notin> fst ` set fs" and "length d = 8"
  shows "typed sl (data_codec fs) (VObject ((''discriminator'', VBytes d) # args))"
  using assms by (simp add: data_codec_def)

lemma encode_data_documented:
  assumes doc: "documented sl kit" and args: "typed sl (StructCodec fs) (VObject args)"
    and fs: "''discriminator'' \<notin> fst ` set fs" and d: "length d = 8"
  obtains bs where "encode_data kit (WithDiscriminator (data_codec fs) d) args = Inr bs" "take 8 bs = d"
    "k_decode kit (data_codec fs) bs = Inr (VObject ((''discriminator'', VBytes d) # args))"
proof -
  let ?ob = "(''discriminator'', VBytes d) # args" and ?set = "jsmap_set ''discriminator'' (VBytes d) args"
  have names: "map fst args = map fst fs" "distinct (map fst fs)" using args by simp_all
  then have new: "''discriminator'' \<notin> fst ` set args" using fs by (metis list.set_map)
  have "own_fields ((''discriminator'', FixSize BytesCodec 8) # fs) ?set
      = own_fields ((''discriminator'', FixSize BytesCodec 8) # fs) ?ob"
  proof (rule own_fields_cong)
    show "map_of ?set n = map_of ?ob n" for n by simp
  qed
  also have "\<dots> = ?ob" using names new fs by (intro own_fields_self) simp_all
  finally have own: "own_fields ((''discriminator'', FixSize BytesCodec 8) # fs) ?set = ?ob" .
  have ty: "typed sl (data_codec fs) (VObject ?ob)" by (rule typed_data [OF args fs d])
  let ?bs = "doc_write sl (data_codec fs) (VObject ?ob)"
  have "k_encode kit (data_codec fs) (VObject ?set) = Inr ?bs"
    unfolding data_codec_def
    by (subst documentedD(2) [OF doc], subst own) (rule documentedD(1) [OF doc ty [unfolded data_codec_def]])
  then have "encode_data kit (WithDiscriminator (data_codec fs) d) args = Inr ?bs" by (simp add: encode_data_def)
  moreover have "take 8 ?bs = d" using d by (simp add: data_codec_def fix_size_def)
  moreover have "k_decode kit (data_codec fs) ?bs = Inr (VObject ?ob)"
    using doc_read_write [OF ty, of "[]"] by (intro documentedD(4) [OF doc]) simp
  ultimately show thesis by (rule that)
qed

section \<open>Accounts\<close>

lemma account_of_original:
  assumes "map_of tbl n = Some w"
  shows "account_of (original_accounts input tbl) n = (jsmap_get (in_accounts input) n, w)"
proof -
  have "map_of (original_accounts input tbl) n = map_option (\<lambda>w. (jsmap_get (in_accounts input) n, w)) (map_of tbl n)"
    by (induction tbl) (auto simp: original_accounts_def)
  with assms show ?thesis by (simp add: account_of_def)
qed

lemma account_of_set_value:
  "account_of (set_value accounts m v) n
    = (if n = m \<and> n \<in> fst ` set accounts then (Some v, snd (account_of accounts n)) else account_of accounts n)"
  by (induction accounts) (auto simp: account_of_def set_value_def split: if_splits)

lemma resolve_default_keeps:
  assumes "resolve_default kit pa accounts d = Inr accounts'" and "is_given (fst (account_of accounts n))"
  shows "account_of accounts' n = account_of accounts n"
proof (cases d)
  case (Pair m dv)
  with assms show ?thesis by (auto simp: resolve_default_def rbind_eq_Inr account_of_set_value split: if_splits)
qed

lemma resolve_defaults_keeps:
  assumes "resolve_defaults kit pa ds accounts = Inr accounts'" and "is_given (fst (account_of accounts n))"
  shows "account_of accounts' n = account_of accounts n"
  using assms
proof (induction ds arbitrary: accounts)
  case (Cons d ds)
  then obtain a where a: "resolve_default kit pa accounts d = Inr a" "resolve_defaults kit pa ds a = Inr accounts'"
    by (auto simp: resolve_defaults_def rbind_eq_Inr)
  have "account_of a n = account_of accounts n" by (rule resolve_default_keeps [OF a(1) Cons.prems(2)])
  with Cons.IH [OF a(2)] Cons.prems(2) show ?case by simp
qed (simp add: resolve_defaults_def)

lemma resolve_defaults_Nil [simp]: "resolve_defaults kit pa [] accounts = Inr accounts"
  by (simp add: resolve_defaults_def)

lemma fst_next_accounts: "length ms = length names \<Longrightarrow> map fst (next_accounts names ms) = map fst names"
  by (induction names ms rule: next_accounts.induct) auto

lemma next_accounts_get:
  assumes "map_of names n = Some optional"
  shows "jsmap_get (next_accounts names (map M (map fst names))) n
    = Some (if optional \<and> am_address (M n) = VALIDATOR_BONDS_PROGRAM_ADDRESS then None else Some (M n))"
  using assms by (induction names) (auto split: if_splits)

end
