(* ===== verification/Cod_Build.thy ===== *)
theory Cod_Build
  imports Cod_Tables Cod_Laws
begin

text \<open>
  Every builder and parser of the generated client is one function of its row in the tables; what
  is shown of that function holds for all of them.
\<close>

section \<open>One builder and one parser\<close>

definition build_from :: "kit \<Rightarrow> (string \<times> bool) list \<Rightarrow> (string \<times> default_value) list \<Rightarrow> string list \<Rightarrow> encoder
    \<Rightarrow> ix_input \<Rightarrow> string option \<Rightarrow> kit_instruction res" where
  "build_from kit original defaults names enc input programAddress =
     (let pa = orElse programAddress VALIDATOR_BONDS_PROGRAM_ADDRESS in
      rbind (resolve_defaults kit pa defaults (original_accounts input original)) (\<lambda>accounts.
        instruction_of kit pa accounts names enc (in_args input)))"

definition data_fields :: "client_ix \<Rightarrow> (string \<times> codec) list" where
  "data_fields ci = (case ci_decoder ci of StructCodec (d # fs) \<Rightarrow> fs | _ \<Rightarrow> [])"

text \<open>An instruction without arguments is built without looking for them.\<close>

definition args_fit :: "client_ix \<Rightarrow> ix_input \<Rightarrow> bool" where
  "args_fit ci input \<longleftrightarrow> (data_fields ci = [] \<longrightarrow> in_args input = [])"

definition row_built :: "client_ix \<times> builder \<times> builder \<times> (kit \<Rightarrow> kit_instruction \<Rightarrow> parsed_instruction res) \<Rightarrow> bool" where
  "row_built row \<longleftrightarrow> (case row of (ci, build, build_sync, parse) \<Rightarrow>
     (\<forall>kit input pa. args_fit ci input \<longrightarrow>
        build kit input pa = build_from kit (ci_original ci) (ci_defaults ci) (ci_metas ci) (ci_encoder ci) input pa)
   \<and> (\<forall>kit input pa. args_fit ci input \<longrightarrow>
        build_sync kit input pa = build_from kit (ci_sync_original ci) (ci_sync_defaults ci) (ci_sync_metas ci) (ci_encoder ci) input pa)
   \<and> (\<forall>kit ix. parse kit ix = parse_from kit (length (ci_parsed ci)) (ci_parsed ci) (ci_decoder ci) ix)
   \<and> parser_of (ci_tag ci) = parse)"

text \<open>What is computed from the tables alone.\<close>

definition row_shaped :: "client_ix \<Rightarrow> bool" where
  "row_shaped ci \<longleftrightarrow> ci_decoder ci = data_codec (data_fields ci)
     \<and> ci_encoder ci = WithDiscriminator (ci_decoder ci) (ci_discriminator ci)
     \<and> length (ci_discriminator ci) = 8
     \<and> \<not> list_ex (\<lambda>f. fst f = ''discriminator'') (data_fields ci)
     \<and> distinct (map fst (ci_parsed ci))
     \<and> ci_metas ci = map fst (ci_parsed ci) \<and> ci_sync_metas ci = ci_metas ci
     \<and> map fst (ci_roles ci) = ci_metas ci
     \<and> ci_sync_original ci = ci_original ci
     \<and> ci_original ci = map (\<lambda>(n, r, _). (n, r = WRITABLE \<or> r = WRITABLE_SIGNER)) (ci_roles ci)"

lemma rows_shaped: "list_all row_shaped client_instructions"
  by code_simp

lemma discriminators_distinct: "distinct (map ci_discriminator client_instructions)"
  by code_simp

lemma rows_of_functions: "map fst client_functions = client_instructions"
  by (simp add: client_functions_def client_instructions_def)

lemmas row_defs = row_built_def build_from_def args_fit_def data_fields_def parser_of_def

lemma built_cancelSettlement: "row_built (client_cancelSettlement, getCancelSettlementInstructionAsync, getCancelSettlementInstruction, parseCancelSettlementInstruction)"
  by (auto simp: row_defs client_cancelSettlement_def getCancelSettlementInstructionAsync_def getCancelSettlementInstruction_def parseCancelSettlementInstruction_def ParsedCancelSettlementInstruction_accounts_def
      getCancelSettlementInstructionDataDecoder_def fun_eq_iff eval_nat_numeral)

lemma built_cancelWithdrawRequest: "row_built (client_cancelWithdrawRequest, getCancelWithdrawRequestInstructionAsync, getCancelWithdrawRequestInstruction, parseCancelWithdrawRequestInstruction)"
  by (auto simp: row_defs client_cancelWithdrawRequest_def getCancelWithdrawRequestInstructionAsync_def getCancelWithdrawRequestInstruction_def parseCancelWithdrawRequestInstruction_def ParsedCancelWithdrawRequestInstruction_accounts_def
      getCancelWithdrawRequestInstructionDataDecoder_def fun_eq_iff eval_nat_numeral)

lemma built_claimSettlementV1: "row_built (client_claimSettlementV1, getClaimSettlementV1Instruction, getClaimSettlementV1Instruction, parseClaimSettlementV1Instruction)"
  by (auto simp: row_defs client_claimSettlementV1_def getClaimSettlementV1Instruction_def parseClaimSettlementV1Instruction_def ParsedClaimSettlementV1Instruction_accounts_def
      getClaimSettlementV1InstructionDataDecoder_def fun_eq_iff eval_nat_numeral)

lemma built_claimSettlementV2: "row_built (client_claimSettlementV2, getClaimSettlementV2InstructionAsync, getClaimSettlementV2Instruction, parseClaimSettlementV2Instruction)"
  by (auto simp: row_defs client_claimSettlementV2_def getClaimSettlementV2InstructionAsync_def getClaimSettlementV2Instruction_def parseClaimSettlementV2Instruction_def ParsedClaimSettlementV2Instruction_accounts_def
      getClaimSettlementV2InstructionDataDecoder_def fun_eq_iff eval_nat_numeral)

lemma built_claimWithdrawRequest: "row_built (client_claimWithdrawRequest, getClaimWithdrawRequestInstructionAsync, getClaimWithdrawRequestInstruction, parseClaimWithdrawRequestInstruction)"
  by (auto simp: row_defs client_claimWithdrawRequest_def getClaimWithdrawRequestInstructionAsync_def getClaimWithdrawRequestInstruction_def parseClaimWithdrawRequestInstruction_def ParsedClaimWithdrawRequestInstruction_accounts_def
      getClaimWithdrawRequestInstructionDataDecoder_def fun_eq_iff eval_nat_numeral)

lemma built_closeSettlementV2: "row_built (client_closeSettlementV2, getCloseSettlementV2InstructionAsync, getCloseSettlementV2Instruction, parseCloseSettlementV2Instruction)"
  by (auto simp: row_defs client_closeSettlementV2_def getCloseSettlementV2InstructionAsync_def getCloseSettlementV2Instruction_def parseCloseSettlementV2Instruction_def ParsedCloseSettlementV2Instruction_accounts_def
      getCloseSettlementV2InstructionDataDecoder_def fun_eq_iff eval_nat_numeral)

lemma built_configureBond: "row_built (client_configureBond, getConfigureBondInstructionAsync, getConfigureBondInstruction, parseConfigureBondInstruction)"
  by (auto simp: row_defs client_configureBond_def getConfigureBondInstructionAsync_def getConfigureBondInstruction_def parseConfigureBondInstruction_def ParsedConfigureBondInstruction_accounts_def
      getConfigureBondInstructionDataDecoder_def fun_eq_iff eval_nat_numeral)

lemma built_configureBondProduct: "row_built (client_configureBondProduct, getConfigureBondProductInstructionAsync, getConfigureBondProductInstruction, parseConfigureBondProductInstruction)"
  by (auto simp: row_defs client_configureBondProduct_def getConfigureBondProductInstructionAsync_def getConfigureBondProductInstruction_def parseConfigureBondProductInstruction_def ParsedConfigureBondProductInstruction_accounts_def
      getConfigureBondProductInstructionDataDecoder_def fun_eq_iff eval_nat_numeral)

lemma built_configureBondWithMint: "row_built (client_configureBondWithMint, getConfigureBondWithMintInstructionAsync, getConfigureBondWithMintInstruction, parseConfigureBondWithMintInstruction)"
  by (auto simp: row_defs client_configureBondWithMint_def getConfigureBondWithMintInstructionAsync_def getConfigureBondWithMintInstruction_def parseConfigureBondWithMintInstruction_def ParsedConfigureBondWithMintInstruction_accounts_def
      getConfigureBondWithMintInstructionDataDecoder_def fun_eq_iff eval_nat_numeral)

lemma built_configureConfig: "row_built (client_configureConfig, getConfigureConfigInstructionAsync, getConfigureConfigInstruction, parseConfigureConfigInstruction)"
  by (auto simp: row_defs client_configureConfig_def getConfigureConfigInstructionAsync_def getConfigureConfigInstruction_def parseConfigureConfigInstruction_def ParsedConfigureConfigInstruction_accounts_def
      getConfigureConfigInstructionDataDecoder_def fun_eq_iff eval_nat_numeral)

lemma built_emergencyPause: "row_built (client_emergencyPause, getEmergencyPauseInstructionAsync, getEmergencyPauseInstruction, parseEmergencyPauseInstruction)"
  by (auto simp: row_defs client_emergencyPause_def getEmergencyPauseInstructionAsync_def getEmergencyPauseInstruction_def parseEmergencyPauseInstruction_def ParsedEmergencyPauseInstruction_accounts_def
      getEmergencyPauseInstructionDataDecoder_def fun_eq_iff eval_nat_numeral)

lemma built_emergencyResume: "row_built (client_emergencyResume, getEmergencyResumeInstructionAsync, getEmergencyResumeInstruction, parseEmergencyResumeInstruction)"
  by (auto simp: row_defs client_emergencyResume_def getEmergencyResumeInstructionAsync_def getEmergencyResumeInstruction_def parseEmergencyResumeInstruction_def ParsedEmergencyResumeInstruction_accounts_def
      getEmergencyResumeInstructionDataDecoder_def fun_eq_iff eval_nat_numeral)

lemma built_fundBond: "row_built (client_fundBond, getFundBondInstructionAsync, getFundBondInstruction, parseFundBondInstruction)"
  by (auto simp: row_defs client_fundBond_def getFundBondInstructionAsync_def getFundBondInstruction_def parseFundBondInstruction_def ParsedFundBondInstruction_accounts_def
      getFundBondInstructionDataDecoder_def fun_eq_iff eval_nat_numeral)

lemma built_fundSettlement: "row_built (client_fundSettlement, getFundSettlementInstructionAsync, getFundSettlementInstruction, parseFundSettlementInstruction)"
  by (auto simp: row_defs client_fundSettlement_def getFundSettlementInstructionAsync_def getFundSettlementInstruction_def parseFundSettlementInstruction_def ParsedFundSettlementInstruction_accounts_def
      getFundSettlementInstructionDataDecoder_def fun_eq_iff eval_nat_numeral)

lemma built_initBond: "row_built (client_initBond, getInitBondInstructionAsync, getInitBondInstruction, parseInitBondInstruction)"
  by (auto simp: row_defs client_initBond_def getInitBondInstructionAsync_def getInitBondInstruction_def parseInitBondInstruction_def ParsedInitBondInstruction_accounts_def
      getInitBondInstructionDataDecoder_def fun_eq_iff eval_nat_numeral)

lemma built_initBondProduct: "row_built (client_initBondProduct, getInitBondProductInstructionAsync, getInitBondProductInstruction, parseInitBondProductInstruction)"
  by (auto simp: row_defs client_initBondProduct_def getInitBondProductInstructionAsync_def getInitBondProductInstruction_def parseInitBondProductInstruction_def ParsedInitBondProductInstruction_accounts_def
      getInitBondProductInstructionDataDecoder_def fun_eq_iff eval_nat_numeral)

lemma built_initConfig: "row_built (client_initConfig, getInitConfigInstructionAsync, getInitConfigInstruction, parseInitConfigInstruction)"
  by (auto simp: row_defs client_initConfig_def getInitConfigInstructionAsync_def getInitConfigInstruction_def parseInitConfigInstruction_def ParsedInitConfigInstruction_accounts_def
      getInitConfigInstructionDataDecoder_def fun_eq_iff eval_nat_numeral)

lemma built_initSettlement: "row_built (client_initSettlement, getInitSettlementInstructionAsync, getInitSettlementInstruction, parseInitSettlementInstruction)"
  by (auto simp: row_defs client_initSettlement_def getInitSettlementInstructionAsync_def getInitSettlementInstruction_def parseInitSettlementInstruction_def ParsedInitSettlementInstruction_accounts_def
      getInitSettlementInstructionDataDecoder_def fun_eq_iff eval_nat_numeral)

lemma built_initWithdrawRequest: "row_built (client_initWithdrawRequest, getInitWithdrawRequestInstructionAsync, getInitWithdrawRequestInstruction, parseInitWithdrawRequestInstruction)"
  by (auto simp: row_defs client_initWithdrawRequest_def getInitWithdrawRequestInstructionAsync_def getInitWithdrawRequestInstruction_def parseInitWithdrawRequestInstruction_def ParsedInitWithdrawRequestInstruction_accounts_def
      getInitWithdrawRequestInstructionDataDecoder_def fun_eq_iff eval_nat_numeral)

lemma built_mergeStake: "row_built (client_mergeStake, getMergeStakeInstructionAsync, getMergeStakeInstruction, parseMergeStakeInstruction)"
  by (auto simp: row_defs client_mergeStake_def getMergeStakeInstructionAsync_def getMergeStakeInstruction_def parseMergeStakeInstruction_def ParsedMergeStakeInstruction_accounts_def
      getMergeStakeInstructionDataDecoder_def fun_eq_iff eval_nat_numeral)

lemma built_mintBond: "row_built (client_mintBond, getMintBondInstructionAsync, getMintBondInstruction, parseMintBondInstruction)"
  by (auto simp: row_defs client_mintBond_def getMintBondInstructionAsync_def getMintBondInstruction_def parseMintBondInstruction_def ParsedMintBondInstruction_accounts_def
      getMintBondInstructionDataDecoder_def fun_eq_iff eval_nat_numeral)

lemma built_resetStake: "row_built (client_resetStake, getResetStakeInstructionAsync, getResetStakeInstruction, parseResetStakeInstruction)"
  by (auto simp: row_defs client_resetStake_def getResetStakeInstructionAsync_def getResetStakeInstruction_def parseResetStakeInstruction_def ParsedResetStakeInstruction_accounts_def
      getResetStakeInstructionDataDecoder_def fun_eq_iff eval_nat_numeral)

lemma built_upsizeSettlementClaims: "row_built (client_upsizeSettlementClaims, getUpsizeSettlementClaimsInstruction, getUpsizeSettlementClaimsInstruction, parseUpsizeSettlementClaimsInstruction)"
  by (auto simp: row_defs client_upsizeSettlementClaims_def getUpsizeSettlementClaimsInstruction_def parseUpsizeSettlementClaimsInstruction_def ParsedUpsizeSettlementClaimsInstruction_accounts_def
      getUpsizeSettlementClaimsInstructionDataDecoder_def fun_eq_iff eval_nat_numeral)

lemma built_withdrawStake: "row_built (client_withdrawStake, getWithdrawStakeInstructionAsync, getWithdrawStakeInstruction, parseWithdrawStakeInstruction)"
  by (auto simp: row_defs client_withdrawStake_def getWithdrawStakeInstructionAsync_def getWithdrawStakeInstruction_def parseWithdrawStakeInstruction_def ParsedWithdrawStakeInstruction_accounts_def
      getWithdrawStakeInstructionDataDecoder_def fun_eq_iff eval_nat_numeral)

lemma rows_built: "list_all row_built client_functions"
  by (simp add: client_functions_def built_cancelSettlement built_cancelWithdrawRequest built_claimSettlementV1 built_claimSettlementV2 built_claimWithdrawRequest built_closeSettlementV2 built_configureBond built_configureBondProduct built_configureBondWithMint built_configureConfig built_emergencyPause built_emergencyResume built_fundBond built_fundSettlement built_initBond built_initBondProduct built_initConfig built_initSettlement built_initWithdrawRequest built_mergeStake built_mintBond built_resetStake built_upsizeSettlementClaims built_withdrawStake)

section \<open>Identification\<close>

definition unknown_instruction :: js_error where
  "unknown_instruction = Js_Error EError ''FAILED_TO_IDENTIFY_INSTRUCTION''"

lemma identify_table: "identifyValidatorBondsInstruction kit data
    = identify kit (map (\<lambda>ci. (ci_discriminator ci, ci_tag ci)) client_instructions) data unknown_instruction"
  by (simp add: identifyValidatorBondsInstruction_def unknown_instruction_def client_instructions_def
    client_cancelSettlement_def CANCEL_SETTLEMENT_DISCRIMINATOR_def client_cancelWithdrawRequest_def CANCEL_WITHDRAW_REQUEST_DISCRIMINATOR_def client_claimSettlementV1_def CLAIM_SETTLEMENT_V1_DISCRIMINATOR_def client_claimSettlementV2_def CLAIM_SETTLEMENT_V2_DISCRIMINATOR_def client_claimWithdrawRequest_def CLAIM_WITHDRAW_REQUEST_DISCRIMINATOR_def client_closeSettlementV2_def CLOSE_SETTLEMENT_V2_DISCRIMINATOR_def client_configureBond_def CONFIGURE_BOND_DISCRIMINATOR_def client_configureBondProduct_def CONFIGURE_BOND_PRODUCT_DISCRIMINATOR_def client_configureBondWithMint_def CONFIGURE_BOND_WITH_MINT_DISCRIMINATOR_def client_configureConfig_def CONFIGURE_CONFIG_DISCRIMINATOR_def client_emergencyPause_def EMERGENCY_PAUSE_DISCRIMINATOR_def client_emergencyResume_def EMERGENCY_RESUME_DISCRIMINATOR_def client_fundBond_def FUND_BOND_DISCRIMINATOR_def client_fundSettlement_def FUND_SETTLEMENT_DISCRIMINATOR_def client_initBond_def INIT_BOND_DISCRIMINATOR_def client_initBondProduct_def INIT_BOND_PRODUCT_DISCRIMINATOR_def client_initConfig_def INIT_CONFIG_DISCRIMINATOR_def client_initSettlement_def INIT_SETTLEMENT_DISCRIMINATOR_def client_initWithdrawRequest_def INIT_WITHDRAW_REQUEST_DISCRIMINATOR_def client_mergeStake_def MERGE_STAKE_DISCRIMINATOR_def client_mintBond_def MINT_BOND_DISCRIMINATOR_def client_resetStake_def RESET_STAKE_DISCRIMINATOR_def client_upsizeSettlementClaims_def UPSIZE_SETTLEMENT_CLAIMS_DISCRIMINATOR_def client_withdrawStake_def WITHDRAW_STAKE_DISCRIMINATOR_def del: identify.simps)

lemma fixed_bytes_documented:
  assumes "documented sl kit" and "length d = 8"
  shows "fixed_bytes kit d = Inr d"
proof -
  have "typed sl (FixSize BytesCodec 8) (VBytes d)" using assms(2) by simp
  from documentedD(1) [OF assms(1) this] show ?thesis using assms(2) by (simp add: fixed_bytes_def fix_size_def)
qed

lemma identify_documented:
  assumes "documented sl kit" and "\<And>d x. (d, x) \<in> set ds \<Longrightarrow> length d = 8"
  shows "identify kit ds data e = (case map_of ds (take 8 data) of Some x \<Rightarrow> Inr x | None \<Rightarrow> Inl e)"
  using assms(2)
proof (induction ds)
  case (Cons d ds)
  obtain b x where d: "d = (b, x)" by (metis prod.collapse)
  have b: "length b = 8" using Cons.prems [of b x] d by simp
  have IH: "identify kit ds data e = (case map_of ds (take 8 data) of Some x \<Rightarrow> Inr x | None \<Rightarrow> Inl e)"
    by (rule Cons.IH) (use Cons.prems in auto)
  show ?case using b IH by (simp add: d fixed_bytes_documented [OF assms(1) b] documentedD(5) [OF assms(1)])
qed simp

lemma row_shapedD: "ci \<in> set client_instructions \<Longrightarrow> row_shaped ci"
  using rows_shaped by (simp add: list_all_iff)

lemma identify_row:
  assumes doc: "documented sl kit" and ci: "ci \<in> set client_instructions" and d: "take 8 data = ci_discriminator ci"
  shows "identifyValidatorBondsInstruction kit data = Inr (ci_tag ci)"
proof -
  let ?ds = "map (\<lambda>ci. (ci_discriminator ci, ci_tag ci)) client_instructions"
  have "map_of ?ds (ci_discriminator ci) = Some (ci_tag ci)"
    by (rule map_of_is_SomeI) (use ci discriminators_distinct in \<open>simp_all add: comp_def\<close>)
  moreover have "length b = 8" if "(b, x) \<in> set ?ds" for b x
    using that row_shapedD by (auto simp: row_shaped_def)
  then have "identify kit ?ds data unknown_instruction
      = (case map_of ?ds (take 8 data) of Some x \<Rightarrow> Inr x | None \<Rightarrow> Inl unknown_instruction)"
    by (rule identify_documented [OF doc])
  ultimately show ?thesis by (simp add: identify_table d)
qed

section \<open>Building and parsing\<close>

text \<open>An account is given in the way its role asks for.\<close>

definition fits_role :: "resolved_value \<Rightarrow> role \<Rightarrow> bool" where
  "fits_role r role \<longleftrightarrow> (is_signer r \<longleftrightarrow> role = READONLY_SIGNER \<or> role = WRITABLE_SIGNER) \<and> resolved_address r \<noteq> ''''"

lemma role_of_fits:
  assumes "fits_role r role"
  shows "role_of (is_signer r) (role = WRITABLE \<or> role = WRITABLE_SIGNER) = role"
  using assms by (cases role) (simp_all add: fits_role_def role_of_def)

lemma fits_role_given: "fits_role r role \<Longrightarrow> is_given (Some r)"
  by (auto simp: fits_role_def is_given_def resolved_address_def)

lemma built_then_parsed:
  assumes doc: "documented sl kit" and ci: "ci \<in> set client_instructions"
    and args: "typed sl (StructCodec (data_fields ci)) (VObject (in_args input))"
    and built: "build_from kit (ci_original ci) defaults (ci_metas ci) (ci_encoder ci) input pa = Inr ix"
  obtains p where "identifyValidatorBondsInstruction kit (ki_data ix) = Inr (ci_tag ci)"
    "parse_from kit (length (ci_parsed ci)) (ci_parsed ci) (ci_decoder ci) ix = Inr p"
    "ki_accounts ix \<noteq> None"
    "pi_programAddress p = orElse pa VALIDATOR_BONDS_PROGRAM_ADDRESS"
    "pi_data p = VObject ((''discriminator'', VBytes (ci_discriminator ci)) # in_args input)"
    "map fst (pi_accounts p) = ci_metas ci"
    "\<And>n role a r optional. (n, role, a) \<in> set (ci_roles ci) \<Longrightarrow> jsmap_get (in_accounts input) n = Some r
      \<Longrightarrow> fits_role r role \<Longrightarrow> map_of (ci_parsed ci) n = Some optional
      \<Longrightarrow> \<not> (optional \<and> resolved_address r = VALIDATOR_BONDS_PROGRAM_ADDRESS)
      \<Longrightarrow> jsmap_get (pi_accounts p) n = Some (Some \<lparr> am_address = resolved_address r, am_role = role \<rparr>)"
proof -
  let ?pa = "orElse pa VALIDATOR_BONDS_PROGRAM_ADDRESS" and ?d = "ci_discriminator ci"
  have sh: "ci_decoder ci = data_codec (data_fields ci)" "ci_encoder ci = WithDiscriminator (data_codec (data_fields ci)) ?d"
    "length ?d = 8" "''discriminator'' \<notin> fst ` set (data_fields ci)" "ci_metas ci = map fst (ci_parsed ci)"
    "map fst (ci_roles ci) = ci_metas ci" "distinct (ci_metas ci)"
    "ci_original ci = map (\<lambda>(n, r, _). (n, r = WRITABLE \<or> r = WRITABLE_SIGNER)) (ci_roles ci)"
    using row_shapedD [OF ci] by (auto simp: row_shaped_def list_ex_iff)
  obtain accounts where acc: "resolve_defaults kit ?pa defaults (original_accounts input (ci_original ci)) = Inr accounts"
    and ins: "instruction_of kit ?pa accounts (ci_metas ci) (ci_encoder ci) (in_args input) = Inr ix"
    using built by (auto simp: build_from_def rbind_eq_Inr Let_def)
  obtain bs where bs: "encode_data kit (ci_encoder ci) (in_args input) = Inr bs" "take 8 bs = ?d"
    "k_decode kit (ci_decoder ci) bs = Inr (VObject ((''discriminator'', VBytes ?d) # in_args input))"
    using encode_data_documented [OF doc args sh(4) sh(3)] unfolding sh(1,2) by blast
  let ?M = "\<lambda>n. k_accountMeta kit ?pa n (account_of accounts n)"
  have ix: "ix = \<lparr> ki_accounts = Some (map ?M (ci_metas ci)), ki_data = bs, ki_programAddress = ?pa \<rparr>"
    using ins bs(1) by (simp add: instruction_of_def account_metas_def)
  let ?p = "\<lparr> pi_programAddress = ?pa, pi_accounts = next_accounts (ci_parsed ci) (map ?M (map fst (ci_parsed ci))),
    pi_data = VObject ((''discriminator'', VBytes ?d) # in_args input) \<rparr>"
  show thesis
  proof (rule that [of ?p])
    show "identifyValidatorBondsInstruction kit (ki_data ix) = Inr (ci_tag ci)"
      by (rule identify_row [OF doc ci]) (simp add: ix bs(2))
    show "parse_from kit (length (ci_parsed ci)) (ci_parsed ci) (ci_decoder ci) ix = Inr ?p"
      by (simp add: parse_from_def ix bs(3) sh(5))
    show "map fst (pi_accounts ?p) = ci_metas ci" by (simp add: fst_next_accounts sh(5))
    fix n role a r optional
    assume role: "(n, role, a) \<in> set (ci_roles ci)" and r: "jsmap_get (in_accounts input) n = Some r" "fits_role r role"
      and o: "map_of (ci_parsed ci) n = Some optional" "\<not> (optional \<and> resolved_address r = VALIDATOR_BONDS_PROGRAM_ADDRESS)"
    let ?w = "role = WRITABLE \<or> role = WRITABLE_SIGNER"
    have "map_of (ci_original ci) n = Some ?w"
      unfolding sh(8)
    proof (rule map_of_is_SomeI)
      have "map fst (map (\<lambda>(n, r, _). (n, r = WRITABLE \<or> r = WRITABLE_SIGNER)) (ci_roles ci)) = map fst (ci_roles ci)"
        by (simp add: comp_def case_prod_unfold)
      then show "distinct (map fst (map (\<lambda>(n, r, _). (n, r = WRITABLE \<or> r = WRITABLE_SIGNER)) (ci_roles ci)))"
        using sh(6,7) by simp
      show "(n, ?w) \<in> set (map (\<lambda>(n, r, _). (n, r = WRITABLE \<or> r = WRITABLE_SIGNER)) (ci_roles ci))"
        using role by force
    qed
    then have "account_of (original_accounts input (ci_original ci)) n = (Some r, ?w)"
      by (simp add: account_of_original r(1))
    then have "account_of accounts n = (Some r, ?w)"
      using resolve_defaults_keeps [OF acc, of n] fits_role_given [OF r(2)] by simp
    then have "?M n = \<lparr> am_address = resolved_address r, am_role = role \<rparr>"
      by (simp add: documentedD(8) [OF doc] documented_meta_def role_of_fits [OF r(2)])
    then show "jsmap_get (pi_accounts ?p) n = Some (Some \<lparr> am_address = resolved_address r, am_role = role \<rparr>)"
      using o(2) next_accounts_get [OF o(1), of ?M] by (simp del: map_map)
  qed (simp_all add: ix)
qed

end
