(* ===== verification/Cod_Pdas.thy ===== *)
theory Cod_Pdas
  imports Cod_Build
begin

text \<open>
  The addresses a builder derives for accounts that are left out, compared with the functions of
  the sdk that derive the addresses of the program.
\<close>

section \<open>A default is computed from the accounts of the finished instruction\<close>

definition seeds_of :: "default_value \<Rightarrow> seed list" where
  "seeds_of d = (case d of DerivedFrom ss \<Rightarrow> ss | DerivedBy p ss \<Rightarrow> ss | FixedAddress a \<Rightarrow> [])"

text \<open>A default only uses accounts that have no default or one that was resolved before.\<close>

fun resolved_in_order :: "(string \<times> default_value) list \<Rightarrow> bool" where
  "resolved_in_order [] = True"
| "resolved_in_order ((n, d) # ds) \<longleftrightarrow> n \<notin> fst ` set ds
     \<and> list_all (\<lambda>s. case s of SeedBytes _ \<Rightarrow> True | SeedAccount m \<Rightarrow> m \<noteq> n \<and> m \<notin> fst ` set ds) (seeds_of d)
     \<and> resolved_in_order ds"

lemma default_of_cong:
  assumes "\<And>m. SeedAccount m \<in> set (seeds_of d) \<Longrightarrow> account_of a m = account_of b m"
  shows "default_of kit pa a d = default_of kit pa b d"
proof -
  have "rmapM (seed_bytes kit a) (seeds_of d) = rmapM (seed_bytes kit b) (seeds_of d)"
    by (rule rmapM_cong [OF refl]) (use assms in \<open>auto simp: seed_bytes_def split: seed.split\<close>)
  then show ?thesis by (cases d) (simp_all add: default_of_def derive_value_def seeds_of_def)
qed

lemma resolve_defaults_other:
  assumes "resolve_defaults kit pa ds accounts = Inr final" and "m \<notin> fst ` set ds"
  shows "account_of final m = account_of accounts m"
  using assms
proof (induction ds arbitrary: accounts)
  case (Cons d ds)
  then obtain a where a: "resolve_default kit pa accounts d = Inr a" "resolve_defaults kit pa ds a = Inr final"
    by (auto simp: resolve_defaults_def rbind_eq_Inr)
  have "account_of a m = account_of accounts m"
    using a(1) Cons.prems(2) by (cases d) (auto simp: resolve_default_def rbind_eq_Inr account_of_set_value split: if_splits)
  with Cons.IH [OF a(2)] Cons.prems(2) show ?case by simp
qed (simp add: resolve_defaults_def)

lemma resolve_default_names:
  assumes "resolve_default kit pa accounts d = Inr a"
  shows "fst ` set a = fst ` set accounts"
  using assms by (cases d) (force simp: resolve_default_def rbind_eq_Inr set_value_def split: if_splits)

lemma default_resolved:
  assumes "resolve_defaults kit pa ds accounts = Inr final" and "resolved_in_order ds" and "(n, d) \<in> set ds"
    and "\<not> is_given (fst (account_of accounts n))" and "n \<in> fst ` set accounts"
  shows "\<exists>v. default_of kit pa final d = Inr v \<and> fst (account_of final n) = Some v"
  using assms
proof (induction ds arbitrary: accounts)
  case (Cons nd ds)
  obtain n0 d0 where nd: "nd = (n0, d0)" by (metis prod.collapse)
  obtain a where a: "resolve_default kit pa accounts nd = Inr a" "resolve_defaults kit pa ds a = Inr final"
    using Cons.prems(1) by (auto simp: resolve_defaults_def rbind_eq_Inr)
  show ?case
  proof (cases "n = n0")
    case True
    have "d = d0" using Cons.prems(2,3) True nd by force
    then obtain v where v: "default_of kit pa accounts d = Inr v" "a = set_value accounts n v"
      using a(1) Cons.prems(4) True by (auto simp: resolve_default_def nd rbind_eq_Inr)
    have "default_of kit pa final d = default_of kit pa accounts d"
    proof (rule default_of_cong)
      fix m assume "SeedAccount m \<in> set (seeds_of d)"
      moreover have "list_all (\<lambda>s. case s of SeedBytes _ \<Rightarrow> True | SeedAccount m \<Rightarrow> m \<noteq> n0 \<and> m \<notin> fst ` set ds) (seeds_of d0)"
        using Cons.prems(2) by (simp add: nd)
      ultimately have "case SeedAccount m of SeedBytes _ \<Rightarrow> True | SeedAccount m \<Rightarrow> m \<noteq> n0 \<and> m \<notin> fst ` set ds"
        using \<open>d = d0\<close> unfolding list_all_iff by blast
      then have m: "m \<noteq> n" "m \<notin> fst ` set ds" using True by simp_all
      have "account_of final m = account_of a m" by (rule resolve_defaults_other [OF a(2) m(2)])
      then show "account_of final m = account_of accounts m" using m(1) by (simp add: v(2) account_of_set_value)
    qed
    moreover have "account_of final n = account_of a n"
      using Cons.prems(2) True by (intro resolve_defaults_other [OF a(2)]) (simp add: nd)
    ultimately show ?thesis using v Cons.prems(5) by (simp add: account_of_set_value)
  next
    case False
    then have "account_of a n = account_of accounts n"
      using a(1) by (auto simp: resolve_default_def nd rbind_eq_Inr account_of_set_value split: if_splits)
    moreover have "(n, d) \<in> set ds" using Cons.prems(3) False nd by auto
    ultimately show ?thesis using Cons.IH [OF a(2)] Cons.prems(2,4,5) resolve_default_names [OF a(1)] by (simp add: nd)
  qed
qed simp

section \<open>The functions of the sdk\<close>

definition sdk_pda :: "solana_lib \<Rightarrow> string \<Rightarrow> (string \<Rightarrow> pubkey) \<Rightarrow> pubkey \<Rightarrow> (pubkey \<times> nat) res" where
  "sdk_pda sl n key program =
     (if n = ''bond'' then bondAddress sl (key ''config'') (key ''voteAccount'') program
      else if n = ''bondsWithdrawerAuthority'' then bondsWithdrawerAuthority sl (key ''config'') program
      else if n = ''settlementClaims'' then settlementClaimsAddress sl (key ''settlement'') program
      else if n = ''withdrawRequest'' then withdrawRequestAddress sl (key ''bond'') program
      else if n = ''settlementStakerAuthority'' then settlementStakerAuthority sl (key ''settlement'') program
      else if n = ''mint'' then bondMintAddress sl (key ''bond'') (key ''validatorIdentity'') program
      else eventAuthorityAddress sl program)"

definition sdk_seeds :: "string \<Rightarrow> seed list" where
  "sdk_seeds n =
     (if n = ''bond'' then [SeedBytes BOND_SEED, SeedAccount ''config'', SeedAccount ''voteAccount'']
      else if n = ''bondsWithdrawerAuthority'' then [SeedBytes BONDS_WITHDRAWER_AUTHORITY_SEED, SeedAccount ''config'']
      else if n = ''settlementClaims'' then [SeedBytes SETTLEMENT_CLAIMS_SEED, SeedAccount ''settlement'']
      else if n = ''withdrawRequest'' then [SeedBytes WITHDRAW_REQUEST_SEED, SeedAccount ''bond'']
      else if n = ''settlementStakerAuthority'' then [SeedBytes SETTLEMENT_STAKER_AUTHORITY_SEED, SeedAccount ''settlement'']
      else if n = ''mint'' then [SeedBytes BOND_MINT_SEED, SeedAccount ''bond'', SeedAccount ''validatorIdentity'']
      else [SeedBytes EVENT_AUTHORITY_SEED])"

definition seed_key :: "(string \<Rightarrow> pubkey) \<Rightarrow> seed \<Rightarrow> byte list" where
  "seed_key key s = (case s of SeedBytes bs \<Rightarrow> bs | SeedAccount m \<Rightarrow> key m)"

lemma sdk_pda_seeds: "sdk_pda sl n key program = find_pda sl (map (seed_key key) (sdk_seeds n)) program"
  by (simp add: sdk_pda_def sdk_seeds_def seed_key_def bondAddress_def bondsWithdrawerAuthority_def
      settlementClaimsAddress_def withdrawRequestAddress_def settlementStakerAuthority_def bondMintAddress_def
      eventAuthorityAddress_def)

text \<open>The seeds of the client are the texts of the sdk.\<close>

definition default_as_sdk :: "client_ix \<Rightarrow> string \<times> default_value \<Rightarrow> bool" where
  "default_as_sdk ci nd \<longleftrightarrow> (case nd of (n, d) \<Rightarrow>
     (case d of DerivedFrom ss \<Rightarrow> ss = sdk_seeds n | _ \<Rightarrow> True) \<and> n \<in> set (map fst (ci_original ci))
     \<and> list_all (\<lambda>s. case s of SeedBytes _ \<Rightarrow> True | SeedAccount m \<Rightarrow> m \<in> set (map fst (ci_original ci))) (seeds_of d))"

lemma default_seeds: "list_all (\<lambda>ci. resolved_in_order (ci_defaults ci) \<and> list_all (default_as_sdk ci) (ci_defaults ci))
    client_instructions"
  by code_simp

lemma default_as_sdkD:
  assumes "ci \<in> set client_instructions" and "(n, DerivedFrom ss) \<in> set (ci_defaults ci)"
  shows "ss = sdk_seeds n" and "n \<in> set (map fst (ci_original ci))"
    and "SeedAccount m \<in> set ss \<Longrightarrow> m \<in> set (map fst (ci_original ci))"
proof -
  have "default_as_sdk ci (n, DerivedFrom ss)" using default_seeds assms by (simp add: list_all_iff)
  then show "ss = sdk_seeds n" "n \<in> set (map fst (ci_original ci))"
    and "SeedAccount m \<in> set ss \<Longrightarrow> m \<in> set (map fst (ci_original ci))"
    by (auto simp: default_as_sdk_def seeds_of_def list_all_iff)
qed

section \<open>Derived accounts of an instruction\<close>

text \<open>The address an instruction has for an account.\<close>

definition address_in :: "client_ix \<Rightarrow> kit_instruction \<Rightarrow> string \<Rightarrow> string" where
  "address_in ci ix n = (case map_of (zip (ci_metas ci) (orElse (ki_accounts ix) [])) n of
     Some m \<Rightarrow> am_address m | None \<Rightarrow> '''')"

definition key_in :: "solana_lib \<Rightarrow> client_ix \<Rightarrow> kit_instruction \<Rightarrow> string \<Rightarrow> pubkey" where
  "key_in sl ci ix n = orElse (address_bytes sl (address_in ci ix n)) []"

lemma address_in_built:
  assumes "map_of (ci_original ci) n = Some w" and "ci_metas ci = map fst (ci_original ci)"
  shows "address_in ci \<lparr> ki_accounts = Some (map M (ci_metas ci)), ki_data = bs, ki_programAddress = pa \<rparr> n = am_address (M n)"
proof -
  have "map_of (zip ns (map M ns)) n = (if n \<in> set ns then Some (M n) else None)" for ns by (induction ns) auto
  moreover have "n \<in> set (ci_metas ci)" using assms map_of_SomeD by (metis image_eqI list.set_map fst_conv)
  ultimately show ?thesis by (simp add: address_in_def)
qed

lemma derived_is_sdk:
  assumes doc: "documented sl kit" and ci: "ci \<in> set client_instructions"
    and built: "build_from kit (ci_original ci) (ci_defaults ci) (ci_metas ci) (ci_encoder ci) input pa = Inr ix"
    and program: "pk_of_str sl (orElse pa VALIDATOR_BONDS_PROGRAM_ADDRESS) = Inr program"
    and valid: "\<And>m. m \<in> set (ci_metas ci) \<Longrightarrow> address_bytes sl (address_in ci ix m) \<noteq> None"
    and n: "(n, DerivedFrom ss) \<in> set (ci_defaults ci)" and out: "jsmap_get (in_accounts input) n = None"
  shows "\<exists>k bump. sdk_pda sl n (key_in sl ci ix) program = Inr (k, bump) \<and> address_in ci ix n = pk_b58 sl k"
proof -
  let ?pa = "orElse pa VALIDATOR_BONDS_PROGRAM_ADDRESS"
  have row: "resolved_in_order (ci_defaults ci)" "ss = sdk_seeds n" "n \<in> set (map fst (ci_original ci))"
    using default_seeds ci default_as_sdkD(1,2) [OF ci n] by (simp_all add: list_all_iff)
  have sh: "ci_metas ci = map fst (ci_original ci)"
    using row_shapedD [OF ci] by (auto simp: row_shaped_def comp_def case_prod_unfold)
  obtain accounts where acc: "resolve_defaults kit ?pa (ci_defaults ci) (original_accounts input (ci_original ci)) = Inr accounts"
    and ins: "instruction_of kit ?pa accounts (ci_metas ci) (ci_encoder ci) (in_args input) = Inr ix"
    using built unfolding build_from_def Let_def rbind_eq_Inr by blast
  obtain bs where ix: "ix = \<lparr> ki_accounts = Some (map (\<lambda>n. k_accountMeta kit ?pa n (account_of accounts n)) (ci_metas ci)),
        ki_data = bs, ki_programAddress = ?pa \<rparr>"
    using ins unfolding instruction_of_def account_metas_def rbind_eq_Inr by blast
  have in_orig: "\<exists>w. map_of (ci_original ci) m = Some w" if "m \<in> set (map fst (ci_original ci))" for m
  proof (cases "map_of (ci_original ci) m")
    case None
    then have "m \<notin> set (map fst (ci_original ci))" by (simp add: map_of_eq_None_iff)
    with that show ?thesis by blast
  qed blast
  have meta: "address_in ci ix m = resolved_address r"
    if m: "m \<in> set (map fst (ci_original ci))" and r: "fst (account_of accounts m) = Some r" for m r
  proof -
    obtain w where "map_of (ci_original ci) m = Some w" using in_orig [OF m] by blast
    from address_in_built [OF this sh] have "address_in ci ix m = am_address (k_accountMeta kit ?pa m (account_of accounts m))"
      unfolding ix by blast
    also have "account_of accounts m = (Some r, snd (account_of accounts m))" using r by (metis prod.collapse)
    finally show ?thesis using documentedD(8) [OF doc] by (simp add: documented_meta_def)
  qed
  have start: "\<not> is_given (fst (account_of (original_accounts input (ci_original ci)) n))"
    using in_orig [OF row(3)] out by (auto simp: account_of_original is_given_def)
  have "n \<in> fst ` set (original_accounts input (ci_original ci))"
    using row(3) by (force simp: original_accounts_def)
  then obtain v where v: "default_of kit ?pa accounts (DerivedFrom ss) = Inr v" "fst (account_of accounts n) = Some v"
    using default_resolved [OF acc row(1) n start] by blast
  obtain seeds a bump where seeds: "rmapM (seed_bytes kit accounts) ss = Inr seeds"
    and pda: "documented_pda sl ?pa seeds = Inr (a, bump)" and va: "v = PdaValue a bump"
    using v(1) by (auto simp: default_of_def derive_value_def rbind_eq_Inr documentedD(9) [OF doc])
  have seed: "b = seed_key (key_in sl ci ix) s" if sb: "seed_bytes kit accounts s = Inr b" and ss: "s \<in> set ss" for s b
  proof (cases s)
    case (SeedBytes d)
    with sb show ?thesis by (simp add: seed_bytes_def seed_key_def documentedD(3) [OF doc])
  next
    case (SeedAccount m)
    obtain r where r: "fst (account_of accounts m) = Some r"
    proof (cases "fst (account_of accounts m)")
      case None
      with sb SeedAccount documentedD(7) [OF doc, of m] show ?thesis
        by (auto simp: seed_bytes_def rbind_eq_Inr is_ok_def)
    qed (rule that)
    have m: "m \<in> set (map fst (ci_original ci))"
      using default_as_sdkD(3) [OF ci n] ss SeedAccount by blast
    have "address_bytes sl (resolved_address r) \<noteq> None" using valid [of m] m sh meta [OF m r] by simp
    then obtain k where k: "address_bytes sl (resolved_address r) = Some k" by blast
    then have "typed sl AddressCodec (VAddr (resolved_address r))" by simp
    from documentedD(1) [OF doc this] have "k_encode kit AddressCodec (VAddr (resolved_address r)) = Inr k" by (simp add: k)
    then show ?thesis using sb SeedAccount r meta [OF m r]
      by (simp add: seed_bytes_def documentedD(6) [OF doc] seed_key_def key_in_def k)
  qed
  have "seeds = map (seed_key (key_in sl ci ix)) ss"
    using seeds seed by (simp add: rmapM_Inr_iff list_all2_conv_all_nth list_eq_iff_nth_eq)
  moreover obtain k where "find_pda sl seeds program = Inr (k, bump)" "a = pk_b58 sl k"
    using pda by (auto simp: documented_pda_def program rbind_eq_Inr)
  ultimately have "sdk_pda sl n (key_in sl ci ix) program = Inr (k, bump)" by (simp add: sdk_pda_seeds row(2))
  moreover have "address_in ci ix n = pk_b58 sl k"
    using meta [OF row(3) v(2)] va \<open>a = pk_b58 sl k\<close> by (simp add: resolved_address_def)
  ultimately show ?thesis by blast
qed

end
