(* ===== verification/Idl_Data.thy ===== *)
theory Idl_Data
  imports Sdk_Address
begin

text \<open>
  The form of the interface description (IDL) of the on-chain program that
  \<open>packages/validator-bonds-sdk/idl/types/validator_bonds.ts\<close> declares as the type
  \<open>ValidatorBonds\<close>. The comments of the program (\<open>docs\<close>) are left out.
\<close>

datatype idl_type = IU8 | IU16 | IU32 | IU64 | II64 | IBool | IString | IBytes | IPubkey | IOption idl_type
  | IVec idl_type | IArray idl_type nat | IDefined string

datatype idl_seed = IdlConst "byte list" | IdlPath string "string option" | IdlArg string

datatype idl_account = IdlAcc (ia_name: string) (ia_writable: bool) (ia_signer: bool) (ia_optional: bool)
  (ia_address: "string option") (ia_pda: "(idl_seed list \<times> idl_seed option) option") (ia_relations: "string list")

record idl_instruction =
  ii_name :: string
  ii_discriminator :: "byte list"
  ii_accounts :: "idl_account list"
  ii_args :: "(string \<times> idl_type) list"

datatype idl_def = IdlStruct "(string \<times> idl_type) list" | IdlEnum "(string \<times> idl_type list) list"

end
