(* ===== verification/Idl_Types.thy ===== *)
theory Idl_Types
  imports Idl_Data
begin

text \<open>
  The types of the interface of the on-chain program: those of its accounts, its events and the
  arguments of its instructions.
\<close>

definition idl_type_bond :: "idl_def" where
  "idl_type_bond = IdlStruct [(''config'', IPubkey),
     (''voteAccount'', IPubkey),
     (''authority'', IPubkey),
     (''cpmpe'', IU64),
     (''bump'', IU8),
     (''maxStakeWanted'', IU64),
     (''reserved'', IArray (IU8) 134)]"

definition idl_type_bondProduct :: "idl_def" where
  "idl_type_bondProduct = IdlStruct [(''config'', IPubkey),
     (''bond'', IPubkey),
     (''voteAccount'', IPubkey),
     (''productType'', IDefined ''productType''),
     (''configData'', IDefined ''productTypeConfig''),
     (''bump'', IU8)]"

definition idl_type_bumps :: "idl_def" where
  "idl_type_bumps = IdlStruct [(''pda'', IU8),
     (''stakerAuthority'', IU8),
     (''settlementClaims'', IU8)]"

definition idl_type_cancelSettlementEvent :: "idl_def" where
  "idl_type_cancelSettlementEvent = IdlStruct [(''bond'', IPubkey),
     (''settlement'', IPubkey),
     (''merkleRoot'', IArray (IU8) 32),
     (''maxTotalClaim'', IU64),
     (''maxMerkleNodes'', IU64),
     (''lamportsFunded'', IU64),
     (''lamportsClaimed'', IU64),
     (''merkleNodesClaimed'', IU64),
     (''splitRentCollector'', IOption (IPubkey)),
     (''splitRentRefund'', IOption (IPubkey)),
     (''rentCollector'', IPubkey),
     (''authority'', IPubkey)]"

definition idl_type_cancelWithdrawRequestEvent :: "idl_def" where
  "idl_type_cancelWithdrawRequestEvent = IdlStruct [(''withdrawRequest'', IPubkey),
     (''bond'', IPubkey),
     (''authority'', IPubkey),
     (''requestedAmount'', IU64),
     (''withdrawnAmount'', IU64)]"

definition idl_type_claimSettlementEvent :: "idl_def" where
  "idl_type_claimSettlementEvent = IdlStruct [(''settlementClaim'', IPubkey),
     (''settlement'', IPubkey),
     (''settlementLamportsClaimed'', IDefined ''u64ValueChange''),
     (''settlementMerkleNodesClaimed'', IU64),
     (''stakeAccountTo'', IPubkey),
     (''stakeAccountWithdrawer'', IPubkey),
     (''stakeAccountStaker'', IPubkey),
     (''amount'', IU64),
     (''rentCollector'', IPubkey)]"

definition idl_type_claimSettlementV2Args :: "idl_def" where
  "idl_type_claimSettlementV2Args = IdlStruct [(''proof'', IVec (IArray (IU8) 32)),
     (''treeNodeHash'', IArray (IU8) 32),
     (''stakeAccountStaker'', IPubkey),
     (''stakeAccountWithdrawer'', IPubkey),
     (''claim'', IU64),
     (''index'', IU64)]"

definition idl_type_claimSettlementV2Event :: "idl_def" where
  "idl_type_claimSettlementV2Event = IdlStruct [(''settlement'', IPubkey),
     (''settlementLamportsClaimed'', IDefined ''u64ValueChange''),
     (''settlementMerkleNodesClaimed'', IU64),
     (''stakeAccountTo'', IPubkey),
     (''stakeAccountWithdrawer'', IPubkey),
     (''stakeAccountStaker'', IPubkey),
     (''amount'', IU64),
     (''index'', IU64)]"

definition idl_type_claimWithdrawRequestEvent :: "idl_def" where
  "idl_type_claimWithdrawRequestEvent = IdlStruct [(''withdrawRequest'', IPubkey),
     (''bond'', IPubkey),
     (''voteAccount'', IPubkey),
     (''stakeAccount'', IPubkey),
     (''splitStake'', IOption (IDefined ''splitStakeData'')),
     (''newStakeAccountOwner'', IPubkey),
     (''withdrawingAmount'', IU64),
     (''withdrawnAmount'', IDefined ''u64ValueChange'')]"

definition idl_type_closeSettlementEvent :: "idl_def" where
  "idl_type_closeSettlementEvent = IdlStruct [(''bond'', IPubkey),
     (''settlement'', IPubkey),
     (''merkleRoot'', IArray (IU8) 32),
     (''maxTotalClaim'', IU64),
     (''maxMerkleNodes'', IU64),
     (''lamportsFunded'', IU64),
     (''lamportsClaimed'', IU64),
     (''merkleNodesClaimed'', IU64),
     (''splitRentCollector'', IOption (IPubkey)),
     (''splitRentRefund'', IOption (IPubkey)),
     (''rentCollector'', IPubkey),
     (''expirationEpoch'', IU64),
     (''currentEpoch'', IU64)]"

definition idl_type_commissionProductConfig :: "idl_def" where
  "idl_type_commissionProductConfig = IdlStruct [(''inflationBps'', IOption (II64)),
     (''mevBps'', IOption (II64)),
     (''blockBps'', IOption (II64))]"

definition idl_type_config :: "idl_def" where
  "idl_type_config = IdlStruct [(''adminAuthority'', IPubkey),
     (''operatorAuthority'', IPubkey),
     (''epochsToClaimSettlement'', IU64),
     (''withdrawLockupEpochs'', IU64),
     (''minimumStakeLamports'', IU64),
     (''bondsWithdrawerAuthorityBump'', IU8),
     (''pauseAuthority'', IPubkey),
     (''paused'', IBool),
     (''slotsToStartSettlementClaiming'', IU64),
     (''minBondMaxStakeWanted'', IU64),
     (''reserved'', IArray (IU8) 463)]"

definition idl_type_configureBondArgs :: "idl_def" where
  "idl_type_configureBondArgs = IdlStruct [(''bondAuthority'', IOption (IPubkey)),
     (''cpmpe'', IOption (IU64)),
     (''maxStakeWanted'', IOption (IU64))]"

definition idl_type_configureBondEvent :: "idl_def" where
  "idl_type_configureBondEvent = IdlStruct [(''bondAuthority'', IOption (IDefined ''pubkeyValueChange'')),
     (''cpmpe'', IOption (IDefined ''u64ValueChange'')),
     (''maxStakeWanted'', IOption (IDefined ''u64ValueChange''))]"

definition idl_type_configureBondProductArgs :: "idl_def" where
  "idl_type_configureBondProductArgs = IdlStruct [(''configData'', IDefined ''productTypeConfig'')]"

definition idl_type_configureBondProductEvent :: "idl_def" where
  "idl_type_configureBondProductEvent = IdlStruct [(''config'', IPubkey),
     (''bondProduct'', IPubkey),
     (''bond'', IPubkey),
     (''voteAccount'', IPubkey),
     (''productType'', IDefined ''productType''),
     (''oldConfigData'', IDefined ''productTypeConfig''),
     (''newConfigData'', IDefined ''productTypeConfig'')]"

definition idl_type_configureBondWithMintArgs :: "idl_def" where
  "idl_type_configureBondWithMintArgs = IdlStruct [(''validatorIdentity'', IPubkey),
     (''bondAuthority'', IOption (IPubkey)),
     (''cpmpe'', IOption (IU64)),
     (''maxStakeWanted'', IOption (IU64))]"

definition idl_type_configureBondWithMintEvent :: "idl_def" where
  "idl_type_configureBondWithMintEvent = IdlStruct [(''validatorIdentity'', IPubkey),
     (''bondAuthority'', IOption (IDefined ''pubkeyValueChange'')),
     (''cpmpe'', IOption (IDefined ''u64ValueChange'')),
     (''maxStakeWanted'', IOption (IDefined ''u64ValueChange''))]"

definition idl_type_configureConfigArgs :: "idl_def" where
  "idl_type_configureConfigArgs = IdlStruct [(''admin'', IOption (IPubkey)),
     (''operator'', IOption (IPubkey)),
     (''pauseAuthority'', IOption (IPubkey)),
     (''epochsToClaimSettlement'', IOption (IU64)),
     (''withdrawLockupEpochs'', IOption (IU64)),
     (''minimumStakeLamports'', IOption (IU64)),
     (''slotsToStartSettlementClaiming'', IOption (IU64)),
     (''minBondMaxStakeWanted'', IOption (IU64))]"

definition idl_type_configureConfigEvent :: "idl_def" where
  "idl_type_configureConfigEvent = IdlStruct [(''adminAuthority'', IOption (IDefined ''pubkeyValueChange'')),
     (''operatorAuthority'', IOption (IDefined ''pubkeyValueChange'')),
     (''pauseAuthority'', IOption (IDefined ''pubkeyValueChange'')),
     (''epochsToClaimSettlement'', IOption (IDefined ''u64ValueChange'')),
     (''minimumStakeLamports'', IOption (IDefined ''u64ValueChange'')),
     (''withdrawLockupEpochs'', IOption (IDefined ''u64ValueChange'')),
     (''slotsToStartSettlementClaiming'', IOption (IDefined ''u64ValueChange'')),
     (''minBondMaxStakeWanted'', IOption (IDefined ''u64ValueChange''))]"

definition idl_type_delegationInfo :: "idl_def" where
  "idl_type_delegationInfo = IdlStruct [(''voterPubkey'', IPubkey),
     (''stake'', IU64),
     (''activationEpoch'', IU64),
     (''deactivationEpoch'', IU64)]"

definition idl_type_emergencyPauseEvent :: "idl_def" where
  "idl_type_emergencyPauseEvent = IdlStruct [(''config'', IPubkey),
     (''adminAuthority'', IPubkey),
     (''operatorAuthority'', IPubkey),
     (''epochsToClaimSettlement'', IU64),
     (''withdrawLockupEpochs'', IU64),
     (''minimumStakeLamports'', IU64),
     (''pauseAuthority'', IPubkey)]"

definition idl_type_emergencyResumeEvent :: "idl_def" where
  "idl_type_emergencyResumeEvent = IdlStruct [(''config'', IPubkey),
     (''adminAuthority'', IPubkey),
     (''operatorAuthority'', IPubkey),
     (''epochsToClaimSettlement'', IU64),
     (''withdrawLockupEpochs'', IU64),
     (''minimumStakeLamports'', IU64),
     (''pauseAuthority'', IPubkey)]"

definition idl_type_fundBondEvent :: "idl_def" where
  "idl_type_fundBondEvent = IdlStruct [(''bond'', IPubkey),
     (''voteAccount'', IPubkey),
     (''stakeAccount'', IPubkey),
     (''stakeAuthoritySigner'', IPubkey),
     (''depositedAmount'', IU64)]"

definition idl_type_fundSettlementEvent :: "idl_def" where
  "idl_type_fundSettlementEvent = IdlStruct [(''bond'', IPubkey),
     (''settlement'', IPubkey),
     (''fundingAmount'', IU64),
     (''stakeAccount'', IPubkey),
     (''lamportsFunded'', IU64),
     (''lamportsClaimed'', IU64),
     (''merkleNodesClaimed'', IU64),
     (''splitStakeAccount'', IOption (IDefined ''splitStakeData'')),
     (''splitRentCollector'', IOption (IPubkey)),
     (''splitRentAmount'', IU64)]"

definition idl_type_initBondArgs :: "idl_def" where
  "idl_type_initBondArgs = IdlStruct [(''bondAuthority'', IPubkey),
     (''cpmpe'', IU64),
     (''maxStakeWanted'', IU64)]"

definition idl_type_initBondEvent :: "idl_def" where
  "idl_type_initBondEvent = IdlStruct [(''bond'', IPubkey),
     (''config'', IPubkey),
     (''voteAccount'', IPubkey),
     (''validatorIdentity'', IPubkey),
     (''authority'', IPubkey),
     (''cpmpe'', IU64),
     (''maxStakeWanted'', IU64)]"

definition idl_type_initBondProductArgs :: "idl_def" where
  "idl_type_initBondProductArgs = IdlStruct [(''productType'', IDefined ''productType''),
     (''configData'', IDefined ''productTypeConfig'')]"

definition idl_type_initBondProductEvent :: "idl_def" where
  "idl_type_initBondProductEvent = IdlStruct [(''bondProduct'', IPubkey),
     (''config'', IPubkey),
     (''bond'', IPubkey),
     (''voteAccount'', IPubkey),
     (''productType'', IDefined ''productType''),
     (''authority'', IOption (IPubkey))]"

definition idl_type_initConfigArgs :: "idl_def" where
  "idl_type_initConfigArgs = IdlStruct [(''adminAuthority'', IPubkey),
     (''operatorAuthority'', IPubkey),
     (''epochsToClaimSettlement'', IU64),
     (''withdrawLockupEpochs'', IU64),
     (''slotsToStartSettlementClaiming'', IU64)]"

definition idl_type_initConfigEvent :: "idl_def" where
  "idl_type_initConfigEvent = IdlStruct [(''config'', IPubkey),
     (''adminAuthority'', IPubkey),
     (''operatorAuthority'', IPubkey),
     (''withdrawLockupEpochs'', IU64),
     (''epochsToClaimSettlement'', IU64),
     (''minimumStakeLamports'', IU64),
     (''bondsWithdrawerAuthority'', IPubkey),
     (''slotsToStartSettlementClaiming'', IU64)]"

definition idl_type_initSettlementArgs :: "idl_def" where
  "idl_type_initSettlementArgs = IdlStruct [(''merkleRoot'', IArray (IU8) 32),
     (''maxTotalClaim'', IU64),
     (''maxMerkleNodes'', IU64),
     (''rentCollector'', IPubkey),
     (''epoch'', IU64)]"

definition idl_type_initSettlementEvent :: "idl_def" where
  "idl_type_initSettlementEvent = IdlStruct [(''bond'', IPubkey),
     (''settlement'', IPubkey),
     (''voteAccount'', IPubkey),
     (''stakerAuthority'', IPubkey),
     (''merkleRoot'', IArray (IU8) 32),
     (''maxTotalClaim'', IU64),
     (''maxMerkleNodes'', IU64),
     (''epochCreatedFor'', IU64),
     (''slotCreatedAt'', IU64),
     (''rentCollector'', IPubkey)]"

definition idl_type_initWithdrawRequestArgs :: "idl_def" where
  "idl_type_initWithdrawRequestArgs = IdlStruct [(''amount'', IU64)]"

definition idl_type_initWithdrawRequestEvent :: "idl_def" where
  "idl_type_initWithdrawRequestEvent = IdlStruct [(''withdrawRequest'', IPubkey),
     (''bond'', IPubkey),
     (''voteAccount'', IPubkey),
     (''epoch'', IU64),
     (''requestedAmount'', IU64)]"

definition idl_type_mergeStakeArgs :: "idl_def" where
  "idl_type_mergeStakeArgs = IdlStruct [(''settlement'', IPubkey)]"

definition idl_type_mergeStakeEvent :: "idl_def" where
  "idl_type_mergeStakeEvent = IdlStruct [(''config'', IPubkey),
     (''stakerAuthority'', IPubkey),
     (''destinationStake'', IPubkey),
     (''destinationDelegation'', IOption (IDefined ''delegationInfo'')),
     (''sourceStake'', IPubkey),
     (''sourceDelegation'', IOption (IDefined ''delegationInfo''))]"

definition idl_type_mintBondEvent :: "idl_def" where
  "idl_type_mintBondEvent = IdlStruct [(''bond'', IPubkey),
     (''validatorIdentity'', IPubkey),
     (''validatorIdentityTokenAccount'', IPubkey),
     (''tokenMetadata'', IPubkey)]"

definition idl_type_productType :: "idl_def" where
  "idl_type_productType = IdlEnum [(''commission'', []), (''custom'', [IString])]"

definition idl_type_productTypeConfig :: "idl_def" where
  "idl_type_productTypeConfig = IdlEnum [(''commission'', [IDefined ''commissionProductConfig'']), (''custom'', [IBytes])]"

definition idl_type_pubkeyValueChange :: "idl_def" where
  "idl_type_pubkeyValueChange = IdlStruct [(''old'', IPubkey),
     (''new'', IPubkey)]"

definition idl_type_resetStakeEvent :: "idl_def" where
  "idl_type_resetStakeEvent = IdlStruct [(''config'', IPubkey),
     (''bond'', IPubkey),
     (''settlement'', IPubkey),
     (''stakeAccount'', IPubkey),
     (''voteAccount'', IPubkey),
     (''settlementStakerAuthority'', IPubkey)]"

definition idl_type_settlement :: "idl_def" where
  "idl_type_settlement = IdlStruct [(''bond'', IPubkey),
     (''stakerAuthority'', IPubkey),
     (''merkleRoot'', IArray (IU8) 32),
     (''maxTotalClaim'', IU64),
     (''maxMerkleNodes'', IU64),
     (''lamportsFunded'', IU64),
     (''lamportsClaimed'', IU64),
     (''merkleNodesClaimed'', IU64),
     (''epochCreatedFor'', IU64),
     (''slotCreatedAt'', IU64),
     (''rentCollector'', IPubkey),
     (''splitRentCollector'', IOption (IPubkey)),
     (''splitRentAmount'', IU64),
     (''bumps'', IDefined ''bumps''),
     (''reserved'', IArray (IU8) 90)]"

definition idl_type_settlementClaim :: "idl_def" where
  "idl_type_settlementClaim = IdlStruct [(''settlement'', IPubkey),
     (''stakeAccountTo'', IPubkey),
     (''stakeAccountStaker'', IPubkey),
     (''stakeAccountWithdrawer'', IPubkey),
     (''amount'', IU64),
     (''bump'', IU8),
     (''rentCollector'', IPubkey),
     (''reserved'', IArray (IU8) 93)]"

definition idl_type_settlementClaims :: "idl_def" where
  "idl_type_settlementClaims = IdlStruct [(''settlement'', IPubkey),
     (''version'', IU8),
     (''maxRecords'', IU64)]"

definition idl_type_splitStakeData :: "idl_def" where
  "idl_type_splitStakeData = IdlStruct [(''address'', IPubkey),
     (''amount'', IU64)]"

definition idl_type_u64ValueChange :: "idl_def" where
  "idl_type_u64ValueChange = IdlStruct [(''old'', IU64),
     (''new'', IU64)]"

definition idl_type_withdrawRequest :: "idl_def" where
  "idl_type_withdrawRequest = IdlStruct [(''voteAccount'', IPubkey),
     (''bond'', IPubkey),
     (''epoch'', IU64),
     (''requestedAmount'', IU64),
     (''withdrawnAmount'', IU64),
     (''bump'', IU8),
     (''reserved'', IArray (IU8) 93)]"

definition idl_type_withdrawStakeEvent :: "idl_def" where
  "idl_type_withdrawStakeEvent = IdlStruct [(''config'', IPubkey),
     (''operatorAuthority'', IPubkey),
     (''settlement'', IPubkey),
     (''stakeAccount'', IPubkey),
     (''withdrawTo'', IPubkey),
     (''settlementStakerAuthority'', IPubkey),
     (''withdrawnAmount'', IU64)]"

definition idl_types :: "string \<Rightarrow> idl_def option" where
  "idl_types x = (if x = ''bond'' then Some idl_type_bond
     else if x = ''bondProduct'' then Some idl_type_bondProduct
     else if x = ''bumps'' then Some idl_type_bumps
     else if x = ''cancelSettlementEvent'' then Some idl_type_cancelSettlementEvent
     else if x = ''cancelWithdrawRequestEvent'' then Some idl_type_cancelWithdrawRequestEvent
     else if x = ''claimSettlementEvent'' then Some idl_type_claimSettlementEvent
     else if x = ''claimSettlementV2Args'' then Some idl_type_claimSettlementV2Args
     else if x = ''claimSettlementV2Event'' then Some idl_type_claimSettlementV2Event
     else if x = ''claimWithdrawRequestEvent'' then Some idl_type_claimWithdrawRequestEvent
     else if x = ''closeSettlementEvent'' then Some idl_type_closeSettlementEvent
     else if x = ''commissionProductConfig'' then Some idl_type_commissionProductConfig
     else if x = ''config'' then Some idl_type_config
     else if x = ''configureBondArgs'' then Some idl_type_configureBondArgs
     else if x = ''configureBondEvent'' then Some idl_type_configureBondEvent
     else if x = ''configureBondProductArgs'' then Some idl_type_configureBondProductArgs
     else if x = ''configureBondProductEvent'' then Some idl_type_configureBondProductEvent
     else if x = ''configureBondWithMintArgs'' then Some idl_type_configureBondWithMintArgs
     else if x = ''configureBondWithMintEvent'' then Some idl_type_configureBondWithMintEvent
     else if x = ''configureConfigArgs'' then Some idl_type_configureConfigArgs
     else if x = ''configureConfigEvent'' then Some idl_type_configureConfigEvent
     else if x = ''delegationInfo'' then Some idl_type_delegationInfo
     else if x = ''emergencyPauseEvent'' then Some idl_type_emergencyPauseEvent
     else if x = ''emergencyResumeEvent'' then Some idl_type_emergencyResumeEvent
     else if x = ''fundBondEvent'' then Some idl_type_fundBondEvent
     else if x = ''fundSettlementEvent'' then Some idl_type_fundSettlementEvent
     else if x = ''initBondArgs'' then Some idl_type_initBondArgs
     else if x = ''initBondEvent'' then Some idl_type_initBondEvent
     else if x = ''initBondProductArgs'' then Some idl_type_initBondProductArgs
     else if x = ''initBondProductEvent'' then Some idl_type_initBondProductEvent
     else if x = ''initConfigArgs'' then Some idl_type_initConfigArgs
     else if x = ''initConfigEvent'' then Some idl_type_initConfigEvent
     else if x = ''initSettlementArgs'' then Some idl_type_initSettlementArgs
     else if x = ''initSettlementEvent'' then Some idl_type_initSettlementEvent
     else if x = ''initWithdrawRequestArgs'' then Some idl_type_initWithdrawRequestArgs
     else if x = ''initWithdrawRequestEvent'' then Some idl_type_initWithdrawRequestEvent
     else if x = ''mergeStakeArgs'' then Some idl_type_mergeStakeArgs
     else if x = ''mergeStakeEvent'' then Some idl_type_mergeStakeEvent
     else if x = ''mintBondEvent'' then Some idl_type_mintBondEvent
     else if x = ''productType'' then Some idl_type_productType
     else if x = ''productTypeConfig'' then Some idl_type_productTypeConfig
     else if x = ''pubkeyValueChange'' then Some idl_type_pubkeyValueChange
     else if x = ''resetStakeEvent'' then Some idl_type_resetStakeEvent
     else if x = ''settlement'' then Some idl_type_settlement
     else if x = ''settlementClaim'' then Some idl_type_settlementClaim
     else if x = ''settlementClaims'' then Some idl_type_settlementClaims
     else if x = ''splitStakeData'' then Some idl_type_splitStakeData
     else if x = ''u64ValueChange'' then Some idl_type_u64ValueChange
     else if x = ''withdrawRequest'' then Some idl_type_withdrawRequest
     else if x = ''withdrawStakeEvent'' then Some idl_type_withdrawStakeEvent
     else None)"

end
