(* ===== verification/Idl_Ix_A.thy ===== *)
theory Idl_Ix_A
  imports Idl_Data
begin

text \<open>
  The instructions of the interface of the on-chain program, as
  \<open>packages/validator-bonds-sdk/idl/types/validator_bonds.ts\<close> declares them.
\<close>

definition idl_cancelSettlement_accounts_1 :: "idl_account list" where
  "idl_cancelSettlement_accounts_1 = [IdlAcc ''config'' True False False None None [''bond''],
     IdlAcc ''bond'' False False False None (Some ([IdlConst [98, 111, 110, 100, 95, 97, 99, 99, 111, 117, 110, 116], IdlPath ''config'' None, IdlPath ''bond.vote_account'' (Some ''bond'')], None)) [''settlement''],
     IdlAcc ''settlement'' True False False None (Some ([IdlConst [115, 101, 116, 116, 108, 101, 109, 101, 110, 116, 95, 97, 99, 99, 111, 117, 110, 116], IdlPath ''bond'' None, IdlPath ''settlement.merkle_root'' (Some ''settlement''), IdlPath ''settlement.epoch_created_for'' (Some ''settlement'')], None)) [''settlementClaims''],
     IdlAcc ''settlementClaims'' True False False None (Some ([IdlConst [99, 108, 97, 105, 109, 115, 95, 97, 99, 99, 111, 117, 110, 116], IdlPath ''settlement'' None], None)) [],
     IdlAcc ''authority'' False True False None None []]"

definition idl_cancelSettlement_accounts_2 :: "idl_account list" where
  "idl_cancelSettlement_accounts_2 = [IdlAcc ''bondsWithdrawerAuthority'' False False False None (Some ([IdlConst [98, 111, 110, 100, 115, 95, 97, 117, 116, 104, 111, 114, 105, 116, 121], IdlPath ''config'' None], None)) [],
     IdlAcc ''rentCollector'' True False False None None [''settlement''],
     IdlAcc ''splitRentCollector'' True False False None None [],
     IdlAcc ''splitRentRefundAccount'' True False False None None [],
     IdlAcc ''clock'' False False False (Some ''SysvarC1ock11111111111111111111111111111111'') None [],
     IdlAcc ''stakeProgram'' False False False (Some ''Stake11111111111111111111111111111111111111'') None [],
     IdlAcc ''stakeHistory'' False False False (Some ''SysvarStakeHistory1111111111111111111111111'') None [],
     IdlAcc ''eventAuthority'' False False False None (Some ([IdlConst [95, 95, 101, 118, 101, 110, 116, 95, 97, 117, 116, 104, 111, 114, 105, 116, 121]], None)) [],
     IdlAcc ''program'' False False False None None []]"

definition idl_cancelSettlement :: "idl_instruction" where
  "idl_cancelSettlement = \<lparr> ii_name = ''cancelSettlement'', ii_discriminator = [33, 241, 96, 62, 228, 178, 1, 120],
     ii_accounts = idl_cancelSettlement_accounts_1 @ idl_cancelSettlement_accounts_2,
     ii_args = [] \<rparr>"

definition idl_cancelWithdrawRequest_accounts :: "idl_account list" where
  "idl_cancelWithdrawRequest_accounts = [IdlAcc ''config'' False False False None None [''bond''],
     IdlAcc ''bond'' False False False None (Some ([IdlConst [98, 111, 110, 100, 95, 97, 99, 99, 111, 117, 110, 116], IdlPath ''config'' None, IdlPath ''voteAccount'' None], None)) [''withdrawRequest''],
     IdlAcc ''voteAccount'' False False False None None [''bond''],
     IdlAcc ''authority'' False True False None None [],
     IdlAcc ''withdrawRequest'' True False False None (Some ([IdlConst [119, 105, 116, 104, 100, 114, 97, 119, 95, 97, 99, 99, 111, 117, 110, 116], IdlPath ''bond'' None], None)) [],
     IdlAcc ''rentCollector'' True False False None None [],
     IdlAcc ''eventAuthority'' False False False None (Some ([IdlConst [95, 95, 101, 118, 101, 110, 116, 95, 97, 117, 116, 104, 111, 114, 105, 116, 121]], None)) [],
     IdlAcc ''program'' False False False None None []]"

definition idl_cancelWithdrawRequest :: "idl_instruction" where
  "idl_cancelWithdrawRequest = \<lparr> ii_name = ''cancelWithdrawRequest'', ii_discriminator = [167, 100, 110, 128, 113, 154, 224, 77],
     ii_accounts = idl_cancelWithdrawRequest_accounts,
     ii_args = [] \<rparr>"

definition idl_claimSettlementV1_accounts :: "idl_account list" where
  "idl_claimSettlementV1_accounts = [IdlAcc ''settlementClaimV1'' False False False None None []]"

definition idl_claimSettlementV1 :: "idl_instruction" where
  "idl_claimSettlementV1 = \<lparr> ii_name = ''claimSettlementV1'', ii_discriminator = [0, 13, 213, 236, 10, 199, 94, 48],
     ii_accounts = idl_claimSettlementV1_accounts,
     ii_args = [] \<rparr>"

definition idl_claimSettlementV2_accounts_1 :: "idl_account list" where
  "idl_claimSettlementV2_accounts_1 = [IdlAcc ''config'' False False False None None [''bond''],
     IdlAcc ''bond'' False False False None (Some ([IdlConst [98, 111, 110, 100, 95, 97, 99, 99, 111, 117, 110, 116], IdlPath ''config'' None, IdlPath ''bond.vote_account'' (Some ''bond'')], None)) [''settlement''],
     IdlAcc ''settlement'' True False False None (Some ([IdlConst [115, 101, 116, 116, 108, 101, 109, 101, 110, 116, 95, 97, 99, 99, 111, 117, 110, 116], IdlPath ''bond'' None, IdlPath ''settlement.merkle_root'' (Some ''settlement''), IdlPath ''settlement.epoch_created_for'' (Some ''settlement'')], None)) [''settlementClaims''],
     IdlAcc ''settlementClaims'' True False False None (Some ([IdlConst [99, 108, 97, 105, 109, 115, 95, 97, 99, 99, 111, 117, 110, 116], IdlPath ''settlement'' None], None)) [],
     IdlAcc ''stakeAccountFrom'' True False False None None [],
     IdlAcc ''stakeAccountTo'' True False False None None []]"

definition idl_claimSettlementV2_accounts_2 :: "idl_account list" where
  "idl_claimSettlementV2_accounts_2 = [IdlAcc ''bondsWithdrawerAuthority'' False False False None (Some ([IdlConst [98, 111, 110, 100, 115, 95, 97, 117, 116, 104, 111, 114, 105, 116, 121], IdlPath ''config'' None], None)) [],
     IdlAcc ''stakeHistory'' False False False (Some ''SysvarStakeHistory1111111111111111111111111'') None [],
     IdlAcc ''clock'' False False False (Some ''SysvarC1ock11111111111111111111111111111111'') None [],
     IdlAcc ''stakeProgram'' False False False (Some ''Stake11111111111111111111111111111111111111'') None [],
     IdlAcc ''eventAuthority'' False False False None (Some ([IdlConst [95, 95, 101, 118, 101, 110, 116, 95, 97, 117, 116, 104, 111, 114, 105, 116, 121]], None)) [],
     IdlAcc ''program'' False False False None None []]"

definition idl_claimSettlementV2 :: "idl_instruction" where
  "idl_claimSettlementV2 = \<lparr> ii_name = ''claimSettlementV2'', ii_discriminator = [188, 53, 132, 151, 88, 50, 52, 238],
     ii_accounts = idl_claimSettlementV2_accounts_1 @ idl_claimSettlementV2_accounts_2,
     ii_args = [(''claimSettlementArgs'', IDefined ''claimSettlementV2Args'')] \<rparr>"

definition idl_claimWithdrawRequest_accounts_1 :: "idl_account list" where
  "idl_claimWithdrawRequest_accounts_1 = [IdlAcc ''config'' False False False None None [''bond''],
     IdlAcc ''bond'' False False False None (Some ([IdlConst [98, 111, 110, 100, 95, 97, 99, 99, 111, 117, 110, 116], IdlPath ''config'' None, IdlPath ''voteAccount'' None], None)) [''withdrawRequest''],
     IdlAcc ''voteAccount'' False False False None None [''bond'', ''withdrawRequest''],
     IdlAcc ''authority'' False True False None None [],
     IdlAcc ''withdrawRequest'' True False False None (Some ([IdlConst [119, 105, 116, 104, 100, 114, 97, 119, 95, 97, 99, 99, 111, 117, 110, 116], IdlPath ''bond'' None], None)) [],
     IdlAcc ''bondsWithdrawerAuthority'' False False False None (Some ([IdlConst [98, 111, 110, 100, 115, 95, 97, 117, 116, 104, 111, 114, 105, 116, 121], IdlPath ''config'' None], None)) [],
     IdlAcc ''stakeAccount'' True False False None None [],
     IdlAcc ''withdrawer'' False False False None None [],
     IdlAcc ''splitStakeAccount'' True True False None None []]"

definition idl_claimWithdrawRequest_accounts_2 :: "idl_account list" where
  "idl_claimWithdrawRequest_accounts_2 = [IdlAcc ''splitStakeRentPayer'' True True False None None [],
     IdlAcc ''stakeProgram'' False False False (Some ''Stake11111111111111111111111111111111111111'') None [],
     IdlAcc ''systemProgram'' False False False (Some ''11111111111111111111111111111111'') None [],
     IdlAcc ''stakeHistory'' False False False (Some ''SysvarStakeHistory1111111111111111111111111'') None [],
     IdlAcc ''clock'' False False False (Some ''SysvarC1ock11111111111111111111111111111111'') None [],
     IdlAcc ''eventAuthority'' False False False None (Some ([IdlConst [95, 95, 101, 118, 101, 110, 116, 95, 97, 117, 116, 104, 111, 114, 105, 116, 121]], None)) [],
     IdlAcc ''program'' False False False None None []]"

definition idl_claimWithdrawRequest :: "idl_instruction" where
  "idl_claimWithdrawRequest = \<lparr> ii_name = ''claimWithdrawRequest'', ii_discriminator = [48, 232, 23, 52, 20, 134, 122, 118],
     ii_accounts = idl_claimWithdrawRequest_accounts_1 @ idl_claimWithdrawRequest_accounts_2,
     ii_args = [] \<rparr>"

definition idl_closeSettlementV2_accounts_1 :: "idl_account list" where
  "idl_closeSettlementV2_accounts_1 = [IdlAcc ''config'' False False False None None [''bond''],
     IdlAcc ''bond'' False False False None (Some ([IdlConst [98, 111, 110, 100, 95, 97, 99, 99, 111, 117, 110, 116], IdlPath ''config'' None, IdlPath ''bond.vote_account'' (Some ''bond'')], None)) [''settlement''],
     IdlAcc ''settlement'' True False False None (Some ([IdlConst [115, 101, 116, 116, 108, 101, 109, 101, 110, 116, 95, 97, 99, 99, 111, 117, 110, 116], IdlPath ''bond'' None, IdlPath ''settlement.merkle_root'' (Some ''settlement''), IdlPath ''settlement.epoch_created_for'' (Some ''settlement'')], None)) [''settlementClaims''],
     IdlAcc ''settlementClaims'' True False False None (Some ([IdlConst [99, 108, 97, 105, 109, 115, 95, 97, 99, 99, 111, 117, 110, 116], IdlPath ''settlement'' None], None)) []]"

definition idl_closeSettlementV2_accounts_2 :: "idl_account list" where
  "idl_closeSettlementV2_accounts_2 = [IdlAcc ''bondsWithdrawerAuthority'' False False False None (Some ([IdlConst [98, 111, 110, 100, 115, 95, 97, 117, 116, 104, 111, 114, 105, 116, 121], IdlPath ''config'' None], None)) [],
     IdlAcc ''rentCollector'' True False False None None [''settlement''],
     IdlAcc ''splitRentCollector'' True False False None None [],
     IdlAcc ''splitRentRefundAccount'' True False False None None [],
     IdlAcc ''clock'' False False False (Some ''SysvarC1ock11111111111111111111111111111111'') None [],
     IdlAcc ''stakeProgram'' False False False (Some ''Stake11111111111111111111111111111111111111'') None [],
     IdlAcc ''stakeHistory'' False False False (Some ''SysvarStakeHistory1111111111111111111111111'') None [],
     IdlAcc ''eventAuthority'' False False False None (Some ([IdlConst [95, 95, 101, 118, 101, 110, 116, 95, 97, 117, 116, 104, 111, 114, 105, 116, 121]], None)) [],
     IdlAcc ''program'' False False False None None []]"

definition idl_closeSettlementV2 :: "idl_instruction" where
  "idl_closeSettlementV2 = \<lparr> ii_name = ''closeSettlementV2'', ii_discriminator = [125, 212, 89, 37, 31, 244, 191, 179],
     ii_accounts = idl_closeSettlementV2_accounts_1 @ idl_closeSettlementV2_accounts_2,
     ii_args = [] \<rparr>"

definition idl_configureBond_accounts :: "idl_account list" where
  "idl_configureBond_accounts = [IdlAcc ''config'' False False False None None [''bond''],
     IdlAcc ''bond'' True False False None (Some ([IdlConst [98, 111, 110, 100, 95, 97, 99, 99, 111, 117, 110, 116], IdlPath ''config'' None, IdlPath ''voteAccount'' None], None)) [],
     IdlAcc ''authority'' False True False None None [],
     IdlAcc ''voteAccount'' False False False None None [''bond''],
     IdlAcc ''eventAuthority'' False False False None (Some ([IdlConst [95, 95, 101, 118, 101, 110, 116, 95, 97, 117, 116, 104, 111, 114, 105, 116, 121]], None)) [],
     IdlAcc ''program'' False False False None None []]"

definition idl_configureBond :: "idl_instruction" where
  "idl_configureBond = \<lparr> ii_name = ''configureBond'', ii_discriminator = [228, 108, 79, 242, 82, 54, 105, 65],
     ii_accounts = idl_configureBond_accounts,
     ii_args = [(''configureBondArgs'', IDefined ''configureBondArgs'')] \<rparr>"

definition idl_configureBondProduct_accounts :: "idl_account list" where
  "idl_configureBondProduct_accounts = [IdlAcc ''config'' False False False None None [''bond''],
     IdlAcc ''bond'' False False False None (Some ([IdlConst [98, 111, 110, 100, 95, 97, 99, 99, 111, 117, 110, 116], IdlPath ''config'' None, IdlPath ''voteAccount'' None], None)) [''bondProduct''],
     IdlAcc ''voteAccount'' False False False None None [''bond''],
     IdlAcc ''bondProduct'' True False False None (Some ([IdlConst [98, 111, 110, 100, 95, 112, 114, 111, 100, 117, 99, 116], IdlPath ''bond'' None, IdlPath ''bond_product.product_type'' (Some ''bondProduct'')], None)) [],
     IdlAcc ''authority'' False True False None None [],
     IdlAcc ''eventAuthority'' False False False None (Some ([IdlConst [95, 95, 101, 118, 101, 110, 116, 95, 97, 117, 116, 104, 111, 114, 105, 116, 121]], None)) [],
     IdlAcc ''program'' False False False None None []]"

definition idl_configureBondProduct :: "idl_instruction" where
  "idl_configureBondProduct = \<lparr> ii_name = ''configureBondProduct'', ii_discriminator = [167, 119, 141, 123, 76, 109, 241, 133],
     ii_accounts = idl_configureBondProduct_accounts,
     ii_args = [(''configureBondProductArgs'', IDefined ''configureBondProductArgs'')] \<rparr>"

end
