(* ===== verification/Idl_Ix_B.thy ===== *)
theory Idl_Ix_B
  imports Idl_Data
begin

text \<open>
  The instructions of the interface of the on-chain program, as
  \<open>packages/validator-bonds-sdk/idl/types/validator_bonds.ts\<close> declares them.
\<close>

definition idl_configureBondWithMint_accounts :: "idl_account list" where
  "idl_configureBondWithMint_accounts = [IdlAcc ''config'' False False False None None [''bond''],
     IdlAcc ''bond'' True False False None (Some ([IdlConst [98, 111, 110, 100, 95, 97, 99, 99, 111, 117, 110, 116], IdlPath ''config'' None, IdlPath ''voteAccount'' None], None)) [],
     IdlAcc ''mint'' True False False None (Some ([IdlConst [98, 111, 110, 100, 95, 109, 105, 110, 116], IdlPath ''bond'' None, IdlArg ''params.validator_identity''], None)) [],
     IdlAcc ''voteAccount'' False False False None None [''bond''],
     IdlAcc ''tokenAccount'' True False False None None [],
     IdlAcc ''tokenAuthority'' False True False None None [],
     IdlAcc ''tokenProgram'' False False False (Some ''TokenkegQfeZyiNwAJbNbGKPFXCWuBvf9Ss623VQ5DA'') None [],
     IdlAcc ''eventAuthority'' False False False None (Some ([IdlConst [95, 95, 101, 118, 101, 110, 116, 95, 97, 117, 116, 104, 111, 114, 105, 116, 121]], None)) [],
     IdlAcc ''program'' False False False None None []]"

definition idl_configureBondWithMint :: "idl_instruction" where
  "idl_configureBondWithMint = \<lparr> ii_name = ''configureBondWithMint'', ii_discriminator = [48, 189, 230, 39, 112, 33, 227, 8],
     ii_accounts = idl_configureBondWithMint_accounts,
     ii_args = [(''args'', IDefined ''configureBondWithMintArgs'')] \<rparr>"

definition idl_configureConfig_accounts :: "idl_account list" where
  "idl_configureConfig_accounts = [IdlAcc ''config'' True False False None None [],
     IdlAcc ''adminAuthority'' False True False None None [''config''],
     IdlAcc ''eventAuthority'' False False False None (Some ([IdlConst [95, 95, 101, 118, 101, 110, 116, 95, 97, 117, 116, 104, 111, 114, 105, 116, 121]], None)) [],
     IdlAcc ''program'' False False False None None []]"

definition idl_configureConfig :: "idl_instruction" where
  "idl_configureConfig = \<lparr> ii_name = ''configureConfig'', ii_discriminator = [198, 98, 161, 165, 137, 200, 230, 203],
     ii_accounts = idl_configureConfig_accounts,
     ii_args = [(''configureConfigArgs'', IDefined ''configureConfigArgs'')] \<rparr>"

definition idl_emergencyPause_accounts :: "idl_account list" where
  "idl_emergencyPause_accounts = [IdlAcc ''config'' True False False None None [],
     IdlAcc ''pauseAuthority'' False True False None None [''config''],
     IdlAcc ''eventAuthority'' False False False None (Some ([IdlConst [95, 95, 101, 118, 101, 110, 116, 95, 97, 117, 116, 104, 111, 114, 105, 116, 121]], None)) [],
     IdlAcc ''program'' False False False None None []]"

definition idl_emergencyPause :: "idl_instruction" where
  "idl_emergencyPause = \<lparr> ii_name = ''emergencyPause'', ii_discriminator = [21, 143, 27, 142, 200, 181, 210, 255],
     ii_accounts = idl_emergencyPause_accounts,
     ii_args = [] \<rparr>"

definition idl_emergencyResume_accounts :: "idl_account list" where
  "idl_emergencyResume_accounts = [IdlAcc ''config'' True False False None None [],
     IdlAcc ''pauseAuthority'' False True False None None [''config''],
     IdlAcc ''eventAuthority'' False False False None (Some ([IdlConst [95, 95, 101, 118, 101, 110, 116, 95, 97, 117, 116, 104, 111, 114, 105, 116, 121]], None)) [],
     IdlAcc ''program'' False False False None None []]"

definition idl_emergencyResume :: "idl_instruction" where
  "idl_emergencyResume = \<lparr> ii_name = ''emergencyResume'', ii_discriminator = [0, 243, 48, 185, 6, 73, 190, 83],
     ii_accounts = idl_emergencyResume_accounts,
     ii_args = [] \<rparr>"

definition idl_fundBond_accounts :: "idl_account list" where
  "idl_fundBond_accounts = [IdlAcc ''config'' False False False None None [''bond''],
     IdlAcc ''bond'' False False False None (Some ([IdlConst [98, 111, 110, 100, 95, 97, 99, 99, 111, 117, 110, 116], IdlPath ''config'' None, IdlPath ''bond.vote_account'' (Some ''bond'')], None)) [],
     IdlAcc ''bondsWithdrawerAuthority'' False False False None (Some ([IdlConst [98, 111, 110, 100, 115, 95, 97, 117, 116, 104, 111, 114, 105, 116, 121], IdlPath ''config'' None], None)) [],
     IdlAcc ''stakeAccount'' True False False None None [],
     IdlAcc ''stakeAuthority'' False True False None None [],
     IdlAcc ''clock'' False False False (Some ''SysvarC1ock11111111111111111111111111111111'') None [],
     IdlAcc ''stakeHistory'' False False False (Some ''SysvarStakeHistory1111111111111111111111111'') None [],
     IdlAcc ''stakeProgram'' False False False (Some ''Stake11111111111111111111111111111111111111'') None [],
     IdlAcc ''eventAuthority'' False False False None (Some ([IdlConst [95, 95, 101, 118, 101, 110, 116, 95, 97, 117, 116, 104, 111, 114, 105, 116, 121]], None)) [],
     IdlAcc ''program'' False False False None None []]"

definition idl_fundBond :: "idl_instruction" where
  "idl_fundBond = \<lparr> ii_name = ''fundBond'', ii_discriminator = [58, 44, 212, 175, 30, 17, 68, 62],
     ii_accounts = idl_fundBond_accounts,
     ii_args = [] \<rparr>"

definition idl_fundSettlement_accounts_1 :: "idl_account list" where
  "idl_fundSettlement_accounts_1 = [IdlAcc ''config'' False False False None None [''bond''],
     IdlAcc ''bond'' False False False None (Some ([IdlConst [98, 111, 110, 100, 95, 97, 99, 99, 111, 117, 110, 116], IdlPath ''config'' None, IdlPath ''voteAccount'' None], None)) [''settlement''],
     IdlAcc ''voteAccount'' False False False None None [''bond''],
     IdlAcc ''settlement'' True False False None (Some ([IdlConst [115, 101, 116, 116, 108, 101, 109, 101, 110, 116, 95, 97, 99, 99, 111, 117, 110, 116], IdlPath ''bond'' None, IdlPath ''settlement.merkle_root'' (Some ''settlement''), IdlPath ''settlement.epoch_created_for'' (Some ''settlement'')], None)) [],
     IdlAcc ''operatorAuthority'' False True False None None [''config''],
     IdlAcc ''stakeAccount'' True False False None None []]"

definition idl_fundSettlement_accounts_2 :: "idl_account list" where
  "idl_fundSettlement_accounts_2 = [IdlAcc ''settlementStakerAuthority'' False False False None (Some ([IdlConst [115, 101, 116, 116, 108, 101, 109, 101, 110, 116, 95, 97, 117, 116, 104, 111, 114, 105, 116, 121], IdlPath ''settlement'' None], None)) [],
     IdlAcc ''bondsWithdrawerAuthority'' False False False None (Some ([IdlConst [98, 111, 110, 100, 115, 95, 97, 117, 116, 104, 111, 114, 105, 116, 121], IdlPath ''config'' None], None)) [],
     IdlAcc ''splitStakeAccount'' True True False None None [],
     IdlAcc ''splitStakeRentPayer'' True True False None None [],
     IdlAcc ''systemProgram'' False False False (Some ''11111111111111111111111111111111'') None [],
     IdlAcc ''stakeHistory'' False False False (Some ''SysvarStakeHistory1111111111111111111111111'') None [],
     IdlAcc ''clock'' False False False (Some ''SysvarC1ock11111111111111111111111111111111'') None [],
     IdlAcc ''rent'' False False False (Some ''SysvarRent111111111111111111111111111111111'') None [],
     IdlAcc ''stakeProgram'' False False False (Some ''Stake11111111111111111111111111111111111111'') None [],
     IdlAcc ''stakeConfig'' False False False (Some ''StakeConfig11111111111111111111111111111111'') None []]"

definition idl_fundSettlement_accounts_3 :: "idl_account list" where
  "idl_fundSettlement_accounts_3 = [IdlAcc ''eventAuthority'' False False False None (Some ([IdlConst [95, 95, 101, 118, 101, 110, 116, 95, 97, 117, 116, 104, 111, 114, 105, 116, 121]], None)) [],
     IdlAcc ''program'' False False False None None []]"

definition idl_fundSettlement :: "idl_instruction" where
  "idl_fundSettlement = \<lparr> ii_name = ''fundSettlement'', ii_discriminator = [179, 146, 113, 34, 30, 92, 26, 19],
     ii_accounts = idl_fundSettlement_accounts_1 @ idl_fundSettlement_accounts_2 @ idl_fundSettlement_accounts_3,
     ii_args = [] \<rparr>"

definition idl_initBond_accounts :: "idl_account list" where
  "idl_initBond_accounts = [IdlAcc ''config'' False False False None None [],
     IdlAcc ''voteAccount'' False False False None None [],
     IdlAcc ''validatorIdentity'' False True True None None [],
     IdlAcc ''bond'' True False False None (Some ([IdlConst [98, 111, 110, 100, 95, 97, 99, 99, 111, 117, 110, 116], IdlPath ''config'' None, IdlPath ''voteAccount'' None], None)) [],
     IdlAcc ''rentPayer'' True True False None None [],
     IdlAcc ''systemProgram'' False False False (Some ''11111111111111111111111111111111'') None [],
     IdlAcc ''eventAuthority'' False False False None (Some ([IdlConst [95, 95, 101, 118, 101, 110, 116, 95, 97, 117, 116, 104, 111, 114, 105, 116, 121]], None)) [],
     IdlAcc ''program'' False False False None None []]"

definition idl_initBond :: "idl_instruction" where
  "idl_initBond = \<lparr> ii_name = ''initBond'', ii_discriminator = [95, 93, 93, 181, 221, 36, 126, 64],
     ii_accounts = idl_initBond_accounts,
     ii_args = [(''initBondArgs'', IDefined ''initBondArgs'')] \<rparr>"

definition idl_initBondProduct_accounts :: "idl_account list" where
  "idl_initBondProduct_accounts = [IdlAcc ''config'' False False False None None [''bond''],
     IdlAcc ''bond'' True False False None (Some ([IdlConst [98, 111, 110, 100, 95, 97, 99, 99, 111, 117, 110, 116], IdlPath ''config'' None, IdlPath ''voteAccount'' None], None)) [],
     IdlAcc ''voteAccount'' False False False None None [''bond''],
     IdlAcc ''bondProduct'' True False False None (Some ([IdlConst [98, 111, 110, 100, 95, 112, 114, 111, 100, 117, 99, 116], IdlPath ''bond'' None, IdlArg ''args.product_type''], None)) [],
     IdlAcc ''authority'' False True True None None [],
     IdlAcc ''rentPayer'' True True False None None [],
     IdlAcc ''systemProgram'' False False False (Some ''11111111111111111111111111111111'') None [],
     IdlAcc ''eventAuthority'' False False False None (Some ([IdlConst [95, 95, 101, 118, 101, 110, 116, 95, 97, 117, 116, 104, 111, 114, 105, 116, 121]], None)) [],
     IdlAcc ''program'' False False False None None []]"

definition idl_initBondProduct :: "idl_instruction" where
  "idl_initBondProduct = \<lparr> ii_name = ''initBondProduct'', ii_discriminator = [228, 35, 205, 119, 63, 209, 72, 56],
     ii_accounts = idl_initBondProduct_accounts,
     ii_args = [(''initBondProductArgs'', IDefined ''initBondProductArgs'')] \<rparr>"

end
