(* ===== verification/Idl_Ix_C.thy ===== *)
theory Idl_Ix_C
  imports Idl_Data
begin

text \<open>
  The instructions of the interface of the on-chain program, as
  \<open>packages/validator-bonds-sdk/idl/types/validator_bonds.ts\<close> declares them.
\<close>

definition idl_initConfig_accounts :: "idl_account list" where
  "idl_initConfig_accounts = [IdlAcc ''config'' True True False None None [],
     IdlAcc ''rentPayer'' True True False None None [],
     IdlAcc ''systemProgram'' False False False (Some ''11111111111111111111111111111111'') None [],
     IdlAcc ''eventAuthority'' False False False None (Some ([IdlConst [95, 95, 101, 118, 101, 110, 116, 95, 97, 117, 116, 104, 111, 114, 105, 116, 121]], None)) [],
     IdlAcc ''program'' False False False None None []]"

definition idl_initConfig :: "idl_instruction" where
  "idl_initConfig = \<lparr> ii_name = ''initConfig'', ii_discriminator = [23, 235, 115, 232, 168, 96, 1, 231],
     ii_accounts = idl_initConfig_accounts,
     ii_args = [(''initConfigArgs'', IDefined ''initConfigArgs'')] \<rparr>"

definition idl_initSettlement_accounts_1 :: "idl_account list" where
  "idl_initSettlement_accounts_1 = [IdlAcc ''config'' False False False None None [''bond''],
     IdlAcc ''bond'' False False False None (Some ([IdlConst [98, 111, 110, 100, 95, 97, 99, 99, 111, 117, 110, 116], IdlPath ''config'' None, IdlPath ''bond.vote_account'' (Some ''bond'')], None)) [],
     IdlAcc ''settlement'' True False False None (Some ([IdlConst [115, 101, 116, 116, 108, 101, 109, 101, 110, 116, 95, 97, 99, 99, 111, 117, 110, 116], IdlPath ''bond'' None, IdlArg ''params.merkle_root'', IdlArg ''params.epoch''], None)) [],
     IdlAcc ''settlementClaims'' True False False None (Some ([IdlConst [99, 108, 97, 105, 109, 115, 95, 97, 99, 99, 111, 117, 110, 116], IdlPath ''settlement'' None], None)) [],
     IdlAcc ''operatorAuthority'' False True False None None [''config''],
     IdlAcc ''rentPayer'' True True False None None [],
     IdlAcc ''systemProgram'' False False False (Some ''11111111111111111111111111111111'') None []]"

definition idl_initSettlement_accounts_2 :: "idl_account list" where
  "idl_initSettlement_accounts_2 = [IdlAcc ''eventAuthority'' False False False None (Some ([IdlConst [95, 95, 101, 118, 101, 110, 116, 95, 97, 117, 116, 104, 111, 114, 105, 116, 121]], None)) [],
     IdlAcc ''program'' False False False None None []]"

definition idl_initSettlement :: "idl_instruction" where
  "idl_initSettlement = \<lparr> ii_name = ''initSettlement'', ii_discriminator = [152, 178, 0, 65, 52, 210, 247, 58],
     ii_accounts = idl_initSettlement_accounts_1 @ idl_initSettlement_accounts_2,
     ii_args = [(''initSettlementArgs'', IDefined ''initSettlementArgs'')] \<rparr>"

definition idl_initWithdrawRequest_accounts :: "idl_account list" where
  "idl_initWithdrawRequest_accounts = [IdlAcc ''config'' False False False None None [''bond''],
     IdlAcc ''bond'' False False False None (Some ([IdlConst [98, 111, 110, 100, 95, 97, 99, 99, 111, 117, 110, 116], IdlPath ''config'' None, IdlPath ''voteAccount'' None], None)) [],
     IdlAcc ''voteAccount'' False False False None None [''bond''],
     IdlAcc ''authority'' False True False None None [],
     IdlAcc ''withdrawRequest'' True False False None (Some ([IdlConst [119, 105, 116, 104, 100, 114, 97, 119, 95, 97, 99, 99, 111, 117, 110, 116], IdlPath ''bond'' None], None)) [],
     IdlAcc ''rentPayer'' True True False None None [],
     IdlAcc ''systemProgram'' False False False (Some ''11111111111111111111111111111111'') None [],
     IdlAcc ''eventAuthority'' False False False None (Some ([IdlConst [95, 95, 101, 118, 101, 110, 116, 95, 97, 117, 116, 104, 111, 114, 105, 116, 121]], None)) [],
     IdlAcc ''program'' False False False None None []]"

definition idl_initWithdrawRequest :: "idl_instruction" where
  "idl_initWithdrawRequest = \<lparr> ii_name = ''initWithdrawRequest'', ii_discriminator = [142, 31, 222, 215, 83, 79, 34, 49],
     ii_accounts = idl_initWithdrawRequest_accounts,
     ii_args = [(''createWithdrawRequestArgs'', IDefined ''initWithdrawRequestArgs'')] \<rparr>"

definition idl_mergeStake_accounts :: "idl_account list" where
  "idl_mergeStake_accounts = [IdlAcc ''config'' False False False None None [],
     IdlAcc ''sourceStake'' True False False None None [],
     IdlAcc ''destinationStake'' True False False None None [],
     IdlAcc ''stakerAuthority'' False False False None None [],
     IdlAcc ''stakeHistory'' False False False (Some ''SysvarStakeHistory1111111111111111111111111'') None [],
     IdlAcc ''clock'' False False False (Some ''SysvarC1ock11111111111111111111111111111111'') None [],
     IdlAcc ''stakeProgram'' False False False (Some ''Stake11111111111111111111111111111111111111'') None [],
     IdlAcc ''eventAuthority'' False False False None (Some ([IdlConst [95, 95, 101, 118, 101, 110, 116, 95, 97, 117, 116, 104, 111, 114, 105, 116, 121]], None)) [],
     IdlAcc ''program'' False False False None None []]"

definition idl_mergeStake :: "idl_instruction" where
  "idl_mergeStake = \<lparr> ii_name = ''mergeStake'', ii_discriminator = [14, 3, 146, 23, 163, 105, 246, 99],
     ii_accounts = idl_mergeStake_accounts,
     ii_args = [(''mergeArgs'', IDefined ''mergeStakeArgs'')] \<rparr>"

definition idl_mintBond_accounts_1 :: "idl_account list" where
  "idl_mintBond_accounts_1 = [IdlAcc ''config'' False False False None None [''bond''],
     IdlAcc ''bond'' False False False None (Some ([IdlConst [98, 111, 110, 100, 95, 97, 99, 99, 111, 117, 110, 116], IdlPath ''config'' None, IdlPath ''voteAccount'' None], None)) [],
     IdlAcc ''mint'' True False False None (Some ([IdlConst [98, 111, 110, 100, 95, 109, 105, 110, 116], IdlPath ''bond'' None, IdlPath ''validatorIdentity'' None], None)) [],
     IdlAcc ''validatorIdentity'' False False False None None []]"

definition idl_mintBond_accounts_2 :: "idl_account list" where
  "idl_mintBond_accounts_2 = [IdlAcc ''validatorIdentityTokenAccount'' True False False None (Some ([IdlPath ''validatorIdentity'' None, IdlConst [6, 221, 246, 225, 215, 101, 161, 147, 217, 203, 225, 70, 206, 235, 121, 172, 28, 180, 133, 237, 95, 91, 55, 145, 58, 140, 245, 133, 126, 255, 0, 169], IdlPath ''mint'' None], Some (IdlConst [140, 151, 37, 143, 78, 36, 137, 241, 187, 61, 16, 41, 20, 142, 13, 131, 11, 90, 19, 153, 218, 255, 16, 132, 4, 142, 123, 216, 219, 233, 248, 89]))) [],
     IdlAcc ''voteAccount'' False False False None None [''bond''],
     IdlAcc ''metadata'' True False False None None [],
     IdlAcc ''rentPayer'' True True False None None [],
     IdlAcc ''systemProgram'' False False False (Some ''11111111111111111111111111111111'') None [],
     IdlAcc ''tokenProgram'' False False False (Some ''TokenkegQfeZyiNwAJbNbGKPFXCWuBvf9Ss623VQ5DA'') None [],
     IdlAcc ''associatedTokenProgram'' False False False (Some ''ATokenGPvbdGVxr1b2hvZbsiqW5xWH25efTNsLJA8knL'') None [],
     IdlAcc ''metadataProgram'' False False False (Some ''metaqbxxUerdq28cj1RbAWkYQm3ybzjb6a8bt518x1s'') None [],
     IdlAcc ''rent'' False False False (Some ''SysvarRent111111111111111111111111111111111'') None []]"

definition idl_mintBond_accounts_3 :: "idl_account list" where
  "idl_mintBond_accounts_3 = [IdlAcc ''eventAuthority'' False False False None (Some ([IdlConst [95, 95, 101, 118, 101, 110, 116, 95, 97, 117, 116, 104, 111, 114, 105, 116, 121]], None)) [],
     IdlAcc ''program'' False False False None None []]"

definition idl_mintBond :: "idl_instruction" where
  "idl_mintBond = \<lparr> ii_name = ''mintBond'', ii_discriminator = [234, 94, 85, 225, 167, 102, 169, 32],
     ii_accounts = idl_mintBond_accounts_1 @ idl_mintBond_accounts_2 @ idl_mintBond_accounts_3,
     ii_args = [] \<rparr>"

definition idl_resetStake_accounts_1 :: "idl_account list" where
  "idl_resetStake_accounts_1 = [IdlAcc ''config'' False False False None None [''bond''],
     IdlAcc ''bond'' False False False None (Some ([IdlConst [98, 111, 110, 100, 95, 97, 99, 99, 111, 117, 110, 116], IdlPath ''config'' None, IdlPath ''voteAccount'' None], None)) [],
     IdlAcc ''settlement'' False False False None None [],
     IdlAcc ''stakeAccount'' True False False None None [],
     IdlAcc ''bondsWithdrawerAuthority'' False False False None (Some ([IdlConst [98, 111, 110, 100, 115, 95, 97, 117, 116, 104, 111, 114, 105, 116, 121], IdlPath ''config'' None], None)) [],
     IdlAcc ''voteAccount'' False False False None None [''bond''],
     IdlAcc ''stakeHistory'' False False False (Some ''SysvarStakeHistory1111111111111111111111111'') None [],
     IdlAcc ''stakeConfig'' False False False (Some ''StakeConfig11111111111111111111111111111111'') None [],
     IdlAcc ''clock'' False False False (Some ''SysvarC1ock11111111111111111111111111111111'') None [],
     IdlAcc ''stakeProgram'' False False False (Some ''Stake11111111111111111111111111111111111111'') None [],
     IdlAcc ''eventAuthority'' False False False None (Some ([IdlConst [95, 95, 101, 118, 101, 110, 116, 95, 97, 117, 116, 104, 111, 114, 105, 116, 121]], None)) []]"

definition idl_resetStake_accounts_2 :: "idl_account list" where
  "idl_resetStake_accounts_2 = [IdlAcc ''program'' False False False None None []]"

definition idl_resetStake :: "idl_instruction" where
  "idl_resetStake = \<lparr> ii_name = ''resetStake'', ii_discriminator = [183, 37, 69, 159, 163, 139, 212, 235],
     ii_accounts = idl_resetStake_accounts_1 @ idl_resetStake_accounts_2,
     ii_args = [] \<rparr>"

definition idl_upsizeSettlementClaims_accounts :: "idl_account list" where
  "idl_upsizeSettlementClaims_accounts = [IdlAcc ''settlementClaims'' True False False None (Some ([IdlConst [99, 108, 97, 105, 109, 115, 95, 97, 99, 99, 111, 117, 110, 116], IdlPath ''settlement_claims.settlement'' (Some ''settlementClaims'')], None)) [],
     IdlAcc ''rentPayer'' True True False None None [],
     IdlAcc ''systemProgram'' False False False (Some ''11111111111111111111111111111111'') None []]"

definition idl_upsizeSettlementClaims :: "idl_instruction" where
  "idl_upsizeSettlementClaims = \<lparr> ii_name = ''upsizeSettlementClaims'', ii_discriminator = [207, 46, 34, 88, 141, 36, 63, 132],
     ii_accounts = idl_upsizeSettlementClaims_accounts,
     ii_args = [] \<rparr>"

definition idl_withdrawStake_accounts :: "idl_account list" where
  "idl_withdrawStake_accounts = [IdlAcc ''config'' False False False None None [],
     IdlAcc ''operatorAuthority'' False True False None None [''config''],
     IdlAcc ''settlement'' False False False None None [],
     IdlAcc ''stakeAccount'' True False False None None [],
     IdlAcc ''bondsWithdrawerAuthority'' False False False None (Some ([IdlConst [98, 111, 110, 100, 115, 95, 97, 117, 116, 104, 111, 114, 105, 116, 121], IdlPath ''config'' None], None)) [],
     IdlAcc ''withdrawTo'' True False False None None [],
     IdlAcc ''stakeHistory'' False False False (Some ''SysvarStakeHistory1111111111111111111111111'') None [],
     IdlAcc ''clock'' False False False (Some ''SysvarC1ock11111111111111111111111111111111'') None [],
     IdlAcc ''stakeProgram'' False False False (Some ''Stake11111111111111111111111111111111111111'') None [],
     IdlAcc ''eventAuthority'' False False False None (Some ([IdlConst [95, 95, 101, 118, 101, 110, 116, 95, 97, 117, 116, 104, 111, 114, 105, 116, 121]], None)) [],
     IdlAcc ''program'' False False False None None []]"

definition idl_withdrawStake :: "idl_instruction" where
  "idl_withdrawStake = \<lparr> ii_name = ''withdrawStake'', ii_discriminator = [153, 8, 22, 138, 105, 176, 87, 66],
     ii_accounts = idl_withdrawStake_accounts,
     ii_args = [] \<rparr>"

end
