(* ===== verification/Idl_Program.thy ===== *)
theory Idl_Program
  imports Idl_Types Idl_Ix_A Idl_Ix_B Idl_Ix_C
begin

text \<open>
  The interface of the on-chain program as a whole: address, instructions, accounts, events,
  errors and constants.
\<close>

definition idl_accounts :: "(string \<times> byte list) list" where
  "idl_accounts = [(''bond'', [224, 128, 48, 251, 182, 246, 111, 196]),
     (''bondProduct'', [135, 68, 116, 146, 5, 75, 127, 143]),
     (''config'', [155, 12, 170, 224, 30, 250, 204, 130]),
     (''settlement'', [55, 11, 219, 33, 36, 136, 40, 182]),
     (''settlementClaim'', [216, 103, 231, 246, 171, 99, 124, 133]),
     (''settlementClaims'', [32, 130, 62, 175, 231, 54, 170, 114]),
     (''withdrawRequest'', [186, 239, 174, 191, 189, 13, 47, 196])]"

definition idl_events_1 :: "(string \<times> byte list) list" where
  "idl_events_1 = [(''cancelSettlementEvent'', [80, 190, 161, 61, 97, 7, 242, 92]),
     (''cancelWithdrawRequestEvent'', [221, 97, 104, 35, 19, 137, 248, 246]),
     (''claimSettlementEvent'', [135, 253, 145, 233, 227, 29, 188, 141]),
     (''claimSettlementV2Event'', [114, 201, 131, 134, 182, 165, 237, 47]),
     (''claimWithdrawRequestEvent'', [201, 210, 144, 108, 235, 209, 85, 58]),
     (''closeSettlementEvent'', [226, 173, 111, 111, 105, 218, 118, 103]),
     (''configureBondEvent'', [183, 119, 162, 244, 82, 182, 114, 228]),
     (''configureBondProductEvent'', [15, 80, 219, 241, 47, 206, 5, 179]),
     (''configureBondWithMintEvent'', [209, 167, 200, 198, 99, 71, 4, 96]),
     (''configureConfigEvent'', [121, 240, 38, 122, 0, 102, 203, 122]),
     (''emergencyPauseEvent'', [159, 241, 192, 232, 29, 208, 51, 21])]"

definition idl_events_2 :: "(string \<times> byte list) list" where
  "idl_events_2 = [(''emergencyResumeEvent'', [19, 211, 43, 129, 45, 168, 226, 200]),
     (''fundBondEvent'', [156, 63, 156, 252, 109, 181, 73, 110]),
     (''fundSettlementEvent'', [104, 161, 6, 77, 82, 236, 4, 114]),
     (''initBondEvent'', [56, 106, 209, 158, 171, 85, 159, 200]),
     (''initBondProductEvent'', [159, 222, 72, 56, 134, 104, 96, 161]),
     (''initConfigEvent'', [125, 127, 160, 86, 247, 110, 50, 238]),
     (''initSettlementEvent'', [187, 195, 46, 129, 116, 83, 231, 241]),
     (''initWithdrawRequestEvent'', [122, 40, 131, 105, 70, 35, 119, 128]),
     (''mergeStakeEvent'', [111, 6, 45, 208, 79, 53, 119, 57]),
     (''mintBondEvent'', [82, 190, 245, 33, 35, 128, 142, 197]),
     (''resetStakeEvent'', [255, 49, 219, 199, 119, 10, 195, 177])]"

definition idl_events_3 :: "(string \<times> byte list) list" where
  "idl_events_3 = [(''withdrawStakeEvent'', [47, 85, 239, 214, 207, 29, 151, 88])]"

definition idl_events :: "(string \<times> byte list) list" where
  "idl_events = idl_events_1 @ idl_events_2 @ idl_events_3"

definition idl_errors_1 :: "(int \<times> string \<times> string) list" where
  "idl_errors_1 = [(6000, ''invalidProgramId'', ''Program id in context does not match with the validator bonds id''),
     (6001, ''invalidAdminAuthority'', ''Operation requires admin authority signature''),
     (6002, ''invalidWithdrawRequestAuthority'', ''Invalid authority to operate with the withdraw request of validator bond account''),
     (6003, ''invalidOperatorAuthority'', ''Operation requires operator authority signature''),
     (6004, ''invalidVoteAccountProgramId'', ''Provided vote account is not owned by the validator vote program''),
     (6005, ''invalidStakeAccountState'', ''Fail to deserialize the stake account''),
     (6006, ''invalidStakeAccountProgramId'', ''Provided stake account is not owned by the stake account program''),
     (6007, ''invalidSettlementAddress'', ''Fail to create account address for Settlement''),
     (6008, ''invalidSettlementAuthorityAddress'', ''Fail to create PDA address for Settlement Authority''),
     (6009, ''invalidBondsWithdrawerAuthorityAddress'', ''Fail to create PDA address for Bonds Withdrawer Authority''),
     (6010, ''invalidSettlementClaimAddress'', ''Fail to create program address for SettlementClaim''),
     (6011, ''invalidBondAddress'', ''Fail to create program address for Bond''),
     (6012, ''wrongStakeAccountWithdrawer'', ''Wrong withdrawer authority of the stake account''),
     (6013, ''invalidWithdrawRequestAddress'', ''Fail to create program address for WithdrawRequest''),
     (6014, ''hundredthBasisPointsOverflow'', ''Value of hundredth basis points is too big''),
     (6015, ''hundredthBasisPointsCalculation'', ''Hundredth basis points calculation failure''),
     (6016, ''hundredthBasisPointsParse'', ''Hundredth basis points failure to parse the value''),
     (6017, ''failedToDeserializeVoteAccount'', ''Cannot deserialize validator vote account data''),
     (6018, ''bondChangeNotPermitted'', ''Wrong authority for changing the validator bond account''),
     (6019, ''stakeNotDelegated'', (''Provided stake cannot be used for bonds, it'' @ [CHR 0x27] @ ''s not delegated'')),
     (6020, ''bondStakeWrongDelegation'', ''Provided stake is delegated to a wrong validator vote account''),
     (6021, ''withdrawRequestNotReady'', ''Withdraw request has not elapsed the epoch lockup period yet''),
     (6022, ''settlementNotExpired'', ''Settlement has not expired yet''),
     (6023, ''settlementExpired'', ''Settlement has already expired''),
     (6024, ''uninitializedStake'', ''Stake is not initialized''),
     (6025, ''noStakeOrNotFullyActivated'', ''Stake account is not fully activated''),
     (6026, ''unexpectedRemainingAccounts'', ''Instruction context was provided with unexpected set of remaining accounts''),
     (6027, ''settlementNotClosed'', ''Settlement has to be closed''),
     (6028, ''stakeAccountIsFundedToSettlement'', ''Provided stake account has been already funded to a settlement'')]"

definition idl_errors_2 :: "(int \<times> string \<times> string) list" where
  "idl_errors_2 = [(6029, ''claimSettlementProofFailed'', ''Settlement claim proof failed''),
     (6030, ''stakeLockedUp'', ''Provided stake account is locked-up''),
     (6031, ''stakeAccountNotBigEnoughToSplit'', ''Stake account is not big enough to be split''),
     (6032, ''claimAmountExceedsMaxTotalClaim'', ''Claiming bigger amount than the max total claim''),
     (6033, ''claimCountExceedsMaxMerkleNodes'', ''Claim exceeded number of claimable nodes in the merkle tree''),
     (6034, ''emptySettlementMerkleTree'', ''Empty merkle tree, nothing to be claimed''),
     (6035, ''claimingStakeAccountLamportsInsufficient'', ''Provided stake account has not enough lamports to cover the claim''),
     (6036, ''stakeAccountNotFundedToSettlement'', ''Provided stake account is not funded under the settlement''),
     (6037, ''voteAccountValidatorIdentityMismatch'', ''Validator vote account does not match to provided validator identity signature''),
     (6038, ''voteAccountMismatch'', ''Bond vote account address does not match with the provided validator vote account''),
     (6039, ''configAccountMismatch'', ''Bond config address does not match with the provided config account''),
     (6040, ''withdrawRequestVoteAccountMismatch'', ''Withdraw request vote account address does not match with the provided validator vote account''),
     (6041, ''bondAccountMismatch'', ''Bond account address does not match with the stored one''),
     (6042, ''settlementAccountMismatch'', ''Settlement account address does not match with the stored one''),
     (6043, ''rentCollectorMismatch'', ''Rent collector address does not match permitted rent collector''),
     (6044, ''stakerAuthorityMismatch'', (''Stake account'' @ [CHR 0x27] @ ''s staker does not match with the provided authority'')),
     (6045, ''nonBondStakeAuthorities'', ''One or both stake authorities does not belong to bonds program''),
     (6046, ''settlementAuthorityMismatch'', ''Stake account staker authority mismatches with the settlement authority''),
     (6047, ''stakeDelegationMismatch'', ''Delegation of provided stake account mismatches''),
     (6048, ''withdrawRequestAmountTooSmall'', ''Too small non-withdrawn withdraw request amount, cancel and init new one''),
     (6049, ''withdrawRequestAlreadyFulfilled'', ''Withdraw request has been already fulfilled''),
     (6050, ''claimSettlementMerkleTreeNodeMismatch'', ''Claim settlement merkle tree node mismatch''),
     (6051, ''wrongStakeAccountStaker'', ''Wrong staker authority of the stake account''),
     (6052, ''alreadyPaused'', ''Requested pause and already Paused''),
     (6053, ''notPaused'', ''Requested resume, but not Paused''),
     (6054, ''programIsPaused'', ''Emergency Pause is Active''),
     (6055, ''invalidPauseAuthority'', ''Invalid pause authority''),
     (6056, ''mergeMismatchSameSourceDestination'', ''Source and destination cannot be the same for merge operation''),
     (6057, ''wrongStakeAccountState'', ''Wrong state of the stake account'')]"

definition idl_errors_3 :: "(int \<times> string \<times> string) list" where
  "idl_errors_3 = [(6058, ''validatorIdentityBondMintMismatch'', ''Validator identity mismatch for bond mint''),
     (6059, ''invalidBondMintSupply'', ''Bond mint permits only a single token to exist''),
     (6060, ''operatorAndPauseAuthorityMismatch'', ''Operation permitted only to operator or pause authority''),
     (6061, ''settlementNotReadyForClaiming'', ''Settlement slots to start claiming not expired yet''),
     (6062, ''invalidVoteAccountType'', ''Unsupported vote account type to deserialize''),
     (6063, ''maxStakeWantedTooLow'', ''Max stake wanted value is lower to minimum configured value''),
     (6064, ''noStakeOrNotActivatingOrActivated'', ''Stake account is not activating or activated''),
     (6065, ''bitmapSizeMismatch'', ''Data size mismatch for the bitmap''),
     (6066, ''bitmapIndexOutOfBonds'', ''Bitmap index out of bounds''),
     (6067, ''settlementClaimsNotInitialized'', ''SettlementClaims account not fully initialized, missing data size''),
     (6068, ''settlementClaimsTooManyRecords'', ''SettlementClaims records exceed maximum to fit Solana account size''),
     (6069, ''settlementClaimsAlreadyInitialized'', ''SettlementClaims already initialized, no need to increase account size''),
     (6070, ''settlementAlreadyClaimed'', ''Settlement has been already claimed''),
     (6071, ''invalidStakeHistoryEntry'', ''Failed to obtain stake history entry''),
     (6072, ''invalidProductType'', ''Invalid Bond Product type''),
     (6073, ''invalidBondProductData'', ''Invalid data for Bond Product''),
     (6074, ''bondProductSerializationError'', ''Failed to serialize Bond Product''),
     (6075, ''bondProductTypeMismatch'', ''Failed to serialize Bond Product''),
     (6076, ''bondProductSetupNotPermitted'', ''Wrong authority to setup the validator bond product account''),
     (6077, ''invalidBondProductAddress'', ''Fail to create program address for Bond Product''),
     (6078, ''productTypeConfigValidationFailure'', ''Fail to validate ProductConfig value'')]"

definition idl_errors :: "(int \<times> string \<times> string) list" where
  "idl_errors = idl_errors_1 @ idl_errors_2 @ idl_errors_3"

definition idl_constants :: "(string \<times> string \<times> string) list" where
  "idl_constants = [(''bondsWithdrawerAuthoritySeed'', ''bytes'', ''[98, 111, 110, 100, 115, 95, 97, 117, 116, 104, 111, 114, 105, 116, 121]''),
     (''bondMintSeed'', ''bytes'', ''[98, 111, 110, 100, 95, 109, 105, 110, 116]''),
     (''bondProductSeed'', ''bytes'', ''[98, 111, 110, 100, 95, 112, 114, 111, 100, 117, 99, 116]''),
     (''bondSeed'', ''bytes'', ''[98, 111, 110, 100, 95, 97, 99, 99, 111, 117, 110, 116]''),
     (''programId'', ''string'', ([CHR 0x22] @ ''vBoNdEvzMrSai7is21XgVYik65mqtaKXuSdMBJ1xkW4'' @ [CHR 0x22])),
     (''settlementClaimsAnchorHeaderSize'', ''u8'', ''56''),
     (''settlementClaimsSeed'', ''bytes'', ''[99, 108, 97, 105, 109, 115, 95, 97, 99, 99, 111, 117, 110, 116]''),
     (''settlementClaimSeed'', ''bytes'', ''[99, 108, 97, 105, 109, 95, 97, 99, 99, 111, 117, 110, 116]''),
     (''settlementSeed'', ''bytes'', ''[115, 101, 116, 116, 108, 101, 109, 101, 110, 116, 95, 97, 99, 99, 111, 117, 110, 116]''),
     (''settlementStakerAuthoritySeed'', ''bytes'', ''[115, 101, 116, 116, 108, 101, 109, 101, 110, 116, 95, 97, 117, 116, 104, 111, 114, 105, 116, 121]''),
     (''withdrawRequestSeed'', ''bytes'', ''[119, 105, 116, 104, 100, 114, 97, 119, 95, 97, 99, 99, 111, 117, 110, 116]'')]"

definition idl_address :: string where
  "idl_address = ''vBoNdEvzMrSai7is21XgVYik65mqtaKXuSdMBJ1xkW4''"

definition idl_instructions :: "idl_instruction list" where
  "idl_instructions = [idl_cancelSettlement,
     idl_cancelWithdrawRequest,
     idl_claimSettlementV1,
     idl_claimSettlementV2,
     idl_claimWithdrawRequest,
     idl_closeSettlementV2,
     idl_configureBond,
     idl_configureBondProduct,
     idl_configureBondWithMint,
     idl_configureConfig,
     idl_emergencyPause,
     idl_emergencyResume,
     idl_fundBond,
     idl_fundSettlement,
     idl_initBond,
     idl_initBondProduct,
     idl_initConfig,
     idl_initSettlement,
     idl_initWithdrawRequest,
     idl_mergeStake,
     idl_mintBond,
     idl_resetStake,
     idl_upsizeSettlementClaims,
     idl_withdrawStake]"

end
