(* ===== verification/Cod_Errors.thy ===== *)
theory Cod_Errors
  imports Cod_Client
begin

text \<open>
  The errors of the program in the generated client:
  \<open>packages/validator-bonds-codama/src/errors/validatorBonds.ts\<close>. The bundle is a production
  one when the environment says so; \<open>isProgramError\<close> is the library's.
\<close>

definition VALIDATOR_BONDS_ERRORS_1 :: "(string \<times> int) list" where
  "VALIDATOR_BONDS_ERRORS_1 = [(''INVALID_PROGRAM_ID'', 6000),
     (''INVALID_ADMIN_AUTHORITY'', 6001),
     (''INVALID_WITHDRAW_REQUEST_AUTHORITY'', 6002),
     (''INVALID_OPERATOR_AUTHORITY'', 6003),
     (''INVALID_VOTE_ACCOUNT_PROGRAM_ID'', 6004),
     (''INVALID_STAKE_ACCOUNT_STATE'', 6005),
     (''INVALID_STAKE_ACCOUNT_PROGRAM_ID'', 6006),
     (''INVALID_SETTLEMENT_ADDRESS'', 6007),
     (''INVALID_SETTLEMENT_AUTHORITY_ADDRESS'', 6008),
     (''INVALID_BONDS_WITHDRAWER_AUTHORITY_ADDRESS'', 6009),
     (''INVALID_SETTLEMENT_CLAIM_ADDRESS'', 6010),
     (''INVALID_BOND_ADDRESS'', 6011),
     (''WRONG_STAKE_ACCOUNT_WITHDRAWER'', 6012),
     (''INVALID_WITHDRAW_REQUEST_ADDRESS'', 6013),
     (''HUNDREDTH_BASIS_POINTS_OVERFLOW'', 6014),
     (''HUNDREDTH_BASIS_POINTS_CALCULATION'', 6015),
     (''HUNDREDTH_BASIS_POINTS_PARSE'', 6016),
     (''FAILED_TO_DESERIALIZE_VOTE_ACCOUNT'', 6017),
     (''BOND_CHANGE_NOT_PERMITTED'', 6018),
     (''STAKE_NOT_DELEGATED'', 6019),
     (''BOND_STAKE_WRONG_DELEGATION'', 6020),
     (''WITHDRAW_REQUEST_NOT_READY'', 6021),
     (''SETTLEMENT_NOT_EXPIRED'', 6022),
     (''SETTLEMENT_EXPIRED'', 6023),
     (''UNINITIALIZED_STAKE'', 6024),
     (''NO_STAKE_OR_NOT_FULLY_ACTIVATED'', 6025),
     (''UNEXPECTED_REMAINING_ACCOUNTS'', 6026),
     (''SETTLEMENT_NOT_CLOSED'', 6027),
     (''STAKE_ACCOUNT_IS_FUNDED_TO_SETTLEMENT'', 6028),
     (''CLAIM_SETTLEMENT_PROOF_FAILED'', 6029),
     (''STAKE_LOCKED_UP'', 6030),
     (''STAKE_ACCOUNT_NOT_BIG_ENOUGH_TO_SPLIT'', 6031),
     (''CLAIM_AMOUNT_EXCEEDS_MAX_TOTAL_CLAIM'', 6032),
     (''CLAIM_COUNT_EXCEEDS_MAX_MERKLE_NODES'', 6033),
     (''EMPTY_SETTLEMENT_MERKLE_TREE'', 6034),
     (''CLAIMING_STAKE_ACCOUNT_LAMPORTS_INSUFFICIENT'', 6035),
     (''STAKE_ACCOUNT_NOT_FUNDED_TO_SETTLEMENT'', 6036),
     (''VOTE_ACCOUNT_VALIDATOR_IDENTITY_MISMATCH'', 6037),
     (''VOTE_ACCOUNT_MISMATCH'', 6038)]"

definition VALIDATOR_BONDS_ERRORS_2 :: "(string \<times> int) list" where
  "VALIDATOR_BONDS_ERRORS_2 = [(''CONFIG_ACCOUNT_MISMATCH'', 6039),
     (''WITHDRAW_REQUEST_VOTE_ACCOUNT_MISMATCH'', 6040),
     (''BOND_ACCOUNT_MISMATCH'', 6041),
     (''SETTLEMENT_ACCOUNT_MISMATCH'', 6042),
     (''RENT_COLLECTOR_MISMATCH'', 6043),
     (''STAKER_AUTHORITY_MISMATCH'', 6044),
     (''NON_BOND_STAKE_AUTHORITIES'', 6045),
     (''SETTLEMENT_AUTHORITY_MISMATCH'', 6046),
     (''STAKE_DELEGATION_MISMATCH'', 6047),
     (''WITHDRAW_REQUEST_AMOUNT_TOO_SMALL'', 6048),
     (''WITHDRAW_REQUEST_ALREADY_FULFILLED'', 6049),
     (''CLAIM_SETTLEMENT_MERKLE_TREE_NODE_MISMATCH'', 6050),
     (''WRONG_STAKE_ACCOUNT_STAKER'', 6051),
     (''ALREADY_PAUSED'', 6052),
     (''NOT_PAUSED'', 6053),
     (''PROGRAM_IS_PAUSED'', 6054),
     (''INVALID_PAUSE_AUTHORITY'', 6055),
     (''MERGE_MISMATCH_SAME_SOURCE_DESTINATION'', 6056),
     (''WRONG_STAKE_ACCOUNT_STATE'', 6057),
     (''VALIDATOR_IDENTITY_BOND_MINT_MISMATCH'', 6058),
     (''INVALID_BOND_MINT_SUPPLY'', 6059),
     (''OPERATOR_AND_PAUSE_AUTHORITY_MISMATCH'', 6060),
     (''SETTLEMENT_NOT_READY_FOR_CLAIMING'', 6061),
     (''INVALID_VOTE_ACCOUNT_TYPE'', 6062),
     (''MAX_STAKE_WANTED_TOO_LOW'', 6063),
     (''NO_STAKE_OR_NOT_ACTIVATING_OR_ACTIVATED'', 6064),
     (''BITMAP_SIZE_MISMATCH'', 6065),
     (''BITMAP_INDEX_OUT_OF_BONDS'', 6066),
     (''SETTLEMENT_CLAIMS_NOT_INITIALIZED'', 6067),
     (''SETTLEMENT_CLAIMS_TOO_MANY_RECORDS'', 6068),
     (''SETTLEMENT_CLAIMS_ALREADY_INITIALIZED'', 6069),
     (''SETTLEMENT_ALREADY_CLAIMED'', 6070),
     (''INVALID_STAKE_HISTORY_ENTRY'', 6071),
     (''INVALID_PRODUCT_TYPE'', 6072),
     (''INVALID_BOND_PRODUCT_DATA'', 6073),
     (''BOND_PRODUCT_SERIALIZATION_ERROR'', 6074),
     (''BOND_PRODUCT_TYPE_MISMATCH'', 6075),
     (''BOND_PRODUCT_SETUP_NOT_PERMITTED'', 6076),
     (''INVALID_BOND_PRODUCT_ADDRESS'', 6077),
     (''PRODUCT_TYPE_CONFIG_VALIDATION_FAILURE'', 6078)]"

definition VALIDATOR_BONDS_ERROR :: "string \<Rightarrow> int option" where
  "VALIDATOR_BONDS_ERROR name = map_of (VALIDATOR_BONDS_ERRORS_1 @ VALIDATOR_BONDS_ERRORS_2) name"

definition ValidatorBondsError_names :: "string list" where
  "ValidatorBondsError_names = [''ALREADY_PAUSED'',
     ''BITMAP_INDEX_OUT_OF_BONDS'',
     ''BITMAP_SIZE_MISMATCH'',
     ''BOND_ACCOUNT_MISMATCH'',
     ''BOND_CHANGE_NOT_PERMITTED'',
     ''BOND_PRODUCT_SERIALIZATION_ERROR'',
     ''BOND_PRODUCT_SETUP_NOT_PERMITTED'',
     ''BOND_PRODUCT_TYPE_MISMATCH'',
     ''BOND_STAKE_WRONG_DELEGATION'',
     ''CLAIM_AMOUNT_EXCEEDS_MAX_TOTAL_CLAIM'',
     ''CLAIM_COUNT_EXCEEDS_MAX_MERKLE_NODES'',
     ''CLAIMING_STAKE_ACCOUNT_LAMPORTS_INSUFFICIENT'',
     ''CLAIM_SETTLEMENT_MERKLE_TREE_NODE_MISMATCH'',
     ''CLAIM_SETTLEMENT_PROOF_FAILED'',
     ''CONFIG_ACCOUNT_MISMATCH'',
     ''EMPTY_SETTLEMENT_MERKLE_TREE'',
     ''FAILED_TO_DESERIALIZE_VOTE_ACCOUNT'',
     ''HUNDREDTH_BASIS_POINTS_CALCULATION'',
     ''HUNDREDTH_BASIS_POINTS_OVERFLOW'',
     ''HUNDREDTH_BASIS_POINTS_PARSE'',
     ''INVALID_ADMIN_AUTHORITY'',
     ''INVALID_BOND_ADDRESS'',
     ''INVALID_BOND_MINT_SUPPLY'',
     ''INVALID_BOND_PRODUCT_ADDRESS'',
     ''INVALID_BOND_PRODUCT_DATA'',
     ''INVALID_BONDS_WITHDRAWER_AUTHORITY_ADDRESS'',
     ''INVALID_OPERATOR_AUTHORITY'',
     ''INVALID_PAUSE_AUTHORITY'',
     ''INVALID_PRODUCT_TYPE'',
     ''INVALID_PROGRAM_ID'',
     ''INVALID_SETTLEMENT_ADDRESS'',
     ''INVALID_SETTLEMENT_AUTHORITY_ADDRESS'',
     ''INVALID_SETTLEMENT_CLAIM_ADDRESS'',
     ''INVALID_STAKE_ACCOUNT_PROGRAM_ID'',
     ''INVALID_STAKE_ACCOUNT_STATE'',
     ''INVALID_STAKE_HISTORY_ENTRY'',
     ''INVALID_VOTE_ACCOUNT_PROGRAM_ID'',
     ''INVALID_VOTE_ACCOUNT_TYPE'',
     ''INVALID_WITHDRAW_REQUEST_ADDRESS'',
     ''INVALID_WITHDRAW_REQUEST_AUTHORITY'',
     ''MAX_STAKE_WANTED_TOO_LOW'',
     ''MERGE_MISMATCH_SAME_SOURCE_DESTINATION'',
     ''NON_BOND_STAKE_AUTHORITIES'',
     ''NO_STAKE_OR_NOT_ACTIVATING_OR_ACTIVATED'',
     ''NO_STAKE_OR_NOT_FULLY_ACTIVATED'',
     ''NOT_PAUSED'',
     ''OPERATOR_AND_PAUSE_AUTHORITY_MISMATCH'',
     ''PRODUCT_TYPE_CONFIG_VALIDATION_FAILURE'',
     ''PROGRAM_IS_PAUSED'',
     ''RENT_COLLECTOR_MISMATCH'',
     ''SETTLEMENT_ACCOUNT_MISMATCH'',
     ''SETTLEMENT_ALREADY_CLAIMED'',
     ''SETTLEMENT_AUTHORITY_MISMATCH'',
     ''SETTLEMENT_CLAIMS_ALREADY_INITIALIZED'',
     ''SETTLEMENT_CLAIMS_NOT_INITIALIZED'',
     ''SETTLEMENT_CLAIMS_TOO_MANY_RECORDS'',
     ''SETTLEMENT_EXPIRED'',
     ''SETTLEMENT_NOT_CLOSED'',
     ''SETTLEMENT_NOT_EXPIRED'',
     ''SETTLEMENT_NOT_READY_FOR_CLAIMING'',
     ''STAKE_ACCOUNT_IS_FUNDED_TO_SETTLEMENT'',
     ''STAKE_ACCOUNT_NOT_BIG_ENOUGH_TO_SPLIT'',
     ''STAKE_ACCOUNT_NOT_FUNDED_TO_SETTLEMENT'',
     ''STAKE_DELEGATION_MISMATCH'',
     ''STAKE_LOCKED_UP'',
     ''STAKE_NOT_DELEGATED'',
     ''STAKER_AUTHORITY_MISMATCH'',
     ''UNEXPECTED_REMAINING_ACCOUNTS'',
     ''UNINITIALIZED_STAKE'',
     ''VALIDATOR_IDENTITY_BOND_MINT_MISMATCH'',
     ''VOTE_ACCOUNT_MISMATCH'',
     ''VOTE_ACCOUNT_VALIDATOR_IDENTITY_MISMATCH'',
     ''WITHDRAW_REQUEST_ALREADY_FULFILLED'',
     ''WITHDRAW_REQUEST_AMOUNT_TOO_SMALL'',
     ''WITHDRAW_REQUEST_NOT_READY'',
     ''WITHDRAW_REQUEST_VOTE_ACCOUNT_MISMATCH'',
     ''WRONG_STAKE_ACCOUNT_STAKER'',
     ''WRONG_STAKE_ACCOUNT_STATE'',
     ''WRONG_STAKE_ACCOUNT_WITHDRAWER'']"

definition validatorBondsErrorMessages :: "(string \<times> string) list" where
  "validatorBondsErrorMessages = [(''ALREADY_PAUSED'', ''Requested pause and already Paused''),
     (''BITMAP_INDEX_OUT_OF_BONDS'', ''Bitmap index out of bounds''),
     (''BITMAP_SIZE_MISMATCH'', ''Data size mismatch for the bitmap''),
     (''BOND_ACCOUNT_MISMATCH'', ''Bond account address does not match with the stored one''),
     (''BOND_CHANGE_NOT_PERMITTED'', ''Wrong authority for changing the validator bond account''),
     (''BOND_PRODUCT_SERIALIZATION_ERROR'', ''Failed to serialize Bond Product''),
     (''BOND_PRODUCT_SETUP_NOT_PERMITTED'', ''Wrong authority to setup the validator bond product account''),
     (''BOND_PRODUCT_TYPE_MISMATCH'', ''Failed to serialize Bond Product''),
     (''BOND_STAKE_WRONG_DELEGATION'', ''Provided stake is delegated to a wrong validator vote account''),
     (''CLAIM_AMOUNT_EXCEEDS_MAX_TOTAL_CLAIM'', ''Claiming bigger amount than the max total claim''),
     (''CLAIM_COUNT_EXCEEDS_MAX_MERKLE_NODES'', ''Claim exceeded number of claimable nodes in the merkle tree''),
     (''CLAIMING_STAKE_ACCOUNT_LAMPORTS_INSUFFICIENT'', ''Provided stake account has not enough lamports to cover the claim''),
     (''CLAIM_SETTLEMENT_MERKLE_TREE_NODE_MISMATCH'', ''Claim settlement merkle tree node mismatch''),
     (''CLAIM_SETTLEMENT_PROOF_FAILED'', ''Settlement claim proof failed''),
     (''CONFIG_ACCOUNT_MISMATCH'', ''Bond config address does not match with the provided config account''),
     (''EMPTY_SETTLEMENT_MERKLE_TREE'', ''Empty merkle tree, nothing to be claimed''),
     (''FAILED_TO_DESERIALIZE_VOTE_ACCOUNT'', ''Cannot deserialize validator vote account data''),
     (''HUNDREDTH_BASIS_POINTS_CALCULATION'', ''Hundredth basis points calculation failure''),
     (''HUNDREDTH_BASIS_POINTS_OVERFLOW'', ''Value of hundredth basis points is too big''),
     (''HUNDREDTH_BASIS_POINTS_PARSE'', ''Hundredth basis points failure to parse the value''),
     (''INVALID_ADMIN_AUTHORITY'', ''Operation requires admin authority signature''),
     (''INVALID_BOND_ADDRESS'', ''Fail to create program address for Bond''),
     (''INVALID_BOND_MINT_SUPPLY'', ''Bond mint permits only a single token to exist''),
     (''INVALID_BOND_PRODUCT_ADDRESS'', ''Fail to create program address for Bond Product''),
     (''INVALID_BOND_PRODUCT_DATA'', ''Invalid data for Bond Product''),
     (''INVALID_BONDS_WITHDRAWER_AUTHORITY_ADDRESS'', ''Fail to create PDA address for Bonds Withdrawer Authority''),
     (''INVALID_OPERATOR_AUTHORITY'', ''Operation requires operator authority signature''),
     (''INVALID_PAUSE_AUTHORITY'', ''Invalid pause authority''),
     (''INVALID_PRODUCT_TYPE'', ''Invalid Bond Product type''),
     (''INVALID_PROGRAM_ID'', ''Program id in context does not match with the validator bonds id''),
     (''INVALID_SETTLEMENT_ADDRESS'', ''Fail to create account address for Settlement''),
     (''INVALID_SETTLEMENT_AUTHORITY_ADDRESS'', ''Fail to create PDA address for Settlement Authority''),
     (''INVALID_SETTLEMENT_CLAIM_ADDRESS'', ''Fail to create program address for SettlementClaim''),
     (''INVALID_STAKE_ACCOUNT_PROGRAM_ID'', ''Provided stake account is not owned by the stake account program''),
     (''INVALID_STAKE_ACCOUNT_STATE'', ''Fail to deserialize the stake account''),
     (''INVALID_STAKE_HISTORY_ENTRY'', ''Failed to obtain stake history entry''),
     (''INVALID_VOTE_ACCOUNT_PROGRAM_ID'', ''Provided vote account is not owned by the validator vote program''),
     (''INVALID_VOTE_ACCOUNT_TYPE'', ''Unsupported vote account type to deserialize''),
     (''INVALID_WITHDRAW_REQUEST_ADDRESS'', ''Fail to create program address for WithdrawRequest''),
     (''INVALID_WITHDRAW_REQUEST_AUTHORITY'', ''Invalid authority to operate with the withdraw request of validator bond account''),
     (''MAX_STAKE_WANTED_TOO_LOW'', ''Max stake wanted value is lower to minimum configured value''),
     (''MERGE_MISMATCH_SAME_SOURCE_DESTINATION'', ''Source and destination cannot be the same for merge operation''),
     (''NON_BOND_STAKE_AUTHORITIES'', ''One or both stake authorities does not belong to bonds program''),
     (''NO_STAKE_OR_NOT_ACTIVATING_OR_ACTIVATED'', ''Stake account is not activating or activated''),
     (''NO_STAKE_OR_NOT_FULLY_ACTIVATED'', ''Stake account is not fully activated''),
     (''NOT_PAUSED'', ''Requested resume, but not Paused''),
     (''OPERATOR_AND_PAUSE_AUTHORITY_MISMATCH'', ''Operation permitted only to operator or pause authority''),
     (''PRODUCT_TYPE_CONFIG_VALIDATION_FAILURE'', ''Fail to validate ProductConfig value''),
     (''PROGRAM_IS_PAUSED'', ''Emergency Pause is Active''),
     (''RENT_COLLECTOR_MISMATCH'', ''Rent collector address does not match permitted rent collector''),
     (''SETTLEMENT_ACCOUNT_MISMATCH'', ''Settlement account address does not match with the stored one''),
     (''SETTLEMENT_ALREADY_CLAIMED'', ''Settlement has been already claimed''),
     (''SETTLEMENT_AUTHORITY_MISMATCH'', ''Stake account staker authority mismatches with the settlement authority''),
     (''SETTLEMENT_CLAIMS_ALREADY_INITIALIZED'', ''SettlementClaims already initialized, no need to increase account size''),
     (''SETTLEMENT_CLAIMS_NOT_INITIALIZED'', ''SettlementClaims account not fully initialized, missing data size''),
     (''SETTLEMENT_CLAIMS_TOO_MANY_RECORDS'', ''SettlementClaims records exceed maximum to fit Solana account size''),
     (''SETTLEMENT_EXPIRED'', ''Settlement has already expired''),
     (''SETTLEMENT_NOT_CLOSED'', ''Settlement has to be closed''),
     (''SETTLEMENT_NOT_EXPIRED'', ''Settlement has not expired yet''),
     (''SETTLEMENT_NOT_READY_FOR_CLAIMING'', ''Settlement slots to start claiming not expired yet''),
     (''STAKE_ACCOUNT_IS_FUNDED_TO_SETTLEMENT'', ''Provided stake account has been already funded to a settlement''),
     (''STAKE_ACCOUNT_NOT_BIG_ENOUGH_TO_SPLIT'', ''Stake account is not big enough to be split''),
     (''STAKE_ACCOUNT_NOT_FUNDED_TO_SETTLEMENT'', ''Provided stake account is not funded under the settlement''),
     (''STAKE_DELEGATION_MISMATCH'', ''Delegation of provided stake account mismatches''),
     (''STAKE_LOCKED_UP'', ''Provided stake account is locked-up''),
     (''STAKE_NOT_DELEGATED'', ''Provided stake cannot be used for bonds, it'' @ [CHR 0x27] @ ''s not delegated''),
     (''STAKER_AUTHORITY_MISMATCH'', ''Stake account'' @ [CHR 0x27] @ ''s staker does not match with the provided authority''),
     (''UNEXPECTED_REMAINING_ACCOUNTS'', ''Instruction context was provided with unexpected set of remaining accounts''),
     (''UNINITIALIZED_STAKE'', ''Stake is not initialized''),
     (''VALIDATOR_IDENTITY_BOND_MINT_MISMATCH'', ''Validator identity mismatch for bond mint''),
     (''VOTE_ACCOUNT_MISMATCH'', ''Bond vote account address does not match with the provided validator vote account''),
     (''VOTE_ACCOUNT_VALIDATOR_IDENTITY_MISMATCH'', ''Validator vote account does not match to provided validator identity signature''),
     (''WITHDRAW_REQUEST_ALREADY_FULFILLED'', ''Withdraw request has been already fulfilled''),
     (''WITHDRAW_REQUEST_AMOUNT_TOO_SMALL'', ''Too small non-withdrawn withdraw request amount, cancel and init new one''),
     (''WITHDRAW_REQUEST_NOT_READY'', ''Withdraw request has not elapsed the epoch lockup period yet''),
     (''WITHDRAW_REQUEST_VOTE_ACCOUNT_MISMATCH'', ''Withdraw request vote account address does not match with the provided validator vote account''),
     (''WRONG_STAKE_ACCOUNT_STAKER'', ''Wrong staker authority of the stake account''),
     (''WRONG_STAKE_ACCOUNT_STATE'', ''Wrong state of the stake account''),
     (''WRONG_STAKE_ACCOUNT_WITHDRAWER'', ''Wrong withdrawer authority of the stake account'')]"

definition getValidatorBondsErrorMessage :: "bool \<Rightarrow> int \<Rightarrow> string option" where
  "getValidatorBondsErrorMessage production code = (if \<not> production
     then map_option snd (find (\<lambda>(name, msg). VALIDATOR_BONDS_ERROR name = Some code) validatorBondsErrorMessages)
     else Some ''Error message not available in production bundles.'')"

definition isValidatorBondsError :: "('e \<Rightarrow> string list \<Rightarrow> string \<Rightarrow> int option \<Rightarrow> bool) \<Rightarrow> 'e \<Rightarrow> string list \<Rightarrow> int option \<Rightarrow> bool" where
  "isValidatorBondsError isProgramError error programs code = isProgramError error programs VALIDATOR_BONDS_PROGRAM_ADDRESS code"

end
