(* ===== verification/Cod_Agree.thy ===== *)
theory Cod_Agree
  imports Cod_Tables Idl_Program Cod_Errors
begin

text \<open>
  What the interface of the program demands of a client, and that the generated client does it.
\<close>

section \<open>Codecs the interface asks for\<close>

definition capital :: "string \<Rightarrow> string" where
  "capital s = (case s of [] \<Rightarrow> [] | c # cs \<Rightarrow> let n = of_char c :: nat in
     (if 97 \<le> n \<and> n \<le> 122 then char_of (n - 32) else c) # cs)"

fun idl_codec :: "(string \<Rightarrow> codec option) \<Rightarrow> idl_type \<Rightarrow> codec option" where
  "idl_codec env (IOption t) = map_option OptionCodec (idl_codec env t)"
| "idl_codec env (IVec t) = map_option ArrayCodec (idl_codec env t)"
| "idl_codec env (IArray t n) = (if t = IU8 then Some (FixSize BytesCodec n) else None)"
| "idl_codec env (IDefined x) = env x"
| "idl_codec env IU8 = Some U8Codec"
| "idl_codec env IU16 = None"
| "idl_codec env IU32 = Some U32Codec"
| "idl_codec env IU64 = Some U64Codec"
| "idl_codec env II64 = Some I64Codec"
| "idl_codec env IBool = Some BooleanCodec"
| "idl_codec env IString = Some (SizePrefix Utf8Codec U32Codec)"
| "idl_codec env IBytes = Some (SizePrefix BytesCodec U32Codec)"
| "idl_codec env IPubkey = Some AddressCodec"

definition idl_fields :: "(string \<Rightarrow> codec option) \<Rightarrow> (string \<times> idl_type) list \<Rightarrow> (string \<times> codec) list option" where
  "idl_fields env fs = those (map (\<lambda>(n, t). map_option (Pair n) (idl_codec env t)) fs)"

definition idl_def_codec :: "(string \<Rightarrow> codec option) \<Rightarrow> idl_def \<Rightarrow> codec option" where
  "idl_def_codec env def = (case def of
       IdlStruct fs \<Rightarrow> map_option StructCodec (idl_fields env fs)
     | IdlEnum ws \<Rightarrow> map_option UnionCodec (those (map (\<lambda>(n, ts). map_option (\<lambda>cs.
         (capital n, if cs = [] then UnitCodec else StructCodec [(''fields'', TupleCodec cs)]))
         (those (map (idl_codec env) ts))) ws)))"

text \<open>Types are nested at most three deep.\<close>

fun idl_env :: "nat \<Rightarrow> string \<Rightarrow> codec option" where
  "idl_env 0 x = None"
| "idl_env (Suc k) x = Option.bind (idl_types x) (idl_def_codec (idl_env k))"

definition idl_named :: "string \<Rightarrow> codec option" where
  "idl_named = idl_env 3"

definition with_discriminator :: "codec \<Rightarrow> codec option" where
  "with_discriminator c = (case c of StructCodec fs \<Rightarrow> Some (StructCodec ((''discriminator'', FixSize BytesCodec 8) # fs)) | _ \<Rightarrow> None)"

section \<open>Instructions\<close>

text \<open>The arguments are flattened: a single structure gives its fields.\<close>

definition idl_args_codec :: "(string \<times> idl_type) list \<Rightarrow> codec option" where
  "idl_args_codec args = (case args of [(n, IDefined x)] \<Rightarrow> Option.bind (idl_named x) with_discriminator
     | _ \<Rightarrow> map_option (\<lambda>fs. StructCodec ((''discriminator'', FixSize BytesCodec 8) # fs)) (idl_fields idl_named args))"

definition idl_role :: "idl_account \<Rightarrow> role" where
  "idl_role a = (if ia_signer a then (if ia_writable a then WRITABLE_SIGNER else READONLY_SIGNER)
     else if ia_writable a then WRITABLE else READONLY)"

definition idl_seed_of :: "idl_seed \<Rightarrow> seed option" where
  "idl_seed_of s = (case s of IdlConst bs \<Rightarrow> Some (SeedBytes bs)
     | IdlPath p None \<Rightarrow> Some (SeedAccount p) | _ \<Rightarrow> None)"

definition same_default :: "idl_account \<Rightarrow> default_value option \<Rightarrow> bool" where
  "same_default a d \<longleftrightarrow> (case (ia_address a, ia_pda a) of
       (Some b, _) \<Rightarrow> d = Some (FixedAddress b)
     | (None, Some (seeds, None)) \<Rightarrow> d = map_option DerivedFrom (those (map idl_seed_of seeds))
     | (None, Some (seeds, Some p)) \<Rightarrow> (case d of Some (DerivedBy b ss) \<Rightarrow> those (map idl_seed_of seeds) = Some ss | _ \<Rightarrow> False)
     | (None, None) \<Rightarrow> d = None)"

definition optional_field :: "client_ix \<Rightarrow> idl_account \<Rightarrow> bool" where
  "optional_field ci a \<longleftrightarrow> ia_optional a \<or> map_of (ci_defaults ci) (ia_name a) \<noteq> None"

text \<open>A default only uses accounts that have no default or one that was resolved before.\<close>

fun defaults_ordered :: "(string \<times> default_value) list \<Rightarrow> bool" where
  "defaults_ordered [] = True"
| "defaults_ordered ((n, d) # ds) \<longleftrightarrow> (case d of FixedAddress _ \<Rightarrow> True
     | DerivedFrom ss \<Rightarrow> list_all (\<lambda>s. case s of SeedBytes _ \<Rightarrow> True | SeedAccount m \<Rightarrow> m \<noteq> n \<and> m \<notin> fst ` set ds) ss
     | DerivedBy _ ss \<Rightarrow> list_all (\<lambda>s. case s of SeedBytes _ \<Rightarrow> True | SeedAccount m \<Rightarrow> m \<noteq> n \<and> m \<notin> fst ` set ds) ss)
     \<and> defaults_ordered ds"


text \<open>
  What it means that the generated functions of an instruction implement the instruction of the
  interface: same name, discriminator, accounts in the same order with the same roles and fixed
  addresses; writable accounts are marked; every address the interface can derive from other
  accounts has that default, after the accounts it uses, and no other account has one; the
  fields of the input are signers exactly for signing accounts and may be left out exactly for
  optional accounts and those with a default; the data has the fields of the arguments.
\<close>

definition implements :: "client_ix \<Rightarrow> idl_instruction \<Rightarrow> bool" where
  "implements ci ii \<longleftrightarrow> (let as = ii_accounts ii in
     ci_name ci = ii_name ii
   \<and> ci_discriminator ci = ii_discriminator ii
   \<and> ci_roles ci = map (\<lambda>a. (ia_name a, idl_role a, ia_address a)) as
   \<and> ci_original ci = map (\<lambda>a. (ia_name a, ia_writable a)) as
   \<and> ci_sync_original ci = ci_original ci
   \<and> ci_metas ci = map ia_name as \<and> ci_sync_metas ci = map ia_name as
   \<and> ci_parsed ci = map (\<lambda>a. (ia_name a, ia_optional a)) as
   \<and> list_all (\<lambda>a. same_default a (map_of (ci_defaults ci) (ia_name a))) as
   \<and> defaults_ordered (ci_defaults ci)
   \<and> ci_sync_defaults ci = filter (\<lambda>(n, d). case d of FixedAddress _ \<Rightarrow> True | _ \<Rightarrow> False) (ci_defaults ci)
   \<and> list_all (\<lambda>a. map_of (ci_fields ci) (ia_name a)
       = Some (if ia_signer a then InSigner else InAddress, optional_field ci a)) as
   \<and> idl_args_codec (ii_args ii) = Some (ci_decoder ci)
   \<and> ci_encoder ci = WithDiscriminator (ci_decoder ci) (ci_discriminator ci))"

lemma implements_cancelSettlement: "implements client_cancelSettlement idl_cancelSettlement"
  by code_simp

lemma implements_cancelWithdrawRequest: "implements client_cancelWithdrawRequest idl_cancelWithdrawRequest"
  by code_simp

lemma implements_claimSettlementV1: "implements client_claimSettlementV1 idl_claimSettlementV1"
  by code_simp

lemma implements_claimSettlementV2: "implements client_claimSettlementV2 idl_claimSettlementV2"
  by code_simp

lemma implements_claimWithdrawRequest: "implements client_claimWithdrawRequest idl_claimWithdrawRequest"
  by code_simp

lemma implements_closeSettlementV2: "implements client_closeSettlementV2 idl_closeSettlementV2"
  by code_simp

lemma implements_configureBond: "implements client_configureBond idl_configureBond"
  by code_simp

lemma implements_configureBondProduct: "implements client_configureBondProduct idl_configureBondProduct"
  by code_simp

lemma implements_configureBondWithMint: "implements client_configureBondWithMint idl_configureBondWithMint"
  by code_simp

lemma implements_configureConfig: "implements client_configureConfig idl_configureConfig"
  by code_simp

lemma implements_emergencyPause: "implements client_emergencyPause idl_emergencyPause"
  by code_simp

lemma implements_emergencyResume: "implements client_emergencyResume idl_emergencyResume"
  by code_simp

lemma implements_fundBond: "implements client_fundBond idl_fundBond"
  by code_simp

lemma implements_fundSettlement: "implements client_fundSettlement idl_fundSettlement"
  by code_simp

lemma implements_initBond: "implements client_initBond idl_initBond"
  by code_simp

lemma implements_initBondProduct: "implements client_initBondProduct idl_initBondProduct"
  by code_simp

lemma implements_initConfig: "implements client_initConfig idl_initConfig"
  by code_simp

lemma implements_initSettlement: "implements client_initSettlement idl_initSettlement"
  by code_simp

lemma implements_initWithdrawRequest: "implements client_initWithdrawRequest idl_initWithdrawRequest"
  by code_simp

lemma implements_mergeStake: "implements client_mergeStake idl_mergeStake"
  by code_simp

lemma implements_mintBond: "implements client_mintBond idl_mintBond"
  by code_simp

lemma implements_resetStake: "implements client_resetStake idl_resetStake"
  by code_simp

lemma implements_upsizeSettlementClaims: "implements client_upsizeSettlementClaims idl_upsizeSettlementClaims"
  by code_simp

lemma implements_withdrawStake: "implements client_withdrawStake idl_withdrawStake"
  by code_simp

lemma implements_all: "list_all2 implements client_instructions idl_instructions"
  by (simp add: client_instructions_def idl_instructions_def
    implements_cancelSettlement
    implements_cancelWithdrawRequest
    implements_claimSettlementV1
    implements_claimSettlementV2
    implements_claimWithdrawRequest
    implements_closeSettlementV2
    implements_configureBond
    implements_configureBondProduct
    implements_configureBondWithMint
    implements_configureConfig
    implements_emergencyPause
    implements_emergencyResume
    implements_fundBond
    implements_fundSettlement
    implements_initBond
    implements_initBondProduct
    implements_initConfig
    implements_initSettlement
    implements_initWithdrawRequest
    implements_mergeStake
    implements_mintBond
    implements_resetStake
    implements_upsizeSettlementClaims
    implements_withdrawStake)

text \<open>The types, accounts and errors.\<close>

lemma types_agree: "list_all (\<lambda>(n, enc, dec). enc = dec \<and> idl_named n = Some dec) client_types"
  by code_simp

lemma accounts_agree: "list_all (\<lambda>(n, d, enc, dec). map_of idl_accounts n = Some d
    \<and> Option.bind (idl_named n) with_discriminator = Some dec \<and> enc = WithDiscriminator dec d) client_accounts"
  by code_simp

end
