(* ===== verification/Cod_Agree_Errors.thy ===== *)
theory Cod_Agree_Errors
  imports Cod_Errors Idl_Program "HOL-Library.Multiset"
begin

text \<open>The errors of the generated client are those of the interface, with the same messages.\<close>

text \<open>\<open>invalidProgramId\<close> is \<open>INVALID_PROGRAM_ID\<close> in the client. The names have only letters and
  digits, which differ in two bits.\<close>

definition screaming_char :: "char \<Rightarrow> string" where
  "screaming_char c = (case c of Char b0 b1 b2 b3 b4 b5 b6 b7 \<Rightarrow>
     if \<not> b6 then [c] else if b5 then [Char b0 b1 b2 b3 b4 False b6 b7] else [CHR ''_'', c])"

definition screaming :: "string \<Rightarrow> string" where
  "screaming s = concat (map screaming_char s)"

lemma screaming_example: "screaming ''invalidProgramId'' = ''INVALID_PROGRAM_ID''"
  by code_simp

definition client_errors :: "(string \<times> int) list" where
  "client_errors = VALIDATOR_BONDS_ERRORS_1 @ VALIDATOR_BONDS_ERRORS_2"

lemma error_codes_agree: "client_errors = map (\<lambda>(c, n, m). (screaming n, c)) idl_errors"
  by code_simp

text \<open>The client lists the messages by name, the interface by code: the places of the messages.\<close>

definition message_places :: "nat list" where
  "message_places = [29, 20, 39, 26, 36, 34, 33, 30, 31, 25, 32, 21, 78, 38, 18, 17, 19, 16, 4, 65, 8, 74, 58, 56, 68, 44,
    67, 57, 60, 13, 64, 61, 9, 10, 15, 11, 62, 71, 70, 14, 75, 3, 50, 49, 66, 42, 52, 63, 73, 72, 12, 76,
    0, 45, 48, 27, 41, 77, 69, 22, 46, 59, 37, 40, 43, 2, 1, 54, 55, 53, 51, 35, 28, 24, 5, 7, 6, 23,
    47]"

lemma message_places_all: "sort message_places = [0..<79]"
  by code_simp

lemma message_number: "length validatorBondsErrorMessages = 79"
  by code_simp

lemma messages_listed:
  "map (nth validatorBondsErrorMessages) message_places = map (\<lambda>(c, n, m). (screaming n, m)) idl_errors"
  by code_simp

lemma error_names_distinct: "distinct (map fst client_errors)"
  by code_simp

lemma messages_perm: "mset (map (\<lambda>(c, n, m). (screaming n, m)) idl_errors) = mset validatorBondsErrorMessages"
proof -
  have "mset message_places = mset [0..<79]" by (simp only: message_places_all [symmetric] mset_sort)
  then have "mset (map (nth validatorBondsErrorMessages) message_places)
      = mset (map (nth validatorBondsErrorMessages) [0..<length validatorBondsErrorMessages])"
    unfolding message_number mset_map by simp
  then show ?thesis by (simp only: messages_listed map_nth)
qed

lemma error_message:
  assumes "(c, n, m) \<in> set idl_errors"
  shows "map_of validatorBondsErrorMessages (screaming n) = Some m"
proof (rule map_of_is_SomeI)
  let ?ms = "map (\<lambda>(c, n, m). (screaming n, m)) idl_errors"
  have "map fst ?ms = map fst client_errors" by (simp add: error_codes_agree split_beta comp_def)
  then have "distinct (map fst ?ms)" using error_names_distinct by (simp only:)
  moreover have "mset (map fst ?ms) = mset (map fst validatorBondsErrorMessages)"
    by (simp only: mset_map [of fst] messages_perm)
  ultimately show "distinct (map fst validatorBondsErrorMessages)" by (metis mset_eq_imp_distinct_iff)
  have "(screaming n, m) \<in> set ?ms" using assms by force
  then show "(screaming n, m) \<in> set validatorBondsErrorMessages" by (simp only: mset_eq_setD [OF messages_perm])
qed

lemma error_codes_range: "map snd client_errors = [6000..6078]"
  by code_simp

text \<open>A code of the interface has the message of the interface.\<close>

lemma idl_error_message:
  assumes "(c, n, m) \<in> set idl_errors"
  shows "VALIDATOR_BONDS_ERROR (screaming n) = Some c \<and> getValidatorBondsErrorMessage False c = Some m"
proof -
  have in_client: "(screaming n, c) \<in> set client_errors" using assms by (force simp: error_codes_agree)
  have dist: "distinct (map snd client_errors)" by (simp add: error_codes_range)
  note names = error_names_distinct
  have look: "VALIDATOR_BONDS_ERROR x = map_of client_errors x" for x
    by (simp only: VALIDATOR_BONDS_ERROR_def client_errors_def)
  have code: "VALIDATOR_BONDS_ERROR (screaming n) = Some c"
    unfolding look by (rule map_of_is_SomeI [OF names in_client])
  have only: "x = screaming n" if "VALIDATOR_BONDS_ERROR x = Some c" for x
  proof -
    have "(x, c) \<in> set client_errors"
      using that unfolding look by (rule map_of_SomeD)
    moreover have "inj_on snd (set client_errors)" using dist by (simp add: distinct_map)
    ultimately have "(x, c) = (screaming n, c)" using in_client by (intro inj_onD [where f = snd]) simp_all
    then show ?thesis by simp
  qed
  have look_msg: "find (\<lambda>(name, msg). VALIDATOR_BONDS_ERROR name = Some c) ms = map_option (Pair (screaming n)) (map_of ms (screaming n))" for ms
    by (induction ms) (auto simp: code dest: only)
  have "map_of validatorBondsErrorMessages (screaming n) = Some m" using assms by (rule error_message)
  then have "find (\<lambda>(name, msg). VALIDATOR_BONDS_ERROR name = Some c) validatorBondsErrorMessages = Some (screaming n, m)"
    by (simp only: look_msg option.map)
  then have "getValidatorBondsErrorMessage False c = map_option snd (Some (screaming n, m))"
    unfolding getValidatorBondsErrorMessage_def by (simp only: if_True not_False_eq_True)
  with code show ?thesis by simp
qed

end
