(* ===== verification/Cod_Declared.thy ===== *)
theory Cod_Declared
  imports Cod_Tables
begin

text \<open>
  The types the generated client declares, compared with its codecs: what a decoder returns and
  what an encoder accepts.
\<close>

text \<open>A decoder gives small integers as numbers and large ones as bigints.\<close>

fun decoded_type :: "codec \<Rightarrow> ts_type" where
  "decoded_type U8Codec = TNumber"
| "decoded_type U32Codec = TNumber"
| "decoded_type U64Codec = TBigint"
| "decoded_type I64Codec = TBigint"
| "decoded_type BooleanCodec = TBoolean"
| "decoded_type AddressCodec = TAddress"
| "decoded_type BytesCodec = TBytes"
| "decoded_type Utf8Codec = TString"
| "decoded_type UnitCodec = TObject []"
| "decoded_type (FixSize c n) = decoded_type c"
| "decoded_type (SizePrefix c p) = decoded_type c"
| "decoded_type (OptionCodec c) = TOption (decoded_type c)"
| "decoded_type (ArrayCodec c) = TArray (decoded_type c)"
| "decoded_type (StructCodec fs) = TObject (map (\<lambda>(n, c). (n, decoded_type c)) fs)"
| "decoded_type (TupleCodec cs) = TObject (map (\<lambda>c. ([], decoded_type c)) cs)"
| "decoded_type (UnionCodec ws) = TUnion (map (\<lambda>(n, c). (n, case decoded_type c of
     TObject [(_, TObject ts)] \<Rightarrow> map snd ts | _ \<Rightarrow> [])) ws)"

text \<open>An encoder takes numbers for bigints, \<open>null\<close> for a missing value, and no discriminator.\<close>

fun encoded_type :: "ts_type \<Rightarrow> ts_type" where
  "encoded_type TBigint = TNumberOrBigint"
| "encoded_type (TOption t) = TOptionOrNullable (encoded_type t)"
| "encoded_type (TArray t) = TArray (encoded_type t)"
| "encoded_type (TObject fs) = TObject (map (\<lambda>(n, t). (n, encoded_type t)) (filter (\<lambda>(n, t). n \<noteq> ''discriminator'') fs))"
| "encoded_type (TUnion ws) = TUnion (map (\<lambda>(n, ts). (n, map encoded_type ts)) ws)"
| "encoded_type t = t"

lemma declared_types: "list_all (\<lambda>(decoded, encoded, dec). decoded = decoded_type dec \<and> encoded = encoded_type decoded) client_declared"
  by code_simp

end
