(* ===== verification/Cod_Properties.thy ===== *)
theory Cod_Properties
  imports Cod_Pdas Cod_Agree Cod_Agree_Errors Cod_Declared
begin

text \<open>
  The properties of the generated client, with their instances. \<open>cod_sl\<close> is the key library of
  the instances: a key is its text, filled up with zeros.
\<close>

section \<open>The client and the interface of the program\<close>

text \<open>
  C17: the generated client is a client of the program the interface describes. Each of its 24
  instructions has the discriminator, the accounts in the order and with the roles, the derived
  and fixed addresses, the optional accounts and the argument encoding that the interface
  declares; the codecs of its types and accounts are those of the declared types, the encoder of
  a type is its decoder's counterpart; the TypeScript types it declares for decoded and for given
  data are those of its codecs; and every error code gives the message of the interface.
\<close>

theorem codama_implements_interface:
  "list_all2 implements client_instructions idl_instructions
    \<and> list_all (\<lambda>(n, enc, dec). enc = dec \<and> idl_named n = Some dec) client_types
    \<and> list_all (\<lambda>(n, d, enc, dec). map_of idl_accounts n = Some d
        \<and> Option.bind (idl_named n) with_discriminator = Some dec \<and> enc = WithDiscriminator dec d) client_accounts
    \<and> list_all (\<lambda>(decoded, encoded, dec). decoded = decoded_type dec \<and> encoded = encoded_type decoded) client_declared
    \<and> list_all (\<lambda>(c, n, m). getValidatorBondsErrorMessage False c = Some m) idl_errors"
  using implements_all types_agree accounts_agree declared_types idl_error_message by (simp add: list_all_iff) blast

section \<open>Building and parsing\<close>

text \<open>
  C18: for every instruction, with either builder: whatever it builds, the parser of the program
  recognises as that instruction. The parsed data are the discriminator and the arguments that
  were given; the parsed accounts have the names of the instruction, in order; and each account
  that was given, a signer exactly where one is asked for, comes back with its address and the
  role of the instruction. The exception are optional accounts whose address is that of the
  program, which the parser takes for missing ones.
\<close>

theorem codama_parses_what_it_builds:
  assumes doc: "documented sl kit" and row: "(ci, build, build_sync, parse) \<in> set client_functions"
    and args: "typed sl (StructCodec (data_fields ci)) (VObject (in_args input))"
    and built: "build kit input pa = Inr ix \<or> build_sync kit input pa = Inr ix"
  shows "\<exists>p. parseValidatorBondsInstruction kit ix = Inr (ci_tag ci, p)
    \<and> pi_programAddress p = orElse pa VALIDATOR_BONDS_PROGRAM_ADDRESS
    \<and> pi_data p = VObject ((''discriminator'', VBytes (ci_discriminator ci)) # in_args input)
    \<and> map fst (pi_accounts p) = map fst (ci_roles ci)
    \<and> (\<forall>n role a r optional. (n, role, a) \<in> set (ci_roles ci) \<longrightarrow> jsmap_get (in_accounts input) n = Some r
        \<longrightarrow> fits_role r role \<longrightarrow> map_of (ci_parsed ci) n = Some optional
        \<longrightarrow> \<not> (optional \<and> resolved_address r = VALIDATOR_BONDS_PROGRAM_ADDRESS)
        \<longrightarrow> jsmap_get (pi_accounts p) n = Some (Some \<lparr> am_address = resolved_address r, am_role = role \<rparr>))"
proof -
  have ci: "ci \<in> set client_instructions" using row rows_of_functions by (metis image_eqI list.set_map fst_conv)
  have fit: "args_fit ci input" using args by (auto simp: args_fit_def)
  have shape: "ci_sync_original ci = ci_original ci" "ci_sync_metas ci = ci_metas ci" "ci_metas ci = map fst (ci_roles ci)"
    using row_shapedD [OF ci] by (simp_all add: row_shaped_def)
  have r: "row_built (ci, build, build_sync, parse)" using rows_built row by (simp add: list_all_iff)
  obtain defaults where "build_from kit (ci_original ci) defaults (ci_metas ci) (ci_encoder ci) input pa = Inr ix"
    using built r fit shape by (auto simp: row_built_def)
  from built_then_parsed [OF doc ci args this] obtain p where
    p: "identifyValidatorBondsInstruction kit (ki_data ix) = Inr (ci_tag ci)"
      "parse_from kit (length (ci_parsed ci)) (ci_parsed ci) (ci_decoder ci) ix = Inr p" "ki_accounts ix \<noteq> None"
      "pi_programAddress p = orElse pa VALIDATOR_BONDS_PROGRAM_ADDRESS"
      "pi_data p = VObject ((''discriminator'', VBytes (ci_discriminator ci)) # in_args input)"
      "map fst (pi_accounts p) = ci_metas ci"
    and given: "\<And>n role a r optional. (n, role, a) \<in> set (ci_roles ci) \<Longrightarrow> jsmap_get (in_accounts input) n = Some r
      \<Longrightarrow> fits_role r role \<Longrightarrow> map_of (ci_parsed ci) n = Some optional
      \<Longrightarrow> \<not> (optional \<and> resolved_address r = VALIDATOR_BONDS_PROGRAM_ADDRESS)
      \<Longrightarrow> jsmap_get (pi_accounts p) n = Some (Some \<lparr> am_address = resolved_address r, am_role = role \<rparr>)"
    by blast
  have "parser_of (ci_tag ci) kit ix = Inr p" using r p(2) by (simp add: row_built_def)
  then have "parseValidatorBondsInstruction kit ix = Inr (ci_tag ci, p)"
    using p(1,3) by (simp add: parseValidatorBondsInstruction_def)
  with p(4-6) shape(3) given show ?thesis by metis
qed

definition cod_sl :: solana_lib where
  "cod_sl = \<lparr> pk_of_str = (\<lambda>s. Inr (take 32 (bytes_of s @ replicate 32 0))),
     pk_b58 = (\<lambda>k. map (\<lambda>b. char_of (unat b)) (takeWhile (\<lambda>b. b \<noteq> 0) k)),
     find_pda = (\<lambda>seeds program. Inr (68 # (if length seeds = 3 then 51 else 49) # replicate 30 0, 255)) \<rparr>"

definition cod_kit :: kit where
  "cod_kit = reference_kit cod_sl"

definition cod_input :: ix_input where
  "cod_input = \<lparr> in_accounts = [(''config'', AddressValue ''C''), (''voteAccount'', AddressValue ''V''),
       (''validatorIdentity'', SignerValue ''I''), (''rentPayer'', SignerValue ''R''), (''program'', AddressValue ''P'')],
     in_args = [(''bondAuthority'', VAddr ''A''), (''cpmpe'', VNum 5), (''maxStakeWanted'', VNum 7)] \<rparr>"

lemma cod_kit_documented: "documented cod_sl cod_kit"
  unfolding cod_kit_def by (rule reference_kit_documented)

lemma cod_row: "(client_initBond, getInitBondInstructionAsync, getInitBondInstruction, parseInitBondInstruction)
    \<in> set client_functions"
  by (simp add: client_functions_def)

lemma cod_typed: "typed cod_sl (StructCodec (data_fields client_initBond)) (VObject (in_args cod_input))"
  by code_simp

lemma cod_built: "is_ok (getInitBondInstructionAsync cod_kit cod_input None)"
  by code_simp

theorem codama_parses_what_it_builds_witness:
  "\<exists>ix p. getInitBondInstructionAsync cod_kit cod_input None = Inr ix
    \<and> parseValidatorBondsInstruction cod_kit ix = Inr (Ix_InitBond, p)
    \<and> pi_data p = VObject [(''discriminator'', VBytes INIT_BOND_DISCRIMINATOR), (''bondAuthority'', VAddr ''A''),
        (''cpmpe'', VNum 5), (''maxStakeWanted'', VNum 7)]
    \<and> jsmap_get (pi_accounts p) ''rentPayer'' = Some (Some \<lparr> am_address = ''R'', am_role = WRITABLE_SIGNER \<rparr>)"
proof -
  obtain ix where ix: "getInitBondInstructionAsync cod_kit cod_input None = Inr ix"
    using cod_built by (auto simp: is_ok_def split: sum.splits)
  have given: "(''rentPayer'', WRITABLE_SIGNER, None) \<in> set (ci_roles client_initBond)"
    "map_of (ci_parsed client_initBond) ''rentPayer'' = Some False"
    "jsmap_get (in_accounts cod_input) ''rentPayer'' = Some (SignerValue ''R'')"
    "fits_role (SignerValue ''R'') WRITABLE_SIGNER" "ci_tag client_initBond = Ix_InitBond"
    "ci_discriminator client_initBond = INIT_BOND_DISCRIMINATOR"
    by (simp_all add: client_initBond_def InitBondInstruction_accounts_def ParsedInitBondInstruction_accounts_def
        cod_input_def fits_role_def is_signer_def resolved_address_def)
  have args: "in_args cod_input = [(''bondAuthority'', VAddr ''A''), (''cpmpe'', VNum 5), (''maxStakeWanted'', VNum 7)]"
    by (simp add: cod_input_def)
  from codama_parses_what_it_builds [OF cod_kit_documented cod_row cod_typed disjI1 [OF ix]] obtain p where
    p: "parseValidatorBondsInstruction cod_kit ix = Inr (ci_tag client_initBond, p)"
      "pi_data p = VObject ((''discriminator'', VBytes (ci_discriminator client_initBond)) # in_args cod_input)"
    and all: "\<forall>n role a r optional. (n, role, a) \<in> set (ci_roles client_initBond) \<longrightarrow> jsmap_get (in_accounts cod_input) n = Some r
        \<longrightarrow> fits_role r role \<longrightarrow> map_of (ci_parsed client_initBond) n = Some optional
        \<longrightarrow> \<not> (optional \<and> resolved_address r = VALIDATOR_BONDS_PROGRAM_ADDRESS)
        \<longrightarrow> jsmap_get (pi_accounts p) n = Some (Some \<lparr> am_address = resolved_address r, am_role = role \<rparr>)"
    by blast
  have "jsmap_get (pi_accounts p) ''rentPayer''
      = Some (Some \<lparr> am_address = resolved_address (SignerValue ''R''), am_role = WRITABLE_SIGNER \<rparr>)"
    using all given(1-4) by blast
  then show ?thesis using ix p by (simp add: given(5,6) args resolved_address_def)
qed

section \<open>Derived addresses\<close>

text \<open>
  C19: the addresses a builder of the generated client derives for accounts that are left out are
  those of the sdk: in the finished instruction, the address of a bond, of the withdrawer or
  staker authority, of the claims of a settlement, of a withdraw request, of a mint and of the
  event authority is what the function of the sdk returns for the other addresses of the same
  instruction and the program, also when these were derived themselves.
\<close>

theorem codama_addresses_are_sdk:
  assumes doc: "documented sl kit" and row: "(ci, build, build_sync, parse) \<in> set client_functions"
    and fit: "args_fit ci input" and built: "build kit input pa = Inr ix"
    and program: "pk_of_str sl (orElse pa VALIDATOR_BONDS_PROGRAM_ADDRESS) = Inr program"
    and valid: "\<forall>m\<in>set (ci_metas ci). address_bytes sl (address_in ci ix m) \<noteq> None"
    and default: "(n, DerivedFrom ss) \<in> set (ci_defaults ci)" and out: "jsmap_get (in_accounts input) n = None"
  shows "\<exists>k bump. sdk_pda sl n (key_in sl ci ix) program = Inr (k, bump) \<and> address_in ci ix n = pk_b58 sl k"
proof (rule derived_is_sdk [OF doc _ _ program _ default out])
  show "ci \<in> set client_instructions" using row rows_of_functions by (metis image_eqI list.set_map fst_conv)
  have "row_built (ci, build, build_sync, parse)" using rows_built row by (simp add: list_all_iff)
  then show "build_from kit (ci_original ci) (ci_defaults ci) (ci_metas ci) (ci_encoder ci) input pa = Inr ix"
    using fit built by (simp add: row_built_def)
  show "address_bytes sl (address_in ci ix m) \<noteq> None" if "m \<in> set (ci_metas ci)" for m using valid that by blast
qed

lemma cod_valid: "case getInitBondInstructionAsync cod_kit cod_input None of Inl e \<Rightarrow> False
    | Inr ix \<Rightarrow> list_all (\<lambda>m. address_bytes cod_sl (address_in client_initBond ix m) \<noteq> None) (ci_metas client_initBond)"
  by code_simp

theorem codama_addresses_are_sdk_witness:
  "\<exists>ix k bump. getInitBondInstructionAsync cod_kit cod_input None = Inr ix
    \<and> bondAddress cod_sl (key_in cod_sl client_initBond ix ''config'') (key_in cod_sl client_initBond ix ''voteAccount'')
        (take 32 (bytes_of VALIDATOR_BONDS_PROGRAM_ADDRESS @ replicate 32 0)) = Inr (k, bump)
    \<and> address_in client_initBond ix ''bond'' = pk_b58 cod_sl k"
proof -
  obtain ix where ix: "getInitBondInstructionAsync cod_kit cod_input None = Inr ix"
    using cod_built by (auto simp: is_ok_def split: sum.splits)
  have fit: "args_fit client_initBond cod_input" using cod_typed by (auto simp: args_fit_def)
  have program: "pk_of_str cod_sl (orElse None VALIDATOR_BONDS_PROGRAM_ADDRESS)
      = Inr (take 32 (bytes_of VALIDATOR_BONDS_PROGRAM_ADDRESS @ replicate 32 0))"
    by (simp add: cod_sl_def)
  have valid: "\<forall>m\<in>set (ci_metas client_initBond). address_bytes cod_sl (address_in client_initBond ix m) \<noteq> None"
    using cod_valid by (simp add: ix list_all_iff)
  have default: "(''bond'', DerivedFrom (sdk_seeds ''bond'')) \<in> set (ci_defaults client_initBond)"
    by code_simp
  have out: "jsmap_get (in_accounts cod_input) ''bond'' = None" by (simp add: cod_input_def)
  from codama_addresses_are_sdk [OF cod_kit_documented cod_row fit ix program valid default out] ix
  show ?thesis by (auto simp: sdk_pda_def)
qed

section \<open>Another program\<close>

text \<open>
  For another program than the deployed one the parser does not recognise a missing optional
  account: the builder fills its place with the program it builds for, the parser compares with
  the deployed one.
\<close>

lemma missing_account_of_other_program:
  assumes "documented sl kit" and "a \<noteq> VALIDATOR_BONDS_PROGRAM_ADDRESS"
  shows "next_accounts [(n, True)] [k_accountMeta kit a n (None, w)]
    = [(n, Some \<lparr> am_address = a, am_role = READONLY \<rparr>)]"
  using assms by (simp add: documentedD(8) [OF assms(1)] documented_meta_def)

end
