(* ===== verification/Scr_Product.thy ===== *)
theory Scr_Product
  imports Cod_Agree Cli_Version Sdk_Settlement_Ix Js_Json
begin

text \<open>
  The generator of the account data of a commission product:
  \<open>scripts/bond-product-data-generator/src/index.ts\<close>.

  \<open>product_world\<close> holds the libraries: keys, base64, the connection to a cluster (which may
  refuse its URL) and Anchor's coder. The options arrive as commander parsed them; a rate is the
  text behind its option, which \<open>parseInt\<close> reads.
\<close>

section \<open>Formats\<close>

datatype output_format = Base64Format | HexFormat | NumbersFormat | AllFormat

definition byte_hex :: "byte \<Rightarrow> string" where
  "byte_hex b = [hex_digit (unat b div 16), hex_digit (unat b mod 16)]"

definition buffer_hex :: "byte list \<Rightarrow> string" where
  "buffer_hex bs = concat (map byte_hex bs)"

definition buffer_numbers :: "byte list \<Rightarrow> string" where
  "buffer_numbers bs = ''['' @ js_join '','' (map (\<lambda>b. nat_str (unat b)) bs) @ '']''"

definition formatBuffer :: "hash_lib \<Rightarrow> byte list \<Rightarrow> output_format \<Rightarrow> (string \<times> string) list" where
  "formatBuffer hl buffer format = (case format of
       Base64Format \<Rightarrow> [(''base64'', hl_b64 hl buffer)]
     | HexFormat \<Rightarrow> [(''hex'', buffer_hex buffer)]
     | NumbersFormat \<Rightarrow> [(''numbers'', buffer_numbers buffer)]
     | AllFormat \<Rightarrow> [(''base64'', hl_b64 hl buffer), (''hex'', buffer_hex buffer), (''numbers'', buffer_numbers buffer)])"

section \<open>The account\<close>

record product_account =
  pa_config :: pubkey
  pa_bond :: pubkey
  pa_vote_account :: pubkey
  pa_product_type :: product_type
  pa_commission :: commission_config
  pa_bump :: nat

record product_world =
  pw_sl :: solana_lib
  pw_hash :: hash_lib
  pw_connect :: "string \<Rightarrow> bonds_chain res"
  pw_encode :: "product_account \<Rightarrow> byte list res"

definition rate_bn :: "number option \<Rightarrow> int option res" where
  "rate_bn r = (case r of None \<Rightarrow> Inr None | Some x \<Rightarrow> rbind (bn_of_double x) (\<lambda>i. Inr (Some i)))"

definition generateBondProductData :: "product_world \<Rightarrow> pubkey \<Rightarrow> pubkey \<Rightarrow> pubkey \<Rightarrow> nat \<Rightarrow> product_type
    \<Rightarrow> number option \<Rightarrow> number option \<Rightarrow> number option \<Rightarrow> output_format \<Rightarrow> (string \<times> string) list res" where
  "generateBondProductData w config bond voteAccount bump ptype inflationBps mevBps blockBps format =
     rbind (rate_bn inflationBps) (\<lambda>i. rbind (rate_bn mevBps) (\<lambda>m. rbind (rate_bn blockBps) (\<lambda>b.
       let commissionConfig = \<lparr> cc_inflationBps = i, cc_mevBps = m, cc_blockBps = b \<rparr> in
       rbind (validateCommissionProductArgs commissionConfig) (\<lambda>_.
       rbind (pw_encode w \<lparr> pa_config = config, pa_bond = bond, pa_vote_account = voteAccount,
           pa_product_type = ptype, pa_commission = commissionConfig, pa_bump = bump \<rparr>) (\<lambda>accountBuffer.
       Inr (formatBuffer (pw_hash w) accountBuffer format))))))"

section \<open>The command\<close>

record product_opts =
  po_url :: string
  po_inflation :: "string option"
  po_mev :: "string option"
  po_block :: "string option"
  po_config :: string
  po_bond :: "string option"
  po_voteAccount :: "string option"
  po_format :: output_format
  po_silent :: bool

text \<open>A line, or an object that the console shows.\<close>

datatype product_line = ShownLine string | ShownObject "(string \<times> string) list"

datatype product_end = ShowedHelp | Generated "product_line list" | Failed1 "product_line list" js_error

definition parsed_rate :: "string option \<Rightarrow> number option" where
  "parsed_rate s = map_option (\<lambda>t. case parseInt10 t of None \<Rightarrow> NaN | Some i \<Rightarrow> dbl (of_int i)) s"

definition truthy_text :: "string option \<Rightarrow> string option" where
  "truthy_text s = (case s of None \<Rightarrow> None | Some t \<Rightarrow> if t = '''' then None else Some t)"

definition product_keys :: "product_world \<Rightarrow> product_opts \<Rightarrow> pubkey \<Rightarrow> (pubkey \<times> pubkey) res" where
  "product_keys w opts config = (case (truthy_text (po_voteAccount opts), truthy_text (po_bond opts)) of
       (Some v, _) \<Rightarrow> rbind (pk_of_str (pw_sl w) v) (\<lambda>voteAccount.
         rbind (VALIDATOR_BONDS_PROGRAM_ID (pw_sl w)) (\<lambda>programId.
         rbind (bondAddress (pw_sl w) config voteAccount programId) (\<lambda>(bond, _). Inr (bond, voteAccount))))
     | (None, Some b) \<Rightarrow> rbind (pk_of_str (pw_sl w) b) (\<lambda>bond.
         rbind (pw_connect w (po_url opts)) (\<lambda>chain.
         rbind (getBond (pw_sl w) chain bond) (\<lambda>bondData. Inr (bond, bd_voteAccount bondData))))
     | (None, None) \<Rightarrow> throw EError ''Either bond or vote account must be provided'')"

definition both_line :: "product_opts \<Rightarrow> product_line list" where
  "both_line opts = (case (truthy_text (po_bond opts), truthy_text (po_voteAccount opts)) of
       (Some _, Some v) \<Rightarrow> [ShownLine (''CLI defined bond and vote account. Using vote account '' @ v @ '' as the source of truth.'')]
     | _ \<Rightarrow> [])"

definition format_name :: "output_format \<Rightarrow> string" where
  "format_name f = (case f of Base64Format \<Rightarrow> ''Base64'' | HexFormat \<Rightarrow> ''Hex'' | NumbersFormat \<Rightarrow> ''Numbers'' | AllFormat \<Rightarrow> ''All'')"

definition rate_text :: "number option \<Rightarrow> string" where
  "rate_text r = (case r of None \<Rightarrow> ''None'' | Some x \<Rightarrow> num_str x)"

definition product_lines :: "product_world \<Rightarrow> product_opts \<Rightarrow> pubkey \<Rightarrow> pubkey \<Rightarrow> pubkey \<Rightarrow> pubkey \<Rightarrow> nat
    \<Rightarrow> (string \<times> string) list \<Rightarrow> product_line list" where
  "product_lines w opts config bond voteAccount pda bump encodedData = (let b58 = pk_b58 (pw_sl w) in
     if po_silent opts then [ShownLine (js_join [CHR 0x0A] (map snd encodedData))]
     else [ShownLine (format_name (po_format opts) @ ''-encoded BondProduct account data ['' @ b58 pda @ '']:''),
       ShownObject encodedData, ShownLine ([CHR 0x0A] @ ''Parameters:''),
       ShownLine (''  BondProduct Pubkey: '' @ b58 pda), ShownLine (''  Config: '' @ b58 config),
       ShownLine (''  Bond: '' @ b58 bond), ShownLine (''  Vote Account: '' @ b58 voteAccount),
       ShownLine (''  Inflation BPS: '' @ rate_text (parsed_rate (po_inflation opts))),
       ShownLine (''  MEV BPS: '' @ rate_text (parsed_rate (po_mev opts))),
       ShownLine (''  Block BPS: '' @ rate_text (parsed_rate (po_block opts))),
       ShownLine (''  PDA bump: '' @ nat_str bump)])"

definition product_output :: "product_world \<Rightarrow> product_opts \<Rightarrow> pubkey \<Rightarrow> product_line list res" where
  "product_output w opts config =
     rbind (product_keys w opts config) (\<lambda>(bond, voteAccount).
     rbind (VALIDATOR_BONDS_PROGRAM_ID (pw_sl w)) (\<lambda>programId.
     rbind (bondProductAddress (pw_sl w) bond PCommission programId) (\<lambda>(pda, bump).
     rbind (generateBondProductData w config bond voteAccount bump PCommission (parsed_rate (po_inflation opts))
         (parsed_rate (po_mev opts)) (parsed_rate (po_block opts)) (po_format opts)) (\<lambda>encodedData.
     Inr (product_lines w opts config bond voteAccount pda bump encodedData)))))"

definition product_action :: "product_world \<Rightarrow> product_opts \<Rightarrow> product_end" where
  "product_action w opts =
     (if truthy_text (po_bond opts) = None \<and> truthy_text (po_voteAccount opts) = None then ShowedHelp
      else (case pk_of_str (pw_sl w) (po_config opts) of
          Inl e \<Rightarrow> Failed1 [] e
        | Inr config \<Rightarrow> (case product_output w opts config of
            Inl e \<Rightarrow> Failed1 (both_line opts) e
          | Inr ls \<Rightarrow> Generated (both_line opts @ ls))))"

definition product_exit_code :: "product_end \<Rightarrow> nat" where
  "product_exit_code r = (case r of Failed1 _ _ \<Rightarrow> 1 | _ \<Rightarrow> 0)"

section \<open>Facts\<close>

text \<open>The text of a buffer determines it.\<close>

lemma hex_digit_inject: "a < 16 \<Longrightarrow> b < 16 \<Longrightarrow> hex_digit a = hex_digit b \<longleftrightarrow> a = b"
proof -
  have d: "distinct ''0123456789abcdef''" by simp
  assume "a < 16" "b < 16"
  then show ?thesis using nth_eq_iff_index_eq [OF d, of a b] by (simp add: hex_digit_def)
qed

lemma byte_hex_inject: "byte_hex a = byte_hex b \<longleftrightarrow> a = b"
proof
  assume "byte_hex a = byte_hex b"
  moreover have "unat c < 256" for c :: byte using unsigned_less [of c, where ?'a = nat] by simp
  ultimately have "unat a div 16 = unat b div 16" "unat a mod 16 = unat b mod 16"
    by (auto simp: byte_hex_def hex_digit_inject less_mult_imp_div_less)
  then have "unat a = unat b" by (metis div_mult_mod_eq)
  then show "a = b" by (rule unsigned_word_eqI)
qed simp

lemma buffer_hex_inject: "buffer_hex as = buffer_hex bs \<longleftrightarrow> as = bs"
proof (induction as arbitrary: bs)
  case Nil
  then show ?case by (cases bs) (simp_all add: buffer_hex_def byte_hex_def)
next
  case (Cons a as)
  show ?case
  proof (cases bs)
    case Nil
    then show ?thesis by (simp add: buffer_hex_def byte_hex_def)
  next
    case (Cons b bs')
    have "byte_hex a @ buffer_hex as = byte_hex b @ buffer_hex bs' \<longleftrightarrow> byte_hex a = byte_hex b \<and> buffer_hex as = buffer_hex bs'"
      by (rule append_eq_append_conv) (simp add: byte_hex_def)
    with Cons.IH [of bs'] show ?thesis by (simp add: Cons buffer_hex_def byte_hex_inject)
  qed
qed

text \<open>What is documented of Anchor's coder: the discriminator of the account and the fields of the
  interface description, in Borsh.\<close>

definition rate_value :: "int option \<Rightarrow> cval" where
  "rate_value r = (case r of None \<Rightarrow> VNone | Some i \<Rightarrow> VSome (VNum i))"

definition product_type_value :: "product_type \<Rightarrow> cval" where
  "product_type_value t = (case t of PCommission \<Rightarrow> VObject [(''__kind'', VText ''Commission'')]
     | PCustom s \<Rightarrow> VObject [(''__kind'', VText ''Custom''), (''fields'', VArray [VText s])])"

definition product_value :: "solana_lib \<Rightarrow> byte list \<Rightarrow> product_account \<Rightarrow> cval" where
  "product_value sl d pa = VObject [(''discriminator'', VBytes d), (''config'', VAddr (pk_b58 sl (pa_config pa))),
     (''bond'', VAddr (pk_b58 sl (pa_bond pa))), (''voteAccount'', VAddr (pk_b58 sl (pa_vote_account pa))),
     (''productType'', product_type_value (pa_product_type pa)),
     (''configData'', VObject [(''__kind'', VText ''Commission''), (''fields'', VArray [VObject
        [(''inflationBps'', rate_value (cc_inflationBps (pa_commission pa))), (''mevBps'', rate_value (cc_mevBps (pa_commission pa))),
         (''blockBps'', rate_value (cc_blockBps (pa_commission pa)))]])]),
     (''bump'', VNum (int (pa_bump pa)))]"

definition documented_coder :: "solana_lib \<Rightarrow> (product_account \<Rightarrow> byte list res) \<Rightarrow> bool" where
  "documented_coder sl encode \<longleftrightarrow> (\<forall>pa d c. map_of idl_accounts ''bondProduct'' = Some d
     \<longrightarrow> Option.bind (idl_named ''bondProduct'') with_discriminator = Some c
     \<longrightarrow> encode pa = Inr (doc_write sl c (product_value sl d pa)))"

definition key_of_lib :: "solana_lib \<Rightarrow> pubkey \<Rightarrow> bool" where
  "key_of_lib sl k \<longleftrightarrow> is_key k \<and> pk_of_str sl (pk_b58 sl k) = Inr k"

lemma key_of_lib_typed: "key_of_lib sl k \<Longrightarrow> address_bytes sl (pk_b58 sl k) = Some k"
  by (simp add: key_of_lib_def is_key_def address_bytes_def)


lemma bond_product_codec:
  "map_of idl_accounts ''bondProduct'' = Some [135, 68, 116, 146, 5, 75, 127, 143]"
  "Option.bind (idl_named ''bondProduct'') with_discriminator = Some getBondProductDecoder"
  by code_simp+

definition rate_ok :: "int option \<Rightarrow> bool" where
  "rate_ok r = (case r of None \<Rightarrow> True | Some i \<Rightarrow> - (2 ^ 53) < i \<and> i < 2 ^ 53)"

lemma bn_of_number_range: "bn_of_number n = Inr k \<Longrightarrow> \<bar>k\<bar> < 2 ^ 53"
  by (auto simp: bn_of_number_def fits53_def throw_def split: if_splits)

lemma bn_of_double_range: "bn_of_double x = Inr i \<Longrightarrow> - (2 ^ 53) < i \<and> i < 2 ^ 53"
proof (cases x)
  case (Fin q)
  assume "bn_of_double x = Inr i"
  then obtain k where k: "bn_of_number \<lfloor>\<bar>q\<bar>\<rfloor> = Inr k" and i: "i = (if q < 0 then - k else k)"
    by (auto simp: Fin bn_of_double_def rbind_eq_Inr)
  have "\<bar>k\<bar> < 2 ^ 53" by (rule bn_of_number_range [OF k])
  then show ?thesis unfolding i by auto
qed (simp_all add: bn_of_double_def throw_def)

lemma rate_bn_ok: "rate_bn r = Inr r' \<Longrightarrow> rate_ok r'"
  using bn_of_double_range by (auto simp: rate_bn_def rate_ok_def rbind_eq_Inr split: option.splits)

lemma rate_typed: "rate_ok r \<Longrightarrow> typed sl (OptionCodec I64Codec) (rate_value r)"
  by (auto simp: rate_ok_def rate_value_def number_in_def split: option.splits)

lemma product_typed:
  assumes "length d = 8" and "key_of_lib sl (pa_config pa)" "key_of_lib sl (pa_bond pa)" "key_of_lib sl (pa_vote_account pa)"
    and "pa_bump pa < 256" and "pa_product_type pa = PCommission"
    and "rate_ok (cc_inflationBps (pa_commission pa))" "rate_ok (cc_mevBps (pa_commission pa))" "rate_ok (cc_blockBps (pa_commission pa))"
  shows "typed sl getBondProductDecoder (product_value sl d pa)"
  using assms(1,5,6) rate_typed [OF assms(7), of sl] rate_typed [OF assms(8), of sl] rate_typed [OF assms(9), of sl]
    key_of_lib_typed [OF assms(2)] key_of_lib_typed [OF assms(3)] key_of_lib_typed [OF assms(4)]
  by (simp add: getBondProductDecoder_def getProductTypeDecoder_def getProductTypeConfigDecoder_def
      getCommissionProductConfigDecoder_def product_value_def product_type_value_def number_in_def variant_of_def with_kind_def)

text \<open>The generated client reads the parameters back from the generated data.\<close>

lemma generated_data_read:
  assumes "documented_coder (pw_sl w) (pw_encode w)"
    and "key_of_lib (pw_sl w) config" "key_of_lib (pw_sl w) bond" "key_of_lib (pw_sl w) voteAccount" and "bump < 256"
    and "generateBondProductData w config bond voteAccount bump PCommission i m b format = Inr out"
  shows "\<exists>data i' m' b'. rate_bn i = Inr i' \<and> rate_bn m = Inr m' \<and> rate_bn b = Inr b'
    \<and> out = formatBuffer (pw_hash w) data format
    \<and> doc_read (pw_sl w) getBondProductDecoder data = Some (product_value (pw_sl w) [135, 68, 116, 146, 5, 75, 127, 143]
        \<lparr> pa_config = config, pa_bond = bond, pa_vote_account = voteAccount, pa_product_type = PCommission,
          pa_commission = \<lparr> cc_inflationBps = i', cc_mevBps = m', cc_blockBps = b' \<rparr>, pa_bump = bump \<rparr>, [])"
proof -
  obtain i' m' b' data where r: "rate_bn i = Inr i'" "rate_bn m = Inr m'" "rate_bn b = Inr b'"
    and e: "pw_encode w \<lparr> pa_config = config, pa_bond = bond, pa_vote_account = voteAccount, pa_product_type = PCommission,
      pa_commission = \<lparr> cc_inflationBps = i', cc_mevBps = m', cc_blockBps = b' \<rparr>, pa_bump = bump \<rparr> = Inr data"
    and out: "out = formatBuffer (pw_hash w) data format"
    using assms(6) by (auto simp: generateBondProductData_def Let_def rbind_eq_Inr)
  let ?pa = "\<lparr> pa_config = config, pa_bond = bond, pa_vote_account = voteAccount, pa_product_type = PCommission,
      pa_commission = \<lparr> cc_inflationBps = i', cc_mevBps = m', cc_blockBps = b' \<rparr>, pa_bump = bump \<rparr>"
  let ?v = "product_value (pw_sl w) [135, 68, 116, 146, 5, 75, 127, 143] ?pa"
  have d: "data = doc_write (pw_sl w) getBondProductDecoder ?v"
    using assms(1) e bond_product_codec by (simp add: documented_coder_def)
  have "typed (pw_sl w) getBondProductDecoder ?v"
    by (rule product_typed) (use assms(2-5) r [THEN rate_bn_ok] in simp_all)
  then have "doc_read (pw_sl w) getBondProductDecoder (data @ []) = Some (?v, [])"
    unfolding d by (rule doc_read_write)
  then show ?thesis using r out by (intro exI [of _ data] exI [of _ i'] exI [of _ m'] exI [of _ b']) simp
qed

text \<open>A rate that is not a number becomes a rate of zero, although the output shows \<open>NaN\<close>.\<close>

lemma text_rate_is_zero: "parseInt10 t = None \<Longrightarrow> rate_bn (parsed_rate (Some t)) = Inr (Some 0)"
  by (simp add: parsed_rate_def rate_bn_def bn_of_double_def)

text \<open>A bond alone cannot be read with the default URL: the moniker is handed to the connection as it
  is, which accepts only URLs of the web.\<close>

lemma bond_alone_default_url:
  assumes "\<And>u. \<not> starts_with ''http:'' u \<Longrightarrow> \<not> starts_with ''https:'' u \<Longrightarrow> \<exists>e. pw_connect w u = Inl e"
    and "po_url opts = ''mainnet''" and "truthy_text (po_voteAccount opts) = None" "truthy_text (po_bond opts) = Some b"
  shows "\<exists>e. product_action w opts = Failed1 [] e"
proof -
  obtain e where e: "pw_connect w ''mainnet'' = Inl e" using assms(1) [of "''mainnet''"] by (auto simp: starts_with_def)
  show ?thesis
    by (cases "pk_of_str (pw_sl w) (po_config opts)"; cases "pk_of_str (pw_sl w) b")
      (simp_all add: product_action_def product_output_def product_keys_def both_line_def assms e)
qed

text \<open>The vote account decides; the bond that is given beside it is not looked at.\<close>

lemma vote_account_wins:
  assumes "truthy_text (po_voteAccount opts) = Some v"
  shows "product_output w (opts\<lparr>po_bond := b\<rparr>) config = product_output w opts config"
proof -
  have "product_lines w (opts\<lparr>po_bond := b\<rparr>) = product_lines w opts" by (intro ext) (simp add: product_lines_def Let_def)
  then show ?thesis by (simp add: product_output_def product_keys_def assms)
qed

text \<open>Of the bond only its vote account is taken: the configuration written is that of the options.\<close>

lemma bond_config_ignored:
  assumes "\<And>u. pw_connect w u = Inr chain" "\<And>u. pw_connect w' u = Inr chain'"
    and "w' = w\<lparr>pw_connect := pw_connect w'\<rparr>"
    and "\<And>k. rbind (getBond (pw_sl w) chain k) (\<lambda>d. Inr (bd_voteAccount d))
      = rbind (getBond (pw_sl w) chain' k) (\<lambda>d. Inr (bd_voteAccount d))"
  shows "product_action w' opts = product_action w opts"
proof -
  have sl: "pw_sl w' = pw_sl w" by (subst assms(3)) simp
  have "rbind (getBond (pw_sl w) chain k) (\<lambda>d. Inr (k, bd_voteAccount d))
      = rbind (getBond (pw_sl w) chain' k) (\<lambda>d. Inr (k, bd_voteAccount d))" for k
    using assms(4) [of k] by (auto simp: rbind_def split: sum.splits)
  then have "product_keys w' opts config = product_keys w opts config" for config
    by (simp add: product_keys_def assms(1,2) sl split: option.split)
  moreover have "generateBondProductData w' = generateBondProductData w"
    by (intro ext) (subst assms(3), simp add: generateBondProductData_def)
  moreover have "product_lines w' = product_lines w" by (intro ext) (simp add: product_lines_def sl)
  ultimately have "product_output w' opts = product_output w opts" by (intro ext) (simp add: product_output_def sl)
  then show ?thesis by (simp only: product_action_def sl)
qed

end
