(* ===== verification/Chk_Lossless.thy ===== *)
theory Chk_Lossless
  imports Chk_Data
begin

text \<open>
  How the sanity check reads a JSON document: \<open>createLosslessParser\<close>, \<open>parseLosslessJson\<close> and
  \<open>readLargeJsonFileLossless\<close> of \<open>packages/validator-bonds-sanity-check/src/losslessJson.ts\<close>
  (what the tokenizer does with a number is in \<open>Chk_Data\<close>).

  The tokenizer and the token parser are of \<open>@streamparser/json\<close>: \<open>tk_write\<close> and \<open>tk_end\<close> are the
  calls of the handlers they make for a chunk and for the end of the input, with the error they
  throw, if they throw one. The handlers are the code's: they keep the last value and settle the
  promise. Reading a file is a step relation, because the promise is rejected in the middle of the
  stream and the stream is stopped some time later.
\<close>

section \<open>The handlers\<close>

record 'v lossless_parser =
  lp_result :: "'v option"
  lp_outcome :: "(js_error + 'v) option"

datatype 'v parser_call = GotValue 'v | GotError js_error | InputEnded "js_error option"

record ('s, 'v) tokenizer =
  tk_start :: 's
  tk_write :: "'s \<Rightarrow> string \<Rightarrow> 's \<times> 'v parser_call list \<times> js_error option"
  tk_isEnded :: "'s \<Rightarrow> bool"
  tk_end :: "'s \<Rightarrow> 'v parser_call list \<times> js_error option"

definition createLosslessParser :: "'v lossless_parser" where
  "createLosslessParser = \<lparr> lp_result = None, lp_outcome = None \<rparr>"

definition settle :: "js_error + 'v \<Rightarrow> 'v lossless_parser \<Rightarrow> 'v lossless_parser" where
  "settle x p = (if lp_outcome p = None then p\<lparr>lp_outcome := Some x\<rparr> else p)"

definition fail_parser :: "js_error \<Rightarrow> 'v lossless_parser \<Rightarrow> 'v lossless_parser" where
  "fail_parser e = settle (Inl e)"

text \<open>\<open>tokenizer.onEnd\<close>: ending the token parser may report an error first.\<close>

definition tokenizer_onEnd :: "js_error option \<Rightarrow> 'v lossless_parser \<Rightarrow> 'v lossless_parser" where
  "tokenizer_onEnd e p =
     (let p' = (case e of None \<Rightarrow> p | Some err \<Rightarrow> fail_parser err p) in
      settle (case lp_result p' of Some v \<Rightarrow> Inr v
        | None \<Rightarrow> Inl (Js_Error EError ''No JSON value found in the input'')) p')"

definition on_call :: "'v lossless_parser \<Rightarrow> 'v parser_call \<Rightarrow> 'v lossless_parser" where
  "on_call p c = (case c of GotValue v \<Rightarrow> p\<lparr>lp_result := Some v\<rparr>
     | GotError e \<Rightarrow> fail_parser e p
     | InputEnded e \<Rightarrow> tokenizer_onEnd e p)"

text \<open>The calls of one operation; an error it throws is caught and fails the parser.\<close>

definition parser_calls :: "'v lossless_parser \<Rightarrow> 'v parser_call list \<times> js_error option \<Rightarrow> 'v lossless_parser" where
  "parser_calls p cs = (let p' = foldl on_call p (fst cs) in
     case snd cs of None \<Rightarrow> p' | Some e \<Rightarrow> fail_parser e p')"

definition end_parser :: "('s, 'v) tokenizer \<Rightarrow> 's \<Rightarrow> 'v lossless_parser \<Rightarrow> 'v lossless_parser" where
  "end_parser tk s p = (if tk_isEnded tk s then p else parser_calls p (tk_end tk s))"

text \<open>A whole document; \<open>None\<close> is a promise that never settles.\<close>

definition parseLosslessJson :: "('s, 'v) tokenizer \<Rightarrow> string \<Rightarrow> (js_error + 'v) option" where
  "parseLosslessJson tk data = (case tk_write tk (tk_start tk) data of (s, cs) \<Rightarrow>
     let p = parser_calls createLosslessParser cs in
     lp_outcome (if snd cs = None then end_parser tk s p else p))"

section \<open>Reading a stream\<close>

record ('s, 'v) reader =
  rd_tokenizer :: 's
  rd_parser :: "'v lossless_parser"
  rd_ended :: bool
  rd_destroyed :: bool

definition rd_start :: "('s, 'v) tokenizer \<Rightarrow> ('s, 'v) reader" where
  "rd_start tk = \<lparr> rd_tokenizer = tk_start tk, rd_parser = createLosslessParser, rd_ended = False, rd_destroyed = False \<rparr>"

definition on_data :: "('s, 'v) tokenizer \<Rightarrow> string \<Rightarrow> ('s, 'v) reader \<Rightarrow> ('s, 'v) reader" where
  "on_data tk chunk r = (case tk_write tk (rd_tokenizer r) chunk of (s, cs) \<Rightarrow>
     r\<lparr>rd_tokenizer := s, rd_parser := parser_calls (rd_parser r) cs, rd_destroyed := rd_destroyed r \<or> snd cs \<noteq> None\<rparr>)"

definition on_end :: "('s, 'v) tokenizer \<Rightarrow> ('s, 'v) reader \<Rightarrow> ('s, 'v) reader" where
  "on_end tk r = r\<lparr>rd_parser := end_parser tk (rd_tokenizer r) (rd_parser r), rd_ended := True\<rparr>"

text \<open>What can happen: a chunk or the end of a stream that is neither ended nor destroyed, and, once
  the promise is rejected, the handler that destroys the stream. The chunks are those read so far.\<close>

inductive reads :: "('s, 'v) tokenizer \<Rightarrow> string list \<Rightarrow> ('s, 'v) reader \<Rightarrow> bool" for tk where
  reads_start: "reads tk [] (rd_start tk)"
| reads_data: "reads tk chunks r \<Longrightarrow> \<not> rd_ended r \<Longrightarrow> \<not> rd_destroyed r \<Longrightarrow> reads tk (chunks @ [chunk]) (on_data tk chunk r)"
| reads_end: "reads tk chunks r \<Longrightarrow> \<not> rd_ended r \<Longrightarrow> \<not> rd_destroyed r \<Longrightarrow> reads tk chunks (on_end tk r)"
| reads_stop: "reads tk chunks r \<Longrightarrow> lp_outcome (rd_parser r) = Some (Inl e) \<Longrightarrow> reads tk chunks (r\<lparr>rd_destroyed := True\<rparr>)"

text \<open>The promise \<open>readLargeJsonFileLossless\<close> returns: opening the file may fail; an error of the
  stream fails the parser.\<close>

definition on_error :: "js_error \<Rightarrow> ('s, 'v) reader \<Rightarrow> ('s, 'v) reader" where
  "on_error e r = r\<lparr>rd_parser := fail_parser e (rd_parser r), rd_destroyed := True\<rparr>"

inductive readLargeJsonFileLossless :: "('s, 'v) tokenizer \<Rightarrow> string list res \<Rightarrow> js_error + 'v \<Rightarrow> bool" for tk where
  not_opened: "readLargeJsonFileLossless tk (Inl e) (Inl e)"
| settled: "reads tk chunks r \<Longrightarrow> take (length chunks) cs = chunks \<Longrightarrow> (rd_ended r \<longrightarrow> chunks = cs)
    \<Longrightarrow> lp_outcome (rd_parser r) = Some x \<Longrightarrow> readLargeJsonFileLossless tk (Inr cs) x"
| broken: "reads tk chunks r \<Longrightarrow> \<not> rd_ended r \<Longrightarrow> \<not> rd_destroyed r \<Longrightarrow> take (length chunks) cs = chunks
    \<Longrightarrow> lp_outcome (rd_parser (on_error e r)) = Some x \<Longrightarrow> readLargeJsonFileLossless tk (Inr cs) x"

section \<open>The promise settles once\<close>

lemma settle_keeps [simp]: "lp_outcome p = Some x \<Longrightarrow> settle y p = p"
  by (simp add: settle_def)

lemma settle_outcome [simp]: "lp_outcome (settle y p) = Some (orElse (lp_outcome p) y)"
  by (auto simp: settle_def orElse_def split: option.split)

lemma on_call_keeps: "lp_outcome p = Some x \<Longrightarrow> lp_outcome (on_call p c) = Some x"
  by (auto simp: on_call_def fail_parser_def tokenizer_onEnd_def Let_def split: parser_call.split option.split)

lemma foldl_keeps: "lp_outcome p = Some x \<Longrightarrow> lp_outcome (foldl on_call p cs) = Some x"
  by (induction cs arbitrary: p) (auto intro: on_call_keeps)

lemma parser_calls_keeps: "lp_outcome p = Some x \<Longrightarrow> lp_outcome (parser_calls p cs) = Some x"
  using foldl_keeps [of p x "fst cs"] by (auto simp: parser_calls_def fail_parser_def Let_def split: option.split)

lemma end_parser_keeps: "lp_outcome p = Some x \<Longrightarrow> lp_outcome (end_parser tk s p) = Some x"
  by (simp add: end_parser_def parser_calls_keeps)


section \<open>When a value is delivered\<close>

definition is_end :: "'v parser_call \<Rightarrow> bool" where
  "is_end c = (case c of InputEnded _ \<Rightarrow> True | _ \<Rightarrow> False)"

definition is_value :: "'v parser_call \<Rightarrow> bool" where
  "is_value c = (case c of GotValue _ \<Rightarrow> True | _ \<Rightarrow> False)"

definition is_error :: "'v parser_call \<Rightarrow> bool" where
  "is_error c = (case c of GotError _ \<Rightarrow> True | InputEnded (Some _) \<Rightarrow> True | _ \<Rightarrow> False)"

text \<open>The calls of a document that is accepted: values only, the last of which is delivered,
  and then the end of the input, reported without an error.\<close>

definition accepted :: "'v parser_call list \<Rightarrow> 'v \<Rightarrow> bool" where
  "accepted cs v \<longleftrightarrow> (\<exists>pre post. cs = pre @ InputEnded None # post \<and> list_all is_value pre
     \<and> pre \<noteq> [] \<and> last pre = GotValue v)"

text \<open>The same for a parser that already holds a value, or none.\<close>

definition delivers :: "'v option \<Rightarrow> 'v parser_call list \<Rightarrow> 'v \<Rightarrow> bool" where
  "delivers held cs v \<longleftrightarrow> (\<exists>pre post. cs = pre @ InputEnded None # post \<and> list_all is_value pre
     \<and> (if pre = [] then held = Some v else last pre = GotValue v))"

lemma delivers_None: "delivers None cs v = accepted cs v"
  by (auto simp: delivers_def accepted_def)

lemma delivers_value: "delivers held (GotValue x # cs) v = delivers (Some x) cs v"
proof
  assume "delivers held (GotValue x # cs) v"
  then obtain pre post where p: "GotValue x # cs = pre @ InputEnded None # post" "list_all is_value pre"
    "if pre = [] then held = Some v else last pre = GotValue v" unfolding delivers_def by blast
  then obtain pre' where "pre = GotValue x # pre'" by (cases pre) auto
  with p have "cs = pre' @ InputEnded None # post" "list_all is_value pre'"
    "if pre' = [] then Some x = Some v else last pre' = GotValue v" by (auto split: if_splits)
  then show "delivers (Some x) cs v" unfolding delivers_def by blast
next
  assume "delivers (Some x) cs v"
  then obtain pre post where p: "cs = pre @ InputEnded None # post" "list_all is_value pre"
    "if pre = [] then Some x = Some v else last pre = GotValue v" unfolding delivers_def by blast
  then have "GotValue x # cs = (GotValue x # pre) @ InputEnded None # post" "list_all is_value (GotValue x # pre)"
    "if GotValue x # pre = [] then held = Some v else last (GotValue x # pre) = GotValue v"
    by (auto simp: is_value_def split: if_splits)
  then show "delivers held (GotValue x # cs) v" unfolding delivers_def by blast
qed

lemma delivers_other: "\<not> is_value c \<Longrightarrow> delivers held (c # cs) v \<longleftrightarrow> c = InputEnded None \<and> held = Some v"
  by (auto simp: delivers_def Cons_eq_append_conv)

lemma delivers_Nil [simp]: "\<not> delivers held [] v"
  by (simp add: delivers_def)

lemma settled_value: "lp_outcome (foldl on_call p cs) = Some (Inr v) \<longleftrightarrow> lp_outcome p = Some (Inr v)"
  if "lp_outcome p \<noteq> None"
  using that foldl_keeps [of p _ cs] by auto

lemma calls_value:
  "lp_outcome p = None \<Longrightarrow> lp_outcome (foldl on_call p cs) = Some (Inr v) \<longleftrightarrow> delivers (lp_result p) cs v"
proof (induction cs arbitrary: p)
  case (Cons c cs)
  show ?case
  proof (cases c)
    case (GotValue x)
    have "on_call p c = p\<lparr>lp_result := Some x\<rparr>" by (simp add: on_call_def GotValue)
    then show ?thesis using Cons.IH [of "p\<lparr>lp_result := Some x\<rparr>"] Cons.prems
      by (simp add: GotValue delivers_value)
  next
    case (GotError e)
    have "lp_outcome (on_call p c) = Some (Inl e)"
      using Cons.prems by (simp add: on_call_def GotError fail_parser_def orElse_def)
    then show ?thesis using settled_value [of "on_call p c" cs v]
      by (simp add: GotError delivers_other is_value_def)
  next
    case (InputEnded e)
    have "lp_outcome (on_call p c) = Some (case e of Some err \<Rightarrow> Inl err
        | None \<Rightarrow> (case lp_result p of Some v \<Rightarrow> Inr v
            | None \<Rightarrow> Inl (Js_Error EError ''No JSON value found in the input'')))"
      using Cons.prems by (simp add: on_call_def InputEnded tokenizer_onEnd_def fail_parser_def orElse_def
          split: option.split)
    then show ?thesis using settled_value [of "on_call p c" cs v]
      by (auto simp: InputEnded delivers_other is_value_def split: option.splits)
  qed
qed simp

lemma parser_value: "lp_outcome (parser_calls createLosslessParser cs) = Some (Inr v) \<longleftrightarrow> accepted (fst cs) v"
proof -
  have "lp_outcome (parser_calls createLosslessParser cs) = Some (Inr v)
      \<longleftrightarrow> lp_outcome (foldl on_call createLosslessParser (fst cs)) = Some (Inr v)"
    by (auto simp: parser_calls_def fail_parser_def orElse_def Let_def split: option.split)
  then show ?thesis by (simp add: calls_value createLosslessParser_def delivers_None)
qed

lemma parser_calls_append: "parser_calls p (cs @ cs', e) = parser_calls (parser_calls p (cs, None)) (cs', e)"
  by (simp add: parser_calls_def)

lemma parser_calls_then: "parser_calls (parser_calls p (cs, None)) w = parser_calls p (cs @ fst w, snd w)"
  by (simp add: parser_calls_def)

text \<open>Every error, thrown or reported, and the end of the input settle the promise.\<close>

lemma calls_settle:
  assumes "snd cs \<noteq> None \<or> list_ex (\<lambda>c. \<not> is_value c) (fst cs)"
  shows "\<exists>x. lp_outcome (parser_calls p cs) = Some x"
proof -
  have *: "\<exists>x. lp_outcome (foldl on_call p ds) = Some x" if "list_ex (\<lambda>c. \<not> is_value c) ds" for ds
    using that
  proof (induction ds arbitrary: p)
    case (Cons c ds)
    show ?case
    proof (cases "is_value c")
      case False
      then have "\<exists>x. lp_outcome (on_call p c) = Some x"
        by (auto simp: on_call_def fail_parser_def tokenizer_onEnd_def is_value_def Let_def split: parser_call.splits)
      then show ?thesis by (auto intro: foldl_keeps)
    qed (use Cons in simp)
  qed simp
  show ?thesis
    using assms * by (cases "snd cs") (auto simp: parser_calls_def fail_parser_def Let_def)
qed

section \<open>A stream is read as the whole document\<close>

text \<open>Feeding the tokenizer chunk by chunk; a throw stops it.\<close>

definition then_write :: "('s, 'v) tokenizer \<Rightarrow> 's \<times> 'v parser_call list \<times> js_error option \<Rightarrow> string
    \<Rightarrow> 's \<times> 'v parser_call list \<times> js_error option" where
  "then_write tk w b = (case w of (s, cs, Some e) \<Rightarrow> (s, cs, Some e)
     | (s, cs, None) \<Rightarrow> (case tk_write tk s b of (s', cs', e) \<Rightarrow> (s', cs @ cs', e)))"

definition feed :: "('s, 'v) tokenizer \<Rightarrow> string list \<Rightarrow> 's \<times> 'v parser_call list \<times> js_error option" where
  "feed tk chunks = foldl (then_write tk) (tk_start tk, [], None) chunks"

definition fails :: "'v parser_call list \<times> js_error option \<Rightarrow> bool" where
  "fails w \<longleftrightarrow> snd w \<noteq> None \<or> list_ex is_error (fst w)"

text \<open>The end of the input is reported once, at last, or there is an error instead.\<close>

definition end_reported :: "'v parser_call list \<times> js_error option \<Rightarrow> bool" where
  "end_reported w \<longleftrightarrow>
     (\<exists>cs e. w = (cs @ [InputEnded e], None) \<and> list_all (\<lambda>c. \<not> is_end c) cs)
     \<or> list_all (\<lambda>c. \<not> is_end c) (fst w) \<and> fails w"

text \<open>
  What is documented of the tokenizer. It does not matter where a document without errors is
  cut into chunks: the same values are reported, and the same at the end. A document has an
  error either for all cuts or for none; which error it is, and how many are reported, may
  depend on the cut, because positions are counted in the chunk and a tokenizer that has
  failed reports again. The input ends only when its end is signalled.
\<close>

definition documented_tokenizer :: "('s, 'v) tokenizer \<Rightarrow> bool" where
  "documented_tokenizer tk \<longleftrightarrow> (\<forall>chunks s w s' u.
     feed tk chunks = (s, w) \<longrightarrow> tk_write tk (tk_start tk) (concat chunks) = (s', u) \<longrightarrow>
       list_all (\<lambda>c. \<not> is_end c) (fst w) \<and> \<not> tk_isEnded tk s \<and> end_reported (tk_end tk s)
     \<and> (fails w \<longleftrightarrow> fails u)
     \<and> (\<not> fails w \<longrightarrow> fst w = fst u \<and> (fails (tk_end tk s) \<longleftrightarrow> fails (tk_end tk s'))
         \<and> (\<not> fails (tk_end tk s) \<longrightarrow> tk_end tk s = tk_end tk s')))"

lemma feed_Nil: "feed tk [] = (tk_start tk, [], None)"
  by (simp add: feed_def)

lemma feed_one: "feed tk [a] = tk_write tk (tk_start tk) a"
  by (simp add: feed_def then_write_def split: prod.split)

lemma feed_snoc: "feed tk chunks = (s, cs, None) \<Longrightarrow> tk_write tk s b = (s', cs', e) \<Longrightarrow>
    feed tk (chunks @ [b]) = (s', cs @ cs', e)"
  by (simp add: feed_def then_write_def)

lemma then_write_fails: "fails (snd w) \<Longrightarrow> fails (snd (then_write tk w b))"
  by (auto simp: then_write_def fails_def split: prod.split option.split)

lemma feed_fails: "fails (snd (feed tk as)) \<Longrightarrow> fails (snd (feed tk (as @ bs)))"
proof (induction bs rule: rev_induct)
  case (snoc b bs)
  then show ?case using then_write_fails [of "feed tk (as @ bs)" tk b] by (simp add: feed_def)
qed simp

lemma documented_tokenizerD:
  assumes "documented_tokenizer tk" and "feed tk chunks = (s, w)"
    and "tk_write tk (tk_start tk) (concat chunks) = (s', u)"
  shows "list_all (\<lambda>c. \<not> is_end c) (fst w)" "end_parser tk s p = parser_calls p (tk_end tk s)"
    "end_reported (tk_end tk s)" "fails w \<longleftrightarrow> fails u"
    "\<not> fails w \<Longrightarrow> fst w = fst u"
    "\<not> fails w \<Longrightarrow> fails (tk_end tk s) \<longleftrightarrow> fails (tk_end tk s')"
    "\<not> fails w \<Longrightarrow> \<not> fails (tk_end tk s) \<Longrightarrow> tk_end tk s = tk_end tk s'"
proof -
  from assms(1) [unfolded documented_tokenizer_def, rule_format, OF assms(2,3)]
  show "list_all (\<lambda>c. \<not> is_end c) (fst w)" "end_parser tk s p = parser_calls p (tk_end tk s)"
    "end_reported (tk_end tk s)" "fails w \<longleftrightarrow> fails u"
    "\<not> fails w \<Longrightarrow> fst w = fst u"
    "\<not> fails w \<Longrightarrow> fails (tk_end tk s) \<longleftrightarrow> fails (tk_end tk s')"
    "\<not> fails w \<Longrightarrow> \<not> fails (tk_end tk s) \<Longrightarrow> tk_end tk s = tk_end tk s'"
    by (simp_all add: end_parser_def)
qed

lemma end_reported_settles: "end_reported w \<Longrightarrow> snd w \<noteq> None \<or> list_ex (\<lambda>c. \<not> is_value c) (fst w)"
  by (auto simp: end_reported_def fails_def is_value_def is_error_def list_ex_iff split: parser_call.splits)

text \<open>No value without the report of the end, none after an error.\<close>

lemma accepted_end: "accepted cs v \<Longrightarrow> \<not> list_all (\<lambda>c. \<not> is_end c) cs"
  by (auto simp: accepted_def is_end_def)

lemma value_no_error: "is_value c \<Longrightarrow> \<not> is_error c \<and> \<not> is_end c"
  by (simp add: is_value_def is_error_def is_end_def split: parser_call.splits)

lemma accepted_no_error:
  assumes "accepted (cs @ ds) v" and "list_all (\<lambda>c. \<not> is_end c) cs" and "end_reported (ds, e)"
  shows "\<not> list_ex is_error cs \<and> \<not> fails (ds, e)"
proof -
  obtain pre post where w: "cs @ ds = pre @ InputEnded None # post" "list_all is_value pre"
    using assms(1) by (auto simp: accepted_def)
  have pre: "list_all (\<lambda>c. \<not> is_end c) pre" "\<not> list_ex is_error pre"
    using w(2) value_no_error by (auto simp: list_all_iff list_ex_iff)
  show ?thesis
  proof (cases "list_all (\<lambda>c. \<not> is_end c) ds")
    case True
    then have "list_all (\<lambda>c. \<not> is_end c) (cs @ ds)" using assms(2) by simp
    then show ?thesis unfolding w(1) by (simp add: is_end_def)
  next
    case False
    then obtain ds' x where ds: "ds = ds' @ [InputEnded x]" "e = None" "list_all (\<lambda>c. \<not> is_end c) ds'"
      using assms(3) by (auto simp: end_reported_def)
    have no: "list_all (\<lambda>c. \<not> is_end c) (cs @ ds')" using assms(2) ds(3) by simp
    have eq: "(cs @ ds') @ InputEnded x # [] = pre @ InputEnded None # post" using w(1) ds(1) by simp
    have "\<not> is_end c" if "c \<in> set (cs @ ds')" for c using no that by (simp add: list_all_iff)
    then have "takeWhile (\<lambda>c. \<not> is_end c) ((cs @ ds') @ InputEnded x # []) = cs @ ds'"
      by (subst takeWhile_append2) (auto simp: is_end_def)
    moreover have "takeWhile (\<lambda>c. \<not> is_end c) (pre @ InputEnded None # post) = pre"
      using pre(1) by (subst takeWhile_append2) (auto simp: list_all_iff is_end_def)
    ultimately have "cs @ ds' = pre" using eq by simp
    with eq pre(2) show ?thesis by (auto simp: ds fails_def is_error_def)
  qed
qed

text \<open>The value of a whole document and of a stream that is read to its end.\<close>

lemma document_value:
  assumes tk: "documented_tokenizer tk"
  shows "parseLosslessJson tk data = Some (Inr v) \<longleftrightarrow>
    (\<exists>s cs. tk_write tk (tk_start tk) data = (s, cs, None) \<and> accepted (cs @ fst (tk_end tk s)) v)"
proof -
  obtain s cs e where w: "tk_write tk (tk_start tk) data = (s, cs, e)"
    by (cases "tk_write tk (tk_start tk) data") auto
  have f: "feed tk [data] = (s, cs, e)" "tk_write tk (tk_start tk) (concat [data]) = (s, cs, e)"
    using w by (simp_all add: feed_one)
  note D = documented_tokenizerD [OF tk f]
  show ?thesis
  proof (cases e)
    case None
    then show ?thesis
      by (simp add: parseLosslessJson_def w Let_def D(2) parser_calls_then parser_value)
  next
    case (Some err)
    then show ?thesis using D(1) accepted_end [of cs v]
      by (auto simp: parseLosslessJson_def w parser_value)
  qed
qed

lemma document_settles:
  assumes tk: "documented_tokenizer tk"
  shows "\<exists>x. parseLosslessJson tk data = Some x"
proof -
  obtain s cs e where w: "tk_write tk (tk_start tk) data = (s, cs, e)"
    by (cases "tk_write tk (tk_start tk) data") auto
  have f: "feed tk [data] = (s, cs, e)" "tk_write tk (tk_start tk) (concat [data]) = (s, cs, e)"
    using w by (simp_all add: feed_one)
  note D = documented_tokenizerD [OF tk f]
  show ?thesis
    using calls_settle [OF end_reported_settles [OF D(3)]] calls_settle [of "(cs, e)"]
    by (cases e) (simp_all add: parseLosslessJson_def w Let_def D(2))
qed

text \<open>The state of the reader, from the chunks read so far.\<close>

lemma reads_state:
  assumes "reads tk chunks r"
  shows "\<exists>s w. feed tk chunks = (s, w)
    \<and> (\<not> rd_ended r \<longrightarrow> rd_tokenizer r = s \<and> rd_parser r = parser_calls createLosslessParser w
        \<and> (snd w \<noteq> None \<longrightarrow> rd_destroyed r))
    \<and> (rd_ended r \<longrightarrow> snd w = None \<and> rd_parser r = end_parser tk s (parser_calls createLosslessParser w))"
  using assms
proof (induction rule: reads.induct)
  case reads_start
  then show ?case by (simp add: rd_start_def feed_Nil parser_calls_def)
next
  case (reads_data chunks r chunk)
  then obtain cs where w: "feed tk chunks = (rd_tokenizer r, cs, None)"
    and p: "rd_parser r = parser_calls createLosslessParser (cs, None)" by auto
  obtain s' cs' e where b: "tk_write tk (rd_tokenizer r) chunk = (s', cs', e)" by (cases "tk_write tk (rd_tokenizer r) chunk") auto
  show ?case using reads_data.hyps(2) feed_snoc [OF w b]
    by (simp add: on_data_def b p parser_calls_append)
next
  case (reads_end chunks r)
  then show ?case by (auto simp: on_end_def)
next
  case (reads_stop chunks r e)
  then show ?case by auto
qed


text \<open>Before the end no value is delivered.\<close>

lemma reads_no_value:
  assumes tk: "documented_tokenizer tk" and "reads tk chunks r" and "\<not> rd_ended r"
  shows "lp_outcome (rd_parser r) \<noteq> Some (Inr v)"
proof -
  obtain s w where f: "feed tk chunks = (s, w)" and p: "rd_parser r = parser_calls createLosslessParser w"
    using reads_state [OF assms(2)] assms(3) by auto
  obtain s' u where u: "tk_write tk (tk_start tk) (concat chunks) = (s', u)" by (cases "tk_write tk (tk_start tk) (concat chunks)")
  have "list_all (\<lambda>c. \<not> is_end c) (fst w)" by (rule documented_tokenizerD(1) [OF tk f u])
  then show ?thesis using accepted_end [of "fst w" v] by (auto simp: p parser_value)
qed

text \<open>At the end the reader and the parser of the whole text deliver the same value, if any.\<close>

lemma reads_end_value:
  assumes tk: "documented_tokenizer tk" and "reads tk chunks r" and ended: "rd_ended r"
  shows "lp_outcome (rd_parser r) = Some (Inr v) \<longleftrightarrow> parseLosslessJson tk (concat chunks) = Some (Inr v)"
    and "lp_outcome (rd_parser r) \<noteq> None"
proof -
  obtain s cs where f: "feed tk chunks = (s, cs, None)"
    and p: "rd_parser r = end_parser tk s (parser_calls createLosslessParser (cs, None))"
    using reads_state [OF assms(2)] ended by auto
  obtain s' ds e where u: "tk_write tk (tk_start tk) (concat chunks) = (s', ds, e)"
    by (cases "tk_write tk (tk_start tk) (concat chunks)") auto
  note D = documented_tokenizerD [OF tk f u]
  have u': "feed tk [concat chunks] = (s', ds, e)" "tk_write tk (tk_start tk) (concat [concat chunks]) = (s', ds, e)"
    using u by (simp_all add: feed_one)
  note U = documented_tokenizerD [OF tk u']
  have delivered: "lp_outcome (rd_parser r) = Some (Inr v) \<longleftrightarrow> accepted (cs @ fst (tk_end tk s)) v"
    by (simp add: p D(2) parser_calls_then parser_value)
  have ok: "accepted (cs @ fst (tk_end tk s)) v \<Longrightarrow> \<not> fails (cs, None :: js_error option) \<and> \<not> fails (tk_end tk s)"
    using accepted_no_error [of cs "fst (tk_end tk s)" v "snd (tk_end tk s)"] D(1,3) by (simp add: fails_def)
  have ok': "accepted (ds @ fst (tk_end tk s')) v \<Longrightarrow> \<not> list_ex is_error ds \<and> \<not> fails (tk_end tk s')"
    using accepted_no_error [of ds "fst (tk_end tk s')" v "snd (tk_end tk s')"] U(1,3) by simp
  have same: "cs = ds \<and> e = None \<and> (fails (tk_end tk s) \<longleftrightarrow> fails (tk_end tk s'))
      \<and> (\<not> fails (tk_end tk s) \<longrightarrow> tk_end tk s = tk_end tk s')" if "\<not> fails (cs, None :: js_error option)"
    using D(4-7) that by (simp add: fails_def)
  show "lp_outcome (rd_parser r) = Some (Inr v) \<longleftrightarrow> parseLosslessJson tk (concat chunks) = Some (Inr v)"
    unfolding delivered document_value [OF tk] u
  proof
    assume a: "accepted (cs @ fst (tk_end tk s)) v"
    then have "cs = ds" "e = None" "tk_end tk s = tk_end tk s'" using ok [OF a] same by blast+
    then show "\<exists>s'' cs'. (s', ds, e) = (s'', cs', None) \<and> accepted (cs' @ fst (tk_end tk s'')) v"
      using a by simp
  next
    assume "\<exists>s'' cs'. (s', ds, e) = (s'', cs', None) \<and> accepted (cs' @ fst (tk_end tk s'')) v"
    then have e: "e = None" and a: "accepted (ds @ fst (tk_end tk s')) v" by simp_all
    have "\<not> fails (ds, e)" using ok' [OF a] by (simp add: fails_def e)
    then have n: "\<not> fails (cs, None :: js_error option)" using D(4) by blast
    then have "cs = ds" "tk_end tk s = tk_end tk s'" using same ok' [OF a] by blast+
    then show "accepted (cs @ fst (tk_end tk s)) v" using a by simp
  qed
  show "lp_outcome (rd_parser r) \<noteq> None"
    using calls_settle [OF end_reported_settles [OF D(3)]] by (auto simp: p D(2))
qed

text \<open>An error in what has been read is an error of every text that goes on from there.\<close>

lemma reads_fails:
  assumes tk: "documented_tokenizer tk" and "feed tk chunks = (s, w)" and "fails w"
    and "take (length chunks) cs = chunks"
  shows "parseLosslessJson tk (concat cs) \<noteq> Some (Inr v)"
proof
  assume v: "parseLosslessJson tk (concat cs) = Some (Inr v)"
  obtain s' w' where f: "feed tk cs = (s', w')" by (cases "feed tk cs")
  have "cs = chunks @ drop (length chunks) cs" using assms(4) by (metis append_take_drop_id)
  then have "fails w'" using feed_fails [of tk chunks "drop (length chunks) cs"] assms(2,3) f by simp
  moreover obtain s'' ds where u: "tk_write tk (tk_start tk) (concat cs) = (s'', ds, None)"
    and a: "accepted (ds @ fst (tk_end tk s'')) v"
    using v document_value [OF tk] by auto
  moreover have "feed tk [concat cs] = (s'', ds, None)" "tk_write tk (tk_start tk) (concat [concat cs]) = (s'', ds, None)"
    using u by (simp_all add: feed_one)
  note U = documented_tokenizerD [OF tk this]
  ultimately show False
    using documented_tokenizerD(4) [OF tk f u] U(1,3)
      accepted_no_error [of ds "fst (tk_end tk s'')" v "snd (tk_end tk s'')"] by (simp add: fails_def)
qed

lemma reads_settled:
  assumes tk: "documented_tokenizer tk" and r: "reads tk chunks r" and x: "lp_outcome (rd_parser r) = Some x"
    and cs: "take (length chunks) cs = chunks" "rd_ended r \<longrightarrow> chunks = cs"
  shows "case x of Inr v \<Rightarrow> parseLosslessJson tk (concat cs) = Some (Inr v)
    | Inl _ \<Rightarrow> \<exists>e. parseLosslessJson tk (concat cs) = Some (Inl e)"
proof -
  obtain y where y: "parseLosslessJson tk (concat cs) = Some y" using document_settles [OF tk] by blast
  show ?thesis
  proof (cases "rd_ended r")
    case True
    then show ?thesis using reads_end_value(1) [OF tk r True] x y cs(2) by (cases x; cases y) auto
  next
    case False
    obtain s w where f: "feed tk chunks = (s, w)" and p: "rd_parser r = parser_calls createLosslessParser w"
      using reads_state [OF r] False by auto
    obtain e where e: "x = Inl e" using reads_no_value [OF tk r False] x by (cases x) auto
    have "fails w"
    proof (rule ccontr)
      assume n: "\<not> fails w"
      obtain s' u where u: "tk_write tk (tk_start tk) (concat chunks) = (s', u)" by (cases "tk_write tk (tk_start tk) (concat chunks)")
      have "list_all (\<lambda>c. \<not> is_end c) (fst w)" by (rule documented_tokenizerD(1) [OF tk f u])
      then have "list_all is_value (fst w)" using n
        by (auto simp: fails_def list_all_iff list_ex_iff is_value_def is_error_def is_end_def split: parser_call.splits)
      then have "lp_outcome (foldl on_call p (fst w)) = lp_outcome p" for p
        by (induction "fst w" arbitrary: p w) (auto simp: on_call_def is_value_def split: parser_call.splits)
      then show False using n x by (simp add: p parser_calls_def fails_def createLosslessParser_def)
    qed
    then show ?thesis using reads_fails [OF tk f _ cs(1)] y e by (cases y) auto
  qed
qed

text \<open>A document that has a value is read to its end.\<close>

lemma reads_all:
  assumes tk: "documented_tokenizer tk" and v: "parseLosslessJson tk (concat cs) = Some (Inr v)"
  shows "\<exists>r. reads tk cs r \<and> \<not> rd_ended r \<and> \<not> rd_destroyed r"
proof -
  have "\<exists>r. reads tk as r \<and> \<not> rd_ended r \<and> \<not> rd_destroyed r" if "cs = as @ bs" for as bs
    using that
  proof (induction as arbitrary: bs rule: rev_induct)
    case Nil
    then show ?case by (intro exI [of _ "rd_start tk"]) (simp add: reads_start, simp add: rd_start_def)
  next
    case (snoc a as)
    then obtain r where r: "reads tk as r" "\<not> rd_ended r" "\<not> rd_destroyed r" by auto
    let ?r = "on_data tk a r"
    have next': "reads tk (as @ [a]) ?r" by (rule reads_data [OF r])
    have e: "\<not> rd_ended ?r" using r(2) by (simp add: on_data_def split: prod.split)
    obtain ds where f: "feed tk as = (rd_tokenizer r, ds, None)" using reads_state [OF r(1)] r(2,3) by auto
    obtain s' es e' where b: "tk_write tk (rd_tokenizer r) a = (s', es, e')" by (cases "tk_write tk (rd_tokenizer r) a") auto
    have "take (length (as @ [a])) cs = as @ [a]" using snoc.prems by simp
    then have "\<not> fails (ds @ es, e')" using reads_fails [OF tk feed_snoc [OF f b]] v by blast
    then have "\<not> rd_destroyed ?r" using r(3) b by (simp add: on_data_def fails_def)
    then show ?case using next' e by blast
  qed
  from this [of cs "[]"] show ?thesis by simp
qed

lemma streamed_value_iff:
  assumes tk: "documented_tokenizer tk"
  shows "readLargeJsonFileLossless tk (Inr cs) (Inr v) \<longleftrightarrow> parseLosslessJson tk (concat cs) = Some (Inr v)"
proof
  assume "readLargeJsonFileLossless tk (Inr cs) (Inr v)"
  then show "parseLosslessJson tk (concat cs) = Some (Inr v)"
  proof cases
    case (settled chunks r)
    then show ?thesis using reads_settled [OF tk] by fastforce
  next
    case (broken chunks r e)
    then show ?thesis using reads_no_value [OF tk]
      by (auto simp: on_error_def fail_parser_def orElse_def split: option.splits)
  qed
next
  assume v: "parseLosslessJson tk (concat cs) = Some (Inr v)"
  then obtain r where r: "reads tk cs r" "\<not> rd_ended r" "\<not> rd_destroyed r" using reads_all [OF tk] by blast
  have e: "reads tk cs (on_end tk r)" by (rule reads_end [OF r])
  have "lp_outcome (rd_parser (on_end tk r)) = Some (Inr v)"
    using reads_end_value(1) [OF tk e] v by (simp add: on_end_def)
  then show "readLargeJsonFileLossless tk (Inr cs) (Inr v)"
    by (intro readLargeJsonFileLossless.settled [OF e]) simp_all
qed


section \<open>The property\<close>

text \<open>
  C26: a file is read as its text would be parsed, wherever the stream cuts it into chunks and
  whenever the stream is stopped after an error. Parsing a text always settles, and to a value
  exactly when the tokenizer throws nothing and reports values only and then the end, without
  an error; the value is the last one. So trailing content or an error behind the first value
  is never accepted. Reading delivers a value exactly when parsing the whole text delivers that
  value, and not before the end of the stream; at its end it has settled. A reader that has
  settled without an error of the stream has settled as the whole text does: to the same value,
  or both to an error.
\<close>

theorem stream_read_as_document:
  assumes "documented_tokenizer tk"
  shows "(parseLosslessJson tk (concat cs) = Some (Inr v) \<longleftrightarrow>
        (\<exists>s calls. tk_write tk (tk_start tk) (concat cs) = (s, calls, None)
           \<and> (\<exists>pre post. calls @ fst (tk_end tk s) = pre @ InputEnded None # post
                \<and> list_all is_value pre \<and> pre \<noteq> [] \<and> last pre = GotValue v)))
    \<and> (\<exists>x. parseLosslessJson tk (concat cs) = Some x)
    \<and> (readLargeJsonFileLossless tk (Inr cs) (Inr v) \<longleftrightarrow> parseLosslessJson tk (concat cs) = Some (Inr v))
    \<and> (\<forall>chunks r. reads tk chunks r \<longrightarrow>
        (if rd_ended r then lp_outcome (rd_parser r) \<noteq> None else lp_outcome (rd_parser r) \<noteq> Some (Inr v)))
    \<and> (\<forall>chunks r x. reads tk chunks r \<longrightarrow> take (length chunks) cs = chunks \<longrightarrow> (rd_ended r \<longrightarrow> chunks = cs)
        \<longrightarrow> lp_outcome (rd_parser r) = Some x
        \<longrightarrow> (case x of Inr w \<Rightarrow> parseLosslessJson tk (concat cs) = Some (Inr w)
            | Inl _ \<Rightarrow> \<exists>e. parseLosslessJson tk (concat cs) = Some (Inl e)))"
proof (intro conjI)
  show "parseLosslessJson tk (concat cs) = Some (Inr v) \<longleftrightarrow>
      (\<exists>s calls. tk_write tk (tk_start tk) (concat cs) = (s, calls, None)
         \<and> (\<exists>pre post. calls @ fst (tk_end tk s) = pre @ InputEnded None # post
              \<and> list_all is_value pre \<and> pre \<noteq> [] \<and> last pre = GotValue v))"
    using document_value [OF assms] unfolding accepted_def .
  show "\<forall>chunks r. reads tk chunks r \<longrightarrow>
      (if rd_ended r then lp_outcome (rd_parser r) \<noteq> None else lp_outcome (rd_parser r) \<noteq> Some (Inr v))"
    using reads_end_value(2) [OF assms] reads_no_value [OF assms] by simp
qed (use document_settles [OF assms] streamed_value_iff [OF assms] reads_settled [OF assms] in blast)+

text \<open>A tokenizer for documents that are one number: it reports the number at the blank behind
  it, takes more blanks and fails for anything else, once for every character.\<close>

datatype number_state = Reading string | Closed | Broken

fun number_step :: "number_state \<Rightarrow> char \<Rightarrow> number_state \<times> json parser_call list" where
  "number_step (Reading s) c = (if c \<noteq> CHR '' '' then (Reading (s @ [c]), [])
     else if s = [] then (Reading [], [])
     else case parseNumber s of Inl e \<Rightarrow> (Broken, [GotError e]) | Inr v \<Rightarrow> (Closed, [GotValue v]))"
| "number_step Closed c = (if c = CHR '' '' then (Closed, []) else (Broken, [GotError (Js_Error EError [c])]))"
| "number_step Broken c = (Broken, [GotError (Js_Error EError [c])])"

fun number_calls :: "number_state \<Rightarrow> string \<Rightarrow> number_state \<times> json parser_call list" where
  "number_calls s [] = (s, [])"
| "number_calls s (c # cs) = (case number_step s c of (s', ds) \<Rightarrow>
     case number_calls s' cs of (s'', es) \<Rightarrow> (s'', ds @ es))"

fun number_end :: "number_state \<Rightarrow> json parser_call list" where
  "number_end (Reading s) = (if s = [] then [] else case parseNumber s of
       Inl e \<Rightarrow> [GotError e] | Inr v \<Rightarrow> [GotValue v]) @ [InputEnded None]"
| "number_end Closed = [InputEnded None]"
| "number_end Broken = [InputEnded None]"

definition number_tokenizer :: "(number_state, json) tokenizer" where
  "number_tokenizer = \<lparr> tk_start = Reading [],
     tk_write = (\<lambda>s c. case number_calls s c of (s', cs) \<Rightarrow> (s', cs, None)),
     tk_isEnded = (\<lambda>s. False), tk_end = (\<lambda>s. (number_end s, None)) \<rparr>"

lemma number_calls_append: "number_calls s (a @ b) = (case number_calls s a of (s', cs) \<Rightarrow>
    case number_calls s' b of (s'', ds) \<Rightarrow> (s'', cs @ ds))"
  by (induction a arbitrary: s) (auto split: prod.splits)

lemma number_feed: "feed number_tokenizer chunks = (case number_calls (Reading []) (concat chunks) of (s, cs) \<Rightarrow> (s, cs, None))"
proof (induction chunks rule: rev_induct)
  case Nil
  then show ?case by (simp add: feed_Nil number_tokenizer_def)
next
  case (snoc c chunks)
  obtain s cs where w: "number_calls (Reading []) (concat chunks) = (s, cs)" by fastforce
  obtain s' ds where b: "number_calls s c = (s', ds)" by fastforce
  have "feed number_tokenizer chunks = (s, cs, None)" using snoc.IH by (simp add: w)
  moreover have "tk_write number_tokenizer s c = (s', ds, None)" by (simp add: number_tokenizer_def b)
  ultimately have "feed number_tokenizer (chunks @ [c]) = (s', cs @ ds, None)" by (rule feed_snoc)
  then show ?case by (simp add: number_calls_append w b)
qed

lemma number_no_end: "list_all (\<lambda>c. \<not> is_end c) (snd (number_calls s cs))"
proof (induction cs arbitrary: s)
  case (Cons c cs)
  have "list_all (\<lambda>c. \<not> is_end c) (snd (number_step s c))"
    by (cases s) (auto simp: is_end_def split: sum.split)
  then show ?case using Cons by (auto split: prod.splits) (metis snd_conv)
qed simp

lemma number_end_reported: "end_reported (number_end s, None)"
  by (cases s) (auto simp: end_reported_def is_end_def split: sum.split)

lemma number_tokenizer_documented: "documented_tokenizer number_tokenizer"
  unfolding documented_tokenizer_def number_feed
  by (auto simp: number_tokenizer_def number_end_reported split: prod.splits)
    (metis number_no_end snd_conv)

text \<open>A number beyond the doubles, cut inside its digits; a second number is not accepted, and
  no value is delivered although the first one has been reported.\<close>

lemma number_document: "parseLosslessJson number_tokenizer ''18446744073709551615 '' = Some (Inr (JBig 18446744073709551615))"
  using demo_token by (simp add: parseLosslessJson_def number_tokenizer_def end_parser_def parser_calls_def on_call_def
      createLosslessParser_def tokenizer_onEnd_def settle_def)

lemma two_numbers: "tk_write number_tokenizer (tk_start number_tokenizer) ''18446744073709551615 2''
    = (Broken, [GotValue (JBig 18446744073709551615), GotError (Js_Error EError ''2'')], None)"
  using demo_token by (simp add: number_tokenizer_def)

theorem stream_read_as_document_witness:
  "readLargeJsonFileLossless number_tokenizer (Inr [''18446744'', ''07370955'', ''1615 '']) (Inr (JBig 18446744073709551615))
   \<and> \<not> readLargeJsonFileLossless number_tokenizer (Inr [''18446744'', ''07370955'', ''1615 '', ''2''])
         (Inr (JBig 18446744073709551615))"
proof
  note doc = stream_read_as_document [OF number_tokenizer_documented]
  show "readLargeJsonFileLossless number_tokenizer (Inr [''18446744'', ''07370955'', ''1615 '']) (Inr (JBig 18446744073709551615))"
    using doc [of "[''18446744'', ''07370955'', ''1615 '']" "JBig 18446744073709551615"] number_document by simp
  have broken: "\<not> (\<exists>pre post. [GotValue v, GotError e] @ fst (tk_end number_tokenizer Broken)
      = pre @ InputEnded None # post \<and> list_all is_value pre \<and> pre \<noteq> [] \<and> last pre = GotValue w)" for v w e
    by (auto simp: number_tokenizer_def Cons_eq_append_conv is_value_def)
  have "parseLosslessJson number_tokenizer (concat [''18446744'', ''07370955'', ''1615 '', ''2''])
      \<noteq> Some (Inr (JBig 18446744073709551615))"
    using doc [of "[''18446744'', ''07370955'', ''1615 '', ''2'']" "JBig 18446744073709551615", THEN conjunct1]
      two_numbers broken by simp
  then show "\<not> readLargeJsonFileLossless number_tokenizer (Inr [''18446744'', ''07370955'', ''1615 '', ''2''])
      (Inr (JBig 18446744073709551615))"
    using doc [of "[''18446744'', ''07370955'', ''1615 '', ''2'']" "JBig 18446744073709551615"] by blast
qed

end
