(* ===== verification/Cli_Context.thy ===== *)
theory Cli_Context
  imports Cli_Main Cli_Errors
begin

text \<open>
  Setting up the context of a command: \<open>packages/validator-bonds-cli-core/src/context.ts\<close>.

  \<open>connection_lib\<close> are the parsers of web3js-1x and the constructor of a connection; each may
  throw. \<open>'c\<close> is a connection and \<open>'w\<close> a wallet; the provider of Anchor is its connection, its
  wallet and its options.
\<close>

record 'c connection_lib =
  ln_parseCommitment :: "string \<Rightarrow> string res"
  ln_parseClusterUrl :: "string \<Rightarrow> string res"
  ln_parseConfirmationFinality :: "string \<Rightarrow> string res"
  ln_Connection :: "string \<Rightarrow> string \<Rightarrow> 'c res"

record ('c, 'w) anchor_provider =
  ap_connection :: 'c
  ap_wallet :: 'w
  ap_skipPreflight :: bool

record 'w context_args =
  xa_cluster :: string
  xa_wallet :: 'w
  xa_simulate :: bool
  xa_printOnly :: bool
  xa_skipPreflight :: bool
  xa_commitment :: string
  xa_confirmationFinality :: string
  xa_computeUnitPrice :: number
  xa_verbose :: bool
  xa_command :: string
  xa_notificationsApiUrl :: string
  xa_notificationType :: string
  xa_bondsApiUrl :: string
  xa_bondsApiEnabled :: bool

record ('c, 'w) bonds_cli_context =
  xc_commandName :: string
  xc_programId :: pubkey
  xc_provider :: "('c, 'w) anchor_provider"
  xc_confirmWaitTime :: nat
  xc_wallet :: 'w
  xc_skipPreflight :: bool
  xc_simulate :: bool
  xc_printOnly :: bool
  xc_computeUnitPrice :: number
  xc_confirmationFinality :: string
  xc_verbose :: bool
  xc_notificationsApiUrl :: string
  xc_notificationType :: string
  xc_bondsApiUrl :: string
  xc_bondsApiEnabled :: bool

record context_error =
  xe_commandName :: string
  xe_valueName :: string
  xe_value :: string
  xe_msg :: string
  xe_cause :: js_error

text \<open>The constructor of the context: every field as given, the program is the deployed one.\<close>

definition ValidatorBondsCliContext :: "pubkey \<Rightarrow> 'w context_args \<Rightarrow> ('c, 'w) anchor_provider \<Rightarrow> string \<Rightarrow> nat
    \<Rightarrow> ('c, 'w) bonds_cli_context" where
  "ValidatorBondsCliContext programId a provider confirmationFinality confirmWaitTime =
     \<lparr> xc_commandName = xa_command a, xc_programId = programId, xc_provider = provider,
       xc_confirmWaitTime = confirmWaitTime, xc_wallet = xa_wallet a, xc_skipPreflight = xa_skipPreflight a,
       xc_simulate = xa_simulate a, xc_printOnly = xa_printOnly a, xc_computeUnitPrice = xa_computeUnitPrice a,
       xc_confirmationFinality = confirmationFinality, xc_verbose = xa_verbose a,
       xc_notificationsApiUrl = xa_notificationsApiUrl a, xc_notificationType = xa_notificationType a,
       xc_bondsApiUrl = xa_bondsApiUrl a, xc_bondsApiEnabled = xa_bondsApiEnabled a \<rparr>"

definition made_context :: "'c connection_lib \<Rightarrow> solana_lib \<Rightarrow> 'w context_args \<Rightarrow> ('c, 'w) bonds_cli_context res" where
  "made_context cn sl a =
     rbind (VALIDATOR_BONDS_PROGRAM_ID sl) (\<lambda>programId.
     rbind (ln_parseCommitment cn (xa_commitment a)) (\<lambda>parsedCommitment.
     rbind (ln_parseClusterUrl cn (xa_cluster a)) (\<lambda>clusterUrl.
     rbind (ln_Connection cn clusterUrl parsedCommitment) (\<lambda>connection.
     rbind (ln_parseConfirmationFinality cn (xa_confirmationFinality a)) (\<lambda>finality.
     Inr (ValidatorBondsCliContext programId a
       \<lparr> ap_connection = connection, ap_wallet = xa_wallet a, ap_skipPreflight = xa_skipPreflight a \<rparr>
       finality (confirm_wait_time clusterUrl)))))))"

definition setValidatorBondsCliContext :: "'c connection_lib \<Rightarrow> solana_lib \<Rightarrow> bool \<Rightarrow> 'w context_args
    \<Rightarrow> context_error + ('c, 'w) bonds_cli_context" where
  "setValidatorBondsCliContext cn sl RPC_URL_set a = (case made_context cn sl a of
       Inr c \<Rightarrow> Inr c
     | Inl e \<Rightarrow> Inl \<lparr> xe_commandName = xa_command a, xe_valueName = ''--url'', xe_value = xa_cluster a,
         xe_msg = buildRpcRemediationMsg \<lparr> tc_rpcEndpoint = None, tc_txArgs = None, tc_RPC_URL_set = RPC_URL_set \<rparr>
           (''Failed to connect Solana cluster at '' @ xa_cluster a @ ''.''), xe_cause = e \<rparr>)"

section \<open>Facts\<close>

text \<open>What a command reads from its context is what the program was called with; only the deployed
  program is ever used, and the wait depends on the endpoint alone.\<close>

lemma context_of_args:
  assumes "setValidatorBondsCliContext cn sl b a = Inr c"
  shows "xc_wallet c = xa_wallet a \<and> xc_simulate c = xa_simulate a \<and> xc_printOnly c = xa_printOnly a
    \<and> ap_wallet (xc_provider c) = xa_wallet a \<and> ap_skipPreflight (xc_provider c) = xa_skipPreflight a
    \<and> VALIDATOR_BONDS_PROGRAM_ID sl = Inr (xc_programId c)
    \<and> (\<exists>u. ln_parseClusterUrl cn (xa_cluster a) = Inr u \<and> xc_confirmWaitTime c = confirm_wait_time u)"
  using assms by (auto simp: setValidatorBondsCliContext_def made_context_def ValidatorBondsCliContext_def rbind_eq_Inr
      split: sum.splits)

text \<open>Whatever goes wrong is reported as the option \<open>--url\<close>, a wrong commitment as well.\<close>

lemma wrong_commitment_blames_url:
  assumes "ln_parseCommitment cn (xa_commitment a) = Inl e" and "VALIDATOR_BONDS_PROGRAM_ID sl = Inr k"
  shows "\<exists>err. setValidatorBondsCliContext cn sl b a = Inl err \<and> xe_valueName err = ''--url''
    \<and> xe_value err = xa_cluster a \<and> xe_cause err = e"
  using assms by (simp add: setValidatorBondsCliContext_def made_context_def)

end
