(* ===== verification/Spec2Isabelle.thy ===== *)
theory Spec2Isabelle
  imports Ev_Properties Sdk_Properties Sdk_Ix_Properties Chk_Properties Cli_Format Cli_Version
    Cli_Banner Cli_Errors Cli_Usage Cli_Resolve Cli_Main Cli_Show Cli_Notify Cli_Tip Cli_Executes Cli_Properties Scr_Properties
    Cod_Properties Scr_Product Chk_Lossless Cli_Context
begin

text \<open>
  Verification library of validator-bonds: the TypeScript of \<open>packages/\<close> and \<open>scripts/\<close> that
  decides what is emitted, stored, paid and withdrawn for the bonds of validators, and what its
  users and its clients are told.

  The parts and how they interact.

  \<^item> \<open>bonds-eventing\<close> is a batch job. A run reads the current validators (from the auction
    simulation, or from two API answers for institutional bonds), compares them with the
    state saved by the previous run, builds the events of the differences, posts them with
    retries, stores the events and saves the new state in one transaction. The only memory
    between runs is the database.
  \<^item> \<open>validator-bonds-sdk\<close> is the client of the on-chain program: it derives addresses,
    finds and decodes accounts, computes how much a bond is funded, hashes the nodes of the
    settlement merkle tree, reads the bitmap of claims, and builds the instructions, whose
    missing accounts it completes from the cluster.
  \<^item> \<open>validator-bonds-sanity-check\<close> reads the two files of an epoch (merkle trees and
    settlements), compares them with each other and with the files of past epochs, and fails
    when they disagree.
  \<^item> \<open>validator-bonds-cli-core\<close> with the programs \<open>validator-bonds-cli\<close> and
    \<open>validator-bonds-cli-institutional\<close>: a command finds the bond an address stands for, builds
    its transaction with the sdk, executes it, reports errors, and around it the program checks
    its version, records its usage and prints banners.
  \<^item> \<open>validator-bonds-codama\<close> is a second client of the program, generated for another library;
    \<open>idl/types\<close> of the sdk is the interface of the program both are made from.
  \<^item> \<open>scripts\<close>: reports and simulations of the fees of an epoch, and a generator of account data.

  The theories, bottom up.

  \<^item> \<open>Js_Prelude\<close>, \<open>Js_Strings\<close>, \<open>Js_Number\<close>, \<open>Js_Json\<close>: the language. An operation that
    may throw returns \<open>'a res\<close> (an error with its class and message, or a value), a double
    is an exact rational, an infinity or NaN with one rounding per operation, a string is its
    UTF-8 bytes, a \<open>Map\<close> keeps its insertion order, \<open>JSON.stringify\<close> is a function on values.
  \<^item> \<open>Ev_Types\<close>, \<open>Ev_Amounts\<close>, \<open>Ev_Deltas\<close>, \<open>Ev_Bidding\<close>, \<open>Ev_Institutional\<close>: the data and
    the two evaluations (\<open>evaluate-deltas.ts\<close>, \<open>evaluate-institutional-deltas.ts\<close>,
    \<open>run-institutional.ts\<close>). Each check of the loop body is a definition that returns its
    events; the messages are modelled to the character. \<open>Ev_Relay\<close>: the sanitizers and the
    calculation blob (\<open>calc-relay.ts\<close>).
  \<^item> \<open>Ev_Store\<close>: the tables (\<open>state.ts\<close>, \<open>persist-events.ts\<close>, the migrations). The locale
    \<open>state_store\<close> is what the pipeline needs of the state table; it is interpreted on the
    model of the queries.
  \<^item> \<open>Ev_Emit\<close>: \<open>config.ts\<close> and \<open>emit-events.ts\<close>: the retry loop and the pool of requests,
    as a step relation and as an executable run.
  \<^item> \<open>Ev_Pipeline\<close>: \<open>pipeline.ts\<close> and the two commands. The locale \<open>delta_evaluator\<close> is the
    contract of an evaluation; it is interpreted on both. \<open>Ev_Properties\<close>: the properties.
  \<^item> \<open>Sdk_Address\<close> (\<open>sdk.ts\<close>, \<open>utils.ts\<close>), \<open>Sdk_Claims\<close> (\<open>settlementClaims.ts\<close>),
    \<open>Sdk_Merkle\<close> (\<open>merkleTree.ts\<close>, \<open>cpiEvent.ts\<close>), \<open>Sdk_Stake\<close> (\<open>web3.js/\<close>),
    \<open>Sdk_Accounts\<close> and \<open>Sdk_Funding\<close> (\<open>api.ts\<close>, \<open>productBond.ts\<close>).
  \<^item> \<open>Sdk_Instructions\<close>, \<open>Sdk_Bond_Ix\<close>, \<open>Sdk_Settlement_Ix\<close>: the builders of
    \<open>instructions/\<close>; \<open>Sdk_Orchestrate\<close>: \<open>orchestrateWithdrawRequest.ts\<close>.
  \<^item> \<open>Sdk_Complete\<close>: completing the accounts does not depend on which ones are given.
    \<open>Sdk_Properties\<close>, \<open>Sdk_Ix_Properties\<close>: the properties, with the demonstration cluster
    of their instances.
  \<^item> \<open>Chk_Data\<close> (\<open>losslessJson.ts\<close>, \<open>dtoMerkleTree.ts\<close>, \<open>dtoSettlements.ts\<close>), \<open>Chk_Check\<close>
    (\<open>checkMerkleTree.ts\<close>), \<open>Chk_Properties\<close>: the sanity check. \<open>Chk_Lossless\<close>: the parser of
    \<open>losslessJson.ts\<close>, its promise and the reading of a stream as a step relation.
  \<^item> \<open>Cli_Resolve\<close> (\<open>utils.ts\<close>, \<open>commands/address.ts\<close>): the bond of an address. \<open>Cli_Format\<close>,
    \<open>Cli_Version\<close> (\<open>npmRegistry.ts\<close>), \<open>Cli_Banner\<close> (\<open>banner.ts\<close>, \<open>async.ts\<close>,
    \<open>notifications.ts\<close>), \<open>Cli_Errors\<close> (\<open>errorTranslators.ts\<close>), \<open>Cli_Usage\<close>
    (\<open>cliUsage.ts\<close>), \<open>Cli_Context\<close> (\<open>context.ts\<close>). The locale \<open>js_order\<close> of \<open>Cli_Version\<close>
    is what sorting needs of a comparison; it is interpreted on those of versions and of products.
  \<^item> \<open>Cli_Manage\<close>, \<open>Cli_Admin\<close>, \<open>Cli_Commands\<close>: the commands that send transactions
    (\<open>commands/manage/\<close>), as functions of the recorded state with errors as values; \<open>Cli_Executes\<close>:
    what they execute. \<open>Cli_Recording\<close>: the locale \<open>recording\<close> of facts that all commands keep,
    interpreted on the commands. \<open>Cli_Main\<close> (\<open>mainCommand.ts\<close>): a run of a program.
  \<^item> \<open>Cli_Show\<close> (\<open>show.ts\<close>), \<open>Cli_Notify\<close> (the subscription commands), \<open>Cli_Tip\<close>
    (\<open>bondTipBanner.ts\<close>), \<open>Cli_Properties\<close>: the rest of the commands and the properties.
  \<^item> \<open>Scr_Settlements\<close>, \<open>Scr_Fees\<close>, \<open>Scr_Simulate\<close>, \<open>Scr_Properties\<close>: \<open>settlement-utils.ts\<close>,
    \<open>fee-annotation.ts\<close>, \<open>simulate-fee.ts\<close>. \<open>Scr_Product\<close>: \<open>bond-product-data-generator\<close>.
  \<^item> \<open>Cod_Kit\<close>: the library the generated client uses, as a record, and the documented encodings.
    \<open>Cod_Client\<close>: the statements its functions are made of. \<open>Cod_Types\<close>, \<open>Cod_Accounts\<close>,
    \<open>Cod_Ix_A\<close> to \<open>Cod_Ix_C\<close>, \<open>Cod_Program\<close>, \<open>Cod_Errors\<close>: one definition per function of
    \<open>validator-bonds-codama/src\<close>. \<open>Cod_Tables\<close> lists them; \<open>Cod_Laws\<close>, \<open>Cod_Build\<close>,
    \<open>Cod_Pdas\<close>: what holds of any instruction of the table.
  \<^item> \<open>Idl_Data\<close>, \<open>Idl_Types\<close>, \<open>Idl_Ix_A\<close> to \<open>Idl_Ix_C\<close>, \<open>Idl_Program\<close>: the interface
    description as data. \<open>Cod_Agree\<close>, \<open>Cod_Agree_Errors\<close>, \<open>Cod_Declared\<close>: the client agrees
    with it, entry by entry. \<open>Cod_Properties\<close>: the properties of the client.

  What the properties show. An evaluation emits for each validator what changed and nothing
  twice, a removed validator is reported once, and a run after which nothing changed is
  followed by a quiet one; a run that throws leaves the tables alone, and failed events keep
  the state that makes the next run repeat them. The retry loop is bounded, the pool loses no
  event, never exceeds its concurrency and never stalls. Amounts are converted to the nearest
  lamport and round trips are exact in the stated range. Addresses of different accounts
  differ as long as the derivation has no collisions; the filters select exactly the accounts
  asked for; the bitmap reads the right bit; a hashed node determines its claim; the funding
  of a bond counts every stake account once. The builders name the accounts that belong
  together whatever subset the caller gives. The sanity check accepts exactly the pairs of
  files whose sums agree, in exact integers, and its comparison with the past does not depend
  on the order in which the files are given; its guardrail reports exactly the hops above the
  threshold; the amounts of both files are exact; a file is read to its end, as its whole text
  would be, however it is cut into chunks.

  A command acts on the same bond whichever of its addresses it is given, lowers a bid only when
  it is forced to, executes only transactions that its wallet signs, and reports an error as a
  success only after a look at the cluster for its own bond and accounts. A list shows each bond its
  own funding. A recorded run sends exactly two events, a run with recording off none. The check of
  the version stops the program exactly when a newer release exists, and collecting the causes of
  an error ends and lists each once. The generated client implements the interface description,
  its parser reads back whatever its builders build, and the addresses it derives are those of the
  sdk. The scripts count every fee once.

  Parameters, for code that is not under \<open>src/\<close>: \<open>solana_lib\<close> (base58 and the address
  derivation), \<open>hash_lib\<close> (SHA-256 and the text encodings), \<open>token_lib\<close> (the addresses of
  token libraries), the answers of the cluster (\<open>rpc\<close>, \<open>stake_chain\<close>, \<open>bonds_chain\<close>), the
  answers of the notification API, the clock, the random message ids, the reading of a BIGINT
  by the driver (\<open>int8_exact\<close> is what the code relies on), \<open>BN\<close>'s reading of a string,
  \<open>decimal.js\<close> (\<open>dec_lib\<close>, with \<open>decimal_ok\<close>), the statistics of the common library
  (\<open>stats_lib\<close>) and the validation of decorated classes; for the programs, the order of
  \<open>localeCompare\<close>, the answers of the registry and of the notification service, the parser of
  vote accounts, the execution of a transaction, the terminal, the heap of error objects and
  \<open>ds-sam-calc\<close> (\<open>tip_lib\<close>); \<open>kit\<close> for the generated client (\<open>documented\<close> says what its
  documentation promises, \<open>reference_kit\<close> shows it can hold); the tokenizer of JSON
  (\<open>documented_tokenizer\<close>); Anchor's coder (\<open>documented_coder\<close>); \<open>Math.pow\<close>, the YAML parser,
  the downloads and the program \<open>bid-distribution-cli\<close> for the scripts.

  Bounds. \<open>pool_run\<close> has the number of events as fuel: every step finishes one event.
  The retry loop has \<open>retryMaxAttempts + 1\<close> attempts, which \<open>parseConfig\<close> makes a natural
  number. Epochs and slots are mathematical numbers where the code holds a JavaScript number
  that cannot leave the exact range; lamports are integers where it holds a bigint or a BN. The sums of the sanity check are
  exact below \<open>10 ^ 20\<close>, its counts below \<open>2 ^ 53\<close>.

  Encodings of the generated client are those of values in range (\<open>typed\<close>); \<open>idl_named\<close> unfolds
  the types of the interface three deep, which is their nesting.

  Not modelled: HTTP and database connections, log lines, the declaration of options for the
  parser of the command line, types of TypeScript without a meaning at run time, the call of the
  renderer that generates the client (\<open>scripts/validator-bonds-client-generator\<close>), the
  evaluation of the plugin's skills by a language model (\<open>plugins/\<close>), the construction of the
  Anchor program (\<open>getProgram\<close>, \<open>Errors\<close> of \<open>sdk.ts\<close>), the test packages, and the Rust
  crates, which are another program.
\<close>

end
